(* ===== verification/Prelude.thy ===== *)
theory Prelude
  imports Complex_Main "HOL-Library.Char_ord" "HOL-Library.List_Lexorder"
begin

text \<open>
  Shared vocabulary of the development: the error values the services throw, the result type
  of a fallible operation, the row operations every table of the model uses (the SQL
  \<open>SELECT\<close>, \<open>UPDATE .. WHERE\<close> and \<open>INSERT\<close> of the source), the loop over a list that
  stops at the first exception, and the generic lemmas about them that the component proofs
  rest on.
\<close>

section \<open>Errors and results\<close>

text \<open>
  \<open>ErrorCode\<close> of src/src/common/constants/error-code.enum.ts, one datatype per group of the
  enumeration; every code keeps its name as an abbreviation. An \<open>ApiException\<close> carries a code; its Spanish message and the
  field details are not modelled. \<open>PlainError\<close> is a bare \<open>throw new Error(..)\<close>, which the
  HTTP layer reports as an internal error.
\<close>

datatype (plugins only: code) general_code =
    ValidationFailed' | MalformedRequest' | Unauthorized' | TokenExpired'
    | InsufficientPermissions' | OutOfScope' | ResourceNotFound' | InvalidState'
    | ConcurrentModification' | TooManyAttempts' | AccountTemporarilyLocked' | SessionRevoked'
    | ExternalServiceFailure' | InternalError'

datatype (plugins only: code) account_code =
    InvalidCredentials' | UserSuspended' | UserInactive' | MfaRequired' | MfaCodeInvalid'
    | MfaVerificationFailed' | MfaSessionRequired' | MfaRequiredByRole' | MfaNotEnabled'
    | MfaEnrollmentNotStarted' | MfaSelfResetForbidden' | PasswordPolicyViolation'
    | UsernameAlreadyExists' | PersonDocumentAlreadyExists' | PersonEmailAlreadyExists'
    | PasswordResetInvalid' | PasswordChangeRequired' | InvitationExpired'

datatype (plugins only: code) role_code =
    RoleNotFound' | RoleNotAssignable' | RoleMaxUsersReached' | RoleCodeAlreadyExists'
    | RoleHasAssignedUsers' | RoleHasChildRoles' | RoleSelfAssignmentForbidden'
    | RoleSystemImmutable' | RolePrivilegeEscalation' | PermissionNotHeld'
    | PermissionCodeAlreadyExists' | PermissionInUse' | PermissionSystemImmutable'
    | NavigationPathAlreadyExists' | SodViolation' | DelegationRequiresExpiry'
    | CannotDelegateRoleNotHeld' | DelegationExceedsSourceValidity' | HasActiveLoans'
    | PersonAffiliationRequired' | CostCenterOrgUnitMismatch' | MailNotConfigured'
    | MailSendFailed'

datatype (plugins only: code) place_code =
    HasDependentEntities' | CampusCodeAlreadyExists' | BuildingCodeAlreadyExists'
    | LocationCodeAlreadyExists' | OrgUnitCodeAlreadyExists' | OrgUnitHasChildren' | OrgUnitCycle'
    | CostCenterExternalCodeExists' | CostCenterHasActiveAssets'
    | CostCenterExternalCodeImmutable' | InvalidCsv' | CategoryCodeAlreadyExists'
    | CategoryHasChildren' | CategoryCycle' | AssetCategoryHasAssets' | DynamicFieldCodeExists'
    | DynamicFieldInUse' | DynamicFieldTypeImmutable' | InvalidFieldDefinition'

datatype (plugins only: code) asset_code =
    AssetInternalCodeAlreadyExists' | AssetBarcodeAlreadyExists' | AssetSerialRequired'
    | AssetPhotoRequired' | AssetAlreadyWrittenOff' | AssetCannotBeModified'
    | AssetMissingCustomField' | AssetInvalidDynamicValue' | AssetHasActiveLoan'
    | AssetUnderInventory' | AssetInvalidStatusTransition' | AssetImportExpired'
    | AssetImportTooLarge' | QrTokenInvalid' | QrVersionMismatch' | QrAssetNotFound'
    | QrAssetWrittenOff'

datatype (plugins only: code) file_code =
    FileTooLarge' | FileTypeNotAllowed' | AssetPhotoInvalidImage' | AssetPhotoAlreadyLinked'
    | AssetPhotoStagedNotFound' | AssetPhotoKeyConflict' | AssetPhotoTokenInvalid'
    | AssetPhotoFileNotFound' | StorageUnavailable' | StorageNotConfigured'
    | StorageOauthRequired' | StorageOauthFailed' | TemplateUnknownPlaceholder'
    | TemplateMissingPlaceholder' | TemplateInvalidDocx' | TemplateNotActive'
    | EmailTemplateInvalidDesign' | EmailTemplateUnknownVariable' | EmailTemplateMissingVariable'
    | EmailAssetInvalidImage'

datatype (plugins only: code) custody_code =
    PublicAssetsNotConfigured' | AssetAlreadyLoaned' | InvalidLoanStateTransition'
    | LoanSodViolation' | LoanSameCostCenter' | MovementTampered' | DocumentTampered'
    | SignatureOutOfOrder' | SignatureNotDesignatedSigner' | SignatureSignerUnassigned'
    | SignatureMfaRequired' | SignatureSessionInvalid' | SignatureReassignAfterSigning'
    | SignatureNoChannel' | SignatureNoIdentityCheck' | SignatureSignerInactive'
    | SignatureSignerCannotSign' | SignatureLinkNotApplicable' | SignatureLinkUnavailable'
    | SignatureIdentityMismatch' | SignatureIdentityLocked' | SignatureIdentityRequired'
    | DocumentAlreadySigned'

datatype (plugins only: code) act_code =
    HandoverAssetInOpenHandover' | HandoverCostCenterMismatch' | HandoverAssetNotDeliverable'
    | HandoverAssetReserved' | DocumentFormatNotReady' | DocumentFormatAlreadyExists'
    | DocumentFormatBreaksProcess' | DocumentFormatSequenceStarted' | DocumentSignerDuplicated'
    | DocumentSignerSubstituteInvalid' | DocumentSignerNotEligible' | TransferSameCostCenter'
    | TransferMixedSourceCostCenter' | TransferAssetInOpenTransfer'
    | TransferInvalidStateTransition' | TransferReasonUnavailable' | TransferReasonExists'
    | TransferReasonInUse' | TransferNoAccountingSigner' | TransferNoControlSigner'
    | TransferSignerNotEligible' | TransferSignerRequired' | WriteOffInvalidStateTransition'
    | WriteOffAssetHeld' | WriteOffNoControlSigner' | WriteOffSignerRequired'
    | WriteOffNoAccountingSigner'

datatype (plugins only: code) request_code =
    WriteOffSignerNotEligible' | AssetInOpenWriteOff' | AssetRequestNotHead'
    | AssetRequestOwnerWithoutHead' | AssetRequestSodViolation'
    | AssetRequestInvalidStateTransition' | AssetRequestAssetUnavailable'
    | LoanExtensionNotRequester' | LoanNoPendingExtension' | LoanDeliveryActNotRejected'
    | LoanNotStarted' | LoanDeliveryActNotSigned'

datatype (plugins only: code) inventory_code =
    InventoryScopeOverlap' | InventoryUnverifiedExceedsThreshold' | InventoryReconcileSod'
    | InventoryActorNotAllowed' | InventoryConflictOfInterest' | InventoryAssetWrittenOff'
    | InventoryMissingCauseRequired' | InventoryCatalogEntryUnavailable'
    | InventoryCatalogEntryInUse' | InventoryCatalogEntryExists' | InventorySurplusWasLost'
    | InventorySurplusNotResolvable' | InventoryUnassignedSurplus'
    | AssetPriceZeroReasonUnavailable' | AssetPriceZeroReasonInUse' | AssetPriceZeroReasonExists'
    | AssetPriceNotZero' | DepreciationInvalidPeriod' | ModuleUnavailable' | FeatureUnknown'
    | FeatureNotToggleable' | ScopeNoCostCenter' | ScopeOrgUnitUnresolved'

datatype (plugins only: code) org_code =
    CostCenterHeadOverlap' | CostCenterHeadEnded' | CostCenterPlacementCycle'
    | CostCenterPlacementUnchanged' | CostCenterPlacementRequired' | CostCenterGroupingHasAssets'
    | CostCenterCodeOutOfUnitRange' | CostCenterWithoutHead' | CostCenterInactive'
    | CostCenterParentInactive' | CostCenterOrgUnitInactive' | OrgUnitCodePrefixExists'
    | OrgUnitPrefixOutOfParent' | OrgUnitParentArchived' | OrgUnitNameDuplicate'
    | OrgChartImportHasErrors' | OrgChartImportStale' | OrgChartImportConflict'
    | OrgChartImportClosed' | OrgChartInvalidFile' | StructureReconcileStale'
    | ImportJobNotRetryable' | StorageKeyInvalid' | StorageProjectPathLocked' | ArchiveTooLarge'
    | MailAddressInvalid' | OutboundDestinationForbidden' | EventsTicketInvalid'
    | EventsCapacityReached'

datatype (plugins only: code) error_code =
    GeneralCode general_code
  | AccountCode account_code
  | RoleCode role_code
  | PlaceCode place_code
  | AssetCode asset_code
  | FileCode file_code
  | CustodyCode custody_code
  | ActCode act_code
  | RequestCode request_code
  | InventoryCode inventory_code
  | OrgCode org_code

abbreviation ValidationFailed :: error_code where "ValidationFailed \<equiv> GeneralCode ValidationFailed'"
abbreviation MalformedRequest :: error_code where "MalformedRequest \<equiv> GeneralCode MalformedRequest'"
abbreviation Unauthorized :: error_code where "Unauthorized \<equiv> GeneralCode Unauthorized'"
abbreviation TokenExpired :: error_code where "TokenExpired \<equiv> GeneralCode TokenExpired'"
abbreviation InsufficientPermissions :: error_code where "InsufficientPermissions \<equiv> GeneralCode InsufficientPermissions'"
abbreviation OutOfScope :: error_code where "OutOfScope \<equiv> GeneralCode OutOfScope'"
abbreviation ResourceNotFound :: error_code where "ResourceNotFound \<equiv> GeneralCode ResourceNotFound'"
abbreviation InvalidState :: error_code where "InvalidState \<equiv> GeneralCode InvalidState'"
abbreviation ConcurrentModification :: error_code where "ConcurrentModification \<equiv> GeneralCode ConcurrentModification'"
abbreviation TooManyAttempts :: error_code where "TooManyAttempts \<equiv> GeneralCode TooManyAttempts'"
abbreviation AccountTemporarilyLocked :: error_code where "AccountTemporarilyLocked \<equiv> GeneralCode AccountTemporarilyLocked'"
abbreviation SessionRevoked :: error_code where "SessionRevoked \<equiv> GeneralCode SessionRevoked'"
abbreviation ExternalServiceFailure :: error_code where "ExternalServiceFailure \<equiv> GeneralCode ExternalServiceFailure'"
abbreviation InternalError :: error_code where "InternalError \<equiv> GeneralCode InternalError'"
abbreviation InvalidCredentials :: error_code where "InvalidCredentials \<equiv> AccountCode InvalidCredentials'"
abbreviation UserSuspended :: error_code where "UserSuspended \<equiv> AccountCode UserSuspended'"
abbreviation UserInactive :: error_code where "UserInactive \<equiv> AccountCode UserInactive'"
abbreviation MfaRequired :: error_code where "MfaRequired \<equiv> AccountCode MfaRequired'"
abbreviation MfaCodeInvalid :: error_code where "MfaCodeInvalid \<equiv> AccountCode MfaCodeInvalid'"
abbreviation MfaVerificationFailed :: error_code where "MfaVerificationFailed \<equiv> AccountCode MfaVerificationFailed'"
abbreviation MfaSessionRequired :: error_code where "MfaSessionRequired \<equiv> AccountCode MfaSessionRequired'"
abbreviation MfaRequiredByRole :: error_code where "MfaRequiredByRole \<equiv> AccountCode MfaRequiredByRole'"
abbreviation MfaNotEnabled :: error_code where "MfaNotEnabled \<equiv> AccountCode MfaNotEnabled'"
abbreviation MfaEnrollmentNotStarted :: error_code where "MfaEnrollmentNotStarted \<equiv> AccountCode MfaEnrollmentNotStarted'"
abbreviation MfaSelfResetForbidden :: error_code where "MfaSelfResetForbidden \<equiv> AccountCode MfaSelfResetForbidden'"
abbreviation PasswordPolicyViolation :: error_code where "PasswordPolicyViolation \<equiv> AccountCode PasswordPolicyViolation'"
abbreviation UsernameAlreadyExists :: error_code where "UsernameAlreadyExists \<equiv> AccountCode UsernameAlreadyExists'"
abbreviation PersonDocumentAlreadyExists :: error_code where "PersonDocumentAlreadyExists \<equiv> AccountCode PersonDocumentAlreadyExists'"
abbreviation PersonEmailAlreadyExists :: error_code where "PersonEmailAlreadyExists \<equiv> AccountCode PersonEmailAlreadyExists'"
abbreviation PasswordResetInvalid :: error_code where "PasswordResetInvalid \<equiv> AccountCode PasswordResetInvalid'"
abbreviation PasswordChangeRequired :: error_code where "PasswordChangeRequired \<equiv> AccountCode PasswordChangeRequired'"
abbreviation InvitationExpired :: error_code where "InvitationExpired \<equiv> AccountCode InvitationExpired'"
abbreviation RoleNotFound :: error_code where "RoleNotFound \<equiv> RoleCode RoleNotFound'"
abbreviation RoleNotAssignable :: error_code where "RoleNotAssignable \<equiv> RoleCode RoleNotAssignable'"
abbreviation RoleMaxUsersReached :: error_code where "RoleMaxUsersReached \<equiv> RoleCode RoleMaxUsersReached'"
abbreviation RoleCodeAlreadyExists :: error_code where "RoleCodeAlreadyExists \<equiv> RoleCode RoleCodeAlreadyExists'"
abbreviation RoleHasAssignedUsers :: error_code where "RoleHasAssignedUsers \<equiv> RoleCode RoleHasAssignedUsers'"
abbreviation RoleHasChildRoles :: error_code where "RoleHasChildRoles \<equiv> RoleCode RoleHasChildRoles'"
abbreviation RoleSelfAssignmentForbidden :: error_code where "RoleSelfAssignmentForbidden \<equiv> RoleCode RoleSelfAssignmentForbidden'"
abbreviation RoleSystemImmutable :: error_code where "RoleSystemImmutable \<equiv> RoleCode RoleSystemImmutable'"
abbreviation RolePrivilegeEscalation :: error_code where "RolePrivilegeEscalation \<equiv> RoleCode RolePrivilegeEscalation'"
abbreviation PermissionNotHeld :: error_code where "PermissionNotHeld \<equiv> RoleCode PermissionNotHeld'"
abbreviation PermissionCodeAlreadyExists :: error_code where "PermissionCodeAlreadyExists \<equiv> RoleCode PermissionCodeAlreadyExists'"
abbreviation PermissionInUse :: error_code where "PermissionInUse \<equiv> RoleCode PermissionInUse'"
abbreviation PermissionSystemImmutable :: error_code where "PermissionSystemImmutable \<equiv> RoleCode PermissionSystemImmutable'"
abbreviation NavigationPathAlreadyExists :: error_code where "NavigationPathAlreadyExists \<equiv> RoleCode NavigationPathAlreadyExists'"
abbreviation SodViolation :: error_code where "SodViolation \<equiv> RoleCode SodViolation'"
abbreviation DelegationRequiresExpiry :: error_code where "DelegationRequiresExpiry \<equiv> RoleCode DelegationRequiresExpiry'"
abbreviation CannotDelegateRoleNotHeld :: error_code where "CannotDelegateRoleNotHeld \<equiv> RoleCode CannotDelegateRoleNotHeld'"
abbreviation DelegationExceedsSourceValidity :: error_code where "DelegationExceedsSourceValidity \<equiv> RoleCode DelegationExceedsSourceValidity'"
abbreviation HasActiveLoans :: error_code where "HasActiveLoans \<equiv> RoleCode HasActiveLoans'"
abbreviation PersonAffiliationRequired :: error_code where "PersonAffiliationRequired \<equiv> RoleCode PersonAffiliationRequired'"
abbreviation CostCenterOrgUnitMismatch :: error_code where "CostCenterOrgUnitMismatch \<equiv> RoleCode CostCenterOrgUnitMismatch'"
abbreviation MailNotConfigured :: error_code where "MailNotConfigured \<equiv> RoleCode MailNotConfigured'"
abbreviation MailSendFailed :: error_code where "MailSendFailed \<equiv> RoleCode MailSendFailed'"
abbreviation HasDependentEntities :: error_code where "HasDependentEntities \<equiv> PlaceCode HasDependentEntities'"
abbreviation CampusCodeAlreadyExists :: error_code where "CampusCodeAlreadyExists \<equiv> PlaceCode CampusCodeAlreadyExists'"
abbreviation BuildingCodeAlreadyExists :: error_code where "BuildingCodeAlreadyExists \<equiv> PlaceCode BuildingCodeAlreadyExists'"
abbreviation LocationCodeAlreadyExists :: error_code where "LocationCodeAlreadyExists \<equiv> PlaceCode LocationCodeAlreadyExists'"
abbreviation OrgUnitCodeAlreadyExists :: error_code where "OrgUnitCodeAlreadyExists \<equiv> PlaceCode OrgUnitCodeAlreadyExists'"
abbreviation OrgUnitHasChildren :: error_code where "OrgUnitHasChildren \<equiv> PlaceCode OrgUnitHasChildren'"
abbreviation OrgUnitCycle :: error_code where "OrgUnitCycle \<equiv> PlaceCode OrgUnitCycle'"
abbreviation CostCenterExternalCodeExists :: error_code where "CostCenterExternalCodeExists \<equiv> PlaceCode CostCenterExternalCodeExists'"
abbreviation CostCenterHasActiveAssets :: error_code where "CostCenterHasActiveAssets \<equiv> PlaceCode CostCenterHasActiveAssets'"
abbreviation CostCenterExternalCodeImmutable :: error_code where "CostCenterExternalCodeImmutable \<equiv> PlaceCode CostCenterExternalCodeImmutable'"
abbreviation InvalidCsv :: error_code where "InvalidCsv \<equiv> PlaceCode InvalidCsv'"
abbreviation CategoryCodeAlreadyExists :: error_code where "CategoryCodeAlreadyExists \<equiv> PlaceCode CategoryCodeAlreadyExists'"
abbreviation CategoryHasChildren :: error_code where "CategoryHasChildren \<equiv> PlaceCode CategoryHasChildren'"
abbreviation CategoryCycle :: error_code where "CategoryCycle \<equiv> PlaceCode CategoryCycle'"
abbreviation AssetCategoryHasAssets :: error_code where "AssetCategoryHasAssets \<equiv> PlaceCode AssetCategoryHasAssets'"
abbreviation DynamicFieldCodeExists :: error_code where "DynamicFieldCodeExists \<equiv> PlaceCode DynamicFieldCodeExists'"
abbreviation DynamicFieldInUse :: error_code where "DynamicFieldInUse \<equiv> PlaceCode DynamicFieldInUse'"
abbreviation DynamicFieldTypeImmutable :: error_code where "DynamicFieldTypeImmutable \<equiv> PlaceCode DynamicFieldTypeImmutable'"
abbreviation InvalidFieldDefinition :: error_code where "InvalidFieldDefinition \<equiv> PlaceCode InvalidFieldDefinition'"
abbreviation AssetInternalCodeAlreadyExists :: error_code where "AssetInternalCodeAlreadyExists \<equiv> AssetCode AssetInternalCodeAlreadyExists'"
abbreviation AssetBarcodeAlreadyExists :: error_code where "AssetBarcodeAlreadyExists \<equiv> AssetCode AssetBarcodeAlreadyExists'"
abbreviation AssetSerialRequired :: error_code where "AssetSerialRequired \<equiv> AssetCode AssetSerialRequired'"
abbreviation AssetPhotoRequired :: error_code where "AssetPhotoRequired \<equiv> AssetCode AssetPhotoRequired'"
abbreviation AssetAlreadyWrittenOff :: error_code where "AssetAlreadyWrittenOff \<equiv> AssetCode AssetAlreadyWrittenOff'"
abbreviation AssetCannotBeModified :: error_code where "AssetCannotBeModified \<equiv> AssetCode AssetCannotBeModified'"
abbreviation AssetMissingCustomField :: error_code where "AssetMissingCustomField \<equiv> AssetCode AssetMissingCustomField'"
abbreviation AssetInvalidDynamicValue :: error_code where "AssetInvalidDynamicValue \<equiv> AssetCode AssetInvalidDynamicValue'"
abbreviation AssetHasActiveLoan :: error_code where "AssetHasActiveLoan \<equiv> AssetCode AssetHasActiveLoan'"
abbreviation AssetUnderInventory :: error_code where "AssetUnderInventory \<equiv> AssetCode AssetUnderInventory'"
abbreviation AssetInvalidStatusTransition :: error_code where "AssetInvalidStatusTransition \<equiv> AssetCode AssetInvalidStatusTransition'"
abbreviation AssetImportExpired :: error_code where "AssetImportExpired \<equiv> AssetCode AssetImportExpired'"
abbreviation AssetImportTooLarge :: error_code where "AssetImportTooLarge \<equiv> AssetCode AssetImportTooLarge'"
abbreviation QrTokenInvalid :: error_code where "QrTokenInvalid \<equiv> AssetCode QrTokenInvalid'"
abbreviation QrVersionMismatch :: error_code where "QrVersionMismatch \<equiv> AssetCode QrVersionMismatch'"
abbreviation QrAssetNotFound :: error_code where "QrAssetNotFound \<equiv> AssetCode QrAssetNotFound'"
abbreviation QrAssetWrittenOff :: error_code where "QrAssetWrittenOff \<equiv> AssetCode QrAssetWrittenOff'"
abbreviation FileTooLarge :: error_code where "FileTooLarge \<equiv> FileCode FileTooLarge'"
abbreviation FileTypeNotAllowed :: error_code where "FileTypeNotAllowed \<equiv> FileCode FileTypeNotAllowed'"
abbreviation AssetPhotoInvalidImage :: error_code where "AssetPhotoInvalidImage \<equiv> FileCode AssetPhotoInvalidImage'"
abbreviation AssetPhotoAlreadyLinked :: error_code where "AssetPhotoAlreadyLinked \<equiv> FileCode AssetPhotoAlreadyLinked'"
abbreviation AssetPhotoStagedNotFound :: error_code where "AssetPhotoStagedNotFound \<equiv> FileCode AssetPhotoStagedNotFound'"
abbreviation AssetPhotoKeyConflict :: error_code where "AssetPhotoKeyConflict \<equiv> FileCode AssetPhotoKeyConflict'"
abbreviation AssetPhotoTokenInvalid :: error_code where "AssetPhotoTokenInvalid \<equiv> FileCode AssetPhotoTokenInvalid'"
abbreviation AssetPhotoFileNotFound :: error_code where "AssetPhotoFileNotFound \<equiv> FileCode AssetPhotoFileNotFound'"
abbreviation StorageUnavailable :: error_code where "StorageUnavailable \<equiv> FileCode StorageUnavailable'"
abbreviation StorageNotConfigured :: error_code where "StorageNotConfigured \<equiv> FileCode StorageNotConfigured'"
abbreviation StorageOauthRequired :: error_code where "StorageOauthRequired \<equiv> FileCode StorageOauthRequired'"
abbreviation StorageOauthFailed :: error_code where "StorageOauthFailed \<equiv> FileCode StorageOauthFailed'"
abbreviation TemplateUnknownPlaceholder :: error_code where "TemplateUnknownPlaceholder \<equiv> FileCode TemplateUnknownPlaceholder'"
abbreviation TemplateMissingPlaceholder :: error_code where "TemplateMissingPlaceholder \<equiv> FileCode TemplateMissingPlaceholder'"
abbreviation TemplateInvalidDocx :: error_code where "TemplateInvalidDocx \<equiv> FileCode TemplateInvalidDocx'"
abbreviation TemplateNotActive :: error_code where "TemplateNotActive \<equiv> FileCode TemplateNotActive'"
abbreviation EmailTemplateInvalidDesign :: error_code where "EmailTemplateInvalidDesign \<equiv> FileCode EmailTemplateInvalidDesign'"
abbreviation EmailTemplateUnknownVariable :: error_code where "EmailTemplateUnknownVariable \<equiv> FileCode EmailTemplateUnknownVariable'"
abbreviation EmailTemplateMissingVariable :: error_code where "EmailTemplateMissingVariable \<equiv> FileCode EmailTemplateMissingVariable'"
abbreviation EmailAssetInvalidImage :: error_code where "EmailAssetInvalidImage \<equiv> FileCode EmailAssetInvalidImage'"
abbreviation PublicAssetsNotConfigured :: error_code where "PublicAssetsNotConfigured \<equiv> CustodyCode PublicAssetsNotConfigured'"
abbreviation AssetAlreadyLoaned :: error_code where "AssetAlreadyLoaned \<equiv> CustodyCode AssetAlreadyLoaned'"
abbreviation InvalidLoanStateTransition :: error_code where "InvalidLoanStateTransition \<equiv> CustodyCode InvalidLoanStateTransition'"
abbreviation LoanSodViolation :: error_code where "LoanSodViolation \<equiv> CustodyCode LoanSodViolation'"
abbreviation LoanSameCostCenter :: error_code where "LoanSameCostCenter \<equiv> CustodyCode LoanSameCostCenter'"
abbreviation MovementTampered :: error_code where "MovementTampered \<equiv> CustodyCode MovementTampered'"
abbreviation DocumentTampered :: error_code where "DocumentTampered \<equiv> CustodyCode DocumentTampered'"
abbreviation SignatureOutOfOrder :: error_code where "SignatureOutOfOrder \<equiv> CustodyCode SignatureOutOfOrder'"
abbreviation SignatureNotDesignatedSigner :: error_code where "SignatureNotDesignatedSigner \<equiv> CustodyCode SignatureNotDesignatedSigner'"
abbreviation SignatureSignerUnassigned :: error_code where "SignatureSignerUnassigned \<equiv> CustodyCode SignatureSignerUnassigned'"
abbreviation SignatureMfaRequired :: error_code where "SignatureMfaRequired \<equiv> CustodyCode SignatureMfaRequired'"
abbreviation SignatureSessionInvalid :: error_code where "SignatureSessionInvalid \<equiv> CustodyCode SignatureSessionInvalid'"
abbreviation SignatureReassignAfterSigning :: error_code where "SignatureReassignAfterSigning \<equiv> CustodyCode SignatureReassignAfterSigning'"
abbreviation SignatureNoChannel :: error_code where "SignatureNoChannel \<equiv> CustodyCode SignatureNoChannel'"
abbreviation SignatureNoIdentityCheck :: error_code where "SignatureNoIdentityCheck \<equiv> CustodyCode SignatureNoIdentityCheck'"
abbreviation SignatureSignerInactive :: error_code where "SignatureSignerInactive \<equiv> CustodyCode SignatureSignerInactive'"
abbreviation SignatureSignerCannotSign :: error_code where "SignatureSignerCannotSign \<equiv> CustodyCode SignatureSignerCannotSign'"
abbreviation SignatureLinkNotApplicable :: error_code where "SignatureLinkNotApplicable \<equiv> CustodyCode SignatureLinkNotApplicable'"
abbreviation SignatureLinkUnavailable :: error_code where "SignatureLinkUnavailable \<equiv> CustodyCode SignatureLinkUnavailable'"
abbreviation SignatureIdentityMismatch :: error_code where "SignatureIdentityMismatch \<equiv> CustodyCode SignatureIdentityMismatch'"
abbreviation SignatureIdentityLocked :: error_code where "SignatureIdentityLocked \<equiv> CustodyCode SignatureIdentityLocked'"
abbreviation SignatureIdentityRequired :: error_code where "SignatureIdentityRequired \<equiv> CustodyCode SignatureIdentityRequired'"
abbreviation DocumentAlreadySigned :: error_code where "DocumentAlreadySigned \<equiv> CustodyCode DocumentAlreadySigned'"
abbreviation HandoverAssetInOpenHandover :: error_code where "HandoverAssetInOpenHandover \<equiv> ActCode HandoverAssetInOpenHandover'"
abbreviation HandoverCostCenterMismatch :: error_code where "HandoverCostCenterMismatch \<equiv> ActCode HandoverCostCenterMismatch'"
abbreviation HandoverAssetNotDeliverable :: error_code where "HandoverAssetNotDeliverable \<equiv> ActCode HandoverAssetNotDeliverable'"
abbreviation HandoverAssetReserved :: error_code where "HandoverAssetReserved \<equiv> ActCode HandoverAssetReserved'"
abbreviation DocumentFormatNotReady :: error_code where "DocumentFormatNotReady \<equiv> ActCode DocumentFormatNotReady'"
abbreviation DocumentFormatAlreadyExists :: error_code where "DocumentFormatAlreadyExists \<equiv> ActCode DocumentFormatAlreadyExists'"
abbreviation DocumentFormatBreaksProcess :: error_code where "DocumentFormatBreaksProcess \<equiv> ActCode DocumentFormatBreaksProcess'"
abbreviation DocumentFormatSequenceStarted :: error_code where "DocumentFormatSequenceStarted \<equiv> ActCode DocumentFormatSequenceStarted'"
abbreviation DocumentSignerDuplicated :: error_code where "DocumentSignerDuplicated \<equiv> ActCode DocumentSignerDuplicated'"
abbreviation DocumentSignerSubstituteInvalid :: error_code where "DocumentSignerSubstituteInvalid \<equiv> ActCode DocumentSignerSubstituteInvalid'"
abbreviation DocumentSignerNotEligible :: error_code where "DocumentSignerNotEligible \<equiv> ActCode DocumentSignerNotEligible'"
abbreviation TransferSameCostCenter :: error_code where "TransferSameCostCenter \<equiv> ActCode TransferSameCostCenter'"
abbreviation TransferMixedSourceCostCenter :: error_code where "TransferMixedSourceCostCenter \<equiv> ActCode TransferMixedSourceCostCenter'"
abbreviation TransferAssetInOpenTransfer :: error_code where "TransferAssetInOpenTransfer \<equiv> ActCode TransferAssetInOpenTransfer'"
abbreviation TransferInvalidStateTransition :: error_code where "TransferInvalidStateTransition \<equiv> ActCode TransferInvalidStateTransition'"
abbreviation TransferReasonUnavailable :: error_code where "TransferReasonUnavailable \<equiv> ActCode TransferReasonUnavailable'"
abbreviation TransferReasonExists :: error_code where "TransferReasonExists \<equiv> ActCode TransferReasonExists'"
abbreviation TransferReasonInUse :: error_code where "TransferReasonInUse \<equiv> ActCode TransferReasonInUse'"
abbreviation TransferNoAccountingSigner :: error_code where "TransferNoAccountingSigner \<equiv> ActCode TransferNoAccountingSigner'"
abbreviation TransferNoControlSigner :: error_code where "TransferNoControlSigner \<equiv> ActCode TransferNoControlSigner'"
abbreviation TransferSignerNotEligible :: error_code where "TransferSignerNotEligible \<equiv> ActCode TransferSignerNotEligible'"
abbreviation TransferSignerRequired :: error_code where "TransferSignerRequired \<equiv> ActCode TransferSignerRequired'"
abbreviation WriteOffInvalidStateTransition :: error_code where "WriteOffInvalidStateTransition \<equiv> ActCode WriteOffInvalidStateTransition'"
abbreviation WriteOffAssetHeld :: error_code where "WriteOffAssetHeld \<equiv> ActCode WriteOffAssetHeld'"
abbreviation WriteOffNoControlSigner :: error_code where "WriteOffNoControlSigner \<equiv> ActCode WriteOffNoControlSigner'"
abbreviation WriteOffSignerRequired :: error_code where "WriteOffSignerRequired \<equiv> ActCode WriteOffSignerRequired'"
abbreviation WriteOffNoAccountingSigner :: error_code where "WriteOffNoAccountingSigner \<equiv> ActCode WriteOffNoAccountingSigner'"
abbreviation WriteOffSignerNotEligible :: error_code where "WriteOffSignerNotEligible \<equiv> RequestCode WriteOffSignerNotEligible'"
abbreviation AssetInOpenWriteOff :: error_code where "AssetInOpenWriteOff \<equiv> RequestCode AssetInOpenWriteOff'"
abbreviation AssetRequestNotHead :: error_code where "AssetRequestNotHead \<equiv> RequestCode AssetRequestNotHead'"
abbreviation AssetRequestOwnerWithoutHead :: error_code where "AssetRequestOwnerWithoutHead \<equiv> RequestCode AssetRequestOwnerWithoutHead'"
abbreviation AssetRequestSodViolation :: error_code where "AssetRequestSodViolation \<equiv> RequestCode AssetRequestSodViolation'"
abbreviation AssetRequestInvalidStateTransition :: error_code where "AssetRequestInvalidStateTransition \<equiv> RequestCode AssetRequestInvalidStateTransition'"
abbreviation AssetRequestAssetUnavailable :: error_code where "AssetRequestAssetUnavailable \<equiv> RequestCode AssetRequestAssetUnavailable'"
abbreviation LoanExtensionNotRequester :: error_code where "LoanExtensionNotRequester \<equiv> RequestCode LoanExtensionNotRequester'"
abbreviation LoanNoPendingExtension :: error_code where "LoanNoPendingExtension \<equiv> RequestCode LoanNoPendingExtension'"
abbreviation LoanDeliveryActNotRejected :: error_code where "LoanDeliveryActNotRejected \<equiv> RequestCode LoanDeliveryActNotRejected'"
abbreviation LoanNotStarted :: error_code where "LoanNotStarted \<equiv> RequestCode LoanNotStarted'"
abbreviation LoanDeliveryActNotSigned :: error_code where "LoanDeliveryActNotSigned \<equiv> RequestCode LoanDeliveryActNotSigned'"
abbreviation InventoryScopeOverlap :: error_code where "InventoryScopeOverlap \<equiv> InventoryCode InventoryScopeOverlap'"
abbreviation InventoryUnverifiedExceedsThreshold :: error_code where "InventoryUnverifiedExceedsThreshold \<equiv> InventoryCode InventoryUnverifiedExceedsThreshold'"
abbreviation InventoryReconcileSod :: error_code where "InventoryReconcileSod \<equiv> InventoryCode InventoryReconcileSod'"
abbreviation InventoryActorNotAllowed :: error_code where "InventoryActorNotAllowed \<equiv> InventoryCode InventoryActorNotAllowed'"
abbreviation InventoryConflictOfInterest :: error_code where "InventoryConflictOfInterest \<equiv> InventoryCode InventoryConflictOfInterest'"
abbreviation InventoryAssetWrittenOff :: error_code where "InventoryAssetWrittenOff \<equiv> InventoryCode InventoryAssetWrittenOff'"
abbreviation InventoryMissingCauseRequired :: error_code where "InventoryMissingCauseRequired \<equiv> InventoryCode InventoryMissingCauseRequired'"
abbreviation InventoryCatalogEntryUnavailable :: error_code where "InventoryCatalogEntryUnavailable \<equiv> InventoryCode InventoryCatalogEntryUnavailable'"
abbreviation InventoryCatalogEntryInUse :: error_code where "InventoryCatalogEntryInUse \<equiv> InventoryCode InventoryCatalogEntryInUse'"
abbreviation InventoryCatalogEntryExists :: error_code where "InventoryCatalogEntryExists \<equiv> InventoryCode InventoryCatalogEntryExists'"
abbreviation InventorySurplusWasLost :: error_code where "InventorySurplusWasLost \<equiv> InventoryCode InventorySurplusWasLost'"
abbreviation InventorySurplusNotResolvable :: error_code where "InventorySurplusNotResolvable \<equiv> InventoryCode InventorySurplusNotResolvable'"
abbreviation InventoryUnassignedSurplus :: error_code where "InventoryUnassignedSurplus \<equiv> InventoryCode InventoryUnassignedSurplus'"
abbreviation AssetPriceZeroReasonUnavailable :: error_code where "AssetPriceZeroReasonUnavailable \<equiv> InventoryCode AssetPriceZeroReasonUnavailable'"
abbreviation AssetPriceZeroReasonInUse :: error_code where "AssetPriceZeroReasonInUse \<equiv> InventoryCode AssetPriceZeroReasonInUse'"
abbreviation AssetPriceZeroReasonExists :: error_code where "AssetPriceZeroReasonExists \<equiv> InventoryCode AssetPriceZeroReasonExists'"
abbreviation AssetPriceNotZero :: error_code where "AssetPriceNotZero \<equiv> InventoryCode AssetPriceNotZero'"
abbreviation DepreciationInvalidPeriod :: error_code where "DepreciationInvalidPeriod \<equiv> InventoryCode DepreciationInvalidPeriod'"
abbreviation ModuleUnavailable :: error_code where "ModuleUnavailable \<equiv> InventoryCode ModuleUnavailable'"
abbreviation FeatureUnknown :: error_code where "FeatureUnknown \<equiv> InventoryCode FeatureUnknown'"
abbreviation FeatureNotToggleable :: error_code where "FeatureNotToggleable \<equiv> InventoryCode FeatureNotToggleable'"
abbreviation ScopeNoCostCenter :: error_code where "ScopeNoCostCenter \<equiv> InventoryCode ScopeNoCostCenter'"
abbreviation ScopeOrgUnitUnresolved :: error_code where "ScopeOrgUnitUnresolved \<equiv> InventoryCode ScopeOrgUnitUnresolved'"
abbreviation CostCenterHeadOverlap :: error_code where "CostCenterHeadOverlap \<equiv> OrgCode CostCenterHeadOverlap'"
abbreviation CostCenterHeadEnded :: error_code where "CostCenterHeadEnded \<equiv> OrgCode CostCenterHeadEnded'"
abbreviation CostCenterPlacementCycle :: error_code where "CostCenterPlacementCycle \<equiv> OrgCode CostCenterPlacementCycle'"
abbreviation CostCenterPlacementUnchanged :: error_code where "CostCenterPlacementUnchanged \<equiv> OrgCode CostCenterPlacementUnchanged'"
abbreviation CostCenterPlacementRequired :: error_code where "CostCenterPlacementRequired \<equiv> OrgCode CostCenterPlacementRequired'"
abbreviation CostCenterGroupingHasAssets :: error_code where "CostCenterGroupingHasAssets \<equiv> OrgCode CostCenterGroupingHasAssets'"
abbreviation CostCenterCodeOutOfUnitRange :: error_code where "CostCenterCodeOutOfUnitRange \<equiv> OrgCode CostCenterCodeOutOfUnitRange'"
abbreviation CostCenterWithoutHead :: error_code where "CostCenterWithoutHead \<equiv> OrgCode CostCenterWithoutHead'"
abbreviation CostCenterInactive :: error_code where "CostCenterInactive \<equiv> OrgCode CostCenterInactive'"
abbreviation CostCenterParentInactive :: error_code where "CostCenterParentInactive \<equiv> OrgCode CostCenterParentInactive'"
abbreviation CostCenterOrgUnitInactive :: error_code where "CostCenterOrgUnitInactive \<equiv> OrgCode CostCenterOrgUnitInactive'"
abbreviation OrgUnitCodePrefixExists :: error_code where "OrgUnitCodePrefixExists \<equiv> OrgCode OrgUnitCodePrefixExists'"
abbreviation OrgUnitPrefixOutOfParent :: error_code where "OrgUnitPrefixOutOfParent \<equiv> OrgCode OrgUnitPrefixOutOfParent'"
abbreviation OrgUnitParentArchived :: error_code where "OrgUnitParentArchived \<equiv> OrgCode OrgUnitParentArchived'"
abbreviation OrgUnitNameDuplicate :: error_code where "OrgUnitNameDuplicate \<equiv> OrgCode OrgUnitNameDuplicate'"
abbreviation OrgChartImportHasErrors :: error_code where "OrgChartImportHasErrors \<equiv> OrgCode OrgChartImportHasErrors'"
abbreviation OrgChartImportStale :: error_code where "OrgChartImportStale \<equiv> OrgCode OrgChartImportStale'"
abbreviation OrgChartImportConflict :: error_code where "OrgChartImportConflict \<equiv> OrgCode OrgChartImportConflict'"
abbreviation OrgChartImportClosed :: error_code where "OrgChartImportClosed \<equiv> OrgCode OrgChartImportClosed'"
abbreviation OrgChartInvalidFile :: error_code where "OrgChartInvalidFile \<equiv> OrgCode OrgChartInvalidFile'"
abbreviation StructureReconcileStale :: error_code where "StructureReconcileStale \<equiv> OrgCode StructureReconcileStale'"
abbreviation ImportJobNotRetryable :: error_code where "ImportJobNotRetryable \<equiv> OrgCode ImportJobNotRetryable'"
abbreviation StorageKeyInvalid :: error_code where "StorageKeyInvalid \<equiv> OrgCode StorageKeyInvalid'"
abbreviation StorageProjectPathLocked :: error_code where "StorageProjectPathLocked \<equiv> OrgCode StorageProjectPathLocked'"
abbreviation ArchiveTooLarge :: error_code where "ArchiveTooLarge \<equiv> OrgCode ArchiveTooLarge'"
abbreviation MailAddressInvalid :: error_code where "MailAddressInvalid \<equiv> OrgCode MailAddressInvalid'"
abbreviation OutboundDestinationForbidden :: error_code where "OutboundDestinationForbidden \<equiv> OrgCode OutboundDestinationForbidden'"
abbreviation EventsTicketInvalid :: error_code where "EventsTicketInvalid \<equiv> OrgCode EventsTicketInvalid'"
abbreviation EventsCapacityReached :: error_code where "EventsCapacityReached \<equiv> OrgCode EventsCapacityReached'"

datatype failure = ApiException error_code | PlainError

type_synonym 'a res = "failure + 'a"

abbreviation throw :: "error_code \<Rightarrow> 'a res" where
  "throw e \<equiv> Inl (ApiException e)"

abbreviation throwError :: "'a res" where
  "throwError \<equiv> Inl PlainError"

fun rbind :: "'a res \<Rightarrow> ('a \<Rightarrow> 'b res) \<Rightarrow> 'b res" where
  "rbind (Inl e) k = Inl e"
| "rbind (Inr x) k = k x"

named_theorems res_simps \<open>inversion of successful runs\<close>

lemma rbind_eq_Inr [res_simps]: "rbind m k = Inr y \<longleftrightarrow> (\<exists>x. m = Inr x \<and> k x = Inr y)"
  by (cases m) auto

lemma rbind_eq_Inl: "rbind m k = Inl e \<longleftrightarrow> m = Inl e \<or> (\<exists>x. m = Inr x \<and> k x = Inl e)"
  by (cases m) auto

lemma guard_eq_Inr [res_simps]: "(if b then Inl e else m) = Inr y \<longleftrightarrow> \<not> b \<and> m = Inr y"
  by simp

lemma option_throw_eq_Inr [res_simps]:
  "(case v of None \<Rightarrow> Inl e | Some x \<Rightarrow> k x) = Inr y \<longleftrightarrow> (\<exists>x. v = Some x \<and> k x = Inr y)"
  by (cases v) auto

text \<open>A \<open>for .. of\<close> loop whose body may throw: the state of the loop is threaded through.\<close>

fun foldM :: "('s \<Rightarrow> 'x \<Rightarrow> 's res) \<Rightarrow> 's \<Rightarrow> 'x list \<Rightarrow> 's res" where
  "foldM f s [] = Inr s"
| "foldM f s (x # xs) = rbind (f s x) (\<lambda>s'. foldM f s' xs)"

lemma foldM_invariant:
  assumes "foldM f s xs = Inr s'" and "P s"
    and "\<And>s x s'. x \<in> set xs \<Longrightarrow> P s \<Longrightarrow> f s x = Inr s' \<Longrightarrow> P s'"
  shows "P s'"
  using assms by (induction xs arbitrary: s) (auto simp: rbind_eq_Inr)

lemma foldM_relation:
  assumes "foldM f s xs = Inr s'" and "\<And>s. R s s" and "\<And>a b c. R a b \<Longrightarrow> R b c \<Longrightarrow> R a c"
    and "\<And>s x s'. x \<in> set xs \<Longrightarrow> f s x = Inr s' \<Longrightarrow> R s s'"
  shows "R s s'"
  using assms(1,4)
proof (induction xs arbitrary: s)
  case Nil
  then show ?case using assms(2) by simp
next
  case (Cons x xs)
  from Cons.prems(1) obtain t where t: "f s x = Inr t" and rest: "foldM f t xs = Inr s'"
    by (auto simp: rbind_eq_Inr)
  have "R s t" by (rule Cons.prems(2) [OF _ t]) simp
  moreover have "R t s'" by (rule Cons.IH [OF rest]) (auto intro: Cons.prems(2))
  ultimately show ?case by (rule assms(3))
qed

lemma foldM_append: "foldM f s (xs @ ys) = rbind (foldM f s xs) (\<lambda>s'. foldM f s' ys)"
proof (induction xs arbitrary: s)
  case (Cons x xs)
  then show ?case by (cases "f s x") auto
qed simp

section \<open>Tables\<close>

text \<open>\<open>UPDATE t SET .. WHERE p\<close>: every row that satisfies \<open>p\<close> is rewritten in place.\<close>

definition update_where :: "('r \<Rightarrow> bool) \<Rightarrow> ('r \<Rightarrow> 'r) \<Rightarrow> 'r list \<Rightarrow> 'r list" where
  "update_where p f t = map (\<lambda>r. if p r then f r else r) t"

named_theorems table_simps \<open>facts about rows after an update\<close>

lemma update_where_simps [simp]:
  "update_where p f [] = []"
  "update_where p f (r # t) = (if p r then f r else r) # update_where p f t"
  by (simp_all add: update_where_def)

lemma length_update_where [simp]: "length (update_where p f t) = length t"
  by (simp add: update_where_def)

lemma set_update_where [table_simps]:
  "set (update_where p f t) = (\<lambda>r. if p r then f r else r) ` set t"
  by (simp add: update_where_def)

lemma in_update_where [table_simps]:
  "r \<in> set (update_where p f t) \<longleftrightarrow> (\<exists>q\<in>set t. r = (if p q then f q else q))"
  by (auto simp: update_where_def)

lemma map_update_where: "(\<And>r. p r \<Longrightarrow> g (f r) = g r) \<Longrightarrow> map g (update_where p f t) = map g t"
  by (simp add: update_where_def)

lemma filter_update_where:
  "(\<And>r. p r \<Longrightarrow> q (f r) = q r) \<Longrightarrow> filter q (update_where p f t) = update_where p f (filter q t)"
  by (induction t) auto

lemma update_where_append [simp]:
  "update_where p f (t @ u) = update_where p f t @ update_where p f u"
  by (simp add: update_where_def)

lemma update_where_id: "(\<And>r. r \<in> set t \<Longrightarrow> \<not> p r) \<Longrightarrow> update_where p f t = t"
  by (induction t) auto

lemma filter_update_where_other:
  "(\<And>r. p r \<Longrightarrow> \<not> q r \<and> \<not> q (f r)) \<Longrightarrow> filter q (update_where p f t) = filter q t"
  by (induction t) auto

text \<open>\<open>SELECT .. WHERE p\<close> read for its first row.\<close>

lemma find_SomeD: "List.find p t = Some r \<Longrightarrow> r \<in> set t \<and> p r"
  by (auto simp: find_Some_iff)

lemma find_NoneD: "List.find p t = None \<Longrightarrow> r \<in> set t \<Longrightarrow> \<not> p r"
  by (auto simp: find_None_iff)

lemma find_update_where_key:
  assumes "\<And>r. key (f r) = key r"
  shows "List.find (\<lambda>r. key r = k) (update_where p f t) =
    map_option (\<lambda>r. if p r then f r else r) (List.find (\<lambda>r. key r = k) t)"
  by (induction t) (auto simp: assms)

lemma find_update_where_other:
  "(\<And>r. p r \<Longrightarrow> \<not> q r \<and> \<not> q (f r)) \<Longrightarrow> List.find q (update_where p f t) = List.find q t"
  by (induction t) auto

lemma find_key_unique:
  assumes "distinct (map key t)" and "r \<in> set t"
  shows "List.find (\<lambda>q. key q = key r) t = Some r"
  using assms by (induction t) auto

text \<open>\<open>[...new Set(xs)]\<close>: the first occurrence of every element, in order.\<close>

fun uniq_aux :: "'a list \<Rightarrow> 'a list \<Rightarrow> 'a list" where
  "uniq_aux seen [] = []"
| "uniq_aux seen (x # xs) =
     (if x \<in> set seen then uniq_aux seen xs else x # uniq_aux (x # seen) xs)"

definition uniq :: "'a list \<Rightarrow> 'a list" where
  "uniq xs = uniq_aux [] xs"

lemma set_uniq_aux: "set (uniq_aux seen xs) = set xs - set seen"
  by (induction xs arbitrary: seen) auto

lemma distinct_uniq_aux: "distinct (uniq_aux seen xs)"
  by (induction xs arbitrary: seen) (auto simp: set_uniq_aux)

lemma set_uniq [simp]: "set (uniq xs) = set xs"
  by (simp add: uniq_def set_uniq_aux)

lemma distinct_uniq [simp]: "distinct (uniq xs)"
  by (simp add: uniq_def distinct_uniq_aux)

lemma uniq_eq_Nil [simp]: "uniq xs = [] \<longleftrightarrow> xs = []"
  by (metis set_empty set_uniq)

lemma uniq_aux_distinct: "distinct xs \<Longrightarrow> set xs \<inter> set seen = {} \<Longrightarrow> uniq_aux seen xs = xs"
  by (induction xs arbitrary: seen) auto

lemma uniq_distinct: "distinct xs \<Longrightarrow> uniq xs = xs"
  by (simp add: uniq_def uniq_aux_distinct)

section \<open>Numbers\<close>

text \<open>The remainder operator \<open>a % b\<close> of JavaScript takes the sign of the dividend.\<close>

definition jsRem :: "int \<Rightarrow> int \<Rightarrow> int" where
  "jsRem a b = (if a < 0 then - ((- a) mod \<bar>b\<bar>) else a mod \<bar>b\<bar>)"

lemma jsRem_nonneg [simp]: "0 \<le> a \<Longrightarrow> 0 < b \<Longrightarrow> jsRem a b = a mod b"
  by (simp add: jsRem_def)

section \<open>Strings\<close>

text \<open>
  Strings are lists of characters; JavaScript's \<open><\<close> on strings compares code units, which is
  the lexicographic order of HOL-Library's \<open>List_Lexorder\<close> over \<open>Char_ord\<close>.
\<close>

definition isSpace :: "char \<Rightarrow> bool" where
  "isSpace c = (c \<in> set [CHR '' '', CHR 0x09, CHR 0x0A, CHR 0x0B, CHR 0x0C, CHR 0x0D, CHR 0xA0])"

definition trim :: "string \<Rightarrow> string" where
  "trim s = rev (dropWhile isSpace (rev (dropWhile isSpace s)))"

definition endsWith :: "string \<Rightarrow> string \<Rightarrow> bool" where
  "endsWith s suffix =
     (length suffix \<le> length s \<and> drop (length s - length suffix) s = suffix)"

lemma endsWith_append [simp]: "endsWith (a @ s) s"
  by (simp add: endsWith_def)

lemma endsWith_iff: "endsWith s suffix \<longleftrightarrow> (\<exists>a. s = a @ suffix)"
  by (metis append_take_drop_id endsWith_append endsWith_def)

fun digits_of :: "nat \<Rightarrow> string" where
  "digits_of n =
     (if n < 10 then [char_of (n + 48)] else digits_of (n div 10) @ [char_of (n mod 10 + 48)])"

declare digits_of.simps [simp del]

lemma digits_of_eval:
  "n < 10 \<Longrightarrow> digits_of n = [char_of (n + 48)]"
  "10 \<le> n \<Longrightarrow> digits_of n = digits_of (n div 10) @ [char_of (n mod 10 + 48)]"
  by (subst digits_of.simps, simp)+

fun joinWith :: "string \<Rightarrow> string list \<Rightarrow> string" where
  "joinWith sep [] = ''''"
| "joinWith sep [x] = x"
| "joinWith sep (x # y # xs) = x @ sep @ joinWith sep (y # xs)"

text \<open>\<open>s.split(sep)\<close> on one character, and \<open>s.startsWith(prefix)\<close>, \<open>s.includes(part)\<close>.\<close>

fun splitOn :: "char \<Rightarrow> string \<Rightarrow> string list" where
  "splitOn sep [] = [[]]"
| "splitOn sep (c # cs) =
     (if c = sep then [] # splitOn sep cs
      else (case splitOn sep cs of [] \<Rightarrow> [[c]] | w # ws \<Rightarrow> (c # w) # ws))"

definition startsWith :: "string \<Rightarrow> string \<Rightarrow> bool" where
  "startsWith s prefix = (take (length prefix) s = prefix)"

fun includesText :: "string \<Rightarrow> string \<Rightarrow> bool" where
  "includesText [] part = (part = [])"
| "includesText (c # cs) part = (startsWith (c # cs) part \<or> includesText cs part)"

lemma splitOn_ne [simp]: "splitOn sep s \<noteq> []"
  by (induction s) (auto split: list.splits)

lemma splitOn_append:
  "splitOn sep (a @ sep # b) = splitOn sep a @ splitOn sep b"
  by (induction a) (auto split: list.splits)

lemma splitOn_free: "sep \<notin> set s \<Longrightarrow> splitOn sep s = [s]"
  by (induction s) auto

lemma set_splitOn: "w \<in> set (splitOn sep s) \<Longrightarrow> set w \<subseteq> set s"
proof (induction s arbitrary: w)
  case (Cons c cs)
  obtain v vs where split: "splitOn sep cs = v # vs" by (cases "splitOn sep cs") auto
  have v: "set v \<subseteq> set cs" by (rule Cons.IH) (simp add: split)
  have vs: "\<And>u. u \<in> set vs \<Longrightarrow> set u \<subseteq> set cs" by (rule Cons.IH) (simp add: split)
  show ?case
  proof (cases "c = sep")
    case True
    then have "w = [] \<or> w = v \<or> w \<in> set vs" using Cons.prems split by auto
    then show ?thesis using v vs by auto
  next
    case False
    then have "w = c # v \<or> w \<in> set vs" using Cons.prems split by auto
    then show ?thesis using v vs by auto
  qed
qed simp

lemma includesText_iff: "includesText s part \<longleftrightarrow> (\<exists>a b. s = a @ part @ b)"
proof (induction s)
  case (Cons c cs)
  have "startsWith (c # cs) part \<longleftrightarrow> (\<exists>b. c # cs = part @ b)"
    unfolding startsWith_def by (metis append_eq_conv_conj append_take_drop_id)
  then show ?case using Cons by (auto simp: Cons_eq_append_conv)
qed auto

text \<open>\<open>Number(s)\<close> on a string of decimal digits, and the decimal text of an integer.\<close>

definition isDigit :: "char \<Rightarrow> bool" where
  "isDigit c = (CHR ''0'' \<le> c \<and> c \<le> CHR ''9'')"

fun numberOf :: "string \<Rightarrow> int" where
  "numberOf [] = 0"
| "numberOf (c # cs) = (of_char c - 48) * 10 ^ length cs + numberOf cs"

definition showInt :: "int \<Rightarrow> string" where
  "showInt n = (if n < 0 then ''-'' @ digits_of (nat (- n)) else digits_of (nat n))"

lemma of_char_int:
  "(of_char c :: int) < of_char d \<longleftrightarrow> c < d" "(of_char c :: int) \<le> of_char d \<longleftrightarrow> c \<le> d"
  by (metis less_char_def of_nat_less_iff of_nat_of_char)
    (metis less_eq_char_def of_nat_le_iff of_nat_of_char)

lemma isDigit_iff: "isDigit c \<longleftrightarrow> 48 \<le> (of_char c :: int) \<and> (of_char c :: int) \<le> 57"
  using of_char_int(2) [of "CHR ''0''" c] of_char_int(2) [of c "CHR ''9''"] by (simp add: isDigit_def)

lemma numberOf_append: "numberOf (a @ b) = numberOf a * 10 ^ length b + numberOf b"
  by (induction a) (simp_all add: algebra_simps power_add)

lemma digit_char:
  assumes "n < 10"
  shows "isDigit (char_of (n + 48 :: nat))" "(of_char (char_of (n + 48 :: nat)) :: int) = int n + 48"
proof -
  have "(of_char (char_of (n + 48 :: nat)) :: nat) = n + 48" using assms by simp
  then show "(of_char (char_of (n + 48 :: nat)) :: int) = int n + 48"
    by (metis of_nat_add of_nat_numeral of_nat_of_char)
  then show "isDigit (char_of (n + 48 :: nat))" using assms by (simp add: isDigit_iff)
qed

lemma digits_of_isDigit: "list_all isDigit (digits_of n)"
proof (induction n rule: digits_of.induct)
  case (1 n)
  then show ?case using digit_char(1) [of n] digit_char(1) [of "n mod 10"]
    by (subst digits_of.simps) simp
qed

lemma numberOf_digits_of [simp]: "numberOf (digits_of n) = int n"
proof (induction n rule: digits_of.induct)
  case (1 n)
  show ?case
  proof (cases "n < 10")
    case True
    then show ?thesis using digit_char(2) [of n] by (subst digits_of.simps) simp
  next
    case False
    have "n div 10 * 10 + n mod 10 = n" by simp
    then have "int (n div 10) * 10 + int (n mod 10) = int n"
      by (metis of_nat_add of_nat_mult of_nat_numeral)
    then show ?thesis using False 1 digit_char(2) [of "n mod 10"]
      by (subst digits_of.simps) (simp add: numberOf_append)
  qed
qed

lemma digits_of_inject [simp]: "digits_of m = digits_of n \<longleftrightarrow> m = n"
  by (metis numberOf_digits_of of_nat_eq_iff)

lemma digits_of_not_Nil [simp]: "digits_of n \<noteq> []"
  by (subst digits_of.simps) simp

text \<open>Digits are computed on binary integers.\<close>

function digitsOfInt :: "int \<Rightarrow> string" where
  "digitsOfInt n = (if n < 10 then [char_of (n + 48)] else digitsOfInt (n div 10) @ [char_of (n mod 10 + 48)])"
  by pat_completeness auto
termination by (relation "measure nat") auto

declare digitsOfInt.simps [simp del]

lemma char_of_of_nat: "char_of (int n) = (char_of n :: char)"
  by (simp add: char_of_def bit_of_nat_iff_bit)

lemma char_of_int: "0 \<le> m \<Longrightarrow> char_of (m + 48 :: int) = (char_of (nat m + 48) :: char)"
proof -
  assume "0 \<le> m"
  then have "m + 48 = int (nat m + 48)" by simp
  then show ?thesis by (metis char_of_of_nat)
qed

lemma digitsOfInt_nat: "0 \<le> n \<Longrightarrow> digitsOfInt n = digits_of (nat n)"
proof (induction n rule: digitsOfInt.induct)
  case (1 n)
  show ?case
  proof (cases "n < 10")
    case True
    then show ?thesis using char_of_int [of n] 1(2) by (subst digitsOfInt.simps, subst digits_of.simps) simp
  next
    case False
    have "digitsOfInt n = digitsOfInt (n div 10) @ [char_of (n mod 10 + 48)]"
      using False by (subst digitsOfInt.simps) (simp only: if_False)
    also have "digitsOfInt (n div 10) = digits_of (nat n div 10)"
      using 1(1) [OF False] 1(2) nat_div_distrib [of n 10] by (simp add: pos_imp_zdiv_nonneg_iff)
    also have "char_of (n mod 10 + 48) = (char_of (nat n mod 10 + 48) :: char)"
      using char_of_int [of "n mod 10"] nat_mod_distrib [of n 10] 1(2) by simp
    also have "digits_of (nat n div 10) @ [char_of (nat n mod 10 + 48)] = digits_of (nat n)"
      using False by (intro digits_of_eval(2) [symmetric]) simp
    finally show ?thesis .
  qed
qed

lemma showInt_code [code]: "showInt n = (if n < 0 then CHR ''-'' # digitsOfInt (- n) else digitsOfInt n)"
  by (simp add: showInt_def digitsOfInt_nat)

end
