(* ===== verification/CalendarDates.thy ===== *)
theory CalendarDates
  imports Prelude
begin

text \<open>
  The calendar arithmetic of src/src/modules/loans/domain/loan-dates.ts: dates are ISO strings
  (\<open>YYYY-MM-DD\<close>), parsed into year, month and day, measured through \<open>Date.UTC\<close>, and the
  length of a loan is reported as years, months and days.

  \<open>Date.UTC\<close> of the standard library is modelled by the formulas of the language standard
  (\<open>utcDay\<close> counts days instead of milliseconds, every product here being a whole number of
  days), with its rule that years 0 to 99 mean 1900 to 1999 (\<open>fullYear\<close>). The lemmas show that
  the month table and the day count agree, that the order of ISO strings is the order of the days
  they name, and that \<open>usageBetween\<close> splits an interval exactly.
\<close>

record calendarDate =
  cd_year :: int
  cd_month :: int
  cd_day :: int

definition fullYear :: "int \<Rightarrow> int" where
  "fullYear y = (if 0 \<le> y \<and> y \<le> 99 then 1900 + y else y)"

definition leapYear :: "int \<Rightarrow> bool" where
  "leapYear y = (y mod 4 = 0 \<and> (y mod 100 \<noteq> 0 \<or> y mod 400 = 0))"

definition dayFromYear :: "int \<Rightarrow> int" where
  "dayFromYear y = 365 * (y - 1970) + (y - 1969) div 4 - (y - 1901) div 100 + (y - 1601) div 400"

definition monthTable :: "bool \<Rightarrow> int \<Rightarrow> int" where
  "monthTable leap m =
     (if m = 1 then 0 else if m = 2 then 31
      else (if m = 3 then 59 else if m = 4 then 90 else if m = 5 then 120 else if m = 6 then 151
        else if m = 7 then 181 else if m = 8 then 212 else if m = 9 then 243 else if m = 10 then 273
        else if m = 11 then 304 else 334) + (if leap then 1 else 0))"

definition utcDay :: "int \<Rightarrow> int \<Rightarrow> int \<Rightarrow> int" where
  "utcDay y m d = dayFromYear (fullYear y) + monthTable (leapYear (fullYear y)) m + d - 1"

definition daysInMonth :: "int \<Rightarrow> int \<Rightarrow> int" where
  "daysInMonth y m =
     (if m = 2 then (if leapYear (fullYear y) then 29 else 28)
      else if m = 4 \<or> m = 6 \<or> m = 9 \<or> m = 11 then 30 else 31)"

definition isoShape :: "string \<Rightarrow> bool" where
  "isoShape s = (length s = 10 \<and> s ! 4 = CHR ''-'' \<and> s ! 7 = CHR ''-'' \<and>
     list_all isDigit (take 4 s) \<and> list_all isDigit (take 2 (drop 5 s)) \<and>
     list_all isDigit (take 2 (drop 8 s)))"

definition isoFields :: "string \<Rightarrow> calendarDate" where
  "isoFields s = \<lparr>cd_year = numberOf (take 4 s), cd_month = numberOf (take 2 (drop 5 s)),
     cd_day = numberOf (take 2 (drop 8 s))\<rparr>"

definition parseIso :: "string \<Rightarrow> calendarDate res" where
  "parseIso txt =
     (let s = take 10 txt in
      if \<not> isoShape s then throwError
      else (let date = isoFields s in
        if cd_month date < 1 \<or> 12 < cd_month date \<or> cd_day date < 1 \<or>
           daysInMonth (cd_year date) (cd_month date) < cd_day date then throwError
        else Inr date))"

definition toUtcDay :: "calendarDate \<Rightarrow> int" where
  "toUtcDay date = utcDay (cd_year date) (cd_month date) (cd_day date)"

definition addMonths :: "calendarDate \<Rightarrow> int \<Rightarrow> calendarDate" where
  "addMonths date months =
     (let index = cd_year date * 12 + (cd_month date - 1) + months;
          year = index div 12;
          month = jsRem index 12 + 1
      in \<lparr>cd_year = year, cd_month = month, cd_day = min (cd_day date) (daysInMonth year month)\<rparr>)"

record loanUsage =
  lu_years :: int
  lu_months :: int
  lu_days :: int
  lu_totalDays :: int
  lu_text :: string

definition unitText :: "int \<Rightarrow> string \<Rightarrow> string \<Rightarrow> string" where
  "unitText value singular plural = showInt value @ '' '' @ (if value = 1 then singular else plural)"

definition formatUsage :: "int \<Rightarrow> int \<Rightarrow> int \<Rightarrow> string" where
  "formatUsage years months days = joinWith '', ''
     [unitText years (''a'' @ [CHR 0xF1] @ ''o'') (''a'' @ [CHR 0xF1] @ ''os''),
      unitText months ''mes'' ''meses'',
      unitText days (''d'' @ [CHR 0xED] @ ''a'') (''d'' @ [CHR 0xED] @ ''as'')]"

text \<open>The \<open>while\<close> loop that gives months back while the anchor is past the end.\<close>

function lowerMonths :: "calendarDate \<Rightarrow> int \<Rightarrow> int \<Rightarrow> int" where
  "lowerMonths start endDay months =
     (if 0 < months \<and> endDay < toUtcDay (addMonths start months)
      then lowerMonths start endDay (months - 1) else months)"
  by pat_completeness auto
termination
  by (relation "measure (\<lambda>(start, endDay, months). nat months)") auto

declare lowerMonths.simps [simp del]

definition usageBetween :: "string \<Rightarrow> string \<Rightarrow> loanUsage option res" where
  "usageBetween from to =
     rbind (parseIso from) (\<lambda>start.
     rbind (parseIso to) (\<lambda>till.
       let endDay = toUtcDay till;
           totalDays = endDay - toUtcDay start
       in if totalDays < 0 then Inr None
          else (let months = lowerMonths start endDay
                      ((cd_year till - cd_year start) * 12 + (cd_month till - cd_month start));
                    days = endDay - toUtcDay (addMonths start months)
                in Inr (Some \<lparr>lu_years = months div 12, lu_months = jsRem months 12, lu_days = days,
                     lu_totalDays = totalDays,
                     lu_text = formatUsage (months div 12) (jsRem months 12) days\<rparr>))))"

definition daysOverdue :: "string \<Rightarrow> string \<Rightarrow> int res" where
  "daysOverdue expectedReturnDate today =
     rbind (parseIso today) (\<lambda>t. rbind (parseIso expectedReturnDate) (\<lambda>e.
       Inr (max 0 (toUtcDay t - toUtcDay e))))"

definition monthNames :: "string list" where
  "monthNames = [''ENERO'', ''FEBRERO'', ''MARZO'', ''ABRIL'', ''MAYO'', ''JUNIO'', ''JULIO'',
     ''AGOSTO'', ''SEPTIEMBRE'', ''OCTUBRE'', ''NOVIEMBRE'', ''DICIEMBRE'']"

definition longSpanishDate :: "string \<Rightarrow> string res" where
  "longSpanishDate txt = rbind (parseIso txt) (\<lambda>date.
     Inr (showInt (cd_day date) @ '' DE '' @ monthNames ! nat (cd_month date - 1) @ '' DE '' @
       showInt (cd_year date)))"

section \<open>The calendar\<close>

text \<open>
  Months are numbered consecutively (\<open>12 * year + month - 1\<close>, the \<open>index\<close> of the code);
  \<open>monthStart\<close> is the day number of the first of the month.
\<close>

definition monthStart :: "int \<Rightarrow> int" where
  "monthStart i = utcDay (i div 12) (i mod 12 + 1) 1"

definition monthLength :: "int \<Rightarrow> int" where
  "monthLength i = daysInMonth (i div 12) (i mod 12 + 1)"

lemma fullYear_id [simp]: "100 \<le> y \<Longrightarrow> fullYear y = y"
  by (simp add: fullYear_def)

lemma div_mult_add: "1 < n \<Longrightarrow> (n * q + r) div n = q + r div n" for n q r :: int
  by simp

lemma div_step:
  fixes x n :: int
  assumes n: "1 < n"
  shows "(x + 1) div n = x div n + (if n dvd x + 1 then 1 else 0)"
proof -
  define q where "q = x div n"
  define r where "r = x mod n"
  have b: "0 \<le> r" "r < n" using n by (simp_all add: r_def)
  have x: "x = n * q + r" by (simp add: q_def r_def)
  show ?thesis
  proof (cases "r + 1 = n")
    case True
    then have e: "x + 1 = n * (q + 1)" using x by (simp add: distrib_left)
    then have "n dvd x + 1" by simp
    moreover have "(x + 1) div n = q + 1" unfolding e using n by simp
    ultimately show ?thesis by (simp add: q_def)
  next
    case False
    then have z: "(r + 1) div n = 0" "(r + 1) mod n = r + 1" using b by simp_all
    have e: "x + 1 = n * q + (r + 1)" using x by simp
    have "(x + 1) div n = q" unfolding e div_mult_add [OF n] z by simp
    moreover have "(x + 1) mod n = r + 1" unfolding e using z by simp
    then have "\<not> n dvd x + 1" using b by (auto simp: dvd_eq_mod_eq_0)
    ultimately show ?thesis by (simp add: q_def)
  qed
qed

lemma leap_days:
  "c \<longrightarrow> b \<Longrightarrow> d \<longrightarrow> c \<Longrightarrow> 365 + (if b then 1 else 0) - (if c then 1 else 0) +
     (if d then 1 else 0) = (if b \<and> (\<not> c \<or> d) then 366 else 365 :: int)"
  by (cases b; cases c; cases d) simp_all

lemma dayFromYear_step: "dayFromYear (y + 1) = dayFromYear y + (if leapYear y then 366 else 365)"
proof -
  have four: "(4::int) dvd y - 1969 + 1 \<longleftrightarrow> y mod 4 = 0"
    using dvd_add_times_triv_right_iff [of 4 y "- 492"] by (simp add: dvd_eq_mod_eq_0)
  have hundred: "(100::int) dvd y - 1901 + 1 \<longleftrightarrow> y mod 100 = 0"
    using dvd_add_times_triv_right_iff [of 100 y "- 19"] by (simp add: dvd_eq_mod_eq_0)
  have quad: "(400::int) dvd y - 1601 + 1 \<longleftrightarrow> y mod 400 = 0"
    using dvd_add_times_triv_right_iff [of 400 y "- 4"] by (simp add: dvd_eq_mod_eq_0)
  have i1: "y mod 100 = 0 \<longrightarrow> y mod 4 = 0"
    using dvd_trans [of 4 100 y] by (simp add: dvd_eq_mod_eq_0)
  have i2: "y mod 400 = 0 \<longrightarrow> y mod 100 = 0"
    using dvd_trans [of 100 400 y] by (simp add: dvd_eq_mod_eq_0)
  have shift: "y + 1 - 1969 = y - 1969 + 1" "y + 1 - 1901 = y - 1901 + 1"
    "y + 1 - 1601 = y - 1601 + 1" "365 * (y + 1 - 1970) = 365 * (y - 1970) + 365" by simp_all
  have s: "(y - 1969 + 1) div 4 = (y - 1969) div 4 + (if y mod 4 = 0 then 1 else 0)"
    by (rule div_step [of 4 "y - 1969", unfolded four]) simp
  have t: "(y - 1901 + 1) div 100 = (y - 1901) div 100 + (if y mod 100 = 0 then 1 else 0)"
    by (rule div_step [of 100 "y - 1901", unfolded hundred]) simp
  have u: "(y - 1601 + 1) div 400 = (y - 1601) div 400 + (if y mod 400 = 0 then 1 else 0)"
    by (rule div_step [of 400 "y - 1601", unfolded quad]) simp
  have sum: "p + 365 + (a + a') - (b + b') + (c + c') = p + a - b + c + (365 + a' - b' + c')"
    for p a a' b b' c c' :: int by simp
  show ?thesis
    unfolding dayFromYear_def shift s t u sum leapYear_def
    by (subst leap_days [OF i1 i2]) (rule refl)
qed
lemma monthTable_step:
  assumes "1 \<le> m" "m < 12"
  shows "monthTable leap (m + 1) = monthTable leap m +
    (if m = 2 then (if leap then 29 else 28)
     else if m = 4 \<or> m = 6 \<or> m = 9 \<or> m = 11 then 30 else 31)"
proof -
  have "m = 1 \<or> m = 2 \<or> m = 3 \<or> m = 4 \<or> m = 5 \<or> m = 6 \<or> m = 7 \<or> m = 8 \<or> m = 9 \<or> m = 10 \<or> m = 11"
    using assms by presburger
  then show ?thesis by (auto simp: monthTable_def)
qed

lemma utcDay_first_step:
  "1 \<le> m \<Longrightarrow> m < 12 \<Longrightarrow> utcDay y (m + 1) 1 = utcDay y m 1 + daysInMonth y m"
  by (simp add: utcDay_def monthTable_step daysInMonth_def)

lemma utcDay_year_step:
  "100 \<le> y \<Longrightarrow> utcDay (y + 1) 1 1 = utcDay y 12 1 + daysInMonth y 12"
  by (simp add: utcDay_def daysInMonth_def monthTable_def dayFromYear_step)

lemma monthStart_step:
  assumes "1200 \<le> i"
  shows "monthStart (i + 1) = monthStart i + monthLength i"
proof (cases "i mod 12 = 11")
  case True
  then have "12 dvd i + 1" by presburger
  then have d: "(i + 1) div 12 = i div 12 + 1" "(i + 1) mod 12 = 0"
    using div_step [of 12 i] by simp_all
  have "100 \<le> i div 12" using assms by simp
  then show ?thesis unfolding monthStart_def monthLength_def d
    using True utcDay_year_step by simp
next
  case False
  then have "\<not> 12 dvd i + 1" by presburger
  then have q: "(i + 1) div 12 = i div 12" using div_step [of 12 i] by simp
  then have d: "(i + 1) div 12 = i div 12" "(i + 1) mod 12 = i mod 12 + 1"
    using div_mult_mod_eq [of "i + 1" 12] div_mult_mod_eq [of i 12] by linarith+
  have "i mod 12 < 12" "0 \<le> i mod 12" by simp_all
  then show ?thesis unfolding monthStart_def monthLength_def d
    using False utcDay_first_step [of "i mod 12 + 1" "i div 12"] by (simp add: add.commute)
qed

lemma monthLength_pos: "28 \<le> monthLength i"
  by (auto simp: monthLength_def daysInMonth_def)

lemma monthStart_mono:
  assumes "1200 \<le> i" "i \<le> j"
  shows "monthStart i \<le> monthStart j"
  using assms(2)
proof (induction rule: int_ge_induct)
  case (step k)
  then show ?case using assms(1) monthStart_step [of k] monthLength_pos [of k] by simp
qed simp

lemma monthStart_next: "1200 \<le> i \<Longrightarrow> i < j \<Longrightarrow> monthStart i + monthLength i \<le> monthStart j"
  using monthStart_mono [of "i + 1" j] by (simp add: monthStart_step)

text \<open>A date in index form: the day number is the start of its month plus the day of the month.\<close>

definition validDate :: "calendarDate \<Rightarrow> bool" where
  "validDate d = (100 \<le> cd_year d \<and> 1 \<le> cd_month d \<and> cd_month d \<le> 12 \<and> 1 \<le> cd_day d \<and>
     cd_day d \<le> daysInMonth (cd_year d) (cd_month d))"

definition monthIndex :: "calendarDate \<Rightarrow> int" where
  "monthIndex d = cd_year d * 12 + (cd_month d - 1)"

lemma monthIndex_fields:
  assumes "validDate d"
  shows "monthIndex d div 12 = cd_year d" "monthIndex d mod 12 + 1 = cd_month d"
    "1200 \<le> monthIndex d"
proof -
  define r where "r = cd_month d - 1"
  have r: "0 \<le> r" "r < 12" using assms by (simp_all add: validDate_def r_def)
  show "monthIndex d div 12 = cd_year d" "monthIndex d mod 12 + 1 = cd_month d"
    using r by (simp_all add: monthIndex_def flip: r_def) (simp add: r_def)
  show "1200 \<le> monthIndex d" using assms by (simp add: monthIndex_def validDate_def)
qed

lemma toUtcDay_index: "validDate d \<Longrightarrow> toUtcDay d = monthStart (monthIndex d) + cd_day d - 1"
  by (simp add: toUtcDay_def monthStart_def monthIndex_fields utcDay_def)

lemma day_le_length: "validDate d \<Longrightarrow> cd_day d \<le> monthLength (monthIndex d) \<and> 1 \<le> cd_day d"
  by (simp add: monthLength_def monthIndex_fields) (simp add: validDate_def)

lemma toUtcDay_addMonths:
  assumes "1200 \<le> monthIndex d + k"
  shows "toUtcDay (addMonths d k) =
    monthStart (monthIndex d + k) + min (cd_day d) (monthLength (monthIndex d + k)) - 1"
  using assms by (simp add: addMonths_def toUtcDay_def monthStart_def monthLength_def Let_def utcDay_def
      flip: monthIndex_def)

lemma addMonths_bounds:
  assumes "validDate d" "1200 \<le> monthIndex d + k"
  shows "monthStart (monthIndex d + k) \<le> toUtcDay (addMonths d k)"
    "toUtcDay (addMonths d k) < monthStart (monthIndex d + k) + monthLength (monthIndex d + k)"
  using day_le_length [OF assms(1)] monthLength_pos [of "monthIndex d + k"]
  by (simp_all add: toUtcDay_addMonths assms(2))

lemma toUtcDay_bounds:
  assumes "validDate d"
  shows "monthStart (monthIndex d) \<le> toUtcDay d"
    "toUtcDay d < monthStart (monthIndex d) + monthLength (monthIndex d)"
  using day_le_length [OF assms] by (simp_all add: toUtcDay_index assms)

lemma addMonths_0: "validDate d \<Longrightarrow> toUtcDay (addMonths d 0) = toUtcDay d"
  using day_le_length [of d] by (simp add: toUtcDay_addMonths toUtcDay_index monthIndex_fields)

lemma addMonths_strict_mono:
  assumes "validDate d" "0 \<le> k" "k < l"
  shows "toUtcDay (addMonths d k) < toUtcDay (addMonths d l)"
proof -
  have i: "1200 \<le> monthIndex d + k" "1200 \<le> monthIndex d + l"
    using assms monthIndex_fields(3) by fastforce+
  show ?thesis
    using addMonths_bounds(2) [OF assms(1) i(1)] addMonths_bounds(1) [OF assms(1) i(2)]
      monthStart_next [OF i(1), of "monthIndex d + l"] assms(3) by simp
qed

lemma monthIndex_le:
  assumes "validDate s" "validDate e" "toUtcDay s \<le> toUtcDay e"
  shows "monthIndex s \<le> monthIndex e"
proof (rule ccontr)
  assume "\<not> ?thesis"
  then have "monthStart (monthIndex e) + monthLength (monthIndex e) \<le> monthStart (monthIndex s)"
    using monthStart_next [of "monthIndex e" "monthIndex s"] monthIndex_fields(3) [OF assms(2)]
    by simp
  then show False using toUtcDay_bounds(2) [OF assms(2)] toUtcDay_bounds(1) [OF assms(1)] assms(3)
    by simp
qed

lemma lowerMonths_spec:
  fixes M :: int
  assumes "r = lowerMonths s endDay M" "0 \<le> M"
  shows "0 \<le> r \<and> r \<le> M \<and> (0 < r \<longrightarrow> toUtcDay (addMonths s r) \<le> endDay) \<and>
    (\<forall>k. r < k \<and> k \<le> M \<longrightarrow> endDay < toUtcDay (addMonths s k))"
  using assms
proof (induction s endDay M arbitrary: r rule: lowerMonths.induct)
  case (1 s endDay M)
  show ?case
  proof (cases "0 < M \<and> endDay < toUtcDay (addMonths s M)")
    case True
    then have r: "r = lowerMonths s endDay (M - 1)"
      using 1(2) lowerMonths.simps [of s endDay M] by simp
    have "0 \<le> r \<and> r \<le> M - 1 \<and> (0 < r \<longrightarrow> toUtcDay (addMonths s r) \<le> endDay) \<and>
      (\<forall>k. r < k \<and> k \<le> M - 1 \<longrightarrow> endDay < toUtcDay (addMonths s k))"
      using 1(1) [OF True r] True by simp
    moreover have "k = M" if "k \<le> M" "\<not> k \<le> M - 1" for k :: int using that by simp
    ultimately show ?thesis using True by (metis order_trans zle_diff1_eq less_le)
  next
    case False
    then have "r = M" using 1(2) by (simp only: lowerMonths.simps [of s endDay M] if_False)
    then show ?thesis using 1(3) False by auto
  qed
qed

text \<open>The anchor the loop finds is the last monthly anniversary that is not past the end.\<close>

lemma anchor_exact:
  assumes v: "validDate s" "validDate e" "toUtcDay s \<le> toUtcDay e"
    and r: "r = lowerMonths s (toUtcDay e) (monthIndex e - monthIndex s)"
  shows "0 \<le> r" "toUtcDay (addMonths s r) \<le> toUtcDay e"
    "toUtcDay e < toUtcDay (addMonths s (r + 1))"
proof -
  let ?M = "monthIndex e - monthIndex s"
  have M: "0 \<le> ?M" using monthIndex_le [OF v] by simp
  note spec = lowerMonths_spec [OF r M]
  show "0 \<le> r" using spec by simp
  show "toUtcDay (addMonths s r) \<le> toUtcDay e"
    using spec v(3) addMonths_0 [OF v(1)] by (cases "r = 0") auto
  have "toUtcDay e < toUtcDay (addMonths s (?M + 1))"
    using toUtcDay_bounds(2) [OF v(2)] addMonths_bounds(1) [OF v(1), of "?M + 1"]
      monthStart_step [of "monthIndex e"] monthIndex_fields(3) [OF v(2)] by simp
  then show "toUtcDay e < toUtcDay (addMonths s (r + 1))"
    using spec by (cases "r = ?M") auto
qed

lemma parseIso_valid:
  "parseIso txt = Inr d \<Longrightarrow> 100 \<le> cd_year d \<Longrightarrow> validDate d"
  by (auto simp: parseIso_def validDate_def Let_def split: if_splits)

section \<open>Instants\<close>

text \<open>
  \<open>Date\<close> values are integers (milliseconds since the epoch). \<open>toISOString\<close> is the method of
  that name; \<open>localeIsoDate\<close> (src/src/shared/dates/locale-iso-date.ts) formats the civil date in
  \<open>America/Bogota\<close>, which is five hours behind UTC all year.
\<close>

function yearUp :: "int \<Rightarrow> int \<Rightarrow> int" where
  "yearUp y d = (if dayFromYear (y + 1) \<le> d then yearUp (y + 1) d else y)"
  by pat_completeness auto
termination
  by (relation "measure (\<lambda>(y, d). nat (d + 1 - dayFromYear y))") (auto simp: dayFromYear_step split: if_splits)

declare yearUp.simps [simp del]

definition yearFromDay :: "int \<Rightarrow> int" where
  "yearFromDay d = yearUp (1970 + (if 0 \<le> d then d div 366 else d div 365)) d"

definition monthOfDay :: "bool \<Rightarrow> int \<Rightarrow> int" where
  "monthOfDay leap n =
     (case List.find (\<lambda>m. monthTable leap m \<le> n) [12, 11, 10, 9, 8, 7, 6, 5, 4, 3, 2] of
        Some m \<Rightarrow> m | None \<Rightarrow> 1)"

definition civilDate :: "int \<Rightarrow> calendarDate" where
  "civilDate d =
     (let y = yearFromDay d; n = d - dayFromYear y; m = monthOfDay (leapYear y) n
      in \<lparr>cd_year = y, cd_month = m, cd_day = n - monthTable (leapYear y) m + 1\<rparr>)"

definition padStart :: "nat \<Rightarrow> string \<Rightarrow> string" where
  "padStart n s = replicate (n - length s) (CHR ''0'') @ s"

definition isoDateText :: "calendarDate \<Rightarrow> string" where
  "isoDateText d = padStart 4 (showInt (cd_year d)) @ ''-'' @ padStart 2 (showInt (cd_month d)) @
     ''-'' @ padStart 2 (showInt (cd_day d))"

definition toISOString :: "int \<Rightarrow> string" where
  "toISOString t =
     (let ms = t mod 86400000 in
      isoDateText (civilDate (t div 86400000)) @ ''T'' @ padStart 2 (showInt (ms div 3600000)) @
        '':'' @ padStart 2 (showInt (ms div 60000 mod 60)) @ '':'' @
        padStart 2 (showInt (ms div 1000 mod 60)) @ ''.'' @ padStart 3 (showInt (ms mod 1000)) @ ''Z'')"

definition localeIsoDate :: "int \<Rightarrow> string" where
  "localeIsoDate t = isoDateText (civilDate ((t - 18000000) div 86400000))"

section \<open>The order of ISO strings\<close>

lemma numberOf_bounds:
  "list_all isDigit s \<Longrightarrow> 0 \<le> numberOf s \<and> numberOf s < 10 ^ length s"
proof (induction s)
  case (Cons c cs)
  then have d: "0 \<le> (of_char c :: int) - 48" "(of_char c :: int) - 48 \<le> 9"
    by (simp_all add: isDigit_iff)
  have "((of_char c :: int) - 48) * 10 ^ length cs \<le> 9 * 10 ^ length cs"
    using d(2) by (rule mult_right_mono) simp
  moreover have "0 \<le> ((of_char c :: int) - 48) * 10 ^ length cs" using d(1) by simp
  moreover have "0 \<le> numberOf cs" "numberOf cs < 10 ^ length cs" using Cons by simp_all
  moreover have "(10::int) ^ length (c # cs) = 10 * 10 ^ length cs" by simp
  ultimately show ?case unfolding numberOf.simps by linarith
qed simp

lemma digit_positional:
  fixes p q x y b :: int
  assumes "0 \<le> x" "x < b" "0 \<le> y" "y < b"
  shows "p * b + x < q * b + y \<longleftrightarrow> p < q \<or> p = q \<and> x < y"
proof -
  have step: "p * b + x < q * b + y" if "p < q" "x < b" "0 \<le> y" for p q x y :: int
  proof -
    have "p * b + b \<le> q * b"
      using that(1) assms mult_right_mono [of "p + 1" q b] by (simp add: distrib_right)
    then show ?thesis using that by simp
  qed
  show ?thesis using assms step [of p q x y] step [of q p y x] by (cases p q rule: linorder_cases) auto
qed

lemma numberOf_less:
  "length a = length b \<Longrightarrow> list_all isDigit a \<Longrightarrow> list_all isDigit b \<Longrightarrow>
     (a < b \<longleftrightarrow> numberOf a < numberOf b) \<and> (a = b \<longleftrightarrow> numberOf a = numberOf b)"
proof (induction a b rule: list_induct2)
  case (Cons c cs d ds)
  have "numberOf cs < 10 ^ length ds" "0 \<le> numberOf cs" "numberOf ds < 10 ^ length ds" "0 \<le> numberOf ds"
    using Cons.prems Cons.hyps numberOf_bounds [of cs] numberOf_bounds [of ds] by auto
  note pos = digit_positional [OF this(2,1,4,3)] digit_positional [OF this(4,3,2,1)]
  have lt: "c < d \<longleftrightarrow> (of_char c :: int) - 48 < of_char d - 48"
    by (simp add: of_char_int)
  have eq: "c = d \<longleftrightarrow> (of_char c :: int) - 48 = of_char d - 48" by simp
  have IH: "cs < ds \<longleftrightarrow> numberOf cs < numberOf ds" "cs = ds \<longleftrightarrow> numberOf cs = numberOf ds"
    using Cons.IH Cons.prems by simp_all
  have less: "c # cs < d # ds \<longleftrightarrow> numberOf (c # cs) < numberOf (d # ds)"
    unfolding numberOf.simps Cons.hyps pos(1) using lt eq IH by simp
  have "d # ds < c # cs \<longleftrightarrow> numberOf (d # ds) < numberOf (c # cs)"
    unfolding numberOf.simps Cons.hyps pos(2)
    using of_char_int(1) [of d c] eq Cons.IH Cons.prems by (auto simp: not_less_iff_gr_or_eq)
  then show ?case using less by (metis less_irrefl neqE)
qed simp

lemma append_less:
  fixes a c :: "'x :: linorder list"
  shows "length a = length c \<Longrightarrow> a @ b < c @ d \<longleftrightarrow> a < c \<or> a = c \<and> b < d"
  by (induction a c rule: list_induct2) auto

lemma isoShape_split:
  assumes "isoShape s"
  shows "s = take 4 s @ CHR ''-'' # take 2 (drop 5 s) @ CHR ''-'' # take 2 (drop 8 s)"
proof -
  have l: "length s = 10" and d: "s ! 4 = CHR ''-''" "s ! 7 = CHR ''-''"
    using assms by (simp_all add: isoShape_def)
  have "s = take 4 s @ drop 4 s" by simp
  also have "drop 4 s = s ! 4 # drop 5 s" using l Cons_nth_drop_Suc [of 4 s] by simp
  also have "drop 5 s = take 2 (drop 5 s) @ drop 7 s"
    using append_take_drop_id [of 2 "drop 5 s"] by simp
  also have "drop 7 s = s ! 7 # drop 8 s" using l Cons_nth_drop_Suc [of 7 s] by simp
  also have "drop 8 s = take 2 (drop 8 s)" using l by simp
  finally show ?thesis unfolding d by simp
qed

lemma isoFields_less:
  assumes "isoShape a" "isoShape b" and "x = isoFields a" "y = isoFields b"
  shows "a < b \<longleftrightarrow> cd_year x < cd_year y \<or> cd_year x = cd_year y \<and>
    (cd_month x < cd_month y \<or> cd_month x = cd_month y \<and> cd_day x < cd_day y)"
proof -
  have l: "length (take 4 a) = length (take 4 b)"
    "length (take 2 (drop 5 a)) = length (take 2 (drop 5 b))"
    "length (take 2 (drop 8 a)) = length (take 2 (drop 8 b))"
    using assms(1,2) by (simp_all add: isoShape_def)
  note digits = assms(1,2) [unfolded isoShape_def]
  have n: "take 4 a < take 4 b \<longleftrightarrow> numberOf (take 4 a) < numberOf (take 4 b)"
    "take 4 a = take 4 b \<longleftrightarrow> numberOf (take 4 a) = numberOf (take 4 b)"
    "take 2 (drop 5 a) < take 2 (drop 5 b) \<longleftrightarrow>
      numberOf (take 2 (drop 5 a)) < numberOf (take 2 (drop 5 b))"
    "take 2 (drop 5 a) = take 2 (drop 5 b) \<longleftrightarrow>
      numberOf (take 2 (drop 5 a)) = numberOf (take 2 (drop 5 b))"
    "take 2 (drop 8 a) < take 2 (drop 8 b) \<longleftrightarrow>
      numberOf (take 2 (drop 8 a)) < numberOf (take 2 (drop 8 b))"
    using numberOf_less [OF l(1)] numberOf_less [OF l(2)] numberOf_less [OF l(3)] digits by blast+
  have "a < b \<longleftrightarrow> take 4 a < take 4 b \<or> take 4 a = take 4 b \<and>
    (take 2 (drop 5 a) < take 2 (drop 5 b) \<or> take 2 (drop 5 a) = take 2 (drop 5 b) \<and>
     take 2 (drop 8 a) < take 2 (drop 8 b))"
    by (subst isoShape_split [OF assms(1)], subst isoShape_split [OF assms(2)])
      (simp only: append_less [OF l(1)] append_less [OF l(2)] Cons_less_Cons less_irrefl
        simp_thms)
  then show ?thesis by (simp only: n assms(3,4) isoFields_def calendarDate.simps)
qed

lemma toUtcDay_less:
  assumes "validDate x" "validDate y"
  shows "toUtcDay x < toUtcDay y \<longleftrightarrow> cd_year x < cd_year y \<or> cd_year x = cd_year y \<and>
    (cd_month x < cd_month y \<or> cd_month x = cd_month y \<and> cd_day x < cd_day y)"
proof -
  have idx: "monthIndex x < monthIndex y \<longleftrightarrow>
    cd_year x < cd_year y \<or> cd_year x = cd_year y \<and> cd_month x < cd_month y"
    using digit_positional [of "cd_month x - 1" 12 "cd_month y - 1" "cd_year x" "cd_year y"] assms
    by (simp add: validDate_def monthIndex_def)
  have eq: "monthIndex x = monthIndex y \<longleftrightarrow> cd_year x = cd_year y \<and> cd_month x = cd_month y"
    using monthIndex_fields(1,2) [OF assms(1)] monthIndex_fields(1,2) [OF assms(2)]
    by (metis monthIndex_def)
  have next_month: "toUtcDay u < toUtcDay v" if "validDate u" "validDate v" "monthIndex u < monthIndex v" for u v
    using toUtcDay_bounds(2) [OF that(1)] toUtcDay_bounds(1) [OF that(2)]
      monthStart_next [OF monthIndex_fields(3) [OF that(1)] that(3)] by simp
  consider "monthIndex x < monthIndex y" | "monthIndex x = monthIndex y" | "monthIndex y < monthIndex x"
    by linarith
  then show ?thesis
  proof cases
    case 1
    then show ?thesis using next_month [OF assms 1] idx by auto
  next
    case 2
    then show ?thesis using eq toUtcDay_index [OF assms(1)] toUtcDay_index [OF assms(2)] by auto
  next
    case 3
    then show ?thesis using next_month [OF assms(2,1) 3] idx eq by auto
  qed
qed

lemma parseIso_InrD:
  assumes "parseIso txt = Inr d"
  shows "isoShape (take 10 txt) \<and> d = isoFields (take 10 txt)"
  using assms by (auto simp: parseIso_def Let_def split: if_splits)

lemma iso_less:
  assumes "parseIso a = Inr x" "parseIso b = Inr y" "100 \<le> cd_year x" "100 \<le> cd_year y"
  shows "take 10 a < take 10 b \<longleftrightarrow> toUtcDay x < toUtcDay y"
  using isoFields_less [of "take 10 a" "take 10 b" x y] parseIso_InrD [OF assms(1)]
    parseIso_InrD [OF assms(2)] toUtcDay_less [OF parseIso_valid [OF assms(1,3)] parseIso_valid [OF assms(2,4)]]
  by simp

lemmas iso_evaluation = parseIso_def isoShape_def isoFields_def isDigit_def daysInMonth_def
  leapYear_def fullYear_def toUtcDay_def utcDay_def dayFromYear_def monthTable_def Let_def

section \<open>Properties\<close>

text \<open>
  C26. For two readable dates from year 100 on, in order, \<open>usageBetween\<close> returns the exact split
  of the interval: months below 12, non-negative days, the start moved forward by the reported
  years and months plus the reported days is the end date, one more month would overshoot it,
  and \<open>totalDays\<close> is the number of days between the dates.
\<close>

theorem usageBetween_exact:
  assumes "parseIso from = Inr s" "parseIso to = Inr e"
    and "100 \<le> cd_year s" "100 \<le> cd_year e" "toUtcDay s \<le> toUtcDay e"
  shows "\<exists>u. usageBetween from to = Inr (Some u) \<and> 0 \<le> lu_years u \<and> 0 \<le> lu_months u \<and>
    lu_months u < 12 \<and> 0 \<le> lu_days u \<and>
    toUtcDay (addMonths s (12 * lu_years u + lu_months u)) + lu_days u = toUtcDay e \<and>
    toUtcDay e < toUtcDay (addMonths s (12 * lu_years u + lu_months u + 1)) \<and>
    lu_totalDays u = toUtcDay e - toUtcDay s"
proof -
  have v: "validDate s" "validDate e" using parseIso_valid assms by blast+
  define r where "r = lowerMonths s (toUtcDay e) (monthIndex e - monthIndex s)"
  note a = anchor_exact [OF v assms(5) r_def]
  have "lowerMonths s (toUtcDay e) ((cd_year e - cd_year s) * 12 + (cd_month e - cd_month s)) = r"
    by (simp add: r_def monthIndex_def algebra_simps)
  then have "usageBetween from to = Inr (Some \<lparr>lu_years = r div 12, lu_months = jsRem r 12,
      lu_days = toUtcDay e - toUtcDay (addMonths s r), lu_totalDays = toUtcDay e - toUtcDay s,
      lu_text = formatUsage (r div 12) (jsRem r 12) (toUtcDay e - toUtcDay (addMonths s r))\<rparr>)"
    using assms(1,2,5) by (simp add: usageBetween_def Let_def)
  then show ?thesis using a by (simp add: pos_imp_zdiv_nonneg_iff)
qed

theorem usageBetween_exact_witness:
  "\<exists>u. usageBetween ''2024-01-31'' ''2025-03-01'' = Inr (Some u) \<and> lu_months u < 12"
  using usageBetween_exact [of "''2024-01-31''" "\<lparr>cd_year = 2024, cd_month = 1, cd_day = 31\<rparr>"
    "''2025-03-01''" "\<lparr>cd_year = 2025, cd_month = 3, cd_day = 1\<rparr>"]
  by (auto simp: iso_evaluation)

text \<open>
  The lexicographic order of two readable ISO dates (the comparison the services use on
  stored dates) is the chronological order of the days they name.
\<close>

theorem iso_order_is_day_order:
  assumes "parseIso a = Inr x" "parseIso b = Inr y" "100 \<le> cd_year x" "100 \<le> cd_year y"
  shows "take 10 a < take 10 b \<longleftrightarrow> toUtcDay x < toUtcDay y"
  using iso_less [OF assms] .

theorem iso_order_is_day_order_witness:
  "take 10 ''2024-02-29T10'' < take 10 ''2024-03-01'' \<and> (utcDay 2024 2 29 < utcDay 2024 3 1)"
  using iso_order_is_day_order [of "''2024-02-29T10''" "\<lparr>cd_year = 2024, cd_month = 2, cd_day = 29\<rparr>"
    "''2024-03-01''" "\<lparr>cd_year = 2024, cd_month = 3, cd_day = 1\<rparr>"]
  by (simp add: iso_evaluation)

text \<open>
  A loan is overdue by a positive number of days exactly when its expected return date is
  before today as an ISO string; the count is then the number of days elapsed, and zero otherwise.
\<close>

theorem daysOverdue_counts_days:
  assumes "parseIso expected = Inr x" "parseIso today = Inr y"
    and "100 \<le> cd_year x" "100 \<le> cd_year y"
  shows "\<exists>n. daysOverdue expected today = Inr n \<and>
    (take 10 expected < take 10 today \<longrightarrow> n = toUtcDay y - toUtcDay x \<and> 0 < n) \<and>
    (\<not> take 10 expected < take 10 today \<longrightarrow> n = 0)"
  using assms iso_less [OF assms] by (simp add: daysOverdue_def)

theorem daysOverdue_counts_days_witness:
  "\<exists>n. daysOverdue ''2024-02-27'' ''2024-03-01'' = Inr n \<and> 0 < n"
  using daysOverdue_counts_days [of "''2024-02-27''" "\<lparr>cd_year = 2024, cd_month = 2, cd_day = 27\<rparr>"
    "''2024-03-01''" "\<lparr>cd_year = 2024, cd_month = 3, cd_day = 1\<rparr>"]
  by (auto simp: iso_evaluation)

end
