(* ===== verification/Json.thy ===== *)
theory Json
  imports Prelude "HOL-Library.Multiset"
begin

text \<open>
  The JSON values the services keep in \<open>jsonb\<close> columns and the canonical text the movement
  ledger signs (\<open>canonicalJson\<close> of src/src/modules/movements/crypto/sign-movement.ts). Numbers
  are integers: every number the modelled operations write is one. The lemmas show that the
  canonical text does not depend on the order of the keys of an object, and that it determines
  the value: two values with the same canonical text differ only in the order of their keys.
\<close>

datatype json =
    JNull
  | JBool bool
  | JNum int
  | JStr string
  | JArr "json list"
  | JObj "(string \<times> json) list"

text \<open>A key read with \<open>value?.[key]\<close>, and \<open>{...value, [key]: item}\<close>.\<close>

definition jget :: "string \<Rightarrow> json \<Rightarrow> json option" where
  "jget key value = (case value of JObj es \<Rightarrow> map_of es key | _ \<Rightarrow> None)"

fun jput :: "(string \<times> json) list \<Rightarrow> string \<Rightarrow> json \<Rightarrow> (string \<times> json) list" where
  "jput [] key item = [(key, item)]"
| "jput ((k, v) # es) key item = (if k = key then (k, item) # es else (k, v) # jput es key item)"

definition hexDigit :: "nat \<Rightarrow> char" where
  "hexDigit n = (if n < 10 then char_of (n + 48) else char_of (n + 87))"

text \<open>The escapes of \<open>JSON.stringify\<close> on a string.\<close>

definition escapeChar :: "char \<Rightarrow> string" where
  "escapeChar c =
     (if c = CHR 0x22 then [CHR 0x5C, CHR 0x22]
      else if c = CHR 0x5C then [CHR 0x5C, CHR 0x5C]
      else if c = CHR 0x08 then [CHR 0x5C, CHR ''b'']
      else if c = CHR 0x0C then [CHR 0x5C, CHR ''f'']
      else if c = CHR 0x0A then [CHR 0x5C, CHR ''n'']
      else if c = CHR 0x0D then [CHR 0x5C, CHR ''r'']
      else if c = CHR 0x09 then [CHR 0x5C, CHR ''t'']
      else if c < CHR '' '' then
        [CHR 0x5C, CHR ''u'', CHR ''0'', CHR ''0'', hexDigit (of_char c div 16), hexDigit (of_char c mod 16)]
      else [c])"

definition jsonString :: "string \<Rightarrow> string" where
  "jsonString s = CHR 0x22 # concat (map escapeChar s) @ [CHR 0x22]"

fun canonicalJson :: "json \<Rightarrow> string" where
  "canonicalJson JNull = ''null''"
| "canonicalJson (JBool b) = (if b then ''true'' else ''false'')"
| "canonicalJson (JNum n) = showInt n"
| "canonicalJson (JStr s) = jsonString s"
| "canonicalJson (JArr xs) = ''['' @ joinWith '','' (map canonicalJson xs) @ '']''"
| "canonicalJson (JObj es) =
     ''{'' @ joinWith '','' (map (\<lambda>(key, item). jsonString key @ '':'' @ item)
       (sort_key fst (map (\<lambda>(key, item). (key, canonicalJson item)) es))) @ ''}''"

section \<open>The value a canonical text stands for\<close>

text \<open>The same value with the keys of every object in order, and its text without sorting.\<close>

fun sortKeys :: "json \<Rightarrow> json" where
  "sortKeys (JArr xs) = JArr (map sortKeys xs)"
| "sortKeys (JObj es) = JObj (sort_key fst (map (\<lambda>(key, item). (key, sortKeys item)) es))"
| "sortKeys j = j"

fun plainJson :: "json \<Rightarrow> string" where
  "plainJson JNull = ''null''"
| "plainJson (JBool b) = (if b then ''true'' else ''false'')"
| "plainJson (JNum n) = showInt n"
| "plainJson (JStr s) = jsonString s"
| "plainJson (JArr xs) = ''['' @ joinWith '','' (map plainJson xs) @ '']''"
| "plainJson (JObj es) =
     ''{'' @ joinWith '','' (map (\<lambda>(key, item). jsonString key @ '':'' @ plainJson item) es) @ ''}''"

lemma insort_key_map_snd:
  "insort_key fst (k, g v) (map (\<lambda>(k, v). (k, g v)) es) =
     map (\<lambda>(k, v). (k, g v)) (insort_key fst (k, v) es)"
  by (induction es) auto

lemma sort_key_map_snd:
  "sort_key fst (map (\<lambda>(k, v). (k, g v)) es) = map (\<lambda>(k, v). (k, g v)) (sort_key fst es)"
proof (induction es)
  case (Cons e es)
  then show ?case by (cases e) (simp add: insort_key_map_snd)
qed simp

lemma canonicalJson_plain: "canonicalJson j = plainJson (sortKeys j)"
proof (induction j)
  case (JObj es)
  have "map (\<lambda>e. jsonString (fst e) @ '':'' @ canonicalJson (snd e)) (sort_key fst es) =
      map (\<lambda>e. jsonString (fst e) @ '':'' @ plainJson (sortKeys (snd e))) (sort_key fst es)"
    by (rule map_cong [OF refl]) (use JObj in \<open>auto split: prod.splits\<close>)
  then show ?case
    by (simp only: canonicalJson.simps sortKeys.simps plainJson.simps sort_key_map_snd map_map
        comp_def case_prod_beta fst_conv snd_conv)
qed (simp_all cong: map_cong)

lemma sortKeys_permuted:
  assumes "mset es = mset fs" "distinct (map fst es)"
  shows "sortKeys (JObj es) = sortKeys (JObj fs)"
proof -
  have "sort_key fst es = sort_key fst fs"
    by (rule sort_key_inj_key_eq) (use assms in \<open>auto simp: distinct_map\<close>)
  then show ?thesis by (simp add: sort_key_map_snd)
qed

section \<open>Reading a text back\<close>

definition delim :: "string \<Rightarrow> bool" where
  "delim r = (r = [] \<or> hd r \<in> {CHR '','', CHR '']'', CHR ''}''})"

lemma takeWhile_digits:
  assumes "list_all isDigit a" "r = [] \<or> \<not> isDigit (hd r)"
  shows "takeWhile isDigit (a @ r) = a" "dropWhile isDigit (a @ r) = r"
  using assms by (induction a; cases r; auto)+

lemma delim_not_digit: "delim r \<Longrightarrow> r = [] \<or> \<not> isDigit (hd r)"
  by (auto simp: delim_def isDigit_def less_eq_char_def)

lemma digits_read:
  assumes "delim r" "delim u" "digits_of m @ r = digits_of n @ u"
  shows "m = n \<and> r = u"
  using takeWhile_digits [OF digits_of_isDigit [of m] delim_not_digit [OF assms(1)]]
    takeWhile_digits [OF digits_of_isDigit [of n] delim_not_digit [OF assms(2)]] assms(3)
  by (metis digits_of_inject)

lemma digits_of_hd: "isDigit (hd (digits_of n))"
  using digits_of_isDigit [of n] digits_of_not_Nil [of n] by (cases "digits_of n") auto

lemma digits_no_minus: "digits_of k @ s \<noteq> CHR ''-'' # t"
  using digits_of_hd [of k] digits_of_not_Nil [of k]
  by (cases "digits_of k") (auto simp: isDigit_def less_eq_char_def)

lemma showInt_read:
  assumes "delim r" "delim u" "showInt m @ r = showInt n @ u"
  shows "m = n \<and> r = u"
proof (cases "m < 0"; cases "n < 0")
  assume "m < 0" "n < 0"
  then show ?thesis using assms(3) digits_read [OF assms(1,2), of "nat (- m)" "nat (- n)"]
    by (simp add: showInt_def eq_nat_nat_iff)
next
  assume "\<not> m < 0" "\<not> n < 0"
  then show ?thesis using assms(3) digits_read [OF assms(1,2), of "nat m" "nat n"]
    by (simp add: showInt_def eq_nat_nat_iff)
next
  assume "m < 0" "\<not> n < 0"
  then show ?thesis using assms(3) digits_no_minus [of "nat n" u] by (simp add: showInt_def) metis
next
  assume "\<not> m < 0" "n < 0"
  then show ?thesis using assms(3) digits_no_minus [of "nat m" r] by (simp add: showInt_def)
qed

lemma escapeChar_hd: "escapeChar c \<noteq> []" "hd (escapeChar c) \<noteq> CHR 0x22"
  by (auto simp: escapeChar_def)

lemma of_char_less_32: "c < CHR '' '' \<longleftrightarrow> (of_char c :: nat) < 32"
  by (simp add: less_char_def)

lemma hexDigit_inject: "m < 16 \<Longrightarrow> n < 16 \<Longrightarrow> hexDigit m = hexDigit n \<longleftrightarrow> m = n"
proof -
  assume bounds: "m < 16" "n < 16"
  have code: "(of_char (hexDigit k) :: nat) = (if k < 10 then k + 48 else k + 87)" if "k < 16" for k
    using that by (simp add: hexDigit_def)
  show ?thesis
  proof
    assume "hexDigit m = hexDigit n"
    then have "(if m < 10 then m + 48 else m + 87) = (if n < 10 then n + 48 else n + 87)"
      using code bounds by metis
    then show "m = n" using bounds by (simp split: if_splits)
  qed simp
qed

lemma hex_pair_inject:
  assumes "m < 256" "n < 256"
  shows "hexDigit (m div 16) = hexDigit (n div 16) \<and> hexDigit (m mod 16) = hexDigit (n mod 16) \<longleftrightarrow> m = n"
proof -
  have "m div 16 < 16" "n div 16 < 16" using assms by (simp_all add: div_less_iff_less_mult)
  then have "hexDigit (m div 16) = hexDigit (n div 16) \<and> hexDigit (m mod 16) = hexDigit (n mod 16)
      \<longleftrightarrow> m div 16 = n div 16 \<and> m mod 16 = n mod 16"
    by (simp add: hexDigit_inject)
  also have "\<dots> \<longleftrightarrow> m = n" using div_mult_mod_eq [of m 16] div_mult_mod_eq [of n 16] by metis
  finally show ?thesis .
qed

lemma escapeChar_read:
  assumes "escapeChar c @ r = escapeChar d @ u"
  shows "c = d \<and> r = u"
proof -
  have b: "(of_char c :: nat) < 256" "(of_char d :: nat) < 256" by simp_all
  have eq: "(of_char c :: nat) = of_char d \<Longrightarrow> c = d" by simp
  show ?thesis
    using assms hex_pair_inject [OF b] eq
    by (auto simp: escapeChar_def split: if_splits)
qed

lemma escapeChar_cons: "\<exists>c' cs. escapeChar c = c' # cs \<and> c' \<noteq> CHR 0x22"
  by (auto simp: escapeChar_def)

lemma escaped_read:
  "concat (map escapeChar s) @ CHR 0x22 # r = concat (map escapeChar t) @ CHR 0x22 # u \<Longrightarrow>
     s = t \<and> r = u"
proof (induction s arbitrary: t)
  case Nil
  then show ?case
  proof (cases t)
    case (Cons d ds)
    then show ?thesis using Nil escapeChar_cons [of d] by auto
  qed simp
next
  case (Cons c s)
  show ?case
  proof (cases t)
    case Nil
    then show ?thesis using Cons.prems escapeChar_cons [of c] by auto
  next
    case t: (Cons d ds)
    have "escapeChar c @ (concat (map escapeChar s) @ CHR 0x22 # r) =
        escapeChar d @ (concat (map escapeChar ds) @ CHR 0x22 # u)"
      using Cons.prems t by simp
    from escapeChar_read [OF this] show ?thesis using Cons.IH t by blast
  qed
qed

lemma jsonString_read: "jsonString s @ r = jsonString t @ u \<Longrightarrow> s = t \<and> r = u"
  using escaped_read [of s r t u] by (simp add: jsonString_def)

text \<open>
  A list of texts between commas, closed by a bracket, is read back when every text is.
\<close>

lemma joinWith_Cons: "xs \<noteq> [] \<Longrightarrow> joinWith sep (x # xs) = x @ sep @ joinWith sep xs"
  by (cases xs) simp_all

lemma joinWith_read:
  assumes "c \<in> {CHR '']'', CHR ''}''}"
    and "\<And>x y r u. x \<in> set xs \<Longrightarrow> delim r \<Longrightarrow> delim u \<Longrightarrow> f x @ r = f y @ u \<Longrightarrow> x = y \<and> r = u"
    and "\<And>x. f x \<noteq> [] \<and> hd (f x) \<notin> {CHR '','', CHR '']'', CHR ''}''}"
    and "joinWith '','' (map f xs) @ c # r = joinWith '','' (map f ys) @ c # u"
  shows "xs = ys \<and> r = u"
  using assms(2,4)
proof (induction xs arbitrary: ys)
  case Nil
  show ?case
  proof (cases ys)
    case (Cons y zs)
    have "joinWith '','' (map f ys) = f y @ (if zs = [] then '''' else '','' @ joinWith '','' (map f zs))"
      using Cons joinWith_Cons [of "map f zs" "'',''" "f y"] by simp
    then show ?thesis using Nil.prems(2) assms(1) assms(3) [of y] by (cases "f y") auto
  qed (use Nil in simp)
next
  case (Cons x xs)
  have x: "joinWith '','' (map f (x # xs)) = f x @ (if xs = [] then '''' else '','' @ joinWith '','' (map f xs))"
    using joinWith_Cons [of "map f xs" "'',''" "f x"] by simp
  show ?case
  proof (cases ys)
    case Nil
    then show ?thesis using Cons.prems(2) x assms(1) assms(3) [of x] by (cases "f x") auto
  next
    case ys: (Cons y zs)
    have y: "joinWith '','' (map f ys) = f y @ (if zs = [] then '''' else '','' @ joinWith '','' (map f zs))"
      using ys joinWith_Cons [of "map f zs" "'',''" "f y"] by simp
    have "x = y \<and> (if xs = [] then '''' else '','' @ joinWith '','' (map f xs)) @ c # r =
        (if zs = [] then '''' else '','' @ joinWith '','' (map f zs)) @ c # u"
      by (rule Cons.prems(1)) (use Cons.prems(2) x y assms(1) in \<open>auto simp: delim_def\<close>)
    then show ?thesis using Cons.IH [of zs] Cons.prems(1) assms(1) ys by (auto split: if_splits)
  qed
qed

lemma digits_first: "\<exists>d ds. digits_of n = d # ds \<and> isDigit d"
  using digits_of_hd [of n] digits_of_not_Nil [of n] by (cases "digits_of n") auto

lemma digit_not_punctuation:
  "isDigit c \<Longrightarrow> c \<notin> {CHR '','', CHR '']'', CHR ''}'', CHR ''['', CHR ''{'', CHR 0x22, CHR ''n'', CHR ''t'', CHR ''f'', CHR ''-''}"
  by (auto simp: isDigit_def less_eq_char_def)

lemma showInt_first: "\<exists>c cs. showInt n = c # cs \<and> (c = CHR ''-'' \<or> isDigit c)"
  using digits_first [of "nat n"] by (auto simp: showInt_def)

lemma plainJson_first:
  "\<exists>c cs. plainJson j = c # cs \<and> (case j of JNull \<Rightarrow> c = CHR ''n'' | JBool b \<Rightarrow> c = (if b then CHR ''t'' else CHR ''f'')
     | JNum n \<Rightarrow> c = CHR ''-'' \<or> isDigit c | JStr s \<Rightarrow> c = CHR 0x22 | JArr xs \<Rightarrow> c = CHR ''[''
     | JObj es \<Rightarrow> c = CHR ''{'')"
  using showInt_first by (cases j) (auto simp: jsonString_def)

lemma plainJson_hd: "plainJson j \<noteq> [] \<and> hd (plainJson j) \<notin> {CHR '','', CHR '']'', CHR ''}''}"
  using plainJson_first [of j] digit_not_punctuation by (cases j) (fastforce split: if_splits)+

lemma jsonString_hd: "jsonString k @ s \<noteq> [] \<and> hd (jsonString k @ s) \<notin> {CHR '','', CHR '']'', CHR ''}''}"
  by (simp add: jsonString_def)

text \<open>The kind of a value is visible in the first character of its text.\<close>

fun jsonKind :: "json \<Rightarrow> nat" where
  "jsonKind JNull = 0" | "jsonKind (JBool b) = (if b then 1 else 2)" | "jsonKind (JNum n) = 3"
| "jsonKind (JStr s) = 4" | "jsonKind (JArr xs) = 5" | "jsonKind (JObj es) = 6"

definition kindOfChar :: "char \<Rightarrow> nat" where
  "kindOfChar c = (if c = CHR ''n'' then 0 else if c = CHR ''t'' then 1 else if c = CHR ''f'' then 2
     else if c = CHR 0x22 then 4 else if c = CHR ''['' then 5 else if c = CHR ''{'' then 6 else 3)"

lemma jsonKind_hd: "jsonKind j = kindOfChar (hd (plainJson j))"
  using plainJson_first [of j] digit_not_punctuation
  by (cases j) (auto simp: kindOfChar_def)

lemma plainJson_kind: "plainJson i @ r = plainJson j @ u \<Longrightarrow> jsonKind i = jsonKind j"
  by (metis hd_append2 jsonKind_hd plainJson_hd)

lemma plainJson_read:
  "delim r \<Longrightarrow> delim u \<Longrightarrow> plainJson i @ r = plainJson j @ u \<Longrightarrow> i = j \<and> r = u"
proof (induction i arbitrary: j r u)
  case JNull
  then show ?case using plainJson_kind [OF JNull.prems(3)] by (cases j) (auto split: if_splits)
next
  case (JBool b)
  then show ?case using plainJson_kind [OF JBool.prems(3)] by (cases j) (auto split: if_splits)
next
  case (JNum n)
  then show ?case using plainJson_kind [OF JNum.prems(3)] showInt_read [of r u n]
    by (cases j) (auto split: if_splits)
next
  case (JStr s)
  then show ?case using plainJson_kind [OF JStr.prems(3)] jsonString_read [of s r]
    by (cases j) (auto split: if_splits)
next
  case (JArr xs)
  from plainJson_kind [OF JArr.prems(3)] obtain ys where j: "j = JArr ys"
    by (cases j) (auto split: if_splits)
  have "xs = ys \<and> r = u"
  proof (rule joinWith_read [where f = plainJson])
    show "CHR '']'' \<in> {CHR '']'', CHR ''}''}" by simp
    show "x = y \<and> r = u" if "x \<in> set xs" "delim r" "delim u" "plainJson x @ r = plainJson y @ u" for x y r u
      by (rule JArr.IH [OF that])
    show "joinWith '','' (map plainJson xs) @ CHR '']'' # r = joinWith '','' (map plainJson ys) @ CHR '']'' # u"
      using JArr.prems(3) j by simp
  qed (rule plainJson_hd)
  then show ?case using j by simp
next
  case (JObj es)
  from plainJson_kind [OF JObj.prems(3)] obtain fs where j: "j = JObj fs"
    by (cases j) (auto split: if_splits)
  have "es = fs \<and> r = u"
  proof (rule joinWith_read [where f = "\<lambda>(key, item). jsonString key @ '':'' @ plainJson item"])
    show "CHR ''}'' \<in> {CHR '']'', CHR ''}''}" by simp
    show "x = y \<and> r = u" if x: "x \<in> set es" and d: "delim r" "delim u"
      and eq: "(case x of (key, item) \<Rightarrow> jsonString key @ '':'' @ plainJson item) @ r =
        (case y of (key, item) \<Rightarrow> jsonString key @ '':'' @ plainJson item) @ u" for x y r u
    proof -
      obtain k v l w where xy: "x = (k, v)" "y = (l, w)" by (cases x, cases y)
      have "k = l \<and> '':'' @ plainJson v @ r = '':'' @ plainJson w @ u"
        by (rule jsonString_read) (use eq xy in simp)
      then show ?thesis using JObj.IH [of "(k, v)" v r u w] x xy d by auto
    qed
    show "joinWith '','' (map (\<lambda>(key, item). jsonString key @ '':'' @ plainJson item) es) @ CHR ''}'' # r =
        joinWith '','' (map (\<lambda>(key, item). jsonString key @ '':'' @ plainJson item) fs) @ CHR ''}'' # u"
      using JObj.prems(3) j by simp
  qed (auto simp: jsonString_def split: prod.splits)
  then show ?case using j by simp
qed

lemma plainJson_inject: "plainJson i = plainJson j \<Longrightarrow> i = j"
  using plainJson_read [of "[]" "[]" i j] by (simp add: delim_def)

lemma canonicalJson_eq_iff: "canonicalJson i = canonicalJson j \<longleftrightarrow> sortKeys i = sortKeys j"
  using plainJson_inject by (auto simp: canonicalJson_plain)

section \<open>Properties\<close>

text \<open>
  C25. Two values have the same canonical text exactly when they are the same value up to the order
  of the keys of their objects: the signed text neither depends on the key order a \<open>jsonb\<close> column
  returns nor confuses two different payloads.
\<close>

theorem canonicalJson_determines_value:
  "canonicalJson i = canonicalJson j \<longleftrightarrow> sortKeys i = sortKeys j"
  by (rule canonicalJson_eq_iff)

text \<open>
  The canonical text of an object does not depend on the order its keys are listed in.
\<close>

theorem canonicalJson_key_order:
  assumes "mset es = mset fs" "distinct (map fst es)"
  shows "canonicalJson (JObj es) = canonicalJson (JObj fs)"
  unfolding canonicalJson_eq_iff by (rule sortKeys_permuted [OF assms])

theorem canonicalJson_key_order_witness:
  "canonicalJson (JObj [(''b'', JNum 1), (''a'', JNull)]) = canonicalJson (JObj [(''a'', JNull), (''b'', JNum 1)])"
  by (rule canonicalJson_key_order) simp_all

end
