(* ===== verification/AssetModel.thy ===== *)
theory AssetModel
  imports CalendarDates Json
begin

text \<open>
  The asset as the database keeps it (src/src/modules/assets/entities/asset.entity.ts), its enums,
  the ledger row of a movement (asset-movement.entity.ts), the partial row an update writes
  (\<open>UpdateAssetRecord\<close>) and the table of manual status transitions
  (src/src/modules/assets/domain/status-transitions.ts).

  A nullable column is an option; a \<open>date\<close> column is its ISO text, a \<open>timestamptz\<close> its
  milliseconds, a \<open>numeric\<close> a rational. A property of a patch is an option (None: the key is
  absent), an option of an option where the column is nullable.
\<close>

datatype operationalStatus = InUse | InStorage | OnLoan | InMaintenance | Lost | WrittenOff

datatype physicalCondition = NewCondition | Good | Fair | Poor | Obsolete

datatype movementType = Registration | Assignment | Loan | Return | Transfer | Relocation
  | MaintenanceIn | MaintenanceOut | PhysicalVerification | ConditionChange | WriteOff
  | Reactivation | QrRotation | Correction

datatype depreciationMethod = StraightLine | DecliningBalance | UnitsOfProduction | NoDepreciation

text \<open>The values of the enums, as columns and payloads store them.\<close>

fun statusText :: "operationalStatus \<Rightarrow> string" where
  "statusText InUse = ''IN_USE''" | "statusText InStorage = ''IN_STORAGE''"
| "statusText OnLoan = ''ON_LOAN''" | "statusText InMaintenance = ''IN_MAINTENANCE''"
| "statusText Lost = ''LOST''" | "statusText WrittenOff = ''WRITTEN_OFF''"

fun conditionText :: "physicalCondition \<Rightarrow> string" where
  "conditionText NewCondition = ''NEW''" | "conditionText Good = ''GOOD''"
| "conditionText Fair = ''FAIR''" | "conditionText Poor = ''POOR''"
| "conditionText Obsolete = ''OBSOLETE''"

fun movementTypeText :: "movementType \<Rightarrow> string" where
  "movementTypeText Registration = ''REGISTRATION''" | "movementTypeText Assignment = ''ASSIGNMENT''"
| "movementTypeText Loan = ''LOAN''" | "movementTypeText Return = ''RETURN''"
| "movementTypeText Transfer = ''TRANSFER''" | "movementTypeText Relocation = ''RELOCATION''"
| "movementTypeText MaintenanceIn = ''MAINTENANCE_IN''"
| "movementTypeText MaintenanceOut = ''MAINTENANCE_OUT''"
| "movementTypeText PhysicalVerification = ''PHYSICAL_VERIFICATION''"
| "movementTypeText ConditionChange = ''CONDITION_CHANGE''" | "movementTypeText WriteOff = ''WRITE_OFF''"
| "movementTypeText Reactivation = ''REACTIVATION''" | "movementTypeText QrRotation = ''QR_ROTATION''"
| "movementTypeText Correction = ''CORRECTION''"

lemma statusText_inject [simp]: "statusText a = statusText b \<longleftrightarrow> a = b"
  by (cases a; cases b) simp_all

lemma conditionText_inject [simp]: "conditionText a = conditionText b \<longleftrightarrow> a = b"
  by (cases a; cases b) simp_all

lemma movementTypeText_inject [simp]: "movementTypeText a = movementTypeText b \<longleftrightarrow> a = b"
  by (cases a; cases b) simp_all

record asset =
  a_id :: string
  a_internalCode :: string
  a_barcode :: "string option"
  a_serialNumber :: "string option"
  a_description :: string
  a_model :: "string option"
  a_categoryId :: string
  a_manufacturerId :: "string option"
  a_acquisitionTypeId :: string
  a_acquisitionDate :: "string option"
  a_acquisitionDocument :: "string option"
  a_supplierId :: "string option"
  a_acquisitionPrice :: rat
  a_currency :: string
  a_operationalStatus :: operationalStatus
  a_physicalCondition :: "physicalCondition option"
  a_costCenterId :: string
  a_locationId :: "string option"
  a_responsibleId :: "string option"
  a_writtenOffAt :: "string option"
  a_writeOffReason :: "string option"
  a_writeOffDocument :: "string option"
  a_writeOffApprovedBy :: "string option"
  a_qrToken :: "string option"
  a_qrTokenVersion :: int
  a_qrSignedAt :: "int option"
  a_qrSignedBy :: "string option"
  a_depreciationMethod :: depreciationMethod
  a_usefulLifeYears :: "int option"
  a_salvageValue :: rat
  a_lastVerifiedAt :: "int option"
  a_notes :: "string option"
  a_warrantyExpiresAt :: "string option"
  a_insurancePolicyNumber :: "string option"
  a_dataQualityFlags :: "string list"
  a_createdAt :: int
  a_createdBy :: string
  a_updatedAt :: int
  a_updatedBy :: "string option"

record movement =
  m_id :: string
  m_assetId :: string
  m_movementType :: movementType
  m_fromCostCenterId :: "string option"
  m_fromLocationId :: "string option"
  m_fromResponsibleId :: "string option"
  m_fromOperationalStatus :: "operationalStatus option"
  m_fromPhysicalCondition :: "physicalCondition option"
  m_toCostCenterId :: "string option"
  m_toLocationId :: "string option"
  m_toResponsibleId :: "string option"
  m_toOperationalStatus :: "operationalStatus option"
  m_toPhysicalCondition :: "physicalCondition option"
  m_requestedBy :: "string option"
  m_authorizedBy :: "string option"
  m_executedAt :: int
  m_reason :: "string option"
  m_documentReference :: "string option"
  m_loanId :: "string option"
  m_previousMovementId :: "string option"
  m_eventSignature :: "string option"
  m_metadata :: "json option"
  m_createdAt :: int

record assetPatch =
  p_categoryId :: "string option"
  p_acquisitionPrice :: "rat option"
  p_acquisitionDocument :: "string option option"
  p_description :: "string option"
  p_model :: "string option option"
  p_barcode :: "string option option"
  p_serialNumber :: "string option option"
  p_locationId :: "string option option"
  p_costCenterId :: "string option"
  p_responsibleId :: "string option option"
  p_physicalCondition :: "physicalCondition option option"
  p_dataQualityFlags :: "string list option"
  p_operationalStatus :: "operationalStatus option"
  p_notes :: "string option option"
  p_insurancePolicyNumber :: "string option option"
  p_writtenOffAt :: "string option option"
  p_writeOffReason :: "string option option"
  p_writeOffDocument :: "string option option"
  p_writeOffApprovedBy :: "string option option"
  p_qrToken :: "string option option"
  p_qrTokenVersion :: "int option"
  p_qrSignedAt :: "int option option"
  p_qrSignedBy :: "string option option"
  p_lastVerifiedAt :: "int option option"
  p_updatedBy :: "string option option"

text \<open>The object literal \<open>{}\<close> a patch starts from.\<close>

definition noPatch :: assetPatch where
  "noPatch = \<lparr>p_categoryId = None, p_acquisitionPrice = None, p_acquisitionDocument = None,
     p_description = None, p_model = None, p_barcode = None, p_serialNumber = None,
     p_locationId = None, p_costCenterId = None, p_responsibleId = None,
     p_physicalCondition = None, p_dataQualityFlags = None, p_operationalStatus = None,
     p_notes = None, p_insurancePolicyNumber = None, p_writtenOffAt = None,
     p_writeOffReason = None, p_writeOffDocument = None, p_writeOffApprovedBy = None,
     p_qrToken = None, p_qrTokenVersion = None, p_qrSignedAt = None, p_qrSignedBy = None,
     p_lastVerifiedAt = None, p_updatedBy = None\<rparr>"

definition or_keep :: "'a option \<Rightarrow> 'a \<Rightarrow> 'a" where
  "or_keep new old = (case new of None \<Rightarrow> old | Some v \<Rightarrow> v)"

lemma or_keep_simps [simp]: "or_keep None old = old" "or_keep (Some v) old = v"
  by (simp_all add: or_keep_def)

text \<open>\<open>{...current, ...definedOnly(patch)}\<close>, which is also what the SQL update writes.\<close>

definition applyPatch :: "assetPatch \<Rightarrow> asset \<Rightarrow> asset" where
  "applyPatch p a = a
     \<lparr>a_categoryId := or_keep (p_categoryId p) (a_categoryId a),
      a_acquisitionPrice := or_keep (p_acquisitionPrice p) (a_acquisitionPrice a),
      a_acquisitionDocument := or_keep (p_acquisitionDocument p) (a_acquisitionDocument a),
      a_description := or_keep (p_description p) (a_description a),
      a_model := or_keep (p_model p) (a_model a),
      a_barcode := or_keep (p_barcode p) (a_barcode a),
      a_serialNumber := or_keep (p_serialNumber p) (a_serialNumber a),
      a_locationId := or_keep (p_locationId p) (a_locationId a),
      a_costCenterId := or_keep (p_costCenterId p) (a_costCenterId a),
      a_responsibleId := or_keep (p_responsibleId p) (a_responsibleId a),
      a_physicalCondition := or_keep (p_physicalCondition p) (a_physicalCondition a),
      a_dataQualityFlags := or_keep (p_dataQualityFlags p) (a_dataQualityFlags a),
      a_operationalStatus := or_keep (p_operationalStatus p) (a_operationalStatus a),
      a_notes := or_keep (p_notes p) (a_notes a),
      a_insurancePolicyNumber := or_keep (p_insurancePolicyNumber p) (a_insurancePolicyNumber a),
      a_writtenOffAt := or_keep (p_writtenOffAt p) (a_writtenOffAt a),
      a_writeOffReason := or_keep (p_writeOffReason p) (a_writeOffReason a),
      a_writeOffDocument := or_keep (p_writeOffDocument p) (a_writeOffDocument a),
      a_writeOffApprovedBy := or_keep (p_writeOffApprovedBy p) (a_writeOffApprovedBy a),
      a_qrToken := or_keep (p_qrToken p) (a_qrToken a),
      a_qrTokenVersion := or_keep (p_qrTokenVersion p) (a_qrTokenVersion a),
      a_qrSignedAt := or_keep (p_qrSignedAt p) (a_qrSignedAt a),
      a_qrSignedBy := or_keep (p_qrSignedBy p) (a_qrSignedBy a),
      a_lastVerifiedAt := or_keep (p_lastVerifiedAt p) (a_lastVerifiedAt a),
      a_updatedBy := or_keep (p_updatedBy p) (a_updatedBy a)\<rparr>"

lemma applyPatch_id [simp]: "a_id (applyPatch p a) = a_id a"
  by (simp add: applyPatch_def)

lemma applyPatch_place [simp]:
  "a_costCenterId (applyPatch p a) = or_keep (p_costCenterId p) (a_costCenterId a)"
  "a_locationId (applyPatch p a) = or_keep (p_locationId p) (a_locationId a)"
  "a_responsibleId (applyPatch p a) = or_keep (p_responsibleId p) (a_responsibleId a)"
  "a_operationalStatus (applyPatch p a) = or_keep (p_operationalStatus p) (a_operationalStatus a)"
  "a_physicalCondition (applyPatch p a) = or_keep (p_physicalCondition p) (a_physicalCondition a)"
  "a_dataQualityFlags (applyPatch p a) = or_keep (p_dataQualityFlags p) (a_dataQualityFlags a)"
  "a_updatedBy (applyPatch p a) = or_keep (p_updatedBy p) (a_updatedBy a)"
  "a_writtenOffAt (applyPatch p a) = or_keep (p_writtenOffAt p) (a_writtenOffAt a)"
  by (simp_all add: applyPatch_def)

section \<open>Manual status transitions\<close>

fun allowedStatus :: "operationalStatus \<Rightarrow> operationalStatus list" where
  "allowedStatus InUse = [InStorage, InMaintenance, Lost]"
| "allowedStatus InStorage = [InUse, InMaintenance, Lost]"
| "allowedStatus InMaintenance = [InUse, InStorage]"
| "allowedStatus Lost = [InUse, InStorage, InMaintenance]"
| "allowedStatus OnLoan = []"
| "allowedStatus WrittenOff = []"

definition canTransitionStatus :: "operationalStatus \<Rightarrow> operationalStatus \<Rightarrow> bool" where
  "canTransitionStatus from to = (to \<in> set (allowedStatus from))"

lemma canTransitionStatus_boundary:
  "canTransitionStatus from to \<Longrightarrow>
     from \<notin> {OnLoan, WrittenOff} \<and> to \<notin> {OnLoan, WrittenOff} \<and> from \<noteq> to"
  by (cases "from") (auto simp: canTransitionStatus_def)

end
