(* ===== verification/Depreciation.thy ===== *)
theory Depreciation
  imports AssetModel
begin

text \<open>
  Monthly depreciation: the calculation of src/src/modules/depreciation/domain/calculate-depreciation.ts
  and the period run of DepreciationService.calculate (depreciation.service.ts). Money is in
  whole cents as in the code; prices and salvage values, JavaScript numbers read from
  \<open>numeric(15,2)\<close> columns, are rationals.

  The lemmas show the bounds of a snapshot, that the accumulated value grows by exactly the
  month's depreciation up to the end of the useful life, where it reaches the depreciable
  amount, and what the calculation does in the months after that.
\<close>

record depreciationAssetInput =
  di_id :: string
  di_acquisitionDate :: string
  di_acquisitionPrice :: rat
  di_salvageValue :: rat
  di_usefulLifeYears :: "int option"
  di_method :: depreciationMethod
  di_operationalStatus :: operationalStatus
  di_writtenOffAt :: "string option"
  di_costCenterId :: string
  di_categoryId :: string

datatype depreciationSkipReason =
  ZeroPrice | NoUsefulLife | MethodNone | NotStarted | WrittenOffBefore

record depreciationSkip =
  ds_assetId :: string
  ds_reason :: depreciationSkipReason

text \<open>The three amounts of a snapshot are text (\<open>toFixed(2)\<close>), as in the code.\<close>

record depreciationSnapshot =
  dn_assetId :: string
  dn_method :: depreciationMethod
  dn_monthlyDepreciation :: string
  dn_accumulatedDepreciation :: string
  dn_bookValue :: string
  dn_costCenterId :: string
  dn_categoryId :: string

definition money :: "int \<Rightarrow> string" where
  "money cents = (if cents < 0 then ''-'' else '''') @ digits_of (nat \<bar>cents\<bar> div 100) @ ''.'' @
     padStart 2 (digits_of (nat \<bar>cents\<bar> mod 100))"

text \<open>\<open>Math.round\<close> rounds halves up.\<close>

definition mathRound :: "rat \<Rightarrow> int" where
  "mathRound x = \<lfloor>x + 1 / 2\<rfloor>"

lemma mathRound_ratio: "0 < b \<Longrightarrow> mathRound (of_int a / of_int b) = (2 * a + b) div (2 * b)"
proof -
  assume b: "0 < b"
  then have "(of_int a / of_int b + 1 / 2 :: rat) = of_int (2 * a + b) / of_int (2 * b)"
    by (simp add: field_simps)
  then show ?thesis unfolding mathRound_def by (simp only: floor_divide_of_int_eq)
qed

lemma mathRound_numeral [simp]: "mathRound (numeral a) = numeral a"
  using mathRound_ratio [of 1 "numeral a"] by simp

lemma mathRound_numeral_ratio [simp]:
  "mathRound (numeral a / numeral b) = (2 * numeral a + numeral b) div (2 * numeral b)"
  using mathRound_ratio [of "numeral b" "numeral a"] by simp

definition toCents :: "rat \<Rightarrow> int" where
  "toCents v = mathRound (v * 100)"

definition parseIsoDate :: "string \<Rightarrow> calendarDate" where
  "parseIsoDate v = \<lparr>cd_year = numberOf (take 4 v), cd_month = numberOf (take 2 (drop 5 v)),
     cd_day = numberOf (take 2 (drop 8 v))\<rparr>"

definition periodIndex :: "int \<Rightarrow> int \<Rightarrow> int" where
  "periodIndex year month = year * 12 + month"

definition depreciationDaysInMonth :: "int \<Rightarrow> int \<Rightarrow> int" where
  "depreciationDaysInMonth year month = CalendarDates.daysInMonth year month"

definition firstDepreciationPeriod :: "string \<Rightarrow> int \<times> int" where
  "firstDepreciationPeriod acquisitionDate =
     (let parsed = parseIsoDate acquisitionDate in
      if cd_month parsed = 12 then (cd_year parsed + 1, 1) else (cd_year parsed, cd_month parsed + 1))"

text \<open>
  The calculation after its guards, on cents: \<open>written\<close> is the day of the month and the length
  of the month when the asset was written off in the very period.
\<close>

record depreciationAmounts =
  am_thisMonth :: int
  am_accumulated :: int
  am_book :: int

definition depreciationAmounts ::
  "int \<Rightarrow> int \<Rightarrow> int \<Rightarrow> int \<Rightarrow> (int \<times> int) option \<Rightarrow> depreciationAmounts" where
  "depreciationAmounts price salvage usefulLifeYears elapsed written =
     (let depreciable = max (price - salvage) 0;
          totalMonths = usefulLifeYears * 12;
          fullMonthly = depreciable div totalMonths;
          previousMonths = min (elapsed - 1) totalMonths;
          previousAccum = min (fullMonthly * previousMonths) depreciable;
          thisMonth =
            (if elapsed \<le> totalMonths
             then (let full = (if elapsed = totalMonths then depreciable - previousAccum else fullMonthly)
                   in case written of None \<Rightarrow> full
                      | Some (day, days) \<Rightarrow> mathRound (of_int (full * day) / of_int days))
             else 0);
          accumulated = min (previousAccum + thisMonth) depreciable
      in \<lparr>am_thisMonth = thisMonth, am_accumulated = accumulated, am_book = price - accumulated\<rparr>)"

text \<open>\<open>if (asset.writtenOffAt)\<close>: neither null nor the empty string.\<close>

definition writtenOffDate :: "depreciationAssetInput \<Rightarrow> calendarDate option" where
  "writtenOffDate asset = (case di_writtenOffAt asset of
     None \<Rightarrow> None | Some w \<Rightarrow> if w = '''' then None else Some (parseIsoDate w))"

definition calculateAssetDepreciation ::
  "depreciationAssetInput \<Rightarrow> int \<Rightarrow> int \<Rightarrow> depreciationSkip + depreciationSnapshot" where
  "calculateAssetDepreciation asset year month =
     (let skip = (\<lambda>reason. Inl \<lparr>ds_assetId = di_id asset, ds_reason = reason\<rparr>) in
      if di_acquisitionPrice asset \<le> 0 then skip ZeroPrice
      else case di_usefulLifeYears asset of
        None \<Rightarrow> skip NoUsefulLife
      | Some years \<Rightarrow>
          if years \<le> 0 then skip NoUsefulLife
          else if di_method asset = NoDepreciation then skip MethodNone
          else (let (fy, fm) = firstDepreciationPeriod (di_acquisitionDate asset);
                    elapsed = periodIndex year month - periodIndex fy fm + 1
                in if elapsed < 1 then skip NotStarted
                else (let written = writtenOffDate asset;
                          writtenPeriod = map_option (\<lambda>w. periodIndex (cd_year w) (cd_month w)) written
                      in if (case writtenPeriod of None \<Rightarrow> False | Some p \<Rightarrow> p < periodIndex year month)
                      then skip WrittenOffBefore
                      else (let amounts = depreciationAmounts (toCents (di_acquisitionPrice asset))
                                  (toCents (di_salvageValue asset)) years elapsed
                                  (case written of None \<Rightarrow> None
                                   | Some w \<Rightarrow> if periodIndex (cd_year w) (cd_month w) = periodIndex year month
                                       then Some (cd_day w, depreciationDaysInMonth year month) else None)
                            in Inr \<lparr>dn_assetId = di_id asset, dn_method = di_method asset,
                                 dn_monthlyDepreciation = money (am_thisMonth amounts),
                                 dn_accumulatedDepreciation = money (am_accumulated amounts),
                                 dn_bookValue = money (am_book amounts),
                                 dn_costCenterId = di_costCenterId asset,
                                 dn_categoryId = di_categoryId asset\<rparr>))))"

fun calculatePeriodDepreciation ::
  "depreciationAssetInput list \<Rightarrow> int \<Rightarrow> int \<Rightarrow>
     depreciationSnapshot list \<times> depreciationSkip list" where
  "calculatePeriodDepreciation [] year month = ([], [])"
| "calculatePeriodDepreciation (asset # assets) year month =
     (let (snapshots, excluded) = calculatePeriodDepreciation assets year month
      in case calculateAssetDepreciation asset year month of
           Inl skip \<Rightarrow> (snapshots, skip # excluded)
         | Inr snapshot \<Rightarrow> (snapshot # snapshots, excluded))"

text \<open>
  DepreciationService.calculate: the rows of \<open>asset_depreciation\<close> (without the generated id),
  the audit entry, and the response. The transaction first deletes the rows of the period.
\<close>

record depreciationRow =
  dr_assetId :: string
  dr_periodYear :: int
  dr_periodMonth :: int
  dr_method :: depreciationMethod
  dr_monthlyDepreciation :: string
  dr_accumulatedDepreciation :: string
  dr_bookValue :: string
  dr_isClosed :: bool
  dr_calculatedAt :: int
  dr_calculatedBy :: "string option"

record depreciationAudit =
  du_performedBy :: string
  du_year :: int
  du_month :: int
  du_calculated :: nat
  du_excluded :: nat

record depreciationState =
  dst_rows :: "depreciationRow list"
  dst_audit :: "depreciationAudit list"

record depreciationResponse =
  dp_year :: int
  dp_month :: int
  dp_calculated :: nat
  dp_excluded :: "depreciationSkip list"

definition depreciationInput :: "asset \<Rightarrow> string \<Rightarrow> depreciationAssetInput" where
  "depreciationInput a acquisitionDate =
     \<lparr>di_id = a_id a, di_acquisitionDate = acquisitionDate,
      di_acquisitionPrice = a_acquisitionPrice a, di_salvageValue = a_salvageValue a,
      di_usefulLifeYears = a_usefulLifeYears a, di_method = a_depreciationMethod a,
      di_operationalStatus = a_operationalStatus a, di_writtenOffAt = a_writtenOffAt a,
      di_costCenterId = a_costCenterId a, di_categoryId = a_categoryId a\<rparr>"

definition datedInputs :: "asset list \<Rightarrow> depreciationAssetInput list" where
  "datedInputs assets = concat (map (\<lambda>a. case a_acquisitionDate a of
     None \<Rightarrow> [] | Some d \<Rightarrow> [depreciationInput a d]) assets)"

definition assertPeriod :: "int \<Rightarrow> int \<Rightarrow> unit res" where
  "assertPeriod year month = (if month < 1 \<or> 12 < month then throw DepreciationInvalidPeriod else Inr ())"

definition snapshotRow :: "int \<Rightarrow> int \<Rightarrow> int \<Rightarrow> string option \<Rightarrow> depreciationSnapshot \<Rightarrow> depreciationRow" where
  "snapshotRow year month now actor s =
     \<lparr>dr_assetId = dn_assetId s, dr_periodYear = year, dr_periodMonth = month,
      dr_method = dn_method s, dr_monthlyDepreciation = dn_monthlyDepreciation s,
      dr_accumulatedDepreciation = dn_accumulatedDepreciation s, dr_bookValue = dn_bookValue s,
      dr_isClosed = False, dr_calculatedAt = now, dr_calculatedBy = actor\<rparr>"

definition calculateDepreciation ::
  "int \<Rightarrow> asset list \<Rightarrow> int \<Rightarrow> int \<Rightarrow> string option \<Rightarrow> depreciationState \<Rightarrow>
     (depreciationState \<times> depreciationResponse) res" where
  "calculateDepreciation now assets year month actor st =
     rbind (assertPeriod year month) (\<lambda>_.
       let (snapshots, excluded) = calculatePeriodDepreciation (datedInputs assets) year month;
           kept = filter (\<lambda>r. \<not> (dr_periodYear r = year \<and> dr_periodMonth r = month)) (dst_rows st);
           rows = kept @ map (snapshotRow year month now actor) snapshots;
           audit = (case actor of None \<Rightarrow> []
             | Some a \<Rightarrow> [\<lparr>du_performedBy = a, du_year = year, du_month = month,
                 du_calculated = length snapshots, du_excluded = length excluded\<rparr>])
       in Inr (st\<lparr>dst_rows := rows, dst_audit := dst_audit st @ audit\<rparr>,
            \<lparr>dp_year = year, dp_month = month, dp_calculated = length snapshots, dp_excluded = excluded\<rparr>))"

text \<open>
  \<open>calculatePreviousMonth\<close>, run by the monthly job, on the local date of the server: \<open>zoneOffset\<close> is the
  offset of its time zone, in milliseconds, at that instant. \<open>getMonth\<close> counts from zero.
\<close>

definition calculatePreviousMonth ::
  "int \<Rightarrow> int \<Rightarrow> asset list \<Rightarrow> depreciationState \<Rightarrow> (depreciationState \<times> depreciationResponse) res" where
  "calculatePreviousMonth zoneOffset now assets st =
     (let today = civilDate ((now + zoneOffset) div 86400000);
          zeroBased = cd_month today - 1;
          month = (if zeroBased = 0 then 12 else zeroBased);
          year = (if zeroBased = 0 then cd_year today - 1 else cd_year today)
      in calculateDepreciation now assets year month None st)"

definition runMonthly ::
  "bool \<Rightarrow> int \<Rightarrow> int \<Rightarrow> asset list \<Rightarrow> depreciationState \<Rightarrow> depreciationState res" where
  "runMonthly enabled zoneOffset now assets st =
     (if \<not> enabled then Inr st else rbind (calculatePreviousMonth zoneOffset now assets st) (\<lambda>(st', _). Inr st'))"

section \<open>The amounts\<close>

lemma mathRound_int_le: "0 \<le> x \<Longrightarrow> x \<le> of_int n \<Longrightarrow> 0 \<le> mathRound x \<and> mathRound x \<le> n"
  unfolding mathRound_def by (simp add: le_floor_iff floor_le_iff)

lemma partial_month:
  assumes "0 \<le> full" "0 \<le> day" "day \<le> days" "0 < days"
  shows "0 \<le> mathRound (of_int (full * day) / of_int days) \<and>
    mathRound (of_int (full * day) / of_int days) \<le> full"
proof (rule mathRound_int_le)
  show "0 \<le> (of_int (full * day) / of_int days :: rat)" using assms by simp
  have "full * day \<le> full * days" using assms by (simp add: mult_left_mono)
  then have "(of_int (full * day) :: rat) \<le> of_int (full * days)" by (rule of_int_le_iff [THEN iffD2])
  then show "of_int (full * day) / of_int days \<le> (of_int full :: rat)"
    using assms(4) by (simp add: divide_le_eq)
qed

lemma full_months_le:
  fixes depreciable N k :: int
  assumes "0 \<le> depreciable" "0 < N" "0 \<le> k" "k \<le> N"
  shows "depreciable div N * k \<le> depreciable" "0 \<le> depreciable div N * k"
proof -
  have q: "0 \<le> depreciable div N" using assms by (simp add: pos_imp_zdiv_nonneg_iff)
  then have "depreciable div N * k \<le> depreciable div N * N"
    using assms by (simp add: mult_left_mono)
  also have "\<dots> \<le> depreciable" using assms(2) by (metis mult.commute pos_mod_sign mult_div_mod_eq le_add_same_cancel1)
  finally show "depreciable div N * k \<le> depreciable" .
  show "0 \<le> depreciable div N * k" using q assms by simp
qed

definition writtenInMonth :: "(int \<times> int) option \<Rightarrow> bool" where
  "writtenInMonth w = (case w of None \<Rightarrow> True | Some (day, days) \<Rightarrow> 0 \<le> day \<and> day \<le> days \<and> 0 < days)"

lemma amounts_within_life:
  assumes "0 < years" "1 \<le> elapsed" "elapsed \<le> years * 12"
  shows "am_thisMonth (depreciationAmounts price salvage years elapsed None) =
      (if elapsed = years * 12
       then max (price - salvage) 0 - max (price - salvage) 0 div (years * 12) * (elapsed - 1)
       else max (price - salvage) 0 div (years * 12))"
    "am_accumulated (depreciationAmounts price salvage years elapsed None) =
      (if elapsed = years * 12 then max (price - salvage) 0
       else max (price - salvage) 0 div (years * 12) * elapsed)"
proof -
  let ?d = "max (price - salvage) 0"
  have N: "0 < years * 12" using assms(1) by simp
  have m: "min (elapsed - 1) (years * 12) = elapsed - 1" using assms by simp
  have prev: "min (?d div (years * 12) * (elapsed - 1)) ?d = ?d div (years * 12) * (elapsed - 1)"
    using full_months_le(1) [of ?d "years * 12" "elapsed - 1"] N assms by simp
  have step: "?d div (years * 12) * (elapsed - 1) + ?d div (years * 12) = ?d div (years * 12) * elapsed"
    by (simp add: algebra_simps)
  have le: "?d div (years * 12) * elapsed \<le> ?d"
    using full_months_le(1) [of ?d "years * 12" elapsed] N assms by simp
  show "am_thisMonth (depreciationAmounts price salvage years elapsed None) =
      (if elapsed = years * 12 then ?d - ?d div (years * 12) * (elapsed - 1) else ?d div (years * 12))"
    unfolding depreciationAmounts_def Let_def m prev using assms(3) by simp
  show "am_accumulated (depreciationAmounts price salvage years elapsed None) =
      (if elapsed = years * 12 then ?d else ?d div (years * 12) * elapsed)"
    unfolding depreciationAmounts_def Let_def m prev using assms(3) step le by simp
qed

lemma amounts_after_life:
  assumes "0 < years" "years * 12 < elapsed"
  shows "am_thisMonth (depreciationAmounts price salvage years elapsed w) = 0"
    "am_accumulated (depreciationAmounts price salvage years elapsed w) =
      max (price - salvage) 0 div (years * 12) * (years * 12)"
proof -
  let ?d = "max (price - salvage) 0"
  have m: "min (elapsed - 1) (years * 12) = years * 12" using assms by simp
  have "?d div (years * 12) * (years * 12) \<le> ?d"
    using full_months_le(1) [of ?d "years * 12" "years * 12"] assms by simp
  then show "am_thisMonth (depreciationAmounts price salvage years elapsed w) = 0"
    "am_accumulated (depreciationAmounts price salvage years elapsed w) = ?d div (years * 12) * (years * 12)"
    unfolding depreciationAmounts_def Let_def m using assms(2) by simp_all
qed

lemma amounts_bounds:
  assumes "0 < years" "1 \<le> elapsed" "writtenInMonth w"
  shows "0 \<le> am_thisMonth (depreciationAmounts price salvage years elapsed w)"
    "0 \<le> am_accumulated (depreciationAmounts price salvage years elapsed w)"
    "am_accumulated (depreciationAmounts price salvage years elapsed w) \<le> max (price - salvage) 0"
    "am_book (depreciationAmounts price salvage years elapsed w) =
       price - am_accumulated (depreciationAmounts price salvage years elapsed w)"
proof -
  let ?d = "max (price - salvage) 0"
  let ?k = "min (elapsed - 1) (years * 12)"
  let ?prev = "min (?d div (years * 12) * ?k) ?d"
  let ?full = "if elapsed = years * 12 then ?d - ?prev else ?d div (years * 12)"
  let ?month = "if elapsed \<le> years * 12 then (case w of None \<Rightarrow> ?full
     | Some (day, days) \<Rightarrow> mathRound (of_int (?full * day) / of_int days)) else 0"
  have prev: "0 \<le> ?prev" "?prev \<le> ?d"
    using full_months_le(2) [of ?d "years * 12" ?k] assms by simp_all
  have full: "0 \<le> ?full" using prev assms(1) by (simp add: pos_imp_zdiv_nonneg_iff)
  have month: "0 \<le> ?month"
  proof (cases w)
    case (Some p)
    then show ?thesis using partial_month [OF full] assms(3) by (cases p) (simp add: writtenInMonth_def)
  qed (use full in simp)
  show "0 \<le> am_thisMonth (depreciationAmounts price salvage years elapsed w)"
    unfolding depreciationAmounts_def Let_def depreciationAmounts.simps by (rule month)
  show "0 \<le> am_accumulated (depreciationAmounts price salvage years elapsed w)"
    unfolding depreciationAmounts_def Let_def depreciationAmounts.simps
    by (rule min.boundedI [OF add_nonneg_nonneg [OF prev(1) month] max.cobounded2])
  show "am_accumulated (depreciationAmounts price salvage years elapsed w) \<le> ?d"
    unfolding depreciationAmounts_def Let_def depreciationAmounts.simps by (rule min.cobounded2)
  show "am_book (depreciationAmounts price salvage years elapsed w) =
       price - am_accumulated (depreciationAmounts price salvage years elapsed w)"
    unfolding depreciationAmounts_def Let_def depreciationAmounts.simps by (rule refl)
qed

lemma calculate_InrD:
  assumes "calculateAssetDepreciation asset year month = Inr s"
  shows "\<exists>years elapsed w. di_usefulLifeYears asset = Some years \<and> 0 < years \<and> 1 \<le> elapsed \<and>
    0 < di_acquisitionPrice asset \<and>
    (case writtenOffDate asset of None \<Rightarrow> w = None
     | Some d \<Rightarrow> w = (if periodIndex (cd_year d) (cd_month d) = periodIndex year month
          then Some (cd_day d, depreciationDaysInMonth year month) else None)) \<and>
    (let am = depreciationAmounts (toCents (di_acquisitionPrice asset)) (toCents (di_salvageValue asset)) years elapsed w
     in dn_monthlyDepreciation s = money (am_thisMonth am) \<and>
       dn_accumulatedDepreciation s = money (am_accumulated am) \<and> dn_bookValue s = money (am_book am))"
proof -
  obtain years where y: "di_usefulLifeYears asset = Some years"
    using assms by (cases "di_usefulLifeYears asset") (auto simp: calculateAssetDepreciation_def Let_def split: if_splits)
  obtain fy fm where f: "firstDepreciationPeriod (di_acquisitionDate asset) = (fy, fm)"
    by (cases "firstDepreciationPeriod (di_acquisitionDate asset)")
  let ?w = "case writtenOffDate asset of None \<Rightarrow> None
    | Some d \<Rightarrow> if periodIndex (cd_year d) (cd_month d) = periodIndex year month
        then Some (cd_day d, depreciationDaysInMonth year month) else None"
  have "0 < years" "1 \<le> periodIndex year month - periodIndex fy fm + 1" "0 < di_acquisitionPrice asset"
    and "(let am = depreciationAmounts (toCents (di_acquisitionPrice asset)) (toCents (di_salvageValue asset)) years
        (periodIndex year month - periodIndex fy fm + 1) ?w
     in dn_monthlyDepreciation s = money (am_thisMonth am) \<and>
       dn_accumulatedDepreciation s = money (am_accumulated am) \<and> dn_bookValue s = money (am_book am))"
    using assms y f by (auto simp: calculateAssetDepreciation_def Let_def split: if_splits)
  then show ?thesis using y by (intro exI [of _ years] exI [of _ "periodIndex year month - periodIndex fy fm + 1"] exI [of _ ?w])
    (simp split: option.split)
qed

lemma daysInMonth_pos: "0 < depreciationDaysInMonth year month"
  by (simp add: depreciationDaysInMonth_def daysInMonth_def)

lemma amounts_accrue:
  assumes "0 < years" "1 \<le> elapsed" "elapsed < years * 12"
  shows "am_accumulated (depreciationAmounts price salvage years (elapsed + 1) None) =
    am_accumulated (depreciationAmounts price salvage years elapsed None) +
    am_thisMonth (depreciationAmounts price salvage years (elapsed + 1) None)"
  using amounts_within_life [of years elapsed price salvage] amounts_within_life [of years "elapsed + 1" price salvage] assms
  by (simp add: distrib_left)

section \<open>Properties\<close>

text \<open>
  C27. A snapshot's book value is the price less the accumulated depreciation, in cents. While the salvage
  value is at most the price, the accumulated depreciation lies between zero and the price less the salvage
  value, so the book value lies between the salvage value and the price; a salvage value above the price
  accumulates nothing and leaves the price as book value. A month never depreciates a negative amount, and a
  write-off inside the month, pro rata by days, keeps the bounds.
\<close>

theorem depreciation_bounds:
  assumes "calculateAssetDepreciation asset year month = Inr s"
    and "\<forall>d. writtenOffDate asset = Some d \<longrightarrow> 1 \<le> cd_day d \<and>
      cd_day d \<le> depreciationDaysInMonth (cd_year d) (cd_month d) \<and> 1 \<le> cd_month d \<and> cd_month d \<le> 12"
    and "1 \<le> month" "month \<le> 12"
  shows "\<exists>this acc book. 0 \<le> this \<and> 0 \<le> acc \<and>
    acc \<le> max (toCents (di_acquisitionPrice asset) - toCents (di_salvageValue asset)) 0 \<and>
    book = toCents (di_acquisitionPrice asset) - acc \<and> book \<le> toCents (di_acquisitionPrice asset) \<and>
    (toCents (di_salvageValue asset) \<le> toCents (di_acquisitionPrice asset) \<longrightarrow> toCents (di_salvageValue asset) \<le> book) \<and>
    (toCents (di_acquisitionPrice asset) < toCents (di_salvageValue asset) \<longrightarrow>
       acc = 0 \<and> book = toCents (di_acquisitionPrice asset)) \<and>
    dn_monthlyDepreciation s = money this \<and> dn_accumulatedDepreciation s = money acc \<and> dn_bookValue s = money book"
proof -
  obtain years elapsed w where y: "0 < years" "1 \<le> elapsed"
    and w: "case writtenOffDate asset of None \<Rightarrow> w = None
     | Some d \<Rightarrow> w = (if periodIndex (cd_year d) (cd_month d) = periodIndex year month
          then Some (cd_day d, depreciationDaysInMonth year month) else None)"
    and s: "let am = depreciationAmounts (toCents (di_acquisitionPrice asset)) (toCents (di_salvageValue asset)) years elapsed w
     in dn_monthlyDepreciation s = money (am_thisMonth am) \<and>
       dn_accumulatedDepreciation s = money (am_accumulated am) \<and> dn_bookValue s = money (am_book am)"
    using calculate_InrD [OF assms(1)] by blast
  have same: "y = year \<and> m = month" if "periodIndex y m = periodIndex year month" "1 \<le> m" "m \<le> 12" for y m
    using that assms(3,4) unfolding periodIndex_def by presburger
  have "writtenInMonth w"
  proof (cases "writtenOffDate asset")
    case (Some d)
    then show ?thesis using w assms(2) same [of "cd_year d" "cd_month d"] daysInMonth_pos
      by (auto simp: writtenInMonth_def)
  qed (use w in \<open>simp add: writtenInMonth_def\<close>)
  note b = amounts_bounds [OF y this, of "toCents (di_acquisitionPrice asset)" "toCents (di_salvageValue asset)"]
  let ?am = "depreciationAmounts (toCents (di_acquisitionPrice asset)) (toCents (di_salvageValue asset)) years elapsed w"
  show ?thesis
    by (rule exI [of _ "am_thisMonth ?am"], rule exI [of _ "am_accumulated ?am"], rule exI [of _ "am_book ?am"])
      (use s b in \<open>auto simp: Let_def max_def split: if_splits\<close>)
qed

text \<open>
  During the useful life the accumulated depreciation grows by exactly the month's
  depreciation, and at the last month it is the whole depreciable amount.
\<close>

theorem depreciation_accrues:
  assumes "0 < years" "1 \<le> elapsed" "elapsed < years * 12"
  shows "am_accumulated (depreciationAmounts price salvage years (elapsed + 1) None) =
      am_accumulated (depreciationAmounts price salvage years elapsed None) +
      am_thisMonth (depreciationAmounts price salvage years (elapsed + 1) None) \<and>
    am_accumulated (depreciationAmounts price salvage years (years * 12) None) = max (price - salvage) 0"
  using amounts_accrue [OF assms] amounts_within_life(2) [of years "years * 12" price salvage] assms by simp

text \<open>
  After the useful life the accumulated depreciation is not the depreciable amount but the sum
  of the rounded-down monthly charges: the cents that the last month had added are lost again, and
  the book value rises by the remainder of the division into months.
\<close>

theorem depreciation_after_life:
  assumes "0 < years" "years * 12 < elapsed"
  shows "am_book (depreciationAmounts price salvage years elapsed None) =
    am_book (depreciationAmounts price salvage years (years * 12) None) +
      max (price - salvage) 0 mod (years * 12)"
proof -
  let ?d = "max (price - salvage) 0"
  have "am_accumulated (depreciationAmounts price salvage years elapsed None) = ?d - ?d mod (years * 12)"
    using amounts_after_life(2) [OF assms, of price salvage None] by (simp add: minus_mod_eq_div_mult)
  moreover have "am_accumulated (depreciationAmounts price salvage years (years * 12) None) = ?d"
    using amounts_within_life(2) [of years "years * 12" price salvage] assms(1) by simp
  moreover have "1 \<le> years * 12" "1 \<le> elapsed" "writtenInMonth None"
    using assms by (simp_all add: writtenInMonth_def)
  ultimately show ?thesis
    using amounts_bounds(4) [OF assms(1), of elapsed None price salvage]
      amounts_bounds(4) [OF assms(1), of "years * 12" None price salvage] by simp
qed

theorem depreciation_after_life_witness:
  "am_book (depreciationAmounts 100000 0 3 37 None) = 28 \<and> am_book (depreciationAmounts 100000 0 3 36 None) = 0"
  using depreciation_after_life [of 3 37 100000 0] by (simp add: depreciationAmounts_def)

theorem depreciation_accrues_witness:
  "am_accumulated (depreciationAmounts 100000 0 3 36 None) = 100000 \<and>
   am_accumulated (depreciationAmounts 100000 0 3 5 None) = 4 * 2777 + am_thisMonth (depreciationAmounts 100000 0 3 5 None)"
  using depreciation_accrues [of 3 4 100000 0] by (simp add: depreciationAmounts_def)

definition sampleDepreciable :: depreciationAssetInput where
  "sampleDepreciable = \<lparr>di_id = ''a1'', di_acquisitionDate = ''2023-01-15'', di_acquisitionPrice = 1000,
     di_salvageValue = 100, di_usefulLifeYears = Some 3, di_method = StraightLine,
     di_operationalStatus = InUse, di_writtenOffAt = Some ''2023-04-10'', di_costCenterId = ''cc'',
     di_categoryId = ''cat''\<rparr>"

definition sampleSnapshot :: depreciationSnapshot where
  "sampleSnapshot = \<lparr>dn_assetId = ''a1'', dn_method = StraightLine, dn_monthlyDepreciation = ''8.33'',
     dn_accumulatedDepreciation = ''58.33'', dn_bookValue = ''941.67'', dn_costCenterId = ''cc'',
     dn_categoryId = ''cat''\<rparr>"

lemma sample_money: "money 833 = ''8.33''" "money 5833 = ''58.33''" "money 94167 = ''941.67''"
  by (simp_all add: money_def padStart_def digits_of_eval char_of_def bit_0)

lemma sample_calculation: "calculateAssetDepreciation sampleDepreciable 2023 4 = Inr sampleSnapshot"
  by (simp add: sampleDepreciable_def sampleSnapshot_def calculateAssetDepreciation_def
      firstDepreciationPeriod_def parseIsoDate_def periodIndex_def writtenOffDate_def toCents_def
      depreciationAmounts_def depreciationDaysInMonth_def daysInMonth_def leapYear_def fullYear_def
      Let_def sample_money)

lemma sample_written: "writtenOffDate sampleDepreciable = Some \<lparr>cd_year = 2023, cd_month = 4, cd_day = 10\<rparr>"
  by (simp add: sampleDepreciable_def writtenOffDate_def parseIsoDate_def)

theorem depreciation_bounds_witness:
  "\<exists>this acc book. 0 \<le> this \<and> 0 \<le> acc \<and> acc \<le> 90000 \<and> 10000 \<le> book \<and> book \<le> 100000 \<and>
     dn_monthlyDepreciation sampleSnapshot = money this \<and> dn_accumulatedDepreciation sampleSnapshot = money acc \<and>
     dn_bookValue sampleSnapshot = money book"
proof -
  have c: "toCents (di_acquisitionPrice sampleDepreciable) = 100000"
    "toCents (di_salvageValue sampleDepreciable) = 10000"
    by (simp_all add: sampleDepreciable_def toCents_def)
  have "\<exists>this acc book. 0 \<le> this \<and> 0 \<le> acc \<and> acc \<le> max (100000 - 10000) 0 \<and> book = 100000 - acc \<and> book \<le> 100000 \<and>
      (10000 \<le> (100000 :: int) \<longrightarrow> 10000 \<le> book) \<and> (100000 < (10000 :: int) \<longrightarrow> acc = 0 \<and> book = 100000) \<and>
      dn_monthlyDepreciation sampleSnapshot = money this \<and> dn_accumulatedDepreciation sampleSnapshot = money acc \<and>
      dn_bookValue sampleSnapshot = money book"
    using depreciation_bounds [OF sample_calculation] unfolding sample_written c
    by (simp add: depreciationDaysInMonth_def daysInMonth_def)
  then obtain this acc book where w: "0 \<le> this" "0 \<le> acc" "acc \<le> max (100000 - 10000) 0" "book \<le> 100000"
      "10000 \<le> (100000 :: int) \<longrightarrow> 10000 \<le> book" "dn_monthlyDepreciation sampleSnapshot = money this"
      "dn_accumulatedDepreciation sampleSnapshot = money acc" "dn_bookValue sampleSnapshot = money book"
    by (elim exE conjE)
  show ?thesis
    by (rule exI [of _ "this"], rule exI [of _ acc], rule exI [of _ book], intro conjI) (use w in simp_all)
qed

text \<open>
  A period run replaces exactly the rows of its period: rows of other periods are kept, the new
  rows are one per calculated asset, and running it again changes no row.
\<close>

theorem calculateDepreciation_replaces_period:
  assumes "calculateDepreciation now assets year month actor st = Inr (st', resp)"
  shows "filter (\<lambda>r. \<not> (dr_periodYear r = year \<and> dr_periodMonth r = month)) (dst_rows st') =
      filter (\<lambda>r. \<not> (dr_periodYear r = year \<and> dr_periodMonth r = month)) (dst_rows st) \<and>
    length (filter (\<lambda>r. dr_periodYear r = year \<and> dr_periodMonth r = month) (dst_rows st')) = dp_calculated resp \<and>
    dp_calculated resp + length (dp_excluded resp) = length (datedInputs assets) \<and>
    (\<forall>st'' resp'. calculateDepreciation now assets year month actor st' = Inr (st'', resp') \<longrightarrow>
       dst_rows st'' = dst_rows st')"
proof -
  obtain ss ex where run: "calculatePeriodDepreciation (datedInputs assets) year month = (ss, ex)"
    by (cases "calculatePeriodDepreciation (datedInputs assets) year month")
  have len: "calculatePeriodDepreciation xs year month = (a, b) \<Longrightarrow> length a + length b = length xs" for xs a b
    by (induction xs arbitrary: a b) (auto split: prod.splits sum.splits)
  define p where "p = (\<lambda>r :: depreciationRow. dr_periodYear r = year \<and> dr_periodMonth r = month)"
  define new where "new = map (snapshotRow year month now actor) ss"
  have new: "filter p new = new" "filter (\<lambda>r. \<not> p r) new = []"
    by (auto simp: new_def p_def snapshotRow_def filter_id_conv filter_empty_conv)
  have rows: "dst_rows t' = filter (\<lambda>r. \<not> p r) (dst_rows t) @ new"
    if "calculateDepreciation now assets year month actor t = Inr (t', r)" for t t' r
    using that run by (auto simp: calculateDepreciation_def res_simps p_def new_def Let_def)
  have resp: "dp_calculated resp = length ss" "dp_excluded resp = ex"
    using assms run by (auto simp: calculateDepreciation_def res_simps Let_def)
  have keep: "filter (\<lambda>r. \<not> p r) (filter (\<lambda>r. \<not> p r) xs @ new) = filter (\<lambda>r. \<not> p r) xs" for xs
    using new by simp
  have added: "filter p (filter (\<lambda>r. \<not> p r) xs @ new) = new" for xs
    using new by simp
  have same: "dst_rows st'' = dst_rows st'"
    if "calculateDepreciation now assets year month actor st' = Inr (st'', resp')" for st'' resp'
    unfolding rows [OF that] rows [OF assms] keep by (rule refl)
  have others: "filter (\<lambda>r. \<not> p r) (dst_rows st') = filter (\<lambda>r. \<not> p r) (dst_rows st)"
    unfolding rows [OF assms] by (rule keep)
  have "length (filter p (dst_rows st')) = dp_calculated resp"
    unfolding rows [OF assms] added resp by (simp add: new_def)
  moreover have "dp_calculated resp + length (dp_excluded resp) = length (datedInputs assets)"
    unfolding resp by (rule len [OF run])
  ultimately show ?thesis using others same unfolding p_def by blast
qed

theorem calculateDepreciation_replaces_period_witness:
  "\<exists>st' resp. calculateDepreciation 0 [] 2024 5 None \<lparr>dst_rows = [], dst_audit = []\<rparr> = Inr (st', resp) \<and>
     dp_calculated resp + length (dp_excluded resp) = 0"
proof -
  have "calculateDepreciation 0 [] 2024 5 None \<lparr>dst_rows = [], dst_audit = []\<rparr> =
    Inr (\<lparr>dst_rows = [], dst_audit = []\<rparr>,
      \<lparr>dp_year = 2024, dp_month = 5, dp_calculated = 0, dp_excluded = []\<rparr>)"
    by (simp add: calculateDepreciation_def assertPeriod_def datedInputs_def)
  from calculateDepreciation_replaces_period [OF this] this show ?thesis
    by (simp add: datedInputs_def)
qed

end
