(* ===== verification/Access.thy ===== *)
theory Access
  imports Json
begin

text \<open>
  Authorization of a request: which actions satisfy a menu entry, the access profile built from
  the granted permissions, the permission check with its scopes, the cost-centre scope a reader
  gets, the cache of effective permissions, and the guards that run before every handler
  (src/src/common/authorization, src/src/common/guards, and cost-center-scope.ts,
  permissions.service.ts and permissions-cache.service.ts of src/src/modules/roles/services).

  The lemmas characterise when access is granted and show that the cache never serves a value
  older than its time to live, nor any cached value after an invalidation.
\<close>

section \<open>Actions and the access profile\<close>

definition ACTIONS_THAT_SATISFY_READ :: "string list" where
  "ACTIONS_THAT_SATISFY_READ = [''read'', ''manage'', ''create'', ''update'', ''delete'', ''assign'',
     ''approve'', ''export'', ''sign'', ''review'']"

definition actionSatisfies :: "string list \<Rightarrow> string \<Rightarrow> bool" where
  "actionSatisfies grantedActions requiredAction =
     (if requiredAction \<in> set grantedActions then True
      else if requiredAction \<noteq> ''read'' then False
      else list_ex (\<lambda>action. action \<in> set ACTIONS_THAT_SATISFY_READ) grantedActions)"

record grantedPermission =
  gp_code :: string
  gp_module :: string
  gp_resourceType :: string
  gp_action :: string
  gp_scopeLevel :: string

record resourceCapability =
  rc_resource :: string
  rc_module :: string
  rc_actions :: "string list"
  rc_scopes :: "string list"

record navigationDefinition =
  nd_module :: string
  nd_moduleLabel :: string
  nd_resource :: string
  nd_path :: string
  nd_label :: string
  nd_requiredAction :: string
  nd_sortOrder :: int
  nd_icon :: "string option"

record navigationItem =
  ni_module :: string
  ni_moduleLabel :: string
  ni_resource :: string
  ni_path :: string
  ni_label :: string
  ni_icon :: "string option"

record accessProfile =
  ap_permissions :: "string list"
  ap_capabilities :: "resourceCapability list"
  ap_navigation :: "navigationItem list"

text \<open>
  The \<open>Map\<close> of the code keeps its keys in insertion order: an association list to which a new
  resource is appended. Its actions and scopes are sets in insertion order.
\<close>

definition addOnce :: "'a \<Rightarrow> 'a list \<Rightarrow> 'a list" where
  "addOnce x xs = (if x \<in> set xs then xs else xs @ [x])"

fun addGranted :: "grantedPermission \<Rightarrow> resourceCapability list \<Rightarrow> resourceCapability list" where
  "addGranted p [] = [\<lparr>rc_resource = gp_resourceType p, rc_module = gp_module p,
     rc_actions = [gp_action p], rc_scopes = [gp_scopeLevel p]\<rparr>]"
| "addGranted p (c # cs) =
     (if rc_resource c = gp_resourceType p
      then c\<lparr>rc_actions := addOnce (gp_action p) (rc_actions c),
             rc_scopes := addOnce (gp_scopeLevel p) (rc_scopes c)\<rparr> # cs
      else c # addGranted p cs)"

definition byResource :: "grantedPermission list \<Rightarrow> resourceCapability list" where
  "byResource granted = fold addGranted granted []"

definition canAct :: "resourceCapability list \<Rightarrow> string \<Rightarrow> string \<Rightarrow> bool" where
  "canAct caps resource action =
     (case List.find (\<lambda>c. rc_resource c = resource) caps of
        None \<Rightarrow> False | Some c \<Rightarrow> actionSatisfies (rc_actions c) action)"

text \<open>
  \<open>localeCompare\<close> orders the capabilities by the collation key of the runtime's locale, the
  parameter \<open>collationKey\<close>; every other sort of the code compares code units.
\<close>

definition buildAccessProfile ::
  "(string \<Rightarrow> string) \<Rightarrow> grantedPermission list \<Rightarrow> navigationDefinition list \<Rightarrow> accessProfile" where
  "buildAccessProfile collationKey granted catalog =
     (let caps = byResource granted in
      \<lparr>ap_permissions = sort (uniq (map gp_code granted)),
       ap_capabilities = sort_key (\<lambda>c. collationKey (rc_resource c))
         (map (\<lambda>c. c\<lparr>rc_actions := sort (rc_actions c), rc_scopes := sort (rc_scopes c)\<rparr>) caps),
       ap_navigation = map (\<lambda>i. \<lparr>ni_module = nd_module i, ni_moduleLabel = nd_moduleLabel i,
           ni_resource = nd_resource i, ni_path = nd_path i, ni_label = nd_label i, ni_icon = nd_icon i\<rparr>)
         (sort_key nd_sortOrder (filter (\<lambda>i. canAct caps (nd_resource i) (nd_requiredAction i)) catalog))\<rparr>)"

record featureSnapshot =
  fs_enabled :: bool
  fs_resourceTypes :: "string list"

definition applyFeatureFlags :: "accessProfile \<Rightarrow> featureSnapshot list \<Rightarrow> accessProfile" where
  "applyFeatureFlags profile features =
     (let disabledResources = uniq (concat (map fs_resourceTypes (filter (\<lambda>f. \<not> fs_enabled f) features)))
      in if disabledResources = [] then profile
         else \<lparr>ap_permissions = ap_permissions profile,
           ap_capabilities = filter (\<lambda>c. rc_resource c \<notin> set disabledResources) (ap_capabilities profile),
           ap_navigation = filter (\<lambda>i. ni_resource i \<notin> set disabledResources) (ap_navigation profile)\<rparr>)"

section \<open>Effective permissions and scopes\<close>

datatype scopeType = GlobalScope | OrgUnitScope | CostCenterScope

record effectivePermission =
  ep_permissionCode :: string
  ep_userScopeType :: scopeType
  ep_userScopeId :: "string option"

record permissionScope =
  ps_type :: scopeType
  ps_id :: string

definition permissionMatches :: "string \<Rightarrow> permissionScope option \<Rightarrow> effectivePermission \<Rightarrow> bool" where
  "permissionMatches permissionCode scope permission =
     (if ep_permissionCode permission \<noteq> permissionCode then False
      else if endsWith (ep_permissionCode permission) '':own'' then True
      else if endsWith (ep_permissionCode permission) '':global'' \<or> ep_userScopeType permission = GlobalScope
        then True
      else case scope of None \<Rightarrow> False
        | Some s \<Rightarrow>
            if ep_userScopeType permission \<noteq> ps_type s then False
            else case ep_userScopeId permission of None \<Rightarrow> True | Some i \<Rightarrow> i = ps_id s)"

definition hasPermission :: "effectivePermission list \<Rightarrow> string \<Rightarrow> permissionScope option \<Rightarrow> bool" where
  "hasPermission permissions permissionCode scope =
     list_ex (permissionMatches permissionCode scope) permissions"

datatype scopeReason = NoCostCenter | OrgUnitUnresolved

datatype costCenterScope =
    Global | CostCenters "string list" | EmptyScope scopeReason | Denied

text \<open>\<open>permission.userScopeId\<close> is used only when it is not the empty string.\<close>

definition ownCostCenters :: "effectivePermission list \<Rightarrow> string list" where
  "ownCostCenters scoped = concat (map (\<lambda>p. case ep_userScopeId p of
     None \<Rightarrow> []
   | Some i \<Rightarrow> if ep_userScopeType p = CostCenterScope \<and> i \<noteq> '''' then [i] else []) scoped)"

definition resolveCostCenterScope ::
  "effectivePermission list \<Rightarrow> string \<Rightarrow> string \<Rightarrow> string list \<Rightarrow> costCenterScope" where
  "resolveCostCenterScope permissions globalCode scopedCode headedCostCenterIds =
     (if list_ex (\<lambda>p. ep_permissionCode p = globalCode) permissions then Global
      else (let scoped = filter (\<lambda>p. ep_permissionCode p = scopedCode) permissions in
        if scoped = [] then Denied
        else (let costCenterIds = sort (uniq (ownCostCenters scoped @ headedCostCenterIds)) in
          if costCenterIds \<noteq> [] then CostCenters costCenterIds
          else EmptyScope (if list_ex (\<lambda>p. ep_userScopeType p = OrgUnitScope) scoped
                           then OrgUnitUnresolved else NoCostCenter))))"

fun reasonError :: "scopeReason \<Rightarrow> error_code" where
  "reasonError NoCostCenter = ScopeNoCostCenter"
| "reasonError OrgUnitUnresolved = ScopeOrgUnitUnresolved"

fun requireReadableScope :: "costCenterScope \<Rightarrow> costCenterScope res" where
  "requireReadableScope Denied = throw InsufficientPermissions"
| "requireReadableScope (EmptyScope reason) = throw (reasonError reason)"
| "requireReadableScope scope = Inr scope"

fun costCenterFilter :: "costCenterScope \<Rightarrow> string list option" where
  "costCenterFilter (CostCenters ids) = Some ids"
| "costCenterFilter scope = None"

section \<open>The cache\<close>

type_synonym 'a cacheEntries = "string \<Rightarrow> ('a \<times> int) option"

record permissionsCache =
  pc_entries :: "effectivePermission list cacheEntries"
  pc_headed :: "string list cacheEntries"

definition CACHE_TTL_SECONDS :: int where
  "CACHE_TTL_SECONDS = 60"

definition cacheRead :: "int \<Rightarrow> 'a cacheEntries \<Rightarrow> string \<Rightarrow> 'a option \<times> 'a cacheEntries" where
  "cacheRead now m userId = (case m userId of
     None \<Rightarrow> (None, m)
   | Some (v, expiresAt) \<Rightarrow> if expiresAt \<le> now then (None, m(userId := None)) else (Some v, m))"

definition cacheSet :: "int \<Rightarrow> 'a cacheEntries \<Rightarrow> string \<Rightarrow> 'a \<Rightarrow> int \<Rightarrow> 'a cacheEntries" where
  "cacheSet now m userId v ttlSeconds = m(userId := Some (v, now + ttlSeconds * 1000))"

definition cacheDelete :: "string \<Rightarrow> permissionsCache \<Rightarrow> permissionsCache" where
  "cacheDelete userId cache =
     cache\<lparr>pc_entries := (pc_entries cache)(userId := None), pc_headed := (pc_headed cache)(userId := None)\<rparr>"

definition invalidateMany :: "string list \<Rightarrow> permissionsCache \<Rightarrow> permissionsCache" where
  "invalidateMany userIds cache = fold cacheDelete userIds cache"

text \<open>
  The repository queries are arguments: what \<open>findEffectivePermissions\<close> and
  \<open>findHeadedCostCenterIds\<close> return at the moment of the call.
\<close>

definition getEffectivePermissions ::
  "int \<Rightarrow> (string \<Rightarrow> effectivePermission list) \<Rightarrow> string \<Rightarrow> permissionsCache \<Rightarrow>
     effectivePermission list \<times> permissionsCache" where
  "getEffectivePermissions now query userId cache =
     (case cacheRead now (pc_entries cache) userId of
        (Some v, m) \<Rightarrow> (v, cache\<lparr>pc_entries := m\<rparr>)
      | (None, m) \<Rightarrow> (query userId, cache\<lparr>pc_entries := cacheSet now m userId (query userId) CACHE_TTL_SECONDS\<rparr>))"

definition getHeadedCostCenterIds ::
  "int \<Rightarrow> (string \<Rightarrow> string list) \<Rightarrow> string \<Rightarrow> permissionsCache \<Rightarrow> string list \<times> permissionsCache" where
  "getHeadedCostCenterIds now query userId cache =
     (case cacheRead now (pc_headed cache) userId of
        (Some v, m) \<Rightarrow> (v, cache\<lparr>pc_headed := m\<rparr>)
      | (None, m) \<Rightarrow> (query userId, cache\<lparr>pc_headed := cacheSet now m userId (query userId) CACHE_TTL_SECONDS\<rparr>))"

definition userHasPermission ::
  "int \<Rightarrow> (string \<Rightarrow> effectivePermission list) \<Rightarrow> string \<Rightarrow> string \<Rightarrow> permissionScope option \<Rightarrow>
     permissionsCache \<Rightarrow> bool \<times> permissionsCache" where
  "userHasPermission now query userId permissionCode scope cache =
     (let (permissions, cache') = getEffectivePermissions now query userId cache
      in (hasPermission permissions permissionCode scope, cache'))"

definition costCenterScopeOf ::
  "int \<Rightarrow> (string \<Rightarrow> effectivePermission list) \<Rightarrow> (string \<Rightarrow> string list) \<Rightarrow> string \<Rightarrow> string \<Rightarrow> string \<Rightarrow>
     permissionsCache \<Rightarrow> costCenterScope \<times> permissionsCache" where
  "costCenterScopeOf now query headed userId globalCode scopedCode cache =
     (let (permissions, cache') = getEffectivePermissions now query userId cache;
          base = resolveCostCenterScope permissions globalCode scopedCode []
      in if base = Global \<or> base = Denied then (base, cache')
         else (let (ids, cache'') = getHeadedCostCenterIds now headed userId cache'
               in (resolveCostCenterScope permissions globalCode scopedCode ids, cache'')))"

section \<open>Guards\<close>

record authenticatedUser =
  au_id :: string
  au_personId :: string
  au_username :: string
  au_roles :: "string list"
  au_scopes :: "(scopeType \<times> string option) list"
  au_mustChangePassword :: bool
  au_sessionId :: "string option"

record authenticatedRequest =
  rq_user :: "authenticatedUser option"
  rq_params :: "(string \<times> json) list"
  rq_body :: "json option"
  rq_path :: string

text \<open>The metadata of \<open>@RequirePermission\<close>; \<open>scopeFrom\<close> reads the scope id from the request.\<close>

record permissionRequirement =
  pr_code :: string
  pr_scopeType :: "scopeType option"
  pr_scopeFrom :: "(authenticatedRequest \<Rightarrow> string option) option"

definition readStringField :: "json option \<Rightarrow> string option" where
  "readStringField v = (case v of Some (JStr s) \<Rightarrow> if s \<noteq> '''' then Some s else None | _ \<Rightarrow> None)"

definition firstPresent :: "string option list \<Rightarrow> string option" where
  "firstPresent vs = (case List.find (\<lambda>v. v \<noteq> None) vs of Some v \<Rightarrow> v | None \<Rightarrow> None)"

definition bodyRecord :: "authenticatedRequest \<Rightarrow> (string \<times> json) list" where
  "bodyRecord request = (case rq_body request of Some (JObj es) \<Rightarrow> es | _ \<Rightarrow> [])"

definition inferScopeTypeFromCode :: "string \<Rightarrow> scopeType option" where
  "inferScopeTypeFromCode code =
     (if endsWith code '':org_unit'' then Some OrgUnitScope
      else if endsWith code '':cost_center'' then Some CostCenterScope
      else if endsWith code '':global'' then Some GlobalScope
      else None)"

definition readScopeId :: "authenticatedRequest \<Rightarrow> scopeType \<Rightarrow> string option" where
  "readScopeId request t =
     (let param = (\<lambda>k. readStringField (map_of (rq_params request) k));
          body = (\<lambda>k. readStringField (map_of (bodyRecord request) k))
      in case t of
           OrgUnitScope \<Rightarrow> firstPresent [param ''orgUnitId'', param ''organizationalUnitId'',
             body ''orgUnitId'', body ''organizationalUnitId'']
         | CostCenterScope \<Rightarrow> firstPresent [param ''costCenterId'', body ''costCenterId'']
         | GlobalScope \<Rightarrow> None)"

definition readOwnerId :: "authenticatedRequest \<Rightarrow> string option" where
  "readOwnerId request = firstPresent [readStringField (map_of (rq_params request) ''userId''),
     readStringField (map_of (bodyRecord request) ''createdBy''),
     readStringField (map_of (bodyRecord request) ''requestedBy'')]"

definition scopeWithId :: "scopeType \<Rightarrow> string option \<Rightarrow> permissionScope option" where
  "scopeWithId t scopeId = (case scopeId of None \<Rightarrow> None
     | Some i \<Rightarrow> if i = '''' then None else Some \<lparr>ps_type = t, ps_id = i\<rparr>)"

definition extractScope :: "permissionRequirement \<Rightarrow> authenticatedRequest \<Rightarrow> permissionScope option" where
  "extractScope requirement request =
     (case (pr_scopeFrom requirement, pr_scopeType requirement) of
        (Some scopeFrom, Some t) \<Rightarrow> scopeWithId t (scopeFrom request)
      | _ \<Rightarrow> (case inferScopeTypeFromCode (pr_code requirement) of
           None \<Rightarrow> None
         | Some t \<Rightarrow> if t = GlobalScope then None else scopeWithId t (readScopeId request t)))"

definition permissionsGuard ::
  "int \<Rightarrow> (string \<Rightarrow> effectivePermission list) \<Rightarrow> permissionRequirement option \<Rightarrow>
     authenticatedRequest \<Rightarrow> permissionsCache \<Rightarrow> permissionsCache res" where
  "permissionsGuard now query required request cache =
     (case required of None \<Rightarrow> Inr cache
      | Some req \<Rightarrow> (case rq_user request of
          None \<Rightarrow> throw Unauthorized
        | Some user \<Rightarrow>
            if endsWith (pr_code req) '':own'' \<and>
               (case readOwnerId request of None \<Rightarrow> False | Some o' \<Rightarrow> o' \<noteq> au_id user)
            then throw OutOfScope
            else (let (allowed, cache') = userHasPermission now query (au_id user) (pr_code req)
                    (extractScope req request) cache
                  in if \<not> allowed then throw InsufficientPermissions else Inr cache')))"

definition mustChangePasswordGuard :: "bool \<Rightarrow> bool \<Rightarrow> authenticatedRequest \<Rightarrow> unit res" where
  "mustChangePasswordGuard isPublic allowed request =
     (if isPublic then Inr ()
      else if \<not> (case rq_user request of None \<Rightarrow> False | Some u \<Rightarrow> au_mustChangePassword u) then Inr ()
      else if allowed then Inr ()
      else throw PasswordChangeRequired)"

text \<open>The outcome passport hands to \<open>handleRequest\<close>: an error, a user, or an info object.\<close>

datatype passportError = NoError | ApiError error_code | OtherError

definition handleRequest :: "passportError \<Rightarrow> authenticatedUser option \<Rightarrow> bool \<Rightarrow> authenticatedUser res" where
  "handleRequest err user tokenExpired =
     (case err of ApiError e \<Rightarrow> throw e
      | OtherError \<Rightarrow> throw Unauthorized
      | NoError \<Rightarrow> (case user of
          None \<Rightarrow> if tokenExpired then throw TokenExpired else throw Unauthorized
        | Some u \<Rightarrow> Inr u))"

section \<open>The profile\<close>

lemma set_addOnce [simp]: "set (addOnce x xs) = insert x (set xs)"
  by (auto simp: addOnce_def)

text \<open>The actions the profile records for a resource are those granted on it.\<close>

definition actionsOn :: "resourceCapability list \<Rightarrow> string \<Rightarrow> string set" where
  "actionsOn caps resource = (case List.find (\<lambda>c. rc_resource c = resource) caps of
     None \<Rightarrow> {} | Some c \<Rightarrow> set (rc_actions c))"

lemma actionsOn_addGranted:
  "actionsOn (addGranted p caps) r =
     (if r = gp_resourceType p then insert (gp_action p) (actionsOn caps r) else actionsOn caps r)"
proof (induction caps)
  case (Cons c cs)
  then show ?case by (cases "rc_resource c = gp_resourceType p"; cases "rc_resource c = r") (simp_all add: actionsOn_def)
qed (simp add: actionsOn_def)

lemma actionsOn_byResource:
  "actionsOn (byResource granted) r = gp_action ` {p \<in> set granted. gp_resourceType p = r}"
proof (induction granted rule: rev_induct)
  case Nil
  then show ?case by (simp add: actionsOn_def byResource_def)
next
  case (snoc p ps)
  then show ?case by (auto simp: byResource_def actionsOn_addGranted)
qed

lemma actionSatisfies_iff:
  "actionSatisfies actions a \<longleftrightarrow>
     a \<in> set actions \<or> a = ''read'' \<and> (\<exists>b\<in>set actions. b \<in> set ACTIONS_THAT_SATISFY_READ)"
  by (auto simp: actionSatisfies_def list_ex_iff)

lemma canAct_actionsOn:
  "canAct caps resource action \<longleftrightarrow> action \<in> actionsOn caps resource \<or>
     action = ''read'' \<and> (\<exists>b\<in>actionsOn caps resource. b \<in> set ACTIONS_THAT_SATISFY_READ)"
  by (auto simp: canAct_def actionsOn_def actionSatisfies_iff split: option.splits)

lemma canAct_iff:
  "canAct (byResource granted) resource action \<longleftrightarrow>
     (\<exists>p\<in>set granted. gp_resourceType p = resource \<and>
        (gp_action p = action \<or> action = ''read'' \<and> gp_action p \<in> set ACTIONS_THAT_SATISFY_READ))"
  by (auto simp: canAct_actionsOn actionsOn_byResource)

section \<open>Scopes and the cache\<close>

lemma set_ownCostCenters:
  "i \<in> set (ownCostCenters ps) \<longleftrightarrow> i \<noteq> '''' \<and>
     (\<exists>p\<in>set ps. ep_userScopeType p = CostCenterScope \<and> ep_userScopeId p = Some i)"
  by (force simp: ownCostCenters_def split: option.splits if_splits)

text \<open>
  \<open>hist t user\<close> is what the repository would have answered at time \<open>t\<close>; a cache is sound when
  every entry is an answer given one time to live before it expires.
\<close>

definition cacheSound :: "(int \<Rightarrow> string \<Rightarrow> 'a) \<Rightarrow> int \<Rightarrow> 'a cacheEntries \<Rightarrow> bool" where
  "cacheSound hist now m = (\<forall>u v e. m u = Some (v, e) \<longrightarrow>
     v = hist (e - CACHE_TTL_SECONDS * 1000) u \<and> e - CACHE_TTL_SECONDS * 1000 \<le> now)"

lemma cacheSound_set:
  "cacheSound hist now m \<Longrightarrow> cacheSound hist now (cacheSet now m u (hist now u) CACHE_TTL_SECONDS)"
  by (auto simp: cacheSound_def cacheSet_def)

lemma cacheSound_read:
  assumes "cacheSound hist now m" "cacheRead now m u = (r, m')"
  shows "cacheSound hist now m' \<and>
    (\<forall>v. r = Some v \<longrightarrow> (\<exists>t. now - CACHE_TTL_SECONDS * 1000 < t \<and> t \<le> now \<and> v = hist t u))"
  using assms by (force simp: cacheSound_def cacheRead_def split: option.splits if_splits prod.splits)

lemma cacheSound_mono: "cacheSound hist t m \<Longrightarrow> t \<le> now \<Longrightarrow> cacheSound hist now m"
  by (force simp: cacheSound_def)

lemma getEffectivePermissions_fresh:
  assumes "cacheSound hist now (pc_entries cache)"
    and "getEffectivePermissions now (hist now) u cache = (v, cache')"
  shows "(\<exists>t. now - CACHE_TTL_SECONDS * 1000 < t \<and> t \<le> now \<and> v = hist t u) \<and>
    cacheSound hist now (pc_entries cache')"
proof (cases "cacheRead now (pc_entries cache) u")
  case (Pair r m)
  note sound = cacheSound_read [OF assms(1) Pair]
  show ?thesis
  proof (cases r)
    case None
    then have "v = hist now u" "pc_entries cache' = cacheSet now m u (hist now u) CACHE_TTL_SECONDS"
      using assms(2) Pair by (auto simp: getEffectivePermissions_def)
    then show ?thesis using sound cacheSound_set [of hist now m u]
      by (auto simp: CACHE_TTL_SECONDS_def intro: exI [of _ now])
  next
    case (Some w)
    then show ?thesis using assms(2) Pair sound by (auto simp: getEffectivePermissions_def)
  qed
qed

lemma cacheDelete_entries: "pc_entries (cacheDelete u cache) = (pc_entries cache)(u := None)"
  by (simp add: cacheDelete_def)

lemma invalidateMany_entries:
  "pc_entries (invalidateMany us cache) u = (if u \<in> set us then None else pc_entries cache u)"
proof (induction us arbitrary: cache)
  case (Cons w us)
  then show ?case by (simp add: invalidateMany_def cacheDelete_entries)
qed (simp add: invalidateMany_def)

section \<open>Properties\<close>

text \<open>
  The menu of the access profile holds exactly the catalogue entries whose resource has a
  granted permission with the required action, or with any action that implies reading when the
  entry only needs to be read.
\<close>

theorem profile_navigation_sound:
  "set (ap_navigation (buildAccessProfile collationKey granted catalog)) =
    {\<lparr>ni_module = nd_module i, ni_moduleLabel = nd_moduleLabel i, ni_resource = nd_resource i,
      ni_path = nd_path i, ni_label = nd_label i, ni_icon = nd_icon i\<rparr> | i.
      i \<in> set catalog \<and> (\<exists>p\<in>set granted. gp_resourceType p = nd_resource i \<and>
        (gp_action p = nd_requiredAction i \<or>
         nd_requiredAction i = ''read'' \<and> gp_action p \<in> set ACTIONS_THAT_SATISFY_READ))}"
  by (auto simp: buildAccessProfile_def Let_def canAct_iff)

text \<open>
  C24. A reader whose scope is not global and who gets a readable scope sees exactly the cost
  centres of the scoped grants and those the person heads: at least one, in order, without
  repetition; only a holder of the global code is unrestricted.
\<close>

theorem cost_center_scope_exact:
  assumes "requireReadableScope (resolveCostCenterScope permissions globalCode scopedCode headed) = Inr scope"
  shows "case costCenterFilter scope of
      None \<Rightarrow> \<exists>p\<in>set permissions. ep_permissionCode p = globalCode
    | Some ids \<Rightarrow> ids \<noteq> [] \<and> sorted ids \<and> distinct ids \<and>
        (\<exists>p\<in>set permissions. ep_permissionCode p = scopedCode) \<and>
        (\<forall>p\<in>set permissions. ep_permissionCode p \<noteq> globalCode) \<and>
        (\<forall>i. i \<in> set ids \<longleftrightarrow> i \<in> set headed \<or> i \<noteq> '''' \<and>
           (\<exists>p\<in>set permissions. ep_permissionCode p = scopedCode \<and>
              ep_userScopeType p = CostCenterScope \<and> ep_userScopeId p = Some i))"
proof (cases "resolveCostCenterScope permissions globalCode scopedCode headed")
  case Global
  then show ?thesis using assms
    by (auto simp: resolveCostCenterScope_def Let_def list_ex_iff split: if_splits)
next
  case (CostCenters ids)
  then have g: "\<not> list_ex (\<lambda>p. ep_permissionCode p = globalCode) permissions"
    and s: "filter (\<lambda>p. ep_permissionCode p = scopedCode) permissions \<noteq> []"
    and ids: "ids = sort (uniq (ownCostCenters (filter (\<lambda>p. ep_permissionCode p = scopedCode) permissions) @ headed))"
      "ids \<noteq> []"
    by (auto simp: resolveCostCenterScope_def Let_def split: if_splits)
  have "i \<in> set ids \<longleftrightarrow> i \<in> set headed \<or> i \<noteq> '''' \<and>
      (\<exists>p\<in>set permissions. ep_permissionCode p = scopedCode \<and>
         ep_userScopeType p = CostCenterScope \<and> ep_userScopeId p = Some i)" for i
    unfolding ids(1) by (auto simp: set_ownCostCenters)
  moreover have "sorted ids" "distinct ids" unfolding ids(1) by simp_all
  moreover have "\<exists>p\<in>set permissions. ep_permissionCode p = scopedCode"
    using s by (auto simp: filter_empty_conv)
  moreover have "\<forall>p\<in>set permissions. ep_permissionCode p \<noteq> globalCode"
    using g by (auto simp: list_ex_iff)
  moreover have "scope = CostCenters ids" using assms CostCenters by simp
  ultimately show ?thesis using ids(2) by simp
qed (use assms in auto)

definition sampleGrant :: effectivePermission where
  "sampleGrant = \<lparr>ep_permissionCode = ''asset:read:cost_center'', ep_userScopeType = CostCenterScope,
     ep_userScopeId = Some ''cc2''\<rparr>"

theorem cost_center_scope_exact_witness:
  "requireReadableScope (resolveCostCenterScope [sampleGrant] ''asset:read:global''
      ''asset:read:cost_center'' [''cc1'']) = Inr (CostCenters [''cc1'', ''cc2'']) \<and>
   sorted [''cc1'', ''cc2'']"
proof -
  have run: "requireReadableScope (resolveCostCenterScope [sampleGrant] ''asset:read:global''
      ''asset:read:cost_center'' [''cc1'']) = Inr (CostCenters [''cc1'', ''cc2''])"
    by (simp add: resolveCostCenterScope_def sampleGrant_def ownCostCenters_def uniq_def Let_def)
  then show ?thesis using cost_center_scope_exact [OF run] by simp
qed

text \<open>
  C23. A request the permission guard lets through carries an authenticated user who holds, among
  the permissions served for that user, one with the required code that is either not scoped or
  whose scope is that of the request; for an \<open>:own\<close> code the owner the request names is the user.
\<close>

theorem permissionsGuard_sound:
  assumes "permissionsGuard now query (Some required) request cache = Inr cache'"
  shows "\<exists>user. rq_user request = Some user \<and>
    (endsWith (pr_code required) '':own'' \<longrightarrow> readOwnerId request \<in> {None, Some (au_id user)}) \<and>
    (\<exists>p\<in>set (fst (getEffectivePermissions now query (au_id user) cache)).
       ep_permissionCode p = pr_code required \<and>
       (endsWith (pr_code required) '':own'' \<or> endsWith (pr_code required) '':global'' \<or>
        ep_userScopeType p = GlobalScope \<or>
        (\<exists>s. extractScope required request = Some s \<and> ep_userScopeType p = ps_type s \<and>
           ep_userScopeId p \<in> {None, Some (ps_id s)})))"
proof -
  obtain user where u: "rq_user request = Some user"
    using assms by (auto simp: permissionsGuard_def split: option.splits)
  have own: "endsWith (pr_code required) '':own'' \<Longrightarrow> readOwnerId request \<in> {None, Some (au_id user)}"
    using assms u by (auto simp: permissionsGuard_def split: option.splits if_splits)
  have "hasPermission (fst (getEffectivePermissions now query (au_id user) cache)) (pr_code required)
      (extractScope required request)"
    using assms u by (auto simp: permissionsGuard_def userHasPermission_def Let_def split: if_splits prod.splits)
  then obtain p where p: "p \<in> set (fst (getEffectivePermissions now query (au_id user) cache))"
    "permissionMatches (pr_code required) (extractScope required request) p"
    by (auto simp: hasPermission_def list_ex_iff)
  from p(2) have "ep_permissionCode p = pr_code required \<and>
       (endsWith (pr_code required) '':own'' \<or> endsWith (pr_code required) '':global'' \<or>
        ep_userScopeType p = GlobalScope \<or>
        (\<exists>s. extractScope required request = Some s \<and> ep_userScopeType p = ps_type s \<and>
           ep_userScopeId p \<in> {None, Some (ps_id s)}))"
    by (auto simp: permissionMatches_def split: if_splits option.splits)
  then show ?thesis using u own p(1) by blast
qed

text \<open>
  The permissions served from the cache were those of the repository less than sixty seconds
  ago, and the first read after an invalidation of the user returns the current ones.
\<close>

theorem permissions_cache_fresh:
  assumes "cacheSound hist now (pc_entries cache)"
  shows "(\<exists>t. now - 60000 < t \<and> t \<le> now \<and> fst (getEffectivePermissions now (hist now) u cache) = hist t u) \<and>
    (u \<in> set us \<longrightarrow> fst (getEffectivePermissions now (hist now) u (invalidateMany us cache)) = hist now u)"
proof -
  obtain v c' where g: "getEffectivePermissions now (hist now) u cache = (v, c')" by fastforce
  have "pc_entries (invalidateMany us cache) u = None" if "u \<in> set us"
    using that by (simp add: invalidateMany_entries)
  then have "u \<in> set us \<longrightarrow> fst (getEffectivePermissions now (hist now) u (invalidateMany us cache)) = hist now u"
    by (simp add: getEffectivePermissions_def cacheRead_def)
  then show ?thesis using getEffectivePermissions_fresh [OF assms g] g by (simp add: CACHE_TTL_SECONDS_def)
qed

theorem permissions_cache_fresh_witness:
  "fst (getEffectivePermissions 5 (\<lambda>u. [sampleGrant]) ''u1''
     (invalidateMany [''u1''] \<lparr>pc_entries = \<lambda>u. None, pc_headed = \<lambda>u. None\<rparr>)) = [sampleGrant]"
  using permissions_cache_fresh [of "\<lambda>t u. [sampleGrant]" 5
    "\<lparr>pc_entries = \<lambda>u. None, pc_headed = \<lambda>u. None\<rparr>" "''u1''" "[''u1'']"]
  by (simp add: cacheSound_def)

definition sampleUser :: authenticatedUser where
  "sampleUser = \<lparr>au_id = ''u1'', au_personId = ''p1'', au_username = ''ana'', au_roles = [],
     au_scopes = [], au_mustChangePassword = False, au_sessionId = None\<rparr>"

definition sampleRequest :: authenticatedRequest where
  "sampleRequest = \<lparr>rq_user = Some sampleUser, rq_params = [(''costCenterId'', JStr ''cc2'')],
     rq_body = None, rq_path = ''/api/v1/assets''\<rparr>"

theorem permissionsGuard_sound_witness:
  "\<exists>user. rq_user sampleRequest = Some user \<and> au_id user = ''u1''"
proof -
  have "\<exists>c. permissionsGuard 0 (\<lambda>u. [sampleGrant]) (Some \<lparr>pr_code = ''asset:read:cost_center'',
      pr_scopeType = None, pr_scopeFrom = None\<rparr>) sampleRequest \<lparr>pc_entries = \<lambda>u. None, pc_headed = \<lambda>u. None\<rparr> = Inr c"
    by (simp add: permissionsGuard_def sampleRequest_def sampleUser_def sampleGrant_def endsWith_def
        userHasPermission_def getEffectivePermissions_def cacheRead_def hasPermission_def
        permissionMatches_def extractScope_def inferScopeTypeFromCode_def readScopeId_def
        scopeWithId_def firstPresent_def readStringField_def Let_def)
  then obtain c where c: "permissionsGuard 0 (\<lambda>u. [sampleGrant]) (Some \<lparr>pr_code = ''asset:read:cost_center'',
      pr_scopeType = None, pr_scopeFrom = None\<rparr>) sampleRequest \<lparr>pc_entries = \<lambda>u. None, pc_headed = \<lambda>u. None\<rparr> = Inr c" ..
  from permissionsGuard_sound [OF c] show ?thesis by (auto simp: sampleRequest_def sampleUser_def)
qed

end
