(* ===== verification/FeatureFlags.thy ===== *)
theory FeatureFlags
  imports Access
begin

text \<open>
  The switchable modules of the system: the catalogue and the path matching of
  src/src/modules/features/feature-catalog.ts, the environment of src/src/config/features-config.ts,
  the service that caches the flags and runs a circuit breaker per module
  (feature-flags.service.ts), the guard that consults it and the interceptor that reports the
  outcome of a request (feature.guard.ts and feature-circuit.interceptor.ts).

  The state is the memory of one process plus the table \<open>feature_flag\<close>; every operation is one
  step on both, except two that are split where they await: a reload is a read (\<open>reloadAllRead\<close>)
  followed by its application, and a trip is decided (\<open>recordFailure\<close>) before it is written
  (\<open>trip\<close>). The awaits inside \<open>recordSuccess\<close>, \<open>rearm\<close>, \<open>reloadOne\<close>, \<open>setEnabled\<close> and
  \<open>trip\<close> itself (the write of the row, the audit) are not split: what another request does while one of
  those writes is under way is outside the model. Logging is not modelled. Whether a
  database write or an audit insert fails is an argument of the step.
\<close>

section \<open>The catalogue\<close>

datatype disabledReason = ManualReason | CircuitReason | EnvReason | DefaultReason

record featureDefinition =
  fd_code :: string
  fd_label :: string
  fd_core :: bool
  fd_resourceTypes :: "string list"
  fd_pathPrefixes :: "string list"
  fd_defaultEnabled :: "bool option"

definition feature :: "string \<Rightarrow> string \<Rightarrow> bool \<Rightarrow> string list \<Rightarrow> string list \<Rightarrow> featureDefinition" where
  "feature code label core resourceTypes pathPrefixes =
     \<lparr>fd_code = code, fd_label = label, fd_core = core, fd_resourceTypes = resourceTypes,
      fd_pathPrefixes = pathPrefixes, fd_defaultEnabled = None\<rparr>"

definition FEATURE_CATALOG :: "featureDefinition list" where
  "FEATURE_CATALOG =
    [feature ''auth'' (''Autenticaci'' @ [CHR 0xF3] @ ''n'') True [] [''/auth''],
     feature ''roles'' ''Roles y permisos'' True [''role'', ''navigation'']
       [''/roles'', ''/permissions'', ''/navigation''],
     feature ''users'' ''Usuarios'' True [''user''] [''/users''],
     feature ''features'' (''M'' @ [CHR 0xF3] @ ''dulos del sistema'') True [''feature''] [''/features''],
     feature ''campus'' ''Campus'' False [''campus''] [''/campus''],
     feature ''buildings'' ''Edificios'' False [] [],
     feature ''locations'' ''Ubicaciones'' False [] [''/locations''],
     feature ''organizational-units'' ''Dependencias'' False [''org_unit''] [''/organizational-units''],
     feature ''cost-centers'' ''Centros de costo'' False [''cost_center''] [''/cost-centers''],
     feature ''categories'' (''Categor'' @ [CHR 0xED] @ ''as'') False [''category''] [''/categories''],
     feature ''dynamic-fields'' (''Campos din'' @ [CHR 0xE1] @ ''micos'') False [] [],
     feature ''assets'' ''Activos'' False [''asset'', ''asset_price_zero_reason'']
       [''/assets'', ''/asset-photos''],
     feature ''qr-tokens'' (''C'' @ [CHR 0xF3] @ ''digos QR'') False [] [''/qr''],
     feature ''movements'' ''Movimientos'' False [] [''/movements''],
     feature ''loans'' (''Pr'' @ [CHR 0xE9] @ ''stamos'') False [''loan''] [''/loans''],
     feature ''inventories'' (''Tomas f'' @ [CHR 0xED] @ ''sicas'') False
       [''physical_inventory'', ''inventory_catalog''] [''/inventories''],
     (feature ''depreciation'' (''Depreciaci'' @ [CHR 0xF3] @ ''n'') False [''depreciation'']
       [''/depreciation''])\<lparr>fd_defaultEnabled := Some False\<rparr>,
     feature ''document-templates'' ''Plantillas'' False [''document_template''] [''/document-templates''],
     feature ''storage'' ''Almacenamiento'' False [''storage''] [''/storage''],
     feature ''mail'' ''Correo'' False [''mail'', ''email_template''] [''/mail'', ''/email-templates'']]"

definition findFeatureDefinition :: "string \<Rightarrow> featureDefinition option" where
  "findFeatureDefinition code = List.find (\<lambda>f. fd_code f = code) FEATURE_CATALOG"

definition isKnownFeatureCode :: "string \<Rightarrow> bool" where
  "isKnownFeatureCode code = (findFeatureDefinition code \<noteq> None)"

definition startsWith :: "string \<Rightarrow> string \<Rightarrow> bool" where
  "startsWith s pre = (take (length pre) s = pre)"

definition API_GLOBAL_PREFIX :: string where
  "API_GLOBAL_PREFIX = ''/api/v1''"

definition stripApiPrefix :: "string \<Rightarrow> string" where
  "stripApiPrefix path =
     (let stripped = rev (dropWhile (\<lambda>c. c = CHR ''/'') (rev (takeWhile (\<lambda>c. c \<noteq> CHR ''?'') path)));
          pathname = (if stripped = '''' then ''/'' else stripped)
      in if pathname = API_GLOBAL_PREFIX then ''/''
         else if startsWith pathname (API_GLOBAL_PREFIX @ ''/'') then drop (length API_GLOBAL_PREFIX) pathname
         else pathname)"

definition pathMatchesPrefix :: "string \<Rightarrow> string \<Rightarrow> bool" where
  "pathMatchesPrefix pathname pre = (pathname = pre \<or> startsWith pathname (pre @ ''/''))"

definition featureCodesForPath :: "string \<Rightarrow> string list" where
  "featureCodesForPath path =
     (let pathname = stripApiPrefix path in
      map fd_code (filter (\<lambda>f. list_ex (pathMatchesPrefix pathname) (fd_pathPrefixes f)) FEATURE_CATALOG))"

section \<open>The configuration\<close>

record featuresConfig =
  fc_circuitThreshold :: int
  fc_circuitWindowMs :: int
  fc_circuitCooldownMs :: int
  fc_reloadIntervalMs :: int
  fc_overrides :: "string \<Rightarrow> bool option"

text \<open>The environment as its entries; a key that is present but undefined has no value.\<close>

type_synonym environ = "(string \<times> string option) list"

definition envValue :: "environ \<Rightarrow> string \<Rightarrow> string option" where
  "envValue env key = (case map_of env key of Some v \<Rightarrow> v | None \<Rightarrow> None)"

definition readIntegerInRange :: "environ \<Rightarrow> string \<Rightarrow> int \<Rightarrow> int \<Rightarrow> int \<Rightarrow> int res" where
  "readIntegerInRange env key fallback minimum maximum =
     (case map_option trim (envValue env key) of
        None \<Rightarrow> Inr fallback
      | Some raw \<Rightarrow>
          if raw = '''' then Inr fallback
          else if \<not> list_all isDigit raw \<or> 2 ^ 53 \<le> numberOf raw \<or> numberOf raw < minimum \<or> maximum < numberOf raw
          then throwError
          else Inr (numberOf raw))"

definition RESERVED_FEATURE_ENV :: "string list" where
  "RESERVED_FEATURE_ENV = [''FEATURE_CIRCUIT_THRESHOLD'', ''FEATURE_CIRCUIT_WINDOW_SECONDS'',
     ''FEATURE_CIRCUIT_COOLDOWN_SECONDS'', ''FEATURE_FLAGS_RELOAD_SECONDS'']"

definition lowerChar :: "char \<Rightarrow> char" where
  "lowerChar c = (if CHR ''A'' \<le> c \<and> c \<le> CHR ''Z'' then char_of (of_char c + (32 :: nat)) else c)"

definition readFeatureOverrides :: "environ \<Rightarrow> string \<Rightarrow> bool option" where
  "readFeatureOverrides env =
     fold (\<lambda>(key, raw) m. case raw of
         None \<Rightarrow> m
       | Some v \<Rightarrow>
           if \<not> startsWith key ''FEATURE_'' \<or> key \<in> set RESERVED_FEATURE_ENV \<or> v = '''' then m
           else m(map (\<lambda>c. if c = CHR ''_'' then CHR ''-'' else lowerChar c) (drop 8 key)
                    \<mapsto> (v = ''true'' \<or> v = ''1'')))
       env (\<lambda>_. None)"

definition resolveFeaturesConfig :: "environ \<Rightarrow> featuresConfig res" where
  "resolveFeaturesConfig env =
     rbind (readIntegerInRange env ''FEATURE_CIRCUIT_THRESHOLD'' 5 1 1000) (\<lambda>threshold.
     rbind (readIntegerInRange env ''FEATURE_CIRCUIT_WINDOW_SECONDS'' 120 1 86400) (\<lambda>window.
     rbind (readIntegerInRange env ''FEATURE_CIRCUIT_COOLDOWN_SECONDS'' 300 1 86400) (\<lambda>cooldown.
     rbind (readIntegerInRange env ''FEATURE_FLAGS_RELOAD_SECONDS'' 30 0 3600) (\<lambda>reload.
       Inr \<lparr>fc_circuitThreshold = threshold, fc_circuitWindowMs = window * 1000,
         fc_circuitCooldownMs = cooldown * 1000, fc_reloadIntervalMs = reload * 1000,
         fc_overrides = readFeatureOverrides env\<rparr>))))"

section \<open>The state\<close>

record featureFlagRow =
  fr_code :: string
  fr_enabled :: bool
  fr_disabledReason :: "string option"
  fr_disabledAt :: "int option"
  fr_updatedAt :: int

record runtimeOverride =
  ro_enabled :: bool
  ro_reason :: "disabledReason option"
  ro_disabledAt :: "int option"

datatype featureAudit = CircuitOpened string nat | CircuitRecovered string "int option"

record featureState =
  fl_stored :: "string \<Rightarrow> runtimeOverride option"
  fl_failures :: "string \<Rightarrow> int list option"
  fl_probes :: "string \<Rightarrow> int option"
  fl_tripping :: "string list"
  fl_writeSeq :: nat
  fl_rows :: "featureFlagRow list"
  fl_audit :: "featureAudit list"

record featureSnapshotFull =
  sn_code :: string
  sn_label :: string
  sn_enabled :: bool
  sn_core :: bool
  sn_reason :: "disabledReason option"
  sn_retryAt :: "int option"
  sn_resourceTypes :: "string list"

datatype circuitPhase = OpenPhase | HalfOpenPhase

definition asDisabledReason :: "string option \<Rightarrow> disabledReason option" where
  "asDisabledReason v = (if v = Some ''MANUAL'' then Some ManualReason
     else if v = Some ''CIRCUIT'' then Some CircuitReason
     else if v = Some ''ENV'' then Some EnvReason else None)"

definition toOverride :: "featureFlagRow \<Rightarrow> runtimeOverride" where
  "toOverride row = \<lparr>ro_enabled = fr_enabled row,
     ro_reason = (if fr_enabled row then None else asDisabledReason (fr_disabledReason row)),
     ro_disabledAt = (if fr_enabled row then None else fr_disabledAt row)\<rparr>"

definition retryAtOf :: "featuresConfig \<Rightarrow> runtimeOverride \<Rightarrow> int" where
  "retryAtOf cfg stored =
     (case ro_disabledAt stored of None \<Rightarrow> 0 | Some t \<Rightarrow> t) + fc_circuitCooldownMs cfg"

definition circuitPhase :: "featuresConfig \<Rightarrow> int \<Rightarrow> featureState \<Rightarrow> string \<Rightarrow> circuitPhase option" where
  "circuitPhase cfg now st code =
     (case findFeatureDefinition code of None \<Rightarrow> None
      | Some def \<Rightarrow>
          if fd_core def \<or> fc_overrides cfg code \<noteq> None then None
          else (case fl_stored st code of None \<Rightarrow> None
            | Some stored \<Rightarrow>
                if ro_enabled stored \<or> ro_reason stored \<noteq> Some CircuitReason then None
                else Some (if now < retryAtOf cfg stored then OpenPhase else HalfOpenPhase)))"

definition toSnapshot :: "featureDefinition \<Rightarrow> bool \<Rightarrow> disabledReason option \<Rightarrow> int option \<Rightarrow> featureSnapshotFull" where
  "toSnapshot def enabled reason retryAt =
     \<lparr>sn_code = fd_code def, sn_label = fd_label def, sn_enabled = enabled, sn_core = fd_core def,
      sn_reason = (if enabled then None else reason), sn_retryAt = (if enabled then None else retryAt),
      sn_resourceTypes = fd_resourceTypes def\<rparr>"

definition snapshotFor :: "featuresConfig \<Rightarrow> int \<Rightarrow> featureState \<Rightarrow> string \<Rightarrow> featureSnapshotFull" where
  "snapshotFor cfg now st code =
     (case findFeatureDefinition code of
        None \<Rightarrow> \<lparr>sn_code = code, sn_label = code, sn_enabled = True, sn_core = False, sn_reason = None,
           sn_retryAt = None, sn_resourceTypes = []\<rparr>
      | Some def \<Rightarrow>
          if fd_core def then toSnapshot def True None None
          else (case fc_overrides cfg code of
              Some env \<Rightarrow> if env then toSnapshot def True None None
                         else toSnapshot def False (Some EnvReason) None
            | None \<Rightarrow> (case fl_stored st code of
                Some stored \<Rightarrow> (case circuitPhase cfg now st code of
                    Some HalfOpenPhase \<Rightarrow> toSnapshot def True None None
                  | Some OpenPhase \<Rightarrow> toSnapshot def False (Some CircuitReason) (Some (retryAtOf cfg stored))
                  | None \<Rightarrow> toSnapshot def (ro_enabled stored) (ro_reason stored) None)
              | None \<Rightarrow> (let enabled = (case fd_defaultEnabled def of None \<Rightarrow> True | Some b \<Rightarrow> b)
                  in toSnapshot def enabled (if enabled then None else Some DefaultReason) None))))"

definition isEnabled :: "featuresConfig \<Rightarrow> int \<Rightarrow> featureState \<Rightarrow> string \<Rightarrow> bool" where
  "isEnabled cfg now st code =
     (if circuitPhase cfg now st code = Some HalfOpenPhase then False
      else sn_enabled (snapshotFor cfg now st code))"

definition PROBE_LEASE_MS :: int where
  "PROBE_LEASE_MS = 30000"

definition admit :: "featuresConfig \<Rightarrow> int \<Rightarrow> string \<Rightarrow> featureState \<Rightarrow> bool \<times> featureState" where
  "admit cfg now code st =
     (if isEnabled cfg now st code then (True, st)
      else if circuitPhase cfg now st code \<noteq> Some HalfOpenPhase then (False, st)
      else if (case fl_probes st code of None \<Rightarrow> False | Some lease \<Rightarrow> now - lease < PROBE_LEASE_MS)
        then (False, st)
      else (True, st\<lparr>fl_probes := (fl_probes st)(code := Some now)\<rparr>))"

definition listFeatures :: "featuresConfig \<Rightarrow> int \<Rightarrow> featureState \<Rightarrow> featureSnapshotFull list" where
  "listFeatures cfg now st = map (\<lambda>f. snapshotFor cfg now st (fd_code f)) FEATURE_CATALOG"

section \<open>Reloading\<close>

definition flagRow :: "featureState \<Rightarrow> string \<Rightarrow> featureFlagRow option" where
  "flagRow st code = List.find (\<lambda>r. fr_code r = code) (fl_rows st)"

text \<open>\<open>apply\<close>: the override of one module as the database has it now.\<close>

definition applyOverride :: "string \<Rightarrow> runtimeOverride option \<Rightarrow> featureState \<Rightarrow> featureState" where
  "applyOverride code next st = st
     \<lparr>fl_stored := (fl_stored st)(code := next),
      fl_probes := (if (case next of None \<Rightarrow> None | Some o' \<Rightarrow> ro_reason o') \<noteq> Some CircuitReason
                    then (fl_probes st)(code := None) else fl_probes st)\<rparr>"

text \<open>
  \<open>reloadAll\<close> before and after its await: the sequence number with the rows read, and their
  application, skipped when a write began or ended in between. The modules to forget are the
  stored ones that have no row; iterating the map they are the keys \<open>codes\<close> of the map.
\<close>

definition reloadAllRead :: "featureState \<Rightarrow> nat \<times> featureFlagRow list" where
  "reloadAllRead st = (fl_writeSeq st, fl_rows st)"

definition reloadAllApply :: "string list \<Rightarrow> nat \<times> featureFlagRow list \<Rightarrow> featureState \<Rightarrow> featureState" where
  "reloadAllApply codes pending st =
     (let (seq, rows) = pending in
      if seq \<noteq> fl_writeSeq st then st
      else (let st' = fold (\<lambda>row. applyOverride (fr_code row) (Some (toOverride row))) rows st;
                seen = map fr_code rows
            in fold (\<lambda>code. if code \<in> set seen then id else applyOverride code None) codes st'))"

definition reloadOne :: "string \<Rightarrow> featureState \<Rightarrow> featureState" where
  "reloadOne code st = applyOverride code (map_option toOverride (flagRow st code)) st"

section \<open>Switching by hand\<close>

definition saveRow :: "featureFlagRow \<Rightarrow> featureFlagRow list \<Rightarrow> featureFlagRow list" where
  "saveRow row rows =
     (if list_ex (\<lambda>r. fr_code r = fr_code row) rows
      then update_where (\<lambda>r. fr_code r = fr_code row) (\<lambda>_. row) rows
      else rows @ [row])"

text \<open>\<open>write\<close> counts before and after the operation, also when it throws.\<close>

definition bumpWrite :: "featureState \<Rightarrow> featureState" where
  "bumpWrite st = st\<lparr>fl_writeSeq := fl_writeSeq st + 2\<rparr>"

definition persistFlag ::
  "int \<Rightarrow> bool \<Rightarrow> string \<Rightarrow> bool \<Rightarrow> disabledReason option \<Rightarrow> featureState \<Rightarrow> unit res \<times> featureState" where
  "persistFlag now writeFails code enabled reason st =
     (if writeFails then (throwError, bumpWrite st)
      else (let row = \<lparr>fr_code = code, fr_enabled = enabled,
                  fr_disabledReason = (if enabled then None
                     else map_option (\<lambda>r. case r of ManualReason \<Rightarrow> ''MANUAL'' | CircuitReason \<Rightarrow> ''CIRCUIT''
                       | EnvReason \<Rightarrow> ''ENV'' | DefaultReason \<Rightarrow> ''DEFAULT'') reason),
                  fr_disabledAt = (if enabled then None else Some now), fr_updatedAt = now\<rparr>;
                st' = (bumpWrite st)\<lparr>fl_rows := saveRow row (fl_rows st)\<rparr>
            in (Inr (), st'\<lparr>fl_stored := (fl_stored st')(code := Some
                  \<lparr>ro_enabled = enabled, ro_reason = (if enabled then None else reason),
                   ro_disabledAt = (if enabled then None else Some now)\<rparr>)\<rparr>)))"

definition setEnabled ::
  "featuresConfig \<Rightarrow> int \<Rightarrow> bool \<Rightarrow> string \<Rightarrow> bool \<Rightarrow> featureState \<Rightarrow>
     featureSnapshotFull res \<times> featureState" where
  "setEnabled cfg now writeFails code enabled st =
     (case findFeatureDefinition code of
        None \<Rightarrow> (throw FeatureUnknown, st)
      | Some def \<Rightarrow>
          if fd_core def then (throw FeatureNotToggleable, st)
          else if fc_overrides cfg code \<noteq> None then (throw FeatureNotToggleable, st)
          else (case persistFlag now writeFails code enabled (if enabled then None else Some ManualReason) st of
              (Inl e, st') \<Rightarrow> (Inl e, st')
            | (Inr u, st') \<Rightarrow>
                (let st'' = st'\<lparr>fl_failures := (fl_failures st')(code := None),
                                fl_probes := (fl_probes st')(code := None)\<rparr>
                 in (Inr (snapshotFor cfg now st'' code), st''))))"

section \<open>The circuit\<close>

text \<open>\<open>UPDATE .. WHERE code AND NOT enabled AND disabled_reason = 'CIRCUIT'\<close>: the rows affected.\<close>

definition openRow :: "string \<Rightarrow> featureFlagRow \<Rightarrow> bool" where
  "openRow code r = (fr_code r = code \<and> \<not> fr_enabled r \<and> fr_disabledReason r = Some ''CIRCUIT'')"

definition addAudit :: "bool \<Rightarrow> featureAudit \<Rightarrow> featureState \<Rightarrow> featureState" where
  "addAudit auditFails entry st = (if auditFails then st else st\<lparr>fl_audit := fl_audit st @ [entry]\<rparr>)"

definition recordSuccess ::
  "featuresConfig \<Rightarrow> int \<Rightarrow> bool \<Rightarrow> bool \<Rightarrow> string \<Rightarrow> featureState \<Rightarrow> featureState" where
  "recordSuccess cfg now writeFails auditFails code st =
     (if fl_probes st code = None then st
      else (let st1 = st\<lparr>fl_probes := (fl_probes st)(code := None)\<rparr> in
        if circuitPhase cfg now st1 code \<noteq> Some HalfOpenPhase then st1
        else (let disabledAt = (case fl_stored st1 code of None \<Rightarrow> None | Some s \<Rightarrow> ro_disabledAt s);
                  st2 = bumpWrite st1
              in if writeFails then st2
                 else if \<not> list_ex (openRow code) (fl_rows st2) then reloadOne code st2
                 else (let st3 = st2\<lparr>fl_rows := update_where (openRow code)
                             (\<lambda>r. r\<lparr>fr_enabled := True, fr_disabledReason := None, fr_disabledAt := None,
                                    fr_updatedAt := now\<rparr>) (fl_rows st2),
                           fl_stored := (fl_stored st2)(code := Some
                             \<lparr>ro_enabled = True, ro_reason = None, ro_disabledAt = None\<rparr>),
                           fl_failures := (fl_failures st2)(code := None)\<rparr>
                       in addAudit auditFails (CircuitRecovered code
                            (map_option (\<lambda>t. (2 * (now - t) + 1000) div 2000) disabledAt)) st3))))"

definition releaseProbe :: "string \<Rightarrow> featureState \<Rightarrow> featureState" where
  "releaseProbe code st = st\<lparr>fl_probes := (fl_probes st)(code := None)\<rparr>"

text \<open>
  \<open>trip\<close>: the upsert opens a row that is absent or enabled. When the write fails the circuit
  still opens in this process; when the row was already closed the row is read again instead.
\<close>

definition tripRow :: "string \<Rightarrow> int \<Rightarrow> featureFlagRow list \<Rightarrow> featureFlagRow list \<times> bool" where
  "tripRow code now rows =
     (let new = \<lparr>fr_code = code, fr_enabled = False, fr_disabledReason = Some ''CIRCUIT'',
                 fr_disabledAt = Some now, fr_updatedAt = now\<rparr>
      in if list_ex (\<lambda>r. fr_code r = code) rows
         then (update_where (\<lambda>r. fr_code r = code \<and> fr_enabled r) (\<lambda>_. new) rows,
               list_ex (\<lambda>r. fr_code r = code \<and> fr_enabled r) rows)
         else (rows @ [new], True))"

definition trip ::
  "featuresConfig \<Rightarrow> int \<Rightarrow> bool \<Rightarrow> bool \<Rightarrow> string \<Rightarrow> nat \<Rightarrow> featureState \<Rightarrow> featureState" where
  "trip cfg now writeFails auditFails code failures st =
     (let st1 = bumpWrite (st\<lparr>fl_failures := (fl_failures st)(code := None)\<rparr>);
          (rows, returned) = tripRow code now (fl_rows st1);
          st2 = (if writeFails then st1 else st1\<lparr>fl_rows := rows\<rparr>);
          released = (\<lambda>s. s\<lparr>fl_tripping := removeAll code (fl_tripping s)\<rparr>)
      in if \<not> writeFails \<and> \<not> returned then released (reloadOne code st2)
         else released (addAudit auditFails (CircuitOpened code failures)
           (st2\<lparr>fl_stored := (fl_stored st2)(code := Some
             \<lparr>ro_enabled = False, ro_reason = Some CircuitReason, ro_disabledAt = Some now\<rparr>)\<rparr>)))"

definition rearm :: "featuresConfig \<Rightarrow> int \<Rightarrow> bool \<Rightarrow> string \<Rightarrow> featureState \<Rightarrow> featureState" where
  "rearm cfg now writeFails code st =
     (if circuitPhase cfg now st code \<noteq> Some HalfOpenPhase then st
      else (let st1 = bumpWrite st;
                armed = (\<lambda>s. s\<lparr>fl_stored := (fl_stored s)(code := Some
                  \<lparr>ro_enabled = False, ro_reason = Some CircuitReason, ro_disabledAt = Some now\<rparr>)\<rparr>)
            in if writeFails then armed st1
               else if \<not> list_ex (openRow code) (fl_rows st1) then reloadOne code st1
               else armed (st1\<lparr>fl_rows := update_where (openRow code)
                      (\<lambda>r. r\<lparr>fr_disabledAt := Some now, fr_updatedAt := now\<rparr>) (fl_rows st1)\<rparr>)))"

text \<open>
  \<open>recordFailure\<close> up to its await: the number of failures a trip must be made for, when one must.
\<close>

definition recordFailure ::
  "featuresConfig \<Rightarrow> int \<Rightarrow> bool \<Rightarrow> string \<Rightarrow> featureState \<Rightarrow> nat option \<times> featureState" where
  "recordFailure cfg now writeFails code st =
     (case findFeatureDefinition code of None \<Rightarrow> (None, st)
      | Some def \<Rightarrow>
          if fd_core def then (None, st)
          else if fc_overrides cfg code \<noteq> None then (None, st)
          else if fl_probes st code \<noteq> None
            then (None, rearm cfg now writeFails code (st\<lparr>fl_probes := (fl_probes st)(code := None)\<rparr>))
          else if \<not> isEnabled cfg now st code then (None, st)
          else (let recent = filter (\<lambda>t. now - t < fc_circuitWindowMs cfg)
                      (case fl_failures st code of None \<Rightarrow> [] | Some f \<Rightarrow> f) @ [now];
                    st1 = st\<lparr>fl_failures := (fl_failures st)(code := Some recent)\<rparr>
                in if int (length recent) < fc_circuitThreshold cfg \<or> code \<in> set (fl_tripping st1)
                   then (None, st1)
                   else (Some (length recent), st1\<lparr>fl_tripping := code # fl_tripping st1\<rparr>)))"

definition failureStep ::
  "featuresConfig \<Rightarrow> int \<Rightarrow> bool \<Rightarrow> bool \<Rightarrow> string \<Rightarrow> featureState \<Rightarrow> featureState" where
  "failureStep cfg now writeFails auditFails code st =
     (case recordFailure cfg now writeFails code st of
        (None, st') \<Rightarrow> st'
      | (Some failures, st') \<Rightarrow> trip cfg now writeFails auditFails code failures st')"

section \<open>The guard and the interceptor\<close>

fun admitAll :: "featuresConfig \<Rightarrow> int \<Rightarrow> string list \<Rightarrow> featureState \<Rightarrow> unit res \<times> featureState" where
  "admitAll cfg now [] st = (Inr (), st)"
| "admitAll cfg now (code # codes) st =
     (case admit cfg now code st of
        (False, st') \<Rightarrow> (throw ModuleUnavailable, st')
      | (True, st') \<Rightarrow> admitAll cfg now codes st')"

definition decoratedCode :: "string option \<Rightarrow> string list" where
  "decoratedCode decorated = (case decorated of None \<Rightarrow> [] | Some d \<Rightarrow> if d = '''' then [] else [d])"

definition featureGuard ::
  "featuresConfig \<Rightarrow> int \<Rightarrow> string option \<Rightarrow> authenticatedRequest \<Rightarrow> featureState \<Rightarrow> unit res \<times> featureState" where
  "featureGuard cfg now decorated request st =
     admitAll cfg now (uniq (featureCodesForPath (rq_path request) @ decoratedCode decorated)) st"

datatype handlerOutcome = Succeeded | FailedWith bool

text \<open>\<open>FailedWith serverError\<close>: \<open>isCircuitFailure\<close> holds of the error, a status of 500 or more.\<close>

definition circuitInterceptor ::
  "featuresConfig \<Rightarrow> int \<Rightarrow> bool \<Rightarrow> bool \<Rightarrow> string option \<Rightarrow> authenticatedRequest \<Rightarrow> handlerOutcome \<Rightarrow>
     featureState \<Rightarrow> featureState" where
  "circuitInterceptor cfg now writeFails auditFails decorated request outcome st =
     (case decoratedCode decorated @ featureCodesForPath (rq_path request) of
        [] \<Rightarrow> st
      | code # _ \<Rightarrow> (case outcome of
            Succeeded \<Rightarrow> recordSuccess cfg now writeFails auditFails code st
          | FailedWith serverError \<Rightarrow>
              if serverError then failureStep cfg now writeFails auditFails code st
              else releaseProbe code st))"

section \<open>Memory and table\<close>

definition flagsInv :: "featureState \<Rightarrow> bool" where
  "flagsInv st = (distinct (map fr_code (fl_rows st)) \<and>
     (\<forall>code. fl_stored st code = map_option toOverride (flagRow st code)))"

lemma applyOverride_fields [simp]:
  "fl_rows (applyOverride code o' st) = fl_rows st"
  "fl_writeSeq (applyOverride code o' st) = fl_writeSeq st"
  "fl_stored (applyOverride code o' st) = (fl_stored st)(code := o')"
  by (simp_all add: applyOverride_def)

lemma bumpWrite_fields [simp]:
  "fl_rows (bumpWrite st) = fl_rows st" "fl_stored (bumpWrite st) = fl_stored st"
  "fl_writeSeq (bumpWrite st) = fl_writeSeq st + 2" "fl_probes (bumpWrite st) = fl_probes st"
  "fl_failures (bumpWrite st) = fl_failures st" "fl_tripping (bumpWrite st) = fl_tripping st"
  by (simp_all add: bumpWrite_def)

lemma flagRow_rows: "fl_rows st = fl_rows st' \<Longrightarrow> flagRow st code = flagRow st' code"
  by (simp add: flagRow_def)

lemma flagsInv_fields:
  "fl_rows st = fl_rows st' \<Longrightarrow> fl_stored st = fl_stored st' \<Longrightarrow> flagsInv st \<longleftrightarrow> flagsInv st'"
  using flagRow_rows [of st st'] by (simp add: flagsInv_def)

lemma flagsInv_reloadOne: "flagsInv st \<Longrightarrow> flagsInv (reloadOne code st)"
  by (simp add: flagsInv_def reloadOne_def flagRow_def)

lemma find_replace:
  "c \<noteq> fr_code row \<Longrightarrow> List.find (\<lambda>r. fr_code r = c)
     (update_where (\<lambda>r. fr_code r = fr_code row) (\<lambda>_. row) rows) = List.find (\<lambda>r. fr_code r = c) rows"
  "list_ex (\<lambda>r. fr_code r = fr_code row) rows \<Longrightarrow> List.find (\<lambda>r. fr_code r = fr_code row)
     (update_where (\<lambda>r. fr_code r = fr_code row) (\<lambda>_. row) rows) = Some row"
  by (induction rows) auto

lemma find_append_one:
  "List.find P (xs @ [x]) = (case List.find P xs of Some y \<Rightarrow> Some y | None \<Rightarrow> if P x then Some x else None)"
  by (induction xs) auto

lemma find_saveRow:
  "List.find (\<lambda>r. fr_code r = c) (saveRow row rows) =
     (if c = fr_code row then Some row else List.find (\<lambda>r. fr_code r = c) rows)"
proof (cases "list_ex (\<lambda>r. fr_code r = fr_code row) rows")
  case True
  then show ?thesis using find_replace(1) [of c row rows] find_replace(2) [of row rows]
    by (simp add: saveRow_def)
next
  case False
  then have "List.find (\<lambda>r. fr_code r = fr_code row) rows = None"
    by (auto simp: find_None_iff list_ex_iff)
  then show ?thesis using False by (auto simp: saveRow_def find_append_one split: option.splits)
qed

lemma codes_update_same:
  "(\<And>r. p r \<Longrightarrow> fr_code (f r) = fr_code r) \<Longrightarrow> map fr_code (update_where p f rows) = map fr_code rows"
  by (rule map_update_where)

lemma distinct_saveRow: "distinct (map fr_code rows) \<Longrightarrow> distinct (map fr_code (saveRow row rows))"
  using codes_update_same [of "\<lambda>r. fr_code r = fr_code row" "\<lambda>_. row" rows]
  by (auto simp: saveRow_def list_ex_iff)

lemma find_update_code:
  assumes "distinct (map fr_code rows)" "\<And>r. p r \<Longrightarrow> fr_code r = code" "\<And>r. fr_code r = code \<Longrightarrow> fr_code (f r) = code"
  shows "List.find (\<lambda>r. fr_code r = c) (update_where p f rows) =
    (if c = code then map_option (\<lambda>r. if p r then f r else r) (List.find (\<lambda>r. fr_code r = c) rows)
     else List.find (\<lambda>r. fr_code r = c) rows)"
  using assms by (induction rows) auto

lemma list_ex_find:
  assumes "distinct (map fr_code rows)" "\<And>r. p r \<Longrightarrow> fr_code r = code"
  shows "list_ex p rows \<longleftrightarrow> (\<exists>r. List.find (\<lambda>r. fr_code r = code) rows = Some r \<and> p r)"
  using assms
proof (induction rows)
  case (Cons q rows)
  show ?case
  proof (cases "fr_code q = code")
    case True
    have "\<not> p r" if "r \<in> set rows" for r
      using that True Cons.prems(1) Cons.prems(2) [of r] by (auto simp: image_iff)
    then have "\<not> list_ex p rows" by (auto simp: list_ex_iff)
    then show ?thesis using True by simp
  next
    case False
    then show ?thesis using Cons by auto
  qed
qed simp

lemma stored_fold_apply:
  "distinct (map fr_code rows) \<Longrightarrow>
     fl_stored (fold (\<lambda>row. applyOverride (fr_code row) (Some (toOverride row))) rows st) c =
     (case List.find (\<lambda>r. fr_code r = c) rows of Some r \<Rightarrow> Some (toOverride r) | None \<Rightarrow> fl_stored st c)"
proof (induction rows arbitrary: st)
  case (Cons r rows)
  then have "List.find (\<lambda>q. fr_code q = fr_code r) rows = None"
    by (auto simp: find_None_iff image_iff)
  then show ?case using Cons by (auto split: option.split)
qed simp

lemma stored_fold_forget:
  "fl_stored (fold (\<lambda>code. if code \<in> S then id else applyOverride code None) codes st) c =
     (if c \<in> set codes \<and> c \<notin> S then None else fl_stored st c)"
  by (induction codes arbitrary: st) auto

lemma fold_apply_fields:
  "fl_rows (fold (\<lambda>row. applyOverride (fr_code row) (Some (toOverride row))) rows st) = fl_rows st"
  "fl_rows (fold (\<lambda>code. if code \<in> S then id else applyOverride code None) codes st) = fl_rows st"
  by (induction rows arbitrary: st, simp_all) (induction codes arbitrary: st, simp_all)

lemma reload_coherent:
  assumes "distinct (map fr_code (fl_rows st))" "\<And>c. fl_stored st c \<noteq> None \<Longrightarrow> c \<in> set codes"
  shows "flagsInv (reloadAllApply codes (reloadAllRead st) st)"
proof -
  let ?st = "reloadAllApply codes (reloadAllRead st) st"
  have rows: "fl_rows ?st = fl_rows st"
    by (simp add: reloadAllApply_def reloadAllRead_def fold_apply_fields)
  have "fl_stored ?st c = map_option toOverride (flagRow ?st c)" for c
  proof (cases "List.find (\<lambda>r. fr_code r = c) (fl_rows st)")
    case None
    then have "c \<notin> fr_code ` set (fl_rows st)" by (auto simp: find_None_iff)
    then show ?thesis using None assms rows
      by (auto simp: reloadAllApply_def reloadAllRead_def stored_fold_forget stored_fold_apply flagRow_def)
  next
    case (Some r)
    then have "c \<in> fr_code ` set (fl_rows st)" by (auto dest: find_SomeD)
    then show ?thesis using Some assms rows
      by (auto simp: reloadAllApply_def reloadAllRead_def stored_fold_forget stored_fold_apply flagRow_def)
  qed
  then show ?thesis using assms(1) rows by (simp add: flagsInv_def)
qed

text \<open>
  Within one process every successful write leaves memory and table equal; so do the circuit's
  own writes, whichever branch they take.
\<close>

lemma flagsInv_update:
  assumes "flagsInv st" "\<And>r. p r \<Longrightarrow> fr_code r = code" "\<And>r. fr_code r = code \<Longrightarrow> fr_code (f r) = code"
    and "list_ex p (fl_rows st)" "\<And>r. p r \<Longrightarrow> toOverride (f r) = o'"
    and "fl_rows st' = update_where p f (fl_rows st)" "fl_stored st' = (fl_stored st)(code := Some o')"
  shows "flagsInv st'"
proof -
  have d: "distinct (map fr_code (fl_rows st))" using assms(1) by (simp add: flagsInv_def)
  obtain r where r: "List.find (\<lambda>r. fr_code r = code) (fl_rows st) = Some r" "p r"
    using list_ex_find [OF d assms(2)] assms(4) by blast
  have "map fr_code (fl_rows st') = map fr_code (fl_rows st)"
    unfolding assms(6) by (rule codes_update_same) (use assms(2,3) in metis)
  moreover have "fl_stored st' c = map_option toOverride (flagRow st' c)" for c
    using find_update_code [OF d assms(2,3), where c = c] r assms(1,5,6,7)
    by (auto simp: flagsInv_def flagRow_def)
  ultimately show ?thesis using d by (simp add: flagsInv_def)
qed

lemma flagsInv_insert:
  assumes "flagsInv st" "fl_rows st' = saveRow row (fl_rows st)"
    and "fl_stored st' = (fl_stored st)(fr_code row := Some (toOverride row))"
  shows "flagsInv st'"
  using assms distinct_saveRow [of "fl_rows st" row]
  by (auto simp: flagsInv_def flagRow_def find_saveRow)

lemma flagsInv_recordSuccess:
  assumes "flagsInv st"
  shows "flagsInv (recordSuccess cfg now False auditFails code st)"
proof -
  let ?st1 = "st\<lparr>fl_probes := (fl_probes st)(code := None)\<rparr>"
  have i1: "flagsInv ?st1" using assms flagsInv_fields [of st ?st1] by simp
  have i2: "flagsInv (bumpWrite ?st1)" using i1 flagsInv_fields [of ?st1 "bumpWrite ?st1"] by simp
  show ?thesis
  proof (cases "fl_probes st code = None \<or> circuitPhase cfg now ?st1 code \<noteq> Some HalfOpenPhase")
    case True
    then show ?thesis using assms i1 by (auto simp: recordSuccess_def Let_def)
  next
    case False
    show ?thesis
    proof (cases "list_ex (openRow code) (fl_rows (bumpWrite ?st1))")
      case no: False
      then show ?thesis using False flagsInv_reloadOne [OF i2] by (auto simp: recordSuccess_def Let_def)
    next
      case yes: True
      show ?thesis
        by (rule flagsInv_update [OF i2, where p = "openRow code" and code = code
            and f = "\<lambda>r. r\<lparr>fr_enabled := True, fr_disabledReason := None, fr_disabledAt := None, fr_updatedAt := now\<rparr>"
            and o' = "\<lparr>ro_enabled = True, ro_reason = None, ro_disabledAt = None\<rparr>"])
          (use False yes in \<open>auto simp: recordSuccess_def Let_def openRow_def toOverride_def addAudit_def\<close>)
    qed
  qed
qed

lemma flagsInv_rearm:
  assumes "flagsInv st"
  shows "flagsInv (rearm cfg now False code st)"
proof (cases "circuitPhase cfg now st code = Some HalfOpenPhase")
  case True
  have i: "flagsInv (bumpWrite st)" using assms flagsInv_fields [of st "bumpWrite st"] by simp
  show ?thesis
  proof (cases "list_ex (openRow code) (fl_rows (bumpWrite st))")
    case False
    then show ?thesis using True flagsInv_reloadOne [OF i] by (simp add: rearm_def Let_def)
  next
    case yes: True
    show ?thesis
      by (rule flagsInv_update [OF i, where p = "openRow code" and code = code
            and f = "\<lambda>r. r\<lparr>fr_disabledAt := Some now, fr_updatedAt := now\<rparr>"
            and o' = "\<lparr>ro_enabled = False, ro_reason = Some CircuitReason, ro_disabledAt = Some now\<rparr>"])
        (use True yes in \<open>auto simp: rearm_def Let_def openRow_def toOverride_def asDisabledReason_def\<close>)
  qed
qed (use assms in \<open>simp add: rearm_def\<close>)

lemma flagsInv_trip:
  assumes "flagsInv st"
  shows "flagsInv (trip cfg now False auditFails code n st)"
proof -
  let ?st1 = "bumpWrite (st\<lparr>fl_failures := (fl_failures st)(code := None)\<rparr>)"
  let ?new = "\<lparr>fr_code = code, fr_enabled = False, fr_disabledReason = Some ''CIRCUIT'',
     fr_disabledAt = Some now, fr_updatedAt = now\<rparr>"
  have i: "flagsInv ?st1" using assms flagsInv_fields [of st ?st1] by simp
  have over: "toOverride ?new = \<lparr>ro_enabled = False, ro_reason = Some CircuitReason, ro_disabledAt = Some now\<rparr>"
    by (simp add: toOverride_def asDisabledReason_def)
  show ?thesis
  proof (cases "list_ex (\<lambda>r. fr_code r = code) (fl_rows st)")
    case False
    then have "fl_rows (trip cfg now False auditFails code n st) = saveRow ?new (fl_rows ?st1)"
      by (simp add: trip_def tripRow_def saveRow_def Let_def addAudit_def)
    moreover have "fl_stored (trip cfg now False auditFails code n st) = (fl_stored ?st1)(fr_code ?new := Some (toOverride ?new))"
      using False by (simp add: trip_def tripRow_def Let_def addAudit_def over)
    ultimately show ?thesis by (rule flagsInv_insert [OF i])
  next
    case some: True
    show ?thesis
    proof (cases "list_ex (\<lambda>r. fr_code r = code \<and> fr_enabled r) (fl_rows st)")
      case False
      then have "update_where (\<lambda>r. fr_code r = code \<and> fr_enabled r) (\<lambda>_. ?new) (fl_rows st) = fl_rows st"
        by (intro update_where_id) (auto simp: list_ex_iff)
      then have "fl_rows (trip cfg now False auditFails code n st) = fl_rows (reloadOne code ?st1)"
        "fl_stored (trip cfg now False auditFails code n st) = fl_stored (reloadOne code ?st1)"
        using some False by (simp_all add: trip_def tripRow_def Let_def reloadOne_def flagRow_def)
      then show ?thesis using flagsInv_reloadOne [OF i, of code] flagsInv_fields by blast
    next
      case True
      show ?thesis
        by (rule flagsInv_update [OF i, of "\<lambda>r. fr_code r = code \<and> fr_enabled r" code "\<lambda>_. ?new"])
          (use some True over in \<open>auto simp: trip_def tripRow_def Let_def addAudit_def\<close>)
    qed
  qed
qed

lemma recordFailure_stored:
  "recordFailure cfg now w code st = (Some n, st') \<Longrightarrow> fl_stored st' = fl_stored st \<and> fl_rows st' = fl_rows st"
  by (auto simp: recordFailure_def Let_def split: option.splits if_splits)

lemma flagsInv_failureStep:
  assumes "flagsInv st"
  shows "flagsInv (failureStep cfg now False auditFails code st)"
proof (cases "recordFailure cfg now False code st")
  case (Pair r st')
  show ?thesis
  proof (cases r)
    case (Some n)
    have "flagsInv st'" using recordFailure_stored [of cfg now False code st n st'] Pair Some assms flagsInv_fields
      by blast
    then show ?thesis using Pair Some flagsInv_trip by (simp add: failureStep_def)
  next
    case None
    have p: "flagsInv (st\<lparr>fl_probes := f\<rparr>)" "flagsInv (st\<lparr>fl_failures := g\<rparr>)" for f g
      using assms flagsInv_fields [of st "st\<lparr>fl_probes := f\<rparr>"]
        flagsInv_fields [of st "st\<lparr>fl_failures := g\<rparr>"] by simp_all
    then show ?thesis using Pair None assms flagsInv_rearm [OF p(1)]
      by (auto simp: failureStep_def recordFailure_def Let_def split: option.splits if_splits)
  qed
qed

lemma flagsInv_setEnabled:
  assumes "flagsInv st"
  shows "flagsInv (snd (setEnabled cfg now writeFails code enabled st))"
proof (cases "findFeatureDefinition code")
  case (Some d)
  show ?thesis
  proof (cases "fd_core d \<or> fc_overrides cfg code \<noteq> None \<or> writeFails")
    case True
    then show ?thesis using assms Some flagsInv_fields [of st "bumpWrite st"]
      by (auto simp: setEnabled_def persistFlag_def)
  next
    case False
    let ?row = "\<lparr>fr_code = code, fr_enabled = enabled,
      fr_disabledReason = (if enabled then None else Some ''MANUAL''),
      fr_disabledAt = (if enabled then None else Some now), fr_updatedAt = now\<rparr>"
    have "fl_rows (snd (setEnabled cfg now writeFails code enabled st)) = saveRow ?row (fl_rows st)"
      "fl_stored (snd (setEnabled cfg now writeFails code enabled st)) =
        (fl_stored st)(fr_code ?row := Some (toOverride ?row))"
      using False Some
      by (auto simp: setEnabled_def persistFlag_def Let_def toOverride_def asDisabledReason_def fun_upd_def)
    then show ?thesis by (rule flagsInv_insert [OF assms])
  qed
qed (use assms in \<open>simp add: setEnabled_def\<close>)

section \<open>The breaker\<close>

definition switchable :: "featuresConfig \<Rightarrow> string \<Rightarrow> bool" where
  "switchable cfg code = (fc_overrides cfg code = None \<and>
     (\<exists>def. findFeatureDefinition code = Some def \<and> \<not> fd_core def))"

definition circuitAt :: "int \<Rightarrow> runtimeOverride" where
  "circuitAt t = \<lparr>ro_enabled = False, ro_reason = Some CircuitReason, ro_disabledAt = Some t\<rparr>"

lemma phase_of_circuit:
  "switchable cfg code \<Longrightarrow> fl_stored st code = Some (circuitAt t) \<Longrightarrow>
     circuitPhase cfg now st code = Some (if now < t + fc_circuitCooldownMs cfg then OpenPhase else HalfOpenPhase)"
  by (auto simp: switchable_def circuitPhase_def circuitAt_def retryAtOf_def)

lemma circuit_not_enabled:
  "switchable cfg code \<Longrightarrow> fl_stored st code = Some (circuitAt t) \<Longrightarrow> \<not> isEnabled cfg now st code"
  using phase_of_circuit [of cfg code st t now]
  by (auto simp: isEnabled_def snapshotFor_def toSnapshot_def switchable_def)

lemma halfOpen_stored:
  "circuitPhase cfg now st code = Some HalfOpenPhase \<Longrightarrow>
     \<exists>stored. fl_stored st code = Some stored \<and> \<not> ro_enabled stored \<and>
       ro_reason stored = Some CircuitReason \<and> retryAtOf cfg stored \<le> now \<and> switchable cfg code"
  by (auto simp: circuitPhase_def switchable_def split: option.splits if_splits)

lemma halfOpen_later:
  "circuitPhase cfg now st code = Some HalfOpenPhase \<Longrightarrow> now \<le> t \<Longrightarrow> fl_stored st' code = fl_stored st code \<Longrightarrow>
     circuitPhase cfg t st' code = Some HalfOpenPhase"
  by (auto simp: circuitPhase_def split: option.splits if_splits)

lemma admit_stored: "fl_stored (snd (admit cfg now code st)) = fl_stored st"
  by (simp add: admit_def)

lemma enabled_stored:
  "switchable cfg code \<Longrightarrow> fl_stored st code = Some \<lparr>ro_enabled = b, ro_reason = r, ro_disabledAt = d\<rparr> \<Longrightarrow>
     b \<or> r \<noteq> Some CircuitReason \<Longrightarrow> isEnabled cfg t st code = b"
  by (auto simp: isEnabled_def snapshotFor_def toSnapshot_def switchable_def circuitPhase_def)

lemma tripping_trip:
  "findFeatureDefinition code \<noteq> None \<Longrightarrow> fl_tripping (trip cfg now w a code n st) = removeAll code (fl_tripping st)"
  by (auto simp: trip_def Let_def reloadOne_def applyOverride_def addAudit_def split: prod.splits)

lemma trip_opens:
  assumes "\<forall>r. flagRow st code = Some r \<longrightarrow> fr_enabled r"
    and "distinct (map fr_code (fl_rows st))"
  shows "fl_stored (trip cfg now w a code n st) code = Some (circuitAt now) \<and>
    fl_probes (trip cfg now w a code n st) = fl_probes st"
proof -
  have "list_ex (\<lambda>r. fr_code r = code) (fl_rows st) \<Longrightarrow> list_ex (\<lambda>r. fr_code r = code \<and> fr_enabled r) (fl_rows st)"
    using assms list_ex_find [OF assms(2), of "\<lambda>r. fr_code r = code" code]
      list_ex_find [OF assms(2), of "\<lambda>r. fr_code r = code \<and> fr_enabled r" code]
    by (auto simp: flagRow_def)
  then have "snd (tripRow code now (fl_rows st))" by (simp add: tripRow_def Let_def)
  then show ?thesis by (auto simp: trip_def Let_def circuitAt_def addAudit_def split: prod.splits)
qed

lemma stored_cong:
  assumes e: "fl_stored st = fl_stored st'"
  shows "circuitPhase cfg now st code = circuitPhase cfg now st' code"
    "snapshotFor cfg now st code = snapshotFor cfg now st' code"
    "isEnabled cfg now st code = isEnabled cfg now st' code"
proof -
  show p: "circuitPhase cfg now st code = circuitPhase cfg now st' code"
    unfolding circuitPhase_def e ..
  show s: "snapshotFor cfg now st code = snapshotFor cfg now st' code"
    unfolding snapshotFor_def e p ..
  show "isEnabled cfg now st code = isEnabled cfg now st' code"
    unfolding isEnabled_def p s ..
qed

lemma admitAll_ok:
  "admitAll cfg now codes st = (Inr u, st') \<Longrightarrow> fl_stored st' = fl_stored st \<and>
     (\<forall>code\<in>set codes. isEnabled cfg now st code \<or> circuitPhase cfg now st code = Some HalfOpenPhase)"
proof (induction codes arbitrary: st)
  case (Cons c cs)
  obtain b st1 where a: "admit cfg now c st = (b, st1)" by fastforce
  have b: "b" using Cons.prems a by (cases b) auto
  have stored: "fl_stored st1 = fl_stored st" using admit_stored [of cfg now c st] a by simp
  have same: "isEnabled cfg now st1 x = isEnabled cfg now st x" "circuitPhase cfg now st1 x = circuitPhase cfg now st x" for x
    using stored_cong [OF stored] by blast+
  have "isEnabled cfg now st c \<or> circuitPhase cfg now st c = Some HalfOpenPhase"
    using a b by (auto simp: admit_def split: if_splits)
  then show ?case using Cons.IH [of st1] Cons.prems a b stored same by auto
qed simp

lemma admitAll_refuses:
  assumes "code \<in> set codes" "\<not> isEnabled cfg now st code" "circuitPhase cfg now st code \<noteq> Some HalfOpenPhase"
  shows "fst (admitAll cfg now codes st) = throw ModuleUnavailable"
proof (cases "admitAll cfg now codes st")
  case (Pair r st')
  have fail: "fst (admitAll cfg now cs s) = Inl e \<Longrightarrow> e = ApiException ModuleUnavailable" for cs s e
    by (induction cs arbitrary: s) (auto split: prod.splits bool.splits)
  show ?thesis
  proof (cases r)
    case (Inl e)
    then show ?thesis using Pair fail [of codes st e] by simp
  next
    case (Inr u)
    then show ?thesis using Pair admitAll_ok [of cfg now codes st u st'] assms by auto
  qed
qed

section \<open>Properties\<close>

text \<open>
  Memory and table agree: starting from agreement, switching a module by hand, the
  success of a request and a failed request (its probe, its count and its trip) each end in agreement
  when the database accepts the writes; and a reload that no write interrupts establishes it.
\<close>

theorem flags_memory_matches_table:
  "(flagsInv st \<longrightarrow>
      flagsInv (snd (setEnabled cfg now writeFails code enabled st)) \<and>
      flagsInv (recordSuccess cfg now False auditFails code st) \<and>
      flagsInv (failureStep cfg now False auditFails code st)) \<and>
   (distinct (map fr_code (fl_rows st)) \<and> (\<forall>c. fl_stored st c \<noteq> None \<longrightarrow> c \<in> set codes) \<longrightarrow>
      flagsInv (reloadAllApply codes (reloadAllRead st) st))"
  using flagsInv_setEnabled flagsInv_recordSuccess flagsInv_failureStep reload_coherent by blast

text \<open>
  A reload that was under way while a module was switched does not undo the switch: its rows
  are dropped, and the module is enabled or not as the administrator asked.
\<close>

theorem reload_never_undoes_switch:
  assumes "setEnabled cfg now writeFails code enabled st = (Inr snapshot, st')"
  shows "reloadAllApply codes (reloadAllRead st) st' = st' \<and> isEnabled cfg t st' code = enabled"
proof -
  obtain d where d: "findFeatureDefinition code = Some d" "\<not> fd_core d" "fc_overrides cfg code = None" "\<not> writeFails"
    using assms by (auto simp: setEnabled_def persistFlag_def split: option.splits if_splits)
  have seq: "fl_writeSeq st' = fl_writeSeq st + 2"
    and stored: "fl_stored st' code = Some \<lparr>ro_enabled = enabled,
      ro_reason = (if enabled then None else Some ManualReason), ro_disabledAt = (if enabled then None else Some now)\<rparr>"
    using assms d by (auto simp: setEnabled_def persistFlag_def Let_def)
  have "reloadAllApply codes (reloadAllRead st) st' = st'"
    using seq by (simp add: reloadAllApply_def reloadAllRead_def)
  moreover have "isEnabled cfg t st' code = enabled"
    by (rule enabled_stored [OF _ stored]) (use d in \<open>auto simp: switchable_def\<close>)
  ultimately show ?thesis ..
qed

text \<open>
  C21. While a circuit is half open, at most one request per lease is let through: after a probe was
  admitted, every other request of the next thirty seconds is refused until the probe reports.
\<close>

theorem half_open_admits_one_probe:
  assumes "circuitPhase cfg now st code = Some HalfOpenPhase" "admit cfg now code st = (True, st')"
    and "now \<le> t" "t < now + PROBE_LEASE_MS"
  shows "admit cfg t code st' = (False, st')"
proof -
  have e: "\<not> isEnabled cfg now st code" using assms(1) by (simp add: isEnabled_def)
  then have st': "st' = st\<lparr>fl_probes := (fl_probes st)(code := Some now)\<rparr>"
    using assms(1,2) by (auto simp: admit_def split: if_splits)
  then have "circuitPhase cfg t st' code = Some HalfOpenPhase"
    using halfOpen_later [OF assms(1,3), of st'] by simp
  then show ?thesis using assms(4) st' by (simp add: admit_def isEnabled_def)
qed

text \<open>
  C20. The failure that reaches the threshold inside the window opens the circuit: the module
  is refused for the whole cooldown, and the first request after it is let through as a probe.
\<close>

theorem circuit_opens_at_threshold:
  assumes "switchable cfg code" "flagsInv st" "isEnabled cfg now st code" "fl_probes st code = None"
    and "code \<notin> set (fl_tripping st)"
    and "fc_circuitThreshold cfg \<le> int (length (filter (\<lambda>t. now - t < fc_circuitWindowMs cfg)
          (case fl_failures st code of None \<Rightarrow> [] | Some f \<Rightarrow> f))) + 1"
  shows "let st' = failureStep cfg now False auditFails code st in
    fl_stored st' code = Some (circuitAt now) \<and>
    (\<forall>t < now + fc_circuitCooldownMs cfg. admit cfg t code st' = (False, st')) \<and>
    (\<forall>t \<ge> now + fc_circuitCooldownMs cfg. fst (admit cfg t code st'))"
proof -
  obtain d where d: "findFeatureDefinition code = Some d" "\<not> fd_core d" "fc_overrides cfg code = None"
    using assms(1) by (auto simp: switchable_def)
  obtain n st1 where r: "recordFailure cfg now False code st = (Some n, st1)"
    and same: "fl_rows st1 = fl_rows st" "fl_stored st1 = fl_stored st" "fl_probes st1 = fl_probes st"
    using d assms(3-6) by (auto simp: recordFailure_def Let_def)
  have "fr_enabled row" if "flagRow st1 code = Some row" for row
  proof (rule ccontr)
    assume off: "\<not> fr_enabled row"
    have "fl_stored st code = Some (toOverride row)"
      using that assms(2) same(1) by (simp add: flagsInv_def flagRow_def)
    then have s: "fl_stored st code = Some \<lparr>ro_enabled = False, ro_reason = asDisabledReason (fr_disabledReason row),
        ro_disabledAt = fr_disabledAt row\<rparr>"
      using off by (simp add: toOverride_def)
    show False
    proof (cases "asDisabledReason (fr_disabledReason row) = Some CircuitReason")
      case True
      then show False using s assms(3) d
        by (auto simp: isEnabled_def snapshotFor_def toSnapshot_def circuitPhase_def split: if_splits)
    next
      case False
      then show False using enabled_stored [OF assms(1) s, of now] assms(3) by simp
    qed
  qed
  then have "fl_stored (failureStep cfg now False auditFails code st) code = Some (circuitAt now) \<and>
      fl_probes (failureStep cfg now False auditFails code st) = fl_probes st1"
    using trip_opens [of st1 code cfg now False auditFails n] r same assms(2)
    by (simp add: failureStep_def flagsInv_def)
  then show ?thesis
    using phase_of_circuit [OF assms(1)] circuit_not_enabled [OF assms(1)] assms(4) same(3)
    by (auto simp: Let_def admit_def)
qed

text \<open>
  C22. A probe that succeeds closes the circuit: exactly the open row of the module in the table is enabled,
  with its reason and date of disabling cleared and stamped now; the memory of the process says the same and
  counts no failure; and the module is enabled from then on whatever the time.
\<close>

theorem probe_success_recovers:
  assumes "circuitPhase cfg now st code = Some HalfOpenPhase" "fl_probes st code \<noteq> None"
    and "list_ex (openRow code) (fl_rows st)"
  shows "let st' = recordSuccess cfg now False auditFails code st in
    isEnabled cfg t st' code \<and> \<not> list_ex (openRow code) (fl_rows st') \<and> fl_probes st' code = None \<and>
    fl_rows st' = map (\<lambda>r. if fr_code r = code \<and> \<not> fr_enabled r \<and> fr_disabledReason r = Some ''CIRCUIT''
      then \<lparr>fr_code = code, fr_enabled = True, fr_disabledReason = None, fr_disabledAt = None, fr_updatedAt = now\<rparr>
      else r) (fl_rows st) \<and>
    fl_stored st' code = Some \<lparr>ro_enabled = True, ro_reason = None, ro_disabledAt = None\<rparr> \<and> fl_failures st' code = None"
proof -
  let ?st1 = "st\<lparr>fl_probes := (fl_probes st)(code := None)\<rparr>"
  let ?close = "\<lambda>r. r\<lparr>fr_enabled := True, fr_disabledReason := None, fr_disabledAt := None, fr_updatedAt := now\<rparr>"
  have "circuitPhase cfg now ?st1 code = Some HalfOpenPhase"
    using halfOpen_later [OF assms(1), of now ?st1] by simp
  then have "\<exists>entry. recordSuccess cfg now False auditFails code st = addAudit auditFails entry
      ((bumpWrite ?st1)\<lparr>fl_rows := update_where (openRow code) ?close (fl_rows st),
         fl_stored := (fl_stored st)(code := Some \<lparr>ro_enabled = True, ro_reason = None, ro_disabledAt = None\<rparr>),
         fl_failures := (fl_failures st)(code := None)\<rparr>)"
    using assms(2,3) unfolding recordSuccess_def Let_def by (simp, blast)
  then have run: "fl_stored (recordSuccess cfg now False auditFails code st) code =
      Some \<lparr>ro_enabled = True, ro_reason = None, ro_disabledAt = None\<rparr>"
    "fl_rows (recordSuccess cfg now False auditFails code st) = update_where (openRow code) ?close (fl_rows st)"
    "fl_probes (recordSuccess cfg now False auditFails code st) code = None"
    "fl_failures (recordSuccess cfg now False auditFails code st) code = None"
    by (elim exE, simp add: addAudit_def)+
  have "switchable cfg code" using halfOpen_stored [OF assms(1)] by blast
  then have "isEnabled cfg t (recordSuccess cfg now False auditFails code st) code"
    using enabled_stored [OF _ run(1), of cfg t] by simp
  moreover have "\<not> openRow code (if openRow code q then ?close q else q)" for q
    by (simp add: openRow_def)
  then have "\<not> list_ex (openRow code) (fl_rows (recordSuccess cfg now False auditFails code st))"
    unfolding run(2) list_ex_iff set_update_where by blast
  moreover have "update_where (openRow code) ?close (fl_rows st) =
      map (\<lambda>r. if fr_code r = code \<and> \<not> fr_enabled r \<and> fr_disabledReason r = Some ''CIRCUIT''
        then \<lparr>fr_code = code, fr_enabled = True, fr_disabledReason = None, fr_disabledAt = None, fr_updatedAt = now\<rparr>
        else r) (fl_rows st)"
    unfolding update_where_def by (rule map_cong [OF refl]) (simp add: openRow_def)
  ultimately show ?thesis using run unfolding Let_def by simp
qed

text \<open>
  No failure, environment aside, can take a core module down: it is enabled in every state, its
  requests are admitted, and a failed request leaves the breaker untouched.
\<close>

theorem core_modules_stay_up:
  assumes "findFeatureDefinition code = Some def" "fd_core def"
  shows "admit cfg now code st = (True, st) \<and> failureStep cfg now writeFails auditFails code st = st \<and>
    (\<exists>e. setEnabled cfg now writeFails code enabled st = (Inl e, st))"
proof -
  have "circuitPhase cfg now st code = None" using assms by (simp add: circuitPhase_def)
  moreover have "snapshotFor cfg now st code = toSnapshot def True None None"
    using assms by (simp add: snapshotFor_def)
  ultimately have "isEnabled cfg now st code" by (simp add: isEnabled_def toSnapshot_def)
  moreover have "recordFailure cfg now writeFails code st = (None, st)"
    using assms by (simp add: recordFailure_def)
  moreover have "setEnabled cfg now writeFails code enabled st = (throw FeatureNotToggleable, st)"
    using assms by (simp add: setEnabled_def)
  ultimately show ?thesis by (simp add: admit_def failureStep_def)
qed

text \<open>
  A request passes the feature guard only when every module of its path is enabled or half
  open, and is refused as unavailable when one of them is neither.
\<close>

theorem featureGuard_decides:
  "(fst (featureGuard cfg now decorated request st) = Inr u \<longrightarrow>
      (\<forall>code\<in>set (featureCodesForPath (rq_path request)).
         isEnabled cfg now st code \<or> circuitPhase cfg now st code = Some HalfOpenPhase)) \<and>
   (code \<in> set (featureCodesForPath (rq_path request)) \<and> \<not> isEnabled cfg now st code \<and>
      circuitPhase cfg now st code \<noteq> Some HalfOpenPhase \<longrightarrow>
      fst (featureGuard cfg now decorated request st) = throw ModuleUnavailable)"
proof -
  let ?codes = "uniq (featureCodesForPath (rq_path request) @ decoratedCode decorated)"
  obtain r st' where a: "admitAll cfg now ?codes st = (r, st')" by fastforce
  have run: "featureGuard cfg now decorated request st = (r, st')"
    using a by (simp add: featureGuard_def)
  have sub: "c \<in> set (featureCodesForPath (rq_path request)) \<Longrightarrow> c \<in> set ?codes" for c by simp
  show ?thesis
  proof (intro conjI impI)
    assume "fst (featureGuard cfg now decorated request st) = Inr u"
    then have "admitAll cfg now ?codes st = (Inr u, st')" using a run by simp
    from admitAll_ok [OF this] sub show "\<forall>code\<in>set (featureCodesForPath (rq_path request)).
       isEnabled cfg now st code \<or> circuitPhase cfg now st code = Some HalfOpenPhase" by blast
  next
    assume c: "code \<in> set (featureCodesForPath (rq_path request)) \<and> \<not> isEnabled cfg now st code \<and>
      circuitPhase cfg now st code \<noteq> Some HalfOpenPhase"
    show "fst (featureGuard cfg now decorated request st) = throw ModuleUnavailable"
      unfolding featureGuard_def by (rule admitAll_refuses [OF sub]) (use c in blast)+
  qed
qed

section \<open>Witnesses\<close>

definition sampleConfig :: featuresConfig where
  "sampleConfig = \<lparr>fc_circuitThreshold = 1, fc_circuitWindowMs = 120000, fc_circuitCooldownMs = 300000,
     fc_reloadIntervalMs = 30000, fc_overrides = \<lambda>_. None\<rparr>"

definition freshFlags :: featureState where
  "freshFlags = \<lparr>fl_stored = \<lambda>_. None, fl_failures = \<lambda>_. None, fl_probes = \<lambda>_. None, fl_tripping = [],
     fl_writeSeq = 0, fl_rows = [], fl_audit = []\<rparr>"

definition openFlags :: featureState where
  "openFlags = freshFlags\<lparr>fl_stored := (\<lambda>_. None)(''loans'' := Some (circuitAt 0)),
     fl_rows := [\<lparr>fr_code = ''loans'', fr_enabled = False, fr_disabledReason = Some ''CIRCUIT'',
       fr_disabledAt = Some 0, fr_updatedAt = 0\<rparr>]\<rparr>"

lemma loans_definition: "\<exists>d. findFeatureDefinition ''loans'' = Some d \<and> \<not> fd_core d \<and> fd_defaultEnabled d = None"
  by (simp add: findFeatureDefinition_def FEATURE_CATALOG_def feature_def)

lemma sample_switchable: "switchable sampleConfig ''loans''"
  using loans_definition by (auto simp: switchable_def sampleConfig_def)

lemma sample_half_open: "circuitPhase sampleConfig 400000 openFlags ''loans'' = Some HalfOpenPhase"
  using phase_of_circuit [OF sample_switchable, of openFlags 0 400000]
  by (simp add: openFlags_def freshFlags_def sampleConfig_def)

lemma fresh_inv: "flagsInv freshFlags"
  by (simp add: flagsInv_def freshFlags_def flagRow_def)

theorem flags_memory_matches_table_witness:
  "flagsInv (failureStep sampleConfig 5 False False ''loans'' freshFlags) \<and>
   flagsInv (reloadAllApply [] (reloadAllRead freshFlags) freshFlags)"
  using flags_memory_matches_table [of freshFlags sampleConfig 5 False "''loans''" True False "[]"] fresh_inv
  by (simp add: freshFlags_def)

theorem reload_never_undoes_switch_witness:
  "\<exists>snapshot st'. setEnabled sampleConfig 7 False ''loans'' False freshFlags = (Inr snapshot, st') \<and>
     reloadAllApply [] (reloadAllRead freshFlags) st' = st' \<and> \<not> isEnabled sampleConfig 9 st' ''loans''"
proof -
  have "\<exists>snapshot st'. setEnabled sampleConfig 7 False ''loans'' False freshFlags = (Inr snapshot, st')"
    using loans_definition by (auto simp: setEnabled_def persistFlag_def sampleConfig_def Let_def)
  then obtain snapshot st' where run: "setEnabled sampleConfig 7 False ''loans'' False freshFlags = (Inr snapshot, st')"
    by blast
  from reload_never_undoes_switch [OF run] run show ?thesis by blast
qed

theorem half_open_admits_one_probe_witness:
  "\<exists>st'. admit sampleConfig 400000 ''loans'' openFlags = (True, st') \<and>
     admit sampleConfig 410000 ''loans'' st' = (False, st')"
proof -
  obtain st' where a: "admit sampleConfig 400000 ''loans'' openFlags = (True, st')"
    using sample_half_open by (simp add: admit_def isEnabled_def) (simp add: openFlags_def freshFlags_def)
  from half_open_admits_one_probe [OF sample_half_open a, of 410000] a show ?thesis
    by (auto simp: PROBE_LEASE_MS_def)
qed

theorem circuit_opens_at_threshold_witness:
  "fl_stored (failureStep sampleConfig 10 False False ''loans'' freshFlags) ''loans'' = Some (circuitAt 10)"
proof -
  have e: "isEnabled sampleConfig 10 freshFlags ''loans''"
    using loans_definition
    by (auto simp: isEnabled_def circuitPhase_def snapshotFor_def toSnapshot_def sampleConfig_def freshFlags_def)
  show ?thesis
    using circuit_opens_at_threshold [OF sample_switchable fresh_inv e, of False]
    by (simp add: freshFlags_def sampleConfig_def Let_def)
qed

theorem probe_success_recovers_witness:
  "let st' = recordSuccess sampleConfig 400000 False False ''loans'' (openFlags\<lparr>fl_probes := (\<lambda>_. None)(''loans'' := Some 399999)\<rparr>)
   in isEnabled sampleConfig 400001 st' ''loans'' \<and>
     map (\<lambda>r. (fr_enabled r, fr_disabledReason r)) (filter (\<lambda>r. fr_code r = ''loans'') (fl_rows st')) = [(True, None)]"
proof -
  let ?st = "openFlags\<lparr>fl_probes := (\<lambda>_. None)(''loans'' := Some 399999)\<rparr>"
  have "circuitPhase sampleConfig 400000 ?st ''loans'' = Some HalfOpenPhase"
    using sample_half_open stored_cong(1) [of ?st openFlags] by simp
  then show ?thesis using probe_success_recovers [of sampleConfig 400000 ?st "''loans''" False 400001]
    by (simp add: openFlags_def freshFlags_def openRow_def Let_def)
qed

theorem core_modules_stay_up_witness:
  "\<exists>def. findFeatureDefinition ''auth'' = Some def \<and> fd_core def \<and>
     admit sampleConfig 1 ''auth'' freshFlags = (True, freshFlags)"
proof -
  obtain d where d: "findFeatureDefinition ''auth'' = Some d" "fd_core d"
    by (simp add: findFeatureDefinition_def FEATURE_CATALOG_def feature_def)
  then show ?thesis using core_modules_stay_up [OF d] by blast
qed

theorem featureGuard_decides_witness:
  "fst (featureGuard sampleConfig 5 None
     \<lparr>rq_user = None, rq_params = [], rq_body = None, rq_path = ''/api/v1/loans/7''\<rparr> openFlags) = throw ModuleUnavailable"
proof -
  let ?rq = "\<lparr>rq_user = None, rq_params = [], rq_body = None, rq_path = ''/api/v1/loans/7''\<rparr> :: authenticatedRequest"
  have "''loans'' \<in> set (featureCodesForPath (rq_path ?rq))"
    by (simp add: featureCodesForPath_def stripApiPrefix_def API_GLOBAL_PREFIX_def startsWith_def
        pathMatchesPrefix_def FEATURE_CATALOG_def feature_def Let_def)
  moreover have "\<not> isEnabled sampleConfig 5 openFlags ''loans''"
    by (rule circuit_not_enabled [OF sample_switchable]) (simp add: openFlags_def freshFlags_def)
  moreover have "circuitPhase sampleConfig 5 openFlags ''loans'' \<noteq> Some HalfOpenPhase"
    using phase_of_circuit [OF sample_switchable, of openFlags 0 5]
    by (simp add: openFlags_def freshFlags_def sampleConfig_def)
  ultimately show ?thesis
    using featureGuard_decides [of sampleConfig 5 None ?rq openFlags "()" "''loans''"] by blast
qed

end
