(* ===== verification/Movements.thy ===== *)
theory Movements
  imports AssetModel
begin

text \<open>
  The signed ledger of asset movements: src/src/modules/movements/crypto/sign-movement.ts and
  src/src/modules/movements/services/movements.service.ts.

  The table \<open>asset_movement\<close> is the list of its rows in insertion order. The keyed hash of
  \<open>node:crypto\<close> is a field of the signing configuration; the identifier a row receives
  (\<open>@PrimaryGeneratedColumn('uuid')\<close>) and the clock are arguments. The database refuses to
  update or delete a row of this table (migration 1767225608000), so the operations only append.

  The lemmas show that the verification accepts exactly the ledgers that are one signed chain, that
  recording a movement keeps them so, and that a row that was tampered with is reported.
\<close>

section \<open>Signatures\<close>

definition SIGNATURE_VERSION :: int where
  "SIGNATURE_VERSION = 2"

record movementState =
  ms_costCenterId :: "string option"
  ms_locationId :: "string option"
  ms_responsibleId :: "string option"
  ms_operationalStatus :: "string option"
  ms_physicalCondition :: "string option"

record movementSignedFields =
  f_assetId :: string
  f_movementType :: string
  f_executedAt :: int
  f_requestedBy :: "string option"
  f_authorizedBy :: "string option"
  f_from :: movementState
  f_to :: movementState
  f_reason :: "string option"
  f_documentReference :: "string option"
  f_loanId :: "string option"
  f_previousMovementId :: "string option"
  f_metadata :: json

text \<open>\<open>toLowerCase\<close> on the characters of an identifier.\<close>

definition lowerChar :: "char \<Rightarrow> char" where
  "lowerChar c =
     (if CHR ''A'' \<le> c \<and> c \<le> CHR ''Z'' then char_of ((of_char c :: nat) + 32) else c)"

definition toLowerCase :: "string \<Rightarrow> string" where
  "toLowerCase s = map lowerChar s"

fun nullable :: "string option \<Rightarrow> json" where
  "nullable None = JNull"
| "nullable (Some s) = JStr s"

definition lowerId :: "string option \<Rightarrow> json" where
  "lowerId v = nullable (map_option toLowerCase v)"

definition snapshot :: "movementState \<Rightarrow> json" where
  "snapshot s = JObj
     [(''costCenterId'', lowerId (ms_costCenterId s)),
      (''locationId'', lowerId (ms_locationId s)),
      (''responsibleId'', lowerId (ms_responsibleId s)),
      (''operationalStatus'', nullable (ms_operationalStatus s)),
      (''physicalCondition'', nullable (ms_physicalCondition s))]"

definition canonicalMovementPayload :: "movementSignedFields \<Rightarrow> string" where
  "canonicalMovementPayload f = canonicalJson (JObj
     [(''version'', JNum SIGNATURE_VERSION),
      (''assetId'', lowerId (Some (f_assetId f))),
      (''movementType'', JStr (f_movementType f)),
      (''executedAt'', JStr (toISOString (f_executedAt f))),
      (''requestedBy'', lowerId (f_requestedBy f)),
      (''authorizedBy'', lowerId (f_authorizedBy f)),
      (''from'', snapshot (f_from f)),
      (''to'', snapshot (f_to f)),
      (''reason'', nullable (f_reason f)),
      (''documentReference'', nullable (f_documentReference f)),
      (''loanId'', lowerId (f_loanId f)),
      (''previousMovementId'', lowerId (f_previousMovementId f)),
      (''metadata'', f_metadata f)])"

text \<open>
  \<open>createHmac('sha256', secret).update(canonical).digest('hex')\<close> and the configured secrets:
  the one that signs and the retired ones that still verify.
\<close>

record signing =
  sg_hmac :: "string \<Rightarrow> string \<Rightarrow> string"
  sg_secret :: string
  sg_previousSecrets :: "string list"

definition signMovement :: "signing \<Rightarrow> string \<Rightarrow> string \<Rightarrow> string" where
  "signMovement sg secret canonical = sg_hmac sg secret canonical"

definition signedFieldsOf :: "movement \<Rightarrow> movementSignedFields" where
  "signedFieldsOf m =
     \<lparr>f_assetId = m_assetId m,
      f_movementType = movementTypeText (m_movementType m),
      f_executedAt = m_executedAt m,
      f_requestedBy = m_requestedBy m,
      f_authorizedBy = m_authorizedBy m,
      f_from = \<lparr>ms_costCenterId = m_fromCostCenterId m, ms_locationId = m_fromLocationId m,
        ms_responsibleId = m_fromResponsibleId m,
        ms_operationalStatus = map_option statusText (m_fromOperationalStatus m),
        ms_physicalCondition = map_option conditionText (m_fromPhysicalCondition m)\<rparr>,
      f_to = \<lparr>ms_costCenterId = m_toCostCenterId m, ms_locationId = m_toLocationId m,
        ms_responsibleId = m_toResponsibleId m,
        ms_operationalStatus = map_option statusText (m_toOperationalStatus m),
        ms_physicalCondition = map_option conditionText (m_toPhysicalCondition m)\<rparr>,
      f_reason = m_reason m,
      f_documentReference = m_documentReference m,
      f_loanId = m_loanId m,
      f_previousMovementId = m_previousMovementId m,
      f_metadata = (case m_metadata m of None \<Rightarrow> JObj [] | Some j \<Rightarrow> j)\<rparr>"

definition signatureOf :: "signing \<Rightarrow> string \<Rightarrow> movement \<Rightarrow> string" where
  "signatureOf sg secret m = signMovement sg secret (canonicalMovementPayload (signedFieldsOf m))"

definition verificationSecrets :: "signing \<Rightarrow> string list" where
  "verificationSecrets sg = sg_secret sg # sg_previousSecrets sg"

datatype chainFailureReason = Unsigned | LegacyScheme | SignatureMismatch | BrokenLink | Fork
  | NotASingleChain

text \<open>A string is falsy when it is null or empty.\<close>

fun falsy :: "string option \<Rightarrow> bool" where
  "falsy None = True"
| "falsy (Some s) = (s = [])"

definition signatureFailure :: "signing \<Rightarrow> movement \<Rightarrow> chainFailureReason option" where
  "signatureFailure sg m =
     (if falsy (m_eventSignature m) then Some Unsigned
      else if (case m_metadata m of None \<Rightarrow> None | Some j \<Rightarrow> jget ''signatureVersion'' j)
              \<noteq> Some (JNum SIGNATURE_VERSION) then Some LegacyScheme
      else if list_ex (\<lambda>secret. Some (signatureOf sg secret m) = m_eventSignature m)
                (verificationSecrets sg) then None
      else Some SignatureMismatch)"

section \<open>Recording\<close>

record recordMovementInput =
  i_assetId :: string
  i_movementType :: movementType
  i_fromCostCenterId :: "string option"
  i_fromLocationId :: "string option"
  i_fromResponsibleId :: "string option"
  i_fromOperationalStatus :: "operationalStatus option"
  i_fromPhysicalCondition :: "physicalCondition option"
  i_toCostCenterId :: "string option"
  i_toLocationId :: "string option"
  i_toResponsibleId :: "string option"
  i_toOperationalStatus :: "operationalStatus option"
  i_toPhysicalCondition :: "physicalCondition option"
  i_requestedBy :: "string option"
  i_authorizedBy :: "string option"
  i_reason :: "string option"
  i_documentReference :: "string option"
  i_loanId :: "string option"
  i_metadata :: "(string \<times> json) list option"
  i_executedAt :: "int option"

text \<open>\<open>{...input.metadata, signedAt, signatureVersion}\<close>\<close>

definition signedMetadata :: "int \<Rightarrow> (string \<times> json) list option \<Rightarrow> json" where
  "signedMetadata now meta = JObj
     (jput (jput (case meta of None \<Rightarrow> [] | Some es \<Rightarrow> es) ''signedAt'' (JStr (toISOString now)))
        ''signatureVersion'' (JNum SIGNATURE_VERSION))"

definition unsignedRow :: "recordMovementInput \<Rightarrow> string option \<Rightarrow> int \<Rightarrow> string \<Rightarrow> movement" where
  "unsignedRow i previousMovementId now rowId =
     \<lparr>m_id = rowId, m_assetId = i_assetId i, m_movementType = i_movementType i,
      m_fromCostCenterId = i_fromCostCenterId i, m_fromLocationId = i_fromLocationId i,
      m_fromResponsibleId = i_fromResponsibleId i,
      m_fromOperationalStatus = i_fromOperationalStatus i,
      m_fromPhysicalCondition = i_fromPhysicalCondition i,
      m_toCostCenterId = i_toCostCenterId i, m_toLocationId = i_toLocationId i,
      m_toResponsibleId = i_toResponsibleId i,
      m_toOperationalStatus = i_toOperationalStatus i,
      m_toPhysicalCondition = i_toPhysicalCondition i,
      m_requestedBy = i_requestedBy i, m_authorizedBy = i_authorizedBy i,
      m_executedAt = or_keep (i_executedAt i) now,
      m_reason = i_reason i, m_documentReference = i_documentReference i,
      m_loanId = i_loanId i, m_previousMovementId = previousMovementId,
      m_eventSignature = None, m_metadata = Some (signedMetadata now (i_metadata i)),
      m_createdAt = now\<rparr>"

definition signed ::
  "signing \<Rightarrow> recordMovementInput \<Rightarrow> string option \<Rightarrow> int \<Rightarrow> string \<Rightarrow> movement" where
  "signed sg i previousMovementId now rowId =
     (let entity = unsignedRow i previousMovementId now rowId in
      entity\<lparr>m_eventSignature := Some (signatureOf sg (sg_secret sg) entity)\<rparr>)"

text \<open>The rows no other row names as its predecessor, the latest first.\<close>

definition openEnds :: "movement list \<Rightarrow> string \<Rightarrow> movement list" where
  "openEnds ledger assetId =
     sort_key (\<lambda>m. - m_createdAt m)
       (filter (\<lambda>m. m_assetId m = assetId \<and>
          \<not> list_ex (\<lambda>n. m_previousMovementId n = Some (m_id m)) ledger) ledger)"

definition previousMovement :: "movement list \<Rightarrow> string \<Rightarrow> string option" where
  "previousMovement ledger assetId =
     (case openEnds ledger assetId of [] \<Rightarrow> None | m # _ \<Rightarrow> Some (m_id m))"

definition recordMovement ::
  "signing \<Rightarrow> int \<Rightarrow> string \<Rightarrow> recordMovementInput \<Rightarrow> movement list \<Rightarrow> movement list" where
  "recordMovement sg now rowId i ledger =
     ledger @ [signed sg i (previousMovement ledger (i_assetId i)) now rowId]"

definition INITIAL_INSERT_CHUNK :: nat where
  "INITIAL_INSERT_CHUNK = 1000"

function insertChunks :: "movement list \<Rightarrow> movement list \<Rightarrow> movement list" where
  "insertChunks entities ledger =
     (if entities = [] then ledger
      else insertChunks (drop INITIAL_INSERT_CHUNK entities)
             (ledger @ take INITIAL_INSERT_CHUNK entities))"
  by pat_completeness auto
termination
  by (relation "measure (\<lambda>(entities, _). length entities)") (auto simp: INITIAL_INSERT_CHUNK_def)

declare insertChunks.simps [simp del]

text \<open>
  \<open>recordInitial\<close>: the first row of many assets at once; \<open>rowIds\<close> are the identifiers the
  rows receive, in order. The number of rows written is returned.
\<close>

definition recordInitial ::
  "signing \<Rightarrow> int \<Rightarrow> string list \<Rightarrow> recordMovementInput list \<Rightarrow> movement list
     \<Rightarrow> (nat \<times> movement list) res" where
  "recordInitial sg now rowIds inputs ledger =
     (if inputs = [] then Inr (0, ledger)
      else if list_ex (\<lambda>m. m_assetId m \<in> set (map i_assetId inputs)) ledger then throwError
      else
        (let entities = map (\<lambda>(i, rowId). signed sg i None now rowId) (zip inputs rowIds) in
         Inr (length entities, insertChunks entities ledger)))"

section \<open>Verification\<close>

record verdict =
  vd_id :: string
  vd_valid :: bool
  vd_unsigned :: bool

definition verifyMovement :: "signing \<Rightarrow> movement list \<Rightarrow> string \<Rightarrow> verdict res" where
  "verifyMovement sg ledger rowId =
     (case List.find (\<lambda>m. m_id m = rowId) ledger of
        None \<Rightarrow> throw ResourceNotFound
      | Some m \<Rightarrow>
          if falsy (m_eventSignature m)
          then Inr \<lparr>vd_id = m_id m, vd_valid = False, vd_unsigned = True\<rparr>
          else if signatureFailure sg m \<noteq> None then throw MovementTampered
          else Inr \<lparr>vd_id = m_id m, vd_valid = True, vd_unsigned = False\<rparr>)"

record chainFailure =
  cf_assetId :: string
  cf_movementId :: "string option"
  cf_reason :: chainFailureReason

text \<open>\<open>successors.get(key) ?? []\<close>: the rows whose predecessor is \<open>key\<close>, in the order read.\<close>

definition successors :: "movement list \<Rightarrow> string option \<Rightarrow> movement list" where
  "successors items key = filter (\<lambda>m. m_previousMovementId m = key) items"

definition onlyOne :: "'a list \<Rightarrow> 'a option" where
  "onlyOne xs = (case xs of [x] \<Rightarrow> Some x | _ \<Rightarrow> None)"

lemma onlyOne_SomeD: "onlyOne xs = Some x \<longleftrightarrow> xs = [x]"
  by (auto simp: onlyOne_def split: list.splits)

lemma successors_onlyOne: "onlyOne (successors items key) = Some m \<Longrightarrow> m \<in> set items"
  by (auto simp: onlyOne_SomeD successors_def filter_eq_Cons_iff)

text \<open>The walk from the head: the number of rows it visits before it stops or comes back.\<close>

function walk :: "movement list \<Rightarrow> string set \<Rightarrow> nat \<Rightarrow> movement option \<Rightarrow> nat" where
  "walk items seen walked None = walked"
| "walk items seen walked (Some c) =
     (if m_id c \<in> seen then walked
      else walk items (insert (m_id c) seen) (walked + 1)
             (onlyOne (successors items (Some (m_id c)))))"
  by pat_completeness auto
termination
proof (relation "measure (\<lambda>(items, seen, _, c). 2 * card (m_id ` set items - seen) +
    (case c of None \<Rightarrow> 0 | Some m \<Rightarrow> if m_id m \<in> m_id ` set items then 1 else 2))", goal_cases)
  case (2 items seen walked c)
  let ?ids = "m_id ` set items"
  have next_in: "(case onlyOne (successors items (Some (m_id c))) of None \<Rightarrow> 0
      | Some m \<Rightarrow> if m_id m \<in> ?ids then 1 else 2) \<le> (1 :: nat)"
    using successors_onlyOne by (fastforce split: option.splits)
  show ?case
  proof (cases "m_id c \<in> ?ids")
    case True
    have "card (?ids - insert (m_id c) seen) < card (?ids - seen)"
      by (rule psubset_card_mono) (use True 2 in auto)
    then show ?thesis using next_in True by simp
  next
    case False
    have "card (?ids - insert (m_id c) seen) \<le> card (?ids - seen)"
      by (rule card_mono) auto
    then show ?thesis using next_in False by simp
  qed
qed simp

definition itemFailures :: "signing \<Rightarrow> string \<Rightarrow> movement list \<Rightarrow> movement \<Rightarrow> chainFailure list" where
  "itemFailures sg assetId items m =
     (case signatureFailure sg m of
        None \<Rightarrow> []
      | Some reason \<Rightarrow> [\<lparr>cf_assetId = assetId, cf_movementId = Some (m_id m), cf_reason = reason\<rparr>]) @
     (if \<not> falsy (m_previousMovementId m) \<and> m_previousMovementId m \<notin> (Some \<circ> m_id) ` set items
      then [\<lparr>cf_assetId = assetId, cf_movementId = Some (m_id m), cf_reason = BrokenLink\<rparr>]
      else [])"

definition forkFailures :: "string \<Rightarrow> movement list \<Rightarrow> chainFailure list" where
  "forkFailures assetId items =
     concat (map (\<lambda>key.
       if key \<noteq> None \<and> 1 < length (successors items key)
       then map (\<lambda>m. \<lparr>cf_assetId = assetId, cf_movementId = Some (m_id m), cf_reason = Fork\<rparr>)
              (successors items key)
       else []) (uniq (map m_previousMovementId items)))"

definition chainItems :: "movement list \<Rightarrow> string \<Rightarrow> movement list" where
  "chainItems ledger assetId =
     sort_key m_createdAt (filter (\<lambda>m. m_assetId m = assetId) ledger)"

definition verifyAssetChain :: "signing \<Rightarrow> movement list \<Rightarrow> string \<Rightarrow> chainFailure list" where
  "verifyAssetChain sg ledger assetId =
     (let items = chainItems ledger assetId;
          heads = successors items None;
          walked = walk items {} 0 (onlyOne heads)
      in concat (map (itemFailures sg assetId items) items) @ forkFailures assetId items @
         (if items \<noteq> [] \<and> (length heads \<noteq> 1 \<or> walked \<noteq> length items)
          then [\<lparr>cf_assetId = assetId, cf_movementId = None, cf_reason = NotASingleChain\<rparr>]
          else []))"

record verificationLog =
  vl_checkedAt :: int
  vl_assetsChecked :: nat
  vl_failures :: nat
  vl_details :: "chainFailure list option"

text \<open>
  \<open>verifySample\<close>: \<open>sample\<close> is the permutation \<open>ORDER BY random()\<close> returns of the distinct
  assets, cut at \<open>limit\<close>. The daily job runs it when the module is on.
\<close>

definition verifySample ::
  "signing \<Rightarrow> int \<Rightarrow> (string list \<Rightarrow> string list) \<Rightarrow> nat \<Rightarrow> movement list \<Rightarrow> verificationLog" where
  "verifySample sg now sample limit ledger =
     (let assetIds = take limit (sample (uniq (map m_assetId ledger)));
          failures = concat (map (verifyAssetChain sg ledger) assetIds)
      in \<lparr>vl_checkedAt = now, vl_assetsChecked = length assetIds, vl_failures = length failures,
          vl_details = (if 0 < length failures then Some failures else None)\<rparr>)"

definition runDailyVerification ::
  "bool \<Rightarrow> signing \<Rightarrow> int \<Rightarrow> (string list \<Rightarrow> string list) \<Rightarrow> movement list
     \<Rightarrow> verificationLog list \<Rightarrow> verificationLog list" where
  "runDailyVerification movementsEnabled sg now sample ledger logs =
     (if \<not> movementsEnabled then logs else logs @ [verifySample sg now sample 100 ledger])"

section \<open>One chain\<close>

text \<open>Rows in which every row names the one before it, the first one \<open>previous\<close>.\<close>

fun linked :: "string option \<Rightarrow> movement list \<Rightarrow> bool" where
  "linked previous [] = True"
| "linked previous (m # ms) = (m_previousMovementId m = previous \<and> linked (Some (m_id m)) ms)"

definition lastId :: "string option \<Rightarrow> movement list \<Rightarrow> string option" where
  "lastId previous ms = (if ms = [] then previous else Some (m_id (last ms)))"

lemma linked_append: "linked p (xs @ ys) \<longleftrightarrow> linked p xs \<and> linked (lastId p xs) ys"
  by (induction xs arbitrary: p) (auto simp: lastId_def)

definition singleChain :: "movement list \<Rightarrow> bool" where
  "singleChain items = (\<exists>rows. mset rows = mset items \<and> linked None rows)"

lemma linked_previous:
  "linked p xs \<Longrightarrow> m \<in> set xs \<Longrightarrow> m_previousMovementId m \<in> insert p ((Some \<circ> m_id) ` set xs)"
  by (induction xs arbitrary: p) auto

lemma linked_successors_suffix:
  assumes "linked p xs" "distinct (map m_id xs)" "key \<notin> insert p ((Some \<circ> m_id) ` set xs)"
  shows "successors xs key = []"
  using linked_previous [OF assms(1)] assms(3) by (auto simp: successors_def filter_empty_conv)

lemma linked_successors_first:
  assumes "linked p (m # ms)" "distinct (map m_id (m # ms))" "p \<notin> (Some \<circ> m_id) ` set (m # ms)"
  shows "successors (m # ms) p = [m]"
proof -
  have "successors ms p = []"
    by (rule linked_successors_suffix [of "Some (m_id m)"]) (use assms in auto)
  then show ?thesis using assms(1) by (simp add: successors_def)
qed

lemma linked_last_unused:
  assumes "linked None xs" "distinct (map m_id xs)"
  shows "successors xs (lastId None xs) = []"
proof -
  have False if m: "m \<in> set xs" "m_previousMovementId m = lastId None xs" for m
  proof -
    obtain as bs where xs: "xs = as @ m # bs" using m(1) by (meson split_list)
    then have "lastId None as = Some (m_id (last xs))"
      using assms(1) m by (auto simp: linked_append lastId_def)
    then have "as \<noteq> []" "m_id (last as) = m_id (last xs)" by (auto simp: lastId_def split: if_splits)
    moreover have "m_id (last xs) \<in> m_id ` set (m # bs)" using xs by simp
    ultimately have "m_id (last as) \<in> m_id ` set (m # bs)" by simp
    moreover have "m_id (last as) \<in> m_id ` set as" using \<open>as \<noteq> []\<close> by (intro imageI last_in_set)
    ultimately show False using assms(2) xs by (simp add: disjoint_iff)
  qed
  then show ?thesis by (auto simp: successors_def filter_empty_conv)
qed

lemma linked_successors:
  assumes "linked None (xs @ ys)" "distinct (map m_id (xs @ ys))"
  shows "successors (xs @ ys) (lastId None xs) = take 1 ys"
proof -
  have front: "successors xs (lastId None xs) = []"
    by (rule linked_last_unused) (use assms in \<open>auto simp: linked_append\<close>)
  show ?thesis
  proof (cases ys)
    case Nil
    then show ?thesis using front by simp
  next
    case (Cons y zs)
    have "successors (y # zs) (lastId None xs) = [y]"
    proof (rule linked_successors_first)
      show "linked (lastId None xs) (y # zs)" using assms(1) Cons by (simp add: linked_append)
      show "distinct (map m_id (y # zs))" using assms(2) Cons by simp
      show "lastId None xs \<notin> (Some \<circ> m_id) ` set (y # zs)"
      proof (cases "xs = []")
        case False
        then have "m_id (last xs) \<in> m_id ` set xs" by simp
        then have "m_id (last xs) \<notin> m_id ` set (y # zs)"
          using assms(2) Cons by (simp add: disjoint_iff)
        then show ?thesis using False by (auto simp: lastId_def)
      qed (auto simp: lastId_def)
    qed
    then show ?thesis using front Cons by (simp add: successors_def)
  qed
qed

lemma successors_permuted: "mset xs = mset ys \<Longrightarrow> mset (successors xs k) = mset (successors ys k)"
  by (simp add: successors_def)

lemma take1_permuted: "mset xs = mset (take 1 ys) \<Longrightarrow> xs = take 1 ys"
  by (cases ys) auto

lemma chain_successors:
  assumes "linked None (xs @ ys)" "distinct (map m_id (xs @ ys))" "mset items = mset (xs @ ys)"
  shows "successors items (lastId None xs) = take 1 ys"
  using linked_successors [OF assms(1,2)] successors_permuted [OF assms(3)] take1_permuted by metis

lemma walk_chain:
  assumes "linked None (xs @ ys)" "distinct (map m_id (xs @ ys))" "mset items = mset (xs @ ys)"
  shows "walk items (m_id ` set xs) k (onlyOne (take 1 ys)) = k + length ys"
  using assms
proof (induction ys arbitrary: xs k)
  case (Cons y ys)
  have "walk items (m_id ` set (xs @ [y])) (k + 1) (onlyOne (take 1 ys)) = (k + 1) + length ys"
    by (rule Cons.IH) (use Cons.prems in simp_all)
  moreover have "successors items (Some (m_id y)) = take 1 ys"
    using chain_successors [of "xs @ [y]" ys items] Cons.prems by (simp add: lastId_def)
  moreover have "m_id y \<notin> m_id ` set xs" using Cons.prems(2) by auto
  ultimately show ?case by (simp add: onlyOne_def insert_commute)
qed (simp add: onlyOne_def)

lemma walk_visits:
  assumes "walk items seen k c = k + n"
    and "\<And>m. c = Some m \<Longrightarrow> m \<in> set items \<and> m_previousMovementId m = p"
  shows "\<exists>rows. length rows = n \<and> linked p rows \<and> set rows \<subseteq> set items \<and>
    distinct (map m_id rows) \<and> seen \<inter> m_id ` set rows = {}"
  using assms
proof (induction items seen k c arbitrary: n p rule: walk.induct)
  case (2 items seen walked m)
  show ?case
  proof (cases "m_id m \<in> seen")
    case True
    then show ?thesis using 2(2) by simp
  next
    case False
    let ?next = "onlyOne (successors items (Some (m_id m)))"
    have w: "walk items (insert (m_id m) seen) (walked + 1) ?next = walked + n"
      using 2(2) False by simp
    have grows: "k \<le> walk items s k c" for s k c
      by (induction items s k c rule: walk.induct) auto
    obtain n' where n: "n = Suc n'" using grows [of "walked + 1" "insert (m_id m) seen" ?next] w
      by (cases n) auto
    have "x \<in> set items \<and> m_previousMovementId x = Some (m_id m)" if "?next = Some x" for x
      using that by (auto simp: onlyOne_SomeD successors_def filter_eq_Cons_iff)
    then obtain rows where rows: "length rows = n'" "linked (Some (m_id m)) rows"
        "set rows \<subseteq> set items" "distinct (map m_id rows)"
        "insert (m_id m) seen \<inter> m_id ` set rows = {}"
      using 2(1) [OF False, of n' "Some (m_id m)"] w n by auto
    show ?thesis
      by (rule exI [of _ "m # rows"]) (use rows n False 2(3) [OF refl] in auto)
  qed
qed simp

lemma same_rows:
  assumes "distinct (map m_id items)" "distinct (map m_id rows)" "set rows \<subseteq> set items"
    and "length rows = length items"
  shows "mset rows = mset items"
proof -
  have d: "distinct items" "distinct rows" using assms(1,2) by (auto simp: distinct_map)
  have "set rows = set items"
    using assms(3,4) d by (metis List.finite_set card_subset_eq distinct_card)
  then show ?thesis using d by (metis set_eq_iff_mset_eq_distinct)
qed

definition chainShape :: "movement list \<Rightarrow> bool" where
  "chainShape items =
     (items = [] \<or> length (successors items None) = 1 \<and>
      walk items {} 0 (onlyOne (successors items None)) = length items)"

lemma chainShape_iff:
  assumes "distinct (map m_id items)"
  shows "chainShape items \<longleftrightarrow> singleChain items"
proof
  assume shape: "chainShape items"
  show "singleChain items"
  proof (cases "items = []")
    case False
    then obtain h where h: "successors items None = [h]" and
        w: "walk items {} 0 (onlyOne [h]) = length items"
      using shape by (auto simp: chainShape_def length_Suc_conv)
    have "h \<in> set items \<and> m_previousMovementId h = None"
      using h by (auto simp: successors_def filter_eq_Cons_iff)
    then obtain rows where "length rows = length items" "linked None rows" "set rows \<subseteq> set items"
        "distinct (map m_id rows)"
      using walk_visits [of items "{}" 0 "onlyOne [h]" "length items" None] w
      by (auto simp: onlyOne_SomeD)
    then show ?thesis using same_rows [OF assms] by (auto simp: singleChain_def)
  qed (auto simp: singleChain_def)
next
  assume "singleChain items"
  then obtain rows where rows: "mset rows = mset items" "linked None rows"
    by (auto simp: singleChain_def)
  have d: "distinct (map m_id rows)"
    using assms rows(1) by (metis mset_map mset_eq_imp_distinct_iff)
  have "successors items None = take 1 rows"
    using chain_successors [of "[]" rows items] rows d by (simp add: lastId_def)
  moreover have "walk items {} 0 (onlyOne (take 1 rows)) = length rows"
    using walk_chain [of "[]" rows items 0] rows d by simp
  moreover have "length rows = length items" using rows(1) by (metis size_mset)
  ultimately show "chainShape items" by (cases rows) (auto simp: chainShape_def)
qed

lemma singleChain_permuted: "mset xs = mset ys \<Longrightarrow> singleChain xs = singleChain ys"
  by (simp add: singleChain_def)

lemma concat_empty_iff: "concat (map f xs) = [] \<longleftrightarrow> (\<forall>x\<in>set xs. f x = [])"
  by (induction xs) auto

lemma singleChain_no_fork:
  assumes "singleChain items" "distinct (map m_id items)"
  shows "forkFailures a items = []"
proof -
  obtain rows where rows: "mset rows = mset items" "linked None rows"
    using assms(1) by (auto simp: singleChain_def)
  have d: "distinct (map m_id rows)"
    using assms(2) rows(1) by (metis mset_map mset_eq_imp_distinct_iff)
  have short: "length (successors items key) \<le> 1" if used: "key \<in> m_previousMovementId ` set items" for key
  proof -
    have "set rows = set items" using rows(1) by (metis mset_eq_setD)
    then obtain m where m: "m \<in> set rows" "key = m_previousMovementId m" using used by auto
    obtain xs ys where xs: "rows = xs @ m # ys" using m(1) by (meson split_list)
    then have "key = lastId None xs" using rows(2) m(2) by (simp add: linked_append)
    then have "successors items key = take 1 (m # ys)"
      using chain_successors [of xs "m # ys" items] rows d xs by simp
    then show ?thesis by simp
  qed
  show ?thesis unfolding forkFailures_def concat_empty_iff set_uniq set_map
    by (rule ballI, drule short) simp
qed

lemma singleChain_unbroken:
  assumes "singleChain items" "m \<in> set items"
  shows "m_previousMovementId m = None \<or> m_previousMovementId m \<in> (Some \<circ> m_id) ` set items"
proof -
  obtain rows where rows: "mset rows = mset items" "linked None rows"
    using assms(1) by (auto simp: singleChain_def)
  have "set rows = set items" using rows(1) by (metis mset_eq_setD)
  then show ?thesis using linked_previous [OF rows(2), of m] assms(2)
    by (cases "m_previousMovementId m") auto
qed

lemma itemFailures_empty:
  "itemFailures sg a items m = [] \<longleftrightarrow> signatureFailure sg m = None \<and>
     (falsy (m_previousMovementId m) \<or> m_previousMovementId m \<in> (Some \<circ> m_id) ` set items)"
  by (auto simp: itemFailures_def split: option.splits)

lemma verifyAssetChain_iff:
  assumes "distinct (map m_id (filter (\<lambda>m. m_assetId m = a) ledger))"
  shows "verifyAssetChain sg ledger a = [] \<longleftrightarrow>
    (\<forall>m\<in>set (filter (\<lambda>m. m_assetId m = a) ledger). signatureFailure sg m = None) \<and>
    singleChain (filter (\<lambda>m. m_assetId m = a) ledger)"
proof -
  let ?rows = "filter (\<lambda>m. m_assetId m = a) ledger" and ?items = "chainItems ledger a"
  have perm: "mset ?items = mset ?rows" by (simp add: chainItems_def)
  have d: "distinct (map m_id ?items)"
    using assms perm by (metis mset_map mset_eq_imp_distinct_iff)
  have sets: "set ?items = set ?rows" using perm by (metis mset_eq_setD)
  have split: "verifyAssetChain sg ledger a = [] \<longleftrightarrow>
      (\<forall>m\<in>set ?items. itemFailures sg a ?items m = []) \<and> forkFailures a ?items = [] \<and>
      chainShape ?items"
    by (auto simp: verifyAssetChain_def Let_def concat_empty_iff chainShape_def)
  have "verifyAssetChain sg ledger a = [] \<longleftrightarrow>
      (\<forall>m\<in>set ?items. signatureFailure sg m = None) \<and> singleChain ?items"
    unfolding split chainShape_iff [OF d] itemFailures_empty
    using singleChain_no_fork [OF _ d] singleChain_unbroken falsy.simps(1) by metis
  then show ?thesis using sets singleChain_permuted [OF perm] by simp
qed

section \<open>The invariant of the ledger\<close>

definition assetRows :: "movement list \<Rightarrow> string \<Rightarrow> movement list" where
  "assetRows ledger a = filter (\<lambda>m. m_assetId m = a) ledger"

lemma assetRows_append [simp]:
  "assetRows (xs @ ys) a = assetRows xs a @ assetRows ys a"
  by (simp add: assetRows_def)

lemma assetRows_Nil [simp]: "assetRows [] a = []"
  by (simp add: assetRows_def)

lemma assetRows_Cons [simp]:
  "assetRows (m # ms) a = (if m_assetId m = a then m # assetRows ms a else assetRows ms a)"
  by (simp add: assetRows_def)

lemma set_assetRows [simp]: "set (assetRows ledger a) = {m \<in> set ledger. m_assetId m = a}"
  by (simp add: assetRows_def)

text \<open>
  Identifiers are unique, the rows of every asset are one chain in the order they were written,
  and every signature verifies.
\<close>

definition ledgerInv :: "signing \<Rightarrow> movement list \<Rightarrow> bool" where
  "ledgerInv sg ledger =
     (distinct (map m_id ledger) \<and> (\<forall>a. linked None (assetRows ledger a)) \<and>
      (\<forall>m\<in>set ledger. signatureFailure sg m = None))"

lemma ledgerInv_Nil: "ledgerInv sg []"
  by (simp add: ledgerInv_def)

lemma distinct_assetRows: "distinct (map m_id ledger) \<Longrightarrow> distinct (map m_id (assetRows ledger a))"
  by (simp add: assetRows_def distinct_map_filter)

lemma same_id_same_row:
  "distinct (map m_id ledger) \<Longrightarrow> m \<in> set ledger \<Longrightarrow> n \<in> set ledger \<Longrightarrow> m_id m = m_id n \<Longrightarrow> m = n"
  by (simp add: distinct_map inj_on_def)

lemma predecessor_same_asset:
  assumes "\<forall>a. linked None (assetRows ledger a)" "n \<in> set ledger" "m_previousMovementId n = Some k"
  shows "\<exists>m\<in>set ledger. m_assetId m = m_assetId n \<and> m_id m = k"
  using linked_previous [of None "assetRows ledger (m_assetId n)" n] assms by auto

lemma openEnds_last:
  assumes inv: "distinct (map m_id ledger)" "\<forall>a. linked None (assetRows ledger a)"
    and rows: "assetRows ledger a = xs @ [l]"
  shows "openEnds ledger a = [l]"
proof -
  define used :: "movement \<Rightarrow> bool" where "used m = list_ex (\<lambda>n. m_previousMovementId n = Some (m_id m)) ledger" for m
  have chain: "linked None (xs @ [l])" using inv(2) rows by metis
  have d: "distinct (map m_id (xs @ [l]))" using distinct_assetRows [OF inv(1)] rows by metis
  have mem: "set (xs @ [l]) \<subseteq> set ledger" "m \<in> set (xs @ [l]) \<Longrightarrow> m_assetId m = a" for m
    using rows set_assetRows [of ledger a] by auto
  have xs_used: "used m" if m: "m \<in> set xs" for m
  proof -
    obtain as bs where xs: "xs = as @ m # bs" using m by (meson split_list)
    have "linked (Some (m_id m)) (bs @ [l])" using chain xs by (simp add: linked_append)
    then obtain n where "n \<in> set (bs @ [l])" "m_previousMovementId n = Some (m_id m)"
      by (cases bs) auto
    then show ?thesis using mem(1) xs by (auto simp: used_def list_ex_iff)
  qed
  have l_free: "\<not> used l"
  proof
    assume "used l"
    then obtain n where n: "n \<in> set ledger" "m_previousMovementId n = Some (m_id l)"
      by (auto simp: used_def list_ex_iff)
    then obtain k where k: "k \<in> set ledger" "m_assetId k = m_assetId n" "m_id k = m_id l"
      using predecessor_same_asset [OF inv(2)] by blast
    have "k = l" using same_id_same_row [OF inv(1)] k mem(1) by simp
    then have "n \<in> set (xs @ [l])" using n k mem(2) [of l] rows set_assetRows [of ledger a] by auto
    moreover have "successors (xs @ [l]) (lastId None (xs @ [l])) = []"
      by (rule linked_last_unused [OF chain d])
    ultimately show False using n(2) by (auto simp: successors_def lastId_def filter_empty_conv)
  qed
  have "filter (\<lambda>m. m_assetId m = a \<and> \<not> used m) ledger = filter (\<lambda>m. \<not> used m) (assetRows ledger a)"
    by (simp add: assetRows_def conj_commute)
  also have "\<dots> = [l]" using xs_used l_free by (simp add: rows filter_empty_conv)
  finally show ?thesis by (simp add: openEnds_def used_def)
qed

lemma previousMovement_last:
  assumes "distinct (map m_id ledger)" "\<forall>a. linked None (assetRows ledger a)"
  shows "previousMovement ledger a = lastId None (assetRows ledger a)"
proof (cases "assetRows ledger a" rule: rev_cases)
  case Nil
  then show ?thesis
    by (simp add: previousMovement_def openEnds_def lastId_def assetRows_def filter_empty_conv)
next
  case (snoc xs l)
  then show ?thesis using openEnds_last [OF assms snoc] by (simp add: previousMovement_def lastId_def)
qed

section \<open>Signed rows verify\<close>

text \<open>A digest in hexadecimal is never the empty string.\<close>

definition hmacNonEmpty :: "signing \<Rightarrow> bool" where
  "hmacNonEmpty sg = (\<forall>secret text. sg_hmac sg secret text \<noteq> [])"

lemma map_of_jput: "map_of (jput es k v) = (map_of es)(k \<mapsto> v)"
  by (induction es k v rule: jput.induct) auto

lemma signatureOf_ignores [simp]:
  "signatureOf sg secret (m\<lparr>m_eventSignature := s\<rparr>) = signatureOf sg secret m"
  by (simp add: signatureOf_def signedFieldsOf_def)

lemma signed_fields [simp]:
  "m_id (signed sg i p now k) = k" "m_assetId (signed sg i p now k) = i_assetId i"
  "m_previousMovementId (signed sg i p now k) = p"
  "m_movementType (signed sg i p now k) = i_movementType i"
  "m_toCostCenterId (signed sg i p now k) = i_toCostCenterId i"
  "m_toLocationId (signed sg i p now k) = i_toLocationId i"
  "m_toResponsibleId (signed sg i p now k) = i_toResponsibleId i"
  "m_toOperationalStatus (signed sg i p now k) = i_toOperationalStatus i"
  "m_toPhysicalCondition (signed sg i p now k) = i_toPhysicalCondition i"
  "m_fromOperationalStatus (signed sg i p now k) = i_fromOperationalStatus i"
  "m_loanId (signed sg i p now k) = i_loanId i"
  by (simp_all add: signed_def unsignedRow_def)

lemma signed_signature:
  "m_eventSignature (signed sg i p now k) = Some (signatureOf sg (sg_secret sg) (signed sg i p now k))"
  by (simp add: signed_def Let_def)

lemma signed_metadata:
  "m_metadata (signed sg i p now k) = Some (signedMetadata now (i_metadata i))"
  by (simp add: signed_def unsignedRow_def)

lemma jget_signedMetadata [simp]:
  "jget ''signatureVersion'' (signedMetadata now meta) = Some (JNum SIGNATURE_VERSION)"
  by (simp add: jget_def signedMetadata_def map_of_jput)

lemma signed_valid:
  assumes "hmacNonEmpty sg"
  shows "signatureFailure sg (signed sg i p now k) = None"
proof -
  have "signatureOf sg (sg_secret sg) (signed sg i p now k) \<noteq> []"
    using assms by (simp add: hmacNonEmpty_def signatureOf_def signMovement_def)
  then show ?thesis
    by (simp add: signatureFailure_def signed_signature signed_metadata verificationSecrets_def)
qed

lemma recordMovement_ledgerInv:
  assumes "ledgerInv sg ledger" "hmacNonEmpty sg" "k \<notin> m_id ` set ledger"
  shows "ledgerInv sg (recordMovement sg now k i ledger)"
proof -
  have "previousMovement ledger (i_assetId i) = lastId None (assetRows ledger (i_assetId i))"
    by (rule previousMovement_last) (use assms(1) in \<open>auto simp: ledgerInv_def\<close>)
  then show ?thesis using assms
    by (auto simp: ledgerInv_def recordMovement_def linked_append signed_valid)
qed

lemma ledgerInv_clean:
  assumes "ledgerInv sg ledger"
  shows "verifyAssetChain sg ledger a = []"
proof -
  have "linked None (assetRows ledger a)" and d: "distinct (map m_id (assetRows ledger a))"
    using assms by (auto simp: ledgerInv_def distinct_assetRows)
  then have "singleChain (assetRows ledger a)" unfolding singleChain_def by blast
  then show ?thesis
    using assms d verifyAssetChain_iff [of a ledger sg] by (simp add: ledgerInv_def assetRows_def)
qed

section \<open>What the signed text determines\<close>

lemma sortKeys_lookup:
  assumes "sortKeys (JObj es) = sortKeys (JObj fs)" "distinct (map fst es)" "distinct (map fst fs)"
  shows "map_option sortKeys (map_of es k) = map_option sortKeys (map_of fs k)"
proof -
  let ?s = "map (\<lambda>(key, item). (key, sortKeys item))"
  have "mset (sort_key fst (?s es)) = mset (sort_key fst (?s fs))" using assms(1) by simp
  then have "mset (?s es) = mset (?s fs)" by simp
  moreover have "distinct (map fst (?s es))" "distinct (map fst (?s fs))"
    using assms(2,3) by (simp_all add: comp_def case_prod_beta)
  ultimately have "map_of (?s es) = map_of (?s fs)"
    by (metis map_of_inject_set mset_eq_setD)
  moreover have "map_of (?s xs) k = map_option sortKeys (map_of xs k)" for xs
    by (induction xs) auto
  ultimately show ?thesis by metis
qed

lemma nullable_inject [simp]: "nullable a = nullable b \<longleftrightarrow> a = b"
  by (cases a; cases b) auto

lemma sortKeys_nullable [simp]: "sortKeys (nullable a) = nullable a"
  by (cases a) auto

lemma snapshot_determines:
  assumes "sortKeys (snapshot s) = sortKeys (snapshot t)"
  shows "ms_operationalStatus s = ms_operationalStatus t"
    "ms_physicalCondition s = ms_physicalCondition t"
    "lowerId (ms_costCenterId s) = lowerId (ms_costCenterId t)"
    "lowerId (ms_locationId s) = lowerId (ms_locationId t)"
    "lowerId (ms_responsibleId s) = lowerId (ms_responsibleId t)"
proof -
  note eq = sortKeys_lookup [OF assms [unfolded snapshot_def]]
  show "ms_operationalStatus s = ms_operationalStatus t" using eq [of "''operationalStatus''"] by simp
  show "ms_physicalCondition s = ms_physicalCondition t" using eq [of "''physicalCondition''"] by simp
  show "lowerId (ms_costCenterId s) = lowerId (ms_costCenterId t)"
    using eq [of "''costCenterId''"] by (simp add: lowerId_def)
  show "lowerId (ms_locationId s) = lowerId (ms_locationId t)"
    using eq [of "''locationId''"] by (simp add: lowerId_def)
  show "lowerId (ms_responsibleId s) = lowerId (ms_responsibleId t)"
    using eq [of "''responsibleId''"] by (simp add: lowerId_def)
qed

text \<open>Two signed records agree: identifiers up to letter case, every other field exactly.\<close>

definition sameState :: "movementState \<Rightarrow> movementState \<Rightarrow> bool" where
  "sameState s t =
     (lowerId (ms_costCenterId s) = lowerId (ms_costCenterId t) \<and>
      lowerId (ms_locationId s) = lowerId (ms_locationId t) \<and>
      lowerId (ms_responsibleId s) = lowerId (ms_responsibleId t) \<and>
      ms_operationalStatus s = ms_operationalStatus t \<and>
      ms_physicalCondition s = ms_physicalCondition t)"

definition sameSigned :: "movementSignedFields \<Rightarrow> movementSignedFields \<Rightarrow> bool" where
  "sameSigned f g =
     (toLowerCase (f_assetId f) = toLowerCase (f_assetId g) \<and>
      f_movementType f = f_movementType g \<and>
      toISOString (f_executedAt f) = toISOString (f_executedAt g) \<and>
      lowerId (f_requestedBy f) = lowerId (f_requestedBy g) \<and>
      lowerId (f_authorizedBy f) = lowerId (f_authorizedBy g) \<and>
      sameState (f_from f) (f_from g) \<and> sameState (f_to f) (f_to g) \<and>
      f_reason f = f_reason g \<and> f_documentReference f = f_documentReference g \<and>
      lowerId (f_loanId f) = lowerId (f_loanId g) \<and>
      lowerId (f_previousMovementId f) = lowerId (f_previousMovementId g) \<and>
      sortKeys (f_metadata f) = sortKeys (f_metadata g))"

lemma payload_determines:
  assumes "canonicalMovementPayload f = canonicalMovementPayload g"
  shows "sameSigned f g"
proof -
  note eq = sortKeys_lookup [OF
      assms [unfolded canonicalMovementPayload_def canonicalJson_eq_iff]]
  have states: "sortKeys (snapshot (f_from f)) = sortKeys (snapshot (f_from g))"
      "sortKeys (snapshot (f_to f)) = sortKeys (snapshot (f_to g))"
    using eq [of "''from''"] eq [of "''to''"] by simp_all
  have ids: "toLowerCase (f_assetId f) = toLowerCase (f_assetId g)"
      "lowerId (f_requestedBy f) = lowerId (f_requestedBy g)"
      "lowerId (f_authorizedBy f) = lowerId (f_authorizedBy g)"
      "lowerId (f_loanId f) = lowerId (f_loanId g)"
      "lowerId (f_previousMovementId f) = lowerId (f_previousMovementId g)"
    using eq [of "''assetId''"] eq [of "''requestedBy''"] eq [of "''authorizedBy''"]
      eq [of "''loanId''"] eq [of "''previousMovementId''"] by (simp_all add: lowerId_def)
  have rest: "f_movementType f = f_movementType g"
      "toISOString (f_executedAt f) = toISOString (f_executedAt g)"
      "f_reason f = f_reason g" "f_documentReference f = f_documentReference g"
      "sortKeys (f_metadata f) = sortKeys (f_metadata g)"
    using eq [of "''movementType''"] eq [of "''executedAt''"] eq [of "''reason''"]
      eq [of "''documentReference''"] eq [of "''metadata''"] by simp_all
  show ?thesis unfolding sameSigned_def sameState_def
    using states [THEN snapshot_determines(1)] states [THEN snapshot_determines(2)]
      states [THEN snapshot_determines(3)] states [THEN snapshot_determines(4)]
      states [THEN snapshot_determines(5)] ids rest by simp
qed

text \<open>No collision of the keyed hash between two texts, under any secret that verifies.\<close>

definition noCollision :: "signing \<Rightarrow> string \<Rightarrow> string \<Rightarrow> bool" where
  "noCollision sg text other =
     list_all (\<lambda>secret. sg_hmac sg secret text = sg_hmac sg (sg_secret sg) other \<longrightarrow> text = other)
       (verificationSecrets sg)"

section \<open>Properties\<close>

text \<open>
  C28. The verification of an asset reports no failure exactly when every row of the asset carries a
  valid signature and the rows, in some order, are one chain in which each names its predecessor:
  gaps, forks, cycles, several heads and bad signatures are all reported, and nothing else is.
\<close>

theorem verifyAssetChain_exact:
  assumes "distinct (map m_id (filter (\<lambda>m. m_assetId m = a) ledger))"
  shows "verifyAssetChain sg ledger a = [] \<longleftrightarrow>
    (\<forall>m\<in>set ledger. m_assetId m = a \<longrightarrow> signatureFailure sg m = None) \<and>
    (\<exists>rows. mset rows = mset (filter (\<lambda>m. m_assetId m = a) ledger) \<and> linked None rows)"
  unfolding verifyAssetChain_iff [OF assms] by (auto simp: singleChain_def)

text \<open>
  C29. Recording a movement on a ledger of signed chains gives a ledger of signed chains: the new row
  continues the chain of its asset and no verification of any asset reports a failure afterwards.
\<close>

theorem recordMovement_keeps_chains:
  assumes "ledgerInv sg ledger" "hmacNonEmpty sg" "rowId \<notin> m_id ` set ledger"
  shows "ledgerInv sg (recordMovement sg now rowId i ledger) \<and>
    verifyAssetChain sg (recordMovement sg now rowId i ledger) a = []"
  using recordMovement_ledgerInv [OF assms] ledgerInv_clean by blast

text \<open>
  C30. A stored row whose signed content was changed after it was recorded is reported: unless the
  keyed hash collides, \<open>verify\<close> answers \<open>MOVEMENT_TAMPERED\<close> for it and the check of its
  asset is not clean, whichever field was altered and whichever retired secret still verifies.
\<close>

theorem tampering_is_detected:
  assumes "List.find (\<lambda>m. m_id m = rowId) ledger = Some altered"
    and "m_eventSignature altered = m_eventSignature (signed sg i previous now rowId)"
    and "\<not> sameSigned (signedFieldsOf altered) (signedFieldsOf (signed sg i previous now rowId))"
    and "noCollision sg (canonicalMovementPayload (signedFieldsOf altered))
           (canonicalMovementPayload (signedFieldsOf (signed sg i previous now rowId)))"
    and "hmacNonEmpty sg" and "distinct (map m_id ledger)"
  shows "verifyMovement sg ledger rowId = throw MovementTampered \<and>
    verifyAssetChain sg ledger (m_assetId altered) \<noteq> []"
proof -
  let ?m = "signed sg i previous now rowId"
  have signature: "m_eventSignature altered = Some (signatureOf sg (sg_secret sg) ?m)"
    using assms(2) signed_signature by simp
  have present: "\<not> falsy (m_eventSignature altered)"
    using signature assms(5) by (simp add: hmacNonEmpty_def signatureOf_def signMovement_def)
  have "canonicalMovementPayload (signedFieldsOf altered) \<noteq> canonicalMovementPayload (signedFieldsOf ?m)"
    using assms(3) payload_determines by blast
  then have "\<not> list_ex (\<lambda>secret. Some (signatureOf sg secret altered) = m_eventSignature altered)
      (verificationSecrets sg)"
    using assms(4) unfolding signature
    by (auto simp: noCollision_def list_all_iff list_ex_iff signatureOf_def signMovement_def)
  then have failure: "signatureFailure sg altered \<noteq> None"
    by (simp add: signatureFailure_def)
  have "altered \<in> set ledger" using find_SomeD [OF assms(1)] by simp
  then have "verifyAssetChain sg ledger (m_assetId altered) \<noteq> []"
    using verifyAssetChain_iff [of "m_assetId altered" ledger sg] failure assms(6)
    by (auto simp: distinct_map_filter)
  then show ?thesis using assms(1) present failure by (simp add: verifyMovement_def)
qed

text \<open>
  Removing a row from the ledger is reported by the check of its asset exactly when another row
  follows it: a gap inside the chain never passes, and only the loss of the latest row of an asset
  leaves a shorter chain that still verifies.
\<close>

theorem removal_detected_unless_last:
  assumes "ledgerInv sg ledger" "m \<in> set ledger"
  shows "verifyAssetChain sg (filter (\<lambda>n. m_id n \<noteq> m_id m) ledger) (m_assetId m) = [] \<longleftrightarrow>
    m = last (assetRows ledger (m_assetId m))"
proof -
  let ?a = "m_assetId m" and ?cut = "filter (\<lambda>n. m_id n \<noteq> m_id m)"
  have d: "distinct (map m_id ledger)" and chain: "linked None (assetRows ledger ?a)"
    and valid: "\<forall>n\<in>set ledger. signatureFailure sg n = None"
    using assms(1) by (auto simp: ledgerInv_def)
  obtain xs ys where rows: "assetRows ledger ?a = xs @ m # ys"
    using assms(2) split_list [of m "assetRows ledger ?a"] by auto
  have dr: "distinct (map m_id (xs @ m # ys))" using distinct_assetRows [OF d, of ?a] rows by simp
  have cut: "filter (\<lambda>n. m_assetId n = ?a) (?cut ledger) = xs @ ys"
  proof -
    have "filter (\<lambda>n. m_assetId n = ?a) (?cut ledger) = ?cut (assetRows ledger ?a)"
      by (simp add: assetRows_def conj_commute)
    also have "\<dots> = ?cut xs @ ?cut ys" by (simp add: rows)
    also have "?cut xs = xs" using dr by (intro filter_True) (auto simp: image_iff)
    also have "?cut ys = ys" using dr by (intro filter_True) (auto simp: image_iff)
    finally show ?thesis .
  qed
  have clean: "verifyAssetChain sg (?cut ledger) ?a = [] \<longleftrightarrow> singleChain (xs @ ys)"
  proof -
    have "set (xs @ ys) \<subseteq> set ledger" using rows set_assetRows [of ledger ?a] by auto
    then have "\<forall>n\<in>set (xs @ ys). signatureFailure sg n = None" using valid by blast
    then show ?thesis using verifyAssetChain_iff [of ?a "?cut ledger" sg] dr unfolding cut by simp
  qed
  show ?thesis
  proof (cases ys)
    case Nil
    then have "linked None (xs @ ys)" using chain rows by (simp add: linked_append)
    then show ?thesis using clean rows Nil by (auto simp: singleChain_def)
  next
    case (Cons y zs)
    have "m_previousMovementId y = Some (m_id m)" using chain rows Cons by (simp add: linked_append)
    moreover have "m_id m \<notin> m_id ` set (xs @ ys)" using dr by auto
    ultimately have "\<not> singleChain (xs @ ys)"
      using singleChain_unbroken [of "xs @ ys" y] Cons by auto
    moreover have "m \<noteq> last (xs @ m # ys)" using dr Cons by (auto simp: image_iff)
    ultimately show ?thesis using clean rows by simp
  qed
qed

lemma insertChunks_append: "insertChunks entities ledger = ledger @ entities"
proof (induction entities ledger rule: insertChunks.induct)
  case (1 entities ledger)
  then show ?case by (subst insertChunks.simps) simp
qed

lemma initial_ledgerInv:
  assumes "ledgerInv sg ledger" "hmacNonEmpty sg" "length rowIds = length inputs" "distinct rowIds"
    and "set rowIds \<inter> m_id ` set ledger = {}" "distinct (map i_assetId inputs)"
    and "\<forall>i\<in>set inputs. assetRows ledger (i_assetId i) = []"
  shows "ledgerInv sg (ledger @ map (\<lambda>(i, k). signed sg i None now k) (zip inputs rowIds))"
  using assms
proof (induction inputs arbitrary: rowIds ledger)
  case (Cons i inputs)
  then obtain k ks where k: "rowIds = k # ks" by (cases rowIds) auto
  have prev: "previousMovement ledger (i_assetId i) = None"
    using Cons.prems(1,7) previousMovement_last [of ledger "i_assetId i"]
    by (auto simp: ledgerInv_def lastId_def)
  have "ledgerInv sg (recordMovement sg now k i ledger)"
    by (rule recordMovement_ledgerInv) (use Cons.prems k in auto)
  then have "ledgerInv sg ((ledger @ [signed sg i None now k]) @
      map (\<lambda>(i, k). signed sg i None now k) (zip inputs ks))"
    by (intro Cons.IH) (use Cons.prems k prev in \<open>auto simp: recordMovement_def\<close>)
  then show ?case using k by simp
qed simp

text \<open>
  The initial registration writes one signed first row for each asset, leaves the rows that were
  there, and the ledger stays one of signed chains; it is refused exactly when one of the assets
  already has a row, and then nothing is written.
\<close>

theorem recordInitial_starts_chains:
  assumes "ledgerInv sg ledger" "hmacNonEmpty sg" "length rowIds = length inputs" "distinct rowIds"
    and "set rowIds \<inter> m_id ` set ledger = {}" "distinct (map i_assetId inputs)"
  shows "case recordInitial sg now rowIds inputs ledger of
      Inl e \<Rightarrow> e = PlainError \<and> (\<exists>i\<in>set inputs. assetRows ledger (i_assetId i) \<noteq> [])
    | Inr (n, ledger') \<Rightarrow> n = length inputs \<and> ledgerInv sg ledger' \<and>
        (\<exists>new. ledger' = ledger @ new \<and> map m_assetId new = map i_assetId inputs)"
proof (cases "list_ex (\<lambda>m. m_assetId m \<in> set (map i_assetId inputs)) ledger")
  case True
  then obtain m i where "m \<in> set ledger" "i \<in> set inputs" "m_assetId m = i_assetId i"
    by (auto simp: list_ex_iff)
  then have "assetRows ledger (i_assetId i) \<noteq> []" by (auto simp: assetRows_def filter_empty_conv)
  then show ?thesis using True \<open>i \<in> set inputs\<close> by (auto simp: recordInitial_def)
next
  case False
  let ?new = "map (\<lambda>(i, k). signed sg i None now k) (zip inputs rowIds)"
  have "\<forall>i\<in>set inputs. assetRows ledger (i_assetId i) = []"
    using False by (auto simp: assetRows_def filter_empty_conv list_ex_iff)
  then have inv: "ledgerInv sg (ledger @ ?new)" by (rule initial_ledgerInv [OF assms])
  have same: "map m_assetId ?new = map i_assetId inputs"
    using assms(3) by (intro nth_equalityI) (simp_all add: case_prod_beta)
  show ?thesis
  proof (cases "inputs = []")
    case True
    then show ?thesis using assms(1) by (simp add: recordInitial_def)
  next
    case nonempty: False
    have "recordInitial sg now rowIds inputs ledger = Inr (length ?new, ledger @ ?new)"
      using False nonempty by (simp add: recordInitial_def insertChunks_append Let_def)
    then show ?thesis using inv same assms(3) by simp
  qed
qed

section \<open>Witnesses\<close>

definition sampleSigning :: signing where
  "sampleSigning = \<lparr>sg_hmac = (\<lambda>secret text. CHR ''0'' # text), sg_secret = ''s'', sg_previousSecrets = [''old'']\<rparr>"

definition sampleInput :: "string \<Rightarrow> recordMovementInput" where
  "sampleInput a = \<lparr>i_assetId = a, i_movementType = Registration, i_fromCostCenterId = None,
     i_fromLocationId = None, i_fromResponsibleId = None, i_fromOperationalStatus = None,
     i_fromPhysicalCondition = None, i_toCostCenterId = Some ''c1'', i_toLocationId = None,
     i_toResponsibleId = None, i_toOperationalStatus = Some InStorage, i_toPhysicalCondition = None,
     i_requestedBy = Some ''u1'', i_authorizedBy = Some ''u1'', i_reason = None,
     i_documentReference = None, i_loanId = None, i_metadata = None, i_executedAt = None\<rparr>"

definition sampleLedger :: "movement list" where
  "sampleLedger = recordMovement sampleSigning 2 ''m2'' (sampleInput ''a'')
     (recordMovement sampleSigning 1 ''m1'' (sampleInput ''a'') [])"

lemma sampleSigning_nonEmpty: "hmacNonEmpty sampleSigning"
  by (simp add: hmacNonEmpty_def sampleSigning_def)

lemma sampleLedger_rows:
  "sampleLedger = [signed sampleSigning (sampleInput ''a'') None 1 ''m1'',
     signed sampleSigning (sampleInput ''a'') (Some ''m1'') 2 ''m2'']"
  by (simp add: sampleLedger_def recordMovement_def previousMovement_def openEnds_def sampleInput_def)

lemma sampleLedger_inv: "ledgerInv sampleSigning sampleLedger"
  unfolding sampleLedger_def
  by (intro recordMovement_ledgerInv ledgerInv_Nil sampleSigning_nonEmpty) (simp_all add: recordMovement_def)

theorem verifyAssetChain_exact_witness:
  "verifyAssetChain sampleSigning sampleLedger ''a'' = [] \<longleftrightarrow>
    (\<forall>m\<in>set sampleLedger. m_assetId m = ''a'' \<longrightarrow> signatureFailure sampleSigning m = None) \<and>
    (\<exists>rows. mset rows = mset (filter (\<lambda>m. m_assetId m = ''a'') sampleLedger) \<and> linked None rows)"
  by (rule verifyAssetChain_exact) (simp add: sampleLedger_rows)

theorem recordMovement_keeps_chains_witness:
  "verifyAssetChain sampleSigning
     (recordMovement sampleSigning 3 ''m3'' (sampleInput ''a'') sampleLedger) ''a'' = []"
  using recordMovement_keeps_chains [OF sampleLedger_inv sampleSigning_nonEmpty, of "''m3''" 3 "sampleInput ''a''" "''a''"]
  by (simp add: sampleLedger_rows)

theorem tampering_is_detected_witness:
  "verifyMovement sampleSigning [(signed sampleSigning (sampleInput ''a'') None 1 ''m1'')\<lparr>m_reason := Some ''x''\<rparr>]
     ''m1'' = throw MovementTampered"
proof -
  let ?m = "signed sampleSigning (sampleInput ''a'') None 1 ''m1''"
  have "\<not> sameSigned (signedFieldsOf (?m\<lparr>m_reason := Some ''x''\<rparr>)) (signedFieldsOf ?m)"
    by (simp add: sameSigned_def signedFieldsOf_def signed_def unsignedRow_def sampleInput_def)
  moreover have "noCollision sampleSigning p q" for p q
    by (simp add: noCollision_def sampleSigning_def verificationSecrets_def)
  ultimately show ?thesis
    using tampering_is_detected [of "''m1''" "[?m\<lparr>m_reason := Some ''x''\<rparr>]" "?m\<lparr>m_reason := Some ''x''\<rparr>"
        sampleSigning "sampleInput ''a''" None 1] sampleSigning_nonEmpty by simp
qed

theorem removal_detected_unless_last_witness:
  "verifyAssetChain sampleSigning (filter (\<lambda>n. m_id n \<noteq> m_id (hd sampleLedger)) sampleLedger)
     (m_assetId (hd sampleLedger)) \<noteq> []"
  using removal_detected_unless_last [OF sampleLedger_inv, of "hd sampleLedger"]
  by (simp add: sampleLedger_rows sampleInput_def signed_def unsignedRow_def Let_def)

theorem recordInitial_starts_chains_witness:
  "\<exists>ledger'. recordInitial sampleSigning 5 [''m8'', ''m9''] [sampleInput ''b'', sampleInput ''c''] sampleLedger =
     Inr (2, ledger') \<and> ledgerInv sampleSigning ledger'"
  using recordInitial_starts_chains [OF sampleLedger_inv sampleSigning_nonEmpty,
      of "[''m8'', ''m9'']" "[sampleInput ''b'', sampleInput ''c'']" 5]
  by (auto simp: sampleLedger_rows sampleInput_def recordInitial_def Let_def)

end
