(* ===== verification/Store.thy ===== *)
theory Store
  imports Movements
begin

text \<open>
  The tables the custody processes share (loans, transfers, write-offs, handovers and the acts that
  are signed for them), as one record of lists of rows, and the queries several services repeat: the
  reasons that hold an asset (src/src/modules/assets/domain/asset-holds.ts), the head of a cost
  center (src/src/modules/cost-centers/domain/cost-center-head-rule.ts) and the audit log.

  A transaction is a function from a database to a result: \<open>Inl\<close> is the exception that rolls
  it back, so the database it started from is the one that stays. A generated identifier is the
  next value of \<open>e_uuid\<close>; \<open>db_seq\<close> counts how many were drawn.
\<close>

section \<open>Rows\<close>

datatype loanStatus = LRequested | LApproved | LRejected | LInTransit | LPendingSignatures | LActive
  | LOverdue | LPendingReception | LReturned | LPartiallyReturned | LClosedWithLosses | LCancelled

datatype loanReturnCondition = ReturnGood | ReturnDamaged | ReturnLost

record loan =
  l_id :: string
  l_sourceCostCenterId :: string
  l_targetCostCenterId :: string
  l_targetLocationId :: "string option"
  l_contactPersonId :: "string option"
  l_requestedAt :: int
  l_startDate :: "string option"
  l_expectedReturnDate :: string
  l_approvedAt :: "int option"
  l_deliveredAt :: "int option"
  l_actualReturnDate :: "int option"
  l_requestedBy :: string
  l_approvedBy :: "string option"
  l_deliveredBy :: "string option"
  l_receivedBackBy :: "string option"
  l_status :: loanStatus
  l_justification :: string
  l_deliveryNotes :: "string option"
  l_returnNotes :: "string option"
  l_rejectedReason :: "string option"
  l_cancelledReason :: "string option"
  l_deliveryDocumentId :: "string option"
  l_assetRequestId :: "string option"
  l_extensionRequestedDate :: "string option"
  l_createdAt :: int
  l_updatedAt :: int

record loanItem =
  li_id :: string
  li_loanId :: string
  li_assetId :: string
  li_sourceCostCenterId :: string
  li_statusOnLoan :: "operationalStatus option"
  li_conditionOnDelivery :: "physicalCondition option"
  li_returnCondition :: "loanReturnCondition option"
  li_returnedAt :: "int option"
  li_receivedAt :: "int option"

record loanEvent =
  le_id :: string
  le_loanId :: string
  le_eventType :: string
  le_payload :: "json option"
  le_performedBy :: string
  le_createdAt :: int

datatype transferStatus = TDraft | TPendingSignatures | TCompleted | TRejected | TCancelled

record transfer =
  t_id :: string
  t_status :: transferStatus
  t_sourceCostCenterId :: string
  t_targetCostCenterId :: string
  t_requesterPersonId :: string
  t_ownerPersonId :: string
  t_controlPersonId :: "string option"
  t_accountingPersonId :: "string option"
  t_justification :: string
  t_assetRequestId :: "string option"
  t_documentRequestId :: "string option"
  t_documentId :: "string option"
  t_createdBy :: string
  t_generatedBy :: "string option"
  t_generatedAt :: "int option"
  t_completedAt :: "int option"
  t_rejectedAt :: "int option"
  t_cancelledAt :: "int option"
  t_cancelledBy :: "string option"
  t_cancelReason :: "string option"

record transferItem =
  ti_transferId :: string
  ti_assetId :: string
  ti_lineNumber :: nat
  ti_physicalCondition :: physicalCondition
  ti_physicallyVerified :: bool
  ti_verificationNote :: "string option"
  ti_numberingPresent :: bool
  ti_reasonId :: string
  ti_observations :: "string option"
  ti_open :: bool
  ti_movementId :: "string option"

datatype writeOffStatus = WDraft | WPendingSignatures | WCompleted | WRejected | WCancelled

datatype writeOffItemState = Obsolete_item | Damaged_item | Stolen_item | NotAnAsset_item | Other_item

record writeOff =
  w_id :: string
  w_status :: writeOffStatus
  w_authorizedTotal :: "rat option"
  w_councilAgreementNumber :: "string option"
  w_councilAgreementDate :: "string option"
  w_vicefinanceReports :: "string option"
  w_observations :: "string option"
  w_controlPersonId :: "string option"
  w_accountingPersonId :: "string option"
  w_documentRequestId :: "string option"
  w_documentId :: "string option"
  w_createdBy :: string
  w_generatedBy :: "string option"
  w_generatedAt :: "int option"
  w_completedAt :: "int option"
  w_rejectedAt :: "int option"
  w_cancelledAt :: "int option"
  w_cancelledBy :: "string option"
  w_cancelReason :: "string option"

record writeOffItem =
  wi_writeOffId :: string
  wi_assetId :: string
  wi_lineNumber :: nat
  wi_costCenterId :: string
  wi_quantity :: int
  wi_state :: writeOffItemState
  wi_notes :: "string option"
  wi_open :: bool
  wi_movementId :: "string option"

datatype handoverStatus = HAwaitingDocument | HPendingSignature | HSigned | HRejected | HCancelled

record handover =
  h_id :: string
  h_status :: handoverStatus
  h_costCenterId :: string
  h_receiverPersonId :: string
  h_auditorPersonId :: string
  h_assignedPersonId :: "string option"
  h_documentRequestId :: string
  h_documentId :: "string option"
  h_createdBy :: string
  h_closedAt :: "int option"
  h_cancelledBy :: "string option"
  h_cancelReason :: "string option"

record handoverItem =
  hi_handoverId :: string
  hi_assetId :: string
  hi_lineNumber :: nat
  hi_note :: "string option"
  hi_open :: bool
  hi_movementId :: "string option"

text \<open>Requests of assets between cost centers, and the notices they send.\<close>

datatype assetRequestStatus = QRequested | QAccepted | QClosedByOwner | QReturned | QLoanScheduled | QDocumentGenerated
  | QClosedLoanRejected | QClosedLoanCancelled | QCancelled | QExpired

datatype assetRequestKind = Temporary | Permanent

record assetRequest =
  ar_id :: string
  ar_code :: string
  ar_kind :: assetRequestKind
  ar_status :: assetRequestStatus
  ar_requesterUserId :: string
  ar_requesterPersonId :: string
  ar_requestingCostCenterId :: string
  ar_ownerCostCenterId :: string
  ar_description :: string
  ar_note :: "string option"
  ar_startDate :: "string option"
  ar_expectedReturnDate :: "string option"
  ar_acceptedBy :: "string option"
  ar_acceptedAt :: "int option"
  ar_decidedBy :: "string option"
  ar_decidedAt :: "int option"
  ar_expiresAt :: "int option"
  ar_loanId :: "string option"
  ar_transferId :: "string option"

record requestItem =
  ri_requestId :: string
  ri_assetId :: string
  ri_open :: bool

record requestEvent =
  rv_requestId :: string
  rv_eventType :: string
  rv_from :: "assetRequestStatus option"
  rv_to :: "assetRequestStatus option"
  rv_actorUserId :: "string option"
  rv_reason :: "string option"
  rv_payload :: "(string \<times> json) list"

record codeSequence =
  cs_prefix :: "string option"
  cs_currentValue :: int
  cs_paddingLength :: nat

text \<open>A row of the outbox of mails or of the notifications: who gets which template about what.\<close>

record noticeRow =
  no_recipientId :: string
  no_templateType :: string
  no_entityType :: string
  no_entityId :: string

datatype inventoryStatus = IPlanned | IInProgress | IClosed | IReconciled | ICancelled

record inventory =
  iv_id :: string
  iv_status :: inventoryStatus

record inventoryItem =
  ii_inventoryId :: string
  ii_assetId :: string

datatype documentStatus = DPendingSignature | DSigned | DRejected | DVoided

datatype signatureStatus = SPending | SSigned | SRejected

datatype requestStatus = RPending | RFailed | RGenerated | RCancelled

record document =
  d_id :: string
  d_formatKey :: string
  d_number :: string
  d_period :: string
  d_sequenceValue :: int
  d_status :: documentStatus
  d_entityType :: "string option"
  d_entityId :: "string option"
  d_formatVersionId :: string
  d_templateVersionId :: string
  d_pdfKey :: string
  d_pdfHash :: string
  d_signedPdfKey :: "string option"
  d_signatureReference :: "string option"
  d_createdBy :: "string option"
  d_createdAt :: int
  d_signedAt :: "int option"
  d_voidedAt :: "int option"
  d_voidedBy :: "string option"
  d_voidReason :: "string option"
  d_lifecycleFailedAt :: "int option"
  d_lifecycleError :: "failure option"
  d_lifecycleAttempts :: nat

record documentSignature =
  ds_documentId :: string
  ds_signOrder :: int
  ds_role :: string
  ds_signerPersonId :: "string option"
  ds_signerName :: "string option"
  ds_signerDocument :: "string option"
  ds_status :: signatureStatus
  ds_signedAt :: "int option"

record documentAsset =
  da_documentId :: string
  da_assetId :: string
  da_movementId :: "string option"

record signatureReassignment =
  sr_documentId :: string
  sr_signOrder :: int
  sr_role :: string
  sr_fromPersonId :: string
  sr_toPersonId :: "string option"
  sr_reason :: string
  sr_reassignedBy :: "string option"
  sr_atIssue :: bool

text \<open>The payload of an act (its tables, notes and printed fields have no effect on the state).\<close>

record documentRequestPayload =
  dp_formatKey :: string
  dp_entityType :: "string option"
  dp_entityId :: "string option"
  dp_costCenterId :: "string option"
  dp_responsiblePersonId :: "string option"
  dp_assetIds :: "string list"
  dp_movementIds :: "(string \<times> string) list"
  dp_signers :: "(string \<times> string) list"
  dp_signerSubstitutions :: "json option"
  dp_tables :: "json option"

record documentRequest =
  dr_id :: string
  dr_formatKey :: string
  dr_payload :: documentRequestPayload
  dr_requestedBy :: "string option"
  dr_status :: requestStatus
  dr_documentId :: "string option"
  dr_attempts :: nat
  dr_createdAt :: int
  dr_cancelledBy :: "string option"
  dr_cancelReason :: "string option"

text \<open>A version of a format, with its signers, and a template version (its file is in the storage).\<close>

datatype signerSource = FromResponsible | FromRequest

record signerSpec =
  sn_order :: int
  sn_role :: string
  sn_label :: string
  sn_source :: signerSource

record documentFormat =
  df_key :: string
  df_versionId :: string
  df_versionNumber :: int
  df_effectiveFrom :: "string option"
  df_sgcCode :: "string option"
  df_width :: nat
  df_perYear :: bool
  df_lastIssued :: int
  df_lastIssuedPeriod :: "string option"
  df_name :: string
  df_generatePermission :: string
  df_signers :: "signerSpec list"

record templateVersion =
  tv_id :: string
  tv_formatKey :: string
  tv_effectiveDate :: string
  tv_storageKey :: string

datatype numberingPolicy = RestartNumbering | ContinueNumbering

datatype envelopeStatus = EPending | ECompleted | ERejected | EVoided

datatype signatureMethod = SessionMfa | Session | EmailLink

text \<open>The envelope of the internal provider; a file is the text of its bytes.\<close>

record envelope =
  ev_id :: string
  ev_documentId :: string
  ev_verificationCode :: string
  ev_originalPdfSha256 :: string
  ev_preparedPdfSha256 :: string
  ev_currentPdfKey :: string
  ev_currentPdfSha256 :: string
  ev_status :: envelopeStatus
  ev_completedAt :: "int option"

record envelopeSigner =
  es_envelopeId :: string
  es_signOrder :: int
  es_role :: string
  es_roleLabel :: "string option"
  es_personId :: "string option"
  es_name :: "string option"
  es_documentNumber :: "string option"
  es_status :: signatureStatus
  es_signedAt :: "int option"
  es_pdfSha256Before :: "string option"
  es_pdfSha256After :: "string option"
  es_signerUserId :: "string option"
  es_sessionId :: "string option"
  es_mfaEnabled :: "bool option"
  es_method :: "signatureMethod option"
  es_ipAddress :: "string option"
  es_userAgent :: "string option"
  es_rubricKey :: "string option"
  es_rubricSha256 :: "string option"
  es_signingLinkId :: "string option"
  es_linkEmail :: "string option"
  es_linkSentAt :: "int option"
  es_identityConfirmedAt :: "int option"
  es_rejectReason :: "string option"

text \<open>A one-time link that lets a person without a user sign one turn.\<close>

datatype deliveryStatus = PendingSend | LinkSent | SendFailed

datatype linkInvalidation = Resent | AttemptsExceeded | Reassigned | LinkVoided | TurnChanged

datatype linkAction = LinkSigned | LinkRejected

record signingLink =
  sl_id :: string
  sl_documentId :: string
  sl_signOrder :: int
  sl_personId :: string
  sl_email :: string
  sl_tokenHash :: "string option"
  sl_deliveryStatus :: deliveryStatus
  sl_sendAttempts :: nat
  sl_sendStartedAt :: "int option"
  sl_lastSendError :: "string option"
  sl_sentAt :: "int option"
  sl_expiresAt :: "int option"
  sl_identityAttempts :: nat
  sl_identityConfirmedAt :: "int option"
  sl_authorizationHash :: "string option"
  sl_authorizationExpiresAt :: "int option"
  sl_consumedAt :: "int option"
  sl_consumedAction :: "linkAction option"
  sl_invalidatedAt :: "int option"
  sl_invalidatedReason :: "linkInvalidation option"
  sl_createdAt :: int

record documentSequence =
  sq_formatKey :: string
  sq_period :: string
  sq_currentValue :: int

record person =
  pe_id :: string
  pe_isActive :: bool
  pe_costCenterId :: "string option"
  pe_email :: "string option"
  pe_documentNumber :: "string option"
  pe_firstName :: string
  pe_lastName :: string

datatype userStatus = UActive | UInactive | USuspended | UPendingActivation

record appUser =
  u_id :: string
  u_personId :: "string option"
  u_status :: userStatus
  u_mfaEnabled :: bool

record costCenter =
  cc_id :: string
  cc_isActive :: bool
  cc_acceptsAssets :: bool

record costCenterHead =
  ch_costCenterId :: string
  ch_personId :: string
  ch_validFrom :: int
  ch_validUntil :: "int option"

record userPermission =
  up_userId :: string
  up_permissionCode :: string

record location =
  lc_id :: string
  lc_isActive :: bool

record auditRow =
  au_action :: string
  au_entityType :: string
  au_entityId :: string
  au_performedBy :: "string option"
  au_changes :: "json option"

section \<open>The database\<close>

record db =
  db_assets :: "asset list"
  db_movements :: "movement list"
  db_audit :: "auditRow list"
  db_loans :: "loan list"
  db_loanItems :: "loanItem list"
  db_loanEvents :: "loanEvent list"
  db_transfers :: "transfer list"
  db_transferItems :: "transferItem list"
  db_writeOffs :: "writeOff list"
  db_writeOffItems :: "writeOffItem list"
  db_handovers :: "handover list"
  db_handoverItems :: "handoverItem list"
  db_requests :: "assetRequest list"
  db_requestItems :: "requestItem list"
  db_requestEvents :: "requestEvent list"
  db_requestSequence :: "codeSequence option"
  db_mails :: "noticeRow list"
  db_notifications :: "noticeRow list"
  db_inventories :: "inventory list"
  db_inventoryItems :: "inventoryItem list"
  db_documents :: "document list"
  db_signatures :: "documentSignature list"
  db_reassignments :: "signatureReassignment list"
  db_documentAssets :: "documentAsset list"
  db_documentRequests :: "documentRequest list"
  db_sequences :: "documentSequence list"
  db_formats :: "documentFormat list"
  db_templates :: "templateVersion list"
  db_envelopes :: "envelope list"
  db_envelopeSigners :: "envelopeSigner list"
  db_links :: "signingLink list"
  db_persons :: "person list"
  db_users :: "appUser list"
  db_userPermissions :: "userPermission list"
  db_costCenters :: "costCenter list"
  db_heads :: "costCenterHead list"
  db_locations :: "location list"
  db_transferReasons :: "string list"
  db_seq :: nat

text \<open>The clock, the generator of identifiers and the signing keys of one request.\<close>

record env =
  e_now :: int
  e_uuid :: "nat \<Rightarrow> string"
  e_signing :: signing
  e_numberingPolicy :: numberingPolicy

definition freshId :: "env \<Rightarrow> db \<Rightarrow> string" where
  "freshId env db = e_uuid env (db_seq db)"

definition bumpSeq :: "db \<Rightarrow> db" where
  "bumpSeq db = db\<lparr>db_seq := Suc (db_seq db)\<rparr>"

definition findAsset :: "db \<Rightarrow> string \<Rightarrow> asset option" where
  "findAsset db k = List.find (\<lambda>a. a_id a = k) (db_assets db)"

definition recordAudit ::
  "string \<Rightarrow> string \<Rightarrow> string \<Rightarrow> string option \<Rightarrow> json option \<Rightarrow> db \<Rightarrow> db" where
  "recordAudit action entityType entityId performedBy changes db =
     db\<lparr>db_audit := db_audit db @
       [\<lparr>au_action = action, au_entityType = entityType, au_entityId = entityId,
         au_performedBy = performedBy, au_changes = changes\<rparr>]\<rparr>"

section \<open>Holds\<close>

definition OPEN_LOAN_STATUSES :: "loanStatus list" where
  "OPEN_LOAN_STATUSES = [LRequested, LApproved, LInTransit, LPendingSignatures, LActive, LOverdue,
     LPendingReception, LPartiallyReturned]"

definition holdOpenLoan :: "db \<Rightarrow> string \<Rightarrow> bool" where
  "holdOpenLoan db assetId =
     list_ex (\<lambda>li. li_assetId li = assetId \<and> li_receivedAt li = None \<and>
       list_ex (\<lambda>l. l_id l = li_loanId li \<and> l_status l \<in> set OPEN_LOAN_STATUSES) (db_loans db))
     (db_loanItems db)"

definition holdOpenTransfer :: "db \<Rightarrow> string \<Rightarrow> bool" where
  "holdOpenTransfer db assetId =
     list_ex (\<lambda>ti. ti_assetId ti = assetId \<and> ti_open ti) (db_transferItems db)"

definition holdOpenInventory :: "db \<Rightarrow> string \<Rightarrow> bool" where
  "holdOpenInventory db assetId =
     list_ex (\<lambda>ii. ii_assetId ii = assetId \<and>
       list_ex (\<lambda>iv. iv_id iv = ii_inventoryId ii \<and> iv_status iv \<in> {IPlanned, IInProgress})
         (db_inventories db)) (db_inventoryItems db)"

text \<open>\<open>ri.request_id IS DISTINCT FROM NULL\<close> holds of every row.\<close>

definition holdRequestReservation :: "db \<Rightarrow> string option \<Rightarrow> string \<Rightarrow> bool" where
  "holdRequestReservation db exceptRequest assetId =
     list_ex (\<lambda>ri. ri_assetId ri = assetId \<and> ri_open ri \<and> Some (ri_requestId ri) \<noteq> exceptRequest)
       (db_requestItems db)"

definition holdOpenWriteOff :: "db \<Rightarrow> string option \<Rightarrow> string \<Rightarrow> bool" where
  "holdOpenWriteOff db exceptWriteOff assetId =
     list_ex (\<lambda>wi. wi_assetId wi = assetId \<and> wi_open wi \<and> Some (wi_writeOffId wi) \<noteq> exceptWriteOff)
       (db_writeOffItems db)"

definition holdOpenHandover :: "db \<Rightarrow> string \<Rightarrow> bool" where
  "holdOpenHandover db assetId =
     list_ex (\<lambda>hi. hi_assetId hi = assetId \<and> hi_open hi) (db_handoverItems db)"

section \<open>Heads of cost centers\<close>

definition currentHead :: "int \<Rightarrow> string \<Rightarrow> costCenterHead \<Rightarrow> bool" where
  "currentHead at_time center h =
     (ch_costCenterId h = center \<and> ch_validFrom h \<le> at_time \<and>
      (case ch_validUntil h of None \<Rightarrow> True | Some u \<Rightarrow> at_time < u))"

definition costCentersWithoutHead :: "db \<Rightarrow> string list \<Rightarrow> int \<Rightarrow> string list" where
  "costCentersWithoutHead db ids at_time =
     map cc_id (filter (\<lambda>cc. cc_id cc \<in> set ids \<and>
       \<not> list_ex (currentHead at_time (cc_id cc)) (db_heads db)) (db_costCenters db))"

definition assertCostCenterHasHead :: "db \<Rightarrow> string \<Rightarrow> int \<Rightarrow> unit res" where
  "assertCostCenterHasHead db center at_time =
     (if costCentersWithoutHead db [center] at_time \<noteq> [] then throw CostCenterWithoutHead
      else Inr ())"

section \<open>Identifiers\<close>

text \<open>The pattern every service tests a text against before it uses it as an identifier.\<close>

definition isHex :: "char \<Rightarrow> bool" where
  "isHex c = (isDigit c \<or> c \<in> set ''abcdefABCDEF'')"

definition isUuid :: "string \<Rightarrow> bool" where
  "isUuid s = (length s = 36 \<and>
     list_all (\<lambda>(i, c). if i \<in> {8, 13, 18, 23} then c = CHR ''-'' else isHex c) (zip [0..<36] s))"

end
