(* ===== verification/AssetState.thy ===== *)
theory AssetState
  imports Store
begin

text \<open>
  The one place where an asset changes: \<open>AssetStateService.apply\<close> of
  src/src/modules/assets/services/asset-state.service.ts, and the manual operations of
  src/src/modules/assets/services/assets.service.ts that go through it.

  A change names the asset, the columns to write, the movement to record, an audit entry, a guard on
  the locked row and a further write of the same transaction. The lemmas show that every change
  keeps the ledger signed and chained, and keeps the latest row of the ledger equal to the state of
  the asset, which is what makes the ledger an account of where every asset is.

  The manual operations read the asset and what holds it before their transaction; the guard asks again
  only about the asset, on the locked row. Here the reads and the transaction are one step, so a hold that
  another request opens between them is outside the model.
\<close>

section \<open>Applying a change\<close>

record assetMovementSpec =
  sp_type :: movementType
  sp_reason :: "string option"
  sp_documentReference :: "string option"
  sp_executedAt :: "int option"
  sp_requestedBy :: "string option"
  sp_metadata :: "(string \<times> json) list option"
  sp_initial :: bool

record assetAudit =
  aa_action :: string
  aa_changes :: "json option"

record assetChange =
  c_assetId :: string
  c_actorId :: string
  c_patch :: assetPatch
  c_movement :: "assetMovementSpec option"
  c_audit :: "assetAudit option"
  c_guard :: "asset \<Rightarrow> unit res"
  c_alsoWrite :: "db \<Rightarrow> asset \<Rightarrow> db res"

definition PHYSICAL_CONDITION_UNKNOWN :: string where
  "PHYSICAL_CONDITION_UNKNOWN = ''PHYSICAL_CONDITION_UNKNOWN''"

text \<open>A condition that is written clears the flag that said it was unknown.\<close>

definition verifiedPatch :: "asset \<Rightarrow> assetPatch \<Rightarrow> assetPatch" where
  "verifiedPatch current patch =
     (if (case p_physicalCondition patch of Some (Some _) \<Rightarrow> True | _ \<Rightarrow> False) \<and>
         PHYSICAL_CONDITION_UNKNOWN \<in> set (a_dataQualityFlags current)
      then patch\<lparr>p_dataQualityFlags :=
             Some (filter (\<lambda>flag. flag \<noteq> PHYSICAL_CONDITION_UNKNOWN) (a_dataQualityFlags current))\<rparr>
      else patch)"

text \<open>\<open>assets.update({ id }, { ...record, updatedAt })\<close> of assets.repository.ts.\<close>

definition updateAsset :: "env \<Rightarrow> string \<Rightarrow> assetPatch \<Rightarrow> db \<Rightarrow> db" where
  "updateAsset env k patch db =
     db\<lparr>db_assets := update_where (\<lambda>a. a_id a = k)
          (\<lambda>a. (applyPatch patch a)\<lparr>a_updatedAt := e_now env\<rparr>) (db_assets db)\<rparr>"

text \<open>\<open>MovementsService.record\<close> inside the transaction.\<close>

definition insertMovement :: "env \<Rightarrow> recordMovementInput \<Rightarrow> db \<Rightarrow> db" where
  "insertMovement env i db =
     bumpSeq (db\<lparr>db_movements :=
       recordMovement (e_signing env) (e_now env) (freshId env db) i (db_movements db)\<rparr>)"

definition movementInput ::
  "assetMovementSpec \<Rightarrow> string \<Rightarrow> asset \<Rightarrow> asset \<Rightarrow> recordMovementInput" where
  "movementInput sp actorId current next_row =
     (let source = (if sp_initial sp then None else Some current) in
      \<lparr>i_assetId = a_id current, i_movementType = sp_type sp,
       i_fromCostCenterId = map_option a_costCenterId source,
       i_fromLocationId = Option.bind source a_locationId,
       i_fromResponsibleId = Option.bind source a_responsibleId,
       i_fromOperationalStatus = map_option a_operationalStatus source,
       i_fromPhysicalCondition = Option.bind source a_physicalCondition,
       i_toCostCenterId = Some (a_costCenterId next_row),
       i_toLocationId = a_locationId next_row,
       i_toResponsibleId = a_responsibleId next_row,
       i_toOperationalStatus = Some (a_operationalStatus next_row),
       i_toPhysicalCondition = a_physicalCondition next_row,
       i_requestedBy = (case sp_requestedBy sp of None \<Rightarrow> Some actorId | Some r \<Rightarrow> Some r),
       i_authorizedBy = Some actorId,
       i_reason = sp_reason sp, i_documentReference = sp_documentReference sp,
       i_loanId = None, i_metadata = sp_metadata sp, i_executedAt = sp_executedAt sp\<rparr>)"

text \<open>The writes before the further write of the caller: the columns and the movement.\<close>

definition writeChange :: "env \<Rightarrow> assetChange \<Rightarrow> asset \<Rightarrow> db \<Rightarrow> db" where
  "writeChange env c current db =
     (let patch = verifiedPatch current (c_patch c);
          db1 = updateAsset env (a_id current) (patch\<lparr>p_updatedBy := Some (Some (c_actorId c))\<rparr>) db;
          next_row = applyPatch patch current
      in case c_movement c of
           None \<Rightarrow> db1
         | Some sp \<Rightarrow> insertMovement env (movementInput sp (c_actorId c) current next_row) db1)"

definition applyWithin :: "env \<Rightarrow> assetChange \<Rightarrow> db \<Rightarrow> (asset \<times> db) res" where
  "applyWithin env c db =
     (case findAsset db (c_assetId c) of
        None \<Rightarrow> throw ResourceNotFound
      | Some current \<Rightarrow>
          rbind (c_guard c current) (\<lambda>_.
          rbind (c_alsoWrite c (writeChange env c current db) current) (\<lambda>db3.
            let db4 = (case c_audit c of
                         None \<Rightarrow> db3
                       | Some au \<Rightarrow> recordAudit (aa_action au) ''ASSET'' (a_id current)
                                     (Some (c_actorId c)) (aa_changes au) db3)
            in case findAsset db4 (a_id current) of
                 None \<Rightarrow> throw ResourceNotFound
               | Some updated \<Rightarrow> Inr (updated, db4))))"

text \<open>A change without a guard, or without a further write.\<close>

definition noGuard :: "asset \<Rightarrow> unit res" where
  "noGuard a = Inr ()"

definition noWrite :: "db \<Rightarrow> asset \<Rightarrow> db res" where
  "noWrite db a = Inr db"

text \<open>The rows of \<open>SELECT id FROM asset_movement\<close> by asset, type and two metadata keys.\<close>

definition movementOf ::
  "db \<Rightarrow> string \<Rightarrow> movementType \<Rightarrow> string \<times> string \<Rightarrow> string \<times> string \<Rightarrow> string option" where
  "movementOf db assetId ty kv1 kv2 =
     map_option m_id (List.find (\<lambda>m. m_assetId m = assetId \<and> m_movementType m = ty \<and>
       Option.bind (m_metadata m) (jget (fst kv1)) = Some (JStr (snd kv1)) \<and>
       Option.bind (m_metadata m) (jget (fst kv2)) = Some (JStr (snd kv2))) (db_movements db))"

section \<open>Guards of the manual operations\<close>

definition assertNotWrittenOff :: "asset \<Rightarrow> unit res" where
  "assertNotWrittenOff a =
     (if a_operationalStatus a = WrittenOff then throw AssetAlreadyWrittenOff else Inr ())"

definition assertMutable :: "asset \<Rightarrow> unit res" where
  "assertMutable a = rbind (assertNotWrittenOff a) (\<lambda>_.
     if a_operationalStatus a = OnLoan then throw AssetCannotBeModified else Inr ())"

definition requireAsset :: "db \<Rightarrow> string \<Rightarrow> asset res" where
  "requireAsset db k = (case findAsset db k of None \<Rightarrow> throw ResourceNotFound | Some a \<Rightarrow> Inr a)"

definition requireMutable :: "db \<Rightarrow> string \<Rightarrow> asset res" where
  "requireMutable db k = rbind (requireAsset db k) (\<lambda>a. rbind (assertMutable a) (\<lambda>_. Inr a))"

definition requireLocation :: "db \<Rightarrow> string \<Rightarrow> location res" where
  "requireLocation db k =
     (case List.find (\<lambda>l. lc_id l = k) (db_locations db) of
        None \<Rightarrow> throw ResourceNotFound
      | Some l \<Rightarrow> if \<not> lc_isActive l then throw ResourceNotFound else Inr l)"

text \<open>\<open>count > 0\<close> over the same join the holds test for existence.\<close>

definition assertNoActiveLoan :: "db \<Rightarrow> string \<Rightarrow> unit res" where
  "assertNoActiveLoan db k = (if holdOpenLoan db k then throw AssetHasActiveLoan else Inr ())"

definition assertNotInOpenWriteOff :: "db \<Rightarrow> string \<Rightarrow> unit res" where
  "assertNotInOpenWriteOff db k =
     (if holdOpenWriteOff db None k then throw AssetInOpenWriteOff else Inr ())"

definition assertNotUnderInventory :: "db \<Rightarrow> string \<Rightarrow> unit res" where
  "assertNotUnderInventory db k =
     (if holdOpenInventory db k then throw AssetUnderInventory else Inr ())"

section \<open>Manual operations\<close>

definition changeStatus ::
  "env \<Rightarrow> string \<Rightarrow> operationalStatus \<Rightarrow> string \<Rightarrow> string \<Rightarrow> db \<Rightarrow> (asset \<times> db) res" where
  "changeStatus env k status reason actorId db =
     rbind (requireMutable db k) (\<lambda>asset.
     rbind (assertNotUnderInventory db (a_id asset)) (\<lambda>_.
     rbind (assertNotInOpenWriteOff db (a_id asset)) (\<lambda>_.
     if status = WrittenOff then throw AssetInvalidStatusTransition
     else if \<not> canTransitionStatus (a_operationalStatus asset) status
     then throw AssetInvalidStatusTransition
     else
       applyWithin env
         \<lparr>c_assetId = a_id asset, c_actorId = actorId,
          c_patch = noPatch\<lparr>p_operationalStatus := Some status\<rparr>,
          c_movement = Some \<lparr>sp_type =
              (if status = InMaintenance then MaintenanceIn
               else if a_operationalStatus asset = InMaintenance then MaintenanceOut
               else ConditionChange),
            sp_reason = Some reason, sp_documentReference = None, sp_executedAt = None,
            sp_requestedBy = None, sp_metadata = None, sp_initial = False\<rparr>,
          c_audit = Some \<lparr>aa_action = ''ASSET_STAT_CHG'', aa_changes = Some (JObj
            [(''from'', JStr (statusText (a_operationalStatus asset))),
             (''to'', JStr (statusText status)), (''reason'', JStr reason)])\<rparr>,
          c_guard = (\<lambda>current. rbind (assertMutable current) (\<lambda>_.
            if a_operationalStatus current \<noteq> a_operationalStatus asset \<or>
               \<not> canTransitionStatus (a_operationalStatus current) status
            then throw AssetInvalidStatusTransition else Inr ())),
          c_alsoWrite = noWrite\<rparr> db)))"

text \<open>The direct write-off. \<open>writtenOffAt\<close> defaults to the UTC day of now.\<close>

definition writeOffAsset ::
  "env \<Rightarrow> string \<Rightarrow> string \<Rightarrow> string \<Rightarrow> string option \<Rightarrow> string \<Rightarrow> db \<Rightarrow> (asset \<times> db) res" where
  "writeOffAsset env k reason documentReference writtenOffAt actorId db =
     rbind (requireMutable db k) (\<lambda>asset.
     rbind (assertNotUnderInventory db (a_id asset)) (\<lambda>_.
     rbind (assertNoActiveLoan db (a_id asset)) (\<lambda>_.
     rbind (assertNotInOpenWriteOff db (a_id asset)) (\<lambda>_.
       applyWithin env
         \<lparr>c_assetId = a_id asset, c_actorId = actorId,
          c_patch = noPatch\<lparr>p_operationalStatus := Some WrittenOff,
            p_writtenOffAt := Some (Some (or_keep writtenOffAt (take 10 (toISOString (e_now env))))),
            p_writeOffReason := Some (Some reason),
            p_writeOffDocument := Some (Some documentReference),
            p_writeOffApprovedBy := Some (Some actorId)\<rparr>,
          c_movement = Some \<lparr>sp_type = WriteOff, sp_reason = Some reason,
            sp_documentReference = Some documentReference, sp_executedAt = None,
            sp_requestedBy = None, sp_metadata = None, sp_initial = False\<rparr>,
          c_audit = Some \<lparr>aa_action = ''ASSET_WRITE_OFF'', aa_changes = Some (JObj
            [(''documentReference'', JStr documentReference)])\<rparr>,
          c_guard = assertMutable, c_alsoWrite = noWrite\<rparr> db))))"

definition reassignLocation ::
  "env \<Rightarrow> string \<Rightarrow> string \<Rightarrow> string option \<Rightarrow> string \<Rightarrow> db \<Rightarrow> (asset \<times> db) res" where
  "reassignLocation env k locationId reason actorId db =
     rbind (requireAsset db k) (\<lambda>asset.
     rbind (assertNotWrittenOff asset) (\<lambda>_.
     rbind (assertNotUnderInventory db (a_id asset)) (\<lambda>_.
     rbind (requireLocation db locationId) (\<lambda>_.
       applyWithin env
         \<lparr>c_assetId = a_id asset, c_actorId = actorId,
          c_patch = noPatch\<lparr>p_locationId := Some (Some locationId)\<rparr>,
          c_movement = Some \<lparr>sp_type = Relocation, sp_reason = reason, sp_documentReference = None,
            sp_executedAt = None, sp_requestedBy = None, sp_metadata = None, sp_initial = False\<rparr>,
          c_audit = Some \<lparr>aa_action = ''ASSET_RELOCATED'', aa_changes = Some (JObj
            [(''from'', nullable (a_locationId asset)), (''to'', JStr locationId)])\<rparr>,
          c_guard = assertNotWrittenOff, c_alsoWrite = noWrite\<rparr> db))))"

section \<open>The custody invariant\<close>

text \<open>What the ledger says of an asset: the place, the responsible person, the status, the condition.\<close>

definition tracks :: "movement \<Rightarrow> asset \<Rightarrow> bool" where
  "tracks m a =
     (m_toCostCenterId m = Some (a_costCenterId a) \<and> m_toLocationId m = a_locationId a \<and>
      m_toResponsibleId m = a_responsibleId a \<and>
      m_toOperationalStatus m = Some (a_operationalStatus a) \<and>
      m_toPhysicalCondition m = a_physicalCondition a)"

definition ledgerMatches :: "db \<Rightarrow> bool" where
  "ledgerMatches db =
     (\<forall>a\<in>set (db_assets db). assetRows (db_movements db) (a_id a) \<noteq> [] \<longrightarrow>
        tracks (last (assetRows (db_movements db) (a_id a))) a)"

text \<open>Identifiers are drawn without repetition and a digest is never empty.\<close>

definition envOk :: "env \<Rightarrow> bool" where
  "envOk env = (inj (e_uuid env) \<and> hmacNonEmpty (e_signing env))"

definition drawn :: "env \<Rightarrow> db \<Rightarrow> bool" where
  "drawn env db = (\<forall>m\<in>set (db_movements db). \<exists>n<db_seq db. m_id m = e_uuid env n)"

definition custodyInv :: "env \<Rightarrow> db \<Rightarrow> bool" where
  "custodyInv env db =
     (distinct (map a_id (db_assets db)) \<and> ledgerInv (e_signing env) (db_movements db) \<and>
      drawn env db \<and> ledgerMatches db)"

text \<open>The columns the ledger accounts for are not among those a patch writes.\<close>

definition untracked :: "assetPatch \<Rightarrow> bool" where
  "untracked p = (p_costCenterId p = None \<and> p_locationId p = None \<and> p_responsibleId p = None \<and>
     p_operationalStatus p = None \<and> p_physicalCondition p = None)"

named_theorems frame \<open>tables an operation leaves as they were\<close>

lemma recordAudit_frame [simp]:
  "db_assets (recordAudit x y z u v db) = db_assets db"
  "db_movements (recordAudit x y z u v db) = db_movements db"
  "db_seq (recordAudit x y z u v db) = db_seq db"
  "db_loans (recordAudit x y z u v db) = db_loans db"
  "db_loanItems (recordAudit x y z u v db) = db_loanItems db"
  "db_transfers (recordAudit x y z u v db) = db_transfers db"
  "db_transferItems (recordAudit x y z u v db) = db_transferItems db"
  "db_writeOffs (recordAudit x y z u v db) = db_writeOffs db"
  "db_writeOffItems (recordAudit x y z u v db) = db_writeOffItems db"
  "db_handovers (recordAudit x y z u v db) = db_handovers db"
  "db_handoverItems (recordAudit x y z u v db) = db_handoverItems db"
  "db_documents (recordAudit x y z u v db) = db_documents db"
  "db_documentAssets (recordAudit x y z u v db) = db_documentAssets db"
  "db_signatures (recordAudit x y z u v db) = db_signatures db"
  "db_documentRequests (recordAudit x y z u v db) = db_documentRequests db"
  by (simp_all add: recordAudit_def)

lemma bumpSeq_frame [simp]:
  "db_assets (bumpSeq db) = db_assets db" "db_movements (bumpSeq db) = db_movements db"
  "db_seq (bumpSeq db) = Suc (db_seq db)" "db_loans (bumpSeq db) = db_loans db"
  "db_loanItems (bumpSeq db) = db_loanItems db" "db_transfers (bumpSeq db) = db_transfers db"
  "db_transferItems (bumpSeq db) = db_transferItems db" "db_writeOffs (bumpSeq db) = db_writeOffs db"
  "db_writeOffItems (bumpSeq db) = db_writeOffItems db" "db_handovers (bumpSeq db) = db_handovers db"
  "db_handoverItems (bumpSeq db) = db_handoverItems db" "db_documents (bumpSeq db) = db_documents db"
  "db_documentAssets (bumpSeq db) = db_documentAssets db" "db_signatures (bumpSeq db) = db_signatures db"
  "db_documentRequests (bumpSeq db) = db_documentRequests db"
  by (simp_all add: bumpSeq_def)

lemma verifiedPatch_tracked [simp]:
  "p_costCenterId (verifiedPatch a p) = p_costCenterId p"
  "p_locationId (verifiedPatch a p) = p_locationId p"
  "p_responsibleId (verifiedPatch a p) = p_responsibleId p"
  "p_operationalStatus (verifiedPatch a p) = p_operationalStatus p"
  "p_physicalCondition (verifiedPatch a p) = p_physicalCondition p"
  "p_writtenOffAt (verifiedPatch a p) = p_writtenOffAt p"
  by (simp_all add: verifiedPatch_def)

lemma custodyInv_cong:
  assumes "db_assets db' = db_assets db" "db_movements db' = db_movements db" "db_seq db \<le> db_seq db'"
    and "custodyInv env db"
  shows "custodyInv env db'"
proof -
  have "drawn env db'"
    using assms(2,3,4) unfolding drawn_def custodyInv_def by (metis less_le_trans)
  then show ?thesis using assms by (simp add: custodyInv_def ledgerMatches_def)
qed

lemma custodyInv_recordAudit [simp]: "custodyInv env (recordAudit x y z u v db) = custodyInv env db"
  by (simp add: custodyInv_def drawn_def ledgerMatches_def)

lemma findAsset_Some:
  "findAsset db k = Some a \<Longrightarrow> a \<in> set (db_assets db) \<and> a_id a = k"
  unfolding findAsset_def by (drule find_SomeD) simp

lemma findAsset_iff:
  assumes "distinct (map a_id (db_assets db))"
  shows "findAsset db k = Some a \<longleftrightarrow> a \<in> set (db_assets db) \<and> a_id a = k"
proof
  assume "a \<in> set (db_assets db) \<and> a_id a = k"
  then show "findAsset db k = Some a"
    using find_key_unique [OF assms, of a] by (simp add: findAsset_def)
qed (rule findAsset_Some)

lemma drawn_fresh:
  assumes "envOk env" "drawn env db"
  shows "freshId env db \<notin> m_id ` set (db_movements db)"
proof
  assume "freshId env db \<in> m_id ` set (db_movements db)"
  then obtain n where "n < db_seq db" "e_uuid env (db_seq db) = e_uuid env n"
    using assms(2) by (auto simp: drawn_def freshId_def)
  then show False using assms(1) by (auto simp: envOk_def inj_def)
qed

text \<open>Appending a row that states what an asset now is.\<close>

lemma insertMovement_frame [simp]:
  "db_assets (insertMovement env i db) = db_assets db"
  "db_movements (insertMovement env i db) =
     recordMovement (e_signing env) (e_now env) (freshId env db) i (db_movements db)"
  "db_seq (insertMovement env i db) = Suc (db_seq db)"
  by (simp_all add: insertMovement_def)

lemma assetRows_recordMovement:
  "assetRows (recordMovement sg now k i ledger) a =
     (if i_assetId i = a
      then assetRows ledger a @ [signed sg i (previousMovement ledger a) now k]
      else assetRows ledger a)"
  by (simp add: recordMovement_def)

text \<open>
  A row that was updated in place, followed by a movement that states its new columns, keeps the
  custody invariant; so does an update that leaves the tracked columns.
\<close>

lemma updateAsset_frame [simp]:
  "db_movements (updateAsset env k p db) = db_movements db"
  "db_seq (updateAsset env k p db) = db_seq db"
  "map a_id (db_assets (updateAsset env k p db)) = map a_id (db_assets db)"
  by (simp_all add: updateAsset_def map_update_where)

lemma updateAsset_assets:
  "b \<in> set (db_assets (updateAsset env k p db)) \<longleftrightarrow>
     (\<exists>a\<in>set (db_assets db). b = (if a_id a = k then (applyPatch p a)\<lparr>a_updatedAt := e_now env\<rparr> else a))"
  by (simp add: updateAsset_def in_update_where)

lemma tracks_touch [simp]: "tracks m (a\<lparr>a_updatedAt := t\<rparr>) = tracks m a"
  by (simp add: tracks_def)

lemma applyPatch_untracked: "untracked p \<Longrightarrow> tracks m (applyPatch p a) = tracks m a"
  by (simp add: tracks_def untracked_def)

lemma untracked_audit [simp]: "untracked (p\<lparr>p_updatedBy := u\<rparr>) = untracked p"
  by (simp add: untracked_def)

lemma untracked_verified [simp]: "untracked (verifiedPatch a p) = untracked p"
  by (simp add: untracked_def)

lemma movementInput_tracks:
  "tracks (signed sg (movementInput sp actor current (applyPatch p current)) prev now k)
     (applyPatch (p\<lparr>p_updatedBy := u\<rparr>) current)"
  by (simp add: tracks_def movementInput_def Let_def)

lemma movementInput_asset [simp]: "i_assetId (movementInput sp actor current nxt) = a_id current"
  by (simp add: movementInput_def Let_def)

lemma movementInput_type [simp]: "i_movementType (movementInput sp actor current nxt) = sp_type sp"
  by (simp add: movementInput_def Let_def)

lemma updateAsset_custodyInv:
  assumes "custodyInv env db" "untracked p"
  shows "custodyInv env (updateAsset env k p db)"
proof -
  have "ledgerMatches (updateAsset env k p db)"
    using assms by (auto simp: ledgerMatches_def updateAsset_assets custodyInv_def
        applyPatch_untracked split: if_splits)
  then show ?thesis using assms(1) by (simp add: custodyInv_def drawn_def)
qed

lemma recorded_custodyInv:
  assumes env: "envOk env" and inv: "custodyInv env db"
    and moved: "db_assets db' = db_assets db \<or> (\<exists>p. db' = updateAsset env (i_assetId i) p db)"
    and same: "db_movements db' = db_movements db" "db_seq db' = db_seq db"
    and states: "\<And>b prev. b \<in> set (db_assets db') \<Longrightarrow> a_id b = i_assetId i \<Longrightarrow>
      tracks (signed (e_signing env) i prev (e_now env) (freshId env db')) b"
  shows "custodyInv env (insertMovement env i db')"
proof -
  let ?new = "insertMovement env i db'"
  have fresh: "freshId env db' \<notin> m_id ` set (db_movements db')"
    using drawn_fresh [OF env, of db] inv same by (simp add: custodyInv_def freshId_def)
  have ledger: "ledgerInv (e_signing env) (db_movements ?new)"
    using recordMovement_ledgerInv [OF _ _ fresh] inv env same by (simp add: custodyInv_def envOk_def)
  have drawn: "drawn env ?new"
    using inv same by (auto simp: drawn_def custodyInv_def recordMovement_def freshId_def less_Suc_eq)
  have ids: "map a_id (db_assets db') = map a_id (db_assets db)"
    using moved by auto
  have others: "b \<in> set (db_assets db)" if "b \<in> set (db_assets db')" "a_id b \<noteq> i_assetId i" for b
    using moved that by (auto simp: updateAsset_assets split: if_splits)
  have "ledgerMatches ?new"
    unfolding ledgerMatches_def insertMovement_frame assetRows_recordMovement
    using states others inv same by (auto simp: custodyInv_def ledgerMatches_def)
  then show ?thesis using ledger drawn inv ids by (simp add: custodyInv_def)
qed

lemma writeChange_custodyInv:
  assumes env: "envOk env" and inv: "custodyInv env db"
    and current: "findAsset db (c_assetId c) = Some current"
    and moves: "c_movement c = None \<Longrightarrow> untracked (c_patch c)"
  shows "custodyInv env (writeChange env c current db)"
proof (cases "c_movement c")
  case None
  then show ?thesis using moves inv
    by (simp add: writeChange_def Let_def updateAsset_custodyInv)
next
  case (Some sp)
  let ?p = "verifiedPatch current (c_patch c)"
  let ?u = "?p\<lparr>p_updatedBy := Some (Some (c_actorId c))\<rparr>"
  let ?i = "movementInput sp (c_actorId c) current (applyPatch ?p current)"
  have d: "distinct (map a_id (db_assets db))" using inv by (simp add: custodyInv_def)
  have "custodyInv env (insertMovement env ?i (updateAsset env (a_id current) ?u db))"
  proof (rule recorded_custodyInv [OF env inv])
    show "db_assets (updateAsset env (a_id current) ?u db) = db_assets db \<or>
        (\<exists>p. updateAsset env (a_id current) ?u db = updateAsset env (i_assetId ?i) p db)" by auto
  next
    fix b prev
    assume "b \<in> set (db_assets (updateAsset env (a_id current) ?u db))" "a_id b = i_assetId ?i"
    then obtain a where a: "a \<in> set (db_assets db)" "a_id a = a_id current"
        "b = (applyPatch ?u a)\<lparr>a_updatedAt := e_now env\<rparr>"
      by (auto simp: updateAsset_assets split: if_splits)
    have "findAsset db (a_id current) = Some a" using a(1,2) findAsset_iff [OF d] by simp
    then have "a = current" using current findAsset_Some [OF current] by simp
    then show "tracks (signed (e_signing env) ?i prev (e_now env)
        (freshId env (updateAsset env (a_id current) ?u db))) b"
      using a(3) movementInput_tracks by simp
  qed simp_all
  then show ?thesis using Some by (simp add: writeChange_def Let_def)
qed

theorem applyWithin_custodyInv:
  assumes env: "envOk env" and inv: "custodyInv env db" and run: "applyWithin env c db = Inr (u, db')"
    and moves: "c_movement c = None \<Longrightarrow> untracked (c_patch c)"
    and also_ok: "\<And>d current d'. custodyInv env d \<Longrightarrow> c_alsoWrite c d current = Inr d' \<Longrightarrow> custodyInv env d'"
  shows "custodyInv env db'"
proof -
  obtain current db3 where current: "findAsset db (c_assetId c) = Some current"
    and db3: "c_alsoWrite c (writeChange env c current db) current = Inr db3"
    and db': "db' = (case c_audit c of None \<Rightarrow> db3
      | Some au \<Rightarrow> recordAudit (aa_action au) ''ASSET'' (a_id current) (Some (c_actorId c)) (aa_changes au) db3)"
    using run by (auto simp: applyWithin_def res_simps Let_def split: option.splits)
  have "custodyInv env db3"
    by (rule also_ok [OF writeChange_custodyInv [OF env inv current moves] db3])
  then show ?thesis by (simp add: db' split: option.split)
qed

section \<open>What a change does\<close>

definition auditOf :: "assetChange \<Rightarrow> asset \<Rightarrow> db \<Rightarrow> db" where
  "auditOf c current db =
     (case c_audit c of None \<Rightarrow> db
      | Some au \<Rightarrow> recordAudit (aa_action au) ''ASSET'' (a_id current) (Some (c_actorId c)) (aa_changes au) db)"

lemma auditOf_frame [simp]:
  "db_assets (auditOf c a db) = db_assets db" "db_movements (auditOf c a db) = db_movements db"
  "db_seq (auditOf c a db) = db_seq db" "db_loans (auditOf c a db) = db_loans db"
  "db_loanItems (auditOf c a db) = db_loanItems db" "db_transfers (auditOf c a db) = db_transfers db"
  "db_transferItems (auditOf c a db) = db_transferItems db"
  "db_writeOffs (auditOf c a db) = db_writeOffs db"
  "db_writeOffItems (auditOf c a db) = db_writeOffItems db"
  "db_handovers (auditOf c a db) = db_handovers db"
  "db_handoverItems (auditOf c a db) = db_handoverItems db"
  "db_documents (auditOf c a db) = db_documents db"
  "db_documentAssets (auditOf c a db) = db_documentAssets db"
  "db_signatures (auditOf c a db) = db_signatures db"
  "db_documentRequests (auditOf c a db) = db_documentRequests db"
  by (simp_all add: auditOf_def split: option.split)

text \<open>The patch as it is written, with the author.\<close>

definition writtenPatch :: "assetChange \<Rightarrow> asset \<Rightarrow> assetPatch" where
  "writtenPatch c current =
     (verifiedPatch current (c_patch c))\<lparr>p_updatedBy := Some (Some (c_actorId c))\<rparr>"

lemma writtenPatch_tracked [simp]:
  "p_costCenterId (writtenPatch c a) = p_costCenterId (c_patch c)"
  "p_locationId (writtenPatch c a) = p_locationId (c_patch c)"
  "p_responsibleId (writtenPatch c a) = p_responsibleId (c_patch c)"
  "p_operationalStatus (writtenPatch c a) = p_operationalStatus (c_patch c)"
  "p_physicalCondition (writtenPatch c a) = p_physicalCondition (c_patch c)"
  "p_writtenOffAt (writtenPatch c a) = p_writtenOffAt (c_patch c)"
  by (simp_all add: writtenPatch_def)

lemma writeChange_assets:
  "db_assets (writeChange env c current db) =
     db_assets (updateAsset env (a_id current) (writtenPatch c current) db)"
  by (simp add: writeChange_def writtenPatch_def Let_def split: option.split)

lemma writeChange_movements:
  "db_movements (writeChange env c current db) =
     (case c_movement c of None \<Rightarrow> db_movements db
      | Some sp \<Rightarrow> recordMovement (e_signing env) (e_now env) (freshId env db)
          (movementInput sp (c_actorId c) current
             (applyPatch (verifiedPatch current (c_patch c)) current)) (db_movements db))"
  by (simp add: writeChange_def Let_def freshId_def split: option.split)

text \<open>Every table but those of the assets, the movements and the counter stays.\<close>

lemma updateAsset_others [simp]:
  "db_loans (updateAsset env k p db) = db_loans db"
  "db_loanItems (updateAsset env k p db) = db_loanItems db"
  "db_transfers (updateAsset env k p db) = db_transfers db"
  "db_transferItems (updateAsset env k p db) = db_transferItems db"
  "db_writeOffs (updateAsset env k p db) = db_writeOffs db"
  "db_writeOffItems (updateAsset env k p db) = db_writeOffItems db"
  "db_handovers (updateAsset env k p db) = db_handovers db"
  "db_handoverItems (updateAsset env k p db) = db_handoverItems db"
  "db_documents (updateAsset env k p db) = db_documents db"
  "db_documentAssets (updateAsset env k p db) = db_documentAssets db"
  "db_signatures (updateAsset env k p db) = db_signatures db"
  "db_documentRequests (updateAsset env k p db) = db_documentRequests db"
  by (simp_all add: updateAsset_def)

lemma insertMovement_others [simp]:
  "db_loans (insertMovement env i db) = db_loans db"
  "db_loanItems (insertMovement env i db) = db_loanItems db"
  "db_transfers (insertMovement env i db) = db_transfers db"
  "db_transferItems (insertMovement env i db) = db_transferItems db"
  "db_writeOffs (insertMovement env i db) = db_writeOffs db"
  "db_writeOffItems (insertMovement env i db) = db_writeOffItems db"
  "db_handovers (insertMovement env i db) = db_handovers db"
  "db_handoverItems (insertMovement env i db) = db_handoverItems db"
  "db_documents (insertMovement env i db) = db_documents db"
  "db_documentAssets (insertMovement env i db) = db_documentAssets db"
  "db_signatures (insertMovement env i db) = db_signatures db"
  "db_documentRequests (insertMovement env i db) = db_documentRequests db"
  by (simp_all add: insertMovement_def)

lemma writeChange_others [simp]:
  "db_loans (writeChange env c a db) = db_loans db"
  "db_loanItems (writeChange env c a db) = db_loanItems db"
  "db_transfers (writeChange env c a db) = db_transfers db"
  "db_transferItems (writeChange env c a db) = db_transferItems db"
  "db_writeOffs (writeChange env c a db) = db_writeOffs db"
  "db_writeOffItems (writeChange env c a db) = db_writeOffItems db"
  "db_handovers (writeChange env c a db) = db_handovers db"
  "db_handoverItems (writeChange env c a db) = db_handoverItems db"
  "db_documents (writeChange env c a db) = db_documents db"
  "db_documentAssets (writeChange env c a db) = db_documentAssets db"
  "db_signatures (writeChange env c a db) = db_signatures db"
  "db_documentRequests (writeChange env c a db) = db_documentRequests db"
  by (simp_all add: writeChange_def Let_def split: option.split)

text \<open>The run of a change, inverted: what was found, that the guard passed, and what was written.\<close>

lemma applyWithin_alt:
  "applyWithin env c db =
     (case findAsset db (c_assetId c) of
        None \<Rightarrow> throw ResourceNotFound
      | Some current \<Rightarrow>
          rbind (c_guard c current) (\<lambda>_.
          rbind (c_alsoWrite c (writeChange env c current db) current) (\<lambda>db3.
            case findAsset (auditOf c current db3) (a_id current) of
              None \<Rightarrow> throw ResourceNotFound
            | Some updated \<Rightarrow> Inr (updated, auditOf c current db3))))"
  unfolding applyWithin_def auditOf_def Let_def by (rule refl)

lemma applyWithin_Inr:
  "applyWithin env c db = Inr (u, db') \<longleftrightarrow>
     (\<exists>current db3. findAsset db (c_assetId c) = Some current \<and> c_guard c current = Inr () \<and>
        c_alsoWrite c (writeChange env c current db) current = Inr db3 \<and>
        db' = auditOf c current db3 \<and> findAsset db' (a_id current) = Some u)"
  unfolding applyWithin_alt by (auto simp: res_simps split: option.splits)

lemma findAsset_updateAsset:
  "findAsset (updateAsset env k p db) k =
     map_option (\<lambda>a. (applyPatch p a)\<lparr>a_updatedAt := e_now env\<rparr>) (findAsset db k)"
proof -
  have "List.find (\<lambda>r. a_id r = k) (update_where (\<lambda>a. a_id a = k)
        (\<lambda>a. (applyPatch p a)\<lparr>a_updatedAt := e_now env\<rparr>) (db_assets db)) =
      map_option (\<lambda>r. if a_id r = k then (applyPatch p r)\<lparr>a_updatedAt := e_now env\<rparr> else r)
        (List.find (\<lambda>r. a_id r = k) (db_assets db))"
    by (rule find_update_where_key) simp
  then show ?thesis
    using find_SomeD by (fastforce simp: findAsset_def updateAsset_def intro: option.map_cong)
qed

lemma findAsset_cong: "db_assets db' = db_assets db \<Longrightarrow> findAsset db' k = findAsset db k"
  by (simp add: findAsset_def)

lemma applyWithin_noWrite:
  assumes "findAsset db (c_assetId c) = Some current" "c_guard c current = Inr ()"
    and "c_alsoWrite c = noWrite"
  shows "applyWithin env c db =
    Inr ((applyPatch (writtenPatch c current) current)\<lparr>a_updatedAt := e_now env\<rparr>,
         auditOf c current (writeChange env c current db))"
proof -
  have id: "a_id current = c_assetId c" using findAsset_Some [OF assms(1)] by simp
  have "findAsset (auditOf c current (writeChange env c current db)) (a_id current) =
      findAsset (updateAsset env (a_id current) (writtenPatch c current) db) (a_id current)"
    by (rule findAsset_cong) (simp add: writeChange_assets)
  then have "findAsset (auditOf c current (writeChange env c current db)) (a_id current) =
      Some ((applyPatch (writtenPatch c current) current)\<lparr>a_updatedAt := e_now env\<rparr>)"
    using assms(1) id by (simp add: findAsset_updateAsset)
  then show ?thesis unfolding applyWithin_Inr using assms by (auto simp: noWrite_def)
qed

lemma assertMutable_Inr [simp]:
  "assertMutable a = Inr () \<longleftrightarrow> a_operationalStatus a \<noteq> WrittenOff \<and> a_operationalStatus a \<noteq> OnLoan"
  by (simp add: assertMutable_def assertNotWrittenOff_def)

lemma assertNotWrittenOff_Inr [simp]:
  "assertNotWrittenOff a = Inr () \<longleftrightarrow> a_operationalStatus a \<noteq> WrittenOff"
  by (simp add: assertNotWrittenOff_def)

lemma requireAsset_Inr [res_simps]: "requireAsset db k = Inr a \<longleftrightarrow> findAsset db k = Some a"
  by (simp add: requireAsset_def split: option.split)

lemma requireMutable_Inr [res_simps]:
  "requireMutable db k = Inr a \<longleftrightarrow> findAsset db k = Some a \<and>
     a_operationalStatus a \<noteq> WrittenOff \<and> a_operationalStatus a \<noteq> OnLoan"
  by (auto simp: requireMutable_def res_simps)

lemma hold_guards_Inr [res_simps]:
  "assertNoActiveLoan db k = Inr v \<longleftrightarrow> \<not> holdOpenLoan db k"
  "assertNotInOpenWriteOff db k = Inr v \<longleftrightarrow> \<not> holdOpenWriteOff db None k"
  "assertNotUnderInventory db k = Inr v \<longleftrightarrow> \<not> holdOpenInventory db k"
  by (simp_all add: assertNoActiveLoan_def assertNotInOpenWriteOff_def assertNotUnderInventory_def)

lemma unit_res: "(r :: unit res) = Inr u \<longleftrightarrow> r = Inr ()"
  by simp

lemma previous_same: "findAsset db k = Some a \<Longrightarrow> a_id a = k"
  by (simp add: findAsset_Some)

text \<open>The manual operations as one: each is a guarded change that records a movement.\<close>

lemma changeStatus_runs:
  assumes "changeStatus env k s reason actor db = Inr (u, db')"
  shows "\<exists>c. applyWithin env c db = Inr (u, db') \<and> c_movement c \<noteq> None \<and> c_alsoWrite c = noWrite \<and>
    c_assetId c = k"
  using assms by (auto simp: changeStatus_def res_simps dest!: previous_same split: if_splits)

lemma writeOffAsset_runs:
  assumes "writeOffAsset env k reason doc at_day actor db = Inr (u, db')"
  shows "\<exists>c. applyWithin env c db = Inr (u, db') \<and> c_movement c \<noteq> None \<and> c_alsoWrite c = noWrite \<and>
    c_assetId c = k"
  using assms by (auto simp: writeOffAsset_def res_simps dest!: previous_same)

lemma reassignLocation_runs:
  assumes "reassignLocation env k loc reason actor db = Inr (u, db')"
  shows "\<exists>c. applyWithin env c db = Inr (u, db') \<and> c_movement c \<noteq> None \<and> c_alsoWrite c = noWrite \<and>
    c_assetId c = k"
  using assms by (auto simp: reassignLocation_def res_simps dest!: previous_same)

lemma applyWithin_lastRow:
  assumes "applyWithin env c db = Inr (u, db')" "c_movement c \<noteq> None" "c_alsoWrite c = noWrite"
    "custodyInv env db'"
  shows "tracks (last (assetRows (db_movements db') (a_id u))) u"
proof -
  obtain current where cur: "findAsset db (c_assetId c) = Some current"
      "db' = auditOf c current (writeChange env c current db)" "findAsset db' (a_id current) = Some u"
    using assms(1,3) by (auto simp: applyWithin_Inr noWrite_def)
  have "a_id u = a_id current" using findAsset_Some [OF cur(3)] by simp
  moreover have "assetRows (db_movements db') (a_id current) \<noteq> []"
    using assms(2) cur(2) by (auto simp: writeChange_movements assetRows_recordMovement)
  ultimately show ?thesis
    using assms(4) findAsset_Some [OF cur(3)] by (auto simp: custodyInv_def ledgerMatches_def)
qed

lemma changeStatus_succeeds:
  assumes a: "findAsset db k = Some a" "canTransitionStatus (a_operationalStatus a) s"
    "\<not> holdOpenInventory db k" "\<not> holdOpenWriteOff db None k"
  shows "\<exists>c sp. changeStatus env k s reason actor db =
      Inr ((applyPatch (writtenPatch c a) a)\<lparr>a_updatedAt := e_now env\<rparr>, auditOf c a (writeChange env c a db)) \<and>
    c_patch c = noPatch\<lparr>p_operationalStatus := Some s\<rparr> \<and> c_movement c = Some sp \<and> \<not> sp_initial sp"
proof -
  have id: "a_id a = k" using a(1) by (rule previous_same)
  have status: "a_operationalStatus a \<noteq> WrittenOff" "a_operationalStatus a \<noteq> OnLoan" "s \<noteq> WrittenOff"
    using canTransitionStatus_boundary [OF a(2)] by auto
  obtain c where run: "changeStatus env k s reason actor db = applyWithin env c db"
    and c: "c_assetId c = k" "c_guard c a = Inr ()" "c_alsoWrite c = noWrite"
      "c_patch c = noPatch\<lparr>p_operationalStatus := Some s\<rparr>"
      "\<exists>sp. c_movement c = Some sp \<and> \<not> sp_initial sp"
    using a id status
    by (simp add: changeStatus_def requireMutable_def requireAsset_def assertNotUnderInventory_def
        assertNotInOpenWriteOff_def assertMutable_def assertNotWrittenOff_def)
  have "applyWithin env c db = Inr ((applyPatch (writtenPatch c a) a)\<lparr>a_updatedAt := e_now env\<rparr>,
      auditOf c a (writeChange env c a db))"
    by (rule applyWithin_noWrite) (use a c in auto)
  then show ?thesis using run c by metis
qed

section \<open>Properties\<close>

text \<open>
  Every manual change of an asset (its status, its write-off, its location) keeps the ledger a set
  of signed chains that verify, and the latest row of the ledger is then exactly the place, the
  responsible person, the status and the condition of the asset it returns.
\<close>

theorem manual_operations_keep_ledger:
  assumes "envOk env" "custodyInv env db"
    and "changeStatus env k s reason actor db = Inr (u, db') \<or>
      writeOffAsset env k reason2 doc at_day actor db = Inr (u, db') \<or>
      reassignLocation env k loc reason3 actor db = Inr (u, db')"
  shows "custodyInv env db' \<and> verifyAssetChain (e_signing env) (db_movements db') k = [] \<and>
    a_id u = k \<and> tracks (last (assetRows (db_movements db') k)) u"
proof -
  obtain c where c: "applyWithin env c db = Inr (u, db')" "c_movement c \<noteq> None"
      "c_alsoWrite c = noWrite" "c_assetId c = k"
    using assms(3) changeStatus_runs writeOffAsset_runs reassignLocation_runs by metis
  have inv: "custodyInv env db'"
    by (rule applyWithin_custodyInv [OF assms(1,2) c(1)]) (use c in \<open>auto simp: noWrite_def\<close>)
  have id: "a_id u = k"
    using c(1,4) findAsset_Some by (fastforce simp: applyWithin_Inr)
  have "verifyAssetChain (e_signing env) (db_movements db') k = []"
    by (rule ledgerInv_clean) (use inv in \<open>simp add: custodyInv_def\<close>)
  then show ?thesis using inv id applyWithin_lastRow [OF c(1,2,3) inv] by simp
qed

text \<open>
  C31. A manual status change succeeds exactly when the asset exists, the table of transitions allows
  it and no open inventory or open write-off holds the asset. It then sets the status, leaves every
  other asset alone, and appends one movement from the old status to the new one.
\<close>

theorem changeStatus_exact:
  assumes "distinct (map a_id (db_assets db))"
  shows "case changeStatus env k s reason actor db of
      Inl e \<Rightarrow> \<not> (\<exists>a. findAsset db k = Some a \<and> canTransitionStatus (a_operationalStatus a) s \<and>
        \<not> holdOpenInventory db k \<and> \<not> holdOpenWriteOff db None k)
    | Inr (u, db') \<Rightarrow> \<exists>a m. findAsset db k = Some a \<and> canTransitionStatus (a_operationalStatus a) s \<and>
        \<not> holdOpenInventory db k \<and> \<not> holdOpenWriteOff db None k \<and>
        findAsset db' k = Some u \<and> a_operationalStatus u = s \<and> a_costCenterId u = a_costCenterId a \<and>
        filter (\<lambda>b. a_id b \<noteq> k) (db_assets db') = filter (\<lambda>b. a_id b \<noteq> k) (db_assets db) \<and>
        db_movements db' = db_movements db @ [m] \<and> m_assetId m = k \<and>
        m_fromOperationalStatus m = Some (a_operationalStatus a) \<and> m_toOperationalStatus m = Some s"
proof (cases "\<exists>a. findAsset db k = Some a \<and> canTransitionStatus (a_operationalStatus a) s \<and>
    \<not> holdOpenInventory db k \<and> \<not> holdOpenWriteOff db None k")
  case False
  then show ?thesis
    by (cases "changeStatus env k s reason actor db")
      (auto simp: changeStatus_def res_simps dest: previous_same split: if_splits)
next
  case True
  then obtain a where a: "findAsset db k = Some a" "canTransitionStatus (a_operationalStatus a) s"
      "\<not> holdOpenInventory db k" "\<not> holdOpenWriteOff db None k" by blast
  have id: "a_id a = k" using a(1) by (rule previous_same)
  obtain c sp where applied: "changeStatus env k s reason actor db =
        Inr ((applyPatch (writtenPatch c a) a)\<lparr>a_updatedAt := e_now env\<rparr>, auditOf c a (writeChange env c a db))"
    and c: "c_patch c = noPatch\<lparr>p_operationalStatus := Some s\<rparr>"
    and sp: "c_movement c = Some sp" "\<not> sp_initial sp"
    using changeStatus_succeeds [OF a] by metis
  have others: "filter (\<lambda>b. a_id b \<noteq> k) (db_assets (writeChange env c a db)) =
      filter (\<lambda>b. a_id b \<noteq> k) (db_assets db)"
    unfolding writeChange_assets updateAsset_def using id
    by (simp add: filter_update_where_other)
  have found: "findAsset (writeChange env c a db) k =
      Some ((applyPatch (writtenPatch c a) a)\<lparr>a_updatedAt := e_now env\<rparr>)"
    using a(1) id by (simp add: findAsset_cong [OF writeChange_assets] findAsset_updateAsset)
  show ?thesis
    unfolding applied
    using a others found sp id c
    by (simp add: writeChange_movements recordMovement_def findAsset_cong [OF auditOf_frame(1)]
        movementInput_def Let_def noPatch_def)
qed

text \<open>
  C32. A written-off asset stays written off: a status change, a second write-off and a relocation of
  it are all refused with \<open>ASSET_ALREADY_WRITTEN_OFF\<close>, whatever else the database holds.
\<close>

theorem written_off_is_final:
  assumes "findAsset db k = Some a" "a_operationalStatus a = WrittenOff"
  shows "changeStatus env k s reason actor db = throw AssetAlreadyWrittenOff \<and>
    writeOffAsset env k reason2 doc at_day actor db = throw AssetAlreadyWrittenOff \<and>
    reassignLocation env k loc reason3 actor db = throw AssetAlreadyWrittenOff"
  using assms
  by (simp add: changeStatus_def writeOffAsset_def reassignLocation_def requireMutable_def
      requireAsset_def assertMutable_def assertNotWrittenOff_def)

section \<open>Witnesses\<close>

definition sampleEnv :: env where
  "sampleEnv = \<lparr>e_now = 1000, e_uuid = (\<lambda>n. ''00000000-0000-4000-8000-00000000000'' @ digits_of n),
     e_signing = sampleSigning, e_numberingPolicy = RestartNumbering\<rparr>"

definition emptyDb :: db where
  "emptyDb = \<lparr>db_assets = [], db_movements = [], db_audit = [], db_loans = [], db_loanItems = [],
     db_loanEvents = [], db_transfers = [], db_transferItems = [], db_writeOffs = [],
     db_writeOffItems = [], db_handovers = [], db_handoverItems = [], db_requests = [],
     db_requestItems = [], db_requestEvents = [], db_requestSequence = None, db_mails = [], db_notifications = [],
     db_inventories = [], db_inventoryItems = [], db_documents = [], db_signatures = [],
     db_reassignments = [], db_documentAssets = [], db_documentRequests = [], db_sequences = [],
     db_formats = [], db_templates = [], db_envelopes = [], db_envelopeSigners = [], db_links = [],
     db_persons = [], db_users = [], db_userPermissions = [], db_costCenters = [], db_heads = [],
     db_locations = [], db_transferReasons = [], db_seq = 0\<rparr>"

definition sampleAsset :: "string \<Rightarrow> operationalStatus \<Rightarrow> asset" where
  "sampleAsset k s = \<lparr>a_id = k, a_internalCode = k, a_barcode = None, a_serialNumber = None,
     a_description = ''d'', a_model = None, a_categoryId = ''cat'', a_manufacturerId = None,
     a_acquisitionTypeId = ''t'', a_acquisitionDate = None, a_acquisitionDocument = None,
     a_supplierId = None, a_acquisitionPrice = 1, a_currency = ''COP'', a_operationalStatus = s,
     a_physicalCondition = Some Good, a_costCenterId = ''c1'', a_locationId = None,
     a_responsibleId = None, a_writtenOffAt = None, a_writeOffReason = None,
     a_writeOffDocument = None, a_writeOffApprovedBy = None, a_qrToken = None, a_qrTokenVersion = 0,
     a_qrSignedAt = None, a_qrSignedBy = None, a_depreciationMethod = StraightLine,
     a_usefulLifeYears = None, a_salvageValue = 0, a_lastVerifiedAt = None, a_notes = None,
     a_warrantyExpiresAt = None, a_insurancePolicyNumber = None, a_dataQualityFlags = [],
     a_createdAt = 0, a_createdBy = ''u'', a_updatedAt = 0, a_updatedBy = None\<rparr>"

definition sampleDb :: "operationalStatus \<Rightarrow> db" where
  "sampleDb s = emptyDb\<lparr>db_assets := [sampleAsset ''a'' s]\<rparr>"

lemma sampleEnv_ok: "envOk sampleEnv"
  by (auto simp: envOk_def sampleEnv_def sampleSigning_nonEmpty inj_def)

lemma sampleDb_inv: "custodyInv sampleEnv (sampleDb s)"
  by (simp add: custodyInv_def sampleDb_def emptyDb_def ledgerInv_Nil drawn_def ledgerMatches_def)

lemma sampleDb_find: "findAsset (sampleDb s) ''a'' = Some (sampleAsset ''a'' s)"
  by (simp add: findAsset_def sampleDb_def emptyDb_def sampleAsset_def)

theorem changeStatus_exact_witness:
  "\<exists>u db'. changeStatus sampleEnv ''a'' InMaintenance ''broken'' ''u'' (sampleDb InUse) = Inr (u, db') \<and>
     a_operationalStatus u = InMaintenance"
proof -
  have ok: "canTransitionStatus (a_operationalStatus (sampleAsset ''a'' InUse)) InMaintenance"
      "\<not> holdOpenInventory (sampleDb InUse) ''a''" "\<not> holdOpenWriteOff (sampleDb InUse) None ''a''"
    by (simp_all add: sampleAsset_def canTransitionStatus_def holdOpenInventory_def holdOpenWriteOff_def
        sampleDb_def emptyDb_def)
  have "distinct (map a_id (db_assets (sampleDb InUse)))" by (simp add: sampleDb_def emptyDb_def)
  from changeStatus_exact [OF this, where env = sampleEnv and k = "''a''" and s = InMaintenance and
      reason = "''broken''" and actor = "''u''"]
  show ?thesis using ok by (auto simp: sampleDb_find split: sum.splits)
qed

theorem manual_operations_keep_ledger_witness:
  "\<exists>u db'. changeStatus sampleEnv ''a'' InMaintenance ''broken'' ''u'' (sampleDb InUse) = Inr (u, db') \<and>
     tracks (last (assetRows (db_movements db') ''a'')) u"
proof -
  have ok: "canTransitionStatus (a_operationalStatus (sampleAsset ''a'' InUse)) InMaintenance"
      "\<not> holdOpenInventory (sampleDb InUse) ''a''" "\<not> holdOpenWriteOff (sampleDb InUse) None ''a''"
    by (simp_all add: sampleAsset_def canTransitionStatus_def holdOpenInventory_def holdOpenWriteOff_def
        sampleDb_def emptyDb_def)
  obtain u db' where run: "changeStatus sampleEnv ''a'' InMaintenance ''broken'' ''u'' (sampleDb InUse) = Inr (u, db')"
    using changeStatus_succeeds [OF sampleDb_find ok] by metis
  show ?thesis
    using manual_operations_keep_ledger [OF sampleEnv_ok sampleDb_inv disjI1 [OF run]] run by blast
qed

theorem written_off_is_final_witness:
  "writeOffAsset sampleEnv ''a'' ''old'' ''doc'' None ''u'' (sampleDb WrittenOff) = throw AssetAlreadyWrittenOff"
  using written_off_is_final [OF sampleDb_find, of WrittenOff] by (simp add: sampleAsset_def)

end
