(* ===== verification/DocSigners.thy ===== *)
theory DocSigners
  imports AssetState
begin

text \<open>
  Who signs an act: src/src/modules/documents/domain/signer-separation.ts, the readiness and the
  numbering of a format (document-formats.ts), the holders of a signing permission
  (control-signers.service.ts) and \<open>signersFor\<close> of document-engine.service.ts.

  The lemmas show that when an act is accepted nobody signs it twice, only the turns of Control
  Interno are ever substituted, and whoever signs one of those turns holds the permission to.
\<close>

section \<open>Formats\<close>

text \<open>Whether there is a reason a format is not ready: no SGC code, or no signers.\<close>

datatype notReadyReason = MissingSgcCode | MissingSigners

definition formatNotReadyReasons :: "documentFormat \<Rightarrow> notReadyReason list" where
  "formatNotReadyReasons f =
     (if falsy (df_sgcCode f) then [MissingSgcCode] else []) @
     (if 0 < length (df_signers f) then [] else [MissingSigners])"

definition assertReady :: "documentFormat \<Rightarrow> unit res" where
  "assertReady f =
     (if formatNotReadyReasons f \<noteq> [] then throw DocumentFormatNotReady else Inr ())"

definition initialSequenceValue :: "documentFormat \<Rightarrow> string \<Rightarrow> numberingPolicy \<Rightarrow> int" where
  "initialSequenceValue f period policy =
     (if policy = RestartNumbering then 0
      else if df_perYear f \<and> df_lastIssuedPeriod f \<noteq> Some period then 0
      else df_lastIssued f)"

definition formatNumber :: "documentFormat \<Rightarrow> string \<Rightarrow> int \<Rightarrow> string" where
  "formatNumber f period v =
     (let padded = padStart (df_width f) (showInt v) in
      if df_perYear f then period @ ''-'' @ padded else padded)"

text \<open>
  \<open>find\<close> of document-format-catalog.service.ts: among the versions that already rule, the one
  with the latest date (no date is the earliest) and then the highest number.
\<close>

definition versionBefore :: "documentFormat \<Rightarrow> documentFormat \<Rightarrow> bool" where
  "versionBefore f g =
     (case (df_effectiveFrom f, df_effectiveFrom g) of
        (None, None) \<Rightarrow> df_versionNumber g \<le> df_versionNumber f
      | (None, Some _) \<Rightarrow> False
      | (Some _, None) \<Rightarrow> True
      | (Some d, Some e) \<Rightarrow> e < d \<or> (d = e \<and> df_versionNumber g \<le> df_versionNumber f))"

definition rules :: "string \<Rightarrow> documentFormat \<Rightarrow> bool" where
  "rules date f = (case df_effectiveFrom f of None \<Rightarrow> True | Some d \<Rightarrow> d \<le> date)"

fun firstVersion :: "documentFormat list \<Rightarrow> documentFormat option" where
  "firstVersion [] = None"
| "firstVersion (f # fs) =
     (case firstVersion fs of
        None \<Rightarrow> Some f
      | Some g \<Rightarrow> if versionBefore f g then Some f else Some g)"

definition findFormat :: "db \<Rightarrow> string \<Rightarrow> string \<Rightarrow> documentFormat option" where
  "findFormat db key date = firstVersion (filter (\<lambda>f. df_key f = key \<and> rules date f) (db_formats db))"

definition currentFormat :: "env \<Rightarrow> db \<Rightarrow> string \<Rightarrow> documentFormat res" where
  "currentFormat env db key =
     (case findFormat db key (localeIsoDate (e_now env)) of
        None \<Rightarrow> throw ValidationFailed | Some f \<Rightarrow> Inr f)"

section \<open>Separation of signers\<close>

definition MFA_REQUIRED_ROLES :: "string list" where
  "MFA_REQUIRED_ROLES = [''AUDITA'', ''CONTROL_INTERNO'']"

definition SUBSTITUTABLE_ROLES :: "string list" where
  "SUBSTITUTABLE_ROLES = MFA_REQUIRED_ROLES"

definition CONTROL_SIGNER_ROLES :: "string list" where
  "CONTROL_SIGNER_ROLES = SUBSTITUTABLE_ROLES"

definition requiresControlSigner :: "string \<Rightarrow> bool" where
  "requiresControlSigner role = (role \<in> set CONTROL_SIGNER_ROLES)"

definition CONTROL_SIGNER_PERMISSION :: string where
  "CONTROL_SIGNER_PERMISSION = ''act:sign_control:global''"

definition SUBSTITUTION_REASON_MIN :: nat where "SUBSTITUTION_REASON_MIN = 3"
definition SUBSTITUTION_REASON_MAX :: nat where "SUBSTITUTION_REASON_MAX = 500"

record signerSubstitution =
  ss_personId :: string
  ss_reason :: string

record resolvedSigner =
  rs_spec :: signerSpec
  rs_personId :: "string option"
  rs_substitution :: "(string \<times> string) option"

text \<open>\<open>/^[A-Z][A-Z0-9_]{0,39}$/\<close>\<close>

definition isRole :: "string \<Rightarrow> bool" where
  "isRole s = (s \<noteq> [] \<and> length s \<le> 40 \<and> CHR ''A'' \<le> hd s \<and> hd s \<le> CHR ''Z'' \<and>
     list_all (\<lambda>c. CHR ''A'' \<le> c \<and> c \<le> CHR ''Z'' \<or> isDigit c \<or> c = CHR ''_'') (tl s))"

abbreviation invalidSubstitute :: "'a res" where
  "invalidSubstitute \<equiv> throw DocumentSignerSubstituteInvalid"

text \<open>One entry of \<open>signerSubstitutions\<close>: a turn, the person and the reason of the request.\<close>

definition normalizeEntry ::
  "(string \<times> signerSubstitution) list \<Rightarrow> string \<times> json \<Rightarrow> (string \<times> signerSubstitution) list res" where
  "normalizeEntry result entry =
     (let role = fst entry in
      if \<not> isRole role then invalidSubstitute
      else (case snd entry of
          JObj es \<Rightarrow>
            (case map_of es ''personId'' of
               Some (JStr personId) \<Rightarrow>
                 (if \<not> isUuid personId then invalidSubstitute
                  else
                    (let motive = (case map_of es ''reason'' of Some (JStr r) \<Rightarrow> trim r | _ \<Rightarrow> []) in
                     if length motive < SUBSTITUTION_REASON_MIN \<or> SUBSTITUTION_REASON_MAX < length motive
                     then invalidSubstitute
                     else Inr (result @ [(role, \<lparr>ss_personId = personId, ss_reason = motive\<rparr>)])))
             | _ \<Rightarrow> invalidSubstitute)
        | _ \<Rightarrow> invalidSubstitute))"

definition normalizeSubstitutions :: "json option \<Rightarrow> (string \<times> signerSubstitution) list res" where
  "normalizeSubstitutions raw =
     (case raw of
        None \<Rightarrow> Inr []
      | Some JNull \<Rightarrow> Inr []
      | Some (JObj es) \<Rightarrow> foldM normalizeEntry [] es
      | Some _ \<Rightarrow> invalidSubstitute)"

definition designatedSigners ::
  "signerSpec list \<Rightarrow> documentRequestPayload \<Rightarrow> (signerSpec \<times> string option) list" where
  "designatedSigners specs payload =
     map (\<lambda>spec. (spec,
       if sn_source spec = FromResponsible then dp_responsiblePersonId payload
       else map_of (dp_signers payload) (sn_role spec))) specs"

text \<open>The persons that appear in more than one turn.\<close>

definition conflictsOf :: "(signerSpec \<times> string option) list \<Rightarrow> (string \<times> signerSpec list) list" where
  "conflictsOf signers =
     filter (\<lambda>(_, specs). 1 < length specs)
       (map (\<lambda>p. (p, map fst (filter (\<lambda>s. snd s = Some p) signers)))
         (uniq (map (the \<circ> snd) (filter (\<lambda>s. \<not> falsy (snd s)) signers))))"

definition checkSubstitution ::
  "(signerSpec \<times> string option) list \<Rightarrow> string list \<Rightarrow> string list \<Rightarrow>
     unit \<Rightarrow> string \<times> signerSubstitution \<Rightarrow> unit res" where
  "checkSubstitution designated conflicted ineligibleRoles u entry =
     (case List.find (\<lambda>s. sn_role (fst s) = fst entry) designated of
        None \<Rightarrow> invalidSubstitute
      | Some slot \<Rightarrow>
          if fst entry \<notin> set SUBSTITUTABLE_ROLES then invalidSubstitute
          else if falsy (snd slot) \<or>
            (the (snd slot) \<notin> set conflicted \<and> fst entry \<notin> set ineligibleRoles)
          then invalidSubstitute
          else if Some (ss_personId (snd entry)) = snd slot then invalidSubstitute
          else Inr ())"

definition resolveOne ::
  "(string \<times> signerSubstitution) list \<Rightarrow> signerSpec \<times> string option \<Rightarrow> resolvedSigner" where
  "resolveOne substitutions s =
     (case map_of substitutions (sn_role (fst s)) of
        Some sub \<Rightarrow>
          (if \<not> falsy (snd s)
           then \<lparr>rs_spec = fst s, rs_personId = Some (ss_personId sub),
                 rs_substitution = Some (the (snd s), ss_reason sub)\<rparr>
           else \<lparr>rs_spec = fst s, rs_personId = snd s, rs_substitution = None\<rparr>)
      | None \<Rightarrow> \<lparr>rs_spec = fst s, rs_personId = snd s, rs_substitution = None\<rparr>)"

text \<open>A substitute that already signs another turn.\<close>

definition substituteTwice :: "resolvedSigner list \<Rightarrow> bool" where
  "substituteTwice resolved =
     list_ex (\<lambda>(i, r). rs_substitution r \<noteq> None \<and>
       list_ex (\<lambda>(j, other). i \<noteq> j \<and> rs_personId other = rs_personId r) (enumerate 0 resolved))
     (enumerate 0 resolved)"

definition resolveSigners ::
  "signerSpec list \<Rightarrow> documentRequestPayload \<Rightarrow> string list \<Rightarrow> resolvedSigner list res" where
  "resolveSigners specs payload ineligibleRoles =
     rbind (normalizeSubstitutions (dp_signerSubstitutions payload)) (\<lambda>substitutions.
     (let designated = designatedSigners specs payload;
          conflicted = map fst (conflictsOf designated)
      in rbind (foldM (checkSubstitution designated conflicted ineligibleRoles) () substitutions) (\<lambda>_.
         (let resolved = map (resolveOne substitutions) designated in
          if substituteTwice resolved then invalidSubstitute
          else if conflictsOf (map (\<lambda>r. (rs_spec r, rs_personId r)) resolved) \<noteq> []
          then throw DocumentSignerDuplicated
          else Inr resolved))))"

section \<open>Holders of a signing permission\<close>

definition activeHolder :: "db \<Rightarrow> string \<Rightarrow> string \<Rightarrow> bool" where
  "activeHolder db permission personId =
     list_ex (\<lambda>u. u_personId u = Some personId \<and> u_status u = UActive \<and>
       list_ex (\<lambda>v. up_userId v = u_id u \<and> up_permissionCode v = permission) (db_userPermissions db))
     (db_users db)"

text \<open>\<open>holders\<close>: the active persons with an active user that holds the permission.\<close>

definition holders :: "db \<Rightarrow> string \<Rightarrow> string list" where
  "holders db permission =
     uniq (map pe_id (filter (\<lambda>p. pe_isActive p \<and> activeHolder db permission (pe_id p)) (db_persons db)))"

definition controlSignersAmong :: "db \<Rightarrow> string list \<Rightarrow> string list" where
  "controlSignersAmong db personIds =
     (let ids = uniq personIds in
      if ids = [] then []
      else filter (\<lambda>k. list_ex (\<lambda>p. pe_id p = k \<and> pe_isActive p) (db_persons db) \<and>
             activeHolder db CONTROL_SIGNER_PERMISSION k) ids)"

text \<open>\<open>signersFor\<close> of the engine: the signers of an act, or the reason it cannot be issued.\<close>

definition signersFor ::
  "db \<Rightarrow> documentFormat \<Rightarrow> documentRequestPayload \<Rightarrow> string option \<Rightarrow> resolvedSigner list res" where
  "signersFor db format payload actorId =
     (let designated = filter (\<lambda>s. requiresControlSigner (sn_role (fst s)) \<and> \<not> falsy (snd s))
            (designatedSigners (df_signers format) payload)
      in rbind (normalizeSubstitutions (dp_signerSubstitutions payload)) (\<lambda>subs.
         (let substituteIds = map (ss_personId \<circ> snd) subs;
              allowed = controlSignersAmong db (map (the \<circ> snd) designated @ substituteIds);
              ineligible = filter (\<lambda>s. the (snd s) \<notin> set allowed) designated
          in rbind (resolveSigners (df_signers format) payload (map (sn_role \<circ> fst) ineligible)) (\<lambda>resolved.
             (let substitutes = filter (\<lambda>r. rs_substitution r \<noteq> None) resolved;
                  unresolved = filter (\<lambda>s. \<not> list_ex (\<lambda>r. sn_role (rs_spec r) = sn_role (fst s)) substitutes)
                    ineligible
              in if unresolved \<noteq> [] then throw DocumentSignerNotEligible
                 else if substitutes = [] then Inr resolved
                 else if falsy actorId then invalidSubstitute
                 else if list_ex (\<lambda>r. case rs_personId r of None \<Rightarrow> True | Some p \<Rightarrow> p \<notin> set allowed) substitutes
                 then invalidSubstitute
                 else Inr resolved)))))"

section \<open>Lemmas on the resolution\<close>

lemma conflictsOf_Nil:
  "conflictsOf signers = [] \<longleftrightarrow> (\<forall>p. p \<noteq> [] \<longrightarrow> length (filter (\<lambda>s. snd s = Some p) signers) \<le> 1)"
proof
  assume none: "conflictsOf signers = []"
  show "\<forall>p. p \<noteq> [] \<longrightarrow> length (filter (\<lambda>s. snd s = Some p) signers) \<le> 1"
  proof (intro allI impI)
    fix p :: string assume p: "p \<noteq> []"
    show "length (filter (\<lambda>s. snd s = Some p) signers) \<le> 1"
    proof (cases "Some p \<in> snd ` set signers")
      case True
      then obtain s where s: "s \<in> set signers" "snd s = Some p" by auto
      then have "p \<in> set (uniq (map (the \<circ> snd) (filter (\<lambda>s. \<not> falsy (snd s)) signers)))"
        using p by (auto intro!: image_eqI [of _ _ s])
      then have "(p, map fst (filter (\<lambda>s. snd s = Some p) signers)) \<in>
          set (map (\<lambda>p. (p, map fst (filter (\<lambda>s. snd s = Some p) signers)))
            (uniq (map (the \<circ> snd) (filter (\<lambda>s. \<not> falsy (snd s)) signers))))"
        unfolding set_map by (rule imageI)
      then show ?thesis using none unfolding conflictsOf_def filter_empty_conv
        by (metis (no_types, lifting) case_prodI length_map not_less)
    next
      case False
      then have "filter (\<lambda>s. snd s = Some p) signers = []" by (auto simp: filter_empty_conv image_iff)
      then show ?thesis by simp
    qed
  qed
next
  assume few: "\<forall>p. p \<noteq> [] \<longrightarrow> length (filter (\<lambda>s. snd s = Some p) signers) \<le> 1"
  have "length (filter (\<lambda>s. snd s = Some (the v)) signers) \<le> 1" if "\<not> falsy v" for v
    using few that by (cases v) auto
  then show "conflictsOf signers = []"
    by (auto simp: conflictsOf_def filter_empty_conv not_less)
qed

lemma foldM_all:
  assumes "foldM f u xs = Inr v" "x \<in> set xs"
  shows "\<exists>a b. f a x = Inr b"
  using assms by (induction xs arbitrary: u) (auto simp: res_simps)

lemma normalized_reason:
  assumes "normalizeSubstitutions raw = Inr subs" "(role, sub) \<in> set subs"
  shows "3 \<le> length (ss_reason sub) \<and> length (ss_reason sub) \<le> 500 \<and> isUuid (ss_personId sub) \<and> isRole role"
proof -
  let ?ok = "\<lambda>(role, sub). 3 \<le> length (ss_reason sub) \<and> length (ss_reason sub) \<le> 500 \<and>
      isUuid (ss_personId sub) \<and> isRole role"
  have one: "\<forall>e\<in>set r'. ?ok e" if "normalizeEntry r e = Inr r'" "\<forall>e\<in>set r. ?ok e" for r e r'
    using that by (auto simp: normalizeEntry_def Let_def SUBSTITUTION_REASON_MIN_def
        SUBSTITUTION_REASON_MAX_def split: if_splits json.splits option.splits)
  have "\<forall>e\<in>set subs. ?ok e"
  proof (cases "\<exists>es. raw = Some (JObj es)")
    case True
    then obtain es where "foldM normalizeEntry [] es = Inr subs"
      using assms(1) by (auto simp: normalizeSubstitutions_def)
    then show ?thesis by (rule foldM_invariant) (use one in auto)
  next
    case False
    then have "subs = []" using assms(1)
      by (auto simp: normalizeSubstitutions_def split: option.splits json.splits)
    then show ?thesis by simp
  qed
  then show ?thesis using assms(2) by auto
qed

lemma designated_spec [simp]: "map fst (designatedSigners specs payload) = specs"
  by (simp add: designatedSigners_def comp_def)

lemma resolveOne_spec [simp]: "rs_spec (resolveOne subs s) = fst s"
  by (simp add: resolveOne_def split: option.split)

lemma resolveOne_kept:
  "rs_substitution (resolveOne subs s) = None \<Longrightarrow> (rs_spec (resolveOne subs s), rs_personId (resolveOne subs s)) = s"
  by (cases s) (auto simp: resolveOne_def split: option.splits if_splits)

lemma resolveSigners_Inr:
  assumes "resolveSigners specs payload inel = Inr resolved"
  shows "\<exists>subs. normalizeSubstitutions (dp_signerSubstitutions payload) = Inr subs \<and>
    resolved = map (resolveOne subs) (designatedSigners specs payload) \<and>
    (\<forall>e\<in>set subs. checkSubstitution (designatedSigners specs payload)
       (map fst (conflictsOf (designatedSigners specs payload))) inel () e = Inr ()) \<and>
    conflictsOf (map (\<lambda>r. (rs_spec r, rs_personId r)) resolved) = []"
proof -
  let ?d = "designatedSigners specs payload"
  let ?check = "checkSubstitution ?d (map fst (conflictsOf ?d)) inel"
  obtain subs v where subs: "normalizeSubstitutions (dp_signerSubstitutions payload) = Inr subs"
    and checked: "foldM ?check () subs = Inr v"
    and rest: "(let resolved = map (resolveOne subs) ?d in
          if substituteTwice resolved then invalidSubstitute
          else if conflictsOf (map (\<lambda>r. (rs_spec r, rs_personId r)) resolved) \<noteq> []
          then throw DocumentSignerDuplicated else Inr resolved) = Inr resolved"
    using assms unfolding resolveSigners_def Let_def by (auto simp: res_simps)
  have "?check () e = Inr ()" if "e \<in> set subs" for e
    using foldM_all [OF checked that] by (metis (full_types) old.unit.exhaust)
  then show ?thesis using subs rest by (auto simp: Let_def split: if_splits)
qed

lemma find_by_role:
  assumes "distinct (map sn_role specs)" "s \<in> set (designatedSigners specs payload)"
  shows "List.find (\<lambda>t. sn_role (fst t) = sn_role (fst s)) (designatedSigners specs payload) = Some s"
proof -
  have "map (sn_role \<circ> fst) (designatedSigners specs payload) = map sn_role specs"
    by (simp add: designatedSigners_def comp_def)
  then have "distinct (map (sn_role \<circ> fst) (designatedSigners specs payload))" using assms(1) by simp
  from find_key_unique [OF this assms(2)] show ?thesis by (simp add: comp_def)
qed

lemma resolved_one:
  assumes "resolveSigners specs payload inel = Inr resolved" "distinct (map sn_role specs)"
    and "r \<in> set resolved" "rs_substitution r = Some (p, reason)"
  shows "sn_role (rs_spec r) \<in> set SUBSTITUTABLE_ROLES \<and> rs_personId r \<noteq> Some p \<and>
    (rs_spec r, Some p) \<in> set (designatedSigners specs payload) \<and>
    3 \<le> length reason \<and> length reason \<le> 500"
proof -
  obtain subs where subs: "normalizeSubstitutions (dp_signerSubstitutions payload) = Inr subs"
      "resolved = map (resolveOne subs) (designatedSigners specs payload)"
    and check: "\<forall>e\<in>set subs. checkSubstitution (designatedSigners specs payload)
       (map fst (conflictsOf (designatedSigners specs payload))) inel () e = Inr ()"
    using resolveSigners_Inr [OF assms(1)] by blast
  obtain s where s: "s \<in> set (designatedSigners specs payload)" "r = resolveOne subs s"
    using assms(3) subs(2) by auto
  obtain sub where sub: "map_of subs (sn_role (fst s)) = Some sub" "snd s = Some p" "p \<noteq> []"
      "rs_personId r = Some (ss_personId sub)" "reason = ss_reason sub"
    using assms(4) s(2)
    by (cases "snd s") (auto simp: resolveOne_def split: option.splits if_splits)
  have mem: "(sn_role (fst s), sub) \<in> set subs" using sub(1) by (rule map_of_SomeD)
  have "checkSubstitution (designatedSigners specs payload)
       (map fst (conflictsOf (designatedSigners specs payload))) inel () (sn_role (fst s), sub) = Inr ()"
    by (rule bspec [OF check mem])
  then have "sn_role (fst s) \<in> set SUBSTITUTABLE_ROLES" "Some (ss_personId sub) \<noteq> snd s"
    using find_by_role [OF assms(2) s(1)] by (auto simp: checkSubstitution_def split: if_splits)
  moreover have "(fst s, Some p) \<in> set (designatedSigners specs payload)"
    using s(1) sub(2) by (metis prod.collapse)
  ultimately show ?thesis
    using sub s(2) normalized_reason [OF subs(1) mem] by simp
qed

definition controlTurns :: "documentFormat \<Rightarrow> documentRequestPayload \<Rightarrow> (signerSpec \<times> string option) list" where
  "controlTurns format payload =
     filter (\<lambda>s. requiresControlSigner (sn_role (fst s)) \<and> \<not> falsy (snd s))
       (designatedSigners (df_signers format) payload)"

text \<open>What an accepted list of signers satisfies, given the persons allowed to sign.\<close>

definition coveredTurns ::
  "string list \<Rightarrow> documentFormat \<Rightarrow> documentRequestPayload \<Rightarrow> resolvedSigner list \<Rightarrow> bool" where
  "coveredTurns allowed format payload resolved =
     (\<forall>s\<in>set (controlTurns format payload). the (snd s) \<notin> set allowed \<longrightarrow>
        (\<exists>r\<in>set resolved. rs_substitution r \<noteq> None \<and> sn_role (rs_spec r) = sn_role (fst s)))"

definition ableSubstitutes :: "string list \<Rightarrow> string option \<Rightarrow> resolvedSigner list \<Rightarrow> bool" where
  "ableSubstitutes allowed actor resolved =
     (\<forall>r\<in>set resolved. rs_substitution r \<noteq> None \<longrightarrow> \<not> falsy actor \<and>
        (\<exists>p. rs_personId r = Some p \<and> p \<in> set allowed))"

lemma signersFor_Inr:
  assumes "signersFor db format payload actor = Inr resolved"
  shows "\<exists>ids inel. resolveSigners (df_signers format) payload inel = Inr resolved \<and>
    coveredTurns (controlSignersAmong db ids) format payload resolved \<and>
    ableSubstitutes (controlSignersAmong db ids) actor resolved"
proof -
  let ?d = "controlTurns format payload"
  obtain subs where subs: "normalizeSubstitutions (dp_signerSubstitutions payload) = Inr subs"
    using assms by (auto simp: signersFor_def Let_def res_simps)
  define ids where "ids = map (the \<circ> snd) ?d @ map (ss_personId \<circ> snd) subs"
  define allowed where "allowed = controlSignersAmong db ids"
  define ineligible where "ineligible = filter (\<lambda>s. the (snd s) \<notin> set allowed) ?d"
  obtain rs where rs: "resolveSigners (df_signers format) payload (map (sn_role \<circ> fst) ineligible) = Inr rs"
    and rest: "(let substitutes = filter (\<lambda>r. rs_substitution r \<noteq> None) rs;
                  unresolved = filter (\<lambda>s. \<not> list_ex (\<lambda>r. sn_role (rs_spec r) = sn_role (fst s)) substitutes)
                    ineligible
              in if unresolved \<noteq> [] then throw DocumentSignerNotEligible
                 else if substitutes = [] then Inr rs
                 else if falsy actor then invalidSubstitute
                 else if list_ex (\<lambda>r. case rs_personId r of None \<Rightarrow> True | Some p \<Rightarrow> p \<notin> set allowed) substitutes
                 then invalidSubstitute
                 else Inr rs) = Inr resolved"
    using assms subs unfolding signersFor_def Let_def allowed_def ineligible_def ids_def controlTurns_def
    by (auto simp: rbind_eq_Inr simp del: filter_filter)
  have same: "rs = resolved" using rest by (auto simp: Let_def split: if_splits)
  have covered: "\<exists>r\<in>set rs. rs_substitution r \<noteq> None \<and> sn_role (rs_spec r) = sn_role (fst s)"
    if "s \<in> set ineligible" for s
    using rest that by (fastforce simp: Let_def filter_empty_conv list_ex_iff split: if_splits)
  have able: "\<not> falsy actor \<and> (\<exists>p. rs_personId r = Some p \<and> p \<in> set allowed)"
    if "r \<in> set rs" "rs_substitution r \<noteq> None" for r
    using rest that
    by (auto simp: Let_def filter_empty_conv list_ex_iff split: if_splits option.splits)
  have "coveredTurns allowed format payload resolved"
    unfolding coveredTurns_def using covered by (auto simp: ineligible_def same)
  moreover have "ableSubstitutes allowed actor resolved"
    unfolding ableSubstitutes_def using able same by blast
  ultimately show ?thesis using rs same allowed_def by blast
qed

lemma controlSignersAmong_holds:
  assumes "p \<in> set (controlSignersAmong db ids)"
  shows "activeHolder db CONTROL_SIGNER_PERMISSION p \<and> (\<exists>q\<in>set (db_persons db). pe_id q = p \<and> pe_isActive q)"
  using assms by (auto simp: controlSignersAmong_def Let_def list_ex_iff split: if_splits)

section \<open>Properties\<close>

text \<open>
  C33. When the signers of an act are resolved, every turn of the format is there, in order, and no
  person signs two of them; a turn without a substitution keeps the person it was designated, and a
  substitution is only ever of a Control Interno turn, by somebody else than the person replaced,
  with a reason of 3 to 500 characters.
\<close>

theorem resolveSigners_separates:
  assumes "resolveSigners specs payload ineligible = Inr resolved" "distinct (map sn_role specs)"
  shows "map rs_spec resolved = specs \<and>
    (\<forall>p. p \<noteq> [] \<longrightarrow> length (filter (\<lambda>r. rs_personId r = Some p) resolved) \<le> 1) \<and>
    (\<forall>r\<in>set resolved. case rs_substitution r of
        None \<Rightarrow> (rs_spec r, rs_personId r) \<in> set (designatedSigners specs payload)
      | Some (replaced, reason) \<Rightarrow> sn_role (rs_spec r) \<in> {''AUDITA'', ''CONTROL_INTERNO''} \<and>
          (rs_spec r, Some replaced) \<in> set (designatedSigners specs payload) \<and>
          rs_personId r \<noteq> Some replaced \<and> 3 \<le> length reason \<and> length reason \<le> 500)"
proof -
  obtain subs where subs: "resolved = map (resolveOne subs) (designatedSigners specs payload)"
      "conflictsOf (map (\<lambda>r. (rs_spec r, rs_personId r)) resolved) = []"
    using resolveSigners_Inr [OF assms(1)] by blast
  have specs: "map rs_spec resolved = specs"
    using subs(1) by (simp add: comp_def)
  have once: "length (filter (\<lambda>r. rs_personId r = Some p) resolved) \<le> 1" if "p \<noteq> []" for p
    using subs(2) that unfolding conflictsOf_Nil by (simp add: filter_map comp_def)
  have "case rs_substitution r of
        None \<Rightarrow> (rs_spec r, rs_personId r) \<in> set (designatedSigners specs payload)
      | Some (replaced, reason) \<Rightarrow> sn_role (rs_spec r) \<in> {''AUDITA'', ''CONTROL_INTERNO''} \<and>
          (rs_spec r, Some replaced) \<in> set (designatedSigners specs payload) \<and>
          rs_personId r \<noteq> Some replaced \<and> 3 \<le> length reason \<and> length reason \<le> 500"
    if r: "r \<in> set resolved" for r
  proof (cases "rs_substitution r")
    case None
    obtain s where "s \<in> set (designatedSigners specs payload)" "r = resolveOne subs s"
      using r subs(1) by auto
    then show ?thesis using None by (auto simp: resolveOne_def split: option.splits if_splits)
  next
    case (Some pr)
    then obtain p reason where "rs_substitution r = Some (p, reason)" by (cases pr) auto
    from resolved_one [OF assms r this] this show ?thesis
      by (simp add: SUBSTITUTABLE_ROLES_def MFA_REQUIRED_ROLES_def)
  qed
  then show ?thesis using specs once by blast
qed

text \<open>
  Whoever signs a Control Interno turn of an accepted act, designated or substitute, is an active
  person with an active user that holds the permission to sign for Control Interno; and an act with
  a substitution is only accepted from a signed-in user.
\<close>

theorem control_turns_are_authorised:
  assumes "signersFor db format payload actor = Inr resolved" "distinct (map sn_role (df_signers format))"
    and "r \<in> set resolved" "requiresControlSigner (sn_role (rs_spec r))" "rs_personId r = Some p" "p \<noteq> []"
  shows "activeHolder db CONTROL_SIGNER_PERMISSION p \<and>
    (\<exists>q\<in>set (db_persons db). pe_id q = p \<and> pe_isActive q) \<and>
    (rs_substitution r \<noteq> None \<longrightarrow> \<not> falsy actor)"
proof -
  obtain ids inel where run: "resolveSigners (df_signers format) payload inel = Inr resolved"
    and covered: "coveredTurns (controlSignersAmong db ids) format payload resolved"
    and able: "ableSubstitutes (controlSignersAmong db ids) actor resolved"
    using signersFor_Inr [OF assms(1)] by blast
  obtain subs' where sep: "resolved = map (resolveOne subs') (designatedSigners (df_signers format) payload)"
    using resolveSigners_Inr [OF run] by blast
  have roles: "map rs_spec resolved = df_signers format" using sep by (simp add: comp_def)
  have allowed: "p \<in> set (controlSignersAmong db ids)"
  proof (cases "rs_substitution r")
    case None
    obtain s where "s \<in> set (designatedSigners (df_signers format) payload)" "r = resolveOne subs' s"
      using assms(3) sep by auto
    then have mem: "(rs_spec r, Some p) \<in> set (designatedSigners (df_signers format) payload)"
      using None assms(5) resolveOne_kept by metis
    show ?thesis
    proof (rule ccontr)
      assume notAllowed: "p \<notin> set (controlSignersAmong db ids)"
      have "(rs_spec r, Some p) \<in> set (controlTurns format payload)"
        using mem assms(4,6) by (simp add: controlTurns_def)
      then obtain r' where r': "r' \<in> set resolved" "rs_substitution r' \<noteq> None"
          "sn_role (rs_spec r') = sn_role (rs_spec r)"
        using covered notAllowed unfolding coveredTurns_def by (metis fst_conv option.sel snd_conv)
      have "distinct (map (sn_role \<circ> rs_spec) resolved)"
        using assms(2) roles by (metis list.map_comp)
      then have "r' = r" using r'(1,3) assms(3) by (simp add: distinct_map inj_on_def)
      then show False using r'(2) None by simp
    qed
  next
    case (Some pr)
    then show ?thesis using able assms(3,5) by (auto simp: ableSubstitutes_def)
  qed
  have "rs_substitution r \<noteq> None \<longrightarrow> \<not> falsy actor"
    using able assms(3) by (auto simp: ableSubstitutes_def)
  then show ?thesis using controlSignersAmong_holds [OF allowed] by simp
qed

section \<open>Witnesses\<close>

definition sampleSpecs :: "signerSpec list" where
  "sampleSpecs = [\<lparr>sn_order = 1, sn_role = ''ENTREGA'', sn_label = ''Entrega'', sn_source = FromRequest\<rparr>,
     \<lparr>sn_order = 2, sn_role = ''RECIBE'', sn_label = ''Recibe'', sn_source = FromResponsible\<rparr>,
     \<lparr>sn_order = 3, sn_role = ''CONTROL_INTERNO'', sn_label = ''Control'', sn_source = FromRequest\<rparr>]"

definition sampleFormat :: documentFormat where
  "sampleFormat = \<lparr>df_key = ''OCI-17-89'', df_versionId = ''v1'', df_versionNumber = 1,
     df_effectiveFrom = None, df_sgcCode = Some ''X'', df_width = 4, df_perYear = True,
     df_lastIssued = 0, df_lastIssuedPeriod = None, df_name = ''n'', df_generatePermission = ''documents:generate'',
     df_signers = sampleSpecs\<rparr>"

definition samplePayload :: documentRequestPayload where
  "samplePayload = \<lparr>dp_formatKey = ''OCI-17-89'', dp_entityType = None, dp_entityId = None,
     dp_costCenterId = None, dp_responsiblePersonId = Some ''p2'', dp_assetIds = [],
     dp_movementIds = [], dp_signers = [(''ENTREGA'', ''p1''), (''CONTROL_INTERNO'', ''p3'')],
     dp_signerSubstitutions = None, dp_tables = None\<rparr>"

definition signersDb :: db where
  "signersDb = emptyDb\<lparr>db_persons := [\<lparr>pe_id = ''p3'', pe_isActive = True, pe_costCenterId = None,
       pe_email = None, pe_documentNumber = None, pe_firstName = ''A'', pe_lastName = ''B''\<rparr>],
     db_users := [\<lparr>u_id = ''u3'', u_personId = Some ''p3'', u_status = UActive,
       u_mfaEnabled = True\<rparr>],
     db_userPermissions := [\<lparr>up_userId = ''u3'', up_permissionCode = CONTROL_SIGNER_PERMISSION\<rparr>]\<rparr>"

definition sampleResolved :: "resolvedSigner list" where
  "sampleResolved = map (\<lambda>(s, p). \<lparr>rs_spec = s, rs_personId = Some p, rs_substitution = None\<rparr>)
     (zip sampleSpecs [''p1'', ''p2'', ''p3''])"

lemmas signers_eval = sampleSpecs_def samplePayload_def sampleResolved_def designatedSigners_def
  resolveSigners_def normalizeSubstitutions_def conflictsOf_def resolveOne_def substituteTwice_def
  uniq_def

lemma sample_resolves: "resolveSigners sampleSpecs samplePayload [] = Inr sampleResolved"
  by (simp add: signers_eval)

lemma sample_signersFor: "signersFor signersDb sampleFormat samplePayload None = Inr sampleResolved"
proof -
  have "controlSignersAmong signersDb [''p3''] = [''p3'']"
    by (simp add: controlSignersAmong_def signersDb_def emptyDb_def activeHolder_def uniq_def)
  then show ?thesis using sample_resolves
    by (simp add: signersFor_def sampleFormat_def requiresControlSigner_def CONTROL_SIGNER_ROLES_def
        SUBSTITUTABLE_ROLES_def MFA_REQUIRED_ROLES_def Let_def)
      (simp add: signers_eval)
qed

theorem resolveSigners_separates_witness:
  "map rs_spec sampleResolved = sampleSpecs \<and>
     length (filter (\<lambda>r. rs_personId r = Some ''p3'') sampleResolved) \<le> 1"
  using resolveSigners_separates [OF sample_resolves] by (simp add: sampleSpecs_def)

theorem control_turns_are_authorised_witness:
  "activeHolder signersDb CONTROL_SIGNER_PERMISSION ''p3''"
  using control_turns_are_authorised [OF sample_signersFor, of "sampleResolved ! 2" "''p3''"]
  by (simp add: sampleFormat_def sampleResolved_def sampleSpecs_def requiresControlSigner_def
      CONTROL_SIGNER_ROLES_def SUBSTITUTABLE_ROLES_def MFA_REQUIRED_ROLES_def)

end
