(* ===== verification/StorageKeys.thy ===== *)
theory StorageKeys
  imports CalendarDates
begin

text \<open>
  The names of the files the backend stores: \<open>assertSafeStorageKey\<close> of
  src/src/shared/storage/storage-key.ts and the builders of src/src/shared/storage/storage-keys.ts.

  A key is later joined to the root directory of the storage, so it must never climb out of it. The
  lemmas show what the check lets through, that every key a builder returns passes it whatever text
  the caller supplied, and that the files of one signature envelope never share a name.
\<close>

section \<open>The check\<close>

definition MAX_STORAGE_KEY_LENGTH :: nat where
  "MAX_STORAGE_KEY_LENGTH = 1024"

text \<open>Control characters, DEL and the backslash: \<open>/[\u0000-\u001f\u007f\\]/\<close>.\<close>

definition forbiddenChar :: "char \<Rightarrow> bool" where
  "forbiddenChar c = ((of_char c :: nat) < 32 \<or> (of_char c :: nat) = 127 \<or> c = CHR 0x5C)"

definition isLetter :: "char \<Rightarrow> bool" where
  "isLetter c = (CHR ''A'' \<le> c \<and> c \<le> CHR ''Z'' \<or> CHR ''a'' \<le> c \<and> c \<le> CHR ''z'')"

definition driveLetter :: "string \<Rightarrow> bool" where
  "driveLetter s = (case s of c # d # _ \<Rightarrow> isLetter c \<and> d = CHR '':'' | _ \<Rightarrow> False)"

definition assertSafeStorageKey :: "string \<Rightarrow> string res" where
  "assertSafeStorageKey key =
     (if key = [] \<or> MAX_STORAGE_KEY_LENGTH < length key \<or> list_ex forbiddenChar key \<or>
         startsWith key ''/'' \<or> driveLetter key
      then throw StorageKeyInvalid
      else if list_ex (\<lambda>segment. segment = [] \<or> segment = ''.'' \<or> segment = ''..'')
                (splitOn CHR ''/'' key)
      then throw StorageKeyInvalid
      else Inr key)"

section \<open>The builders\<close>

definition alnum :: "char \<Rightarrow> bool" where
  "alnum c = (isLetter c \<or> isDigit c)"

definition segmentChar :: "char \<Rightarrow> bool" where
  "segmentChar c = (alnum c \<or> c \<in> set ''._-'')"

text \<open>\<open>/^[A-Za-z0-9][A-Za-z0-9._-]{0,119}$/\<close>\<close>

definition SAFE_SEGMENT :: "string \<Rightarrow> bool" where
  "SAFE_SEGMENT s = (s \<noteq> [] \<and> length s \<le> 120 \<and> alnum (hd s) \<and> list_all segmentChar (tl s))"

definition hexLower :: "char \<Rightarrow> bool" where
  "hexLower c = (isDigit c \<or> c \<in> set ''abcdef'')"

definition KEY_UUID :: "string \<Rightarrow> bool" where
  "KEY_UUID s = (length s = 36 \<and>
     list_all (\<lambda>(i, c). if i \<in> {8, 13, 18, 23} then c = CHR ''-'' else hexLower c) (zip [0..<36] s))"

definition YEAR :: "string \<Rightarrow> bool" where
  "YEAR s = (length s = 4 \<and> list_all isDigit s)"

definition VERIFICATION_CODE :: "string \<Rightarrow> bool" where
  "VERIFICATION_CODE s = (8 \<le> length s \<and> length s \<le> 64 \<and>
     list_all (\<lambda>c. alnum c \<or> c = CHR ''_'' \<or> c = CHR ''-'') s)"

definition HEX :: "string \<Rightarrow> bool" where
  "HEX s = (s \<noteq> [] \<and> list_all hexLower s)"

definition checked :: "string \<Rightarrow> (string \<Rightarrow> bool) \<Rightarrow> string res" where
  "checked v pattern = (if \<not> pattern v \<or> includesText v ''..'' then throw StorageKeyInvalid else Inr v)"

definition positiveInt :: "int \<Rightarrow> int res" where
  "positiveInt v = (if v < 0 \<or> 2 ^ 53 - 1 < v then throw StorageKeyInvalid else Inr v)"

text \<open>
  The steps of \<open>safeKeySegment\<close>: every run of other characters becomes one dash, every run of two
  or more dots one dot, the leading separators go, at most 100 characters stay, and the trailing
  dashes and dots go. \<open>nfkd\<close> is \<open>String.prototype.normalize\<close> and \<open>sha256\<close> the hash of
  \<open>node:crypto\<close> in hexadecimal.
\<close>

fun dashRuns :: "bool \<Rightarrow> string \<Rightarrow> string" where
  "dashRuns inside [] = []"
| "dashRuns inside (c # cs) =
     (if segmentChar c then c # dashRuns False cs
      else if inside then dashRuns True cs
      else CHR ''-'' # dashRuns True cs)"

fun dotRuns :: "string \<Rightarrow> string" where
  "dotRuns [] = []"
| "dotRuns (c # cs) =
     (if c = CHR ''.'' \<and> cs \<noteq> [] \<and> hd cs = CHR ''.'' then dotRuns cs else c # dotRuns cs)"

definition dropTrailing :: "(char \<Rightarrow> bool) \<Rightarrow> string \<Rightarrow> string" where
  "dropTrailing p s = rev (dropWhile p (rev s))"

definition safeKeySegment :: "(string \<Rightarrow> string) \<Rightarrow> (string \<Rightarrow> string) \<Rightarrow> string \<Rightarrow> string" where
  "safeKeySegment nfkd sha256 raw =
     (if SAFE_SEGMENT raw \<and> \<not> includesText raw ''..'' then raw
      else
        (let cleaned = dropTrailing (\<lambda>c. c \<in> set ''-.'')
               (take 100 (dropWhile (\<lambda>c. \<not> alnum c) (dotRuns (dashRuns False (nfkd raw)))));
             suffix = take 8 (sha256 raw)
         in if cleaned \<noteq> [] then cleaned @ ''-'' @ suffix else suffix))"

text \<open>The year of an instant in \<open>America/Bogota\<close>, five hours behind UTC.\<close>

definition storageYear :: "int \<Rightarrow> string res" where
  "storageYear instant =
     checked (showInt (cd_year (civilDate ((instant - 18000000) div 86400000)))) YEAR"

definition documentFileKey ::
  "(string \<Rightarrow> string) \<Rightarrow> (string \<Rightarrow> string) \<Rightarrow> int \<Rightarrow> string \<Rightarrow> string \<Rightarrow> string \<Rightarrow> int option \<Rightarrow> string res" where
  "documentFileKey nfkd sha256 createdAt formatKey number extension revision =
     rbind (case revision of None \<Rightarrow> Inr [] | Some r \<Rightarrow> rbind (positiveInt r) (\<lambda>n. Inr (''-r'' @ showInt n)))
       (\<lambda>rev_text. rbind (storageYear createdAt) (\<lambda>year.
        assertSafeStorageKey (''documents/'' @ year @ ''/'' @ safeKeySegment nfkd sha256 formatKey @ ''/'' @
          safeKeySegment nfkd sha256 number @ rev_text @ ''.'' @ extension)))"

definition signedDocumentKey ::
  "(string \<Rightarrow> string) \<Rightarrow> (string \<Rightarrow> string) \<Rightarrow> int \<Rightarrow> string \<Rightarrow> string \<Rightarrow> string res" where
  "signedDocumentKey nfkd sha256 createdAt formatKey number =
     rbind (storageYear createdAt) (\<lambda>year.
       assertSafeStorageKey (''documents/'' @ year @ ''/'' @ safeKeySegment nfkd sha256 formatKey @ ''/'' @
         safeKeySegment nfkd sha256 number @ ''-firmado.pdf''))"

definition signatureFolder :: "int \<Rightarrow> string \<Rightarrow> string \<Rightarrow> string res" where
  "signatureFolder createdAt documentId verificationCode =
     rbind (storageYear createdAt) (\<lambda>year.
     rbind (checked documentId KEY_UUID) (\<lambda>doc.
     rbind (checked verificationCode VERIFICATION_CODE) (\<lambda>code.
       Inr (''signatures/'' @ year @ ''/'' @ doc @ ''/'' @ code))))"

definition signaturePreparedPdfKey :: "int \<Rightarrow> string \<Rightarrow> string \<Rightarrow> string option \<Rightarrow> string res" where
  "signaturePreparedPdfKey createdAt documentId verificationCode prefix =
     rbind (case prefix of None \<Rightarrow> Inr [] | Some h \<Rightarrow> rbind (checked h HEX) (\<lambda>x. Inr (''-'' @ take 12 x)))
       (\<lambda>suffix. rbind (signatureFolder createdAt documentId verificationCode) (\<lambda>folder.
        assertSafeStorageKey (folder @ ''/v0'' @ suffix @ ''.pdf'')))"

definition signatureRubricKey :: "int \<Rightarrow> string \<Rightarrow> string \<Rightarrow> int \<Rightarrow> string res" where
  "signatureRubricKey createdAt documentId verificationCode order =
     rbind (signatureFolder createdAt documentId verificationCode) (\<lambda>folder.
     rbind (positiveInt order) (\<lambda>n. assertSafeStorageKey (folder @ ''/rubrica-'' @ showInt n @ ''.png'')))"

definition signatureStampedPdfKey :: "int \<Rightarrow> string \<Rightarrow> string \<Rightarrow> int \<Rightarrow> string res" where
  "signatureStampedPdfKey createdAt documentId verificationCode order =
     rbind (signatureFolder createdAt documentId verificationCode) (\<lambda>folder.
     rbind (positiveInt order) (\<lambda>n. assertSafeStorageKey (folder @ ''/v'' @ showInt n @ ''.pdf'')))"

section \<open>Keys stay inside the root\<close>

text \<open>
  How \<open>path.resolve(root, key)\<close> reads the segments of a relative path on POSIX: empty and
  dot segments are skipped, a double dot removes the last directory.
\<close>

fun resolveSegments :: "string list \<Rightarrow> string list \<Rightarrow> string list" where
  "resolveSegments dir [] = dir"
| "resolveSegments dir (s # ss) =
     (if s = [] \<or> s = ''.'' then resolveSegments dir ss
      else if s = ''..'' then resolveSegments (butlast dir) ss
      else resolveSegments (dir @ [s]) ss)"

lemma resolveSegments_plain:
  "list_all (\<lambda>s. s \<noteq> [] \<and> s \<noteq> ''.'' \<and> s \<noteq> ''..'') ss \<Longrightarrow> resolveSegments dir ss = dir @ ss"
  by (induction ss arbitrary: dir) auto

lemma assertSafe_Inr:
  "assertSafeStorageKey key = Inr k \<longleftrightarrow> k = key \<and> key \<noteq> [] \<and> length key \<le> 1024 \<and>
     \<not> list_ex forbiddenChar key \<and> \<not> startsWith key ''/'' \<and> \<not> driveLetter key \<and>
     list_all (\<lambda>s. s \<noteq> [] \<and> s \<noteq> ''.'' \<and> s \<noteq> ''..'') (splitOn CHR ''/'' key)"
  by (auto simp: assertSafeStorageKey_def MAX_STORAGE_KEY_LENGTH_def list_ex_iff list_all_iff)

section \<open>Segments\<close>

text \<open>A double dot, read from left to right.\<close>

fun doubleDot :: "string \<Rightarrow> bool" where
  "doubleDot (c # d # s) = (c = CHR ''.'' \<and> d = CHR ''.'' \<or> doubleDot (d # s))"
| "doubleDot _ = False"

lemma includes_doubleDot: "includesText s ''..'' = doubleDot s"
  by (induction s rule: doubleDot.induct) (auto simp: startsWith_def)

lemma doubleDot_append_left: "doubleDot a \<Longrightarrow> doubleDot (a @ b)"
  by (induction a rule: doubleDot.induct) auto

lemma doubleDot_append_right: "doubleDot b \<Longrightarrow> doubleDot (a @ b)"
proof (induction a)
  case (Cons c a)
  then show ?case by (cases "a @ b") auto
qed simp

lemma doubleDot_take: "doubleDot (take n s) \<Longrightarrow> doubleDot s"
  using doubleDot_append_left [of "take n s" "drop n s"] by simp

lemma doubleDot_dropWhile: "doubleDot (dropWhile p s) \<Longrightarrow> doubleDot s"
  using doubleDot_append_right [of "dropWhile p s" "takeWhile p s"] by simp

lemma dropTrailing_prefix: "\<exists>t. s = dropTrailing p s @ t"
proof -
  have "rev s = takeWhile p (rev s) @ dropWhile p (rev s)" by simp
  then have "s = rev (dropWhile p (rev s)) @ rev (takeWhile p (rev s))"
    by (metis rev_append rev_rev_ident)
  then show ?thesis unfolding dropTrailing_def by blast
qed

lemma doubleDot_dropTrailing: "doubleDot (dropTrailing p s) \<Longrightarrow> doubleDot s"
  using dropTrailing_prefix [of s p] doubleDot_append_left by metis

lemma doubleDot_separated:
  "c \<noteq> CHR ''.'' \<Longrightarrow> doubleDot (a @ c # b) \<longleftrightarrow> doubleDot a \<or> doubleDot b"
  by (induction a rule: doubleDot.induct; cases b) auto

lemma doubleDot_none: "CHR ''.'' \<notin> set s \<Longrightarrow> \<not> doubleDot s"
  by (induction s rule: doubleDot.induct) auto

lemma dashRuns_chars: "list_all segmentChar (dashRuns inside s)"
  by (induction s arbitrary: inside) (auto simp: segmentChar_def)

lemma dotRuns_subset: "set (dotRuns s) \<subseteq> set s"
  by (induction s) auto

lemma dotRuns_hd: "s \<noteq> [] \<Longrightarrow> dotRuns s \<noteq> [] \<and> hd (dotRuns s) = hd s"
  by (induction s) auto

lemma dotRuns_doubleDot: "\<not> doubleDot (dotRuns s)"
proof (induction s)
  case (Cons c cs)
  show ?case
  proof (cases "dotRuns cs")
    case (Cons d ds)
    then have "cs \<noteq> [] \<and> hd cs = d" using dotRuns_hd [of cs] by (cases cs) auto
    then show ?thesis using Cons.IH Cons by auto
  qed (use Cons.IH in auto)
qed simp

lemma hexLower_segment: "hexLower c \<Longrightarrow> alnum c \<and> c \<noteq> CHR ''.''"
  by (auto simp: hexLower_def alnum_def isLetter_def isDigit_def)

lemma dropWhile_hd: "dropWhile p s \<noteq> [] \<Longrightarrow> \<not> p (hd (dropWhile p s))"
  by (rule hd_dropWhile)

text \<open>The hash is at least eight lower-case hexadecimal digits.\<close>

definition hexDigest :: "(string \<Rightarrow> string) \<Rightarrow> bool" where
  "hexDigest sha256 = (\<forall>s. 8 \<le> length (sha256 s) \<and> list_all hexLower (sha256 s))"

lemma safeKeySegment_SAFE:
  assumes "hexDigest sha256"
  shows "SAFE_SEGMENT (safeKeySegment nfkd sha256 raw) \<and> \<not> doubleDot (safeKeySegment nfkd sha256 raw)"
proof (cases "SAFE_SEGMENT raw \<and> \<not> includesText raw ''..''")
  case True
  then show ?thesis by (simp add: safeKeySegment_def includes_doubleDot)
next
  case False
  define body where "body = take 100 (dropWhile (\<lambda>c. \<not> alnum c) (dotRuns (dashRuns False (nfkd raw))))"
  define cleaned where "cleaned = dropTrailing (\<lambda>c. c \<in> set ''-.'') body"
  define suffix where "suffix = take 8 (sha256 raw)"
  have seg: "safeKeySegment nfkd sha256 raw = (if cleaned \<noteq> [] then cleaned @ ''-'' @ suffix else suffix)"
    using False by (auto simp: safeKeySegment_def Let_def cleaned_def body_def suffix_def)
  have suffix: "length suffix = 8" "list_all hexLower suffix"
    using assms by (auto simp: hexDigest_def suffix_def list_all_iff dest: in_set_takeD)
  have body_chars: "list_all segmentChar body"
    using dashRuns_chars [of False "nfkd raw"] dotRuns_subset [of "dashRuns False (nfkd raw)"]
    by (auto simp: body_def list_all_iff dest!: in_set_takeD set_dropWhileD)
  obtain t where t: "body = cleaned @ t" using dropTrailing_prefix cleaned_def by blast
  have chars: "list_all segmentChar cleaned" using body_chars t by simp
  have len: "length cleaned \<le> 100"
    using t by (metis body_def length_append length_take le_add1 min.bounded_iff min.cobounded2 order_trans)
  have head: "alnum (hd cleaned)" if "cleaned \<noteq> []"
  proof -
    have "hd cleaned = hd body" using t that by simp
    moreover have "body \<noteq> []" using t that by auto
    ultimately show ?thesis
      using hd_dropWhile [of "\<lambda>c. \<not> alnum c" "dotRuns (dashRuns False (nfkd raw))"]
      by (auto simp: body_def take_eq_Nil)
  qed
  have dots: "\<not> doubleDot cleaned"
    unfolding cleaned_def body_def
    using doubleDot_dropTrailing doubleDot_take doubleDot_dropWhile dotRuns_doubleDot by blast
  have suffix_ok: "list_all segmentChar suffix" "alnum (hd suffix)" "suffix \<noteq> []" "CHR ''.'' \<notin> set suffix"
  proof -
    show ne: "suffix \<noteq> []" using suffix(1) by auto
    show "list_all segmentChar suffix" "CHR ''.'' \<notin> set suffix"
      using suffix(2) hexLower_segment by (auto simp: list_all_iff segmentChar_def)
    show "alnum (hd suffix)" using suffix(2) hexLower_segment hd_in_set [OF ne] by (simp add: list_all_iff)
  qed
  show ?thesis
  proof (cases "cleaned = []")
    case True
    then show ?thesis unfolding seg using suffix suffix_ok doubleDot_none
      by (auto simp: SAFE_SEGMENT_def list_all_iff dest: list.set_sel(2))
  next
    case False
    have "list_all segmentChar (cleaned @ ''-'' @ suffix)"
      using chars suffix_ok(1) by (simp add: segmentChar_def)
    then have "list_all segmentChar (tl (cleaned @ ''-'' @ suffix))"
      by (metis list.pred_inject(2) list.collapse append_is_Nil_conv False)
    moreover have "\<not> doubleDot (cleaned @ ''-'' @ suffix)"
      using dots doubleDot_none [OF suffix_ok(4)] doubleDot_separated [of "CHR ''-''" cleaned suffix] by simp
    ultimately show ?thesis unfolding seg using False head len suffix(1)
      by (simp add: SAFE_SEGMENT_def)
  qed
qed

text \<open>\<open>path.relative(dir, target)\<close> on resolved paths, and the guard built on it.\<close>

fun relativeSegments :: "string list \<Rightarrow> string list \<Rightarrow> string list" where
  "relativeSegments (d # ds) (t # ts) =
     (if d = t then relativeSegments ds ts else map (\<lambda>_. ''..'') (d # ds) @ t # ts)"
| "relativeSegments ds ts = map (\<lambda>_. ''..'') ds @ ts"

definition resolveInsideRoot :: "string list \<Rightarrow> string \<Rightarrow> string list res" where
  "resolveInsideRoot baseDir key =
     rbind (assertSafeStorageKey key) (\<lambda>safeKey.
       let absolute = resolveSegments baseDir (splitOn CHR ''/'' safeKey);
           relative = relativeSegments baseDir absolute
       in if relative = [] \<or> hd relative = ''..'' then throw StorageKeyInvalid else Inr absolute)"

lemma relativeSegments_below: "relativeSegments dir (dir @ ts) = ts"
  by (induction dir) (cases ts, auto)

lemma segmentChar_allowed: "segmentChar c \<Longrightarrow> \<not> forbiddenChar c \<and> c \<noteq> CHR ''/'' \<and> c \<noteq> CHR '':''"
proof -
  have letter: "\<not> forbiddenChar c \<and> c \<noteq> CHR ''/'' \<and> c \<noteq> CHR '':''" if "isLetter c"
  proof -
    have "65 \<le> (of_char c :: int) \<and> (of_char c :: int) \<le> 90 \<or> 97 \<le> (of_char c :: int) \<and> (of_char c :: int) \<le> 122"
      using that of_char_int(2) [of "CHR ''A''" c] of_char_int(2) [of c "CHR ''Z''"]
        of_char_int(2) [of "CHR ''a''" c] of_char_int(2) [of c "CHR ''z''"]
      by (simp add: isLetter_def)
    moreover have "(of_char c :: int) = int (of_char c)" by (metis of_nat_of_char)
    ultimately show ?thesis by (auto simp: forbiddenChar_def)
  qed
  have digit: "\<not> forbiddenChar c \<and> c \<noteq> CHR ''/'' \<and> c \<noteq> CHR '':''" if "isDigit c"
  proof -
    have "(of_char c :: int) = int (of_char c)" by (metis of_nat_of_char)
    then show ?thesis using that by (auto simp: isDigit_iff forbiddenChar_def)
  qed
  assume "segmentChar c"
  then show ?thesis using letter digit by (auto simp: segmentChar_def alnum_def forbiddenChar_def)
qed

lemma SAFE_chars: "SAFE_SEGMENT s \<Longrightarrow> list_all segmentChar s \<and> s \<noteq> [] \<and> alnum (hd s)"
  by (cases s) (auto simp: SAFE_SEGMENT_def segmentChar_def)

lemma plain_segment:
  "list_all segmentChar s \<Longrightarrow> splitOn CHR ''/'' s = [s]"
  by (rule splitOn_free) (auto simp: list_all_iff dest: segmentChar_allowed)

lemma alnum_not_dot: "alnum c \<Longrightarrow> c \<noteq> CHR ''.''"
  by (auto simp: alnum_def isLetter_def isDigit_def)

text \<open>A path of plain segments below a named directory passes the check.\<close>

definition goodSegment :: "string \<Rightarrow> bool" where
  "goodSegment s \<longleftrightarrow> list_all segmentChar s \<and> s \<noteq> [] \<and> alnum (hd s)"

lemma SAFE_good: "SAFE_SEGMENT s \<Longrightarrow> goodSegment s"
  using SAFE_chars by (simp add: goodSegment_def)

lemma goodSegment_append: "goodSegment s \<Longrightarrow> list_all segmentChar t \<Longrightarrow> goodSegment (s @ t)"
  by (simp add: goodSegment_def)

lemma segment_path:
  "list_all (list_all segmentChar) (d # ts) \<Longrightarrow>
   splitOn CHR ''/'' (joinWith ''/'' (d # ts)) = d # ts \<and>
   \<not> list_ex forbiddenChar (joinWith ''/'' (d # ts))"
proof (induction ts arbitrary: d)
  case Nil
  then show ?case using plain_segment
    by (auto simp: list_ex_iff list_all_iff dest: segmentChar_allowed)
next
  case (Cons t ts)
  have "list_all segmentChar d" using Cons.prems by simp
  then have "\<not> list_ex forbiddenChar d" "splitOn CHR ''/'' d = [d]"
    using plain_segment by (auto simp: list_ex_iff list_all_iff dest: segmentChar_allowed)
  moreover have "\<not> forbiddenChar CHR ''/''" by (simp add: forbiddenChar_def)
  ultimately show ?case using Cons.IH [of t] Cons.prems splitOn_append [of "CHR ''/''" d] by simp
qed

lemma good_path_split:
  "list_all goodSegment (d # ts) \<Longrightarrow> splitOn CHR ''/'' (joinWith ''/'' (d # ts)) = d # ts"
  using segment_path [of d ts] by (simp add: goodSegment_def list_all_iff)

lemma safe_path:
  assumes "list_all goodSegment (dir # ss)" "1 < length dir"
    and "length (joinWith ''/'' (dir # ss)) \<le> 1024"
  shows "assertSafeStorageKey (joinWith ''/'' (dir # ss)) = Inr (joinWith ''/'' (dir # ss))"
proof -
  have plain: "list_all (list_all segmentChar) (dir # ss)"
    using assms(1) by (auto simp: goodSegment_def list_all_iff)
  let ?k = "joinWith ''/'' (dir # ss)"
  obtain a b r where dir: "dir = a # b # r" using assms(2) by (cases dir; cases "tl dir") auto
  have k: "\<exists>t. ?k = a # b # t" using dir by (cases ss) auto
  have "segmentChar a" "segmentChar b" using plain dir by auto
  then have start: "\<not> startsWith ?k ''/''" "\<not> driveLetter ?k" "?k \<noteq> []"
    using k segmentChar_allowed by (auto simp: startsWith_def driveLetter_def)
  have "s \<noteq> [] \<and> s \<noteq> ''.'' \<and> s \<noteq> ''..''" if "s \<in> set (dir # ss)" for s
  proof -
    have "goodSegment s" using that assms(1) by (auto simp: list_all_iff)
    then have "s \<noteq> []" "hd s \<noteq> CHR ''.''" using alnum_not_dot [of "hd s"] by (simp_all add: goodSegment_def)
    then show ?thesis by auto
  qed
  then have "list_all (\<lambda>s. s \<noteq> [] \<and> s \<noteq> ''.'' \<and> s \<noteq> ''..'') (dir # ss)" by (simp only: list_all_iff) blast
  then show ?thesis unfolding assertSafe_Inr using segment_path [OF plain] assms(3) start by simp
qed

lemma resolve_safe:
  assumes "assertSafeStorageKey key = Inr k"
  shows "resolveInsideRoot baseDir key = Inr (baseDir @ splitOn CHR ''/'' key)"
proof -
  have plain: "k = key" "list_all (\<lambda>s. s \<noteq> [] \<and> s \<noteq> ''.'' \<and> s \<noteq> ''..'') (splitOn CHR ''/'' key)"
    using assms by (auto simp: assertSafe_Inr)
  have "splitOn CHR ''/'' key \<noteq> []" by simp
  then have "hd (splitOn CHR ''/'' key) \<noteq> ''..''" using plain(2) by (cases "splitOn CHR ''/'' key") auto
  then show ?thesis using assms plain
    by (simp add: resolveInsideRoot_def resolveSegments_plain relativeSegments_below)
qed

lemma storageYear_good: "storageYear createdAt = Inr year \<Longrightarrow> goodSegment year \<and> length year = 4"
  by (cases year)
    (auto simp: storageYear_def checked_def YEAR_def goodSegment_def list_all_iff segmentChar_def alnum_def
      split: if_splits)

lemma extension_good:
  "extension \<in> {''docx'', ''pdf''} \<Longrightarrow> list_all segmentChar (''.'' @ extension) \<and> length extension \<le> 4"
  by (elim insertE) (simp_all add: segmentChar_def alnum_def isLetter_def)

lemma documents_good: "goodSegment ''documents''"
  by (simp add: goodSegment_def segmentChar_def alnum_def isLetter_def)

lemma SAFE_length: "SAFE_SEGMENT s \<Longrightarrow> length s \<le> 120"
  by (simp add: SAFE_SEGMENT_def)

section \<open>Properties\<close>

text \<open>
  C34. A key that passes the check names a file strictly inside the root of the storage, whatever the
  root is: resolving it walks down its own segments only, so the later guard on the relative path
  never rejects it, and a key that fails the check is refused before any path is computed.
\<close>

theorem storage_key_inside_root:
  "resolveInsideRoot baseDir key =
     (case assertSafeStorageKey key of
        Inl e \<Rightarrow> throw StorageKeyInvalid
      | Inr k \<Rightarrow> Inr (baseDir @ splitOn CHR ''/'' key))"
proof (cases "assertSafeStorageKey key")
  case (Inl e)
  then have "e = ApiException StorageKeyInvalid"
    by (auto simp: assertSafeStorageKey_def split: if_splits)
  then show ?thesis using Inl by (simp add: resolveInsideRoot_def)
next
  case (Inr k)
  then show ?thesis using resolve_safe [of key k baseDir] by simp
qed

text \<open>
  Whatever text the format key and the number of an act hold (slashes, dots, control characters,
  nothing at all), the key of its file is built without an error for every year of four digits, it
  passes the check, and it lies four levels below the root.
\<close>

theorem document_key_always_safe:
  assumes "hexDigest sha256" "storageYear createdAt = Inr year" "extension \<in> {''docx'', ''pdf''}"
  shows "\<exists>k. documentFileKey nfkd sha256 createdAt formatKey number extension None = Inr k \<and>
    resolveInsideRoot baseDir k = Inr (baseDir @ [''documents'', year, safeKeySegment nfkd sha256 formatKey,
      safeKeySegment nfkd sha256 number @ ''.'' @ extension])"
proof -
  let ?f = "safeKeySegment nfkd sha256 formatKey" and ?n = "safeKeySegment nfkd sha256 number"
  let ?path = "[year, ?f, ?n @ ''.'' @ extension]"
  have y: "goodSegment year" "length year = 4" using storageYear_good [OF assms(2)] by simp_all
  have f: "goodSegment ?f" "length ?f \<le> 120" and n: "goodSegment ?n" "length ?n \<le> 120"
    using safeKeySegment_SAFE [OF assms(1)] SAFE_good SAFE_length by simp_all
  have ext: "list_all segmentChar (''.'' @ extension)" "length extension \<le> 4"
    using extension_good [OF assms(3)] by simp_all
  have all: "list_all goodSegment (''documents'' # ?path)"
    using y(1) f(1) goodSegment_append [OF n(1) ext(1)] documents_good by simp
  have "length (joinWith ''/'' (''documents'' # ?path)) \<le> 1024"
    using y(2) f(2) n(2) ext(2) by simp
  then have safe: "assertSafeStorageKey (joinWith ''/'' (''documents'' # ?path)) =
      Inr (joinWith ''/'' (''documents'' # ?path))"
    by (intro safe_path all) simp_all
  have key: "documentFileKey nfkd sha256 createdAt formatKey number extension None =
      Inr (joinWith ''/'' (''documents'' # ?path))"
    using safe assms(2) by (simp add: documentFileKey_def)
  have "resolveInsideRoot baseDir (joinWith ''/'' (''documents'' # ?path)) = Inr (baseDir @ ''documents'' # ?path)"
    using resolve_safe [OF safe] good_path_split [OF all] by simp
  then show ?thesis using key by blast
qed

section \<open>Witnesses\<close>

definition sampleHash :: "string \<Rightarrow> string" where
  "sampleHash s = ''0123456789abcdef''"

lemma sampleHash_hex: "hexDigest sampleHash"
  by (simp add: hexDigest_def sampleHash_def hexLower_def isDigit_def)

lemma sample_day: "yearFromDay 20453 = 2025"
  using yearUp.simps [of 2025 20453] by (simp add: yearFromDay_def dayFromYear_def)

lemma sample_digits: "digits_of 2025 = ''2025''"
  by code_simp

lemma sample_year: "storageYear 1767225600000 = Inr ''2025''"
  by (simp add: storageYear_def checked_def YEAR_def civilDate_def sample_day sample_digits startsWith_def showInt_def iso_evaluation)

theorem document_key_always_safe_witness:
  "\<exists>k. documentFileKey id sampleHash 1767225600000 ''../../etc'' ''2026-0001'' ''pdf'' None = Inr k"
  using document_key_always_safe [OF sampleHash_hex sample_year, of "''pdf''" id "''../../etc''" "''2026-0001''"]
  by auto

end
