(* ===== verification/Envelope.thy ===== *)
theory Envelope
  imports DocSigners StorageKeys
begin

text \<open>
  The internal signature provider: src/src/modules/documents/signature/internal-signature.provider.ts
  and the channels of src/src/modules/documents/domain/signing-channel.ts.

  An envelope holds the turns of an act in order and the hash of the file each signature was put on.
  The tables are those of the database; the object storage is a map from keys to contents, and it is
  not rolled back when a transaction fails, so an operation returns its result and the files it left.
  The hash and the two functions of pdf-lib are a parameter of the model.

  The lemmas show that the turns are signed in order, that the chain of hashes and the stored file
  agree in every reachable state, and that a file that was changed is reported.
\<close>

section \<open>Files\<close>

type_synonym files = "string \<Rightarrow> string option"

type_synonym 'a io = "files \<Rightarrow> 'a res \<times> files"

definition ilift :: "'a res \<Rightarrow> 'a io" where
  "ilift r = (\<lambda>fs. (r, fs))"

definition ibind :: "'a io \<Rightarrow> ('a \<Rightarrow> 'b io) \<Rightarrow> 'b io" where
  "ibind m k = (\<lambda>fs. case m fs of (Inl e, fs') \<Rightarrow> (Inl e, fs') | (Inr x, fs') \<Rightarrow> k x fs')"

definition PUBLIC_KEY_PREFIX :: string where
  "PUBLIC_KEY_PREFIX = ''images/''"

definition isPublicKey :: "string \<Rightarrow> bool" where
  "isPublicKey key = startsWith key PUBLIC_KEY_PREFIX"

definition putObject :: "string \<Rightarrow> string \<Rightarrow> unit io" where
  "putObject key body = (\<lambda>fs.
     case assertSafeStorageKey key of
       Inl e \<Rightarrow> (Inl e, fs)
     | Inr k \<Rightarrow> if isPublicKey k then (throw StorageKeyInvalid, fs) else (Inr (), fs(k \<mapsto> body)))"

definition getObject :: "string \<Rightarrow> string io" where
  "getObject key = (\<lambda>fs.
     (rbind (assertSafeStorageKey key) (\<lambda>k.
        case fs k of None \<Rightarrow> throwError | Some body \<Rightarrow> Inr body), fs))"

lemma ilift_simp [simp]: "ilift r fs = (r, fs)"
  by (simp add: ilift_def)

lemma ibind_Inr [res_simps]:
  "ibind m k fs = (Inr y, fs2) \<longleftrightarrow> (\<exists>x fs1. m fs = (Inr x, fs1) \<and> k x fs1 = (Inr y, fs2))"
  by (auto simp: ibind_def split: prod.splits sum.splits)

lemma ibind_lift_Inr [simp]: "ibind (ilift (Inr x)) k = k x"
  by (rule ext) (simp add: ibind_def)

lemma ibind_lift_Inl [simp]: "ibind (ilift (Inl e)) k fs = (Inl e, fs)"
  by (simp add: ibind_def)

lemma putObject_Inr [res_simps]:
  "putObject key body fs = (Inr u, fs') \<longleftrightarrow>
     assertSafeStorageKey key = Inr key \<and> \<not> isPublicKey key \<and> fs' = fs(key \<mapsto> body)"
  by (auto simp: putObject_def assertSafeStorageKey_def split: sum.splits if_splits)

lemma getObject_Inr [res_simps]:
  "getObject key fs = (Inr body, fs') \<longleftrightarrow>
     assertSafeStorageKey key = Inr key \<and> fs key = Some body \<and> fs' = fs"
  by (auto simp: getObject_def res_simps assertSafeStorageKey_def split: if_splits)

section \<open>Requests and evidence\<close>

record signatureMark =
  mk_slotIndex :: nat
  mk_rubricPng :: string
  mk_label :: string
  mk_name :: string
  mk_documentNumber :: "string option"
  mk_signedAt :: int
  mk_ipAddress :: "string option"
  mk_methodLabel :: string

text \<open>\<open>node:crypto\<close> and pdf-lib: the hash, the sheet of signatures and the stamp of one of them.\<close>

record pdfTools =
  pt_sha256 :: "string \<Rightarrow> string"
  pt_prepare :: "string \<Rightarrow> string \<Rightarrow> string \<Rightarrow> string \<Rightarrow> (int \<times> string) list \<Rightarrow> string res"
  pt_stamp :: "string \<Rightarrow> signatureMark \<Rightarrow> string res"

record signerRequest =
  sq_order :: int
  sq_role :: string
  sq_roleLabel :: "string option"
  sq_personId :: "string option"
  sq_name :: "string option"
  sq_documentNumber :: "string option"

record signatureRequest =
  rq_documentId :: string
  rq_documentCreatedAt :: int
  rq_documentNumber :: string
  rq_formatKey :: string
  rq_title :: "string option"
  rq_pdf :: string
  rq_pdfSha256 :: string
  rq_signers :: "signerRequest list"

datatype signerEvidence =
    SessionEvidence bool string string
  | LinkEvidence string string "int option" int

record evidenceRow =
  ec_method :: signatureMethod
  ec_signerUserId :: "string option"
  ec_sessionId :: "string option"
  ec_mfaEnabled :: "bool option"
  ec_signingLinkId :: "string option"
  ec_linkEmail :: "string option"
  ec_linkSentAt :: "int option"
  ec_identityConfirmedAt :: "int option"

fun evidenceColumns :: "signerEvidence \<Rightarrow> evidenceRow" where
  "evidenceColumns (LinkEvidence linkId email sentAt confirmedAt) =
     \<lparr>ec_method = EmailLink, ec_signerUserId = None, ec_sessionId = None, ec_mfaEnabled = None,
      ec_signingLinkId = Some linkId, ec_linkEmail = Some email, ec_linkSentAt = sentAt,
      ec_identityConfirmedAt = Some confirmedAt\<rparr>"
| "evidenceColumns (SessionEvidence mfa userId sessionId) =
     \<lparr>ec_method = (if mfa then SessionMfa else Session), ec_signerUserId = Some userId,
      ec_sessionId = Some sessionId, ec_mfaEnabled = Some mfa, ec_signingLinkId = None,
      ec_linkEmail = None, ec_linkSentAt = None, ec_identityConfirmedAt = None\<rparr>"

record signatureCapture =
  cp_order :: int
  cp_signerPersonId :: string
  cp_ipAddress :: "string option"
  cp_userAgent :: "string option"
  cp_evidence :: signerEvidence
  cp_rubricPng :: string

record signatureRejection =
  rj_order :: int
  rj_signerPersonId :: string
  rj_ipAddress :: "string option"
  rj_userAgent :: "string option"
  rj_evidence :: signerEvidence
  rj_reason :: string

fun methodLabel :: "signatureMethod \<Rightarrow> string" where
  "methodLabel SessionMfa = ''Sesi'' @ CHR 0xF3 # ''n con verificaci'' @ CHR 0xF3 # ''n en dos pasos''"
| "methodLabel Session = ''Sesi'' @ CHR 0xF3 # ''n''"
| "methodLabel EmailLink = ''Enlace de un solo uso enviado al correo institucional''"

definition MAX_RUBRIC_BYTES :: nat where
  "MAX_RUBRIC_BYTES = 64 * 1024"

definition PNG_SIGNATURE :: string where
  "PNG_SIGNATURE = map char_of [0x89, 0x50, 0x4E, 0x47, 0x0D, 0x0A, 0x1A, 0x0A :: nat]"

definition isPng :: "string \<Rightarrow> bool" where
  "isPng content = (8 < length content \<and> take 8 content = PNG_SIGNATURE)"

section \<open>Operations\<close>

text \<open>\<open>envelope\<close> and \<open>signers\<close>: the row, and the turns in their order.\<close>

definition findEnvelope :: "db \<Rightarrow> string \<Rightarrow> envelope res" where
  "findEnvelope db ref =
     (case List.find (\<lambda>e. ev_id e = ref) (db_envelopes db) of
        None \<Rightarrow> throw ResourceNotFound | Some e \<Rightarrow> Inr e)"

definition envelopeSigners :: "db \<Rightarrow> string \<Rightarrow> envelopeSigner list" where
  "envelopeSigners db ref =
     sort_key es_signOrder (filter (\<lambda>s. es_envelopeId s = ref) (db_envelopeSigners db))"

definition documentCreatedAt :: "db \<Rightarrow> string \<Rightarrow> int res" where
  "documentCreatedAt db documentId =
     (case List.find (\<lambda>d. d_id d = documentId) (db_documents db) of
        None \<Rightarrow> throw ResourceNotFound | Some d \<Rightarrow> Inr (d_createdAt d))"

definition newSigner :: "string \<Rightarrow> signerRequest \<Rightarrow> envelopeSigner" where
  "newSigner envelopeId q =
     \<lparr>es_envelopeId = envelopeId, es_signOrder = sq_order q, es_role = sq_role q,
      es_roleLabel = sq_roleLabel q, es_personId = sq_personId q, es_name = sq_name q,
      es_documentNumber = sq_documentNumber q, es_status = SPending, es_signedAt = None,
      es_pdfSha256Before = None, es_pdfSha256After = None, es_signerUserId = None,
      es_sessionId = None, es_mfaEnabled = None, es_method = None, es_ipAddress = None,
      es_userAgent = None, es_rubricKey = None, es_rubricSha256 = None, es_signingLinkId = None,
      es_linkEmail = None, es_linkSentAt = None, es_identityConfirmedAt = None,
      es_rejectReason = None\<rparr>"

definition slotsOf :: "signerRequest list \<Rightarrow> (int \<times> string) list" where
  "slotsOf signers = map (\<lambda>q. (sq_order q, or_keep (sq_roleLabel q) (sq_role q))) signers"

definition titleOf :: "signatureRequest \<Rightarrow> string" where
  "titleOf q = or_keep (rq_title q) (rq_formatKey q @ '' '' @ rq_documentNumber q)"

text \<open>
  \<open>request\<close>: \<open>code\<close> is the random verification code. The table refuses a code that exists and
  a turn that appears twice.
\<close>

definition insertEnvelope ::
  "env \<Rightarrow> signatureRequest \<Rightarrow> string \<Rightarrow> string \<Rightarrow> string \<Rightarrow> string \<Rightarrow> db \<Rightarrow> (string \<times> db) res" where
  "insertEnvelope env q code originalSha256 preparedSha256 key db =
     (if list_ex (\<lambda>e. ev_verificationCode e = code) (db_envelopes db) \<or>
         \<not> distinct (map sq_order (rq_signers q)) then throwError
      else
        (let envelopeId = freshId env db;
             row = \<lparr>ev_id = envelopeId, ev_documentId = rq_documentId q, ev_verificationCode = code,
               ev_originalPdfSha256 = originalSha256, ev_preparedPdfSha256 = preparedSha256,
               ev_currentPdfKey = key, ev_currentPdfSha256 = preparedSha256, ev_status = EPending,
               ev_completedAt = None\<rparr>
         in Inr (envelopeId, bumpSeq (db\<lparr>db_envelopes := db_envelopes db @ [row],
              db_envelopeSigners := db_envelopeSigners db @
                map (newSigner envelopeId) (sort_key sq_order (rq_signers q))\<rparr>))))"

definition requestEnvelope ::
  "pdfTools \<Rightarrow> env \<Rightarrow> string \<Rightarrow> signatureRequest \<Rightarrow> db \<Rightarrow> (string \<times> db) io" where
  "requestEnvelope tools env code q db =
     (let originalSha256 = pt_sha256 tools (rq_pdf q) in
      if originalSha256 \<noteq> rq_pdfSha256 q then ilift (throw DocumentTampered)
      else
        (let signers = sort_key sq_order (rq_signers q) in
         ibind (ilift (pt_prepare tools (rq_pdf q) (titleOf q) code originalSha256 (slotsOf signers)))
           (\<lambda>prepared.
         ibind (ilift (signaturePreparedPdfKey (rq_documentCreatedAt q) (rq_documentId q) code None))
           (\<lambda>key.
         ibind (putObject key prepared) (\<lambda>_.
           ilift (insertEnvelope env q code originalSha256 (pt_sha256 tools prepared) key db))))))"

text \<open>\<open>nextSigner\<close>: the turn a person may take now.\<close>

definition nextSigner ::
  "envelope \<Rightarrow> envelopeSigner list \<Rightarrow> int \<Rightarrow> string \<Rightarrow> envelopeSigner res" where
  "nextSigner e signers order personId =
     (if ev_status e \<noteq> EPending then throw InvalidState
      else (case List.find (\<lambda>s. es_signOrder s = order) signers of
          None \<Rightarrow> throw InvalidState
        | Some signer \<Rightarrow>
            if es_status signer \<noteq> SPending then throw InvalidState
            else if falsy (es_personId signer) then throw SignatureSignerUnassigned
            else if es_personId signer \<noteq> Some personId then throw SignatureNotDesignatedSigner
            else if map_option es_signOrder (List.find (\<lambda>s. es_status s = SPending) signers) \<noteq> Some order
            then throw SignatureOutOfOrder
            else Inr signer))"

definition currentPdf :: "pdfTools \<Rightarrow> envelope \<Rightarrow> string io" where
  "currentPdf tools e =
     ibind (getObject (ev_currentPdfKey e)) (\<lambda>content.
       ilift (if pt_sha256 tools content \<noteq> ev_currentPdfSha256 e then throw DocumentTampered
              else Inr content))"

definition findIndex :: "('a \<Rightarrow> bool) \<Rightarrow> 'a list \<Rightarrow> nat" where
  "findIndex p xs = length (takeWhile (\<lambda>x. \<not> p x) xs)"

definition markSigned ::
  "pdfTools \<Rightarrow> env \<Rightarrow> envelope \<Rightarrow> signatureCapture \<Rightarrow> string \<Rightarrow> string \<Rightarrow> envelopeSigner \<Rightarrow> envelopeSigner" where
  "markSigned tools env e c rubricKey after s =
     (let ec = evidenceColumns (cp_evidence c) in
      s\<lparr>es_status := SSigned, es_signedAt := Some (e_now env),
        es_signerUserId := ec_signerUserId ec, es_sessionId := ec_sessionId ec,
        es_ipAddress := cp_ipAddress c, es_userAgent := cp_userAgent c,
        es_mfaEnabled := ec_mfaEnabled ec, es_rubricKey := Some rubricKey,
        es_rubricSha256 := Some (pt_sha256 tools (cp_rubricPng c)),
        es_pdfSha256Before := Some (ev_currentPdfSha256 e), es_pdfSha256After := Some after,
        es_method := Some (ec_method ec), es_signingLinkId := ec_signingLinkId ec,
        es_linkEmail := ec_linkEmail ec, es_linkSentAt := ec_linkSentAt ec,
        es_identityConfirmedAt := ec_identityConfirmedAt ec\<rparr>)"

definition writeCapture ::
  "pdfTools \<Rightarrow> env \<Rightarrow> envelope \<Rightarrow> envelopeSigner list \<Rightarrow> signatureCapture \<Rightarrow> string \<Rightarrow> string \<Rightarrow> string
     \<Rightarrow> db \<Rightarrow> db" where
  "writeCapture tools env e signers c rubricKey key stamped db =
     (let after = pt_sha256 tools stamped;
          pending = length (filter (\<lambda>s. es_status s \<noteq> SSigned \<and> es_signOrder s \<noteq> cp_order c) signers)
      in db\<lparr>db_envelopeSigners := update_where
              (\<lambda>s. es_envelopeId s = ev_id e \<and> es_signOrder s = cp_order c)
              (markSigned tools env e c rubricKey after) (db_envelopeSigners db),
            db_envelopes := update_where (\<lambda>x. ev_id x = ev_id e)
              (\<lambda>x. x\<lparr>ev_currentPdfKey := key, ev_currentPdfSha256 := after,
                 ev_status := (if pending = 0 then ECompleted else ev_status x),
                 ev_completedAt := (if pending = 0 then Some (e_now env) else ev_completedAt x)\<rparr>)
              (db_envelopes db)\<rparr>)"

definition capture ::
  "pdfTools \<Rightarrow> env \<Rightarrow> string \<Rightarrow> signatureCapture \<Rightarrow> db \<Rightarrow> db io" where
  "capture tools env ref c db =
     (if \<not> isPng (cp_rubricPng c) \<or> MAX_RUBRIC_BYTES < length (cp_rubricPng c)
      then ilift (throw ValidationFailed)
      else
        ibind (ilift (findEnvelope db ref)) (\<lambda>e.
        (let signers = envelopeSigners db (ev_id e) in
        ibind (ilift (nextSigner e signers (cp_order c) (cp_signerPersonId c))) (\<lambda>signer.
        ibind (currentPdf tools e) (\<lambda>current.
        ibind (ilift (documentCreatedAt db (ev_documentId e))) (\<lambda>createdAt.
        ibind (ilift (signatureRubricKey createdAt (ev_documentId e) (ev_verificationCode e) (cp_order c)))
          (\<lambda>rubricKey.
        ibind (putObject rubricKey (cp_rubricPng c)) (\<lambda>_.
        ibind (ilift (pt_stamp tools current
          \<lparr>mk_slotIndex = findIndex (\<lambda>s. es_signOrder s = cp_order c) signers,
           mk_rubricPng = cp_rubricPng c, mk_label = or_keep (es_roleLabel signer) (es_role signer),
           mk_name = or_keep (es_name signer) [], mk_documentNumber = es_documentNumber signer,
           mk_signedAt = e_now env, mk_ipAddress = cp_ipAddress c,
           mk_methodLabel = methodLabel (ec_method (evidenceColumns (cp_evidence c)))\<rparr>)) (\<lambda>stamped.
        ibind (ilift (signatureStampedPdfKey createdAt (ev_documentId e) (ev_verificationCode e) (cp_order c)))
          (\<lambda>key.
        ibind (putObject key stamped) (\<lambda>_.
          ilift (Inr (writeCapture tools env e signers c rubricKey key stamped db)))))))))))))"

definition markRejected :: "env \<Rightarrow> envelope \<Rightarrow> signatureRejection \<Rightarrow> envelopeSigner \<Rightarrow> envelopeSigner" where
  "markRejected env e r s =
     (let ec = evidenceColumns (rj_evidence r) in
      s\<lparr>es_status := SRejected, es_signedAt := Some (e_now env),
        es_signerUserId := ec_signerUserId ec, es_sessionId := ec_sessionId ec,
        es_ipAddress := rj_ipAddress r, es_userAgent := rj_userAgent r,
        es_rejectReason := Some (rj_reason r), es_pdfSha256Before := Some (ev_currentPdfSha256 e),
        es_mfaEnabled := ec_mfaEnabled ec, es_method := Some (ec_method ec),
        es_signingLinkId := ec_signingLinkId ec, es_linkEmail := ec_linkEmail ec,
        es_linkSentAt := ec_linkSentAt ec, es_identityConfirmedAt := ec_identityConfirmedAt ec\<rparr>)"

definition rejectEnvelope :: "env \<Rightarrow> string \<Rightarrow> signatureRejection \<Rightarrow> db \<Rightarrow> db res" where
  "rejectEnvelope env ref r db =
     rbind (findEnvelope db ref) (\<lambda>e.
     rbind (nextSigner e (envelopeSigners db (ev_id e)) (rj_order r) (rj_signerPersonId r)) (\<lambda>_.
       Inr (db\<lparr>db_envelopeSigners := update_where
              (\<lambda>s. es_envelopeId s = ev_id e \<and> es_signOrder s = rj_order r)
              (markRejected env e r) (db_envelopeSigners db),
            db_envelopes := update_where (\<lambda>x. ev_id x = ev_id e)
              (\<lambda>x. x\<lparr>ev_status := ERejected, ev_completedAt := Some (e_now env)\<rparr>)
              (db_envelopes db)\<rparr>)))"

definition voidEnvelope :: "env \<Rightarrow> string \<Rightarrow> db \<Rightarrow> db" where
  "voidEnvelope env ref db =
     db\<lparr>db_envelopes := update_where (\<lambda>e. ev_id e = ref \<and> ev_status e = EPending)
          (\<lambda>e. e\<lparr>ev_status := EVoided, ev_completedAt := Some (e_now env)\<rparr>) (db_envelopes db)\<rparr>"

text \<open>The columns a new issue writes on a turn.\<close>

definition reassignTurn :: "signerRequest \<Rightarrow> envelopeSigner \<Rightarrow> envelopeSigner" where
  "reassignTurn q s = s\<lparr>es_personId := sq_personId q, es_name := sq_name q,
     es_documentNumber := sq_documentNumber q, es_roleLabel := sq_roleLabel q\<rparr>"

definition updateTurn :: "string \<Rightarrow> envelopeSigner list \<Rightarrow> signerRequest \<Rightarrow> envelopeSigner list" where
  "updateTurn ref rows q =
     update_where (\<lambda>s. es_envelopeId s = ref \<and> es_signOrder s = sq_order q) (reassignTurn q) rows"

definition writeReissue ::
  "pdfTools \<Rightarrow> envelope \<Rightarrow> signatureRequest \<Rightarrow> string \<Rightarrow> string \<Rightarrow> db \<Rightarrow> db" where
  "writeReissue tools e q key prepared db =
     db\<lparr>db_envelopes := update_where (\<lambda>x. ev_id x = ev_id e)
          (\<lambda>x. x\<lparr>ev_originalPdfSha256 := pt_sha256 tools (rq_pdf q),
             ev_preparedPdfSha256 := pt_sha256 tools prepared, ev_currentPdfKey := key,
             ev_currentPdfSha256 := pt_sha256 tools prepared\<rparr>) (db_envelopes db),
        db_envelopeSigners := foldl (updateTurn (ev_id e)) (db_envelopeSigners db)
          (sort_key sq_order (rq_signers q))\<rparr>"

definition reissue :: "pdfTools \<Rightarrow> string \<Rightarrow> signatureRequest \<Rightarrow> db \<Rightarrow> db io" where
  "reissue tools ref q db =
     ibind (ilift (findEnvelope db ref)) (\<lambda>e.
     if ev_status e \<noteq> EPending \<or>
        list_ex (\<lambda>s. es_status s \<noteq> SPending) (envelopeSigners db (ev_id e))
     then ilift (throw SignatureReassignAfterSigning)
     else
       (let originalSha256 = pt_sha256 tools (rq_pdf q) in
        if originalSha256 \<noteq> rq_pdfSha256 q then ilift (throw DocumentTampered)
        else
          ibind (ilift (pt_prepare tools (rq_pdf q) (titleOf q) (ev_verificationCode e) originalSha256
            (slotsOf (sort_key sq_order (rq_signers q))))) (\<lambda>prepared.
          ibind (ilift (signaturePreparedPdfKey (rq_documentCreatedAt q) (rq_documentId q)
            (ev_verificationCode e) (Some (take 12 originalSha256)))) (\<lambda>key.
          ibind (putObject key prepared) (\<lambda>_.
            ilift (Inr (writeReissue tools e q key prepared db)))))))"

text \<open>\<open>status\<close>: what the engine reads back of every turn.\<close>

record turnStatus =
  ts_order :: int
  ts_status :: signatureStatus
  ts_signedAt :: "int option"

definition statusOf :: "db \<Rightarrow> string \<Rightarrow> turnStatus list" where
  "statusOf db ref = map (\<lambda>s. \<lparr>ts_order = es_signOrder s, ts_status = es_status s,
     ts_signedAt = es_signedAt s\<rparr>) (envelopeSigners db ref)"

definition signedDocument :: "pdfTools \<Rightarrow> string \<Rightarrow> db \<Rightarrow> string io" where
  "signedDocument tools ref db =
     ibind (ilift (findEnvelope db ref)) (\<lambda>e.
       if ev_status e \<noteq> ECompleted then ilift (throw InvalidState) else currentPdf tools e)"

definition currentDocument :: "pdfTools \<Rightarrow> string \<Rightarrow> db \<Rightarrow> string io" where
  "currentDocument tools ref db = ibind (ilift (findEnvelope db ref)) (currentPdf tools)"

section \<open>Attestation\<close>

datatype attestationStatus = ASPending | ASSignaturesCollected | ASCompleted | ASRejected | ASVoided

definition attestationStatusOf :: "envelopeStatus \<Rightarrow> documentStatus \<Rightarrow> attestationStatus" where
  "attestationStatusOf e d =
     (if d = DVoided \<or> e = EVoided then ASVoided
      else if e = ECompleted then (if d = DSigned then ASCompleted else ASSignaturesCollected)
      else if e = ERejected then ASRejected else ASPending)"

datatype attestationIntegrity = Intact | Altered | Unavailable

text \<open>The loop over the signed turns: the hash each one left, when it started from the previous one.\<close>

fun chainEnd :: "string \<Rightarrow> envelopeSigner list \<Rightarrow> string option" where
  "chainEnd expected [] = Some expected"
| "chainEnd expected (s # ss) =
     (if es_pdfSha256Before s \<noteq> Some expected \<or> falsy (es_pdfSha256After s) then None
      else chainEnd (the (es_pdfSha256After s)) ss)"

definition integrity ::
  "pdfTools \<Rightarrow> files \<Rightarrow> envelope \<Rightarrow> envelopeSigner list \<Rightarrow> attestationIntegrity" where
  "integrity tools fs e signers =
     (case chainEnd (ev_preparedPdfSha256 e) (filter (\<lambda>s. es_status s = SSigned) signers) of
        None \<Rightarrow> Altered
      | Some expected \<Rightarrow>
          if expected \<noteq> ev_currentPdfSha256 e then Altered
          else (case fst (getObject (ev_currentPdfKey e) fs) of
              Inl _ \<Rightarrow> Unavailable
            | Inr content \<Rightarrow>
                if pt_sha256 tools content = ev_currentPdfSha256 e then Intact else Altered))"

record attestedTurn =
  at_order :: int
  at_role :: string
  at_name :: "string option"
  at_status :: signatureStatus
  at_signedAt :: "string option"
  at_method :: "signatureMethod option"
  at_methodLabel :: "string option"

record attestation =
  as_reference :: string
  as_status :: attestationStatus
  as_integrity :: attestationIntegrity
  as_documentSha256 :: string
  as_signers :: "attestedTurn list"
  as_checkedAt :: string

definition attestedTurnOf :: "envelopeSigner \<Rightarrow> attestedTurn" where
  "attestedTurnOf s =
     \<lparr>at_order = es_signOrder s, at_role = or_keep (es_roleLabel s) (es_role s),
      at_name = (if es_status s = SSigned then es_name s else None), at_status = es_status s,
      at_signedAt = map_option toISOString (es_signedAt s),
      at_method = (if es_status s = SPending then None else es_method s),
      at_methodLabel = (if es_status s = SPending then None else map_option methodLabel (es_method s))\<rparr>"

definition attestationOf ::
  "pdfTools \<Rightarrow> env \<Rightarrow> string \<Rightarrow> db \<Rightarrow> files \<Rightarrow> attestation option" where
  "attestationOf tools env code db fs =
     (case List.find (\<lambda>e. ev_verificationCode e = code \<and>
         list_ex (\<lambda>d. d_id d = ev_documentId e) (db_documents db)) (db_envelopes db) of
        None \<Rightarrow> None
      | Some e \<Rightarrow>
          (case List.find (\<lambda>d. d_id d = ev_documentId e) (db_documents db) of
             None \<Rightarrow> None
           | Some d \<Rightarrow> Some
               \<lparr>as_reference = ev_verificationCode e,
                as_status = attestationStatusOf (ev_status e) (d_status d),
                as_integrity = integrity tools fs e (envelopeSigners db (ev_id e)),
                as_documentSha256 = ev_currentPdfSha256 e,
                as_signers = map attestedTurnOf (envelopeSigners db (ev_id e)),
                as_checkedAt = toISOString (e_now env)\<rparr>))"

section \<open>Turns in order\<close>

lemma sort_key_map_id:
  assumes "\<And>x. k (g x) = k x"
  shows "sort_key k (map g xs) = map g (sort_key k xs)"
proof -
  have "insort_key k (g x) (map g ys) = map g (insort_key k x ys)" for x ys
    by (induction ys) (simp_all add: assms)
  then show ?thesis by (induction xs) simp_all
qed

lemma envelopeSigners_update:
  assumes "\<And>s. es_envelopeId (g s) = es_envelopeId s" "\<And>s. es_signOrder (g s) = es_signOrder s"
  shows "sort_key es_signOrder (filter (\<lambda>s. es_envelopeId s = ref) (update_where p g rows)) =
    update_where p g (sort_key es_signOrder (filter (\<lambda>s. es_envelopeId s = ref) rows))"
proof -
  have "filter (\<lambda>s. es_envelopeId s = ref) (update_where p g rows) =
      map (\<lambda>s. if p s then g s else s) (filter (\<lambda>s. es_envelopeId s = ref) rows)"
    by (subst filter_update_where) (simp_all add: assms(1) update_where_def)
  then show ?thesis
    by (simp add: update_where_def sort_key_map_id [of es_signOrder "\<lambda>s. if p s then g s else s"] assms(2))
qed

definition openShape :: "envelopeSigner list \<Rightarrow> bool" where
  "openShape rows \<longleftrightarrow> (\<exists>past rest. rows = past @ rest \<and>
     (\<forall>s\<in>set past. es_status s = SSigned) \<and> (\<forall>s\<in>set rest. es_status s = SPending))"

definition shapeOf :: "envelopeStatus \<Rightarrow> envelopeSigner list \<Rightarrow> bool" where
  "shapeOf status rows \<longleftrightarrow>
     (case status of
        EPending \<Rightarrow> openShape rows \<and> (rows = [] \<or> (\<exists>s\<in>set rows. es_status s = SPending))
      | ECompleted \<Rightarrow> \<forall>s\<in>set rows. es_status s = SSigned
      | EVoided \<Rightarrow> openShape rows
      | ERejected \<Rightarrow> \<exists>past r rest. rows = past @ r # rest \<and> es_status r = SRejected \<and>
          (\<forall>s\<in>set past. es_status s = SSigned) \<and> (\<forall>s\<in>set rest. es_status s = SPending))"

lemma openShape_next:
  assumes "openShape rows" "List.find (\<lambda>s. es_status s = SPending) rows = Some n"
  shows "\<exists>past rest. rows = past @ n # rest \<and> es_status n = SPending \<and>
    (\<forall>s\<in>set past. es_status s = SSigned) \<and> (\<forall>s\<in>set rest. es_status s = SPending)"
proof -
  obtain past rest where split: "rows = past @ rest"
    "\<forall>s\<in>set past. es_status s = SSigned" "\<forall>s\<in>set rest. es_status s = SPending"
    using assms(1) by (auto simp: openShape_def)
  have "List.find (\<lambda>s. es_status s = SPending) (past @ rest) = List.find (\<lambda>s. es_status s = SPending) rest"
    using split(2) by (induction past) auto
  then obtain t where "rest = n # t" using assms(2) split by (cases rest) auto
  then show ?thesis using split by auto
qed

lemma nextSigner_Inr:
  assumes run: "nextSigner e rows order person = Inr s" and shape: "openShape rows"
    and distinct: "distinct (map es_signOrder rows)"
  shows "ev_status e = EPending \<and> es_signOrder s = order \<and> es_personId s = Some person \<and>
    es_status s = SPending \<and> (\<exists>past rest. rows = past @ s # rest \<and>
      (\<forall>x\<in>set past. es_status x = SSigned) \<and> (\<forall>x\<in>set rest. es_status x = SPending))"
proof -
  obtain n where n: "List.find (\<lambda>s. es_status s = SPending) rows = Some n" "es_signOrder n = order"
    and s: "List.find (\<lambda>s. es_signOrder s = order) rows = Some s"
    and rest: "ev_status e = EPending" "es_status s = SPending" "es_personId s = Some person"
    using run by (auto simp: nextSigner_def split: if_splits option.splits)
  have "n \<in> set rows" "s \<in> set rows" "es_signOrder s = order"
    using find_SomeD [OF n(1)] find_SomeD [OF s] by simp_all
  then have "n = s" using distinct n(2) by (auto simp: distinct_map dest: inj_onD)
  then show ?thesis using openShape_next [OF shape n(1)] rest find_SomeD [OF s] by auto
qed

lemma update_one_turn:
  assumes "rows = past @ s # rest" "distinct (map es_signOrder rows)"
    and "\<forall>x\<in>set rows. es_envelopeId x = ref" "es_signOrder s = order"
  shows "update_where (\<lambda>x. es_envelopeId x = ref \<and> es_signOrder x = order) g rows = past @ g s # rest"
proof -
  have "update_where (\<lambda>x. es_envelopeId x = ref \<and> es_signOrder x = order) g xs = xs"
    if "order \<notin> es_signOrder ` set xs" for xs
    by (rule update_where_id) (use that in auto)
  then show ?thesis using assms by auto
qed

lemma chainEnd_append:
  "chainEnd x (a @ b) = (case chainEnd x a of None \<Rightarrow> None | Some y \<Rightarrow> chainEnd y b)"
  by (induction a arbitrary: x) auto

lemma filter_signed:
  assumes "\<forall>s\<in>set past. es_status s = SSigned" "\<forall>s\<in>set rest. es_status s = SPending"
  shows "filter (\<lambda>s. es_status s = SSigned) (past @ rest) = past"
    "filter (\<lambda>s. es_status s = SSigned) (past @ x # rest) =
       (if es_status x = SSigned then past @ [x] else past)"
proof -
  have "filter (\<lambda>s. es_status s = SSigned) past = past" "filter (\<lambda>s. es_status s = SSigned) rest = []"
    using assms by (induction past, auto simp: filter_empty_conv)
  then show "filter (\<lambda>s. es_status s = SSigned) (past @ rest) = past"
    "filter (\<lambda>s. es_status s = SSigned) (past @ x # rest) =
       (if es_status x = SSigned then past @ [x] else past)" by simp_all
qed

section \<open>The keys of an envelope\<close>

definition ownKey :: "string \<Rightarrow> string \<Rightarrow> bool" where
  "ownKey code key \<longleftrightarrow>
     (let parts = splitOn CHR ''/'' key in 3 < length parts \<and> hd parts = ''signatures'' \<and> parts ! 3 = code)"

lemma ownKey_unique: "ownKey c k \<Longrightarrow> ownKey d k \<Longrightarrow> c = d"
  by (auto simp: ownKey_def Let_def)

lemma checked_Inr [res_simps]: "checked v p = Inr w \<longleftrightarrow> w = v \<and> p v \<and> \<not> includesText v ''..''"
  by (auto simp: checked_def)

lemma plain_parts:
  "YEAR s \<Longrightarrow> CHR ''/'' \<notin> set s" "VERIFICATION_CODE s \<Longrightarrow> CHR ''/'' \<notin> set s"
proof -
  have slash: "\<not> isDigit CHR ''/''" "\<not> isLetter CHR ''/''"
    by (simp_all add: isDigit_def isLetter_def)
  show "YEAR s \<Longrightarrow> CHR ''/'' \<notin> set s" using slash by (auto simp: YEAR_def list_all_iff)
  show "VERIFICATION_CODE s \<Longrightarrow> CHR ''/'' \<notin> set s"
    using slash by (auto simp: VERIFICATION_CODE_def list_all_iff alnum_def)
qed

lemma uuid_plain: "KEY_UUID s \<Longrightarrow> CHR ''/'' \<notin> set s"
proof
  assume uuid: "KEY_UUID s" and "CHR ''/'' \<in> set s"
  then obtain i where i: "i < length s" "s ! i = CHR ''/''" by (auto simp: in_set_conv_nth)
  then have "(i, CHR ''/'') \<in> set (zip [0..<36] s)"
    using uuid by (auto simp: KEY_UUID_def in_set_zip intro!: exI [of _ i])
  then show False using uuid
    by (auto simp: KEY_UUID_def list_all_iff hexLower_def isDigit_def split: if_splits)
qed

lemma signatureFolder_Inr:
  "signatureFolder createdAt documentId code = Inr folder \<Longrightarrow>
   ownKey code (folder @ CHR ''/'' # name)"
proof -
  assume "signatureFolder createdAt documentId code = Inr folder"
  then obtain year where year: "YEAR year" "KEY_UUID documentId" "VERIFICATION_CODE code"
    and folder: "folder = ''signatures/'' @ year @ ''/'' @ documentId @ ''/'' @ code"
    by (auto simp: signatureFolder_def storageYear_def res_simps)
  have "splitOn CHR ''/'' (folder @ CHR ''/'' # name) =
      splitOn CHR ''/'' (''signatures'' @ CHR ''/'' # year @ CHR ''/'' # documentId @ CHR ''/'' # code @
        CHR ''/'' # name)"
    by (simp add: folder)
  also have "\<dots> = [''signatures'', year, documentId, code] @ splitOn CHR ''/'' name"
    using splitOn_free [OF plain_parts(1) [OF year(1)]] splitOn_free [OF uuid_plain [OF year(2)]]
      splitOn_free [OF plain_parts(2) [OF year(3)]]
    by (simp only: splitOn_append) simp
  finally show ?thesis by (simp add: ownKey_def)
qed

lemma assertSafe_id: "assertSafeStorageKey k = Inr k' \<Longrightarrow> k' = k"
  by (auto simp: assertSafeStorageKey_def split: if_splits)

lemma prepared_own:
  "signaturePreparedPdfKey createdAt documentId code prefix = Inr key \<Longrightarrow> ownKey code key"
  using signatureFolder_Inr [of createdAt documentId code _ "''v0'' @ _ @ ''.pdf''"]
  by (auto simp: signaturePreparedPdfKey_def res_simps dest!: assertSafe_id)

lemma rubric_own: "signatureRubricKey createdAt documentId code order = Inr key \<Longrightarrow> ownKey code key"
  using signatureFolder_Inr [of createdAt documentId code _ "''rubrica-'' @ showInt order @ ''.png''"]
  by (auto simp: signatureRubricKey_def positiveInt_def res_simps dest!: assertSafe_id)

lemma stamped_own: "signatureStampedPdfKey createdAt documentId code order = Inr key \<Longrightarrow> ownKey code key"
  using signatureFolder_Inr [of createdAt documentId code _ "''v'' @ showInt order @ ''.pdf''"]
  by (auto simp: signatureStampedPdfKey_def positiveInt_def res_simps dest!: assertSafe_id)

lemma key_extensions:
  "signaturePreparedPdfKey createdAt documentId code prefix = Inr key \<Longrightarrow> endsWith key ''.pdf''"
  "signatureStampedPdfKey createdAt documentId code order = Inr key \<Longrightarrow> endsWith key ''.pdf''"
  "signatureRubricKey createdAt documentId code order = Inr key \<Longrightarrow> endsWith key ''.png''"
  using endsWith_append [of _ "''.pdf''"] endsWith_append [of _ "''.png''"]
  by (auto simp: signaturePreparedPdfKey_def signatureStampedPdfKey_def signatureRubricKey_def
      positiveInt_def res_simps endsWith_iff dest!: assertSafe_id)

lemma different_extensions: "endsWith a ''.pdf'' \<Longrightarrow> endsWith b ''.png'' \<Longrightarrow> a \<noteq> b"
  by (auto simp: endsWith_iff)

section \<open>The invariant\<close>

definition envelopeOk :: "pdfTools \<Rightarrow> files \<Rightarrow> envelope \<Rightarrow> envelopeSigner list \<Rightarrow> bool" where
  "envelopeOk tools fs e rows \<longleftrightarrow>
     shapeOf (ev_status e) rows \<and>
     chainEnd (ev_preparedPdfSha256 e) (filter (\<lambda>s. es_status s = SSigned) rows) = Some (ev_currentPdfSha256 e) \<and>
     assertSafeStorageKey (ev_currentPdfKey e) = Inr (ev_currentPdfKey e) \<and>
     ownKey (ev_verificationCode e) (ev_currentPdfKey e) \<and> endsWith (ev_currentPdfKey e) ''.pdf'' \<and>
     map_option (pt_sha256 tools) (fs (ev_currentPdfKey e)) = Some (ev_currentPdfSha256 e)"

definition turnKeys :: "envelopeSigner list \<Rightarrow> (string \<times> int) list" where
  "turnKeys rows = map (\<lambda>s. (es_envelopeId s, es_signOrder s)) rows"

definition signInv :: "pdfTools \<Rightarrow> (nat \<Rightarrow> string) \<Rightarrow> db \<times> files \<Rightarrow> bool" where
  "signInv tools uuid s \<longleftrightarrow>
     (let db = fst s in
      distinct (map ev_id (db_envelopes db)) \<and> distinct (map ev_verificationCode (db_envelopes db)) \<and>
      distinct (turnKeys (db_envelopeSigners db)) \<and>
      ev_id ` set (db_envelopes db) \<subseteq> uuid ` {..<db_seq db} \<and>
      es_envelopeId ` set (db_envelopeSigners db) \<subseteq> ev_id ` set (db_envelopes db) \<and>
      (\<forall>e\<in>set (db_envelopes db). envelopeOk tools (snd s) e (envelopeSigners db (ev_id e))))"

lemma envelopeSigners_rows [simp]:
  "set (envelopeSigners db ref) = {s \<in> set (db_envelopeSigners db). es_envelopeId s = ref}"
  by (auto simp: envelopeSigners_def)

lemma envelopeSigners_distinct:
  assumes "distinct (turnKeys (db_envelopeSigners db))"
  shows "distinct (map es_signOrder (envelopeSigners db ref))"
proof -
  have rows: "distinct (filter (\<lambda>s. es_envelopeId s = ref) (db_envelopeSigners db))"
    using assms by (auto simp: turnKeys_def distinct_map)
  have "inj_on es_signOrder (set (filter (\<lambda>s. es_envelopeId s = ref) (db_envelopeSigners db)))"
    using assms unfolding turnKeys_def distinct_map by (auto simp: inj_on_def)
  then show ?thesis using rows by (auto simp: envelopeSigners_def distinct_map)
qed

lemma envelopeOk_files:
  assumes "envelopeOk tools fs e rows" "fs' (ev_currentPdfKey e) = fs (ev_currentPdfKey e)"
  shows "envelopeOk tools fs' e rows"
  using assms by (simp add: envelopeOk_def)

lemma envelopeOk_other_key:
  assumes "envelopeOk tools fs e rows" "\<not> ownKey (ev_verificationCode e) key"
  shows "envelopeOk tools (fs(key \<mapsto> body)) e rows"
  by (rule envelopeOk_files [OF assms(1)]) (use assms in \<open>auto simp: envelopeOk_def\<close>)

lemma find_envelope:
  assumes "signInv tools uuid (db, fs)" "findEnvelope db ref = Inr e"
  shows "e \<in> set (db_envelopes db)" "ev_id e = ref" "envelopeOk tools fs e (envelopeSigners db (ev_id e))"
    "distinct (map es_signOrder (envelopeSigners db (ev_id e)))"
proof -
  show e: "e \<in> set (db_envelopes db)" "ev_id e = ref"
    using assms(2) find_SomeD [of _ "db_envelopes db"]
    by (auto simp: findEnvelope_def split: option.splits)
  show "envelopeOk tools fs e (envelopeSigners db (ev_id e))"
    using assms(1) e(1) unfolding signInv_def Let_def by simp
  show "distinct (map es_signOrder (envelopeSigners db (ev_id e)))"
    using assms(1) envelopeSigners_distinct by (simp add: signInv_def Let_def)
qed

text \<open>
  A step that rewrites one envelope and its turns and writes files below the envelope's own folder
  keeps the invariant when the envelope it leaves is well formed.
\<close>

lemma signInv_rewrite:
  assumes inv: "signInv tools uuid (db, fs)" and e: "e \<in> set (db_envelopes db)"
    and envelopes: "db_envelopes db' = update_where (\<lambda>x. ev_id x = ev_id e) f (db_envelopes db)"
    and keeps: "\<And>x. ev_id (f x) = ev_id x" "\<And>x. ev_verificationCode (f x) = ev_verificationCode x"
    and turns: "turnKeys (db_envelopeSigners db') = turnKeys (db_envelopeSigners db)"
    and others: "\<And>ref. ref \<noteq> ev_id e \<Longrightarrow> envelopeSigners db' ref = envelopeSigners db ref"
    and seq: "db_seq db' = db_seq db"
    and files: "\<And>k. fs' k \<noteq> fs k \<Longrightarrow> ownKey (ev_verificationCode e) k"
    and ok: "envelopeOk tools fs' (f e) (envelopeSigners db' (ev_id e))"
  shows "signInv tools uuid (db', fs')"
proof -
  have ids: "map ev_id (db_envelopes db') = map ev_id (db_envelopes db)"
    "map ev_verificationCode (db_envelopes db') = map ev_verificationCode (db_envelopes db)"
    by (simp_all add: envelopes map_update_where keeps)
  have d: "distinct (map ev_id (db_envelopes db))" "distinct (map ev_verificationCode (db_envelopes db))"
    and each: "\<And>x. x \<in> set (db_envelopes db) \<Longrightarrow> envelopeOk tools fs x (envelopeSigners db (ev_id x))"
    using inv by (simp_all add: signInv_def Let_def)
  have owners: "es_envelopeId ` set (db_envelopeSigners db') = es_envelopeId ` set (db_envelopeSigners db)"
    using arg_cong [OF turns, of "\<lambda>l. fst ` set l"] by (simp add: turnKeys_def image_image)
  have "envelopeOk tools fs' x (envelopeSigners db' (ev_id x))" if x: "x \<in> set (db_envelopes db')" for x
  proof -
    obtain y where y: "y \<in> set (db_envelopes db)" "x = (if ev_id y = ev_id e then f y else y)"
      using x by (auto simp: envelopes in_update_where)
    show ?thesis
    proof (cases "ev_id y = ev_id e")
      case True
      then have "y = e" using d(1) y(1) e by (auto simp: distinct_map dest: inj_onD)
      then show ?thesis using ok y keeps by simp
    next
      case False
      then have "ev_verificationCode y \<noteq> ev_verificationCode e"
        using d(2) y(1) e by (auto simp: distinct_map dest: inj_onD)
      moreover have "ownKey (ev_verificationCode y) (ev_currentPdfKey y)"
        using each [OF y(1)] by (simp add: envelopeOk_def)
      ultimately have "fs' (ev_currentPdfKey y) = fs (ev_currentPdfKey y)"
        using files ownKey_unique by blast
      then show ?thesis using False y others envelopeOk_files [OF each [OF y(1)]] by simp
    qed
  qed
  moreover have "ev_id ` set (db_envelopes db') = ev_id ` set (db_envelopes db)"
    using arg_cong [OF ids(1), of set] by simp
  ultimately show ?thesis using inv ids owners turns seq unfolding signInv_def Let_def fst_conv snd_conv
    by (intro conjI) (simp_all only: conj_assoc, blast+)
qed

lemma ibind_Inl:
  "ibind m k fs = (Inl e, fs2) \<longleftrightarrow>
     m fs = (Inl e, fs2) \<or> (\<exists>x fs1. m fs = (Inr x, fs1) \<and> k x fs1 = (Inl e, fs2))"
  by (auto simp: ibind_def split: prod.splits sum.splits)

lemma putObject_Inl: "putObject key body fs = (Inl e, fs') \<Longrightarrow> fs' = fs"
  by (auto simp: putObject_def split: sum.splits if_splits)

lemma getObject_files: "getObject key fs = (r, fs') \<Longrightarrow> fs' = fs"
  by (simp add: getObject_def)

lemma currentPdf_files: "currentPdf tools e fs = (r, fs') \<Longrightarrow> fs' = fs"
  by (auto simp: currentPdf_def ibind_def getObject_def split: sum.splits prod.splits)

lemma currentPdf_Inr: "currentPdf tools e fs = (Inr content, fs') \<Longrightarrow>
    fs (ev_currentPdfKey e) = Some content \<and> pt_sha256 tools content = ev_currentPdfSha256 e \<and> fs' = fs"
  by (auto simp: currentPdf_def res_simps)

text \<open>What a successful capture did, and what a failed one may leave in the storage.\<close>

lemma capture_Inr:
  assumes "capture tools env ref c db fs = (Inr db', fs')"
  obtains e signer rubricKey key stamped current createdAt where
    "isPng (cp_rubricPng c)" "length (cp_rubricPng c) \<le> MAX_RUBRIC_BYTES" "findEnvelope db ref = Inr e"
    "nextSigner e (envelopeSigners db (ev_id e)) (cp_order c) (cp_signerPersonId c) = Inr signer"
    "fs (ev_currentPdfKey e) = Some current" "pt_sha256 tools current = ev_currentPdfSha256 e"
    "signatureRubricKey createdAt (ev_documentId e) (ev_verificationCode e) (cp_order c) = Inr rubricKey"
    "signatureStampedPdfKey createdAt (ev_documentId e) (ev_verificationCode e) (cp_order c) = Inr key"
    "assertSafeStorageKey key = Inr key"
    "fs' = fs(rubricKey \<mapsto> cp_rubricPng c, key \<mapsto> stamped)"
    "db' = writeCapture tools env e (envelopeSigners db (ev_id e)) c rubricKey key stamped db"
  using assms unfolding capture_def Let_def
  by (clarsimp simp: res_simps dest!: currentPdf_Inr split: if_splits)

lemma capture_Inl:
  assumes "capture tools env ref c db fs = (Inl f, fs')"
  shows "fs' = fs \<or> (\<exists>e createdAt key. findEnvelope db ref = Inr e \<and> fs' = fs(key \<mapsto> cp_rubricPng c) \<and>
    signatureRubricKey createdAt (ev_documentId e) (ev_verificationCode e) (cp_order c) = Inr key)"
  using assms
  by (auto simp: capture_def Let_def ibind_Inl putObject_Inr dest!: currentPdf_files putObject_Inl split: if_splits)

lemma turnKeys_update:
  assumes "\<And>s. es_envelopeId (g s) = es_envelopeId s" "\<And>s. es_signOrder (g s) = es_signOrder s"
  shows "turnKeys (update_where p g rows) = turnKeys rows"
  by (simp add: turnKeys_def map_update_where assms)

lemma envelopeSigners_other:
  assumes "\<And>s. es_envelopeId (g s) = es_envelopeId s" "ref' \<noteq> ref"
    and "db_envelopeSigners db' = update_where (\<lambda>s. es_envelopeId s = ref \<and> es_signOrder s = order) g
      (db_envelopeSigners db)"
  shows "envelopeSigners db' ref' = envelopeSigners db ref'"
proof -
  have "filter (\<lambda>s. es_envelopeId s = ref') (db_envelopeSigners db') =
      filter (\<lambda>s. es_envelopeId s = ref') (db_envelopeSigners db)"
    unfolding assms(3) by (rule filter_update_where_other) (use assms in auto)
  then show ?thesis by (simp add: envelopeSigners_def)
qed

lemma envelopeSigners_own:
  assumes "\<And>s. es_envelopeId (g s) = es_envelopeId s" "\<And>s. es_signOrder (g s) = es_signOrder s"
    and "db_envelopeSigners db' = update_where p g (db_envelopeSigners db)"
  shows "envelopeSigners db' ref = update_where p g (envelopeSigners db ref)"
  unfolding envelopeSigners_def assms(3) by (rule envelopeSigners_update) (rule assms)+

lemma markSigned_keys [simp]:
  "es_envelopeId (markSigned t env e c k h s) = es_envelopeId s"
  "es_signOrder (markSigned t env e c k h s) = es_signOrder s"
  "es_status (markSigned t env e c k h s) = SSigned"
  "es_pdfSha256Before (markSigned t env e c k h s) = Some (ev_currentPdfSha256 e)"
  "es_pdfSha256After (markSigned t env e c k h s) = Some h"
  "es_personId (markSigned t env e c k h s) = es_personId s"
  by (simp_all add: markSigned_def Let_def)

definition hashes :: "pdfTools \<Rightarrow> bool" where
  "hashes tools \<longleftrightarrow> (\<forall>body. pt_sha256 tools body \<noteq> [])"

lemma writeCapture_frame:
  "db_envelopeSigners (writeCapture tools env e rows c rk key stamped db) = update_where
     (\<lambda>s. es_envelopeId s = ev_id e \<and> es_signOrder s = cp_order c)
     (markSigned tools env e c rk (pt_sha256 tools stamped)) (db_envelopeSigners db)"
  "db_seq (writeCapture tools env e rows c rk key stamped db) = db_seq db"
  by (simp_all add: writeCapture_def Let_def)

lemma pending_others:
  assumes "rows = past @ s # rest" "distinct (map es_signOrder rows)" "es_signOrder s = order"
    and "\<forall>x\<in>set past. es_status x = SSigned" "\<forall>x\<in>set rest. es_status x = SPending"
  shows "length (filter (\<lambda>x. es_status x \<noteq> SSigned \<and> es_signOrder x \<noteq> order) rows) = length rest"
proof -
  have "filter (\<lambda>x. es_status x \<noteq> SSigned \<and> es_signOrder x \<noteq> order) past = []"
    using assms(4) by (auto simp: filter_empty_conv)
  moreover have "filter (\<lambda>x. es_status x \<noteq> SSigned \<and> es_signOrder x \<noteq> order) rest = rest"
    using assms by (auto simp: filter_id_conv image_iff)
  ultimately show ?thesis using assms(1,3) by simp
qed

lemma capture_turns:
  assumes inv: "signInv tools uuid (db, fs)" and run: "capture tools env ref c db fs = (Inr db', fs')"
  obtains e signer past rest rubricKey key stamped where
    "findEnvelope db ref = Inr e" "ev_status e = EPending"
    "envelopeSigners db (ev_id e) = past @ signer # rest"
    "\<forall>x\<in>set past. es_status x = SSigned" "\<forall>x\<in>set (signer # rest). es_status x = SPending"
    "es_signOrder signer = cp_order c" "es_personId signer = Some (cp_signerPersonId c)"
    "envelopeSigners db' (ev_id e) =
       past @ markSigned tools env e c rubricKey (pt_sha256 tools stamped) signer # rest"
    "db_envelopes db' = update_where (\<lambda>x. ev_id x = ev_id e)
       (\<lambda>x. x\<lparr>ev_currentPdfKey := key, ev_currentPdfSha256 := pt_sha256 tools stamped,
         ev_status := (if rest = [] then ECompleted else ev_status x),
         ev_completedAt := (if rest = [] then Some (e_now env) else ev_completedAt x)\<rparr>) (db_envelopes db)"
    "fs' = fs(rubricKey \<mapsto> cp_rubricPng c, key \<mapsto> stamped)" "assertSafeStorageKey key = Inr key"
    "ownKey (ev_verificationCode e) key" "ownKey (ev_verificationCode e) rubricKey" "endsWith key ''.pdf''"
    "db' = writeCapture tools env e (envelopeSigners db (ev_id e)) c rubricKey key stamped db"
proof -
  obtain e signer rubricKey key stamped current createdAt where found: "findEnvelope db ref = Inr e"
    and turn: "nextSigner e (envelopeSigners db (ev_id e)) (cp_order c) (cp_signerPersonId c) = Inr signer"
    and keys: "signatureRubricKey createdAt (ev_documentId e) (ev_verificationCode e) (cp_order c) = Inr rubricKey"
      "signatureStampedPdfKey createdAt (ev_documentId e) (ev_verificationCode e) (cp_order c) = Inr key"
      "assertSafeStorageKey key = Inr key"
    and files: "fs' = fs(rubricKey \<mapsto> cp_rubricPng c, key \<mapsto> stamped)"
    and db': "db' = writeCapture tools env e (envelopeSigners db (ev_id e)) c rubricKey key stamped db"
    by (rule capture_Inr [OF run])
  let ?rows = "envelopeSigners db (ev_id e)"
  note e = find_envelope [OF inv found]
  have pending: "ev_status e = EPending" using turn by (auto simp: nextSigner_def split: if_splits)
  then have "openShape ?rows" using e(3) by (simp add: envelopeOk_def shapeOf_def)
  from nextSigner_Inr [OF turn this e(4)] obtain past rest where rows: "?rows = past @ signer # rest"
    "\<forall>x\<in>set past. es_status x = SSigned" "\<forall>x\<in>set rest. es_status x = SPending"
    and s: "es_signOrder signer = cp_order c" "es_personId signer = Some (cp_signerPersonId c)"
      "es_status signer = SPending" by blast
  have ids: "\<forall>x\<in>set ?rows. es_envelopeId x = ev_id e" by simp
  have own: "envelopeSigners db' (ev_id e) =
      past @ markSigned tools env e c rubricKey (pt_sha256 tools stamped) signer # rest"
    using update_one_turn [OF rows(1) e(4) ids s(1)] envelopeSigners_own [OF _ _ writeCapture_frame(1)] db'
    by simp
  have env': "db_envelopes db' = update_where (\<lambda>x. ev_id x = ev_id e)
       (\<lambda>x. x\<lparr>ev_currentPdfKey := key, ev_currentPdfSha256 := pt_sha256 tools stamped,
         ev_status := (if rest = [] then ECompleted else ev_status x),
         ev_completedAt := (if rest = [] then Some (e_now env) else ev_completedAt x)\<rparr>) (db_envelopes db)"
    using pending_others [OF rows(1) e(4) s(1) rows(2,3)] by (simp add: db' writeCapture_def Let_def)
  show thesis
    by (rule that [OF found pending rows(1,2) _ s(1,2) own env' files keys(3) stamped_own [OF keys(2)]
          rubric_own [OF keys(1)] key_extensions(2) [OF keys(2)] db']) (use rows s in auto)
qed

lemma capture_keeps:
  assumes inv: "signInv tools uuid (db, fs)" and run: "capture tools env ref c db fs = (Inr db', fs')"
    and hash: "hashes tools"
  shows "signInv tools uuid (db', fs')"
proof -
  from capture_turns [OF inv run] obtain e signer past rest rubricKey key stamped where
    found: "findEnvelope db ref = Inr e" and pending: "ev_status e = EPending"
    and rows: "envelopeSigners db (ev_id e) = past @ signer # rest"
    and past: "\<forall>x\<in>set past. es_status x = SSigned" and rest: "\<forall>x\<in>set (signer # rest). es_status x = SPending"
    and own: "envelopeSigners db' (ev_id e) =
       past @ markSigned tools env e c rubricKey (pt_sha256 tools stamped) signer # rest"
    and env': "db_envelopes db' = update_where (\<lambda>x. ev_id x = ev_id e)
       (\<lambda>x. x\<lparr>ev_currentPdfKey := key, ev_currentPdfSha256 := pt_sha256 tools stamped,
         ev_status := (if rest = [] then ECompleted else ev_status x),
         ev_completedAt := (if rest = [] then Some (e_now env) else ev_completedAt x)\<rparr>) (db_envelopes db)"
    and files: "fs' = fs(rubricKey \<mapsto> cp_rubricPng c, key \<mapsto> stamped)"
    and keys: "assertSafeStorageKey key = Inr key" "ownKey (ev_verificationCode e) key"
      "ownKey (ev_verificationCode e) rubricKey" "endsWith key ''.pdf''"
    and db': "db' = writeCapture tools env e (envelopeSigners db (ev_id e)) c rubricKey key stamped db"
    by (rule capture_turns [OF inv run]) (rule that; assumption)
  note e = find_envelope [OF inv found]
  let ?s = "markSigned tools env e c rubricKey (pt_sha256 tools stamped) signer"
  have chain: "chainEnd (ev_preparedPdfSha256 e) past = Some (ev_currentPdfSha256 e)"
    using e(3) rows past rest filter_signed(1) [OF past, of "signer # rest"] by (simp add: envelopeOk_def)
  have signed: "filter (\<lambda>x. es_status x = SSigned) (past @ ?s # rest) = past @ [?s]"
    using filter_signed(2) [OF past, of rest ?s] rest by simp
  have "openShape (past @ ?s # rest)" unfolding openShape_def
    by (rule exI [of _ "past @ [?s]"], rule exI [of _ rest]) (use past rest in auto)
  then have shape: "shapeOf (if rest = [] then ECompleted else EPending) (past @ ?s # rest)"
    using past rest by (cases rest) (auto simp: shapeOf_def)
  show ?thesis
  proof (rule signInv_rewrite [OF inv e(1) env'])
    show "turnKeys (db_envelopeSigners db') = turnKeys (db_envelopeSigners db)"
      by (simp add: db' writeCapture_frame turnKeys_update)
    show "envelopeSigners db' r = envelopeSigners db r" if "r \<noteq> ev_id e" for r
      by (rule envelopeSigners_other [OF _ that, where g = "markSigned tools env e c rubricKey (pt_sha256 tools stamped)"])
        (simp_all add: db' writeCapture_frame)
    show "db_seq db' = db_seq db" by (simp add: db' writeCapture_frame)
    show "ownKey (ev_verificationCode e) k" if "fs' k \<noteq> fs k" for k
      using that keys files by (auto split: if_splits)
    show "envelopeOk tools fs' (e\<lparr>ev_currentPdfKey := key, ev_currentPdfSha256 := pt_sha256 tools stamped,
         ev_status := (if rest = [] then ECompleted else ev_status e),
         ev_completedAt := (if rest = [] then Some (e_now env) else ev_completedAt e)\<rparr>)
        (envelopeSigners db' (ev_id e))"
      using shape chain signed keys files hash pending
      by (cases "rest = []") (simp_all add: envelopeOk_def own chainEnd_append hashes_def)
  qed simp_all
qed

lemma capture_failed_keeps:
  assumes inv: "signInv tools uuid (db, fs)" and run: "capture tools env ref c db fs = (Inl f, fs')"
  shows "signInv tools uuid (db, fs')"
proof (cases "fs' = fs")
  case False
  from capture_Inl [OF run] False obtain e createdAt key where found: "findEnvelope db ref = Inr e"
    and files: "fs' = fs(key \<mapsto> cp_rubricPng c)"
    and key: "signatureRubricKey createdAt (ev_documentId e) (ev_verificationCode e) (cp_order c) = Inr key"
    by blast
  note e = find_envelope [OF inv found]
  have "ev_currentPdfKey e \<noteq> key"
    using e(3) key_extensions(3) [OF key] different_extensions by (auto simp: envelopeOk_def)
  then have ok: "envelopeOk tools fs' e (envelopeSigners db (ev_id e))"
    by (intro envelopeOk_files [OF e(3)]) (simp add: files)
  show ?thesis
    by (rule signInv_rewrite [OF inv e(1), where f = "\<lambda>x. x"])
      (use ok rubric_own [OF key] in \<open>auto simp: files update_where_def split: if_splits\<close>)
qed (use inv in simp)

lemma markRejected_keys [simp]:
  "es_envelopeId (markRejected env e r s) = es_envelopeId s"
  "es_signOrder (markRejected env e r s) = es_signOrder s"
  "es_status (markRejected env e r s) = SRejected"
  by (simp_all add: markRejected_def Let_def)

lemma reject_turns:
  assumes inv: "signInv tools uuid (db, fs)" and run: "rejectEnvelope env ref r db = Inr db'"
  shows "signInv tools uuid (db', fs)"
proof -
  from run obtain e signer where found: "findEnvelope db ref = Inr e"
    and turn: "nextSigner e (envelopeSigners db (ev_id e)) (rj_order r) (rj_signerPersonId r) = Inr signer"
    and turns: "db_envelopeSigners db' = update_where
      (\<lambda>s. es_envelopeId s = ev_id e \<and> es_signOrder s = rj_order r) (markRejected env e r) (db_envelopeSigners db)"
    and env': "db_envelopes db' = update_where (\<lambda>x. ev_id x = ev_id e)
      (\<lambda>x. x\<lparr>ev_status := ERejected, ev_completedAt := Some (e_now env)\<rparr>) (db_envelopes db)"
    and seq: "db_seq db' = db_seq db"
    by (auto simp: rejectEnvelope_def res_simps)
  let ?g = "markRejected env e r"
  note g = markRejected_keys(1,2,3) [of env e r]
  let ?rows = "envelopeSigners db (ev_id e)"
  note e = find_envelope [OF inv found]
  have pending: "ev_status e = EPending" using turn by (auto simp: nextSigner_def split: if_splits)
  then have "openShape ?rows" using e(3) by (simp add: envelopeOk_def shapeOf_def)
  from nextSigner_Inr [OF turn this e(4)] obtain past rest where rows: "?rows = past @ signer # rest"
    "\<forall>x\<in>set past. es_status x = SSigned" "\<forall>x\<in>set rest. es_status x = SPending"
    and s: "es_signOrder signer = rj_order r" "es_status signer = SPending" by blast
  have own: "envelopeSigners db' (ev_id e) = past @ ?g signer # rest"
    using update_one_turn [OF rows(1) e(4) _ s(1)] envelopeSigners_own [OF g(1,2) turns] by simp
  have chain: "filter (\<lambda>s. es_status s = SSigned) (past @ ?g signer # rest) =
      filter (\<lambda>s. es_status s = SSigned) ?rows"
    using rows filter_signed(2) [OF rows(2,3)] g(3) s(2) by simp
  have shape: "shapeOf ERejected (past @ ?g signer # rest)"
    unfolding shapeOf_def envelopeStatus.case
    by (rule exI [of _ past], rule exI [of _ "?g signer"], rule exI [of _ rest]) (use rows g(3) in simp)
  show ?thesis
  proof (rule signInv_rewrite [OF inv e(1) env'])
    show "turnKeys (db_envelopeSigners db') = turnKeys (db_envelopeSigners db)"
      using turnKeys_update [of ?g] g by (simp add: turns)
    show "envelopeSigners db' x = envelopeSigners db x" if "x \<noteq> ev_id e" for x
      by (rule envelopeSigners_other [OF g(1) that turns])
    show "envelopeOk tools fs (e\<lparr>ev_status := ERejected, ev_completedAt := Some (e_now env)\<rparr>)
        (envelopeSigners db' (ev_id e))"
      using e(3) shape chain own by (simp add: envelopeOk_def)
  qed (simp_all add: seq)
qed

lemma void_keeps:
  assumes inv: "signInv tools uuid (db, fs)"
  shows "signInv tools uuid (voidEnvelope env ref db, fs)"
proof (cases "\<exists>e\<in>set (db_envelopes db). ev_id e = ref \<and> ev_status e = EPending")
  case False
  then have "voidEnvelope env ref db = db"
    by (simp add: voidEnvelope_def update_where_id)
  then show ?thesis using inv by simp
next
  case True
  then obtain e where e: "e \<in> set (db_envelopes db)" "ev_id e = ref" "ev_status e = EPending" by blast
  let ?f = "\<lambda>e. e\<lparr>ev_status := EVoided, ev_completedAt := Some (e_now env)\<rparr>"
  have d: "distinct (map ev_id (db_envelopes db))" using inv by (simp add: signInv_def Let_def)
  have open_row: "ev_status x = EPending" if "x \<in> set (db_envelopes db)" "ev_id x = ref" for x
  proof -
    have "x = e" using d e(1,2) that by (auto simp: distinct_map dest: inj_onD)
    then show ?thesis using e(3) by simp
  qed
  have env': "db_envelopes (voidEnvelope env ref db) = update_where (\<lambda>x. ev_id x = ev_id e) ?f (db_envelopes db)"
    unfolding voidEnvelope_def update_where_def e(2) using open_row by simp
  have "envelopeOk tools fs e (envelopeSigners db (ev_id e))"
    using inv e(1) unfolding signInv_def Let_def by simp
  then have ok: "envelopeOk tools fs (?f e) (envelopeSigners db (ev_id e))"
    using e(3) by (simp add: envelopeOk_def shapeOf_def)
  have same: "db_seq (voidEnvelope env ref db) = db_seq db"
    "db_envelopeSigners (voidEnvelope env ref db) = db_envelopeSigners db"
    by (simp_all add: voidEnvelope_def)
  then have rows: "envelopeSigners (voidEnvelope env ref db) r = envelopeSigners db r" for r
    by (simp add: envelopeSigners_def)
  show ?thesis
    by (rule signInv_rewrite [OF inv e(1) env']) (use ok in \<open>simp_all add: same rows\<close>)
qed

lemma updateTurn_keys:
  "turnKeys (updateTurn ref rows q) = turnKeys rows"
  "map es_status (updateTurn ref rows q) = map es_status rows"
  by (simp_all add: updateTurn_def turnKeys_def map_update_where reassignTurn_def)

lemma updateTurn_filter:
  "ref' \<noteq> ref \<Longrightarrow> filter (\<lambda>s. es_envelopeId s = ref') (updateTurn ref rows q) =
    filter (\<lambda>s. es_envelopeId s = ref') rows"
  unfolding updateTurn_def by (rule filter_update_where_other) (auto simp: reassignTurn_def)

lemma updateTurn_status:
  "s \<in> set (updateTurn ref rows q) \<Longrightarrow>
     \<exists>t\<in>set rows. es_status s = es_status t \<and> es_envelopeId s = es_envelopeId t"
  by (auto simp: updateTurn_def in_update_where reassignTurn_def split: if_splits)

lemma updateTurns_frame:
  "turnKeys (foldl (updateTurn ref) rows qs) = turnKeys rows"
  "ref' \<noteq> ref \<Longrightarrow> filter (\<lambda>s. es_envelopeId s = ref') (foldl (updateTurn ref) rows qs) =
     filter (\<lambda>s. es_envelopeId s = ref') rows"
  "s \<in> set (foldl (updateTurn ref) rows qs) \<Longrightarrow>
     \<exists>t\<in>set rows. es_status s = es_status t \<and> es_envelopeId s = es_envelopeId t"
proof (induction qs arbitrary: rows)
  case (Cons q qs)
  { case 1 then show ?case using Cons.IH(1) by (simp add: updateTurn_keys) }
  { case 2 then show ?case using Cons.IH(2) by (simp add: updateTurn_filter) }
  { case 3 then show ?case using Cons.IH(3) [of "updateTurn ref rows q"] updateTurn_status [of _ ref rows q]
      by fastforce }
qed auto

lemma reissue_Inr:
  assumes "reissue tools ref q db fs = (Inr db', fs')"
  obtains e prepared key where "findEnvelope db ref = Inr e" "ev_status e = EPending"
    "\<forall>s\<in>set (envelopeSigners db (ev_id e)). es_status s = SPending"
    "signaturePreparedPdfKey (rq_documentCreatedAt q) (rq_documentId q) (ev_verificationCode e)
       (Some (take 12 (pt_sha256 tools (rq_pdf q)))) = Inr key"
    "assertSafeStorageKey key = Inr key" "fs' = fs(key \<mapsto> prepared)"
    "db' = writeReissue tools e q key prepared db"
  using assms unfolding reissue_def Let_def
  by (clarsimp simp: res_simps list_ex_iff simp del: envelopeSigners_rows split: if_splits)

lemma reissue_Inl: "reissue tools ref q db fs = (Inl f, fs') \<Longrightarrow> fs' = fs"
  by (auto simp: reissue_def Let_def ibind_Inl dest!: putObject_Inl split: if_splits)

lemma reissue_keeps:
  assumes inv: "signInv tools uuid (db, fs)" and run: "reissue tools ref q db fs = (Inr db', fs')"
  shows "signInv tools uuid (db', fs')"
proof -
  obtain e prepared key where found: "findEnvelope db ref = Inr e" and open_row: "ev_status e = EPending"
    and all: "\<forall>s\<in>set (envelopeSigners db (ev_id e)). es_status s = SPending"
    and key: "signaturePreparedPdfKey (rq_documentCreatedAt q) (rq_documentId q) (ev_verificationCode e)
       (Some (take 12 (pt_sha256 tools (rq_pdf q)))) = Inr key" "assertSafeStorageKey key = Inr key"
    and files: "fs' = fs(key \<mapsto> prepared)" and db': "db' = writeReissue tools e q key prepared db"
    by (rule reissue_Inr [OF run])
  note e = find_envelope [OF inv found]
  let ?f = "\<lambda>x. x\<lparr>ev_originalPdfSha256 := pt_sha256 tools (rq_pdf q),
     ev_preparedPdfSha256 := pt_sha256 tools prepared, ev_currentPdfKey := key,
     ev_currentPdfSha256 := pt_sha256 tools prepared\<rparr>"
  have env': "db_envelopes db' = update_where (\<lambda>x. ev_id x = ev_id e) ?f (db_envelopes db)"
    by (simp add: db' writeReissue_def)
  have turns: "db_envelopeSigners db' = foldl (updateTurn (ev_id e)) (db_envelopeSigners db)
      (sort_key sq_order (rq_signers q))" by (simp add: db' writeReissue_def)
  have pending: "\<forall>s\<in>set (envelopeSigners db' (ev_id e)). es_status s = SPending"
    using all updateTurns_frame(3) [of _ "ev_id e" "db_envelopeSigners db" "sort_key sq_order (rq_signers q)"]
    by (fastforce simp: turns)
  then have none: "filter (\<lambda>s. es_status s = SSigned) (envelopeSigners db' (ev_id e)) = []"
    by (simp add: filter_empty_conv del: envelopeSigners_rows)
  have "openShape (envelopeSigners db' (ev_id e))"
    unfolding openShape_def by (rule exI [of _ "[]"]) (use pending in simp)
  then have shape: "shapeOf EPending (envelopeSigners db' (ev_id e))"
    using pending by (cases "envelopeSigners db' (ev_id e)") (simp_all add: shapeOf_def del: envelopeSigners_rows)
  show ?thesis
  proof (rule signInv_rewrite [OF inv e(1) env'])
    show "turnKeys (db_envelopeSigners db') = turnKeys (db_envelopeSigners db)"
      by (simp add: turns updateTurns_frame)
    show "envelopeSigners db' r = envelopeSigners db r" if "r \<noteq> ev_id e" for r
      using that by (simp add: envelopeSigners_def turns updateTurns_frame)
    show "db_seq db' = db_seq db" by (simp add: db' writeReissue_def)
    show "ownKey (ev_verificationCode e) k" if "fs' k \<noteq> fs k" for k
      using that prepared_own [OF key(1)] by (auto simp: files split: if_splits)
    show "envelopeOk tools fs' (?f e) (envelopeSigners db' (ev_id e))"
      using shape none prepared_own [OF key(1)] key key_extensions(1) [OF key(1)] open_row
      by (simp add: envelopeOk_def files)
  qed simp_all
qed

lemma request_Inr:
  assumes "requestEnvelope tools env code q db fs = (Inr (ref, db'), fs')"
  obtains prepared key where
    "signaturePreparedPdfKey (rq_documentCreatedAt q) (rq_documentId q) code None = Inr key"
    "assertSafeStorageKey key = Inr key" "fs' = fs(key \<mapsto> prepared)"
    "insertEnvelope env q code (pt_sha256 tools (rq_pdf q)) (pt_sha256 tools prepared) key db = Inr (ref, db')"
  using assms unfolding requestEnvelope_def Let_def by (clarsimp simp: res_simps split: if_splits)

lemma request_Inl:
  assumes "requestEnvelope tools env code q db fs = (Inl f, fs')"
  shows "fs' = fs \<or> (\<exists>prepared key. fs' = fs(key \<mapsto> prepared) \<and>
    signaturePreparedPdfKey (rq_documentCreatedAt q) (rq_documentId q) code None = Inr key)"
  using assms
  by (auto simp: requestEnvelope_def Let_def ibind_Inl putObject_Inr dest!: putObject_Inl split: if_splits)

lemma newSigner_fields [simp]:
  "es_envelopeId (newSigner ref q) = ref" "es_signOrder (newSigner ref q) = sq_order q"
  "es_status (newSigner ref q) = SPending"
  by (simp_all add: newSigner_def)

lemma distinct_map_Pair: "distinct (map (Pair u) xs) = distinct xs"
  by (induction xs) auto

lemma fst_set_map_Pair: "fst ` set (map (Pair u) xs) \<subseteq> {u}"
  by auto

lemma fst_disjoint: "u \<notin> fst ` A \<Longrightarrow> fst ` B \<subseteq> {u} \<Longrightarrow> A \<inter> B = {}"
  by force

lemma request_keeps:
  assumes inv: "signInv tools uuid (db, fs)" and uuid: "inj uuid" "e_uuid env = uuid"
    and run: "requestEnvelope tools env code q db fs = (Inr (ref, db'), fs')"
  shows "signInv tools uuid (db', fs')"
proof -
  obtain prepared key where
    key: "signaturePreparedPdfKey (rq_documentCreatedAt q) (rq_documentId q) code None = Inr key"
      "assertSafeStorageKey key = Inr key" and files: "fs' = fs(key \<mapsto> prepared)"
    and insert: "insertEnvelope env q code (pt_sha256 tools (rq_pdf q)) (pt_sha256 tools prepared) key db = Inr (ref, db')"
    by (rule request_Inr [OF run])
  define row where "row = \<lparr>ev_id = uuid (db_seq db), ev_documentId = rq_documentId q,
    ev_verificationCode = code, ev_originalPdfSha256 = pt_sha256 tools (rq_pdf q),
    ev_preparedPdfSha256 = pt_sha256 tools prepared, ev_currentPdfKey = key,
    ev_currentPdfSha256 = pt_sha256 tools prepared, ev_status = EPending, ev_completedAt = None\<rparr>"
  let ?turns = "map (newSigner (uuid (db_seq db))) (sort_key sq_order (rq_signers q))"
  have fresh_code: "code \<notin> ev_verificationCode ` set (db_envelopes db)"
    and orders: "distinct (map sq_order (rq_signers q))"
    and db': "db_envelopes db' = db_envelopes db @ [row]"
      "db_envelopeSigners db' = db_envelopeSigners db @ ?turns" "db_seq db' = Suc (db_seq db)"
    using insert uuid(2)
    by (auto simp: insertEnvelope_def Let_def row_def freshId_def bumpSeq_def list_ex_iff split: if_splits)
  have d: "distinct (map ev_id (db_envelopes db))" "distinct (map ev_verificationCode (db_envelopes db))"
      "distinct (turnKeys (db_envelopeSigners db))"
    and seqs: "ev_id ` set (db_envelopes db) \<subseteq> uuid ` {..<db_seq db}"
    and owners: "es_envelopeId ` set (db_envelopeSigners db) \<subseteq> ev_id ` set (db_envelopes db)"
    and each: "\<And>x. x \<in> set (db_envelopes db) \<Longrightarrow> envelopeOk tools fs x (envelopeSigners db (ev_id x))"
    using inv by (simp_all add: signInv_def Let_def)
  have fresh: "uuid (db_seq db) \<notin> ev_id ` set (db_envelopes db)"
    using seqs uuid(1) by (auto simp: inj_def)
  then have fresh_turns: "uuid (db_seq db) \<notin> es_envelopeId ` set (db_envelopeSigners db)"
    using owners by blast
  have old: "envelopeSigners db' x = envelopeSigners db x" if "x \<noteq> uuid (db_seq db)" for x
    using that by (simp add: envelopeSigners_def db' filter_empty_conv)
  have pending: "\<forall>s\<in>set (envelopeSigners db' (uuid (db_seq db))). es_status s = SPending"
    using fresh_turns by (auto simp: db' image_iff)
  then have none: "filter (\<lambda>s. es_status s = SSigned) (envelopeSigners db' (uuid (db_seq db))) = []"
    by (simp add: filter_empty_conv del: envelopeSigners_rows)
  have "openShape (envelopeSigners db' (uuid (db_seq db)))"
    unfolding openShape_def by (rule exI [of _ "[]"]) (use pending in simp)
  then have "shapeOf EPending (envelopeSigners db' (uuid (db_seq db)))"
    using pending by (cases "envelopeSigners db' (uuid (db_seq db))") (simp_all add: shapeOf_def del: envelopeSigners_rows)
  then have ok: "envelopeOk tools fs' row (envelopeSigners db' (ev_id row))"
    using none prepared_own [OF key(1)] key key_extensions(1) [OF key(1)]
    by (simp add: envelopeOk_def row_def files)
  have others: "envelopeOk tools fs' x (envelopeSigners db' (ev_id x))" if x: "x \<in> set (db_envelopes db)" for x
  proof -
    have "ev_verificationCode x \<noteq> code" using x fresh_code by blast
    then have "\<not> ownKey (ev_verificationCode x) key" using prepared_own [OF key(1)] ownKey_unique by blast
    then have "envelopeOk tools fs' x (envelopeSigners db (ev_id x))"
      using envelopeOk_other_key [OF each [OF x]] by (simp add: files)
    moreover have "ev_id x \<noteq> uuid (db_seq db)" using x fresh by (metis image_eqI)
    ultimately show ?thesis by (simp add: old)
  qed
  define ks where "ks = map sq_order (sort_key sq_order (rq_signers q))"
  have ks: "turnKeys ?turns = map (Pair (uuid (db_seq db))) ks" by (simp add: turnKeys_def ks_def)
  have "distinct ks" using orders by (simp add: ks_def distinct_map)
  then have new: "distinct (turnKeys ?turns)" "fst ` set (turnKeys ?turns) \<subseteq> {uuid (db_seq db)}"
    unfolding ks distinct_map_Pair using fst_set_map_Pair [of "uuid (db_seq db)" ks] by simp_all
  have "fst ` set (turnKeys (db_envelopeSigners db)) = es_envelopeId ` set (db_envelopeSigners db)"
    by (simp add: turnKeys_def image_image)
  then have "set (turnKeys (db_envelopeSigners db)) \<inter> set (turnKeys ?turns) = {}"
    using fresh_turns by (intro fst_disjoint [OF _ new(2)]) simp
  moreover have "turnKeys (db_envelopeSigners db') = turnKeys (db_envelopeSigners db) @ turnKeys ?turns"
    by (simp only: db'(2) turnKeys_def map_append)
  ultimately have keys: "distinct (turnKeys (db_envelopeSigners db'))"
    using d(3) new(1) by simp
  have row: "ev_id row = uuid (db_seq db)" "ev_verificationCode row = code" by (simp_all add: row_def)
  have "distinct (map ev_id (db_envelopes db'))" "distinct (map ev_verificationCode (db_envelopes db'))"
    using d(1,2) fresh fresh_code by (simp_all add: db' row)
  moreover have "ev_id ` set (db_envelopes db') \<subseteq> uuid ` {..<db_seq db'}"
    using seqs by (simp add: db' row lessThan_Suc subset_insertI2)
  moreover have "es_envelopeId ` set (db_envelopeSigners db') \<subseteq> ev_id ` set (db_envelopes db')"
    using owners by (simp add: db' row image_Un image_image subset_insertI2 image_subset_iff)
  moreover have "\<forall>x\<in>set (db_envelopes db'). envelopeOk tools fs' x (envelopeSigners db' (ev_id x))"
    using ok others by (simp add: db'(1))
  ultimately show ?thesis using keys by (simp only: signInv_def Let_def fst_conv snd_conv simp_thms)
qed

lemma request_failed_keeps:
  assumes inv: "signInv tools uuid (db, fs)" and fresh: "code \<notin> ev_verificationCode ` set (db_envelopes db)"
    and run: "requestEnvelope tools env code q db fs = (Inl f, fs')"
  shows "signInv tools uuid (db, fs')"
proof (cases "fs' = fs")
  case False
  from request_Inl [OF run] False obtain prepared key where files: "fs' = fs(key \<mapsto> prepared)"
    and key: "signaturePreparedPdfKey (rq_documentCreatedAt q) (rq_documentId q) code None = Inr key" by blast
  have "envelopeOk tools fs' x (envelopeSigners db (ev_id x))" if x: "x \<in> set (db_envelopes db)" for x
  proof -
    have "ev_verificationCode x \<noteq> code" using x fresh by blast
    then have "\<not> ownKey (ev_verificationCode x) key" using prepared_own [OF key] ownKey_unique by blast
    moreover have "envelopeOk tools fs x (envelopeSigners db (ev_id x))"
      using inv x unfolding signInv_def Let_def by simp
    ultimately show ?thesis using envelopeOk_other_key by (simp add: files)
  qed
  then show ?thesis using inv by (simp add: signInv_def Let_def)
qed (use inv in simp)

section \<open>Reachable states\<close>

text \<open>
  The steps of the provider, each at its own time. A request draws a code no envelope has; the other
  writers of the storage never write below \<open>signatures/\<close>.
\<close>

inductive signingStep :: "pdfTools \<Rightarrow> (nat \<Rightarrow> string) \<Rightarrow> db \<times> files \<Rightarrow> db \<times> files \<Rightarrow> bool"
  for tools uuid where
  requested: "e_uuid env = uuid \<Longrightarrow> requestEnvelope tools env code q db fs = (Inr (ref, db'), fs')
    \<Longrightarrow> signingStep tools uuid (db, fs) (db', fs')"
| request_failed: "code \<notin> ev_verificationCode ` set (db_envelopes db) \<Longrightarrow>
    requestEnvelope tools env code q db fs = (Inl f, fs') \<Longrightarrow> signingStep tools uuid (db, fs) (db, fs')"
| captured: "capture tools env ref c db fs = (Inr db', fs') \<Longrightarrow> signingStep tools uuid (db, fs) (db', fs')"
| capture_failed: "capture tools env ref c db fs = (Inl f, fs') \<Longrightarrow> signingStep tools uuid (db, fs) (db, fs')"
| rejected: "rejectEnvelope env ref r db = Inr db' \<Longrightarrow> signingStep tools uuid (db, fs) (db', fs)"
| voided: "signingStep tools uuid (db, fs) (voidEnvelope env ref db, fs)"
| reissued: "reissue tools ref q db fs = (Inr db', fs') \<Longrightarrow> signingStep tools uuid (db, fs) (db', fs')"
| stored: "\<not> startsWith key ''signatures/'' \<Longrightarrow> putObject key body fs = (Inr (), fs')
    \<Longrightarrow> signingStep tools uuid (db, fs) (db, fs')"

inductive signingReachable :: "pdfTools \<Rightarrow> (nat \<Rightarrow> string) \<Rightarrow> db \<times> files \<Rightarrow> db \<times> files \<Rightarrow> bool"
  for tools uuid start where
  start: "signingReachable tools uuid start start"
| step: "signingReachable tools uuid start s \<Longrightarrow> signingStep tools uuid s t \<Longrightarrow> signingReachable tools uuid start t"

inductive_cases signingStepE: "signingStep tools uuid s t"

lemma splitOn_first: "splitOn sep s = w # v # vs \<Longrightarrow> \<exists>r. s = w @ sep # r"
proof (induction s arbitrary: w)
  case (Cons c cs)
  obtain u us where u: "splitOn sep cs = u # us" by (cases "splitOn sep cs") auto
  show ?case
  proof (cases "c = sep")
    case False
    then have "w = c # u" "us = v # vs" using Cons.prems u by simp_all
    then show ?thesis using Cons.IH [of u] u by auto
  qed (use Cons.prems in auto)
qed simp

lemma ownKey_startsWith:
  assumes "ownKey code key"
  shows "startsWith key ''signatures/''"
proof -
  obtain v vs where "splitOn CHR ''/'' key = ''signatures'' # v # vs"
    using assms by (cases "splitOn CHR ''/'' key"; cases "tl (splitOn CHR ''/'' key)") (auto simp: ownKey_def)
  then obtain r where "key = ''signatures'' @ CHR ''/'' # r" using splitOn_first by blast
  then show ?thesis by (simp add: startsWith_def)
qed

lemma stored_keeps:
  assumes inv: "signInv tools uuid (db, fs)" and key: "\<not> startsWith key ''signatures/''"
  shows "signInv tools uuid (db, fs(key \<mapsto> body))"
proof -
  have "envelopeOk tools (fs(key \<mapsto> body)) x (envelopeSigners db (ev_id x))" if "x \<in> set (db_envelopes db)" for x
    by (rule envelopeOk_other_key)
      (use inv that key ownKey_startsWith in \<open>auto simp: signInv_def Let_def simp del: envelopeSigners_rows\<close>)
  then show ?thesis using inv by (simp add: signInv_def Let_def)
qed

lemma signingStep_keeps:
  assumes "signingStep tools uuid s t" "signInv tools uuid s" "inj uuid" "hashes tools"
  shows "signInv tools uuid t"
  using assms
proof (cases rule: signingStep.cases)
  case requested
  then show ?thesis using request_keeps assms by blast
next
  case request_failed
  then show ?thesis using request_failed_keeps assms by blast
next
  case captured
  then show ?thesis using capture_keeps assms by blast
next
  case capture_failed
  then show ?thesis using capture_failed_keeps assms by blast
next
  case rejected
  then show ?thesis using reject_turns assms by blast
next
  case voided
  then show ?thesis using void_keeps assms by blast
next
  case reissued
  then show ?thesis using reissue_keeps assms by blast
next
  case stored
  then show ?thesis using stored_keeps [of tools uuid] assms by (auto simp: putObject_Inr)
qed

lemma signingReachable_inv:
  assumes "signingReachable tools uuid s t" "signInv tools uuid s" "inj uuid" "hashes tools"
  shows "signInv tools uuid t"
  using assms by (induction rule: signingReachable.induct) (auto intro: signingStep_keeps)

lemma signInv_empty: "db_envelopes db = [] \<Longrightarrow> db_envelopeSigners db = [] \<Longrightarrow> signInv tools uuid (db, fs)"
  by (simp add: signInv_def turnKeys_def)

lemma integrity_ok:
  assumes "envelopeOk tools fs e rows"
  shows "integrity tools fs e rows = Intact"
  using assms by (auto simp: envelopeOk_def integrity_def getObject_def)

text \<open>The abstract envelope: its status, how many turns are signed, and how many there are.\<close>

definition absEnvelope :: "db \<Rightarrow> string \<Rightarrow> (envelopeStatus \<times> nat \<times> nat) option" where
  "absEnvelope db ref =
     map_option (\<lambda>e. (ev_status e,
       length (filter (\<lambda>s. es_status s = SSigned) (envelopeSigners db ref)), length (envelopeSigners db ref)))
     (List.find (\<lambda>e. ev_id e = ref) (db_envelopes db))"

fun absSign :: "envelopeStatus \<times> nat \<times> nat \<Rightarrow> envelopeStatus \<times> nat \<times> nat" where
  "absSign (status, n, m) = (if Suc n = m then ECompleted else status, Suc n, m)"

lemma shapeOf_split:
  assumes "shapeOf status rows"
  shows "\<exists>past rest. rows = past @ rest \<and> (\<forall>x\<in>set past. es_status x = SSigned) \<and>
    (\<forall>x\<in>set (tl rest). es_status x = SPending)"
proof (cases status)
  case ERejected
  then obtain past r rest where "rows = past @ r # rest" "\<forall>x\<in>set past. es_status x = SSigned"
    "\<forall>x\<in>set rest. es_status x = SPending" using assms by (auto simp: shapeOf_def)
  then show ?thesis by (intro exI [of _ past] exI [of _ "r # rest"]) simp
next
  case ECompleted
  then show ?thesis using assms by (intro exI [of _ rows] exI [of _ "[]"]) (simp add: shapeOf_def)
next
  case EPending
  then obtain past rest where "rows = past @ rest" "\<forall>x\<in>set past. es_status x = SSigned"
    "\<forall>x\<in>set rest. es_status x = SPending" using assms by (auto simp: shapeOf_def openShape_def)
  then show ?thesis by (intro exI [of _ past] exI [of _ rest]) (cases rest, simp_all)
next
  case EVoided
  then obtain past rest where "rows = past @ rest" "\<forall>x\<in>set past. es_status x = SSigned"
    "\<forall>x\<in>set rest. es_status x = SPending" using assms by (auto simp: shapeOf_def openShape_def)
  then show ?thesis by (intro exI [of _ past] exI [of _ rest]) (cases rest, simp_all)
qed

lemma turns_before_signed:
  assumes "shapeOf status rows" "sorted (map es_signOrder rows)"
    and "s \<in> set rows" "t \<in> set rows" "es_status s \<noteq> SPending" "es_signOrder t < es_signOrder s"
  shows "es_status t = SSigned"
proof -
  obtain past rest where rows: "rows = past @ rest" and past: "\<forall>x\<in>set past. es_status x = SSigned"
    and rest: "\<forall>x\<in>set (tl rest). es_status x = SPending"
    using shapeOf_split [OF assms(1)] by blast
  have "t \<notin> set rest"
  proof
    assume t: "t \<in> set rest"
    then obtain r rs where r: "rest = r # rs" by (cases rest) auto
    have order: "\<forall>x\<in>set past. es_signOrder x \<le> es_signOrder t" "es_signOrder r \<le> es_signOrder t"
      using t assms(2) by (auto simp: rows r sorted_append)
    have "s \<in> set past \<or> s = r" using assms(3,5) rest by (auto simp: rows r)
    then show False using order assms(6) by auto
  qed
  then show ?thesis using assms(4) past by (auto simp: rows)
qed

lemma signInv_envelope:
  "signInv tools uuid (db, fs) \<Longrightarrow> e \<in> set (db_envelopes db) \<Longrightarrow>
   envelopeOk tools fs e (envelopeSigners db (ev_id e))"
  by (simp add: signInv_def Let_def)

section \<open>Properties\<close>

text \<open>
  C35. In every state the provider can reach from one without envelopes, under any mix of requests,
  signatures, rejections, voids and new issues, successful or not, the public check of an envelope
  answers that it is intact: the chain of hashes joins the prepared file to the current one, and the
  stored file has the hash the row names.
\<close>

theorem envelopes_stay_intact:
  assumes "signingReachable tools uuid (db0, fs0) (db, fs)" "db_envelopes db0 = []"
    "db_envelopeSigners db0 = []" "inj uuid" "hashes tools"
  shows "\<forall>e\<in>set (db_envelopes db). integrity tools fs e (envelopeSigners db (ev_id e)) = Intact"
proof -
  have "signInv tools uuid (db, fs)"
    using signingReachable_inv [OF assms(1) signInv_empty] assms by simp
  then show ?thesis by (intro ballI integrity_ok signInv_envelope)
qed

text \<open>
  C36. Turns are taken in order: in every reachable state a turn that was signed or rejected has every
  earlier turn signed, and an envelope is completed only when all its turns are signed.
\<close>

theorem turns_signed_in_order:
  assumes "signingReachable tools uuid (db0, fs0) (db, fs)" "db_envelopes db0 = []"
    "db_envelopeSigners db0 = []" "inj uuid" "hashes tools" "e \<in> set (db_envelopes db)"
    "s \<in> set (envelopeSigners db (ev_id e))" "t \<in> set (envelopeSigners db (ev_id e))"
  shows "(es_status s \<noteq> SPending \<and> es_signOrder t < es_signOrder s \<longrightarrow> es_status t = SSigned) \<and>
    (ev_status e = ECompleted \<longrightarrow> es_status s = SSigned)"
proof -
  have "signInv tools uuid (db, fs)"
    using signingReachable_inv [OF assms(1) signInv_empty] assms by simp
  then have "envelopeOk tools fs e (envelopeSigners db (ev_id e))"
    using assms(6) by (rule signInv_envelope)
  then have shape: "shapeOf (ev_status e) (envelopeSigners db (ev_id e))" by (simp add: envelopeOk_def)
  have "sorted (map es_signOrder (envelopeSigners db (ev_id e)))" by (simp add: envelopeSigners_def)
  from turns_before_signed [OF shape this assms(7,8)]
  show ?thesis using shape assms(7) by (auto simp: shapeOf_def simp del: envelopeSigners_rows)
qed

text \<open>
  A successful signature refines the abstract envelope: one more turn is signed, the last one
  completes the envelope, and every other envelope is as it was.
\<close>

theorem capture_refines_sign:
  assumes "signInv tools uuid (db, fs)" "capture tools env ref c db fs = (Inr db', fs')"
  shows "absEnvelope db' ref = map_option absSign (absEnvelope db ref) \<and> absEnvelope db ref \<noteq> None \<and>
    (r \<noteq> ref \<longrightarrow> absEnvelope db' r = absEnvelope db r)"
proof -
  from capture_turns [OF assms] obtain e signer past rest rubricKey key stamped where
    found: "findEnvelope db ref = Inr e" and pending: "ev_status e = EPending"
    and rows: "envelopeSigners db (ev_id e) = past @ signer # rest"
    and past: "\<forall>x\<in>set past. es_status x = SSigned" and rest: "\<forall>x\<in>set (signer # rest). es_status x = SPending"
    and own: "envelopeSigners db' (ev_id e) =
       past @ markSigned tools env e c rubricKey (pt_sha256 tools stamped) signer # rest"
    and env': "db_envelopes db' = update_where (\<lambda>x. ev_id x = ev_id e)
       (\<lambda>x. x\<lparr>ev_currentPdfKey := key, ev_currentPdfSha256 := pt_sha256 tools stamped,
         ev_status := (if rest = [] then ECompleted else ev_status x),
         ev_completedAt := (if rest = [] then Some (e_now env) else ev_completedAt x)\<rparr>) (db_envelopes db)"
    and db': "db' = writeCapture tools env e (envelopeSigners db (ev_id e)) c rubricKey key stamped db"
    by (rule capture_turns [OF assms]) (rule that; assumption)
  have e: "List.find (\<lambda>e. ev_id e = ref) (db_envelopes db) = Some e" "ev_id e = ref"
    using found find_SomeD [of _ "db_envelopes db"] by (auto simp: findEnvelope_def split: option.splits)
  have signed: "filter (\<lambda>x. es_status x = SSigned) past = past" "filter (\<lambda>x. es_status x = SSigned) rest = []"
    using past rest by (auto simp: filter_id_conv filter_empty_conv)
  have find': "List.find (\<lambda>e. ev_id e = k) (db_envelopes db') =
      map_option (\<lambda>x. if ev_id x = ev_id e then x\<lparr>ev_currentPdfKey := key,
        ev_currentPdfSha256 := pt_sha256 tools stamped,
        ev_status := (if rest = [] then ECompleted else ev_status x),
        ev_completedAt := (if rest = [] then Some (e_now env) else ev_completedAt x)\<rparr> else x)
      (List.find (\<lambda>e. ev_id e = k) (db_envelopes db))" for k
    unfolding env' by (rule find_update_where_key) simp
  have "absEnvelope db' ref = map_option absSign (absEnvelope db ref) \<and> absEnvelope db ref \<noteq> None"
    using rows own e pending signed rest by (simp add: absEnvelope_def find')
  moreover have "absEnvelope db' r = absEnvelope db r" if "r \<noteq> ref"
  proof -
    have "envelopeSigners db' r = envelopeSigners db r"
      by (rule envelopeSigners_other [where g = "markSigned tools env e c rubricKey (pt_sha256 tools stamped)"
            and ref = "ev_id e" and order = "cp_order c"]) (use that e in \<open>simp_all add: db' writeCapture_frame\<close>)
    moreover have "List.find (\<lambda>e. ev_id e = r) (db_envelopes db') = List.find (\<lambda>e. ev_id e = r) (db_envelopes db)"
      unfolding env' by (rule find_update_where_other) (use that e(2) in auto)
    ultimately show ?thesis by (simp add: absEnvelope_def)
  qed
  ultimately show ?thesis by blast
qed

text \<open>
  C37. A stored file that no longer has the hash of its row stops the next signature, whoever gives it,
  with the tampering error and without touching the tables or the storage, and the public check of the
  envelope stops answering that it is intact.
\<close>

theorem tampered_file_stops_signing:
  assumes "findEnvelope db ref = Inr e" "assertSafeStorageKey (ev_currentPdfKey e) = Inr (ev_currentPdfKey e)"
    "fs (ev_currentPdfKey e) = Some content" "pt_sha256 tools content \<noteq> ev_currentPdfSha256 e"
    "isPng (cp_rubricPng c)" "length (cp_rubricPng c) \<le> MAX_RUBRIC_BYTES"
    "nextSigner e (envelopeSigners db (ev_id e)) (cp_order c) (cp_signerPersonId c) = Inr signer"
  shows "capture tools env ref c db fs = (throw DocumentTampered, fs) \<and>
    integrity tools fs e (envelopeSigners db (ev_id e)) = Altered"
proof -
  have "currentPdf tools e fs = (throw DocumentTampered, fs)"
    using assms by (simp add: currentPdf_def ibind_def getObject_def)
  then show ?thesis using assms
    by (simp add: capture_def Let_def ibind_def ilift_def integrity_def getObject_def split: option.split)
qed

section \<open>Witnesses\<close>

definition sampleTools :: pdfTools where
  "sampleTools = \<lparr>pt_sha256 = (\<lambda>s. CHR ''h'' # s), pt_prepare = (\<lambda>pdf title code h slots. Inr (pdf @ ''+'')),
     pt_stamp = (\<lambda>pdf m. Inr (pdf @ ''*''))\<rparr>"

definition sampleDocId :: string where
  "sampleDocId = ''00000000-0000-4000-8000-0000000000aa''"

definition sampleDocument :: document where
  "sampleDocument = \<lparr>d_id = sampleDocId, d_formatKey = ''F'', d_number = ''1'', d_period = [],
     d_sequenceValue = 1, d_status = DPendingSignature, d_entityType = None, d_entityId = None,
     d_formatVersionId = ''v1'', d_templateVersionId = ''t1'', d_pdfKey = ''k'', d_pdfHash = [],
     d_signedPdfKey = None, d_signatureReference = None, d_createdBy = None,
     d_createdAt = 1767225600000, d_signedAt = None, d_voidedAt = None, d_voidedBy = None,
     d_voidReason = None, d_lifecycleFailedAt = None, d_lifecycleError = None, d_lifecycleAttempts = 0\<rparr>"

definition sampleRequest :: signatureRequest where
  "sampleRequest = \<lparr>rq_documentId = sampleDocId, rq_documentCreatedAt = 1767225600000,
     rq_documentNumber = ''1'', rq_formatKey = ''F'', rq_title = None, rq_pdf = ''pdf'',
     rq_pdfSha256 = ''hpdf'', rq_signers = [
       \<lparr>sq_order = 1, sq_role = ''R'', sq_roleLabel = None, sq_personId = Some ''p1'', sq_name = None,
        sq_documentNumber = None\<rparr>]\<rparr>"

definition sampleCapture :: signatureCapture where
  "sampleCapture = \<lparr>cp_order = 1, cp_signerPersonId = ''p1'', cp_ipAddress = None, cp_userAgent = None,
     cp_evidence = SessionEvidence True ''u1'' ''s1'', cp_rubricPng = PNG_SIGNATURE @ ''x''\<rparr>"

definition signStart :: "db \<times> files" where
  "signStart = (emptyDb\<lparr>db_documents := [sampleDocument]\<rparr>, \<lambda>k. None)"

definition sampleRef :: string where
  "sampleRef = ''00000000-0000-4000-8000-000000000000''"

definition sampleFolder :: string where
  "sampleFolder = ''signatures/2025/'' @ sampleDocId @ ''/abcdefgh''"

definition sampleEnvelope :: envelope where
  "sampleEnvelope = \<lparr>ev_id = sampleRef, ev_documentId = sampleDocId, ev_verificationCode = ''abcdefgh'',
     ev_originalPdfSha256 = ''hpdf'', ev_preparedPdfSha256 = ''hpdf+'',
     ev_currentPdfKey = sampleFolder @ ''/v0.pdf'', ev_currentPdfSha256 = ''hpdf+'', ev_status = EPending,
     ev_completedAt = None\<rparr>"

definition sampleSigner :: envelopeSigner where
  "sampleSigner = newSigner sampleRef (hd (rq_signers sampleRequest))"

definition signRequested :: "db \<times> files" where
  "signRequested = ((fst signStart)\<lparr>db_envelopes := [sampleEnvelope], db_envelopeSigners := [sampleSigner],
     db_seq := 1\<rparr>, [sampleFolder @ ''/v0.pdf'' \<mapsto> ''pdf+''])"

definition signDone :: "db \<times> files" where
  "signDone = (writeCapture sampleTools sampleEnv sampleEnvelope [sampleSigner] sampleCapture
     (sampleFolder @ ''/rubrica-1.png'') (sampleFolder @ ''/v1.pdf'') ''pdf+*'' (fst signRequested),
     (snd signRequested)(sampleFolder @ ''/rubrica-1.png'' \<mapsto> cp_rubricPng sampleCapture,
       sampleFolder @ ''/v1.pdf'' \<mapsto> ''pdf+*''))"

lemma sample_keys:
  "signaturePreparedPdfKey 1767225600000 sampleDocId ''abcdefgh'' None = Inr (sampleFolder @ ''/v0.pdf'')"
  "signatureRubricKey 1767225600000 sampleDocId ''abcdefgh'' 1 = Inr (sampleFolder @ ''/rubrica-1.png'')"
  "signatureStampedPdfKey 1767225600000 sampleDocId ''abcdefgh'' 1 = Inr (sampleFolder @ ''/v1.pdf'')"
  "assertSafeStorageKey (sampleFolder @ ''/v0.pdf'') = Inr (sampleFolder @ ''/v0.pdf'')"
  "assertSafeStorageKey (sampleFolder @ ''/rubrica-1.png'') = Inr (sampleFolder @ ''/rubrica-1.png'')"
  "assertSafeStorageKey (sampleFolder @ ''/v1.pdf'') = Inr (sampleFolder @ ''/v1.pdf'')"
  "isPublicKey (sampleFolder @ ''/v0.pdf'') = False" "isPublicKey (sampleFolder @ ''/rubrica-1.png'') = False"
  "isPublicKey (sampleFolder @ ''/v1.pdf'') = False"
  by code_simp+

lemma sample_rubric: "isPng (cp_rubricPng sampleCapture)" "length (cp_rubricPng sampleCapture) \<le> MAX_RUBRIC_BYTES"
  by (simp_all add: isPng_def PNG_SIGNATURE_def sampleCapture_def MAX_RUBRIC_BYTES_def)

lemma sample_requested:
  "requestEnvelope sampleTools sampleEnv ''abcdefgh'' sampleRequest (fst signStart) (snd signStart) =
     (Inr (sampleRef, fst signRequested), snd signRequested)"
proof -
  have "freshId sampleEnv (fst signStart) = sampleRef"
    by code_simp
  moreover have "pt_sha256 sampleTools (rq_pdf sampleRequest) = rq_pdfSha256 sampleRequest"
    by (simp add: sampleTools_def sampleRequest_def)
  moreover have "insertEnvelope sampleEnv sampleRequest ''abcdefgh'' ''hpdf'' ''hpdf+'' (sampleFolder @ ''/v0.pdf'')
      (fst signStart) = Inr (sampleRef, fst signRequested)"
    using calculation(1)
    by (simp add: insertEnvelope_def signStart_def emptyDb_def sampleRequest_def signRequested_def bumpSeq_def
        sampleEnvelope_def sampleSigner_def Let_def)
  ultimately show ?thesis
    by (simp add: requestEnvelope_def Let_def ibind_def putObject_def sample_keys signRequested_def signStart_def)
      (simp add: sampleTools_def sampleRequest_def sample_keys)
qed

lemma sample_rows: "envelopeSigners (fst signRequested) sampleRef = [sampleSigner]"
  "findEnvelope (fst signRequested) sampleRef = Inr sampleEnvelope"
  "nextSigner sampleEnvelope [sampleSigner] 1 ''p1'' = Inr sampleSigner"
  "documentCreatedAt (fst signRequested) sampleDocId = Inr 1767225600000"
  by (simp_all add: envelopeSigners_def findEnvelope_def signRequested_def signStart_def sampleSigner_def
      sampleEnvelope_def nextSigner_def sampleRequest_def newSigner_def documentCreatedAt_def sampleDocument_def)

lemma sample_captured:
  "capture sampleTools sampleEnv sampleRef sampleCapture (fst signRequested) (snd signRequested) =
     (Inr (fst signDone), snd signDone)"
proof -
  have c: "cp_order sampleCapture = 1" "cp_signerPersonId sampleCapture = ''p1''"
    by (simp_all add: sampleCapture_def)
  have e: "ev_id sampleEnvelope = sampleRef" "ev_documentId sampleEnvelope = sampleDocId"
    "ev_verificationCode sampleEnvelope = ''abcdefgh''"
    by (simp_all add: sampleEnvelope_def)
  have "currentPdf sampleTools sampleEnvelope (snd signRequested) = (Inr ''pdf+'', snd signRequested)"
    by (simp add: currentPdf_def ibind_def getObject_def sample_keys signRequested_def sampleEnvelope_def
        sampleTools_def)
  moreover have "pt_stamp sampleTools ''pdf+'' m = Inr ''pdf+*''" for m by (simp add: sampleTools_def)
  ultimately show ?thesis using sample_rubric
    by (simp add: capture_def sample_rows c e ibind_def sample_keys putObject_def signDone_def Let_def)
qed

lemma sample_turn:
  "\<exists>e s. e \<in> set (db_envelopes (fst signDone)) \<and> ev_status e = ECompleted \<and>
    s \<in> set (envelopeSigners (fst signDone) (ev_id e)) \<and> es_status s = SSigned"
  by (simp add: signDone_def writeCapture_def signRequested_def sampleEnvelope_def sampleSigner_def
      sampleRequest_def sampleCapture_def Let_def signStart_def)

lemma sample_steps:
  "signingReachable sampleTools (e_uuid sampleEnv) signStart signRequested"
  "signingReachable sampleTools (e_uuid sampleEnv) signStart signDone"
proof -
  have "signingStep sampleTools (e_uuid sampleEnv) (fst signStart, snd signStart) (fst signRequested, snd signRequested)"
    by (rule requested [OF refl sample_requested])
  then show first: "signingReachable sampleTools (e_uuid sampleEnv) signStart signRequested"
    unfolding prod.collapse by (rule signingReachable.step [OF signingReachable.start])
  have "signingStep sampleTools (e_uuid sampleEnv) (fst signRequested, snd signRequested) (fst signDone, snd signDone)"
    by (rule captured [OF sample_captured])
  then show "signingReachable sampleTools (e_uuid sampleEnv) signStart signDone"
    unfolding prod.collapse by (rule signingReachable.step [OF first])
qed

lemma sample_hashes: "hashes sampleTools" "inj (e_uuid sampleEnv)"
  using sampleEnv_ok by (simp_all add: hashes_def sampleTools_def envOk_def)

lemma signStart_empty: "db_envelopes (fst signStart) = []" "db_envelopeSigners (fst signStart) = []"
  by (simp_all add: signStart_def emptyDb_def)

lemma sample_reached:
  "signingReachable sampleTools (e_uuid sampleEnv) (fst signStart, snd signStart) (fst signDone, snd signDone)"
  "signInv sampleTools (e_uuid sampleEnv) (fst signRequested, snd signRequested)"
proof -
  show "signingReachable sampleTools (e_uuid sampleEnv) (fst signStart, snd signStart) (fst signDone, snd signDone)"
    unfolding prod.collapse by (rule sample_steps(2))
  have "signInv sampleTools (e_uuid sampleEnv) signStart"
    using signInv_empty [OF signStart_empty, of sampleTools "e_uuid sampleEnv" "snd signStart"]
    unfolding prod.collapse .
  then show "signInv sampleTools (e_uuid sampleEnv) (fst signRequested, snd signRequested)"
    unfolding prod.collapse by (rule signingReachable_inv [OF sample_steps(1) _ sample_hashes(2,1)])
qed

theorem envelopes_stay_intact_witness:
  "\<exists>e\<in>set (db_envelopes (fst signDone)). ev_status e = ECompleted \<and>
     integrity sampleTools (snd signDone) e (envelopeSigners (fst signDone) (ev_id e)) = Intact"
  using sample_turn envelopes_stay_intact [OF sample_reached(1) signStart_empty sample_hashes(2,1)] by blast

theorem turns_signed_in_order_witness:
  "\<exists>e\<in>set (db_envelopes (fst signDone)). \<exists>s\<in>set (envelopeSigners (fst signDone) (ev_id e)).
     ev_status e = ECompleted \<and> es_status s = SSigned"
proof -
  obtain e s where e: "e \<in> set (db_envelopes (fst signDone))" "ev_status e = ECompleted"
    and s: "s \<in> set (envelopeSigners (fst signDone) (ev_id e))" using sample_turn by blast
  have "es_status s = SSigned"
    using turns_signed_in_order [OF sample_reached(1) signStart_empty sample_hashes(2,1) e(1) s s] e(2)
    by (rule mp [OF conjunct2])
  then show ?thesis using e s by blast
qed

theorem capture_refines_sign_witness:
  "absEnvelope (fst signDone) sampleRef = map_option absSign (absEnvelope (fst signRequested) sampleRef)"
  using capture_refines_sign [OF sample_reached(2) sample_captured, of sampleRef] by (rule conjunct1)

theorem tampered_file_stops_signing_witness:
  "capture sampleTools sampleEnv sampleRef sampleCapture (fst signRequested) [sampleFolder @ ''/v0.pdf'' \<mapsto> ''forged''] =
     (throw DocumentTampered, [sampleFolder @ ''/v0.pdf'' \<mapsto> ''forged''])"
proof -
  let ?fs = "[sampleFolder @ ''/v0.pdf'' \<mapsto> ''forged'']"
  have e: "ev_currentPdfKey sampleEnvelope = sampleFolder @ ''/v0.pdf''" "ev_id sampleEnvelope = sampleRef"
    "pt_sha256 sampleTools ''forged'' \<noteq> ev_currentPdfSha256 sampleEnvelope"
    by (simp_all add: sampleEnvelope_def sampleTools_def)
  have turn: "nextSigner sampleEnvelope (envelopeSigners (fst signRequested) (ev_id sampleEnvelope))
      (cp_order sampleCapture) (cp_signerPersonId sampleCapture) = Inr sampleSigner"
    by (simp add: sample_rows e(2)) (simp add: sample_rows sampleCapture_def)
  show ?thesis
    by (rule conjunct1 [OF tampered_file_stops_signing [where fs = ?fs and content = "''forged''",
          OF sample_rows(2) _ _ e(3) sample_rubric turn]])
      (simp_all add: e(1) sample_keys)
qed

end
