(* ===== verification/SigningLinks.thy ===== *)
theory SigningLinks
  imports Envelope
begin

text \<open>
  Who may take a turn, and how: the channel of a person
  (src/src/modules/documents/domain/signing-channel.ts), the one-time links of
  src/src/modules/documents/services/signing-link.service.ts, and the operations of
  document-engine.service.ts that confirm the identity behind a link and act through it.

  A link is a small state machine: it waits to be sent, is sent or fails, expires, is consumed or is
  invalidated. The random secrets and the mail transport are arguments. Sending a link is a transaction that
  claims it, the mail, and an update that records the result: both \<open>dispatchOne\<close> as a whole and its two
  writes apart are steps, so anything may happen while the mail is under way. SKIP LOCKED, which lets two
  workers share the outbox, is not modelled: a claim sees every row that is due.
\<close>

section \<open>Channels\<close>

definition requiresMfa :: "string \<Rightarrow> bool" where
  "requiresMfa role = (role \<in> set MFA_REQUIRED_ROLES)"

definition SIGNING_LINK_TTL_HOURS :: int where "SIGNING_LINK_TTL_HOURS = 72"
definition MAX_IDENTITY_ATTEMPTS :: nat where "MAX_IDENTITY_ATTEMPTS = 5"
definition IDENTITY_AUTHORIZATION_MINUTES :: int where "IDENTITY_AUTHORIZATION_MINUTES = 10"
definition MAX_LINK_SEND_ATTEMPTS :: nat where "MAX_LINK_SEND_ATTEMPTS = 3"
definition LINK_SEND_RETRY_MINUTES :: int where "LINK_SEND_RETRY_MINUTES = 5"

definition lastFourDigits :: "string option \<Rightarrow> string option" where
  "lastFourDigits documentNumber =
     (let ds = filter isDigit (or_keep documentNumber []) in
      if 4 \<le> length ds then Some (drop (length ds - 4) ds) else None)"

record signerCandidate =
  sc_personId :: string
  sc_personActive :: bool
  sc_email :: "string option"
  sc_documentNumber :: "string option"
  sc_userStatus :: "userStatus option"
  sc_mfaEnabled :: bool

text \<open>A turn has a channel, or the code that says why it has none.\<close>

type_synonym turnChannel = "error_code + signatureMethod"

definition channelFor :: "string \<Rightarrow> signerCandidate option \<Rightarrow> turnChannel" where
  "channelFor role candidate =
     (case candidate of
        None \<Rightarrow> Inl SignatureSignerUnassigned
      | Some c \<Rightarrow>
          if \<not> sc_personActive c then Inl SignatureSignerInactive
          else
            (let hasUser = (sc_userStatus c = Some UActive) in
             if requiresMfa role then
               (if \<not> hasUser then Inl SignatureNoChannel
                else if sc_mfaEnabled c then Inr SessionMfa
                else Inl SignatureMfaRequired)
             else if hasUser then Inr (if sc_mfaEnabled c then SessionMfa else Session)
             else if falsy (map_option trim (sc_email c)) then Inl SignatureNoChannel
             else if lastFourDigits (sc_documentNumber c) = None then Inl SignatureNoIdentityCheck
             else Inr EmailLink))"

text \<open>\<open>candidate\<close>: the person joined with the user, if there is one.\<close>

definition candidateOf :: "db \<Rightarrow> string option \<Rightarrow> signerCandidate option" where
  "candidateOf db personId =
     (if falsy personId then None
      else (case List.find (\<lambda>p. pe_id p = the personId) (db_persons db) of
          None \<Rightarrow> None
        | Some p \<Rightarrow>
            (let user = List.find (\<lambda>u. u_personId u = personId) (db_users db) in
             Some \<lparr>sc_personId = pe_id p, sc_personActive = pe_isActive p, sc_email = pe_email p,
               sc_documentNumber = pe_documentNumber p, sc_userStatus = map_option u_status user,
               sc_mfaEnabled = (case user of None \<Rightarrow> False | Some u \<Rightarrow> u_mfaEnabled u)\<rparr>)))"

definition channelOf :: "db \<Rightarrow> string \<Rightarrow> string option \<Rightarrow> turnChannel" where
  "channelOf db role personId = channelFor role (candidateOf db personId)"

section \<open>The current turn\<close>

definition documentSlots :: "db \<Rightarrow> string \<Rightarrow> documentSignature list" where
  "documentSlots db documentId =
     sort_key ds_signOrder (filter (\<lambda>s. ds_documentId s = documentId) (db_signatures db))"

definition findDocument :: "db \<Rightarrow> string \<Rightarrow> document option" where
  "findDocument db documentId = List.find (\<lambda>d. d_id d = documentId) (db_documents db)"

definition documentRow :: "db \<Rightarrow> string \<Rightarrow> document res" where
  "documentRow db documentId =
     (case findDocument db documentId of None \<Rightarrow> throw ResourceNotFound | Some d \<Rightarrow> Inr d)"

definition currentTurn :: "db \<Rightarrow> string \<Rightarrow> documentSignature option" where
  "currentTurn db documentId =
     (let slots = documentSlots db documentId in
      if map_option d_status (findDocument db documentId) \<noteq> Some DPendingSignature \<or>
         list_ex (\<lambda>s. ds_status s = SRejected) slots then None
      else List.find (\<lambda>s. ds_status s = SPending) slots)"

section \<open>Links\<close>

datatype signingLinkState = LSPendingSend | LSSent | LSSendFailed | LSExpired | LSConsumed | LSInvalidated

definition linkState :: "signingLink \<Rightarrow> int \<Rightarrow> signingLinkState" where
  "linkState l now =
     (if sl_consumedAt l \<noteq> None then LSConsumed
      else if sl_invalidatedAt l \<noteq> None then LSInvalidated
      else if (case sl_expiresAt l of None \<Rightarrow> False | Some t \<Rightarrow> t \<le> now) then LSExpired
      else (case sl_deliveryStatus l of
          SendFailed \<Rightarrow> LSSendFailed | PendingSend \<Rightarrow> LSPendingSend | LinkSent \<Rightarrow> LSSent))"

definition openLink :: "signingLink \<Rightarrow> bool" where
  "openLink l = (sl_consumedAt l = None \<and> sl_invalidatedAt l = None)"

definition newLink :: "env \<Rightarrow> string \<Rightarrow> string \<Rightarrow> int \<Rightarrow> string \<Rightarrow> string \<Rightarrow> signingLink" where
  "newLink env k documentId order personId email =
     \<lparr>sl_id = k, sl_documentId = documentId, sl_signOrder = order, sl_personId = personId,
      sl_email = email, sl_tokenHash = None, sl_deliveryStatus = PendingSend, sl_sendAttempts = 0,
      sl_sendStartedAt = None, sl_lastSendError = None, sl_sentAt = None, sl_expiresAt = None,
      sl_identityAttempts = 0, sl_identityConfirmedAt = None, sl_authorizationHash = None,
      sl_authorizationExpiresAt = None, sl_consumedAt = None, sl_consumedAction = None,
      sl_invalidatedAt = None, sl_invalidatedReason = None, sl_createdAt = e_now env\<rparr>"

text \<open>The unique index: one open link per turn.\<close>

definition openLinkFor :: "db \<Rightarrow> string \<Rightarrow> int \<Rightarrow> bool" where
  "openLinkFor db documentId order =
     list_ex (\<lambda>l. sl_documentId l = documentId \<and> sl_signOrder l = order \<and> openLink l) (db_links db)"

definition insertLink :: "env \<Rightarrow> string \<Rightarrow> int \<Rightarrow> string \<Rightarrow> string \<Rightarrow> db \<Rightarrow> db" where
  "insertLink env documentId order personId email db =
     bumpSeq (db\<lparr>db_links := db_links db @ [newLink env (freshId env db) documentId order personId email]\<rparr>)"

definition invalidateLinks ::
  "env \<Rightarrow> string \<Rightarrow> linkInvalidation \<Rightarrow> int option \<Rightarrow> db \<Rightarrow> db" where
  "invalidateLinks env documentId reason order db =
     db\<lparr>db_links := update_where
          (\<lambda>l. sl_documentId l = documentId \<and> openLink l \<and>
             (case order of None \<Rightarrow> True | Some o' \<Rightarrow> sl_signOrder l = o'))
          (\<lambda>l. l\<lparr>sl_invalidatedAt := Some (e_now env), sl_invalidatedReason := Some reason,
             sl_authorizationHash := None, sl_authorizationExpiresAt := None\<rparr>) (db_links db)\<rparr>"

text \<open>The transaction of \<open>refresh\<close>: links of past turns close, and the current turn gets one.\<close>

definition closePastTurns :: "env \<Rightarrow> string \<Rightarrow> documentSignature option \<Rightarrow> db \<Rightarrow> db" where
  "closePastTurns env documentId current db =
     db\<lparr>db_links := update_where
          (\<lambda>l. sl_documentId l = documentId \<and> openLink l \<and>
             (case current of None \<Rightarrow> True
              | Some s \<Rightarrow> sl_signOrder l \<noteq> ds_signOrder s \<or> Some (sl_personId l) \<noteq> ds_signerPersonId s))
          (\<lambda>l. l\<lparr>sl_invalidatedAt := Some (e_now env), sl_invalidatedReason := Some TurnChanged\<rparr>)
          (db_links db)\<rparr>"

definition refreshLink :: "env \<Rightarrow> string \<Rightarrow> db \<Rightarrow> db" where
  "refreshLink env documentId db =
     (let current = currentTurn db documentId;
          db1 = closePastTurns env documentId current db
      in case current of
           None \<Rightarrow> db1
         | Some s \<Rightarrow>
             if falsy (ds_signerPersonId s) then db1
             else
               (let candidate = candidateOf db1 (ds_signerPersonId s);
                    email = Option.bind candidate sc_email
                in if channelFor (ds_role s) candidate \<noteq> Inr EmailLink \<or> falsy email then db1
                   else if list_ex (\<lambda>l. sl_documentId l = documentId \<and> sl_signOrder l = ds_signOrder s \<and>
                      Some (sl_personId l) = ds_signerPersonId s \<and>
                      sl_invalidatedReason l \<noteq> Some Reassigned) (db_links db1) then db1
                   else if openLinkFor db1 documentId (ds_signOrder s) then db1
                   else insertLink env documentId (ds_signOrder s) (the (ds_signerPersonId s)) (the email) db1))"

text \<open>The transaction of \<open>resend\<close>.\<close>

definition resendLink :: "env \<Rightarrow> string \<Rightarrow> int \<Rightarrow> db \<Rightarrow> db res" where
  "resendLink env documentId order db =
     (case currentTurn db documentId of
        None \<Rightarrow> throw SignatureLinkNotApplicable
      | Some s \<Rightarrow>
          if ds_signOrder s \<noteq> order then throw SignatureLinkNotApplicable
          else
            (let candidate = candidateOf db (ds_signerPersonId s);
                 email = Option.bind candidate sc_email
             in case channelFor (ds_role s) candidate of
                  Inl code \<Rightarrow> throw code
                | Inr channel \<Rightarrow>
                    if channel \<noteq> EmailLink \<or> falsy email then throw SignatureLinkNotApplicable
                    else
                      (let db1 = invalidateLinks env documentId Resent (Some order) db in
                       if openLinkFor db1 documentId order then throwError
                       else Inr (insertLink env documentId order (the (ds_signerPersonId s)) (the email) db1))))"

section \<open>Sending\<close>

definition MINUTE :: int where "MINUTE = 60000"

definition dueLink :: "int \<Rightarrow> signingLink \<Rightarrow> bool" where
  "dueLink now l =
     (openLink l \<and>
      (sl_deliveryStatus l = PendingSend \<or>
       sl_deliveryStatus l = SendFailed \<and> sl_sendAttempts l < MAX_LINK_SEND_ATTEMPTS) \<and>
      (case sl_sendStartedAt l of None \<Rightarrow> True | Some t \<Rightarrow> t < now - LINK_SEND_RETRY_MINUTES * MINUTE))"

text \<open>The claim: the row is due, its document and person exist, and it gets its token.\<close>

definition claimLink :: "env \<Rightarrow> string \<Rightarrow> string \<Rightarrow> db \<Rightarrow> (signingLink \<times> db) option res" where
  "claimLink env k tokenHash db =
     (case List.find (\<lambda>l. sl_id l = k \<and> dueLink (e_now env) l \<and>
         findDocument db (sl_documentId l) \<noteq> None \<and>
         list_ex (\<lambda>p. pe_id p = sl_personId l) (db_persons db)) (db_links db) of
        None \<Rightarrow> Inr None
      | Some l \<Rightarrow>
          if list_ex (\<lambda>x. sl_tokenHash x = Some tokenHash \<and> sl_id x \<noteq> k) (db_links db) then throwError
          else Inr (Some (l, db\<lparr>db_links := update_where (\<lambda>x. sl_id x = k)
            (\<lambda>x. x\<lparr>sl_tokenHash := Some tokenHash, sl_sendStartedAt := Some (e_now env),
               sl_sendAttempts := Suc (sl_sendAttempts x),
               sl_expiresAt := Some (e_now env + SIGNING_LINK_TTL_HOURS * 60 * MINUTE)\<rparr>)
            (db_links db)\<rparr>)))"

definition finishLink :: "env \<Rightarrow> string \<Rightarrow> string \<Rightarrow> string option \<Rightarrow> db \<Rightarrow> db" where
  "finishLink env k tokenHash error db =
     db\<lparr>db_links := update_where (\<lambda>l. sl_id l = k \<and> sl_tokenHash l = Some tokenHash)
          (\<lambda>l. l\<lparr>sl_deliveryStatus := (if error = None then LinkSent else SendFailed),
             sl_sentAt := (if error = None then Some (e_now env) else sl_sentAt l),
             sl_lastSendError := error\<rparr>) (db_links db)\<rparr>"

datatype dispatchOutcome = DispatchSent | DispatchFailed | DispatchSkipped

text \<open>
  \<open>mailError\<close> is the transport: no error when the message was accepted. A claim that throws rolls
  back and counts as failed.
\<close>

definition dispatchOne ::
  "env \<Rightarrow> (signingLink \<Rightarrow> string option) \<Rightarrow> string \<Rightarrow> string \<Rightarrow> db \<Rightarrow> dispatchOutcome \<times> db" where
  "dispatchOne env mailError tokenHash k db =
     (case claimLink env k tokenHash db of
        Inl e \<Rightarrow> (DispatchFailed, db)
      | Inr None \<Rightarrow> (DispatchSkipped, db)
      | Inr (Some (l, db1)) \<Rightarrow>
          (let error = mailError l in
           (if error = None then DispatchSent else DispatchFailed, finishLink env k tokenHash error db1)))"

definition dueIds :: "int \<Rightarrow> nat \<Rightarrow> string option \<Rightarrow> db \<Rightarrow> string list" where
  "dueIds now limit documentId db =
     take limit (map sl_id (sort_key sl_createdAt (filter
       (\<lambda>l. dueLink now l \<and> (documentId = None \<or> documentId = Some (sl_documentId l))) (db_links db))))"

definition dispatchPending ::
  "env \<Rightarrow> (signingLink \<Rightarrow> string option) \<Rightarrow> (string \<Rightarrow> string) \<Rightarrow> nat \<Rightarrow> string option \<Rightarrow> db
     \<Rightarrow> nat \<times> nat \<times> db" where
  "dispatchPending env mailError tokenHash limit documentId db =
     foldl (\<lambda>(sent, failed, d) k.
        case dispatchOne env mailError (tokenHash k) k d of
          (outcome, d') \<Rightarrow> (sent + (if outcome = DispatchSent then 1 else 0),
            failed + (if outcome = DispatchFailed then 1 else 0), d'))
       (0, 0, db) (dueIds (e_now env) limit documentId db)"

section \<open>Identity and action through a link\<close>

definition findByToken :: "(string \<Rightarrow> string) \<Rightarrow> db \<Rightarrow> string \<Rightarrow> signingLink option" where
  "findByToken sha256Hex db token =
     List.find (\<lambda>l. sl_tokenHash l = Some (sha256Hex token)) (db_links db)"

datatype publicLinkStatus = PLActive | PLExpired | PLConsumed | PLInvalidated

record linkContext =
  lx_link :: signingLink
  lx_document :: document
  lx_current :: "documentSignature option"
  lx_status :: publicLinkStatus

definition publicStatus :: "int \<Rightarrow> signingLink \<Rightarrow> documentSignature option \<Rightarrow> publicLinkStatus" where
  "publicStatus now l current =
     (case linkState l now of
        LSConsumed \<Rightarrow> PLConsumed
      | LSInvalidated \<Rightarrow> PLInvalidated
      | LSExpired \<Rightarrow> PLExpired
      | _ \<Rightarrow>
          (case current of
             None \<Rightarrow> PLInvalidated
           | Some s \<Rightarrow>
               if ds_signOrder s = sl_signOrder l \<and> ds_signerPersonId s = Some (sl_personId l) \<and>
                  \<not> requiresMfa (ds_role s) \<and> sl_expiresAt l \<noteq> None
               then PLActive else PLInvalidated))"

definition linkContextOf :: "(string \<Rightarrow> string) \<Rightarrow> env \<Rightarrow> db \<Rightarrow> string \<Rightarrow> linkContext res" where
  "linkContextOf sha256Hex env db token =
     (case findByToken sha256Hex db token of
        None \<Rightarrow> throw ResourceNotFound
      | Some l \<Rightarrow>
          rbind (documentRow db (sl_documentId l)) (\<lambda>d.
            (let current = currentTurn db (sl_documentId l) in
             Inr \<lparr>lx_link = l, lx_document = d, lx_current = current,
                  lx_status = publicStatus (e_now env) l current\<rparr>)))"

definition activeLink :: "(string \<Rightarrow> string) \<Rightarrow> env \<Rightarrow> db \<Rightarrow> string \<Rightarrow> linkContext res" where
  "activeLink sha256Hex env db token =
     rbind (linkContextOf sha256Hex env db token) (\<lambda>x.
       if lx_status x \<noteq> PLActive \<or> lx_current x = None then throw SignatureLinkUnavailable else Inr x)"

text \<open>\<open>last4.padEnd(4).slice(0, 4)\<close>\<close>

definition padEndFour :: "string \<Rightarrow> string" where
  "padEndFour s = take 4 (s @ replicate (4 - length s) CHR '' '')"

text \<open>
  \<open>confirmSigningLinkIdentity\<close>: the wrong answers are counted in a transaction that commits before
  the error is thrown, so the result comes with the database it left.
\<close>

definition confirmIdentity ::
  "(string \<Rightarrow> string) \<Rightarrow> env \<Rightarrow> string \<Rightarrow> string \<Rightarrow> string \<Rightarrow> db \<Rightarrow> int res \<times> db" where
  "confirmIdentity sha256Hex env identityToken token last4 db =
     (case activeLink sha256Hex env db token of
        Inl e \<Rightarrow> (Inl e, db)
      | Inr x \<Rightarrow>
          (let l = lx_link x;
               person = List.find (\<lambda>p. pe_id p = sl_personId l) (db_persons db)
           in case lastFourDigits (Option.bind person pe_documentNumber) of
                None \<Rightarrow> (throw SignatureNoIdentityCheck, db)
              | Some expected \<Rightarrow>
                  if padEndFour last4 \<noteq> expected then
                    (let attempts = Suc (sl_identityAttempts l);
                         locked = (MAX_IDENTITY_ATTEMPTS \<le> attempts)
                     in (if locked then throw SignatureIdentityLocked else throw SignatureIdentityMismatch,
                         db\<lparr>db_links := update_where (\<lambda>y. sl_id y = sl_id l)
                           (\<lambda>y. y\<lparr>sl_identityAttempts := attempts,
                              sl_invalidatedAt := (if locked then Some (e_now env) else None),
                              sl_invalidatedReason := (if locked then Some AttemptsExceeded else None),
                              sl_authorizationHash := None, sl_authorizationExpiresAt := None\<rparr>)
                           (db_links db)\<rparr>))
                  else
                    (let expiresAt = e_now env + IDENTITY_AUTHORIZATION_MINUTES * MINUTE in
                     (Inr expiresAt,
                      db\<lparr>db_links := update_where (\<lambda>y. sl_id y = sl_id l)
                        (\<lambda>y. y\<lparr>sl_identityConfirmedAt := Some (e_now env),
                           sl_authorizationHash := Some (sha256Hex identityToken),
                           sl_authorizationExpiresAt := Some expiresAt\<rparr>) (db_links db)\<rparr>))))"

definition authorizedLink :: "(string \<Rightarrow> string) \<Rightarrow> int \<Rightarrow> string \<Rightarrow> signingLink \<Rightarrow> bool" where
  "authorizedLink sha256Hex now identityToken l =
     (sl_identityConfirmedAt l \<noteq> None \<and> sl_authorizationHash l \<noteq> None \<and>
      (case sl_authorizationExpiresAt l of None \<Rightarrow> False | Some t \<Rightarrow> now < t) \<and>
      sl_authorizationHash l = Some (sha256Hex identityToken))"

text \<open>The CHECK \<open>chk_signing_link_consumed\<close> of the table.\<close>

definition linkConsumedCheck :: "signingLink \<Rightarrow> bool" where
  "linkConsumedCheck l \<longleftrightarrow> (sl_consumedAt l = None \<and> sl_consumedAction l = None) \<or>
     (sl_consumedAt l \<noteq> None \<and> sl_consumedAction l \<in> {Some LinkSigned, Some LinkRejected} \<and> sl_identityConfirmedAt l \<noteq> None)"

definition consumeLink :: "env \<Rightarrow> string \<Rightarrow> linkAction \<Rightarrow> db \<Rightarrow> db" where
  "consumeLink env k action db =
     db\<lparr>db_links := update_where (\<lambda>l. sl_id l = k)
          (\<lambda>l. l\<lparr>sl_consumedAt := Some (e_now env), sl_consumedAction := Some action,
             sl_authorizationHash := None, sl_authorizationExpiresAt := None\<rparr>) (db_links db)\<rparr>"

definition actByLink ::
  "(string \<Rightarrow> string) \<Rightarrow> env \<Rightarrow> string \<Rightarrow> string \<Rightarrow> linkAction
     \<Rightarrow> (db \<Rightarrow> signingLink \<Rightarrow> string \<Rightarrow> db io) \<Rightarrow> db \<Rightarrow> (string \<times> db) io" where
  "actByLink sha256Hex env token identityToken action perform db =
     ibind (ilift (activeLink sha256Hex env db token)) (\<lambda>x.
     if \<not> authorizedLink sha256Hex (e_now env) identityToken (lx_link x)
     then ilift (throw SignatureIdentityRequired)
     else (case d_signatureReference (lx_document x) of
         None \<Rightarrow> ilift (throw InvalidState)
       | Some reference \<Rightarrow>
           ibind (perform db (lx_link x) reference) (\<lambda>db1.
             ilift (Inr (d_id (lx_document x), consumeLink env (sl_id (lx_link x)) action db1)))))"

definition linkEvidence :: "env \<Rightarrow> signingLink \<Rightarrow> signerEvidence" where
  "linkEvidence env l =
     LinkEvidence (sl_id l) (sl_email l) (sl_sentAt l) (or_keep (sl_identityConfirmedAt l) (e_now env))"

definition signByLink ::
  "pdfTools \<Rightarrow> (string \<Rightarrow> string) \<Rightarrow> env \<Rightarrow> string \<Rightarrow> string \<Rightarrow> string \<Rightarrow> string option \<Rightarrow> string option
     \<Rightarrow> db \<Rightarrow> (string \<times> db) io" where
  "signByLink tools sha256Hex env token identityToken rubricPng ipAddress userAgent =
     actByLink sha256Hex env token identityToken LinkSigned (\<lambda>db l reference.
       capture tools env reference \<lparr>cp_order = sl_signOrder l, cp_signerPersonId = sl_personId l,
         cp_ipAddress = ipAddress, cp_userAgent = userAgent, cp_evidence = linkEvidence env l,
         cp_rubricPng = rubricPng\<rparr> db)"

definition rejectByLink ::
  "(string \<Rightarrow> string) \<Rightarrow> env \<Rightarrow> string \<Rightarrow> string \<Rightarrow> string \<Rightarrow> string option \<Rightarrow> string option
     \<Rightarrow> db \<Rightarrow> (string \<times> db) io" where
  "rejectByLink sha256Hex env token identityToken reason ipAddress userAgent =
     actByLink sha256Hex env token identityToken LinkRejected (\<lambda>db l reference.
       ilift (rejectEnvelope env reference \<lparr>rj_order = sl_signOrder l, rj_signerPersonId = sl_personId l,
         rj_ipAddress = ipAddress, rj_userAgent = userAgent, rj_evidence = linkEvidence env l,
         rj_reason = reason\<rparr> db))"

text \<open>\<open>signingLinkView\<close>: what the holder of a link sees of its state.\<close>

definition identityAttemptsRemaining :: "signingLink \<Rightarrow> nat" where
  "identityAttemptsRemaining l = MAX_IDENTITY_ATTEMPTS - sl_identityAttempts l"

section \<open>Turns taken in a session\<close>

record sessionActor =
  sa_id :: string
  sa_personId :: "string option"
  sa_sessionId :: "string option"

text \<open>
  \<open>signerBlocker\<close>: why the actor cannot take the turn, or the method of the session.
  \<open>activeSession\<close> is the query that joins the session family with its active user, and
  \<open>mfaSession\<close> whether the session was opened with the second factor.
\<close>

definition signerBlocker ::
  "(string \<Rightarrow> string \<Rightarrow> bool) \<Rightarrow> (string \<Rightarrow> string \<Rightarrow> bool) \<Rightarrow> documentStatus \<Rightarrow> documentSignature list \<Rightarrow> int
     \<Rightarrow> sessionActor \<Rightarrow> error_code + signatureMethod" where
  "signerBlocker activeSession mfaSession status slots order actor =
     (if status \<noteq> DPendingSignature \<or> list_ex (\<lambda>s. ds_status s = SRejected) slots then Inl InvalidState
      else (case List.find (\<lambda>s. ds_signOrder s = order) slots of
          None \<Rightarrow> Inl ResourceNotFound
        | Some slot \<Rightarrow>
            if ds_status slot \<noteq> SPending then Inl InvalidState
            else if falsy (ds_signerPersonId slot) then Inl SignatureSignerUnassigned
            else if ds_signerPersonId slot \<noteq> sa_personId actor then Inl SignatureNotDesignatedSigner
            else if map_option ds_signOrder (List.find (\<lambda>s. ds_status s = SPending) slots) \<noteq> Some order
            then Inl SignatureOutOfOrder
            else if falsy (sa_sessionId actor) \<or> \<not> activeSession (sa_id actor) (the (sa_sessionId actor))
            then Inl SignatureSessionInvalid
            else
              (let mfa = mfaSession (sa_id actor) (the (sa_sessionId actor)) in
               if requiresMfa (ds_role slot) \<and> \<not> mfa then Inl SignatureMfaRequired
               else Inr (if mfa then SessionMfa else Session))))"

section \<open>The link invariant\<close>

definition linkOk :: "signingLink \<Rightarrow> bool" where
  "linkOk l \<longleftrightarrow>
     sl_identityAttempts l \<le> MAX_IDENTITY_ATTEMPTS \<and>
     (openLink l \<longrightarrow> sl_identityAttempts l < MAX_IDENTITY_ATTEMPTS) \<and>
     (sl_consumedAt l \<noteq> None \<longrightarrow> sl_identityConfirmedAt l \<noteq> None \<and> sl_consumedAction l \<noteq> None) \<and>
     (sl_authorizationHash l \<noteq> None \<longrightarrow> sl_identityConfirmedAt l \<noteq> None)"

definition oneOpen :: "signingLink list \<Rightarrow> bool" where
  "oneOpen links \<longleftrightarrow> (\<forall>l\<in>set links. \<forall>m\<in>set links. openLink l \<longrightarrow> openLink m \<longrightarrow>
     sl_documentId l = sl_documentId m \<longrightarrow> sl_signOrder l = sl_signOrder m \<longrightarrow> sl_id l = sl_id m)"

definition ownTokens :: "signingLink list \<Rightarrow> bool" where
  "ownTokens links \<longleftrightarrow> (\<forall>l\<in>set links. \<forall>m\<in>set links.
     sl_tokenHash l \<noteq> None \<longrightarrow> sl_tokenHash l = sl_tokenHash m \<longrightarrow> sl_id l = sl_id m)"

lemma oneOpenD:
  assumes "oneOpen links" "l \<in> set links" "m \<in> set links" "openLink l" "openLink m"
    "sl_documentId l = sl_documentId m" "sl_signOrder l = sl_signOrder m"
  shows "sl_id l = sl_id m"
  using assms(1)[unfolded oneOpen_def, THEN bspec, OF assms(2), THEN bspec, OF assms(3)] assms(4-7) by blast

lemma oneOpenI:
  assumes "\<And>l m. l \<in> set links \<Longrightarrow> m \<in> set links \<Longrightarrow> openLink l \<Longrightarrow> openLink m \<Longrightarrow>
     sl_documentId l = sl_documentId m \<Longrightarrow> sl_signOrder l = sl_signOrder m \<Longrightarrow> sl_id l = sl_id m"
  shows "oneOpen links"
  unfolding oneOpen_def using assms by blast

lemma ownTokensD:
  assumes "ownTokens links" "l \<in> set links" "m \<in> set links" "sl_tokenHash l = Some t" "sl_tokenHash m = Some t"
  shows "sl_id l = sl_id m"
  using assms(1)[unfolded ownTokens_def, THEN bspec, OF assms(2), THEN bspec, OF assms(3)] assms(4,5) by simp

lemma ownTokensI:
  assumes "\<And>l m t. l \<in> set links \<Longrightarrow> m \<in> set links \<Longrightarrow> sl_tokenHash l = Some t \<Longrightarrow>
     sl_tokenHash m = Some t \<Longrightarrow> sl_id l = sl_id m"
  shows "ownTokens links"
  unfolding ownTokens_def using assms by (metis option.exhaust)

definition linksInv :: "(nat \<Rightarrow> string) \<Rightarrow> db \<Rightarrow> bool" where
  "linksInv uuid db \<longleftrightarrow>
     distinct (map sl_id (db_links db)) \<and> sl_id ` set (db_links db) \<subseteq> uuid ` {..<db_seq db} \<and>
     (\<forall>l\<in>set (db_links db). linkOk l) \<and> oneOpen (db_links db) \<and> ownTokens (db_links db)"

text \<open>
  An update of the table that keeps identifiers, turns and tokens, never opens a closed link and
  leaves every row well formed keeps the invariant.
\<close>

lemma linksInv_map:
  assumes inv: "linksInv uuid db" and links: "db_links db' = map g (db_links db)"
    and seq: "db_seq db \<le> db_seq db'"
    and g: "\<And>l. sl_id (g l) = sl_id l" "\<And>l. sl_documentId (g l) = sl_documentId l"
      "\<And>l. sl_signOrder (g l) = sl_signOrder l" "\<And>l. openLink (g l) \<Longrightarrow> openLink l"
    and tokens: "ownTokens (map g (db_links db))"
    and ok: "\<And>l. l \<in> set (db_links db) \<Longrightarrow> linkOk l \<Longrightarrow> linkOk (g l)"
  shows "linksInv uuid db'"
proof -
  have ids: "map sl_id (db_links db') = map sl_id (db_links db)" by (simp add: links g(1))
  have old: "distinct (map sl_id (db_links db))" "sl_id ` set (db_links db) \<subseteq> uuid ` {..<db_seq db}"
    "\<forall>l\<in>set (db_links db). linkOk l" "oneOpen (db_links db)"
    using inv by (simp_all add: linksInv_def)
  have "distinct (map sl_id (db_links db'))" unfolding ids by (rule old(1))
  moreover have "sl_id ` set (db_links db') \<subseteq> uuid ` {..<db_seq db'}"
  proof -
    have "sl_id ` set (db_links db') = sl_id ` set (db_links db)"
      using arg_cong [OF ids, of set] by simp
    moreover have "uuid ` {..<db_seq db} \<subseteq> uuid ` {..<db_seq db'}" using seq by auto
    ultimately show ?thesis using old(2) by blast
  qed
  moreover have "oneOpen (db_links db')"
    unfolding links
  proof (rule oneOpenI)
    fix l m assume l: "l \<in> set (map g (db_links db))" and m: "m \<in> set (map g (db_links db))"
      and same: "openLink l" "openLink m" "sl_documentId l = sl_documentId m" "sl_signOrder l = sl_signOrder m"
    obtain x where x: "x \<in> set (db_links db)" "l = g x" using l by auto
    obtain y where y: "y \<in> set (db_links db)" "m = g y" using m by auto
    have "sl_id x = sl_id y"
    proof (rule oneOpenD [OF old(4) x(1) y(1)])
      show "openLink x" "openLink y" using same(1,2) g(4) x(2) y(2) by blast+
      show "sl_documentId x = sl_documentId y" using same(3) unfolding x(2) y(2) g(2) .
      show "sl_signOrder x = sl_signOrder y" using same(4) unfolding x(2) y(2) g(3) .
    qed
    then show "sl_id l = sl_id m" unfolding x(2) y(2) g(1) .
  qed
  moreover have "\<forall>l\<in>set (db_links db'). linkOk l"
    unfolding links using old(3) ok by auto
  moreover have "ownTokens (db_links db')" unfolding links by (rule tokens)
  ultimately show ?thesis unfolding linksInv_def by (intro conjI)
qed

lemma ownTokens_keep:
  assumes "ownTokens links" "\<And>l. sl_tokenHash (g l) = sl_tokenHash l" "\<And>l. sl_id (g l) = sl_id l"
  shows "ownTokens (map g links)"
proof (rule ownTokensI)
  fix l m t assume "l \<in> set (map g links)" "m \<in> set (map g links)"
    and hash: "sl_tokenHash l = Some t" "sl_tokenHash m = Some t"
  then obtain x y where xy: "x \<in> set links" "l = g x" "y \<in> set links" "m = g y" by auto
  show "sl_id l = sl_id m"
    unfolding xy(2,4) assms(3)
    using ownTokensD [OF assms(1) xy(1,3)] hash unfolding xy(2,4) assms(2) .
qed

lemma linksInv_update:
  assumes inv: "linksInv uuid db" and links: "db_links db' = update_where p f (db_links db)"
    and seq: "db_seq db \<le> db_seq db'"
    and keys: "\<And>l. sl_id (f l) = sl_id l" "\<And>l. sl_documentId (f l) = sl_documentId l"
      "\<And>l. sl_signOrder (f l) = sl_signOrder l" "\<And>l. sl_tokenHash (f l) = sl_tokenHash l"
    and closed: "\<And>l. p l \<Longrightarrow> openLink (f l) \<Longrightarrow> openLink l"
    and ok: "\<And>l. l \<in> set (db_links db) \<Longrightarrow> p l \<Longrightarrow> linkOk l \<Longrightarrow> linkOk (f l)"
  shows "linksInv uuid db'"
proof (rule linksInv_map [OF inv, where g = "\<lambda>l. if p l then f l else l"])
  show "ownTokens (map (\<lambda>l. if p l then f l else l) (db_links db))"
    by (rule ownTokens_keep) (use inv keys in \<open>simp_all add: linksInv_def\<close>)
qed (use links seq keys closed ok in \<open>auto simp: update_where_def split: if_splits\<close>)

lemma linksInv_same:
  "linksInv uuid db \<Longrightarrow> db_links db' = db_links db \<Longrightarrow> db_seq db \<le> db_seq db' \<Longrightarrow> linksInv uuid db'"
  using linksInv_update [of uuid db db' "\<lambda>l. False" "\<lambda>l. l"] by (simp add: update_where_def)

lemma newLink_fields [simp]:
  "sl_id (newLink env k d o' p e) = k" "sl_documentId (newLink env k d o' p e) = d"
  "sl_signOrder (newLink env k d o' p e) = o'" "sl_tokenHash (newLink env k d o' p e) = None"
  "linkOk (newLink env k d o' p e)"
  by (simp_all add: newLink_def linkOk_def MAX_IDENTITY_ATTEMPTS_def)

lemma linksInv_insert:
  assumes inv: "linksInv uuid db" and "inj uuid" "e_uuid env = uuid" and none: "\<not> openLinkFor db documentId order"
  shows "linksInv uuid (insertLink env documentId order personId email db)"
proof -
  let ?l = "newLink env (uuid (db_seq db)) documentId order personId email"
  have links: "db_links (insertLink env documentId order personId email db) = db_links db @ [?l]"
    "db_seq (insertLink env documentId order personId email db) = Suc (db_seq db)"
    using assms(3) by (simp_all add: insertLink_def bumpSeq_def freshId_def)
  have old: "distinct (map sl_id (db_links db))" "sl_id ` set (db_links db) \<subseteq> uuid ` {..<db_seq db}"
    "\<forall>l\<in>set (db_links db). linkOk l" "oneOpen (db_links db)" "ownTokens (db_links db)"
    using inv by (simp_all add: linksInv_def)
  have "uuid (db_seq db) \<notin> uuid ` {..<db_seq db}" using assms(2) by (auto simp: inj_def)
  then have fresh: "uuid (db_seq db) \<notin> sl_id ` set (db_links db)" using old(2) by blast
  have other: "\<not> (openLink m \<and> sl_documentId m = documentId \<and> sl_signOrder m = order)"
    if "m \<in> set (db_links db)" for m
    using none that unfolding openLinkFor_def list_ex_iff by blast
  have "oneOpen (db_links db @ [?l])"
  proof (rule oneOpenI)
    fix l m assume l: "l \<in> set (db_links db @ [?l])" and m: "m \<in> set (db_links db @ [?l])"
      and same: "openLink l" "openLink m" "sl_documentId l = sl_documentId m" "sl_signOrder l = sl_signOrder m"
    show "sl_id l = sl_id m"
    proof (cases "l = ?l")
      case True
      then have "sl_documentId m = documentId" "sl_signOrder m = order" using same(3,4) by simp_all
      then have "m = ?l" using m other [of m] same(2) by auto
      then show ?thesis using True by simp
    next
      case False
      then have l': "l \<in> set (db_links db)" using l by simp
      have "m \<noteq> ?l" using other [OF l'] same by auto
      then have "m \<in> set (db_links db)" using m by simp
      then show ?thesis using oneOpenD [OF old(4) l'] same by blast
    qed
  qed
  moreover have "ownTokens (db_links db @ [?l])"
  proof (rule ownTokensI)
    fix l m t assume l: "l \<in> set (db_links db @ [?l])" and m: "m \<in> set (db_links db @ [?l])"
      and hash: "sl_tokenHash l = Some t" "sl_tokenHash m = Some t"
    have "l \<in> set (db_links db)" "m \<in> set (db_links db)" using l m hash by auto
    then show "sl_id l = sl_id m" using ownTokensD [OF old(5)] hash by blast
  qed
  moreover have "sl_id ` set (db_links db @ [?l]) \<subseteq> uuid ` {..<Suc (db_seq db)}"
    using old(2) by (auto simp: lessThan_Suc)
  moreover have "distinct (map sl_id (db_links db @ [?l]))" using old(1) fresh by simp
  moreover have "\<forall>l\<in>set (db_links db @ [?l]). linkOk l" using old(3) by simp
  ultimately show ?thesis unfolding linksInv_def links by blast
qed

lemma invalidateLinks_inv:
  assumes "linksInv uuid db"
  shows "linksInv uuid (invalidateLinks env documentId reason order db)"
proof (rule linksInv_update [OF assms])
  show "db_links (invalidateLinks env documentId reason order db) = update_where
      (\<lambda>l. sl_documentId l = documentId \<and> openLink l \<and> (case order of None \<Rightarrow> True | Some o' \<Rightarrow> sl_signOrder l = o'))
      (\<lambda>l. l\<lparr>sl_invalidatedAt := Some (e_now env), sl_invalidatedReason := Some reason,
         sl_authorizationHash := None, sl_authorizationExpiresAt := None\<rparr>) (db_links db)"
    by (simp add: invalidateLinks_def)
qed (simp_all add: invalidateLinks_def linkOk_def openLink_def)

lemma closePastTurns_inv:
  assumes "linksInv uuid db"
  shows "linksInv uuid (closePastTurns env documentId current db)"
proof (rule linksInv_update [OF assms])
  show "db_links (closePastTurns env documentId current db) = update_where
      (\<lambda>l. sl_documentId l = documentId \<and> openLink l \<and> (case current of None \<Rightarrow> True
         | Some s \<Rightarrow> sl_signOrder l \<noteq> ds_signOrder s \<or> Some (sl_personId l) \<noteq> ds_signerPersonId s))
      (\<lambda>l. l\<lparr>sl_invalidatedAt := Some (e_now env), sl_invalidatedReason := Some TurnChanged\<rparr>) (db_links db)"
    by (simp add: closePastTurns_def)
qed (simp_all add: closePastTurns_def linkOk_def openLink_def)

lemma refreshLink_cases:
  obtains (kept) "refreshLink env documentId db = closePastTurns env documentId (currentTurn db documentId) db"
  | (sent) s email where "currentTurn db documentId = Some s"
      "\<not> openLinkFor (closePastTurns env documentId (Some s) db) documentId (ds_signOrder s)"
      "refreshLink env documentId db = insertLink env documentId (ds_signOrder s) (the (ds_signerPersonId s)) email
         (closePastTurns env documentId (Some s) db)"
proof (cases "currentTurn db documentId")
  case None
  then show ?thesis by (intro kept) (simp add: refreshLink_def)
next
  case (Some s)
  let ?db1 = "closePastTurns env documentId (Some s) db"
  let ?c = "candidateOf ?db1 (ds_signerPersonId s)"
  let ?refused = "falsy (ds_signerPersonId s) \<or> channelFor (ds_role s) ?c \<noteq> Inr EmailLink \<or>
    falsy (Option.bind ?c sc_email) \<or> list_ex (\<lambda>l. sl_documentId l = documentId \<and>
      sl_signOrder l = ds_signOrder s \<and> Some (sl_personId l) = ds_signerPersonId s \<and>
      sl_invalidatedReason l \<noteq> Some Reassigned) (db_links ?db1) \<or>
    openLinkFor ?db1 documentId (ds_signOrder s)"
  have eq: "refreshLink env documentId db = (if ?refused then ?db1
     else insertLink env documentId (ds_signOrder s) (the (ds_signerPersonId s))
       (the (Option.bind ?c sc_email)) ?db1)"
    by (simp only: refreshLink_def Let_def Some option.case if_splits) simp
  show ?thesis
  proof (cases ?refused)
    case True
    show ?thesis by (rule kept) (simp only: eq if_P [OF True] Some)
  next
    case False
    show ?thesis by (rule sent [OF Some]) (use False in blast, simp only: eq if_not_P [OF False])
  qed
qed

lemma refreshLink_inv:
  assumes "linksInv uuid db" "inj uuid" "e_uuid env = uuid"
  shows "linksInv uuid (refreshLink env documentId db)"
proof (cases rule: refreshLink_cases [of env documentId db])
  case kept
  show ?thesis unfolding kept by (rule closePastTurns_inv [OF assms(1)])
next
  case (sent s email)
  show ?thesis unfolding sent(3)
    by (rule linksInv_insert [OF closePastTurns_inv [OF assms(1)] assms(2,3) sent(2)])
qed

lemma invalidated_none: "\<not> openLinkFor (invalidateLinks env documentId reason (Some order) db) documentId order"
proof -
  let ?p = "\<lambda>l. sl_documentId l = documentId \<and> openLink l \<and> sl_signOrder l = order"
  let ?f = "\<lambda>l. l\<lparr>sl_invalidatedAt := Some (e_now env), sl_invalidatedReason := Some reason,
    sl_authorizationHash := None, sl_authorizationExpiresAt := None\<rparr>"
  define g where "g = (\<lambda>l. if ?p l then ?f l else l)"
  have closed: "\<not> openLink (?f l)" for l by (simp add: openLink_def)
  have no: "\<not> (sl_documentId (g l) = documentId \<and> sl_signOrder (g l) = order \<and> openLink (g l))" for l
  proof (cases "?p l")
    case True
    then have "g l = ?f l" unfolding g_def by (rule if_P)
    then show ?thesis using closed [of l] by metis
  next
    case False
    then have "g l = l" unfolding g_def by (rule if_not_P)
    then show ?thesis using False by metis
  qed
  have links: "db_links (invalidateLinks env documentId reason (Some order) db) = map g (db_links db)"
    by (simp add: invalidateLinks_def update_where_def g_def)
  show ?thesis
    unfolding openLinkFor_def list_ex_iff links set_map using no by blast
qed

lemma resendLink_cases:
  assumes "resendLink env documentId order db = Inr db'"
  obtains s email where "currentTurn db documentId = Some s" "ds_signOrder s = order"
    "db' = insertLink env documentId order (the (ds_signerPersonId s)) email
       (invalidateLinks env documentId Resent (Some order) db)"
proof (cases "currentTurn db documentId")
  case None
  then show ?thesis using assms by (simp add: resendLink_def)
next
  case (Some s)
  show ?thesis
    using assms unfolding resendLink_def Let_def Some option.case
    by (auto simp del: not_None_eq split: sum.split_asm if_split_asm intro: that [OF Some])
qed

lemma resendLink_inv:
  assumes "linksInv uuid db" "inj uuid" "e_uuid env = uuid" "resendLink env documentId order db = Inr db'"
  shows "linksInv uuid db'"
proof (cases rule: resendLink_cases [OF assms(4)])
  case (1 s email)
  show ?thesis unfolding 1(3)
    by (rule linksInv_insert [OF invalidateLinks_inv [OF assms(1)] assms(2,3) invalidated_none])
qed

section \<open>Sending and acting keep the invariant\<close>

lemma claimLink_some:
  assumes "claimLink env k tokenHash db = Inr (Some (l, db'))"
  shows "l \<in> set (db_links db)" "sl_id l = k" "dueLink (e_now env) l"
    "\<And>x. x \<in> set (db_links db) \<Longrightarrow> sl_tokenHash x = Some tokenHash \<Longrightarrow> sl_id x = k"
    "db' = db\<lparr>db_links := update_where (\<lambda>x. sl_id x = k)
            (\<lambda>x. x\<lparr>sl_tokenHash := Some tokenHash, sl_sendStartedAt := Some (e_now env),
               sl_sendAttempts := Suc (sl_sendAttempts x),
               sl_expiresAt := Some (e_now env + SIGNING_LINK_TTL_HOURS * 60 * MINUTE)\<rparr>)
            (db_links db)\<rparr>"
proof -
  obtain m where m: "List.find (\<lambda>l. sl_id l = k \<and> dueLink (e_now env) l \<and>
         findDocument db (sl_documentId l) \<noteq> None \<and>
         list_ex (\<lambda>p. pe_id p = sl_personId l) (db_persons db)) (db_links db) = Some m"
    using assms by (cases "List.find (\<lambda>l. sl_id l = k \<and> dueLink (e_now env) l \<and>
         findDocument db (sl_documentId l) \<noteq> None \<and>
         list_ex (\<lambda>p. pe_id p = sl_personId l) (db_persons db)) (db_links db)") (simp_all add: claimLink_def)
  let ?taken = "list_ex (\<lambda>x. sl_tokenHash x = Some tokenHash \<and> sl_id x \<noteq> k) (db_links db)"
  have free: "\<not> ?taken" using assms m by (auto simp: claimLink_def)
  have eq: "l = m" "db' = db\<lparr>db_links := update_where (\<lambda>x. sl_id x = k)
            (\<lambda>x. x\<lparr>sl_tokenHash := Some tokenHash, sl_sendStartedAt := Some (e_now env),
               sl_sendAttempts := Suc (sl_sendAttempts x),
               sl_expiresAt := Some (e_now env + SIGNING_LINK_TTL_HOURS * 60 * MINUTE)\<rparr>)
            (db_links db)\<rparr>"
    using assms m free by (simp_all add: claimLink_def)
  show "l \<in> set (db_links db)" "sl_id l = k" "dueLink (e_now env) l"
    using m unfolding eq(1) by (auto simp: find_Some_iff)
  show "sl_id x = k" if "x \<in> set (db_links db)" "sl_tokenHash x = Some tokenHash" for x
    using free that unfolding list_ex_iff by blast
  show "db' = db\<lparr>db_links := update_where (\<lambda>x. sl_id x = k)
            (\<lambda>x. x\<lparr>sl_tokenHash := Some tokenHash, sl_sendStartedAt := Some (e_now env),
               sl_sendAttempts := Suc (sl_sendAttempts x),
               sl_expiresAt := Some (e_now env + SIGNING_LINK_TTL_HOURS * 60 * MINUTE)\<rparr>)
            (db_links db)\<rparr>" by (rule eq(2))
qed

lemma claimLink_inv:
  assumes inv: "linksInv uuid db" and claim: "claimLink env k tokenHash db = Inr (Some (l, db'))"
  shows "linksInv uuid db'"
proof -
  note c = claimLink_some [OF claim]
  define g :: "signingLink \<Rightarrow> signingLink" where "g = (\<lambda>x. if sl_id x = k then x\<lparr>sl_tokenHash := Some tokenHash,
      sl_sendStartedAt := Some (e_now env), sl_sendAttempts := Suc (sl_sendAttempts x),
      sl_expiresAt := Some (e_now env + SIGNING_LINK_TTL_HOURS * 60 * MINUTE)\<rparr> else x)"
  have g: "sl_id (g x) = sl_id x" "sl_documentId (g x) = sl_documentId x" "sl_signOrder (g x) = sl_signOrder x"
    "openLink (g x) = openLink x" "linkOk (g x) = linkOk x"
    "sl_tokenHash (g x) = (if sl_id x = k then Some tokenHash else sl_tokenHash x)" for x
    by (simp_all add: g_def openLink_def linkOk_def)
  have own: "ownTokens (db_links db)" using inv by (simp add: linksInv_def)
  have hash: "sl_tokenHash x = Some tokenHash \<Longrightarrow> sl_id x = k" if "x \<in> set (db_links db)" for x
    using c(4) that by blast
  show ?thesis
  proof (rule linksInv_map [OF inv, where g = g])
    show "db_links db' = map g (db_links db)" by (simp add: c(5) update_where_def g_def)
    show "db_seq db \<le> db_seq db'" by (simp add: c(5))
    show "ownTokens (map g (db_links db))"
    proof (rule ownTokensI)
      fix a b t assume "a \<in> set (map g (db_links db))" "b \<in> set (map g (db_links db))"
        and t: "sl_tokenHash a = Some t" "sl_tokenHash b = Some t"
      then obtain x y where xy: "x \<in> set (db_links db)" "a = g x" "y \<in> set (db_links db)" "b = g y" by auto
      show "sl_id a = sl_id b"
      proof (cases "sl_id x = k \<or> sl_id y = k")
        case True
        then have "t = tokenHash" using t xy g(6) [of x] g(6) [of y] by auto
        then have "sl_id x = k" "sl_id y = k"
          using t xy g(6) [of x] g(6) [of y] hash by (auto split: if_splits)
        then show ?thesis by (simp add: xy g(1))
      next
        case False
        then have "sl_tokenHash x = Some t" "sl_tokenHash y = Some t" using t xy g(6) by simp_all
        then show ?thesis using ownTokensD [OF own xy(1,3)] by (simp add: xy g(1))
      qed
    qed
  qed (simp_all add: g)
qed

lemma finishLink_inv:
  assumes "linksInv uuid db"
  shows "linksInv uuid (finishLink env k tokenHash error db)"
proof (rule linksInv_update [OF assms])
  show "db_links (finishLink env k tokenHash error db) = update_where
      (\<lambda>l. sl_id l = k \<and> sl_tokenHash l = Some tokenHash)
      (\<lambda>l. l\<lparr>sl_deliveryStatus := (if error = None then LinkSent else SendFailed),
         sl_sentAt := (if error = None then Some (e_now env) else sl_sentAt l),
         sl_lastSendError := error\<rparr>) (db_links db)"
    by (simp add: finishLink_def)
qed (simp_all add: finishLink_def linkOk_def openLink_def)

lemma dispatchOne_inv:
  assumes "linksInv uuid db"
  shows "linksInv uuid (snd (dispatchOne env mailError tokenHash k db))"
proof (cases "claimLink env k tokenHash db")
  case (Inl e)
  then show ?thesis using assms by (simp add: dispatchOne_def)
next
  case (Inr o')
  show ?thesis
  proof (cases o')
    case None
    then show ?thesis using assms Inr by (simp add: dispatchOne_def)
  next
    case (Some p)
    obtain l db1 where p: "p = (l, db1)" by (cases p)
    have "linksInv uuid db1" using claimLink_inv [OF assms] Inr Some p by blast
    then show ?thesis using finishLink_inv Inr Some p by (simp add: dispatchOne_def Let_def)
  qed
qed


lemma activeLink_Inr:
  assumes "activeLink sha256Hex env db token = Inr x"
  shows "findByToken sha256Hex db token = Some (lx_link x)" "lx_link x \<in> set (db_links db)"
    "sl_tokenHash (lx_link x) = Some (sha256Hex token)" "openLink (lx_link x)"
    "findDocument db (sl_documentId (lx_link x)) = Some (lx_document x)"
    "\<exists>t. sl_expiresAt (lx_link x) = Some t \<and> e_now env < t"
    "\<exists>s. currentTurn db (sl_documentId (lx_link x)) = Some s \<and> ds_signOrder s = sl_signOrder (lx_link x) \<and>
       ds_signerPersonId s = Some (sl_personId (lx_link x)) \<and> \<not> requiresMfa (ds_role s)"
proof -
  obtain l where l: "findByToken sha256Hex db token = Some l"
    using assms by (cases "findByToken sha256Hex db token") (simp_all add: activeLink_def linkContextOf_def)
  obtain d where d: "findDocument db (sl_documentId l) = Some d"
    using assms l by (cases "findDocument db (sl_documentId l)")
      (simp_all add: activeLink_def linkContextOf_def documentRow_def)
  let ?c = "currentTurn db (sl_documentId l)"
  have active: "publicStatus (e_now env) l ?c = PLActive"
    and x: "x = \<lparr>lx_link = l, lx_document = d, lx_current = ?c, lx_status = publicStatus (e_now env) l ?c\<rparr>"
    using assms l d by (auto simp: activeLink_def linkContextOf_def documentRow_def Let_def split: if_splits)
  have "openLink l \<and> (\<exists>t. sl_expiresAt l = Some t \<and> e_now env < t) \<and>
      (\<exists>s. ?c = Some s \<and> ds_signOrder s = sl_signOrder l \<and>
         ds_signerPersonId s = Some (sl_personId l) \<and> \<not> requiresMfa (ds_role s))"
    using active unfolding publicStatus_def linkState_def openLink_def
    by (cases "sl_consumedAt l"; cases "sl_invalidatedAt l"; cases "sl_expiresAt l"; cases ?c)
      (auto split: if_splits deliveryStatus.splits)
  moreover have "l \<in> set (db_links db)" "sl_tokenHash l = Some (sha256Hex token)"
    using l by (auto simp: findByToken_def find_Some_iff)
  ultimately show "findByToken sha256Hex db token = Some (lx_link x)" "lx_link x \<in> set (db_links db)"
    "sl_tokenHash (lx_link x) = Some (sha256Hex token)" "openLink (lx_link x)"
    "findDocument db (sl_documentId (lx_link x)) = Some (lx_document x)"
    "\<exists>t. sl_expiresAt (lx_link x) = Some t \<and> e_now env < t"
    "\<exists>s. currentTurn db (sl_documentId (lx_link x)) = Some s \<and> ds_signOrder s = sl_signOrder (lx_link x) \<and>
       ds_signerPersonId s = Some (sl_personId (lx_link x)) \<and> \<not> requiresMfa (ds_role s)"
    using l d by (simp_all add: x)
qed

lemma linksInv_same_id:
  assumes "linksInv uuid db" "l \<in> set (db_links db)" "m \<in> set (db_links db)" "sl_id l = sl_id m"
  shows "l = m"
  using assms by (simp add: linksInv_def distinct_map inj_on_def)

definition wrongAnswer :: "env \<Rightarrow> signingLink \<Rightarrow> signingLink \<Rightarrow> signingLink" where
  "wrongAnswer env l y = y\<lparr>sl_identityAttempts := Suc (sl_identityAttempts l),
     sl_invalidatedAt := (if MAX_IDENTITY_ATTEMPTS \<le> Suc (sl_identityAttempts l) then Some (e_now env) else None),
     sl_invalidatedReason :=
       (if MAX_IDENTITY_ATTEMPTS \<le> Suc (sl_identityAttempts l) then Some AttemptsExceeded else None),
     sl_authorizationHash := None, sl_authorizationExpiresAt := None\<rparr>"

definition rightAnswer :: "env \<Rightarrow> string \<Rightarrow> signingLink \<Rightarrow> signingLink" where
  "rightAnswer env hash y = y\<lparr>sl_identityConfirmedAt := Some (e_now env),
     sl_authorizationHash := Some hash,
     sl_authorizationExpiresAt := Some (e_now env + IDENTITY_AUTHORIZATION_MINUTES * MINUTE)\<rparr>"

lemma confirmIdentity_cases:
  obtains (unavailable) e where "confirmIdentity sha256Hex env identityToken token last4 db = (Inl e, db)"
  | (wrong) x where "activeLink sha256Hex env db token = Inr x"
      "confirmIdentity sha256Hex env identityToken token last4 db =
         (if MAX_IDENTITY_ATTEMPTS \<le> Suc (sl_identityAttempts (lx_link x))
          then throw SignatureIdentityLocked else throw SignatureIdentityMismatch,
          db\<lparr>db_links := update_where (\<lambda>y. sl_id y = sl_id (lx_link x)) (wrongAnswer env (lx_link x)) (db_links db)\<rparr>)"
  | (right) x where "activeLink sha256Hex env db token = Inr x"
      "confirmIdentity sha256Hex env identityToken token last4 db =
         (Inr (e_now env + IDENTITY_AUTHORIZATION_MINUTES * MINUTE),
          db\<lparr>db_links := update_where (\<lambda>y. sl_id y = sl_id (lx_link x))
            (rightAnswer env (sha256Hex identityToken)) (db_links db)\<rparr>)"
proof (cases "activeLink sha256Hex env db token")
  case (Inl e)
  then show ?thesis by (intro unavailable) (simp add: confirmIdentity_def)
next
  case (Inr x)
  let ?p = "List.find (\<lambda>p. pe_id p = sl_personId (lx_link x)) (db_persons db)"
  show ?thesis
  proof (cases "lastFourDigits (Option.bind ?p pe_documentNumber)")
    case None
    then show ?thesis using Inr by (intro unavailable) (simp add: confirmIdentity_def Let_def)
  next
    case (Some expected)
    show ?thesis
    proof (cases "padEndFour last4 = expected")
      case True
      then show ?thesis using Inr Some
        by (intro right [OF Inr]) (simp add: confirmIdentity_def Let_def rightAnswer_def [abs_def])
    next
      case False
      then show ?thesis using Inr Some
        by (intro wrong [OF Inr]) (simp add: confirmIdentity_def Let_def wrongAnswer_def [abs_def])
    qed
  qed
qed

lemma answer_fields [simp]:
  "sl_id (wrongAnswer env l y) = sl_id y" "sl_documentId (wrongAnswer env l y) = sl_documentId y"
  "sl_signOrder (wrongAnswer env l y) = sl_signOrder y" "sl_tokenHash (wrongAnswer env l y) = sl_tokenHash y"
  "sl_id (rightAnswer env h y) = sl_id y" "sl_documentId (rightAnswer env h y) = sl_documentId y"
  "sl_signOrder (rightAnswer env h y) = sl_signOrder y" "sl_tokenHash (rightAnswer env h y) = sl_tokenHash y"
  by (simp_all add: wrongAnswer_def rightAnswer_def)

lemma confirmIdentity_inv:
  assumes inv: "linksInv uuid db"
  shows "linksInv uuid (snd (confirmIdentity sha256Hex env identityToken token last4 db))"
proof (cases rule: confirmIdentity_cases [of sha256Hex env identityToken token last4 db])
  case (unavailable e)
  then show ?thesis using inv by simp
next
  case (wrong x)
  note a = activeLink_Inr [OF wrong(1)]
  have same: "y = lx_link x" if "y \<in> set (db_links db)" "sl_id y = sl_id (lx_link x)" for y
    by (rule linksInv_same_id [OF inv that(1) a(2) that(2)])
  show ?thesis
  proof (rule linksInv_map [OF inv,
      where g = "\<lambda>y. if sl_id y = sl_id (lx_link x) \<and> y = lx_link x then wrongAnswer env (lx_link x) y else y"])
    show "db_links (snd (confirmIdentity sha256Hex env identityToken token last4 db)) =
      map (\<lambda>y. if sl_id y = sl_id (lx_link x) \<and> y = lx_link x then wrongAnswer env (lx_link x) y else y) (db_links db)"
      using same by (auto simp: wrong(2) update_where_def)
    show "ownTokens (map (\<lambda>y. if sl_id y = sl_id (lx_link x) \<and> y = lx_link x
        then wrongAnswer env (lx_link x) y else y) (db_links db))"
      by (rule ownTokens_keep) (use inv in \<open>simp_all add: linksInv_def\<close>)
    show "openLink (if sl_id l = sl_id (lx_link x) \<and> l = lx_link x then wrongAnswer env (lx_link x) l else l)
        \<Longrightarrow> openLink l" for l
      using a(4) by (auto split: if_splits)
    show "linkOk l \<Longrightarrow> linkOk (if sl_id l = sl_id (lx_link x) \<and> l = lx_link x
        then wrongAnswer env (lx_link x) l else l)" for l
      using a(4) by (auto simp: linkOk_def wrongAnswer_def openLink_def)
  qed (simp_all add: wrong(2))
next
  case (right x)
  show ?thesis
  proof (rule linksInv_update [OF inv])
    show "db_links (snd (confirmIdentity sha256Hex env identityToken token last4 db)) =
      update_where (\<lambda>y. sl_id y = sl_id (lx_link x)) (rightAnswer env (sha256Hex identityToken)) (db_links db)"
      by (simp add: right(2))
  qed (simp_all add: right(2) rightAnswer_def linkOk_def openLink_def)
qed

lemma actByLink_Inr:
  assumes "actByLink sha256Hex env token identityToken action perform db fs = (Inr (d, db'), fs')"
  obtains x reference db1 where "activeLink sha256Hex env db token = Inr x"
    "authorizedLink sha256Hex (e_now env) identityToken (lx_link x)"
    "d_signatureReference (lx_document x) = Some reference"
    "perform db (lx_link x) reference fs = (Inr db1, fs')"
    "db' = consumeLink env (sl_id (lx_link x)) action db1" "d = d_id (lx_document x)"
  using assms unfolding actByLink_def
  by (auto simp: ibind_Inr split: if_splits option.splits)

lemma capture_links:
  assumes "capture tools env ref c db fs = (Inr db', fs')"
  shows "db_links db' = db_links db" "db_seq db' = db_seq db" "db_persons db' = db_persons db"
  using assms by (auto elim!: capture_Inr simp: writeCapture_def Let_def)

lemma rejectEnvelope_links:
  assumes "rejectEnvelope env ref r db = Inr db'"
  shows "db_links db' = db_links db" "db_seq db' = db_seq db"
  using assms by (auto simp: rejectEnvelope_def res_simps)

lemma consumeLink_inv:
  assumes inv: "linksInv uuid db" and l: "l \<in> set (db_links db)" "sl_identityConfirmedAt l \<noteq> None"
    and links: "db_links db1 = db_links db" "db_seq db \<le> db_seq db1"
  shows "linksInv uuid (consumeLink env (sl_id l) action db1)"
proof (rule linksInv_update [OF inv])
  show "db_links (consumeLink env (sl_id l) action db1) = update_where (\<lambda>y. sl_id y = sl_id l)
      (\<lambda>y. y\<lparr>sl_consumedAt := Some (e_now env), sl_consumedAction := Some action,
         sl_authorizationHash := None, sl_authorizationExpiresAt := None\<rparr>) (db_links db)"
    by (simp add: consumeLink_def links)
  fix y assume y: "y \<in> set (db_links db)" "sl_id y = sl_id l" "linkOk y"
  have "y = l" by (rule linksInv_same_id [OF inv y(1) l(1) y(2)])
  then show "linkOk (y\<lparr>sl_consumedAt := Some (e_now env), sl_consumedAction := Some action,
         sl_authorizationHash := None, sl_authorizationExpiresAt := None\<rparr>)"
    using y(3) l(2) by (simp add: linkOk_def openLink_def)
qed (simp_all add: consumeLink_def openLink_def links)

section \<open>The life of the links\<close>

text \<open>
  One step: an operation on links, or one on the other tables (which leaves the links alone and only
  draws identifiers). A signature that fails rolls the database back and may leave files behind.
\<close>

inductive linkStep ::
  "pdfTools \<Rightarrow> (string \<Rightarrow> string) \<Rightarrow> (nat \<Rightarrow> string) \<Rightarrow> db \<times> files \<Rightarrow> db \<times> files \<Rightarrow> bool"
  for tools sha256Hex uuid where
  Refreshed: "e_uuid env = uuid \<Longrightarrow>
    linkStep tools sha256Hex uuid (db, fs) (refreshLink env documentId db, fs)"
| SentAgain: "e_uuid env = uuid \<Longrightarrow> resendLink env documentId order db = Inr db' \<Longrightarrow>
    linkStep tools sha256Hex uuid (db, fs) (db', fs)"
| LinksInvalidated:
    "linkStep tools sha256Hex uuid (db, fs) (invalidateLinks env documentId reason turn db, fs)"
| Dispatched:
    "linkStep tools sha256Hex uuid (db, fs) (snd (dispatchOne env mailError tokenHash k db), fs)"
| Claimed: "claimLink env k tokenHash db = Inr (Some (l, db')) \<Longrightarrow> linkStep tools sha256Hex uuid (db, fs) (db', fs)"
| MailFinished: "linkStep tools sha256Hex uuid (db, fs) (finishLink env k tokenHash error db, fs)"
| Answered: "linkStep tools sha256Hex uuid (db, fs)
    (snd (confirmIdentity sha256Hex env identityToken token last4 db), fs)"
| SignedByLink: "signByLink tools sha256Hex env token identityToken png ip agent db fs = (Inr (d, db'), fs') \<Longrightarrow>
    linkStep tools sha256Hex uuid (db, fs) (db', fs')"
| SignFailed: "signByLink tools sha256Hex env token identityToken png ip agent db fs = (Inl f, fs') \<Longrightarrow>
    linkStep tools sha256Hex uuid (db, fs) (db, fs')"
| RejectedByLink: "rejectByLink sha256Hex env token identityToken reason ip agent db fs = (Inr (d, db'), fs') \<Longrightarrow>
    linkStep tools sha256Hex uuid (db, fs) (db', fs')"
| Elsewhere: "db_links db' = db_links db \<Longrightarrow> db_seq db \<le> db_seq db' \<Longrightarrow>
    linkStep tools sha256Hex uuid (db, fs) (db', fs')"

inductive linkReachable ::
  "pdfTools \<Rightarrow> (string \<Rightarrow> string) \<Rightarrow> (nat \<Rightarrow> string) \<Rightarrow> db \<times> files \<Rightarrow> db \<times> files \<Rightarrow> bool"
  for tools sha256Hex uuid s where
  linkReachable_start: "linkReachable tools sha256Hex uuid s s"
| linkReachable_step: "linkReachable tools sha256Hex uuid s t \<Longrightarrow> linkStep tools sha256Hex uuid t u \<Longrightarrow>
    linkReachable tools sha256Hex uuid s u"

lemma actByLink_inv:
  assumes inv: "linksInv uuid db"
    and run: "actByLink sha256Hex env token identityToken action perform db fs = (Inr (d, db'), fs')"
    and links: "\<And>l ref db1 fs1. perform db l ref fs = (Inr db1, fs1) \<Longrightarrow>
      db_links db1 = db_links db \<and> db_seq db \<le> db_seq db1"
  shows "linksInv uuid db'"
proof -
  obtain x ref db1 where a: "activeLink sha256Hex env db token = Inr x"
    "authorizedLink sha256Hex (e_now env) identityToken (lx_link x)"
    "perform db (lx_link x) ref fs = (Inr db1, fs')" "db' = consumeLink env (sl_id (lx_link x)) action db1"
    using run by (elim actByLink_Inr)
  have "sl_identityConfirmedAt (lx_link x) \<noteq> None" using a(2) by (simp add: authorizedLink_def)
  then show ?thesis
    unfolding a(4) using consumeLink_inv [OF inv activeLink_Inr(2) [OF a(1)]] links [OF a(3)] by blast
qed

lemma signByLink_inv:
  assumes "linksInv uuid db" "signByLink tools sha256Hex env token identityToken png ip agent db fs = (Inr (d, db'), fs')"
  shows "linksInv uuid db'"
  by (rule actByLink_inv [OF assms(1) assms(2)[unfolded signByLink_def]]) (auto dest: capture_links)

lemma rejectByLink_inv:
  assumes "linksInv uuid db" "rejectByLink sha256Hex env token identityToken reason ip agent db fs = (Inr (d, db'), fs')"
  shows "linksInv uuid db'"
  by (rule actByLink_inv [OF assms(1) assms(2)[unfolded rejectByLink_def]]) (auto dest: rejectEnvelope_links)

lemma linkStep_inv:
  assumes "linkStep tools sha256Hex uuid s t" "inj uuid" "linksInv uuid (fst s)"
  shows "linksInv uuid (fst t)"
  using assms
proof (cases rule: linkStep.cases)
  case (Refreshed env db fs documentId)
  then show ?thesis using refreshLink_inv assms(2,3) by simp
next
  case (SentAgain env documentId order db db' fs)
  then show ?thesis using resendLink_inv assms(2,3) by simp
next
  case (LinksInvalidated db fs env documentId reason turn)
  then show ?thesis using invalidateLinks_inv assms(3) by simp
next
  case (Dispatched db fs env mailError tokenHash k)
  then show ?thesis using dispatchOne_inv assms(3) by simp
next
  case (Claimed env k tokenHash db l db' fs)
  then show ?thesis using claimLink_inv assms(3) by simp
next
  case (MailFinished db fs env k tokenHash error)
  then show ?thesis using finishLink_inv assms(3) by simp
next
  case (Answered db fs env identityToken token last4)
  then show ?thesis using confirmIdentity_inv assms(3) by simp
next
  case (SignedByLink env token identityToken png ip agent db fs d db' fs')
  then show ?thesis using signByLink_inv assms(3) by simp
next
  case (SignFailed env token identityToken png ip agent db fs f fs')
  then show ?thesis using assms(3) by simp
next
  case (RejectedByLink env token identityToken reason ip agent db fs d db' fs')
  then show ?thesis using rejectByLink_inv assms(3) by simp
next
  case (Elsewhere db' db fs fs')
  then show ?thesis using linksInv_same assms(3) by simp
qed

lemma linkReachable_inv:
  assumes "linkReachable tools sha256Hex uuid s t" "inj uuid" "linksInv uuid (fst s)"
  shows "linksInv uuid (fst t)"
  using assms(1)
  by (induction rule: linkReachable.induct) (use assms linkStep_inv in blast)+

section \<open>A consumed link stays as it is\<close>

text \<open>The digests of the tokens that have acted.\<close>

definition spentTokens :: "db \<Rightarrow> string option set" where
  "spentTokens db = sl_tokenHash ` {l \<in> set (db_links db). sl_consumedAt l \<noteq> None}"

lemma spent_map:
  assumes "db_links db' = map g (db_links db)"
    and "\<And>l. l \<in> set (db_links db) \<Longrightarrow> sl_consumedAt l \<noteq> None \<Longrightarrow>
      sl_consumedAt (g l) \<noteq> None \<and> sl_tokenHash (g l) = sl_tokenHash l"
  shows "spentTokens db \<subseteq> spentTokens db'"
proof
  fix h assume "h \<in> spentTokens db"
  then obtain l where l: "l \<in> set (db_links db)" "sl_consumedAt l \<noteq> None" "h = sl_tokenHash l"
    by (auto simp: spentTokens_def)
  then have "g l \<in> set (db_links db')" "sl_consumedAt (g l) \<noteq> None" "h = sl_tokenHash (g l)"
    using assms(2) [OF l(1,2)] by (simp_all add: assms(1))
  then show "h \<in> spentTokens db'" by (auto simp: spentTokens_def)
qed

lemma spent_update:
  assumes "db_links db' = update_where p f (db_links db)"
    and "\<And>l. l \<in> set (db_links db) \<Longrightarrow> p l \<Longrightarrow> sl_consumedAt l = None"
  shows "spentTokens db \<subseteq> spentTokens db'"
  by (rule spent_map [where g = "\<lambda>l. if p l then f l else l"])
    (use assms in \<open>auto simp: update_where_def\<close>)

lemma insertLink_spent: "spentTokens db \<subseteq> spentTokens (insertLink env documentId order p e db)"
  by (auto simp: spentTokens_def insertLink_def bumpSeq_def)

lemma closePastTurns_spent: "spentTokens db \<subseteq> spentTokens (closePastTurns env documentId current db)"
  by (rule spent_update) (simp add: closePastTurns_def, auto simp: openLink_def)

lemma invalidateLinks_spent: "spentTokens db \<subseteq> spentTokens (invalidateLinks env documentId reason order db)"
  by (rule spent_update) (simp add: invalidateLinks_def, auto simp: openLink_def)

lemma refreshLink_spent: "spentTokens db \<subseteq> spentTokens (refreshLink env documentId db)"
proof (cases rule: refreshLink_cases [of env documentId db])
  case kept
  show ?thesis unfolding kept by (rule closePastTurns_spent)
next
  case (sent s email)
  show ?thesis unfolding sent(3) by (rule subset_trans [OF closePastTurns_spent insertLink_spent])
qed

lemma resendLink_spent:
  assumes "resendLink env documentId order db = Inr db'"
  shows "spentTokens db \<subseteq> spentTokens db'"
proof (cases rule: resendLink_cases [OF assms])
  case (1 s email)
  show ?thesis unfolding 1(3) by (rule subset_trans [OF invalidateLinks_spent insertLink_spent])
qed

lemma row_open:
  assumes "linksInv uuid db" "l \<in> set (db_links db)" "openLink l" "y \<in> set (db_links db)" "sl_id y = sl_id l"
  shows "sl_consumedAt y = None"
  using linksInv_same_id [OF assms(1,4,2,5)] assms(3) by (simp add: openLink_def)

lemma claimLink_spent:
  assumes inv: "linksInv uuid db" and claim: "claimLink env k tokenHash db = Inr (Some (l, db'))"
  shows "spentTokens db \<subseteq> spentTokens db'"
proof (rule spent_update)
  note c = claimLink_some [OF claim]
  have l: "openLink l" using c(3) by (simp add: dueLink_def)
  show "db_links db' = update_where (\<lambda>x. sl_id x = k)
        (\<lambda>x. x\<lparr>sl_tokenHash := Some tokenHash, sl_sendStartedAt := Some (e_now env),
           sl_sendAttempts := Suc (sl_sendAttempts x),
           sl_expiresAt := Some (e_now env + SIGNING_LINK_TTL_HOURS * 60 * MINUTE)\<rparr>) (db_links db)"
    by (simp add: c(5))
  show "sl_consumedAt y = None" if "y \<in> set (db_links db)" "sl_id y = k" for y
    by (rule row_open [OF inv c(1) l that(1)]) (simp add: that(2) c(2))
qed

text \<open>The mail may end after the link has acted: the row it marks keeps its token.\<close>

lemma finishLink_spent: "spentTokens db \<subseteq> spentTokens (finishLink env k tokenHash error db)"
  by (rule spent_map [where g = "\<lambda>l. if sl_id l = k \<and> sl_tokenHash l = Some tokenHash
      then l\<lparr>sl_deliveryStatus := (if error = None then LinkSent else SendFailed),
         sl_sentAt := (if error = None then Some (e_now env) else sl_sentAt l), sl_lastSendError := error\<rparr> else l"])
    (simp_all add: finishLink_def update_where_def)

lemma dispatchOne_spent:
  assumes "linksInv uuid db"
  shows "spentTokens db \<subseteq> spentTokens (snd (dispatchOne env mailError tokenHash k db))"
proof (cases "claimLink env k tokenHash db")
  case (Inr claimed)
  show ?thesis
  proof (cases claimed)
    case (Some p)
    then have "claimLink env k tokenHash db = Inr (Some (fst p, snd p))" using Inr by simp
    from claimLink_spent [OF assms this] finishLink_spent show ?thesis
      using Inr Some by (cases p) (simp add: dispatchOne_def Let_def, blast)
  qed (simp add: Inr dispatchOne_def)
qed (simp add: dispatchOne_def)

lemma confirmIdentity_spent:
  assumes inv: "linksInv uuid db"
  shows "spentTokens db \<subseteq> spentTokens (snd (confirmIdentity sha256Hex env identityToken token last4 db))"
proof (cases rule: confirmIdentity_cases [of sha256Hex env identityToken token last4 db])
  case (unavailable e)
  then show ?thesis by simp
next
  case (wrong x)
  note a = activeLink_Inr [OF wrong(1)]
  show ?thesis
    by (rule spent_update [where p = "\<lambda>y. sl_id y = sl_id (lx_link x)" and f = "wrongAnswer env (lx_link x)"])
      (simp add: wrong(2), rule row_open [OF inv a(2,4)])
next
  case (right x)
  note a = activeLink_Inr [OF right(1)]
  show ?thesis
    by (rule spent_update [where p = "\<lambda>y. sl_id y = sl_id (lx_link x)" and f = "rightAnswer env (sha256Hex identityToken)"])
      (simp add: right(2), rule row_open [OF inv a(2,4)])
qed

lemma actByLink_spent:
  assumes inv: "linksInv uuid db"
    and run: "actByLink sha256Hex env token identityToken action perform db fs = (Inr (d, db'), fs')"
    and links: "\<And>l ref db1 fs1. perform db l ref fs = (Inr db1, fs1) \<Longrightarrow> db_links db1 = db_links db"
  shows "spentTokens db \<subseteq> spentTokens db'"
    and "Some (sha256Hex token) \<in> spentTokens db'"
proof -
  obtain x ref db1 where a: "activeLink sha256Hex env db token = Inr x"
    "perform db (lx_link x) ref fs = (Inr db1, fs')" "db' = consumeLink env (sl_id (lx_link x)) action db1"
    using run by (elim actByLink_Inr)
  note x = activeLink_Inr [OF a(1)]
  have same: "db_links db1 = db_links db" by (rule links [OF a(2)])
  let ?f = "\<lambda>l. l\<lparr>sl_consumedAt := Some (e_now env), sl_consumedAction := Some action,
             sl_authorizationHash := None, sl_authorizationExpiresAt := None\<rparr>"
  have rows: "db_links db' = update_where (\<lambda>l. sl_id l = sl_id (lx_link x)) ?f (db_links db)"
    by (simp add: a(3) consumeLink_def same)
  show "spentTokens db \<subseteq> spentTokens db'"
    by (rule spent_update [OF rows]) (rule row_open [OF inv x(2,4)])
  have "?f (lx_link x) \<in> set (db_links db')" using x(2) by (force simp: rows update_where_def)
  then have "sl_tokenHash (?f (lx_link x)) \<in> spentTokens db'" unfolding spentTokens_def by (intro imageI) simp
  moreover have "sl_tokenHash (?f (lx_link x)) = Some (sha256Hex token)" using x(3) by simp
  ultimately show "Some (sha256Hex token) \<in> spentTokens db'" by simp
qed

lemma signByLink_spent:
  assumes "linksInv uuid db" "signByLink tools sha256Hex env token identityToken png ip agent db fs = (Inr (d, db'), fs')"
  shows "spentTokens db \<subseteq> spentTokens db'" "Some (sha256Hex token) \<in> spentTokens db'"
  by (rule actByLink_spent [OF assms(1) assms(2)[unfolded signByLink_def]]; auto dest: capture_links)+

lemma rejectByLink_spent:
  assumes "linksInv uuid db" "rejectByLink sha256Hex env token identityToken reason ip agent db fs = (Inr (d, db'), fs')"
  shows "spentTokens db \<subseteq> spentTokens db'" "Some (sha256Hex token) \<in> spentTokens db'"
  by (rule actByLink_spent [OF assms(1) assms(2)[unfolded rejectByLink_def]]; auto dest: rejectEnvelope_links)+

lemma linkStep_spent:
  assumes "linkStep tools sha256Hex uuid s t" "linksInv uuid (fst s)"
  shows "spentTokens (fst s) \<subseteq> spentTokens (fst t)"
  using assms
proof (cases rule: linkStep.cases)
  case (Refreshed env db fs documentId)
  then show ?thesis using refreshLink_spent by simp
next
  case (SentAgain env documentId order db db' fs)
  then show ?thesis using resendLink_spent by simp
next
  case (LinksInvalidated db fs env documentId reason turn)
  then show ?thesis using invalidateLinks_spent by simp
next
  case (Dispatched db fs env mailError tokenHash k)
  then show ?thesis using dispatchOne_spent assms(2) by simp
next
  case (Claimed env k tokenHash db l db' fs)
  then show ?thesis using claimLink_spent assms(2) by simp
next
  case (MailFinished db fs env k tokenHash error)
  then show ?thesis using finishLink_spent by simp
next
  case (Answered db fs env identityToken token last4)
  then show ?thesis using confirmIdentity_spent assms(2) by simp
next
  case (SignedByLink env token identityToken png ip agent db fs d db' fs')
  then show ?thesis using signByLink_spent(1) assms(2) by simp
next
  case (SignFailed env token identityToken png ip agent db fs f fs')
  then show ?thesis by simp
next
  case (RejectedByLink env token identityToken reason ip agent db fs d db' fs')
  then show ?thesis using rejectByLink_spent(1) assms(2) by simp
next
  case (Elsewhere db' db fs fs')
  then show ?thesis by (simp add: spentTokens_def)
qed

lemma linkReachable_spent:
  assumes "linkReachable tools sha256Hex uuid s t" "inj uuid" "linksInv uuid (fst s)"
  shows "spentTokens (fst s) \<subseteq> spentTokens (fst t)"
  using assms(1)
proof (induction rule: linkReachable.induct)
  case linkReachable_start
  then show ?case by simp
next
  case (linkReachable_step t u)
  then show ?case
    using linkStep_spent linkReachable_inv [OF linkReachable_step.hyps(1) assms(2,3)] by blast
qed

text \<open>The token of a consumed link never acts again.\<close>

lemma spent_token_refused:
  assumes inv: "linksInv uuid db" and spent: "Some (sha256Hex token) \<in> spentTokens db"
  shows "isl (fst (actByLink sha256Hex env token identityToken action perform db fs))"
proof (cases "activeLink sha256Hex env db token")
  case (Inl e)
  then show ?thesis by (simp add: actByLink_def ibind_def)
next
  case (Inr x)
  note a = activeLink_Inr [OF Inr]
  obtain l where row: "l \<in> set (db_links db)" "sl_consumedAt l \<noteq> None" "sl_tokenHash l = Some (sha256Hex token)"
    using spent by (auto simp: spentTokens_def)
  have "ownTokens (db_links db)" using inv by (simp add: linksInv_def)
  then have "sl_id l = sl_id (lx_link x)" by (rule ownTokensD) (fact row(1) a(2) row(3) a(3))+
  then have "sl_consumedAt l = None" by (rule row_open [OF inv a(2,4) row(1)])
  then show ?thesis using row(2) by simp
qed

section \<open>Properties\<close>

text \<open>
  C38. A link acts once. After a signature or a rejection through a link, in every state the system
  can reach from there, whatever is sent again, invalidated, mailed, answered or done elsewhere, the
  same token can neither sign nor reject.
\<close>

theorem link_acts_once:
  assumes "inj uuid" "linksInv uuid db"
    and "fst (signByLink tools sha256Hex env token identityToken png ip agent db fs) = Inr (d, db1) \<or>
         fst (rejectByLink sha256Hex env token identityToken reason ip agent db fs) = Inr (d, db1)"
    and "linkReachable tools sha256Hex uuid (db1, fs1) (db2, fs2)"
  shows "isl (fst (signByLink tools sha256Hex env' token identityToken' png' ip' agent' db2 fs2)) \<and>
    isl (fst (rejectByLink sha256Hex env' token identityToken' reason' ip' agent' db2 fs2))"
proof -
  have acted: "linksInv uuid db1 \<and> Some (sha256Hex token) \<in> spentTokens db1"
    using assms(3)
  proof
    assume "fst (signByLink tools sha256Hex env token identityToken png ip agent db fs) = Inr (d, db1)"
    then obtain fs' where "signByLink tools sha256Hex env token identityToken png ip agent db fs = (Inr (d, db1), fs')"
      by (metis prod.collapse)
    then show ?thesis using signByLink_inv [OF assms(2)] signByLink_spent(2) [OF assms(2)] by (intro conjI)
  next
    assume "fst (rejectByLink sha256Hex env token identityToken reason ip agent db fs) = Inr (d, db1)"
    then obtain fs' where "rejectByLink sha256Hex env token identityToken reason ip agent db fs = (Inr (d, db1), fs')"
      by (metis prod.collapse)
    then show ?thesis using rejectByLink_inv [OF assms(2)] rejectByLink_spent(2) [OF assms(2)] by (intro conjI)
  qed
  then have spent: "Some (sha256Hex token) \<in> spentTokens db2" using linkReachable_spent [OF assms(4,1)] by auto
  have "linksInv uuid db2" using linkReachable_inv [OF assms(4,1)] acted by simp
  then show ?thesis unfolding signByLink_def rejectByLink_def using spent_token_refused [of _ db2 sha256Hex token] spent by blast
qed

text \<open>
  Whatever the steps from a database without links, a turn has at most one open link, a token
  belongs to one link, no link takes more than five wrong answers (and closes at the fifth), and a
  link is consumed only after the identity behind it was confirmed.
\<close>

theorem links_stay_well_formed:
  assumes "inj uuid" "db_links (fst s) = []" "linkReachable tools sha256Hex uuid s t"
  shows "\<forall>l\<in>set (db_links (fst t)).
      sl_identityAttempts l \<le> MAX_IDENTITY_ATTEMPTS \<and>
      (openLink l \<longrightarrow> sl_identityAttempts l < MAX_IDENTITY_ATTEMPTS) \<and>
      (sl_consumedAt l \<noteq> None \<longrightarrow> sl_identityConfirmedAt l \<noteq> None) \<and>
      (\<forall>m\<in>set (db_links (fst t)).
         (openLink l \<and> openLink m \<and> sl_documentId l = sl_documentId m \<and> sl_signOrder l = sl_signOrder m
            \<longrightarrow> l = m) \<and>
         (sl_tokenHash l \<noteq> None \<and> sl_tokenHash l = sl_tokenHash m \<longrightarrow> l = m))"
proof -
  have "linksInv uuid (fst s)" using assms(2) by (simp add: linksInv_def oneOpen_def ownTokens_def)
  then have inv: "linksInv uuid (fst t)" by (rule linkReachable_inv [OF assms(3,1)])
  then have parts: "\<forall>l\<in>set (db_links (fst t)). linkOk l" "oneOpen (db_links (fst t))" "ownTokens (db_links (fst t))"
    by (simp_all add: linksInv_def)
  show ?thesis
  proof (intro ballI conjI)
    fix l assume l: "l \<in> set (db_links (fst t))"
    have ok: "linkOk l" using parts(1) l by blast
    show "sl_identityAttempts l \<le> MAX_IDENTITY_ATTEMPTS"
      "openLink l \<longrightarrow> sl_identityAttempts l < MAX_IDENTITY_ATTEMPTS"
      "sl_consumedAt l \<noteq> None \<longrightarrow> sl_identityConfirmedAt l \<noteq> None"
      using ok by (simp_all add: linkOk_def)
    fix m assume m: "m \<in> set (db_links (fst t))"
    show "openLink l \<and> openLink m \<and> sl_documentId l = sl_documentId m \<and> sl_signOrder l = sl_signOrder m \<longrightarrow> l = m"
      using oneOpenD [OF parts(2) l m] linksInv_same_id [OF inv l m] by blast
    show "sl_tokenHash l \<noteq> None \<and> sl_tokenHash l = sl_tokenHash m \<longrightarrow> l = m"
    proof
      assume same: "sl_tokenHash l \<noteq> None \<and> sl_tokenHash l = sl_tokenHash m"
      obtain t where "sl_tokenHash l = Some t" using conjunct1 [OF same] unfolding not_None_eq by (rule exE)
      moreover have "sl_tokenHash m = Some t" using same calculation by simp
      ultimately show "l = m" by (intro linksInv_same_id [OF inv l m] ownTokensD [OF parts(3) l m])
    qed
  qed
qed

text \<open>
  C39. A signature through a link needs an open, unexpired link whose token is the one presented,
  an identity confirmed behind it, an authorization of that identity which has not expired, and the
  current turn of the document, held by the person of the link in a role that does not demand the
  second factor; and it consumes the link at that instant, in a row that satisfies the CHECK of the table.
\<close>

theorem link_signature_needs_identity:
  assumes "signByLink tools sha256Hex env token identityToken png ip agent db fs = (Inr (d, db'), fs')"
  shows "\<exists>l s t u. l \<in> set (db_links db) \<and> sl_tokenHash l = Some (sha256Hex token) \<and> openLink l \<and>
      sl_expiresAt l = Some t \<and> e_now env < t \<and>
      sl_identityConfirmedAt l \<noteq> None \<and> sl_authorizationHash l = Some (sha256Hex identityToken) \<and>
      sl_authorizationExpiresAt l = Some u \<and> e_now env < u \<and>
      currentTurn db (sl_documentId l) = Some s \<and> ds_signOrder s = sl_signOrder l \<and>
      ds_signerPersonId s = Some (sl_personId l) \<and> \<not> requiresMfa (ds_role s) \<and>
      list_ex (\<lambda>m. sl_id m = sl_id l \<and> sl_consumedAction m = Some LinkSigned \<and> sl_consumedAt m = Some (e_now env) \<and>
        linkConsumedCheck m) (db_links db')"
proof -
  obtain x ref db1 where a: "activeLink sha256Hex env db token = Inr x"
    "authorizedLink sha256Hex (e_now env) identityToken (lx_link x)"
    "db' = consumeLink env (sl_id (lx_link x)) LinkSigned db1"
    and cap: "capture tools env ref \<lparr>cp_order = sl_signOrder (lx_link x), cp_signerPersonId = sl_personId (lx_link x),
         cp_ipAddress = ip, cp_userAgent = agent, cp_evidence = linkEvidence env (lx_link x),
         cp_rubricPng = png\<rparr> db fs = (Inr db1, fs')"
    using assms unfolding signByLink_def by (elim actByLink_Inr) blast
  note x = activeLink_Inr [OF a(1)]
  let ?f = "\<lambda>l. l\<lparr>sl_consumedAt := Some (e_now env), sl_consumedAction := Some LinkSigned,
             sl_authorizationHash := None, sl_authorizationExpiresAt := None\<rparr>"
  have "?f (lx_link x) \<in> set (db_links db')"
    using x(2) by (force simp: a(3) consumeLink_def capture_links(1) [OF cap] update_where_def)
  moreover have "linkConsumedCheck (?f (lx_link x))" using a(2) by (simp add: authorizedLink_def linkConsumedCheck_def)
  ultimately have "list_ex (\<lambda>m. sl_id m = sl_id (lx_link x) \<and> sl_consumedAction m = Some LinkSigned \<and>
      sl_consumedAt m = Some (e_now env) \<and> linkConsumedCheck m) (db_links db')"
    unfolding list_ex_iff by (intro bexI [of _ "?f (lx_link x)"]) simp_all
  moreover obtain u where "sl_identityConfirmedAt (lx_link x) \<noteq> None"
    "sl_authorizationHash (lx_link x) = Some (sha256Hex identityToken)"
    "sl_authorizationExpiresAt (lx_link x) = Some u" "e_now env < u"
    using a(2) by (auto simp: authorizedLink_def split: option.splits)
  ultimately show ?thesis using x(2-4,6,7) by blast
qed

text \<open>
  C40. A wrong answer to the identity question is counted even though the request fails, takes back an
  authorization given before, and at the fifth closes the link, whose token then opens nothing.
\<close>

theorem wrong_answers_lock_the_link:
  assumes "inj uuid" "linksInv uuid db" "activeLink sha256Hex env db token = Inr x"
    and "lastFourDigits (Option.bind (List.find (\<lambda>p. pe_id p = sl_personId (lx_link x)) (db_persons db))
           pe_documentNumber) = Some expected"
    and "padEndFour last4 \<noteq> expected"
  shows "\<exists>db' m. confirmIdentity sha256Hex env identityToken token last4 db =
       (if sl_identityAttempts (lx_link x) = 4 then throw SignatureIdentityLocked
        else throw SignatureIdentityMismatch, db') \<and>
     findByToken sha256Hex db' token = Some m \<and>
     sl_identityAttempts m = Suc (sl_identityAttempts (lx_link x)) \<and> sl_authorizationHash m = None \<and>
     (sl_identityAttempts (lx_link x) = 4 \<longrightarrow>
        activeLink sha256Hex env' db' token = throw SignatureLinkUnavailable)"
proof -
  note x = activeLink_Inr [OF assms(3)]
  let ?l = "lx_link x" and ?m = "wrongAnswer env (lx_link x) (lx_link x)"
  let ?db' = "db\<lparr>db_links := update_where (\<lambda>y. sl_id y = sl_id ?l) (wrongAnswer env ?l) (db_links db)\<rparr>"
  have "linkOk ?l" using assms(2) x(2) by (simp add: linksInv_def)
  then have four: "MAX_IDENTITY_ATTEMPTS \<le> Suc (sl_identityAttempts ?l) \<longleftrightarrow> sl_identityAttempts ?l = 4"
    using x(4) by (auto simp: linkOk_def MAX_IDENTITY_ATTEMPTS_def)
  have run: "confirmIdentity sha256Hex env identityToken token last4 db =
       (if sl_identityAttempts ?l = 4 then throw SignatureIdentityLocked else throw SignatureIdentityMismatch, ?db')"
    using assms(3-5) by (simp add: confirmIdentity_def Let_def wrongAnswer_def [abs_def] four [symmetric])
  have found: "findByToken sha256Hex ?db' token = Some ?m"
    using x(1) by (simp add: findByToken_def find_update_where_key [of sl_tokenHash])
  moreover have "sl_identityAttempts ?m = Suc (sl_identityAttempts ?l)" "sl_authorizationHash ?m = None"
    by (simp_all add: wrongAnswer_def)
  moreover have "activeLink sha256Hex env' ?db' token = throw SignatureLinkUnavailable"
    if "sl_identityAttempts ?l = 4"
  proof -
    have "sl_invalidatedAt ?m \<noteq> None" using that four by (simp add: wrongAnswer_def)
    then have "publicStatus (e_now env') ?m c \<noteq> PLActive" for c
      by (auto simp: publicStatus_def linkState_def)
    moreover have "findDocument ?db' (sl_documentId ?m) = Some (lx_document x)"
      using x(5) by (simp add: findDocument_def)
    ultimately show ?thesis
      using found by (simp add: activeLink_def linkContextOf_def documentRow_def Let_def)
  qed
  ultimately show ?thesis using run by blast
qed

text \<open>
  The roles of the control office sign with the second factor only: such a turn has no channel
  but a session with it, a session without it is refused, and no link acts on it.
\<close>

theorem control_turns_need_second_factor:
  assumes "requiresMfa role"
  shows "(channelFor role candidate = Inr m \<longrightarrow> m = SessionMfa) \<and>
    (\<forall>slot. List.find (\<lambda>s. ds_signOrder s = order) slots = Some slot \<and> ds_role slot = role \<longrightarrow>
       signerBlocker activeSession mfaSession status slots order actor = Inr m' \<longrightarrow>
       m' = SessionMfa \<and> mfaSession (sa_id actor) (the (sa_sessionId actor))) \<and>
    (\<forall>x. activeLink sha256Hex env db token = Inr x \<longrightarrow>
       map_option ds_role (currentTurn db (sl_documentId (lx_link x))) \<noteq> Some role)"
proof (intro conjI allI impI)
  assume "channelFor role candidate = Inr m"
  then show "m = SessionMfa" using assms by (auto simp: channelFor_def Let_def split: option.splits if_splits)
next
  fix slot
  assume slot: "List.find (\<lambda>s. ds_signOrder s = order) slots = Some slot \<and> ds_role slot = role"
    and "signerBlocker activeSession mfaSession status slots order actor = Inr m'"
  then show "m' = SessionMfa" "mfaSession (sa_id actor) (the (sa_sessionId actor))"
    using assms by (auto simp: signerBlocker_def Let_def split: if_splits)
next
  fix x assume "activeLink sha256Hex env db token = Inr x"
  then show "map_option ds_role (currentTurn db (sl_documentId (lx_link x))) \<noteq> Some role"
    using activeLink_Inr(7) assms by fastforce
qed

section \<open>Samples\<close>

text \<open>A document with one pending turn of a person without a user, and the link mailed for it.\<close>

definition linkHash :: "string \<Rightarrow> string" where
  "linkHash s = CHR ''#'' # s"

definition linkSample :: signingLink where
  "linkSample = \<lparr>sl_id = ''00000000-0000-4000-8000-000000000001'', sl_documentId = sampleDocId,
     sl_signOrder = 1, sl_personId = ''p1'', sl_email = ''p1@e'', sl_tokenHash = Some ''#t'',
     sl_deliveryStatus = LinkSent, sl_sendAttempts = 1, sl_sendStartedAt = Some 0,
     sl_lastSendError = None, sl_sentAt = Some 0, sl_expiresAt = Some 9000, sl_identityAttempts = 0,
     sl_identityConfirmedAt = Some 500, sl_authorizationHash = Some ''#i'',
     sl_authorizationExpiresAt = Some 9000, sl_consumedAt = None, sl_consumedAction = None,
     sl_invalidatedAt = None, sl_invalidatedReason = None, sl_createdAt = 0\<rparr>"

definition linkDoc :: document where
  "linkDoc = sampleDocument\<lparr>d_signatureReference := Some sampleRef\<rparr>"

definition linkTurn :: documentSignature where
  "linkTurn = \<lparr>ds_documentId = sampleDocId, ds_signOrder = 1, ds_role = ''R'', ds_signerPersonId = Some ''p1'',
     ds_signerName = None, ds_signerDocument = None, ds_status = SPending, ds_signedAt = None\<rparr>"

definition linkPerson :: person where
  "linkPerson = \<lparr>pe_id = ''p1'', pe_isActive = True, pe_costCenterId = None, pe_email = Some ''p1@e'',
     pe_documentNumber = Some ''CC 1234567'', pe_firstName = ''A'', pe_lastName = ''B''\<rparr>"

definition linkBefore :: db where
  "linkBefore = (fst signRequested)\<lparr>db_documents := [linkDoc], db_signatures := [linkTurn],
     db_persons := [linkPerson], db_seq := 2\<rparr>"

definition linkStart :: db where
  "linkStart = linkBefore\<lparr>db_links := [linkSample]\<rparr>"

definition linkEnd :: db where
  "linkEnd = (case fst (rejectByLink linkHash sampleEnv ''t'' ''i'' ''no'' None None linkStart (snd signRequested)) of
     Inr (_, db) \<Rightarrow> db | Inl _ \<Rightarrow> linkStart)"

lemma linkStart_simps [simp]:
  "db_documents linkStart = [linkDoc]" "db_signatures linkStart = [linkTurn]" "db_persons linkStart = [linkPerson]"
  "db_links linkStart = [linkSample]" "db_seq linkStart = 2" "db_users linkStart = []"
  "db_envelopes linkStart = [sampleEnvelope]" "db_envelopeSigners linkStart = [sampleSigner]"
  "db_links linkBefore = []" "db_documents linkBefore = [linkDoc]" "db_signatures linkBefore = [linkTurn]"
  "db_persons linkBefore = [linkPerson]" "db_users linkBefore = []"
  by (simp_all add: linkStart_def linkBefore_def signRequested_def signStart_def emptyDb_def)

lemma linkTurn_current:
  "currentTurn linkStart sampleDocId = Some linkTurn" "currentTurn linkBefore sampleDocId = Some linkTurn"
  "findDocument linkStart sampleDocId = Some linkDoc"
  by (simp_all add: currentTurn_def documentSlots_def linkTurn_def findDocument_def linkDoc_def sampleDocument_def)

lemma linkStart_active:
  "activeLink linkHash sampleEnv linkStart ''t'' = Inr \<lparr>lx_link = linkSample, lx_document = linkDoc,
     lx_current = Some linkTurn, lx_status = PLActive\<rparr>"
proof -
  have "findByToken linkHash linkStart ''t'' = Some linkSample"
    by (simp add: findByToken_def linkSample_def linkHash_def)
  moreover have "sl_documentId linkSample = sampleDocId" by (simp add: linkSample_def)
  moreover have "publicStatus (e_now sampleEnv) linkSample (Some linkTurn) = PLActive"
    by (simp add: publicStatus_def linkState_def linkSample_def linkTurn_def sampleEnv_def requiresMfa_def
        MFA_REQUIRED_ROLES_def)
  ultimately show ?thesis
    by (simp add: activeLink_def linkContextOf_def documentRow_def linkTurn_current)
qed

lemma linkStart_authorized: "authorizedLink linkHash (e_now sampleEnv) ''i'' linkSample"
  by (simp add: authorizedLink_def linkSample_def linkHash_def sampleEnv_def)

lemma linkStart_inv: "linksInv (e_uuid sampleEnv) linkStart"
proof -
  have "e_uuid sampleEnv 1 = sl_id linkSample" by code_simp
  then have "sl_id linkSample \<in> e_uuid sampleEnv ` {..<2}" by (metis imageI lessThan_iff one_less_numeral_iff semiring_norm(76))
  then show ?thesis
    by (simp add: linksInv_def oneOpen_def ownTokens_def)
      (simp add: linkOk_def linkSample_def openLink_def MAX_IDENTITY_ATTEMPTS_def)
qed

lemma linkStart_rows: "envelopeSigners linkStart sampleRef = [sampleSigner]"
  "findEnvelope linkStart sampleRef = Inr sampleEnvelope"
  "documentCreatedAt linkStart sampleDocId = Inr 1767225600000"
  "d_signatureReference linkDoc = Some sampleRef" "sl_signOrder linkSample = 1" "sl_personId linkSample = ''p1''"
  by (simp_all add: envelopeSigners_def findEnvelope_def sampleSigner_def sampleEnvelope_def sampleRequest_def
      newSigner_def documentCreatedAt_def sampleDocument_def linkDoc_def linkSample_def)

lemma linkStart_rejects:
  "\<exists>d. rejectByLink linkHash sampleEnv ''t'' ''i'' ''no'' None None linkStart (snd signRequested) =
     (Inr (d, linkEnd), snd signRequested)"
proof -
  have e: "ev_id sampleEnvelope = sampleRef" by (simp add: sampleEnvelope_def)
  obtain d db' where "rejectByLink linkHash sampleEnv ''t'' ''i'' ''no'' None None linkStart (snd signRequested) =
     (Inr (d, db'), snd signRequested)"
    by (simp add: rejectByLink_def actByLink_def ibind_def linkStart_active linkStart_authorized linkStart_rows
        rejectEnvelope_def e sample_rows(3))
  then show ?thesis by (simp add: linkEnd_def)
qed

lemma linkStart_signs:
  "\<exists>d db' fs'. signByLink sampleTools linkHash sampleEnv ''t'' ''i'' (PNG_SIGNATURE @ ''x'') None None linkStart
     (snd signRequested) = (Inr (d, db'), fs')"
proof -
  have e: "ev_id sampleEnvelope = sampleRef" "ev_documentId sampleEnvelope = sampleDocId"
    "ev_verificationCode sampleEnvelope = ''abcdefgh''"
    by (simp_all add: sampleEnvelope_def)
  have png: "isPng (PNG_SIGNATURE @ ''x'')" "\<not> MAX_RUBRIC_BYTES < length (PNG_SIGNATURE @ ''x'')"
    using sample_rubric by (simp_all add: sampleCapture_def)
  have "currentPdf sampleTools sampleEnvelope (snd signRequested) = (Inr ''pdf+'', snd signRequested)"
    by (simp add: currentPdf_def ibind_def getObject_def sample_keys signRequested_def sampleEnvelope_def
        sampleTools_def)
  moreover have "pt_stamp sampleTools ''pdf+'' m = Inr ''pdf+*''" for m by (simp add: sampleTools_def)
  ultimately show ?thesis using png
    by (simp del: append_Cons add: signByLink_def actByLink_def ibind_def linkStart_active linkStart_authorized linkStart_rows
        capture_def e sample_rows(3) sample_keys putObject_def Let_def)
qed

theorem link_acts_once_witness:
  "isl (fst (signByLink sampleTools linkHash sampleEnv ''t'' ''i'' ''png'' None None linkEnd (snd signRequested)))"
proof -
  obtain d where "fst (rejectByLink linkHash sampleEnv ''t'' ''i'' ''no'' None None linkStart (snd signRequested)) =
      Inr (d, linkEnd)"
    using linkStart_rejects by auto
  from link_acts_once [OF sample_hashes(2) linkStart_inv disjI2 [OF this] linkReachable.linkReachable_start]
  show ?thesis by blast
qed

theorem link_signature_needs_identity_witness:
  "\<exists>l\<in>set (db_links linkStart). sl_tokenHash l = Some (linkHash ''t'') \<and>
     sl_authorizationHash l = Some (linkHash ''i'')"
proof -
  obtain d db' fs' where run: "signByLink sampleTools linkHash sampleEnv ''t'' ''i'' (PNG_SIGNATURE @ ''x'') None None
      linkStart (snd signRequested) = (Inr (d, db'), fs')"
    using linkStart_signs by blast
  show ?thesis using link_signature_needs_identity [OF run] by blast
qed

theorem links_stay_well_formed_witness:
  "\<exists>l. db_links (refreshLink sampleEnv sampleDocId linkBefore) = [l] \<and> openLink l \<and>
     sl_identityAttempts l < MAX_IDENTITY_ATTEMPTS"
proof -
  let ?t = "(refreshLink sampleEnv sampleDocId linkBefore, snd signRequested)"
  have "linkReachable sampleTools linkHash (e_uuid sampleEnv) (linkBefore, snd signRequested) ?t"
    by (rule linkReachable_step [OF linkReachable_start Refreshed [OF refl]])
  note inv = links_stay_well_formed [OF sample_hashes(2) _ this]
  have candidate: "candidateOf (linkBefore\<lparr>db_links := []\<rparr>) (Some ''p1'') =
     Some \<lparr>sc_personId = ''p1'', sc_personActive = True, sc_email = Some ''p1@e'',
       sc_documentNumber = Some ''CC 1234567'', sc_userStatus = None, sc_mfaEnabled = False\<rparr>"
    by (simp add: candidateOf_def linkPerson_def)
  have channel: "channelFor ''R'' (Some \<lparr>sc_personId = ''p1'', sc_personActive = True, sc_email = Some ''p1@e'',
       sc_documentNumber = Some ''CC 1234567'', sc_userStatus = None, sc_mfaEnabled = False\<rparr>) = Inr EmailLink"
    by code_simp
  have "db_links (refreshLink sampleEnv sampleDocId linkBefore) =
      [newLink sampleEnv (freshId sampleEnv linkBefore) sampleDocId 1 ''p1'' ''p1@e'']"
    by (simp add: refreshLink_def linkTurn_current Let_def)
      (simp add: linkTurn_def candidate channel closePastTurns_def insertLink_def
        bumpSeq_def freshId_def openLinkFor_def)
  then show ?thesis using inv by (simp add: openLink_def newLink_def)
qed

theorem wrong_answers_lock_the_link_witness:
  "\<exists>db'. confirmIdentity linkHash sampleEnv ''j'' ''t'' ''0000'' linkStart = (throw SignatureIdentityMismatch, db')"
proof -
  have digits: "lastFourDigits (Some ''CC 1234567'') = Some ''4567''" "padEndFour ''0000'' \<noteq> ''4567''"
    by code_simp+
  let ?x = "\<lparr>lx_link = linkSample, lx_document = linkDoc, lx_current = Some linkTurn, lx_status = PLActive\<rparr>"
  have person: "lastFourDigits (Option.bind (List.find (\<lambda>p. pe_id p = sl_personId (lx_link ?x)) (db_persons linkStart))
           pe_documentNumber) = Some ''4567''"
    by (simp add: linkStart_rows) (simp add: linkPerson_def digits(1))
  show ?thesis
    using wrong_answers_lock_the_link [OF sample_hashes(2) linkStart_inv linkStart_active person digits(2),
        of "''j''" sampleEnv]
    by (auto simp: linkSample_def)
qed

theorem control_turns_need_second_factor_witness:
  "requiresMfa ''AUDITA'' \<and> channelFor ''AUDITA'' (Some \<lparr>sc_personId = ''p'', sc_personActive = True,
     sc_email = Some ''e'', sc_documentNumber = Some ''12345'', sc_userStatus = Some UActive,
     sc_mfaEnabled = True\<rparr>) \<noteq> Inr EmailLink"
proof -
  have role: "requiresMfa ''AUDITA''" by code_simp
  then show ?thesis
    using control_turns_need_second_factor [OF role, of "Some \<lparr>sc_personId = ''p'', sc_personActive = True,
     sc_email = Some ''e'', sc_documentNumber = Some ''12345'', sc_userStatus = Some UActive,
     sc_mfaEnabled = True\<rparr>" EmailLink] by auto
qed

end
