(* ===== verification/DocActs.thy ===== *)
theory DocActs
  imports SigningLinks
begin

text \<open>
  The engine that issues the acts: src/src/modules/documents/services/document-engine.service.ts, the
  registry of the processes that follow an act
  (src/src/modules/documents/lifecycle/document-lifecycle.registry.ts) and the rules on formats of
  src/src/modules/documents/domain/document-formats.ts.

  An act is requested through an outbox, generated with a number of its sequence, signed turn by turn
  in its envelope, and its transition to signed or rejected runs the process that owns it under a
  savepoint. Rendering, hashing, secrets and the mail transport are arguments (\<open>actTools\<close>).
\<close>

section \<open>Formats bound to a process\<close>

datatype bindingSigners = AnySigners | RequiredSigners "(string \<times> signerSource) list"

record processFormatBinding =
  pb_formatKey :: string
  pb_process :: string
  pb_signers :: bindingSigners

datatype bindingViolation = MissingSigner string | WrongSource string signerSource | UnassignedSigner string

definition processBindingViolations ::
  "processFormatBinding \<Rightarrow> signerSpec list \<Rightarrow> bindingViolation list" where
  "processBindingViolations binding signers =
     (case pb_signers binding of
        AnySigners \<Rightarrow> []
      | RequiredSigners required \<Rightarrow>
          (let byRole = map_of (rev (map (\<lambda>s. (sn_role s, sn_source s)) signers)) in
           map (\<lambda>(role, _). MissingSigner role) (filter (\<lambda>(role, _). byRole role = None) required) @
           map (\<lambda>(role, source). WrongSource role source)
             (filter (\<lambda>(role, source). byRole role \<noteq> None \<and> byRole role \<noteq> Some source) required) @
           map (\<lambda>s. UnassignedSigner (sn_role s))
             (filter (\<lambda>s. sn_role s \<notin> set (map fst required)) signers)))"

section \<open>The registry of processes\<close>

record lifecycleEvent =
  lv_documentId :: string
  lv_formatKey :: string
  lv_number :: string
  lv_entityType :: string
  lv_entityId :: "string option"
  lv_signers :: "documentSignature list"

text \<open>\<open>signersByRole\<close> of an event: the last turn of a role wins.\<close>

definition signersByRole :: "lifecycleEvent \<Rightarrow> string \<Rightarrow> string option" where
  "signersByRole event role =
     (case map_of (rev (map (\<lambda>s. (ds_role s, ds_signerPersonId s)) (lv_signers event))) role of
        None \<Rightarrow> None | Some p \<Rightarrow> p)"

datatype lifecyclePhase = OnGenerated | OnSigned | OnRejected

type_synonym lifecycleCallback = "env \<Rightarrow> lifecycleEvent \<Rightarrow> db \<Rightarrow> db res"

record lifecycleHandler =
  lh_entityType :: string
  lh_onGenerated :: "lifecycleCallback option"
  lh_onSigned :: "lifecycleCallback option"
  lh_onRejected :: "lifecycleCallback option"
  lh_formats :: "processFormatBinding list"

fun phaseCallback :: "lifecycleHandler \<Rightarrow> lifecyclePhase \<Rightarrow> lifecycleCallback option" where
  "phaseCallback h OnGenerated = lh_onGenerated h"
| "phaseCallback h OnSigned = lh_onSigned h"
| "phaseCallback h OnRejected = lh_onRejected h"

record lifecycleRegistry =
  rg_handlers :: "(string \<times> lifecycleHandler) list"
  rg_bindings :: "(string \<times> processFormatBinding) list"
  rg_observers :: "((string \<times> lifecyclePhase) \<times> lifecycleCallback) list"

definition emptyRegistry :: lifecycleRegistry where
  "emptyRegistry = \<lparr>rg_handlers = [], rg_bindings = [], rg_observers = []\<rparr>"

definition registerHandler :: "lifecycleHandler \<Rightarrow> lifecycleRegistry \<Rightarrow> lifecycleRegistry res" where
  "registerHandler h rg =
     (if trim (lh_entityType h) = [] then throwError
      else if map_of (rg_handlers rg) (lh_entityType h) \<noteq> None then throwError
      else if list_ex (\<lambda>b. map_of (rg_bindings rg) (pb_formatKey b) \<noteq> None) (lh_formats h) then throwError
      else Inr (rg\<lparr>rg_handlers := (lh_entityType h, h) # rg_handlers rg,
             rg_bindings := rev (map (\<lambda>b. (pb_formatKey b, b)) (lh_formats h)) @ rg_bindings rg\<rparr>))"

definition observePhase ::
  "string \<Rightarrow> lifecyclePhase \<Rightarrow> lifecycleCallback \<Rightarrow> lifecycleRegistry \<Rightarrow> lifecycleRegistry" where
  "observePhase entityType phase callback rg =
     rg\<lparr>rg_observers := rg_observers rg @ [((entityType, phase), callback)]\<rparr>"

definition bindingFor :: "lifecycleRegistry \<Rightarrow> string \<Rightarrow> processFormatBinding option" where
  "bindingFor rg formatKey = map_of (rg_bindings rg) formatKey"

definition handlerOf :: "lifecycleRegistry \<Rightarrow> document \<Rightarrow> lifecycleHandler option" where
  "handlerOf rg d =
     (if falsy (d_entityType d) then None else map_of (rg_handlers rg) (the (d_entityType d)))"

definition eventOf :: "db \<Rightarrow> document \<Rightarrow> lifecycleHandler \<Rightarrow> lifecycleEvent" where
  "eventOf db d h =
     \<lparr>lv_documentId = d_id d, lv_formatKey = d_formatKey d, lv_number = d_number d,
      lv_entityType = lh_entityType h, lv_entityId = d_entityId d,
      lv_signers = documentSlots db (d_id d)\<rparr>"

definition observersOf :: "lifecycleRegistry \<Rightarrow> string \<Rightarrow> lifecyclePhase \<Rightarrow> lifecycleCallback list" where
  "observersOf rg entityType phase = map snd (filter (\<lambda>o'. fst o' = (entityType, phase)) (rg_observers rg))"

text \<open>\<open>dispatch\<close>: any failure of the process or an observer becomes a \<open>DocumentLifecycleError\<close>.\<close>

definition dispatchPhase ::
  "lifecycleRegistry \<Rightarrow> env \<Rightarrow> lifecyclePhase \<Rightarrow> string \<Rightarrow> db \<Rightarrow> db res" where
  "dispatchPhase rg env phase documentId db =
     (case findDocument db documentId of
        None \<Rightarrow> Inr db
      | Some d \<Rightarrow> (case handlerOf rg d of
          None \<Rightarrow> Inr db
        | Some h \<Rightarrow> (case phaseCallback h phase of
            None \<Rightarrow> Inr db
          | Some callback \<Rightarrow>
              (case foldM (\<lambda>d' f. f env (eventOf db d h) d') db
                  (callback # observersOf rg (lh_entityType h) phase) of
                 Inl _ \<Rightarrow> throwError | Inr db' \<Rightarrow> Inr db'))))"

text \<open>\<open>stateFor\<close>: the requests and acts of an entity, newest first.\<close>

record entityDocumentsState =
  ed_generation :: "requestStatus option"
  ed_requests :: "documentRequest list"
  ed_documents :: "document list"

definition newestFirst :: "('a \<Rightarrow> int) \<Rightarrow> ('a \<Rightarrow> string) \<Rightarrow> 'a list \<Rightarrow> 'a list" where
  "newestFirst createdAt key rows = rev (sort_key createdAt (sort_key key rows))"

definition stateFor :: "db \<Rightarrow> string \<Rightarrow> string \<Rightarrow> string option \<Rightarrow> entityDocumentsState" where
  "stateFor db entityType entityId formatKey =
     (let requests = newestFirst dr_createdAt dr_id (filter (\<lambda>r.
            dp_entityType (dr_payload r) = Some entityType \<and> dp_entityId (dr_payload r) = Some entityId \<and>
            (formatKey = None \<or> formatKey = Some (dr_formatKey r))) (db_documentRequests db));
          documents = (if isUuid entityId then newestFirst d_createdAt d_id (filter (\<lambda>d.
              d_entityType d = Some entityType \<and> d_entityId d = Some entityId \<and>
              (formatKey = None \<or> formatKey = Some (d_formatKey d))) (db_documents db)) else []);
          fromOutbox = filter (\<lambda>k. \<not> falsy k) (map dr_documentId requests);
          latestDirect = List.find (\<lambda>d. Some (d_id d) \<notin> set fromOutbox) documents
      in \<lparr>ed_generation =
            (case (latestDirect, requests) of
               (Some d, []) \<Rightarrow> Some RGenerated
             | (Some d, r # _) \<Rightarrow> if dr_createdAt r < d_createdAt d then Some RGenerated else Some (dr_status r)
             | (None, []) \<Rightarrow> None
             | (None, r # _) \<Rightarrow> Some (dr_status r)),
          ed_requests = requests, ed_documents = documents\<rparr>)"

section \<open>The tables of a payload\<close>

text \<open>\<open>/^[a-zA-Z][a-zA-Z0-9_]{0,39}$/\<close>\<close>

definition TABLE_IDENTIFIER :: "string \<Rightarrow> bool" where
  "TABLE_IDENTIFIER s =
     (case s of [] \<Rightarrow> False
      | c # cs \<Rightarrow> isLetter c \<and> length cs \<le> 39 \<and> list_all (\<lambda>x. isLetter x \<or> isDigit x \<or> x = CHR ''_'') cs)"

definition MAX_PAYLOAD_TABLES :: nat where "MAX_PAYLOAD_TABLES = 10"
definition MAX_PAYLOAD_TABLE_ROWS :: nat where "MAX_PAYLOAD_TABLE_ROWS = 20000"
definition MAX_PAYLOAD_TABLE_COLUMNS :: nat where "MAX_PAYLOAD_TABLE_COLUMNS = 30"
definition MAX_PAYLOAD_CELL_LENGTH :: nat where "MAX_PAYLOAD_CELL_LENGTH = 2000"

definition payloadCellOk :: "string \<times> json \<Rightarrow> bool" where
  "payloadCellOk cell =
     (TABLE_IDENTIFIER (fst cell) \<and>
      (case snd cell of JStr text \<Rightarrow> length text \<le> MAX_PAYLOAD_CELL_LENGTH | _ \<Rightarrow> False))"

definition payloadRowOk :: "json \<Rightarrow> bool" where
  "payloadRowOk row =
     (case row of JObj cells \<Rightarrow> length cells \<le> MAX_PAYLOAD_TABLE_COLUMNS \<and> list_all payloadCellOk cells
      | _ \<Rightarrow> False)"

definition payloadTableOk :: "string \<times> json \<Rightarrow> bool" where
  "payloadTableOk table =
     (TABLE_IDENTIFIER (fst table) \<and>
      (case snd table of JArr rows \<Rightarrow> length rows \<le> MAX_PAYLOAD_TABLE_ROWS \<and> list_all payloadRowOk rows
       | _ \<Rightarrow> False))"

definition assertPayloadTables :: "json option \<Rightarrow> unit res" where
  "assertPayloadTables tables =
     (case tables of
        None \<Rightarrow> Inr ()
      | Some (JObj entries) \<Rightarrow>
          if length entries \<le> MAX_PAYLOAD_TABLES \<and> list_all payloadTableOk entries then Inr ()
          else throw ValidationFailed
      | Some _ \<Rightarrow> throw ValidationFailed)"

section \<open>What an act is issued from\<close>

text \<open>What is printed on an act; \<open>buildContext\<close> reads the rest from the tables.\<close>

record actData =
  ad_format :: documentFormat
  ad_template :: templateVersion
  ad_payload :: documentRequestPayload
  ad_signers :: "resolvedSigner list"
  ad_documentDate :: int
  ad_number :: string

text \<open>
  Code outside the repository and the random secrets: the stamping and hashing of \<open>pdfTools\<close>, the
  rendering of a template to DOCX and PDF, Unicode normalisation, the year in the time zone of the
  process, the verification code and link tokens drawn, and the mail transport.
\<close>

record actTools =
  at_pdf :: pdfTools
  at_render :: "db \<Rightarrow> string \<Rightarrow> actData \<Rightarrow> (string \<times> string) res"
  at_rerender :: "db \<Rightarrow> string \<Rightarrow> document \<Rightarrow> int \<Rightarrow> string \<Rightarrow> (string \<times> string) res"
  at_nfkd :: "string \<Rightarrow> string"
  at_localYear :: "int \<Rightarrow> int"
  at_code :: "string \<Rightarrow> string"
  at_tokenHash :: "string \<Rightarrow> string"
  at_mailError :: "signingLink \<Rightarrow> string option"
  at_registry :: lifecycleRegistry

definition periodFor :: "actTools \<Rightarrow> documentFormat \<Rightarrow> int \<Rightarrow> string" where
  "periodFor tools f now = (if df_perYear f then showInt (at_localYear tools now) else [])"

definition sequenceFor :: "string \<Rightarrow> string \<Rightarrow> documentSequence \<Rightarrow> bool" where
  "sequenceFor key period s = (sq_formatKey s = key \<and> sq_period s = period)"

text \<open>\<open>reserve\<close>: the next number of the sequence, which starts at \<open>initialSequenceValue\<close>.\<close>

definition reserveNumber :: "env \<Rightarrow> documentFormat \<Rightarrow> string \<Rightarrow> db \<Rightarrow> (int \<times> db) res" where
  "reserveNumber env f period db =
     (let rows = (if list_ex (sequenceFor (df_key f) period) (db_sequences db) then db_sequences db
                  else db_sequences db @ [\<lparr>sq_formatKey = df_key f, sq_period = period,
                    sq_currentValue = initialSequenceValue f period (e_numberingPolicy env)\<rparr>]);
          next = update_where (sequenceFor (df_key f) period)
            (\<lambda>s. s\<lparr>sq_currentValue := sq_currentValue s + 1\<rparr>) rows
      in case List.find (sequenceFor (df_key f) period) next of
           None \<Rightarrow> throwError
         | Some s \<Rightarrow> Inr (sq_currentValue s, db\<lparr>db_sequences := next\<rparr>))"

definition activeTemplate :: "db \<Rightarrow> string \<Rightarrow> string \<Rightarrow> templateVersion option" where
  "activeTemplate db formatKey date =
     (case rev (sort_key tv_effectiveDate (filter (\<lambda>t. tv_formatKey t = formatKey \<and>
         tv_effectiveDate t \<le> date) (db_templates db))) of [] \<Rightarrow> None | t # _ \<Rightarrow> Some t)"

definition hasActiveTemplate :: "env \<Rightarrow> db \<Rightarrow> string \<Rightarrow> bool" where
  "hasActiveTemplate env db formatKey =
     (activeTemplate db formatKey (take 10 (toISOString (e_now env))) \<noteq> None)"

definition findPerson :: "db \<Rightarrow> string \<Rightarrow> person option" where
  "findPerson db k = List.find (\<lambda>p. pe_id p = k) (db_persons db)"

definition personName :: "person option \<Rightarrow> string" where
  "personName p = (case p of None \<Rightarrow> [] | Some x \<Rightarrow> trim (pe_firstName x @ '' '' @ pe_lastName x))"

definition orNull :: "string \<Rightarrow> string option" where
  "orNull s = (if s = [] then None else Some s)"

definition namedPersons :: "documentRequestPayload \<Rightarrow> resolvedSigner list \<Rightarrow> string list" where
  "namedPersons payload resolved =
     uniq (filter (\<lambda>k. k \<noteq> []) (or_keep (map_option (\<lambda>k. [k]) (dp_responsiblePersonId payload)) [] @
       map snd (dp_signers payload) @
       concat (map (\<lambda>r. or_keep (map_option (\<lambda>k. [k]) (rs_personId r)) [] @
         (case rs_substitution r of None \<Rightarrow> [] | Some (replaced, _) \<Rightarrow> [replaced])) resolved)))"

text \<open>\<open>buildContext\<close>: the checks on what the act names.\<close>

definition assertContext :: "db \<Rightarrow> documentRequestPayload \<Rightarrow> resolvedSigner list \<Rightarrow> unit res" where
  "assertContext db payload resolved =
     (let assetIds = dp_assetIds payload in
      if list_ex (\<lambda>k. findPerson db k = None) (namedPersons payload resolved) then throw ResourceNotFound
      else if \<not> falsy (dp_costCenterId payload) \<and>
        \<not> list_ex (\<lambda>cc. Some (cc_id cc) = dp_costCenterId payload) (db_costCenters db)
      then throw ResourceNotFound
      else if length (filter (\<lambda>a. a_id a \<in> set assetIds) (db_assets db)) \<noteq> length (uniq assetIds)
      then throw ResourceNotFound
      else if list_ex (\<lambda>r. falsy (rs_personId r)) resolved then throw ValidationFailed
      else Inr ())"

text \<open>\<open>linkAssets\<close>; a movement belongs to one act at most.\<close>

definition movementFor :: "db \<Rightarrow> (string \<times> string) list \<Rightarrow> string \<Rightarrow> string option" where
  "movementFor db movementIds assetId =
     (case map_of movementIds assetId of
        None \<Rightarrow> None
      | Some k \<Rightarrow> if list_ex (\<lambda>m. m_id m = k \<and> m_assetId m = assetId) (db_movements db) then Some k else None)"

definition linkAssets :: "string \<Rightarrow> documentRequestPayload \<Rightarrow> db \<Rightarrow> db res" where
  "linkAssets documentId payload db =
     (let assetIds = uniq (dp_assetIds payload);
          movementIds = dp_movementIds payload;
          rows = map (\<lambda>a. \<lparr>da_documentId = documentId, da_assetId = a,
            da_movementId = movementFor db movementIds a\<rparr>) assetIds
      in if list_ex (\<lambda>e. fst e \<notin> set assetIds) movementIds then throw ValidationFailed
         else if assetIds = [] then Inr db
         else if list_ex (\<lambda>e. \<not> isUuid (snd e)) movementIds then throwError
         else if \<not> distinct (filter (\<lambda>m. m \<noteq> None) (map da_movementId (db_documentAssets db @ rows)))
         then throwError
         else if list_ex (\<lambda>r. \<not> falsy (map_of movementIds (da_assetId r)) \<and> da_movementId r = None) rows
         then throw ValidationFailed
         else Inr (db\<lparr>db_documentAssets := db_documentAssets db @ rows\<rparr>))"

definition newSlot :: "db \<Rightarrow> string \<Rightarrow> resolvedSigner \<Rightarrow> documentSignature" where
  "newSlot db documentId r =
     (let p = Option.bind (rs_personId r) (findPerson db) in
      \<lparr>ds_documentId = documentId, ds_signOrder = sn_order (rs_spec r), ds_role = sn_role (rs_spec r),
       ds_signerPersonId = rs_personId r, ds_signerName = orNull (personName p),
       ds_signerDocument = orNull (or_keep (Option.bind p pe_documentNumber) []),
       ds_status = SPending, ds_signedAt = None\<rparr>)"

definition issueSubstitution :: "string \<Rightarrow> string option \<Rightarrow> resolvedSigner \<Rightarrow> signatureReassignment list" where
  "issueSubstitution documentId actorId r =
     (case rs_substitution r of
        None \<Rightarrow> []
      | Some (replaced, reason) \<Rightarrow>
          [\<lparr>sr_documentId = documentId, sr_signOrder = sn_order (rs_spec r), sr_role = sn_role (rs_spec r),
            sr_fromPersonId = replaced, sr_toPersonId = rs_personId r, sr_reason = reason,
            sr_reassignedBy = actorId, sr_atIssue = True\<rparr>])"

text \<open>
  The rows of a new act, after its files are stored: the numbers of a format and the orders of the
  turns are unique, and an entity identifier is a UUID.
\<close>

definition insertAct ::
  "actTools \<Rightarrow> env \<Rightarrow> actData \<Rightarrow> string \<Rightarrow> int \<Rightarrow> string option \<Rightarrow> string \<Rightarrow> string \<Rightarrow> db \<Rightarrow> (string \<times> db) res" where
  "insertAct tools env act period v actorId pdfKey pdfHash db =
     (let documentId = freshId env db;
          payload = ad_payload act;
          f = ad_format act;
          row = \<lparr>d_id = documentId, d_formatKey = df_key f, d_number = ad_number act, d_period = period,
            d_sequenceValue = v, d_status = DPendingSignature, d_entityType = dp_entityType payload,
            d_entityId = dp_entityId payload, d_formatVersionId = df_versionId f,
            d_templateVersionId = tv_id (ad_template act), d_pdfKey = pdfKey, d_pdfHash = pdfHash,
            d_signedPdfKey = None, d_signatureReference = None, d_createdBy = actorId,
            d_createdAt = e_now env, d_signedAt = None, d_voidedAt = None, d_voidedBy = None,
            d_voidReason = None, d_lifecycleFailedAt = None, d_lifecycleError = None, d_lifecycleAttempts = 0\<rparr>
      in if list_ex (\<lambda>d. d_formatKey d = df_key f \<and> d_number d = ad_number act) (db_documents db) \<or>
            (case dp_entityId payload of None \<Rightarrow> False | Some k \<Rightarrow> \<not> isUuid k)
         then throwError
         else
           rbind (linkAssets documentId payload (bumpSeq (db\<lparr>db_documents := db_documents db @ [row]\<rparr>))) (\<lambda>db1.
           if \<not> distinct (map (\<lambda>r. sn_order (rs_spec r)) (ad_signers act)) then throwError
           else rbind (dispatchPhase (at_registry tools) env OnGenerated documentId
             (db1\<lparr>db_signatures := db_signatures db1 @ map (newSlot db1 documentId) (ad_signers act),
                  db_reassignments := db_reassignments db1 @
                    concat (map (issueSubstitution documentId actorId) (ad_signers act))\<rparr>))
             (\<lambda>db2. Inr (documentId, db2))))"

text \<open>\<open>generateWithin\<close>: one transaction; the files it stored stay if it fails.\<close>

definition generateWithin ::
  "actTools \<Rightarrow> env \<Rightarrow> documentRequestPayload \<Rightarrow> string option \<Rightarrow> int \<Rightarrow> db \<Rightarrow> (string \<times> db) io" where
  "generateWithin tools env payload actorId documentDate db =
     ibind (ilift (currentFormat env db (dp_formatKey payload))) (\<lambda>f.
     ibind (ilift (assertReady f)) (\<lambda>_.
     ibind (ilift (assertPayloadTables (dp_tables payload))) (\<lambda>_.
     ibind (ilift (signersFor db f payload actorId)) (\<lambda>resolved.
     case activeTemplate db (df_key f) (take 10 (toISOString (e_now env))) of
       None \<Rightarrow> ilift (throw TemplateNotActive)
     | Some template \<Rightarrow>
         ibind (getObject (tv_storageKey template)) (\<lambda>source.
         ibind (ilift (assertContext db payload resolved)) (\<lambda>_.
         (let period = periodFor tools f (e_now env) in
         ibind (ilift (reserveNumber env f period db)) (\<lambda>(v, db1).
         (let number = formatNumber f period v;
              act = \<lparr>ad_format = f, ad_template = template, ad_payload = payload, ad_signers = resolved,
                ad_documentDate = documentDate, ad_number = number\<rparr>;
              sha = pt_sha256 (at_pdf tools);
              fileKey = (\<lambda>extension. documentFileKey (at_nfkd tools) sha (e_now env) (df_key f) number extension None)
          in
         ibind (ilift (at_render tools db source act)) (\<lambda>(docx, pdf).
         ibind (ilift (fileKey ''docx'')) (\<lambda>docxKey.
         ibind (putObject docxKey docx) (\<lambda>_.
         ibind (ilift (fileKey ''pdf'')) (\<lambda>pdfKey.
         ibind (putObject pdfKey pdf) (\<lambda>_.
           ilift (insertAct tools env act period v actorId pdfKey (sha pdf) db1)))))))))))))))"

section \<open>Requesting the signatures\<close>

definition formatOfDocument :: "db \<Rightarrow> document \<Rightarrow> documentFormat res" where
  "formatOfDocument db d =
     (case List.find (\<lambda>f. df_versionId f = d_formatVersionId d) (db_formats db) of
        None \<Rightarrow> throw ResourceNotFound | Some f \<Rightarrow> Inr f)"

definition roleLabel :: "documentFormat \<Rightarrow> string \<Rightarrow> string" where
  "roleLabel f role = (case List.find (\<lambda>s. sn_role s = role) (df_signers f) of None \<Rightarrow> role | Some s \<Rightarrow> sn_label s)"

definition signatureRequestFor :: "actTools \<Rightarrow> db \<Rightarrow> document \<Rightarrow> string \<Rightarrow> signatureRequest res" where
  "signatureRequestFor tools db d pdf =
     rbind (formatOfDocument db d) (\<lambda>f.
       Inr \<lparr>rq_documentId = d_id d, rq_documentCreatedAt = d_createdAt d, rq_documentNumber = d_number d,
         rq_formatKey = d_formatKey d,
         rq_title = Some (or_keep (df_sgcCode f) (df_key f) @ '' '' @ [CHR 0xB7] @ '' '' @ df_name f @
           '' '' @ [CHR 0xB7] @ '' '' @ d_number d),
         rq_pdf = pdf, rq_pdfSha256 = pt_sha256 (at_pdf tools) pdf,
         rq_signers = map (\<lambda>s. \<lparr>sq_order = ds_signOrder s, sq_role = ds_role s,
           sq_roleLabel = Some (roleLabel f (ds_role s)), sq_personId = ds_signerPersonId s,
           sq_name = ds_signerName s, sq_documentNumber = ds_signerDocument s\<rparr>) (documentSlots db (d_id d))\<rparr>)"

definition updateDocument :: "string \<Rightarrow> (document \<Rightarrow> document) \<Rightarrow> db \<Rightarrow> db" where
  "updateDocument documentId f db = db\<lparr>db_documents := update_where (\<lambda>d. d_id d = documentId) f (db_documents db)\<rparr>"

definition requestSignatures :: "actTools \<Rightarrow> env \<Rightarrow> string \<Rightarrow> db \<Rightarrow> db io" where
  "requestSignatures tools env documentId db =
     ibind (ilift (documentRow db documentId)) (\<lambda>d.
       if \<not> falsy (d_signatureReference d) then ilift (Inr db)
       else
         ibind (getObject (d_pdfKey d)) (\<lambda>pdf.
         ibind (ilift (signatureRequestFor tools db d pdf)) (\<lambda>q.
         ibind (requestEnvelope (at_pdf tools) env (at_code tools documentId) q db) (\<lambda>(reference, db1).
           ilift (Inr (updateDocument documentId (\<lambda>x. x\<lparr>d_signatureReference := Some reference\<rparr>) db1))))))"

text \<open>An operation whose failure is only logged: the database stays as it was.\<close>

definition caught :: "db io \<Rightarrow> db \<Rightarrow> files \<Rightarrow> db \<times> files" where
  "caught run db fs = (case run fs of (Inl _, fs') \<Rightarrow> (db, fs') | (Inr db', fs') \<Rightarrow> (db', fs'))"

text \<open>\<open>links.refresh\<close>: the turn gets its link, and the links of the act that are due are mailed.\<close>

definition refreshSigningLink :: "actTools \<Rightarrow> env \<Rightarrow> string \<Rightarrow> db \<Rightarrow> db" where
  "refreshSigningLink tools env documentId db =
     snd (snd (dispatchPending env (at_mailError tools) (at_tokenHash tools) 20 (Some documentId)
       (refreshLink env documentId db)))"

definition afterGeneration :: "actTools \<Rightarrow> env \<Rightarrow> string \<Rightarrow> db \<Rightarrow> files \<Rightarrow> db \<times> files" where
  "afterGeneration tools env documentId db fs =
     (case caught (requestSignatures tools env documentId db) db fs of
        (db', fs') \<Rightarrow> (refreshSigningLink tools env documentId db', fs'))"

section \<open>The outbox\<close>

definition enqueueAct ::
  "env \<Rightarrow> documentRequestPayload \<Rightarrow> string option \<Rightarrow> db \<Rightarrow> (string \<times> db) res" where
  "enqueueAct env payload requestedBy db =
     rbind (currentFormat env db (dp_formatKey payload)) (\<lambda>f.
     rbind (assertReady f) (\<lambda>_.
     rbind (signersFor db f payload requestedBy) (\<lambda>_.
     rbind (assertPayloadTables (dp_tables payload)) (\<lambda>_.
       Inr (freshId env db, bumpSeq (db\<lparr>db_documentRequests := db_documentRequests db @
         [\<lparr>dr_id = freshId env db, dr_formatKey = dp_formatKey payload, dr_payload = payload,
           dr_requestedBy = requestedBy, dr_status = RPending, dr_documentId = None, dr_attempts = 0,
           dr_createdAt = e_now env, dr_cancelledBy = None, dr_cancelReason = None\<rparr>]\<rparr>))))))"

definition openRequest :: "documentRequest \<Rightarrow> bool" where
  "openRequest r = (dr_status r = RPending \<or> dr_status r = RFailed)"

definition updateRequest :: "string \<Rightarrow> (documentRequest \<Rightarrow> documentRequest) \<Rightarrow> db \<Rightarrow> db" where
  "updateRequest k f db =
     db\<lparr>db_documentRequests := update_where (\<lambda>r. dr_id r = k \<and> openRequest r) f (db_documentRequests db)\<rparr>"

definition processRequest :: "actTools \<Rightarrow> env \<Rightarrow> string \<Rightarrow> db \<Rightarrow> files \<Rightarrow> db \<times> files" where
  "processRequest tools env k db fs =
     (case List.find (\<lambda>r. dr_id r = k \<and> openRequest r) (db_documentRequests db) of
        None \<Rightarrow> (db, fs)
      | Some r \<Rightarrow>
          (case generateWithin tools env (dr_payload r) (dr_requestedBy r) (dr_createdAt r) db fs of
             (Inr (documentId, db1), fs') \<Rightarrow>
               afterGeneration tools env documentId
                 (db1\<lparr>db_documentRequests := update_where (\<lambda>x. dr_id x = k)
                    (\<lambda>x. x\<lparr>dr_status := RGenerated, dr_documentId := Some documentId,
                       dr_attempts := Suc (dr_attempts x)\<rparr>) (db_documentRequests db1)\<rparr>) fs'
           | (Inl _, fs') \<Rightarrow>
               (updateRequest k (\<lambda>x. x\<lparr>dr_status := RFailed, dr_attempts := Suc (dr_attempts x)\<rparr>) db, fs')))"

definition pendingRequests :: "nat \<Rightarrow> db \<Rightarrow> string list" where
  "pendingRequests limit db =
     take limit (map dr_id (sort_key dr_createdAt (filter
       (\<lambda>r. dr_status r = RPending \<or> (dr_status r = RFailed \<and> dr_attempts r < 5)) (db_documentRequests db))))"

definition processPending :: "actTools \<Rightarrow> env \<Rightarrow> nat \<Rightarrow> db \<times> files \<Rightarrow> db \<times> files" where
  "processPending tools env limit s =
     foldl (\<lambda>(db, fs) k. processRequest tools env k db fs) s (pendingRequests limit (fst s))"

definition generateAct ::
  "actTools \<Rightarrow> (string \<Rightarrow> string \<Rightarrow> bool) \<Rightarrow> env \<Rightarrow> documentRequestPayload \<Rightarrow> string \<Rightarrow> db \<Rightarrow> (string \<times> db) io" where
  "generateAct tools permits env payload actorId db =
     ibind (ilift (currentFormat env db (dp_formatKey payload))) (\<lambda>f.
       if \<not> permits actorId (df_generatePermission f) then ilift (throw InsufficientPermissions)
       else
         ibind (generateWithin tools env payload (Some actorId) (e_now env) db) (\<lambda>(documentId, db1).
           (\<lambda>fs. (case afterGeneration tools env documentId db1 fs of (db2, fs') \<Rightarrow> (Inr (documentId, db2), fs')))))"

section \<open>Reading the signatures back\<close>

definition writeStatuses :: "string \<Rightarrow> turnStatus list \<Rightarrow> db \<Rightarrow> db" where
  "writeStatuses documentId statuses db =
     db\<lparr>db_signatures := foldl (\<lambda>rows t. update_where
          (\<lambda>s. ds_documentId s = documentId \<and> ds_signOrder s = ts_order t)
          (\<lambda>s. s\<lparr>ds_status := ts_status t, ds_signedAt := ts_signedAt t\<rparr>) rows) (db_signatures db) statuses\<rparr>"

definition targetStatus :: "db \<Rightarrow> string \<Rightarrow> documentStatus" where
  "targetStatus db documentId =
     (let slots = filter (\<lambda>s. ds_documentId s = documentId) (db_signatures db) in
      if list_ex (\<lambda>s. ds_status s = SRejected) slots then DRejected
      else if list_all (\<lambda>s. ds_status s = SSigned) slots then DSigned
      else DPendingSignature)"

definition reachTarget :: "env \<Rightarrow> documentStatus \<Rightarrow> document \<Rightarrow> document" where
  "reachTarget env target d =
     d\<lparr>d_status := target,
       d_signedAt := (if target = DSigned then Some (or_keep (d_signedAt d) (e_now env)) else None),
       d_lifecycleError := None, d_lifecycleFailedAt := None\<rparr>"

text \<open>
  The transaction of \<open>syncSignatures\<close>. The savepoint: when the process fails, what it wrote and the
  new status are undone, and the act keeps the failure.
\<close>

definition syncTransition :: "actTools \<Rightarrow> env \<Rightarrow> string \<Rightarrow> turnStatus list \<Rightarrow> db \<Rightarrow> db" where
  "syncTransition tools env documentId statuses db =
     (let db1 = writeStatuses documentId statuses db;
          target = targetStatus db1 documentId
      in if map_option d_status (findDocument db documentId) \<noteq> Some DPendingSignature \<or>
            target = DPendingSignature then db1
         else (case dispatchPhase (at_registry tools) env (if target = DSigned then OnSigned else OnRejected)
                 documentId (updateDocument documentId (reachTarget env target) db1) of
             Inr db2 \<Rightarrow> db2
           | Inl failure \<Rightarrow> updateDocument documentId (\<lambda>d. d\<lparr>d_lifecycleError := Some failure,
               d_lifecycleFailedAt := Some (e_now env),
               d_lifecycleAttempts := Suc (d_lifecycleAttempts d)\<rparr>) db1))"

definition storeSignedPdf :: "actTools \<Rightarrow> string \<Rightarrow> db \<Rightarrow> db io" where
  "storeSignedPdf tools documentId db =
     ibind (ilift (documentRow db documentId)) (\<lambda>d.
       if d_status d \<noteq> DSigned \<or> \<not> falsy (d_signedPdfKey d) \<or> falsy (d_signatureReference d)
       then ilift (Inr db)
       else
         ibind (signedDocument (at_pdf tools) (the (d_signatureReference d)) db) (\<lambda>body.
         ibind (ilift (signedDocumentKey (at_nfkd tools) (pt_sha256 (at_pdf tools)) (d_createdAt d)
           (d_formatKey d) (d_number d))) (\<lambda>key.
         ibind (putObject key body) (\<lambda>_.
           ilift (Inr (db\<lparr>db_documents := update_where (\<lambda>x. d_id x = documentId \<and> d_signedPdfKey x = None)
             (\<lambda>x. x\<lparr>d_signedPdfKey := Some key\<rparr>) (db_documents db)\<rparr>))))))"

definition syncSignatures :: "actTools \<Rightarrow> env \<Rightarrow> string \<Rightarrow> db \<Rightarrow> db io" where
  "syncSignatures tools env documentId db =
     ibind (ilift (documentRow db documentId)) (\<lambda>d.
       if falsy (d_signatureReference d) then
         ibind (requestSignatures tools env documentId db) (\<lambda>db1.
           ilift (Inr (refreshSigningLink tools env documentId db1)))
       else
         (\<lambda>fs. (case caught (storeSignedPdf tools documentId
                  (syncTransition tools env documentId (statusOf db (the (d_signatureReference d))) db))
                  (syncTransition tools env documentId (statusOf db (the (d_signatureReference d))) db) fs of
               (db2, fs') \<Rightarrow> (Inr (refreshSigningLink tools env documentId db2), fs'))))"

definition MAX_AUTOMATIC_LIFECYCLE_ATTEMPTS :: nat where "MAX_AUTOMATIC_LIFECYCLE_ATTEMPTS = 5"

definition stalledActs :: "nat \<Rightarrow> db \<Rightarrow> string list" where
  "stalledActs limit db =
     take limit (map d_id (sort_key (\<lambda>d. or_keep (d_lifecycleFailedAt d) 0) (filter (\<lambda>d.
       d_lifecycleError d \<noteq> None \<and> d_status d = DPendingSignature \<and>
       d_lifecycleAttempts d < MAX_AUTOMATIC_LIFECYCLE_ATTEMPTS) (db_documents db))))"

definition retryLifecycle :: "actTools \<Rightarrow> env \<Rightarrow> nat \<Rightarrow> db \<times> files \<Rightarrow> db \<times> files" where
  "retryLifecycle tools env limit s =
     foldl (\<lambda>(db, fs) k. caught (syncSignatures tools env k db) db fs) s (stalledActs limit (fst s))"

section \<open>Signing and rejecting in a session\<close>

record sessions =
  ss_active :: "string \<Rightarrow> string \<Rightarrow> bool"
  ss_mfa :: "string \<Rightarrow> string \<Rightarrow> bool"

definition prepareSignerAction ::
  "actTools \<Rightarrow> env \<Rightarrow> sessions \<Rightarrow> string \<Rightarrow> int \<Rightarrow> sessionActor \<Rightarrow> db
     \<Rightarrow> ((string \<times> signatureMethod) \<times> db) io" where
  "prepareSignerAction tools env sessions documentId order actor db =
     ibind (ilift (documentRow db documentId)) (\<lambda>d.
     case signerBlocker (ss_active sessions) (ss_mfa sessions) (d_status d) (documentSlots db documentId) order actor of
       Inl code \<Rightarrow> ilift (throw code)
     | Inr signMethod \<Rightarrow>
         ibind (if falsy (d_signatureReference d) then requestSignatures tools env documentId db
                else ilift (Inr db)) (\<lambda>db1.
         ibind (ilift (case d_signatureReference d of Some r \<Rightarrow> Inr (Some r)
           | None \<Rightarrow> rbind (documentRow db1 documentId) (\<lambda>x. Inr (d_signatureReference x)))) (\<lambda>reference.
           ilift (Inr ((or_keep reference [], signMethod), db1)))))"

definition signAct ::
  "actTools \<Rightarrow> env \<Rightarrow> sessions \<Rightarrow> string \<Rightarrow> int \<Rightarrow> sessionActor \<Rightarrow> string \<Rightarrow> string option \<Rightarrow> string option
     \<Rightarrow> db \<Rightarrow> db io" where
  "signAct tools env sessions documentId order actor rubricPng ipAddress userAgent db =
     ibind (prepareSignerAction tools env sessions documentId order actor db) (\<lambda>((reference, signMethod), db1).
     ibind (capture (at_pdf tools) env reference \<lparr>cp_order = order,
         cp_signerPersonId = or_keep (sa_personId actor) [], cp_ipAddress = ipAddress, cp_userAgent = userAgent,
         cp_evidence = SessionEvidence (signMethod = SessionMfa) (sa_id actor) (or_keep (sa_sessionId actor) []),
         cp_rubricPng = rubricPng\<rparr> db1) (\<lambda>db2.
       syncSignatures tools env documentId db2))"

definition rejectAct ::
  "actTools \<Rightarrow> env \<Rightarrow> sessions \<Rightarrow> string \<Rightarrow> int \<Rightarrow> sessionActor \<Rightarrow> string \<Rightarrow> string option \<Rightarrow> string option
     \<Rightarrow> db \<Rightarrow> db io" where
  "rejectAct tools env sessions documentId order actor reason ipAddress userAgent db =
     ibind (prepareSignerAction tools env sessions documentId order actor db) (\<lambda>((reference, signMethod), db1).
     ibind (ilift (rejectEnvelope env reference \<lparr>rj_order = order,
         rj_signerPersonId = or_keep (sa_personId actor) [], rj_ipAddress = ipAddress, rj_userAgent = userAgent,
         rj_evidence = SessionEvidence (signMethod = SessionMfa) (sa_id actor) (or_keep (sa_sessionId actor) []),
         rj_reason = reason\<rparr> db1)) (\<lambda>db2.
       syncSignatures tools env documentId db2))"

text \<open>What \<open>actByLink\<close> does once its transaction has committed.\<close>

definition thenSync :: "actTools \<Rightarrow> env \<Rightarrow> (string \<times> db) io \<Rightarrow> db io" where
  "thenSync tools env acted = ibind acted (\<lambda>(documentId, db1). syncSignatures tools env documentId db1)"

section \<open>Annulling and reassigning\<close>

definition voidOne :: "env \<Rightarrow> string option \<Rightarrow> string \<Rightarrow> db \<Rightarrow> document \<Rightarrow> db" where
  "voidOne env actorId reason db d =
     (let db1 = updateDocument (d_id d) (\<lambda>x. x\<lparr>d_status := DVoided, d_voidedAt := Some (e_now env),
            d_voidedBy := actorId, d_voidReason := Some reason, d_lifecycleError := None,
            d_lifecycleFailedAt := None\<rparr>) db;
          db2 = (if falsy (d_signatureReference d) then db1 else voidEnvelope env (the (d_signatureReference d)) db1)
      in invalidateLinks env (d_id d) LinkVoided None db2)"

definition requestOf :: "string \<Rightarrow> string \<Rightarrow> documentRequest \<Rightarrow> bool" where
  "requestOf entityType entityId r =
     (dp_entityType (dr_payload r) = Some entityType \<and> dp_entityId (dr_payload r) = Some entityId \<and> openRequest r)"

definition actsOf :: "db \<Rightarrow> string \<Rightarrow> string \<Rightarrow> document list" where
  "actsOf db entityType entityId =
     (if isUuid entityId then sort_key d_createdAt (filter (\<lambda>d. d_entityType d = Some entityType \<and>
        d_entityId d = Some entityId) (db_documents db)) else [])"

definition voidForEntity ::
  "env \<Rightarrow> string \<Rightarrow> string \<Rightarrow> string \<Rightarrow> string option \<Rightarrow> db \<Rightarrow> (string list \<times> string list \<times> db) res" where
  "voidForEntity env entityType entityId reasonText actorId db =
     (let reason = trim reasonText in
      if trim entityType = [] \<or> trim entityId = [] \<or> reason = [] then throw ValidationFailed
      else
        (let cancelled = map dr_id (filter (requestOf entityType entityId) (db_documentRequests db));
             db1 = db\<lparr>db_documentRequests := update_where (requestOf entityType entityId)
               (\<lambda>r. r\<lparr>dr_status := RCancelled, dr_cancelledBy := actorId, dr_cancelReason := Some reason\<rparr>)
               (db_documentRequests db)\<rparr>;
             documents = actsOf db1 entityType entityId;
             pending = filter (\<lambda>d. d_status d = DPendingSignature) documents
         in if list_ex (\<lambda>d. d_status d = DSigned) documents then throw DocumentAlreadySigned
            else Inr (cancelled, map d_id pending, foldl (voidOne env actorId reason) db1 pending)))"

text \<open>\<open>rerender\<close>: a new revision of the files of an act whose signer changed.\<close>

definition rerenderAct ::
  "actTools \<Rightarrow> document \<Rightarrow> documentFormat \<Rightarrow> int \<Rightarrow> string \<Rightarrow> db \<Rightarrow> (string \<times> string \<times> db) io" where
  "rerenderAct tools d f order personId db =
     (case List.find (\<lambda>t. tv_id t = d_templateVersionId d) (db_templates db) of
        None \<Rightarrow> ilift (throw TemplateNotActive)
      | Some template \<Rightarrow>
          (let revision = int (length (filter (\<lambda>r. sr_documentId r = d_id d \<and> \<not> sr_atIssue r)
                 (db_reassignments db))) + 1;
               sha = pt_sha256 (at_pdf tools);
               fileKey = (\<lambda>extension. documentFileKey (at_nfkd tools) sha (d_createdAt d) (df_key f)
                 (d_number d) extension (Some revision))
           in
           ibind (getObject (tv_storageKey template)) (\<lambda>source.
           ibind (ilift (at_rerender tools db source d order personId)) (\<lambda>(docx, pdf).
           ibind (ilift (fileKey ''docx'')) (\<lambda>docxKey.
           ibind (putObject docxKey docx) (\<lambda>_.
           ibind (ilift (fileKey ''pdf'')) (\<lambda>pdfKey.
           ibind (putObject pdfKey pdf) (\<lambda>_.
             ilift (Inr (pdf, sha pdf, updateDocument (d_id d)
               (\<lambda>x. x\<lparr>d_pdfKey := pdfKey, d_pdfHash := sha pdf\<rparr>) db))))))))))"

definition reassignChecks ::
  "db \<Rightarrow> string \<Rightarrow> int \<Rightarrow> string \<Rightarrow> (document \<times> documentSignature) res" where
  "reassignChecks db documentId order personId =
     (let slots = documentSlots db documentId;
          target = List.find (\<lambda>s. ds_signOrder s = order) slots
      in rbind (case target of
            None \<Rightarrow> Inr ()
          | Some s \<Rightarrow>
              (case channelOf db (ds_role s) (Some personId) of
                 Inl _ \<Rightarrow> throw SignatureSignerCannotSign
               | Inr _ \<Rightarrow>
                   if requiresControlSigner (ds_role s) \<and> personId \<notin> set (controlSignersAmong db [personId])
                   then throw DocumentSignerNotEligible else Inr ())) (\<lambda>_.
         case findDocument db documentId of
           None \<Rightarrow> throw InvalidState
         | Some d \<Rightarrow>
             if d_status d \<noteq> DPendingSignature then throw InvalidState
             else (case target of
                 None \<Rightarrow> throw ResourceNotFound
               | Some slot \<Rightarrow>
                   if list_ex (\<lambda>s. ds_status s \<noteq> SPending) slots then throw SignatureReassignAfterSigning
                   else if ds_signerPersonId slot = Some personId then throw ValidationFailed
                   else if list_ex (\<lambda>s. ds_signOrder s \<noteq> order \<and> ds_signerPersonId s = Some personId) slots
                   then throw DocumentSignerDuplicated
                   else Inr (d, slot))))"

definition reassignSigner ::
  "actTools \<Rightarrow> (string \<Rightarrow> string \<Rightarrow> bool) \<Rightarrow> env \<Rightarrow> string \<Rightarrow> int \<Rightarrow> string \<Rightarrow> string \<Rightarrow> string \<Rightarrow> db \<Rightarrow> db io" where
  "reassignSigner tools permits env documentId order personId reason actorId db =
     ibind (ilift (documentRow db documentId)) (\<lambda>document.
     ibind (ilift (formatOfDocument db document)) (\<lambda>f.
     if \<not> permits actorId (df_generatePermission f) then ilift (throw InsufficientPermissions)
     else (case findPerson db personId of
         None \<Rightarrow> ilift (throw ResourceNotFound)
       | Some p \<Rightarrow>
           ibind (ilift (reassignChecks db documentId order personId)) (\<lambda>(d, slot).
           (let db1 = db\<lparr>db_signatures := update_where
                  (\<lambda>s. ds_documentId s = documentId \<and> ds_signOrder s = order)
                  (\<lambda>s. s\<lparr>ds_signerPersonId := Some personId, ds_signerName := orNull (personName (Some p)),
                     ds_signerDocument := pe_documentNumber p\<rparr>) (db_signatures db)\<rparr>;
                db2 = invalidateLinks env documentId Reassigned (Some order) db1
            in
            ibind (rerenderAct tools d f order personId db2) (\<lambda>(pdf, pdfHash, db3).
            (let db4 = db3\<lparr>db_reassignments := db_reassignments db3 @
                  [\<lparr>sr_documentId = documentId, sr_signOrder = order, sr_role = ds_role slot,
                    sr_fromPersonId = or_keep (ds_signerPersonId slot) [], sr_toPersonId = Some personId,
                    sr_reason = reason, sr_reassignedBy = Some actorId, sr_atIssue = False\<rparr>]\<rparr>
             in
             ibind (if falsy (d_signatureReference d) then ilift (Inr db4)
                    else ibind (ilift (signatureRequestFor tools db4 d pdf)) (\<lambda>q.
                      reissue (at_pdf tools) (the (d_signatureReference d)) q db4)) (\<lambda>db5.
               ilift (Inr (refreshSigningLink tools env documentId db5))))))))))"

section \<open>What the processes share\<close>

definition jStrings :: "string list \<Rightarrow> json" where
  "jStrings xs = JArr (map JStr xs)"

definition givenSubstitutions :: "json option \<Rightarrow> json option" where
  "givenSubstitutions subs = (case subs of Some (JObj []) \<Rightarrow> None | s \<Rightarrow> s)"

text \<open>An act of the entity that waits for signatures and already has one.\<close>

definition partlySigned :: "db \<Rightarrow> string \<Rightarrow> string \<Rightarrow> bool" where
  "partlySigned db entityType entityId =
     list_ex (\<lambda>s. ds_status s = SSigned \<and>
       list_ex (\<lambda>d. d_id d = ds_documentId s \<and> d_entityType d = Some entityType \<and>
         d_entityId d = Some entityId \<and> d_status d = DPendingSignature) (db_documents db)) (db_signatures db)"

text \<open>The user of a person, an active one first.\<close>

definition userOfPerson :: "db \<Rightarrow> string \<Rightarrow> string option" where
  "userOfPerson db personId =
     (let users = sort (map u_id (filter (\<lambda>u. u_personId u = Some personId \<and> u_status u = UActive) (db_users db))) @
          sort (map u_id (filter (\<lambda>u. u_personId u = Some personId \<and> u_status u \<noteq> UActive) (db_users db)))
      in case users of [] \<Rightarrow> None | u # _ \<Rightarrow> Some u)"

text \<open>
  Who authorizes the effect of a signed act, stated apart from the code that finds it: among the users of the
  person who signed in a role, the active ones if there are any, the one with the least identifier; without
  such a user the creator of the process.
\<close>

definition authorizes :: "db \<Rightarrow> lifecycleEvent \<Rightarrow> string \<Rightarrow> string \<Rightarrow> string \<Rightarrow> bool" where
  "authorizes db event role creator userId \<longleftrightarrow>
     (let person = signersByRole event role;
          users = (if person \<in> {None, Some []} then [] else filter (\<lambda>u. u_personId u = person) (db_users db));
          active = filter (\<lambda>u. u_status u = UActive) users;
          eligible = map u_id (if active = [] then users else active)
      in if eligible = [] then userId = creator
         else userId \<in> set eligible \<and> list_all (\<lambda>k. userId \<le> k) eligible)"

lemma least_of_sort: "sort xs = k # ks \<Longrightarrow> k \<in> set xs \<and> list_all (\<lambda>x. k \<le> x) xs"
  by (metis list.set_intros(1) list_all_iff set_ConsD set_sort sorted_simps(2) sorted_sort order_refl)

lemma userOfPerson_least:
  assumes "users = filter (\<lambda>u. u_personId u = Some p) (db_users db)"
    "active = filter (\<lambda>u. u_status u = UActive) users"
  shows "case userOfPerson db p of None \<Rightarrow> users = []
    | Some k \<Rightarrow> users \<noteq> [] \<and> k \<in> set (map u_id (if active = [] then users else active)) \<and>
        list_all (\<lambda>x. k \<le> x) (map u_id (if active = [] then users else active))"
proof -
  let ?in = "sort (map u_id active)" and ?out = "sort (map u_id (filter (\<lambda>u. u_status u \<noteq> UActive) users))"
  have run: "userOfPerson db p = (case ?in @ ?out of [] \<Rightarrow> None | u # _ \<Rightarrow> Some u)"
    by (simp add: userOfPerson_def assms conj_commute)
  show ?thesis
  proof (cases "active = []")
    case True
    then have "filter (\<lambda>u. u_status u \<noteq> UActive) users = users" by (simp add: assms(2) filter_empty_conv)
    moreover have "sort (map u_id users) = [] \<Longrightarrow> users = []" by (metis Nil_is_map_conv set_empty set_sort)
    ultimately show ?thesis using True least_of_sort [of "map u_id users"]
      by (cases "sort (map u_id users)") (auto simp: run)
  next
    case False
    then obtain k ks where k: "?in = k # ks" by (cases ?in) (auto simp flip: set_empty)
    moreover have "users \<noteq> []" using False by (auto simp: assms(2))
    ultimately show ?thesis using False least_of_sort [OF k] by (simp add: run)
  qed
qed

lemma authorizes_controlUser:
  "authorizes db event role creator (or_keep
     (if falsy (signersByRole event role) then None else userOfPerson db (the (signersByRole event role))) creator)"
proof (cases "signersByRole event role \<in> {None, Some []}")
  case True
  then show ?thesis by (auto simp: authorizes_def or_keep_def)
next
  case False
  then obtain p where p: "signersByRole event role = Some p" "p \<noteq> []" by auto
  show ?thesis using userOfPerson_least [OF refl refl, of p db] p
    by (cases "userOfPerson db p") (auto simp: authorizes_def Let_def simp del: filter_filter)
qed

section \<open>What the engine leaves alone\<close>

text \<open>The tables of the processes, the assets and the ledger; identifiers are only drawn.\<close>

definition sameCustody :: "db \<Rightarrow> db \<Rightarrow> bool" where
  "sameCustody db db' \<longleftrightarrow>
     db_assets db' = db_assets db \<and> db_movements db' = db_movements db \<and>
     db_loans db' = db_loans db \<and> db_loanItems db' = db_loanItems db \<and> db_loanEvents db' = db_loanEvents db \<and>
     db_transfers db' = db_transfers db \<and> db_transferItems db' = db_transferItems db \<and>
     db_writeOffs db' = db_writeOffs db \<and> db_writeOffItems db' = db_writeOffItems db \<and>
     db_handovers db' = db_handovers db \<and> db_handoverItems db' = db_handoverItems db \<and>
     db_requests db' = db_requests db \<and> db_requestItems db' = db_requestItems db \<and>
     db_requestEvents db' = db_requestEvents db \<and> db_inventories db' = db_inventories db \<and>
     db_inventoryItems db' = db_inventoryItems db \<and> db_seq db \<le> db_seq db'"

lemma sameCustody_refl [simp]: "sameCustody db db"
  by (simp add: sameCustody_def)

lemma sameCustody_trans: "sameCustody a b \<Longrightarrow> sameCustody b c \<Longrightarrow> sameCustody a c"
  by (simp add: sameCustody_def)

lemma updateDocument_custody: "sameCustody db (updateDocument k f db)"
  by (simp add: sameCustody_def updateDocument_def)

lemma voidOne_custody: "sameCustody db (voidOne env actorId reason db d)"
  by (simp add: sameCustody_def voidOne_def Let_def updateDocument_def voidEnvelope_def invalidateLinks_def)

lemma voidAll_custody: "sameCustody db (foldl (voidOne env actorId reason) db ds)"
proof (induction ds arbitrary: db)
  case Nil
  then show ?case by simp
next
  case (Cons d ds)
  show ?case using sameCustody_trans [OF voidOne_custody Cons.IH] by simp
qed

lemma voidForEntity_Inr:
  assumes "voidForEntity env entityType entityId reason actorId db = Inr (cancelled, voided, db')"
  obtains db1 where "db1 = db\<lparr>db_documentRequests := update_where (requestOf entityType entityId)
       (\<lambda>r. r\<lparr>dr_status := RCancelled, dr_cancelledBy := actorId, dr_cancelReason := Some (trim reason)\<rparr>)
       (db_documentRequests db)\<rparr>"
    "list_all (\<lambda>d. d_status d \<noteq> DSigned) (actsOf db entityType entityId)"
    "db' = foldl (voidOne env actorId (trim reason)) db1
       (filter (\<lambda>d. d_status d = DPendingSignature) (actsOf db entityType entityId))"
proof -
  let ?db1 = "db\<lparr>db_documentRequests := update_where (requestOf entityType entityId)
       (\<lambda>r. r\<lparr>dr_status := RCancelled, dr_cancelledBy := actorId, dr_cancelReason := Some (trim reason)\<rparr>)
       (db_documentRequests db)\<rparr>"
  have acts: "actsOf ?db1 entityType entityId = actsOf db entityType entityId" by (simp add: actsOf_def)
  show thesis
    by (rule that [of ?db1])
      (use assms in \<open>auto simp: voidForEntity_def Let_def acts list_ex_iff list_all_iff split: if_splits\<close>)
qed

lemma voidForEntity_custody:
  assumes "voidForEntity env entityType entityId reason actorId db = Inr (cancelled, voided, db')"
  shows "sameCustody db db'"
proof -
  obtain db1 where v: "db1 = db\<lparr>db_documentRequests := update_where (requestOf entityType entityId)
       (\<lambda>r. r\<lparr>dr_status := RCancelled, dr_cancelledBy := actorId, dr_cancelReason := Some (trim reason)\<rparr>)
       (db_documentRequests db)\<rparr>"
    "db' = foldl (voidOne env actorId (trim reason)) db1
       (filter (\<lambda>d. d_status d = DPendingSignature) (actsOf db entityType entityId))"
    using assms by (rule voidForEntity_Inr)
  have "sameCustody db db1" by (simp add: v(1) sameCustody_def)
  then show ?thesis unfolding v(2) by (rule sameCustody_trans [OF _ voidAll_custody])
qed

lemma enqueueAct_Inr:
  assumes "enqueueAct env payload requestedBy db = Inr (k, db')"
  shows "k = freshId env db" "db_seq db' = Suc (db_seq db)"
    "db_documentRequests db' = db_documentRequests db @
         [\<lparr>dr_id = freshId env db, dr_formatKey = dp_formatKey payload, dr_payload = payload,
           dr_requestedBy = requestedBy, dr_status = RPending, dr_documentId = None, dr_attempts = 0,
           dr_createdAt = e_now env, dr_cancelledBy = None, dr_cancelReason = None\<rparr>]"
    "sameCustody db db'" "db_documents db' = db_documents db" "db_signatures db' = db_signatures db"
  using assms by (auto simp: enqueueAct_def res_simps sameCustody_def bumpSeq_def)

section \<open>Further operations of the engine\<close>

definition assertSigners :: "env \<Rightarrow> documentRequestPayload \<Rightarrow> string option \<Rightarrow> db \<Rightarrow> unit res" where
  "assertSigners env payload actorId db =
     rbind (currentFormat env db (dp_formatKey payload)) (\<lambda>f.
     rbind (signersFor db f payload actorId) (\<lambda>_. Inr ()))"

text \<open>A null \<open>signed_at\<close> comes first.\<close>

definition missingSignedPdfs :: "nat \<Rightarrow> db \<Rightarrow> string list" where
  "missingSignedPdfs limit db =
     (let missing = filter (\<lambda>d. d_status d = DSigned \<and> d_signedPdfKey d = None \<and>
            d_signatureReference d \<noteq> None) (db_documents db)
      in take limit (map d_id (filter (\<lambda>d. d_signedAt d = None) missing @
           sort_key (\<lambda>d. the (d_signedAt d)) (filter (\<lambda>d. d_signedAt d \<noteq> None) missing))))"

definition retrySignedPdfs :: "actTools \<Rightarrow> nat \<Rightarrow> db \<times> files \<Rightarrow> db \<times> files" where
  "retrySignedPdfs tools limit s =
     foldl (\<lambda>(db, fs) k. caught (storeSignedPdf tools k db) db fs) s (missingSignedPdfs limit (fst s))"

definition resendSigningLink ::
  "actTools \<Rightarrow> (string \<Rightarrow> string \<Rightarrow> bool) \<Rightarrow> env \<Rightarrow> string \<Rightarrow> int \<Rightarrow> string \<Rightarrow> db \<Rightarrow> db res" where
  "resendSigningLink tools permits env documentId order actorId db =
     rbind (documentRow db documentId) (\<lambda>d.
     rbind (formatOfDocument db d) (\<lambda>f.
     if \<not> permits actorId (df_generatePermission f) then throw InsufficientPermissions
     else rbind (resendLink env documentId order db) (\<lambda>db1.
       Inr (snd (snd (dispatchPending env (at_mailError tools) (at_tokenHash tools) 20 (Some documentId) db1))))))"

text \<open>\<open>assertCanRead\<close>: the permission of the format, or a turn of the act.\<close>

definition assertCanRead :: "(string \<Rightarrow> string \<Rightarrow> bool) \<Rightarrow> string \<Rightarrow> string \<Rightarrow> string \<Rightarrow> db \<Rightarrow> unit res" where
  "assertCanRead permits documentId permission actorId db =
     (if permits actorId permission then Inr ()
      else if list_ex (\<lambda>s. ds_documentId s = documentId \<and> ds_signerPersonId s \<noteq> None \<and>
         list_ex (\<lambda>u. u_id u = actorId \<and> u_personId u = ds_signerPersonId s) (db_users db)) (db_signatures db)
      then Inr () else throw InsufficientPermissions)"

section \<open>Annulling leaves nothing pending\<close>

lemma update_where_other:
  "r \<in> set (update_where p f t) \<Longrightarrow> P r \<Longrightarrow> (\<And>q. p q \<Longrightarrow> \<not> P (f q)) \<Longrightarrow> r \<in> set t \<and> \<not> p r"
  unfolding in_update_where by metis

lemma update_where_hit:
  "r \<in> set (update_where p f t) \<Longrightarrow> p r \<Longrightarrow> \<exists>q\<in>set t. p q \<and> r = f q"
  unfolding in_update_where by metis

lemma update_where_all:
  "r \<in> set (update_where p f t) \<Longrightarrow> p r \<Longrightarrow> (\<And>q. p q \<Longrightarrow> Q (f q)) \<Longrightarrow> Q r"
  by (drule (1) update_where_hit) blast

lemma voidOne_documents:
  "db_documents (voidOne env actorId reason db d) = update_where (\<lambda>x. d_id x = d_id d)
     (\<lambda>x. x\<lparr>d_status := DVoided, d_voidedAt := Some (e_now env), d_voidedBy := actorId, d_voidReason := Some reason,
        d_lifecycleError := None, d_lifecycleFailedAt := None\<rparr>) (db_documents db)"
  "db_documentRequests (voidOne env actorId reason db d) = db_documentRequests db"
  by (simp_all add: voidOne_def Let_def updateDocument_def voidEnvelope_def invalidateLinks_def)

lemma voidAll_requests: "db_documentRequests (foldl (voidOne env actorId reason) db ds) = db_documentRequests db"
  by (induction ds arbitrary: db) (simp_all add: voidOne_documents)

lemma voidAll_pending:
  assumes "x \<in> set (db_documents (foldl (voidOne env actorId reason) db ds))" "d_status x = DPendingSignature"
  shows "x \<in> set (db_documents db) \<and> d_id x \<notin> d_id ` set ds"
  using assms
proof (induction ds arbitrary: db)
  case Nil
  then show ?case by simp
next
  case (Cons d ds)
  have "x \<in> set (db_documents (voidOne env actorId reason db d)) \<and> d_id x \<notin> d_id ` set ds"
    by (rule Cons.IH) (use Cons.prems in simp_all)
  then have kept: "x \<in> set (db_documents (voidOne env actorId reason db d))" "d_id x \<notin> d_id ` set ds" by simp_all
  have "x \<in> set (db_documents db) \<and> d_id x \<noteq> d_id d"
    by (rule update_where_other [OF kept(1) [unfolded voidOne_documents(1)], where P = "\<lambda>x. d_status x = DPendingSignature"])
      (simp_all add: Cons.prems(2))
  then show ?case using kept(2) by simp
qed

lemma voidForEntity_clears:
  assumes "voidForEntity env entityType entityId reason actorId db = Inr (cancelled, voided, db')"
  shows "r \<in> set (db_documentRequests db') \<Longrightarrow> \<not> requestOf entityType entityId r"
    "d \<in> set (actsOf db' entityType entityId) \<Longrightarrow> d_status d \<noteq> DPendingSignature"
    "d \<in> set (actsOf db entityType entityId) \<Longrightarrow> d_status d \<noteq> DSigned"
proof -
  obtain db1 where v: "db1 = db\<lparr>db_documentRequests := update_where (requestOf entityType entityId)
       (\<lambda>r. r\<lparr>dr_status := RCancelled, dr_cancelledBy := actorId, dr_cancelReason := Some (trim reason)\<rparr>)
       (db_documentRequests db)\<rparr>"
    "list_all (\<lambda>d. d_status d \<noteq> DSigned) (actsOf db entityType entityId)"
    "db' = foldl (voidOne env actorId (trim reason)) db1
       (filter (\<lambda>d. d_status d = DPendingSignature) (actsOf db entityType entityId))"
    using assms by (rule voidForEntity_Inr)
  show "\<not> requestOf entityType entityId r" if "r \<in> set (db_documentRequests db')"
  proof
    assume r: "requestOf entityType entityId r"
    have "r \<in> set (update_where (requestOf entityType entityId) (\<lambda>r. r\<lparr>dr_status := RCancelled, dr_cancelledBy := actorId,
        dr_cancelReason := Some (trim reason)\<rparr>) (db_documentRequests db))"
      using that unfolding v(3) voidAll_requests by (simp add: v(1))
    from update_where_hit [OF this r] show False using r by (auto simp: requestOf_def openRequest_def)
  qed
  show "d_status d \<noteq> DPendingSignature" if d: "d \<in> set (actsOf db' entityType entityId)"
  proof
    assume p: "d_status d = DPendingSignature"
    have mem: "d \<in> set (db_documents db')" "isUuid entityId" "d_entityType d = Some entityType" "d_entityId d = Some entityId"
      using d by (auto simp: actsOf_def split: if_splits)
    have "d \<in> set (db_documents db1) \<and> d_id d \<notin> d_id ` set (filter (\<lambda>d. d_status d = DPendingSignature)
        (actsOf db entityType entityId))"
      by (rule voidAll_pending [OF _ p]) (use mem(1) in \<open>simp add: v(3)\<close>)
    moreover have "d \<in> set (db_documents db) \<Longrightarrow> d \<in> set (actsOf db entityType entityId)"
      using mem by (simp add: actsOf_def)
    ultimately show False using p by (auto simp: v(1))
  qed
  show "d_status d \<noteq> DSigned" if "d \<in> set (actsOf db entityType entityId)"
    using v(2) that by (simp add: list_all_iff)
qed

end
