(* ===== verification/OpenItems.thy ===== *)
theory OpenItems
  imports Store
begin

text \<open>
  What transfers, write-offs and handovers share: a process holds its assets by items that are open
  until it ends, and a partial unique index lets an asset have one open item per kind of process.
  The interface is a locale over the table of items; each process interprets it on its own rows.
\<close>

definition exclusiveOpen :: "('r \<Rightarrow> string) \<Rightarrow> ('r \<Rightarrow> bool) \<Rightarrow> 'r list \<Rightarrow> bool" where
  "exclusiveOpen assetOf isOpen rows \<longleftrightarrow> distinct (map assetOf (filter isOpen rows))"

text \<open>The insertion of one item: the index refuses an asset that already has an open one.\<close>

definition insertOpen ::
  "('r \<Rightarrow> string) \<Rightarrow> ('r \<Rightarrow> bool) \<Rightarrow> error_code \<Rightarrow> 'r list \<Rightarrow> 'r \<Rightarrow> 'r list res" where
  "insertOpen assetOf isOpen code rows r =
     (if isOpen r \<and> list_ex (\<lambda>x. isOpen x \<and> assetOf x = assetOf r) rows then throw code
      else Inr (rows @ [r]))"

lemma insertOpen_exclusive:
  "insertOpen assetOf isOpen code rows r = Inr rows' \<Longrightarrow> exclusiveOpen assetOf isOpen rows \<Longrightarrow>
   exclusiveOpen assetOf isOpen rows'"
  by (cases "isOpen r") (force simp: insertOpen_def exclusiveOpen_def list_ex_iff split: if_splits)+

lemma insertOpen_rows: "insertOpen assetOf isOpen code rows r = Inr rows' \<Longrightarrow> rows' = rows @ [r]"
  by (simp add: insertOpen_def split: if_splits)

lemma insertAll_rows:
  "foldM (insertOpen assetOf isOpen code) rows new = Inr rows' \<Longrightarrow> rows' = rows @ new"
  by (induction new arbitrary: rows) (force simp: rbind_eq_Inr dest: insertOpen_rows)+

lemma insertAll_exclusive:
  "foldM (insertOpen assetOf isOpen code) rows new = Inr rows' \<Longrightarrow> exclusiveOpen assetOf isOpen rows \<Longrightarrow>
   exclusiveOpen assetOf isOpen rows'"
  by (induction new arbitrary: rows) (auto simp: rbind_eq_Inr dest: insertOpen_exclusive)

lemma exclusive_subset:
  assumes "exclusiveOpen assetOf isOpen rows" "\<And>r. assetOf (f r) = assetOf r" "\<And>r. isOpen (f r) \<Longrightarrow> isOpen r"
  shows "exclusiveOpen assetOf isOpen (update_where p f rows)"
proof -
  have "distinct (map assetOf (filter isOpen rows)) \<Longrightarrow>
      distinct (map assetOf (filter isOpen (update_where p f rows))) \<and>
      set (map assetOf (filter isOpen (update_where p f rows))) \<subseteq> set (map assetOf (filter isOpen rows))"
  proof (induction rows)
    case Nil
    then show ?case by simp
  next
    case (Cons r rows)
    then show ?case using assms(2) assms(3) [of r] by (cases "p r") (auto split: if_splits)
  qed
  then show ?thesis using assms(1) unfolding exclusiveOpen_def by blast
qed

lemma exclusive_filter:
  "exclusiveOpen assetOf isOpen rows \<Longrightarrow> exclusiveOpen assetOf isOpen (filter p rows)"
  unfolding exclusiveOpen_def by (induction rows) auto

text \<open>The interface: the table, the process and the asset of an item, and how an item closes.\<close>

locale openItems =
  fixes rows :: "db \<Rightarrow> 'r list"
    and setRows :: "'r list \<Rightarrow> db \<Rightarrow> db"
    and ownerOf :: "'r \<Rightarrow> string"
    and assetOf :: "'r \<Rightarrow> string"
    and isOpen :: "'r \<Rightarrow> bool"
    and close :: "'r \<Rightarrow> 'r"
  assumes rows_set: "rows (setRows t db) = t"
    and closes: "\<not> isOpen (close r)"
    and close_owner: "ownerOf (close r) = ownerOf r"
    and close_asset: "assetOf (close r) = assetOf r"
begin

lemma close_keeps_exclusive:
  assumes "exclusiveOpen assetOf isOpen (rows db)"
  shows "exclusiveOpen assetOf isOpen (rows (setRows (update_where (\<lambda>r. ownerOf r = k) close (rows db)) db))"
  unfolding rows_set by (rule exclusive_subset [OF assms]) (use closes close_asset in auto)

lemma nothing_open:
  assumes "r \<in> set (update_where (\<lambda>r. ownerOf r = k) close t)" "ownerOf r = k"
  shows "\<not> isOpen r"
  using assms closes close_owner by (auto simp: update_where_def)

lemma other_items_kept:
  "filter (\<lambda>r. ownerOf r \<noteq> k) (update_where (\<lambda>r. ownerOf r = k) close t) = filter (\<lambda>r. ownerOf r \<noteq> k) t"
  by (induction t) (auto simp: close_owner)

lemma closed_assets:
  "map assetOf (filter (\<lambda>r. ownerOf r = j) (update_where (\<lambda>r. ownerOf r = k) close t)) =
   map assetOf (filter (\<lambda>r. ownerOf r = j) t)"
  by (induction t) (auto simp: close_owner close_asset)

lemma one_process_holds:
  assumes "exclusiveOpen assetOf isOpen (rows db)" "r \<in> set (rows db)" "s \<in> set (rows db)"
    "isOpen r" "isOpen s" "assetOf r = assetOf s"
  shows "r = s"
proof -
  have "inj_on assetOf (set (filter isOpen (rows db)))"
    using assms(1) by (simp add: exclusiveOpen_def distinct_map)
  then show ?thesis using assms(2-6) by (auto dest: inj_onD)
qed

end

end
