(* ===== verification/AssetMoves.thy ===== *)
theory AssetMoves
  imports AssetState "HOL-Library.AList"
begin

text \<open>
  Processes move several assets one after another through the single entry point of
  src/src/modules/assets/services/asset-state.service.ts. The interface is a locale: a change per item
  that records a movement and whose further write leaves the assets and the ledger alone. What it
  promises of the whole loop is proved once; each process interprets it on its own change. Two locales
  extend it: loops over the assets themselves, and loops that collect the movement just recorded.
\<close>

definition applyOne :: "env \<Rightarrow> ('i \<Rightarrow> assetChange) \<Rightarrow> db \<Rightarrow> 'i \<Rightarrow> db res" where
  "applyOne env change db k = rbind (applyWithin env (change k) db) (\<lambda>(_, db'). Inr db')"

definition applyAll :: "env \<Rightarrow> (string \<Rightarrow> assetChange) \<Rightarrow> db \<Rightarrow> string list \<Rightarrow> db res" where
  "applyAll env change = foldM (applyOne env change)"

lemma applyOne_Inr:
  "applyOne env change db k = Inr db' \<longleftrightarrow> (\<exists>u. applyWithin env (change k) db = Inr (u, db'))"
  by (auto simp: applyOne_def res_simps)

lemma applyAll_simps [simp]:
  "applyAll env change db [] = Inr db"
  "applyAll env change db (k # ks) = rbind (applyOne env change db k) (\<lambda>db'. applyAll env change db' ks)"
  by (simp_all add: applyAll_def)

text \<open>What an asset is after a change.\<close>

definition changedAsset :: "env \<Rightarrow> assetChange \<Rightarrow> asset \<Rightarrow> asset" where
  "changedAsset env c a = (applyPatch (writtenPatch c a) a)\<lparr>a_updatedAt := e_now env\<rparr>"

lemma findAsset_updateAsset_other: "j \<noteq> k \<Longrightarrow> findAsset (updateAsset env k p db) j = findAsset db j"
  unfolding findAsset_def updateAsset_def by (simp add: find_update_where_other)

lemma movementOf_Some:
  assumes "movementOf db k ty kv1 kv2 = Some i"
  obtains m where "m \<in> set (db_movements db)" "m_assetId m = k" "m_movementType m = ty" "m_id m = i"
  using assms unfolding movementOf_def by (auto dest: find_SomeD)

lemma writeChange_seq: "db_seq db \<le> db_seq (writeChange env c a db)"
  by (simp add: writeChange_def Let_def split: option.split)

locale itemMoves =
  fixes env :: env and change :: "'i \<Rightarrow> assetChange" and target :: "'i \<Rightarrow> string"
  assumes change_asset: "c_assetId (change k) = target k"
    and change_moves: "c_movement (change k) \<noteq> None"
    and change_writes: "c_alsoWrite (change k) db a = Inr db' \<Longrightarrow>
      db_assets db' = db_assets db \<and> db_movements db' = db_movements db \<and> db_seq db' = db_seq db"
begin

lemma one_step:
  assumes "applyOne env change db k = Inr db'"
  obtains a db2 sp where "findAsset db (target k) = Some a" "c_guard (change k) a = Inr ()"
    "c_alsoWrite (change k) (writeChange env (change k) a db) a = Inr db2" "db' = auditOf (change k) a db2"
    "c_movement (change k) = Some sp"
proof -
  obtain u where "applyWithin env (change k) db = Inr (u, db')" using assms by (auto simp: applyOne_Inr)
  then obtain a db2 where "findAsset db (c_assetId (change k)) = Some a" "c_guard (change k) a = Inr ()"
    "c_alsoWrite (change k) (writeChange env (change k) a db) a = Inr db2" "db' = auditOf (change k) a db2"
    unfolding applyWithin_Inr by blast
  moreover obtain sp where "c_movement (change k) = Some sp" using change_moves [of k] by blast
  ultimately show thesis using that by (simp add: change_asset)
qed

lemma one_find:
  assumes "applyOne env change db k = Inr db'"
  shows "findAsset db' j = (if j = target k then map_option (changedAsset env (change k)) (findAsset db (target k))
      else findAsset db j)"
proof -
  obtain a db2 sp where s: "findAsset db (target k) = Some a" "c_guard (change k) a = Inr ()"
    "c_alsoWrite (change k) (writeChange env (change k) a db) a = Inr db2" "db' = auditOf (change k) a db2"
    "c_movement (change k) = Some sp"
    using assms by (rule one_step)
  have "a_id a = target k" using findAsset_Some [OF s(1)] by simp
  then have "findAsset db' j = findAsset (updateAsset env (target k) (writtenPatch (change k) a) db) j"
    using change_writes [OF s(3)] by (intro findAsset_cong) (simp add: s(4) writeChange_assets)
  then show ?thesis
    using s(1) by (cases "j = target k") (simp_all add: findAsset_updateAsset findAsset_updateAsset_other changedAsset_def)
qed

lemma one_movements:
  assumes "applyOne env change db k = Inr db'"
  obtains m where "db_movements db' = db_movements db @ [m]" "m_assetId m = target k"
    "m_movementType m = sp_type (the (c_movement (change k)))"
proof -
  obtain a db2 sp where s: "findAsset db (target k) = Some a" "c_guard (change k) a = Inr ()"
    "c_alsoWrite (change k) (writeChange env (change k) a db) a = Inr db2" "db' = auditOf (change k) a db2"
    "c_movement (change k) = Some sp"
    using assms by (rule one_step)
  have "a_id a = target k" using findAsset_Some [OF s(1)] by simp
  then show thesis
    using that change_writes [OF s(3)] s(4,5)
    by (simp add: writeChange_movements recordMovement_def)
qed

lemma one_custody:
  assumes "applyOne env change db k = Inr db'" "envOk env" "custodyInv env db"
  shows "custodyInv env db'"
proof -
  obtain a db2 sp where s: "findAsset db (target k) = Some a" "c_guard (change k) a = Inr ()"
    "c_alsoWrite (change k) (writeChange env (change k) a db) a = Inr db2" "db' = auditOf (change k) a db2"
    "c_movement (change k) = Some sp"
    using assms(1) by (rule one_step)
  have "custodyInv env (writeChange env (change k) a db)"
    by (rule writeChange_custodyInv [OF assms(2,3)]) (simp_all add: change_asset s(1,5))
  then show ?thesis
    using change_writes [OF s(3)] by (intro custodyInv_cong [OF _ _ _ \<open>custodyInv env (writeChange env (change k) a db)\<close>]) (simp_all add: s(4))
qed

end

locale assetMoves = itemMoves env change "\<lambda>k. k" for env :: env and change :: "string \<Rightarrow> assetChange"
begin

lemma all_find:
  assumes "applyAll env change db ks = Inr db'" "distinct ks"
  shows "findAsset db' j = (if j \<in> set ks then map_option (changedAsset env (change j)) (findAsset db j)
      else findAsset db j)"
  using assms
proof (induction ks arbitrary: db)
  case Nil
  then show ?case by simp
next
  case (Cons k ks)
  obtain db1 where one: "applyOne env change db k = Inr db1" "applyAll env change db1 ks = Inr db'"
    using Cons.prems(1) by (auto simp: res_simps)
  show ?case
    using Cons.IH [OF one(2)] Cons.prems(2) one_find [OF one(1), of j] by auto
qed

lemma all_guarded:
  assumes "applyAll env change db ks = Inr db'" "distinct ks" "k \<in> set ks"
  shows "\<exists>a. findAsset db k = Some a \<and> c_guard (change k) a = Inr ()"
  using assms
proof (induction ks arbitrary: db)
  case Nil
  then show ?case by simp
next
  case (Cons j ks)
  obtain db1 where one: "applyOne env change db j = Inr db1" "applyAll env change db1 ks = Inr db'"
    using Cons.prems(1) by (auto simp: res_simps)
  show ?case
  proof (cases "k = j")
    case True
    then show ?thesis using one_step [OF one(1)] by metis
  next
    case False
    then show ?thesis using Cons.IH [OF one(2)] Cons.prems(2,3) one_find [OF one(1), of k] by auto
  qed
qed

lemma all_movements:
  assumes "applyAll env change db ks = Inr db'"
  shows "\<exists>ms. db_movements db' = db_movements db @ ms \<and> map m_assetId ms = ks \<and>
    (\<forall>m\<in>set ms. m_movementType m = sp_type (the (c_movement (change (m_assetId m)))))"
  using assms
proof (induction ks arbitrary: db)
  case Nil
  then show ?case by simp
next
  case (Cons k ks)
  obtain db1 where one: "applyOne env change db k = Inr db1" "applyAll env change db1 ks = Inr db'"
    using Cons.prems(1) by (auto simp: res_simps)
  obtain m where m: "db_movements db1 = db_movements db @ [m]" "m_assetId m = k"
    "m_movementType m = sp_type (the (c_movement (change k)))" using one(1) by (rule one_movements)
  obtain ms where "db_movements db' = db_movements db1 @ ms" "map m_assetId ms = ks"
    "\<forall>m\<in>set ms. m_movementType m = sp_type (the (c_movement (change (m_assetId m))))"
    using Cons.IH [OF one(2)] by blast
  then show ?case using m by (intro exI [of _ "m # ms"]) simp
qed

lemma all_custody:
  "applyAll env change db ks = Inr db' \<Longrightarrow> envOk env \<Longrightarrow> custodyInv env db \<Longrightarrow> custodyInv env db'"
  by (induction ks arbitrary: db) (auto simp: res_simps dest: one_custody)

text \<open>A property of the state and of the assets already moved, kept by every turn of the loop.\<close>

lemma all_prefix:
  assumes "applyAll env change db ks = Inr db'" "P [] db"
    and "\<And>moved k db a db2. P moved db \<Longrightarrow> findAsset db k = Some a \<Longrightarrow> c_guard (change k) a = Inr () \<Longrightarrow>
      c_alsoWrite (change k) (writeChange env (change k) a db) a = Inr db2 \<Longrightarrow>
      P (moved @ [k]) (auditOf (change k) a db2)"
  shows "P ks db'"
proof -
  have "P moved db \<Longrightarrow> applyAll env change db ks = Inr db' \<Longrightarrow> P (moved @ ks) db'" for moved db
  proof (induction ks arbitrary: moved db)
    case Nil
    then show ?case by simp
  next
    case (Cons k ks)
    obtain db1 where one: "applyOne env change db k = Inr db1" "applyAll env change db1 ks = Inr db'"
      using Cons.prems(2) by (auto simp: res_simps)
    obtain a db2 sp where s: "findAsset db k = Some a" "c_guard (change k) a = Inr ()"
      "c_alsoWrite (change k) (writeChange env (change k) a db) a = Inr db2" "db1 = auditOf (change k) a db2"
      "c_movement (change k) = Some sp"
      using one(1) by (rule one_step)
    have "P (moved @ [k]) db1" unfolding s(4) by (rule assms(3) [OF Cons.prems(1) s(1-3)])
    from Cons.IH [OF this one(2)] show ?case by simp
  qed
  from this [OF assms(2,1)] show ?thesis by simp
qed

end

section \<open>Loops that collect the movement just recorded\<close>

text \<open>\<open>lastMovementId\<close>: the movement of the asset no other movement refers to.\<close>

definition lastMovementId :: "db \<Rightarrow> string \<Rightarrow> string res" where
  "lastMovementId db assetId =
     (case previousMovement (db_movements db) assetId of None \<Rightarrow> throwError | Some m \<Rightarrow> Inr m)"

definition recordOne ::
  "env \<Rightarrow> ('i \<Rightarrow> assetChange) \<Rightarrow> ('i \<Rightarrow> string) \<Rightarrow> ('i \<Rightarrow> db \<Rightarrow> db) \<Rightarrow> db \<times> (string \<times> string) list \<Rightarrow> 'i
     \<Rightarrow> (db \<times> (string \<times> string) list) res" where
  "recordOne env change target after s i =
     rbind (applyOne env change (fst s) i) (\<lambda>db1.
     rbind (lastMovementId db1 (target i)) (\<lambda>m.
       Inr (after i db1, AList.update (target i) m (snd s))))"

definition recordAll ::
  "env \<Rightarrow> ('i \<Rightarrow> assetChange) \<Rightarrow> ('i \<Rightarrow> string) \<Rightarrow> ('i \<Rightarrow> db \<Rightarrow> db) \<Rightarrow> 'i list \<Rightarrow> db
     \<Rightarrow> (db \<times> (string \<times> string) list) res" where
  "recordAll env change target after items db = foldM (recordOne env change target after) (db, []) items"

lemma update_append: "k \<notin> fst ` set al \<Longrightarrow> AList.update k v al = al @ [(k, v)]"
  by (induction al) auto

lemma lastMovementId_recorded:
  assumes "custodyInv env db" "db_movements db = ms @ [m]"
  shows "lastMovementId db (m_assetId m) = Inr (m_id m)"
proof -
  have "ledgerInv (e_signing env) (db_movements db)" using assms(1) by (simp add: custodyInv_def)
  then have "previousMovement (db_movements db) (m_assetId m) = lastId None (assetRows (db_movements db) (m_assetId m))"
    by (intro previousMovement_last) (auto simp: ledgerInv_def)
  then show ?thesis by (simp add: lastMovementId_def assms(2) assetRows_def lastId_def)
qed

locale recordedMoves = itemMoves env change target
  for env :: env and change :: "'i \<Rightarrow> assetChange" and target :: "'i \<Rightarrow> string" +
  fixes after :: "'i \<Rightarrow> db \<Rightarrow> db"
  assumes after_keeps: "db_assets (after i db) = db_assets db \<and> db_movements (after i db) = db_movements db \<and>
      db_seq (after i db) = db_seq db"
begin

lemma one_recorded:
  assumes "recordOne env change target after (db, ids) i = Inr (db', ids')"
  obtains db1 m where "applyOne env change db i = Inr db1" "lastMovementId db1 (target i) = Inr m"
    "db' = after i db1" "ids' = AList.update (target i) m ids"
  using assms unfolding recordOne_def by (auto simp: rbind_eq_Inr)

lemma one_recorded_find:
  assumes "recordOne env change target after (db, ids) i = Inr (db', ids')"
  shows "findAsset db' j = (if j = target i then map_option (changedAsset env (change i)) (findAsset db (target i))
      else findAsset db j)"
proof -
  obtain db1 where "applyOne env change db i = Inr db1" "db' = after i db1" using assms by (rule one_recorded)
  then show ?thesis using one_find after_keeps findAsset_cong by metis
qed

lemma one_recorded_custody:
  assumes "recordOne env change target after (db, ids) i = Inr (db', ids')" "envOk env" "custodyInv env db"
  shows "custodyInv env db'"
    "\<exists>m. db_movements db' = db_movements db @ [m] \<and> m_assetId m = target i \<and>
       m_movementType m = sp_type (the (c_movement (change i))) \<and> ids' = AList.update (target i) (m_id m) ids"
proof -
  obtain db1 k where s: "applyOne env change db i = Inr db1" "lastMovementId db1 (target i) = Inr k"
    "db' = after i db1" "ids' = AList.update (target i) k ids" using assms(1) by (rule one_recorded)
  have c: "custodyInv env db1" by (rule one_custody [OF s(1) assms(2,3)])
  show "custodyInv env db'"
    using after_keeps by (intro custodyInv_cong [OF _ _ _ c]) (simp_all add: s(3))
  obtain m where m: "db_movements db1 = db_movements db @ [m]" "m_assetId m = target i"
    "m_movementType m = sp_type (the (c_movement (change i)))" using s(1) by (rule one_movements)
  have "k = m_id m" using lastMovementId_recorded [OF c m(1)] s(2) m(2) by simp
  then show "\<exists>m. db_movements db' = db_movements db @ [m] \<and> m_assetId m = target i \<and>
       m_movementType m = sp_type (the (c_movement (change i))) \<and> ids' = AList.update (target i) (m_id m) ids"
    using m after_keeps s(3,4) by auto
qed

lemma recorded_find:
  assumes "foldM (recordOne env change target after) (db, ids) items = Inr (db', ids')" "distinct (map target items)"
  shows "i \<in> set items \<Longrightarrow> findAsset db' (target i) = map_option (changedAsset env (change i)) (findAsset db (target i))"
    "j \<notin> target ` set items \<Longrightarrow> findAsset db' j = findAsset db j"
  using assms
proof (induction items arbitrary: db ids i j)
  case Nil
  {
    case 1
    then show ?case by simp
  next
    case 2
    then show ?case by simp
  }
next
  case (Cons x items)
  {
    case 1
    obtain db1 ids1 where one: "recordOne env change target after (db, ids) x = Inr (db1, ids1)"
      "foldM (recordOne env change target after) (db1, ids1) items = Inr (db', ids')"
      using 1(2) by (auto simp: rbind_eq_Inr)
    show ?case
    proof (cases "i = x")
      case True
      have "findAsset db' (target x) = findAsset db1 (target x)" by (rule Cons.IH(2) [OF _ one(2)]) (use 1(3) in auto)
      then show ?thesis using one_recorded_find [OF one(1), of "target x"] True by simp
    next
      case False
      then have i: "i \<in> set items" using 1(1) by simp
      have "target i \<noteq> target x" using 1(3) imageI [OF i, of target] by auto
      note i = i this
      have "findAsset db' (target i) = map_option (changedAsset env (change i)) (findAsset db1 (target i))"
        by (rule Cons.IH(1) [OF i(1) one(2)]) (use 1(3) in simp)
      then show ?thesis using one_recorded_find [OF one(1), of "target i"] i(2) by simp
    qed
  next
    case 2
    obtain db1 ids1 where one: "recordOne env change target after (db, ids) x = Inr (db1, ids1)"
      "foldM (recordOne env change target after) (db1, ids1) items = Inr (db', ids')"
      using 2(2) by (auto simp: rbind_eq_Inr)
    have "findAsset db' j = findAsset db1 j" by (rule Cons.IH(2) [OF _ one(2)]) (use 2 in auto)
    then show ?case using one_recorded_find [OF one(1), of j] 2(1) by auto
  }
qed

lemma recorded_guarded:
  assumes "foldM (recordOne env change target after) (db, ids) items = Inr (db', ids')" "distinct (map target items)"
    "i \<in> set items"
  shows "\<exists>a. findAsset db (target i) = Some a \<and> c_guard (change i) a = Inr ()"
  using assms
proof (induction items arbitrary: db ids)
  case Nil
  then show ?case by simp
next
  case (Cons x items)
  obtain db1 ids1 where one: "recordOne env change target after (db, ids) x = Inr (db1, ids1)"
    "foldM (recordOne env change target after) (db1, ids1) items = Inr (db', ids')"
    using Cons.prems(1) by (auto simp: rbind_eq_Inr)
  show ?case
  proof (cases "i = x")
    case True
    obtain db2 where "applyOne env change db x = Inr db2" using one(1) by (rule one_recorded)
    then show ?thesis using True one_step by metis
  next
    case False
    then have i: "i \<in> set items" using Cons.prems(3) by simp
    have "target i \<noteq> target x" using Cons.prems(2) imageI [OF i, of target] by auto
    note i = i this
    have "\<exists>a. findAsset db1 (target i) = Some a \<and> c_guard (change i) a = Inr ()"
      by (rule Cons.IH [OF one(2) _ i(1)]) (use Cons.prems(2) in simp)
    then show ?thesis using one_recorded_find [OF one(1), of "target i"] i(2) by simp
  qed
qed

lemma recorded_custody:
  assumes "foldM (recordOne env change target after) (db, ids) items = Inr (db', ids')"
    "distinct (map fst ids @ map target items)" "envOk env" "custodyInv env db"
  shows "custodyInv env db' \<and>
    (\<exists>ms. db_movements db' = db_movements db @ ms \<and> map m_assetId ms = map target items \<and>
       map m_movementType ms = map (\<lambda>i. sp_type (the (c_movement (change i)))) items \<and>
       ids' = ids @ map (\<lambda>m. (m_assetId m, m_id m)) ms)"
  using assms
proof (induction items arbitrary: db ids)
  case Nil
  then show ?case by simp
next
  case (Cons x items)
  obtain db1 ids1 where one: "recordOne env change target after (db, ids) x = Inr (db1, ids1)"
    "foldM (recordOne env change target after) (db1, ids1) items = Inr (db', ids')"
    using Cons.prems(1) by (auto simp: rbind_eq_Inr)
  note c = one_recorded_custody [OF one(1) Cons.prems(3,4)]
  obtain m where m: "db_movements db1 = db_movements db @ [m]" "m_assetId m = target x"
    "m_movementType m = sp_type (the (c_movement (change x)))" "ids1 = AList.update (target x) (m_id m) ids"
    using c(2) by blast
  have ids1: "ids1 = ids @ [(target x, m_id m)]"
    using m(4) update_append [of "target x" ids "m_id m"] Cons.prems(2) by auto
  have "custodyInv env db' \<and>
    (\<exists>ms. db_movements db' = db_movements db1 @ ms \<and> map m_assetId ms = map target items \<and>
       map m_movementType ms = map (\<lambda>i. sp_type (the (c_movement (change i)))) items \<and>
       ids' = ids1 @ map (\<lambda>m. (m_assetId m, m_id m)) ms)"
    by (rule Cons.IH [OF one(2) _ Cons.prems(3) c(1)]) (use Cons.prems(2) ids1 in auto)
  then obtain ms where "custodyInv env db'" "db_movements db' = db_movements db1 @ ms"
    "map m_assetId ms = map target items"
    "map m_movementType ms = map (\<lambda>i. sp_type (the (c_movement (change i)))) items"
    "ids' = ids1 @ map (\<lambda>m. (m_assetId m, m_id m)) ms" by blast
  then show ?case using m(1-3) ids1 by (intro conjI exI [of _ "m # ms"]) simp_all
qed

end

end
