(* ===== verification/CustodyProcess.thy ===== *)
theory CustodyProcess
  imports OpenItems AssetMoves
begin

text \<open>
  The abstract custody process that transfers, write-offs and handovers implement. A process opens with
  the assets it holds, may change them while it runs, and either ends without effect or finishes once
  every asset it held has its movement in the ledger. The processes of the code are shown to refine
  it, so its invariant is proved once, here.
\<close>

section \<open>The abstract machine\<close>

datatype stage = Running | Done | Ended

record heldItem =
  hd_owner :: string
  hd_asset :: string
  hd_open :: bool
  hd_movement :: "string option"

record process =
  ps_heads :: "(string \<times> stage) list"
  ps_items :: "heldItem list"
  ps_ledger :: "movement list"
  ps_seq :: nat

definition hasMovement :: "movementType \<Rightarrow> movement list \<Rightarrow> heldItem \<Rightarrow> bool" where
  "hasMovement kind ledger i =
     list_ex (\<lambda>m. hd_movement i = Some (m_id m) \<and> m_assetId m = hd_asset i \<and> m_movementType m = kind) ledger"

definition shut :: "heldItem \<Rightarrow> heldItem" where
  "shut i = i\<lparr>hd_open := False\<rparr>"

text \<open>The items a running process takes: open, for assets no process of the kind holds.\<close>

definition takes :: "heldItem list \<Rightarrow> string \<Rightarrow> heldItem list \<Rightarrow> bool" where
  "takes held k new \<longleftrightarrow> distinct (map hd_asset new) \<and>
     list_all (\<lambda>i. hd_owner i = k \<and> hd_open i \<and> hd_movement i = None \<and>
       \<not> list_ex (\<lambda>j. hd_open j \<and> hd_asset j = hd_asset i) held) new"

definition setStage :: "string \<Rightarrow> stage \<Rightarrow> (string \<times> stage) list \<Rightarrow> (string \<times> stage) list" where
  "setStage k st = update_where (\<lambda>h. fst h = k) (\<lambda>h. (fst h, st))"

inductive processStep :: "movementType \<Rightarrow> (nat \<Rightarrow> string) \<Rightarrow> process \<Rightarrow> process \<Rightarrow> bool" for kind uuid where
  Opened: "ps_seq s \<le> n \<Longrightarrow> n < ps_seq s' \<Longrightarrow> takes (ps_items s) (uuid n) new \<Longrightarrow>
    ps_heads s' = ps_heads s @ [(uuid n, Running)] \<Longrightarrow> ps_items s' = ps_items s @ new \<Longrightarrow>
    ps_ledger s' = ps_ledger s \<Longrightarrow> processStep kind uuid s s'"
| Changed: "(k, Running) \<in> set (ps_heads s) \<Longrightarrow> kept = filter (\<lambda>i. hd_owner i \<noteq> k) (ps_items s) \<Longrightarrow>
    takes kept k new \<Longrightarrow> ps_items s' = kept @ new \<Longrightarrow> ps_heads s' = ps_heads s \<Longrightarrow>
    ps_ledger s' = ps_ledger s \<Longrightarrow> ps_seq s \<le> ps_seq s' \<Longrightarrow> processStep kind uuid s s'"
| Waited: "ps_heads s' = ps_heads s \<Longrightarrow> ps_items s' = ps_items s \<Longrightarrow>
    set (ps_ledger s) \<subseteq> set (ps_ledger s') \<Longrightarrow> ps_seq s \<le> ps_seq s' \<Longrightarrow> processStep kind uuid s s'"
| Moved: "(k, Running) \<in> set (ps_heads s) \<Longrightarrow> ps_heads s' = ps_heads s \<Longrightarrow>
    m \<in> set (ps_ledger s') \<Longrightarrow> m_assetId m = a \<Longrightarrow> m_movementType m = kind \<Longrightarrow>
    ps_items s' = update_where (\<lambda>i. hd_owner i = k \<and> hd_asset i = a)
      (\<lambda>i. i\<lparr>hd_movement := Some (m_id m), hd_open := False\<rparr>) (ps_items s) \<Longrightarrow>
    set (ps_ledger s) \<subseteq> set (ps_ledger s') \<Longrightarrow> ps_seq s \<le> ps_seq s' \<Longrightarrow> processStep kind uuid s s'"
| Finished: "(k, Running) \<in> set (ps_heads s) \<Longrightarrow>
    list_all (\<lambda>i. hd_owner i = k \<longrightarrow> hasMovement kind (ps_ledger s) i) (ps_items s) \<Longrightarrow>
    ps_heads s' = setStage k Done (ps_heads s) \<Longrightarrow>
    ps_items s' = update_where (\<lambda>i. hd_owner i = k) shut (ps_items s) \<Longrightarrow>
    ps_ledger s' = ps_ledger s \<Longrightarrow> ps_seq s \<le> ps_seq s' \<Longrightarrow> processStep kind uuid s s'"
| GivenUp: "(k, Running) \<in> set (ps_heads s) \<Longrightarrow> ps_heads s' = setStage k Ended (ps_heads s) \<Longrightarrow>
    ps_items s' = update_where (\<lambda>i. hd_owner i = k) shut (ps_items s) \<Longrightarrow>
    ps_ledger s' = ps_ledger s \<Longrightarrow> ps_seq s \<le> ps_seq s' \<Longrightarrow> processStep kind uuid s s'"

abbreviation processRun :: "movementType \<Rightarrow> (nat \<Rightarrow> string) \<Rightarrow> process \<Rightarrow> process \<Rightarrow> bool" where
  "processRun kind uuid \<equiv> (processStep kind uuid)\<^sup>*\<^sup>*"

section \<open>Its invariant\<close>

definition processInv :: "movementType \<Rightarrow> (nat \<Rightarrow> string) \<Rightarrow> process \<Rightarrow> bool" where
  "processInv kind uuid s \<longleftrightarrow>
     distinct (map fst (ps_heads s)) \<and> fst ` set (ps_heads s) \<subseteq> uuid ` {..<ps_seq s} \<and>
     exclusiveOpen hd_asset hd_open (ps_items s) \<and>
     hd_owner ` set (ps_items s) \<subseteq> fst ` set (ps_heads s) \<and>
     (\<forall>i\<in>set (ps_items s). hd_movement i \<noteq> None \<longrightarrow> hasMovement kind (ps_ledger s) i) \<and>
     (\<forall>(k, st)\<in>set (ps_heads s). \<forall>i\<in>set (ps_items s). hd_owner i = k \<longrightarrow>
        (hd_open i \<longrightarrow> st = Running) \<and> (st = Done \<longrightarrow> hasMovement kind (ps_ledger s) i))"

lemma processInvI:
  assumes "distinct (map fst (ps_heads s))" "fst ` set (ps_heads s) \<subseteq> uuid ` {..<ps_seq s}"
    "exclusiveOpen hd_asset hd_open (ps_items s)" "hd_owner ` set (ps_items s) \<subseteq> fst ` set (ps_heads s)"
    "\<And>i. i \<in> set (ps_items s) \<Longrightarrow> hd_movement i \<noteq> None \<Longrightarrow> hasMovement kind (ps_ledger s) i"
    "\<And>k st i. (k, st) \<in> set (ps_heads s) \<Longrightarrow> i \<in> set (ps_items s) \<Longrightarrow> hd_owner i = k \<Longrightarrow> hd_open i \<Longrightarrow> st = Running"
    "\<And>k i. (k, Done) \<in> set (ps_heads s) \<Longrightarrow> i \<in> set (ps_items s) \<Longrightarrow> hd_owner i = k \<Longrightarrow>
      hasMovement kind (ps_ledger s) i"
  shows "processInv kind uuid s"
  unfolding processInv_def using assms by (intro conjI) (auto simp: subset_iff)

lemma processInvD:
  assumes "processInv kind uuid s"
  shows "distinct (map fst (ps_heads s))" "fst ` set (ps_heads s) \<subseteq> uuid ` {..<ps_seq s}"
    "exclusiveOpen hd_asset hd_open (ps_items s)" "hd_owner ` set (ps_items s) \<subseteq> fst ` set (ps_heads s)"
    "i \<in> set (ps_items s) \<Longrightarrow> hd_movement i \<noteq> None \<Longrightarrow> hasMovement kind (ps_ledger s) i"
    "(k, st) \<in> set (ps_heads s) \<Longrightarrow> i \<in> set (ps_items s) \<Longrightarrow> hd_owner i = k \<Longrightarrow> hd_open i \<Longrightarrow> st = Running"
    "(k, Done) \<in> set (ps_heads s) \<Longrightarrow> i \<in> set (ps_items s) \<Longrightarrow> hd_owner i = k \<Longrightarrow> hasMovement kind (ps_ledger s) i"
  using assms unfolding processInv_def by auto

lemma hasMovement_mono: "hasMovement kind l i \<Longrightarrow> set l \<subseteq> set l' \<Longrightarrow> hasMovement kind l' i"
  unfolding hasMovement_def list_ex_iff by blast

lemma hasMovement_shut [simp]: "hasMovement kind l (shut i) = hasMovement kind l i"
  by (simp add: hasMovement_def shut_def)

lemma shut_simps [simp]: "hd_movement (shut i) = hd_movement i" "\<not> hd_open (shut i)" "hd_owner (shut i) = hd_owner i" "hd_asset (shut i) = hd_asset i"
  by (simp_all add: shut_def)

lemma takes_exclusive:
  "takes held k new \<Longrightarrow> exclusiveOpen hd_asset hd_open held \<Longrightarrow> exclusiveOpen hd_asset hd_open (held @ new)"
proof -
  assume t: "takes held k new" and e: "exclusiveOpen hd_asset hd_open held"
  have "filter hd_open new = new" using t by (auto simp: takes_def list_all_iff filter_id_conv)
  then show ?thesis using t e
    by (auto simp: exclusiveOpen_def takes_def list_all_iff list_ex_iff)
qed

lemma takes_owner: "takes held k new \<Longrightarrow> i \<in> set new \<Longrightarrow> hd_owner i = k"
  by (simp add: takes_def list_all_iff)

lemma setStage_ids [simp]: "map fst (setStage k st hs) = map fst hs"
  unfolding setStage_def by (rule map_update_where) simp

lemma setStage_idset [simp]: "fst ` set (setStage k st hs) = fst ` set hs"
  by (metis list.set_map setStage_ids)

lemma in_setStage:
  "(j, u) \<in> set (setStage k st hs) \<longleftrightarrow> (if j = k then u = st \<and> k \<in> fst ` set hs else (j, u) \<in> set hs)"
  unfolding setStage_def set_update_where by force

text \<open>The heads only move forward, so a head that runs is the only one of its name.\<close>

lemma ids_grow: "A \<subseteq> uuid ` {..<m} \<Longrightarrow> m \<le> n \<Longrightarrow> A \<subseteq> uuid ` {..<(n::nat)}"
  by (meson image_mono lessThan_subset_iff order_trans)

lemma inv_Opened:
  assumes "inj uuid" "processInv kind uuid s" "ps_seq s \<le> n" "n < ps_seq s'" "takes (ps_items s) (uuid n) new"
    "ps_heads s' = ps_heads s @ [(uuid n, Running)]" "ps_items s' = ps_items s @ new" "ps_ledger s' = ps_ledger s"
  shows "processInv kind uuid s'"
proof (rule processInvI)
  note d = processInvD [OF assms(2)]
  have fresh: "uuid n \<notin> fst ` set (ps_heads s)"
  proof
    assume "uuid n \<in> fst ` set (ps_heads s)"
    then obtain m where "m < ps_seq s" "uuid n = uuid m" using d(2) by blast
    then show False using assms(1,3) by (simp add: inj_eq)
  qed
  then show "distinct (map fst (ps_heads s'))" using d(1) assms(6) by simp
  have "fst ` set (ps_heads s) \<subseteq> uuid ` {..<ps_seq s'}" by (rule ids_grow [OF d(2)]) (use assms(3,4) in simp)
  moreover have "uuid n \<in> uuid ` {..<ps_seq s'}" using assms(4) by blast
  ultimately show "fst ` set (ps_heads s') \<subseteq> uuid ` {..<ps_seq s'}" unfolding assms(6) by simp
  show "exclusiveOpen hd_asset hd_open (ps_items s')"
    unfolding assms(7) by (rule takes_exclusive [OF assms(5) d(3)])
  show "hd_owner ` set (ps_items s') \<subseteq> fst ` set (ps_heads s')"
    using d(4) takes_owner [OF assms(5)] assms(6,7) by auto
  show "hasMovement kind (ps_ledger s') i" if "i \<in> set (ps_items s')" "hd_movement i \<noteq> None" for i
    using that d(5) assms(5,7,8) by (auto simp: takes_def list_all_iff)
  have old: "hd_owner i \<noteq> uuid n" if "i \<in> set (ps_items s)" for i
    using that d(4) fresh by (metis image_subset_iff)
  show "st = Running" if "(k, st) \<in> set (ps_heads s')" "i \<in> set (ps_items s')" "hd_owner i = k" "hd_open i" for k st i
    using that d(6) takes_owner [OF assms(5)] old fresh assms(6,7) by (force simp: image_iff)
  show "hasMovement kind (ps_ledger s') i"
    if "(k, Done) \<in> set (ps_heads s')" "i \<in> set (ps_items s')" "hd_owner i = k" for k i
  proof -
    have "(k, Done) \<in> set (ps_heads s)" using that(1) assms(6) by simp
    moreover from this have "k \<noteq> uuid n" using fresh by (force simp: image_iff)
    then have "i \<in> set (ps_items s)" using that(2,3) takes_owner [OF assms(5)] assms(7) by auto
    ultimately show ?thesis using d(7) that(3) assms(8) by simp
  qed
qed

lemma inv_Changed:
  assumes "processInv kind uuid s" "(k, Running) \<in> set (ps_heads s)"
    "takes (filter (\<lambda>i. hd_owner i \<noteq> k) (ps_items s)) k new"
    "ps_items s' = filter (\<lambda>i. hd_owner i \<noteq> k) (ps_items s) @ new"
    "ps_heads s' = ps_heads s" "ps_ledger s' = ps_ledger s" "ps_seq s \<le> ps_seq s'"
  shows "processInv kind uuid s'"
proof (rule processInvI)
  note d = processInvD [OF assms(1)]
  show "distinct (map fst (ps_heads s'))" using d(1) assms(5) by simp
  show "fst ` set (ps_heads s') \<subseteq> uuid ` {..<ps_seq s'}" unfolding assms(5) by (rule ids_grow [OF d(2) assms(7)])
  show "exclusiveOpen hd_asset hd_open (ps_items s')"
    unfolding assms(4) by (rule takes_exclusive [OF assms(3) exclusive_filter [OF d(3)]])
  have k: "k \<in> fst ` set (ps_heads s)" using assms(2) by force
  show "hd_owner ` set (ps_items s') \<subseteq> fst ` set (ps_heads s')"
    using d(4) takes_owner [OF assms(3)] assms(4,5) k by auto
  show "hasMovement kind (ps_ledger s') i" if "i \<in> set (ps_items s')" "hd_movement i \<noteq> None" for i
    using that d(5) assms(3,4,6) by (auto simp: takes_def list_all_iff)
  have only: "st = Running" if "(k, st) \<in> set (ps_heads s)" for st
    using d(1) assms(2) that by (metis eq_key_imp_eq_value)
  show "st = Running" if "(j, st) \<in> set (ps_heads s')" "i \<in> set (ps_items s')" "hd_owner i = j" "hd_open i" for j st i
    using that d(6) takes_owner [OF assms(3)] only assms(4,5) by auto
  show "hasMovement kind (ps_ledger s') i"
    if "(j, Done) \<in> set (ps_heads s')" "i \<in> set (ps_items s')" "hd_owner i = j" for j i
    using that d(7) takes_owner [OF assms(3)] only [of Done] assms(4-6) by auto
qed

lemma inv_Waited:
  assumes "processInv kind uuid s" "ps_heads s' = ps_heads s" "ps_items s' = ps_items s"
    "set (ps_ledger s) \<subseteq> set (ps_ledger s')" "ps_seq s \<le> ps_seq s'"
  shows "processInv kind uuid s'"
proof (rule processInvI)
  note d = processInvD [OF assms(1)]
  show "fst ` set (ps_heads s') \<subseteq> uuid ` {..<ps_seq s'}" unfolding assms(2) by (rule ids_grow [OF d(2) assms(5)])
  show "hasMovement kind (ps_ledger s') i"
    if "(j, Done) \<in> set (ps_heads s')" "i \<in> set (ps_items s')" "hd_owner i = j" for j i
    using that d(7) hasMovement_mono [OF _ assms(4)] assms(2,3) by simp
  show "hasMovement kind (ps_ledger s') i" if "i \<in> set (ps_items s')" "hd_movement i \<noteq> None" for i
    using that d(5) hasMovement_mono [OF _ assms(4)] assms(3) by simp
qed (use processInvD [OF assms(1)] assms(2,3) in simp_all)

lemma inv_Moved:
  assumes inv: "processInv kind uuid s" and heads: "ps_heads s' = ps_heads s"
    and m: "m \<in> set (ps_ledger s')" "m_assetId m = a" "m_movementType m = kind"
    and items: "ps_items s' = update_where (\<lambda>i. hd_owner i = k \<and> hd_asset i = a)
      (\<lambda>i. i\<lparr>hd_movement := Some (m_id m), hd_open := False\<rparr>) (ps_items s)"
    and grow: "set (ps_ledger s) \<subseteq> set (ps_ledger s')" "ps_seq s \<le> ps_seq s'"
  shows "processInv kind uuid s'"
proof (rule processInvI)
  note d = processInvD [OF inv]
  show "distinct (map fst (ps_heads s'))" using d(1) heads by simp
  show "fst ` set (ps_heads s') \<subseteq> uuid ` {..<ps_seq s'}" unfolding heads by (rule ids_grow [OF d(2) grow(2)])
  show "exclusiveOpen hd_asset hd_open (ps_items s')"
    unfolding items by (rule exclusive_subset [OF d(3)]) simp_all
  show "hd_owner ` set (ps_items s') \<subseteq> fst ` set (ps_heads s')"
    using d(4) unfolding heads items set_update_where image_subset_iff by auto
  show "st = Running" if "(j, st) \<in> set (ps_heads s')" "i \<in> set (ps_items s')" "hd_owner i = j" "hd_open i" for j st i
    using that d(6) unfolding heads items by (auto simp: in_update_where split: if_splits)
  have moved: "hasMovement kind (ps_ledger s') i \<or> i \<in> set (ps_items s)" if "i \<in> set (ps_items s')" for i
    using that m unfolding items by (auto simp: in_update_where hasMovement_def list_ex_iff split: if_splits)
  show "hasMovement kind (ps_ledger s') i" if at: "i \<in> set (ps_items s')" "hd_movement i \<noteq> None" for i
    using moved [OF at(1)] d(5) at(2) hasMovement_mono [OF _ grow(1)] by blast
  show "hasMovement kind (ps_ledger s') i"
    if at: "(j, Done) \<in> set (ps_heads s')" "i \<in> set (ps_items s')" "hd_owner i = j" for j i
    using moved [OF at(2)] d(7) at(1,3) hasMovement_mono [OF _ grow(1)] unfolding heads by blast
qed

lemma inv_closing:
  assumes inv: "processInv kind uuid s" and heads: "ps_heads s' = setStage k st (ps_heads s)"
    and items: "ps_items s' = update_where (\<lambda>i. hd_owner i = k) shut (ps_items s)"
    and rest: "ps_ledger s' = ps_ledger s" "ps_seq s \<le> ps_seq s'"
    and moved: "st = Done \<Longrightarrow> list_all (\<lambda>i. hd_owner i = k \<longrightarrow> hasMovement kind (ps_ledger s) i) (ps_items s)"
  shows "processInv kind uuid s'"
proof (rule processInvI)
  note d = processInvD [OF inv]
  show "distinct (map fst (ps_heads s'))" using d(1) heads by simp
  show "fst ` set (ps_heads s') \<subseteq> uuid ` {..<ps_seq s'}" unfolding heads setStage_idset by (rule ids_grow [OF d(2) rest(2)])
  show "exclusiveOpen hd_asset hd_open (ps_items s')"
    unfolding items by (rule exclusive_subset [OF d(3)]) simp_all
  have item: "\<exists>q\<in>set (ps_items s). i = (if hd_owner q = k then shut q else q)" if "i \<in> set (ps_items s')" for i
    using that unfolding items by (auto simp: in_update_where)
  show "hd_owner ` set (ps_items s') \<subseteq> fst ` set (ps_heads s')"
    using d(4) unfolding heads setStage_idset items set_update_where image_subset_iff by auto
  have other: "\<exists>q\<in>set (ps_items s). hd_owner q = hd_owner i \<and> (hd_open i \<longrightarrow> hd_owner q \<noteq> k \<and> i = q) \<and>
      hd_movement q = hd_movement i \<and> (hasMovement kind (ps_ledger s) q \<longrightarrow> hasMovement kind (ps_ledger s) i)" if "i \<in> set (ps_items s')" for i
  proof -
    obtain q where q: "q \<in> set (ps_items s)" "i = (if hd_owner q = k then shut q else q)" using item [OF \<open>i \<in> _\<close>] by blast
    show ?thesis by (rule bexI [OF _ q(1)]) (simp add: q(2))
  qed
  show "hasMovement kind (ps_ledger s') i" if at: "i \<in> set (ps_items s')" "hd_movement i \<noteq> None" for i
    using other [OF at(1)] d(5) at(2) unfolding rest(1) by metis
  show "u = Running" if at: "(j, u) \<in> set (ps_heads s')" "i \<in> set (ps_items s')" "hd_owner i = j" "hd_open i" for j u i
  proof -
    have "i \<in> set (ps_items s)" "j \<noteq> k" using other [OF at(2)] at(3,4) by blast+
    moreover from this have "(j, u) \<in> set (ps_heads s)" using at(1) unfolding heads in_setStage by simp
    ultimately show ?thesis using d(6) at(3,4) by blast
  qed
  show "hasMovement kind (ps_ledger s') i"
    if at: "(j, Done) \<in> set (ps_heads s')" "i \<in> set (ps_items s')" "hd_owner i = j" for j i
  proof -
    obtain q where q: "q \<in> set (ps_items s)" "hd_owner q = j"
      "hasMovement kind (ps_ledger s) q \<longrightarrow> hasMovement kind (ps_ledger s) i" using other [OF at(2)] at(3) by metis
    have "hasMovement kind (ps_ledger s) q"
    proof (cases "j = k")
      case True
      then have "st = Done" using at(1) unfolding heads in_setStage by simp
      then show ?thesis using moved q(1,2) True by (simp add: list_all_iff)
    next
      case False
      then have "(j, Done) \<in> set (ps_heads s)" using at(1) unfolding heads in_setStage by simp
      then show ?thesis using d(7) q(1,2) by blast
    qed
    then show ?thesis using q(3) rest(1) by simp
  qed
qed

lemma processStep_inv:
  assumes "inj uuid" "processStep kind uuid s s'" "processInv kind uuid s"
  shows "processInv kind uuid s'"
  using assms(2,3)
proof (cases rule: processStep.cases)
  case (Opened n new)
  then show ?thesis using inv_Opened [OF assms(1,3)] by blast
next
  case (Changed k kept new)
  then show ?thesis using inv_Changed [OF assms(3)] by blast
next
  case Waited
  then show ?thesis using inv_Waited [OF assms(3)] by blast
next
  case (Moved k m a)
  then show ?thesis using inv_Moved [OF assms(3) Moved(2,3)] by blast
next
  case (Finished k)
  then show ?thesis using inv_closing [OF assms(3), of s' k Done] by blast
next
  case (GivenUp k)
  then show ?thesis using inv_closing [OF assms(3), of s' k Ended] by blast
qed

lemma processRun_inv:
  assumes "inj uuid" "processRun kind uuid s s'" "processInv kind uuid s"
  shows "processInv kind uuid s'"
  using assms(2,3) by (induction rule: rtranclp_induct) (auto dest: processStep_inv [OF assms(1)])

section \<open>The interface of a process of the code\<close>

text \<open>
  A process of the code keeps a table of heads with a status and a table of items. The interface fixes
  how they are read as the abstract machine; what its operations write is then a step of it.
\<close>

definition processOf ::
  "('h \<Rightarrow> string) \<Rightarrow> ('h \<Rightarrow> stage) \<Rightarrow> ('r \<Rightarrow> heldItem) \<Rightarrow> 'h list \<Rightarrow> 'r list \<Rightarrow> db \<Rightarrow> process" where
  "processOf headId stageOf heldOf heads rows db =
     \<lparr>ps_heads = map (\<lambda>h. (headId h, stageOf h)) heads, ps_items = map heldOf rows,
      ps_ledger = db_movements db, ps_seq = db_seq db\<rparr>"

text \<open>Inserting open items one after another under the index takes their assets.\<close>

lemma insertOpen_takes:
  assumes "insertOpen assetOf isOpen code rows r = Inr rows'"
    "\<And>x. assetOf x = hd_asset (heldOf x)" "\<And>x. isOpen x = hd_open (heldOf x)"
    "hd_owner (heldOf r) = k" "hd_open (heldOf r)" "hd_movement (heldOf r) = None"
    "rows = held @ new" "takes (map heldOf held) k (map heldOf new)"
  shows "rows' = held @ (new @ [r]) \<and> takes (map heldOf held) k (map heldOf (new @ [r]))"
proof -
  have rows': "rows' = rows @ [r]" by (rule insertOpen_rows [OF assms(1)])
  have free: "hd_asset (heldOf x) \<noteq> hd_asset (heldOf r)" if "x \<in> set rows" "hd_open (heldOf x)" for x
    using assms(1,5) that unfolding insertOpen_def assms(2,3) by (auto simp: list_ex_iff split: if_splits)
  have opened: "hd_open (heldOf x)" if "x \<in> set new" for x using assms(8) that by (simp add: takes_def list_all_iff)
  have "hd_asset (heldOf r) \<notin> hd_asset ` heldOf ` set new" using free opened unfolding assms(7) by force
  moreover have "\<not> list_ex (\<lambda>j. hd_open j \<and> hd_asset j = hd_asset (heldOf r)) (map heldOf held)"
    using free unfolding assms(7) by (auto simp: list_ex_iff)
  ultimately have "takes (map heldOf held) k (map heldOf (new @ [r]))"
    using assms(4-6,8) unfolding takes_def by (simp add: image_image)
  then show ?thesis unfolding rows' assms(7) by simp
qed

lemma foldM_takes:
  assumes "foldM f rows xs = Inr rows'"
    "\<And>x rows rows'. f rows x = Inr rows' \<Longrightarrow> rows' = rows \<or> (\<exists>r. insertOpen assetOf isOpen code rows r = Inr rows' \<and>
       hd_owner (heldOf r) = k \<and> hd_open (heldOf r) \<and> hd_movement (heldOf r) = None)"
    "\<And>x. assetOf x = hd_asset (heldOf x)" "\<And>x. isOpen x = hd_open (heldOf x)"
  shows "\<exists>new. rows' = rows @ new \<and> takes (map heldOf rows) k (map heldOf new)"
proof (rule foldM_invariant [where P = "\<lambda>rs. \<exists>new. rs = rows @ new \<and> takes (map heldOf rows) k (map heldOf new)", OF assms(1)])
  show "\<exists>new. rows = rows @ new \<and> takes (map heldOf rows) k (map heldOf new)"
    by (rule exI [of _ "[]"]) (simp add: takes_def)
next
  fix s x s'
  assume "\<exists>new. s = rows @ new \<and> takes (map heldOf rows) k (map heldOf new)" and step: "f s x = Inr s'"
  then obtain new where new: "s = rows @ new" "takes (map heldOf rows) k (map heldOf new)" by blast
  from assms(2) [OF step] show "\<exists>new. s' = rows @ new \<and> takes (map heldOf rows) k (map heldOf new)"
  proof
    assume "s' = s"
    then show ?thesis using new by blast
  next
    assume "\<exists>r. insertOpen assetOf isOpen code s r = Inr s' \<and>
       hd_owner (heldOf r) = k \<and> hd_open (heldOf r) \<and> hd_movement (heldOf r) = None"
    then obtain r where "insertOpen assetOf isOpen code s r = Inr s'" "hd_owner (heldOf r) = k" "hd_open (heldOf r)"
      "hd_movement (heldOf r) = None" by blast
    from insertOpen_takes [OF this(1) assms(3,4) this(2-4) new] show ?thesis by blast
  qed
qed

locale custodyProcess =
  fixes kind :: movementType
    and heads :: "db \<Rightarrow> 'h list"
    and headId :: "'h \<Rightarrow> string"
    and stageOf :: "'h \<Rightarrow> stage"
    and rows :: "db \<Rightarrow> 'r list"
    and heldOf :: "'r \<Rightarrow> heldItem"
    and close :: "'r \<Rightarrow> 'r"
    and linkTo :: "string \<Rightarrow> 'r \<Rightarrow> 'r"
  assumes held_close: "heldOf (close r) = shut (heldOf r)"
    and held_link: "heldOf (linkTo m r) = (heldOf r)\<lparr>hd_movement := Some m, hd_open := False\<rparr>"
begin

lemma process_simps:
  "ps_heads (processOf headId stageOf heldOf hs rs db) = map (\<lambda>h. (headId h, stageOf h)) hs"
  "ps_items (processOf headId stageOf heldOf hs rs db) = map heldOf rs"
  "ps_ledger (processOf headId stageOf heldOf hs rs db) = db_movements db"
  "ps_seq (processOf headId stageOf heldOf hs rs db) = db_seq db"
  by (simp_all add: processOf_def)

lemma closed_rows:
  "map heldOf (update_where (\<lambda>r. hd_owner (heldOf r) = k) close rs) =
   update_where (\<lambda>i. hd_owner i = k) shut (map heldOf rs)"
  by (simp add: update_where_def held_close)

lemma linked_rows:
  "map heldOf (update_where (\<lambda>r. hd_owner (heldOf r) = k \<and> hd_asset (heldOf r) = a) (linkTo m) rs) =
   update_where (\<lambda>i. hd_owner i = k \<and> hd_asset i = a) (\<lambda>i. i\<lparr>hd_movement := Some m, hd_open := False\<rparr>)
     (map heldOf rs)"
  by (simp add: update_where_def held_link)

lemma kept_rows:
  "map heldOf (filter (\<lambda>r. hd_owner (heldOf r) \<noteq> k) rs) = filter (\<lambda>i. hd_owner i \<noteq> k) (map heldOf rs)"
  by (simp add: filter_map comp_def)

lemma staged_heads:
  assumes "\<And>h. h \<in> set hs \<Longrightarrow> headId h = k \<Longrightarrow> headId (f h) = k \<and> stageOf (f h) = st"
  shows "map (\<lambda>h. (headId h, stageOf h)) (update_where (\<lambda>h. headId h = k) f hs) =
    setStage k st (map (\<lambda>h. (headId h, stageOf h)) hs)"
  using assms by (simp add: update_where_def setStage_def)

lemma same_heads:
  assumes "\<And>h. h \<in> set hs \<Longrightarrow> headId h = k \<Longrightarrow> headId (f h) = k \<and> stageOf (f h) = stageOf h"
  shows "map (\<lambda>h. (headId h, stageOf h)) (update_where (\<lambda>h. headId h = k) f hs) =
    map (\<lambda>h. (headId h, stageOf h)) hs"
  using assms by (simp add: update_where_def)

lemma running_head:
  "h \<in> set (heads db) \<Longrightarrow> headId h = k \<Longrightarrow> stageOf h = Running \<Longrightarrow>
   (k, Running) \<in> set (ps_heads (processOf headId stageOf heldOf (heads db) (rows db) db))"
  by (force simp: process_simps)

text \<open>The steps of the code, read on the abstract machine.\<close>

lemma waits:
  assumes "map (\<lambda>h. (headId h, stageOf h)) (heads db') = map (\<lambda>h. (headId h, stageOf h)) (heads db)"
    "rows db' = rows db" "set (db_movements db) \<subseteq> set (db_movements db')" "db_seq db \<le> db_seq db'"
  shows "processStep kind uuid (processOf headId stageOf heldOf (heads db) (rows db) db)
    (processOf headId stageOf heldOf (heads db') (rows db') db')"
  by (rule Waited) (use assms in \<open>simp_all add: process_simps\<close>)

lemma opens:
  assumes "heads db' = heads db @ [h]" "headId h = uuid n" "stageOf h = Running" "db_seq db \<le> n" "n < db_seq db'"
    "rows db' = rows db @ new" "takes (map heldOf (rows db)) (uuid n) (map heldOf new)"
    "db_movements db' = db_movements db"
  shows "processStep kind uuid (processOf headId stageOf heldOf (heads db) (rows db) db)
    (processOf headId stageOf heldOf (heads db') (rows db') db')"
  by (rule Opened [of _ n _ _ "map heldOf new"]) (use assms in \<open>simp_all add: process_simps\<close>)

lemma changes:
  assumes "h \<in> set (heads db)" "headId h = k" "stageOf h = Running"
    "map (\<lambda>h. (headId h, stageOf h)) (heads db') = map (\<lambda>h. (headId h, stageOf h)) (heads db)"
    "rows db' = filter (\<lambda>r. hd_owner (heldOf r) \<noteq> k) (rows db) @ new"
    "takes (map heldOf (filter (\<lambda>r. hd_owner (heldOf r) \<noteq> k) (rows db))) k (map heldOf new)"
    "db_movements db' = db_movements db" "db_seq db \<le> db_seq db'"
  shows "processStep kind uuid (processOf headId stageOf heldOf (heads db) (rows db) db)
    (processOf headId stageOf heldOf (heads db') (rows db') db')"
  by (rule Changed [OF running_head [OF assms(1-3)] refl, of "map heldOf new"])
    (use assms(4-) in \<open>simp_all add: process_simps kept_rows\<close>)

lemma moves:
  assumes "h \<in> set (heads db)" "headId h = k" "stageOf h = Running" "heads db' = heads db"
    "m \<in> set (db_movements db')" "m_assetId m = a" "m_movementType m = kind"
    "rows db' = update_where (\<lambda>r. hd_owner (heldOf r) = k \<and> hd_asset (heldOf r) = a) (linkTo (m_id m)) (rows db)"
    "set (db_movements db) \<subseteq> set (db_movements db')" "db_seq db \<le> db_seq db'"
  shows "processStep kind uuid (processOf headId stageOf heldOf (heads db) (rows db) db)
    (processOf headId stageOf heldOf (heads db') (rows db') db')"
  by (rule Moved [OF running_head [OF assms(1-3)], of _ m a])
    (use assms(4-) in \<open>simp_all add: process_simps linked_rows\<close>)

lemma gives_up:
  assumes "h \<in> set (heads db)" "headId h = k" "stageOf h = Running"
    "heads db' = update_where (\<lambda>h. headId h = k) f (heads db)"
    "\<And>h. headId h = k \<Longrightarrow> headId (f h) = k \<and> stageOf (f h) = Ended"
    "rows db' = update_where (\<lambda>r. hd_owner (heldOf r) = k) close (rows db)"
    "db_movements db' = db_movements db" "db_seq db \<le> db_seq db'"
  shows "processStep kind uuid (processOf headId stageOf heldOf (heads db) (rows db) db)
    (processOf headId stageOf heldOf (heads db') (rows db') db')"
  by (rule GivenUp [OF running_head [OF assms(1-3)]])
    (use assms(4-) in \<open>simp_all add: process_simps closed_rows staged_heads\<close>)

lemma finishes:
  assumes "h \<in> set (heads db)" "headId h = k" "stageOf h = Running"
    "list_all (\<lambda>r. hd_owner (heldOf r) = k \<longrightarrow> hasMovement kind (db_movements db) (heldOf r)) (rows db)"
    "heads db' = update_where (\<lambda>h. headId h = k) f (heads db)"
    "\<And>h. headId h = k \<Longrightarrow> headId (f h) = k \<and> stageOf (f h) = Done"
    "rows db' = update_where (\<lambda>r. hd_owner (heldOf r) = k) close (rows db)"
    "db_movements db' = db_movements db" "db_seq db \<le> db_seq db'"
  shows "processStep kind uuid (processOf headId stageOf heldOf (heads db) (rows db) db)
    (processOf headId stageOf heldOf (heads db') (rows db') db')"
  by (rule Finished [OF running_head [OF assms(1-3)]])
    (use assms(4-) in \<open>simp_all add: process_simps closed_rows staged_heads list_all_iff\<close>)

end

section \<open>A process that moves its assets\<close>

text \<open>
  The loop a signed act runs: every pending asset is moved and its item is given the movement. The
  further interface says what the change of an asset writes beside the asset and the ledger.
\<close>

locale movingProcess =
  custodyProcess kind heads headId stageOf rows heldOf close linkTo + assetMoves env change
  for kind :: movementType
    and heads :: "db \<Rightarrow> 'h list"
    and headId :: "'h \<Rightarrow> string"
    and stageOf :: "'h \<Rightarrow> stage"
    and rows :: "db \<Rightarrow> 'r list"
    and heldOf :: "'r \<Rightarrow> heldItem"
    and close :: "'r \<Rightarrow> 'r"
    and linkTo :: "string \<Rightarrow> 'r \<Rightarrow> 'r"
    and env :: env
    and change :: "string \<Rightarrow> assetChange" +
  fixes owner :: string
  assumes change_kind: "map_option sp_type (c_movement (change k)) = Some kind"
    and change_links: "c_alsoWrite (change k) db a = Inr db' \<Longrightarrow> heads db' = heads db \<and>
      (\<exists>m\<in>set (db_movements db). m_assetId m = k \<and> m_movementType m = kind \<and>
        rows db' = update_where (\<lambda>r. hd_owner (heldOf r) = owner \<and> hd_asset (heldOf r) = k) (linkTo (m_id m)) (rows db))"
    and change_heads: "heads (writeChange env c a db) = heads db" "heads (auditOf c a db) = heads db"
    and change_rows: "rows (writeChange env c a db) = rows db" "rows (auditOf c a db) = rows db"
begin

definition abstractOf :: "db \<Rightarrow> process" where
  "abstractOf db = processOf headId stageOf heldOf (heads db) (rows db) db"

definition unmoved :: "string list \<Rightarrow> db \<Rightarrow> db \<Rightarrow> bool" where
  "unmoved moved db db' \<longleftrightarrow> (\<forall>r\<in>set (rows db'). hd_owner (heldOf r) = owner \<longrightarrow>
     hd_movement (heldOf r) = None \<or> hd_open (heldOf r) \<longrightarrow> r \<in> set (rows db) \<and> hd_asset (heldOf r) \<notin> set moved)"

lemma one_moved:
  assumes head: "h \<in> set (heads db)" "headId h = owner" "stageOf h = Running"
    and run: "c_alsoWrite (change k) (writeChange env (change k) a db) a = Inr db2"
  shows "heads (auditOf (change k) a db2) = heads db"
    "processStep kind uuid (abstractOf db) (abstractOf (auditOf (change k) a db2))"
    "unmoved [k] db (auditOf (change k) a db2)"
proof -
  let ?w = "writeChange env (change k) a db" and ?d = "auditOf (change k) a db2"
  obtain m where m: "heads db2 = heads ?w" "m \<in> set (db_movements ?w)" "m_assetId m = k" "m_movementType m = kind"
    "rows db2 = update_where (\<lambda>r. hd_owner (heldOf r) = owner \<and> hd_asset (heldOf r) = k) (linkTo (m_id m)) (rows ?w)"
    using change_links [OF run] by blast
  show heads: "heads ?d = heads db" by (simp add: change_heads m(1))
  have rows: "rows ?d = update_where (\<lambda>r. hd_owner (heldOf r) = owner \<and> hd_asset (heldOf r) = k) (linkTo (m_id m)) (rows db)"
    by (simp add: change_rows m(5))
  have ledger: "db_movements ?d = db_movements ?w" "db_seq ?d = db_seq ?w"
    using change_writes [OF run] by simp_all
  obtain sp where sp: "c_movement (change k) = Some sp" using change_moves [of k] by blast
  have "set (db_movements db) \<subseteq> set (db_movements ?d)" "db_seq db \<le> db_seq ?d"
    unfolding ledger by (auto simp: writeChange_movements sp recordMovement_def writeChange_seq)
  then show "processStep kind uuid (abstractOf db) (abstractOf ?d)"
    unfolding abstractOf_def
    by (intro moves [OF head heads _ m(3,4) rows]) (use m(2) ledger in simp_all)
  show "unmoved [k] db ?d"
    unfolding unmoved_def rows
  proof (intro ballI impI)
    fix r
    assume "r \<in> set (update_where (\<lambda>r. hd_owner (heldOf r) = owner \<and> hd_asset (heldOf r) = k) (linkTo (m_id m)) (rows db))"
      and r: "hd_owner (heldOf r) = owner" "hd_movement (heldOf r) = None \<or> hd_open (heldOf r)"
    then obtain q where q: "q \<in> set (rows db)"
      "r = (if hd_owner (heldOf q) = owner \<and> hd_asset (heldOf q) = k then linkTo (m_id m) q else q)"
      unfolding in_update_where by blast
    have "\<not> (hd_owner (heldOf q) = owner \<and> hd_asset (heldOf q) = k)"
    proof
      assume "hd_owner (heldOf q) = owner \<and> hd_asset (heldOf q) = k"
      then have "r = linkTo (m_id m) q" unfolding q(2) by (rule if_P)
      then show False using r(2) by (auto simp: held_link)
    qed
    moreover from this have "r = q" unfolding q(2) by (rule if_not_P)
    ultimately show "r \<in> set (rows db) \<and> hd_asset (heldOf r) \<notin> set [k]" using q(1) r(1) by simp
  qed
qed

lemma all_moved:
  assumes head: "h \<in> set (heads db)" "headId h = owner" "stageOf h = Running"
    and run: "applyAll env change db ks = Inr db'"
  shows "heads db' = heads db" "processRun kind uuid (abstractOf db) (abstractOf db')" "unmoved ks db db'"
proof -
  have "heads db' = heads db \<and> processRun kind uuid (abstractOf db) (abstractOf db') \<and> unmoved ks db db'"
  proof (rule all_prefix [OF run])
    show "heads db = heads db \<and> processRun kind uuid (abstractOf db) (abstractOf db) \<and> unmoved [] db db"
      by (simp add: unmoved_def)
  next
    fix moved k d a db2
    assume so_far: "heads d = heads db \<and> processRun kind uuid (abstractOf db) (abstractOf d) \<and> unmoved moved db d"
      and step: "c_alsoWrite (change k) (writeChange env (change k) a d) a = Inr db2"
    have "h \<in> set (heads d)" using head(1) so_far by simp
    note one = one_moved [OF this head(2,3) step]
    have "unmoved (moved @ [k]) db (auditOf (change k) a db2)"
      using so_far one(3) unfolding unmoved_def by auto
    then show "heads (auditOf (change k) a db2) = heads db \<and>
        processRun kind uuid (abstractOf db) (abstractOf (auditOf (change k) a db2)) \<and>
        unmoved (moved @ [k]) db (auditOf (change k) a db2)"
      using so_far one(1) rtranclp.rtrancl_into_rtrancl [of "processStep kind uuid", OF _ one(2)] by simp
  qed
  then show "heads db' = heads db" "processRun kind uuid (abstractOf db) (abstractOf db')" "unmoved ks db db'"
    by blast+
qed

text \<open>With the assets of every item that has no movement, the process is ready to finish.\<close>

lemma all_items_moved:
  assumes inj: "inj uuid" and inv: "processInv kind uuid (abstractOf db)"
    and head: "h \<in> set (heads db)" "headId h = owner" "stageOf h = Running"
    and run: "applyAll env change db ks = Inr db'"
    and pending: "\<And>r. r \<in> set (rows db) \<Longrightarrow> hd_owner (heldOf r) = owner \<Longrightarrow> hd_movement (heldOf r) = None \<Longrightarrow>
      hd_asset (heldOf r) \<in> set ks"
  shows "list_all (\<lambda>r. hd_owner (heldOf r) = owner \<longrightarrow> hasMovement kind (db_movements db') (heldOf r)) (rows db')"
  unfolding list_all_iff
proof (intro ballI impI)
  fix r
  assume r: "r \<in> set (rows db')" "hd_owner (heldOf r) = owner"
  note all = all_moved [OF head run]
  have "hd_movement (heldOf r) \<noteq> None"
  proof
    assume none: "hd_movement (heldOf r) = None"
    then have "r \<in> set (rows db)" "hd_asset (heldOf r) \<notin> set ks" using all(3) r unfolding unmoved_def by blast+
    then show False using pending r(2) none by blast
  qed
  moreover have "heldOf r \<in> set (ps_items (abstractOf db'))" using r(1) by (simp add: abstractOf_def process_simps)
  ultimately have "hasMovement kind (ps_ledger (abstractOf db')) (heldOf r)"
    using processInvD(5) [OF processRun_inv [OF inj all(2) inv]] by blast
  then show "hasMovement kind (db_movements db') (heldOf r)" by (simp add: abstractOf_def process_simps)
qed

end

section \<open>Statuses that follow a table of transitions\<close>

definition advances ::
  "('h \<Rightarrow> string) \<Rightarrow> ('h \<Rightarrow> 's) \<Rightarrow> ('s \<Rightarrow> 's \<Rightarrow> bool) \<Rightarrow> 'h list \<Rightarrow> 'h list \<Rightarrow> bool" where
  "advances idOf statusOf can hs hs' \<longleftrightarrow> (\<forall>h\<in>set hs. \<exists>h'\<in>set hs'. idOf h' = idOf h \<and>
     (statusOf h' = statusOf h \<or> can (statusOf h) (statusOf h')))"

lemma advances_refl: "advances idOf statusOf can hs hs"
  unfolding advances_def by auto

lemma advances_append: "advances idOf statusOf can hs (hs @ [h])"
  unfolding advances_def by auto

lemma advances_update:
  assumes "\<And>h. h \<in> set hs \<Longrightarrow> idOf h = k \<Longrightarrow> idOf (f h) = k \<and>
      (statusOf (f h) = statusOf h \<or> can (statusOf h) (statusOf (f h)))"
  shows "advances idOf statusOf can hs (update_where (\<lambda>h. idOf h = k) f hs)"
  unfolding advances_def
proof
  fix h
  assume h: "h \<in> set hs"
  have "(if idOf h = k then f h else h) \<in> set (update_where (\<lambda>h. idOf h = k) f hs)"
    using h unfolding in_update_where by blast
  then show "\<exists>h'\<in>set (update_where (\<lambda>h. idOf h = k) f hs). idOf h' = idOf h \<and>
     (statusOf h' = statusOf h \<or> can (statusOf h) (statusOf h'))"
    using assms [OF h] by (cases "idOf h = k") auto
qed

text \<open>The row of a key is the only one, so what holds of it holds of every row the update touches.\<close>

lemma only_row:
  assumes "distinct (map idOf hs)" "h \<in> set hs" "u \<in> set hs" "idOf u = idOf h"
  shows "u = h"
  using assms by (auto simp: distinct_map dest: inj_onD)

lemma advances_update_only:
  assumes "distinct (map idOf hs)" "h \<in> set hs" "\<And>u. idOf (f u) = idOf u"
    "can (statusOf h) (statusOf (f h))"
  shows "advances idOf statusOf can hs (update_where (\<lambda>u. idOf u = idOf h) f hs)"
proof (rule advances_update)
  fix u
  assume "u \<in> set hs" "idOf u = idOf h"
  then have "u = h" using only_row [OF assms(1,2)] by blast
  then show "idOf (f u) = idOf h \<and> (statusOf (f u) = statusOf u \<or> can (statusOf u) (statusOf (f u)))"
    using assms(3,4) by simp
qed

text \<open>The waiting step of a process whose head changes its status without leaving its stage.\<close>

lemma same_stage:
  assumes "distinct (map idOf hs)" "h \<in> set hs" "\<And>u. idOf (f u) = idOf u" "stageOf (f h) = stageOf h"
  shows "map (\<lambda>h. (idOf h, stageOf h)) (update_where (\<lambda>u. idOf u = idOf h) f hs) = map (\<lambda>h. (idOf h, stageOf h)) hs"
proof -
  have "(idOf (if idOf u = idOf h then f u else u), stageOf (if idOf u = idOf h then f u else u)) = (idOf u, stageOf u)"
    if "u \<in> set hs" for u
  proof (cases "idOf u = idOf h")
    case True
    then have "u = h" using only_row [OF assms(1,2) that] by blast
    then show ?thesis using assms(3,4) by simp
  qed simp
  then show ?thesis by (simp add: update_where_def comp_def)
qed

end
