(* ===== verification/Transfers.thy ===== *)
theory Transfers
  imports DocActs CustodyProcess
begin

text \<open>
  Transfers of assets between cost centers: src/src/modules/transfers/services/transfers.service.ts,
  transfer-signers.service.ts, transfer-act.lifecycle.ts and src/src/modules/transfers/domain/transfer.ts.

  A transfer is drafted with its assets, its act is requested, and the signed act moves every asset to
  the target cost center with a movement of the ledger. The texts printed on the act are not modelled.
\<close>

section \<open>Domain\<close>

fun transferTransitions :: "transferStatus \<Rightarrow> transferStatus list" where
  "transferTransitions TDraft = [TPendingSignatures, TCancelled]"
| "transferTransitions TPendingSignatures = [TCompleted, TRejected, TCancelled]"
| "transferTransitions TCompleted = []"
| "transferTransitions TRejected = []"
| "transferTransitions TCancelled = []"

definition canTransferTransition :: "transferStatus \<Rightarrow> transferStatus \<Rightarrow> bool" where
  "canTransferTransition s t = (t \<in> set (transferTransitions s))"

definition OPEN_TRANSFER_STATUSES :: "transferStatus list" where
  "OPEN_TRANSFER_STATUSES = [TDraft, TPendingSignatures]"

definition TRANSFER_ENTITY_TYPE :: string where "TRANSFER_ENTITY_TYPE = ''TRANSFER''"
definition TRANSFER_FORMAT_KEY :: string where "TRANSFER_FORMAT_KEY = ''OCI-17-89''"
definition TRANSFER_SIGN_ACCOUNTING :: string where
  "TRANSFER_SIGN_ACCOUNTING = ''transfer:sign_accounting:global''"

definition TRANSFER_SIGNER_SOURCES :: "(string \<times> signerSource) list" where
  "TRANSFER_SIGNER_SOURCES = [(''ENTREGA'', FromRequest), (''RECIBE'', FromResponsible),
     (''CONTROL_INTERNO'', FromRequest), (''CONTABILIDAD'', FromRequest)]"

fun transferStatusText :: "transferStatus \<Rightarrow> string" where
  "transferStatusText TDraft = ''DRAFT''"
| "transferStatusText TPendingSignatures = ''PENDING_SIGNATURES''"
| "transferStatusText TCompleted = ''COMPLETED''"
| "transferStatusText TRejected = ''REJECTED''"
| "transferStatusText TCancelled = ''CANCELLED''"

section \<open>Signers\<close>

datatype transferSignerKind = ControlKind | AccountingKind

fun signerPermission :: "transferSignerKind \<Rightarrow> string" where
  "signerPermission ControlKind = CONTROL_SIGNER_PERMISSION"
| "signerPermission AccountingKind = TRANSFER_SIGN_ACCOUNTING"

definition resolveTransferSigner :: "db \<Rightarrow> transferSignerKind \<Rightarrow> string option \<Rightarrow> string res" where
  "resolveTransferSigner db kind requested =
     (let candidates = holders db (signerPermission kind) in
      if candidates = [] then
        throw (if kind = AccountingKind then TransferNoAccountingSigner else TransferNoControlSigner)
      else if \<not> falsy requested then
        (if the requested \<notin> set candidates then throw TransferSignerNotEligible else Inr (the requested))
      else (case candidates of [only] \<Rightarrow> Inr only | _ \<Rightarrow> throw TransferSignerRequired))"

section \<open>Items\<close>

record transferItemInput =
  tx_assetId :: string
  tx_physicalCondition :: "physicalCondition option"
  tx_physicallyVerified :: "bool option"
  tx_verificationNote :: "string option"
  tx_numberingPresent :: "bool option"
  tx_reasonId :: string
  tx_observations :: "string option"

definition lockTransfer :: "db \<Rightarrow> string \<Rightarrow> transfer res" where
  "lockTransfer db k =
     (case (if isUuid k then List.find (\<lambda>t. t_id t = k) (db_transfers db) else None) of
        None \<Rightarrow> throw ResourceNotFound | Some t \<Rightarrow> Inr t)"

definition assertPersons :: "db \<Rightarrow> string list \<Rightarrow> unit res" where
  "assertPersons db ids =
     (if list_ex (\<lambda>k. findPerson db k = None) ids then throw ResourceNotFound else Inr ())"

definition assertTarget :: "env \<Rightarrow> db \<Rightarrow> string \<Rightarrow> string \<Rightarrow> unit res" where
  "assertTarget env db source targetId =
     (if source = targetId then throw TransferSameCostCenter
      else if \<not> list_ex (\<lambda>cc. cc_id cc = targetId \<and> cc_isActive cc \<and> cc_acceptsAssets cc) (db_costCenters db)
      then throw ResourceNotFound
      else assertCostCenterHasHead db targetId (e_now env))"

text \<open>The transfer other than \<open>own\<close> that holds an asset.\<close>

definition openTransferOf :: "db \<Rightarrow> string option \<Rightarrow> string \<Rightarrow> bool" where
  "openTransferOf db own assetId =
     list_ex (\<lambda>ti. ti_assetId ti = assetId \<and> ti_open ti \<and> Some (ti_transferId ti) \<noteq> own) (db_transferItems db)"

text \<open>
  \<open>assertItems\<close>: \<open>assetIds\<close> are the assets of the items in their order and \<open>reasons\<close> their
  reasons, when those are checked.
\<close>

definition assertItems ::
  "db \<Rightarrow> string list \<Rightarrow> string list option \<Rightarrow> string option \<Rightarrow> string option \<Rightarrow> string res" where
  "assertItems db assetIds reasons expectedSource ownTransfer =
     (if \<not> distinct assetIds then throw ValidationFailed
      else if list_ex (\<lambda>k. findAsset db k = None) assetIds then throw ResourceNotFound
      else
        (let ordered = map (\<lambda>k. the (findAsset db k)) assetIds;
             source = (case expectedSource of Some s \<Rightarrow> s
               | None \<Rightarrow> (case ordered of [] \<Rightarrow> [] | a # _ \<Rightarrow> a_costCenterId a))
         in if list_ex (\<lambda>a. a_costCenterId a \<noteq> source) ordered then throw TransferMixedSourceCostCenter
            else if list_ex (\<lambda>a. a_operationalStatus a = WrittenOff) ordered then throw AssetAlreadyWrittenOff
            else if list_ex (\<lambda>a. a_operationalStatus a = OnLoan) ordered then throw AssetCannotBeModified
            else if list_ex (holdOpenInventory db) assetIds then throw AssetUnderInventory
            else if list_ex (holdOpenLoan db) assetIds then throw AssetHasActiveLoan
            else if list_ex (openTransferOf db ownTransfer) assetIds then throw TransferAssetInOpenTransfer
            else if list_ex (holdOpenWriteOff db None) assetIds then throw AssetInOpenWriteOff
            else if (case reasons of None \<Rightarrow> False
              | Some rs \<Rightarrow> list_ex (\<lambda>r. r \<notin> set (db_transferReasons db)) rs) then throw TransferReasonUnavailable
            else Inr source))"

text \<open>
  \<open>insertItems\<close>: the condition of the asset when the item has none, and the column refuses a null.
\<close>

definition transferItemRow :: "string \<Rightarrow> asset \<Rightarrow> nat \<Rightarrow> transferItemInput \<Rightarrow> physicalCondition \<Rightarrow> transferItem" where
  "transferItemRow transferId a line item condition =
     \<lparr>ti_transferId = transferId, ti_assetId = a_id a, ti_lineNumber = line, ti_physicalCondition = condition,
      ti_physicallyVerified = or_keep (tx_physicallyVerified item) False,
      ti_verificationNote = Option.bind (map_option trim (tx_verificationNote item)) orNull,
      ti_numberingPresent = or_keep (tx_numberingPresent item) False, ti_reasonId = tx_reasonId item,
      ti_observations = Option.bind (map_option trim (tx_observations item)) orNull, ti_open = True,
      ti_movementId = None\<rparr>"

definition insertTransferItem ::
  "db \<Rightarrow> string \<Rightarrow> transferItem list \<Rightarrow> nat \<times> transferItemInput \<Rightarrow> transferItem list res" where
  "insertTransferItem db transferId rows line_item =
     (case findAsset db (tx_assetId (snd line_item)) of
        None \<Rightarrow> Inr rows
      | Some a \<Rightarrow>
          (case (case tx_physicalCondition (snd line_item) of Some c \<Rightarrow> Some c | None \<Rightarrow> a_physicalCondition a) of
             None \<Rightarrow> throwError
           | Some c \<Rightarrow> insertOpen ti_assetId ti_open TransferAssetInOpenTransfer rows
               (transferItemRow transferId a (fst line_item) (snd line_item) c)))"

definition insertItems :: "string \<Rightarrow> transferItemInput list \<Rightarrow> db \<Rightarrow> db res" where
  "insertItems transferId items db =
     rbind (foldM (insertTransferItem db transferId) (db_transferItems db)
       (zip [1..<Suc (length items)] items)) (\<lambda>rows. Inr (db\<lparr>db_transferItems := rows\<rparr>))"

definition auditTransfer :: "string \<Rightarrow> string \<Rightarrow> string \<Rightarrow> (string \<times> json) list \<Rightarrow> db \<Rightarrow> db" where
  "auditTransfer action transferId actorId changes =
     recordAudit action TRANSFER_ENTITY_TYPE transferId (Some actorId) (Some (JObj changes))"

section \<open>Operations\<close>

record createTransferInput =
  ct_targetCostCenterId :: string
  ct_requesterPersonId :: string
  ct_ownerPersonId :: string
  ct_justification :: string
  ct_items :: "transferItemInput list"

definition transferRow :: "string \<Rightarrow> string \<Rightarrow> createTransferInput \<Rightarrow> string \<Rightarrow> string option \<Rightarrow> transfer" where
  "transferRow k source input actorId assetRequestId =
     \<lparr>t_id = k, t_status = TDraft, t_sourceCostCenterId = source,
      t_targetCostCenterId = ct_targetCostCenterId input, t_requesterPersonId = ct_requesterPersonId input,
      t_ownerPersonId = ct_ownerPersonId input, t_controlPersonId = None, t_accountingPersonId = None,
      t_justification = trim (ct_justification input), t_assetRequestId = assetRequestId,
      t_documentRequestId = None, t_documentId = None, t_createdBy = actorId, t_generatedBy = None,
      t_generatedAt = None, t_completedAt = None, t_rejectedAt = None, t_cancelledAt = None,
      t_cancelledBy = None, t_cancelReason = None\<rparr>"

definition createTransfer ::
  "env \<Rightarrow> createTransferInput \<Rightarrow> string \<Rightarrow> string option \<Rightarrow> db \<Rightarrow> (string \<times> db) res" where
  "createTransfer env input actorId assetRequestId db =
     (let items = ct_items input;
          k = freshId env db
      in if length (trim (ct_justification input)) < 3 then throw ValidationFailed
         else
           rbind (assertPersons db [ct_requesterPersonId input, ct_ownerPersonId input]) (\<lambda>_.
           rbind (assertItems db (map tx_assetId items) (Some (map tx_reasonId items)) None None) (\<lambda>source.
           rbind (assertTarget env db source (ct_targetCostCenterId input)) (\<lambda>_.
           rbind (insertItems k items (bumpSeq (db\<lparr>db_transfers := db_transfers db @
               [transferRow k source input actorId assetRequestId]\<rparr>)))
             (\<lambda>db1. Inr (k, auditTransfer ''TRANSFER_CREATED'' k actorId
               ([(''sourceCostCenterId'', JStr source),
                 (''targetCostCenterId'', JStr (ct_targetCostCenterId input)),
                 (''assetIds'', jStrings (map tx_assetId items))] @
                (if falsy assetRequestId then [] else [(''assetRequestId'', JStr (the assetRequestId))]))
               db1))))))"

definition itemsOfTransfer :: "db \<Rightarrow> string \<Rightarrow> transferItem list" where
  "itemsOfTransfer db k = sort_key ti_lineNumber (filter (\<lambda>i. ti_transferId i = k) (db_transferItems db))"

definition updateTransferItems :: "string \<Rightarrow> transferItemInput list \<Rightarrow> string \<Rightarrow> db \<Rightarrow> db res" where
  "updateTransferItems k items actorId db =
     rbind (lockTransfer db k) (\<lambda>t.
     if t_status t \<noteq> TDraft then throw TransferInvalidStateTransition
     else
       (let before = map ti_assetId (itemsOfTransfer db k);
            db1 = db\<lparr>db_transferItems := filter (\<lambda>i. ti_transferId i \<noteq> k) (db_transferItems db)\<rparr>
        in rbind (assertItems db1 (map tx_assetId items) (Some (map tx_reasonId items))
             (Some (t_sourceCostCenterId t)) None) (\<lambda>_.
           rbind (insertItems k items db1) (\<lambda>db2.
             Inr (auditTransfer ''TRANSFER_ITEMS_UPD'' k actorId
               [(''before'', jStrings before), (''after'', jStrings (map tx_assetId items))] db2)))))"

definition updateTransfer :: "string \<Rightarrow> (transfer \<Rightarrow> transfer) \<Rightarrow> db \<Rightarrow> db" where
  "updateTransfer k f db = db\<lparr>db_transfers := update_where (\<lambda>t. t_id t = k) f (db_transfers db)\<rparr>"

definition closeTransferItem :: "transferItem \<Rightarrow> transferItem" where
  "closeTransferItem i = i\<lparr>ti_open := False\<rparr>"

definition closeTransferItems :: "string \<Rightarrow> db \<Rightarrow> db" where
  "closeTransferItems k db =
     db\<lparr>db_transferItems := update_where (\<lambda>i. ti_transferId i = k) closeTransferItem (db_transferItems db)\<rparr>"

record generateTransferInput =
  gt_controlSignerPersonId :: "string option"
  gt_accountingSignerPersonId :: "string option"
  gt_signerSubstitutions :: "json option"

definition actPayload ::
  "db \<Rightarrow> transfer \<Rightarrow> string \<Rightarrow> string \<Rightarrow> generateTransferInput \<Rightarrow> documentRequestPayload" where
  "actPayload db t control accounting input =
     \<lparr>dp_formatKey = TRANSFER_FORMAT_KEY, dp_entityType = Some TRANSFER_ENTITY_TYPE, dp_entityId = Some (t_id t),
      dp_costCenterId = Some (t_sourceCostCenterId t), dp_responsiblePersonId = Some (t_ownerPersonId t),
      dp_assetIds = map ti_assetId (itemsOfTransfer db (t_id t)), dp_movementIds = [],
      dp_signers = [(''ENTREGA'', t_requesterPersonId t), (''CONTROL_INTERNO'', control),
        (''CONTABILIDAD'', accounting)],
      dp_signerSubstitutions = givenSubstitutions (gt_signerSubstitutions input), dp_tables = None\<rparr>"

definition generateTransfer ::
  "env \<Rightarrow> string \<Rightarrow> generateTransferInput \<Rightarrow> string \<Rightarrow> db \<Rightarrow> db res" where
  "generateTransfer env k input actorId db =
     rbind (lockTransfer db k) (\<lambda>t.
     if \<not> canTransferTransition (t_status t) TPendingSignatures then throw TransferInvalidStateTransition
     else
       (let items = itemsOfTransfer db k in
        if items = [] then throw ValidationFailed
        else
          rbind (assertItems db (map ti_assetId items) (Some (map ti_reasonId items))
            (Some (t_sourceCostCenterId t)) (Some k)) (\<lambda>_.
          rbind (assertCostCenterHasHead db (t_targetCostCenterId t) (e_now env)) (\<lambda>_.
          rbind (resolveTransferSigner db ControlKind (gt_controlSignerPersonId input)) (\<lambda>control.
          rbind (resolveTransferSigner db AccountingKind (gt_accountingSignerPersonId input)) (\<lambda>accounting.
          (let payload = actPayload db t control accounting input in
           rbind (enqueueAct env payload (Some actorId) db) (\<lambda>(requestId, db1).
             Inr (auditTransfer ''TRANSFER_ACT_REQ'' k actorId
               ([(''documentRequestId'', JStr requestId),
                 (''signers'', JObj (map (\<lambda>(r, p). (r, JStr p)) (dp_signers payload))),
                 (''responsiblePersonId'', JStr (t_ownerPersonId t))] @
                (case dp_signerSubstitutions payload of None \<Rightarrow> []
                 | Some s \<Rightarrow> [(''signerSubstitutions'', s)]))
               (updateTransfer k (\<lambda>x. x\<lparr>t_status := TPendingSignatures, t_documentRequestId := Some requestId,
                  t_controlPersonId := Some control, t_accountingPersonId := Some accounting,
                  t_generatedBy := Some actorId, t_generatedAt := Some (e_now env)\<rparr>) db1))))))))))"

definition cancelTransfer :: "env \<Rightarrow> string \<Rightarrow> string \<Rightarrow> string \<Rightarrow> db \<Rightarrow> db res" where
  "cancelTransfer env k reason actorId db =
     (let motive = trim reason in
      if length motive < 5 then throw ValidationFailed
      else if \<not> isUuid k then throwError
      else (case List.find (\<lambda>t. t_id t = k) (db_transfers db) of
          None \<Rightarrow> throw ResourceNotFound
        | Some e \<Rightarrow>
            if \<not> canTransferTransition (t_status e) TCancelled then throw TransferInvalidStateTransition
            else if partlySigned db TRANSFER_ENTITY_TYPE k then throw TransferInvalidStateTransition
            else
              rbind (voidForEntity env TRANSFER_ENTITY_TYPE k motive (Some actorId) db) (\<lambda>(cancelled, voided, db1).
              rbind (lockTransfer db1 k) (\<lambda>t.
              if \<not> canTransferTransition (t_status t) TCancelled then throw TransferInvalidStateTransition
              else Inr (auditTransfer ''TRANSFER_CANCELLED'' k actorId
                [(''from'', JStr (transferStatusText (t_status t))), (''reason'', JStr motive),
                 (''cancelledRequestIds'', jStrings cancelled), (''voidedDocumentIds'', jStrings voided)]
                (closeTransferItems k (updateTransfer k (\<lambda>x. x\<lparr>t_status := TCancelled,
                   t_cancelledAt := Some (e_now env), t_cancelledBy := Some actorId,
                   t_cancelReason := Some motive\<rparr>) db1)))))))"

section \<open>The act of a transfer\<close>

definition lockTransferFor :: "lifecycleEvent \<Rightarrow> db \<Rightarrow> transfer res" where
  "lockTransferFor event db =
     (if lv_formatKey event \<noteq> TRANSFER_FORMAT_KEY then throwError
      else if falsy (lv_entityId event) then throwError
      else lockTransfer db (the (lv_entityId event)))"

definition transferGenerated :: lifecycleCallback where
  "transferGenerated env event db =
     rbind (lockTransferFor event db) (\<lambda>t.
       if t_status t \<noteq> TPendingSignatures \<or> t_documentId t \<noteq> None then throwError
       else Inr (updateTransfer (t_id t) (\<lambda>x. x\<lparr>t_documentId := Some (lv_documentId event)\<rparr>) db))"

text \<open>The further write of a moved asset: its item and the act get the movement.\<close>

definition linkTransferMovement :: "string \<Rightarrow> string \<Rightarrow> string \<Rightarrow> db \<Rightarrow> db res" where
  "linkTransferMovement transferId documentId assetId db =
     (case movementOf db assetId Transfer (''transferId'', transferId) (''documentId'', documentId) of
        None \<Rightarrow> throwError
      | Some m \<Rightarrow>
          (let pendingRow = (\<lambda>r. da_documentId r = documentId \<and> da_assetId r = assetId \<and> da_movementId r = None) in
           if list_ex (\<lambda>i. ti_movementId i = Some m \<and> \<not> (ti_transferId i = transferId \<and> ti_assetId i = assetId))
                (db_transferItems db) then throwError
           else if length (filter pendingRow (db_documentAssets db)) \<noteq> 1 then throwError
           else Inr (db\<lparr>db_transferItems := update_where
                  (\<lambda>i. ti_transferId i = transferId \<and> ti_assetId i = assetId)
                  (\<lambda>i. i\<lparr>ti_movementId := Some m, ti_open := False\<rparr>) (db_transferItems db),
                db_documentAssets := update_where pendingRow (\<lambda>r. r\<lparr>da_movementId := Some m\<rparr>)
                  (db_documentAssets db)\<rparr>)))"

definition transferChange :: "lifecycleEvent \<Rightarrow> transfer \<Rightarrow> string \<Rightarrow> string \<Rightarrow> assetChange" where
  "transferChange event t authorizedBy assetId =
     \<lparr>c_assetId = assetId, c_actorId = authorizedBy,
      c_patch = noPatch\<lparr>p_costCenterId := Some (t_targetCostCenterId t)\<rparr>,
      c_movement = Some \<lparr>sp_type = Transfer,
        sp_reason = Some (''Acta de traslado de activos '' @ TRANSFER_FORMAT_KEY @ '' No. '' @ lv_number event),
        sp_documentReference = Some (lv_number event), sp_executedAt = None,
        sp_requestedBy = Some (t_createdBy t),
        sp_metadata = Some [(''transferId'', JStr (t_id t)), (''documentId'', JStr (lv_documentId event))],
        sp_initial = False\<rparr>,
      c_audit = Some \<lparr>aa_action = ''ASSET_TRANSFER'', aa_changes = Some (JObj
        [(''from'', JStr (t_sourceCostCenterId t)), (''to'', JStr (t_targetCostCenterId t)),
         (''transferId'', JStr (t_id t)), (''documentId'', JStr (lv_documentId event)),
         (''documentNumber'', JStr (lv_number event))])\<rparr>,
      c_guard = (\<lambda>current.
        if a_operationalStatus current = WrittenOff \<or> a_operationalStatus current = OnLoan
        then throw AssetCannotBeModified
        else if a_costCenterId current \<noteq> t_sourceCostCenterId t then throw TransferMixedSourceCostCenter
        else Inr ()),
      c_alsoWrite = (\<lambda>db _. linkTransferMovement (t_id t) (lv_documentId event) assetId db)\<rparr>"

definition transferSigned :: lifecycleCallback where
  "transferSigned env event db =
     rbind (lockTransferFor event db) (\<lambda>t.
       if t_documentId t \<noteq> Some (lv_documentId event) then throwError
       else if t_status t = TCompleted then Inr db
       else if t_status t \<noteq> TPendingSignatures then throwError
       else
         (let controlPerson = signersByRole event ''CONTROL_INTERNO'';
              controlUser = (if falsy controlPerson then None else userOfPerson db (the controlPerson));
              authorizedBy = or_keep controlUser (t_createdBy t);
              items = itemsOfTransfer db (t_id t);
              pending = map ti_assetId (filter (\<lambda>i. ti_movementId i = None) items)
          in rbind (assertItems db pending None (Some (t_sourceCostCenterId t)) (Some (t_id t))) (\<lambda>_.
             rbind (applyAll env (transferChange event t authorizedBy) db pending) (\<lambda>db1.
               Inr (auditTransfer ''TRANSFER_COMPLETED'' (t_id t) authorizedBy
                 [(''documentId'', JStr (lv_documentId event)), (''documentNumber'', JStr (lv_number event)),
                  (''assets'', jStrings (map ti_assetId items))]
                 (closeTransferItems (t_id t) (updateTransfer (t_id t)
                   (\<lambda>x. x\<lparr>t_status := TCompleted, t_completedAt := Some (e_now env)\<rparr>) db1)))))))"

definition transferRejected :: lifecycleCallback where
  "transferRejected env event db =
     rbind (lockTransferFor event db) (\<lambda>t.
       if t_documentId t \<noteq> Some (lv_documentId event) then throwError
       else if t_status t = TRejected then Inr db
       else if t_status t \<noteq> TPendingSignatures then throwError
       else
         (let rejecter = List.find (\<lambda>s. ds_status s = SRejected) (lv_signers event) in
          Inr (auditTransfer ''TRANSFER_REJECTED'' (t_id t) (t_createdBy t)
            [(''documentId'', JStr (lv_documentId event)), (''documentNumber'', JStr (lv_number event)),
             (''rejectedByPersonId'', nullable (Option.bind rejecter ds_signerPersonId))]
            (closeTransferItems (t_id t) (updateTransfer (t_id t)
              (\<lambda>x. x\<lparr>t_status := TRejected, t_rejectedAt := Some (e_now env)\<rparr>) db)))))"

definition transferLifecycle :: lifecycleHandler where
  "transferLifecycle =
     \<lparr>lh_entityType = TRANSFER_ENTITY_TYPE, lh_onGenerated = Some transferGenerated,
      lh_onSigned = Some transferSigned, lh_onRejected = Some transferRejected,
      lh_formats = [\<lparr>pb_formatKey = TRANSFER_FORMAT_KEY, pb_process = ''Traslados de activos'',
        pb_signers = RequiredSigners TRANSFER_SIGNER_SOURCES\<rparr>]\<rparr>"

section \<open>The interfaces a transfer meets\<close>

interpretation transferOpen: openItems db_transferItems "\<lambda>t db. db\<lparr>db_transferItems := t\<rparr>" ti_transferId ti_assetId
    ti_open closeTransferItem
  by unfold_locales (simp_all add: closeTransferItem_def)

lemma linkTransferMovement_Inr:
  assumes "linkTransferMovement transferId documentId assetId db = Inr db'"
  obtains m where "movementOf db assetId Transfer (''transferId'', transferId) (''documentId'', documentId) = Some m"
    "db_transferItems db' = update_where (\<lambda>i. ti_transferId i = transferId \<and> ti_assetId i = assetId)
       (\<lambda>i. i\<lparr>ti_movementId := Some m, ti_open := False\<rparr>) (db_transferItems db)"
    "db_assets db' = db_assets db" "db_movements db' = db_movements db" "db_seq db' = db_seq db"
    "db_transfers db' = db_transfers db" "db_documents db' = db_documents db" "db_signatures db' = db_signatures db"
  using assms
  by (cases "movementOf db assetId Transfer (''transferId'', transferId) (''documentId'', documentId)")
    (auto simp: linkTransferMovement_def Let_def split: if_splits)

interpretation transferMoves: assetMoves env "transferChange event t authorizedBy"
  for env event t authorizedBy
proof
  fix k db a db'
  assume "c_alsoWrite (transferChange event t authorizedBy k) db a = Inr db'"
  then have "linkTransferMovement (t_id t) (lv_documentId event) k db = Inr db'"
    by (simp add: transferChange_def)
  then show "db_assets db' = db_assets db \<and> db_movements db' = db_movements db \<and> db_seq db' = db_seq db"
    by (rule linkTransferMovement_Inr) simp
qed (simp_all add: transferChange_def)

section \<open>A transfer as a custody process\<close>

fun transferStage :: "transferStatus \<Rightarrow> stage" where
  "transferStage TDraft = Running"
| "transferStage TPendingSignatures = Running"
| "transferStage TCompleted = Done"
| "transferStage TRejected = Ended"
| "transferStage TCancelled = Ended"

definition transferHeld :: "transferItem \<Rightarrow> heldItem" where
  "transferHeld i = \<lparr>hd_owner = ti_transferId i, hd_asset = ti_assetId i, hd_open = ti_open i,
     hd_movement = ti_movementId i\<rparr>"

definition linkTransferItem :: "string \<Rightarrow> transferItem \<Rightarrow> transferItem" where
  "linkTransferItem m i = i\<lparr>ti_movementId := Some m, ti_open := False\<rparr>"

definition transferProcess :: "db \<Rightarrow> process" where
  "transferProcess db =
     processOf t_id (\<lambda>t. transferStage (t_status t)) transferHeld (db_transfers db) (db_transferItems db) db"

lemma transferHeld_simps [simp]:
  "hd_owner (transferHeld i) = ti_transferId i" "hd_asset (transferHeld i) = ti_assetId i"
  "hd_open (transferHeld i) = ti_open i" "hd_movement (transferHeld i) = ti_movementId i"
  by (simp_all add: transferHeld_def)

interpretation transferCustody: custodyProcess Transfer db_transfers t_id "\<lambda>t. transferStage (t_status t)"
    db_transferItems transferHeld closeTransferItem linkTransferItem
  by unfold_locales (simp_all add: transferHeld_def closeTransferItem_def linkTransferItem_def shut_def)

interpretation transferMoving: movingProcess Transfer db_transfers t_id "\<lambda>t. transferStage (t_status t)"
    db_transferItems transferHeld closeTransferItem linkTransferItem env "transferChange event t authorizedBy" "t_id t"
  for env event t authorizedBy
proof
  fix k db a db'
  assume "c_alsoWrite (transferChange event t authorizedBy k) db a = Inr db'"
  then have "linkTransferMovement (t_id t) (lv_documentId event) k db = Inr db'"
    by (simp add: transferChange_def)
  then obtain m where m: "movementOf db k Transfer (''transferId'', t_id t) (''documentId'', lv_documentId event) = Some m"
    "db_transferItems db' = update_where (\<lambda>i. ti_transferId i = t_id t \<and> ti_assetId i = k)
       (\<lambda>i. i\<lparr>ti_movementId := Some m, ti_open := False\<rparr>) (db_transferItems db)"
    "db_transfers db' = db_transfers db"
    by (rule linkTransferMovement_Inr)
  obtain v where "v \<in> set (db_movements db)" "m_assetId v = k" "m_movementType v = Transfer" "m_id v = m"
    using m(1) by (rule movementOf_Some)
  then show "db_transfers db' = db_transfers db \<and> (\<exists>m\<in>set (db_movements db). m_assetId m = k \<and>
      m_movementType m = Transfer \<and> db_transferItems db' = update_where
        (\<lambda>r. hd_owner (transferHeld r) = t_id t \<and> hd_asset (transferHeld r) = k) (linkTransferItem (m_id m))
        (db_transferItems db))"
    using m(2,3) by (auto simp: linkTransferItem_def [abs_def])
qed (simp_all add: transferChange_def)

section \<open>The steps of transfers\<close>

lemma lockTransfer_Inr:
  "lockTransfer db k = Inr t \<Longrightarrow> t \<in> set (db_transfers db) \<and> t_id t = k"
  unfolding lockTransfer_def by (auto split: option.splits if_splits dest: find_SomeD)

lemma insertTransferItem_Inr:
  "insertTransferItem db k rows x = Inr rows' \<Longrightarrow> rows' = rows \<or>
     (\<exists>r. insertOpen ti_assetId ti_open TransferAssetInOpenTransfer rows r = Inr rows' \<and>
       hd_owner (transferHeld r) = k \<and> hd_open (transferHeld r) \<and> hd_movement (transferHeld r) = None)"
  unfolding insertTransferItem_def
  by (force simp: transferItemRow_def split: option.splits)

lemma insertItems_Inr:
  assumes "insertItems k items db = Inr db'"
  obtains new where "db' = db\<lparr>db_transferItems := db_transferItems db @ new\<rparr>"
    "takes (map transferHeld (db_transferItems db)) k (map transferHeld new)"
proof -
  obtain rows where rows: "foldM (insertTransferItem db k) (db_transferItems db)
      (zip [1..<Suc (length items)] items) = Inr rows" "db' = db\<lparr>db_transferItems := rows\<rparr>"
    using assms by (auto simp: insertItems_def res_simps)
  have "\<exists>new. rows = db_transferItems db @ new \<and>
      takes (map transferHeld (db_transferItems db)) k (map transferHeld new)"
    by (rule foldM_takes [OF rows(1), of ti_assetId ti_open TransferAssetInOpenTransfer])
      (use insertTransferItem_Inr in blast, simp_all)
  then show thesis using that rows(2) by blast
qed

lemma createTransfer_Inr:
  assumes "createTransfer env input actorId assetRequestId db = Inr (k, db')"
  obtains source db1 c where "k = freshId env db"
    "insertItems k (ct_items input) (bumpSeq (db\<lparr>db_transfers := db_transfers db @
       [transferRow k source input actorId assetRequestId]\<rparr>)) = Inr db1"
    "db' = auditTransfer ''TRANSFER_CREATED'' k actorId c db1"
  using assms unfolding createTransfer_def Let_def by (auto simp: res_simps intro: that)

lemma auditTransfer_frame [simp]:
  "db_transfers (auditTransfer a k u c db) = db_transfers db"
  "db_transferItems (auditTransfer a k u c db) = db_transferItems db"
  "db_movements (auditTransfer a k u c db) = db_movements db" "db_seq (auditTransfer a k u c db) = db_seq db"
  "db_assets (auditTransfer a k u c db) = db_assets db" "db_documents (auditTransfer a k u c db) = db_documents db"
  "db_documentRequests (auditTransfer a k u c db) = db_documentRequests db"
  "db_documentAssets (auditTransfer a k u c db) = db_documentAssets db"
  by (simp_all add: auditTransfer_def)

lemma updateTransfer_frame [simp]:
  "db_transfers (updateTransfer k f db) = update_where (\<lambda>t. t_id t = k) f (db_transfers db)"
  "db_transferItems (updateTransfer k f db) = db_transferItems db"
  "db_movements (updateTransfer k f db) = db_movements db" "db_seq (updateTransfer k f db) = db_seq db"
  "db_assets (updateTransfer k f db) = db_assets db" "db_documents (updateTransfer k f db) = db_documents db"
  "db_documentRequests (updateTransfer k f db) = db_documentRequests db"
  "db_documentAssets (updateTransfer k f db) = db_documentAssets db"
  by (simp_all add: updateTransfer_def)

lemma closeTransferItems_frame [simp]:
  "db_transfers (closeTransferItems k db) = db_transfers db"
  "db_transferItems (closeTransferItems k db) =
     update_where (\<lambda>i. ti_transferId i = k) closeTransferItem (db_transferItems db)"
  "db_movements (closeTransferItems k db) = db_movements db" "db_seq (closeTransferItems k db) = db_seq db"
  "db_assets (closeTransferItems k db) = db_assets db" "db_documents (closeTransferItems k db) = db_documents db"
  "db_documentRequests (closeTransferItems k db) = db_documentRequests db"
  "db_documentAssets (closeTransferItems k db) = db_documentAssets db"
  by (simp_all add: closeTransferItems_def)

lemma createTransfer_step:
  assumes "createTransfer env input actorId assetRequestId db = Inr (k, db')"
  shows "processStep Transfer (e_uuid env) (transferProcess db) (transferProcess db')"
    "\<exists>t. db_transfers db' = db_transfers db @ [t] \<and> t_id t = freshId env db \<and> t_status t = TDraft"
proof -
  obtain source db1 c where run: "k = freshId env db"
    "insertItems k (ct_items input) (bumpSeq (db\<lparr>db_transfers := db_transfers db @
       [transferRow k source input actorId assetRequestId]\<rparr>)) = Inr db1"
    "db' = auditTransfer ''TRANSFER_CREATED'' k actorId c db1"
    using assms by (rule createTransfer_Inr)
  define t where "t = transferRow k source input actorId assetRequestId"
  have t: "t_id t = freshId env db" "t_status t = TDraft" by (simp_all add: t_def transferRow_def run(1))
  obtain new where new: "db1 = (bumpSeq (db\<lparr>db_transfers := db_transfers db @ [t]\<rparr>))\<lparr>db_transferItems :=
      db_transferItems (bumpSeq (db\<lparr>db_transfers := db_transfers db @ [t]\<rparr>)) @ new\<rparr>"
    "takes (map transferHeld (db_transferItems (bumpSeq (db\<lparr>db_transfers := db_transfers db @ [t]\<rparr>)))) k
       (map transferHeld new)"
    using run(2) unfolding t_def [symmetric] by (rule insertItems_Inr)
  show "\<exists>t. db_transfers db' = db_transfers db @ [t] \<and> t_id t = freshId env db \<and> t_status t = TDraft"
    using t new(1) run(3) by simp
  show "processStep Transfer (e_uuid env) (transferProcess db) (transferProcess db')"
    unfolding transferProcess_def
    by (rule transferCustody.opens [of _ _ t _ "db_seq db" new])
      (use t run(1,3) new in \<open>simp_all add: freshId_def\<close>)
qed

text \<open>Statuses only move along \<open>canTransferTransition\<close>, and no transfer is lost.\<close>

abbreviation follows :: "db \<Rightarrow> db \<Rightarrow> bool" where
  "follows db db' \<equiv> advances t_id t_status canTransferTransition (db_transfers db) (db_transfers db')"

lemma transferProcess_heads: "distinct (map fst (ps_heads (transferProcess db))) = distinct (map t_id (db_transfers db))"
  by (simp add: transferProcess_def processOf_def comp_def)

lemma updateTransferItems_Inr:
  assumes "updateTransferItems k items actorId db = Inr db'"
  obtains t db1 c where "t \<in> set (db_transfers db)" "t_id t = k" "t_status t = TDraft"
    "insertItems k items (db\<lparr>db_transferItems := filter (\<lambda>i. ti_transferId i \<noteq> k) (db_transferItems db)\<rparr>) = Inr db1"
    "db' = auditTransfer ''TRANSFER_ITEMS_UPD'' k actorId c db1"
  using assms unfolding updateTransferItems_def Let_def by (auto simp: res_simps dest!: lockTransfer_Inr intro: that)

lemma updateTransferItems_step:
  assumes "updateTransferItems k items actorId db = Inr db'"
  shows "processStep Transfer uuid (transferProcess db) (transferProcess db')" "follows db db'"
proof -
  obtain t db1 c where run: "t \<in> set (db_transfers db)" "t_id t = k" "t_status t = TDraft"
    "insertItems k items (db\<lparr>db_transferItems := filter (\<lambda>i. ti_transferId i \<noteq> k) (db_transferItems db)\<rparr>) = Inr db1"
    "db' = auditTransfer ''TRANSFER_ITEMS_UPD'' k actorId c db1"
    using assms by (rule updateTransferItems_Inr)
  obtain new where new: "db1 = (db\<lparr>db_transferItems := filter (\<lambda>i. ti_transferId i \<noteq> k) (db_transferItems db)\<rparr>)
      \<lparr>db_transferItems := db_transferItems (db\<lparr>db_transferItems :=
         filter (\<lambda>i. ti_transferId i \<noteq> k) (db_transferItems db)\<rparr>) @ new\<rparr>"
    "takes (map transferHeld (db_transferItems (db\<lparr>db_transferItems :=
         filter (\<lambda>i. ti_transferId i \<noteq> k) (db_transferItems db)\<rparr>))) k (map transferHeld new)"
    using run(4) by (rule insertItems_Inr)
  show "processStep Transfer uuid (transferProcess db) (transferProcess db')"
    unfolding transferProcess_def
    by (rule transferCustody.changes [of t _ k _ new]) (use run(1-3,5) new in simp_all)
  show "follows db db'" by (simp add: run(5) new(1) advances_refl)
qed

lemma generateTransfer_Inr:
  assumes "generateTransfer env k input actorId db = Inr db'"
  obtains t payload requestId db1 control accounting c where "t \<in> set (db_transfers db)" "t_id t = k"
    "canTransferTransition (t_status t) TPendingSignatures"
    "enqueueAct env payload (Some actorId) db = Inr (requestId, db1)"
    "db' = auditTransfer ''TRANSFER_ACT_REQ'' k actorId c
       (updateTransfer k (\<lambda>x. x\<lparr>t_status := TPendingSignatures, t_documentRequestId := Some requestId,
          t_controlPersonId := Some control, t_accountingPersonId := Some accounting,
          t_generatedBy := Some actorId, t_generatedAt := Some (e_now env)\<rparr>) db1)"
  using assms unfolding generateTransfer_def Let_def
  by (auto simp: res_simps split: prod.splits dest!: lockTransfer_Inr intro: that)

lemma canTransferTransition_cases:
  "canTransferTransition s u \<longleftrightarrow> (s = TDraft \<and> u \<in> {TPendingSignatures, TCancelled}) \<or>
     (s = TPendingSignatures \<and> u \<in> {TCompleted, TRejected, TCancelled})"
  by (cases s) (auto simp: canTransferTransition_def)

lemma generateTransfer_step:
  assumes "generateTransfer env k input actorId db = Inr db'" "distinct (map t_id (db_transfers db))"
  shows "processStep Transfer uuid (transferProcess db) (transferProcess db')" "follows db db'"
proof -
  obtain t payload requestId db1 control accounting c where run: "t \<in> set (db_transfers db)" "t_id t = k"
    "canTransferTransition (t_status t) TPendingSignatures"
    "enqueueAct env payload (Some actorId) db = Inr (requestId, db1)"
    "db' = auditTransfer ''TRANSFER_ACT_REQ'' k actorId c
       (updateTransfer k (\<lambda>x. x\<lparr>t_status := TPendingSignatures, t_documentRequestId := Some requestId,
          t_controlPersonId := Some control, t_accountingPersonId := Some accounting,
          t_generatedBy := Some actorId, t_generatedAt := Some (e_now env)\<rparr>) db1)"
    using assms(1) by (rule generateTransfer_Inr)
  have same: "sameCustody db db1" using run(4) by (rule enqueueAct_Inr(4))
  have draft: "t_status t = TDraft" using run(3) by (simp add: canTransferTransition_cases)
  define f where "f = (\<lambda>x :: transfer. x\<lparr>t_status := TPendingSignatures, t_documentRequestId := Some requestId,
     t_controlPersonId := Some control, t_accountingPersonId := Some accounting,
     t_generatedBy := Some actorId, t_generatedAt := Some (e_now env)\<rparr>)"
  have f: "t_id (f u) = t_id u" "t_status (f u) = TPendingSignatures" for u by (simp_all add: f_def)
  have rows: "db_transfers db' = update_where (\<lambda>u. t_id u = t_id t) f (db_transfers db)"
    using same by (simp add: run(2,5) sameCustody_def f_def)
  show "processStep Transfer uuid (transferProcess db) (transferProcess db')"
    unfolding transferProcess_def
  proof (rule transferCustody.waits)
    show "map (\<lambda>h. (t_id h, transferStage (t_status h))) (db_transfers db') =
        map (\<lambda>h. (t_id h, transferStage (t_status h))) (db_transfers db)"
      unfolding rows by (rule same_stage [OF assms(2) run(1) f(1)]) (simp add: f(2) draft)
  qed (use same in \<open>simp_all add: run(5) sameCustody_def\<close>)
  show "follows db db'"
    unfolding rows by (rule advances_update_only [OF assms(2) run(1) f(1)]) (simp add: f(2) run(3))
qed

lemma cancelTransfer_Inr:
  assumes "cancelTransfer env k reason actorId db = Inr db'"
  obtains t cancelled voided db1 c where "t \<in> set (db_transfers db1)" "t_id t = k"
    "canTransferTransition (t_status t) TCancelled" "\<not> partlySigned db TRANSFER_ENTITY_TYPE k"
    "voidForEntity env TRANSFER_ENTITY_TYPE k (trim reason) (Some actorId) db = Inr (cancelled, voided, db1)"
    "db' = auditTransfer ''TRANSFER_CANCELLED'' k actorId c
       (closeTransferItems k (updateTransfer k (\<lambda>x. x\<lparr>t_status := TCancelled, t_cancelledAt := Some (e_now env),
          t_cancelledBy := Some actorId, t_cancelReason := Some (trim reason)\<rparr>) db1))"
  using assms unfolding cancelTransfer_def Let_def
  by (auto simp: res_simps split: prod.splits dest!: lockTransfer_Inr intro: that)

lemma cancelTransfer_step:
  assumes "cancelTransfer env k reason actorId db = Inr db'" "distinct (map t_id (db_transfers db))"
  shows "processStep Transfer uuid (transferProcess db) (transferProcess db')" "follows db db'"
proof -
  obtain t cancelled voided db1 c where run: "t \<in> set (db_transfers db1)" "t_id t = k"
    "canTransferTransition (t_status t) TCancelled" "\<not> partlySigned db TRANSFER_ENTITY_TYPE k"
    "voidForEntity env TRANSFER_ENTITY_TYPE k (trim reason) (Some actorId) db = Inr (cancelled, voided, db1)"
    "db' = auditTransfer ''TRANSFER_CANCELLED'' k actorId c
       (closeTransferItems k (updateTransfer k (\<lambda>x. x\<lparr>t_status := TCancelled, t_cancelledAt := Some (e_now env),
          t_cancelledBy := Some actorId, t_cancelReason := Some (trim reason)\<rparr>) db1))"
    using assms(1) by (rule cancelTransfer_Inr)
  have same: "sameCustody db db1" using run(5) by (rule voidForEntity_custody)
  have t: "t \<in> set (db_transfers db)" using run(1) same by (simp add: sameCustody_def)
  have running: "transferStage (t_status t) = Running"
    using run(3) by (auto simp: canTransferTransition_cases)
  show "processStep Transfer uuid (transferProcess db) (transferProcess db')"
    unfolding transferProcess_def
    by (rule transferCustody.gives_up [OF t run(2) running, of _ "\<lambda>x. x\<lparr>t_status := TCancelled,
          t_cancelledAt := Some (e_now env), t_cancelledBy := Some actorId, t_cancelReason := Some (trim reason)\<rparr>"])
      (use same in \<open>simp_all add: run(6) sameCustody_def\<close>)
  show "follows db db'"
    using advances_update_only [OF assms(2) t, of "\<lambda>x. x\<lparr>t_status := TCancelled, t_cancelledAt := Some (e_now env),
        t_cancelledBy := Some actorId, t_cancelReason := Some (trim reason)\<rparr>" canTransferTransition t_status]
      same run(2,3) by (simp add: run(6) sameCustody_def)
qed

lemma lockTransferFor_Inr:
  "lockTransferFor event db = Inr t \<Longrightarrow> t \<in> set (db_transfers db) \<and> lv_entityId event = Some (t_id t)"
  unfolding lockTransferFor_def
  by (cases "lv_entityId event") (auto split: if_splits dest!: lockTransfer_Inr)

lemma transferGenerated_step:
  assumes "transferGenerated env event db = Inr db'"
  shows "processStep Transfer uuid (transferProcess db) (transferProcess db')" "follows db db'"
proof -
  obtain t :: transfer where "Inr (updateTransfer (t_id t) (\<lambda>x. x\<lparr>t_documentId := Some (lv_documentId event)\<rparr>) db) = (Inr db' :: db res)"
    using assms unfolding transferGenerated_def res_simps by blast
  then have t: "db' = updateTransfer (t_id t) (\<lambda>x. x\<lparr>t_documentId := Some (lv_documentId event)\<rparr>) db" by simp
  show "processStep Transfer uuid (transferProcess db) (transferProcess db')"
    unfolding transferProcess_def
  proof (rule transferCustody.waits)
    show "map (\<lambda>h. (t_id h, transferStage (t_status h))) (db_transfers db') =
        map (\<lambda>h. (t_id h, transferStage (t_status h))) (db_transfers db)"
      by (simp add: t update_where_def)
  qed (simp_all add: t)
  show "follows db db'" unfolding t updateTransfer_frame(1) by (rule advances_update) simp
qed

lemma transferRejected_Inr:
  assumes "transferRejected env event db = Inr db'" "db' \<noteq> db"
  obtains t c where "t \<in> set (db_transfers db)" "lv_entityId event = Some (t_id t)" "t_status t = TPendingSignatures"
    "t_documentId t = Some (lv_documentId event)"
    "db' = auditTransfer ''TRANSFER_REJECTED'' (t_id t) (t_createdBy t) c
       (closeTransferItems (t_id t) (updateTransfer (t_id t)
         (\<lambda>x. x\<lparr>t_status := TRejected, t_rejectedAt := Some (e_now env)\<rparr>) db))"
  using assms unfolding transferRejected_def Let_def
  by (auto simp: res_simps split: if_splits dest!: lockTransferFor_Inr intro: that)

lemma transferRejected_step:
  assumes "transferRejected env event db = Inr db'" "distinct (map t_id (db_transfers db))"
  shows "processStep Transfer uuid (transferProcess db) (transferProcess db')" "follows db db'"
proof -
  have "processStep Transfer uuid (transferProcess db) (transferProcess db') \<and> follows db db'"
  proof (cases "db' = db")
    case True
    then show ?thesis using Waited [of "transferProcess db" "transferProcess db" Transfer uuid] by (simp add: advances_refl)
  next
    case False
    obtain t c where run: "t \<in> set (db_transfers db)" "lv_entityId event = Some (t_id t)" "t_status t = TPendingSignatures"
      "t_documentId t = Some (lv_documentId event)"
      "db' = auditTransfer ''TRANSFER_REJECTED'' (t_id t) (t_createdBy t) c
         (closeTransferItems (t_id t) (updateTransfer (t_id t)
           (\<lambda>x. x\<lparr>t_status := TRejected, t_rejectedAt := Some (e_now env)\<rparr>) db))"
      using assms(1) False by (rule transferRejected_Inr)
    have running: "transferStage (t_status t) = Running" by (simp add: run(3))
    have "processStep Transfer uuid (transferProcess db) (transferProcess db')"
      unfolding transferProcess_def
      by (rule transferCustody.gives_up [OF run(1) refl running, of _ "\<lambda>x. x\<lparr>t_status := TRejected,
            t_rejectedAt := Some (e_now env)\<rparr>"]) (simp_all add: run(5))
    moreover have "follows db db'"
      using advances_update_only [OF assms(2) run(1), of "\<lambda>x. x\<lparr>t_status := TRejected, t_rejectedAt := Some (e_now env)\<rparr>"
          canTransferTransition t_status] run(3) by (simp add: run(5) canTransferTransition_cases)
    ultimately show ?thesis by blast
  qed
  then show "processStep Transfer uuid (transferProcess db) (transferProcess db')" "follows db db'" by blast+
qed

text \<open>The assets of a transfer that still wait for their movement, in the order of their lines.\<close>

definition pendingAssets :: "db \<Rightarrow> string \<Rightarrow> string list" where
  "pendingAssets db k = map ti_assetId (filter (\<lambda>i. ti_movementId i = None) (itemsOfTransfer db k))"

lemma pendingAssets_set:
  "set (pendingAssets db k) = ti_assetId ` {i \<in> set (db_transferItems db). ti_transferId i = k \<and> ti_movementId i = None}"
  unfolding pendingAssets_def itemsOfTransfer_def by auto

lemma transferSigned_Inr:
  assumes "transferSigned env event db = Inr db'" "db' \<noteq> db"
  obtains t authorizedBy source db1 c where "t \<in> set (db_transfers db)" "lv_entityId event = Some (t_id t)"
    "t_status t = TPendingSignatures" "t_documentId t = Some (lv_documentId event)"
    "assertItems db (pendingAssets db (t_id t)) None (Some (t_sourceCostCenterId t)) (Some (t_id t)) = Inr source"
    "applyAll env (transferChange event t authorizedBy) db (pendingAssets db (t_id t)) = Inr db1"
    "db' = auditTransfer ''TRANSFER_COMPLETED'' (t_id t) authorizedBy c
       (closeTransferItems (t_id t) (updateTransfer (t_id t)
         (\<lambda>x. x\<lparr>t_status := TCompleted, t_completedAt := Some (e_now env)\<rparr>) db1))"
  using assms unfolding transferSigned_def Let_def pendingAssets_def [symmetric]
  by (auto simp: res_simps split: if_splits dest!: lockTransferFor_Inr intro: that)

lemma transferMoving_abstract: "transferMoving.abstractOf = transferProcess"
  by (rule ext) (simp add: transferMoving.abstractOf_def transferProcess_def)

lemma transferSigned_step:
  assumes run: "transferSigned env event db = Inr db'" and inj: "inj uuid"
    and inv: "processInv Transfer uuid (transferProcess db)"
  shows "processRun Transfer uuid (transferProcess db) (transferProcess db')" "follows db db'"
proof -
  have "processRun Transfer uuid (transferProcess db) (transferProcess db') \<and> follows db db'"
  proof (cases "db' = db")
    case True
    then show ?thesis by (simp add: advances_refl)
  next
    case False
    obtain t authorizedBy source db1 c where s: "t \<in> set (db_transfers db)" "lv_entityId event = Some (t_id t)"
      "t_status t = TPendingSignatures" "t_documentId t = Some (lv_documentId event)"
      "assertItems db (pendingAssets db (t_id t)) None (Some (t_sourceCostCenterId t)) (Some (t_id t)) = Inr source"
      "applyAll env (transferChange event t authorizedBy) db (pendingAssets db (t_id t)) = Inr db1"
      "db' = auditTransfer ''TRANSFER_COMPLETED'' (t_id t) authorizedBy c
         (closeTransferItems (t_id t) (updateTransfer (t_id t)
           (\<lambda>x. x\<lparr>t_status := TCompleted, t_completedAt := Some (e_now env)\<rparr>) db1))"
      using run False by (rule transferSigned_Inr)
    have running: "transferStage (t_status t) = Running" by (simp add: s(3))
    note moved = transferMoving.all_moved [OF s(1) refl running s(6)]
    have run1: "processRun Transfer uuid (transferProcess db) (transferProcess db1)"
      using moved(2) unfolding transferMoving_abstract .
    have ready: "list_all (\<lambda>r. ti_transferId r = t_id t \<longrightarrow>
        hasMovement Transfer (db_movements db1) (transferHeld r)) (db_transferItems db1)"
      by (rule transferMoving.all_items_moved [OF inj _ s(1) refl running s(6), simplified])
        (use inv in \<open>auto simp: transferMoving_abstract pendingAssets_set\<close>)
    have "processStep Transfer uuid (transferProcess db1) (transferProcess db')"
      unfolding transferProcess_def
      by (rule transferCustody.finishes [of t _ "t_id t" _ "\<lambda>x. x\<lparr>t_status := TCompleted, t_completedAt := Some (e_now env)\<rparr>"])
        (use s(1) running ready moved(1) in \<open>simp_all add: s(7)\<close>)
    moreover have "follows db db'"
    proof -
      have "distinct (map t_id (db_transfers db))" using processInvD(1) [OF inv] unfolding transferProcess_heads .
      from advances_update_only [OF this s(1), of "\<lambda>x. x\<lparr>t_status := TCompleted, t_completedAt := Some (e_now env)\<rparr>"
          canTransferTransition t_status]
      show ?thesis using s(3) by (simp add: s(7) moved(1) canTransferTransition_cases)
    qed
    ultimately show ?thesis using rtranclp.rtrancl_into_rtrancl [of "processStep Transfer uuid", OF run1] by blast
  qed
  then show "processRun Transfer uuid (transferProcess db) (transferProcess db')" "follows db db'" by blast+
qed

section \<open>Reachable transfers\<close>

text \<open>What the service, the callbacks of its act and the rest of the system do to the tables.\<close>

inductive transferStep :: "(nat \<Rightarrow> string) \<Rightarrow> db \<Rightarrow> db \<Rightarrow> bool" for uuid where
  Created: "e_uuid env = uuid \<Longrightarrow> createTransfer env input actorId assetRequestId db = Inr (k, db') \<Longrightarrow>
    transferStep uuid db db'"
| ItemsReplaced: "updateTransferItems k items actorId db = Inr db' \<Longrightarrow> transferStep uuid db db'"
| ActAsked: "generateTransfer env k asked actorId db = Inr db' \<Longrightarrow> transferStep uuid db db'"
| Withdrawn: "cancelTransfer env k reason actorId db = Inr db' \<Longrightarrow> transferStep uuid db db'"
| ActIssued: "transferGenerated env event db = Inr db' \<Longrightarrow> transferStep uuid db db'"
| ActSigned: "transferSigned env event db = Inr db' \<Longrightarrow> transferStep uuid db db'"
| ActRejected: "transferRejected env event db = Inr db' \<Longrightarrow> transferStep uuid db db'"
| OutsideTransfers: "db_transfers db' = db_transfers db \<Longrightarrow> db_transferItems db' = db_transferItems db \<Longrightarrow>
    set (db_movements db) \<subseteq> set (db_movements db') \<Longrightarrow> db_seq db \<le> db_seq db' \<Longrightarrow> transferStep uuid db db'"

abbreviation transferReachable :: "(nat \<Rightarrow> string) \<Rightarrow> db \<Rightarrow> db \<Rightarrow> bool" where
  "transferReachable uuid \<equiv> (transferStep uuid)\<^sup>*\<^sup>*"

lemma transferStep_sound:
  assumes step: "transferStep uuid db db'" and inj: "inj uuid" and inv: "processInv Transfer uuid (transferProcess db)"
  shows "processRun Transfer uuid (transferProcess db) (transferProcess db') \<and> follows db db'"
proof -
  have ids: "distinct (map t_id (db_transfers db))" using processInvD(1) [OF inv] unfolding transferProcess_heads .
  show ?thesis
    using step
  proof (cases rule: transferStep.cases)
    case (Created env input actorId assetRequestId k)
    obtain t where "db_transfers db' = db_transfers db @ [t]" using createTransfer_step(2) [OF Created(2)] by blast
    then have "follows db db'" by (simp add: advances_append)
    then show ?thesis using createTransfer_step(1) [OF Created(2)] unfolding Created(1) by blast
  next
    case (ItemsReplaced k items actorId)
    then show ?thesis using updateTransferItems_step by blast
  next
    case (ActAsked env k asked actorId)
    then show ?thesis using generateTransfer_step [OF _ ids] by blast
  next
    case (Withdrawn env k reason actorId)
    then show ?thesis using cancelTransfer_step [OF _ ids] by blast
  next
    case (ActIssued env event)
    then show ?thesis using transferGenerated_step by blast
  next
    case (ActSigned env event)
    then show ?thesis using transferSigned_step [OF _ inj inv] by blast
  next
    case (ActRejected env event)
    then show ?thesis using transferRejected_step [OF _ ids] by blast
  next
    case OutsideTransfers
    have "processStep Transfer uuid (transferProcess db) (transferProcess db')"
      unfolding transferProcess_def by (rule transferCustody.waits) (use OutsideTransfers in simp_all)
    then show ?thesis using OutsideTransfers(1) by (simp add: advances_refl)
  qed
qed

lemma transferReachable_inv:
  assumes "transferReachable uuid db db'" "inj uuid" "processInv Transfer uuid (transferProcess db)"
  shows "processInv Transfer uuid (transferProcess db')"
  using assms(1,3)
proof (induction rule: rtranclp_induct)
  case base
  then show ?case .
next
  case (step d d')
  have "processRun Transfer uuid (transferProcess d) (transferProcess d')"
    using transferStep_sound [OF step.hyps(2) assms(2) step.IH [OF step.prems]] by blast
  then show ?case by (rule processRun_inv [OF assms(2) _ step.IH [OF step.prems]])
qed

lemma transferProcess_empty: "db_transfers db = [] \<Longrightarrow> db_transferItems db = [] \<Longrightarrow>
   processInv kind uuid (transferProcess db)"
  by (simp add: processInv_def transferProcess_def processOf_def exclusiveOpen_def)

section \<open>Properties\<close>

text \<open>
  C2. Every operation of transfers implements the abstract custody process: its effect on the tables is a
  sequence of that machine's steps, so a transfer opens only with assets no other transfer holds, changes
  its assets only while it runs, finishes only when each has its movement, and is otherwise given up.
\<close>

theorem transfers_refine_custody:
  assumes "transferStep uuid db db'" "inj uuid" "processInv Transfer uuid (transferProcess db)"
  shows "processRun Transfer uuid (transferProcess db) (transferProcess db')"
  using transferStep_sound [OF assms] by blast

text \<open>
  C1. In any state the operations reach, an asset is in one open transfer at most, only a transfer in
  draft or waiting for signatures holds assets, and every item of a completed transfer has its own
  transfer movement in the ledger.
\<close>

theorem transfers_hold_their_assets:
  assumes "transferReachable uuid db db'" "inj uuid" "db_transfers db = []" "db_transferItems db = []"
  shows "exclusiveOpen ti_assetId ti_open (db_transferItems db') \<and>
    (\<forall>t\<in>set (db_transfers db'). \<forall>i\<in>set (db_transferItems db'). ti_transferId i = t_id t \<longrightarrow>
       (ti_open i \<longrightarrow> t_status t \<in> set OPEN_TRANSFER_STATUSES) \<and>
       (t_status t = TCompleted \<longrightarrow> (\<exists>m\<in>set (db_movements db'). ti_movementId i = Some (m_id m) \<and>
          m_assetId m = ti_assetId i \<and> m_movementType m = Transfer)))"
proof -
  have inv: "processInv Transfer uuid (transferProcess db')"
    by (rule transferReachable_inv [OF assms(1,2) transferProcess_empty [OF assms(3,4)]])
  note d = processInvD [OF inv]
  have "exclusiveOpen ti_assetId ti_open (db_transferItems db')"
    using d(3) unfolding exclusiveOpen_def transferProcess_def transferCustody.process_simps
    by (simp add: filter_map comp_def)
  moreover have "t_status t \<in> set OPEN_TRANSFER_STATUSES"
    if "t \<in> set (db_transfers db')" "i \<in> set (db_transferItems db')" "ti_transferId i = t_id t" "ti_open i" for t i
  proof -
    have "transferStage (t_status t) = Running"
      by (rule d(6) [of "t_id t" _ "transferHeld i"]) (use that in \<open>simp_all add: transferProcess_def processOf_def\<close>)
    then show ?thesis by (cases "t_status t") (simp_all add: OPEN_TRANSFER_STATUSES_def)
  qed
  moreover have "\<exists>m\<in>set (db_movements db'). ti_movementId i = Some (m_id m) \<and> m_assetId m = ti_assetId i \<and>
      m_movementType m = Transfer"
    if t: "t \<in> set (db_transfers db')" "t_status t = TCompleted" and i: "i \<in> set (db_transferItems db')"
      "ti_transferId i = t_id t" for t i
  proof -
    have "(t_id t, Done) \<in> set (ps_heads (transferProcess db'))" using t by (force simp: transferProcess_def processOf_def)
    then have "hasMovement Transfer (ps_ledger (transferProcess db')) (transferHeld i)"
      by (rule d(7)) (use i in \<open>simp_all add: transferProcess_def processOf_def\<close>)
    then show ?thesis by (simp add: hasMovement_def list_ex_iff transferProcess_def processOf_def)
  qed
  ultimately show ?thesis by blast
qed

text \<open>
  C19. A transfer only changes status along the table of \<open>canTransferTransition\<close>, whatever operation runs,
  and no operation loses a transfer; a completed, rejected or cancelled transfer keeps its status.
\<close>

theorem transfers_follow_their_lifecycle:
  assumes "transferStep uuid db db'" "inj uuid" "processInv Transfer uuid (transferProcess db)"
    "t \<in> set (db_transfers db)"
  shows "\<exists>t'\<in>set (db_transfers db'). t_id t' = t_id t \<and>
    (t_status t' = t_status t \<or> canTransferTransition (t_status t) (t_status t'))"
  using transferStep_sound [OF assms(1-3)] assms(4) unfolding advances_def by blast

lemma assertItems_Inr:
  assumes "assertItems db ids reasons expected own = Inr source"
  shows "distinct ids" "k \<in> set ids \<Longrightarrow> \<not> holdOpenInventory db k \<and> \<not> holdOpenLoan db k \<and>
    \<not> openTransferOf db own k \<and> \<not> holdOpenWriteOff db None k"
    "k \<in> set ids \<Longrightarrow> findAsset db k = Some a \<Longrightarrow>
      a_costCenterId a = source \<and> a_operationalStatus a \<noteq> WrittenOff \<and> a_operationalStatus a \<noteq> OnLoan"
    "expected = Some s \<Longrightarrow> source = s"
  using assms unfolding assertItems_def Let_def
  by (auto simp: list_ex_iff split: if_splits)

text \<open>The asset as a transfer leaves it.\<close>

definition transferredAsset :: "env \<Rightarrow> string \<Rightarrow> string \<Rightarrow> asset \<Rightarrow> asset" where
  "transferredAsset env target authorizedBy a =
     a\<lparr>a_costCenterId := target, a_updatedAt := e_now env, a_updatedBy := Some authorizedBy\<rparr>"

lemma transferChange_asset:
  "changedAsset env (transferChange event t authorizedBy k) a =
   transferredAsset env (t_targetCostCenterId t) authorizedBy a"
  by (simp add: changedAsset_def writtenPatch_def transferChange_def verifiedPatch_def noPatch_def applyPatch_def
      or_keep_def transferredAsset_def)

text \<open>
  C3. When the act of a transfer is signed, every asset that waits is checked to be in the source cost
  center, neither written off nor on loan, and in no open loan, no open inventory, no open write-off and no
  other open transfer (open handovers are not asked); it is then in the target cost center with nothing else
  changed but its update stamp, which names the user of the person of control who signed, or the creator of
  the transfer. No other asset changes, the ledger gets exactly one transfer movement per asset in the order
  of the lines, and the transfer is completed. A signed act that is processed again changes nothing.
\<close>

theorem signed_transfer_moves_its_assets:
  assumes "transferSigned env event db = Inr db'" "lockTransferFor event db = Inr t"
  shows "(t_status t = TCompleted \<and> db' = db) \<or>
    (t_status t = TPendingSignatures \<and> t_documentId t = Some (lv_documentId event) \<and>
     (\<exists>authorizedBy. authorizes db event ''CONTROL_INTERNO'' (t_createdBy t) authorizedBy \<and>
      (\<forall>k. if k \<in> set (pendingAssets db (t_id t))
        then \<not> (\<exists>i\<in>set (db_transferItems db). ti_assetId i = k \<and> ti_open i \<and> ti_transferId i \<noteq> t_id t) \<and>
          \<not> holdOpenLoan db k \<and> \<not> holdOpenInventory db k \<and> \<not> holdOpenWriteOff db None k \<and>
          (\<exists>a. findAsset db k = Some a \<and> a_costCenterId a = t_sourceCostCenterId t \<and>
             a_operationalStatus a \<notin> {WrittenOff, OnLoan} \<and>
             findAsset db' k = Some (transferredAsset env (t_targetCostCenterId t) authorizedBy a))
        else findAsset db' k = findAsset db k)) \<and>
     (\<exists>ms. db_movements db' = db_movements db @ ms \<and> map m_assetId ms = pendingAssets db (t_id t) \<and>
        list_all (\<lambda>m. m_movementType m = Transfer) ms) \<and>
     db_transfers db' = update_where (\<lambda>x. t_id x = t_id t)
       (\<lambda>x. x\<lparr>t_status := TCompleted, t_completedAt := Some (e_now env)\<rparr>) (db_transfers db))"
proof (cases "t_status t = TCompleted")
  case True
  then show ?thesis using assms by (auto simp: transferSigned_def res_simps split: if_splits)
next
  case False
  define authorizedBy where "authorizedBy = or_keep (if falsy (signersByRole event ''CONTROL_INTERNO'') then None
    else userOfPerson db (the (signersByRole event ''CONTROL_INTERNO''))) (t_createdBy t)"
  have authorized: "authorizes db event ''CONTROL_INTERNO'' (t_createdBy t) authorizedBy"
    unfolding authorizedBy_def by (rule authorizes_controlUser)
  obtain source db1 c where s: "t_status t = TPendingSignatures"
    "t_documentId t = Some (lv_documentId event)"
    "assertItems db (pendingAssets db (t_id t)) None (Some (t_sourceCostCenterId t)) (Some (t_id t)) = Inr source"
    "applyAll env (transferChange event t authorizedBy) db (pendingAssets db (t_id t)) = Inr db1"
    "db' = auditTransfer ''TRANSFER_COMPLETED'' (t_id t) authorizedBy c
       (closeTransferItems (t_id t) (updateTransfer (t_id t)
         (\<lambda>x. x\<lparr>t_status := TCompleted, t_completedAt := Some (e_now env)\<rparr>) db1))"
    using assms(1) False
    unfolding transferSigned_def assms(2) rbind.simps Let_def pendingAssets_def [symmetric] authorizedBy_def [symmetric]
    by (auto simp: res_simps split: if_splits)
  let ?ks = "pendingAssets db (t_id t)"
  note ok = assertItems_Inr [OF s(3)]
  have t: "t \<in> set (db_transfers db)" using lockTransferFor_Inr [OF assms(2)] by blast
  have running: "transferStage (t_status t) = Running" by (simp add: s(1))
  have find: "findAsset db' k = findAsset db1 k" for k by (rule findAsset_cong) (simp add: s(5))
  have moved: "\<not> (\<exists>i\<in>set (db_transferItems db). ti_assetId i = k \<and> ti_open i \<and> ti_transferId i \<noteq> t_id t) \<and>
      \<not> holdOpenLoan db k \<and> \<not> holdOpenInventory db k \<and> \<not> holdOpenWriteOff db None k \<and>
      (\<exists>a. findAsset db k = Some a \<and> a_costCenterId a = t_sourceCostCenterId t \<and>
         a_operationalStatus a \<notin> {WrittenOff, OnLoan} \<and>
         findAsset db' k = Some (transferredAsset env (t_targetCostCenterId t) authorizedBy a))"
    if k: "k \<in> set ?ks" for k
  proof -
    obtain a where a: "findAsset db k = Some a" using transferMoves.all_guarded [OF s(4) ok(1) k] by blast
    have "findAsset db' k = Some (transferredAsset env (t_targetCostCenterId t) authorizedBy a)"
      using transferMoves.all_find [OF s(4) ok(1), of k] k a by (simp add: find transferChange_asset)
    moreover have "\<not> (\<exists>i\<in>set (db_transferItems db). ti_assetId i = k \<and> ti_open i \<and> ti_transferId i \<noteq> t_id t)"
      using ok(2) [OF k] by (auto simp: openTransferOf_def list_ex_iff)
    ultimately show ?thesis using ok(2,3) [OF k] ok(4) a by simp
  qed
  have kept: "findAsset db' k = findAsset db k" if "k \<notin> set ?ks" for k
    using transferMoves.all_find [OF s(4) ok(1), of k] that by (simp add: find)
  obtain ms where "db_movements db1 = db_movements db @ ms" "map m_assetId ms = ?ks"
    "\<forall>m\<in>set ms. m_movementType m = Transfer"
    using transferMoves.all_movements [OF s(4)] by (auto simp: transferChange_def)
  then have "\<exists>ms. db_movements db' = db_movements db @ ms \<and> map m_assetId ms = ?ks \<and>
      list_all (\<lambda>m. m_movementType m = Transfer) ms" by (auto simp: s(5) list_all_iff)
  moreover have "db_transfers db' = update_where (\<lambda>x. t_id x = t_id t)
      (\<lambda>x. x\<lparr>t_status := TCompleted, t_completedAt := Some (e_now env)\<rparr>) (db_transfers db)"
    by (simp add: s(5) transferMoving.all_moved(1) [OF t refl running s(4)])
  moreover have "\<forall>k. if k \<in> set ?ks
        then \<not> (\<exists>i\<in>set (db_transferItems db). ti_assetId i = k \<and> ti_open i \<and> ti_transferId i \<noteq> t_id t) \<and>
          \<not> holdOpenLoan db k \<and> \<not> holdOpenInventory db k \<and> \<not> holdOpenWriteOff db None k \<and>
          (\<exists>a. findAsset db k = Some a \<and> a_costCenterId a = t_sourceCostCenterId t \<and>
             a_operationalStatus a \<notin> {WrittenOff, OnLoan} \<and>
             findAsset db' k = Some (transferredAsset env (t_targetCostCenterId t) authorizedBy a))
        else findAsset db' k = findAsset db k"
    using moved kept by presburger
  ultimately show ?thesis using s(1,2) authorized by blast
qed

text \<open>
  Cancelling a transfer needs a reason of five characters, an act with no signature yet and a transfer
  that has not ended. It leaves no asset held by the transfer, its act requests cancelled and its unsigned
  acts annulled, and nothing of any other transfer changes.
\<close>

theorem cancelled_transfer_lets_go:
  assumes "cancelTransfer env k reason actorId db = Inr db'"
  shows "5 \<le> length (trim reason) \<and> \<not> partlySigned db TRANSFER_ENTITY_TYPE k \<and>
    (\<forall>d\<in>set (actsOf db TRANSFER_ENTITY_TYPE k). d_status d \<noteq> DSigned) \<and>
    (\<forall>i\<in>set (db_transferItems db'). ti_transferId i = k \<longrightarrow> \<not> ti_open i) \<and>
    (\<forall>t\<in>set (db_transfers db'). t_id t = k \<longrightarrow> t_status t = TCancelled \<and> t_cancelledBy t = Some actorId) \<and>
    filter (\<lambda>t. t_id t \<noteq> k) (db_transfers db') = filter (\<lambda>t. t_id t \<noteq> k) (db_transfers db) \<and>
    filter (\<lambda>i. ti_transferId i \<noteq> k) (db_transferItems db') = filter (\<lambda>i. ti_transferId i \<noteq> k) (db_transferItems db) \<and>
    (\<forall>r\<in>set (db_documentRequests db'). \<not> requestOf TRANSFER_ENTITY_TYPE k r) \<and>
    (\<forall>d\<in>set (actsOf db' TRANSFER_ENTITY_TYPE k). d_status d \<noteq> DPendingSignature) \<and>
    db_assets db' = db_assets db \<and> db_movements db' = db_movements db"
proof -
  obtain t cancelled voided db1 c where run: "t \<in> set (db_transfers db1)" "t_id t = k"
    "canTransferTransition (t_status t) TCancelled" "\<not> partlySigned db TRANSFER_ENTITY_TYPE k"
    "voidForEntity env TRANSFER_ENTITY_TYPE k (trim reason) (Some actorId) db = Inr (cancelled, voided, db1)"
    "db' = auditTransfer ''TRANSFER_CANCELLED'' k actorId c
       (closeTransferItems k (updateTransfer k (\<lambda>x. x\<lparr>t_status := TCancelled, t_cancelledAt := Some (e_now env),
          t_cancelledBy := Some actorId, t_cancelReason := Some (trim reason)\<rparr>) db1))"
    using assms by (rule cancelTransfer_Inr)
  have same: "sameCustody db db1" using run(5) by (rule voidForEntity_custody)
  have long: "5 \<le> length (trim reason)" using assms by (auto simp: cancelTransfer_def Let_def split: if_splits)
  note clear = voidForEntity_clears [OF run(5)]
  have closed: "\<not> ti_open i" if "i \<in> set (db_transferItems db')" "ti_transferId i = k" for i
    using transferOpen.nothing_open [of i k "db_transferItems db1"] that by (simp add: run(6))
  have status: "t_status x = TCancelled \<and> t_cancelledBy x = Some actorId" if "x \<in> set (db_transfers db')" "t_id x = k" for x
  proof (rule update_where_all [where Q = "\<lambda>x. t_status x = TCancelled \<and> t_cancelledBy x = Some actorId"])
    show "x \<in> set (update_where (\<lambda>t. t_id t = k) (\<lambda>x. x\<lparr>t_status := TCancelled, t_cancelledAt := Some (e_now env),
        t_cancelledBy := Some actorId, t_cancelReason := Some (trim reason)\<rparr>) (db_transfers db1))"
      using that(1) by (simp add: run(6))
  qed (use that(2) in simp_all)
  have others: "filter (\<lambda>t. t_id t \<noteq> k) (db_transfers db') = filter (\<lambda>t. t_id t \<noteq> k) (db_transfers db)"
    using same by (simp add: run(6) sameCustody_def filter_update_where_other)
  have items: "filter (\<lambda>i. ti_transferId i \<noteq> k) (db_transferItems db') =
      filter (\<lambda>i. ti_transferId i \<noteq> k) (db_transferItems db)"
    using same by (simp add: run(6) sameCustody_def transferOpen.other_items_kept)
  have requests: "\<not> requestOf TRANSFER_ENTITY_TYPE k r" if "r \<in> set (db_documentRequests db')" for r
    using clear(1) that by (simp add: run(6))
  have acts: "d_status d \<noteq> DPendingSignature" if "d \<in> set (actsOf db' TRANSFER_ENTITY_TYPE k)" for d
    using clear(2) that by (simp add: run(6) actsOf_def)
  have custody: "db_assets db' = db_assets db" "db_movements db' = db_movements db"
    using same by (simp_all add: run(6) sameCustody_def)
  show ?thesis
    using long run(4) clear(3) closed status others items custody requests acts by blast
qed

section \<open>Witnesses\<close>

definition sampleTransferId :: string where
  "sampleTransferId = ''00000000-0000-4000-8000-000000000009''"

definition sampleTransfer :: "transferStatus \<Rightarrow> transfer" where
  "sampleTransfer s = \<lparr>t_id = sampleTransferId, t_status = s, t_sourceCostCenterId = ''c1'',
     t_targetCostCenterId = ''c2'', t_requesterPersonId = ''p1'', t_ownerPersonId = ''p2'', t_controlPersonId = None,
     t_accountingPersonId = None, t_justification = ''move'', t_assetRequestId = None, t_documentRequestId = None,
     t_documentId = Some ''act'', t_createdBy = ''u'', t_generatedBy = None, t_generatedAt = None,
     t_completedAt = None, t_rejectedAt = None, t_cancelledAt = None, t_cancelledBy = None, t_cancelReason = None\<rparr>"

definition sampleTransferItem :: transferItem where
  "sampleTransferItem = \<lparr>ti_transferId = sampleTransferId, ti_assetId = ''a'', ti_lineNumber = 1,
     ti_physicalCondition = Good, ti_physicallyVerified = True, ti_verificationNote = None,
     ti_numberingPresent = True, ti_reasonId = ''r'', ti_observations = None, ti_open = True, ti_movementId = None\<rparr>"

definition sampleTransferDb :: "transferStatus \<Rightarrow> db" where
  "sampleTransferDb s = (sampleDb InUse)\<lparr>db_transfers := [sampleTransfer s], db_transferItems := [sampleTransferItem],
     db_documentAssets := [\<lparr>da_documentId = ''act'', da_assetId = ''a'', da_movementId = None\<rparr>], db_seq := 10\<rparr>"

definition sampleTransferEvent :: lifecycleEvent where
  "sampleTransferEvent = \<lparr>lv_documentId = ''act'', lv_formatKey = TRANSFER_FORMAT_KEY, lv_number = ''1'',
     lv_entityType = TRANSFER_ENTITY_TYPE, lv_entityId = Some sampleTransferId, lv_signers = []\<rparr>"

definition sampleCreate :: createTransferInput where
  "sampleCreate = \<lparr>ct_targetCostCenterId = ''c2'', ct_requesterPersonId = ''p1'', ct_ownerPersonId = ''p1'',
     ct_justification = ''move it'', ct_items = [\<lparr>tx_assetId = ''a'', tx_physicalCondition = None,
       tx_physicallyVerified = None, tx_verificationNote = None, tx_numberingPresent = None, tx_reasonId = ''r'',
       tx_observations = None\<rparr>]\<rparr>"

definition beforeCreate :: db where
  "beforeCreate = (sampleDb InUse)\<lparr>
     db_persons := [\<lparr>pe_id = ''p1'', pe_isActive = True, pe_costCenterId = None, pe_email = None,
       pe_documentNumber = None, pe_firstName = ''A'', pe_lastName = ''B''\<rparr>],
     db_costCenters := [\<lparr>cc_id = ''c2'', cc_isActive = True, cc_acceptsAssets = True\<rparr>],
     db_heads := [\<lparr>ch_costCenterId = ''c2'', ch_personId = ''p1'', ch_validFrom = 0, ch_validUntil = None\<rparr>],
     db_transferReasons := [''r'']\<rparr>"

lemma sampleTransfer_runs:
  "\<not> isl (transferSigned sampleEnv sampleTransferEvent (sampleTransferDb TPendingSignatures))"
  "\<not> isl (cancelTransfer sampleEnv sampleTransferId ''wrong'' ''u'' (sampleTransferDb TDraft))"
  "\<not> isl (createTransfer sampleEnv sampleCreate ''u'' None beforeCreate)"
  "\<not> isl (lockTransferFor sampleTransferEvent (sampleTransferDb TPendingSignatures))"
  by code_simp+

lemma sampleTransferId_drawn: "sampleTransferId = e_uuid sampleEnv 9"
  by code_simp

lemma sampleTransfer_inv:
  "processInv Transfer (e_uuid sampleEnv) (transferProcess (sampleTransferDb TDraft))"
  by (simp add: processInv_def transferProcess_def processOf_def sampleTransferDb_def sampleDb_def emptyDb_def
      sampleTransfer_def sampleTransferItem_def transferHeld_def exclusiveOpen_def sampleTransferId_drawn)

lemma sampleEnv_inj: "inj (e_uuid sampleEnv)"
  using sampleEnv_ok by (simp add: envOk_def)

theorem transfers_refine_custody_witness:
  "\<exists>db'. processRun Transfer (e_uuid sampleEnv) (transferProcess (sampleTransferDb TDraft)) (transferProcess db')"
proof -
  obtain db' where "cancelTransfer sampleEnv sampleTransferId ''wrong'' ''u'' (sampleTransferDb TDraft) = Inr db'"
    using sampleTransfer_runs(2) by (cases "cancelTransfer sampleEnv sampleTransferId ''wrong'' ''u'' (sampleTransferDb TDraft)") auto
  from transfers_refine_custody [OF Withdrawn [OF this] sampleEnv_inj sampleTransfer_inv] show ?thesis by blast
qed

theorem transfers_hold_their_assets_witness:
  "\<exists>k db'. createTransfer sampleEnv sampleCreate ''u'' None beforeCreate = Inr (k, db') \<and>
     exclusiveOpen ti_assetId ti_open (db_transferItems db')"
proof -
  obtain k db' where run: "createTransfer sampleEnv sampleCreate ''u'' None beforeCreate = Inr (k, db')"
    using sampleTransfer_runs(3) by (cases "createTransfer sampleEnv sampleCreate ''u'' None beforeCreate") auto
  have "transferReachable (e_uuid sampleEnv) beforeCreate db'" using Created [OF refl run] by blast
  from transfers_hold_their_assets [OF this sampleEnv_inj] show ?thesis
    using run by (simp add: beforeCreate_def sampleDb_def emptyDb_def)
qed

theorem transfers_follow_their_lifecycle_witness:
  "\<exists>db'. cancelTransfer sampleEnv sampleTransferId ''wrong'' ''u'' (sampleTransferDb TDraft) = Inr db' \<and>
     (\<exists>t\<in>set (db_transfers db'). t_id t = sampleTransferId)"
proof -
  obtain db' where run: "cancelTransfer sampleEnv sampleTransferId ''wrong'' ''u'' (sampleTransferDb TDraft) = Inr db'"
    using sampleTransfer_runs(2) by (cases "cancelTransfer sampleEnv sampleTransferId ''wrong'' ''u'' (sampleTransferDb TDraft)") auto
  have "sampleTransfer TDraft \<in> set (db_transfers (sampleTransferDb TDraft))" by (simp add: sampleTransferDb_def)
  from transfers_follow_their_lifecycle [OF Withdrawn [OF run] sampleEnv_inj sampleTransfer_inv this]
  show ?thesis using run by (auto simp: sampleTransfer_def)
qed

theorem signed_transfer_moves_its_assets_witness:
  "\<exists>db'. transferSigned sampleEnv sampleTransferEvent (sampleTransferDb TPendingSignatures) = Inr db' \<and>
     (\<exists>m. db_movements db' = [m] \<and> m_movementType m = Transfer)"
proof -
  obtain db' t where run: "transferSigned sampleEnv sampleTransferEvent (sampleTransferDb TPendingSignatures) = Inr db'"
    "lockTransferFor sampleTransferEvent (sampleTransferDb TPendingSignatures) = Inr t"
    using sampleTransfer_runs(1,4)
    by (cases "transferSigned sampleEnv sampleTransferEvent (sampleTransferDb TPendingSignatures)";
        cases "lockTransferFor sampleTransferEvent (sampleTransferDb TPendingSignatures)") auto
  have t: "t = sampleTransfer TPendingSignatures" using lockTransferFor_Inr [OF run(2)] by (simp add: sampleTransferDb_def)
  have pending: "pendingAssets (sampleTransferDb TPendingSignatures) (t_id t) = [''a'']"
    by (simp add: t pendingAssets_def itemsOfTransfer_def sampleTransferDb_def sampleTransferItem_def sampleTransfer_def)
  have "db_movements (sampleTransferDb TPendingSignatures) = []" by (simp add: sampleTransferDb_def sampleDb_def emptyDb_def)
  then show ?thesis
    using signed_transfer_moves_its_assets [OF run] run(1) pending by (auto simp: t sampleTransfer_def map_eq_Cons_conv)
qed

theorem cancelled_transfer_lets_go_witness:
  "\<exists>db'. cancelTransfer sampleEnv sampleTransferId ''wrong'' ''u'' (sampleTransferDb TDraft) = Inr db' \<and>
     (\<forall>i\<in>set (db_transferItems db'). ti_transferId i = sampleTransferId \<longrightarrow> \<not> ti_open i)"
proof -
  obtain db' where run: "cancelTransfer sampleEnv sampleTransferId ''wrong'' ''u'' (sampleTransferDb TDraft) = Inr db'"
    using sampleTransfer_runs(2) by (cases "cancelTransfer sampleEnv sampleTransferId ''wrong'' ''u'' (sampleTransferDb TDraft)") auto
  show ?thesis using cancelled_transfer_lets_go [OF run] run by blast
qed

end
