(* ===== verification/WriteOffs.thy ===== *)
theory WriteOffs
  imports DocActs CustodyProcess
begin

text \<open>
  Write-offs of assets: src/src/modules/write-offs/services/write-offs.service.ts,
  write-off-act.lifecycle.ts and src/src/modules/write-offs/domain/write-off.ts.

  A write-off is drafted with its assets, its act is requested once a total is authorized, and the signed
  act takes every asset out of service with a movement of the ledger. The validation of the request
  bodies and the texts printed on the act are not modelled.
\<close>

section \<open>Domain\<close>

definition OPEN_WRITE_OFF_STATUSES :: "writeOffStatus list" where
  "OPEN_WRITE_OFF_STATUSES = [WDraft, WPendingSignatures]"

fun writeOffTransitions :: "writeOffStatus \<Rightarrow> writeOffStatus list" where
  "writeOffTransitions WDraft = [WPendingSignatures, WCancelled]"
| "writeOffTransitions WPendingSignatures = [WCompleted, WRejected, WCancelled]"
| "writeOffTransitions WCompleted = []"
| "writeOffTransitions WRejected = []"
| "writeOffTransitions WCancelled = []"

definition canWriteOffTransition :: "writeOffStatus \<Rightarrow> writeOffStatus \<Rightarrow> bool" where
  "canWriteOffTransition s t = (t \<in> set (writeOffTransitions s))"

definition isWriteOffEditable :: "writeOffStatus \<Rightarrow> bool" where
  "isWriteOffEditable s = (s = WDraft)"

fun itemStateText :: "writeOffItemState \<Rightarrow> string" where
  "itemStateText Obsolete_item = ''OBSOLETE''"
| "itemStateText Damaged_item = ''DAMAGED''"
| "itemStateText Stolen_item = ''STOLEN''"
| "itemStateText NotAnAsset_item = ''NOT_AN_ASSET''"
| "itemStateText Other_item = ''OTHER''"

fun writeOffStatusText :: "writeOffStatus \<Rightarrow> string" where
  "writeOffStatusText WDraft = ''DRAFT''"
| "writeOffStatusText WPendingSignatures = ''PENDING_SIGNATURES''"
| "writeOffStatusText WCompleted = ''COMPLETED''"
| "writeOffStatusText WRejected = ''REJECTED''"
| "writeOffStatusText WCancelled = ''CANCELLED''"

fun WRITE_OFF_ITEM_STATE_LABELS :: "writeOffItemState \<Rightarrow> string" where
  "WRITE_OFF_ITEM_STATE_LABELS Obsolete_item = ''Obsoleto''"
| "WRITE_OFF_ITEM_STATE_LABELS Damaged_item = ''Da'' @ [CHR 0xF1] @ ''ado''"
| "WRITE_OFF_ITEM_STATE_LABELS Stolen_item = ''Robado''"
| "WRITE_OFF_ITEM_STATE_LABELS NotAnAsset_item = ''No es activo''"
| "WRITE_OFF_ITEM_STATE_LABELS Other_item = ''Otro''"

definition writeOffItemReason :: "writeOffItemState \<Rightarrow> string option \<Rightarrow> string" where
  "writeOffItemReason s notes =
     (let extra = trim (or_keep notes []) in
      if extra = [] then WRITE_OFF_ITEM_STATE_LABELS s else WRITE_OFF_ITEM_STATE_LABELS s @ ''. '' @ extra)"

definition WRITE_OFF_ENTITY_TYPE :: string where "WRITE_OFF_ENTITY_TYPE = ''WRITE_OFF''"
definition WRITE_OFF_FORMAT_KEY :: string where "WRITE_OFF_FORMAT_KEY = ''OCI-17-90-BAJA''"
definition MAX_WRITE_OFF_QUANTITY :: int where "MAX_WRITE_OFF_QUANTITY = 10000"

definition WRITE_OFF_SIGNER_SOURCES :: "(string \<times> signerSource) list" where
  "WRITE_OFF_SIGNER_SOURCES = [(''CONTROL_INTERNO'', FromRequest), (''CONTABILIDAD'', FromRequest)]"

section \<open>Signers\<close>

datatype writeOffSignerKind = WControl | WAccounting

fun writeOffSignerPermission :: "writeOffSignerKind \<Rightarrow> string" where
  "writeOffSignerPermission WControl = CONTROL_SIGNER_PERMISSION"
| "writeOffSignerPermission WAccounting = ''transfer:sign_accounting:global''"

fun writeOffNoSigner :: "writeOffSignerKind \<Rightarrow> error_code" where
  "writeOffNoSigner WControl = WriteOffNoControlSigner"
| "writeOffNoSigner WAccounting = WriteOffNoAccountingSigner"

definition resolveWriteOffSigner :: "db \<Rightarrow> writeOffSignerKind \<Rightarrow> string option \<Rightarrow> string res" where
  "resolveWriteOffSigner db kind requested =
     (let candidates = holders db (writeOffSignerPermission kind) in
      if candidates = [] then throw (writeOffNoSigner kind)
      else if \<not> falsy requested then
        (if the requested \<notin> set candidates then throw WriteOffSignerNotEligible else Inr (the requested))
      else (case candidates of [only] \<Rightarrow> Inr only | _ \<Rightarrow> throw WriteOffSignerRequired))"

section \<open>Items\<close>

record writeOffItemInput =
  wx_assetId :: string
  wx_quantity :: "int option"
  wx_state :: writeOffItemState
  wx_notes :: "string option"

definition clean :: "string option \<Rightarrow> string option" where
  "clean v = Option.bind (map_option trim v) orNull"

text \<open>\<open>BLOCKERS\<close>: the reasons that hold an asset out of a write-off.\<close>

definition writeOffBlocked :: "db \<Rightarrow> string option \<Rightarrow> asset \<Rightarrow> bool" where
  "writeOffBlocked db own a =
     (a_operationalStatus a = WrittenOff \<or> a_operationalStatus a = OnLoan \<or>
      holdOpenLoan db (a_id a) \<or> holdOpenTransfer db (a_id a) \<or> holdOpenInventory db (a_id a) \<or>
      holdOpenHandover db (a_id a) \<or> holdRequestReservation db None (a_id a) \<or> holdOpenWriteOff db own (a_id a))"

definition assertAssets :: "db \<Rightarrow> string list \<Rightarrow> string option \<Rightarrow> unit res" where
  "assertAssets db assetIds own =
     (if \<not> distinct assetIds then throw ValidationFailed
      else if list_ex (\<lambda>k. findAsset db k = None) assetIds then throw ResourceNotFound
      else if list_ex (\<lambda>k. writeOffBlocked db own (the (findAsset db k))) assetIds then throw WriteOffAssetHeld
      else Inr ())"

definition lockWriteOff :: "db \<Rightarrow> string \<Rightarrow> writeOff res" where
  "lockWriteOff db k =
     (case (if isUuid k then List.find (\<lambda>w. w_id w = k) (db_writeOffs db) else None) of
        None \<Rightarrow> throw ResourceNotFound | Some w \<Rightarrow> Inr w)"

definition itemsOfWriteOff :: "db \<Rightarrow> string \<Rightarrow> writeOffItem list" where
  "itemsOfWriteOff db k = sort_key wi_lineNumber (filter (\<lambda>i. wi_writeOffId i = k) (db_writeOffItems db))"

definition writeOffItemRow :: "string \<Rightarrow> asset \<Rightarrow> nat \<Rightarrow> writeOffItemInput \<Rightarrow> writeOffItem" where
  "writeOffItemRow writeOffId a line item =
     \<lparr>wi_writeOffId = writeOffId, wi_assetId = a_id a, wi_lineNumber = line, wi_costCenterId = a_costCenterId a,
      wi_quantity = or_keep (wx_quantity item) 1, wi_state = wx_state item, wi_notes = clean (wx_notes item),
      wi_open = True, wi_movementId = None\<rparr>"

text \<open>The insertion of one item: the quantity is checked by the table, the open item by its index.\<close>

definition insertWriteOffItem ::
  "db \<Rightarrow> string \<Rightarrow> writeOffItem list \<Rightarrow> nat \<times> writeOffItemInput \<Rightarrow> writeOffItem list res" where
  "insertWriteOffItem db writeOffId rows line_item =
     (case findAsset db (wx_assetId (snd line_item)) of
        None \<Rightarrow> Inr rows
      | Some a \<Rightarrow>
          (let row = writeOffItemRow writeOffId a (fst line_item) (snd line_item) in
           if wi_quantity row < 1 \<or> MAX_WRITE_OFF_QUANTITY < wi_quantity row then throwError
           else insertOpen wi_assetId wi_open AssetInOpenWriteOff rows row))"

definition insertWriteOffItems :: "string \<Rightarrow> writeOffItemInput list \<Rightarrow> db \<Rightarrow> db res" where
  "insertWriteOffItems writeOffId items db =
     rbind (foldM (insertWriteOffItem db writeOffId) (db_writeOffItems db)
       (zip [1..<Suc (length items)] items)) (\<lambda>rows. Inr (db\<lparr>db_writeOffItems := rows\<rparr>))"

definition auditWriteOff :: "string \<Rightarrow> string \<Rightarrow> string \<Rightarrow> (string \<times> json) list \<Rightarrow> db \<Rightarrow> db" where
  "auditWriteOff action writeOffId actorId changes =
     recordAudit action WRITE_OFF_ENTITY_TYPE writeOffId (Some actorId) (Some (JObj changes))"

section \<open>Operations\<close>

record createWriteOffInput =
  cw_authorizedTotal :: "rat option"
  cw_councilAgreementNumber :: "string option"
  cw_councilAgreementDate :: "string option"
  cw_vicefinanceReports :: "string option"
  cw_observations :: "string option"
  cw_items :: "writeOffItemInput list"

definition writeOffRow :: "string \<Rightarrow> createWriteOffInput \<Rightarrow> string \<Rightarrow> writeOff" where
  "writeOffRow k dto actorId =
     \<lparr>w_id = k, w_status = WDraft, w_authorizedTotal = cw_authorizedTotal dto,
      w_councilAgreementNumber = clean (cw_councilAgreementNumber dto),
      w_councilAgreementDate = cw_councilAgreementDate dto,
      w_vicefinanceReports = clean (cw_vicefinanceReports dto), w_observations = clean (cw_observations dto),
      w_controlPersonId = None, w_accountingPersonId = None, w_documentRequestId = None, w_documentId = None,
      w_createdBy = actorId, w_generatedBy = None, w_generatedAt = None, w_completedAt = None,
      w_rejectedAt = None, w_cancelledAt = None, w_cancelledBy = None, w_cancelReason = None\<rparr>"

definition createWriteOff :: "env \<Rightarrow> createWriteOffInput \<Rightarrow> string \<Rightarrow> db \<Rightarrow> (string \<times> db) res" where
  "createWriteOff env dto actorId db =
     (let k = freshId env db; assetIds = map wx_assetId (cw_items dto) in
      rbind (assertAssets db assetIds None) (\<lambda>_.
      rbind (insertWriteOffItems k (cw_items dto)
        (bumpSeq (db\<lparr>db_writeOffs := db_writeOffs db @ [writeOffRow k dto actorId]\<rparr>))) (\<lambda>db1.
        Inr (k, auditWriteOff ''WRITE_OFF_CREATED'' k actorId [(''assetIds'', jStrings assetIds)] db1))))"

definition updateWriteOff :: "string \<Rightarrow> (writeOff \<Rightarrow> writeOff) \<Rightarrow> db \<Rightarrow> db" where
  "updateWriteOff k f db = db\<lparr>db_writeOffs := update_where (\<lambda>w. w_id w = k) f (db_writeOffs db)\<rparr>"

text \<open>The body of an update: an absent field is \<open>None\<close>, a null one \<open>Some None\<close>; its keys in their order.\<close>

record updateWriteOffInput =
  uw_keys :: "string list"
  uw_authorizedTotal :: "rat option option"
  uw_councilAgreementNumber :: "string option option"
  uw_councilAgreementDate :: "string option option"
  uw_vicefinanceReports :: "string option option"
  uw_observations :: "string option option"
  uw_items :: "writeOffItemInput list option"

definition editedWriteOff :: "updateWriteOffInput \<Rightarrow> writeOff \<Rightarrow> writeOff" where
  "editedWriteOff dto w =
     w\<lparr>w_authorizedTotal := or_keep (uw_authorizedTotal dto) (w_authorizedTotal w),
       w_councilAgreementNumber := or_keep (map_option clean (uw_councilAgreementNumber dto)) (w_councilAgreementNumber w),
       w_councilAgreementDate := or_keep (uw_councilAgreementDate dto) (w_councilAgreementDate w),
       w_vicefinanceReports := or_keep (map_option clean (uw_vicefinanceReports dto)) (w_vicefinanceReports w),
       w_observations := or_keep (map_option clean (uw_observations dto)) (w_observations w)\<rparr>"

definition editWriteOff :: "string \<Rightarrow> updateWriteOffInput \<Rightarrow> string \<Rightarrow> db \<Rightarrow> db res" where
  "editWriteOff k dto actorId db =
     rbind (lockWriteOff db k) (\<lambda>w.
     if \<not> isWriteOffEditable (w_status w) then throw WriteOffInvalidStateTransition
     else
       rbind (case uw_items dto of
           None \<Rightarrow> Inr db
         | Some items \<Rightarrow>
             (let db1 = db\<lparr>db_writeOffItems := filter (\<lambda>i. wi_writeOffId i \<noteq> k) (db_writeOffItems db)\<rparr> in
              rbind (assertAssets db1 (map wx_assetId items) (Some k)) (\<lambda>_. insertWriteOffItems k items db1)))
         (\<lambda>db2. Inr (auditWriteOff ''WRITE_OFF_UPDATED'' k actorId
            ((''fields'', jStrings (uw_keys dto)) #
             (case uw_items dto of None \<Rightarrow> [] | Some items \<Rightarrow> [(''assetIds'', jStrings (map wx_assetId items))]))
            (updateWriteOff k (editedWriteOff dto) db2))))"

record generateWriteOffInput =
  gw_controlSignerPersonId :: "string option"
  gw_accountingSignerPersonId :: "string option"
  gw_signerSubstitutions :: "json option"

definition writeOffPayload :: "db \<Rightarrow> string \<Rightarrow> string \<Rightarrow> string \<Rightarrow> generateWriteOffInput \<Rightarrow> documentRequestPayload" where
  "writeOffPayload db k control accounting dto =
     \<lparr>dp_formatKey = WRITE_OFF_FORMAT_KEY, dp_entityType = Some WRITE_OFF_ENTITY_TYPE, dp_entityId = Some k,
      dp_costCenterId = None, dp_responsiblePersonId = None,
      dp_assetIds = map wi_assetId (filter (\<lambda>i. findAsset db (wi_assetId i) \<noteq> None \<and>
        list_ex (\<lambda>cc. cc_id cc = wi_costCenterId i) (db_costCenters db)) (itemsOfWriteOff db k)),
      dp_movementIds = [], dp_signers = [(''CONTROL_INTERNO'', control), (''CONTABILIDAD'', accounting)],
      dp_signerSubstitutions = givenSubstitutions (gw_signerSubstitutions dto),
      dp_tables = None\<rparr>"

definition generateWriteOff ::
  "env \<Rightarrow> string \<Rightarrow> generateWriteOffInput \<Rightarrow> string \<Rightarrow> db \<Rightarrow> db res" where
  "generateWriteOff env k dto actorId db =
     rbind (lockWriteOff db k) (\<lambda>w.
     if \<not> canWriteOffTransition (w_status w) WPendingSignatures then throw WriteOffInvalidStateTransition
     else if w_authorizedTotal w = None then throw ValidationFailed
     else
       (let items = itemsOfWriteOff db k in
        if items = [] then throw ValidationFailed
        else
          rbind (assertAssets db (map wi_assetId items) (Some k)) (\<lambda>_.
          rbind (resolveWriteOffSigner db WControl (gw_controlSignerPersonId dto)) (\<lambda>control.
          rbind (resolveWriteOffSigner db WAccounting (gw_accountingSignerPersonId dto)) (\<lambda>accounting.
          (let payload = writeOffPayload db k control accounting dto in
           rbind (enqueueAct env payload (Some actorId) db) (\<lambda>(requestId, db1).
             Inr (auditWriteOff ''WRITE_OFF_ACT_REQ'' k actorId
               ([(''documentRequestId'', JStr requestId),
                 (''signers'', JObj (map (\<lambda>(r, p). (r, JStr p)) (dp_signers payload)))] @
                (case dp_signerSubstitutions payload of None \<Rightarrow> []
                 | Some s \<Rightarrow> [(''signerSubstitutions'', s)]))
               (updateWriteOff k (\<lambda>x. x\<lparr>w_status := WPendingSignatures, w_documentRequestId := Some requestId,
                  w_controlPersonId := Some control, w_accountingPersonId := Some accounting,
                  w_generatedBy := Some actorId, w_generatedAt := Some (e_now env)\<rparr>) db1)))))))))"

definition closeWriteOffItem :: "writeOffItem \<Rightarrow> writeOffItem" where
  "closeWriteOffItem i = i\<lparr>wi_open := False\<rparr>"

definition closeWriteOffItems :: "string \<Rightarrow> db \<Rightarrow> db" where
  "closeWriteOffItems k db =
     db\<lparr>db_writeOffItems := update_where (\<lambda>i. wi_writeOffId i = k) closeWriteOffItem (db_writeOffItems db)\<rparr>"

definition cancelWriteOff :: "env \<Rightarrow> string \<Rightarrow> string \<Rightarrow> string \<Rightarrow> db \<Rightarrow> db res" where
  "cancelWriteOff env k reason actorId db =
     (let motive = trim reason in
      if length motive < 5 then throw ValidationFailed
      else
        rbind (lockWriteOff db k) (\<lambda>current.
        if \<not> canWriteOffTransition (w_status current) WCancelled then throw WriteOffInvalidStateTransition
        else if partlySigned db WRITE_OFF_ENTITY_TYPE k then throw WriteOffInvalidStateTransition
        else
          rbind (voidForEntity env WRITE_OFF_ENTITY_TYPE k motive (Some actorId) db) (\<lambda>(cancelled, voided, db1).
            Inr (auditWriteOff ''WRITE_OFF_CANCELLED'' k actorId
              [(''from'', JStr (writeOffStatusText (w_status current))), (''reason'', JStr motive),
               (''cancelledRequestIds'', jStrings cancelled), (''voidedDocumentIds'', jStrings voided)]
              (closeWriteOffItems k (updateWriteOff k (\<lambda>x. x\<lparr>w_status := WCancelled,
                 w_cancelledAt := Some (e_now env), w_cancelledBy := Some actorId,
                 w_cancelReason := Some motive\<rparr>) db1))))))"

section \<open>The act of a write-off\<close>

definition lockWriteOffFor :: "lifecycleEvent \<Rightarrow> db \<Rightarrow> writeOff res" where
  "lockWriteOffFor event db =
     (if lv_formatKey event \<noteq> WRITE_OFF_FORMAT_KEY then throwError
      else if falsy (lv_entityId event) then throwError
      else lockWriteOff db (the (lv_entityId event)))"

definition writeOffGenerated :: lifecycleCallback where
  "writeOffGenerated env event db =
     rbind (lockWriteOffFor event db) (\<lambda>w.
       if w_status w \<noteq> WPendingSignatures \<or> w_documentId w \<noteq> None then throwError
       else Inr (updateWriteOff (w_id w) (\<lambda>x. x\<lparr>w_documentId := Some (lv_documentId event)\<rparr>) db))"

definition linkWriteOffItem :: "string \<Rightarrow> writeOffItem \<Rightarrow> writeOffItem" where
  "linkWriteOffItem m i = i\<lparr>wi_movementId := Some m, wi_open := False\<rparr>"

text \<open>The further write of a written off asset; a movement belongs to one item and one act at most.\<close>

definition linkWriteOffMovement :: "string \<Rightarrow> string \<Rightarrow> string \<Rightarrow> db \<Rightarrow> db res" where
  "linkWriteOffMovement writeOffId documentId assetId db =
     (case movementOf db assetId WriteOff (''writeOffId'', writeOffId) (''documentId'', documentId) of
        None \<Rightarrow> throwError
      | Some m \<Rightarrow>
          (let pendingRow = (\<lambda>r. da_documentId r = documentId \<and> da_assetId r = assetId \<and> da_movementId r = None);
               acts = update_where pendingRow (\<lambda>r. r\<lparr>da_movementId := Some m\<rparr>) (db_documentAssets db)
           in
           if list_ex (\<lambda>i. wi_movementId i = Some m \<and> \<not> (wi_writeOffId i = writeOffId \<and> wi_assetId i = assetId))
                (db_writeOffItems db) then throwError
           else if 1 < length (filter (\<lambda>r. da_movementId r = Some m) acts) then throwError
           else Inr (db\<lparr>db_writeOffItems := update_where (\<lambda>i. wi_writeOffId i = writeOffId \<and> wi_assetId i = assetId)
                  (linkWriteOffItem m) (db_writeOffItems db),
                db_documentAssets := acts\<rparr>)))"

text \<open>\<open>state\<close> and \<open>notes\<close> of the item of an asset.\<close>

definition writeOffChange ::
  "env \<Rightarrow> lifecycleEvent \<Rightarrow> writeOff \<Rightarrow> string \<Rightarrow> (string \<Rightarrow> writeOffItemState \<times> string option) \<Rightarrow> string \<Rightarrow> assetChange" where
  "writeOffChange env event w authorizedBy itemOf assetId =
     \<lparr>c_assetId = assetId, c_actorId = authorizedBy,
      c_patch = noPatch\<lparr>p_operationalStatus := Some WrittenOff,
        p_writtenOffAt := Some (Some (localeIsoDate (e_now env))),
        p_writeOffReason := Some (Some (writeOffItemReason (fst (itemOf assetId)) (snd (itemOf assetId)))),
        p_writeOffDocument := Some (Some (lv_number event)), p_writeOffApprovedBy := Some (Some authorizedBy)\<rparr>,
      c_movement = Some \<lparr>sp_type = WriteOff,
        sp_reason = Some (''Acta de baja de activos '' @ WRITE_OFF_FORMAT_KEY @ '' No. '' @ lv_number event),
        sp_documentReference = Some (lv_number event), sp_executedAt = None, sp_requestedBy = Some (w_createdBy w),
        sp_metadata = Some [(''writeOffId'', JStr (w_id w)), (''documentId'', JStr (lv_documentId event)),
          (''state'', JStr (itemStateText (fst (itemOf assetId))))],
        sp_initial = False\<rparr>,
      c_audit = Some \<lparr>aa_action = ''ASSET_WRITE_OFF'', aa_changes = Some (JObj
        [(''writeOffId'', JStr (w_id w)), (''documentId'', JStr (lv_documentId event)),
         (''documentReference'', JStr (lv_number event)), (''state'', JStr (itemStateText (fst (itemOf assetId))))])\<rparr>,
      c_guard = (\<lambda>current.
        if a_operationalStatus current = WrittenOff \<or> a_operationalStatus current = OnLoan
        then throw AssetCannotBeModified else Inr ()),
      c_alsoWrite = (\<lambda>db _. linkWriteOffMovement (w_id w) (lv_documentId event) assetId db)\<rparr>"

definition pendingItems :: "db \<Rightarrow> string \<Rightarrow> writeOffItem list" where
  "pendingItems db k = filter (\<lambda>i. wi_movementId i = None) (itemsOfWriteOff db k)"

text \<open>The items of a write-off name different assets, so the item of an asset is found by its name.\<close>

definition itemOfAsset :: "writeOffItem list \<Rightarrow> string \<Rightarrow> writeOffItemState \<times> string option" where
  "itemOfAsset items k =
     (case List.find (\<lambda>i. wi_assetId i = k) items of None \<Rightarrow> (Other_item, None) | Some i \<Rightarrow> (wi_state i, wi_notes i))"

definition writeOffSigned :: lifecycleCallback where
  "writeOffSigned env event db =
     rbind (lockWriteOffFor event db) (\<lambda>w.
       if w_documentId w \<noteq> Some (lv_documentId event) then throwError
       else if w_status w = WCompleted then Inr db
       else if w_status w \<noteq> WPendingSignatures then throwError
       else
         (let controlPerson = signersByRole event ''CONTROL_INTERNO'';
              controlUser = (if falsy controlPerson then None else userOfPerson db (the controlPerson));
              authorizedBy = or_keep controlUser (w_createdBy w);
              pending = pendingItems db (w_id w)
          in rbind (applyAll env (writeOffChange env event w authorizedBy (itemOfAsset pending)) db
               (map wi_assetId pending)) (\<lambda>db1.
             Inr (auditWriteOff ''WRITE_OFF_COMPLETED'' (w_id w) authorizedBy
               [(''documentId'', JStr (lv_documentId event)), (''documentNumber'', JStr (lv_number event)),
                (''assets'', jStrings (map wi_assetId (itemsOfWriteOff db (w_id w))))]
               (closeWriteOffItems (w_id w) (updateWriteOff (w_id w)
                 (\<lambda>x. x\<lparr>w_status := WCompleted, w_completedAt := Some (e_now env)\<rparr>) db1))))))"

definition writeOffRejected :: lifecycleCallback where
  "writeOffRejected env event db =
     rbind (lockWriteOffFor event db) (\<lambda>w.
       if w_documentId w \<noteq> Some (lv_documentId event) then throwError
       else if w_status w = WRejected then Inr db
       else if w_status w \<noteq> WPendingSignatures then throwError
       else
         (let rejecter = List.find (\<lambda>s. ds_status s = SRejected) (lv_signers event) in
          Inr (auditWriteOff ''WRITE_OFF_REJECTED'' (w_id w) (w_createdBy w)
            [(''documentId'', JStr (lv_documentId event)), (''documentNumber'', JStr (lv_number event)),
             (''rejectedByPersonId'', nullable (Option.bind rejecter ds_signerPersonId))]
            (closeWriteOffItems (w_id w) (updateWriteOff (w_id w)
              (\<lambda>x. x\<lparr>w_status := WRejected, w_rejectedAt := Some (e_now env)\<rparr>) db)))))"

definition writeOffLifecycle :: lifecycleHandler where
  "writeOffLifecycle =
     \<lparr>lh_entityType = WRITE_OFF_ENTITY_TYPE, lh_onGenerated = Some writeOffGenerated,
      lh_onSigned = Some writeOffSigned, lh_onRejected = Some writeOffRejected,
      lh_formats = [\<lparr>pb_formatKey = WRITE_OFF_FORMAT_KEY, pb_process = ''Bajas de activos'',
        pb_signers = RequiredSigners WRITE_OFF_SIGNER_SOURCES\<rparr>]\<rparr>"

section \<open>The interfaces a write-off meets\<close>

fun writeOffStage :: "writeOffStatus \<Rightarrow> stage" where
  "writeOffStage WDraft = Running"
| "writeOffStage WPendingSignatures = Running"
| "writeOffStage WCompleted = Done"
| "writeOffStage WRejected = Ended"
| "writeOffStage WCancelled = Ended"

definition writeOffHeld :: "writeOffItem \<Rightarrow> heldItem" where
  "writeOffHeld i = \<lparr>hd_owner = wi_writeOffId i, hd_asset = wi_assetId i, hd_open = wi_open i,
     hd_movement = wi_movementId i\<rparr>"

definition writeOffProcess :: "db \<Rightarrow> process" where
  "writeOffProcess db =
     processOf w_id (\<lambda>w. writeOffStage (w_status w)) writeOffHeld (db_writeOffs db) (db_writeOffItems db) db"

lemma writeOffHeld_simps [simp]:
  "hd_owner (writeOffHeld i) = wi_writeOffId i" "hd_asset (writeOffHeld i) = wi_assetId i"
  "hd_open (writeOffHeld i) = wi_open i" "hd_movement (writeOffHeld i) = wi_movementId i"
  by (simp_all add: writeOffHeld_def)

interpretation writeOffOpen: openItems db_writeOffItems "\<lambda>t db. db\<lparr>db_writeOffItems := t\<rparr>" wi_writeOffId wi_assetId
    wi_open closeWriteOffItem
  by unfold_locales (simp_all add: closeWriteOffItem_def)

lemma linkWriteOffMovement_Inr:
  assumes "linkWriteOffMovement writeOffId documentId assetId db = Inr db'"
  obtains m where "movementOf db assetId WriteOff (''writeOffId'', writeOffId) (''documentId'', documentId) = Some m"
    "db_writeOffItems db' = update_where (\<lambda>i. wi_writeOffId i = writeOffId \<and> wi_assetId i = assetId)
       (linkWriteOffItem m) (db_writeOffItems db)"
    "db_assets db' = db_assets db" "db_movements db' = db_movements db" "db_seq db' = db_seq db"
    "db_writeOffs db' = db_writeOffs db"
  using assms
  by (cases "movementOf db assetId WriteOff (''writeOffId'', writeOffId) (''documentId'', documentId)")
    (auto simp: linkWriteOffMovement_def Let_def split: if_splits)

lemma writeOffChange_writes:
  "c_alsoWrite (writeOffChange env event w authorizedBy itemOf k) db a =
   linkWriteOffMovement (w_id w) (lv_documentId event) k db"
  by (simp add: writeOffChange_def)

interpretation writeOffCustody: custodyProcess WriteOff db_writeOffs w_id "\<lambda>w. writeOffStage (w_status w)"
    db_writeOffItems writeOffHeld closeWriteOffItem linkWriteOffItem
  by unfold_locales (simp_all add: writeOffHeld_def closeWriteOffItem_def linkWriteOffItem_def shut_def)

interpretation writeOffMoving: movingProcess WriteOff db_writeOffs w_id "\<lambda>w. writeOffStage (w_status w)"
    db_writeOffItems writeOffHeld closeWriteOffItem linkWriteOffItem env
    "writeOffChange env event w authorizedBy itemOf" "w_id w"
  for env event w authorizedBy itemOf
proof
  fix k db a db'
  assume "c_alsoWrite (writeOffChange env event w authorizedBy itemOf k) db a = Inr db'"
  then have "linkWriteOffMovement (w_id w) (lv_documentId event) k db = Inr db'"
    unfolding writeOffChange_writes .
  then obtain m where m: "movementOf db k WriteOff (''writeOffId'', w_id w) (''documentId'', lv_documentId event) = Some m"
    "db_writeOffItems db' = update_where (\<lambda>i. wi_writeOffId i = w_id w \<and> wi_assetId i = k)
       (linkWriteOffItem m) (db_writeOffItems db)"
    "db_assets db' = db_assets db" "db_movements db' = db_movements db" "db_seq db' = db_seq db"
    "db_writeOffs db' = db_writeOffs db"
    by (rule linkWriteOffMovement_Inr)
  obtain v where "v \<in> set (db_movements db)" "m_assetId v = k" "m_movementType v = WriteOff" "m_id v = m"
    using m(1) by (rule movementOf_Some)
  then show "db_writeOffs db' = db_writeOffs db \<and> (\<exists>m\<in>set (db_movements db). m_assetId m = k \<and>
      m_movementType m = WriteOff \<and> db_writeOffItems db' = update_where
        (\<lambda>r. hd_owner (writeOffHeld r) = w_id w \<and> hd_asset (writeOffHeld r) = k) (linkWriteOffItem (m_id m))
        (db_writeOffItems db))"
    using m(2,6) by auto
  show "db_assets db' = db_assets db \<and> db_movements db' = db_movements db \<and> db_seq db' = db_seq db"
    using m(3-5) by simp
qed (simp_all add: writeOffChange_def)

section \<open>The steps of write-offs\<close>

abbreviation writeOffFollows :: "db \<Rightarrow> db \<Rightarrow> bool" where
  "writeOffFollows db db' \<equiv> advances w_id w_status canWriteOffTransition (db_writeOffs db) (db_writeOffs db')"

lemma lockWriteOff_Inr:
  "lockWriteOff db k = Inr w \<Longrightarrow> w \<in> set (db_writeOffs db) \<and> w_id w = k"
  unfolding lockWriteOff_def by (auto split: option.splits if_splits dest: find_SomeD)

lemma lockWriteOffFor_Inr:
  "lockWriteOffFor event db = Inr w \<Longrightarrow> w \<in> set (db_writeOffs db) \<and> lv_entityId event = Some (w_id w)"
  unfolding lockWriteOffFor_def
  by (cases "lv_entityId event") (auto split: if_splits dest!: lockWriteOff_Inr)

lemma canWriteOffTransition_cases:
  "canWriteOffTransition s u \<longleftrightarrow> (s = WDraft \<and> u \<in> {WPendingSignatures, WCancelled}) \<or>
     (s = WPendingSignatures \<and> u \<in> {WCompleted, WRejected, WCancelled})"
  by (cases s) (auto simp: canWriteOffTransition_def)

lemma writeOffProcess_heads:
  "distinct (map fst (ps_heads (writeOffProcess db))) = distinct (map w_id (db_writeOffs db))"
  by (simp add: writeOffProcess_def processOf_def comp_def)

lemma auditWriteOff_frame [simp]:
  "db_writeOffs (auditWriteOff a k u c db) = db_writeOffs db"
  "db_writeOffItems (auditWriteOff a k u c db) = db_writeOffItems db"
  "db_movements (auditWriteOff a k u c db) = db_movements db" "db_seq (auditWriteOff a k u c db) = db_seq db"
  "db_assets (auditWriteOff a k u c db) = db_assets db" "db_documents (auditWriteOff a k u c db) = db_documents db"
  "db_documentRequests (auditWriteOff a k u c db) = db_documentRequests db"
  by (simp_all add: auditWriteOff_def)

lemma updateWriteOff_frame [simp]:
  "db_writeOffs (updateWriteOff k f db) = update_where (\<lambda>w. w_id w = k) f (db_writeOffs db)"
  "db_writeOffItems (updateWriteOff k f db) = db_writeOffItems db"
  "db_movements (updateWriteOff k f db) = db_movements db" "db_seq (updateWriteOff k f db) = db_seq db"
  "db_assets (updateWriteOff k f db) = db_assets db" "db_documents (updateWriteOff k f db) = db_documents db"
  "db_documentRequests (updateWriteOff k f db) = db_documentRequests db"
  by (simp_all add: updateWriteOff_def)

lemma closeWriteOffItems_frame [simp]:
  "db_writeOffs (closeWriteOffItems k db) = db_writeOffs db"
  "db_writeOffItems (closeWriteOffItems k db) =
     update_where (\<lambda>i. wi_writeOffId i = k) closeWriteOffItem (db_writeOffItems db)"
  "db_movements (closeWriteOffItems k db) = db_movements db" "db_seq (closeWriteOffItems k db) = db_seq db"
  "db_assets (closeWriteOffItems k db) = db_assets db" "db_documents (closeWriteOffItems k db) = db_documents db"
  "db_documentRequests (closeWriteOffItems k db) = db_documentRequests db"
  by (simp_all add: closeWriteOffItems_def)

lemma insertWriteOffItem_Inr:
  "insertWriteOffItem db k rows x = Inr rows' \<Longrightarrow> rows' = rows \<or>
     (\<exists>r. insertOpen wi_assetId wi_open AssetInOpenWriteOff rows r = Inr rows' \<and>
       hd_owner (writeOffHeld r) = k \<and> hd_open (writeOffHeld r) \<and> hd_movement (writeOffHeld r) = None)"
  unfolding insertWriteOffItem_def Let_def
  by (force simp: writeOffItemRow_def split: option.splits if_splits)

lemma insertWriteOffItems_Inr:
  assumes "insertWriteOffItems k items db = Inr db'"
  obtains new where "db' = db\<lparr>db_writeOffItems := db_writeOffItems db @ new\<rparr>"
    "takes (map writeOffHeld (db_writeOffItems db)) k (map writeOffHeld new)"
proof -
  obtain rows where rows: "foldM (insertWriteOffItem db k) (db_writeOffItems db)
      (zip [1..<Suc (length items)] items) = Inr rows" "db' = db\<lparr>db_writeOffItems := rows\<rparr>"
    using assms by (auto simp: insertWriteOffItems_def res_simps)
  have "\<exists>new. rows = db_writeOffItems db @ new \<and>
      takes (map writeOffHeld (db_writeOffItems db)) k (map writeOffHeld new)"
    by (rule foldM_takes [OF rows(1), of wi_assetId wi_open AssetInOpenWriteOff])
      (use insertWriteOffItem_Inr in blast, simp_all)
  then show thesis using that rows(2) by blast
qed

lemma createWriteOff_Inr:
  assumes "createWriteOff env dto actorId db = Inr (k, db')"
  obtains db1 c where "k = freshId env db" "assertAssets db (map wx_assetId (cw_items dto)) None = Inr ()"
    "insertWriteOffItems k (cw_items dto) (bumpSeq (db\<lparr>db_writeOffs := db_writeOffs db @ [writeOffRow k dto actorId]\<rparr>)) = Inr db1"
    "db' = auditWriteOff ''WRITE_OFF_CREATED'' k actorId c db1"
  using assms unfolding createWriteOff_def Let_def by (auto simp: res_simps intro: that)

lemma createWriteOff_step:
  assumes "createWriteOff env dto actorId db = Inr (k, db')"
  shows "processStep WriteOff (e_uuid env) (writeOffProcess db) (writeOffProcess db')" "writeOffFollows db db'"
proof -
  obtain db1 c where run: "k = freshId env db" "assertAssets db (map wx_assetId (cw_items dto)) None = Inr ()"
    "insertWriteOffItems k (cw_items dto) (bumpSeq (db\<lparr>db_writeOffs := db_writeOffs db @ [writeOffRow k dto actorId]\<rparr>)) = Inr db1"
    "db' = auditWriteOff ''WRITE_OFF_CREATED'' k actorId c db1"
    using assms by (rule createWriteOff_Inr)
  define w where "w = writeOffRow k dto actorId"
  have w: "w_id w = freshId env db" "w_status w = WDraft" by (simp_all add: w_def writeOffRow_def run(1))
  obtain new where new: "db1 = (bumpSeq (db\<lparr>db_writeOffs := db_writeOffs db @ [w]\<rparr>))\<lparr>db_writeOffItems :=
      db_writeOffItems (bumpSeq (db\<lparr>db_writeOffs := db_writeOffs db @ [w]\<rparr>)) @ new\<rparr>"
    "takes (map writeOffHeld (db_writeOffItems (bumpSeq (db\<lparr>db_writeOffs := db_writeOffs db @ [w]\<rparr>)))) k
       (map writeOffHeld new)"
    using run(3) unfolding w_def [symmetric] by (rule insertWriteOffItems_Inr)
  show "writeOffFollows db db'" by (simp add: new(1) run(4) advances_append)
  show "processStep WriteOff (e_uuid env) (writeOffProcess db) (writeOffProcess db')"
    unfolding writeOffProcess_def
    by (rule writeOffCustody.opens [of _ _ w _ "db_seq db" new])
      (use w run(1,4) new in \<open>simp_all add: freshId_def\<close>)
qed

lemma editWriteOff_Inr:
  assumes "editWriteOff k dto actorId db = Inr db'"
  obtains w db2 c where "w \<in> set (db_writeOffs db)" "w_id w = k" "w_status w = WDraft"
    "db' = auditWriteOff ''WRITE_OFF_UPDATED'' k actorId c (updateWriteOff k (editedWriteOff dto) db2)"
    "db2 = db \<or> (\<exists>items. assertAssets (db\<lparr>db_writeOffItems := filter (\<lambda>i. wi_writeOffId i \<noteq> k) (db_writeOffItems db)\<rparr>)
         (map wx_assetId items) (Some k) = Inr () \<and>
       insertWriteOffItems k items (db\<lparr>db_writeOffItems := filter (\<lambda>i. wi_writeOffId i \<noteq> k) (db_writeOffItems db)\<rparr>) = Inr db2)"
proof -
  obtain w db2 where run: "lockWriteOff db k = Inr w" "isWriteOffEditable (w_status w)"
    "(case uw_items dto of None \<Rightarrow> Inr db
      | Some items \<Rightarrow>
          (let db1 = db\<lparr>db_writeOffItems := filter (\<lambda>i. wi_writeOffId i \<noteq> k) (db_writeOffItems db)\<rparr> in
           rbind (assertAssets db1 (map wx_assetId items) (Some k)) (\<lambda>_. insertWriteOffItems k items db1))) = Inr db2"
    "\<exists>c. db' = auditWriteOff ''WRITE_OFF_UPDATED'' k actorId c (updateWriteOff k (editedWriteOff dto) db2)"
    using assms unfolding editWriteOff_def rbind_eq_Inr guard_eq_Inr by blast
  have "db2 = db \<or> (\<exists>items. assertAssets (db\<lparr>db_writeOffItems := filter (\<lambda>i. wi_writeOffId i \<noteq> k) (db_writeOffItems db)\<rparr>)
         (map wx_assetId items) (Some k) = Inr () \<and>
       insertWriteOffItems k items (db\<lparr>db_writeOffItems := filter (\<lambda>i. wi_writeOffId i \<noteq> k) (db_writeOffItems db)\<rparr>) = Inr db2)"
    using run(3) by (cases "uw_items dto") (auto simp: Let_def res_simps)
  then show thesis using that lockWriteOff_Inr [OF run(1)] run(2,4) by (auto simp: isWriteOffEditable_def)
qed

lemma editedWriteOff_head [simp]: "w_id (editedWriteOff dto w) = w_id w" "w_status (editedWriteOff dto w) = w_status w"
  by (simp_all add: editedWriteOff_def)

lemma editWriteOff_step:
  assumes "editWriteOff k dto actorId db = Inr db'"
  shows "processStep WriteOff uuid (writeOffProcess db) (writeOffProcess db')" "writeOffFollows db db'"
proof -
  obtain w db2 c where run: "w \<in> set (db_writeOffs db)" "w_id w = k" "w_status w = WDraft"
    "db' = auditWriteOff ''WRITE_OFF_UPDATED'' k actorId c (updateWriteOff k (editedWriteOff dto) db2)"
    "db2 = db \<or> (\<exists>items. assertAssets (db\<lparr>db_writeOffItems := filter (\<lambda>i. wi_writeOffId i \<noteq> k) (db_writeOffItems db)\<rparr>)
         (map wx_assetId items) (Some k) = Inr () \<and>
       insertWriteOffItems k items (db\<lparr>db_writeOffItems := filter (\<lambda>i. wi_writeOffId i \<noteq> k) (db_writeOffItems db)\<rparr>) = Inr db2)"
    using assms by (rule editWriteOff_Inr)
  have heads: "map (\<lambda>h. (w_id h, writeOffStage (w_status h))) (db_writeOffs (updateWriteOff k (editedWriteOff dto) d)) =
      map (\<lambda>h. (w_id h, writeOffStage (w_status h))) (db_writeOffs d)" for d
    by (simp add: update_where_def)
  from run(5) have "processStep WriteOff uuid (writeOffProcess db) (writeOffProcess db') \<and> db_writeOffs db2 = db_writeOffs db"
  proof
    assume same: "db2 = db"
    have "processStep WriteOff uuid (writeOffProcess db) (writeOffProcess db')"
      unfolding writeOffProcess_def
      by (rule writeOffCustody.waits) (use heads [of db] in \<open>simp_all add: run(4) same\<close>)
    then show ?thesis using same by simp
  next
    let ?kept = "db\<lparr>db_writeOffItems := filter (\<lambda>i. wi_writeOffId i \<noteq> k) (db_writeOffItems db)\<rparr>"
    assume "\<exists>items. assertAssets ?kept (map wx_assetId items) (Some k) = Inr () \<and> insertWriteOffItems k items ?kept = Inr db2"
    then obtain items where "insertWriteOffItems k items ?kept = Inr db2" by blast
    then obtain new where new: "db2 = ?kept\<lparr>db_writeOffItems := db_writeOffItems ?kept @ new\<rparr>"
      "takes (map writeOffHeld (db_writeOffItems ?kept)) k (map writeOffHeld new)"
      by (rule insertWriteOffItems_Inr)
    have "processStep WriteOff uuid (writeOffProcess db) (writeOffProcess db')"
      unfolding writeOffProcess_def
    proof (rule writeOffCustody.changes [OF run(1,2), of _ new])
      show "map (\<lambda>h. (w_id h, writeOffStage (w_status h))) (db_writeOffs db') =
          map (\<lambda>h. (w_id h, writeOffStage (w_status h))) (db_writeOffs db)"
        using heads [of db2] by (simp add: run(4) new(1))
    qed (use new run(3) in \<open>simp_all add: run(4)\<close>)
    then show ?thesis using new(1) by simp
  qed
  then show "processStep WriteOff uuid (writeOffProcess db) (writeOffProcess db')" "writeOffFollows db db'"
    unfolding run(4) by (simp_all add: advances_update)
qed

lemma generateWriteOff_Inr:
  assumes "generateWriteOff env k dto actorId db = Inr db'"
  obtains w payload requestId db1 control accounting c where "w \<in> set (db_writeOffs db)" "w_id w = k"
    "canWriteOffTransition (w_status w) WPendingSignatures" "w_authorizedTotal w \<noteq> None"
    "enqueueAct env payload (Some actorId) db = Inr (requestId, db1)"
    "db' = auditWriteOff ''WRITE_OFF_ACT_REQ'' k actorId c
       (updateWriteOff k (\<lambda>x. x\<lparr>w_status := WPendingSignatures, w_documentRequestId := Some requestId,
          w_controlPersonId := Some control, w_accountingPersonId := Some accounting,
          w_generatedBy := Some actorId, w_generatedAt := Some (e_now env)\<rparr>) db1)"
  using assms unfolding generateWriteOff_def Let_def
  by (auto simp: res_simps split: prod.splits dest!: lockWriteOff_Inr intro: that)

lemma generateWriteOff_step:
  assumes "generateWriteOff env k dto actorId db = Inr db'" "distinct (map w_id (db_writeOffs db))"
  shows "processStep WriteOff uuid (writeOffProcess db) (writeOffProcess db')" "writeOffFollows db db'"
proof -
  obtain w payload requestId db1 control accounting c where run: "w \<in> set (db_writeOffs db)" "w_id w = k"
    "canWriteOffTransition (w_status w) WPendingSignatures" "w_authorizedTotal w \<noteq> None"
    "enqueueAct env payload (Some actorId) db = Inr (requestId, db1)"
    "db' = auditWriteOff ''WRITE_OFF_ACT_REQ'' k actorId c
       (updateWriteOff k (\<lambda>x. x\<lparr>w_status := WPendingSignatures, w_documentRequestId := Some requestId,
          w_controlPersonId := Some control, w_accountingPersonId := Some accounting,
          w_generatedBy := Some actorId, w_generatedAt := Some (e_now env)\<rparr>) db1)"
    using assms(1) by (rule generateWriteOff_Inr)
  have same: "sameCustody db db1" using run(5) by (rule enqueueAct_Inr(4))
  have draft: "w_status w = WDraft" using run(3) by (simp add: canWriteOffTransition_cases)
  define f where "f = (\<lambda>x :: writeOff. x\<lparr>w_status := WPendingSignatures, w_documentRequestId := Some requestId,
     w_controlPersonId := Some control, w_accountingPersonId := Some accounting,
     w_generatedBy := Some actorId, w_generatedAt := Some (e_now env)\<rparr>)"
  have f: "w_id (f u) = w_id u" "w_status (f u) = WPendingSignatures" for u by (simp_all add: f_def)
  have rows: "db_writeOffs db' = update_where (\<lambda>u. w_id u = w_id w) f (db_writeOffs db)"
    using same by (simp add: run(2,6) sameCustody_def f_def)
  show "processStep WriteOff uuid (writeOffProcess db) (writeOffProcess db')"
    unfolding writeOffProcess_def
  proof (rule writeOffCustody.waits)
    show "map (\<lambda>h. (w_id h, writeOffStage (w_status h))) (db_writeOffs db') =
        map (\<lambda>h. (w_id h, writeOffStage (w_status h))) (db_writeOffs db)"
      unfolding rows by (rule same_stage [OF assms(2) run(1) f(1)]) (simp add: f(2) draft)
  qed (use same in \<open>simp_all add: run(6) sameCustody_def\<close>)
  show "writeOffFollows db db'"
    unfolding rows by (rule advances_update_only [OF assms(2) run(1) f(1)]) (simp add: f(2) run(3))
qed

lemma cancelWriteOff_Inr:
  assumes "cancelWriteOff env k reason actorId db = Inr db'"
  obtains w cancelled voided db1 c where "w \<in> set (db_writeOffs db)" "w_id w = k"
    "canWriteOffTransition (w_status w) WCancelled" "\<not> partlySigned db WRITE_OFF_ENTITY_TYPE k"
    "voidForEntity env WRITE_OFF_ENTITY_TYPE k (trim reason) (Some actorId) db = Inr (cancelled, voided, db1)"
    "db' = auditWriteOff ''WRITE_OFF_CANCELLED'' k actorId c
       (closeWriteOffItems k (updateWriteOff k (\<lambda>x. x\<lparr>w_status := WCancelled, w_cancelledAt := Some (e_now env),
          w_cancelledBy := Some actorId, w_cancelReason := Some (trim reason)\<rparr>) db1))"
  using assms unfolding cancelWriteOff_def Let_def
  by (auto simp: res_simps split: prod.splits dest!: lockWriteOff_Inr intro: that)

lemma cancelWriteOff_step:
  assumes "cancelWriteOff env k reason actorId db = Inr db'" "distinct (map w_id (db_writeOffs db))"
  shows "processStep WriteOff uuid (writeOffProcess db) (writeOffProcess db')" "writeOffFollows db db'"
proof -
  obtain w cancelled voided db1 c where run: "w \<in> set (db_writeOffs db)" "w_id w = k"
    "canWriteOffTransition (w_status w) WCancelled" "\<not> partlySigned db WRITE_OFF_ENTITY_TYPE k"
    "voidForEntity env WRITE_OFF_ENTITY_TYPE k (trim reason) (Some actorId) db = Inr (cancelled, voided, db1)"
    "db' = auditWriteOff ''WRITE_OFF_CANCELLED'' k actorId c
       (closeWriteOffItems k (updateWriteOff k (\<lambda>x. x\<lparr>w_status := WCancelled, w_cancelledAt := Some (e_now env),
          w_cancelledBy := Some actorId, w_cancelReason := Some (trim reason)\<rparr>) db1))"
    using assms(1) by (rule cancelWriteOff_Inr)
  have same: "sameCustody db db1" using run(5) by (rule voidForEntity_custody)
  have running: "writeOffStage (w_status w) = Running"
    using run(3) by (auto simp: canWriteOffTransition_cases)
  show "processStep WriteOff uuid (writeOffProcess db) (writeOffProcess db')"
    unfolding writeOffProcess_def
    by (rule writeOffCustody.gives_up [OF run(1,2) running, of _ "\<lambda>x. x\<lparr>w_status := WCancelled,
          w_cancelledAt := Some (e_now env), w_cancelledBy := Some actorId, w_cancelReason := Some (trim reason)\<rparr>"])
      (use same in \<open>simp_all add: run(6) sameCustody_def\<close>)
  show "writeOffFollows db db'"
    using advances_update_only [OF assms(2) run(1), of "\<lambda>x. x\<lparr>w_status := WCancelled, w_cancelledAt := Some (e_now env),
        w_cancelledBy := Some actorId, w_cancelReason := Some (trim reason)\<rparr>" canWriteOffTransition w_status]
      same run(2,3) by (simp add: run(6) sameCustody_def)
qed

lemma writeOffGenerated_step:
  assumes "writeOffGenerated env event db = Inr db'"
  shows "processStep WriteOff uuid (writeOffProcess db) (writeOffProcess db')" "writeOffFollows db db'"
proof -
  obtain w :: writeOff where "Inr (updateWriteOff (w_id w) (\<lambda>x. x\<lparr>w_documentId := Some (lv_documentId event)\<rparr>) db) = (Inr db' :: db res)"
    using assms unfolding writeOffGenerated_def res_simps by blast
  then have w: "db' = updateWriteOff (w_id w) (\<lambda>x. x\<lparr>w_documentId := Some (lv_documentId event)\<rparr>) db" by simp
  show "processStep WriteOff uuid (writeOffProcess db) (writeOffProcess db')"
    unfolding writeOffProcess_def
  proof (rule writeOffCustody.waits)
    show "map (\<lambda>h. (w_id h, writeOffStage (w_status h))) (db_writeOffs db') =
        map (\<lambda>h. (w_id h, writeOffStage (w_status h))) (db_writeOffs db)"
      by (simp add: w update_where_def)
  qed (simp_all add: w)
  show "writeOffFollows db db'" unfolding w updateWriteOff_frame(1) by (rule advances_update) simp
qed

lemma writeOffRejected_Inr:
  assumes "writeOffRejected env event db = Inr db'" "db' \<noteq> db"
  obtains w c where "w \<in> set (db_writeOffs db)" "lv_entityId event = Some (w_id w)" "w_status w = WPendingSignatures"
    "w_documentId w = Some (lv_documentId event)"
    "db' = auditWriteOff ''WRITE_OFF_REJECTED'' (w_id w) (w_createdBy w) c
       (closeWriteOffItems (w_id w) (updateWriteOff (w_id w)
         (\<lambda>x. x\<lparr>w_status := WRejected, w_rejectedAt := Some (e_now env)\<rparr>) db))"
  using assms unfolding writeOffRejected_def Let_def
  by (auto simp: res_simps split: if_splits dest!: lockWriteOffFor_Inr intro: that)

lemma writeOffRejected_step:
  assumes "writeOffRejected env event db = Inr db'" "distinct (map w_id (db_writeOffs db))"
  shows "processStep WriteOff uuid (writeOffProcess db) (writeOffProcess db') \<and> writeOffFollows db db'"
proof (cases "db' = db")
  case True
  then show ?thesis using Waited [of "writeOffProcess db" "writeOffProcess db" WriteOff uuid] by (simp add: advances_refl)
next
  case False
  obtain w c where run: "w \<in> set (db_writeOffs db)" "lv_entityId event = Some (w_id w)" "w_status w = WPendingSignatures"
    "w_documentId w = Some (lv_documentId event)"
    "db' = auditWriteOff ''WRITE_OFF_REJECTED'' (w_id w) (w_createdBy w) c
       (closeWriteOffItems (w_id w) (updateWriteOff (w_id w)
         (\<lambda>x. x\<lparr>w_status := WRejected, w_rejectedAt := Some (e_now env)\<rparr>) db))"
    using assms(1) False by (rule writeOffRejected_Inr)
  have running: "writeOffStage (w_status w) = Running" by (simp add: run(3))
  have "processStep WriteOff uuid (writeOffProcess db) (writeOffProcess db')"
    unfolding writeOffProcess_def
    by (rule writeOffCustody.gives_up [OF run(1) refl running, of _ "\<lambda>x. x\<lparr>w_status := WRejected,
          w_rejectedAt := Some (e_now env)\<rparr>"]) (simp_all add: run(5))
  moreover have "writeOffFollows db db'"
    using advances_update_only [OF assms(2) run(1), of "\<lambda>x. x\<lparr>w_status := WRejected, w_rejectedAt := Some (e_now env)\<rparr>"
        canWriteOffTransition w_status] run(3) by (simp add: run(5) canWriteOffTransition_cases)
  ultimately show ?thesis by blast
qed

lemma writeOffSigned_Inr:
  assumes "writeOffSigned env event db = Inr db'" "db' \<noteq> db"
  obtains w authorizedBy db1 c where "w \<in> set (db_writeOffs db)" "lv_entityId event = Some (w_id w)"
    "w_status w = WPendingSignatures" "w_documentId w = Some (lv_documentId event)"
    "applyAll env (writeOffChange env event w authorizedBy (itemOfAsset (pendingItems db (w_id w)))) db
       (map wi_assetId (pendingItems db (w_id w))) = Inr db1"
    "db' = auditWriteOff ''WRITE_OFF_COMPLETED'' (w_id w) authorizedBy c
       (closeWriteOffItems (w_id w) (updateWriteOff (w_id w)
         (\<lambda>x. x\<lparr>w_status := WCompleted, w_completedAt := Some (e_now env)\<rparr>) db1))"
  using assms unfolding writeOffSigned_def Let_def
  by (auto simp: res_simps split: if_splits dest!: lockWriteOffFor_Inr intro: that)

lemma pendingItems_set:
  "set (pendingItems db k) = {i \<in> set (db_writeOffItems db). wi_writeOffId i = k \<and> wi_movementId i = None}"
  unfolding pendingItems_def itemsOfWriteOff_def by auto

lemma writeOffMoving_abstract: "writeOffMoving.abstractOf = writeOffProcess"
  by (rule ext) (simp add: writeOffMoving.abstractOf_def writeOffProcess_def)

lemma writeOffSigned_step:
  assumes run: "writeOffSigned env event db = Inr db'" and inj: "inj uuid"
    and inv: "processInv WriteOff uuid (writeOffProcess db)"
  shows "processRun WriteOff uuid (writeOffProcess db) (writeOffProcess db') \<and> writeOffFollows db db'"
proof (cases "db' = db")
  case True
  then show ?thesis by (simp add: advances_refl)
next
  case False
  obtain w authorizedBy db1 c where s: "w \<in> set (db_writeOffs db)" "lv_entityId event = Some (w_id w)"
    "w_status w = WPendingSignatures" "w_documentId w = Some (lv_documentId event)"
    "applyAll env (writeOffChange env event w authorizedBy (itemOfAsset (pendingItems db (w_id w)))) db
       (map wi_assetId (pendingItems db (w_id w))) = Inr db1"
    "db' = auditWriteOff ''WRITE_OFF_COMPLETED'' (w_id w) authorizedBy c
       (closeWriteOffItems (w_id w) (updateWriteOff (w_id w)
         (\<lambda>x. x\<lparr>w_status := WCompleted, w_completedAt := Some (e_now env)\<rparr>) db1))"
    using run False by (rule writeOffSigned_Inr)
  have running: "writeOffStage (w_status w) = Running" by (simp add: s(3))
  note moved = writeOffMoving.all_moved [OF s(1) refl running s(5)]
  have run1: "processRun WriteOff uuid (writeOffProcess db) (writeOffProcess db1)"
    using moved(2) unfolding writeOffMoving_abstract .
  have ready: "list_all (\<lambda>r. wi_writeOffId r = w_id w \<longrightarrow>
      hasMovement WriteOff (db_movements db1) (writeOffHeld r)) (db_writeOffItems db1)"
    by (rule writeOffMoving.all_items_moved [OF inj _ s(1) refl running s(5), simplified])
      (use inv in \<open>auto simp: writeOffMoving_abstract pendingItems_set\<close>)
  have "processStep WriteOff uuid (writeOffProcess db1) (writeOffProcess db')"
    unfolding writeOffProcess_def
    by (rule writeOffCustody.finishes [of w _ "w_id w" _ "\<lambda>x. x\<lparr>w_status := WCompleted, w_completedAt := Some (e_now env)\<rparr>"])
      (use s(1) running ready moved(1) in \<open>simp_all add: s(6)\<close>)
  moreover have "writeOffFollows db db'"
  proof -
    have "distinct (map w_id (db_writeOffs db))" using processInvD(1) [OF inv] unfolding writeOffProcess_heads .
    from advances_update_only [OF this s(1), of "\<lambda>x. x\<lparr>w_status := WCompleted, w_completedAt := Some (e_now env)\<rparr>"
        canWriteOffTransition w_status]
    show ?thesis using s(3) by (simp add: s(6) moved(1) canWriteOffTransition_cases)
  qed
  ultimately show ?thesis using rtranclp.rtrancl_into_rtrancl [of "processStep WriteOff uuid", OF run1] by blast
qed

section \<open>Reachable write-offs\<close>

inductive writeOffStep :: "(nat \<Rightarrow> string) \<Rightarrow> db \<Rightarrow> db \<Rightarrow> bool" for uuid where
  WriteOffCreated: "e_uuid env = uuid \<Longrightarrow> createWriteOff env dto actorId db = Inr (k, db') \<Longrightarrow> writeOffStep uuid db db'"
| WriteOffEdited: "editWriteOff k edit actorId db = Inr db' \<Longrightarrow> writeOffStep uuid db db'"
| WriteOffActAsked: "generateWriteOff env k asked actorId db = Inr db' \<Longrightarrow> writeOffStep uuid db db'"
| WriteOffWithdrawn: "cancelWriteOff env k reason actorId db = Inr db' \<Longrightarrow> writeOffStep uuid db db'"
| WriteOffActIssued: "writeOffGenerated env event db = Inr db' \<Longrightarrow> writeOffStep uuid db db'"
| WriteOffActSigned: "writeOffSigned env event db = Inr db' \<Longrightarrow> writeOffStep uuid db db'"
| WriteOffActRejected: "writeOffRejected env event db = Inr db' \<Longrightarrow> writeOffStep uuid db db'"
| OutsideWriteOffs: "db_writeOffs db' = db_writeOffs db \<Longrightarrow> db_writeOffItems db' = db_writeOffItems db \<Longrightarrow>
    set (db_movements db) \<subseteq> set (db_movements db') \<Longrightarrow> db_seq db \<le> db_seq db' \<Longrightarrow> writeOffStep uuid db db'"

abbreviation writeOffReachable :: "(nat \<Rightarrow> string) \<Rightarrow> db \<Rightarrow> db \<Rightarrow> bool" where
  "writeOffReachable uuid \<equiv> (writeOffStep uuid)\<^sup>*\<^sup>*"

lemma writeOffStep_sound:
  assumes step: "writeOffStep uuid db db'" and inj: "inj uuid" and inv: "processInv WriteOff uuid (writeOffProcess db)"
  shows "processRun WriteOff uuid (writeOffProcess db) (writeOffProcess db') \<and> writeOffFollows db db'"
proof -
  have ids: "distinct (map w_id (db_writeOffs db))" using processInvD(1) [OF inv] unfolding writeOffProcess_heads .
  show ?thesis
    using step
  proof (cases rule: writeOffStep.cases)
    case (WriteOffCreated env dto actorId k)
    show ?thesis using createWriteOff_step [OF WriteOffCreated(2)] unfolding WriteOffCreated(1) by blast
  next
    case (WriteOffEdited k edit actorId)
    then show ?thesis using editWriteOff_step by blast
  next
    case (WriteOffActAsked env k asked actorId)
    then show ?thesis using generateWriteOff_step [OF _ ids] by blast
  next
    case (WriteOffWithdrawn env k reason actorId)
    then show ?thesis using cancelWriteOff_step [OF _ ids] by blast
  next
    case (WriteOffActIssued env event)
    then show ?thesis using writeOffGenerated_step by blast
  next
    case (WriteOffActSigned env event)
    then show ?thesis using writeOffSigned_step [OF _ inj inv] by blast
  next
    case (WriteOffActRejected env event)
    then show ?thesis using writeOffRejected_step [OF _ ids] by blast
  next
    case OutsideWriteOffs
    have "processStep WriteOff uuid (writeOffProcess db) (writeOffProcess db')"
      unfolding writeOffProcess_def by (rule writeOffCustody.waits) (use OutsideWriteOffs in simp_all)
    then show ?thesis using OutsideWriteOffs(1) by (simp add: advances_refl r_into_rtranclp)
  qed
qed

lemma writeOffReachable_inv:
  assumes "writeOffReachable uuid db db'" "inj uuid" "processInv WriteOff uuid (writeOffProcess db)"
  shows "processInv WriteOff uuid (writeOffProcess db')"
  using assms(1,3)
proof (induction rule: rtranclp_induct)
  case base
  then show ?case .
next
  case (step d d')
  have "processRun WriteOff uuid (writeOffProcess d) (writeOffProcess d')"
    using writeOffStep_sound [OF step.hyps(2) assms(2) step.IH [OF step.prems]] by blast
  then show ?case by (rule processRun_inv [OF assms(2) _ step.IH [OF step.prems]])
qed

section \<open>Properties\<close>

text \<open>
  C4. Write-offs implement the abstract custody process. In any state their operations reach, an asset is
  in one open write-off at most, only a write-off in draft or waiting for signatures holds assets, every
  item of a completed write-off has its own write-off movement in the ledger, and a step only changes the
  status of a write-off along the table of \<open>canWriteOffTransition\<close>.
\<close>

theorem write_offs_hold_their_assets:
  assumes "writeOffReachable uuid db0 db" "inj uuid" "db_writeOffs db0 = []" "db_writeOffItems db0 = []"
  shows "exclusiveOpen wi_assetId wi_open (db_writeOffItems db) \<and>
    (\<forall>w\<in>set (db_writeOffs db). \<forall>i\<in>set (db_writeOffItems db). wi_writeOffId i = w_id w \<longrightarrow>
       (wi_open i \<longrightarrow> w_status w \<in> set OPEN_WRITE_OFF_STATUSES) \<and>
       (w_status w = WCompleted \<longrightarrow> (\<exists>m\<in>set (db_movements db). wi_movementId i = Some (m_id m) \<and>
          m_assetId m = wi_assetId i \<and> m_movementType m = WriteOff))) \<and>
    (\<forall>db'. writeOffStep uuid db db' \<longrightarrow>
       processRun WriteOff uuid (writeOffProcess db) (writeOffProcess db') \<and>
       (\<forall>w\<in>set (db_writeOffs db). \<exists>w'\<in>set (db_writeOffs db'). w_id w' = w_id w \<and>
          (w_status w' = w_status w \<or> canWriteOffTransition (w_status w) (w_status w'))))"
proof (intro conjI ballI allI impI)
  have start: "processInv WriteOff uuid (writeOffProcess db0)"
    using assms(3,4) by (simp add: processInv_def writeOffProcess_def processOf_def exclusiveOpen_def)
  have inv: "processInv WriteOff uuid (writeOffProcess db)" by (rule writeOffReachable_inv [OF assms(1,2) start])
  note d = processInvD [OF inv]
  show "exclusiveOpen wi_assetId wi_open (db_writeOffItems db)"
    using d(3) unfolding exclusiveOpen_def writeOffProcess_def writeOffCustody.process_simps
    by (simp add: filter_map comp_def)
  show "w_status w \<in> set OPEN_WRITE_OFF_STATUSES"
    if "w \<in> set (db_writeOffs db)" "i \<in> set (db_writeOffItems db)" "wi_writeOffId i = w_id w" "wi_open i" for w i
  proof -
    have "writeOffStage (w_status w) = Running"
      by (rule d(6) [of "w_id w" _ "writeOffHeld i"]) (use that in \<open>simp_all add: writeOffProcess_def processOf_def\<close>)
    then show ?thesis by (cases "w_status w") (simp_all add: OPEN_WRITE_OFF_STATUSES_def)
  qed
  show "\<exists>m\<in>set (db_movements db). wi_movementId i = Some (m_id m) \<and> m_assetId m = wi_assetId i \<and>
      m_movementType m = WriteOff"
    if w: "w \<in> set (db_writeOffs db)" and i: "i \<in> set (db_writeOffItems db)" "wi_writeOffId i = w_id w"
      and done_: "w_status w = WCompleted" for w i
  proof -
    have "(w_id w, Done) \<in> set (ps_heads (writeOffProcess db))"
      using w done_ by (force simp: writeOffProcess_def processOf_def)
    then have "hasMovement WriteOff (ps_ledger (writeOffProcess db)) (writeOffHeld i)"
      by (rule d(7)) (use i in \<open>simp_all add: writeOffProcess_def processOf_def\<close>)
    then show ?thesis by (simp add: hasMovement_def list_ex_iff writeOffProcess_def processOf_def)
  qed
  show "processRun WriteOff uuid (writeOffProcess db) (writeOffProcess db')" if "writeOffStep uuid db db'" for db'
    using writeOffStep_sound [OF that assms(2) inv] by blast
  show "\<exists>w'\<in>set (db_writeOffs db'). w_id w' = w_id w \<and>
      (w_status w' = w_status w \<or> canWriteOffTransition (w_status w) (w_status w'))"
    if "writeOffStep uuid db db'" "w \<in> set (db_writeOffs db)" for db' w
    using writeOffStep_sound [OF that(1) assms(2) inv] that(2) unfolding advances_def by blast
qed

text \<open>The asset as a write-off leaves it.\<close>

definition retiredAsset :: "env \<Rightarrow> lifecycleEvent \<Rightarrow> string \<Rightarrow> writeOffItemState \<times> string option \<Rightarrow> asset \<Rightarrow> asset" where
  "retiredAsset env event authorizedBy item a =
     a\<lparr>a_operationalStatus := WrittenOff, a_writtenOffAt := Some (localeIsoDate (e_now env)),
       a_writeOffReason := Some (writeOffItemReason (fst item) (snd item)),
       a_writeOffDocument := Some (lv_number event), a_writeOffApprovedBy := Some authorizedBy,
       a_updatedAt := e_now env, a_updatedBy := Some authorizedBy\<rparr>"

lemma writeOffChange_asset:
  "changedAsset env (writeOffChange env event w authorizedBy itemOf k) a =
   retiredAsset env event authorizedBy (itemOf k) a"
  by (simp add: changedAsset_def writtenPatch_def writeOffChange_def verifiedPatch_def noPatch_def applyPatch_def
      or_keep_def retiredAsset_def)

text \<open>
  C5. When the act of a write-off is signed, every asset that waits, neither written off nor on loan, is
  written off with the local date, the reason of its item, the number of the act and the user who authorizes
  it, and nothing else of it changes: that user is the one of the person who signed for internal control (an
  active one first), or the creator of the write-off when that person has no user. No other asset changes, the ledger gets exactly one
  write-off movement per asset and stays intact, and the write-off is completed. A signed act that is
  processed again changes nothing. (The items of a write-off name different assets: a unique constraint.)
\<close>

theorem signed_write_off_retires_its_assets:
  assumes "writeOffSigned env event db = Inr db'" "lockWriteOffFor event db = Inr w"
    "distinct (map wi_assetId (pendingItems db (w_id w)))" "envOk env" "custodyInv env db"
  shows "custodyInv env db' \<and> ((w_status w = WCompleted \<and> db' = db) \<or>
    (w_status w = WPendingSignatures \<and> w_documentId w = Some (lv_documentId event) \<and>
     (\<exists>authorizedBy. authorizes db event ''CONTROL_INTERNO'' (w_createdBy w) authorizedBy \<and>
      (\<forall>k. if k \<in> wi_assetId ` set (pendingItems db (w_id w))
        then (\<exists>a. findAsset db k = Some a \<and> a_operationalStatus a \<notin> {WrittenOff, OnLoan} \<and>
             findAsset db' k = Some (retiredAsset env event authorizedBy (itemOfAsset (pendingItems db (w_id w)) k) a))
        else findAsset db' k = findAsset db k)) \<and>
     (\<exists>ms. db_movements db' = db_movements db @ ms \<and> map m_assetId ms = map wi_assetId (pendingItems db (w_id w)) \<and>
        list_all (\<lambda>m. m_movementType m = WriteOff) ms) \<and>
     db_writeOffs db' = update_where (\<lambda>x. w_id x = w_id w)
       (\<lambda>x. x\<lparr>w_status := WCompleted, w_completedAt := Some (e_now env)\<rparr>) (db_writeOffs db)))"
proof (cases "w_status w = WCompleted")
  case True
  then show ?thesis using assms(1,2,5) by (auto simp: writeOffSigned_def res_simps split: if_splits)
next
  case False
  define authorizedBy where "authorizedBy = or_keep (if falsy (signersByRole event ''CONTROL_INTERNO'') then None
    else userOfPerson db (the (signersByRole event ''CONTROL_INTERNO''))) (w_createdBy w)"
  have authorized: "authorizes db event ''CONTROL_INTERNO'' (w_createdBy w) authorizedBy"
    unfolding authorizedBy_def by (rule authorizes_controlUser)
  obtain db1 c where s: "w_status w = WPendingSignatures" "w_documentId w = Some (lv_documentId event)"
    "applyAll env (writeOffChange env event w authorizedBy (itemOfAsset (pendingItems db (w_id w)))) db
       (map wi_assetId (pendingItems db (w_id w))) = Inr db1"
    "db' = auditWriteOff ''WRITE_OFF_COMPLETED'' (w_id w) authorizedBy c
       (closeWriteOffItems (w_id w) (updateWriteOff (w_id w)
         (\<lambda>x. x\<lparr>w_status := WCompleted, w_completedAt := Some (e_now env)\<rparr>) db1))"
    using assms(1) False unfolding writeOffSigned_def assms(2) rbind.simps Let_def authorizedBy_def [symmetric] by (auto simp: res_simps split: if_splits)
  let ?ks = "map wi_assetId (pendingItems db (w_id w))" and ?item = "itemOfAsset (pendingItems db (w_id w))"
  have w: "w \<in> set (db_writeOffs db)" using lockWriteOffFor_Inr [OF assms(2)] by blast
  have running: "writeOffStage (w_status w) = Running" by (simp add: s(1))
  have find: "findAsset db' k = findAsset db1 k" for k by (rule findAsset_cong) (simp add: s(4))
  have moved: "\<exists>a. findAsset db k = Some a \<and> a_operationalStatus a \<notin> {WrittenOff, OnLoan} \<and>
      findAsset db' k = Some (retiredAsset env event authorizedBy (?item k) a)" if k: "k \<in> set ?ks" for k
  proof -
    obtain a where a: "findAsset db k = Some a"
      "c_guard (writeOffChange env event w authorizedBy ?item k) a = Inr ()"
      using writeOffMoving.all_guarded [OF s(3) assms(3) k] by blast
    have "a_operationalStatus a \<notin> {WrittenOff, OnLoan}" using a(2) by (simp add: writeOffChange_def split: if_splits)
    then show ?thesis
      using writeOffMoving.all_find [OF s(3) assms(3), of k] k a(1) by (simp add: find writeOffChange_asset)
  qed
  have kept: "findAsset db' k = findAsset db k" if "k \<notin> set ?ks" for k
    using writeOffMoving.all_find [OF s(3) assms(3), of k] that by (simp add: find)
  obtain ms where "db_movements db1 = db_movements db @ ms" "map m_assetId ms = ?ks"
    "\<forall>m\<in>set ms. m_movementType m = WriteOff"
    using writeOffMoving.all_movements [OF s(3)] by (auto simp: writeOffChange_def)
  then have "\<exists>ms. db_movements db' = db_movements db @ ms \<and> map m_assetId ms = ?ks \<and>
      list_all (\<lambda>m. m_movementType m = WriteOff) ms" by (auto simp: s(4) list_all_iff)
  moreover have "db_writeOffs db' = update_where (\<lambda>x. w_id x = w_id w)
      (\<lambda>x. x\<lparr>w_status := WCompleted, w_completedAt := Some (e_now env)\<rparr>) (db_writeOffs db)"
    by (simp add: s(4) writeOffMoving.all_moved(1) [OF w refl running s(3)])
  moreover have "\<forall>k. if k \<in> set ?ks
        then (\<exists>a. findAsset db k = Some a \<and> a_operationalStatus a \<notin> {WrittenOff, OnLoan} \<and>
             findAsset db' k = Some (retiredAsset env event authorizedBy (?item k) a))
        else findAsset db' k = findAsset db k"
    using moved kept by presburger
  moreover have "custodyInv env db'"
    using writeOffMoving.all_custody [OF s(3) assms(4,5)]
    by (intro custodyInv_cong [of db' db1]) (simp_all add: s(4))
  ultimately show ?thesis using s(1,2) authorized unfolding set_map by blast
qed

section \<open>Witnesses\<close>

definition sampleWriteOffId :: string where
  "sampleWriteOffId = ''00000000-0000-4000-8000-000000000009''"

definition sampleWriteOffItem :: writeOffItem where
  "sampleWriteOffItem = \<lparr>wi_writeOffId = sampleWriteOffId, wi_assetId = ''a'', wi_lineNumber = 1,
     wi_costCenterId = ''c1'', wi_quantity = 1, wi_state = Damaged_item, wi_notes = None, wi_open = True,
     wi_movementId = None\<rparr>"

definition sampleWriteOff :: writeOff where
  "sampleWriteOff = \<lparr>w_id = sampleWriteOffId, w_status = WPendingSignatures, w_authorizedTotal = Some 1,
     w_councilAgreementNumber = None, w_councilAgreementDate = None, w_vicefinanceReports = None,
     w_observations = None, w_controlPersonId = None, w_accountingPersonId = None, w_documentRequestId = None,
     w_documentId = Some ''act'', w_createdBy = ''u'', w_generatedBy = None, w_generatedAt = None,
     w_completedAt = None, w_rejectedAt = None, w_cancelledAt = None, w_cancelledBy = None, w_cancelReason = None\<rparr>"

definition sampleWriteOffDb :: db where
  "sampleWriteOffDb = (sampleDb InUse)\<lparr>db_writeOffs := [sampleWriteOff], db_writeOffItems := [sampleWriteOffItem],
     db_documentAssets := [\<lparr>da_documentId = ''act'', da_assetId = ''a'', da_movementId = None\<rparr>],
     db_users := [\<lparr>u_id = ''controller'', u_personId = Some ''p9'', u_status = UActive, u_mfaEnabled = True\<rparr>],
     db_seq := 10\<rparr>"

definition sampleWriteOffEvent :: lifecycleEvent where
  "sampleWriteOffEvent = \<lparr>lv_documentId = ''act'', lv_formatKey = WRITE_OFF_FORMAT_KEY, lv_number = ''1'',
     lv_entityType = WRITE_OFF_ENTITY_TYPE, lv_entityId = Some sampleWriteOffId,
     lv_signers = [\<lparr>ds_documentId = ''act'', ds_signOrder = 1, ds_role = ''CONTROL_INTERNO'', ds_signerPersonId = Some ''p9'',
       ds_signerName = None, ds_signerDocument = None, ds_status = SSigned, ds_signedAt = Some 1\<rparr>]\<rparr>"

definition sampleWriteOffInput :: createWriteOffInput where
  "sampleWriteOffInput = \<lparr>cw_authorizedTotal = None, cw_councilAgreementNumber = None, cw_councilAgreementDate = None,
     cw_vicefinanceReports = None, cw_observations = None,
     cw_items = [\<lparr>wx_assetId = ''a'', wx_quantity = None, wx_state = Damaged_item, wx_notes = None\<rparr>]\<rparr>"

lemma sampleWriteOff_runs:
  "\<not> isl (writeOffSigned sampleEnv sampleWriteOffEvent sampleWriteOffDb)"
  "\<not> isl (lockWriteOffFor sampleWriteOffEvent sampleWriteOffDb)"
  "\<not> isl (createWriteOff sampleEnv sampleWriteOffInput ''u'' (sampleDb InUse))"
  by code_simp+

theorem write_offs_hold_their_assets_witness:
  "\<exists>k db. createWriteOff sampleEnv sampleWriteOffInput ''u'' (sampleDb InUse) = Inr (k, db) \<and>
     exclusiveOpen wi_assetId wi_open (db_writeOffItems db)"
proof -
  obtain k db where run: "createWriteOff sampleEnv sampleWriteOffInput ''u'' (sampleDb InUse) = Inr (k, db)"
    using sampleWriteOff_runs(3) by (cases "createWriteOff sampleEnv sampleWriteOffInput ''u'' (sampleDb InUse)") auto
  have "writeOffReachable (e_uuid sampleEnv) (sampleDb InUse) db" using WriteOffCreated [OF refl run] by blast
  moreover have "inj (e_uuid sampleEnv)" using sampleEnv_ok by (simp add: envOk_def)
  moreover have "db_writeOffs (sampleDb InUse) = []" "db_writeOffItems (sampleDb InUse) = []"
    by (simp_all add: sampleDb_def emptyDb_def)
  ultimately show ?thesis using write_offs_hold_their_assets run by blast
qed

theorem signed_write_off_retires_its_assets_witness:
  "\<exists>db' a. writeOffSigned sampleEnv sampleWriteOffEvent sampleWriteOffDb = Inr db' \<and>
     findAsset db' ''a'' = Some a \<and> a_operationalStatus a = WrittenOff \<and> a_writeOffApprovedBy a = Some ''controller''"
proof -
  obtain db' w where run: "writeOffSigned sampleEnv sampleWriteOffEvent sampleWriteOffDb = Inr db'"
    "lockWriteOffFor sampleWriteOffEvent sampleWriteOffDb = Inr w"
    using sampleWriteOff_runs(1,2)
    by (cases "writeOffSigned sampleEnv sampleWriteOffEvent sampleWriteOffDb";
        cases "lockWriteOffFor sampleWriteOffEvent sampleWriteOffDb") auto
  have w: "w = sampleWriteOff" using lockWriteOffFor_Inr [OF run(2)] by (simp add: sampleWriteOffDb_def)
  have pending: "pendingItems sampleWriteOffDb (w_id w) = [sampleWriteOffItem]"
    by (simp add: w pendingItems_def itemsOfWriteOff_def sampleWriteOffDb_def sampleWriteOffItem_def sampleWriteOff_def)
  have "custodyInv sampleEnv sampleWriteOffDb"
    by (rule custodyInv_cong [OF _ _ _ sampleDb_inv [of InUse]]) (simp_all add: sampleWriteOffDb_def sampleDb_def emptyDb_def)
  from signed_write_off_retires_its_assets [OF run _ sampleEnv_ok this]
  obtain u where authorized: "authorizes sampleWriteOffDb sampleWriteOffEvent ''CONTROL_INTERNO'' (w_createdBy w) u"
    and all: "\<forall>k. if k \<in> wi_assetId ` set (pendingItems sampleWriteOffDb (w_id w))
        then (\<exists>a. findAsset sampleWriteOffDb k = Some a \<and> a_operationalStatus a \<notin> {WrittenOff, OnLoan} \<and>
             findAsset db' k = Some (retiredAsset sampleEnv sampleWriteOffEvent u
               (itemOfAsset (pendingItems sampleWriteOffDb (w_id w)) k) a))
        else findAsset db' k = findAsset sampleWriteOffDb k"
    by (simp only: pending) (auto simp: w sampleWriteOff_def)
  have "''a'' \<in> wi_assetId ` set (pendingItems sampleWriteOffDb (w_id w))"
    by (simp add: pending sampleWriteOffItem_def)
  then obtain a where "findAsset db' ''a'' = Some (retiredAsset sampleEnv sampleWriteOffEvent u
      (itemOfAsset (pendingItems sampleWriteOffDb (w_id w)) ''a'') a)"
    using spec [OF all, of "''a''"] by auto
  moreover have "u = ''controller''"
    using authorized by (simp add: authorizes_def signersByRole_def sampleWriteOffEvent_def sampleWriteOffDb_def)
  ultimately show ?thesis using run(1) by (auto simp: retiredAsset_def)
qed

end
