(* ===== verification/Handovers.thy ===== *)
theory Handovers
  imports DocActs CustodyProcess
begin

text \<open>
  Handovers of assets to the person who answers for them:
  src/src/modules/handovers/services/handovers.service.ts and src/src/modules/handovers/domain/handover.ts.

  A handover is created together with the request of its act; once the act is issued and signed, every
  asset gets the person who received it as its responsible, with a movement of the ledger.
\<close>

section \<open>Domain\<close>

definition HANDOVER_ENTITY_TYPE :: string where "HANDOVER_ENTITY_TYPE = ''HANDOVER''"
definition HANDOVER_FORMAT_KEY :: string where "HANDOVER_FORMAT_KEY = ''OCI-01-55''"

fun handoverStatusText :: "handoverStatus \<Rightarrow> string" where
  "handoverStatusText HAwaitingDocument = ''AWAITING_DOCUMENT''"
| "handoverStatusText HPendingSignature = ''PENDING_SIGNATURE''"
| "handoverStatusText HSigned = ''SIGNED''"
| "handoverStatusText HRejected = ''REJECTED''"
| "handoverStatusText HCancelled = ''CANCELLED''"

definition CANCELLABLE_HANDOVER_STATUSES :: "handoverStatus list" where
  "CANCELLABLE_HANDOVER_STATUSES = [HAwaitingDocument, HPendingSignature]"

definition NOT_DELIVERABLE_STATUSES :: "operationalStatus list" where
  "NOT_DELIVERABLE_STATUSES = [WrittenOff, OnLoan]"

section \<open>The checks of a new handover\<close>

record handoverAssetInput =
  hx_assetId :: string
  hx_note :: "string option"

record createHandoverInput =
  hc_assets :: "handoverAssetInput list"
  hc_receiverPersonId :: string
  hc_costCenterId :: string
  hc_auditorPersonId :: string
  hc_signerSubstitutions :: "json option"

definition assertHandoverPersons :: "db \<Rightarrow> createHandoverInput \<Rightarrow> unit res" where
  "assertHandoverPersons db dto =
     (if list_ex (\<lambda>k. findPerson db k = None) [hc_receiverPersonId dto, hc_auditorPersonId dto]
      then throw ResourceNotFound else Inr ())"

definition assertHandoverCenter :: "db \<Rightarrow> string \<Rightarrow> unit res" where
  "assertHandoverCenter db center =
     (if list_ex (\<lambda>cc. cc_id cc = center) (db_costCenters db) then Inr () else throw ResourceNotFound)"

definition assertDeliverable :: "db \<Rightarrow> string list \<Rightarrow> string \<Rightarrow> unit res" where
  "assertDeliverable db assetIds center =
     (if list_ex (\<lambda>k. findAsset db k = None) assetIds then throw ResourceNotFound
      else
        (let rows = map (\<lambda>k. the (findAsset db k)) assetIds in
         if list_ex (\<lambda>a. a_operationalStatus a \<in> set NOT_DELIVERABLE_STATUSES) rows
         then throw HandoverAssetNotDeliverable
         else if list_ex (\<lambda>a. a_costCenterId a \<noteq> center) rows then throw HandoverCostCenterMismatch
         else Inr ()))"

definition assertNotHeld :: "db \<Rightarrow> string list \<Rightarrow> unit res" where
  "assertNotHeld db assetIds =
     (if list_ex (\<lambda>k. findAsset db k \<noteq> None \<and> (holdOpenLoan db k \<or> holdRequestReservation db None k \<or>
           holdOpenTransfer db k \<or> holdOpenWriteOff db None k)) assetIds
      then throw HandoverAssetReserved else Inr ())"

definition assertNotInOpenHandover :: "db \<Rightarrow> string list \<Rightarrow> unit res" where
  "assertNotInOpenHandover db assetIds =
     (if list_ex (\<lambda>k. findAsset db k \<noteq> None \<and> holdOpenHandover db k) assetIds
      then throw HandoverAssetInOpenHandover else Inr ())"

section \<open>Operations\<close>

definition signersPayload :: "createHandoverInput \<Rightarrow> documentRequestPayload" where
  "signersPayload dto =
     \<lparr>dp_formatKey = HANDOVER_FORMAT_KEY, dp_entityType = None, dp_entityId = None, dp_costCenterId = None,
      dp_responsiblePersonId = Some (hc_receiverPersonId dto), dp_assetIds = [], dp_movementIds = [],
      dp_signers = [(''AUDITA'', hc_auditorPersonId dto)], dp_signerSubstitutions = hc_signerSubstitutions dto,
      dp_tables = None\<rparr>"

definition handoverPayload :: "string \<Rightarrow> createHandoverInput \<Rightarrow> documentRequestPayload" where
  "handoverPayload k dto = (signersPayload dto)\<lparr>dp_entityType := Some HANDOVER_ENTITY_TYPE, dp_entityId := Some k,
     dp_costCenterId := Some (hc_costCenterId dto), dp_assetIds := map hx_assetId (hc_assets dto)\<rparr>"

definition handoverRow :: "string \<Rightarrow> createHandoverInput \<Rightarrow> string \<Rightarrow> string \<Rightarrow> handover" where
  "handoverRow k dto requestId actorId =
     \<lparr>h_id = k, h_status = HAwaitingDocument, h_costCenterId = hc_costCenterId dto,
      h_receiverPersonId = hc_receiverPersonId dto, h_auditorPersonId = hc_auditorPersonId dto,
      h_assignedPersonId = None, h_documentRequestId = requestId, h_documentId = None, h_createdBy = actorId,
      h_closedAt = None, h_cancelledBy = None, h_cancelReason = None\<rparr>"

definition handoverItemRow :: "string \<Rightarrow> nat \<times> handoverAssetInput \<Rightarrow> handoverItem" where
  "handoverItemRow k line_item =
     \<lparr>hi_handoverId = k, hi_assetId = hx_assetId (snd line_item), hi_lineNumber = fst line_item,
      hi_note = Option.bind (map_option trim (hx_note (snd line_item))) orNull, hi_open = True,
      hi_movementId = None\<rparr>"

definition createHandover ::
  "env \<Rightarrow> createHandoverInput \<Rightarrow> string \<Rightarrow> db \<Rightarrow> (string \<times> db) res" where
  "createHandover env dto actorId db =
     (let assetIds = map hx_assetId (hc_assets dto);
          k = freshId env db;
          db0 = bumpSeq db
      in if \<not> distinct assetIds then throw ValidationFailed
         else
           rbind (assertHandoverPersons db0 dto) (\<lambda>_.
           rbind (assertSigners env (signersPayload dto) (Some actorId) db0) (\<lambda>_.
           rbind (assertHandoverCenter db0 (hc_costCenterId dto)) (\<lambda>_.
           rbind (assertDeliverable db0 assetIds (hc_costCenterId dto)) (\<lambda>_.
           rbind (assertNotHeld db0 assetIds) (\<lambda>_.
           rbind (assertNotInOpenHandover db0 assetIds) (\<lambda>_.
           rbind (enqueueAct env (handoverPayload k dto) (Some actorId) db0) (\<lambda>(requestId, db1).
           rbind (foldM (insertOpen hi_assetId hi_open HandoverAssetInOpenHandover) (db_handoverItems db1)
               (map (handoverItemRow k) (zip [1..<Suc (length (hc_assets dto))] (hc_assets dto)))) (\<lambda>rows.
             Inr (k, db1\<lparr>db_handovers := db_handovers db1 @ [handoverRow k dto requestId actorId],
               db_handoverItems := rows\<rparr>))))))))))"

definition updateHandover :: "string \<Rightarrow> (handover \<Rightarrow> handover) \<Rightarrow> db \<Rightarrow> db" where
  "updateHandover k f db = db\<lparr>db_handovers := update_where (\<lambda>h. h_id h = k) f (db_handovers db)\<rparr>"

definition closeHandoverItem :: "handoverItem \<Rightarrow> handoverItem" where
  "closeHandoverItem i = i\<lparr>hi_open := False\<rparr>"

definition closeHandoverItems :: "string \<Rightarrow> db \<Rightarrow> db" where
  "closeHandoverItems k db =
     db\<lparr>db_handoverItems := update_where (\<lambda>i. hi_handoverId i = k) closeHandoverItem (db_handoverItems db)\<rparr>"

text \<open>An identifier that is not a UUID makes the query itself fail.\<close>

definition findHandover :: "db \<Rightarrow> string \<Rightarrow> handover option res" where
  "findHandover db k =
     (if isUuid k then Inr (List.find (\<lambda>h. h_id h = k) (db_handovers db)) else throwError)"

definition cancelHandover :: "env \<Rightarrow> string \<Rightarrow> string \<Rightarrow> string \<Rightarrow> db \<Rightarrow> db res" where
  "cancelHandover env k reason actorId db =
     (let motive = trim reason in
      if length motive < 5 then throw ValidationFailed
      else
        rbind (findHandover db k) (\<lambda>exists.
        case exists of
          None \<Rightarrow> throw ResourceNotFound
        | Some e \<Rightarrow>
            if h_status e = HSigned then throw DocumentAlreadySigned
            else
              rbind (voidForEntity env HANDOVER_ENTITY_TYPE k motive (Some actorId) db) (\<lambda>(cancelled, voided, db1).
              rbind (findHandover db1 k) (\<lambda>locked.
              case locked of
                None \<Rightarrow> throw InvalidState
              | Some h \<Rightarrow>
                  if h_status h \<notin> set CANCELLABLE_HANDOVER_STATUSES then throw InvalidState
                  else Inr (recordAudit ''HANDOVER_CANCELLED'' HANDOVER_ENTITY_TYPE k (Some actorId)
                    (Some (JObj [(''from'', JStr (handoverStatusText (h_status h))), (''reason'', JStr motive),
                       (''cancelledRequestIds'', jStrings cancelled), (''voidedDocumentIds'', jStrings voided)]))
                    (closeHandoverItems k (updateHandover k (\<lambda>x. x\<lparr>h_status := HCancelled,
                       h_closedAt := Some (e_now env), h_cancelledBy := Some actorId,
                       h_cancelReason := Some motive\<rparr>) db1)))))))"

section \<open>The act of a handover\<close>

definition lockHandoverFor :: "lifecycleEvent \<Rightarrow> db \<Rightarrow> handover res" where
  "lockHandoverFor event db =
     (if lv_formatKey event \<noteq> HANDOVER_FORMAT_KEY then throwError
      else if falsy (lv_entityId event) then throwError
      else rbind (findHandover db (the (lv_entityId event))) (\<lambda>found.
        case found of None \<Rightarrow> throwError | Some h \<Rightarrow> Inr h))"

definition assertExpectedDocument :: "handover \<Rightarrow> lifecycleEvent \<Rightarrow> unit res" where
  "assertExpectedDocument h event =
     (if h_documentId h \<noteq> Some (lv_documentId event) then throwError
      else if h_status h \<noteq> HPendingSignature then throwError else Inr ())"

definition assertStillDeliverable :: "string \<Rightarrow> asset \<Rightarrow> unit res" where
  "assertStillDeliverable center current =
     (if a_operationalStatus current \<in> set NOT_DELIVERABLE_STATUSES then throw HandoverAssetNotDeliverable
      else if a_costCenterId current \<noteq> center then throw HandoverCostCenterMismatch else Inr ())"

definition handoverGenerated :: lifecycleCallback where
  "handoverGenerated env event db =
     rbind (lockHandoverFor event db) (\<lambda>h.
       if h_status h \<noteq> HAwaitingDocument \<or> h_documentId h \<noteq> None then throwError
       else Inr (updateHandover (h_id h) (\<lambda>x. x\<lparr>h_documentId := Some (lv_documentId event),
              h_status := HPendingSignature\<rparr>) db))"

definition linkHandoverItem :: "string \<Rightarrow> handoverItem \<Rightarrow> handoverItem" where
  "linkHandoverItem m i = i\<lparr>hi_movementId := Some m, hi_open := False\<rparr>"

text \<open>The further write of an assigned asset; a movement belongs to one item at most.\<close>

definition linkHandoverMovement :: "string \<Rightarrow> string \<Rightarrow> string \<Rightarrow> db \<Rightarrow> db res" where
  "linkHandoverMovement handoverId documentId assetId db =
     (case movementOf db assetId Assignment (''handoverId'', handoverId) (''documentId'', documentId) of
        None \<Rightarrow> throwError
      | Some m \<Rightarrow>
          (let pendingRow = (\<lambda>r. da_documentId r = documentId \<and> da_assetId r = assetId \<and> da_movementId r = None) in
           if list_ex (\<lambda>i. hi_movementId i = Some m \<and> \<not> (hi_handoverId i = handoverId \<and> hi_assetId i = assetId))
                (db_handoverItems db) then throwError
           else if length (filter pendingRow (db_documentAssets db)) \<noteq> 1 then throwError
           else Inr (db\<lparr>db_handoverItems := update_where (\<lambda>i. hi_handoverId i = handoverId \<and> hi_assetId i = assetId)
                  (linkHandoverItem m) (db_handoverItems db),
                db_documentAssets := update_where pendingRow (\<lambda>r. r\<lparr>da_movementId := Some m\<rparr>)
                  (db_documentAssets db)\<rparr>)))"

definition handoverChange :: "lifecycleEvent \<Rightarrow> handover \<Rightarrow> string \<Rightarrow> string \<Rightarrow> string \<Rightarrow> assetChange" where
  "handoverChange event h receiver authorizedBy assetId =
     \<lparr>c_assetId = assetId, c_actorId = authorizedBy,
      c_patch = noPatch\<lparr>p_responsibleId := Some (Some receiver)\<rparr>,
      c_movement = Some \<lparr>sp_type = Assignment,
        sp_reason = Some (''Acta de entrega y asignaci'' @ [CHR 0xF3] @ ''n '' @ HANDOVER_FORMAT_KEY @ '' No. '' @
          lv_number event),
        sp_documentReference = Some (lv_number event), sp_executedAt = None, sp_requestedBy = Some (h_createdBy h),
        sp_metadata = Some [(''handoverId'', JStr (h_id h)), (''documentId'', JStr (lv_documentId event))],
        sp_initial = False\<rparr>,
      c_audit = Some \<lparr>aa_action = ''ASSET_UPDATED'', aa_changes = Some (JObj
        [(''responsibleId'', JObj [(''to'', JStr receiver)]), (''handoverId'', JStr (h_id h)),
         (''documentId'', JStr (lv_documentId event)), (''documentNumber'', JStr (lv_number event))])\<rparr>,
      c_guard = assertStillDeliverable (h_costCenterId h),
      c_alsoWrite = (\<lambda>db _. linkHandoverMovement (h_id h) (lv_documentId event) assetId db)\<rparr>"

definition assetsOfHandover :: "db \<Rightarrow> string \<Rightarrow> string list" where
  "assetsOfHandover db k = sort (map hi_assetId (filter (\<lambda>i. hi_handoverId i = k) (db_handoverItems db)))"

definition handoverSigned :: lifecycleCallback where
  "handoverSigned env event db =
     rbind (lockHandoverFor event db) (\<lambda>h.
     rbind (assertExpectedDocument h event) (\<lambda>_.
       if falsy (signersByRole event ''RECIBE'') then throwError
       else
         (let receiver = the (signersByRole event ''RECIBE'');
              auditorPerson = signersByRole event ''AUDITA'';
              auditorUser = (if falsy auditorPerson then None
                else List.find (\<lambda>u. u_personId u = auditorPerson) (db_users db));
              authorizedBy = or_keep (map_option u_id auditorUser) (h_createdBy h)
          in rbind (applyAll env (handoverChange event h receiver authorizedBy) db (assetsOfHandover db (h_id h)))
             (\<lambda>db1. Inr (updateHandover (h_id h) (\<lambda>x. x\<lparr>h_status := HSigned,
                h_assignedPersonId := Some receiver, h_closedAt := Some (e_now env)\<rparr>) db1)))))"

definition handoverRejected :: lifecycleCallback where
  "handoverRejected env event db =
     rbind (lockHandoverFor event db) (\<lambda>h.
     rbind (assertExpectedDocument h event) (\<lambda>_.
       Inr (closeHandoverItems (h_id h) (updateHandover (h_id h) (\<lambda>x. x\<lparr>h_status := HRejected,
         h_closedAt := Some (e_now env)\<rparr>) db))))"

definition handoverLifecycle :: lifecycleHandler where
  "handoverLifecycle =
     \<lparr>lh_entityType = HANDOVER_ENTITY_TYPE, lh_onGenerated = Some handoverGenerated,
      lh_onSigned = Some handoverSigned, lh_onRejected = Some handoverRejected,
      lh_formats = [\<lparr>pb_formatKey = HANDOVER_FORMAT_KEY, pb_process = ''Entregas de activos'',
        pb_signers = RequiredSigners [(''RECIBE'', FromResponsible), (''AUDITA'', FromRequest)]\<rparr>]\<rparr>"

section \<open>The interfaces a handover meets\<close>

fun handoverStage :: "handoverStatus \<Rightarrow> stage" where
  "handoverStage HAwaitingDocument = Running"
| "handoverStage HPendingSignature = Running"
| "handoverStage HSigned = Done"
| "handoverStage HRejected = Ended"
| "handoverStage HCancelled = Ended"

definition handoverHeld :: "handoverItem \<Rightarrow> heldItem" where
  "handoverHeld i = \<lparr>hd_owner = hi_handoverId i, hd_asset = hi_assetId i, hd_open = hi_open i,
     hd_movement = hi_movementId i\<rparr>"

definition handoverProcess :: "db \<Rightarrow> process" where
  "handoverProcess db =
     processOf h_id (\<lambda>h. handoverStage (h_status h)) handoverHeld (db_handovers db) (db_handoverItems db) db"

lemma handoverHeld_simps [simp]:
  "hd_owner (handoverHeld i) = hi_handoverId i" "hd_asset (handoverHeld i) = hi_assetId i"
  "hd_open (handoverHeld i) = hi_open i" "hd_movement (handoverHeld i) = hi_movementId i"
  by (simp_all add: handoverHeld_def)

interpretation handoverOpen: openItems db_handoverItems "\<lambda>t db. db\<lparr>db_handoverItems := t\<rparr>" hi_handoverId hi_assetId
    hi_open closeHandoverItem
  by unfold_locales (simp_all add: closeHandoverItem_def)

lemma linkHandoverMovement_Inr:
  assumes "linkHandoverMovement handoverId documentId assetId db = Inr db'"
  obtains m where "movementOf db assetId Assignment (''handoverId'', handoverId) (''documentId'', documentId) = Some m"
    "db_handoverItems db' = update_where (\<lambda>i. hi_handoverId i = handoverId \<and> hi_assetId i = assetId)
       (linkHandoverItem m) (db_handoverItems db)"
    "db_assets db' = db_assets db" "db_movements db' = db_movements db" "db_seq db' = db_seq db"
    "db_handovers db' = db_handovers db"
  using assms
  by (cases "movementOf db assetId Assignment (''handoverId'', handoverId) (''documentId'', documentId)")
    (auto simp: linkHandoverMovement_def Let_def split: if_splits)

lemma handoverChange_writes:
  "c_alsoWrite (handoverChange event h receiver authorizedBy k) db a =
   linkHandoverMovement (h_id h) (lv_documentId event) k db"
  by (simp add: handoverChange_def)

interpretation handoverCustody: custodyProcess Assignment db_handovers h_id "\<lambda>h. handoverStage (h_status h)"
    db_handoverItems handoverHeld closeHandoverItem linkHandoverItem
  by unfold_locales (simp_all add: handoverHeld_def closeHandoverItem_def linkHandoverItem_def shut_def)

interpretation handoverMoving: movingProcess Assignment db_handovers h_id "\<lambda>h. handoverStage (h_status h)"
    db_handoverItems handoverHeld closeHandoverItem linkHandoverItem env
    "handoverChange event h receiver authorizedBy" "h_id h"
  for env event h receiver authorizedBy
proof
  fix k db a db'
  assume "c_alsoWrite (handoverChange event h receiver authorizedBy k) db a = Inr db'"
  then have "linkHandoverMovement (h_id h) (lv_documentId event) k db = Inr db'"
    unfolding handoverChange_writes .
  then obtain m where m: "movementOf db k Assignment (''handoverId'', h_id h) (''documentId'', lv_documentId event) = Some m"
    "db_handoverItems db' = update_where (\<lambda>i. hi_handoverId i = h_id h \<and> hi_assetId i = k)
       (linkHandoverItem m) (db_handoverItems db)"
    "db_assets db' = db_assets db" "db_movements db' = db_movements db" "db_seq db' = db_seq db"
    "db_handovers db' = db_handovers db"
    by (rule linkHandoverMovement_Inr)
  obtain v where "v \<in> set (db_movements db)" "m_assetId v = k" "m_movementType v = Assignment" "m_id v = m"
    using m(1) by (rule movementOf_Some)
  then show "db_handovers db' = db_handovers db \<and> (\<exists>m\<in>set (db_movements db). m_assetId m = k \<and>
      m_movementType m = Assignment \<and> db_handoverItems db' = update_where
        (\<lambda>r. hd_owner (handoverHeld r) = h_id h \<and> hd_asset (handoverHeld r) = k) (linkHandoverItem (m_id m))
        (db_handoverItems db))"
    using m(2,6) by auto
  show "db_assets db' = db_assets db \<and> db_movements db' = db_movements db \<and> db_seq db' = db_seq db"
    using m(3-5) by simp
qed (simp_all add: handoverChange_def)

section \<open>The steps of handovers\<close>

text \<open>The code has no table of transitions for handovers; this is the one its guards amount to.\<close>

fun handoverMoves :: "handoverStatus \<Rightarrow> handoverStatus list" where
  "handoverMoves HAwaitingDocument = [HPendingSignature, HCancelled]"
| "handoverMoves HPendingSignature = [HSigned, HRejected, HCancelled]"
| "handoverMoves HSigned = []"
| "handoverMoves HRejected = []"
| "handoverMoves HCancelled = []"

abbreviation handoverFollows :: "db \<Rightarrow> db \<Rightarrow> bool" where
  "handoverFollows db db' \<equiv> advances h_id h_status (\<lambda>s t. t \<in> set (handoverMoves s)) (db_handovers db) (db_handovers db')"

lemma updateHandover_frame [simp]:
  "db_handovers (updateHandover k f db) = update_where (\<lambda>h. h_id h = k) f (db_handovers db)"
  "db_handoverItems (updateHandover k f db) = db_handoverItems db"
  "db_movements (updateHandover k f db) = db_movements db" "db_seq (updateHandover k f db) = db_seq db"
  "db_assets (updateHandover k f db) = db_assets db"
  by (simp_all add: updateHandover_def)

lemma closeHandoverItems_frame [simp]:
  "db_handovers (closeHandoverItems k db) = db_handovers db"
  "db_handoverItems (closeHandoverItems k db) =
     update_where (\<lambda>i. hi_handoverId i = k) closeHandoverItem (db_handoverItems db)"
  "db_movements (closeHandoverItems k db) = db_movements db" "db_seq (closeHandoverItems k db) = db_seq db"
  "db_assets (closeHandoverItems k db) = db_assets db"
  by (simp_all add: closeHandoverItems_def)

lemma findHandover_Inr: "findHandover db k = Inr (Some h) \<Longrightarrow> h \<in> set (db_handovers db) \<and> h_id h = k"
  unfolding findHandover_def by (auto split: if_splits dest: find_SomeD)

lemma lockHandoverFor_Inr:
  "lockHandoverFor event db = Inr h \<Longrightarrow> h \<in> set (db_handovers db) \<and> lv_entityId event = Some (h_id h)"
  unfolding lockHandoverFor_def
  by (cases "lv_entityId event") (auto simp: res_simps split: if_splits dest!: findHandover_Inr)

lemma handoverProcess_heads:
  "distinct (map fst (ps_heads (handoverProcess db))) = distinct (map h_id (db_handovers db))"
  by (simp add: handoverProcess_def processOf_def comp_def)

lemma createHandover_Inr:
  assumes "createHandover env dto actorId db = Inr (k, db')"
  obtains requestId db1 rows where "k = freshId env db" "distinct (map hx_assetId (hc_assets dto))"
    "assertDeliverable (bumpSeq db) (map hx_assetId (hc_assets dto)) (hc_costCenterId dto) = Inr ()"
    "assertNotHeld (bumpSeq db) (map hx_assetId (hc_assets dto)) = Inr ()"
    "enqueueAct env (handoverPayload k dto) (Some actorId) (bumpSeq db) = Inr (requestId, db1)"
    "foldM (insertOpen hi_assetId hi_open HandoverAssetInOpenHandover) (db_handoverItems db1)
       (map (handoverItemRow k) (zip [1..<Suc (length (hc_assets dto))] (hc_assets dto))) = Inr rows"
    "db' = db1\<lparr>db_handovers := db_handovers db1 @ [handoverRow k dto requestId actorId], db_handoverItems := rows\<rparr>"
  using assms unfolding createHandover_def Let_def
  by (auto simp: res_simps split: prod.splits intro: that)

lemma foldM_map: "foldM f s (map g xs) = foldM (\<lambda>s x. f s (g x)) s xs"
  by (induction xs arbitrary: s) (simp_all add: fun_eq_iff)

lemma createHandover_step:
  assumes "createHandover env dto actorId db = Inr (k, db')"
  shows "processStep Assignment (e_uuid env) (handoverProcess db) (handoverProcess db')" "handoverFollows db db'"
proof -
  obtain requestId db1 rows where run: "k = freshId env db"
    "enqueueAct env (handoverPayload k dto) (Some actorId) (bumpSeq db) = Inr (requestId, db1)"
    "foldM (insertOpen hi_assetId hi_open HandoverAssetInOpenHandover) (db_handoverItems db1)
       (map (handoverItemRow k) (zip [1..<Suc (length (hc_assets dto))] (hc_assets dto))) = Inr rows"
    "db' = db1\<lparr>db_handovers := db_handovers db1 @ [handoverRow k dto requestId actorId], db_handoverItems := rows\<rparr>"
    using assms by (rule createHandover_Inr)
  have same: "sameCustody (bumpSeq db) db1" using run(2) by (rule enqueueAct_Inr(4))
  have "\<exists>new. rows = db_handoverItems db1 @ new \<and>
      takes (map handoverHeld (db_handoverItems db1)) k (map handoverHeld new)"
    by (rule foldM_takes [OF run(3) [unfolded foldM_map], of hi_assetId hi_open HandoverAssetInOpenHandover])
      (auto simp: handoverItemRow_def)
  then obtain new where new: "rows = db_handoverItems db @ new"
    "takes (map handoverHeld (db_handoverItems db)) k (map handoverHeld new)"
    using same by (auto simp: sameCustody_def)
  have "db_seq db < db_seq db1" "db_handovers db1 = db_handovers db" "db_movements db1 = db_movements db"
    using same by (auto simp: sameCustody_def)
  then show "processStep Assignment (e_uuid env) (handoverProcess db) (handoverProcess db')" "handoverFollows db db'"
    unfolding handoverProcess_def
    using handoverCustody.opens [of db' db "handoverRow k dto requestId actorId" "e_uuid env" "db_seq db" new] new run(1)
    by (simp_all add: run(4) advances_append freshId_def handoverRow_def)
qed

lemma cancelHandover_Inr:
  assumes "cancelHandover env k reason actorId db = Inr db'"
  obtains h cancelled voided db1 c where "h \<in> set (db_handovers db1)" "h_id h = k"
    "h_status h \<in> set CANCELLABLE_HANDOVER_STATUSES"
    "voidForEntity env HANDOVER_ENTITY_TYPE k (trim reason) (Some actorId) db = Inr (cancelled, voided, db1)"
    "db' = recordAudit ''HANDOVER_CANCELLED'' HANDOVER_ENTITY_TYPE k (Some actorId) c
       (closeHandoverItems k (updateHandover k (\<lambda>x. x\<lparr>h_status := HCancelled, h_closedAt := Some (e_now env),
          h_cancelledBy := Some actorId, h_cancelReason := Some (trim reason)\<rparr>) db1))"
  using assms unfolding cancelHandover_def Let_def
  by (auto simp: res_simps split: prod.splits option.splits dest!: findHandover_Inr intro: that)

lemma cancelHandover_step:
  assumes "cancelHandover env k reason actorId db = Inr db'" "distinct (map h_id (db_handovers db))"
  shows "processStep Assignment uuid (handoverProcess db) (handoverProcess db')" "handoverFollows db db'"
proof -
  obtain h cancelled voided db1 c where run: "h \<in> set (db_handovers db1)" "h_id h = k"
    "h_status h \<in> set CANCELLABLE_HANDOVER_STATUSES"
    "voidForEntity env HANDOVER_ENTITY_TYPE k (trim reason) (Some actorId) db = Inr (cancelled, voided, db1)"
    "db' = recordAudit ''HANDOVER_CANCELLED'' HANDOVER_ENTITY_TYPE k (Some actorId) c
       (closeHandoverItems k (updateHandover k (\<lambda>x. x\<lparr>h_status := HCancelled, h_closedAt := Some (e_now env),
          h_cancelledBy := Some actorId, h_cancelReason := Some (trim reason)\<rparr>) db1))"
    using assms(1) by (rule cancelHandover_Inr)
  have same: "sameCustody db db1" using run(4) by (rule voidForEntity_custody)
  have h: "h \<in> set (db_handovers db)" using run(1) same by (simp add: sameCustody_def)
  have running: "handoverStage (h_status h) = Running" "HCancelled \<in> set (handoverMoves (h_status h))"
    using run(3) by (auto simp: CANCELLABLE_HANDOVER_STATUSES_def)
  show "processStep Assignment uuid (handoverProcess db) (handoverProcess db')"
    unfolding handoverProcess_def
    by (rule handoverCustody.gives_up [OF h run(2) running(1), of _ "\<lambda>x. x\<lparr>h_status := HCancelled,
          h_closedAt := Some (e_now env), h_cancelledBy := Some actorId, h_cancelReason := Some (trim reason)\<rparr>"])
      (use same in \<open>simp_all add: run(5) sameCustody_def\<close>)
  show "handoverFollows db db'"
    using advances_update_only [OF assms(2) h, of "\<lambda>x. x\<lparr>h_status := HCancelled, h_closedAt := Some (e_now env),
        h_cancelledBy := Some actorId, h_cancelReason := Some (trim reason)\<rparr>" "\<lambda>s t. t \<in> set (handoverMoves s)" h_status]
      same run(2) running(2) by (simp add: run(5) sameCustody_def)
qed

lemma handoverGenerated_step:
  assumes "handoverGenerated env event db = Inr db'" "distinct (map h_id (db_handovers db))"
  shows "processStep Assignment uuid (handoverProcess db) (handoverProcess db')" "handoverFollows db db'"
proof -
  define f where "f = (\<lambda>x :: handover. x\<lparr>h_documentId := Some (lv_documentId event), h_status := HPendingSignature\<rparr>)"
  have f: "h_id (f u) = h_id u" "h_status (f u) = HPendingSignature" for u by (simp_all add: f_def)
  obtain h where h: "h \<in> set (db_handovers db)" "h_status h = HAwaitingDocument" "db' = updateHandover (h_id h) f db"
    using assms(1) unfolding handoverGenerated_def f_def [symmetric] by (auto simp: res_simps dest!: lockHandoverFor_Inr)
  show "processStep Assignment uuid (handoverProcess db) (handoverProcess db')"
    unfolding handoverProcess_def
  proof (rule handoverCustody.waits)
    show "map (\<lambda>h. (h_id h, handoverStage (h_status h))) (db_handovers db') =
        map (\<lambda>h. (h_id h, handoverStage (h_status h))) (db_handovers db)"
      unfolding h(3) updateHandover_frame(1) by (rule same_stage [OF assms(2) h(1) f(1)]) (simp add: f(2) h(2))
  qed (simp_all add: h(3))
  show "handoverFollows db db'"
    unfolding h(3) updateHandover_frame(1) by (rule advances_update_only [OF assms(2) h(1) f(1)]) (simp add: f(2) h(2))
qed

lemma expected_Inr:
  "assertExpectedDocument h event = Inr () \<Longrightarrow> h_documentId h = Some (lv_documentId event) \<and> h_status h = HPendingSignature"
  by (simp add: assertExpectedDocument_def split: if_splits)

lemma handoverRejected_step:
  assumes "handoverRejected env event db = Inr db'" "distinct (map h_id (db_handovers db))"
  shows "processStep Assignment uuid (handoverProcess db) (handoverProcess db')" "handoverFollows db db'"
proof -
  define f where "f = (\<lambda>x :: handover. x\<lparr>h_status := HRejected, h_closedAt := Some (e_now env)\<rparr>)"
  have f: "h_id (f u) = h_id u" "h_status (f u) = HRejected" for u by (simp_all add: f_def)
  obtain h where h: "h \<in> set (db_handovers db)" "h_status h = HPendingSignature"
    "db' = closeHandoverItems (h_id h) (updateHandover (h_id h) f db)"
    using assms(1) unfolding handoverRejected_def f_def [symmetric]
    by (auto simp: res_simps dest!: lockHandoverFor_Inr expected_Inr)
  have running: "handoverStage (h_status h) = Running" by (simp add: h(2))
  show "processStep Assignment uuid (handoverProcess db) (handoverProcess db')"
    unfolding handoverProcess_def
    by (rule handoverCustody.gives_up [OF h(1) refl running, of _ f]) (simp_all add: h(3) f)
  have rows: "db_handovers db' = update_where (\<lambda>u. h_id u = h_id h) f (db_handovers db)" by (simp add: h(3))
  show "handoverFollows db db'"
    unfolding rows by (rule advances_update_only [OF assms(2) h(1) f(1)]) (simp add: f(2) h(2))
qed

text \<open>Who authorizes a signed handover: a user of the person who signed as AUDITA, else its creator.\<close>

definition auditedBy :: "db \<Rightarrow> lifecycleEvent \<Rightarrow> string \<Rightarrow> string \<Rightarrow> bool" where
  "auditedBy db event creator userId \<longleftrightarrow>
     (let auditor = signersByRole event ''AUDITA'';
          users = (if auditor \<in> {None, Some []} then [] else filter (\<lambda>u. u_personId u = auditor) (db_users db))
      in if users = [] then userId = creator else userId \<in> u_id ` set users)"

lemma auditedBy_code:
  "auditedBy db event creator (or_keep (map_option u_id (if falsy (signersByRole event ''AUDITA'') then None
     else List.find (\<lambda>u. u_personId u = signersByRole event ''AUDITA'') (db_users db))) creator)"
proof (cases "signersByRole event ''AUDITA'' \<in> {None, Some []}")
  case True
  then show ?thesis by (auto simp: auditedBy_def)
next
  case False
  then obtain p where p: "signersByRole event ''AUDITA'' = Some p" "p \<noteq> []" by auto
  then show ?thesis
    by (cases "List.find (\<lambda>u. u_personId u = Some p) (db_users db)")
      (auto simp: auditedBy_def Let_def find_None_iff filter_empty_conv or_keep_def dest: find_SomeD split: option.splits)
qed

lemma handoverSigned_Inr:
  assumes "handoverSigned env event db = Inr db'"
  obtains h receiver authorizedBy db1 where "h \<in> set (db_handovers db)" "lockHandoverFor event db = Inr h"
    "h_status h = HPendingSignature" "h_documentId h = Some (lv_documentId event)"
    "signersByRole event ''RECIBE'' = Some receiver"
    "applyAll env (handoverChange event h receiver authorizedBy) db (assetsOfHandover db (h_id h)) = Inr db1"
    "db' = updateHandover (h_id h) (\<lambda>x. x\<lparr>h_status := HSigned, h_assignedPersonId := Some receiver,
       h_closedAt := Some (e_now env)\<rparr>) db1" "auditedBy db event (h_createdBy h) authorizedBy"
proof -
  let ?auditor = "\<lambda>h. or_keep (map_option u_id (if falsy (signersByRole event ''AUDITA'') then None
     else List.find (\<lambda>u. u_personId u = signersByRole event ''AUDITA'') (db_users db))) (h_createdBy h)"
  obtain h where h: "lockHandoverFor event db = Inr h" "assertExpectedDocument h event = Inr ()"
    "\<not> falsy (signersByRole event ''RECIBE'')"
    "\<exists>db1. applyAll env (handoverChange event h (the (signersByRole event ''RECIBE'')) (?auditor h)) db
         (assetsOfHandover db (h_id h)) = Inr db1 \<and>
       db' = updateHandover (h_id h) (\<lambda>x. x\<lparr>h_status := HSigned,
         h_assignedPersonId := Some (the (signersByRole event ''RECIBE'')), h_closedAt := Some (e_now env)\<rparr>) db1"
    using assms unfolding handoverSigned_def Let_def by (auto simp: res_simps simp del: if_split)
  obtain receiver where "signersByRole event ''RECIBE'' = Some receiver"
    using h(3) by (cases "signersByRole event ''RECIBE''") auto
  then show thesis using that lockHandoverFor_Inr [OF h(1)] h(1) expected_Inr [OF h(2)] h(4) auditedBy_code [of db event "h_createdBy h"] by auto
qed

lemma assetsOfHandover_set:
  "set (assetsOfHandover db k) = hi_assetId ` {i \<in> set (db_handoverItems db). hi_handoverId i = k}"
  unfolding assetsOfHandover_def by auto

lemma handoverMoving_abstract: "handoverMoving.abstractOf = handoverProcess"
  by (rule ext) (simp add: handoverMoving.abstractOf_def handoverProcess_def)

lemma handoverSigned_step:
  assumes run: "handoverSigned env event db = Inr db'" and inj: "inj uuid"
    and inv: "processInv Assignment uuid (handoverProcess db)"
  shows "processRun Assignment uuid (handoverProcess db) (handoverProcess db')" "handoverFollows db db'"
proof -
  obtain h receiver authorizedBy db1 where s: "h \<in> set (db_handovers db)" "lockHandoverFor event db = Inr h"
    "h_status h = HPendingSignature" "h_documentId h = Some (lv_documentId event)"
    "signersByRole event ''RECIBE'' = Some receiver"
    "applyAll env (handoverChange event h receiver authorizedBy) db (assetsOfHandover db (h_id h)) = Inr db1"
    "db' = updateHandover (h_id h) (\<lambda>x. x\<lparr>h_status := HSigned, h_assignedPersonId := Some receiver,
       h_closedAt := Some (e_now env)\<rparr>) db1"
    using run by (rule handoverSigned_Inr)
  define f where "f = (\<lambda>x :: handover. x\<lparr>h_status := HSigned, h_assignedPersonId := Some receiver, h_closedAt := Some (e_now env)\<rparr>)"
  have f: "h_id (f u) = h_id u" "h_status (f u) = HSigned" for u by (simp_all add: f_def)
  have running: "handoverStage (h_status h) = Running" by (simp add: s(3))
  note moved = handoverMoving.all_moved [OF s(1) refl running s(6)]
  have run1: "processRun Assignment uuid (handoverProcess db) (handoverProcess db1)"
    using moved(2) unfolding handoverMoving_abstract .
  have ready: "list_all (\<lambda>r. hi_handoverId r = h_id h \<longrightarrow>
      hasMovement Assignment (db_movements db1) (handoverHeld r)) (db_handoverItems db1)"
    by (rule handoverMoving.all_items_moved [OF inj _ s(1) refl running s(6), simplified])
      (use inv in \<open>auto simp: handoverMoving_abstract assetsOfHandover_set\<close>)
  have "\<not> hi_open i" if "i \<in> set (db_handoverItems db1)" "hi_handoverId i = h_id h" for i
    using moved(3) that by (auto simp: handoverMoving.unmoved_def assetsOfHandover_set)
  then have closed: "update_where (\<lambda>i. hi_handoverId i = h_id h) closeHandoverItem (db_handoverItems db1) = db_handoverItems db1"
    unfolding update_where_def by (intro map_idI) (auto simp: closeHandoverItem_def)
  have "processStep Assignment uuid (handoverProcess db1) (handoverProcess db')"
    unfolding handoverProcess_def
    by (rule handoverCustody.finishes [of h _ "h_id h" _ f])
      (use s(1) running ready moved(1) closed in \<open>simp_all add: s(7) f, simp_all add: f_def\<close>)
  then show "processRun Assignment uuid (handoverProcess db) (handoverProcess db')"
    using rtranclp.rtrancl_into_rtrancl [of "processStep Assignment uuid", OF run1] by blast
  have rows: "db_handovers db' = update_where (\<lambda>u. h_id u = h_id h) f (db_handovers db)"
    by (simp add: s(7) moved(1) f_def)
  have ids: "distinct (map h_id (db_handovers db))" using processInvD(1) [OF inv] unfolding handoverProcess_heads .
  show "handoverFollows db db'"
    unfolding rows by (rule advances_update_only [OF ids s(1) f(1)]) (simp add: f(2) s(3))
qed

section \<open>Reachable handovers\<close>

inductive handoverStep :: "(nat \<Rightarrow> string) \<Rightarrow> db \<Rightarrow> db \<Rightarrow> bool" for uuid where
  HandoverCreated: "e_uuid env = uuid \<Longrightarrow> createHandover env dto actorId db = Inr (k, db') \<Longrightarrow> handoverStep uuid db db'"
| HandoverWithdrawn: "cancelHandover env k reason actorId db = Inr db' \<Longrightarrow> handoverStep uuid db db'"
| HandoverActIssued: "handoverGenerated env event db = Inr db' \<Longrightarrow> handoverStep uuid db db'"
| HandoverActSigned: "handoverSigned env event db = Inr db' \<Longrightarrow> handoverStep uuid db db'"
| HandoverActRejected: "handoverRejected env event db = Inr db' \<Longrightarrow> handoverStep uuid db db'"
| OutsideHandovers: "db_handovers db' = db_handovers db \<Longrightarrow> db_handoverItems db' = db_handoverItems db \<Longrightarrow>
    set (db_movements db) \<subseteq> set (db_movements db') \<Longrightarrow> db_seq db \<le> db_seq db' \<Longrightarrow> handoverStep uuid db db'"

abbreviation handoverReachable :: "(nat \<Rightarrow> string) \<Rightarrow> db \<Rightarrow> db \<Rightarrow> bool" where
  "handoverReachable uuid \<equiv> (handoverStep uuid)\<^sup>*\<^sup>*"

lemma handoverStep_sound:
  assumes step: "handoverStep uuid db db'" and inj: "inj uuid" and inv: "processInv Assignment uuid (handoverProcess db)"
  shows "processRun Assignment uuid (handoverProcess db) (handoverProcess db') \<and> handoverFollows db db'"
proof -
  have ids: "distinct (map h_id (db_handovers db))" using processInvD(1) [OF inv] unfolding handoverProcess_heads .
  show ?thesis
    using step
  proof (cases rule: handoverStep.cases)
    case (HandoverCreated env dto actorId k)
    show ?thesis using createHandover_step [OF HandoverCreated(2)] unfolding HandoverCreated(1) by blast
  next
    case (HandoverWithdrawn env k reason actorId)
    then show ?thesis using cancelHandover_step [OF _ ids] by blast
  next
    case (HandoverActIssued env event)
    then show ?thesis using handoverGenerated_step [OF _ ids] by blast
  next
    case (HandoverActSigned env event)
    then show ?thesis using handoverSigned_step [OF _ inj inv] by blast
  next
    case (HandoverActRejected env event)
    then show ?thesis using handoverRejected_step [OF _ ids] by blast
  next
    case OutsideHandovers
    have "processStep Assignment uuid (handoverProcess db) (handoverProcess db')"
      unfolding handoverProcess_def by (rule handoverCustody.waits) (use OutsideHandovers in simp_all)
    then show ?thesis using OutsideHandovers(1) by (simp add: advances_refl r_into_rtranclp)
  qed
qed

lemma handoverReachable_inv:
  assumes "handoverReachable uuid db db'" "inj uuid" "processInv Assignment uuid (handoverProcess db)"
  shows "processInv Assignment uuid (handoverProcess db')"
  using assms(1,3)
proof (induction rule: rtranclp_induct)
  case base
  then show ?case .
next
  case (step d d')
  have "processRun Assignment uuid (handoverProcess d) (handoverProcess d')"
    using handoverStep_sound [OF step.hyps(2) assms(2) step.IH [OF step.prems]] by blast
  then show ?case by (rule processRun_inv [OF assms(2) _ step.IH [OF step.prems]])
qed

section \<open>Properties\<close>

text \<open>
  C6. Handovers implement the abstract custody process. In any state their operations reach, an asset is in
  one open handover at most, only a handover that waits for its act or its signatures holds assets, every
  item of a signed handover has its own assignment movement in the ledger, and a handover that was signed,
  rejected or cancelled never changes status again.
\<close>

theorem handovers_hold_their_assets:
  assumes "handoverReachable uuid db0 db" "inj uuid" "db_handovers db0 = []" "db_handoverItems db0 = []"
  shows "exclusiveOpen hi_assetId hi_open (db_handoverItems db) \<and>
    (\<forall>h\<in>set (db_handovers db). \<forall>i\<in>set (db_handoverItems db). hi_handoverId i = h_id h \<longrightarrow>
       (hi_open i \<longrightarrow> h_status h \<in> set CANCELLABLE_HANDOVER_STATUSES) \<and>
       (h_status h = HSigned \<longrightarrow> (\<exists>m\<in>set (db_movements db). hi_movementId i = Some (m_id m) \<and>
          m_assetId m = hi_assetId i \<and> m_movementType m = Assignment))) \<and>
    (\<forall>db'. handoverStep uuid db db' \<longrightarrow>
       processRun Assignment uuid (handoverProcess db) (handoverProcess db') \<and>
       (\<forall>h\<in>set (db_handovers db). \<exists>h'\<in>set (db_handovers db'). h_id h' = h_id h \<and>
          (h_status h' = h_status h \<or> h_status h' \<in> set (handoverMoves (h_status h)))))"
proof (intro conjI ballI allI impI)
  have start: "processInv Assignment uuid (handoverProcess db0)"
    using assms(3,4) by (simp add: processInv_def handoverProcess_def processOf_def exclusiveOpen_def)
  have inv: "processInv Assignment uuid (handoverProcess db)" by (rule handoverReachable_inv [OF assms(1,2) start])
  note d = processInvD [OF inv]
  show "exclusiveOpen hi_assetId hi_open (db_handoverItems db)"
    using d(3) unfolding exclusiveOpen_def handoverProcess_def handoverCustody.process_simps
    by (simp add: filter_map comp_def)
  show "h_status h \<in> set CANCELLABLE_HANDOVER_STATUSES"
    if "h \<in> set (db_handovers db)" "i \<in> set (db_handoverItems db)" "hi_handoverId i = h_id h" "hi_open i" for h i
  proof -
    have "handoverStage (h_status h) = Running"
      by (rule d(6) [of "h_id h" _ "handoverHeld i"]) (use that in \<open>simp_all add: handoverProcess_def processOf_def\<close>)
    then show ?thesis by (cases "h_status h") (simp_all add: CANCELLABLE_HANDOVER_STATUSES_def)
  qed
  show "\<exists>m\<in>set (db_movements db). hi_movementId i = Some (m_id m) \<and> m_assetId m = hi_assetId i \<and>
      m_movementType m = Assignment"
    if h: "h \<in> set (db_handovers db)" and i: "i \<in> set (db_handoverItems db)" "hi_handoverId i = h_id h"
      and done_: "h_status h = HSigned" for h i
  proof -
    have "(h_id h, Done) \<in> set (ps_heads (handoverProcess db))"
      using h done_ by (force simp: handoverProcess_def processOf_def)
    then have "hasMovement Assignment (ps_ledger (handoverProcess db)) (handoverHeld i)"
      by (rule d(7)) (use i in \<open>simp_all add: handoverProcess_def processOf_def\<close>)
    then show ?thesis by (simp add: hasMovement_def list_ex_iff handoverProcess_def processOf_def)
  qed
  show "processRun Assignment uuid (handoverProcess db) (handoverProcess db')" if "handoverStep uuid db db'" for db'
    using handoverStep_sound [OF that assms(2) inv] by blast
  show "\<exists>h'\<in>set (db_handovers db'). h_id h' = h_id h \<and>
      (h_status h' = h_status h \<or> h_status h' \<in> set (handoverMoves (h_status h)))"
    if "handoverStep uuid db db'" "h \<in> set (db_handovers db)" for db' h
    using handoverStep_sound [OF that(1) assms(2) inv] that(2) unfolding advances_def by blast
qed

text \<open>The asset as a handover leaves it.\<close>

definition assignedAsset :: "env \<Rightarrow> string \<Rightarrow> string \<Rightarrow> asset \<Rightarrow> asset" where
  "assignedAsset env receiver authorizedBy a =
     a\<lparr>a_responsibleId := Some receiver, a_updatedAt := e_now env, a_updatedBy := Some authorizedBy\<rparr>"

lemma handoverChange_asset:
  "changedAsset env (handoverChange event h receiver authorizedBy k) a = assignedAsset env receiver authorizedBy a"
  by (simp add: changedAsset_def writtenPatch_def handoverChange_def verifiedPatch_def noPatch_def applyPatch_def
      or_keep_def assignedAsset_def)

text \<open>
  C7. When the act of a handover is signed, every asset of it, still in the cost center of the act and
  neither written off nor on loan, gets the signer of the turn RECIBE as its responsible and nothing else
  of it changes but its update stamp, which names a user of the person who signed as AUDITA, or the creator
  of the handover when there is none. No other asset changes, the ledger gets exactly one assignment
  movement per asset and stays intact, and the handover keeps that person as the assigned one.
\<close>

theorem signed_handover_assigns_its_assets:
  assumes "handoverSigned env event db = Inr db'" "lockHandoverFor event db = Inr h"
    "distinct (assetsOfHandover db (h_id h))" "envOk env" "custodyInv env db"
  shows "custodyInv env db' \<and> h_status h = HPendingSignature \<and> h_documentId h = Some (lv_documentId event) \<and>
    (\<exists>receiver authorizedBy. signersByRole event ''RECIBE'' = Some receiver \<and>
     auditedBy db event (h_createdBy h) authorizedBy \<and>
     (\<forall>k. if k \<in> set (assetsOfHandover db (h_id h))
        then (\<exists>a. findAsset db k = Some a \<and> a_operationalStatus a \<notin> set NOT_DELIVERABLE_STATUSES \<and>
             a_costCenterId a = h_costCenterId h \<and> findAsset db' k = Some (assignedAsset env receiver authorizedBy a))
        else findAsset db' k = findAsset db k) \<and>
     (\<exists>ms. db_movements db' = db_movements db @ ms \<and> map m_assetId ms = assetsOfHandover db (h_id h) \<and>
        list_all (\<lambda>m. m_movementType m = Assignment) ms) \<and>
     db_handovers db' = update_where (\<lambda>x. h_id x = h_id h) (\<lambda>x. x\<lparr>h_status := HSigned,
        h_assignedPersonId := Some receiver, h_closedAt := Some (e_now env)\<rparr>) (db_handovers db))"
proof -
  obtain receiver authorizedBy db1 where s: "h \<in> set (db_handovers db)" "h_status h = HPendingSignature"
    "h_documentId h = Some (lv_documentId event)" "signersByRole event ''RECIBE'' = Some receiver"
    "applyAll env (handoverChange event h receiver authorizedBy) db (assetsOfHandover db (h_id h)) = Inr db1"
    "db' = updateHandover (h_id h) (\<lambda>x. x\<lparr>h_status := HSigned, h_assignedPersonId := Some receiver,
       h_closedAt := Some (e_now env)\<rparr>) db1" "auditedBy db event (h_createdBy h) authorizedBy"
    using assms(1) by (rule handoverSigned_Inr) (use assms(2) in simp)
  let ?ks = "assetsOfHandover db (h_id h)"
  have running: "handoverStage (h_status h) = Running" by (simp add: s(2))
  have find: "findAsset db' k = findAsset db1 k" for k by (rule findAsset_cong) (simp add: s(6))
  have moved: "\<exists>a. findAsset db k = Some a \<and> a_operationalStatus a \<notin> set NOT_DELIVERABLE_STATUSES \<and>
      a_costCenterId a = h_costCenterId h \<and> findAsset db' k = Some (assignedAsset env receiver authorizedBy a)"
    if k: "k \<in> set ?ks" for k
  proof -
    obtain a where a: "findAsset db k = Some a" "c_guard (handoverChange event h receiver authorizedBy k) a = Inr ()"
      using handoverMoving.all_guarded [OF s(5) assms(3) k] by blast
    have "a_operationalStatus a \<notin> set NOT_DELIVERABLE_STATUSES" "a_costCenterId a = h_costCenterId h"
      using a(2) by (simp_all add: handoverChange_def assertStillDeliverable_def split: if_splits)
    then show ?thesis
      using handoverMoving.all_find [OF s(5) assms(3), of k] k a(1) by (simp add: find handoverChange_asset)
  qed
  have kept: "findAsset db' k = findAsset db k" if "k \<notin> set ?ks" for k
    using handoverMoving.all_find [OF s(5) assms(3), of k] that by (simp add: find)
  obtain ms where "db_movements db1 = db_movements db @ ms" "map m_assetId ms = ?ks"
    "\<forall>m\<in>set ms. m_movementType m = Assignment"
    using handoverMoving.all_movements [OF s(5)] by (auto simp: handoverChange_def)
  then have "\<exists>ms. db_movements db' = db_movements db @ ms \<and> map m_assetId ms = ?ks \<and>
      list_all (\<lambda>m. m_movementType m = Assignment) ms" by (auto simp: s(6) list_all_iff)
  moreover have "db_handovers db' = update_where (\<lambda>x. h_id x = h_id h) (\<lambda>x. x\<lparr>h_status := HSigned,
        h_assignedPersonId := Some receiver, h_closedAt := Some (e_now env)\<rparr>) (db_handovers db)"
    by (simp add: s(6) handoverMoving.all_moved(1) [OF s(1) refl running s(5)])
  moreover have "\<forall>k. if k \<in> set ?ks
        then (\<exists>a. findAsset db k = Some a \<and> a_operationalStatus a \<notin> set NOT_DELIVERABLE_STATUSES \<and>
             a_costCenterId a = h_costCenterId h \<and> findAsset db' k = Some (assignedAsset env receiver authorizedBy a))
        else findAsset db' k = findAsset db k"
    using moved kept by presburger
  moreover have "custodyInv env db'"
    using handoverMoving.all_custody [OF s(5) assms(4,5)]
    by (intro custodyInv_cong [of db' db1]) (simp_all add: s(6))
  ultimately show ?thesis using s(2-4,7) by blast
qed

section \<open>Witnesses\<close>

definition sampleHandoverId :: string where
  "sampleHandoverId = ''00000000-0000-4000-8000-000000000009''"

definition sampleHandover :: handover where
  "sampleHandover = \<lparr>h_id = sampleHandoverId, h_status = HPendingSignature, h_costCenterId = ''c1'',
     h_receiverPersonId = ''p2'', h_auditorPersonId = ''p3'', h_assignedPersonId = None, h_documentRequestId = ''q'',
     h_documentId = Some ''act'', h_createdBy = ''u'', h_closedAt = None, h_cancelledBy = None, h_cancelReason = None\<rparr>"

definition sampleHandoverItem :: handoverItem where
  "sampleHandoverItem = \<lparr>hi_handoverId = sampleHandoverId, hi_assetId = ''a'', hi_lineNumber = 1, hi_note = None,
     hi_open = True, hi_movementId = None\<rparr>"

definition sampleHandoverDb :: db where
  "sampleHandoverDb = (sampleDb InUse)\<lparr>db_handovers := [sampleHandover], db_handoverItems := [sampleHandoverItem],
     db_documentAssets := [\<lparr>da_documentId = ''act'', da_assetId = ''a'', da_movementId = None\<rparr>], db_seq := 10\<rparr>"

definition sampleHandoverEvent :: lifecycleEvent where
  "sampleHandoverEvent = \<lparr>lv_documentId = ''act'', lv_formatKey = HANDOVER_FORMAT_KEY, lv_number = ''1'',
     lv_entityType = HANDOVER_ENTITY_TYPE, lv_entityId = Some sampleHandoverId,
     lv_signers = [\<lparr>ds_documentId = ''act'', ds_signOrder = 1, ds_role = ''RECIBE'', ds_signerPersonId = Some ''p2'',
       ds_signerName = None, ds_signerDocument = None, ds_status = SSigned, ds_signedAt = Some 1\<rparr>]\<rparr>"

definition handoverFormat :: documentFormat where
  "handoverFormat = sampleFormat\<lparr>df_key := HANDOVER_FORMAT_KEY, df_signers :=
     [\<lparr>sn_order = 1, sn_role = ''RECIBE'', sn_label = ''Recibe'', sn_source = FromResponsible\<rparr>,
      \<lparr>sn_order = 2, sn_role = ''AUDITA'', sn_label = ''Audita'', sn_source = FromRequest\<rparr>]\<rparr>"

definition beforeHandover :: db where
  "beforeHandover = signersDb\<lparr>db_assets := [sampleAsset ''a'' InUse], db_formats := [handoverFormat],
     db_persons := db_persons signersDb @ [\<lparr>pe_id = ''p2'', pe_isActive = True, pe_costCenterId = None,
       pe_email = None, pe_documentNumber = None, pe_firstName = ''C'', pe_lastName = ''D''\<rparr>],
     db_costCenters := [\<lparr>cc_id = ''c1'', cc_isActive = True, cc_acceptsAssets = True\<rparr>]\<rparr>"

definition sampleHandoverInput :: createHandoverInput where
  "sampleHandoverInput = \<lparr>hc_assets = [\<lparr>hx_assetId = ''a'', hx_note = None\<rparr>], hc_receiverPersonId = ''p2'',
     hc_costCenterId = ''c1'', hc_auditorPersonId = ''p3'', hc_signerSubstitutions = None\<rparr>"

lemma sampleHandover_runs:
  "\<not> isl (handoverSigned sampleEnv sampleHandoverEvent sampleHandoverDb)"
  "\<not> isl (lockHandoverFor sampleHandoverEvent sampleHandoverDb)"
  "\<not> isl (createHandover sampleEnv sampleHandoverInput ''u'' beforeHandover)"
  by code_simp+

theorem handovers_hold_their_assets_witness:
  "\<exists>k db. createHandover sampleEnv sampleHandoverInput ''u'' beforeHandover = Inr (k, db) \<and>
     exclusiveOpen hi_assetId hi_open (db_handoverItems db)"
proof -
  obtain k db where run: "createHandover sampleEnv sampleHandoverInput ''u'' beforeHandover = Inr (k, db)"
    using sampleHandover_runs(3) by (cases "createHandover sampleEnv sampleHandoverInput ''u'' beforeHandover") auto
  have "handoverReachable (e_uuid sampleEnv) beforeHandover db" using HandoverCreated [OF refl run] by blast
  moreover have "inj (e_uuid sampleEnv)" using sampleEnv_ok by (simp add: envOk_def)
  moreover have "db_handovers beforeHandover = []" "db_handoverItems beforeHandover = []"
    by (simp_all add: beforeHandover_def signersDb_def emptyDb_def)
  ultimately show ?thesis using handovers_hold_their_assets run by blast
qed

theorem signed_handover_assigns_its_assets_witness:
  "\<exists>db' a. handoverSigned sampleEnv sampleHandoverEvent sampleHandoverDb = Inr db' \<and>
     findAsset db' ''a'' = Some a \<and> a_responsibleId a = Some ''p2''"
proof -
  obtain db' h where run: "handoverSigned sampleEnv sampleHandoverEvent sampleHandoverDb = Inr db'"
    "lockHandoverFor sampleHandoverEvent sampleHandoverDb = Inr h"
    using sampleHandover_runs(1,2)
    by (cases "handoverSigned sampleEnv sampleHandoverEvent sampleHandoverDb";
        cases "lockHandoverFor sampleHandoverEvent sampleHandoverDb") auto
  have h: "h = sampleHandover" using lockHandoverFor_Inr [OF run(2)] by (simp add: sampleHandoverDb_def)
  have assets: "assetsOfHandover sampleHandoverDb (h_id h) = [''a'']"
    by (simp add: h assetsOfHandover_def sampleHandoverDb_def sampleHandoverItem_def sampleHandover_def)
  have inv: "custodyInv sampleEnv sampleHandoverDb"
    by (rule custodyInv_cong [OF _ _ _ sampleDb_inv [of InUse]]) (simp_all add: sampleHandoverDb_def sampleDb_def emptyDb_def)
  have receiver: "signersByRole sampleHandoverEvent ''RECIBE'' = Some ''p2''"
    by (simp add: signersByRole_def sampleHandoverEvent_def)
  obtain u where all: "\<forall>k. if k \<in> set (assetsOfHandover sampleHandoverDb (h_id h))
        then (\<exists>a. findAsset sampleHandoverDb k = Some a \<and> a_operationalStatus a \<notin> set NOT_DELIVERABLE_STATUSES \<and>
             a_costCenterId a = h_costCenterId h \<and> findAsset db' k = Some (assignedAsset sampleEnv ''p2'' u a))
        else findAsset db' k = findAsset sampleHandoverDb k"
    using signed_handover_assigns_its_assets [OF run _ sampleEnv_ok inv] receiver assets by auto
  have "''a'' \<in> set (assetsOfHandover sampleHandoverDb (h_id h))" by (simp add: assets)
  then obtain a where "findAsset db' ''a'' = Some (assignedAsset sampleEnv ''p2'' u a)"
    using spec [OF all, of "''a''"] by auto
  then show ?thesis using run(1) by (auto simp: assignedAsset_def)
qed

end
