(* ===== verification/Loans.thy ===== *)
theory Loans
  imports DocActs AssetMoves Access
begin

text \<open>
  Loans of assets between cost centers: src/src/modules/loans/services/loans.service.ts,
  src/src/modules/loans/services/loan-delivery-act.lifecycle.ts and src/src/modules/loans/domain.

  A loan is requested for assets of one cost center, approved by somebody else, delivered (the assets
  go out on loan and their act is requested), active once the act is signed, and received back in one
  or several receptions. What a user may do and the cost centers a user decides on are arguments; so
  are the listeners other modules register.
\<close>

section \<open>Domain\<close>

fun loanStatusText :: "loanStatus \<Rightarrow> string" where
  "loanStatusText LRequested = ''REQUESTED''"
| "loanStatusText LApproved = ''APPROVED''"
| "loanStatusText LRejected = ''REJECTED''"
| "loanStatusText LInTransit = ''IN_TRANSIT''"
| "loanStatusText LPendingSignatures = ''PENDING_SIGNATURES''"
| "loanStatusText LActive = ''ACTIVE''"
| "loanStatusText LOverdue = ''OVERDUE''"
| "loanStatusText LPendingReception = ''PENDING_RECEPTION''"
| "loanStatusText LReturned = ''RETURNED''"
| "loanStatusText LPartiallyReturned = ''PARTIALLY_RETURNED''"
| "loanStatusText LClosedWithLosses = ''CLOSED_WITH_LOSSES''"
| "loanStatusText LCancelled = ''CANCELLED''"

definition ACTIVE_LOAN_STATUSES :: "loanStatus list" where
  "ACTIVE_LOAN_STATUSES = filter (\<lambda>s. s \<noteq> LRequested) OPEN_LOAN_STATUSES"

definition LOAN_OUT_STATUSES :: "loanStatus list" where
  "LOAN_OUT_STATUSES = [LPendingSignatures, LActive, LOverdue, LPendingReception, LPartiallyReturned]"

definition LOAN_OVERDUE_CANDIDATE_STATUSES :: "loanStatus list" where
  "LOAN_OVERDUE_CANDIDATE_STATUSES = [LPendingSignatures, LActive, LOverdue, LPartiallyReturned]"

fun loanTransitions :: "loanStatus \<Rightarrow> loanStatus list" where
  "loanTransitions LRequested = [LApproved, LRejected, LCancelled]"
| "loanTransitions LApproved = [LPendingSignatures, LInTransit, LRejected, LCancelled]"
| "loanTransitions LRejected = []"
| "loanTransitions LInTransit = [LActive]"
| "loanTransitions LPendingSignatures = [LActive, LCancelled]"
| "loanTransitions LActive = [LPendingReception, LOverdue]"
| "loanTransitions LOverdue = [LPendingReception, LActive]"
| "loanTransitions LPendingReception = [LReturned, LPartiallyReturned, LClosedWithLosses]"
| "loanTransitions LReturned = []"
| "loanTransitions LPartiallyReturned = [LPendingReception]"
| "loanTransitions LClosedWithLosses = []"
| "loanTransitions LCancelled = []"

definition canLoanTransition :: "loanStatus \<Rightarrow> loanStatus \<Rightarrow> bool" where
  "canLoanTransition from to = (to \<in> set (loanTransitions from))"

definition assertLoanTransition :: "loanStatus \<Rightarrow> loanStatus \<Rightarrow> unit res" where
  "assertLoanTransition from to =
     (if \<not> canLoanTransition from to then throw InvalidLoanStateTransition else Inr ())"

text \<open>The items as pairs of received and lost.\<close>

definition statusAfterReception :: "(bool \<times> bool) list \<Rightarrow> loanStatus" where
  "statusAfterReception items =
     (if list_ex (\<lambda>i. \<not> fst i) items then LPartiallyReturned
      else if list_ex snd items then LClosedWithLosses else LReturned)"

definition LOAN_APPROVE_GLOBAL :: string where "LOAN_APPROVE_GLOBAL = ''loan:approve:global''"
definition LOAN_APPROVE_SCOPED :: string where "LOAN_APPROVE_SCOPED = ''loan:approve:org_unit''"
definition LOAN_UPDATE_GLOBAL :: string where "LOAN_UPDATE_GLOBAL = ''loan:update:global''"
definition ASSET_READ_GLOBAL :: string where "ASSET_READ_GLOBAL = ''asset:read:global''"
definition ASSET_READ_SCOPED :: string where "ASSET_READ_SCOPED = ''asset:read:org_unit''"

definition LOAN_DOCUMENT_ENTITY :: string where "LOAN_DOCUMENT_ENTITY = ''LOAN''"
definition LOAN_DELIVERY_FORMAT :: string where "LOAN_DELIVERY_FORMAT = ''OCI-01-65''"
definition LOAN_RETURN_FORMAT :: string where "LOAN_RETURN_FORMAT = ''LOAN_RETURN''"

definition assertLoanInApprovalScope :: "costCenterScope \<Rightarrow> string \<Rightarrow> unit res" where
  "assertLoanInApprovalScope scope center =
     (case scope of CostCenters ids \<Rightarrow> if center \<notin> set ids then throw ResourceNotFound else Inr ()
      | _ \<Rightarrow> Inr ())"

definition LOANABLE :: "operationalStatus list" where
  "LOANABLE = [InUse, InStorage]"

section \<open>What the operations share\<close>

text \<open>The permissions of a user: \<open>userHasPermission\<close> and \<open>costCenterScope\<close> of a pair of codes.\<close>

record loanAccess =
  la_permits :: "string \<Rightarrow> string \<Rightarrow> bool"
  la_scope :: "string \<Rightarrow> string \<Rightarrow> string \<Rightarrow> costCenterScope"

record loanDelivered =
  lo_loanId :: string
  lo_requestId :: "string option"
  lo_documentRequestId :: string
  lo_deliveredAt :: int
  lo_actorId :: string

record loanEnded =
  ln_loanId :: string
  ln_requestId :: "string option"
  ln_reason :: string
  ln_actorId :: string

record loanListeners =
  lr_delivered :: "(loanDelivered \<Rightarrow> db \<Rightarrow> db res) list"
  lr_rejected :: "(loanEnded \<Rightarrow> db \<Rightarrow> db res) list"
  lr_cancelled :: "(loanEnded \<Rightarrow> db \<Rightarrow> db res) list"

definition notifyAll :: "('e \<Rightarrow> db \<Rightarrow> db res) list \<Rightarrow> 'e \<Rightarrow> db \<Rightarrow> db res" where
  "notifyAll listeners event db = foldM (\<lambda>d listener. listener event d) db listeners"

text \<open>An identifier that is not a UUID makes the query itself fail.\<close>

definition findLoan :: "db \<Rightarrow> string \<Rightarrow> loan option res" where
  "findLoan db k = (if isUuid k then Inr (List.find (\<lambda>l. l_id l = k) (db_loans db)) else throwError)"

definition lockLoan :: "db \<Rightarrow> string \<Rightarrow> loan res" where
  "lockLoan db k =
     rbind (findLoan db k) (\<lambda>found. case found of None \<Rightarrow> throw ResourceNotFound | Some l \<Rightarrow> Inr l)"

definition updateLoan :: "string \<Rightarrow> (loan \<Rightarrow> loan) \<Rightarrow> db \<Rightarrow> db" where
  "updateLoan k f db = db\<lparr>db_loans := update_where (\<lambda>l. l_id l = k) f (db_loans db)\<rparr>"

definition updateLoanItem :: "string \<Rightarrow> (loanItem \<Rightarrow> loanItem) \<Rightarrow> db \<Rightarrow> db" where
  "updateLoanItem k f db = db\<lparr>db_loanItems := update_where (\<lambda>i. li_id i = k) f (db_loanItems db)\<rparr>"

definition addLoanEvent :: "env \<Rightarrow> string \<Rightarrow> string \<Rightarrow> string \<Rightarrow> json \<Rightarrow> db \<Rightarrow> db" where
  "addLoanEvent env loanId eventType performedBy payload db =
     bumpSeq (db\<lparr>db_loanEvents := db_loanEvents db @
       [\<lparr>le_id = freshId env db, le_loanId = loanId, le_eventType = eventType, le_payload = Some payload,
         le_performedBy = performedBy, le_createdAt = e_now env\<rparr>]\<rparr>)"

definition auditLoan :: "string \<Rightarrow> string \<Rightarrow> string \<Rightarrow> json option \<Rightarrow> db \<Rightarrow> db" where
  "auditLoan action loanId performedBy changes = recordAudit action ''LOAN'' loanId (Some performedBy) changes"

definition requirePersons :: "db \<Rightarrow> string list \<Rightarrow> unit res" where
  "requirePersons db ids =
     (if list_ex (\<lambda>k. findPerson db k = None) (uniq ids) then throw ResourceNotFound else Inr ())"

definition itemsOfLoan :: "db \<Rightarrow> string \<Rightarrow> loanItem list" where
  "itemsOfLoan db k = filter (\<lambda>i. li_loanId i = k) (db_loanItems db)"

section \<open>A new loan\<close>

record createLoanInput =
  cl_assetIds :: "string list"
  cl_targetCostCenterId :: string
  cl_targetLocationId :: "string option"
  cl_contactPersonId :: string
  cl_expectedReturnDate :: string
  cl_justification :: string
  cl_deliveryNotes :: "string option"
  cl_startDate :: "string option"

record approvedLoan =
  ap_by :: string
  ap_at :: int
  ap_requestedBy :: string
  ap_assetRequestId :: string

definition assetsById :: "db \<Rightarrow> string list \<Rightarrow> asset list" where
  "assetsById db ids = sort_key a_id (filter (\<lambda>a. a_id a \<in> set ids) (db_assets db))"

definition outsideScope :: "costCenterScope option \<Rightarrow> asset list \<Rightarrow> bool" where
  "outsideScope scope assets =
     (case scope of
        None \<Rightarrow> False
      | Some Global \<Rightarrow> False
      | Some (CostCenters ids) \<Rightarrow> list_ex (\<lambda>a. a_costCenterId a \<notin> set ids) assets
      | Some _ \<Rightarrow> True)"

definition assertLendable ::
  "env \<Rightarrow> createLoanInput \<Rightarrow> costCenterScope option \<Rightarrow> db \<Rightarrow> (asset list \<times> string) res" where
  "assertLendable env input scope db =
     (let ids = uniq (cl_assetIds input); assets = assetsById db ids in
      if length assets \<noteq> length ids then throw ResourceNotFound
      else if outsideScope scope assets then throw ResourceNotFound
      else (case assets of
          [] \<Rightarrow> throw ResourceNotFound
        | first # _ \<Rightarrow>
            (let source = a_costCenterId first in
             if source = [] then throw ResourceNotFound
             else if list_ex (\<lambda>a. a_costCenterId a \<noteq> source) assets then throw ValidationFailed
             else if source = cl_targetCostCenterId input then throw LoanSameCostCenter
             else if \<not> list_ex (\<lambda>cc. cc_id cc = cl_targetCostCenterId input \<and> cc_isActive cc) (db_costCenters db)
             then throw ResourceNotFound
             else
               rbind (assertCostCenterHasHead db (cl_targetCostCenterId input) (e_now env)) (\<lambda>_.
               if findPerson db (cl_contactPersonId input) = None then throw ResourceNotFound
               else if list_ex (\<lambda>a. a_operationalStatus a \<notin> set LOANABLE) assets then throw AssetCannotBeModified
               else if list_ex (holdOpenLoan db) ids then throw AssetAlreadyLoaned
               else if list_ex (holdOpenWriteOff db None) ids then throw AssetInOpenWriteOff
               else Inr (assets, source)))))"

definition loanRow ::
  "env \<Rightarrow> string \<Rightarrow> createLoanInput \<Rightarrow> string \<Rightarrow> string \<Rightarrow> approvedLoan option \<Rightarrow> loan" where
  "loanRow env k input source requestedBy approved =
     \<lparr>l_id = k, l_sourceCostCenterId = source, l_targetCostCenterId = cl_targetCostCenterId input,
      l_targetLocationId = cl_targetLocationId input, l_contactPersonId = Some (cl_contactPersonId input),
      l_requestedAt = e_now env,
      l_startDate = (if falsy (cl_startDate input) then None else map_option (take 10) (cl_startDate input)),
      l_expectedReturnDate = take 10 (cl_expectedReturnDate input), l_approvedAt = map_option ap_at approved,
      l_deliveredAt = None, l_actualReturnDate = None, l_requestedBy = requestedBy,
      l_approvedBy = map_option ap_by approved, l_deliveredBy = None, l_receivedBackBy = None,
      l_status = (if approved = None then LRequested else LApproved), l_justification = cl_justification input,
      l_deliveryNotes = cl_deliveryNotes input, l_returnNotes = None, l_rejectedReason = None,
      l_cancelledReason = None, l_deliveryDocumentId = None, l_assetRequestId = map_option ap_assetRequestId approved,
      l_extensionRequestedDate = None, l_createdAt = e_now env, l_updatedAt = e_now env\<rparr>"

definition loanItemRow :: "string \<Rightarrow> string \<Rightarrow> string \<Rightarrow> asset \<Rightarrow> loanItem" where
  "loanItemRow k loanId source a =
     \<lparr>li_id = k, li_loanId = loanId, li_assetId = a_id a, li_sourceCostCenterId = source,
      li_statusOnLoan = Some (a_operationalStatus a), li_conditionOnDelivery = a_physicalCondition a,
      li_returnCondition = None, li_returnedAt = None, li_receivedAt = None\<rparr>"

definition insertLoanItem :: "env \<Rightarrow> string \<Rightarrow> string \<Rightarrow> db \<Rightarrow> asset \<Rightarrow> db" where
  "insertLoanItem env loanId source db a =
     bumpSeq (db\<lparr>db_loanItems := db_loanItems db @ [loanItemRow (freshId env db) loanId source a]\<rparr>)"

definition createLoanWithin ::
  "env \<Rightarrow> createLoanInput \<Rightarrow> string \<Rightarrow> costCenterScope option \<Rightarrow> approvedLoan option \<Rightarrow> db
     \<Rightarrow> (string \<times> db) res" where
  "createLoanWithin env input actorId scope approved db =
     rbind (assertLendable env input scope db) (\<lambda>(assets, source).
       (let requestedBy = (case approved of None \<Rightarrow> actorId | Some a \<Rightarrow> ap_requestedBy a);
            k = freshId env db;
            db1 = bumpSeq (db\<lparr>db_loans := db_loans db @ [loanRow env k input source requestedBy approved]\<rparr>);
            db2 = foldl (insertLoanItem env k source) db1 assets;
            of_request = (case approved of None \<Rightarrow> []
              | Some a \<Rightarrow> [(''assetRequestId'', JStr (ap_assetRequestId a))]);
            requested = JObj ((''assets'', jStrings (uniq (cl_assetIds input))) # of_request);
            db3 = auditLoan ''LOAN_REQUESTED'' k actorId (Some requested)
              (addLoanEvent env k ''REQUESTED'' requestedBy requested db2)
        in Inr (k, case approved of
             None \<Rightarrow> db3
           | Some a \<Rightarrow> auditLoan ''LOAN_APPROVED'' k actorId (Some (JObj of_request))
               (addLoanEvent env k ''APPROVED'' (ap_by a) (JObj of_request) db3))))"

definition createLoan :: "loanAccess \<Rightarrow> env \<Rightarrow> createLoanInput \<Rightarrow> string \<Rightarrow> db \<Rightarrow> (string \<times> db) res" where
  "createLoan access env input actorId db =
     createLoanWithin env (input\<lparr>cl_startDate := None\<rparr>) actorId
       (Some (la_scope access actorId ASSET_READ_GLOBAL ASSET_READ_SCOPED)) None db"

section \<open>Approval\<close>

definition approvalScope :: "loanAccess \<Rightarrow> string \<Rightarrow> costCenterScope res" where
  "approvalScope access actorId = requireReadableScope (la_scope access actorId LOAN_APPROVE_GLOBAL LOAN_APPROVE_SCOPED)"

text \<open>What the four decisions on a loan or its extension start with.\<close>

definition lockForDecision :: "loanAccess \<Rightarrow> string \<Rightarrow> string \<Rightarrow> db \<Rightarrow> loan res" where
  "lockForDecision access k actorId db =
     rbind (approvalScope access actorId) (\<lambda>scope.
     rbind (lockLoan db k) (\<lambda>l.
     rbind (assertLoanInApprovalScope scope (l_sourceCostCenterId l)) (\<lambda>_.
       if l_requestedBy l = actorId then throw LoanSodViolation else Inr l)))"

definition approveLoan :: "loanAccess \<Rightarrow> env \<Rightarrow> string \<Rightarrow> string \<Rightarrow> db \<Rightarrow> db res" where
  "approveLoan access env k actorId db =
     rbind (lockForDecision access k actorId db) (\<lambda>l.
     rbind (assertLoanTransition (l_status l) LApproved) (\<lambda>_.
       Inr (auditLoan ''LOAN_APPROVED'' (l_id l) actorId None
         (addLoanEvent env (l_id l) ''APPROVED'' actorId (JObj [])
           (updateLoan (l_id l) (\<lambda>x. x\<lparr>l_status := LApproved, l_approvedAt := Some (e_now env),
              l_approvedBy := Some actorId, l_updatedAt := e_now env\<rparr>) db)))))"

definition rejectLoan :: "loanAccess \<Rightarrow> loanListeners \<Rightarrow> env \<Rightarrow> string \<Rightarrow> string \<Rightarrow> string \<Rightarrow> db \<Rightarrow> db res" where
  "rejectLoan access listeners env k reason actorId db =
     rbind (lockForDecision access k actorId db) (\<lambda>l.
     rbind (assertLoanTransition (l_status l) LRejected) (\<lambda>_.
       notifyAll (lr_rejected listeners)
         \<lparr>ln_loanId = l_id l, ln_requestId = l_assetRequestId l, ln_reason = reason, ln_actorId = actorId\<rparr>
         (auditLoan ''LOAN_REJECTED'' (l_id l) actorId (Some (JObj [(''reason'', JStr reason)]))
           (addLoanEvent env (l_id l) ''REJECTED'' actorId (JObj [(''reason'', JStr reason)])
             (updateLoan (l_id l) (\<lambda>x. x\<lparr>l_status := LRejected, l_rejectedReason := Some reason,
                l_updatedAt := e_now env\<rparr>) db)))))"

section \<open>Delivery\<close>

datatype deliveryRole = ControlRole | HeadRole string

definition deliveryRoleOf :: "loanAccess \<Rightarrow> env \<Rightarrow> string \<Rightarrow> string \<Rightarrow> db \<Rightarrow> deliveryRole option" where
  "deliveryRoleOf access env k actorId db =
     (if la_permits access actorId LOAN_UPDATE_GLOBAL then Some ControlRole
      else (case (if isUuid k then List.find (\<lambda>l. l_id l = k) (db_loans db) else None) of
          None \<Rightarrow> None
        | Some l \<Rightarrow>
            if falsy (l_assetRequestId l) \<or> l_requestedBy l = actorId then None
            else map_option (\<lambda>h. HeadRole (ch_personId h))
              (List.find (\<lambda>h. currentHead (e_now env) (l_sourceCostCenterId l) h \<and>
                 list_ex (\<lambda>u. u_id u = actorId \<and> u_personId u = Some (ch_personId h)) (db_users db)) (db_heads db))))"

definition canCancelLoan :: "loanAccess \<Rightarrow> env \<Rightarrow> string \<Rightarrow> string \<Rightarrow> db \<Rightarrow> bool" where
  "canCancelLoan access env k actorId db =
     (deliveryRoleOf access env k actorId db \<noteq> None \<or>
      (isUuid k \<and> list_ex (\<lambda>l. l_id l = k \<and> l_requestedBy l = actorId) (db_loans db)))"

definition cancelLoan :: "loanAccess \<Rightarrow> loanListeners \<Rightarrow> env \<Rightarrow> string \<Rightarrow> string \<Rightarrow> string \<Rightarrow> db \<Rightarrow> db res" where
  "cancelLoan access listeners env k reasonText actorId db =
     (let reason = trim reasonText in
      if \<not> canCancelLoan access env k actorId db then throw InsufficientPermissions
      else
        rbind (lockLoan db k) (\<lambda>l.
        rbind (assertLoanTransition (l_status l) LCancelled) (\<lambda>_.
        if l_status l \<noteq> LApproved then throw InvalidLoanStateTransition
        else
          notifyAll (lr_cancelled listeners)
            \<lparr>ln_loanId = l_id l, ln_requestId = l_assetRequestId l, ln_reason = reason, ln_actorId = actorId\<rparr>
            (auditLoan ''LOAN_CANCELLED'' (l_id l) actorId (Some (JObj
                [(''from'', JStr (loanStatusText (l_status l))), (''to'', JStr ''CANCELLED'')]))
              (addLoanEvent env (l_id l) ''CANCELLED'' actorId (JObj [(''reason'', JStr reason)])
                (updateLoan (l_id l) (\<lambda>x. x\<lparr>l_status := LCancelled, l_cancelledReason := Some reason,
                   l_updatedAt := e_now env\<rparr>) db))))))"

record deliverLoanInput =
  dl_deliveredByPersonId :: "string option"
  dl_controlInternoPersonId :: "string option"
  dl_assetNotes :: "(string \<times> json) list option"
  dl_signerSubstitutions :: "json option"

definition deliverySigners :: "db \<Rightarrow> deliverLoanInput \<Rightarrow> deliveryRole \<Rightarrow> (string \<times> string) res" where
  "deliverySigners db dto role =
     rbind (case role of
         HeadRole personId \<Rightarrow>
           if \<not> falsy (dl_deliveredByPersonId dto) \<and> dl_deliveredByPersonId dto \<noteq> Some personId
           then throw ValidationFailed else Inr personId
       | ControlRole \<Rightarrow>
           if falsy (dl_deliveredByPersonId dto) then throw ValidationFailed
           else Inr (the (dl_deliveredByPersonId dto))) (\<lambda>deliveredBy.
     if \<not> falsy (dl_controlInternoPersonId dto) then Inr (deliveredBy, the (dl_controlInternoPersonId dto))
     else (case holders db CONTROL_SIGNER_PERMISSION of
         [] \<Rightarrow> throw TransferNoControlSigner
       | [only] \<Rightarrow> Inr (deliveredBy, only)
       | _ \<Rightarrow> throw TransferSignerRequired))"

definition loanActPayload :: "string \<Rightarrow> string option \<Rightarrow> (string \<times> string) list \<Rightarrow> json option \<Rightarrow> documentRequestPayload" where
  "loanActPayload formatKey responsible signers subs =
     \<lparr>dp_formatKey = formatKey, dp_entityType = None, dp_entityId = None, dp_costCenterId = None,
      dp_responsiblePersonId = responsible, dp_assetIds = [], dp_movementIds = [], dp_signers = signers,
      dp_signerSubstitutions = subs, dp_tables = None\<rparr>"

definition assertStillLoanable :: "loan \<Rightarrow> asset \<Rightarrow> unit res" where
  "assertStillLoanable l current =
     (if a_costCenterId current \<noteq> l_sourceCostCenterId l then throw AssetCannotBeModified
      else if a_operationalStatus current \<notin> set LOANABLE then throw AssetCannotBeModified else Inr ())"

definition deliverChange :: "env \<Rightarrow> string \<Rightarrow> loan \<Rightarrow> string \<Rightarrow> loanItem \<Rightarrow> assetChange" where
  "deliverChange env actorId l contact item =
     \<lparr>c_assetId = li_assetId item, c_actorId = actorId,
      c_patch = noPatch\<lparr>p_operationalStatus := Some OnLoan\<rparr>,
      c_movement = Some \<lparr>sp_type = Loan, sp_reason = Some (l_justification l), sp_documentReference = None,
        sp_executedAt = Some (e_now env), sp_requestedBy = Some (l_requestedBy l),
        sp_metadata = Some [(''loanId'', JStr (l_id l)), (''targetCostCenterId'', JStr (l_targetCostCenterId l)),
          (''targetLocationId'', nullable (l_targetLocationId l)), (''contactPersonId'', JStr contact)],
        sp_initial = False\<rparr>,
      c_audit = None, c_guard = assertStillLoanable l,
      c_alsoWrite = (\<lambda>db current. Inr (updateLoanItem (li_id item)
        (\<lambda>i. i\<lparr>li_statusOnLoan := Some (a_operationalStatus current),
           li_conditionOnDelivery := a_physicalCondition current\<rparr>) db))\<rparr>"

text \<open>The items of a loan with their asset, in the order of its code.\<close>

definition deliveryItems :: "db \<Rightarrow> string \<Rightarrow> loanItem list" where
  "deliveryItems db k =
     sort_key (\<lambda>i. a_internalCode (the (findAsset db (li_assetId i))))
       (sort_key li_id (filter (\<lambda>i. findAsset db (li_assetId i) \<noteq> None) (itemsOfLoan db k)))"

definition isText :: "json \<Rightarrow> bool" where
  "isText j = (case j of JStr _ \<Rightarrow> True | _ \<Rightarrow> False)"

definition assertNotes :: "string list \<Rightarrow> (string \<times> json) list option \<Rightarrow> unit res" where
  "assertNotes assetIds notes =
     (if list_ex (\<lambda>n. fst n \<notin> set assetIds \<or> \<not> isText (snd n)) (or_keep notes []) then throw ValidationFailed
      else Inr ())"

definition jMap :: "(string \<times> string) list \<Rightarrow> json" where
  "jMap entries = JObj (map (\<lambda>(k, v). (k, JStr v)) entries)"

definition deliverWithin ::
  "loanListeners \<Rightarrow> env \<Rightarrow> string \<Rightarrow> deliverLoanInput \<Rightarrow> string \<Rightarrow> deliveryRole \<Rightarrow> db \<Rightarrow> db res" where
  "deliverWithin listeners env k dto actorId role db =
     rbind (lockLoan db k) (\<lambda>l.
     rbind (assertLoanTransition (l_status l) LPendingSignatures) (\<lambda>_.
     (let today = localeIsoDate (e_now env) in
      if \<not> falsy (l_startDate l) \<and> today < the (l_startDate l)
      then rbind (longSpanishDate (the (l_startDate l))) (\<lambda>_. throw LoanNotStarted)
      else if falsy (l_contactPersonId l) then throw ValidationFailed
      else
        (let contact = the (l_contactPersonId l) in
         rbind (deliverySigners db dto role) (\<lambda>(deliveredBy, control).
         rbind (requirePersons db [deliveredBy, control]) (\<lambda>_.
         (let signers = [(''ENTREGA'', deliveredBy), (''AUDITA'', control)];
              act = loanActPayload LOAN_DELIVERY_FORMAT (Some contact) signers (dl_signerSubstitutions dto) in
          rbind (assertSigners env act (Some actorId) db) (\<lambda>_.
          rbind (usageBetween today (l_expectedReturnDate l)) (\<lambda>estimated.
          case estimated of
            None \<Rightarrow> throw ValidationFailed
          | Some usage \<Rightarrow>
              (let items = deliveryItems db (l_id l); assetIds = map li_assetId items in
               if items = [] then throw InvalidState
               else
                 rbind (assertNotes assetIds (dl_assetNotes dto)) (\<lambda>_.
                 rbind (recordAll env (deliverChange env actorId l contact) li_assetId (\<lambda>_ d. d) items db)
                   (\<lambda>(db1, movementIds).
                 (let db2 = updateLoan (l_id l) (\<lambda>x. x\<lparr>l_status := LPendingSignatures,
                        l_deliveredAt := Some (e_now env), l_deliveredBy := Some actorId,
                        l_updatedAt := e_now env\<rparr>) db1 in
                  rbind (longSpanishDate today) (\<lambda>given.
                  rbind (longSpanishDate (l_expectedReturnDate l)) (\<lambda>due.
                  rbind (enqueueAct env (act\<lparr>dp_entityType := Some LOAN_DOCUMENT_ENTITY, dp_entityId := Some (l_id l),
                      dp_costCenterId := Some (l_sourceCostCenterId l), dp_assetIds := assetIds,
                      dp_movementIds := movementIds\<rparr>) (Some actorId) db2) (\<lambda>(requestId, db3).
                    notifyAll (lr_delivered listeners)
                      \<lparr>lo_loanId = l_id l, lo_requestId = l_assetRequestId l, lo_documentRequestId = requestId,
                       lo_deliveredAt = e_now env, lo_actorId = actorId\<rparr>
                      (auditLoan ''LOAN_DELIVERED'' (l_id l) actorId
                          (Some (JObj [(''documentRequestId'', JStr requestId)]))
                        (addLoanEvent env (l_id l) ''DELIVERED'' actorId (JObj
                          [(''documentRequestId'', JStr requestId), (''movementIds'', jMap movementIds),
                           (''signers'', jMap (signers @ [(''RECIBE'', contact)])),
                           (''fields'', JObj [(''fechaEntrega'', JStr given),
                              (''fechaEstimadaDevolucion'', JStr due), (''tiempoUso'', JStr (lu_text usage))])])
                          db3))))))))))))))))))"

definition deliverLoan ::
  "loanAccess \<Rightarrow> loanListeners \<Rightarrow> env \<Rightarrow> string \<Rightarrow> deliverLoanInput \<Rightarrow> string \<Rightarrow> db \<Rightarrow> db res" where
  "deliverLoan access listeners env k dto actorId db =
     (case deliveryRoleOf access env k actorId db of
        None \<Rightarrow> throw InsufficientPermissions
      | Some role \<Rightarrow> deliverWithin listeners env k dto actorId role db)"

section \<open>The act of a delivery\<close>

datatype loanActStatus = ActNone | ActPending | ActFailed | ActGenerated | ActSigned | ActRejected | ActVoided
  | ActCancelled

fun actOfDocument :: "documentStatus \<Rightarrow> loanActStatus" where
  "actOfDocument DPendingSignature = ActGenerated"
| "actOfDocument DSigned = ActSigned"
| "actOfDocument DRejected = ActRejected"
| "actOfDocument DVoided = ActVoided"

text \<open>The status, the document and its number.\<close>

definition deliveryAct :: "db \<Rightarrow> loan \<Rightarrow> loanActStatus \<times> document option" where
  "deliveryAct db l =
     (let state = stateFor db LOAN_DOCUMENT_ENTITY (l_id l) (Some LOAN_DELIVERY_FORMAT);
          request = (case ed_requests state of [] \<Rightarrow> None | r # _ \<Rightarrow> Some r);
          waiting = (case request of None \<Rightarrow> False | Some r \<Rightarrow> openRequest r);
          byId = (\<lambda>k. List.find (\<lambda>d. Some (d_id d) = k) (ed_documents state));
          newest = (case ed_documents state of [] \<Rightarrow> None | d # _ \<Rightarrow> Some d);
          ofRequest = (case Option.bind request dr_documentId of None \<Rightarrow> None
            | Some k \<Rightarrow> if k = [] then None else byId (Some k));
          document = (if waiting then None
            else case byId (l_deliveryDocumentId l) of Some d \<Rightarrow> Some d
              | None \<Rightarrow> (case ofRequest of Some d \<Rightarrow> Some d | None \<Rightarrow> newest))
      in (if waiting then (if map_option dr_status request = Some RPending then ActPending else ActFailed)
          else (case document of
              Some d \<Rightarrow> actOfDocument (d_status d)
            | None \<Rightarrow> if map_option dr_status request = Some RCancelled then ActCancelled else ActNone), document))"

record regenerateLoanInput =
  rl_deliveredByPersonId :: string
  rl_controlInternoPersonId :: string
  rl_contactPersonId :: "string option"
  rl_reason :: string
  rl_signerSubstitutions :: "json option"

text \<open>The checks of \<open>regenerateDeliveryAct\<close> and \<open>undoDelivery\<close> before their transaction.\<close>

definition mayIssueDeliveryAct :: "loanAccess \<Rightarrow> env \<Rightarrow> string \<Rightarrow> db \<Rightarrow> unit res" where
  "mayIssueDeliveryAct access env actorId db =
     rbind (currentFormat env db LOAN_DELIVERY_FORMAT) (\<lambda>f.
       if \<not> la_permits access actorId (df_generatePermission f) then throw InsufficientPermissions else Inr ())"

definition deliveryRequests :: "db \<Rightarrow> string \<Rightarrow> documentRequest list" where
  "deliveryRequests db k = newestFirst dr_createdAt dr_id (filter (\<lambda>r. dr_formatKey r = LOAN_DELIVERY_FORMAT \<and>
     dp_entityType (dr_payload r) = Some LOAN_DOCUMENT_ENTITY \<and> dp_entityId (dr_payload r) = Some k)
     (db_documentRequests db))"

text \<open>The body of \<open>regenerateDeliveryAct\<close>, once the rejected act and its request are found.\<close>

definition replaceDeliveryAct ::
  "env \<Rightarrow> regenerateLoanInput \<Rightarrow> string \<Rightarrow> loan \<Rightarrow> document \<Rightarrow> documentRequest \<Rightarrow> db \<Rightarrow> db res" where
  "replaceDeliveryAct env dto actorId l act previous db =
     (let contact = (case rl_contactPersonId dto of None \<Rightarrow> l_contactPersonId l | c \<Rightarrow> c);
          signers = [(''ENTREGA'', rl_deliveredByPersonId dto), (''AUDITA'', rl_controlInternoPersonId dto)];
          db1 = (if contact = l_contactPersonId l then db
            else updateLoan (l_id l) (\<lambda>x. x\<lparr>l_contactPersonId := contact, l_updatedAt := e_now env\<rparr>) db);
          db2 = db1\<lparr>db_documentAssets := update_where (\<lambda>r. da_documentId r = d_id act)
            (\<lambda>r. r\<lparr>da_movementId := None\<rparr>) (db_documentAssets db1)\<rparr>
      in if falsy contact then throw ValidationFailed
         else
           rbind (requirePersons db [rl_deliveredByPersonId dto, rl_controlInternoPersonId dto, the contact]) (\<lambda>_.
           rbind (assertSigners env (loanActPayload LOAN_DELIVERY_FORMAT contact signers
             (rl_signerSubstitutions dto)) (Some actorId) db) (\<lambda>_.
           rbind (enqueueAct env ((dr_payload previous)\<lparr>dp_formatKey := LOAN_DELIVERY_FORMAT,
               dp_entityType := Some LOAN_DOCUMENT_ENTITY, dp_entityId := Some (l_id l),
               dp_costCenterId := Some (l_sourceCostCenterId l), dp_responsiblePersonId := contact,
               dp_signers := signers, dp_signerSubstitutions := rl_signerSubstitutions dto\<rparr>)
             (Some actorId) db2) (\<lambda>(requestId, db3).
             Inr (auditLoan ''LOAN_ACT_REGENERATED'' (l_id l) actorId (Some (JObj
                 [(''documentRequestId'', JStr requestId), (''previousDocumentId'', JStr (d_id act)),
                  (''reason'', JStr (rl_reason dto))]))
               (addLoanEvent env (l_id l) ''DELIVERY_ACT_REGENERATED'' actorId (JObj
                 ([(''documentRequestId'', JStr requestId), (''previousDocumentId'', JStr (d_id act)),
                   (''previousNumber'', JStr (d_number act)),
                   (''signers'', jMap (signers @ [(''RECIBE'', the contact)]))] @
                  (if contact = l_contactPersonId l then []
                   else [(''previousContactPersonId'', nullable (l_contactPersonId l))]) @
                  [(''reason'', JStr (rl_reason dto))])) db3))))))"

definition regenerateDeliveryAct ::
  "loanAccess \<Rightarrow> env \<Rightarrow> string \<Rightarrow> regenerateLoanInput \<Rightarrow> string \<Rightarrow> db \<Rightarrow> db res" where
  "regenerateDeliveryAct access env k dto actorId db =
     rbind (mayIssueDeliveryAct access env actorId db) (\<lambda>_.
     rbind (lockLoan db k) (\<lambda>l.
     if l_status l \<noteq> LPendingSignatures then throw InvalidLoanStateTransition
     else (case deliveryAct db l of
         (ActRejected, Some act) \<Rightarrow>
           (case deliveryRequests db (l_id l) of
              [] \<Rightarrow> throw InvalidState
            | previous # _ \<Rightarrow> replaceDeliveryAct env dto actorId l act previous db)
       | _ \<Rightarrow> throw LoanDeliveryActNotRejected)))"

definition assertOnLoan :: "asset \<Rightarrow> unit res" where
  "assertOnLoan current = (if a_operationalStatus current \<noteq> OnLoan then throw InvalidState else Inr ())"

definition undoChange :: "env \<Rightarrow> string \<Rightarrow> loan \<Rightarrow> string \<Rightarrow> string list \<Rightarrow> loanItem \<Rightarrow> assetChange" where
  "undoChange env actorId l reason voided item =
     \<lparr>c_assetId = li_assetId item, c_actorId = actorId,
      c_patch = noPatch\<lparr>p_operationalStatus := Some (or_keep (li_statusOnLoan item) InUse)\<rparr>,
      c_movement = Some \<lparr>sp_type = Return,
        sp_reason = Some (''Entrega del pr'' @ [CHR 0xE9] @ ''stamo deshecha: '' @ reason), sp_documentReference = None,
        sp_executedAt = Some (e_now env), sp_requestedBy = None,
        sp_metadata = Some [(''loanId'', JStr (l_id l)), (''undoDelivery'', JBool True),
          (''voidedDocumentIds'', jStrings voided)], sp_initial = False\<rparr>,
      c_audit = None, c_guard = assertOnLoan, c_alsoWrite = noWrite\<rparr>"

definition undoDelivery :: "loanAccess \<Rightarrow> env \<Rightarrow> string \<Rightarrow> string \<Rightarrow> string \<Rightarrow> db \<Rightarrow> db res" where
  "undoDelivery access env k reasonText actorId db =
     rbind (mayIssueDeliveryAct access env actorId db) (\<lambda>_.
     (let reason = trim reasonText in
      rbind (lockLoan db k) (\<lambda>_.
      rbind (voidForEntity env LOAN_DOCUMENT_ENTITY k reason (Some actorId) db) (\<lambda>(cancelled, voided, db1).
      rbind (lockLoan db1 k) (\<lambda>l.
      if l_status l \<noteq> LPendingSignatures then throw InvalidLoanStateTransition
      else
        rbind (assertLoanTransition (l_status l) LCancelled) (\<lambda>_.
        rbind (recordAll env (undoChange env actorId l reason voided) li_assetId (\<lambda>_ d. d)
            (sort_key li_assetId (itemsOfLoan db1 k)) db1) (\<lambda>(db2, movementIds).
          Inr (auditLoan ''LOAN_DELIVERY_UNDONE'' (l_id l) actorId
              (Some (JObj [(''reason'', JStr reason), (''voidedDocumentIds'', jStrings voided)]))
            (addLoanEvent env (l_id l) ''DELIVERY_UNDONE'' actorId
              (JObj [(''reason'', JStr reason), (''movementIds'', jMap movementIds),
                 (''cancelledRequestIds'', jStrings cancelled), (''voidedDocumentIds'', jStrings voided)])
              (updateLoan (l_id l) (\<lambda>x. x\<lparr>l_status := LCancelled, l_updatedAt := e_now env\<rparr>) db2))))))))))"

section \<open>The return of the assets\<close>

fun returnConditionText :: "loanReturnCondition \<Rightarrow> string" where
  "returnConditionText ReturnGood = ''GOOD''"
| "returnConditionText ReturnDamaged = ''DAMAGED''"
| "returnConditionText ReturnLost = ''LOST''"

record returnedAssetInput =
  rt_assetId :: string
  rt_condition :: loanReturnCondition
  rt_returnedAt :: "int option"

definition assertDeliveryActSigned :: "loan \<Rightarrow> unit res" where
  "assertDeliveryActSigned l = (if l_status l = LPendingSignatures then throw LoanDeliveryActNotSigned else Inr ())"

text \<open>One turn of the loop over the assets given back; the items were read before the loop.\<close>

definition recordReturned ::
  "env \<Rightarrow> loan \<Rightarrow> loanItem list \<Rightarrow> db \<times> json list \<times> string list \<Rightarrow> returnedAssetInput
     \<Rightarrow> (db \<times> json list \<times> string list) res" where
  "recordReturned env l items s returned =
     (case s of (db, recorded, seen) \<Rightarrow>
        if rt_assetId returned \<in> set seen then throw ValidationFailed
        else (case map_of (rev (map (\<lambda>i. (li_assetId i, i)) items)) (rt_assetId returned) of
            None \<Rightarrow> throw ResourceNotFound
          | Some item \<Rightarrow>
              (let returnedAt = or_keep (rt_returnedAt returned) (e_now env) in
               if li_receivedAt item \<noteq> None then throw ValidationFailed
               else if e_now env < returnedAt then throw ValidationFailed
               else if (case l_deliveredAt l of None \<Rightarrow> False | Some t \<Rightarrow> returnedAt < t) then throw ValidationFailed
               else Inr (updateLoanItem (li_id item) (\<lambda>i. i\<lparr>li_returnCondition := Some (rt_condition returned),
                       li_returnedAt := Some returnedAt\<rparr>) db,
                     recorded @ [JObj [(''assetId'', JStr (rt_assetId returned)),
                       (''condition'', JStr (returnConditionText (rt_condition returned))),
                       (''returnedAt'', JStr (toISOString returnedAt))]],
                     rt_assetId returned # seen))))"

definition startReturn ::
  "env \<Rightarrow> string \<Rightarrow> returnedAssetInput list \<Rightarrow> string option \<Rightarrow> string \<Rightarrow> db \<Rightarrow> db res" where
  "startReturn env k assetsReturned notes actorId db =
     rbind (lockLoan db k) (\<lambda>l.
     rbind (assertDeliveryActSigned l) (\<lambda>_.
     rbind (assertLoanTransition (l_status l) LPendingReception) (\<lambda>_.
     rbind (foldM (recordReturned env l (itemsOfLoan db k)) (db, [], []) assetsReturned) (\<lambda>(db1, recorded, _).
       Inr (addLoanEvent env (l_id l) ''RETURN_STARTED'' actorId
           (JObj [(''assets'', JArr recorded), (''notes'', nullable notes)])
         (updateLoan (l_id l) (\<lambda>x. x\<lparr>l_status := LPendingReception,
            l_returnNotes := (case notes of None \<Rightarrow> l_returnNotes l | n \<Rightarrow> n), l_updatedAt := e_now env\<rparr>) db1))))))"

definition returnedPatch :: "loanItem \<Rightarrow> assetPatch" where
  "returnedPatch item =
     (if li_returnCondition item = Some ReturnLost then noPatch\<lparr>p_operationalStatus := Some Lost\<rparr>
      else (let restored = noPatch\<lparr>p_operationalStatus := Some (or_keep (li_statusOnLoan item) InUse)\<rparr> in
        if li_returnCondition item = Some ReturnDamaged then restored\<lparr>p_physicalCondition := Some (Some Fair)\<rparr>
        else restored))"

definition receiveChange :: "env \<Rightarrow> string \<Rightarrow> loan \<Rightarrow> loanItem \<Rightarrow> assetChange" where
  "receiveChange env actorId l item =
     \<lparr>c_assetId = li_assetId item, c_actorId = actorId, c_patch = returnedPatch item,
      c_movement = Some \<lparr>sp_type = Return, sp_reason = l_returnNotes l, sp_documentReference = None,
        sp_executedAt = Some (or_keep (li_returnedAt item) (e_now env)), sp_requestedBy = None,
        sp_metadata = Some [(''loanId'', JStr (l_id l)),
          (''returnCondition'', nullable (map_option returnConditionText (li_returnCondition item)))],
        sp_initial = False\<rparr>,
      c_audit = None, c_guard = assertOnLoan, c_alsoWrite = noWrite\<rparr>"

definition markReceived :: "env \<Rightarrow> loanItem \<Rightarrow> db \<Rightarrow> db" where
  "markReceived env item = updateLoanItem (li_id item) (\<lambda>i. i\<lparr>li_receivedAt := Some (e_now env)\<rparr>)"

definition awaitsReception :: "loanItem \<Rightarrow> bool" where
  "awaitsReception item = (li_returnCondition item \<noteq> None \<and> li_receivedAt item = None)"

fun latestReturn :: "env \<Rightarrow> int option \<Rightarrow> loanItem list \<Rightarrow> int option" where
  "latestReturn env t [] = t"
| "latestReturn env t (i # is) =
     (let returnedAt = or_keep (li_returnedAt i) (e_now env) in
      latestReturn env (if t = None \<or> the t < returnedAt then Some returnedAt else t) is)"

definition returnActSigners ::
  "env \<Rightarrow> signerSpec list \<Rightarrow> (string \<times> json) list option \<Rightarrow> loan \<Rightarrow> db \<Rightarrow> (string \<times> string) list res" where
  "returnActSigners env specs givenSigners l db =
     (let roles = map sn_role (filter (\<lambda>s. sn_source s = FromRequest) specs);
          given = or_keep givenSigners [];
          personOf = (\<lambda>role. case map_of given role of Some (JStr p) \<Rightarrow> p | _ \<Rightarrow> [])
      in if list_ex (\<lambda>role. personOf role = []) roles \<or> list_ex (\<lambda>g. fst g \<notin> set roles) given \<or>
            list_ex (\<lambda>g. \<not> (case snd g of JStr p \<Rightarrow> isUuid p | _ \<Rightarrow> False)) given
         then throw ValidationFailed
         else if list_ex (\<lambda>s. sn_source s = FromResponsible) specs \<and> falsy (l_contactPersonId l)
         then throw ValidationFailed
         else
           (let signers = map (\<lambda>role. (role, personOf role)) (uniq roles) in
            rbind (requirePersons db (map snd signers)) (\<lambda>_.
            rbind (assertSigners env (loanActPayload LOAN_RETURN_FORMAT
                (if falsy (l_contactPersonId l) then None else l_contactPersonId l) signers None) None db) (\<lambda>_.
              Inr signers))))"

text \<open>The dates printed on the act of a return may fail to be written.\<close>

definition returnActPayload ::
  "env \<Rightarrow> loan \<Rightarrow> loanItem list \<Rightarrow> (string \<times> string) list \<Rightarrow> (string \<times> string) list \<Rightarrow> int
     \<Rightarrow> documentRequestPayload res" where
  "returnActPayload env l received movementIds signers lastReturn =
     rbind (longSpanishDate (localeIsoDate lastReturn)) (\<lambda>_.
     rbind (longSpanishDate (localeIsoDate (e_now env))) (\<lambda>_.
     rbind (longSpanishDate (l_expectedReturnDate l)) (\<lambda>_.
     rbind (case l_deliveredAt l of None \<Rightarrow> Inr None
        | Some t \<Rightarrow> usageBetween (localeIsoDate t) (localeIsoDate lastReturn)) (\<lambda>_.
       Inr ((loanActPayload LOAN_RETURN_FORMAT
          (if falsy (l_contactPersonId l) then None else l_contactPersonId l) signers None)
         \<lparr>dp_entityType := Some LOAN_DOCUMENT_ENTITY, dp_entityId := Some (l_id l),
          dp_costCenterId := Some (l_sourceCostCenterId l), dp_assetIds := map li_assetId received,
          dp_movementIds := movementIds\<rparr>)))))"

definition notReadyText :: "notReadyReason \<Rightarrow> json" where
  "notReadyText r = JStr (case r of MissingSgcCode \<Rightarrow> ''Falta el c'' @ [CHR 0xF3] @ ''digo SGC.''
     | MissingSigners \<Rightarrow> ''Faltan los firmantes.'')"

definition receiveReturn ::
  "env \<Rightarrow> string \<Rightarrow> (string \<times> json) list option \<Rightarrow> string \<Rightarrow> db \<Rightarrow> db res" where
  "receiveReturn env k givenSigners actorId db =
     rbind (currentFormat env db LOAN_RETURN_FORMAT) (\<lambda>f.
     (let reasons = formatNotReadyReasons f in
      rbind (lockLoan db k) (\<lambda>l.
      rbind (assertDeliveryActSigned l) (\<lambda>_.
      if l_status l \<noteq> LPendingReception then throw InvalidLoanStateTransition
      else
        rbind (if reasons = [] then rbind (returnActSigners env (df_signers f) givenSigners l db) (\<lambda>s. Inr (Some s))
               else Inr None) (\<lambda>returnSigners.
        (let items = itemsOfLoan db k; received = filter awaitsReception items in
         rbind (recordAll env (receiveChange env actorId l) li_assetId (markReceived env) received db)
           (\<lambda>(db1, movementIds).
         if received = [] then throw InvalidState
         else
           (let status = statusAfterReception (map (\<lambda>i. (li_receivedAt i \<noteq> None \<or> awaitsReception i,
                  li_returnCondition i = Some ReturnLost)) items);
                lastReturn = or_keep (latestReturn env (l_actualReturnDate l) received) (e_now env) in
            rbind (assertLoanTransition (l_status l) status) (\<lambda>_.
            (let db2 = updateLoan (l_id l) (\<lambda>x. x\<lparr>l_status := status, l_actualReturnDate := Some lastReturn,
                   l_receivedBackBy := Some actorId, l_updatedAt := e_now env\<rparr>) db1 in
             rbind (case returnSigners of
                 None \<Rightarrow> Inr (JObj [(''status'', JStr ''PENDING_FORMAT''),
                   (''reasons'', JArr (map notReadyText reasons))], db2)
               | Some signers \<Rightarrow>
                   rbind (returnActPayload env l received movementIds signers lastReturn) (\<lambda>payload.
                   rbind (enqueueAct env payload (Some actorId) db2) (\<lambda>(requestId, db3).
                     Inr (JObj [(''status'', JStr ''REQUESTED''), (''documentRequestId'', JStr requestId)], db3))))
               (\<lambda>(returnAct, db3).
               Inr (auditLoan ''LOAN_RETURNED'' (l_id l) actorId
                   (Some (JObj [(''status'', JStr (loanStatusText status))]))
                 (addLoanEvent env (l_id l) ''RECEIVED'' actorId (JObj
                   [(''status'', JStr (loanStatusText status)), (''movementIds'', jMap movementIds),
                    (''assets'', jStrings (map li_assetId received)), (''returnAct'', returnAct)]) db3)))))))))))))"

section \<open>Extensions and due dates\<close>

definition requestExtension :: "env \<Rightarrow> string \<Rightarrow> string \<Rightarrow> string \<Rightarrow> string \<Rightarrow> db \<Rightarrow> db res" where
  "requestExtension env k expectedReturnDate reason actorId db =
     rbind (lockLoan db k) (\<lambda>l.
     if l_requestedBy l \<noteq> actorId then throw LoanExtensionNotRequester
     else if l_status l \<noteq> LActive \<and> l_status l \<noteq> LOverdue then throw InvalidLoanStateTransition
     else
       (let requested = take 10 expectedReturnDate in
        if requested \<le> l_expectedReturnDate l \<or> requested < localeIsoDate (e_now env) then throw ValidationFailed
        else Inr (addLoanEvent env (l_id l) ''EXTENSION_REQUESTED'' actorId
            (JObj [(''expectedReturnDate'', JStr requested), (''reason'', JStr reason)])
          (updateLoan (l_id l) (\<lambda>x. x\<lparr>l_extensionRequestedDate := Some requested, l_updatedAt := e_now env\<rparr>) db))))"

definition approveExtension :: "loanAccess \<Rightarrow> env \<Rightarrow> string \<Rightarrow> string \<Rightarrow> db \<Rightarrow> db res" where
  "approveExtension access env k actorId db =
     rbind (lockForDecision access k actorId db) (\<lambda>l.
     if l_status l \<noteq> LActive \<and> l_status l \<noteq> LOverdue then throw InvalidLoanStateTransition
     else if falsy (l_extensionRequestedDate l) then throw LoanNoPendingExtension
     else
       (let requested = the (l_extensionRequestedDate l);
            reopened = (l_status l = LOverdue \<and> localeIsoDate (e_now env) \<le> requested) in
        rbind (if reopened then assertLoanTransition (l_status l) LActive else Inr ()) (\<lambda>_.
          Inr (auditLoan ''LOAN_EXTENDED'' (l_id l) actorId (Some (JObj [(''expectedReturnDate'',
              JObj [(''from'', JStr (l_expectedReturnDate l)), (''to'', JStr requested)])]))
            (addLoanEvent env (l_id l) ''EXTENDED'' actorId (JObj [(''expectedReturnDate'', JStr requested),
               (''previousExpectedReturnDate'', JStr (l_expectedReturnDate l))])
              (updateLoan (l_id l) (\<lambda>x. x\<lparr>l_expectedReturnDate := requested, l_extensionRequestedDate := None,
                 l_status := (if reopened then LActive else l_status x), l_updatedAt := e_now env\<rparr>) db))))))"

definition rejectExtension :: "loanAccess \<Rightarrow> env \<Rightarrow> string \<Rightarrow> string \<Rightarrow> string \<Rightarrow> db \<Rightarrow> db res" where
  "rejectExtension access env k reason actorId db =
     rbind (lockForDecision access k actorId db) (\<lambda>l.
     if falsy (l_extensionRequestedDate l) then throw LoanNoPendingExtension
     else Inr (auditLoan ''LOAN_EXT_REJECTED'' (l_id l) actorId (Some (JObj [(''reason'', JStr reason)]))
       (addLoanEvent env (l_id l) ''EXTENSION_REJECTED'' actorId
         (JObj [(''expectedReturnDate'', nullable (l_extensionRequestedDate l)), (''reason'', JStr reason)])
         (updateLoan (l_id l) (\<lambda>x. x\<lparr>l_extensionRequestedDate := None, l_updatedAt := e_now env\<rparr>) db))))"

text \<open>The number of rows and the loans past their date in Bogota; the job runs it while the module is enabled.\<close>

definition overdueLoan :: "env \<Rightarrow> loan \<Rightarrow> bool" where
  "overdueLoan env l = (l_status l = LActive \<and> l_expectedReturnDate l < localeIsoDate (e_now env))"

definition markOverdue :: "env \<Rightarrow> db \<Rightarrow> nat \<times> db" where
  "markOverdue env db =
     (length (filter (overdueLoan env) (db_loans db)),
      db\<lparr>db_loans := update_where (overdueLoan env) (\<lambda>l. l\<lparr>l_status := LOverdue, l_updatedAt := e_now env\<rparr>)
        (db_loans db)\<rparr>)"

definition runDailyOverdue :: "(string \<Rightarrow> bool) \<Rightarrow> env \<Rightarrow> db \<Rightarrow> db" where
  "runDailyOverdue enabled env db = (if \<not> enabled ''loans'' then db else snd (markOverdue env db))"

definition countActiveByResponsibleUserId :: "db \<Rightarrow> string \<Rightarrow> nat" where
  "countActiveByResponsibleUserId db userId =
     length (filter (\<lambda>i. li_receivedAt i = None \<and>
         list_ex (\<lambda>l. l_id l = li_loanId i \<and> l_status l \<in> set ACTIVE_LOAN_STATUSES) (db_loans db) \<and>
         list_ex (\<lambda>a. a_id a = li_assetId i \<and> list_ex (\<lambda>u. u_id u = userId \<and> u_personId u \<noteq> None \<and>
           u_personId u = a_responsibleId a) (db_users db)) (db_assets db)) (db_loanItems db))"

section \<open>The acts of a loan\<close>

definition lockLoanFor :: "lifecycleEvent \<Rightarrow> db \<Rightarrow> loan res" where
  "lockLoanFor event db =
     (if lv_formatKey event \<noteq> LOAN_DELIVERY_FORMAT \<and> lv_formatKey event \<noteq> LOAN_RETURN_FORMAT then throwError
      else if falsy (lv_entityId event) then throwError
      else rbind (findLoan db (the (lv_entityId event))) (\<lambda>found.
        case found of None \<Rightarrow> throwError | Some l \<Rightarrow> Inr l))"

definition slotJson :: "documentSignature \<Rightarrow> json" where
  "slotJson s = JObj [(''order'', JNum (ds_signOrder s)), (''role'', JStr (ds_role s)),
     (''personId'', nullable (ds_signerPersonId s)), (''name'', nullable (ds_signerName s)),
     (''status'', JStr (case ds_status s of SPending \<Rightarrow> ''PENDING'' | SSigned \<Rightarrow> ''SIGNED'' | SRejected \<Rightarrow> ''REJECTED'')),
     (''signedAt'', nullable (map_option toISOString (ds_signedAt s)))]"

text \<open>\<open>record\<close>: the one who closed the act, if it was closed.\<close>

definition closerOf :: "signatureStatus option \<Rightarrow> lifecycleEvent \<Rightarrow> documentSignature option" where
  "closerOf closedBy event =
     (case closedBy of
        Some SRejected \<Rightarrow> List.find (\<lambda>s. ds_status s = SRejected) (lv_signers event)
      | Some SSigned \<Rightarrow> (case sort_key (\<lambda>s. - ds_signOrder s) (lv_signers event) of [] \<Rightarrow> None | s # _ \<Rightarrow> Some s)
      | _ \<Rightarrow> None)"

definition recordLoanAct ::
  "env \<Rightarrow> loan \<Rightarrow> lifecycleEvent \<Rightarrow> string \<Rightarrow> signatureStatus option \<Rightarrow> bool option \<Rightarrow> db \<Rightarrow> db" where
  "recordLoanAct env l event eventType closedBy activated db =
     (let person = Option.bind (closerOf closedBy event) ds_signerPersonId;
          user = (if falsy person then None else userOfPerson db (the person));
          performedBy = or_keep user (or_keep (l_receivedBackBy l) (or_keep (l_deliveredBy l) (l_requestedBy l)))
      in addLoanEvent env (l_id l) eventType performedBy (JObj
        ([(''documentId'', JStr (lv_documentId event)), (''number'', JStr (lv_number event))] @
         (if closedBy = None then [] else [(''closedByPersonId'', nullable person)]) @
         (case activated of None \<Rightarrow> [] | Some b \<Rightarrow> [(''activated'', JBool b)]) @
         [(''signers'', JArr (map slotJson (lv_signers event)))])) db)"

definition REPLACEABLE_ACT_STATUSES :: "documentStatus list" where
  "REPLACEABLE_ACT_STATUSES = [DRejected, DVoided]"

text \<open>An act that is neither rejected nor annulled is not replaced.\<close>

definition deliveryActGenerated :: lifecycleCallback where
  "deliveryActGenerated env event db =
     rbind (lockLoanFor event db) (\<lambda>l.
     (let replaces = \<not> falsy (l_deliveryDocumentId l) \<and> l_deliveryDocumentId l \<noteq> Some (lv_documentId event);
          replaceable = list_ex (\<lambda>d. Some (d_id d) = l_deliveryDocumentId l \<and>
            d_status d \<in> set REPLACEABLE_ACT_STATUSES) (db_documents db)
      in if replaces \<and> \<not> replaceable then throwError
         else if l_deliveredAt l = None then throwError
         else Inr (addLoanEvent env (l_id l) ''DELIVERY_ACT_GENERATED'' (or_keep (l_deliveredBy l) (l_requestedBy l))
             (JObj ([(''documentId'', JStr (lv_documentId event)), (''number'', JStr (lv_number event)),
                (''signersByRole'', JObj (map (\<lambda>s. (ds_role s, nullable (ds_signerPersonId s))) (lv_signers event)))] @
                (if replaces then [(''replacesDocumentId'', nullable (l_deliveryDocumentId l))] else [])))
           (updateLoan (l_id l) (\<lambda>x. x\<lparr>l_deliveryDocumentId := Some (lv_documentId event)\<rparr>) db))))"

definition deliveryActSigned :: lifecycleCallback where
  "deliveryActSigned env event db =
     rbind (lockLoanFor event db) (\<lambda>l.
     (let activated = (l_status l = LPendingSignatures) in
      if activated \<and> \<not> canLoanTransition (l_status l) LActive then throwError
      else
        (let db1 = (if activated
               then updateLoan (l_id l) (\<lambda>x. x\<lparr>l_status := LActive, l_updatedAt := e_now env\<rparr>) db else db)
         in if l_deliveryDocumentId l \<noteq> Some (lv_documentId event) then throwError
            else Inr (recordLoanAct env l event ''DELIVERY_ACT_SIGNED'' (Some SSigned) (Some activated) db1))))"

definition deliveryActRejected :: lifecycleCallback where
  "deliveryActRejected env event db =
     rbind (lockLoanFor event db) (\<lambda>l.
       if l_deliveryDocumentId l \<noteq> Some (lv_documentId event) then throwError
       else Inr (recordLoanAct env l event ''DELIVERY_ACT_REJECTED'' (Some SRejected) None db))"

definition returnActEvent :: "string \<Rightarrow> signatureStatus option \<Rightarrow> lifecycleCallback" where
  "returnActEvent eventType closedBy env event db =
     rbind (lockLoanFor event db) (\<lambda>l. Inr (recordLoanAct env l event eventType closedBy None db))"

definition loanGenerated :: lifecycleCallback where
  "loanGenerated env event =
     (if lv_formatKey event = LOAN_RETURN_FORMAT then returnActEvent ''RETURN_ACT_GENERATED'' None env event
      else deliveryActGenerated env event)"

definition loanSigned :: lifecycleCallback where
  "loanSigned env event =
     (if lv_formatKey event = LOAN_RETURN_FORMAT then returnActEvent ''RETURN_ACT_SIGNED'' (Some SSigned) env event
      else deliveryActSigned env event)"

definition loanRejected :: lifecycleCallback where
  "loanRejected env event =
     (if lv_formatKey event = LOAN_RETURN_FORMAT then returnActEvent ''RETURN_ACT_REJECTED'' (Some SRejected) env event
      else deliveryActRejected env event)"

definition loanLifecycle :: lifecycleHandler where
  "loanLifecycle =
     \<lparr>lh_entityType = LOAN_DOCUMENT_ENTITY, lh_onGenerated = Some loanGenerated, lh_onSigned = Some loanSigned,
      lh_onRejected = Some loanRejected,
      lh_formats =
        [\<lparr>pb_formatKey = LOAN_DELIVERY_FORMAT, pb_process = ''Pr'' @ [CHR 0xE9] @ ''stamos (acta de entrega)'',
          pb_signers = RequiredSigners [(''ENTREGA'', FromRequest), (''RECIBE'', FromResponsible),
            (''AUDITA'', FromRequest)]\<rparr>,
         \<lparr>pb_formatKey = LOAN_RETURN_FORMAT, pb_process = ''Pr'' @ [CHR 0xE9] @ ''stamos (acta de devoluci'' @
            [CHR 0xF3] @ ''n)'', pb_signers = AnySigners\<rparr>]\<rparr>"

end
