(* ===== verification/Reconciliation.thy ===== *)
theory Reconciliation
  imports AssetMoves
begin

text \<open>
  What the approval of a physical inventory does to the assets it counted: the loop over the items in
  \<open>approveReconcile\<close> of src/src/modules/inventories/services/inventories.service.ts and its three
  writers, \<open>applyLocation\<close>, \<open>applyLost\<close> and \<open>applyCondition\<close>. They do not look at loans, so an asset
  that is out on loan becomes lost when its inventory reports it missing. The second half states which
  changes leave an asset that is out either on loan or so reported; the book of loans rests on it.
  Inventories themselves (planning, counting, closing, acts) are not modelled.
\<close>

section \<open>The approval of a count\<close>

datatype verificationResult = VPending | VFound | VMissing | VSurplus | VMisplaced | VNotVerified

record reconciliation =
  rc_id :: string
  rc_code :: string
  rc_requestedBy :: "string option"

record countedItem =
  ct_assetId :: "string option"
  ct_verificationResult :: verificationResult
  ct_actualLocationId :: "string option"
  ct_expectedCondition :: "physicalCondition option"
  ct_actualCondition :: "physicalCondition option"

definition inventoryMovement ::
  "reconciliation \<Rightarrow> movementType \<Rightarrow> string \<Rightarrow> (string \<times> json) list \<Rightarrow> assetMovementSpec" where
  "inventoryMovement inventory ty reason rest =
     \<lparr>sp_type = ty, sp_reason = Some reason, sp_documentReference = Some (rc_code inventory), sp_executedAt = None,
      sp_requestedBy = rc_requestedBy inventory,
      sp_metadata = Some ((''inventoryId'', JStr (rc_id inventory)) # rest), sp_initial = False\<rparr>"

definition inventoryChange :: "string \<Rightarrow> assetPatch \<Rightarrow> assetMovementSpec \<Rightarrow> string \<Rightarrow> assetChange" where
  "inventoryChange actorId patch movement assetId =
     \<lparr>c_assetId = assetId, c_actorId = actorId, c_patch = patch, c_movement = Some movement, c_audit = None,
      c_guard = noGuard, c_alsoWrite = noWrite\<rparr>"

definition reconciliationReason :: "reconciliation \<Rightarrow> string" where
  "reconciliationReason inventory = ''Reconciliaci'' @ [CHR 0xF3] @ ''n '' @ rc_code inventory"

definition locationChange :: "reconciliation \<Rightarrow> string \<Rightarrow> string \<Rightarrow> string \<Rightarrow> assetChange" where
  "locationChange inventory actorId locationId =
     inventoryChange actorId (noPatch\<lparr>p_locationId := Some (Some locationId)\<rparr>)
       (inventoryMovement inventory Relocation (reconciliationReason inventory) [])"

definition applyLocation :: "env \<Rightarrow> reconciliation \<Rightarrow> countedItem \<Rightarrow> string \<Rightarrow> db \<Rightarrow> db res" where
  "applyLocation env inventory item actorId db =
     (case (ct_assetId item, ct_actualLocationId item) of
        (Some k, Some locationId) \<Rightarrow>
          rbind (requireAsset db k) (\<lambda>asset.
            if a_locationId asset = Some locationId then Inr db
            else applyOne env (locationChange inventory actorId locationId) db (a_id asset))
      | _ \<Rightarrow> Inr db)"

definition lostChange :: "reconciliation \<Rightarrow> string \<Rightarrow> string \<Rightarrow> assetChange" where
  "lostChange inventory actorId =
     inventoryChange actorId (noPatch\<lparr>p_operationalStatus := Some Lost\<rparr>)
       (inventoryMovement inventory PhysicalVerification
         (''Faltante en '' @ rc_code inventory @ ''. Inicia la baja formal.'') [(''result'', JStr ''MISSING'')])"

definition applyLost :: "env \<Rightarrow> reconciliation \<Rightarrow> countedItem \<Rightarrow> string \<Rightarrow> db \<Rightarrow> db res" where
  "applyLost env inventory item actorId db =
     (case ct_assetId item of
        None \<Rightarrow> Inr db
      | Some k \<Rightarrow>
          rbind (requireAsset db k) (\<lambda>asset.
            if a_operationalStatus asset = Lost \<or> a_operationalStatus asset = WrittenOff then Inr db
            else applyOne env (lostChange inventory actorId) db (a_id asset)))"

definition conditionChange :: "reconciliation \<Rightarrow> string \<Rightarrow> physicalCondition \<Rightarrow> string \<Rightarrow> assetChange" where
  "conditionChange inventory actorId condition =
     inventoryChange actorId (noPatch\<lparr>p_physicalCondition := Some (Some condition)\<rparr>)
       (inventoryMovement inventory ConditionChange (reconciliationReason inventory) [])"

definition applyCondition :: "env \<Rightarrow> reconciliation \<Rightarrow> countedItem \<Rightarrow> string \<Rightarrow> db \<Rightarrow> db res" where
  "applyCondition env inventory item actorId db =
     (case (ct_assetId item, ct_actualCondition item) of
        (Some k, Some condition) \<Rightarrow> applyOne env (conditionChange inventory actorId condition) db k
      | _ \<Rightarrow> Inr db)"

definition reconcileItem :: "env \<Rightarrow> reconciliation \<Rightarrow> string \<Rightarrow> db \<Rightarrow> countedItem \<Rightarrow> db res" where
  "reconcileItem env inventory actorId db item =
     (if ct_assetId item = None then Inr db
      else
        rbind (if ct_verificationResult item = VMisplaced then applyLocation env inventory item actorId db else Inr db) (\<lambda>db1.
        rbind (if ct_verificationResult item = VMissing then applyLost env inventory item actorId db1 else Inr db1) (\<lambda>db2.
        if (ct_verificationResult item = VFound \<or> ct_verificationResult item = VMisplaced) \<and>
           ct_actualCondition item \<noteq> None \<and> ct_expectedCondition item \<noteq> None \<and>
           ct_actualCondition item \<noteq> ct_expectedCondition item
        then applyCondition env inventory item actorId db2 else Inr db2)))"

definition reconcileItems :: "env \<Rightarrow> reconciliation \<Rightarrow> string \<Rightarrow> db \<Rightarrow> countedItem list \<Rightarrow> db res" where
  "reconcileItems env inventory actorId = foldM (reconcileItem env inventory actorId)"

interpretation locating: assetMoves env "locationChange inventory actorId locationId" for env inventory actorId locationId
  by unfold_locales (auto simp: locationChange_def inventoryChange_def noWrite_def)

interpretation losing: assetMoves env "lostChange inventory actorId" for env inventory actorId
  by unfold_locales (auto simp: lostChange_def inventoryChange_def noWrite_def)

interpretation regrading: assetMoves env "conditionChange inventory actorId condition" for env inventory actorId condition
  by unfold_locales (auto simp: conditionChange_def inventoryChange_def noWrite_def)

section \<open>Assets that are out\<close>

text \<open>
  The last thing the ledger says of an asset between its delivery and a report of an inventory: it was
  reported missing after it was last delivered.
\<close>

definition onLoan :: "db \<Rightarrow> string \<Rightarrow> bool" where
  "onLoan db k \<longleftrightarrow> map_option a_operationalStatus (findAsset db k) = Some OnLoan"

definition missingReport :: "movement \<Rightarrow> bool" where
  "missingReport m \<longleftrightarrow> m_movementType m = PhysicalVerification \<and> m_toOperationalStatus m = Some Lost \<and>
     Option.bind (m_metadata m) (jget ''result'') = Some (JStr ''MISSING'')"

definition reportedMissing :: "db \<Rightarrow> string \<Rightarrow> bool" where
  "reportedMissing db k \<longleftrightarrow>
     (case rev (filter (\<lambda>m. m_assetId m = k \<and> (m_movementType m = Loan \<or> missingReport m)) (db_movements db)) of
        [] \<Rightarrow> False | m # _ \<Rightarrow> missingReport m)"

definition heldOut :: "db \<Rightarrow> string \<Rightarrow> bool" where
  "heldOut db k \<longleftrightarrow> onLoan db k \<or> reportedMissing db k"

lemma onLoan_find: "onLoan db k \<longleftrightarrow> (\<exists>a. findAsset db k = Some a \<and> a_operationalStatus a = OnLoan)"
  by (auto simp: onLoan_def)

lemma reportedMissing_more:
  assumes "db_movements db' = db_movements db @ ms" "list_all (\<lambda>m. m_assetId m = k \<longrightarrow> m_movementType m \<noteq> Loan) ms"
    "reportedMissing db k"
  shows "reportedMissing db' k"
proof (cases "rev (filter (\<lambda>m. m_assetId m = k \<and> (m_movementType m = Loan \<or> missingReport m)) ms)")
  case Nil
  then show ?thesis using assms(1,3) by (simp add: reportedMissing_def)
next
  case (Cons m ms')
  then have "m \<in> set (filter (\<lambda>m. m_assetId m = k \<and> (m_movementType m = Loan \<or> missingReport m)) ms)"
    by (metis list.set_intros(1) set_rev)
  then have "missingReport m" using assms(2) by (auto simp: list_all_iff)
  then show ?thesis using Cons by (simp add: reportedMissing_def assms(1))
qed

lemma heldOut_more:
  assumes "db_movements db' = db_movements db @ ms" "list_all (\<lambda>m. m_assetId m = k \<longrightarrow> m_movementType m \<noteq> Loan) ms"
    "onLoan db k \<Longrightarrow> onLoan db' k" "heldOut db k"
  shows "heldOut db' k"
  using assms reportedMissing_more [OF assms(1,2)] unfolding heldOut_def by blast

lemma heldOut_cong:
  assumes "db_assets db' = db_assets db" "db_movements db' = db_movements db"
  shows "heldOut db' k = heldOut db k"
  by (simp add: heldOut_def onLoan_def reportedMissing_def assms findAsset_cong [OF assms(1)])

lemma changedAsset_status:
  "a_operationalStatus (changedAsset env c a) = or_keep (p_operationalStatus (c_patch c)) (a_operationalStatus a)"
  by (simp add: changedAsset_def)

text \<open>A change of an asset keeps whatever is out, unless it delivers an asset or takes one off loan.\<close>

definition keepsOut :: "assetChange \<Rightarrow> bool" where
  "keepsOut c \<longleftrightarrow> map_option sp_type (c_movement c) \<noteq> Some Loan \<and>
     (\<forall>a. c_guard c a = Inr () \<longrightarrow> a_operationalStatus a = OnLoan \<longrightarrow> p_operationalStatus (c_patch c) \<in> {None, Some OnLoan})"

context itemMoves
begin

lemma one_heldOut:
  assumes run: "applyOne env change db i = Inr db'" and keeps: "keepsOut (change i)" and held: "heldOut db k"
  shows "heldOut db' k"
proof -
  obtain m where m: "db_movements db' = db_movements db @ [m]" "m_movementType m = sp_type (the (c_movement (change i)))"
    using run by (rule one_movements)
  obtain a db2 sp where a: "findAsset db (target i) = Some a" "c_guard (change i) a = Inr ()" "c_movement (change i) = Some sp"
    using run by (rule one_step)
  have "onLoan db' k" if "onLoan db k"
    using that keeps a(1,2) one_find [OF run, of k]
    by (cases "k = target i") (auto simp: onLoan_find keepsOut_def changedAsset_status)
  then show ?thesis by (intro heldOut_more [OF m(1) _ _ held]) (use m(2) keeps a(3) in \<open>simp add: keepsOut_def\<close>)
qed

lemma one_rows:
  assumes "applyOne env change db i = Inr db'"
  shows "map a_id (db_assets db') = map a_id (db_assets db)" "db_seq db \<le> db_seq db'"
proof -
  obtain a db2 sp where s: "findAsset db (target i) = Some a" "c_guard (change i) a = Inr ()"
    "c_alsoWrite (change i) (writeChange env (change i) a db) a = Inr db2" "db' = auditOf (change i) a db2"
    "c_movement (change i) = Some sp"
    using assms by (rule one_step)
  show "map a_id (db_assets db') = map a_id (db_assets db)" "db_seq db \<le> db_seq db'"
    using change_writes [OF s(3)] writeChange_seq [of db env "change i" a]
    by (simp_all add: s(4) writeChange_assets updateAsset_def map_update_where)
qed

end

text \<open>An asset that an inventory declares lost is reported missing from then on.\<close>

lemma losing_reports:
  assumes "applyOne env (lostChange inventory actorId) db k = Inr db'"
  shows "reportedMissing db' k"
proof -
  let ?c = "lostChange inventory actorId k"
  obtain a db2 sp where s: "findAsset db k = Some a" "c_guard ?c a = Inr ()"
    "c_alsoWrite ?c (writeChange env ?c a db) a = Inr db2" "db' = auditOf ?c a db2" "c_movement ?c = Some sp"
    using assms by (rule losing.one_step)
  have db2: "db2 = writeChange env ?c a db" using s(3) by (simp add: lostChange_def inventoryChange_def noWrite_def)
  have "a_id a = k" by (rule previous_same [OF s(1)])
  then show ?thesis
    by (simp add: reportedMissing_def s(4) db2 writeChange_movements recordMovement_def missingReport_def signed_def
        unsignedRow_def movementInput_def lostChange_def inventoryChange_def inventoryMovement_def signedMetadata_def
        jget_def verifiedPatch_def noPatch_def applyPatch_def Let_def)
qed

lemma losing_heldOut:
  assumes "applyOne env (lostChange inventory actorId) db i = Inr db'" "heldOut db k"
  shows "heldOut db' k"
proof (cases "k = i")
  case True
  then show ?thesis using losing_reports [OF assms(1)] by (simp add: heldOut_def)
next
  case False
  obtain m where m: "db_movements db' = db_movements db @ [m]" "m_assetId m = i"
    using assms(1) by (rule losing.one_movements)
  have "findAsset db' k = findAsset db k" using losing.one_find [OF assms(1), of k] False by simp
  then show ?thesis by (intro heldOut_more [OF m(1) _ _ assms(2)]) (use False m(2) in \<open>simp_all add: onLoan_def\<close>)
qed

text \<open>What a change outside the loans leaves: their tables, the rows of the assets and whatever is out.\<close>

definition keepsLent :: "db \<Rightarrow> db \<Rightarrow> bool" where
  "keepsLent db db' \<longleftrightarrow> db_loans db' = db_loans db \<and> db_loanItems db' = db_loanItems db \<and>
     map a_id (db_assets db') = map a_id (db_assets db) \<and> db_seq db \<le> db_seq db' \<and>
     (\<forall>k. heldOut db k \<longrightarrow> heldOut db' k)"

lemma keepsLent_refl [simp]: "keepsLent db db"
  by (simp add: keepsLent_def)

lemma keepsLent_trans: "keepsLent a b \<Longrightarrow> keepsLent b c \<Longrightarrow> keepsLent a c"
  by (simp add: keepsLent_def)

lemma keepsLent_same:
  assumes "db_loans db' = db_loans db" "db_loanItems db' = db_loanItems db" "db_assets db' = db_assets db"
    "db_movements db' = db_movements db" "db_seq db \<le> db_seq db'"
  shows "keepsLent db db'"
  using assms heldOut_cong [OF assms(3,4)] by (simp add: keepsLent_def)

definition writesNoLoan :: "assetChange \<Rightarrow> bool" where
  "writesNoLoan c \<longleftrightarrow> (\<forall>db a db'. c_alsoWrite c db a = Inr db' \<longrightarrow>
     db_loans db' = db_loans db \<and> db_loanItems db' = db_loanItems db)"

context itemMoves
begin

lemma one_loans:
  assumes "applyOne env change db i = Inr db'" "writesNoLoan (change i)"
  shows "db_loans db' = db_loans db" "db_loanItems db' = db_loanItems db"
proof -
  obtain a db2 sp where s: "findAsset db (target i) = Some a" "c_guard (change i) a = Inr ()"
    "c_alsoWrite (change i) (writeChange env (change i) a db) a = Inr db2" "db' = auditOf (change i) a db2"
    "c_movement (change i) = Some sp"
    using assms(1) by (rule one_step)
  show "db_loans db' = db_loans db" "db_loanItems db' = db_loanItems db"
    using assms(2) s(3) by (simp_all add: writesNoLoan_def s(4))
qed

lemma one_keepsLent:
  assumes "applyOne env change db i = Inr db'" "writesNoLoan (change i)" "keepsOut (change i)"
  shows "keepsLent db db'"
  using one_loans [OF assms(1,2)] one_rows [OF assms(1)] one_heldOut [OF assms(1,3)] by (simp add: keepsLent_def)

end

context assetMoves
begin

lemma all_keepsLent:
  assumes "applyAll env change db ks = Inr db'" "\<And>k. writesNoLoan (change k) \<and> keepsOut (change k)"
  shows "keepsLent db db'"
  using assms(1)
proof (induction ks arbitrary: db)
  case Nil
  then show ?case by simp
next
  case (Cons k ks)
  obtain db1 where one: "applyOne env change db k = Inr db1" "applyAll env change db1 ks = Inr db'"
    using Cons.prems by (auto simp: res_simps)
  show ?case using one_keepsLent [OF one(1)] assms(2) Cons.IH [OF one(2)] keepsLent_trans by blast
qed

end

lemma reconcileItem_keepsLent:
  assumes "reconcileItem env inventory actorId db item = Inr db'"
  shows "keepsLent db db'"
proof -
  have kept: "writesNoLoan (locationChange inventory actorId l k)" "keepsOut (locationChange inventory actorId l k)"
    "writesNoLoan (conditionChange inventory actorId c k)" "keepsOut (conditionChange inventory actorId c k)"
    "writesNoLoan (lostChange inventory actorId k)" for l c k
    by (auto simp: writesNoLoan_def keepsOut_def locationChange_def conditionChange_def lostChange_def
        inventoryChange_def inventoryMovement_def noWrite_def noPatch_def)
  have "keepsLent d d'" if "applyLocation env inventory item actorId d = Inr d'" for d d'
    using that kept(1,2) locating.one_keepsLent
    by (auto simp: applyLocation_def res_simps split: option.splits if_splits)
  moreover have "keepsLent d d'" if "applyCondition env inventory item actorId d = Inr d'" for d d'
    using that kept(3,4) regrading.one_keepsLent by (auto simp: applyCondition_def split: option.splits)
  moreover have "keepsLent d d'" if "applyLost env inventory item actorId d = Inr d'" for d d'
    using that losing.one_loans [OF _ kept(5)] losing.one_rows losing_heldOut
    by (auto simp: applyLost_def keepsLent_def res_simps split: option.splits if_splits)
  ultimately show ?thesis
    using assms unfolding reconcileItem_def
    by (fastforce simp: rbind_eq_Inr split: if_splits intro: keepsLent_trans)
qed

lemma reconcileItems_keepsLent:
  assumes "reconcileItems env inventory actorId db items = Inr db'"
  shows "keepsLent db db'"
  using assms
proof (induction items arbitrary: db)
  case Nil
  then show ?case by (simp add: reconcileItems_def)
next
  case (Cons item items)
  obtain d where d: "reconcileItem env inventory actorId db item = Inr d" "reconcileItems env inventory actorId d items = Inr db'"
    using Cons.prems by (auto simp: reconcileItems_def rbind_eq_Inr)
  show ?case using reconcileItem_keepsLent [OF d(1)] Cons.IH [OF d(2)] by (rule keepsLent_trans)
qed

end
