(* ===== verification/LoanCustody.thy ===== *)
theory LoanCustody
  imports Loans CustodyProcess Reconciliation
begin

text \<open>
  What the operations of src/src/modules/loans/services/loans.service.ts keep: an asset is in one open loan
  at most, the assets of a delivered loan that are not received back are on loan (or were reported missing by
  an inventory since they were lent), and statuses move along the table of transitions. The operations that change one loan and no asset share one lemma;
  delivery, its annulment and the reception rest on the loop over assets of AssetMoves.
\<close>

section \<open>The book of loans\<close>

definition openItem :: "db \<Rightarrow> loanItem \<Rightarrow> bool" where
  "openItem db i \<longleftrightarrow> li_receivedAt i = None \<and>
     list_ex (\<lambda>l. l_id l = li_loanId i \<and> l_status l \<in> set OPEN_LOAN_STATUSES) (db_loans db)"

definition outItem :: "db \<Rightarrow> loanItem \<Rightarrow> bool" where
  "outItem db i \<longleftrightarrow> li_receivedAt i = None \<and>
     list_ex (\<lambda>l. l_id l = li_loanId i \<and> l_status l \<in> set LOAN_OUT_STATUSES) (db_loans db)"

definition bookInv :: "(nat \<Rightarrow> string) \<Rightarrow> db \<Rightarrow> bool" where
  "bookInv uuid db \<longleftrightarrow>
     distinct (map l_id (db_loans db)) \<and> l_id ` set (db_loans db) \<subseteq> uuid ` {..<db_seq db} \<and>
     distinct (map li_id (db_loanItems db)) \<and> li_id ` set (db_loanItems db) \<subseteq> uuid ` {..<db_seq db} \<and>
     li_loanId ` set (db_loanItems db) \<subseteq> l_id ` set (db_loans db) \<and>
     distinct (map a_id (db_assets db)) \<and>
     li_assetId ` set (db_loanItems db) \<subseteq> a_id ` set (db_assets db) \<and>
     (\<forall>k. distinct (map li_assetId (itemsOfLoan db k))) \<and>
     distinct (map li_assetId (filter (openItem db) (db_loanItems db))) \<and>
     (\<forall>i\<in>set (db_loanItems db). outItem db i \<longrightarrow> heldOut db (li_assetId i))"

lemma bookInvD:
  assumes "bookInv uuid db"
  shows "distinct (map l_id (db_loans db))" "l_id ` set (db_loans db) \<subseteq> uuid ` {..<db_seq db}"
    "distinct (map li_id (db_loanItems db))" "li_id ` set (db_loanItems db) \<subseteq> uuid ` {..<db_seq db}"
    "li_loanId ` set (db_loanItems db) \<subseteq> l_id ` set (db_loans db)"
    "distinct (map a_id (db_assets db))" "li_assetId ` set (db_loanItems db) \<subseteq> a_id ` set (db_assets db)"
    "distinct (map li_assetId (itemsOfLoan db k))"
    "distinct (map li_assetId (filter (openItem db) (db_loanItems db)))"
    "i \<in> set (db_loanItems db) \<Longrightarrow> outItem db i \<Longrightarrow> heldOut db (li_assetId i)"
  using assms by (simp_all add: bookInv_def)

lemma out_is_open: "outItem db i \<Longrightarrow> openItem db i"
  unfolding outItem_def openItem_def list_ex_iff LOAN_OUT_STATUSES_def OPEN_LOAN_STATUSES_def by auto

lemma same_open_item:
  assumes "bookInv uuid db" "i \<in> set (db_loanItems db)" "j \<in> set (db_loanItems db)" "openItem db i" "openItem db j"
    "li_assetId i = li_assetId j"
  shows "i = j"
proof -
  have "inj_on li_assetId (set (filter (openItem db) (db_loanItems db)))"
    using bookInvD(9) [OF assms(1)] by (simp add: distinct_map)
  then show ?thesis using assms(2-6) by (auto dest: inj_onD)
qed

lemma transition_open: "canLoanTransition s t \<Longrightarrow> t \<in> set OPEN_LOAN_STATUSES \<Longrightarrow> s \<in> set OPEN_LOAN_STATUSES"
  by (cases s) (auto simp: canLoanTransition_def OPEN_LOAN_STATUSES_def)

section \<open>Rows that only lose what they hold\<close>

definition itemsFollow :: "loanItem list \<Rightarrow> loanItem list \<Rightarrow> bool" where
  "itemsFollow t t' \<longleftrightarrow> (\<exists>g. t' = map g t \<and> (\<forall>i. li_id (g i) = li_id i \<and> li_loanId (g i) = li_loanId i \<and>
     li_assetId (g i) = li_assetId i \<and> (li_receivedAt (g i) = None \<longrightarrow> li_receivedAt i = None)))"

lemma itemsFollow_refl [simp]: "itemsFollow t t"
  unfolding itemsFollow_def by (rule exI [of _ id]) simp

lemma itemsFollow_trans:
  assumes "itemsFollow t u" "itemsFollow u v"
  shows "itemsFollow t v"
proof -
  obtain g where g: "u = map g t" "\<forall>i. li_id (g i) = li_id i \<and> li_loanId (g i) = li_loanId i \<and>
     li_assetId (g i) = li_assetId i \<and> (li_receivedAt (g i) = None \<longrightarrow> li_receivedAt i = None)"
    using assms(1) unfolding itemsFollow_def by blast
  obtain h where h: "v = map h u" "\<forall>i. li_id (h i) = li_id i \<and> li_loanId (h i) = li_loanId i \<and>
     li_assetId (h i) = li_assetId i \<and> (li_receivedAt (h i) = None \<longrightarrow> li_receivedAt i = None)"
    using assms(2) unfolding itemsFollow_def by blast
  have "li_id ((h \<circ> g) i) = li_id i \<and> li_loanId ((h \<circ> g) i) = li_loanId i \<and> li_assetId ((h \<circ> g) i) = li_assetId i \<and>
      (li_receivedAt ((h \<circ> g) i) = None \<longrightarrow> li_receivedAt i = None)" for i
    using g(2) [rule_format, of i] h(2) [rule_format, of "g i"] by simp
  moreover have "v = map (h \<circ> g) t" by (simp add: g(1) h(1))
  ultimately show ?thesis unfolding itemsFollow_def by blast
qed

lemma itemsFollow_update:
  assumes "\<And>i. li_id (f i) = li_id i \<and> li_loanId (f i) = li_loanId i \<and> li_assetId (f i) = li_assetId i \<and>
    (li_receivedAt (f i) = None \<longrightarrow> li_receivedAt i = None)"
  shows "itemsFollow t (update_where p f t)"
  unfolding itemsFollow_def update_where_def by (rule exI [of _ "\<lambda>r. if p r then f r else r"]) (use assms in auto)

lemma itemsFollow_keys:
  assumes "itemsFollow t t'"
  shows "map li_id t' = map li_id t" "map li_loanId t' = map li_loanId t" "map li_assetId t' = map li_assetId t"
    "map li_assetId (filter (\<lambda>i. li_loanId i = k) t') = map li_assetId (filter (\<lambda>i. li_loanId i = k) t)"
  using assms unfolding itemsFollow_def by (auto simp: filter_map comp_def)

lemma itemsFollow_member:
  assumes "itemsFollow t t'" "i' \<in> set t'"
  obtains i where "i \<in> set t" "li_id i' = li_id i" "li_loanId i' = li_loanId i" "li_assetId i' = li_assetId i"
    "li_receivedAt i' = None \<longrightarrow> li_receivedAt i = None"
  using assms unfolding itemsFollow_def by auto

text \<open>What was received back stays so, and nothing else is.\<close>

definition itemsKept :: "loanItem list \<Rightarrow> loanItem list \<Rightarrow> bool" where
  "itemsKept t t' \<longleftrightarrow> (\<forall>i'\<in>set t'. li_receivedAt i' \<noteq> None \<longrightarrow>
     (\<exists>i\<in>set t. li_loanId i = li_loanId i' \<and> li_receivedAt i \<noteq> None))"

lemma itemsKept_refl [simp]: "itemsKept t t"
  unfolding itemsKept_def by blast

lemma itemsKept_trans: "itemsKept t u \<Longrightarrow> itemsKept u v \<Longrightarrow> itemsKept t v"
  unfolding itemsKept_def by metis

lemma itemsKept_update:
  assumes "\<And>i. li_loanId (f i) = li_loanId i \<and> li_receivedAt (f i) = li_receivedAt i"
  shows "itemsKept t (update_where p f t)"
  using assms unfolding itemsKept_def by (fastforce simp: in_update_where split: if_splits)

text \<open>Every operation but the creation: the same rows, each as open as before or less.\<close>

lemma book_kept:
  assumes inv: "bookInv uuid db"
    and heads: "map l_id (db_loans db') = map l_id (db_loans db)"
    and opens: "\<And>l'. l' \<in> set (db_loans db') \<Longrightarrow> l_status l' \<in> set OPEN_LOAN_STATUSES \<Longrightarrow>
      \<exists>l\<in>set (db_loans db). l_id l = l_id l' \<and> l_status l \<in> set OPEN_LOAN_STATUSES"
    and items: "itemsFollow (db_loanItems db) (db_loanItems db')"
    and assets: "map a_id (db_assets db') = map a_id (db_assets db)"
    and later: "db_seq db \<le> db_seq db'"
    and out: "\<And>i. i \<in> set (db_loanItems db') \<Longrightarrow> outItem db' i \<Longrightarrow> heldOut db' (li_assetId i)"
  shows "bookInv uuid db'"
  unfolding bookInv_def
proof (intro conjI allI ballI impI)
  note keys = itemsFollow_keys [OF items] and d = bookInvD [OF inv]
  have ids: "l_id ` set (db_loans db') = l_id ` set (db_loans db)" using arg_cong [OF heads, of set] by simp
  have grow: "uuid ` {..<db_seq db} \<subseteq> uuid ` {..<db_seq db'}" using later by auto
  show "distinct (map l_id (db_loans db'))" using d(1) by (simp add: heads)
  show "l_id ` set (db_loans db') \<subseteq> uuid ` {..<db_seq db'}" using d(2) grow unfolding ids by blast
  show "distinct (map li_id (db_loanItems db'))" using d(3) by (simp add: keys)
  show "li_id ` set (db_loanItems db') \<subseteq> uuid ` {..<db_seq db'}"
    using d(4) grow arg_cong [OF keys(1), of set] by auto
  show "li_loanId ` set (db_loanItems db') \<subseteq> l_id ` set (db_loans db')"
    using d(5) arg_cong [OF keys(2), of set] unfolding ids by auto
  show "distinct (map a_id (db_assets db'))" using d(6) by (simp add: assets)
  show "li_assetId ` set (db_loanItems db') \<subseteq> a_id ` set (db_assets db')"
    using d(7) arg_cong [OF keys(3), of set] arg_cong [OF assets, of set] by simp
  show "distinct (map li_assetId (itemsOfLoan db' k))" for k
    using d(8) [of k] by (simp add: itemsOfLoan_def keys(4))
  obtain g where g: "db_loanItems db' = map g (db_loanItems db)" "\<And>i. li_loanId (g i) = li_loanId i"
    "\<And>i. li_assetId (g i) = li_assetId i" "\<And>i. li_receivedAt (g i) = None \<Longrightarrow> li_receivedAt i = None"
    using items unfolding itemsFollow_def by blast
  have less: "openItem db i" if "openItem db' (g i)" for i
    using that opens g(2,4) unfolding openItem_def list_ex_iff by metis
  have "filter (\<lambda>i. openItem db' (g i)) (db_loanItems db) =
      filter (\<lambda>i. openItem db' (g i)) (filter (openItem db) (db_loanItems db))"
    using less by (auto intro: filter_cong)
  then have "distinct (map li_assetId (filter (\<lambda>i. openItem db' (g i)) (db_loanItems db)))"
    using distinct_map_filter [OF d(9)] by metis
  then show "distinct (map li_assetId (filter (openItem db') (db_loanItems db')))"
    by (simp add: g(1,3) filter_map comp_def)
  show "heldOut db' (li_assetId i)" if "i \<in> set (db_loanItems db')" "outItem db' i" for i
    using out that by blast
qed

section \<open>Operations that change one loan and no asset\<close>

definition leavesLoans :: "db \<Rightarrow> db \<Rightarrow> bool" where
  "leavesLoans db db' \<longleftrightarrow> db_loans db' = db_loans db \<and> db_loanItems db' = db_loanItems db \<and>
     db_assets db' = db_assets db \<and> db_movements db' = db_movements db \<and> db_seq db \<le> db_seq db'"

text \<open>The listeners of other modules write their own tables.\<close>

definition quietListeners :: "loanListeners \<Rightarrow> bool" where
  "quietListeners listeners \<longleftrightarrow>
     (\<forall>f\<in>set (lr_delivered listeners). \<forall>e db db'. f e db = Inr db' \<longrightarrow> leavesLoans db db') \<and>
     (\<forall>f\<in>set (lr_rejected listeners) \<union> set (lr_cancelled listeners). \<forall>e db db'. f e db = Inr db' \<longrightarrow> leavesLoans db db')"

lemma leavesLoans_refl [simp]: "leavesLoans db db"
  by (simp add: leavesLoans_def)

lemma leavesLoans_trans: "leavesLoans a b \<Longrightarrow> leavesLoans b c \<Longrightarrow> leavesLoans a c"
  by (simp add: leavesLoans_def)

lemma sameCustody_leaves: "sameCustody db db' \<Longrightarrow> leavesLoans db db'"
  by (simp add: sameCustody_def leavesLoans_def)

lemma notifyAll_leaves:
  assumes "notifyAll fs e db = Inr db'" "\<forall>f\<in>set fs. \<forall>e db db'. f e db = Inr db' \<longrightarrow> leavesLoans db db'"
  shows "leavesLoans db db'"
  using assms unfolding notifyAll_def
proof (induction fs arbitrary: db)
  case Nil
  then show ?case by simp
next
  case (Cons f fs)
  obtain d where d: "f e db = Inr d" "foldM (\<lambda>d listener. listener e d) d fs = Inr db'"
    using Cons.prems(1) by (auto simp: rbind_eq_Inr)
  have "leavesLoans db d" using Cons.prems(2) d(1) by simp
  moreover have "leavesLoans d db'" using Cons.IH [OF d(2)] Cons.prems(2) by simp
  ultimately show ?case by (rule leavesLoans_trans)
qed

lemma quiet_notify:
  assumes "quietListeners listeners"
  shows "notifyAll (lr_delivered listeners) e db = Inr db' \<Longrightarrow> leavesLoans db db'"
    "notifyAll (lr_rejected listeners) e' db = Inr db' \<Longrightarrow> leavesLoans db db'"
    "notifyAll (lr_cancelled listeners) e' db = Inr db' \<Longrightarrow> leavesLoans db db'"
  by (erule notifyAll_leaves; use assms in \<open>unfold quietListeners_def, blast\<close>)+

lemma addLoanEvent_leaves [simp]: "leavesLoans db (addLoanEvent env k ty by p db)"
  by (simp add: leavesLoans_def addLoanEvent_def)

lemma auditLoan_leaves [simp]: "leavesLoans db (auditLoan action k by c db)"
  by (simp add: leavesLoans_def auditLoan_def)

lemma recorded_leaves: "leavesLoans db (auditLoan action k by c (addLoanEvent env j ty by' p db))"
  by (rule leavesLoans_trans [OF addLoanEvent_leaves auditLoan_leaves])

definition loanEffect :: "db \<Rightarrow> db \<Rightarrow> bool" where
  "loanEffect db db' \<longleftrightarrow> (\<exists>l\<in>set (db_loans db). \<exists>f. (\<forall>u. l_id (f u) = l_id u) \<and>
     db_loans db' = update_where (\<lambda>u. l_id u = l_id l) f (db_loans db) \<and>
     (l_status (f l) = l_status l \<or> canLoanTransition (l_status l) (l_status (f l))) \<and>
     (l_status (f l) \<in> set LOAN_OUT_STATUSES \<longrightarrow> l_status l \<in> set LOAN_OUT_STATUSES) \<and>
     itemsFollow (db_loanItems db) (db_loanItems db') \<and> itemsKept (db_loanItems db) (db_loanItems db') \<and>
     db_assets db' = db_assets db \<and>
     db_movements db' = db_movements db \<and> db_seq db \<le> db_seq db')"

abbreviation loansFollow :: "db \<Rightarrow> db \<Rightarrow> bool" where
  "loansFollow db db' \<equiv> advances l_id l_status canLoanTransition (db_loans db) (db_loans db')"

lemma loanEffect_update:
  assumes "l \<in> set (db_loans db)" "leavesLoans (updateLoan (l_id l) f db) db'" "\<And>u. l_id (f u) = l_id u"
    "l_status (f l) = l_status l \<or> canLoanTransition (l_status l) (l_status (f l))"
    "l_status (f l) \<in> set LOAN_OUT_STATUSES \<Longrightarrow> l_status l \<in> set LOAN_OUT_STATUSES"
  shows "loanEffect db db'"
  unfolding loanEffect_def
  by (rule bexI [OF _ assms(1)], rule exI [of _ f]) (use assms(2-5) in \<open>auto simp: leavesLoans_def updateLoan_def\<close>)

lemma loanEffect_none:
  assumes "l \<in> set (db_loans db)" "leavesLoans db db'"
  shows "loanEffect db db'"
  by (rule loanEffect_update [OF assms(1), of "\<lambda>u. u"])
    (use assms(2) in \<open>simp_all add: leavesLoans_def updateLoan_def update_where_def\<close>)

lemma findLoan_Inr: "findLoan db k = Inr (Some l) \<Longrightarrow> l \<in> set (db_loans db) \<and> l_id l = k"
  unfolding findLoan_def by (auto split: if_splits dest: find_SomeD)

lemma lockLoan_Inr: "lockLoan db k = Inr l \<Longrightarrow> l \<in> set (db_loans db) \<and> l_id l = k"
  unfolding lockLoan_def by (auto simp: rbind_eq_Inr split: option.splits dest!: findLoan_Inr)

lemma lockLoanFor_Inr:
  "lockLoanFor event db = Inr l \<Longrightarrow> l \<in> set (db_loans db) \<and> lv_entityId event = Some (l_id l)"
  unfolding lockLoanFor_def
  by (cases "lv_entityId event") (auto simp: rbind_eq_Inr split: if_splits option.splits dest!: findLoan_Inr)

lemma requireReadableScope_Inr:
  "requireReadableScope s = Inr t \<Longrightarrow> s = t \<and> (t = Global \<or> (\<exists>ids. t = CostCenters ids))"
  by (cases s) auto

lemma lockForDecision_Inr:
  assumes "lockForDecision access k actorId db = Inr l"
  obtains scope where "l \<in> set (db_loans db)" "l_id l = k" "l_requestedBy l \<noteq> actorId"
    "la_scope access actorId LOAN_APPROVE_GLOBAL LOAN_APPROVE_SCOPED = scope"
    "scope = Global \<or> (\<exists>ids. scope = CostCenters ids \<and> l_sourceCostCenterId l \<in> set ids)"
proof -
  obtain scope where s: "approvalScope access actorId = Inr scope" "lockLoan db k = Inr l"
    "assertLoanInApprovalScope scope (l_sourceCostCenterId l) = Inr ()" "l_requestedBy l \<noteq> actorId"
    using assms unfolding lockForDecision_def by (auto simp: rbind_eq_Inr split: if_splits)
  have "la_scope access actorId LOAN_APPROVE_GLOBAL LOAN_APPROVE_SCOPED = scope"
    "scope = Global \<or> (\<exists>ids. scope = CostCenters ids)"
    using requireReadableScope_Inr [OF s(1) [unfolded approvalScope_def]] by auto
  moreover have "scope = Global \<or> (\<exists>ids. scope = CostCenters ids \<and> l_sourceCostCenterId l \<in> set ids)"
    using \<open>scope = Global \<or> (\<exists>ids. scope = CostCenters ids)\<close> s(3)
    by (cases scope) (simp_all add: assertLoanInApprovalScope_def split: if_splits)
  ultimately show thesis using that [of scope] lockLoan_Inr [OF s(2)] s(4) by blast
qed

lemma assertLoanTransition_Inr [simp]: "assertLoanTransition s t = Inr u \<longleftrightarrow> canLoanTransition s t"
  by (simp add: assertLoanTransition_def)

lemma changed_row:
  assumes "l' \<in> set (update_where (\<lambda>u. l_id u = l_id l) f t)" "distinct (map l_id t)" "l \<in> set t"
  shows "l' = f l \<or> l' \<in> set t \<and> l_id l' \<noteq> l_id l"
  using assms(1) only_row [OF assms(2,3)] unfolding in_update_where by metis

lemma loanEffect_inv:
  assumes effect: "loanEffect db db'" and inv: "bookInv uuid db"
  shows "bookInv uuid db'" "loansFollow db db'" "itemsKept (db_loanItems db) (db_loanItems db')"
proof -
  obtain l f where l: "l \<in> set (db_loans db)" "\<And>u. l_id (f u) = l_id u"
    "db_loans db' = update_where (\<lambda>u. l_id u = l_id l) f (db_loans db)"
    "l_status (f l) = l_status l \<or> canLoanTransition (l_status l) (l_status (f l))"
    "l_status (f l) \<in> set LOAN_OUT_STATUSES \<longrightarrow> l_status l \<in> set LOAN_OUT_STATUSES"
    "itemsFollow (db_loanItems db) (db_loanItems db')" "db_assets db' = db_assets db" "db_seq db \<le> db_seq db'"
    "db_movements db' = db_movements db"
    and kept: "itemsKept (db_loanItems db) (db_loanItems db')"
    using effect unfolding loanEffect_def by blast
  note ids = bookInvD(1) [OF inv]
  have row: "l' = f l \<or> l' \<in> set (db_loans db) \<and> l_id l' \<noteq> l_id l" if "l' \<in> set (db_loans db')" for l'
    by (rule changed_row [OF that [unfolded l(3)] ids l(1)])
  show "bookInv uuid db'"
  proof (rule book_kept [OF inv _ _ l(6) _ l(8)])
    show "map l_id (db_loans db') = map l_id (db_loans db)" unfolding l(3) by (rule map_update_where) (rule l(2))
    show "\<exists>u\<in>set (db_loans db). l_id u = l_id l' \<and> l_status u \<in> set OPEN_LOAN_STATUSES"
      if "l' \<in> set (db_loans db')" "l_status l' \<in> set OPEN_LOAN_STATUSES" for l'
      using row [OF that(1)] that(2) l(1,2,4) transition_open by metis
    show "map a_id (db_assets db') = map a_id (db_assets db)" by (simp add: l(7))
    show "heldOut db' (li_assetId i)" if i: "i \<in> set (db_loanItems db')" "outItem db' i" for i
    proof -
      obtain i0 where i0: "i0 \<in> set (db_loanItems db)" "li_loanId i = li_loanId i0" "li_assetId i = li_assetId i0"
        "li_receivedAt i = None \<longrightarrow> li_receivedAt i0 = None"
        using l(6) i(1) by (rule itemsFollow_member)
      obtain l' where l': "l' \<in> set (db_loans db')" "l_id l' = li_loanId i" "l_status l' \<in> set LOAN_OUT_STATUSES"
        "li_receivedAt i = None" using i(2) unfolding outItem_def list_ex_iff by blast
      have "\<exists>u\<in>set (db_loans db). l_id u = li_loanId i0 \<and> l_status u \<in> set LOAN_OUT_STATUSES"
        using row [OF l'(1)] l' l(1,2,5) i0(2) by metis
      then have "outItem db i0" using i0(4) l'(4) unfolding outItem_def list_ex_iff by blast
      from bookInvD(10) [OF inv i0(1) this] show ?thesis
        by (simp add: heldOut_cong [OF l(7,9)] i0(3))
    qed
  qed
  show "loansFollow db db'"
    unfolding l(3)
  proof (rule advances_update)
    fix u
    assume "u \<in> set (db_loans db)" "l_id u = l_id l"
    then have "u = l" by (rule only_row [OF ids l(1)])
    then show "l_id (f u) = l_id l \<and> (l_status (f u) = l_status u \<or> canLoanTransition (l_status u) (l_status (f u)))"
      using l(2,4) by simp
  qed
  show "itemsKept (db_loanItems db) (db_loanItems db')" by (rule kept)
qed

text \<open>The operations, one after another.\<close>

lemma approveLoan_effect:
  assumes "approveLoan access env k actorId db = Inr db'"
  shows "loanEffect db db'"
proof -
  obtain l where l: "lockForDecision access k actorId db = Inr l" "canLoanTransition (l_status l) LApproved"
    "db' = auditLoan ''LOAN_APPROVED'' (l_id l) actorId None (addLoanEvent env (l_id l) ''APPROVED'' actorId (JObj [])
       (updateLoan (l_id l) (\<lambda>x. x\<lparr>l_status := LApproved, l_approvedAt := Some (e_now env),
          l_approvedBy := Some actorId, l_updatedAt := e_now env\<rparr>) db))"
    using assms unfolding approveLoan_def by (auto simp: rbind_eq_Inr)
  have "l \<in> set (db_loans db)" using l(1) by (rule lockForDecision_Inr)
  then show ?thesis
    unfolding l(3) by (rule loanEffect_update [OF _ recorded_leaves]) (use l(2) in \<open>simp_all add: LOAN_OUT_STATUSES_def\<close>)
qed

lemma rejectLoan_effect:
  assumes "rejectLoan access listeners env k reason actorId db = Inr db'" "quietListeners listeners"
  shows "loanEffect db db'"
proof -
  obtain l e where l: "lockForDecision access k actorId db = Inr l" "canLoanTransition (l_status l) LRejected"
    "notifyAll (lr_rejected listeners) e (auditLoan ''LOAN_REJECTED'' (l_id l) actorId (Some (JObj [(''reason'', JStr reason)]))
       (addLoanEvent env (l_id l) ''REJECTED'' actorId (JObj [(''reason'', JStr reason)])
         (updateLoan (l_id l) (\<lambda>x. x\<lparr>l_status := LRejected, l_rejectedReason := Some reason,
            l_updatedAt := e_now env\<rparr>) db))) = Inr db'"
    using assms(1) unfolding rejectLoan_def by (auto simp: rbind_eq_Inr)
  have "l \<in> set (db_loans db)" using l(1) by (rule lockForDecision_Inr)
  then show ?thesis
    by (rule loanEffect_update [OF _ leavesLoans_trans [OF recorded_leaves quiet_notify(2) [OF assms(2) l(3)]]])
      (use l(2) in \<open>simp_all add: LOAN_OUT_STATUSES_def\<close>)
qed

lemma cancelLoan_effect:
  assumes "cancelLoan access listeners env k reason actorId db = Inr db'" "quietListeners listeners"
  shows "loanEffect db db'"
proof -
  obtain l e c p where l: "lockLoan db k = Inr l" "canLoanTransition (l_status l) LCancelled"
    "notifyAll (lr_cancelled listeners) e (auditLoan ''LOAN_CANCELLED'' (l_id l) actorId c
       (addLoanEvent env (l_id l) ''CANCELLED'' actorId p (updateLoan (l_id l) (\<lambda>x. x\<lparr>l_status := LCancelled,
          l_cancelledReason := Some (trim reason), l_updatedAt := e_now env\<rparr>) db))) = Inr db'"
    using assms(1) unfolding cancelLoan_def Let_def by (auto simp: rbind_eq_Inr split: if_splits)
  have "l \<in> set (db_loans db)" using lockLoan_Inr [OF l(1)] by blast
  then show ?thesis
    by (rule loanEffect_update [OF _ leavesLoans_trans [OF recorded_leaves quiet_notify(3) [OF assms(2) l(3)]]])
      (use l(2) in \<open>simp_all add: LOAN_OUT_STATUSES_def\<close>)
qed

lemma requestExtension_effect:
  assumes "requestExtension env k date reason actorId db = Inr db'"
  shows "loanEffect db db'"
proof -
  obtain l p where l: "lockLoan db k = Inr l"
    "db' = addLoanEvent env (l_id l) ''EXTENSION_REQUESTED'' actorId p (updateLoan (l_id l)
       (\<lambda>x. x\<lparr>l_extensionRequestedDate := Some (take 10 date), l_updatedAt := e_now env\<rparr>) db)"
    using assms unfolding requestExtension_def Let_def by (auto simp: rbind_eq_Inr split: if_splits)
  have "l \<in> set (db_loans db)" using lockLoan_Inr [OF l(1)] by blast
  then show ?thesis unfolding l(2) by (rule loanEffect_update [OF _ addLoanEvent_leaves]) simp_all
qed

lemma approveExtension_Inr:
  assumes "approveExtension access env k actorId db = Inr db'"
  obtains l c p where "lockForDecision access k actorId db = Inr l" "l_status l = LActive \<or> l_status l = LOverdue"
    "\<not> falsy (l_extensionRequestedDate l)"
    "db' = auditLoan ''LOAN_EXTENDED'' (l_id l) actorId c (addLoanEvent env (l_id l) ''EXTENDED'' actorId p
       (updateLoan (l_id l) (\<lambda>x. x\<lparr>l_expectedReturnDate := the (l_extensionRequestedDate l),
          l_extensionRequestedDate := None, l_status := (if l_status l = LOverdue \<and>
            localeIsoDate (e_now env) \<le> the (l_extensionRequestedDate l) then LActive else l_status x),
          l_updatedAt := e_now env\<rparr>) db))"
  using assms unfolding approveExtension_def Let_def by (auto simp: rbind_eq_Inr split: if_splits)

lemma approveExtension_effect:
  assumes "approveExtension access env k actorId db = Inr db'"
  shows "loanEffect db db'"
proof -
  obtain l c p where l: "lockForDecision access k actorId db = Inr l" "l_status l = LActive \<or> l_status l = LOverdue"
    "db' = auditLoan ''LOAN_EXTENDED'' (l_id l) actorId c (addLoanEvent env (l_id l) ''EXTENDED'' actorId p
       (updateLoan (l_id l) (\<lambda>x. x\<lparr>l_expectedReturnDate := the (l_extensionRequestedDate l),
          l_extensionRequestedDate := None, l_status := (if l_status l = LOverdue \<and>
            localeIsoDate (e_now env) \<le> the (l_extensionRequestedDate l) then LActive else l_status x),
          l_updatedAt := e_now env\<rparr>) db))"
    using assms by (rule approveExtension_Inr)
  have "l \<in> set (db_loans db)" using l(1) by (rule lockForDecision_Inr)
  then show ?thesis
    unfolding l(3) by (rule loanEffect_update [OF _ recorded_leaves])
      (use l(2) in \<open>auto simp: canLoanTransition_def LOAN_OUT_STATUSES_def\<close>)
qed

lemma rejectExtension_effect:
  assumes "rejectExtension access env k reason actorId db = Inr db'"
  shows "loanEffect db db'"
proof -
  obtain l c p where l: "lockForDecision access k actorId db = Inr l"
    "db' = auditLoan ''LOAN_EXT_REJECTED'' (l_id l) actorId c (addLoanEvent env (l_id l) ''EXTENSION_REJECTED'' actorId p
       (updateLoan (l_id l) (\<lambda>x. x\<lparr>l_extensionRequestedDate := None, l_updatedAt := e_now env\<rparr>) db))"
    using assms unfolding rejectExtension_def by (auto simp: rbind_eq_Inr split: if_splits)
  have "l \<in> set (db_loans db)" using l(1) by (rule lockForDecision_Inr)
  then show ?thesis unfolding l(2) by (rule loanEffect_update [OF _ recorded_leaves]) simp_all
qed

lemma regenerateDeliveryAct_effect:
  assumes "regenerateDeliveryAct access env k dto actorId db = Inr db'"
  shows "loanEffect db db'"
proof -
  obtain l contact db1 db2 payload requestId db3 c p where l: "lockLoan db k = Inr l"
    "db1 = (if contact = l_contactPersonId l then db
       else updateLoan (l_id l) (\<lambda>x. x\<lparr>l_contactPersonId := contact, l_updatedAt := e_now env\<rparr>) db)"
    "leavesLoans db1 db2" "enqueueAct env payload (Some actorId) db2 = Inr (requestId, db3)"
    "db' = auditLoan ''LOAN_ACT_REGENERATED'' (l_id l) actorId c
       (addLoanEvent env (l_id l) ''DELIVERY_ACT_REGENERATED'' actorId p db3)"
  proof -
    obtain l act previous where s: "lockLoan db k = Inr l" "replaceDeliveryAct env dto actorId l act previous db = Inr db'"
      using assms unfolding regenerateDeliveryAct_def
      by (auto simp: rbind_eq_Inr split: if_splits prod.splits loanActStatus.splits option.splits list.splits)
    define contact where "contact = (case rl_contactPersonId dto of None \<Rightarrow> l_contactPersonId l | c \<Rightarrow> c)"
    define db1 where "db1 = (if contact = l_contactPersonId l then db
       else updateLoan (l_id l) (\<lambda>x. x\<lparr>l_contactPersonId := contact, l_updatedAt := e_now env\<rparr>) db)"
    define db2 where "db2 = db1\<lparr>db_documentAssets := update_where (\<lambda>r. da_documentId r = d_id act)
         (\<lambda>r. r\<lparr>da_movementId := None\<rparr>) (db_documentAssets db1)\<rparr>"
    have "\<exists>payload requestId db3 c p. enqueueAct env payload (Some actorId) db2 = Inr (requestId, db3) \<and>
        db' = auditLoan ''LOAN_ACT_REGENERATED'' (l_id l) actorId c
          (addLoanEvent env (l_id l) ''DELIVERY_ACT_REGENERATED'' actorId p db3)"
      using s(2) unfolding replaceDeliveryAct_def Let_def contact_def [symmetric] db1_def [symmetric] db2_def [symmetric]
      by (simp add: res_simps split: prod.splits) blast
    moreover have "leavesLoans db1 db2" by (simp add: leavesLoans_def db2_def)
    ultimately show thesis using that [OF s(1) db1_def] by blast
  qed
  have mem: "l \<in> set (db_loans db)" using lockLoan_Inr [OF l(1)] by blast
  have "leavesLoans db2 db3" using enqueueAct_Inr(4) [OF l(4)] by (rule sameCustody_leaves)
  then have later: "leavesLoans db1 db'"
    unfolding l(5) by (rule leavesLoans_trans [OF leavesLoans_trans [OF l(3)] recorded_leaves])
  show ?thesis
  proof (cases "contact = l_contactPersonId l")
    case True
    then show ?thesis using loanEffect_none [OF mem] later by (simp add: l(2))
  next
    case False
    then have "leavesLoans (updateLoan (l_id l) (\<lambda>x. x\<lparr>l_contactPersonId := contact, l_updatedAt := e_now env\<rparr>) db) db'"
      using later by (simp add: l(2))
    then show ?thesis by (rule loanEffect_update [OF mem]) simp_all
  qed
qed

lemma recordReturned_effect:
  assumes "foldM (recordReturned env l items) (db, recorded, seen) xs = Inr (db', recorded', seen')"
  shows "leavesLoans (db\<lparr>db_loanItems := db_loanItems db'\<rparr>) db' \<and> itemsFollow (db_loanItems db) (db_loanItems db') \<and>
    itemsKept (db_loanItems db) (db_loanItems db')"
  using assms
proof (induction xs arbitrary: db recorded seen)
  case Nil
  then show ?case by (simp add: leavesLoans_def)
next
  case (Cons x xs)
  obtain db1 r1 s1 where one: "recordReturned env l items (db, recorded, seen) x = Inr (db1, r1, s1)"
    "foldM (recordReturned env l items) (db1, r1, s1) xs = Inr (db', recorded', seen')"
    using Cons.prems by (auto simp: rbind_eq_Inr)
  obtain k c t where db1: "db1 = updateLoanItem k (\<lambda>i. i\<lparr>li_returnCondition := c, li_returnedAt := t\<rparr>) db"
    using one(1) unfolding recordReturned_def Let_def by (auto split: if_splits option.splits)
  have "itemsFollow (db_loanItems db) (db_loanItems db1)" "itemsKept (db_loanItems db) (db_loanItems db1)"
    unfolding db1 updateLoanItem_def by (simp_all add: itemsFollow_update itemsKept_update)
  moreover have "leavesLoans (db\<lparr>db_loanItems := db_loanItems db1\<rparr>) db1"
    by (simp add: leavesLoans_def db1 updateLoanItem_def)
  ultimately show ?case
    using Cons.IH [OF one(2)] itemsFollow_trans itemsKept_trans by (auto simp: leavesLoans_def)
qed

lemma startReturn_Inr:
  assumes "startReturn env k returned notes actorId db = Inr db'"
  obtains l db1 recorded seen where "lockLoan db k = Inr l" "canLoanTransition (l_status l) LPendingReception"
    "foldM (recordReturned env l (itemsOfLoan db k)) (db, [], []) returned = Inr (db1, recorded, seen)"
    "db' = addLoanEvent env (l_id l) ''RETURN_STARTED'' actorId
       (JObj [(''assets'', JArr recorded), (''notes'', nullable notes)])
       (updateLoan (l_id l) (\<lambda>x. x\<lparr>l_status := LPendingReception,
          l_returnNotes := (case notes of None \<Rightarrow> l_returnNotes l | n \<Rightarrow> n), l_updatedAt := e_now env\<rparr>) db1)"
  using assms unfolding startReturn_def by (auto simp: rbind_eq_Inr)

lemma startReturn_effect:
  assumes "startReturn env k returned notes actorId db = Inr db'"
  shows "loanEffect db db'"
proof -
  obtain l db1 recorded seen where l: "lockLoan db k = Inr l" "canLoanTransition (l_status l) LPendingReception"
    "foldM (recordReturned env l (itemsOfLoan db k)) (db, [], []) returned = Inr (db1, recorded, seen)"
    "db' = addLoanEvent env (l_id l) ''RETURN_STARTED'' actorId
       (JObj [(''assets'', JArr recorded), (''notes'', nullable notes)])
       (updateLoan (l_id l) (\<lambda>x. x\<lparr>l_status := LPendingReception,
          l_returnNotes := (case notes of None \<Rightarrow> l_returnNotes l | n \<Rightarrow> n), l_updatedAt := e_now env\<rparr>) db1)"
    using assms by (rule startReturn_Inr)
  have mem: "l \<in> set (db_loans db)" using lockLoan_Inr [OF l(1)] by blast
  have same: "leavesLoans (db\<lparr>db_loanItems := db_loanItems db1\<rparr>) db1" "itemsFollow (db_loanItems db) (db_loanItems db1)"
    "itemsKept (db_loanItems db) (db_loanItems db1)"
    using recordReturned_effect [OF l(3)] by simp_all
  have out: "l_status l \<in> set LOAN_OUT_STATUSES"
    using l(2) by (cases "l_status l") (simp_all add: canLoanTransition_def LOAN_OUT_STATUSES_def)
  show ?thesis
    unfolding loanEffect_def
    by (rule bexI [OF _ mem], rule exI [of _ "\<lambda>x. x\<lparr>l_status := LPendingReception,
          l_returnNotes := (case notes of None \<Rightarrow> l_returnNotes l | n \<Rightarrow> n), l_updatedAt := e_now env\<rparr>"])
      (use same l(2) out in \<open>simp add: l(4) addLoanEvent_def updateLoan_def leavesLoans_def\<close>)
qed

lemma recordLoanAct_leaves [simp]: "leavesLoans db (recordLoanAct env l event ty closedBy activated db)"
  by (simp add: recordLoanAct_def Let_def)

lemma returnActEvent_effect:
  assumes "returnActEvent ty closedBy env event db = Inr db'"
  shows "loanEffect db db'"
proof -
  obtain l where l: "lockLoanFor event db = Inr l" "db' = recordLoanAct env l event ty closedBy None db"
    using assms unfolding returnActEvent_def by (auto simp: rbind_eq_Inr)
  have "l \<in> set (db_loans db)" using lockLoanFor_Inr [OF l(1)] by blast
  then show ?thesis unfolding l(2) by (rule loanEffect_none) simp
qed

lemma deliveryActGenerated_effect:
  assumes "deliveryActGenerated env event db = Inr db'"
  shows "loanEffect db db'"
proof -
  obtain l by' p where l: "lockLoanFor event db = Inr l"
    "db' = addLoanEvent env (l_id l) ''DELIVERY_ACT_GENERATED'' by' p
       (updateLoan (l_id l) (\<lambda>x. x\<lparr>l_deliveryDocumentId := Some (lv_documentId event)\<rparr>) db)"
    using assms unfolding deliveryActGenerated_def Let_def by (auto simp: rbind_eq_Inr split: if_splits)
  have "l \<in> set (db_loans db)" using lockLoanFor_Inr [OF l(1)] by blast
  then show ?thesis unfolding l(2) by (rule loanEffect_update [OF _ addLoanEvent_leaves]) simp_all
qed

lemma deliveryActSigned_Inr:
  assumes "deliveryActSigned env event db = Inr db'"
  obtains l where "lockLoanFor event db = Inr l" "l_deliveryDocumentId l = Some (lv_documentId event)"
    "db' = recordLoanAct env l event ''DELIVERY_ACT_SIGNED'' (Some SSigned) (Some (l_status l = LPendingSignatures))
       (if l_status l = LPendingSignatures
        then updateLoan (l_id l) (\<lambda>x. x\<lparr>l_status := LActive, l_updatedAt := e_now env\<rparr>) db else db)"
  using assms unfolding deliveryActSigned_def Let_def by (auto simp: rbind_eq_Inr split: if_splits)

lemma deliveryActSigned_effect:
  assumes "deliveryActSigned env event db = Inr db'"
  shows "loanEffect db db'"
proof -
  obtain l where l: "lockLoanFor event db = Inr l"
    "db' = recordLoanAct env l event ''DELIVERY_ACT_SIGNED'' (Some SSigned) (Some (l_status l = LPendingSignatures))
       (if l_status l = LPendingSignatures
        then updateLoan (l_id l) (\<lambda>x. x\<lparr>l_status := LActive, l_updatedAt := e_now env\<rparr>) db else db)"
    using assms by (rule deliveryActSigned_Inr)
  have mem: "l \<in> set (db_loans db)" using lockLoanFor_Inr [OF l(1)] by blast
  show ?thesis
  proof (cases "l_status l = LPendingSignatures")
    case True
    then have "db' = recordLoanAct env l event ''DELIVERY_ACT_SIGNED'' (Some SSigned) (Some True)
        (updateLoan (l_id l) (\<lambda>x. x\<lparr>l_status := LActive, l_updatedAt := e_now env\<rparr>) db)" by (simp add: l(2))
    then show ?thesis
      using loanEffect_update [OF mem recordLoanAct_leaves, of "\<lambda>x. x\<lparr>l_status := LActive, l_updatedAt := e_now env\<rparr>"]
      by (simp add: True canLoanTransition_def LOAN_OUT_STATUSES_def)
  next
    case False
    then show ?thesis using loanEffect_none [OF mem recordLoanAct_leaves] by (simp add: l(2))
  qed
qed

lemma deliveryActRejected_effect:
  assumes "deliveryActRejected env event db = Inr db'"
  shows "loanEffect db db'"
proof -
  obtain l where l: "lockLoanFor event db = Inr l"
    "db' = recordLoanAct env l event ''DELIVERY_ACT_REJECTED'' (Some SRejected) None db"
    using assms unfolding deliveryActRejected_def by (auto simp: rbind_eq_Inr split: if_splits)
  have "l \<in> set (db_loans db)" using lockLoanFor_Inr [OF l(1)] by blast
  then show ?thesis unfolding l(2) by (rule loanEffect_none) simp
qed

lemma loanCallbacks_effect:
  "loanGenerated env event db = Inr db' \<Longrightarrow> loanEffect db db'"
  "loanSigned env event db = Inr db' \<Longrightarrow> loanEffect db db'"
  "loanRejected env event db = Inr db' \<Longrightarrow> loanEffect db db'"
  unfolding loanGenerated_def loanSigned_def loanRejected_def
  by (auto split: if_splits dest: returnActEvent_effect deliveryActGenerated_effect deliveryActSigned_effect
      deliveryActRejected_effect)

section \<open>Overdue loans\<close>

lemma markOverdue_inv:
  assumes run: "markOverdue env db = (n, db')" and inv: "bookInv uuid db"
  shows "bookInv uuid db'" "loansFollow db db'"
proof -
  let ?f = "\<lambda>l :: loan. l\<lparr>l_status := LOverdue, l_updatedAt := e_now env\<rparr>"
  have db': "db_loans db' = update_where (overdueLoan env) ?f (db_loans db)" "db_loanItems db' = db_loanItems db"
    "db_assets db' = db_assets db" "db_seq db' = db_seq db" "db_movements db' = db_movements db"
    using run by (auto simp: markOverdue_def)
  have row: "\<exists>u\<in>set (db_loans db). l_id u = l_id l' \<and> (l' = u \<or> l_status u = LActive \<and> l_status l' = LOverdue)"
    if "l' \<in> set (db_loans db')" for l'
    using that unfolding db'(1) in_update_where by (auto simp: overdueLoan_def)
  show "bookInv uuid db'"
  proof (rule book_kept [OF inv])
    show "map l_id (db_loans db') = map l_id (db_loans db)" unfolding db'(1) by (rule map_update_where) simp
    show "\<exists>u\<in>set (db_loans db). l_id u = l_id l' \<and> l_status u \<in> set OPEN_LOAN_STATUSES"
      if "l' \<in> set (db_loans db')" "l_status l' \<in> set OPEN_LOAN_STATUSES" for l'
      using row [OF that(1)] that(2) by (auto simp: OPEN_LOAN_STATUSES_def)
    show "heldOut db' (li_assetId i)" if i: "i \<in> set (db_loanItems db')" "outItem db' i" for i
    proof -
      obtain l' where l': "l' \<in> set (db_loans db')" "l_id l' = li_loanId i" "l_status l' \<in> set LOAN_OUT_STATUSES"
        "li_receivedAt i = None" using i(2) unfolding outItem_def list_ex_iff by blast
      have "outItem db i"
        using row [OF l'(1)] l'(2-4) unfolding outItem_def list_ex_iff by (auto simp: LOAN_OUT_STATUSES_def)
      then show ?thesis
        using bookInvD(10) [OF inv, of i] i(1) by (simp add: db'(2) heldOut_cong [OF db'(3,5)])
    qed
  qed (simp_all add: db')
  show "loansFollow db db'"
    unfolding advances_def
  proof
    fix l
    assume "l \<in> set (db_loans db)"
    then have "(if overdueLoan env l then ?f l else l) \<in> set (db_loans db')" unfolding db'(1) in_update_where by blast
    then show "\<exists>h'\<in>set (db_loans db'). l_id h' = l_id l \<and>
        (l_status h' = l_status l \<or> canLoanTransition (l_status l) (l_status h'))"
      by (rule bexI [rotated]) (simp add: overdueLoan_def canLoanTransition_def)
  qed
qed

section \<open>A new loan\<close>

lemma findAsset_member: "findAsset db k \<noteq> None \<longleftrightarrow> k \<in> a_id ` set (db_assets db)"
  unfolding findAsset_def by (auto simp: find_None_iff)

lemma holdOpenLoan_iff:
  "holdOpenLoan db k \<longleftrightarrow> (\<exists>i\<in>set (db_loanItems db). li_assetId i = k \<and> openItem db i)"
  by (auto simp: holdOpenLoan_def openItem_def list_ex_iff)

lemma insertLoanItems:
  "db_loanItems (foldl (insertLoanItem env k source) db assets) = db_loanItems db @
     map (\<lambda>(n, a). loanItemRow (e_uuid env n) k source a) (enumerate (db_seq db) assets)"
  "db_loans (foldl (insertLoanItem env k source) db assets) = db_loans db"
  "db_assets (foldl (insertLoanItem env k source) db assets) = db_assets db"
  "db_movements (foldl (insertLoanItem env k source) db assets) = db_movements db"
  "db_seq (foldl (insertLoanItem env k source) db assets) = db_seq db + length assets"
  by (induction assets arbitrary: db) (simp_all add: insertLoanItem_def freshId_def bumpSeq_def)

lemma assertLendable_Inr:
  assumes "assertLendable env input scope db = Inr (assets, source)"
  shows "assets = assetsById db (cl_assetIds input)" "assets \<noteq> []"
    "list_all (\<lambda>a. a_costCenterId a = source \<and> a_operationalStatus a \<in> set LOANABLE) assets"
    "list_all (\<lambda>k. \<not> holdOpenLoan db k \<and> \<not> holdOpenWriteOff db None k) (cl_assetIds input)"
    "source \<noteq> cl_targetCostCenterId input" "\<not> outsideScope scope assets"
proof -
  have ids: "assetsById db (uniq (cl_assetIds input)) = assetsById db (cl_assetIds input)" by (simp add: assetsById_def)
  obtain a rest where rows: "assetsById db (cl_assetIds input) = a # rest"
    using assms unfolding assertLendable_def Let_def ids by (auto split: if_splits list.splits)
  show "assets = assetsById db (cl_assetIds input)" "assets \<noteq> []"
    "list_all (\<lambda>a. a_costCenterId a = source \<and> a_operationalStatus a \<in> set LOANABLE) assets"
    "list_all (\<lambda>k. \<not> holdOpenLoan db k \<and> \<not> holdOpenWriteOff db None k) (cl_assetIds input)"
    "source \<noteq> cl_targetCostCenterId input" "\<not> outsideScope scope assets"
    using assms unfolding assertLendable_def Let_def ids rows
    by (auto simp: res_simps list_all_iff list_ex_iff)
qed

text \<open>The tables after a creation.\<close>

lemma createLoanWithin_Inr:
  assumes "createLoanWithin env input actorId scope approved db = Inr (k, db')"
  obtains assets source requestedBy where "assertLendable env input scope db = Inr (assets, source)"
    "k = e_uuid env (db_seq db)" "db_loans db' = db_loans db @ [loanRow env k input source requestedBy approved]"
    "db_loanItems db' = db_loanItems db @
       map (\<lambda>(n, a). loanItemRow (e_uuid env n) k source a) (enumerate (Suc (db_seq db)) assets)"
    "db_assets db' = db_assets db" "db_movements db' = db_movements db"
    "Suc (db_seq db + length assets) \<le> db_seq db'"
proof -
  obtain assets source where run: "assertLendable env input scope db = Inr (assets, source)"
    using assms unfolding createLoanWithin_def by (auto simp: rbind_eq_Inr)
  define requestedBy where "requestedBy = (case approved of None \<Rightarrow> actorId | Some a \<Rightarrow> ap_requestedBy a)"
  define db2 where "db2 = foldl (insertLoanItem env (freshId env db) source)
    (bumpSeq (db\<lparr>db_loans := db_loans db @ [loanRow env (freshId env db) input source requestedBy approved]\<rparr>)) assets"
  have "k = freshId env db \<and> leavesLoans db2 db'"
  proof (cases approved)
    case None
    then show ?thesis
      using assms unfolding createLoanWithin_def run Let_def
      by (auto simp: requestedBy_def db2_def recorded_leaves)
  next
    case (Some a)
    have "\<exists>c p c' p'. db' = auditLoan ''LOAN_APPROVED'' k actorId c (addLoanEvent env k ''APPROVED'' (ap_by a) p
        (auditLoan ''LOAN_REQUESTED'' k actorId c' (addLoanEvent env k ''REQUESTED'' requestedBy p' db2)))"
      using assms Some unfolding createLoanWithin_def run Let_def by (auto simp: requestedBy_def db2_def)
    then have "leavesLoans db2 db'" using leavesLoans_trans [OF recorded_leaves recorded_leaves] by metis
    then show ?thesis using assms Some unfolding createLoanWithin_def run Let_def by simp
  qed
  then show thesis
    using that [OF run, of requestedBy] by (simp add: leavesLoans_def db2_def insertLoanItems freshId_def bumpSeq_def)
qed

lemma assetsById_set:
  "set (assetsById db ids) = {a \<in> set (db_assets db). a_id a \<in> set ids}"
  by (auto simp: assetsById_def)

lemma assetsById_distinct: "distinct (map a_id (db_assets db)) \<Longrightarrow> distinct (map a_id (assetsById db ids))"
proof -
  assume "distinct (map a_id (db_assets db))"
  then have "distinct (map a_id (filter (\<lambda>a. a_id a \<in> set ids) (db_assets db)))" by (rule distinct_map_filter)
  then show ?thesis by (simp add: assetsById_def distinct_map)
qed

lemma distinct_apart: "distinct xs \<Longrightarrow> set xs \<subseteq> A \<Longrightarrow> distinct ys \<Longrightarrow> set ys \<inter> A = {} \<Longrightarrow> distinct (xs @ ys)"
  by auto

lemma newItems:
  "map li_id (map (\<lambda>(n, a). loanItemRow (u n) k source a) (enumerate m assets)) = map u [m..<m + length assets]"
  "map li_assetId (map (\<lambda>(n, a). loanItemRow (u n) k source a) (enumerate m assets)) = map a_id assets"
  by (induction assets arbitrary: m) (simp_all add: loanItemRow_def upt_conv_Cons del: upt_Suc)

lemma createLoanWithin_inv:
  assumes run: "createLoanWithin env input actorId scope approved db = Inr (k, db')"
    and inj: "inj (e_uuid env)" and inv: "bookInv (e_uuid env) db"
  shows "bookInv (e_uuid env) db'" "loansFollow db db'"
proof -
  obtain assets source requestedBy where s: "assertLendable env input scope db = Inr (assets, source)"
    "k = e_uuid env (db_seq db)" "db_loans db' = db_loans db @ [loanRow env k input source requestedBy approved]"
    "db_loanItems db' = db_loanItems db @
       map (\<lambda>(n, a). loanItemRow (e_uuid env n) k source a) (enumerate (Suc (db_seq db)) assets)"
    "db_assets db' = db_assets db" "Suc (db_seq db + length assets) \<le> db_seq db'" "db_movements db' = db_movements db"
    using run by (rule createLoanWithin_Inr)
  note d = bookInvD [OF inv]
  let ?row = "loanRow env k input source requestedBy approved"
  define new where "new = map (\<lambda>(n, a). loanItemRow (e_uuid env n) k source a) (enumerate (Suc (db_seq db)) assets)"
  have items: "db_loanItems db' = db_loanItems db @ new" using s(4) by (simp add: new_def)
  have assets: "assets = assetsById db (cl_assetIds input)"
    "list_all (\<lambda>k. \<not> holdOpenLoan db k \<and> \<not> holdOpenWriteOff db None k) (cl_assetIds input)"
    using assertLendable_Inr [OF s(1)] by blast+
  have row: "l_id ?row = k" "l_status ?row = LRequested \<or> l_status ?row = LApproved" by (auto simp: loanRow_def)
  have fresh: "e_uuid env n \<notin> e_uuid env ` {..<db_seq db}" if "db_seq db \<le> n" for n
    using that by (simp add: inj_image_mem_iff [OF inj])
  have knew: "k \<notin> l_id ` set (db_loans db)" using fresh [of "db_seq db"] d(2) by (auto simp: s(2))
  have ids: "map li_id new = map (e_uuid env) [Suc (db_seq db)..<Suc (db_seq db) + length assets]" unfolding new_def by (rule newItems)
  have owners: "li_loanId i = k" "li_receivedAt i = None" if "i \<in> set new" for i
    using that by (auto simp: new_def loanItemRow_def)
  have held: "map li_assetId new = map a_id assets" unfolding new_def by (rule newItems)
  have old_owner: "li_loanId i \<noteq> k" if "i \<in> set (db_loanItems db)" for i using d(5) knew that by auto
  have old: "openItem db' i = openItem db i" "outItem db' i = outItem db i" if "i \<in> set (db_loanItems db)" for i
    using old_owner [OF that] by (auto simp: openItem_def outItem_def s(3) row(1))
  show "bookInv (e_uuid env) db'"
    unfolding bookInv_def
  proof (intro conjI allI ballI impI)
    show "distinct (map l_id (db_loans db'))" using d(1) knew by (simp add: s(3) row(1))
    show "l_id ` set (db_loans db') \<subseteq> e_uuid env ` {..<db_seq db'}"
    proof -
      have "k \<in> e_uuid env ` {..<db_seq db'}" using s(2,6) by simp
      moreover have "e_uuid env ` {..<db_seq db} \<subseteq> e_uuid env ` {..<db_seq db'}" using s(6) by auto
      ultimately show ?thesis using d(2) by (auto simp: s(3) row(1))
    qed
    show "distinct (map li_id (db_loanItems db'))"
    proof -
      have "distinct (map (e_uuid env) [Suc (db_seq db)..<Suc (db_seq db) + length assets])"
        using inj_on_subset [OF inj subset_UNIV] by (simp add: distinct_map del: upt_Suc)
      moreover have "set (map (e_uuid env) [Suc (db_seq db)..<Suc (db_seq db) + length assets]) \<inter>
          e_uuid env ` {..<db_seq db} = {}"
        by (auto simp: inj_eq [OF inj] simp del: upt_Suc)
      ultimately show ?thesis
        unfolding items map_append ids by (rule distinct_apart [OF d(3) d(4)[folded list.set_map]])
    qed
    show "li_id ` set (db_loanItems db') \<subseteq> e_uuid env ` {..<db_seq db'}"
    proof -
      have "set (map li_id new) \<subseteq> e_uuid env ` {..<db_seq db'}"
        unfolding ids using s(6) by (auto simp del: upt_Suc)
      then have new_ids: "li_id ` set new \<subseteq> e_uuid env ` {..<db_seq db'}" by (simp only: list.set_map)
      have "e_uuid env ` {..<db_seq db} \<subseteq> e_uuid env ` {..<db_seq db'}" using s(6) by auto
      from subset_trans [OF d(4) this] new_ids show ?thesis unfolding items set_append image_Un by (rule Un_least)
    qed
    show "li_loanId ` set (db_loanItems db') \<subseteq> l_id ` set (db_loans db')"
      using d(5) owners(1) unfolding s(3) items by (auto simp: row(1))
    show "distinct (map a_id (db_assets db'))" using d(6) by (simp add: s(5))
    show "li_assetId ` set (db_loanItems db') \<subseteq> a_id ` set (db_assets db')"
      using d(7) arg_cong [OF held, of set] by (auto simp: items s(5) assets(1) assetsById_set)
    have assets_distinct: "distinct (map li_assetId new)"
      unfolding held assets(1) by (rule assetsById_distinct [OF d(6)])
    show "distinct (map li_assetId (itemsOfLoan db' j))" for j
    proof (cases "j = k")
      case True
      then have "itemsOfLoan db' j = new"
        using owners(1) old_owner unfolding itemsOfLoan_def items by (simp add: filter_id_conv filter_empty_conv)
      then show ?thesis using assets_distinct by simp
    next
      case False
      then have "itemsOfLoan db' j = itemsOfLoan db j"
        using owners(1) unfolding itemsOfLoan_def items by (auto simp: filter_empty_conv)
      then show ?thesis using d(8) by simp
    qed
    have before: "filter (openItem db') (db_loanItems db) = filter (openItem db) (db_loanItems db)"
      using old(1) by (auto intro: filter_cong)
    have "li_assetId ` set (filter (openItem db) (db_loanItems db)) \<inter> li_assetId ` set new = {}"
    proof -
      have "li_assetId ` set new \<subseteq> set (cl_assetIds input)"
        using arg_cong [OF held, of set] by (auto simp: assets(1) assetsById_set)
      then show ?thesis using assets(2) unfolding list_all_iff holdOpenLoan_iff by fastforce
    qed
    then show "distinct (map li_assetId (filter (openItem db') (db_loanItems db')))"
      using d(9) distinct_map_filter [OF assets_distinct, of "openItem db'"]
      unfolding items filter_append before map_append distinct_append by auto
    show "heldOut db' (li_assetId i)" if i: "i \<in> set (db_loanItems db')" "outItem db' i" for i
    proof -
      have "i \<notin> set new"
      proof
        assume "i \<in> set new"
        then have "li_loanId i = k" by (rule owners(1))
        with i(2) obtain l where l: "l \<in> set (db_loans db')" "l_id l = k" "l_status l \<in> set LOAN_OUT_STATUSES"
          unfolding outItem_def list_ex_iff by blast
        have "l = ?row" using l(1,2) knew unfolding s(3) by auto
        then show False using l(3) row(2) by (auto simp: LOAN_OUT_STATUSES_def)
      qed
      then have "i \<in> set (db_loanItems db)" using i(1) by (auto simp: items)
      then show ?thesis
        using d(10) [of i] old(2) [of i] i(2) by (simp add: heldOut_cong [OF s(5,7)])
    qed
  qed
  show "loansFollow db db'" unfolding s(3) by (rule advances_append)
qed

section \<open>Loans over the loop of assets\<close>

context recordedMoves
begin

lemma recorded_movements:
  assumes "foldM (recordOne env change target after) (db, ids) items = Inr (db', ids')"
  shows "\<exists>ms. db_movements db' = db_movements db @ ms \<and> map m_assetId ms = map target items"
  using assms
proof (induction items arbitrary: db ids)
  case Nil
  then show ?case by simp
next
  case (Cons x items)
  obtain db1 ids1 where one: "recordOne env change target after (db, ids) x = Inr (db1, ids1)"
    "foldM (recordOne env change target after) (db1, ids1) items = Inr (db', ids')"
    using Cons.prems by (auto simp: rbind_eq_Inr)
  obtain d1 where d1: "applyOne env change db x = Inr d1" "db1 = after x d1" using one(1) by (rule one_recorded)
  obtain m where m: "db_movements d1 = db_movements db @ [m]" "m_assetId m = target x" using d1(1) by (rule one_movements)
  obtain ms where ms: "db_movements db' = db_movements db1 @ ms" "map m_assetId ms = map target items"
    using Cons.IH [OF one(2)] by blast
  have "db_movements db' = db_movements db @ (m # ms)" using ms(1) m(1) d1(2) after_keeps by simp
  moreover have "map m_assetId (m # ms) = map target (x # items)" using m(2) ms(2) by simp
  ultimately show ?case by blast
qed

lemma recorded_heldOut:
  assumes "foldM (recordOne env change target after) (db, ids) items = Inr (db', ids')" "distinct (map target items)"
    "k \<notin> target ` set items" "heldOut db k"
  shows "heldOut db' k"
proof -
  obtain ms where ms: "db_movements db' = db_movements db @ ms" "map m_assetId ms = map target items"
    using recorded_movements [OF assms(1)] by blast
  have "k \<notin> m_assetId ` set ms" using assms(3) arg_cong [OF ms(2), of set] by simp
  then have "list_all (\<lambda>m. m_assetId m = k \<longrightarrow> m_movementType m \<noteq> Loan) ms" by (auto simp: list_all_iff)
  moreover have "onLoan db k \<Longrightarrow> onLoan db' k" using recorded_find(2) [OF assms(1-3)] by (simp add: onLoan_def)
  ultimately show ?thesis by (rule heldOut_more [OF ms(1) _ _ assms(4)])
qed

lemma recorded_prefix:
  assumes "foldM (recordOne env change target after) (db, ids) items = Inr (db', ids')" "P [] db"
    and "\<And>past i d a d2. P past d \<Longrightarrow> i \<in> set items \<Longrightarrow> findAsset d (target i) = Some a \<Longrightarrow> c_guard (change i) a = Inr () \<Longrightarrow>
      c_alsoWrite (change i) (writeChange env (change i) a d) a = Inr d2 \<Longrightarrow>
      P (past @ [i]) (after i (auditOf (change i) a d2))"
  shows "P items db'"
proof -
  have "foldM (recordOne env change target after) (db, ids) xs = Inr (db', ids') \<Longrightarrow> P past db \<Longrightarrow>
      set xs \<subseteq> set items \<Longrightarrow> P (past @ xs) db'" for xs past db ids
  proof (induction xs arbitrary: past db ids)
    case Nil
    then show ?case by simp
  next
    case (Cons x xs)
    obtain db1 ids1 where one: "recordOne env change target after (db, ids) x = Inr (db1, ids1)"
      "foldM (recordOne env change target after) (db1, ids1) xs = Inr (db', ids')"
      using Cons.prems(1) by (auto simp: rbind_eq_Inr)
    obtain d1 where d1: "applyOne env change db x = Inr d1" "db1 = after x d1" using one(1) by (rule one_recorded)
    obtain a d2 where s: "findAsset db (target x) = Some a" "c_guard (change x) a = Inr ()"
      "c_alsoWrite (change x) (writeChange env (change x) a db) a = Inr d2" "d1 = auditOf (change x) a d2"
      using d1(1) by (rule one_step)
    have "P (past @ [x]) db1"
      unfolding d1(2) s(4) by (rule assms(3) [OF Cons.prems(2) _ s(1-3)]) (use Cons.prems(3) in simp)
    from Cons.IH [OF one(2) this] Cons.prems(3) show ?case by simp
  qed
  from this [OF assms(1,2) subset_refl] show ?thesis by simp
qed

lemma recorded_assets:
  assumes "foldM (recordOne env change target after) (db, ids) items = Inr (db', ids')"
  shows "map a_id (db_assets db') = map a_id (db_assets db) \<and> db_seq db \<le> db_seq db'"
proof (rule recorded_prefix [OF assms, of "\<lambda>past d. map a_id (db_assets d) = map a_id (db_assets db) \<and> db_seq db \<le> db_seq d"])
  fix past i d a d2
  assume p: "map a_id (db_assets d) = map a_id (db_assets db) \<and> db_seq db \<le> db_seq d"
    and run: "c_alsoWrite (change i) (writeChange env (change i) a d) a = Inr d2"
  have "map a_id (db_assets (writeChange env (change i) a d)) = map a_id (db_assets d)"
    unfolding writeChange_assets updateAsset_def by (simp add: map_update_where)
  then show "map a_id (db_assets (after i (auditOf (change i) a d2))) = map a_id (db_assets db) \<and>
      db_seq db \<le> db_seq (after i (auditOf (change i) a d2))"
    using p change_writes [OF run] after_keeps [of i "auditOf (change i) a d2"] writeChange_seq [of d env "change i" a]
    by simp
qed simp

end

interpretation delivering: recordedMoves env "deliverChange env actorId l contact" li_assetId "\<lambda>_ d. d"
  for env actorId l contact
  by unfold_locales (auto simp: deliverChange_def updateLoanItem_def)

interpretation undoing: recordedMoves env "undoChange env actorId l reason voided" li_assetId "\<lambda>_ d. d"
  for env actorId l reason voided
  by unfold_locales (auto simp: undoChange_def noWrite_def)

interpretation receiving: recordedMoves env "receiveChange env actorId l" li_assetId "markReceived env"
  for env actorId l
  by unfold_locales (auto simp: receiveChange_def noWrite_def markReceived_def updateLoanItem_def)

lemma delivering_tables:
  assumes "foldM (recordOne env (deliverChange env actorId l contact) li_assetId (\<lambda>_ d. d)) (db, ids) items = Inr (db', ids')"
  shows "db_loans db' = db_loans db \<and> itemsFollow (db_loanItems db) (db_loanItems db') \<and>
    itemsKept (db_loanItems db) (db_loanItems db')"
proof (rule delivering.recorded_prefix [OF assms])
  fix past i d a d2
  assume p: "db_loans d = db_loans db \<and> itemsFollow (db_loanItems db) (db_loanItems d) \<and>
      itemsKept (db_loanItems db) (db_loanItems d)"
    and run: "c_alsoWrite (deliverChange env actorId l contact i)
      (writeChange env (deliverChange env actorId l contact i) a d) a = Inr d2"
  have d2: "db_loans d2 = db_loans d" "itemsFollow (db_loanItems d) (db_loanItems d2)" "itemsKept (db_loanItems d) (db_loanItems d2)"
    using run by (auto simp: deliverChange_def updateLoanItem_def intro!: itemsFollow_update itemsKept_update)
  show "db_loans (auditOf (deliverChange env actorId l contact i) a d2) = db_loans db \<and>
      itemsFollow (db_loanItems db) (db_loanItems (auditOf (deliverChange env actorId l contact i) a d2)) \<and>
      itemsKept (db_loanItems db) (db_loanItems (auditOf (deliverChange env actorId l contact i) a d2))"
    using p d2 itemsFollow_trans itemsKept_trans by auto
qed simp

lemma undoing_tables:
  assumes "foldM (recordOne env (undoChange env actorId l reason voided) li_assetId (\<lambda>_ d. d)) (db, ids) items = Inr (db', ids')"
  shows "db_loans db' = db_loans db \<and> db_loanItems db' = db_loanItems db"
proof (rule undoing.recorded_prefix [OF assms])
  fix past i d a d2
  assume p: "db_loans d = db_loans db \<and> db_loanItems d = db_loanItems db"
    and run: "c_alsoWrite (undoChange env actorId l reason voided i)
      (writeChange env (undoChange env actorId l reason voided i) a d) a = Inr d2"
  have "d2 = writeChange env (undoChange env actorId l reason voided i) a d"
    using run by (simp add: undoChange_def noWrite_def)
  then show "db_loans (auditOf (undoChange env actorId l reason voided i) a d2) = db_loans db \<and>
      db_loanItems (auditOf (undoChange env actorId l reason voided i) a d2) = db_loanItems db"
    using p by simp
qed simp

lemma receiving_tables:
  assumes "foldM (recordOne env (receiveChange env actorId l) li_assetId (markReceived env)) (db, ids) items = Inr (db', ids')"
  shows "db_loans db' = db_loans db \<and> itemsFollow (db_loanItems db) (db_loanItems db') \<and>
    (\<forall>j\<in>set (db_loanItems db'). li_receivedAt j = None \<longrightarrow> li_id j \<notin> li_id ` set items)"
proof (rule receiving.recorded_prefix [OF assms])
  fix past :: "loanItem list" and i d a d2
  assume p: "db_loans d = db_loans db \<and> itemsFollow (db_loanItems db) (db_loanItems d) \<and>
      (\<forall>j\<in>set (db_loanItems d). li_receivedAt j = None \<longrightarrow> li_id j \<notin> li_id ` set past)"
    and run: "c_alsoWrite (receiveChange env actorId l i) (writeChange env (receiveChange env actorId l i) a d) a = Inr d2"
  let ?d = "markReceived env i (auditOf (receiveChange env actorId l i) a d2)"
  have "d2 = writeChange env (receiveChange env actorId l i) a d" using run by (simp add: receiveChange_def noWrite_def)
  then have tables: "db_loans ?d = db_loans d"
    "db_loanItems ?d = update_where (\<lambda>j. li_id j = li_id i) (\<lambda>j. j\<lparr>li_receivedAt := Some (e_now env)\<rparr>) (db_loanItems d)"
    by (simp_all add: markReceived_def updateLoanItem_def)
  have "itemsFollow (db_loanItems d) (db_loanItems ?d)" unfolding tables(2) by (rule itemsFollow_update) simp
  then have "itemsFollow (db_loanItems db) (db_loanItems ?d)" using p itemsFollow_trans by blast
  moreover have "li_id j \<notin> li_id ` set (past @ [i])" if "j \<in> set (db_loanItems ?d)" "li_receivedAt j = None" for j
  proof -
    obtain q where q: "q \<in> set (db_loanItems d)"
      "j = (if li_id q = li_id i then q\<lparr>li_receivedAt := Some (e_now env)\<rparr> else q)"
      using \<open>j \<in> set (db_loanItems ?d)\<close> unfolding tables(2) in_update_where by blast
    then show ?thesis using \<open>li_receivedAt j = None\<close> p by (cases "li_id q = li_id i") auto
  qed
  ultimately show "db_loans ?d = db_loans db \<and> itemsFollow (db_loanItems db) (db_loanItems ?d) \<and>
      (\<forall>j\<in>set (db_loanItems ?d). li_receivedAt j = None \<longrightarrow> li_id j \<notin> li_id ` set (past @ [i]))"
    using p tables(1) by (intro conjI ballI impI) simp_all
qed simp

section \<open>Delivery\<close>

lemma deliveryItems_set:
  "set (deliveryItems db k) = {i \<in> set (db_loanItems db). li_loanId i = k \<and> findAsset db (li_assetId i) \<noteq> None}"
  by (auto simp: deliveryItems_def itemsOfLoan_def)

lemma deliveryItems_distinct:
  assumes "distinct (map li_assetId (itemsOfLoan db k))"
  shows "distinct (map li_assetId (deliveryItems db k))"
proof -
  have "distinct (map li_assetId (filter (\<lambda>i. findAsset db (li_assetId i) \<noteq> None) (itemsOfLoan db k)))"
    by (rule distinct_map_filter [OF assms])
  then show ?thesis by (simp add: deliveryItems_def distinct_map)
qed

lemma deliverWithin_Inr:
  assumes "deliverWithin listeners env k dto actorId role db = Inr db'" "quietListeners listeners"
  obtains l contact movementIds db1 where "lockLoan db k = Inr l" "canLoanTransition (l_status l) LPendingSignatures"
    "l_contactPersonId l = Some contact"
    "falsy (l_startDate l) \<or> the (l_startDate l) \<le> localeIsoDate (e_now env)"
    "deliveryItems db (l_id l) \<noteq> []"
    "foldM (recordOne env (deliverChange env actorId l contact) li_assetId (\<lambda>_ d. d)) (db, []) (deliveryItems db (l_id l)) =
       Inr (db1, movementIds)"
    "leavesLoans (updateLoan (l_id l) (\<lambda>x. x\<lparr>l_status := LPendingSignatures, l_deliveredAt := Some (e_now env),
       l_deliveredBy := Some actorId, l_updatedAt := e_now env\<rparr>) db1) db'"
proof -
  obtain l where l: "lockLoan db k = Inr l" "canLoanTransition (l_status l) LPendingSignatures"
    "\<not> falsy (l_contactPersonId l)"
    "\<not> (\<not> falsy (l_startDate l) \<and> localeIsoDate (e_now env) < the (l_startDate l))"
    using assms(1) unfolding deliverWithin_def Let_def by (auto simp: rbind_eq_Inr split: if_splits)
  obtain contact where contact: "l_contactPersonId l = Some contact" using l(3) by (cases "l_contactPersonId l") auto
  define f where "f = (\<lambda>x :: loan. x\<lparr>l_status := LPendingSignatures, l_deliveredAt := Some (e_now env),
       l_deliveredBy := Some actorId, l_updatedAt := e_now env\<rparr>)"
  obtain db1 movementIds requestId payload db3 e p where run: "deliveryItems db (l_id l) \<noteq> []"
    "foldM (recordOne env (deliverChange env actorId l contact) li_assetId (\<lambda>_ d. d)) (db, []) (deliveryItems db (l_id l)) =
       Inr (db1, movementIds)"
    "enqueueAct env payload (Some actorId) (updateLoan (l_id l) f db1) = Inr (requestId, db3)"
    "notifyAll (lr_delivered listeners) e (auditLoan ''LOAN_DELIVERED'' (l_id l) actorId
       (Some (JObj [(''documentRequestId'', JStr requestId)]))
       (addLoanEvent env (l_id l) ''DELIVERED'' actorId p db3)) = Inr db'"
    using assms(1) l contact unfolding deliverWithin_def Let_def recordAll_def f_def [symmetric]
    by (auto simp: rbind_eq_Inr split: if_splits option.splits)
  have "leavesLoans (updateLoan (l_id l) f db1) db3"
    using enqueueAct_Inr(4) [OF run(3)] by (rule sameCustody_leaves)
  then have "leavesLoans (updateLoan (l_id l) f db1) db'"
    by (rule leavesLoans_trans [OF leavesLoans_trans [OF _ recorded_leaves] quiet_notify(1) [OF assms(2) run(4)]])
  then show thesis
    using that [OF l(1,2) contact _ run(1,2)] l(4) unfolding f_def by fastforce
qed

lemma deliverWithin_inv:
  assumes run: "deliverWithin listeners env k dto actorId role db = Inr db'" and quiet: "quietListeners listeners"
    and inv: "bookInv uuid db" and fresh: "\<forall>i\<in>set (itemsOfLoan db k). li_receivedAt i = None"
  shows "bookInv uuid db'" "loansFollow db db'" "itemsKept (db_loanItems db) (db_loanItems db')"
proof -
  define f where "f = (\<lambda>x :: loan. x\<lparr>l_status := LPendingSignatures, l_deliveredAt := Some (e_now env),
       l_deliveredBy := Some actorId, l_updatedAt := e_now env\<rparr>)"
  obtain l contact movementIds db1 where s: "lockLoan db k = Inr l" "canLoanTransition (l_status l) LPendingSignatures"
    "foldM (recordOne env (deliverChange env actorId l contact) li_assetId (\<lambda>_ d. d)) (db, []) (deliveryItems db (l_id l)) =
       Inr (db1, movementIds)"
    "leavesLoans (updateLoan (l_id l) f db1) db'"
    using run quiet unfolding f_def by (rule deliverWithin_Inr)
  note d = bookInvD [OF inv]
  have l: "l \<in> set (db_loans db)" using lockLoan_Inr [OF s(1)] by blast
  have f: "l_id (f u) = l_id u" "l_status (f u) = LPendingSignatures" for u by (simp_all add: f_def)
  have tables: "db_loans db1 = db_loans db" "itemsFollow (db_loanItems db) (db_loanItems db1)"
    and kept: "itemsKept (db_loanItems db) (db_loanItems db1)" using delivering_tables [OF s(3)] by simp_all
  have same: "db_loans db' = update_where (\<lambda>u. l_id u = l_id l) f (db_loans db)" "db_loanItems db' = db_loanItems db1"
    "db_assets db' = db_assets db1" "db_seq db1 \<le> db_seq db'" "db_movements db' = db_movements db1"
    using s(4) by (simp_all add: leavesLoans_def updateLoan_def tables(1))
  have dist: "distinct (map li_assetId (deliveryItems db (l_id l)))" by (rule deliveryItems_distinct [OF d(8)])
  have row: "l' = f l \<or> l' \<in> set (db_loans db) \<and> l_id l' \<noteq> l_id l" if "l' \<in> set (db_loans db')" for l'
    by (rule changed_row [OF that [unfolded same(1)] d(1) l])
  have open_l: "l_status l \<in> set OPEN_LOAN_STATUSES"
    by (rule transition_open [OF s(2)]) (simp add: OPEN_LOAN_STATUSES_def)
  show "bookInv uuid db'"
  proof (rule book_kept [OF inv])
    show "map l_id (db_loans db') = map l_id (db_loans db)" unfolding same(1) by (rule map_update_where) (rule f(1))
    show "\<exists>u\<in>set (db_loans db). l_id u = l_id l' \<and> l_status u \<in> set OPEN_LOAN_STATUSES"
      if "l' \<in> set (db_loans db')" "l_status l' \<in> set OPEN_LOAN_STATUSES" for l'
      using row [OF that(1)] that(2) l f(1) open_l by metis
    show "itemsFollow (db_loanItems db) (db_loanItems db')" by (simp add: same(2) tables(2))
    show "map a_id (db_assets db') = map a_id (db_assets db)"
      using delivering.recorded_assets [OF s(3)] by (simp add: same(3))
    show "db_seq db \<le> db_seq db'" using delivering.recorded_assets [OF s(3)] same(4) by simp
    show "heldOut db' (li_assetId i)" if i: "i \<in> set (db_loanItems db')" "outItem db' i" for i
    proof -
      obtain i0 where i0: "i0 \<in> set (db_loanItems db)" "li_loanId i = li_loanId i0" "li_assetId i = li_assetId i0"
        "li_receivedAt i = None \<longrightarrow> li_receivedAt i0 = None"
        using tables(2) i(1) [unfolded same(2)] by (rule itemsFollow_member)
      obtain l' where l': "l' \<in> set (db_loans db')" "l_id l' = li_loanId i" "l_status l' \<in> set LOAN_OUT_STATUSES"
        "li_receivedAt i = None" using i(2) unfolding outItem_def list_ex_iff by blast
      show ?thesis
      proof (cases "li_loanId i = l_id l")
        case True
        have "findAsset db (li_assetId i0) \<noteq> None" using d(7) i0(1) unfolding findAsset_member by blast
        then have mem: "i0 \<in> set (deliveryItems db (l_id l))"
          using i0(1,2) True by (simp add: deliveryItems_set)
        have "findAsset db1 (li_assetId i0) = map_option (changedAsset env (deliverChange env actorId l contact i0))
            (findAsset db (li_assetId i0))"
          by (rule delivering.recorded_find(1) [OF s(3) dist mem])
        then show ?thesis
          using \<open>findAsset db (li_assetId i0) \<noteq> None\<close> findAsset_cong [OF same(3), of "li_assetId i0"]
          by (auto simp: heldOut_def onLoan_find i0(3) changedAsset_status deliverChange_def)
      next
        case False
        have "l' \<in> set (db_loans db)" using row [OF l'(1)] l'(2) f(1) False by auto
        then have "outItem db i0" using l'(2-4) i0(2,4) unfolding outItem_def list_ex_iff by auto
        then have out: "outItem db i0" .
        have "li_assetId i0 \<notin> li_assetId ` set (deliveryItems db (l_id l))"
        proof
          assume "li_assetId i0 \<in> li_assetId ` set (deliveryItems db (l_id l))"
          then obtain j where j: "j \<in> set (db_loanItems db)" "li_loanId j = l_id l" "li_assetId j = li_assetId i0"
            by (auto simp: deliveryItems_set)
          have "li_receivedAt j = None" using fresh j(1,2) lockLoan_Inr [OF s(1)] by (simp add: itemsOfLoan_def)
          then have "openItem db j" using j(2) l open_l unfolding openItem_def list_ex_iff by metis
          then have "j = i0" by (rule same_open_item [OF inv j(1) i0(1) _ out_is_open [OF out] j(3)])
          then show False using False i0(2) j(2) by simp
        qed
        from delivering.recorded_heldOut [OF s(3) dist this d(10) [OF i0(1) out]] show ?thesis
          by (simp add: heldOut_cong [OF same(3,5)] i0(3))
      qed
    qed
  qed
  show "loansFollow db db'"
    unfolding same(1) by (rule advances_update_only [OF d(1) l f(1)]) (simp add: f(2) s(2))
  show "itemsKept (db_loanItems db) (db_loanItems db')" by (simp add: same(2) kept)
qed

context recordedMoves
begin

lemma settled_inv:
  assumes inv: "bookInv uuid db" and l: "l \<in> set (db_loans db)" "\<And>u. l_id (f u) = l_id u"
    and move: "canLoanTransition (l_status l) (l_status (f l))"
    and was: "l_status l \<in> set LOAN_OUT_STATUSES"
    and run: "foldM (recordOne env change target after) (db, []) items = Inr (db1, ids)" "distinct (map target items)"
    and own: "\<And>i. i \<in> set items \<Longrightarrow> \<exists>j\<in>set (db_loanItems db). li_loanId j = l_id l \<and> li_receivedAt j = None \<and>
      li_assetId j = target i"
    and tables: "db_loans db1 = db_loans db" "itemsFollow (db_loanItems db) (db_loanItems db1)"
    and gone: "\<And>j. j \<in> set (db_loanItems db1) \<Longrightarrow> li_loanId j = l_id l \<Longrightarrow> li_receivedAt j = None \<Longrightarrow>
      l_status (f l) \<in> set LOAN_OUT_STATUSES \<Longrightarrow> li_assetId j \<notin> target ` set items"
    and rest: "leavesLoans (updateLoan (l_id l) f db1) db'"
  shows "bookInv uuid db'" "loansFollow db db'"
proof -
  note d = bookInvD [OF inv]
  have same: "db_loans db' = update_where (\<lambda>u. l_id u = l_id l) f (db_loans db)" "db_loanItems db' = db_loanItems db1"
    "db_assets db' = db_assets db1" "db_seq db1 \<le> db_seq db'" "db_movements db' = db_movements db1"
    using rest by (simp_all add: leavesLoans_def updateLoan_def tables(1))
  have row: "l' = f l \<or> l' \<in> set (db_loans db) \<and> l_id l' \<noteq> l_id l" if "l' \<in> set (db_loans db')" for l'
    by (rule changed_row [OF that [unfolded same(1)] d(1) l(1)])
  have open_l: "l_status l \<in> set OPEN_LOAN_STATUSES"
    using was by (auto simp: LOAN_OUT_STATUSES_def OPEN_LOAN_STATUSES_def)
  show "bookInv uuid db'"
  proof (rule book_kept [OF inv])
    show "map l_id (db_loans db') = map l_id (db_loans db)" unfolding same(1) by (rule map_update_where) (rule l(2))
    show "\<exists>u\<in>set (db_loans db). l_id u = l_id l' \<and> l_status u \<in> set OPEN_LOAN_STATUSES"
      if "l' \<in> set (db_loans db')" "l_status l' \<in> set OPEN_LOAN_STATUSES" for l'
      using row [OF that(1)] that(2) l open_l by metis
    show "itemsFollow (db_loanItems db) (db_loanItems db')" by (simp add: same(2) tables(2))
    show "map a_id (db_assets db') = map a_id (db_assets db)" using recorded_assets [OF run(1)] by (simp add: same(3))
    show "db_seq db \<le> db_seq db'" using recorded_assets [OF run(1)] same(4) by simp
    show "heldOut db' (li_assetId i)" if i: "i \<in> set (db_loanItems db')" "outItem db' i" for i
    proof -
      obtain i0 where i0: "i0 \<in> set (db_loanItems db)" "li_loanId i = li_loanId i0" "li_assetId i = li_assetId i0"
        "li_receivedAt i = None \<longrightarrow> li_receivedAt i0 = None"
        using tables(2) i(1) [unfolded same(2)] by (metis itemsFollow_member)
      obtain l' where l': "l' \<in> set (db_loans db')" "l_id l' = li_loanId i" "l_status l' \<in> set LOAN_OUT_STATUSES"
        "li_receivedAt i = None" using i(2) unfolding outItem_def list_ex_iff by blast
      have before: "outItem db i0"
        using row [OF l'(1)] l' l i0(2,4) was unfolding outItem_def list_ex_iff by metis
      have "li_assetId i0 \<notin> target ` set items"
      proof (cases "li_loanId i = l_id l")
        case True
        then have "l' = f l" using row [OF l'(1)] l'(2) by auto
        then show ?thesis using gone [OF i(1) [unfolded same(2)] True l'(4)] l'(3) i0(3) by simp
      next
        case False
        show ?thesis
        proof
          assume "li_assetId i0 \<in> target ` set items"
          then obtain j where j: "j \<in> set (db_loanItems db)" "li_loanId j = l_id l" "li_receivedAt j = None"
            "li_assetId j = li_assetId i0" using own by force
          have "openItem db j" using j(2,3) l(1) open_l unfolding openItem_def list_ex_iff by metis
          then have "j = i0" by (rule same_open_item [OF inv j(1) i0(1) _ out_is_open [OF before] j(4)])
          then show False using False i0(2) j(2) by simp
        qed
      qed
      from recorded_heldOut [OF run this d(10) [OF i0(1) before]] show ?thesis
        by (simp add: heldOut_cong [OF same(3,5)] i0(3))
    qed
  qed
  show "loansFollow db db'"
    unfolding same(1) by (rule advances_update_only [OF d(1) l]) (rule move)
qed

end

section \<open>The annulment of a delivery and the reception\<close>

text \<open>The runs of the long operations are taken apart one call at a time.\<close>

lemma rbind_InrE: "rbind m f = Inr y \<Longrightarrow> (\<And>x. m = Inr x \<Longrightarrow> f x = Inr y \<Longrightarrow> P) \<Longrightarrow> P"
  by (auto simp: rbind_eq_Inr)

lemma guard_InrE: "(if b then Inl c else m) = Inr y \<Longrightarrow> (\<not> b \<Longrightarrow> m = Inr y \<Longrightarrow> P) \<Longrightarrow> P"
  by (cases b) auto

lemma prod_InrE: "(case p of (a, b) \<Rightarrow> f a b) = Inr y \<Longrightarrow> (\<And>a b. p = (a, b) \<Longrightarrow> f a b = Inr y \<Longrightarrow> P) \<Longrightarrow> P"
  by (cases p) auto

lemma undoDelivery_Inr:
  assumes "undoDelivery access env k reason actorId db = Inr db'"
  obtains l cancelled voided db1 db2 movementIds where "l \<in> set (db_loans db)" "l_id l = k"
    "l_status l = LPendingSignatures"
    "voidForEntity env LOAN_DOCUMENT_ENTITY k (trim reason) (Some actorId) db = Inr (cancelled, voided, db1)"
    "sameCustody db db1"
    "foldM (recordOne env (undoChange env actorId l (trim reason) voided) li_assetId (\<lambda>_ d. d)) (db1, [])
       (sort_key li_assetId (itemsOfLoan db k)) = Inr (db2, movementIds)"
    "leavesLoans (updateLoan k (\<lambda>x. x\<lparr>l_status := LCancelled, l_updatedAt := e_now env\<rparr>) db2) db'"
proof -
  obtain cancelled voided db1 l db2 movementIds where s: "lockLoan db1 k = Inr l" "l_status l = LPendingSignatures"
    "voidForEntity env LOAN_DOCUMENT_ENTITY k (trim reason) (Some actorId) db = Inr (cancelled, voided, db1)"
    "foldM (recordOne env (undoChange env actorId l (trim reason) voided) li_assetId (\<lambda>_ d. d)) (db1, [])
       (sort_key li_assetId (itemsOfLoan db1 k)) = Inr (db2, movementIds)"
    "leavesLoans (updateLoan (l_id l) (\<lambda>x. x\<lparr>l_status := LCancelled, l_updatedAt := e_now env\<rparr>) db2) db'"
    using assms unfolding undoDelivery_def Let_def recordAll_def
    by (elim rbind_InrE prod_InrE guard_InrE) (simp, metis recorded_leaves)
  have same: "sameCustody db db1" by (rule voidForEntity_custody [OF s(3)])
  have tables: "db_loans db1 = db_loans db" "db_loanItems db1 = db_loanItems db" using same by (simp_all add: sameCustody_def)
  then have items: "itemsOfLoan db1 k = itemsOfLoan db k" by (simp add: itemsOfLoan_def)
  have l: "l \<in> set (db_loans db)" "l_id l = k" using lockLoan_Inr [OF s(1)] by (simp_all add: tables)
  show thesis by (rule that [OF l s(2,3) same s(4) [unfolded items] s(5) [unfolded l(2)]])
qed

end
