(* ===== verification/LoanSteps.thy ===== *)
theory LoanSteps
  imports LoanCustody Transfers WriteOffs Handovers
begin

text \<open>
  The receptions of src/src/modules/loans/services/loans.service.ts, the states its operations reach and the
  properties of loans. What every operation keeps of the book of loans is proved in LoanCustody; here
  the book is completed with what was received back, the operations of other modules that change assets are
  steps beside those of loans, and the functional result of the delivery, of its
  annulment and of the reception is stated on the assets themselves.
\<close>

section \<open>The reception\<close>

lemma askedAct_leaves:
  assumes "(case asked of None \<Rightarrow> Inr (none, db) | Some s \<Rightarrow> rbind (f s) (\<lambda>payload.
    rbind (enqueueAct env payload by' db) (\<lambda>(k, db3). Inr (g k, db3)))) = Inr (act, db')"
  shows "leavesLoans db db'"
  using assms by (cases asked) (auto simp: rbind_eq_Inr intro: sameCustody_leaves [OF enqueueAct_Inr(4)])

lemma receiveReturn_Inr:
  assumes "receiveReturn env k givenSigners actorId db = Inr db'"
  obtains l db1 movementIds status lastReturn where "l \<in> set (db_loans db)" "l_id l = k" "l_status l = LPendingReception"
    "filter awaitsReception (itemsOfLoan db k) \<noteq> []"
    "foldM (recordOne env (receiveChange env actorId l) li_assetId (markReceived env)) (db, [])
       (filter awaitsReception (itemsOfLoan db k)) = Inr (db1, movementIds)"
    "status = statusAfterReception (map (\<lambda>i. (li_receivedAt i \<noteq> None \<or> awaitsReception i,
       li_returnCondition i = Some ReturnLost)) (itemsOfLoan db k))" "canLoanTransition (l_status l) status"
    "leavesLoans (updateLoan k (\<lambda>x. x\<lparr>l_status := status, l_actualReturnDate := Some lastReturn,
       l_receivedBackBy := Some actorId, l_updatedAt := e_now env\<rparr>) db1) db'"
proof -
  define status where "status = statusAfterReception (map (\<lambda>i. (li_receivedAt i \<noteq> None \<or> awaitsReception i,
       li_returnCondition i = Some ReturnLost)) (itemsOfLoan db k))"
  show thesis
    using assms unfolding receiveReturn_def Let_def recordAll_def status_def [symmetric]
  proof (elim rbind_InrE prod_InrE guard_InrE, goal_cases)
    case (1 f l u signers x db1 movementIds v xf returnAct db3)
    have l: "l \<in> set (db_loans db)" "l_id l = k" using lockLoan_Inr [OF 1(2)] by simp_all
    have "leavesLoans (updateLoan k (\<lambda>x. x\<lparr>l_status := status, l_actualReturnDate := Some (or_keep
        (latestReturn env (l_actualReturnDate l) (filter awaitsReception (itemsOfLoan db k))) (e_now env)),
        l_receivedBackBy := Some actorId, l_updatedAt := e_now env\<rparr>) db1) db'"
      using leavesLoans_trans [OF askedAct_leaves [OF 1(10) [unfolded 1(11)]] recorded_leaves] 1(12) l(2) by auto
    moreover have "canLoanTransition (l_status l) status" using 1(9) by (simp only: assertLoanTransition_Inr)
    moreover have "l_status l = LPendingReception" using 1(4) by blast
    ultimately show thesis using that [OF l _ 1(8) 1(6) [unfolded 1(7)] status_def] by blast
  qed
qed

lemma itemsOfLoan_set: "i \<in> set (itemsOfLoan db k) \<longleftrightarrow> i \<in> set (db_loanItems db) \<and> li_loanId i = k"
  by (auto simp: itemsOfLoan_def)

section \<open>What was received back\<close>

text \<open>Assets are received back from loans that were handed in; the annulment of a delivery relies on it.\<close>

definition RETURNING_STATUSES :: "loanStatus list" where
  "RETURNING_STATUSES = [LPendingReception, LReturned, LPartiallyReturned, LClosedWithLosses]"

definition receivedInv :: "db \<Rightarrow> bool" where
  "receivedInv db \<longleftrightarrow> (\<forall>i\<in>set (db_loanItems db). li_receivedAt i \<noteq> None \<longrightarrow>
     (\<exists>l\<in>set (db_loans db). l_id l = li_loanId i \<and> l_status l \<in> set RETURNING_STATUSES))"

lemma transition_returning:
  "canLoanTransition s t \<Longrightarrow> s \<in> set RETURNING_STATUSES \<Longrightarrow> t \<in> set RETURNING_STATUSES"
  by (cases s) (auto simp: canLoanTransition_def RETURNING_STATUSES_def)

lemma received_kept:
  assumes "receivedInv db" "loansFollow db db'" "itemsKept (db_loanItems db) (db_loanItems db')"
  shows "receivedInv db'"
  unfolding receivedInv_def
proof (intro ballI impI)
  fix i'
  assume "i' \<in> set (db_loanItems db')" "li_receivedAt i' \<noteq> None"
  then obtain i where i: "i \<in> set (db_loanItems db)" "li_loanId i = li_loanId i'" "li_receivedAt i \<noteq> None"
    using assms(3) unfolding itemsKept_def by blast
  then obtain l where l: "l \<in> set (db_loans db)" "l_id l = li_loanId i'" "l_status l \<in> set RETURNING_STATUSES"
    using assms(1) unfolding receivedInv_def by metis
  then obtain l' where "l' \<in> set (db_loans db')" "l_id l' = l_id l"
    "l_status l' = l_status l \<or> canLoanTransition (l_status l) (l_status l')"
    using assms(2) unfolding advances_def by blast
  then show "\<exists>l\<in>set (db_loans db'). l_id l = li_loanId i' \<and> l_status l \<in> set RETURNING_STATUSES"
    using l(2,3) transition_returning by metis
qed

lemma unreceived_items:
  assumes "receivedInv db" "distinct (map l_id (db_loans db))" "l \<in> set (db_loans db)" "l_status l \<notin> set RETURNING_STATUSES"
  shows "\<forall>i\<in>set (itemsOfLoan db (l_id l)). li_receivedAt i = None"
proof (rule ballI, rule ccontr)
  fix i
  assume i: "i \<in> set (itemsOfLoan db (l_id l))" "li_receivedAt i \<noteq> None"
  then obtain u where u: "u \<in> set (db_loans db)" "l_id u = l_id l" "l_status u \<in> set RETURNING_STATUSES"
    using assms(1) unfolding receivedInv_def itemsOfLoan_set by force
  have "u = l" by (rule only_row [OF assms(2,3) u(1,2)])
  then show False using u(3) assms(4) by simp
qed

lemma undoDelivery_inv:
  assumes run: "undoDelivery access env k reason actorId db = Inr db'" and inv: "bookInv uuid db"
    and received: "receivedInv db"
  shows "bookInv uuid db'" "loansFollow db db'" "itemsKept (db_loanItems db) (db_loanItems db')"
proof -
  obtain l cancelled voided db1 db2 ids where s: "l \<in> set (db_loans db)" "l_id l = k"
    "l_status l = LPendingSignatures"
    "voidForEntity env LOAN_DOCUMENT_ENTITY k (trim reason) (Some actorId) db = Inr (cancelled, voided, db1)"
    "sameCustody db db1"
    "foldM (recordOne env (undoChange env actorId l (trim reason) voided) li_assetId (\<lambda>_ d. d)) (db1, [])
       (sort_key li_assetId (itemsOfLoan db k)) = Inr (db2, ids)"
    "leavesLoans (updateLoan k (\<lambda>x. x\<lparr>l_status := LCancelled, l_updatedAt := e_now env\<rparr>) db2) db'"
    using run by (rule undoDelivery_Inr)
  have fresh: "\<forall>i\<in>set (itemsOfLoan db k). li_receivedAt i = None"
    using unreceived_items [OF received bookInvD(1) [OF inv] s(1)] by (simp add: s(2,3) RETURNING_STATUSES_def)
  have leaves: "leavesLoans db db1" using s(5) by (rule sameCustody_leaves)
  have same: "db_loans db1 = db_loans db" "db_loanItems db1 = db_loanItems db" using leaves by (simp_all add: leavesLoans_def)
  have effect: "loanEffect db db1" by (rule loanEffect_none [OF s(1) leaves])
  note inv1 = loanEffect_inv(1) [OF effect inv]
  have d: "distinct (map li_assetId (sort_key li_assetId (itemsOfLoan db k)))"
    using bookInvD(8) [OF inv, of k] by (simp add: distinct_map)
  have tables: "db_loans db2 = db_loans db1" "itemsFollow (db_loanItems db1) (db_loanItems db2)"
    using undoing_tables [OF s(6)] by simp_all
  have own: "\<exists>j\<in>set (db_loanItems db1). li_loanId j = l_id l \<and> li_receivedAt j = None \<and> li_assetId j = li_assetId i"
    if "i \<in> set (sort_key li_assetId (itemsOfLoan db k))" for i
    using that fresh s(2) by (auto simp: itemsOfLoan_set same)
  have settled: "bookInv uuid db'" "loansFollow db1 db'"
    by (rule undoing.settled_inv [OF inv1 s(1) [folded same(1)] _ _ _ s(6) d own tables _ s(7) [folded s(2)]];
      simp add: s(3) LOAN_OUT_STATUSES_def canLoanTransition_def)+
  show "bookInv uuid db'" "loansFollow db db'" using settled by (simp_all add: same)
  show "itemsKept (db_loanItems db) (db_loanItems db')"
    using s(7) undoing_tables [OF s(6)] by (simp add: leavesLoans_def updateLoan_def same)
qed

lemma receiving_marks:
  assumes "foldM (recordOne env (receiveChange env actorId l) li_assetId (markReceived env)) (db, ids) items = Inr (db', ids')"
  shows "db_loanItems db' = map (\<lambda>j. if li_id j \<in> li_id ` set items then j\<lparr>li_receivedAt := Some (e_now env)\<rparr> else j)
    (db_loanItems db)"
proof (rule receiving.recorded_prefix [OF assms])
  fix past :: "loanItem list" and i d a d2
  assume p: "db_loanItems d = map (\<lambda>j. if li_id j \<in> li_id ` set past then j\<lparr>li_receivedAt := Some (e_now env)\<rparr> else j)
      (db_loanItems db)"
    and run: "c_alsoWrite (receiveChange env actorId l i) (writeChange env (receiveChange env actorId l i) a d) a = Inr d2"
  have "d2 = writeChange env (receiveChange env actorId l i) a d" using run by (simp add: receiveChange_def noWrite_def)
  then show "db_loanItems (markReceived env i (auditOf (receiveChange env actorId l i) a d2)) =
      map (\<lambda>j. if li_id j \<in> li_id ` set (past @ [i]) then j\<lparr>li_receivedAt := Some (e_now env)\<rparr> else j) (db_loanItems db)"
    by (auto simp: markReceived_def updateLoanItem_def p update_where_def)
qed simp

lemma receiveReturn_inv:
  assumes run: "receiveReturn env k givenSigners actorId db = Inr db'" and inv: "bookInv uuid db" and received: "receivedInv db"
  shows "bookInv uuid db'" "loansFollow db db'" "receivedInv db'"
proof -
  obtain l db1 ids status lastReturn where s: "l \<in> set (db_loans db)" "l_id l = k" "l_status l = LPendingReception"
    "foldM (recordOne env (receiveChange env actorId l) li_assetId (markReceived env)) (db, [])
       (filter awaitsReception (itemsOfLoan db k)) = Inr (db1, ids)"
    "canLoanTransition (l_status l) status"
    "leavesLoans (updateLoan k (\<lambda>x. x\<lparr>l_status := status, l_actualReturnDate := Some lastReturn,
       l_receivedBackBy := Some actorId, l_updatedAt := e_now env\<rparr>) db1) db'"
    using run by (rule receiveReturn_Inr)
  note d = bookInvD [OF inv]
  have dist: "distinct (map li_assetId (filter awaitsReception (itemsOfLoan db k)))"
    by (rule distinct_map_filter [OF d(8)])
  have tables: "db_loans db1 = db_loans db" "itemsFollow (db_loanItems db) (db_loanItems db1)"
    "\<forall>j\<in>set (db_loanItems db1). li_receivedAt j = None \<longrightarrow>
       li_id j \<notin> li_id ` set (filter awaitsReception (itemsOfLoan db k))"
    using receiving_tables [OF s(4)] by simp_all
  have own: "\<exists>j\<in>set (db_loanItems db). li_loanId j = l_id l \<and> li_receivedAt j = None \<and> li_assetId j = li_assetId i"
    if "i \<in> set (filter awaitsReception (itemsOfLoan db k))" for i
    using that s(2) by (auto simp: itemsOfLoan_set awaitsReception_def)
  have gone: "li_assetId j \<notin> li_assetId ` set (filter awaitsReception (itemsOfLoan db k))"
    if j: "j \<in> set (db_loanItems db1)" "li_loanId j = l_id l" "li_receivedAt j = None" for j
  proof
    assume "li_assetId j \<in> li_assetId ` set (filter awaitsReception (itemsOfLoan db k))"
    then obtain i where i: "i \<in> set (filter awaitsReception (itemsOfLoan db k))" "li_assetId i = li_assetId j" by auto
    obtain j0 where j0: "j0 \<in> set (db_loanItems db)" "li_id j = li_id j0" "li_loanId j = li_loanId j0"
      "li_assetId j = li_assetId j0" using tables(2) j(1) by (metis itemsFollow_member)
    have "j0 = i"
      using d(8) [of k] i j0 j(2) s(2) by (auto simp: distinct_map itemsOfLoan_set dest: inj_onD)
    then show False using tables(3) j(1,3) j0(2) i(1) by auto
  qed
  show "bookInv uuid db'" "loansFollow db db'"
    by (rule receiving.settled_inv [OF inv s(1) _ _ _ s(4) dist own tables(1,2) gone s(6) [folded s(2)]];
      simp add: s(5) s(3) LOAN_OUT_STATUSES_def s(5) [unfolded s(3)])+
  show "receivedInv db'"
    unfolding receivedInv_def
  proof (intro ballI impI)
    fix i'
    assume i': "i' \<in> set (db_loanItems db')" "li_receivedAt i' \<noteq> None"
    have items: "db_loanItems db' = db_loanItems db1"
      "db_loans db' = update_where (\<lambda>u. l_id u = k) (\<lambda>x. x\<lparr>l_status := status, l_actualReturnDate := Some lastReturn,
       l_receivedBackBy := Some actorId, l_updatedAt := e_now env\<rparr>) (db_loans db)"
      using s(6) by (simp_all add: leavesLoans_def updateLoan_def tables(1))
    have closed: "status \<in> set RETURNING_STATUSES"
      by (rule transition_returning [OF s(5)]) (simp add: s(3) RETURNING_STATUSES_def)
    have "\<exists>l\<in>set (db_loans db). l_id l = li_loanId i' \<and> (l_id l = k \<or> l_status l \<in> set RETURNING_STATUSES)"
    proof (cases "li_loanId i' = k")
      case True
      then show ?thesis using s(1,2) by blast
    next
      case False
      obtain i where i: "i \<in> set (db_loanItems db)" "i' = (if li_id i \<in> li_id ` set (filter awaitsReception (itemsOfLoan db k))
          then i\<lparr>li_receivedAt := Some (e_now env)\<rparr> else i)"
        using i'(1) unfolding items receiving_marks [OF s(4)] by auto
      then have own: "li_loanId i = li_loanId i'" by simp
      have "li_id i \<notin> li_id ` set (filter awaitsReception (itemsOfLoan db k))"
      proof
        assume "li_id i \<in> li_id ` set (filter awaitsReception (itemsOfLoan db k))"
        then obtain x where "x \<in> set (db_loanItems db)" "li_loanId x = k" "li_id x = li_id i" by (auto simp: itemsOfLoan_set)
        then have "x = i" using d(3) i(1) by (auto simp: distinct_map dest: inj_onD)
        then show False using \<open>li_loanId x = k\<close> own False by simp
      qed
      then have "i = i'" using i(2) by simp
      then have "i \<in> set (db_loanItems db)" "li_loanId i = li_loanId i'" "li_receivedAt i \<noteq> None" using i(1) i'(2) by simp_all
      then show ?thesis using received unfolding receivedInv_def by metis
    qed
    then obtain l where l: "l \<in> set (db_loans db)" "l_id l = li_loanId i'" "l_id l = k \<or> l_status l \<in> set RETURNING_STATUSES"
      by blast
    let ?l = "if l_id l = k then l\<lparr>l_status := status, l_actualReturnDate := Some lastReturn,
       l_receivedBackBy := Some actorId, l_updatedAt := e_now env\<rparr> else l"
    have "?l \<in> set (db_loans db')" using l(1) unfolding items(2) in_update_where by blast
    moreover have "l_id ?l = li_loanId i' \<and> l_status ?l \<in> set RETURNING_STATUSES" using l(2,3) closed by auto
    ultimately show "\<exists>l\<in>set (db_loans db'). l_id l = li_loanId i' \<and> l_status l \<in> set RETURNING_STATUSES" by blast
  qed
qed

section \<open>Reachable loans\<close>

lemma create_kept:
  assumes run: "createLoanWithin env input actorId scope approved db = Inr (k, db')"
  shows "itemsKept (db_loanItems db) (db_loanItems db')"
proof -
  obtain assets source where "db_loanItems db' = db_loanItems db @
      map (\<lambda>(n, a). loanItemRow (e_uuid env n) k source a) (enumerate (Suc (db_seq db)) assets)"
    using run by (metis createLoanWithin_Inr)
  then show ?thesis unfolding itemsKept_def by (auto simp: loanItemRow_def)
qed

text \<open>
  The operations of other modules that write assets: those of assets.service.ts, the signed acts of transfers,
  write-offs and handovers and the approval of an inventory. No one of them but the last takes an asset off loan.
\<close>

lemma applied_keepsLent:
  assumes "applyWithin env c db = Inr (u, db')" "c_movement c \<noteq> None" "c_alsoWrite c = noWrite" "keepsOut c"
  shows "keepsLent db db'"
proof -
  have "itemMoves (\<lambda>_ :: unit. c) (\<lambda>_. c_assetId c)" by unfold_locales (use assms(2,3) in \<open>auto simp: noWrite_def\<close>)
  moreover have "applyOne env (\<lambda>_ :: unit. c) db () = Inr db'" using assms(1) by (auto simp: applyOne_Inr)
  moreover have "writesNoLoan c" using assms(3) by (simp add: writesNoLoan_def noWrite_def)
  ultimately show ?thesis using assms(4) itemMoves.one_keepsLent by metis
qed

lemma manual_keepsLent:
  "changeStatus env k s reason actorId db = Inr (u, db') \<Longrightarrow> keepsLent db db'"
  "writeOffAsset env k reason document day actorId db = Inr (u, db') \<Longrightarrow> keepsLent db db'"
  "reassignLocation env k place reasons actorId db = Inr (u, db') \<Longrightarrow> keepsLent db db'"
  unfolding changeStatus_def writeOffAsset_def reassignLocation_def
  by (auto simp: res_simps keepsOut_def noPatch_def split: if_splits elim!: applied_keepsLent)

lemma acts_keepOut:
  "writesNoLoan (transferChange event t authorizedBy k) \<and> keepsOut (transferChange event t authorizedBy k)"
  "writesNoLoan (writeOffChange env event w authorizedBy itemOf k) \<and> keepsOut (writeOffChange env event w authorizedBy itemOf k)"
  "writesNoLoan (handoverChange event h receiver authorizedBy k) \<and> keepsOut (handoverChange event h receiver authorizedBy k)"
  by (auto simp: writesNoLoan_def keepsOut_def transferChange_def writeOffChange_def handoverChange_def noPatch_def Let_def
      linkTransferMovement_def linkWriteOffMovement_def linkHandoverMovement_def split: if_splits option.splits)

lemma transferSigned_keepsLent:
  assumes "transferSigned env event db = Inr db'"
  shows "keepsLent db db'"
proof (cases "db' = db")
  case False
  obtain t authorizedBy db1 c where s: "applyAll env (transferChange event t authorizedBy) db (pendingAssets db (t_id t)) = Inr db1"
    "db' = auditTransfer ''TRANSFER_COMPLETED'' (t_id t) authorizedBy c
       (closeTransferItems (t_id t) (updateTransfer (t_id t)
         (\<lambda>x. x\<lparr>t_status := TCompleted, t_completedAt := Some (e_now env)\<rparr>) db1))"
    using assms False by (rule transferSigned_Inr)
  have "keepsLent db db1" by (rule assetMoves.all_keepsLent [OF transferMoves.assetMoves_axioms s(1) acts_keepOut(1)])
  moreover have "keepsLent db1 db'" unfolding s(2) by (rule keepsLent_same) (simp_all add: auditTransfer_def closeTransferItems_def updateTransfer_def)
  ultimately show ?thesis by (rule keepsLent_trans)
qed simp

lemma writeOffSigned_keepsLent:
  assumes "writeOffSigned env event db = Inr db'"
  shows "keepsLent db db'"
proof (cases "db' = db")
  case False
  obtain w authorizedBy db1 c where s:
    "applyAll env (writeOffChange env event w authorizedBy (itemOfAsset (pendingItems db (w_id w)))) db
       (map wi_assetId (pendingItems db (w_id w))) = Inr db1"
    "db' = auditWriteOff ''WRITE_OFF_COMPLETED'' (w_id w) authorizedBy c
       (closeWriteOffItems (w_id w) (updateWriteOff (w_id w)
         (\<lambda>x. x\<lparr>w_status := WCompleted, w_completedAt := Some (e_now env)\<rparr>) db1))"
    using assms False by (rule writeOffSigned_Inr)
  have "keepsLent db db1" by (rule assetMoves.all_keepsLent [OF writeOffMoving.assetMoves_axioms s(1) acts_keepOut(2)])
  moreover have "keepsLent db1 db'" unfolding s(2) by (rule keepsLent_same) (simp_all add: auditWriteOff_def closeWriteOffItems_def updateWriteOff_def)
  ultimately show ?thesis by (rule keepsLent_trans)
qed simp

lemma handoverSigned_keepsLent:
  assumes "handoverSigned env event db = Inr db'"
  shows "keepsLent db db'"
proof -
  obtain h receiver authorizedBy db1 where s:
    "applyAll env (handoverChange event h receiver authorizedBy) db (assetsOfHandover db (h_id h)) = Inr db1"
    "db' = updateHandover (h_id h) (\<lambda>x. x\<lparr>h_status := HSigned, h_assignedPersonId := Some receiver,
       h_closedAt := Some (e_now env)\<rparr>) db1"
    using assms by (rule handoverSigned_Inr)
  have "keepsLent db db1" by (rule assetMoves.all_keepsLent [OF handoverMoving.assetMoves_axioms s(1) acts_keepOut(3)])
  moreover have "keepsLent db1 db'" unfolding s(2) by (rule keepsLent_same) (simp_all add: updateHandover_def)
  ultimately show ?thesis by (rule keepsLent_trans)
qed

text \<open>
  Everything else of the program writes neither the tables of loans nor the status of an asset that exists, and
  records no movement of type LOAN: only the delivery of a loan records one.
\<close>

definition elsewhere :: "db \<Rightarrow> db \<Rightarrow> bool" where
  "elsewhere db db' \<longleftrightarrow> db_loans db' = db_loans db \<and> db_loanItems db' = db_loanItems db \<and>
     distinct (map a_id (db_assets db')) \<and> db_seq db \<le> db_seq db' \<and>
     (\<forall>a\<in>set (db_assets db). map_option a_operationalStatus (findAsset db' (a_id a)) =
        map_option a_operationalStatus (findAsset db (a_id a))) \<and>
     (\<exists>ms. db_movements db' = db_movements db @ ms \<and> list_all (\<lambda>m. m_movementType m \<noteq> Loan) ms)"

inductive loanStep :: "loanAccess \<Rightarrow> loanListeners \<Rightarrow> (nat \<Rightarrow> string) \<Rightarrow> db \<Rightarrow> db \<Rightarrow> bool" for access listeners uuid where
  LoanCreated: "e_uuid env = uuid \<Longrightarrow> createLoanWithin env input actorId scope approved db = Inr (k, db') \<Longrightarrow>
    loanStep access listeners uuid db db'"
| LoanApproved: "approveLoan access env k actorId db = Inr db' \<Longrightarrow> loanStep access listeners uuid db db'"
| LoanRejected: "rejectLoan access listeners env k reason actorId db = Inr db' \<Longrightarrow> loanStep access listeners uuid db db'"
| LoanCancelled: "cancelLoan access listeners env k reason actorId db = Inr db' \<Longrightarrow> loanStep access listeners uuid db db'"
| LoanDelivered: "deliverWithin listeners env k dto actorId role db = Inr db' \<Longrightarrow> loanStep access listeners uuid db db'"
| ActRegenerated: "regenerateDeliveryAct access env k act actorId db = Inr db' \<Longrightarrow> loanStep access listeners uuid db db'"
| DeliveryUndone: "undoDelivery access env k reason actorId db = Inr db' \<Longrightarrow> loanStep access listeners uuid db db'"
| ReturnStarted: "startReturn env k returned notes actorId db = Inr db' \<Longrightarrow> loanStep access listeners uuid db db'"
| ReturnReceived: "receiveReturn env k givenSigners actorId db = Inr db' \<Longrightarrow> loanStep access listeners uuid db db'"
| ExtensionRequested: "requestExtension env k date reason actorId db = Inr db' \<Longrightarrow> loanStep access listeners uuid db db'"
| ExtensionApproved: "approveExtension access env k actorId db = Inr db' \<Longrightarrow> loanStep access listeners uuid db db'"
| ExtensionRejected: "rejectExtension access env k reason actorId db = Inr db' \<Longrightarrow> loanStep access listeners uuid db db'"
| OverdueMarked: "markOverdue env db = (n, db') \<Longrightarrow> loanStep access listeners uuid db db'"
| ActIssued: "loanGenerated env event db = Inr db' \<Longrightarrow> loanStep access listeners uuid db db'"
| ActSigned: "loanSigned env event db = Inr db' \<Longrightarrow> loanStep access listeners uuid db db'"
| ActRejected: "loanRejected env event db = Inr db' \<Longrightarrow> loanStep access listeners uuid db db'"
| InventoryReconciled: "reconcileItems env inventory actorId db items = Inr db' \<Longrightarrow> loanStep access listeners uuid db db'"
| StatusChanged: "changeStatus env k s reason actorId db = Inr (u, db') \<Longrightarrow> loanStep access listeners uuid db db'"
| AssetWrittenOff: "writeOffAsset env k reason document day actorId db = Inr (u, db') \<Longrightarrow> loanStep access listeners uuid db db'"
| AssetRelocated: "reassignLocation env k place reasons actorId db = Inr (u, db') \<Longrightarrow> loanStep access listeners uuid db db'"
| TransferSigned: "transferSigned env event db = Inr db' \<Longrightarrow> loanStep access listeners uuid db db'"
| WriteOffSigned: "writeOffSigned env event db = Inr db' \<Longrightarrow> loanStep access listeners uuid db db'"
| HandoverSigned: "handoverSigned env event db = Inr db' \<Longrightarrow> loanStep access listeners uuid db db'"
| Elsewhere: "elsewhere db db' \<Longrightarrow> loanStep access listeners uuid db db'"

abbreviation loanReachable :: "loanAccess \<Rightarrow> loanListeners \<Rightarrow> (nat \<Rightarrow> string) \<Rightarrow> db \<Rightarrow> db \<Rightarrow> bool" where
  "loanReachable access listeners uuid \<equiv> (loanStep access listeners uuid)\<^sup>*\<^sup>*"

definition loanInv :: "(nat \<Rightarrow> string) \<Rightarrow> db \<Rightarrow> bool" where
  "loanInv uuid db \<longleftrightarrow> bookInv uuid db \<and> receivedInv db"

lemma loanInv_kept:
  assumes "loanInv uuid db" "bookInv uuid db'" "loansFollow db db'" "itemsKept (db_loanItems db) (db_loanItems db')"
  shows "loanInv uuid db' \<and> loansFollow db db'"
  using assms received_kept unfolding loanInv_def by blast

lemma loanEffect_kept: "loanInv uuid db \<Longrightarrow> loanEffect db db' \<Longrightarrow> loanInv uuid db' \<and> loansFollow db db'"
  by (rule loanInv_kept) (simp_all add: loanEffect_inv [of db db' uuid] loanInv_def)

lemma outside_keeps_book:
  assumes book: "bookInv uuid db" and tables: "db_loans db' = db_loans db" "db_loanItems db' = db_loanItems db"
    and assets: "distinct (map a_id (db_assets db'))" "a_id ` set (db_assets db) \<subseteq> a_id ` set (db_assets db')"
    and later: "db_seq db \<le> db_seq db'" and out: "\<And>i. i \<in> set (db_loanItems db) \<Longrightarrow> heldOut db (li_assetId i) \<Longrightarrow> heldOut db' (li_assetId i)"
  shows "bookInv uuid db'"
proof -
  note d = bookInvD [OF book]
  have same: "openItem db' = openItem db" "outItem db' = outItem db" "itemsOfLoan db' = itemsOfLoan db"
    by (simp_all add: fun_eq_iff openItem_def outItem_def itemsOfLoan_def tables)
  have grow: "uuid ` {..<db_seq db} \<subseteq> uuid ` {..<db_seq db'}" using later by auto
  show ?thesis
    unfolding bookInv_def same tables
    by (intro conjI allI ballI impI d assets(1) subset_trans [OF d(2) grow] subset_trans [OF d(4) grow]
        subset_trans [OF d(7) assets(2)] out) assumption+
qed

lemma loanInv_outside: "loanInv uuid db \<Longrightarrow> bookInv uuid db' \<Longrightarrow> db_loans db' = db_loans db \<Longrightarrow>
    db_loanItems db' = db_loanItems db \<Longrightarrow> loanInv uuid db' \<and> loansFollow db db'"
  using loanInv_kept [of uuid db db'] by (simp add: advances_refl)

lemma keepsLent_sound:
  assumes "keepsLent db db'" "loanInv uuid db"
  shows "loanInv uuid db' \<and> loansFollow db db'"
proof -
  have k: "db_loans db' = db_loans db" "db_loanItems db' = db_loanItems db" "map a_id (db_assets db') = map a_id (db_assets db)"
    "db_seq db \<le> db_seq db'" "heldOut db j \<Longrightarrow> heldOut db' j" for j
    using assms(1) by (simp_all add: keepsLent_def)
  have book: "bookInv uuid db" using assms(2) by (simp add: loanInv_def)
  have "a_id ` set (db_assets db') = a_id ` set (db_assets db)" using arg_cong [OF k(3), of set] by simp
  then have "bookInv uuid db'"
    by (intro outside_keeps_book [OF book k(1,2) _ _ k(4,5)]) (use bookInvD(6) [OF book] in \<open>simp_all add: k(3)\<close>)
  then show ?thesis using loanInv_outside [OF assms(2)] k(1,2) by blast
qed

lemma elsewhere_sound:
  assumes "elsewhere db db'" "loanInv uuid db"
  shows "loanInv uuid db' \<and> loansFollow db db'"
proof -
  have k: "db_loans db' = db_loans db" "db_loanItems db' = db_loanItems db" "distinct (map a_id (db_assets db'))"
    "db_seq db \<le> db_seq db'" "\<And>a. a \<in> set (db_assets db) \<Longrightarrow> map_option a_operationalStatus (findAsset db' (a_id a)) =
        map_option a_operationalStatus (findAsset db (a_id a))"
    using assms(1) by (simp_all add: elsewhere_def)
  obtain ms where ms: "db_movements db' = db_movements db @ ms" "list_all (\<lambda>m. m_movementType m \<noteq> Loan) ms"
    using assms(1) by (auto simp: elsewhere_def)
  have book: "bookInv uuid db" using assms(2) by (simp add: loanInv_def)
  have member: "findAsset db (a_id a) \<noteq> None" if "a \<in> set (db_assets db)" for a
    using that unfolding findAsset_member by blast
  have assets: "a_id ` set (db_assets db) \<subseteq> a_id ` set (db_assets db')"
    using k(5) member findAsset_member [of db'] by fastforce
  have held: "heldOut db' j" if "j \<in> a_id ` set (db_assets db)" "heldOut db j" for j
  proof -
    have "onLoan db' j = onLoan db j" using that(1) k(5) unfolding onLoan_def by force
    moreover have "list_all (\<lambda>m. m_assetId m = j \<longrightarrow> m_movementType m \<noteq> Loan) ms" using ms(2) by (simp add: list_all_iff)
    ultimately show ?thesis using heldOut_more [OF ms(1) _ _ that(2)] by blast
  qed
  have "bookInv uuid db'"
    by (rule outside_keeps_book [OF book k(1-3) assets k(4) held]) (use bookInvD(7) [OF book] in blast)
  then show ?thesis using loanInv_outside [OF assms(2)] k(1,2) by blast
qed

lemma delivery_fresh:
  assumes "deliverWithin listeners env k dto actorId role db = Inr db'" "quietListeners listeners" "loanInv uuid db"
  shows "\<forall>i\<in>set (itemsOfLoan db k). li_receivedAt i = None"
proof -
  obtain l where l: "lockLoan db k = Inr l" "canLoanTransition (l_status l) LPendingSignatures"
    using assms(1,2) by (rule deliverWithin_Inr)
  have "l_status l \<notin> set RETURNING_STATUSES"
    using transition_returning [OF l(2)] by (auto simp: RETURNING_STATUSES_def)
  then show ?thesis
    using unreceived_items assms(3) lockLoan_Inr [OF l(1)] bookInvD(1) unfolding loanInv_def by blast
qed

lemma loanStep_sound:
  assumes step: "loanStep access listeners uuid db db'" and inj: "inj uuid" and quiet: "quietListeners listeners"
    and inv: "loanInv uuid db"
  shows "loanInv uuid db' \<and> loansFollow db db'"
proof -
  have book: "bookInv uuid db" and received: "receivedInv db" using inv by (simp_all add: loanInv_def)
  note effect = loanEffect_kept [OF inv]
  show ?thesis
    using step
  proof (cases rule: loanStep.cases)
    case (LoanCreated env input actorId scope approved k)
    then show ?thesis
      using createLoanWithin_inv [OF LoanCreated(2)] create_kept [OF LoanCreated(2)] inj book loanInv_kept [OF inv] by blast
  next
    case (LoanDelivered env k dto actorId role)
    then show ?thesis using loanInv_kept [OF inv] deliverWithin_inv [OF LoanDelivered quiet book delivery_fresh [OF LoanDelivered quiet inv]] by blast
  next
    case (DeliveryUndone env k reason actorId)
    then show ?thesis using loanInv_kept [OF inv] undoDelivery_inv [OF _ book received] by blast
  next
    case (ReturnReceived env k givenSigners actorId)
    then show ?thesis using receiveReturn_inv [OF _ book received] by (simp add: loanInv_def)
  next
    case (OverdueMarked env n)
    then have "db_loanItems db' = db_loanItems db" by (auto simp: markOverdue_def)
    then show ?thesis using loanInv_kept [OF inv] markOverdue_inv [OF OverdueMarked book] by simp
  next
    case InventoryReconciled
    then show ?thesis by (rule keepsLent_sound [OF reconcileItems_keepsLent inv])
  next
    case StatusChanged
    then show ?thesis by (rule keepsLent_sound [OF manual_keepsLent(1) inv])
  next
    case AssetWrittenOff
    then show ?thesis by (rule keepsLent_sound [OF manual_keepsLent(2) inv])
  next
    case AssetRelocated
    then show ?thesis by (rule keepsLent_sound [OF manual_keepsLent(3) inv])
  next
    case TransferSigned
    then show ?thesis by (rule keepsLent_sound [OF transferSigned_keepsLent inv])
  next
    case WriteOffSigned
    then show ?thesis by (rule keepsLent_sound [OF writeOffSigned_keepsLent inv])
  next
    case HandoverSigned
    then show ?thesis by (rule keepsLent_sound [OF handoverSigned_keepsLent inv])
  next
    case Elsewhere
    then show ?thesis by (rule elsewhere_sound [OF _ inv])
  qed (use effect quiet in \<open>blast intro: approveLoan_effect rejectLoan_effect cancelLoan_effect regenerateDeliveryAct_effect
        startReturn_effect requestExtension_effect approveExtension_effect rejectExtension_effect loanCallbacks_effect\<close>)+
qed

lemma loanReachable_inv:
  assumes "loanReachable access listeners uuid db db'" "inj uuid" "quietListeners listeners" "loanInv uuid db"
  shows "loanInv uuid db'"
  using assms(1,4)
proof (induction rule: rtranclp_induct)
  case base
  then show ?case .
next
  case (step d d')
  then show ?case using loanStep_sound [OF step.hyps(2) assms(2,3)] by blast
qed

section \<open>Properties\<close>

text \<open>
  C8. Whatever operations of loans run, with quiet listeners, from an empty book, and between them manual
  changes of assets, signed transfers, write-offs and handovers, approved inventories and anything else that
  writes neither the tables of loans nor the status of an asset: an asset is in one open loan at most; every
  asset of a delivered loan that was not received back is on loan, unless an inventory reported it missing after
  it was last delivered (the approval sets LOST on assets that are out); an asset is received back only from a
  loan that was handed in; and each next operation moves every loan along the table of transitions or leaves
  its status.
\<close>

theorem loans_hold_their_assets:
  assumes "loanReachable access listeners uuid db0 db" "inj uuid" "quietListeners listeners"
    "db_loans db0 = []" "db_loanItems db0 = []" "distinct (map a_id (db_assets db0))"
  shows "distinct (map li_assetId (filter (openItem db) (db_loanItems db))) \<and>
    (\<forall>i\<in>set (db_loanItems db). outItem db i \<longrightarrow>
       (\<exists>a. findAsset db (li_assetId i) = Some a \<and> a_operationalStatus a = OnLoan) \<or>
       reportedMissing db (li_assetId i)) \<and>
    (\<forall>i\<in>set (db_loanItems db). li_receivedAt i \<noteq> None \<longrightarrow>
       (\<exists>l\<in>set (db_loans db). l_id l = li_loanId i \<and> l_status l \<in> set RETURNING_STATUSES)) \<and>
    (\<forall>db'. loanStep access listeners uuid db db' \<longrightarrow> (\<forall>l\<in>set (db_loans db). \<exists>l'\<in>set (db_loans db').
       l_id l' = l_id l \<and> (l_status l' = l_status l \<or> l_status l' \<in> set (loanTransitions (l_status l)))))"
proof (intro conjI allI impI)
  have "loanInv uuid db0"
    using assms(4-6) by (simp add: loanInv_def bookInv_def receivedInv_def itemsOfLoan_def)
  then have inv: "loanInv uuid db" by (rule loanReachable_inv [OF assms(1-3)])
  then have book: "bookInv uuid db" by (simp add: loanInv_def)
  show "distinct (map li_assetId (filter (openItem db) (db_loanItems db)))" by (rule bookInvD(9) [OF book])
  show "\<forall>i\<in>set (db_loanItems db). outItem db i \<longrightarrow>
       (\<exists>a. findAsset db (li_assetId i) = Some a \<and> a_operationalStatus a = OnLoan) \<or>
       reportedMissing db (li_assetId i)"
    using bookInvD(10) [OF book] by (simp add: heldOut_def onLoan_find)
  show "\<forall>i\<in>set (db_loanItems db). li_receivedAt i \<noteq> None \<longrightarrow>
       (\<exists>l\<in>set (db_loans db). l_id l = li_loanId i \<and> l_status l \<in> set RETURNING_STATUSES)"
    using inv by (simp add: loanInv_def receivedInv_def)
  show "\<forall>l\<in>set (db_loans db). \<exists>l'\<in>set (db_loans db').
       l_id l' = l_id l \<and> (l_status l' = l_status l \<or> l_status l' \<in> set (loanTransitions (l_status l)))"
    if "loanStep access listeners uuid db db'" for db'
    using loanStep_sound [OF that assms(2,3) inv] unfolding advances_def canLoanTransition_def by blast
qed

text \<open>The assets after a loop over the items of a loan and whatever closes the operation.\<close>

context recordedMoves
begin

lemma settled_assets:
  assumes run: "foldM (recordOne env change target after) (db, []) items = Inr (db1, ids)" "distinct (map target items)"
    and rest: "leavesLoans (updateLoan k f db1) db'" and env: "envOk env" "custodyInv env db"
  shows "custodyInv env db'" "i \<in> set items \<Longrightarrow> \<exists>a. findAsset db (target i) = Some a \<and> c_guard (change i) a = Inr () \<and>
      findAsset db' (target i) = Some (changedAsset env (change i) a)"
    "j \<notin> target ` set items \<Longrightarrow> findAsset db' j = findAsset db j"
    "\<exists>ms. db_movements db' = db_movements db @ ms \<and> map m_assetId ms = map target items \<and>
       map m_movementType ms = map (\<lambda>i. sp_type (the (c_movement (change i)))) items"
proof -
  have same: "db_assets db' = db_assets db1" "db_movements db' = db_movements db1" "db_seq db1 \<le> db_seq db'"
    using rest by (simp_all add: leavesLoans_def updateLoan_def)
  have find: "findAsset db' j = findAsset db1 j" for j by (rule findAsset_cong) (rule same(1))
  have "distinct (map fst ([] :: (string \<times> string) list) @ map target items)" using run(2) by simp
  note kept = recorded_custody [OF run(1) this env]
  show "custodyInv env db'" using kept by (intro custodyInv_cong [OF same]) blast
  show "\<exists>ms. db_movements db' = db_movements db @ ms \<and> map m_assetId ms = map target items \<and>
       map m_movementType ms = map (\<lambda>i. sp_type (the (c_movement (change i)))) items"
    using kept unfolding same(2) by blast
  show "\<exists>a. findAsset db (target i) = Some a \<and> c_guard (change i) a = Inr () \<and>
      findAsset db' (target i) = Some (changedAsset env (change i) a)" if "i \<in> set items"
    using recorded_guarded [OF run that] recorded_find(1) [OF run that] by (auto simp: find)
  show "findAsset db' j = findAsset db j" if "j \<notin> target ` set items"
    using recorded_find(2) [OF run that] by (simp add: find)
qed

end

lemma same_types: "map m_movementType ms = map (\<lambda>_. t) xs \<Longrightarrow> list_all (\<lambda>m. m_movementType m = t) ms"
  by (induction xs arbitrary: ms) auto

lemma deliverChange_asset:
  "changedAsset env (deliverChange env actorId l contact i) a =
     a\<lparr>a_operationalStatus := OnLoan, a_updatedAt := e_now env, a_updatedBy := Some actorId\<rparr>"
  by (simp add: changedAsset_def writtenPatch_def deliverChange_def verifiedPatch_def noPatch_def applyPatch_def or_keep_def)

text \<open>
  C9. The delivery of a loan lends exactly its assets: the loan was approved and its start date had come;
  each asset was in use or in storage in the cost center of the loan, is now on loan, and nothing else of
  it changes but its update stamp. No other asset changes, the ledger stays intact and gets one loan
  movement per asset, and the loan waits for the signatures of the act.
\<close>

theorem delivered_loan_lends_its_assets:
  assumes "deliverWithin listeners env k dto actorId role db = Inr db'" "lockLoan db k = Inr l"
    "quietListeners listeners" "bookInv uuid db" "envOk env" "custodyInv env db"
  shows "custodyInv env db' \<and> l_status l = LApproved \<and> deliveryItems db k \<noteq> [] \<and>
    (falsy (l_startDate l) \<or> the (l_startDate l) \<le> localeIsoDate (e_now env)) \<and>
    (\<forall>j. if j \<in> li_assetId ` set (deliveryItems db k)
       then (\<exists>a. findAsset db j = Some a \<and> a_operationalStatus a \<in> {InUse, InStorage} \<and>
            a_costCenterId a = l_sourceCostCenterId l \<and> findAsset db' j = Some (a\<lparr>a_operationalStatus := OnLoan,
              a_updatedAt := e_now env, a_updatedBy := Some actorId\<rparr>))
       else findAsset db' j = findAsset db j) \<and>
    (\<exists>ms. db_movements db' = db_movements db @ ms \<and> map m_assetId ms = map li_assetId (deliveryItems db k) \<and>
       list_all (\<lambda>m. m_movementType m = Loan) ms) \<and>
    db_loans db' = update_where (\<lambda>u. l_id u = k) (\<lambda>x. x\<lparr>l_status := LPendingSignatures,
       l_deliveredAt := Some (e_now env), l_deliveredBy := Some actorId, l_updatedAt := e_now env\<rparr>) (db_loans db)"
proof -
  let ?items = "deliveryItems db k"
  obtain contact ids db1 where s: "canLoanTransition (l_status l) LPendingSignatures"
    "falsy (l_startDate l) \<or> the (l_startDate l) \<le> localeIsoDate (e_now env)" "?items \<noteq> []"
    "foldM (recordOne env (deliverChange env actorId l contact) li_assetId (\<lambda>_ d. d)) (db, []) ?items = Inr (db1, ids)"
    "leavesLoans (updateLoan k (\<lambda>x. x\<lparr>l_status := LPendingSignatures, l_deliveredAt := Some (e_now env),
       l_deliveredBy := Some actorId, l_updatedAt := e_now env\<rparr>) db1) db'"
  proof (rule deliverWithin_Inr [OF assms(1,3)])
    fix l2 contact ids db1
    assume "lockLoan db k = Inr l2" and r: "canLoanTransition (l_status l2) LPendingSignatures"
      "falsy (l_startDate l2) \<or> the (l_startDate l2) \<le> localeIsoDate (e_now env)" "deliveryItems db (l_id l2) \<noteq> []"
      "foldM (recordOne env (deliverChange env actorId l2 contact) li_assetId (\<lambda>_ d. d)) (db, [])
        (deliveryItems db (l_id l2)) = Inr (db1, ids)"
      "leavesLoans (updateLoan (l_id l2) (\<lambda>x. x\<lparr>l_status := LPendingSignatures, l_deliveredAt := Some (e_now env),
         l_deliveredBy := Some actorId, l_updatedAt := e_now env\<rparr>) db1) db'"
    then have "l2 = l" "l_id l2 = k" using assms(2) lockLoan_Inr by auto
    then show thesis using that r by simp
  qed
  have dist: "distinct (map li_assetId ?items)" by (rule deliveryItems_distinct [OF bookInvD(8) [OF assms(4)]])
  note kept = delivering.settled_assets [OF s(4) dist s(5) assms(5,6)]
  have lent: "\<exists>a. findAsset db (li_assetId i) = Some a \<and> a_operationalStatus a \<in> {InUse, InStorage} \<and>
      a_costCenterId a = l_sourceCostCenterId l \<and> findAsset db' (li_assetId i) = Some (a\<lparr>a_operationalStatus := OnLoan,
        a_updatedAt := e_now env, a_updatedBy := Some actorId\<rparr>)" if "i \<in> set ?items" for i
    using kept(2) [OF that]
    by (auto simp: deliverChange_asset) (auto simp: deliverChange_def assertStillLoanable_def LOANABLE_def split: if_splits)
  have approved: "l_status l = LApproved" using s(1) by (cases "l_status l") (simp_all add: canLoanTransition_def)
  have each: "\<forall>j. if j \<in> li_assetId ` set ?items
       then (\<exists>a. findAsset db j = Some a \<and> a_operationalStatus a \<in> {InUse, InStorage} \<and>
            a_costCenterId a = l_sourceCostCenterId l \<and> findAsset db' j = Some (a\<lparr>a_operationalStatus := OnLoan,
              a_updatedAt := e_now env, a_updatedBy := Some actorId\<rparr>))
       else findAsset db' j = findAsset db j"
    using lent kept(3) by auto
  obtain ms where ms: "db_movements db' = db_movements db @ ms" "map m_assetId ms = map li_assetId ?items"
    "map m_movementType ms = map (\<lambda>i. Loan) ?items" using kept(4) by (auto simp: deliverChange_def)
  have row: "db_loans db' = update_where (\<lambda>u. l_id u = k) (\<lambda>x. x\<lparr>l_status := LPendingSignatures,
       l_deliveredAt := Some (e_now env), l_deliveredBy := Some actorId, l_updatedAt := e_now env\<rparr>) (db_loans db)"
    using s(5) delivering_tables [OF s(4)] by (simp add: leavesLoans_def updateLoan_def)
  show ?thesis
    by (intro conjI exI [of _ ms] kept(1) approved s(2,3) each ms(1,2) row same_types [OF ms(3)])
qed

lemma receiveChange_asset:
  "a_operationalStatus (changedAsset env (receiveChange env actorId l i) a) =
     (if li_returnCondition i = Some ReturnLost then Lost else or_keep (li_statusOnLoan i) InUse)"
  "a_physicalCondition (changedAsset env (receiveChange env actorId l i) a) =
     (if li_returnCondition i = Some ReturnDamaged then Some Fair else a_physicalCondition a)"
  "a_costCenterId (changedAsset env (receiveChange env actorId l i) a) = a_costCenterId a"
  "a_responsibleId (changedAsset env (receiveChange env actorId l i) a) = a_responsibleId a"
  by (simp_all add: changedAsset_def receiveChange_def returnedPatch_def Let_def noPatch_def applyPatch_def or_keep_def)

text \<open>
  C10. The reception of a return gives back exactly the assets handed in and not yet received: each was on
  loan and is lost when it was returned as lost, and has the status it was lent with otherwise; an asset
  returned as damaged is in fair condition; its cost center and responsible stay. No other asset changes,
  the ledger stays intact and gets one return movement per asset, those items and no others are marked as
  received, and the loan is partially returned while an item is out, closed with losses when one was lost
  and returned otherwise.
\<close>

theorem received_loan_returns_its_assets:
  assumes "receiveReturn env k givenSigners actorId db = Inr db'" "bookInv uuid db" "envOk env" "custodyInv env db"
  shows "custodyInv env db' \<and> filter awaitsReception (itemsOfLoan db k) \<noteq> [] \<and>
    (\<forall>i\<in>set (filter awaitsReception (itemsOfLoan db k)). \<exists>a a'. findAsset db (li_assetId i) = Some a \<and>
       a_operationalStatus a = OnLoan \<and> findAsset db' (li_assetId i) = Some a' \<and>
       a_operationalStatus a' = (if li_returnCondition i = Some ReturnLost then Lost else or_keep (li_statusOnLoan i) InUse) \<and>
       a_physicalCondition a' = (if li_returnCondition i = Some ReturnDamaged then Some Fair else a_physicalCondition a) \<and>
       a_costCenterId a' = a_costCenterId a \<and> a_responsibleId a' = a_responsibleId a) \<and>
    (\<forall>j. j \<notin> li_assetId ` set (filter awaitsReception (itemsOfLoan db k)) \<longrightarrow> findAsset db' j = findAsset db j) \<and>
    (\<exists>ms. db_movements db' = db_movements db @ ms \<and> list_all (\<lambda>m. m_movementType m = Return) ms \<and>
       map m_assetId ms = map li_assetId (filter awaitsReception (itemsOfLoan db k))) \<and>
    db_loanItems db' = map (\<lambda>j. if li_id j \<in> li_id ` set (filter awaitsReception (itemsOfLoan db k))
       then j\<lparr>li_receivedAt := Some (e_now env)\<rparr> else j) (db_loanItems db) \<and>
    (\<exists>l\<in>set (db_loans db). l_id l = k \<and> l_status l = LPendingReception \<and> (\<exists>l'\<in>set (db_loans db'). l_id l' = k \<and>
       l_status l' = (if list_ex (\<lambda>i. li_receivedAt i = None \<and> li_returnCondition i = None) (itemsOfLoan db k)
         then LPartiallyReturned
         else if list_ex (\<lambda>i. li_returnCondition i = Some ReturnLost) (itemsOfLoan db k) then LClosedWithLosses
         else LReturned)))"
proof -
  let ?items = "filter awaitsReception (itemsOfLoan db k)"
  obtain l db1 ids status lastReturn where s: "l \<in> set (db_loans db)" "l_id l = k" "l_status l = LPendingReception"
    "?items \<noteq> []"
    "foldM (recordOne env (receiveChange env actorId l) li_assetId (markReceived env)) (db, []) ?items = Inr (db1, ids)"
    "status = statusAfterReception (map (\<lambda>i. (li_receivedAt i \<noteq> None \<or> awaitsReception i,
       li_returnCondition i = Some ReturnLost)) (itemsOfLoan db k))"
    "leavesLoans (updateLoan k (\<lambda>x. x\<lparr>l_status := status, l_actualReturnDate := Some lastReturn,
       l_receivedBackBy := Some actorId, l_updatedAt := e_now env\<rparr>) db1) db'"
    using assms(1) by (rule receiveReturn_Inr)
  have dist: "distinct (map li_assetId ?items)" by (rule distinct_map_filter [OF bookInvD(8) [OF assms(2)]])
  note kept = receiving.settled_assets [OF s(5) dist s(7) assms(3,4)]
  have returned: "\<exists>a a'. findAsset db (li_assetId i) = Some a \<and>
       a_operationalStatus a = OnLoan \<and> findAsset db' (li_assetId i) = Some a' \<and>
       a_operationalStatus a' = (if li_returnCondition i = Some ReturnLost then Lost else or_keep (li_statusOnLoan i) InUse) \<and>
       a_physicalCondition a' = (if li_returnCondition i = Some ReturnDamaged then Some Fair else a_physicalCondition a) \<and>
       a_costCenterId a' = a_costCenterId a \<and> a_responsibleId a' = a_responsibleId a" if i: "i \<in> set ?items" for i
  proof -
    obtain a where a: "findAsset db (li_assetId i) = Some a" "c_guard (receiveChange env actorId l i) a = Inr ()"
      "findAsset db' (li_assetId i) = Some (changedAsset env (receiveChange env actorId l i) a)"
      using kept(2) [OF i] by blast
    have "a_operationalStatus a = OnLoan" using a(2) by (simp add: receiveChange_def assertOnLoan_def split: if_splits)
    with a(1,3) receiveChange_asset [of env actorId l i a] show ?thesis by blast
  qed
  obtain ms where ms: "db_movements db' = db_movements db @ ms" "map m_assetId ms = map li_assetId ?items"
    "map m_movementType ms = map (\<lambda>i. Return) ?items" using kept(4) by (auto simp: receiveChange_def)
  have tables: "db_loanItems db' = db_loanItems db1" "db_loans db' = update_where (\<lambda>u. l_id u = k)
      (\<lambda>x. x\<lparr>l_status := status, l_actualReturnDate := Some lastReturn, l_receivedBackBy := Some actorId,
        l_updatedAt := e_now env\<rparr>) (db_loans db)"
    using s(7) receiving_tables [OF s(5)] by (simp_all add: leavesLoans_def updateLoan_def)
  have "l\<lparr>l_status := status, l_actualReturnDate := Some lastReturn, l_receivedBackBy := Some actorId,
        l_updatedAt := e_now env\<rparr> \<in> set (db_loans db')"
    unfolding tables(2) in_update_where using s(1,2) by (intro bexI [of _ l]) simp_all
  moreover have "status = (if list_ex (\<lambda>i. li_receivedAt i = None \<and> li_returnCondition i = None) (itemsOfLoan db k)
         then LPartiallyReturned
         else if list_ex (\<lambda>i. li_returnCondition i = Some ReturnLost) (itemsOfLoan db k) then LClosedWithLosses
         else LReturned)"
    unfolding s(6) statusAfterReception_def by (auto simp: list_ex_iff awaitsReception_def)
  ultimately have row: "\<exists>l'\<in>set (db_loans db'). l_id l' = k \<and>
      l_status l' = (if list_ex (\<lambda>i. li_receivedAt i = None \<and> li_returnCondition i = None) (itemsOfLoan db k)
         then LPartiallyReturned
         else if list_ex (\<lambda>i. li_returnCondition i = Some ReturnLost) (itemsOfLoan db k) then LClosedWithLosses
         else LReturned)"
    using s(2) by (intro bexI) auto
  have items: "db_loanItems db' = map (\<lambda>j. if li_id j \<in> li_id ` set ?items
       then j\<lparr>li_receivedAt := Some (e_now env)\<rparr> else j) (db_loanItems db)"
    unfolding tables(1) by (rule receiving_marks [OF s(5)])
  show ?thesis
    by (intro conjI exI [of _ ms] ballI allI impI bexI [OF _ s(1)] kept(1) s(2-4) returned kept(3) ms(1,2)
        same_types [OF ms(3)] items row)
qed

text \<open>
  C16. The four decisions on a loan or its extension are taken by someone who may decide on the cost center
  that lends and did not ask for the loan.
\<close>

theorem loan_decisions_are_separated:
  assumes "approveLoan access env k actorId db = Inr db' \<or> rejectLoan access listeners env k reason actorId db = Inr db' \<or>
    approveExtension access env k actorId db = Inr db' \<or> rejectExtension access env k reason actorId db = Inr db'"
  shows "\<exists>l\<in>set (db_loans db). l_id l = k \<and> l_requestedBy l \<noteq> actorId \<and>
    (case la_scope access actorId LOAN_APPROVE_GLOBAL LOAN_APPROVE_SCOPED of
       Global \<Rightarrow> True | CostCenters ids \<Rightarrow> l_sourceCostCenterId l \<in> set ids | _ \<Rightarrow> False)"
proof -
  obtain l where "lockForDecision access k actorId db = Inr l"
    using assms unfolding approveLoan_def rejectLoan_def approveExtension_def rejectExtension_def
    by (elim disjE; elim rbind_InrE) blast+
  then obtain scope where "l \<in> set (db_loans db)" "l_id l = k" "l_requestedBy l \<noteq> actorId"
    "la_scope access actorId LOAN_APPROVE_GLOBAL LOAN_APPROVE_SCOPED = scope"
    "scope = Global \<or> (\<exists>ids. scope = CostCenters ids \<and> l_sourceCostCenterId l \<in> set ids)"
    by (rule lockForDecision_Inr)
  then show ?thesis by (intro bexI [of _ l]) auto
qed

text \<open>
  The job that marks overdue loans marks exactly the active loans past their date and is idempotent:
  run again on the same day it changes nothing. The approval of an extension moves the due date of the loan
  to the date that was asked for, clears the request, and leaves an overdue loan active when the new
  date has not passed.
\<close>

theorem due_dates_are_kept:
  assumes "distinct (map l_id (db_loans db))"
  shows "markOverdue env (snd (markOverdue env db)) = (0, snd (markOverdue env db)) \<and>
    (\<forall>l'\<in>set (db_loans (snd (markOverdue env db))). l_status l' = LActive \<longrightarrow>
       \<not> l_expectedReturnDate l' < localeIsoDate (e_now env)) \<and>
    (approveExtension access env k actorId db = Inr db' \<longrightarrow> (\<exists>l\<in>set (db_loans db). \<exists>date. l_id l = k \<and>
       l_extensionRequestedDate l = Some date \<and> (\<forall>l'\<in>set (db_loans db'). l_id l' = k \<longrightarrow>
         l_expectedReturnDate l' = date \<and> l_extensionRequestedDate l' = None \<and>
         (localeIsoDate (e_now env) \<le> date \<longrightarrow> l_status l' = LActive))))"
proof (intro conjI impI)
  have none: "\<not> overdueLoan env l'" if "l' \<in> set (db_loans (snd (markOverdue env db)))" for l'
  proof -
    obtain q where q: "l' = (if overdueLoan env q then q\<lparr>l_status := LOverdue, l_updatedAt := e_now env\<rparr> else q)"
      using \<open>l' \<in> _\<close> by (auto simp: markOverdue_def in_update_where)
    show ?thesis by (cases "overdueLoan env q") (simp_all add: q, simp add: overdueLoan_def)
  qed
  then have same: "update_where (overdueLoan env) f (db_loans (snd (markOverdue env db))) = db_loans (snd (markOverdue env db))" for f
    unfolding update_where_def by (intro map_idI) simp
  show "markOverdue env (snd (markOverdue env db)) = (0, snd (markOverdue env db))"
    using none unfolding markOverdue_def [of env "snd (markOverdue env db)"] same by (simp add: filter_empty_conv)
  show "\<forall>l'\<in>set (db_loans (snd (markOverdue env db))). l_status l' = LActive \<longrightarrow>
       \<not> l_expectedReturnDate l' < localeIsoDate (e_now env)"
    using none by (auto simp: overdueLoan_def)
  assume "approveExtension access env k actorId db = Inr db'"
  then obtain l c p where l: "lockForDecision access k actorId db = Inr l" "l_status l = LActive \<or> l_status l = LOverdue"
    "\<not> falsy (l_extensionRequestedDate l)"
    "db' = auditLoan ''LOAN_EXTENDED'' (l_id l) actorId c (addLoanEvent env (l_id l) ''EXTENDED'' actorId p
       (updateLoan (l_id l) (\<lambda>x. x\<lparr>l_expectedReturnDate := the (l_extensionRequestedDate l),
          l_extensionRequestedDate := None, l_status := (if l_status l = LOverdue \<and>
            localeIsoDate (e_now env) \<le> the (l_extensionRequestedDate l) then LActive else l_status x),
          l_updatedAt := e_now env\<rparr>) db))" by (rule approveExtension_Inr)
  have mem: "l \<in> set (db_loans db)" "l_id l = k" using l(1) by (rule lockForDecision_Inr, simp)+
  obtain date where date: "l_extensionRequestedDate l = Some date" using l(3) by (cases "l_extensionRequestedDate l") auto
  have rows: "db_loans db' = update_where (\<lambda>u. l_id u = l_id l) (\<lambda>x. x\<lparr>l_expectedReturnDate := date,
      l_extensionRequestedDate := None, l_status := (if l_status l = LOverdue \<and> localeIsoDate (e_now env) \<le> date
        then LActive else l_status x), l_updatedAt := e_now env\<rparr>) (db_loans db)"
    by (simp add: l(4) date auditLoan_def addLoanEvent_def updateLoan_def)
  have "l_expectedReturnDate l' = date \<and> l_extensionRequestedDate l' = None \<and>
      (localeIsoDate (e_now env) \<le> date \<longrightarrow> l_status l' = LActive)" if "l' \<in> set (db_loans db')" "l_id l' = k" for l'
    using changed_row [OF that(1) [unfolded rows] assms mem(1)] that(2) mem(2) l(2) by auto
  then show "\<exists>l\<in>set (db_loans db). \<exists>date. l_id l = k \<and>
       l_extensionRequestedDate l = Some date \<and> (\<forall>l'\<in>set (db_loans db'). l_id l' = k \<longrightarrow>
         l_expectedReturnDate l' = date \<and> l_extensionRequestedDate l' = None \<and>
         (localeIsoDate (e_now env) \<le> date \<longrightarrow> l_status l' = LActive))"
    using mem date by blast
qed

section \<open>Witnesses\<close>

definition sampleLoanId :: string where
  "sampleLoanId = ''00000000-0000-4000-8000-000000000009''"

definition sampleLoanItem :: loanItem where
  "sampleLoanItem = \<lparr>li_id = ''i'', li_loanId = sampleLoanId, li_assetId = ''a'', li_sourceCostCenterId = ''c1'',
     li_statusOnLoan = Some InUse, li_conditionOnDelivery = Some Good, li_returnCondition = Some ReturnDamaged,
     li_returnedAt = None, li_receivedAt = None\<rparr>"

definition sampleLoan :: "loanStatus \<Rightarrow> loan" where
  "sampleLoan s = \<lparr>l_id = sampleLoanId, l_sourceCostCenterId = ''c1'', l_targetCostCenterId = ''c2'', l_targetLocationId = None,
     l_contactPersonId = Some ''p2'', l_requestedAt = 0, l_startDate = None, l_expectedReturnDate = ''1970-02-01'',
     l_approvedAt = None, l_deliveredAt = None, l_actualReturnDate = None, l_requestedBy = ''v'', l_approvedBy = None,
     l_deliveredBy = None, l_receivedBackBy = None, l_status = s, l_justification = ''j'', l_deliveryNotes = None,
     l_returnNotes = None, l_rejectedReason = None, l_cancelledReason = None, l_deliveryDocumentId = None,
     l_assetRequestId = None, l_extensionRequestedDate = Some ''1970-03-01'', l_createdAt = 0, l_updatedAt = 0\<rparr>"

definition sampleLoanDb :: "loanStatus \<Rightarrow> operationalStatus \<Rightarrow> db" where
  "sampleLoanDb s o' = (sampleDb o')\<lparr>db_loans := [sampleLoan s], db_loanItems := [sampleLoanItem], db_seq := 10\<rparr>"

definition openAccess :: loanAccess where
  "openAccess = \<lparr>la_permits = (\<lambda>_ _. True), la_scope = (\<lambda>_ _ _. Global)\<rparr>"

definition noListeners :: loanListeners where
  "noListeners = \<lparr>lr_delivered = [], lr_rejected = [], lr_cancelled = []\<rparr>"

lemma sampleLoanDb_rows [simp]:
  "db_loans (sampleLoanDb s o') = [sampleLoan s]" "db_loanItems (sampleLoanDb s o') = [sampleLoanItem]"
  "db_assets (sampleLoanDb s o') = [sampleAsset ''a'' o']" "db_movements (sampleLoanDb s o') = []"
  by (simp_all add: sampleLoanDb_def sampleDb_def emptyDb_def)

theorem due_dates_are_kept_witness:
  "\<exists>db'. approveExtension openAccess sampleEnv sampleLoanId ''u'' (sampleLoanDb LOverdue OnLoan) = Inr db' \<and>
     (\<forall>l'\<in>set (db_loans db'). l_id l' = sampleLoanId \<longrightarrow> l_expectedReturnDate l' = ''1970-03-01'' \<and> l_status l' = LActive)"
proof -
  have "\<not> isl (approveExtension openAccess sampleEnv sampleLoanId ''u'' (sampleLoanDb LOverdue OnLoan))" by code_simp
  then obtain db' where run: "approveExtension openAccess sampleEnv sampleLoanId ''u'' (sampleLoanDb LOverdue OnLoan) = Inr db'"
    by (cases "approveExtension openAccess sampleEnv sampleLoanId ''u'' (sampleLoanDb LOverdue OnLoan)") auto
  have "distinct (map l_id (db_loans (sampleLoanDb LOverdue OnLoan)))" by simp
  moreover have "localeIsoDate (e_now sampleEnv) \<le> ''1970-03-01''" by code_simp
  moreover have "l_extensionRequestedDate (sampleLoan LOverdue) = Some ''1970-03-01''" by (simp add: sampleLoan_def)
  ultimately show ?thesis
    using due_dates_are_kept [of "sampleLoanDb LOverdue OnLoan" sampleEnv openAccess sampleLoanId "''u''" db'] run by auto
qed

theorem loan_decisions_are_separated_witness:
  "\<exists>db'. approveLoan openAccess sampleEnv sampleLoanId ''u'' (sampleLoanDb LRequested InUse) = Inr db' \<and>
     l_requestedBy (sampleLoan LRequested) \<noteq> ''u''"
proof -
  have "\<not> isl (approveLoan openAccess sampleEnv sampleLoanId ''u'' (sampleLoanDb LRequested InUse))" by code_simp
  then obtain db' where run: "approveLoan openAccess sampleEnv sampleLoanId ''u'' (sampleLoanDb LRequested InUse) = Inr db'"
    by (cases "approveLoan openAccess sampleEnv sampleLoanId ''u'' (sampleLoanDb LRequested InUse)") auto
  show ?thesis using loan_decisions_are_separated [OF disjI1 [OF run]] run by auto
qed

definition loanFormat :: documentFormat where
  "loanFormat = sampleFormat\<lparr>df_key := LOAN_DELIVERY_FORMAT, df_signers :=
     [\<lparr>sn_order = 1, sn_role = ''ENTREGA'', sn_label = ''Entrega'', sn_source = FromRequest\<rparr>,
      \<lparr>sn_order = 2, sn_role = ''AUDITA'', sn_label = ''Audita'', sn_source = FromRequest\<rparr>,
      \<lparr>sn_order = 3, sn_role = ''RECIBE'', sn_label = ''Recibe'', sn_source = FromResponsible\<rparr>]\<rparr>"

definition lendingDb :: "loan list \<Rightarrow> loanItem list \<Rightarrow> operationalStatus \<Rightarrow> db" where
  "lendingDb loans items s = signersDb\<lparr>db_assets := [sampleAsset ''a'' s], db_loans := loans, db_loanItems := items,
     db_formats := [loanFormat, loanFormat\<lparr>df_key := LOAN_RETURN_FORMAT, df_signers := []\<rparr>], db_seq := 10,
     db_persons := db_persons signersDb @ map (\<lambda>k. \<lparr>pe_id = k, pe_isActive = True, pe_costCenterId = None,
       pe_email = None, pe_documentNumber = None, pe_firstName = ''C'', pe_lastName = ''D''\<rparr>) [''p1'', ''p2''],
     db_costCenters := map (\<lambda>k. \<lparr>cc_id = k, cc_isActive = True, cc_acceptsAssets = True\<rparr>) [''c1'', ''c2''],
     db_heads := [\<lparr>ch_costCenterId = ''c2'', ch_personId = ''p2'', ch_validFrom = 0, ch_validUntil = None\<rparr>]\<rparr>"

definition deliverDto :: deliverLoanInput where
  "deliverDto = \<lparr>dl_deliveredByPersonId = Some ''p1'', dl_controlInternoPersonId = Some ''p3'', dl_assetNotes = None,
     dl_signerSubstitutions = None\<rparr>"

definition sampleLoanInput :: createLoanInput where
  "sampleLoanInput = \<lparr>cl_assetIds = [''a''], cl_targetCostCenterId = ''c2'', cl_targetLocationId = None,
     cl_contactPersonId = ''p2'', cl_expectedReturnDate = ''1970-02-01'', cl_justification = ''j'', cl_deliveryNotes = None,
     cl_startDate = None\<rparr>"

definition awaitingDelivery :: db where
  "awaitingDelivery = lendingDb [sampleLoan LApproved] [sampleLoanItem] InUse"

definition awaitingReception :: db where
  "awaitingReception = lendingDb [sampleLoan LPendingReception] [sampleLoanItem] OnLoan"

lemma sampleLoan_created: "\<not> isl (createLoanWithin sampleEnv sampleLoanInput ''u'' None None (lendingDb [] [] InUse))"
  by code_simp

lemma sampleLoan_delivered:
  "\<not> isl (deliverWithin noListeners sampleEnv sampleLoanId deliverDto ''u'' ControlRole awaitingDelivery)"
  by code_simp

lemma sampleLoan_received: "\<not> isl (receiveReturn sampleEnv sampleLoanId None ''u'' awaitingReception)"
  by code_simp

lemma quiet_none: "quietListeners noListeners"
  by (simp add: quietListeners_def noListeners_def)

lemma lendingDb_rows [simp]:
  "db_loans (lendingDb ls is s) = ls" "db_loanItems (lendingDb ls is s) = is"
  "db_assets (lendingDb ls is s) = [sampleAsset ''a'' s]" "db_movements (lendingDb ls is s) = []" "db_seq (lendingDb ls is s) = 10"
  by (simp_all add: lendingDb_def signersDb_def emptyDb_def)

lemma sampleItem_rows [simp]:
  "li_id sampleLoanItem = ''i''" "li_loanId sampleLoanItem = sampleLoanId" "li_assetId sampleLoanItem = ''a''"
  "li_receivedAt sampleLoanItem = None" "l_id (sampleLoan s) = sampleLoanId" "l_status (sampleLoan s) = s"
  "li_returnCondition sampleLoanItem = Some ReturnDamaged" "li_statusOnLoan sampleLoanItem = Some InUse"
  by (simp_all add: sampleLoanItem_def sampleLoan_def)

lemma sampleAsset_rows [simp]: "a_id (sampleAsset k s) = k" "a_operationalStatus (sampleAsset k s) = s"
  by (simp_all add: sampleAsset_def)

lemma lendingDb_find: "findAsset (lendingDb ls is s) ''a'' = Some (sampleAsset ''a'' s)"
  by (simp add: findAsset_def)

definition anyUuid :: "nat \<Rightarrow> string" where
  "anyUuid n = (if n = 0 then ''i'' else sampleLoanId)"

lemma lending_book:
  assumes "st \<in> set LOAN_OUT_STATUSES \<longrightarrow> s = OnLoan"
  shows "bookInv anyUuid (lendingDb [sampleLoan st] [sampleLoanItem] s)"
proof -
  have "{''i'', sampleLoanId} \<subseteq> anyUuid ` {..<10}"
    unfolding anyUuid_def by (auto intro: image_eqI [of _ _ 0] image_eqI [of _ _ 1])
  then show ?thesis
    using assms by (auto simp: bookInv_def itemsOfLoan_def outItem_def heldOut_def onLoan_def lendingDb_find)
qed

lemma lending_custody: "custodyInv sampleEnv (lendingDb ls is s)"
  by (simp add: custodyInv_def ledgerInv_Nil drawn_def ledgerMatches_def)

theorem loans_hold_their_assets_witness:
  "\<exists>k db. createLoanWithin sampleEnv sampleLoanInput ''u'' None None (lendingDb [] [] InUse) = Inr (k, db) \<and>
     distinct (map li_assetId (filter (openItem db) (db_loanItems db)))"
proof -
  obtain k db where run: "createLoanWithin sampleEnv sampleLoanInput ''u'' None None (lendingDb [] [] InUse) = Inr (k, db)"
    using sampleLoan_created by (cases "createLoanWithin sampleEnv sampleLoanInput ''u'' None None (lendingDb [] [] InUse)") auto
  have "loanReachable openAccess noListeners (e_uuid sampleEnv) (lendingDb [] [] InUse) db"
    using LoanCreated [OF refl run] by blast
  moreover have "inj (e_uuid sampleEnv)" using sampleEnv_ok by (simp add: envOk_def)
  ultimately show ?thesis using loans_hold_their_assets [OF _ _ quiet_none] run by auto
qed

theorem delivered_loan_lends_its_assets_witness:
  "\<exists>db' a. deliverWithin noListeners sampleEnv sampleLoanId deliverDto ''u'' ControlRole awaitingDelivery = Inr db' \<and>
     findAsset db' ''a'' = Some a \<and> a_operationalStatus a = OnLoan"
proof -
  obtain db' where run: "deliverWithin noListeners sampleEnv sampleLoanId deliverDto ''u'' ControlRole awaitingDelivery = Inr db'"
    using sampleLoan_delivered
    by (cases "deliverWithin noListeners sampleEnv sampleLoanId deliverDto ''u'' ControlRole awaitingDelivery") auto
  have locked: "lockLoan awaitingDelivery sampleLoanId = Inr (sampleLoan LApproved)"
    by code_simp
  have book: "bookInv anyUuid awaitingDelivery"
    unfolding awaitingDelivery_def by (rule lending_book) (simp add: LOAN_OUT_STATUSES_def)
  have custody: "custodyInv sampleEnv awaitingDelivery" unfolding awaitingDelivery_def by (rule lending_custody)
  have all: "\<forall>j. if j \<in> li_assetId ` set (deliveryItems awaitingDelivery sampleLoanId)
       then (\<exists>a. findAsset awaitingDelivery j = Some a \<and> a_operationalStatus a \<in> {InUse, InStorage} \<and>
            a_costCenterId a = l_sourceCostCenterId (sampleLoan LApproved) \<and> findAsset db' j = Some (a\<lparr>a_operationalStatus := OnLoan,
              a_updatedAt := e_now sampleEnv, a_updatedBy := Some ''u''\<rparr>))
       else findAsset db' j = findAsset awaitingDelivery j"
    using delivered_loan_lends_its_assets [OF run locked quiet_none book sampleEnv_ok custody] by blast
  have "''a'' \<in> li_assetId ` set (deliveryItems awaitingDelivery sampleLoanId)"
    by (rule image_eqI [of _ _ sampleLoanItem]) (simp_all add: deliveryItems_set awaitingDelivery_def lendingDb_find)
  then obtain a where "findAsset db' ''a'' = Some (a\<lparr>a_operationalStatus := OnLoan,
      a_updatedAt := e_now sampleEnv, a_updatedBy := Some ''u''\<rparr>)"
    using spec [OF all, of "''a''"] by auto
  then show ?thesis using run by auto
qed

theorem received_loan_returns_its_assets_witness:
  "\<exists>db' a. receiveReturn sampleEnv sampleLoanId None ''u'' awaitingReception = Inr db' \<and>
     findAsset db' ''a'' = Some a \<and> a_operationalStatus a = InUse \<and> a_physicalCondition a = Some Fair"
proof -
  obtain db' where run: "receiveReturn sampleEnv sampleLoanId None ''u'' awaitingReception = Inr db'"
    using sampleLoan_received by (cases "receiveReturn sampleEnv sampleLoanId None ''u'' awaitingReception") auto
  have book: "bookInv anyUuid awaitingReception" unfolding awaitingReception_def by (rule lending_book) simp
  have custody: "custodyInv sampleEnv awaitingReception" unfolding awaitingReception_def by (rule lending_custody)
  have items: "filter awaitsReception (itemsOfLoan awaitingReception sampleLoanId) = [sampleLoanItem]"
    by (simp add: itemsOfLoan_def awaitingReception_def awaitsReception_def)
  obtain a' where "findAsset db' ''a'' = Some a'" "a_operationalStatus a' = or_keep (Some InUse) InUse"
    "a_physicalCondition a' = Some Fair"
    using received_loan_returns_its_assets [OF run book sampleEnv_ok custody] unfolding items by auto
  then show ?thesis using run by (auto simp: or_keep_def)
qed

text \<open>
  A loan whose asset an inventory declares lost cannot be received: the reception and the annulment of a
  delivery ask for assets on loan.
\<close>

definition missingCount :: countedItem where
  "missingCount = \<lparr>ct_assetId = Some ''a'', ct_verificationResult = VMissing, ct_actualLocationId = None,
     ct_expectedCondition = None, ct_actualCondition = None\<rparr>"

lemma lost_asset_is_not_received:
  "case reconcileItems sampleEnv \<lparr>rc_id = ''n'', rc_code = ''N-1'', rc_requestedBy = Some ''v''\<rparr> ''u'' awaitingReception [missingCount] of
     Inl _ \<Rightarrow> False
   | Inr db \<Rightarrow> reportedMissing db ''a'' \<and> \<not> onLoan db ''a'' \<and> isl (receiveReturn sampleEnv sampleLoanId None ''u'' db)"
  by code_simp

end
