(* ===== verification/AssetRequests.thy ===== *)
theory AssetRequests
  imports LoanSteps Transfers
begin

text \<open>
  The requests of assets of src/src/modules/asset-requests: the head of a cost center asks another center for
  assets, the head of that center chooses them, and internal control turns the acceptance into a loan or a
  transfer. The service is services/asset-requests.service.ts, its notices
  services/asset-request-notices.service.ts; the loan answers back through the listeners of
  services/asset-request-completion.observer.ts. A transaction is a function on the database that may fail.
\<close>

section \<open>Statuses (domain/asset-request.ts)\<close>

fun requestStatusText :: "assetRequestStatus \<Rightarrow> string" where
  "requestStatusText QRequested = ''REQUESTED''"
| "requestStatusText QAccepted = ''ACCEPTED''"
| "requestStatusText QClosedByOwner = ''CLOSED_BY_OWNER''"
| "requestStatusText QReturned = ''RETURNED''"
| "requestStatusText QLoanScheduled = ''LOAN_SCHEDULED''"
| "requestStatusText QDocumentGenerated = ''DOCUMENT_GENERATED''"
| "requestStatusText QClosedLoanRejected = ''CLOSED_LOAN_REJECTED''"
| "requestStatusText QClosedLoanCancelled = ''CLOSED_LOAN_CANCELLED''"
| "requestStatusText QCancelled = ''CANCELLED''"
| "requestStatusText QExpired = ''EXPIRED''"

fun requestKindText :: "assetRequestKind \<Rightarrow> string" where
  "requestKindText Temporary = ''TEMPORARY''"
| "requestKindText Permanent = ''PERMANENT''"

fun requestTransitions :: "assetRequestStatus \<Rightarrow> assetRequestStatus list" where
  "requestTransitions QRequested = [QAccepted, QClosedByOwner, QCancelled]"
| "requestTransitions QAccepted = [QLoanScheduled, QDocumentGenerated, QReturned, QExpired]"
| "requestTransitions QReturned = [QRequested, QAccepted, QCancelled, QExpired]"
| "requestTransitions QLoanScheduled = [QDocumentGenerated, QClosedLoanRejected, QClosedLoanCancelled]"
| "requestTransitions QClosedByOwner = []"
| "requestTransitions QDocumentGenerated = []"
| "requestTransitions QClosedLoanRejected = []"
| "requestTransitions QClosedLoanCancelled = []"
| "requestTransitions QCancelled = []"
| "requestTransitions QExpired = []"

definition canAssetRequestTransition :: "assetRequestStatus \<Rightarrow> assetRequestStatus \<Rightarrow> bool" where
  "canAssetRequestTransition from to = (to \<in> set (requestTransitions from))"

definition assertAssetRequestTransition :: "assetRequestStatus \<Rightarrow> assetRequestStatus \<Rightarrow> unit res" where
  "assertAssetRequestTransition from to =
     (if \<not> canAssetRequestTransition from to then throw AssetRequestInvalidStateTransition else Inr ())"

definition HOLDING_STATUSES :: "assetRequestStatus list" where
  "HOLDING_STATUSES = [QAccepted, QReturned]"

definition EXPIRING_STATUSES :: "assetRequestStatus list" where
  "EXPIRING_STATUSES = [QAccepted, QReturned]"

definition ASSET_REQUEST_EXPIRY_DAYS :: int where "ASSET_REQUEST_EXPIRY_DAYS = 14"
definition ASSET_REQUEST_ENTITY_TYPE :: string where "ASSET_REQUEST_ENTITY_TYPE = ''ASSET_REQUEST''"
definition ASSET_REQUEST_REVIEW :: string where "ASSET_REQUEST_REVIEW = ''asset_request:review:global''"
definition ASSET_REQUEST_READ_GLOBAL :: string where "ASSET_REQUEST_READ_GLOBAL = ''asset_request:read:global''"

definition statusAfterCorrection :: "bool \<Rightarrow> bool \<Rightarrow> bool \<Rightarrow> assetRequestStatus" where
  "statusAfterCorrection ownerCostCenter kind requestingCostCenter =
     (if ownerCostCenter \<or> kind \<or> requestingCostCenter then QRequested else QAccepted)"

section \<open>Notices\<close>

datatype noticeKind = NoticeCreated | NoticeAccepted | NoticeClosed | NoticeReturned | NoticeCorrected | NoticeCancelled
  | NoticeGenerated | NoticeScheduled | NoticeLoanStarts | NoticeLoanRejected | NoticeLoanCancelled | NoticeExpired
  | NoticeCompleted

datatype audience = ToRequester | ToOwnerHeads | ToReviewers

fun noticeTemplate :: "noticeKind \<Rightarrow> string" where
  "noticeTemplate NoticeCreated = ''ASSET_REQUEST_CREATED''"
| "noticeTemplate NoticeAccepted = ''ASSET_REQUEST_ACCEPTED''"
| "noticeTemplate NoticeClosed = ''ASSET_REQUEST_CLOSED''"
| "noticeTemplate NoticeReturned = ''ASSET_REQUEST_RETURNED''"
| "noticeTemplate NoticeCorrected = ''ASSET_REQUEST_CORRECTED''"
| "noticeTemplate NoticeCancelled = ''ASSET_REQUEST_CANCELLED''"
| "noticeTemplate NoticeGenerated = ''ASSET_REQUEST_GENERATED''"
| "noticeTemplate NoticeScheduled = ''ASSET_REQUEST_LOAN_SCHEDULED''"
| "noticeTemplate NoticeLoanStarts = ''ASSET_REQUEST_LOAN_STARTS''"
| "noticeTemplate NoticeLoanRejected = ''ASSET_REQUEST_LOAN_REJECTED''"
| "noticeTemplate NoticeLoanCancelled = ''ASSET_REQUEST_LOAN_CANCELLED''"
| "noticeTemplate NoticeExpired = ''ASSET_REQUEST_EXPIRED''"
| "noticeTemplate NoticeCompleted = ''ASSET_REQUEST_COMPLETED''"

record recipientRow =
  rr_personId :: "string option"
  rr_userId :: "string option"
  rr_hasEmail :: bool

text \<open>The \<open>trim\<close> of SQL drops blanks only.\<close>

definition hasEmail :: "person \<Rightarrow> bool" where
  "hasEmail p = (case pe_email p of None \<Rightarrow> False | Some e \<Rightarrow> \<exists>c\<in>set e. c \<noteq> CHR '' '')"

definition activeUserOf :: "db \<Rightarrow> string \<Rightarrow> string option" where
  "activeUserOf db personId =
     (case sort (map u_id (filter (\<lambda>u. u_personId u = Some personId \<and> u_status u = UActive) (db_users db))) of
        [] \<Rightarrow> None | u # _ \<Rightarrow> Some u)"

definition requesterRows :: "db \<Rightarrow> assetRequest \<Rightarrow> recipientRow list" where
  "requesterRows db r =
     concat (map (\<lambda>u. map (\<lambda>p. \<lparr>rr_personId = Some (pe_id p),
          rr_userId = (if u_status u = UActive then Some (u_id u) else None), rr_hasEmail = (pe_isActive p \<and> hasEmail p)\<rparr>)
        (filter (\<lambda>p. pe_id p = ar_requesterPersonId r) (db_persons db)))
      (filter (\<lambda>u. u_id u = ar_requesterUserId r) (db_users db)))"

definition ownerHeadRows :: "env \<Rightarrow> db \<Rightarrow> assetRequest \<Rightarrow> recipientRow list" where
  "ownerHeadRows env db r =
     map (\<lambda>p. \<lparr>rr_personId = Some (pe_id p), rr_userId = activeUserOf db (pe_id p), rr_hasEmail = hasEmail p\<rparr>)
       (sort_key pe_id (filter (\<lambda>p. pe_isActive p \<and> pe_id p \<noteq> ar_requesterPersonId r \<and>
          list_ex (\<lambda>h. ch_personId h = pe_id p \<and> currentHead (e_now env) (ar_ownerCostCenterId r) h) (db_heads db))
        (db_persons db)))"

definition reviewerRows :: "db \<Rightarrow> recipientRow list" where
  "reviewerRows db =
     map (\<lambda>u. (case find (\<lambda>p. u_personId u = Some (pe_id p)) (db_persons db) of
          None \<Rightarrow> \<lparr>rr_personId = None, rr_userId = Some (u_id u), rr_hasEmail = False\<rparr>
        | Some p \<Rightarrow> \<lparr>rr_personId = Some (pe_id p), rr_userId = Some (u_id u), rr_hasEmail = (pe_isActive p \<and> hasEmail p)\<rparr>))
       (filter (\<lambda>u. u_status u = UActive \<and>
          list_ex (\<lambda>v. up_userId v = u_id u \<and> up_permissionCode v = ASSET_REQUEST_REVIEW) (db_userPermissions db))
        (db_users db))"

text \<open>A person gets one mail and a user one notification, however many rows name them.\<close>

fun onceEach :: "string set \<Rightarrow> string set \<Rightarrow> recipientRow list \<Rightarrow> recipientRow list" where
  "onceEach persons users [] = []"
| "onceEach persons users (row # rows) =
     (let person = (case rr_personId row of Some p \<Rightarrow> if p = [] \<or> p \<in> persons then None else Some p | None \<Rightarrow> None);
          user = (case rr_userId row of Some u \<Rightarrow> if u = [] \<or> u \<in> users then None else Some u | None \<Rightarrow> None)
      in row\<lparr>rr_personId := person, rr_userId := user\<rparr> #
         onceEach (persons \<union> set_option person) (users \<union> set_option user) rows)"

definition recipients :: "env \<Rightarrow> db \<Rightarrow> assetRequest \<Rightarrow> audience list \<Rightarrow> recipientRow list" where
  "recipients env db r audiences =
     onceEach {} {}
       ((if ToRequester \<in> set audiences then requesterRows db r else []) @
        (if ToOwnerHeads \<in> set audiences then ownerHeadRows env db r else []) @
        (if ToReviewers \<in> set audiences then reviewerRows db else []))"

definition noticeFor :: "noticeKind \<Rightarrow> string \<Rightarrow> string \<Rightarrow> noticeRow" where
  "noticeFor kind requestId recipient =
     \<lparr>no_recipientId = recipient, no_templateType = noticeTemplate kind, no_entityType = ASSET_REQUEST_ENTITY_TYPE,
      no_entityId = requestId\<rparr>"

definition sendOne :: "noticeKind \<Rightarrow> string \<Rightarrow> db \<Rightarrow> recipientRow \<Rightarrow> db" where
  "sendOne kind requestId db row =
     (let db1 = (case rr_personId row of
            Some p \<Rightarrow> if rr_hasEmail row then db\<lparr>db_mails := db_mails db @ [noticeFor kind requestId p]\<rparr> else db
          | None \<Rightarrow> db)
      in (case rr_userId row of
            Some u \<Rightarrow> db1\<lparr>db_notifications := db_notifications db1 @ [noticeFor kind requestId u]\<rparr>
          | None \<Rightarrow> db1))"

definition sendNotices :: "env \<Rightarrow> string \<Rightarrow> noticeKind \<Rightarrow> audience list \<Rightarrow> db \<Rightarrow> db" where
  "sendNotices env requestId kind audiences db =
     (case find (\<lambda>r. ar_id r = requestId \<and>
            list_ex (\<lambda>p. pe_id p = ar_requesterPersonId r) (db_persons db) \<and>
            list_ex (\<lambda>c. cc_id c = ar_requestingCostCenterId r) (db_costCenters db) \<and>
            list_ex (\<lambda>c. cc_id c = ar_ownerCostCenterId r) (db_costCenters db)) (db_requests db) of
        None \<Rightarrow> db
      | Some r \<Rightarrow> foldl (sendOne kind requestId) db (recipients env db r audiences))"

section \<open>What the operations share\<close>

datatype viewerRole = Requester | OwnerHead | Reviewer | Reader

definition isHead :: "env \<Rightarrow> db \<Rightarrow> string \<Rightarrow> string \<Rightarrow> bool" where
  "isHead env db userId costCenterId =
     list_ex (\<lambda>h. currentHead (e_now env) costCenterId h \<and>
       list_ex (\<lambda>u. u_id u = userId \<and> u_personId u = Some (ch_personId h)) (db_users db)) (db_heads db)"

definition headCount :: "env \<Rightarrow> db \<Rightarrow> string \<Rightarrow> string option \<Rightarrow> nat" where
  "headCount env db costCenterId exceptPersonId =
     length (uniq (map ch_personId (filter (\<lambda>h. currentHead (e_now env) costCenterId h \<and>
        Some (ch_personId h) \<noteq> exceptPersonId \<and>
        list_ex (\<lambda>p. pe_id p = ch_personId h \<and> pe_isActive p) (db_persons db)) (db_heads db))))"

definition personOf :: "db \<Rightarrow> string \<Rightarrow> string option" where
  "personOf db userId = (case find (\<lambda>u. u_id u = userId) (db_users db) of None \<Rightarrow> None | Some u \<Rightarrow> u_personId u)"

definition viewerRoles :: "loanAccess \<Rightarrow> env \<Rightarrow> db \<Rightarrow> assetRequest \<Rightarrow> string \<Rightarrow> viewerRole list" where
  "viewerRoles access env db r userId =
     (if ar_requesterUserId r = userId then [Requester] else []) @
     (if isHead env db userId (ar_ownerCostCenterId r) then [OwnerHead] else []) @
     (if la_permits access userId ASSET_REQUEST_REVIEW then [Reviewer] else []) @
     (if la_permits access userId ASSET_REQUEST_READ_GLOBAL then [Reader] else [])"

definition requestRow :: "db \<Rightarrow> string \<Rightarrow> assetRequest option" where
  "requestRow db k = (if \<not> isUuid k then None else find (\<lambda>r. ar_id r = k) (db_requests db))"

definition partyRequest ::
  "loanAccess \<Rightarrow> env \<Rightarrow> string \<Rightarrow> string \<Rightarrow> db \<Rightarrow> (assetRequest \<times> viewerRole list) res" where
  "partyRequest access env k userId db =
     (case requestRow db k of
        None \<Rightarrow> throw ResourceNotFound
      | Some r \<Rightarrow>
          (let roles = viewerRoles access env db r userId in
           if roles = [] then throw ResourceNotFound else Inr (r, roles)))"

definition assertOwnerHead :: "assetRequest \<Rightarrow> viewerRole list \<Rightarrow> string \<Rightarrow> unit res" where
  "assertOwnerHead r roles userId =
     (if OwnerHead \<notin> set roles then throw AssetRequestNotHead
      else if ar_requesterUserId r = userId then throw AssetRequestSodViolation
      else Inr ())"

definition assertRequester :: "viewerRole list \<Rightarrow> unit res" where
  "assertRequester roles = (if Requester \<notin> set roles then throw InsufficientPermissions else Inr ())"

definition assertReviewer :: "viewerRole list \<Rightarrow> unit res" where
  "assertReviewer roles = (if Reviewer \<notin> set roles then throw InsufficientPermissions else Inr ())"

definition assertDates :: "assetRequestKind \<Rightarrow> string option \<Rightarrow> string option \<Rightarrow> unit res" where
  "assertDates kind startDate expectedReturnDate =
     (if kind \<noteq> Temporary then Inr ()
      else if falsy startDate \<or> falsy expectedReturnDate then throw ValidationFailed
      else if the expectedReturnDate < the startDate then throw ValidationFailed
      else Inr ())"

definition assertCenters ::
  "env \<Rightarrow> db \<Rightarrow> string \<Rightarrow> string \<Rightarrow> string \<Rightarrow> string \<Rightarrow> unit res" where
  "assertCenters env db actorId personId requestingCostCenterId ownerCostCenterId =
     (if requestingCostCenterId = ownerCostCenterId then throw ValidationFailed
      else if length (filter (\<lambda>c. cc_id c \<in> {requestingCostCenterId, ownerCostCenterId} \<and> cc_isActive c) (db_costCenters db)) \<noteq> 2
      then throw ResourceNotFound
      else if \<not> isHead env db actorId requestingCostCenterId then throw AssetRequestNotHead
      else if headCount env db ownerCostCenterId (Some personId) = 0 then throw AssetRequestOwnerWithoutHead
      else Inr ())"

definition updateAssetRequest :: "string \<Rightarrow> (assetRequest \<Rightarrow> assetRequest) \<Rightarrow> db \<Rightarrow> db" where
  "updateAssetRequest k f db = db\<lparr>db_requests := update_where (\<lambda>r. ar_id r = k) f (db_requests db)\<rparr>"

definition closeRequestItem :: "requestItem \<Rightarrow> requestItem" where
  "closeRequestItem i = i\<lparr>ri_open := False\<rparr>"

definition releaseRequestItems :: "string \<Rightarrow> db \<Rightarrow> db" where
  "releaseRequestItems k db =
     db\<lparr>db_requestItems := update_where (\<lambda>i. ri_requestId i = k) closeRequestItem (db_requestItems db)\<rparr>"

definition addRequestEvent ::
  "string \<Rightarrow> string \<Rightarrow> assetRequestStatus option \<Rightarrow> assetRequestStatus option \<Rightarrow> string option \<Rightarrow> string option
     \<Rightarrow> (string \<times> json) list \<Rightarrow> db \<Rightarrow> db" where
  "addRequestEvent k eventType from to actorId reason payload db =
     db\<lparr>db_requestEvents := db_requestEvents db @
       [\<lparr>rv_requestId = k, rv_eventType = eventType, rv_from = from, rv_to = to, rv_actorUserId = actorId,
         rv_reason = reason, rv_payload = payload\<rparr>]\<rparr>"

text \<open>\<open>text?.trim() || null\<close>.\<close>

definition noteOrNull :: "string option \<Rightarrow> string option" where
  "noteOrNull t = (case t of None \<Rightarrow> None | Some s \<Rightarrow> if trim s = [] then None else Some (trim s))"

definition expiryFrom :: "env \<Rightarrow> int" where
  "expiryFrom env = e_now env + ASSET_REQUEST_EXPIRY_DAYS * 86400000"

section \<open>The request and its decision\<close>

record createRequestInput =
  cq_kind :: assetRequestKind
  cq_requestingCostCenterId :: string
  cq_ownerCostCenterId :: string
  cq_description :: string
  cq_note :: "string option"
  cq_startDate :: "string option"
  cq_expectedReturnDate :: "string option"

definition nextRequestCode :: "env \<Rightarrow> db \<Rightarrow> (string \<times> db) res" where
  "nextRequestCode env db =
     (case db_requestSequence db of
        None \<Rightarrow> throwError
      | Some s \<Rightarrow>
          (let s' = s\<lparr>cs_currentValue := cs_currentValue s + 1\<rparr>;
               year = showInt (cd_year (civilDate ((e_now env - 18000000) div 86400000)))
           in Inr (or_keep (cs_prefix s') ''SOL-'' @ year @ ''-'' @ padStart (cs_paddingLength s') (showInt (cs_currentValue s')),
                db\<lparr>db_requestSequence := Some s'\<rparr>)))"

definition newRequest ::
  "string \<Rightarrow> string \<Rightarrow> createRequestInput \<Rightarrow> string \<Rightarrow> string \<Rightarrow> string option \<Rightarrow> string option \<Rightarrow> assetRequest" where
  "newRequest k code dto actorId personId startDate expectedReturnDate =
     \<lparr>ar_id = k, ar_code = code, ar_kind = cq_kind dto, ar_status = QRequested, ar_requesterUserId = actorId,
      ar_requesterPersonId = personId, ar_requestingCostCenterId = cq_requestingCostCenterId dto,
      ar_ownerCostCenterId = cq_ownerCostCenterId dto, ar_description = trim (cq_description dto),
      ar_note = noteOrNull (cq_note dto), ar_startDate = startDate, ar_expectedReturnDate = expectedReturnDate,
      ar_acceptedBy = None, ar_acceptedAt = None, ar_decidedBy = None, ar_decidedAt = None, ar_expiresAt = None,
      ar_loanId = None, ar_transferId = None\<rparr>"

definition createRequest :: "env \<Rightarrow> createRequestInput \<Rightarrow> string \<Rightarrow> db \<Rightarrow> (string \<times> db) res" where
  "createRequest env dto actorId db =
     (let startDate = (if cq_kind dto = Temporary then cq_startDate dto else None);
          expectedReturnDate = (if cq_kind dto = Temporary then cq_expectedReturnDate dto else None)
      in rbind (assertDates (cq_kind dto) startDate expectedReturnDate) (\<lambda>_.
         if falsy (personOf db actorId) then throw AssetRequestNotHead
         else
           (let personId = the (personOf db actorId) in
            rbind (assertCenters env db actorId personId (cq_requestingCostCenterId dto) (cq_ownerCostCenterId dto)) (\<lambda>_.
            rbind (nextRequestCode env db) (\<lambda>(code, db1).
            (let k = freshId env db1;
                 db2 = bumpSeq (db1\<lparr>db_requests := db_requests db1 @
                   [newRequest k code dto actorId personId startDate expectedReturnDate]\<rparr>)
             in Inr (k, sendNotices env k NoticeCreated [ToOwnerHeads]
                  (addRequestEvent k ''CREATED'' None (Some QRequested) (Some actorId) None
                    [(''kind'', JStr (requestKindText (cq_kind dto)))] db2))))))))"

definition requestBlocked :: "db \<Rightarrow> string \<Rightarrow> asset \<Rightarrow> bool" where
  "requestBlocked db requestId a =
     (a_operationalStatus a \<notin> {InUse, InStorage} \<or> holdOpenLoan db (a_id a) \<or> holdOpenTransfer db (a_id a) \<or>
      holdOpenInventory db (a_id a) \<or> holdRequestReservation db (Some requestId) (a_id a) \<or>
      holdOpenWriteOff db None (a_id a))"

definition assertEligible :: "db \<Rightarrow> assetRequest \<Rightarrow> string list \<Rightarrow> unit res" where
  "assertEligible db r assetIds =
     (let rows = filter (\<lambda>a. a_id a \<in> set assetIds \<and> a_costCenterId a = ar_ownerCostCenterId r) (db_assets db) in
      if length rows \<noteq> length assetIds then throw ResourceNotFound
      else if list_ex (requestBlocked db (ar_id r)) rows then throw AssetRequestAssetUnavailable
      else Inr ())"

text \<open>The two unique indexes of the table: one row per request and asset, one open row per asset.\<close>

definition requestItemRow :: "string \<Rightarrow> string \<Rightarrow> requestItem" where
  "requestItemRow k assetId = \<lparr>ri_requestId = k, ri_assetId = assetId, ri_open = True\<rparr>"

definition insertRequestItem :: "string \<Rightarrow> db \<Rightarrow> string \<Rightarrow> db res" where
  "insertRequestItem k db assetId =
     (if list_ex (\<lambda>i. ri_requestId i = k \<and> ri_assetId i = assetId) (db_requestItems db) then throwError
      else
        rbind (insertOpen ri_assetId ri_open AssetRequestAssetUnavailable (db_requestItems db) (requestItemRow k assetId))
          (\<lambda>rows. Inr (db\<lparr>db_requestItems := rows\<rparr>)))"

record acceptRequestInput =
  aq_assetIds :: "string list"
  aq_note :: "string option"

definition acceptRequest ::
  "loanAccess \<Rightarrow> env \<Rightarrow> string \<Rightarrow> acceptRequestInput \<Rightarrow> string \<Rightarrow> db \<Rightarrow> db res" where
  "acceptRequest access env k dto actorId db =
     rbind (partyRequest access env k actorId db) (\<lambda>(r, roles).
     rbind (assertOwnerHead r roles actorId) (\<lambda>_.
     rbind (assertAssetRequestTransition (ar_status r) QAccepted) (\<lambda>_.
     (let assetIds = uniq (aq_assetIds dto) in
      rbind (assertEligible db r assetIds) (\<lambda>_.
      rbind (foldM (insertRequestItem (ar_id r)) db assetIds) (\<lambda>db1.
        Inr (sendNotices env (ar_id r) NoticeAccepted [ToRequester, ToReviewers]
          (addRequestEvent (ar_id r) ''ACCEPTED'' (Some (ar_status r)) (Some QAccepted) (Some actorId) (noteOrNull (aq_note dto))
              [(''assetIds'', jStrings assetIds), (''assetCount'', JNum (int (length assetIds)))]
            (updateAssetRequest (ar_id r) (\<lambda>x. x\<lparr>ar_status := QAccepted, ar_acceptedBy := Some actorId,
               ar_acceptedAt := Some (e_now env), ar_decidedBy := Some actorId, ar_decidedAt := Some (e_now env),
               ar_expiresAt := Some (expiryFrom env)\<rparr>) db1)))))))))"

definition setRequestStatus :: "env \<Rightarrow> string \<Rightarrow> assetRequestStatus \<Rightarrow> string \<Rightarrow> db \<Rightarrow> db" where
  "setRequestStatus env k status actorId db =
     releaseRequestItems k (updateAssetRequest k (\<lambda>x. x\<lparr>ar_status := status, ar_expiresAt := None,
       ar_decidedBy := Some actorId, ar_decidedAt := Some (e_now env)\<rparr>) db)"

definition closeRequest :: "loanAccess \<Rightarrow> env \<Rightarrow> string \<Rightarrow> string \<Rightarrow> string \<Rightarrow> db \<Rightarrow> db res" where
  "closeRequest access env k reason actorId db =
     rbind (partyRequest access env k actorId db) (\<lambda>(r, roles).
     rbind (assertOwnerHead r roles actorId) (\<lambda>_.
     rbind (assertAssetRequestTransition (ar_status r) QClosedByOwner) (\<lambda>_.
       Inr (sendNotices env (ar_id r) NoticeClosed [ToRequester, ToReviewers]
         (addRequestEvent (ar_id r) ''CLOSED_BY_OWNER'' (Some (ar_status r)) (Some QClosedByOwner) (Some actorId)
            (Some (trim reason)) [] (setRequestStatus env (ar_id r) QClosedByOwner actorId db))))))"

text \<open>A field of the correction may be absent; the note may also be null.\<close>

record correctRequestInput =
  kq_kind :: "assetRequestKind option"
  kq_requestingCostCenterId :: "string option"
  kq_ownerCostCenterId :: "string option"
  kq_description :: "string option"
  kq_note :: "string option option"
  kq_startDate :: "string option"
  kq_expectedReturnDate :: "string option"

definition or_else :: "'a option \<Rightarrow> 'a option \<Rightarrow> 'a option" where
  "or_else given old = (case given of None \<Rightarrow> old | Some v \<Rightarrow> Some v)"

text \<open>The request as a correction leaves it, but for its status.\<close>

definition correctedRequest :: "correctRequestInput \<Rightarrow> assetRequest \<Rightarrow> assetRequest" where
  "correctedRequest dto r =
     (let kind = or_keep (kq_kind dto) (ar_kind r) in
      r\<lparr>ar_kind := kind,
        ar_requestingCostCenterId := or_keep (kq_requestingCostCenterId dto) (ar_requestingCostCenterId r),
        ar_ownerCostCenterId := or_keep (kq_ownerCostCenterId dto) (ar_ownerCostCenterId r),
        ar_description := (case kq_description dto of None \<Rightarrow> ar_description r | Some d \<Rightarrow> trim d),
        ar_note := (case kq_note dto of None \<Rightarrow> ar_note r | Some t \<Rightarrow> noteOrNull t),
        ar_startDate := (if kind = Temporary then or_else (kq_startDate dto) (ar_startDate r) else None),
        ar_expectedReturnDate := (if kind = Temporary then or_else (kq_expectedReturnDate dto) (ar_expectedReturnDate r)
          else None)\<rparr>)"

definition changedFields :: "assetRequest \<Rightarrow> assetRequest \<Rightarrow> string list" where
  "changedFields r c =
     (if ar_kind c \<noteq> ar_kind r then [''kind''] else []) @
     (if ar_requestingCostCenterId c \<noteq> ar_requestingCostCenterId r then [''requestingCostCenterId''] else []) @
     (if ar_ownerCostCenterId c \<noteq> ar_ownerCostCenterId r then [''ownerCostCenterId''] else []) @
     (if ar_description c \<noteq> ar_description r then [''description''] else []) @
     (if ar_note c \<noteq> ar_note r then [''note''] else []) @
     (if ar_startDate c \<noteq> ar_startDate r then [''startDate''] else []) @
     (if ar_expectedReturnDate c \<noteq> ar_expectedReturnDate r then [''expectedReturnDate''] else [])"

definition correctRequest ::
  "loanAccess \<Rightarrow> env \<Rightarrow> string \<Rightarrow> correctRequestInput \<Rightarrow> string \<Rightarrow> db \<Rightarrow> db res" where
  "correctRequest access env k dto actorId db =
     rbind (partyRequest access env k actorId db) (\<lambda>(r, roles).
     rbind (assertRequester roles) (\<lambda>_.
     if ar_status r \<noteq> QReturned then throw AssetRequestInvalidStateTransition
     else
       (let c = correctedRequest dto r in
        rbind (assertDates (ar_kind c) (ar_startDate c) (ar_expectedReturnDate c)) (\<lambda>_.
        rbind (assertCenters env db actorId (ar_requesterPersonId r) (ar_requestingCostCenterId c) (ar_ownerCostCenterId c))
          (\<lambda>_.
        (let next = statusAfterCorrection (ar_ownerCostCenterId c \<noteq> ar_ownerCostCenterId r) (ar_kind c \<noteq> ar_kind r)
               (ar_requestingCostCenterId c \<noteq> ar_requestingCostCenterId r) in
         rbind (assertAssetRequestTransition (ar_status r) next) (\<lambda>_.
         (let discarded = (if next = QRequested
                then map ri_assetId (filter (\<lambda>i. ri_requestId i = ar_id r) (db_requestItems db)) else []);
              db1 = (if next = QRequested
                then db\<lparr>db_requestItems := filter (\<lambda>i. ri_requestId i \<noteq> ar_id r) (db_requestItems db)\<rparr> else db);
              db2 = updateAssetRequest (ar_id r) (\<lambda>x. (correctedRequest dto r)\<lparr>ar_status := next,
                ar_acceptedBy := (if next = QRequested then None else ar_acceptedBy x),
                ar_acceptedAt := (if next = QRequested then None else ar_acceptedAt x),
                ar_expiresAt := (if next = QAccepted then Some (expiryFrom env) else None),
                ar_decidedBy := Some actorId, ar_decidedAt := Some (e_now env)\<rparr>) db1
          in Inr (sendNotices env (ar_id r) NoticeCorrected (if next = QRequested then [ToOwnerHeads] else [ToReviewers])
               (addRequestEvent (ar_id r) ''CORRECTED'' (Some (ar_status r)) (Some next) (Some actorId) None
                  ((''changed'', jStrings (changedFields r c)) #
                   (if discarded \<noteq> [] then [(''discardedAssetIds'', jStrings discarded)] else [])) db2))))))))))"

definition cancelRequest :: "loanAccess \<Rightarrow> env \<Rightarrow> string \<Rightarrow> string \<Rightarrow> string \<Rightarrow> db \<Rightarrow> db res" where
  "cancelRequest access env k reason actorId db =
     rbind (partyRequest access env k actorId db) (\<lambda>(r, roles).
     rbind (assertRequester roles) (\<lambda>_.
     rbind (assertAssetRequestTransition (ar_status r) QCancelled) (\<lambda>_.
       Inr (sendNotices env (ar_id r) NoticeCancelled
           (if ar_status r = QReturned then [ToOwnerHeads, ToReviewers] else [ToOwnerHeads])
         (addRequestEvent (ar_id r) ''CANCELLED'' (Some (ar_status r)) (Some QCancelled) (Some actorId)
            (Some (trim reason)) [] (setRequestStatus env (ar_id r) QCancelled actorId db))))))"

definition returnToRequester :: "loanAccess \<Rightarrow> env \<Rightarrow> string \<Rightarrow> string \<Rightarrow> string \<Rightarrow> db \<Rightarrow> db res" where
  "returnToRequester access env k reason actorId db =
     rbind (partyRequest access env k actorId db) (\<lambda>(r, roles).
     rbind (assertReviewer roles) (\<lambda>_.
     rbind (assertAssetRequestTransition (ar_status r) QReturned) (\<lambda>_.
       Inr (sendNotices env (ar_id r) NoticeReturned [ToRequester]
         (addRequestEvent (ar_id r) ''RETURNED'' (Some (ar_status r)) (Some QReturned) (Some actorId)
            (Some (trim reason)) []
            (updateAssetRequest (ar_id r) (\<lambda>x. x\<lparr>ar_status := QReturned, ar_expiresAt := Some (expiryFrom env),
               ar_decidedBy := Some actorId, ar_decidedAt := Some (e_now env)\<rparr>) db))))))"

section \<open>The document of a request\<close>

record generateRequestInput =
  gq_controlSignerPersonId :: "string option"
  gq_accountingSignerPersonId :: "string option"
  gq_signerSubstitutions :: "json option"
  gq_items :: "transferItemInput list option"
  gq_assetNotes :: "json option"
  gq_targetLocationId :: "string option"
  gq_justification :: "string option"

text \<open>The items of a request come from one acceptance, so their order is that of the assets.\<close>

definition acceptedAssets :: "db \<Rightarrow> string \<Rightarrow> string list" where
  "acceptedAssets db k =
     sort (map ri_assetId (filter (\<lambda>i. ri_requestId i = k \<and> ri_open i) (db_requestItems db)))"

definition justificationOf :: "generateRequestInput \<Rightarrow> assetRequest \<Rightarrow> string" where
  "justificationOf dto r =
     (case gq_justification dto of None \<Rightarrow> ar_description r | Some j \<Rightarrow> if trim j = [] then ar_description r else trim j)"

definition scheduleLoan ::
  "env \<Rightarrow> generateRequestInput \<Rightarrow> assetRequest \<Rightarrow> string list \<Rightarrow> string \<Rightarrow> db \<Rightarrow> (string \<times> db) res" where
  "scheduleLoan env dto r assetIds actorId db =
     createLoanWithin env
       \<lparr>cl_assetIds = assetIds, cl_targetCostCenterId = ar_requestingCostCenterId r,
        cl_targetLocationId = gq_targetLocationId dto, cl_contactPersonId = ar_requesterPersonId r,
        cl_expectedReturnDate = or_keep (ar_expectedReturnDate r) [], cl_justification = justificationOf dto r,
        cl_deliveryNotes = None, cl_startDate = ar_startDate r\<rparr>
       actorId None
       (Some \<lparr>ap_by = or_keep (ar_acceptedBy r) actorId, ap_at = or_keep (ar_acceptedAt r) (e_now env),
          ap_requestedBy = ar_requesterUserId r, ap_assetRequestId = ar_id r\<rparr>) db"

definition issueTransfer ::
  "env \<Rightarrow> generateRequestInput \<Rightarrow> assetRequest \<Rightarrow> string list \<Rightarrow> string \<Rightarrow> string \<Rightarrow> db \<Rightarrow> (string \<times> db) res" where
  "issueTransfer env dto r assetIds ownerPerson actorId db =
     (let items = or_keep (gq_items dto) []; given = map tx_assetId items in
      if length given \<noteq> length assetIds \<or> list_ex (\<lambda>a. a \<notin> set given) assetIds then throw ValidationFailed
      else
        rbind (createTransfer env
          \<lparr>ct_targetCostCenterId = ar_requestingCostCenterId r, ct_requesterPersonId = ownerPerson,
           ct_ownerPersonId = ar_requesterPersonId r, ct_justification = justificationOf dto r, ct_items = items\<rparr>
          actorId (Some (ar_id r)) db) (\<lambda>(t, db1).
        rbind (generateTransfer env t
          \<lparr>gt_controlSignerPersonId = (if falsy (gq_controlSignerPersonId dto) then None else gq_controlSignerPersonId dto),
           gt_accountingSignerPersonId =
             (if falsy (gq_accountingSignerPersonId dto) then None else gq_accountingSignerPersonId dto),
           gt_signerSubstitutions = gq_signerSubstitutions dto\<rparr> actorId db1) (\<lambda>db2. Inr (t, db2))))"

definition generateRequest ::
  "loanAccess \<Rightarrow> env \<Rightarrow> string \<Rightarrow> generateRequestInput \<Rightarrow> string \<Rightarrow> db \<Rightarrow> db res" where
  "generateRequest access env k dto actorId db =
     rbind (partyRequest access env k actorId db) (\<lambda>(r, roles).
     rbind (assertReviewer roles) (\<lambda>_.
     (let temporary = (ar_kind r = Temporary); next = (if temporary then QLoanScheduled else QDocumentGenerated) in
      rbind (assertAssetRequestTransition (ar_status r) next) (\<lambda>_.
      if temporary \<and> (gq_controlSignerPersonId dto \<noteq> None \<or> gq_signerSubstitutions dto \<noteq> None \<or> gq_assetNotes dto \<noteq> None)
      then throw ValidationFailed
      else
        rbind (currentFormat env db (if temporary then LOAN_DELIVERY_FORMAT else TRANSFER_FORMAT_KEY)) (\<lambda>f.
        if \<not> la_permits access actorId (df_generatePermission f) then throw InsufficientPermissions
        else
          (let assetIds = acceptedAssets db (ar_id r) in
           if assetIds = [] then throw InvalidState
           else if list_ex (\<lambda>a. a_id a \<in> set assetIds \<and> a_costCenterId a \<noteq> ar_ownerCostCenterId r) (db_assets db)
           then throw AssetRequestAssetUnavailable
           else
             (let ownerPerson = (case ar_acceptedBy r of None \<Rightarrow> None | Some u \<Rightarrow> if u = [] then None else personOf db u) in
              if falsy ownerPerson then throw InvalidState
              else
                (let db1 = releaseRequestItems (ar_id r) db;
                     decided = (\<lambda>loanId transferId x. x\<lparr>ar_status := next, ar_loanId := loanId, ar_transferId := transferId,
                       ar_expiresAt := None, ar_decidedBy := Some actorId, ar_decidedAt := Some (e_now env)\<rparr>)
                 in if temporary then
                      rbind (scheduleLoan env dto r assetIds actorId db1) (\<lambda>(loanId, db2).
                      rbind (case ar_startDate r of None \<Rightarrow> Inr [] | Some d \<Rightarrow> if d = [] then Inr [] else longSpanishDate d) (\<lambda>_.
                        Inr (sendNotices env (ar_id r) NoticeScheduled [ToRequester, ToOwnerHeads]
                          (addRequestEvent (ar_id r) ''LOAN_SCHEDULED'' (Some (ar_status r)) (Some next) (Some actorId) None
                             [(''loanId'', JStr loanId), (''startDate'', nullable (ar_startDate r)),
                              (''expectedReturnDate'', nullable (ar_expectedReturnDate r))]
                            (updateAssetRequest (ar_id r) (decided (Some loanId) None) db2)))))
                    else
                      rbind (issueTransfer env dto r assetIds (the ownerPerson) actorId db1) (\<lambda>(transferId, db2).
                        Inr (sendNotices env (ar_id r) NoticeGenerated [ToRequester, ToOwnerHeads]
                          (addRequestEvent (ar_id r) ''DOCUMENT_GENERATED'' (Some (ar_status r)) (Some next) (Some actorId) None
                             [(''transferId'', JStr transferId)]
                            (updateAssetRequest (ar_id r) (decided None (Some transferId)) db2))))))))))))"

section \<open>What the loan and the acts answer back\<close>

definition requestOfLoan :: "db \<Rightarrow> string option \<Rightarrow> string \<Rightarrow> assetRequest option" where
  "requestOfLoan db requestId loanId =
     (if falsy requestId then None
      else (case find (\<lambda>r. Some (ar_id r) = requestId \<and> ar_loanId r = Some loanId) (db_requests db) of
          None \<Rightarrow> None | Some r \<Rightarrow> if ar_status r \<noteq> QLoanScheduled then None else Some r))"

definition onLoanDelivered :: "env \<Rightarrow> loanDelivered \<Rightarrow> db \<Rightarrow> db res" where
  "onLoanDelivered env delivered db =
     (case requestOfLoan db (lo_requestId delivered) (lo_loanId delivered) of
        None \<Rightarrow> Inr db
      | Some r \<Rightarrow>
          rbind (assertAssetRequestTransition (ar_status r) QDocumentGenerated) (\<lambda>_.
          Inr (sendNotices env (ar_id r) NoticeGenerated [ToRequester, ToOwnerHeads]
            (addRequestEvent (ar_id r) ''LOAN_DELIVERED'' (Some (ar_status r)) (Some QDocumentGenerated)
               (Some (lo_actorId delivered)) None
               [(''loanId'', JStr (lo_loanId delivered)), (''deliveredAt'', JStr (toISOString (lo_deliveredAt delivered))),
                (''documentRequestId'', JStr (lo_documentRequestId delivered))]
              (updateAssetRequest (ar_id r) (\<lambda>x. x\<lparr>ar_status := QDocumentGenerated\<rparr>) db)))))"

definition closeByLoan ::
  "env \<Rightarrow> assetRequestStatus \<Rightarrow> string \<Rightarrow> noticeKind \<Rightarrow> loanEnded \<Rightarrow> db \<Rightarrow> db res" where
  "closeByLoan env next eventType notice ended db =
     (case requestOfLoan db (ln_requestId ended) (ln_loanId ended) of
        None \<Rightarrow> Inr db
      | Some r \<Rightarrow>
          rbind (assertAssetRequestTransition (ar_status r) next) (\<lambda>_.
          Inr (sendNotices env (ar_id r) notice [ToRequester, ToOwnerHeads, ToReviewers]
            (addRequestEvent (ar_id r) eventType (Some (ar_status r)) (Some next) (Some (ln_actorId ended))
               (Some (trim (ln_reason ended))) [(''loanId'', JStr (ln_loanId ended))]
              (releaseRequestItems (ar_id r) (updateAssetRequest (ar_id r) (\<lambda>x. x\<lparr>ar_status := next, ar_expiresAt := None,
                 ar_decidedBy := Some (ln_actorId ended), ar_decidedAt := Some (e_now env)\<rparr>) db))))))"

definition onLoanRejected :: "env \<Rightarrow> loanEnded \<Rightarrow> db \<Rightarrow> db res" where
  "onLoanRejected env = closeByLoan env QClosedLoanRejected ''LOAN_REJECTED'' NoticeLoanRejected"

definition onLoanCancelled :: "env \<Rightarrow> loanEnded \<Rightarrow> db \<Rightarrow> db res" where
  "onLoanCancelled env = closeByLoan env QClosedLoanCancelled ''LOAN_CANCELLED'' NoticeLoanCancelled"

definition requestListeners :: "env \<Rightarrow> loanListeners" where
  "requestListeners env =
     \<lparr>lr_delivered = [onLoanDelivered env], lr_rejected = [onLoanRejected env], lr_cancelled = [onLoanCancelled env]\<rparr>"

text \<open>The signature of the act of the loan or of the transfer of a request is noted once.\<close>

definition onDocumentSigned :: "env \<Rightarrow> (assetRequest \<Rightarrow> string option) \<Rightarrow> string \<Rightarrow> string \<Rightarrow> string \<Rightarrow> db \<Rightarrow> db res" where
  "onDocumentSigned env column entityId documentId number db =
     (case find (\<lambda>r. column r = Some entityId) (db_requests db) of
        None \<Rightarrow> Inr db
      | Some r \<Rightarrow>
          if list_ex (\<lambda>e. rv_requestId e = ar_id r \<and> rv_eventType e = ''DOCUMENT_COMPLETED'' \<and>
               map_of (rv_payload e) ''documentId'' = Some (JStr documentId)) (db_requestEvents db)
          then Inr db
          else Inr (sendNotices env (ar_id r) NoticeCompleted [ToRequester, ToOwnerHeads]
            (addRequestEvent (ar_id r) ''DOCUMENT_COMPLETED'' (Some (ar_status r)) (Some (ar_status r)) None None
              [(''documentId'', JStr documentId), (''number'', JStr number)] db)))"

definition loanSignedObserver :: lifecycleCallback where
  "loanSignedObserver env event db =
     (if lv_formatKey event = LOAN_DELIVERY_FORMAT \<and> \<not> falsy (lv_entityId event)
      then onDocumentSigned env ar_loanId (the (lv_entityId event)) (lv_documentId event) (lv_number event) db else Inr db)"

definition transferSignedObserver :: lifecycleCallback where
  "transferSignedObserver env event db =
     (if lv_formatKey event = TRANSFER_FORMAT_KEY \<and> \<not> falsy (lv_entityId event)
      then onDocumentSigned env ar_transferId (the (lv_entityId event)) (lv_documentId event) (lv_number event) db else Inr db)"

definition registerRequestObservers :: "lifecycleRegistry \<Rightarrow> lifecycleRegistry" where
  "registerRequestObservers rg =
     observePhase TRANSFER_ENTITY_TYPE OnSigned transferSignedObserver
       (observePhase LOAN_DOCUMENT_ENTITY OnSigned loanSignedObserver rg)"

section \<open>The jobs\<close>

text \<open>
  A job runs one transaction per request, at most \<open>limit\<close> of them, and stops when none is due; the
  result is the number of requests it handled and the database, and whether a transaction failed.
\<close>

definition startingLoan :: "env \<Rightarrow> db \<Rightarrow> assetRequest \<Rightarrow> loan option" where
  "startingLoan env db r =
     (if ar_status r \<noteq> QLoanScheduled then None
      else (case find (\<lambda>l. Some (l_id l) = ar_loanId r) (db_loans db) of
          None \<Rightarrow> None
        | Some l \<Rightarrow>
            (if l_status l = LApproved \<and> l_startDate l \<noteq> None \<and> the (l_startDate l) \<le> localeIsoDate (e_now env) \<and>
                \<not> list_ex (\<lambda>e. rv_requestId e = ar_id r \<and> rv_eventType e = ''LOAN_START_NOTICE'' \<and>
                    map_of (rv_payload e) ''loanId'' = Some (JStr (l_id l))) (db_requestEvents db)
             then Some l else None)))"

definition noticeOneStart :: "env \<Rightarrow> db \<Rightarrow> db res option" where
  "noticeOneStart env db =
     (case sort_key (\<lambda>(r, l). the (l_startDate l)) (sort_key (\<lambda>(r, l). ar_id r)
          (List.map_filter (\<lambda>r. map_option (\<lambda>l. (r, l)) (startingLoan env db r)) (db_requests db))) of
        [] \<Rightarrow> None
      | (r, l) # _ \<Rightarrow>
          Some (rbind (longSpanishDate (the (l_startDate l))) (\<lambda>_.
            Inr (sendNotices env (ar_id r) NoticeLoanStarts [ToRequester, ToOwnerHeads]
              (addRequestEvent (ar_id r) ''LOAN_START_NOTICE'' (Some QLoanScheduled) (Some QLoanScheduled) None None
                [(''loanId'', JStr (l_id l)), (''startDate'', JStr (the (l_startDate l)))] db)))))"

fun runLimited :: "(db \<Rightarrow> db res option) \<Rightarrow> nat \<Rightarrow> db \<Rightarrow> nat \<times> db \<times> failure option" where
  "runLimited step 0 db = (0, db, None)"
| "runLimited step (Suc n) db =
     (case step db of
        None \<Rightarrow> (0, db, None)
      | Some (Inl e) \<Rightarrow> (0, db, Some e)
      | Some (Inr db') \<Rightarrow> (case runLimited step n db' of (handled, db'', e) \<Rightarrow> (Suc handled, db'', e)))"

definition noticeLoanStarts :: "env \<Rightarrow> nat \<Rightarrow> db \<Rightarrow> nat \<times> db \<times> failure option" where
  "noticeLoanStarts env limit db = runLimited (noticeOneStart env) limit db"

definition dueRequest :: "env \<Rightarrow> assetRequest \<Rightarrow> bool" where
  "dueRequest env r \<longleftrightarrow> ar_status r \<in> set EXPIRING_STATUSES \<and>
     (case ar_expiresAt r of None \<Rightarrow> False | Some t \<Rightarrow> t \<le> e_now env)"

definition expireOne :: "env \<Rightarrow> db \<Rightarrow> db res option" where
  "expireOne env db =
     (case sort_key (\<lambda>r. the (ar_expiresAt r)) (filter (dueRequest env) (db_requests db)) of
        [] \<Rightarrow> None
      | r # _ \<Rightarrow>
          (let returned = (if ar_status r = QReturned
                 then find (\<lambda>e. rv_requestId e = ar_id r \<and> rv_eventType e = ''RETURNED'') (rev (db_requestEvents db)) else None)
           in Some (rbind (assertAssetRequestTransition (ar_status r) QExpired) (\<lambda>_.
             Inr (sendNotices env (ar_id r) NoticeExpired [ToRequester, ToOwnerHeads, ToReviewers]
               (addRequestEvent (ar_id r) ''EXPIRED'' (Some (ar_status r)) (Some QExpired) None None
                  ((''expiresAt'', JStr (toISOString (the (ar_expiresAt r)))) #
                   (if ar_status r = QReturned then [(''expiredFrom'', JStr ''RETURNED''),
                      (''returnReason'', nullable (case returned of None \<Rightarrow> None | Some e \<Rightarrow> rv_reason e))] else []))
                 (releaseRequestItems (ar_id r) (updateAssetRequest (ar_id r) (\<lambda>x. x\<lparr>ar_status := QExpired, ar_decidedBy := None,
                    ar_decidedAt := Some (e_now env)\<rparr>) db))))))))"

definition expireDue :: "env \<Rightarrow> nat \<Rightarrow> db \<Rightarrow> nat \<times> db \<times> failure option" where
  "expireDue env limit db = runLimited (expireOne env) limit db"

text \<open>The jobs run while loans are enabled; a run that finds another one going does nothing.\<close>

definition runRequestExpiry :: "(string \<Rightarrow> bool) \<Rightarrow> env \<Rightarrow> db \<Rightarrow> db" where
  "runRequestExpiry enabled env db = (if \<not> enabled ''loans'' then db else fst (snd (expireDue env 50 db)))"

definition runLoanStart :: "(string \<Rightarrow> bool) \<Rightarrow> env \<Rightarrow> db \<Rightarrow> db" where
  "runLoanStart enabled env db = (if \<not> enabled ''loans'' then db else fst (snd (noticeLoanStarts env 200 db)))"

section \<open>Reads\<close>

definition ownerAvailability :: "env \<Rightarrow> db \<Rightarrow> string \<Rightarrow> string \<Rightarrow> bool" where
  "ownerAvailability env db costCenterId actorId = (0 < headCount env db costCenterId (personOf db actorId))"

definition ownerOnly :: "env \<Rightarrow> string \<Rightarrow> string \<Rightarrow> db \<Rightarrow> assetRequest res" where
  "ownerOnly env k userId db =
     (case requestRow db k of
        None \<Rightarrow> throw ResourceNotFound
      | Some r \<Rightarrow>
          if ar_requesterUserId r = userId \<or> \<not> isHead env db userId (ar_ownerCostCenterId r) then throw ResourceNotFound
          else Inr r)"

end
