(* ===== verification/RequestSteps.thy ===== *)
theory RequestSteps
  imports AssetRequests
begin

text \<open>
  What the operations of src/src/modules/asset-requests keep: the rows satisfy the CHECK constraints and the
  unique indexes of their tables, whoever accepts a request did not make it, and only a request that holds
  assets has open items. Each operation on one request is shown to have one kind of effect, so the invariant
  is proved once. The loan that a request schedules answers back in the transaction that ends it.
\<close>

section \<open>The constraints of the table\<close>

definition requestTermsCheck :: "assetRequest \<Rightarrow> bool" where
  "requestTermsCheck r \<longleftrightarrow> ar_requestingCostCenterId r \<noteq> ar_ownerCostCenterId r \<and>
     (ar_kind r = Permanent \<or> ar_startDate r \<noteq> None \<and> ar_expectedReturnDate r \<noteq> None \<and>
       the (ar_startDate r) \<le> the (ar_expectedReturnDate r))"

definition requestExpiryCheck :: "assetRequest \<Rightarrow> bool" where
  "requestExpiryCheck r \<longleftrightarrow> ar_status r \<notin> {QAccepted, QReturned} \<or> ar_expiresAt r \<noteq> None"

definition requestAcceptedCheck :: "assetRequest \<Rightarrow> bool" where
  "requestAcceptedCheck r \<longleftrightarrow>
     ar_status r \<notin> {QAccepted, QLoanScheduled, QDocumentGenerated, QClosedLoanRejected, QClosedLoanCancelled, QExpired} \<or>
     ar_acceptedBy r \<noteq> None \<and> ar_acceptedAt r \<noteq> None"

definition requestDocumentCheck :: "assetRequest \<Rightarrow> bool" where
  "requestDocumentCheck r \<longleftrightarrow>
     (ar_status r \<notin> {QLoanScheduled, QClosedLoanRejected, QClosedLoanCancelled} \<or>
       ar_kind r = Temporary \<and> ar_loanId r \<noteq> None \<and> ar_transferId r = None) \<and>
     (ar_status r \<noteq> QDocumentGenerated \<or>
       ar_kind r = Temporary \<and> ar_loanId r \<noteq> None \<and> ar_transferId r = None \<or>
       ar_kind r = Permanent \<and> ar_transferId r \<noteq> None \<and> ar_loanId r = None)"

definition requestChecks :: "assetRequest \<Rightarrow> bool" where
  "requestChecks r \<longleftrightarrow>
     requestTermsCheck r \<and> requestExpiryCheck r \<and> requestAcceptedCheck r \<and> requestDocumentCheck r"

lemmas requestChecks_defs =
  requestChecks_def requestTermsCheck_def requestExpiryCheck_def requestAcceptedCheck_def requestDocumentCheck_def

text \<open>A returned request was accepted before; nobody accepts the own request.\<close>

definition requestRowOk :: "assetRequest \<Rightarrow> bool" where
  "requestRowOk r \<longleftrightarrow> requestChecks r \<and> ar_acceptedBy r \<noteq> Some (ar_requesterUserId r) \<and>
     (ar_status r = QReturned \<longrightarrow> ar_acceptedBy r \<noteq> None \<and> ar_acceptedAt r \<noteq> None)"

section \<open>The effect of an operation on one request\<close>

definition setRequestItems :: "requestItem list \<Rightarrow> db \<Rightarrow> db" where
  "setRequestItems t db = db\<lparr>db_requestItems := t\<rparr>"

interpretation requestItems: openItems db_requestItems setRequestItems ri_requestId ri_assetId ri_open closeRequestItem
  by unfold_locales (auto simp: setRequestItems_def closeRequestItem_def)

definition requestEffect :: "db \<Rightarrow> db \<Rightarrow> bool" where
  "requestEffect db db' \<longleftrightarrow> (\<exists>r\<in>set (db_requests db). \<exists>f. (\<forall>x. ar_id (f x) = ar_id x) \<and>
     db_requests db' = update_where (\<lambda>x. ar_id x = ar_id r) f (db_requests db) \<and>
     (ar_status (f r) = ar_status r \<or> canAssetRequestTransition (ar_status r) (ar_status (f r))) \<and>
     (requestRowOk r \<longrightarrow> requestRowOk (f r)) \<and>
     filter (\<lambda>i. ri_requestId i \<noteq> ar_id r) (db_requestItems db') = filter (\<lambda>i. ri_requestId i \<noteq> ar_id r) (db_requestItems db) \<and>
     (exclusiveOpen ri_assetId ri_open (db_requestItems db) \<longrightarrow> exclusiveOpen ri_assetId ri_open (db_requestItems db')) \<and>
     (\<forall>i\<in>set (db_requestItems db'). ri_open i \<and> ri_requestId i = ar_id r \<longrightarrow>
       ar_status (f r) \<in> set HOLDING_STATUSES \<or> i \<in> set (db_requestItems db) \<and> ar_status r \<notin> set HOLDING_STATUSES) \<and>
     db_seq db \<le> db_seq db')"

definition requestInv :: "(nat \<Rightarrow> string) \<Rightarrow> db \<Rightarrow> bool" where
  "requestInv uuid db \<longleftrightarrow>
     distinct (map ar_id (db_requests db)) \<and> ar_id ` set (db_requests db) \<subseteq> uuid ` {..<db_seq db} \<and>
     list_all requestRowOk (db_requests db) \<and> exclusiveOpen ri_assetId ri_open (db_requestItems db) \<and>
     (\<forall>i\<in>set (db_requestItems db). ri_open i \<longrightarrow>
       (\<exists>r\<in>set (db_requests db). ar_id r = ri_requestId i \<and> ar_status r \<in> set HOLDING_STATUSES))"

abbreviation requestsFollow :: "db \<Rightarrow> db \<Rightarrow> bool" where
  "requestsFollow db db' \<equiv> advances ar_id ar_status canAssetRequestTransition (db_requests db) (db_requests db')"

lemma requestInvD:
  assumes "requestInv uuid db"
  shows "distinct (map ar_id (db_requests db))" "ar_id ` set (db_requests db) \<subseteq> uuid ` {..<db_seq db}"
    "r \<in> set (db_requests db) \<Longrightarrow> requestRowOk r" "exclusiveOpen ri_assetId ri_open (db_requestItems db)"
    "i \<in> set (db_requestItems db) \<Longrightarrow> ri_open i \<Longrightarrow>
       \<exists>r\<in>set (db_requests db). ar_id r = ri_requestId i \<and> ar_status r \<in> set HOLDING_STATUSES"
  using assms by (simp_all add: requestInv_def list_all_iff)

lemma requestEffect_inv:
  assumes effect: "requestEffect db db'" and inv: "requestInv uuid db"
  shows "requestInv uuid db' \<and> requestsFollow db db'"
proof -
  obtain r f where r: "r \<in> set (db_requests db)" "\<forall>x. ar_id (f x) = ar_id x"
    "db_requests db' = update_where (\<lambda>x. ar_id x = ar_id r) f (db_requests db)"
    "ar_status (f r) = ar_status r \<or> canAssetRequestTransition (ar_status r) (ar_status (f r))"
    "requestRowOk r \<longrightarrow> requestRowOk (f r)"
    "filter (\<lambda>i. ri_requestId i \<noteq> ar_id r) (db_requestItems db') = filter (\<lambda>i. ri_requestId i \<noteq> ar_id r) (db_requestItems db)"
    "exclusiveOpen ri_assetId ri_open (db_requestItems db) \<longrightarrow> exclusiveOpen ri_assetId ri_open (db_requestItems db')"
    "\<forall>i\<in>set (db_requestItems db'). ri_open i \<and> ri_requestId i = ar_id r \<longrightarrow>
       ar_status (f r) \<in> set HOLDING_STATUSES \<or> i \<in> set (db_requestItems db) \<and> ar_status r \<notin> set HOLDING_STATUSES"
    "db_seq db \<le> db_seq db'"
    using effect unfolding requestEffect_def by (elim bexE exE conjE) (rule that; assumption)
  note d = requestInvD [OF inv]
  have row: "x = r" if "x \<in> set (db_requests db)" "ar_id x = ar_id r" for x
    by (rule only_row [OF d(1) r(1) that])
  have here: "(if ar_id x = ar_id r then f x else x) \<in> set (db_requests db')" if "x \<in> set (db_requests db)" for x
    unfolding r(3) in_update_where using that by blast
  have ids: "map ar_id (db_requests db') = map ar_id (db_requests db)" unfolding r(3) by (rule map_update_where) (simp add: r(2))
  then have idset: "ar_id ` set (db_requests db') = ar_id ` set (db_requests db)" by (metis set_map)
  have "requestInv uuid db'"
    unfolding requestInv_def
  proof (intro conjI ballI impI)
    show "distinct (map ar_id (db_requests db'))" using d(1) by (simp add: ids)
    show "ar_id ` set (db_requests db') \<subseteq> uuid ` {..<db_seq db'}" unfolding idset by (rule ids_grow [OF d(2) r(9)])
    have "requestRowOk (if ar_id x = ar_id r then f x else x)" if "x \<in> set (db_requests db)" for x
      using d(3) [OF that] row [OF that] r(5) by auto
    then show "list_all requestRowOk (db_requests db')" unfolding list_all_iff r(3) set_update_where by blast
    show "exclusiveOpen ri_assetId ri_open (db_requestItems db')" using r(7) d(4) by blast
  next
    fix i
    assume i: "i \<in> set (db_requestItems db')" "ri_open i"
    show "\<exists>r\<in>set (db_requests db'). ar_id r = ri_requestId i \<and> ar_status r \<in> set HOLDING_STATUSES"
    proof (cases "ri_requestId i = ar_id r")
      case True
      have "ar_status (f r) \<in> set HOLDING_STATUSES"
      proof (rule ccontr)
        assume "ar_status (f r) \<notin> set HOLDING_STATUSES"
        then have "i \<in> set (db_requestItems db)" "ar_status r \<notin> set HOLDING_STATUSES"
          using r(8) i True by blast+
        then show False using d(5) [of i] i(2) True row by force
      qed
      then show ?thesis using here [OF r(1)] True r(2) by (intro bexI [of _ "f r"]) simp_all
    next
      case False
      then have "i \<in> set (filter (\<lambda>i. ri_requestId i \<noteq> ar_id r) (db_requestItems db'))" using i(1) by simp
      then have "i \<in> set (db_requestItems db)" unfolding r(6) by simp
      then obtain x where "x \<in> set (db_requests db)" "ar_id x = ri_requestId i" "ar_status x \<in> set HOLDING_STATUSES"
        using d(5) i(2) by blast
      then show ?thesis using here [of x] False by (intro bexI [of _ x]) simp_all
    qed
  qed
  moreover have "requestsFollow db db'"
    unfolding r(3)
  proof (rule advances_update)
    fix u
    assume "u \<in> set (db_requests db)" "ar_id u = ar_id r"
    then have "u = r" by (rule row)
    then show "ar_id (f u) = ar_id r \<and> (ar_status (f u) = ar_status u \<or> canAssetRequestTransition (ar_status u) (ar_status (f u)))"
      using r(2,4) by simp
  qed
  ultimately show ?thesis by blast
qed

section \<open>Frames\<close>

lemma addRequestEvent_frame [simp]:
  "db_requests (addRequestEvent k ty s t a r p db) = db_requests db"
  "db_requestItems (addRequestEvent k ty s t a r p db) = db_requestItems db"
  "db_loans (addRequestEvent k ty s t a r p db) = db_loans db" "db_loanItems (addRequestEvent k ty s t a r p db) = db_loanItems db"
  "db_assets (addRequestEvent k ty s t a r p db) = db_assets db" "db_movements (addRequestEvent k ty s t a r p db) = db_movements db"
  "db_seq (addRequestEvent k ty s t a r p db) = db_seq db"
  by (simp_all add: addRequestEvent_def)

lemma sendNotices_rows: "\<exists>m n. sendNotices env k kind audiences db = db\<lparr>db_mails := m, db_notifications := n\<rparr>"
proof -
  have "\<exists>m n. foldl (sendOne kind k) d rows = d\<lparr>db_mails := m, db_notifications := n\<rparr>" for d rows
  proof (induction rows arbitrary: d)
    case Nil
    show ?case by (rule exI [of _ "db_mails d"], rule exI [of _ "db_notifications d"]) simp
  next
    case (Cons row rows)
    have "\<exists>m n. sendOne kind k d row = d\<lparr>db_mails := m, db_notifications := n\<rparr>"
      by (rule exI [of _ "db_mails (sendOne kind k d row)"], rule exI [of _ "db_notifications (sendOne kind k d row)"])
        (simp add: sendOne_def Let_def split: option.split)
    then obtain m n where one: "sendOne kind k d row = d\<lparr>db_mails := m, db_notifications := n\<rparr>" by blast
    obtain m' n' where "foldl (sendOne kind k) (sendOne kind k d row) rows =
        (sendOne kind k d row)\<lparr>db_mails := m', db_notifications := n'\<rparr>" using Cons.IH by blast
    then show ?case by (intro exI [of _ m'] exI [of _ n']) (simp add: one)
  qed
  moreover have "\<exists>m n. db = db\<lparr>db_mails := m, db_notifications := n\<rparr>"
    by (rule exI [of _ "db_mails db"], rule exI [of _ "db_notifications db"]) simp
  ultimately show ?thesis unfolding sendNotices_def by (simp split: option.split)
qed

lemma sendNotices_frame [simp]:
  "db_requests (sendNotices env k kind audiences db) = db_requests db"
  "db_requestItems (sendNotices env k kind audiences db) = db_requestItems db"
  "db_requestEvents (sendNotices env k kind audiences db) = db_requestEvents db"
  "db_loans (sendNotices env k kind audiences db) = db_loans db" "db_loanItems (sendNotices env k kind audiences db) = db_loanItems db"
  "db_assets (sendNotices env k kind audiences db) = db_assets db" "db_movements (sendNotices env k kind audiences db) = db_movements db"
  "db_seq (sendNotices env k kind audiences db) = db_seq db"
proof -
  obtain m n where "sendNotices env k kind audiences db = db\<lparr>db_mails := m, db_notifications := n\<rparr>"
    using sendNotices_rows by blast
  then show "db_requests (sendNotices env k kind audiences db) = db_requests db"
    "db_requestItems (sendNotices env k kind audiences db) = db_requestItems db"
    "db_requestEvents (sendNotices env k kind audiences db) = db_requestEvents db"
    "db_loans (sendNotices env k kind audiences db) = db_loans db" "db_loanItems (sendNotices env k kind audiences db) = db_loanItems db"
    "db_assets (sendNotices env k kind audiences db) = db_assets db" "db_movements (sendNotices env k kind audiences db) = db_movements db"
    "db_seq (sendNotices env k kind audiences db) = db_seq db"
    by simp_all
qed

lemma updateAssetRequest_frame [simp]:
  "db_requests (updateAssetRequest k f db) = update_where (\<lambda>r. ar_id r = k) f (db_requests db)"
  "db_requestItems (updateAssetRequest k f db) = db_requestItems db" "db_requestEvents (updateAssetRequest k f db) = db_requestEvents db"
  "db_loans (updateAssetRequest k f db) = db_loans db" "db_loanItems (updateAssetRequest k f db) = db_loanItems db"
  "db_assets (updateAssetRequest k f db) = db_assets db" "db_movements (updateAssetRequest k f db) = db_movements db"
  "db_seq (updateAssetRequest k f db) = db_seq db"
  by (simp_all add: updateAssetRequest_def)

lemma releaseRequestItems_frame [simp]:
  "db_requests (releaseRequestItems k db) = db_requests db"
  "db_requestItems (releaseRequestItems k db) = update_where (\<lambda>i. ri_requestId i = k) closeRequestItem (db_requestItems db)"
  "db_requestEvents (releaseRequestItems k db) = db_requestEvents db"
  "db_loans (releaseRequestItems k db) = db_loans db" "db_loanItems (releaseRequestItems k db) = db_loanItems db"
  "db_assets (releaseRequestItems k db) = db_assets db" "db_movements (releaseRequestItems k db) = db_movements db"
  "db_seq (releaseRequestItems k db) = db_seq db"
  by (simp_all add: releaseRequestItems_def)

section \<open>Operations on one request\<close>

lemma partyRequest_Inr:
  "partyRequest access env k actorId db = Inr (r, roles) \<Longrightarrow>
   r \<in> set (db_requests db) \<and> ar_id r = k \<and> roles = viewerRoles access env db r actorId"
  unfolding partyRequest_def requestRow_def Let_def
  by (auto split: option.splits if_splits dest: find_SomeD)

lemma assertAssetRequestTransition_Inr [simp]:
  "assertAssetRequestTransition s t = Inr u \<longleftrightarrow> canAssetRequestTransition s t"
  by (simp add: assertAssetRequestTransition_def)

lemma requestEffect_closed:
  assumes "r \<in> set (db_requests db)" "\<forall>x. ar_id (f x) = ar_id x"
    "db_requests db' = update_where (\<lambda>x. ar_id x = ar_id r) f (db_requests db)"
    "canAssetRequestTransition (ar_status r) (ar_status (f r))" "requestRowOk r \<longrightarrow> requestRowOk (f r)"
    "db_requestItems db' = update_where (\<lambda>i. ri_requestId i = ar_id r) closeRequestItem (db_requestItems db)"
    "db_seq db \<le> db_seq db'"
  shows "requestEffect db db'"
  unfolding requestEffect_def
proof (rule bexI [OF _ assms(1)], rule exI [of _ f], intro conjI ballI impI)
  show "filter (\<lambda>i. ri_requestId i \<noteq> ar_id r) (db_requestItems db') = filter (\<lambda>i. ri_requestId i \<noteq> ar_id r) (db_requestItems db)"
    unfolding assms(6) by (rule requestItems.other_items_kept)
  show "exclusiveOpen ri_assetId ri_open (db_requestItems db')" if "exclusiveOpen ri_assetId ri_open (db_requestItems db)"
    using requestItems.close_keeps_exclusive [OF that, of "ar_id r"] by (simp add: assms(6) setRequestItems_def)
  show "ar_status (f r) \<in> set HOLDING_STATUSES \<or> i \<in> set (db_requestItems db) \<and> ar_status r \<notin> set HOLDING_STATUSES"
    if "i \<in> set (db_requestItems db')" "ri_open i \<and> ri_requestId i = ar_id r" for i
    using requestItems.nothing_open [OF that(1) [unfolded assms(6)]] that(2) by simp
qed (use assms in auto)

lemma requestEffect_same:
  assumes "r \<in> set (db_requests db)" "\<forall>x. ar_id (f x) = ar_id x"
    "db_requests db' = update_where (\<lambda>x. ar_id x = ar_id r) f (db_requests db)"
    "ar_status (f r) = ar_status r \<or> canAssetRequestTransition (ar_status r) (ar_status (f r))"
    "requestRowOk r \<longrightarrow> requestRowOk (f r)"
    "db_requestItems db' = db_requestItems db" "ar_status r \<in> set HOLDING_STATUSES \<longrightarrow> ar_status (f r) \<in> set HOLDING_STATUSES"
    "db_seq db \<le> db_seq db'"
  shows "requestEffect db db'"
  unfolding requestEffect_def
  by (rule bexI [OF _ assms(1)], rule exI [of _ f], intro conjI ballI impI) (use assms in auto)

lemma canRequest_cases:
  "canAssetRequestTransition s QClosedByOwner \<longleftrightarrow> s = QRequested"
  "canAssetRequestTransition s QCancelled \<longleftrightarrow> s = QRequested \<or> s = QReturned"
  "canAssetRequestTransition s QExpired \<longleftrightarrow> s = QAccepted \<or> s = QReturned"
  "canAssetRequestTransition s QReturned \<longleftrightarrow> s = QAccepted"
  "canAssetRequestTransition s QAccepted \<longleftrightarrow> s = QRequested \<or> s = QReturned"
  "canAssetRequestTransition s QLoanScheduled \<longleftrightarrow> s = QAccepted"
  "canAssetRequestTransition s QDocumentGenerated \<longleftrightarrow> s = QAccepted \<or> s = QLoanScheduled"
  "canAssetRequestTransition s QClosedLoanRejected \<longleftrightarrow> s = QLoanScheduled"
  "canAssetRequestTransition s QClosedLoanCancelled \<longleftrightarrow> s = QLoanScheduled"
  "canAssetRequestTransition s QRequested \<longleftrightarrow> s = QReturned"
  by (cases s; simp add: canAssetRequestTransition_def)+

lemmas requestRow_simps = requestRowOk_def requestChecks_defs canRequest_cases

lemma closeRequest_effect:
  assumes "closeRequest access env k reason actorId db = Inr db'"
  shows "requestEffect db db'"
proof -
  obtain r roles where s: "partyRequest access env k actorId db = Inr (r, roles)"
    "canAssetRequestTransition (ar_status r) QClosedByOwner"
    "db' = sendNotices env (ar_id r) NoticeClosed [ToRequester, ToReviewers]
       (addRequestEvent (ar_id r) ''CLOSED_BY_OWNER'' (Some (ar_status r)) (Some QClosedByOwner) (Some actorId)
         (Some (trim reason)) [] (setRequestStatus env (ar_id r) QClosedByOwner actorId db))"
    using assms unfolding closeRequest_def by (auto simp: rbind_eq_Inr)
  have r: "r \<in> set (db_requests db)" using partyRequest_Inr [OF s(1)] by simp
  show ?thesis
    by (rule requestEffect_closed [OF r, of "\<lambda>x. x\<lparr>ar_status := QClosedByOwner, ar_expiresAt := None,
       ar_decidedBy := Some actorId, ar_decidedAt := Some (e_now env)\<rparr>"])
      (use s(2) in \<open>auto simp: s(3) setRequestStatus_def requestRow_simps\<close>)
qed

lemma cancelRequest_effect:
  assumes "cancelRequest access env k reason actorId db = Inr db'"
  shows "requestEffect db db'"
proof -
  obtain r roles audiences where s: "partyRequest access env k actorId db = Inr (r, roles)"
    "canAssetRequestTransition (ar_status r) QCancelled"
    "db' = sendNotices env (ar_id r) NoticeCancelled audiences
       (addRequestEvent (ar_id r) ''CANCELLED'' (Some (ar_status r)) (Some QCancelled) (Some actorId)
         (Some (trim reason)) [] (setRequestStatus env (ar_id r) QCancelled actorId db))"
    using assms unfolding cancelRequest_def by (auto simp: rbind_eq_Inr)
  have r: "r \<in> set (db_requests db)" using partyRequest_Inr [OF s(1)] by simp
  show ?thesis
    by (rule requestEffect_closed [OF r, of "\<lambda>x. x\<lparr>ar_status := QCancelled, ar_expiresAt := None,
       ar_decidedBy := Some actorId, ar_decidedAt := Some (e_now env)\<rparr>"])
      (use s(2) in \<open>auto simp: s(3) setRequestStatus_def requestRow_simps\<close>)
qed

lemma returnToRequester_effect:
  assumes "returnToRequester access env k reason actorId db = Inr db'"
  shows "requestEffect db db'"
proof -
  define f where "f = (\<lambda>x :: assetRequest. x\<lparr>ar_status := QReturned, ar_expiresAt := Some (expiryFrom env),
    ar_decidedBy := Some actorId, ar_decidedAt := Some (e_now env)\<rparr>)"
  obtain r roles where s: "partyRequest access env k actorId db = Inr (r, roles)"
    "canAssetRequestTransition (ar_status r) QReturned"
    "db' = sendNotices env (ar_id r) NoticeReturned [ToRequester]
       (addRequestEvent (ar_id r) ''RETURNED'' (Some (ar_status r)) (Some QReturned) (Some actorId)
         (Some (trim reason)) [] (updateAssetRequest (ar_id r) f db))"
    using assms unfolding returnToRequester_def f_def by (auto simp: rbind_eq_Inr)
  have r: "r \<in> set (db_requests db)" using partyRequest_Inr [OF s(1)] by simp
  show ?thesis
    by (rule requestEffect_same [OF r, of f])
      (use s(2) in \<open>auto simp: s(3) f_def requestRow_simps HOLDING_STATUSES_def\<close>)
qed

text \<open>An acceptance adds open items of the request, one per asset.\<close>

lemma insertRequestItems_Inr:
  assumes "foldM (insertRequestItem k) db assetIds = Inr db'"
  shows "db' = db\<lparr>db_requestItems := db_requestItems db @ map (requestItemRow k) assetIds\<rparr> \<and>
    (exclusiveOpen ri_assetId ri_open (db_requestItems db) \<longrightarrow> exclusiveOpen ri_assetId ri_open (db_requestItems db'))"
  using assms
proof (induction assetIds arbitrary: db)
  case Nil
  then show ?case by simp
next
  case (Cons a rest)
  obtain db1 where "insertRequestItem k db a = Inr db1" and later: "foldM (insertRequestItem k) db1 rest = Inr db'"
    using Cons.prems by (auto simp: rbind_eq_Inr)
  then obtain rows where one: "insertOpen ri_assetId ri_open AssetRequestAssetUnavailable (db_requestItems db) (requestItemRow k a) = Inr rows"
    and "db1 = db\<lparr>db_requestItems := rows\<rparr>"
    by (auto simp: insertRequestItem_def res_simps)
  then have rest: "foldM (insertRequestItem k) (db\<lparr>db_requestItems := rows\<rparr>) rest = Inr db'" using later by simp
  show ?case
    using Cons.IH [OF rest] insertOpen_rows [OF one] insertOpen_exclusive [OF one] by auto
qed

lemma acceptRequest_Inr:
  assumes "acceptRequest access env k dto actorId db = Inr db'"
  obtains r roles p where "partyRequest access env k actorId db = Inr (r, roles)" "r \<in> set (db_requests db)" "ar_id r = k"
    "OwnerHead \<in> set roles" "ar_requesterUserId r \<noteq> actorId" "canAssetRequestTransition (ar_status r) QAccepted"
    "assertEligible db r (uniq (aq_assetIds dto)) = Inr ()"
    "foldM (insertRequestItem k) db (uniq (aq_assetIds dto)) =
       Inr (db\<lparr>db_requestItems := db_requestItems db @ map (requestItemRow k) (uniq (aq_assetIds dto))\<rparr>)"
    "db' = sendNotices env k NoticeAccepted [ToRequester, ToReviewers]
      (addRequestEvent k ''ACCEPTED'' (Some (ar_status r)) (Some QAccepted) (Some actorId) (noteOrNull (aq_note dto)) p
        (updateAssetRequest k (\<lambda>x. x\<lparr>ar_status := QAccepted, ar_acceptedBy := Some actorId,
           ar_acceptedAt := Some (e_now env), ar_decidedBy := Some actorId, ar_decidedAt := Some (e_now env),
           ar_expiresAt := Some (expiryFrom env)\<rparr>)
          (db\<lparr>db_requestItems := db_requestItems db @ map (requestItemRow k) (uniq (aq_assetIds dto))\<rparr>)))"
proof -
  obtain r roles db1 p where s: "partyRequest access env k actorId db = Inr (r, roles)" "assertOwnerHead r roles actorId = Inr ()"
    "canAssetRequestTransition (ar_status r) QAccepted" "assertEligible db r (uniq (aq_assetIds dto)) = Inr ()"
    "foldM (insertRequestItem (ar_id r)) db (uniq (aq_assetIds dto)) = Inr db1"
    "db' = sendNotices env (ar_id r) NoticeAccepted [ToRequester, ToReviewers]
      (addRequestEvent (ar_id r) ''ACCEPTED'' (Some (ar_status r)) (Some QAccepted) (Some actorId) (noteOrNull (aq_note dto)) p
        (updateAssetRequest (ar_id r) (\<lambda>x. x\<lparr>ar_status := QAccepted, ar_acceptedBy := Some actorId,
           ar_acceptedAt := Some (e_now env), ar_decidedBy := Some actorId, ar_decidedAt := Some (e_now env),
           ar_expiresAt := Some (expiryFrom env)\<rparr>) db1))"
    using assms unfolding acceptRequest_def Let_def by (auto simp: rbind_eq_Inr)
  have r: "r \<in> set (db_requests db)" "ar_id r = k" using partyRequest_Inr [OF s(1)] by simp_all
  have head: "OwnerHead \<in> set roles" "ar_requesterUserId r \<noteq> actorId"
    using s(2) by (auto simp: assertOwnerHead_def split: if_splits)
  have "db1 = db\<lparr>db_requestItems := db_requestItems db @ map (requestItemRow k) (uniq (aq_assetIds dto))\<rparr>"
    using insertRequestItems_Inr [OF s(5)] by (simp add: r(2))
  then show thesis
    using that [OF s(1) r head s(3,4), of p] s(5,6) by (simp add: r(2))
qed

lemma acceptRequest_effect:
  assumes "acceptRequest access env k dto actorId db = Inr db'"
  shows "requestEffect db db'"
proof -
  define f where "f = (\<lambda>x :: assetRequest. x\<lparr>ar_status := QAccepted, ar_acceptedBy := Some actorId,
    ar_acceptedAt := Some (e_now env), ar_decidedBy := Some actorId, ar_decidedAt := Some (e_now env),
    ar_expiresAt := Some (expiryFrom env)\<rparr>)"
  define new where "new = map (requestItemRow k) (uniq (aq_assetIds dto))"
  obtain r roles p where s: "r \<in> set (db_requests db)" "ar_id r = k"
    "ar_requesterUserId r \<noteq> actorId" "canAssetRequestTransition (ar_status r) QAccepted"
    "foldM (insertRequestItem k) db (uniq (aq_assetIds dto)) = Inr (db\<lparr>db_requestItems := db_requestItems db @ new\<rparr>)"
    "db' = sendNotices env k NoticeAccepted [ToRequester, ToReviewers]
      (addRequestEvent k ''ACCEPTED'' (Some (ar_status r)) (Some QAccepted) (Some actorId) (noteOrNull (aq_note dto)) p
        (updateAssetRequest k f (db\<lparr>db_requestItems := db_requestItems db @ new\<rparr>)))"
    using assms unfolding f_def new_def by (rule acceptRequest_Inr)
  have items: "db_requestItems db' = db_requestItems db @ new" by (simp add: s(6))
  have own: "ri_requestId i = ar_id r" if "i \<in> set new" for i using that by (auto simp: new_def requestItemRow_def s(2))
  have status: "ar_status (f r) = QAccepted" by (simp add: f_def)
  show ?thesis
    unfolding requestEffect_def
  proof (rule bexI [OF _ s(1)], rule exI [of _ f], intro conjI ballI impI)
    show "filter (\<lambda>i. ri_requestId i \<noteq> ar_id r) (db_requestItems db') = filter (\<lambda>i. ri_requestId i \<noteq> ar_id r) (db_requestItems db)"
      unfolding items by (simp add: own)
    show "exclusiveOpen ri_assetId ri_open (db_requestItems db')" if "exclusiveOpen ri_assetId ri_open (db_requestItems db)"
      using insertRequestItems_Inr [OF s(5)] that by (simp add: items)
    show "requestRowOk (f r)" if "requestRowOk r" using that s(3) by (auto simp: f_def requestRow_simps)
  qed (use s(4) in \<open>auto simp: status f_def s(2,6) HOLDING_STATUSES_def\<close>)
qed

lemma not_falsy: "\<not> falsy x \<Longrightarrow> x \<noteq> None"
  by (cases x) simp_all

lemma assertDates_Inr:
  "assertDates kind s e = Inr u \<Longrightarrow> kind = Permanent \<or> s \<noteq> None \<and> e \<noteq> None \<and> the s \<le> the e"
  by (cases kind) (auto simp: assertDates_def split: if_splits dest: not_falsy)

lemma assertCenters_Inr:
  "assertCenters env db actorId p rc oc = Inr u \<Longrightarrow> rc \<noteq> oc \<and> isHead env db actorId rc \<and> 0 < headCount env db oc (Some p)"
  by (auto simp: assertCenters_def split: if_splits)

text \<open>A correction that keeps the parties and the kind leaves the accepted assets; any other drops them.\<close>

lemma correctRequest_Inr:
  assumes "correctRequest access env k dto actorId db = Inr db'"
  obtains r roles c after g where "partyRequest access env k actorId db = Inr (r, roles)" "ar_status r = QReturned"
    "c = correctedRequest dto r"
    "after = statusAfterCorrection (ar_ownerCostCenterId c \<noteq> ar_ownerCostCenterId r)
      (ar_kind c \<noteq> ar_kind r) (ar_requestingCostCenterId c \<noteq> ar_requestingCostCenterId r)"
    "g = (\<lambda>x. c\<lparr>ar_status := after,
      ar_acceptedBy := (if after = QRequested then None else ar_acceptedBy x),
      ar_acceptedAt := (if after = QRequested then None else ar_acceptedAt x),
      ar_expiresAt := (if after = QAccepted then Some (expiryFrom env) else None),
      ar_decidedBy := Some actorId, ar_decidedAt := Some (e_now env)\<rparr>)"
    "assertDates (ar_kind c) (ar_startDate c) (ar_expectedReturnDate c) = Inr ()"
    "assertCenters env db actorId (ar_requesterPersonId r) (ar_requestingCostCenterId c) (ar_ownerCostCenterId c) = Inr ()"
    "db_requests db' = update_where (\<lambda>x. ar_id x = ar_id r) g (db_requests db)"
    "db_requestItems db' = (if after = QRequested then filter (\<lambda>i. ri_requestId i \<noteq> ar_id r) (db_requestItems db) else db_requestItems db)"
    "db_seq db' = db_seq db"
proof -
  obtain r roles where s: "partyRequest access env k actorId db = Inr (r, roles)" "ar_status r = QReturned"
    using assms unfolding correctRequest_def by (auto simp: rbind_eq_Inr split: if_splits)
  define c where "c = correctedRequest dto r"
  define after where "after = statusAfterCorrection (ar_ownerCostCenterId c \<noteq> ar_ownerCostCenterId r)
    (ar_kind c \<noteq> ar_kind r) (ar_requestingCostCenterId c \<noteq> ar_requestingCostCenterId r)"
  show thesis
    by (rule that [OF s c_def after_def refl])
      (use assms s(2) in \<open>unfold correctRequest_def Let_def s(1) rbind.simps prod.case c_def [symmetric] after_def [symmetric],
        auto simp: rbind_eq_Inr split: if_splits\<close>)
qed

lemma update_where_guarded: "update_where p (\<lambda>x. if p x then g x else x) t = update_where p g t"
  by (simp add: update_where_def)

lemma correctRequest_effect:
  assumes "correctRequest access env k dto actorId db = Inr db'"
  shows "requestEffect db db'"
proof -
  obtain r roles c after g where s: "partyRequest access env k actorId db = Inr (r, roles)" "ar_status r = QReturned"
    "c = correctedRequest dto r"
    "after = statusAfterCorrection (ar_ownerCostCenterId c \<noteq> ar_ownerCostCenterId r)
      (ar_kind c \<noteq> ar_kind r) (ar_requestingCostCenterId c \<noteq> ar_requestingCostCenterId r)"
    "g = (\<lambda>x. c\<lparr>ar_status := after,
      ar_acceptedBy := (if after = QRequested then None else ar_acceptedBy x),
      ar_acceptedAt := (if after = QRequested then None else ar_acceptedAt x),
      ar_expiresAt := (if after = QAccepted then Some (expiryFrom env) else None),
      ar_decidedBy := Some actorId, ar_decidedAt := Some (e_now env)\<rparr>)"
    "assertDates (ar_kind c) (ar_startDate c) (ar_expectedReturnDate c) = Inr ()"
    "assertCenters env db actorId (ar_requesterPersonId r) (ar_requestingCostCenterId c) (ar_ownerCostCenterId c) = Inr ()"
    "db_requests db' = update_where (\<lambda>x. ar_id x = ar_id r) g (db_requests db)"
    "db_requestItems db' = (if after = QRequested then filter (\<lambda>i. ri_requestId i \<noteq> ar_id r) (db_requestItems db) else db_requestItems db)"
    "db_seq db' = db_seq db"
    using assms by (rule correctRequest_Inr)
  have r: "r \<in> set (db_requests db)" using partyRequest_Inr [OF s(1)] by simp
  define f where "f = (\<lambda>x. if ar_id x = ar_id r then g x else x)"
  have c: "ar_id c = ar_id r" "ar_requesterUserId c = ar_requesterUserId r"
    by (simp_all add: s(3) correctedRequest_def Let_def)
  have after: "after = QRequested \<or> after = QAccepted" by (simp add: s(4) statusAfterCorrection_def)
  have f: "ar_status (f r) = after" "\<forall>x. ar_id (f x) = ar_id x" by (simp_all add: f_def s(5) c(1))
  have ok: "requestRowOk (f r)" if "requestRowOk r"
    using that after assertDates_Inr [OF s(6)] assertCenters_Inr [OF s(7)] s(2) c(2)
    by (auto simp: f_def s(5) requestRow_simps)
  have requests: "db_requests db' = update_where (\<lambda>x. ar_id x = ar_id r) f (db_requests db)"
    unfolding s(8) f_def by (rule update_where_guarded [symmetric])
  have can: "canAssetRequestTransition (ar_status r) after" using after s(2) by (auto simp: requestRow_simps)
  show ?thesis
  proof (cases "after = QRequested")
    case True
    show ?thesis
      unfolding requestEffect_def
      by (rule bexI [OF _ r], rule exI [of _ f], intro conjI ballI impI)
        (use f ok requests can s(9,10) True in \<open>auto simp: exclusive_filter\<close>)
  next
    case False
    then have "after = QAccepted" using after by simp
    then show ?thesis
      by (intro requestEffect_same [OF r f(2) requests]) (use f ok can s(9,10) in \<open>auto simp: HOLDING_STATUSES_def\<close>)
  qed
qed

text \<open>What the loan answers.\<close>

lemma requestOfLoan_Some:
  assumes "requestOfLoan db requestId loanId = Some r"
  shows "r \<in> set (db_requests db)" "requestId = Some (ar_id r)" "ar_loanId r = Some loanId" "ar_status r = QLoanScheduled"
  using assms unfolding requestOfLoan_def by (auto split: option.splits if_splits dest!: find_SomeD)

lemma onLoanDelivered_cases:
  assumes "onLoanDelivered env delivered db = Inr db'"
  shows "db' = db \<or> requestEffect db db'"
proof (cases "requestOfLoan db (lo_requestId delivered) (lo_loanId delivered)")
  case None
  then show ?thesis using assms by (simp add: onLoanDelivered_def)
next
  case (Some r)
  have "requestEffect db db'"
    by (rule requestEffect_same [OF requestOfLoan_Some(1) [OF Some], of "\<lambda>x. x\<lparr>ar_status := QDocumentGenerated\<rparr>"])
      (use assms Some requestOfLoan_Some(4) [OF Some] in
        \<open>auto simp: onLoanDelivered_def rbind_eq_Inr requestRow_simps HOLDING_STATUSES_def\<close>)
  then show ?thesis ..
qed

lemma closeByLoan_cases:
  assumes "closeByLoan env after eventType notice ended db = Inr db'" "after \<in> {QClosedLoanRejected, QClosedLoanCancelled}"
  shows "db' = db \<or> requestEffect db db'"
proof (cases "requestOfLoan db (ln_requestId ended) (ln_loanId ended)")
  case None
  then show ?thesis using assms(1) by (simp add: closeByLoan_def)
next
  case (Some r)
  have "requestEffect db db'"
    by (rule requestEffect_closed [OF requestOfLoan_Some(1) [OF Some], of "\<lambda>x. x\<lparr>ar_status := after, ar_expiresAt := None,
        ar_decidedBy := Some (ln_actorId ended), ar_decidedAt := Some (e_now env)\<rparr>"])
      (use assms Some requestOfLoan_Some(4) [OF Some] in \<open>auto simp: closeByLoan_def rbind_eq_Inr requestRow_simps\<close>)
  then show ?thesis ..
qed

text \<open>The jobs.\<close>

lemma expireOne_Some:
  assumes "expireOne env db = Some (Inr db')"
  obtains r kind audiences ty p where "r \<in> set (db_requests db)" "dueRequest env r"
    "db' = sendNotices env (ar_id r) kind audiences (addRequestEvent (ar_id r) ty (Some (ar_status r)) (Some QExpired) None None p
       (releaseRequestItems (ar_id r) (updateAssetRequest (ar_id r) (\<lambda>x. x\<lparr>ar_status := QExpired, ar_decidedBy := None,
          ar_decidedAt := Some (e_now env)\<rparr>) db)))"
proof -
  define due where "due = sort_key (\<lambda>r. the (ar_expiresAt r)) (filter (dueRequest env) (db_requests db))"
  obtain r rest where rows: "due = r # rest" using assms by (auto simp: expireOne_def due_def [symmetric] split: list.splits)
  have "r \<in> set due" by (simp add: rows)
  then have r: "r \<in> set (db_requests db)" "dueRequest env r" by (simp_all add: due_def)
  show thesis
    by (rule that [OF r])
      (use assms in \<open>auto simp: expireOne_def due_def [symmetric] rows Let_def rbind_eq_Inr\<close>)
qed

lemma expireOne_effect:
  assumes "expireOne env db = Some (Inr db')"
  shows "requestEffect db db'"
proof -
  obtain r kind audiences ty p where r: "r \<in> set (db_requests db)" "dueRequest env r"
    "db' = sendNotices env (ar_id r) kind audiences (addRequestEvent (ar_id r) ty (Some (ar_status r)) (Some QExpired) None None p
       (releaseRequestItems (ar_id r) (updateAssetRequest (ar_id r) (\<lambda>x. x\<lparr>ar_status := QExpired, ar_decidedBy := None,
          ar_decidedAt := Some (e_now env)\<rparr>) db)))"
    using assms by (rule expireOne_Some)
  show ?thesis
    by (rule requestEffect_closed [OF r(1), of "\<lambda>x. x\<lparr>ar_status := QExpired, ar_decidedBy := None,
        ar_decidedAt := Some (e_now env)\<rparr>"])
      (use r(2) in \<open>auto simp: r(3) dueRequest_def EXPIRING_STATUSES_def requestRow_simps\<close>)
qed

section \<open>The document of a request\<close>

definition leavesRequests :: "db \<Rightarrow> db \<Rightarrow> bool" where
  "leavesRequests db db' \<longleftrightarrow> db_requests db' = db_requests db \<and> db_requestItems db' = db_requestItems db \<and> db_seq db \<le> db_seq db'"

lemma leavesRequests_refl [simp]: "leavesRequests db db"
  by (simp add: leavesRequests_def)

lemma leavesRequests_trans: "leavesRequests a b \<Longrightarrow> leavesRequests b c \<Longrightarrow> leavesRequests a c"
  by (simp add: leavesRequests_def)

lemma sameCustody_leavesRequests: "sameCustody db db' \<Longrightarrow> leavesRequests db db'"
  by (simp add: sameCustody_def leavesRequests_def)

lemma loanRecords_frame [simp]:
  "db_requests (addLoanEvent env k ty by p db) = db_requests db" "db_requestItems (addLoanEvent env k ty by p db) = db_requestItems db"
  "db_requests (auditLoan action k by c db) = db_requests db" "db_requestItems (auditLoan action k by c db) = db_requestItems db"
  "db_requests (updateLoan k f db) = db_requests db" "db_requestItems (updateLoan k f db) = db_requestItems db"
  "db_seq (updateLoan k f db) = db_seq db"
  "db_seq (auditLoan action k by c db) = db_seq db" "db_seq (addLoanEvent env k ty by p db) = Suc (db_seq db)"
  by (simp_all add: addLoanEvent_def auditLoan_def updateLoan_def recordAudit_def bumpSeq_def)

lemma insertLoanItems_requests:
  "leavesRequests db (foldl (insertLoanItem env k source) db assets)"
proof (induction assets arbitrary: db)
  case (Cons a assets)
  have "leavesRequests db (insertLoanItem env k source db a)" by (simp add: insertLoanItem_def leavesRequests_def bumpSeq_def)
  then show ?case using Cons.IH leavesRequests_trans by simp
qed simp

lemma createLoanWithin_requests:
  assumes "createLoanWithin env input actorId scope approved db = Inr (k, db')"
  shows "leavesRequests db db'"
proof -
  obtain assets source where run: "assertLendable env input scope db = Inr (assets, source)"
    using assms unfolding createLoanWithin_def by (auto simp: rbind_eq_Inr)
  define db1 where "db1 = bumpSeq (db\<lparr>db_loans := db_loans db @ [loanRow env (freshId env db) input source
    (case approved of None \<Rightarrow> actorId | Some a \<Rightarrow> ap_requestedBy a) approved]\<rparr>)"
  define db2 where "db2 = foldl (insertLoanItem env (freshId env db) source) db1 assets"
  have "leavesRequests db db1" by (simp add: db1_def leavesRequests_def bumpSeq_def)
  then have "leavesRequests db db2" using insertLoanItems_requests leavesRequests_trans unfolding db2_def by blast
  then show ?thesis
    using assms unfolding createLoanWithin_def run Let_def rbind.simps prod.case db1_def [symmetric] db2_def [symmetric]
    by (auto simp: leavesRequests_def split: option.splits)
qed

lemma issueTransfer_Inr:
  assumes "issueTransfer env dto r assetIds owner actorId db = Inr (t, db')"
  obtains input db1 given where "createTransfer env input actorId (Some (ar_id r)) db = Inr (t, db1)"
    "generateTransfer env t given actorId db1 = Inr db'" "ct_items input = or_keep (gq_items dto) []"
    "length (map tx_assetId (ct_items input)) = length assetIds" "set assetIds \<subseteq> set (map tx_assetId (ct_items input))"
    "ct_targetCostCenterId input = ar_requestingCostCenterId r" "ct_requesterPersonId input = owner"
    "ct_ownerPersonId input = ar_requesterPersonId r"
  using assms unfolding issueTransfer_def Let_def
  by (auto simp: res_simps list_ex_iff split: if_splits intro: that)

lemma issueTransfer_requests:
  assumes "issueTransfer env dto r assetIds owner actorId db = Inr (t, db')"
  shows "leavesRequests db db'"
proof -
  obtain input db1 given where s: "createTransfer env input actorId (Some (ar_id r)) db = Inr (t, db1)"
    "generateTransfer env t given actorId db1 = Inr db'"
    using assms by (rule issueTransfer_Inr)
  obtain source db2 c where create: "insertItems t (ct_items input) (bumpSeq (db\<lparr>db_transfers := db_transfers db @
      [transferRow t source input actorId (Some (ar_id r))]\<rparr>)) = Inr db2"
    "db1 = auditTransfer ''TRANSFER_CREATED'' t actorId c db2"
    using s(1) by (rule createTransfer_Inr)
  have audit: "leavesRequests d (auditTransfer a k u ch d)" for d a k u ch
    by (simp add: auditTransfer_def leavesRequests_def recordAudit_def)
  obtain new where "db2 = (bumpSeq (db\<lparr>db_transfers := db_transfers db @
      [transferRow t source input actorId (Some (ar_id r))]\<rparr>))\<lparr>db_transferItems := new\<rparr>"
    using create(1) insertItems_Inr by blast
  then have "leavesRequests db db2" by (simp add: leavesRequests_def bumpSeq_def)
  then have one: "leavesRequests db db1" unfolding create(2) by (rule leavesRequests_trans [OF _ audit])
  obtain payload requestId db3 f c2 where gen: "enqueueAct env payload (Some actorId) db1 = Inr (requestId, db3)"
    "db' = auditTransfer ''TRANSFER_ACT_REQ'' t actorId c2 (updateTransfer t f db3)"
    using s(2) by (rule generateTransfer_Inr) (rule that)
  have two: "leavesRequests db1 db3" using enqueueAct_Inr(4) [OF gen(1)] by (rule sameCustody_leavesRequests)
  have "leavesRequests db3 (updateTransfer t f db3)" by (simp add: updateTransfer_def leavesRequests_def)
  then have "leavesRequests db3 db'" unfolding gen(2) by (rule leavesRequests_trans [OF _ audit])
  then show ?thesis by (rule leavesRequests_trans [OF leavesRequests_trans [OF one two]])
qed

definition decidedRequest :: "env \<Rightarrow> string \<Rightarrow> assetRequestStatus \<Rightarrow> string option \<Rightarrow> string option \<Rightarrow> assetRequest \<Rightarrow> assetRequest" where
  "decidedRequest env actorId status loanId transferId r =
     r\<lparr>ar_status := status, ar_loanId := loanId, ar_transferId := transferId, ar_expiresAt := None,
       ar_decidedBy := Some actorId, ar_decidedAt := Some (e_now env)\<rparr>"

lemma generateRequest_Inr:
  assumes "generateRequest access env k dto actorId db = Inr db'"
  obtains (loan) r loanId db2 p where "r \<in> set (db_requests db)" "ar_id r = k" "ar_kind r = Temporary"
    "Reviewer \<in> set (viewerRoles access env db r actorId)" "ar_status r = QAccepted" "acceptedAssets db k \<noteq> []"
    "\<forall>a\<in>set (db_assets db). a_id a \<in> set (acceptedAssets db k) \<longrightarrow> a_costCenterId a = ar_ownerCostCenterId r"
    "ar_acceptedBy r \<noteq> None"
    "scheduleLoan env dto r (acceptedAssets db k) actorId (releaseRequestItems k db) = Inr (loanId, db2)"
    "db' = sendNotices env k NoticeScheduled [ToRequester, ToOwnerHeads]
       (addRequestEvent k ''LOAN_SCHEDULED'' (Some QAccepted) (Some QLoanScheduled) (Some actorId) None p
         (updateAssetRequest k (decidedRequest env actorId QLoanScheduled (Some loanId) None) db2))"
  | (transfer) r transferId owner db2 p where "r \<in> set (db_requests db)" "ar_id r = k" "ar_kind r = Permanent"
    "Reviewer \<in> set (viewerRoles access env db r actorId)" "canAssetRequestTransition (ar_status r) QDocumentGenerated"
    "acceptedAssets db k \<noteq> []"
    "\<forall>a\<in>set (db_assets db). a_id a \<in> set (acceptedAssets db k) \<longrightarrow> a_costCenterId a = ar_ownerCostCenterId r"
    "ar_acceptedBy r \<noteq> None"
    "issueTransfer env dto r (acceptedAssets db k) owner actorId (releaseRequestItems k db) = Inr (transferId, db2)"
    "db' = sendNotices env k NoticeGenerated [ToRequester, ToOwnerHeads]
       (addRequestEvent k ''DOCUMENT_GENERATED'' (Some (ar_status r)) (Some QDocumentGenerated) (Some actorId) None p
         (updateAssetRequest k (decidedRequest env actorId QDocumentGenerated None (Some transferId)) db2))"
proof -
  obtain r roles where s: "partyRequest access env k actorId db = Inr (r, roles)"
    using assms unfolding generateRequest_def by (auto simp: rbind_eq_Inr)
  have r: "r \<in> set (db_requests db)" "ar_id r = k" "roles = viewerRoles access env db r actorId"
    using partyRequest_Inr [OF s] by simp_all
  have fold: "(\<lambda>x. x\<lparr>ar_status := status, ar_loanId := loanId, ar_transferId := transferId, ar_expiresAt := None,
      ar_decidedBy := Some actorId, ar_decidedAt := Some (e_now env)\<rparr>) = decidedRequest env actorId status loanId transferId"
    for status loanId transferId by (simp add: fun_eq_iff decidedRequest_def)
  show thesis
  proof (cases "ar_kind r")
    case Temporary
    show thesis
      using assms unfolding generateRequest_def Let_def s rbind.simps prod.case r(2)
      apply (simp only: Temporary assetRequestKind.distinct simp_thms if_True if_False)
    proof (elim rbind_InrE prod_InrE guard_InrE, goal_cases)
      case (1 u v f y loanId db2 z)
      have status: "ar_status r = QAccepted" using 1(2) by (simp add: requestRow_simps)
      have moved: "\<forall>a\<in>set (db_assets db). a_id a \<in> set (acceptedAssets db k) \<longrightarrow> a_costCenterId a = ar_ownerCostCenterId r"
        using 1(7) by (auto simp: list_ex_iff)
      have accepted: "ar_acceptedBy r \<noteq> None" using 1(8) by (cases "ar_acceptedBy r") simp_all
      have reviewer: "Reviewer \<in> set (viewerRoles access env db r actorId)"
        using 1(1) by (simp add: assertReviewer_def r(3) split: if_splits)
      show thesis
        by (rule loan [OF r(1,2) Temporary reviewer status 1(6) moved accepted 1(9) [unfolded 1(10)]])
          (rule 1(12) [unfolded fold status sum.inject, symmetric])
    qed
  next
    case Permanent
    show thesis
      using assms unfolding generateRequest_def Let_def s rbind.simps prod.case r(2)
      apply (simp only: Permanent assetRequestKind.distinct simp_thms if_True if_False)
    proof (elim rbind_InrE prod_InrE guard_InrE, goal_cases)
      case (1 u v f y transferId db2)
      have moved: "\<forall>a\<in>set (db_assets db). a_id a \<in> set (acceptedAssets db k) \<longrightarrow> a_costCenterId a = ar_ownerCostCenterId r"
        using 1(6) by (auto simp: list_ex_iff)
      have accepted: "ar_acceptedBy r \<noteq> None" using 1(7) by (cases "ar_acceptedBy r") simp_all
      have reviewer: "Reviewer \<in> set (viewerRoles access env db r actorId)"
        using 1(1) by (simp add: assertReviewer_def r(3) split: if_splits)
      have can: "canAssetRequestTransition (ar_status r) QDocumentGenerated" using 1(2) by simp
      show thesis
        by (rule transfer [OF r(1,2) Permanent reviewer can 1(5) moved accepted 1(8) [unfolded 1(9)]])
          (rule 1(10) [unfolded fold sum.inject, symmetric])
    qed
  qed
qed

lemma decidedRequest_fields [simp]:
  "ar_id (decidedRequest env u s l t r) = ar_id r" "ar_status (decidedRequest env u s l t r) = s"
  "ar_kind (decidedRequest env u s l t r) = ar_kind r" "ar_loanId (decidedRequest env u s l t r) = l"
  "ar_transferId (decidedRequest env u s l t r) = t" "ar_expiresAt (decidedRequest env u s l t r) = None"
  "ar_acceptedBy (decidedRequest env u s l t r) = ar_acceptedBy r" "ar_acceptedAt (decidedRequest env u s l t r) = ar_acceptedAt r"
  "ar_requesterUserId (decidedRequest env u s l t r) = ar_requesterUserId r"
  "ar_startDate (decidedRequest env u s l t r) = ar_startDate r"
  "ar_expectedReturnDate (decidedRequest env u s l t r) = ar_expectedReturnDate r"
  "ar_requestingCostCenterId (decidedRequest env u s l t r) = ar_requestingCostCenterId r"
  "ar_ownerCostCenterId (decidedRequest env u s l t r) = ar_ownerCostCenterId r"
  by (simp_all add: decidedRequest_def)

lemma decided_effect:
  assumes "r \<in> set (db_requests db)" "leavesRequests (releaseRequestItems (ar_id r) db) db2"
    "canAssetRequestTransition (ar_status r) s" "requestRowOk r \<longrightarrow> requestRowOk (decidedRequest env u s l t r)"
    "db' = sendNotices env (ar_id r) kind audiences
       (addRequestEvent (ar_id r) ty from (Some s) a reason p (updateAssetRequest (ar_id r) (decidedRequest env u s l t) db2))"
  shows "requestEffect db db'"
  by (rule requestEffect_closed [OF assms(1), of "decidedRequest env u s l t"])
    (use assms(2-4) in \<open>simp_all add: assms(5) leavesRequests_def\<close>)

lemma generateRequest_effect:
  assumes "generateRequest access env k dto actorId db = Inr db'"
  shows "requestEffect db db'"
  using assms
proof (cases rule: generateRequest_Inr)
  case (loan r loanId db2 p)
  have "leavesRequests (releaseRequestItems (ar_id r) db) db2"
    using loan(9) unfolding scheduleLoan_def loan(2) by (rule createLoanWithin_requests)
  then show ?thesis
    by (rule decided_effect [OF loan(1)]) (use loan in \<open>auto simp: requestRow_simps\<close>)
next
  case (transfer r transferId owner db2 p)
  have "leavesRequests (releaseRequestItems (ar_id r) db) db2"
    using transfer(9) unfolding transfer(2) by (rule issueTransfer_requests)
  then show ?thesis
    by (rule decided_effect [OF transfer(1)]) (use transfer in \<open>auto simp: requestRow_simps\<close>)
qed

section \<open>The loan ends or is delivered\<close>

lemma writing_frame [simp]:
  "db_requests (updateAsset env k p db) = db_requests db" "db_requestItems (updateAsset env k p db) = db_requestItems db"
  "db_requests (insertMovement env i db) = db_requests db" "db_requestItems (insertMovement env i db) = db_requestItems db"
  "db_requests (writeChange env c a db) = db_requests db" "db_requestItems (writeChange env c a db) = db_requestItems db"
  "db_requests (auditOf c a db) = db_requests db" "db_requestItems (auditOf c a db) = db_requestItems db"
  by (simp_all add: updateAsset_def insertMovement_def writeChange_def auditOf_def recordAudit_def Let_def bumpSeq_def
      split: option.split)

lemma leaves_inv:
  assumes "leavesRequests db db'" "requestInv uuid db"
  shows "requestInv uuid db'"
proof -
  have t: "db_requests db' = db_requests db" "db_requestItems db' = db_requestItems db" "db_seq db \<le> db_seq db'"
    using assms(1) by (simp_all add: leavesRequests_def)
  note d = assms(2) [unfolded requestInv_def]
  have "ar_id ` set (db_requests db) \<subseteq> uuid ` {..<db_seq db'}" using ids_grow [OF _ t(3)] d by blast
  then show ?thesis unfolding requestInv_def t(1,2) using d by blast
qed

lemma recorded_leaves_requests:
  "leavesRequests db (auditLoan action k by c (addLoanEvent env j ty by' p (updateLoan l f db)))"
  by (simp add: leavesRequests_def)

lemma rejectLoan_notifies:
  assumes "rejectLoan access listeners env k reason actorId db = Inr db'"
  obtains l d where "l \<in> set (db_loans db)" "l_id l = k" "l_status l = LRequested \<or> l_status l = LApproved" "leavesRequests db d"
    "db_requestEvents d = db_requestEvents db" "db_loans d = update_where (\<lambda>x. l_id x = k) (\<lambda>x. x\<lparr>l_status := LRejected,
       l_rejectedReason := Some reason, l_updatedAt := e_now env\<rparr>) (db_loans db)"
    "notifyAll (lr_rejected listeners) \<lparr>ln_loanId = k, ln_requestId = l_assetRequestId l, ln_reason = reason, ln_actorId = actorId\<rparr> d
       = Inr db'"
proof -
  obtain l where l: "lockForDecision access k actorId db = Inr l" "canLoanTransition (l_status l) LRejected"
    and run: "notifyAll (lr_rejected listeners)
      \<lparr>ln_loanId = l_id l, ln_requestId = l_assetRequestId l, ln_reason = reason, ln_actorId = actorId\<rparr>
      (auditLoan ''LOAN_REJECTED'' (l_id l) actorId (Some (JObj [(''reason'', JStr reason)]))
        (addLoanEvent env (l_id l) ''REJECTED'' actorId (JObj [(''reason'', JStr reason)])
          (updateLoan (l_id l) (\<lambda>x. x\<lparr>l_status := LRejected, l_rejectedReason := Some reason,
             l_updatedAt := e_now env\<rparr>) db))) = Inr db'"
    using assms unfolding rejectLoan_def by (auto simp: rbind_eq_Inr)
  obtain scope where m: "l \<in> set (db_loans db)" "l_id l = k" using l(1) by (rule lockForDecision_Inr)
  have "l_status l = LRequested \<or> l_status l = LApproved" using l(2) by (cases "l_status l") (simp_all add: canLoanTransition_def)
  then show thesis
    by (rule that [OF m _ recorded_leaves_requests _ _ run [unfolded m(2)]])
      (simp_all add: auditLoan_def addLoanEvent_def updateLoan_def recordAudit_def bumpSeq_def)
qed

lemma cancelLoan_notifies:
  assumes "cancelLoan access listeners env k reasonText actorId db = Inr db'"
  obtains l d where "l \<in> set (db_loans db)" "l_id l = k" "l_status l = LApproved" "leavesRequests db d"
    "db_requestEvents d = db_requestEvents db" "db_loans d = update_where (\<lambda>x. l_id x = k) (\<lambda>x. x\<lparr>l_status := LCancelled,
       l_cancelledReason := Some (trim reasonText), l_updatedAt := e_now env\<rparr>) (db_loans db)"
    "notifyAll (lr_cancelled listeners)
       \<lparr>ln_loanId = k, ln_requestId = l_assetRequestId l, ln_reason = trim reasonText, ln_actorId = actorId\<rparr> d = Inr db'"
proof -
  obtain l c e where l: "lockLoan db k = Inr l" "l_status l = LApproved"
    and run: "notifyAll (lr_cancelled listeners)
      \<lparr>ln_loanId = l_id l, ln_requestId = l_assetRequestId l, ln_reason = trim reasonText, ln_actorId = actorId\<rparr>
      (auditLoan ''LOAN_CANCELLED'' (l_id l) actorId c (addLoanEvent env (l_id l) ''CANCELLED'' actorId e
          (updateLoan (l_id l) (\<lambda>x. x\<lparr>l_status := LCancelled, l_cancelledReason := Some (trim reasonText),
             l_updatedAt := e_now env\<rparr>) db))) = Inr db'"
    using assms unfolding cancelLoan_def Let_def by (auto simp: rbind_eq_Inr split: if_splits)
  have m: "l \<in> set (db_loans db)" "l_id l = k" using lockLoan_Inr [OF l(1)] by simp_all
  show thesis
    by (rule that [OF m l(2) recorded_leaves_requests _ _ run [unfolded m(2)]])
      (simp_all add: auditLoan_def addLoanEvent_def updateLoan_def recordAudit_def bumpSeq_def)
qed

lemma delivering_leaves_requests:
  assumes "foldM (recordOne env (deliverChange env actorId l contact) li_assetId (\<lambda>_ d. d)) (db, ids) items = Inr (db', ids')"
  shows "leavesRequests db db'"
proof (rule delivering.recorded_prefix [OF assms])
  fix past i d a d2
  assume p: "leavesRequests db d"
    and run: "c_alsoWrite (deliverChange env actorId l contact i)
      (writeChange env (deliverChange env actorId l contact i) a d) a = Inr d2"
  have "db_requests d2 = db_requests d" "db_requestItems d2 = db_requestItems d"
    "db_seq d2 = db_seq (writeChange env (deliverChange env actorId l contact i) a d)"
    using run by (auto simp: deliverChange_def updateLoanItem_def)
  then have "leavesRequests d (auditOf (deliverChange env actorId l contact i) a d2)"
    using writeChange_seq [of d env "deliverChange env actorId l contact i" a] by (simp add: leavesRequests_def)
  then show "leavesRequests db (auditOf (deliverChange env actorId l contact i) a d2)" by (rule leavesRequests_trans [OF p])
qed simp

lemma deliverWithin_notifies:
  assumes "deliverWithin listeners env k dto actorId role db = Inr db'"
  obtains l d requestId where "l \<in> set (db_loans db)" "l_id l = k" "l_status l = LApproved" "leavesRequests db d"
    "notifyAll (lr_delivered listeners) \<lparr>lo_loanId = k, lo_requestId = l_assetRequestId l,
       lo_documentRequestId = requestId, lo_deliveredAt = e_now env, lo_actorId = actorId\<rparr> d = Inr db'"
proof -
  obtain l where l: "lockLoan db k = Inr l" "canLoanTransition (l_status l) LPendingSignatures"
    "\<not> falsy (l_contactPersonId l)"
    "\<not> (\<not> falsy (l_startDate l) \<and> localeIsoDate (e_now env) < the (l_startDate l))"
    using assms unfolding deliverWithin_def Let_def by (auto simp: rbind_eq_Inr split: if_splits)
  obtain contact where contact: "l_contactPersonId l = Some contact" using l(3) by (cases "l_contactPersonId l") auto
  have m: "l \<in> set (db_loans db)" "l_id l = k" using lockLoan_Inr [OF l(1)] by simp_all
  define f where "f = (\<lambda>x :: loan. x\<lparr>l_status := LPendingSignatures, l_deliveredAt := Some (e_now env),
       l_deliveredBy := Some actorId, l_updatedAt := e_now env\<rparr>)"
  obtain db1 movementIds requestId payload db3 c p where run:
    "foldM (recordOne env (deliverChange env actorId l contact) li_assetId (\<lambda>_ d. d)) (db, []) (deliveryItems db (l_id l)) =
       Inr (db1, movementIds)"
    "enqueueAct env payload (Some actorId) (updateLoan (l_id l) f db1) = Inr (requestId, db3)"
    "notifyAll (lr_delivered listeners) \<lparr>lo_loanId = l_id l, lo_requestId = l_assetRequestId l,
       lo_documentRequestId = requestId, lo_deliveredAt = e_now env, lo_actorId = actorId\<rparr>
       (auditLoan ''LOAN_DELIVERED'' (l_id l) actorId c (addLoanEvent env (l_id l) ''DELIVERED'' actorId p db3)) = Inr db'"
    using assms l contact unfolding deliverWithin_def Let_def recordAll_def f_def [symmetric]
    by (auto simp: rbind_eq_Inr split: if_splits option.splits)
  have "leavesRequests db (updateLoan (l_id l) f db1)"
    using delivering_leaves_requests [OF run(1)] by (simp add: leavesRequests_def)
  then have "leavesRequests db db3"
    using sameCustody_leavesRequests [OF enqueueAct_Inr(4) [OF run(2)]] by (rule leavesRequests_trans)
  then have "leavesRequests db (auditLoan ''LOAN_DELIVERED'' (l_id l) actorId c (addLoanEvent env (l_id l) ''DELIVERED'' actorId p db3))"
    by (simp add: leavesRequests_def)
  moreover have "l_status l = LApproved" using l(2) by (cases "l_status l") (simp_all add: canLoanTransition_def)
  ultimately show thesis using that [OF m _ _ run(3) [unfolded m(2)]] by (simp add: m(2))
qed

section \<open>Every operation that reaches the requests\<close>

lemma createRequest_Inr:
  assumes "createRequest env dto actorId db = Inr (k, db')"
  obtains code personId startDate dueDate where "k = e_uuid env (db_seq db)"
    "personOf db actorId = Some personId"
    "assertDates (cq_kind dto) startDate dueDate = Inr ()"
    "assertCenters env db actorId personId (cq_requestingCostCenterId dto) (cq_ownerCostCenterId dto) = Inr ()"
    "db_requests db' = db_requests db @ [newRequest k code dto actorId personId startDate dueDate]"
    "db_requestItems db' = db_requestItems db" "db_seq db' = Suc (db_seq db)"
proof -
  define startDate where "startDate = (if cq_kind dto = Temporary then cq_startDate dto else None)"
  define dueDate where "dueDate = (if cq_kind dto = Temporary then cq_expectedReturnDate dto else None)"
  obtain personId where p: "personOf db actorId = Some personId"
    using assms unfolding createRequest_def Let_def
    by (cases "personOf db actorId") (auto simp: rbind_eq_Inr)
  obtain code db1 where s: "assertDates (cq_kind dto) startDate dueDate = Inr ()"
    "assertCenters env db actorId personId (cq_requestingCostCenterId dto) (cq_ownerCostCenterId dto) = Inr ()"
    "nextRequestCode env db = Inr (code, db1)" "k = freshId env db1"
    "db' = sendNotices env k NoticeCreated [ToOwnerHeads] (addRequestEvent k ''CREATED'' None (Some QRequested) (Some actorId) None
       [(''kind'', JStr (requestKindText (cq_kind dto)))] (bumpSeq (db1\<lparr>db_requests := db_requests db1 @
         [newRequest k code dto actorId personId startDate dueDate]\<rparr>)))"
    using assms p unfolding createRequest_def Let_def startDate_def dueDate_def
    by (auto simp: rbind_eq_Inr split: if_splits)
  have "\<exists>q. db1 = db\<lparr>db_requestSequence := q\<rparr>"
    using s(3) by (auto simp: nextRequestCode_def Let_def split: option.splits)
  then have "db_requests db1 = db_requests db" "db_requestItems db1 = db_requestItems db" "db_seq db1 = db_seq db" by auto
  then show thesis using that [OF _ p s(1,2)] s(4,5) by (simp add: freshId_def bumpSeq_def)
qed

lemma createRequest_inv:
  assumes run: "createRequest env dto actorId db = Inr (k, db')" and inj: "inj (e_uuid env)"
    and inv: "requestInv (e_uuid env) db"
  shows "requestInv (e_uuid env) db' \<and> requestsFollow db db'"
proof -
  obtain code personId startDate dueDate where s: "k = e_uuid env (db_seq db)" "personOf db actorId = Some personId"
    "assertDates (cq_kind dto) startDate dueDate = Inr ()"
    "assertCenters env db actorId personId (cq_requestingCostCenterId dto) (cq_ownerCostCenterId dto) = Inr ()"
    "db_requests db' = db_requests db @ [newRequest k code dto actorId personId startDate dueDate]"
    "db_requestItems db' = db_requestItems db" "db_seq db' = Suc (db_seq db)"
    using run by (rule createRequest_Inr)
  note d = requestInvD [OF inv]
  define row where "row = newRequest k code dto actorId personId startDate dueDate"
  have row: "ar_id row = k" "requestRowOk row"
    using assertDates_Inr [OF s(3)] assertCenters_Inr [OF s(4)]
    by (auto simp: row_def newRequest_def requestRow_simps)
  have fresh: "k \<notin> ar_id ` set (db_requests db)"
  proof
    assume "k \<in> ar_id ` set (db_requests db)"
    then obtain n where "n < db_seq db" "e_uuid env (db_seq db) = e_uuid env n" using d(2) s(1) by auto
    then show False using inj by (auto dest: injD)
  qed
  have "requestInv (e_uuid env) db'"
    unfolding requestInv_def s(5,6,7) row_def [symmetric]
  proof (intro conjI ballI impI)
    show "distinct (map ar_id (db_requests db @ [row]))" using d(1) fresh row(1) by simp
    have "k \<in> e_uuid env ` {..<Suc (db_seq db)}" unfolding s(1) by (rule imageI) simp
    then show "ar_id ` set (db_requests db @ [row]) \<subseteq> e_uuid env ` {..<Suc (db_seq db)}"
      using ids_grow [OF d(2), of "Suc (db_seq db)"] row(1) by simp
    show "list_all requestRowOk (db_requests db @ [row])" using d(3) row(2) by (simp add: list_all_iff)
    show "exclusiveOpen ri_assetId ri_open (db_requestItems db)" by (rule d(4))
    show "\<exists>r\<in>set (db_requests db @ [row]). ar_id r = ri_requestId i \<and> ar_status r \<in> set HOLDING_STATUSES"
      if "i \<in> set (db_requestItems db)" "ri_open i" for i using d(5) [OF that] by auto
  qed
  then show ?thesis by (simp add: s(5) advances_append)
qed

inductive requestStep :: "loanAccess \<Rightarrow> (nat \<Rightarrow> string) \<Rightarrow> db \<Rightarrow> db \<Rightarrow> bool" for access uuid where
  Created: "e_uuid env = uuid \<Longrightarrow> createRequest env dto actorId db = Inr (k, db') \<Longrightarrow> requestStep access uuid db db'"
| Accepted: "acceptRequest access env k acceptance actorId db = Inr db' \<Longrightarrow> requestStep access uuid db db'"
| Closed: "closeRequest access env k reason actorId db = Inr db' \<Longrightarrow> requestStep access uuid db db'"
| Corrected: "correctRequest access env k correction actorId db = Inr db' \<Longrightarrow> requestStep access uuid db db'"
| Cancelled: "cancelRequest access env k reason actorId db = Inr db' \<Longrightarrow> requestStep access uuid db db'"
| Returned: "returnToRequester access env k reason actorId db = Inr db' \<Longrightarrow> requestStep access uuid db db'"
| Generated: "generateRequest access env k document actorId db = Inr db' \<Longrightarrow> requestStep access uuid db db'"
| Expired: "expireOne env db = Some (Inr db') \<Longrightarrow> requestStep access uuid db db'"
| LoanRejected: "rejectLoan access (requestListeners env) env' k reason actorId db = Inr db' \<Longrightarrow> requestStep access uuid db db'"
| LoanCancelled: "cancelLoan access (requestListeners env) env' k reason actorId db = Inr db' \<Longrightarrow> requestStep access uuid db db'"
| LoanDelivered: "deliverWithin (requestListeners env) env' k delivery actorId role db = Inr db' \<Longrightarrow> requestStep access uuid db db'"
| OutsideRequests: "leavesRequests db db' \<Longrightarrow> requestStep access uuid db db'"

abbreviation requestReachable :: "loanAccess \<Rightarrow> (nat \<Rightarrow> string) \<Rightarrow> db \<Rightarrow> db \<Rightarrow> bool" where
  "requestReachable access uuid \<equiv> (requestStep access uuid)\<^sup>*\<^sup>*"

lemma answered_inv:
  assumes "leavesRequests db d" "db' = d \<or> requestEffect d db'" "requestInv uuid db"
  shows "requestInv uuid db' \<and> requestsFollow db db'"
proof -
  have d: "requestInv uuid d" by (rule leaves_inv [OF assms(1,3)])
  have same: "db_requests d = db_requests db" using assms(1) by (simp add: leavesRequests_def)
  have "requestInv uuid db' \<and> requestsFollow d db'"
    using assms(2) requestEffect_inv [OF _ d] d by (auto simp: advances_refl)
  then show ?thesis by (simp add: same)
qed

lemma notifyOne: "notifyAll [f] e db = f e db"
  by (cases "f e db") (simp_all add: notifyAll_def)

lemma requestStep_sound:
  assumes step: "requestStep access uuid db db'" and inj: "inj uuid" and inv: "requestInv uuid db"
  shows "requestInv uuid db' \<and> requestsFollow db db'"
  using step
proof (cases rule: requestStep.cases)
  case (Created env dto actorId k)
  then show ?thesis using createRequest_inv [OF Created(2)] inj inv by blast
next
  case (LoanRejected env env' k reason actorId)
  obtain l :: loan and d where d: "leavesRequests db d" "notifyAll (lr_rejected (requestListeners env))
      \<lparr>ln_loanId = k, ln_requestId = l_assetRequestId l, ln_reason = reason, ln_actorId = actorId\<rparr> d = Inr db'"
    using LoanRejected by (rule rejectLoan_notifies) (rule that)
  have "db' = d \<or> requestEffect d db'"
    using d(2) closeByLoan_cases by (simp add: requestListeners_def notifyOne onLoanRejected_def)
  then show ?thesis by (rule answered_inv [OF d(1) _ inv])
next
  case (LoanCancelled env env' k reason actorId)
  obtain l :: loan and d where d: "leavesRequests db d" "notifyAll (lr_cancelled (requestListeners env))
      \<lparr>ln_loanId = k, ln_requestId = l_assetRequestId l, ln_reason = trim reason, ln_actorId = actorId\<rparr> d = Inr db'"
    using LoanCancelled by (rule cancelLoan_notifies) (rule that)
  have "db' = d \<or> requestEffect d db'"
    using d(2) closeByLoan_cases by (simp add: requestListeners_def notifyOne onLoanCancelled_def)
  then show ?thesis by (rule answered_inv [OF d(1) _ inv])
next
  case (LoanDelivered env env' k delivery actorId role)
  obtain l :: loan and d requestId where d: "leavesRequests db d" "notifyAll (lr_delivered (requestListeners env))
      \<lparr>lo_loanId = k, lo_requestId = l_assetRequestId l, lo_documentRequestId = requestId, lo_deliveredAt = e_now env',
       lo_actorId = actorId\<rparr> d = Inr db'"
    using LoanDelivered by (rule deliverWithin_notifies) (rule that)
  have "db' = d \<or> requestEffect d db'"
    using d(2) onLoanDelivered_cases by (simp add: requestListeners_def notifyOne)
  then show ?thesis by (rule answered_inv [OF d(1) _ inv])
next
  case OutsideRequests
  then show ?thesis using answered_inv [OF OutsideRequests _ inv] by blast
qed (use requestEffect_inv [OF _ inv] in \<open>blast intro: acceptRequest_effect closeRequest_effect correctRequest_effect
      cancelRequest_effect returnToRequester_effect generateRequest_effect expireOne_effect\<close>)+

lemma requestReachable_inv:
  assumes "requestReachable access uuid db db'" "inj uuid" "requestInv uuid db"
  shows "requestInv uuid db'"
  using assms(1,3)
proof (induction rule: rtranclp_induct)
  case base
  then show ?case .
next
  case (step d d')
  then show ?case using requestStep_sound [OF step.hyps(2) assms(2)] by blast
qed

end
