(* ===== verification/RequestOutcomes.thy ===== *)
theory RequestOutcomes
  imports RequestSteps
begin

text \<open>
  The properties of the requests of assets: the constraints of their tables, what an acceptance reserves, the
  loan a request becomes and what its end does to the request, and the expiry job, with their witnesses.
\<close>

section \<open>Properties\<close>

text \<open>
  C11. Whatever operations run on requests, and whatever their loans answer, from empty tables: every request
  satisfies the CHECK constraints of its table (parties, dates, expiry, acceptance, document), nobody
  accepted the own request, an asset is reserved by one request at most and only by an accepted or
  returned one, and the next operation moves every request along the table of transitions or leaves its status.
\<close>

theorem requests_keep_their_constraints:
  assumes "requestReachable access uuid db0 db" "inj uuid" "db_requests db0 = []" "db_requestItems db0 = []"
  shows "list_all requestChecks (db_requests db) \<and>
    list_all (\<lambda>r. ar_acceptedBy r \<noteq> Some (ar_requesterUserId r)) (db_requests db) \<and>
    distinct (map ri_assetId (filter ri_open (db_requestItems db))) \<and>
    (\<forall>i\<in>set (db_requestItems db). ri_open i \<longrightarrow>
       (\<exists>r\<in>set (db_requests db). ar_id r = ri_requestId i \<and> ar_status r \<in> set HOLDING_STATUSES)) \<and>
    (\<forall>db'. requestStep access uuid db db' \<longrightarrow> requestsFollow db db')"
proof -
  have "requestInv uuid db0" by (simp add: requestInv_def assms(3,4) exclusiveOpen_def)
  then have inv: "requestInv uuid db" by (rule requestReachable_inv [OF assms(1,2)])
  note d = requestInvD [OF inv]
  show ?thesis
    using d(3,4,5) requestStep_sound [OF _ assms(2) inv]
    by (auto simp: list_all_iff requestRowOk_def exclusiveOpen_def)
qed

lemma counted_all:
  assumes "distinct (map f rows)" "f ` set rows \<subseteq> set ids" "length rows = length ids" "distinct ids"
  shows "f ` set rows = set ids"
proof -
  have "card (f ` set rows) = card (set ids)"
    using assms(3) distinct_card [OF assms(4)] distinct_card [OF assms(1)] by simp
  then show ?thesis using assms(2) by (simp add: card_subset_eq)
qed

lemma assertEligible_all:
  assumes "assertEligible db r ids = Inr u" "distinct (map a_id (db_assets db))" "distinct ids" "j \<in> set ids"
  shows "\<exists>a\<in>set (db_assets db). a_id a = j \<and> a_costCenterId a = ar_ownerCostCenterId r \<and> \<not> requestBlocked db (ar_id r) a"
proof -
  define rows where "rows = filter (\<lambda>a. a_id a \<in> set ids \<and> a_costCenterId a = ar_ownerCostCenterId r) (db_assets db)"
  have s: "length rows = length ids" "\<forall>a\<in>set rows. \<not> requestBlocked db (ar_id r) a"
    using assms(1) unfolding assertEligible_def rows_def [symmetric] by (auto simp: list_ex_iff split: if_splits)
  have "distinct (map a_id rows)" unfolding rows_def by (rule distinct_map_filter [OF assms(2)])
  then have "a_id ` set rows = set ids" by (rule counted_all [OF _ _ s(1) assms(3)]) (auto simp: rows_def)
  then obtain a where "a \<in> set rows" "a_id a = j" using assms(4) by (metis imageE)
  then show ?thesis using s(2) by (auto simp: rows_def)
qed

text \<open>
  C14. An acceptance is a decision of a head of the owner center who did not make the request, and it takes
  exactly the assets that were free: each was in use or in storage in the owner center, in no open loan,
  transfer, inventory or write-off and reserved by no other request. Afterwards all of them are reserved
  by the request, which waits for internal control with its two weeks running.
\<close>

theorem accepted_assets_were_free:
  assumes "acceptRequest access env k dto actorId db = Inr db'" "distinct (map a_id (db_assets db))"
  shows "\<exists>r\<in>set (db_requests db). ar_id r = k \<and> ar_requesterUserId r \<noteq> actorId \<and> isHead env db actorId (ar_ownerCostCenterId r) \<and>
    (\<forall>j\<in>set (aq_assetIds dto). holdRequestReservation db' None j \<and> \<not> holdRequestReservation db' (Some k) j \<and>
       (\<exists>a\<in>set (db_assets db). a_id a = j \<and> a_costCenterId a = ar_ownerCostCenterId r \<and>
          a_operationalStatus a \<in> {InUse, InStorage}) \<and>
       \<not> holdOpenLoan db j \<and> \<not> holdOpenTransfer db j \<and> \<not> holdOpenInventory db j \<and> \<not> holdOpenWriteOff db None j) \<and>
    (\<forall>r'\<in>set (db_requests db'). ar_id r' = k \<longrightarrow> ar_status r' = QAccepted \<and> ar_acceptedBy r' = Some actorId \<and>
       ar_expiresAt r' = Some (e_now env + 14 * 86400000))"
proof -
  define ids where "ids = uniq (aq_assetIds dto)"
  define f where "f = (\<lambda>x :: assetRequest. x\<lparr>ar_status := QAccepted, ar_acceptedBy := Some actorId,
    ar_acceptedAt := Some (e_now env), ar_decidedBy := Some actorId, ar_decidedAt := Some (e_now env),
    ar_expiresAt := Some (expiryFrom env)\<rparr>)"
  obtain r roles p where s: "partyRequest access env k actorId db = Inr (r, roles)" "r \<in> set (db_requests db)" "ar_id r = k"
    "OwnerHead \<in> set roles" "ar_requesterUserId r \<noteq> actorId" "assertEligible db r ids = Inr ()"
    "db' = sendNotices env k NoticeAccepted [ToRequester, ToReviewers]
      (addRequestEvent k ''ACCEPTED'' (Some (ar_status r)) (Some QAccepted) (Some actorId) (noteOrNull (aq_note dto)) p
        (updateAssetRequest k f (db\<lparr>db_requestItems := db_requestItems db @ map (requestItemRow k) ids\<rparr>)))"
    using assms(1) unfolding ids_def f_def by (rule acceptRequest_Inr)
  have head: "isHead env db actorId (ar_ownerCostCenterId r)"
    using s(4) partyRequest_Inr [OF s(1)] by (auto simp: viewerRoles_def split: if_splits)
  have items: "db_requestItems db' = db_requestItems db @ map (requestItemRow k) ids" by (simp add: s(7))
  have free: "holdRequestReservation db' None j \<and> \<not> holdRequestReservation db' (Some k) j \<and>
      (\<exists>a\<in>set (db_assets db). a_id a = j \<and> a_costCenterId a = ar_ownerCostCenterId r \<and> a_operationalStatus a \<in> {InUse, InStorage}) \<and>
      \<not> holdOpenLoan db j \<and> \<not> holdOpenTransfer db j \<and> \<not> holdOpenInventory db j \<and> \<not> holdOpenWriteOff db None j"
    if "j \<in> set (aq_assetIds dto)" for j
  proof -
    have j: "j \<in> set ids" using that by (simp add: ids_def)
    obtain a where a: "a \<in> set (db_assets db)" "a_id a = j" "a_costCenterId a = ar_ownerCostCenterId r" "\<not> requestBlocked db k a"
      using assertEligible_all [OF s(6) assms(2) _ j] s(3) by (auto simp: ids_def)
    have "requestItemRow k j \<in> set (db_requestItems db')" using j by (simp add: items)
    then have "holdRequestReservation db' None j"
      unfolding holdRequestReservation_def list_ex_iff by (rule bexI [rotated]) (simp add: requestItemRow_def)
    moreover have "\<not> holdRequestReservation db' (Some k) j"
      using a(2,4) by (auto simp: holdRequestReservation_def items list_ex_iff requestItemRow_def requestBlocked_def)
    ultimately have "holdRequestReservation db' None j" "\<not> holdRequestReservation db' (Some k) j" by blast+
    then show ?thesis using a unfolding requestBlocked_def by blast
  qed
  have "ar_status r' = QAccepted \<and> ar_acceptedBy r' = Some actorId \<and> ar_expiresAt r' = Some (e_now env + 14 * 86400000)"
    if r': "r' \<in> set (db_requests db')" "ar_id r' = k" for r'
  proof -
    obtain x where "r' = (if ar_id x = k then f x else x)" using r'(1) by (auto simp: s(7) in_update_where)
    then have "r' = f x" using r'(2) by (auto split: if_splits)
    then show ?thesis by (simp add: f_def expiryFrom_def ASSET_REQUEST_EXPIRY_DAYS_def)
  qed
  then show ?thesis using s(2,3,5) head free by blast
qed
lemma assertLendable_counted:
  assumes "assertLendable env input scope db = Inr (assets, source)"
  shows "length assets = length (uniq (cl_assetIds input))"
proof (rule ccontr)
  have "assets = assetsById db (uniq (cl_assetIds input))" using assertLendable_Inr(1) [OF assms] by (simp add: assetsById_def)
  moreover assume "length assets \<noteq> length (uniq (cl_assetIds input))"
  ultimately show False using assms by (simp add: assertLendable_def Let_def)
qed

lemma createLoanWithin_loans:
  assumes "createLoanWithin env input actorId scope (Some given) db = Inr (k, db')"
  obtains assets source where "assertLendable env input scope db = Inr (assets, source)"
    "db_loans db' = db_loans db @ [loanRow env k input source (ap_requestedBy given) (Some given)]"
    "db_loanItems db' = db_loanItems db @
       map (\<lambda>(n, a). loanItemRow (e_uuid env n) k source a) (enumerate (Suc (db_seq db)) assets)"
    "db_assets db' = db_assets db"
proof -
  obtain assets source requestedBy where c: "assertLendable env input scope db = Inr (assets, source)"
    "db_loanItems db' = db_loanItems db @
       map (\<lambda>(n, a). loanItemRow (e_uuid env n) k source a) (enumerate (Suc (db_seq db)) assets)"
    "db_assets db' = db_assets db"
    using assms by (rule createLoanWithin_Inr) (rule that)
  have "db_loans db' = db_loans db @ [loanRow env k input source (ap_requestedBy given) (Some given)]"
    using assms unfolding createLoanWithin_def c(1) Let_def
    by (auto simp: insertLoanItems auditLoan_def addLoanEvent_def recordAudit_def bumpSeq_def)
  then show thesis using that c by blast
qed

text \<open>
  C12. A temporary request becomes one loan, approved from the start: between the centers of the request, from
  its start date to its expected return date, handed to the person who asked, approved by who accepted it and
  never by who made it, over exactly the accepted assets. The request points to its loan, keeps no reservation, and no asset has moved.
\<close>

theorem scheduled_loan_lends_the_accepted_assets:
  assumes "generateRequest access env k dto actorId db = Inr db'" "r \<in> set (db_requests db)" "ar_id r = k"
    "ar_kind r = Temporary" "requestInv uuid db" "distinct (map a_id (db_assets db))"
  shows "\<exists>l new. db_loans db' = db_loans db @ [l] \<and> db_loanItems db' = db_loanItems db @ new \<and>
    l_status l = LApproved \<and> l_assetRequestId l = Some k \<and> l_requestedBy l = ar_requesterUserId r \<and>
    l_approvedBy l = ar_acceptedBy r \<and> l_approvedBy l \<noteq> Some (l_requestedBy l) \<and>
    l_sourceCostCenterId l = ar_ownerCostCenterId r \<and> l_targetCostCenterId l = ar_requestingCostCenterId r \<and>
    l_startDate l = map_option (take 10) (if falsy (ar_startDate r) then None else ar_startDate r) \<and>
    (\<exists>returnDate. ar_expectedReturnDate r = Some returnDate \<and> l_expectedReturnDate l = take 10 returnDate) \<and>
    l_contactPersonId l = Some (ar_requesterPersonId r) \<and>
    list_all (\<lambda>i. li_loanId i = l_id l) new \<and> set (map li_assetId new) = set (acceptedAssets db k) \<and>
    db_requests db' = update_where (\<lambda>x. ar_id x = k) (decidedRequest env actorId QLoanScheduled (Some (l_id l)) None) (db_requests db) \<and>
    list_all (\<lambda>i. ri_requestId i = k \<longrightarrow> \<not> ri_open i) (db_requestItems db') \<and> db_assets db' = db_assets db"
  using assms(1)
proof (cases rule: generateRequest_Inr)
  case (loan r2 loanId db2 p)
  note d = requestInvD [OF assms(5)]
  have r: "r2 = r" by (rule only_row [OF d(1) assms(2) loan(1)]) (simp add: assms(3) loan(2))
  define input where "input = \<lparr>cl_assetIds = acceptedAssets db k, cl_targetCostCenterId = ar_requestingCostCenterId r,
        cl_targetLocationId = gq_targetLocationId dto, cl_contactPersonId = ar_requesterPersonId r,
        cl_expectedReturnDate = or_keep (ar_expectedReturnDate r) [], cl_justification = justificationOf dto r,
        cl_deliveryNotes = None, cl_startDate = ar_startDate r\<rparr>"
  define given where "given = \<lparr>ap_by = or_keep (ar_acceptedBy r) actorId, ap_at = or_keep (ar_acceptedAt r) (e_now env),
          ap_requestedBy = ar_requesterUserId r, ap_assetRequestId = ar_id r\<rparr>"
  define db1 where "db1 = releaseRequestItems k db"
  have run: "createLoanWithin env input actorId None (Some given) db1 = Inr (loanId, db2)"
    using loan(9) by (simp add: scheduleLoan_def r input_def given_def db1_def)
  obtain assets source where c: "assertLendable env input None db1 = Inr (assets, source)"
    "db_loans db2 = db_loans db1 @ [loanRow env loanId input source (ap_requestedBy given) (Some given)]"
    "db_loanItems db2 = db_loanItems db1 @
       map (\<lambda>(n, a). loanItemRow (e_uuid env n) loanId source a) (enumerate (Suc (db_seq db1)) assets)"
    "db_assets db2 = db_assets db1"
    using run by (rule createLoanWithin_loans)
  define l where "l = loanRow env loanId input source (ap_requestedBy given) (Some given)"
  define new where "new = map (\<lambda>(n, a). loanItemRow (e_uuid env n) loanId source a) (enumerate (Suc (db_seq db1)) assets)"
  have db1: "db_loans db1 = db_loans db" "db_loanItems db1 = db_loanItems db" "db_assets db1 = db_assets db"
    by (simp_all add: db1_def)
  have assets: "assets = assetsById db (acceptedAssets db k)" "assets \<noteq> []" "list_all (\<lambda>a. a_costCenterId a = source) assets"
    using assertLendable_Inr(1,2,3) [OF c(1)] by (auto simp: input_def assetsById_def db1 list_all_iff)
  have all: "a_id ` set assets = set (uniq (acceptedAssets db k))"
  proof (rule counted_all)
    show "distinct (map a_id assets)" unfolding assets(1) by (rule assetsById_distinct [OF assms(6)])
    show "length assets = length (uniq (acceptedAssets db k))" using assertLendable_counted [OF c(1)] by (simp add: input_def)
  qed (auto simp: assets(1) assetsById_set)
  obtain a where a: "a \<in> set assets" using assets(2) by (cases assets) auto
  have "a \<in> set (db_assets db)" "a_id a \<in> set (acceptedAssets db k)" using a by (auto simp: assets(1) assetsById_set)
  then have source: "source = ar_ownerCostCenterId r" using loan(7) a assets(3) by (auto simp: r list_all_iff)
  have newIds: "map li_assetId new = map a_id assets" "list_all (\<lambda>i. li_loanId i = loanId) new"
    unfolding new_def by (rule newItems(2)) (auto simp: list_all_iff loanItemRow_def)
  have rows: "db_loans db' = db_loans db @ [l]" "db_loanItems db' = db_loanItems db @ new" "db_assets db' = db_assets db"
    "l_id l = loanId" using c(2-4) by (simp_all add: loan(10) db1 l_def new_def loanRow_def)
  have kept: "leavesRequests db1 db2" by (rule createLoanWithin_requests [OF run])
  have requests: "db_requests db' =
      update_where (\<lambda>x. ar_id x = k) (decidedRequest env actorId QLoanScheduled (Some loanId) None) (db_requests db)"
    using kept by (simp add: loan(10) leavesRequests_def db1_def)
  have items: "db_requestItems db' = update_where (\<lambda>i. ri_requestId i = k) closeRequestItem (db_requestItems db)"
    using kept by (simp add: loan(10) leavesRequests_def db1_def)
  have closed: "list_all (\<lambda>i. ri_requestId i = k \<longrightarrow> \<not> ri_open i) (db_requestItems db')"
    unfolding items list_all_iff using requestItems.nothing_open by blast
  obtain who where who: "ar_acceptedBy r = Some who" "who \<noteq> ar_requesterUserId r"
    using loan(8) d(3) [OF assms(2)] by (auto simp: r requestRowOk_def)
  obtain returnDate where returns: "ar_expectedReturnDate r = Some returnDate"
    using d(3) [OF assms(2)] assms(4) by (auto simp: requestRowOk_def requestChecks_defs)
  have terms: "l_status l = LApproved" "l_assetRequestId l = Some k" "l_requestedBy l = ar_requesterUserId r"
    "l_approvedBy l = ar_acceptedBy r" "l_approvedBy l \<noteq> Some (l_requestedBy l)"
    "l_sourceCostCenterId l = ar_ownerCostCenterId r" "l_targetCostCenterId l = ar_requestingCostCenterId r"
    "l_startDate l = map_option (take 10) (if falsy (ar_startDate r) then None else ar_startDate r)"
    "l_expectedReturnDate l = take 10 returnDate" "l_contactPersonId l = Some (ar_requesterPersonId r)"
    using who returns by (simp_all add: l_def loanRow_def given_def input_def source assms(3))
  show ?thesis
    by (rule exI [of _ l], rule exI [of _ new])
      (use rows terms returns newIds requests closed all in \<open>simp flip: set_map\<close>)
next
  case (transfer r2 transferId owner db2 p)
  have "r2 = r" by (rule only_row [OF requestInvD(1) [OF assms(5)] assms(2) transfer(1)]) (simp add: assms(3) transfer(2))
  then show ?thesis using transfer(3) assms(4) by simp
qed

text \<open>
  C13. What happens to the loan of a request happens to the request, in the same transaction: rejecting or
  cancelling the loan closes the request with the matching status, delivering it issues its document. No
  other request changes and, once the loan is over, the request reserves nothing.
\<close>

theorem loan_outcome_reaches_its_request:
  assumes "(outcome, run) \<in> {(QClosedLoanRejected, rejectLoan access (requestListeners env) env k reason actorId db),
      (QClosedLoanCancelled, cancelLoan access (requestListeners env) env k reason actorId db),
      (QDocumentGenerated, deliverWithin (requestListeners env) env k dto actorId role db)}"
    "run = Inr db'" "r \<in> set (db_requests db)" "ar_status r = QLoanScheduled" "ar_loanId r = Some k"
    "l \<in> set (db_loans db)" "l_id l = k" "l_assetRequestId l = Some (ar_id r)" "ar_id r \<noteq> []"
    "distinct (map l_id (db_loans db))" "requestInv uuid db"
  shows "\<exists>f. db_requests db' = update_where (\<lambda>x. ar_id x = ar_id r) f (db_requests db) \<and> ar_status (f r) = outcome \<and>
    ar_loanId (f r) = Some k \<and> list_all (\<lambda>i. ri_requestId i = ar_id r \<longrightarrow> \<not> ri_open i) (db_requestItems db')"
proof -
  note d = requestInvD [OF assms(11)]
  have loan: "x = l" if "x \<in> set (db_loans db)" "l_id x = k" for x
    using only_row [OF assms(10,6) that(1)] that(2) assms(7) by simp
  have unreserved: "list_all (\<lambda>i. ri_requestId i = ar_id r \<longrightarrow> \<not> ri_open i) (db_requestItems db)"
    using d(5) only_row [OF d(1) assms(3)] assms(4) by (force simp: list_all_iff HOLDING_STATUSES_def)
  have found: "requestOfLoan d' (Some (ar_id r)) k = Some r" if "db_requests d' = db_requests db" for d'
  proof -
    have "List.find (\<lambda>x. Some (ar_id x) = Some (ar_id r) \<and> ar_loanId x = Some k) (db_requests db) = Some r"
      using only_row [OF d(1) assms(3)] assms(3,5) by (cases "List.find (\<lambda>x. Some (ar_id x) = Some (ar_id r) \<and> ar_loanId x = Some k) (db_requests db)")
        (auto simp: find_None_iff dest: find_SomeD)
    then show ?thesis using that assms(4,9) by (simp add: requestOfLoan_def)
  qed
  have closed: "\<exists>f. db_requests db' = update_where (\<lambda>x. ar_id x = ar_id r) f (db_requests db) \<and> ar_status (f r) = after \<and>
      ar_loanId (f r) = Some k \<and> list_all (\<lambda>i. ri_requestId i = ar_id r \<longrightarrow> \<not> ri_open i) (db_requestItems db')"
    if "closeByLoan env after ty notice \<lparr>ln_loanId = k, ln_requestId = Some (ar_id r), ln_reason = why, ln_actorId = actorId\<rparr> d' = Inr db'"
      "leavesRequests db d'" for after ty notice why d'
  proof (rule exI [of _ "\<lambda>x. x\<lparr>ar_status := after, ar_expiresAt := None,
        ar_decidedBy := Some actorId, ar_decidedAt := Some (e_now env)\<rparr>"], intro conjI)
    have t: "db_requests d' = db_requests db" "db_requestItems d' = db_requestItems db" using that(2) by (simp_all add: leavesRequests_def)
    note run = that(1) [unfolded closeByLoan_def loanEnded.simps found [OF t(1)] option.case]
    show "db_requests db' = update_where (\<lambda>x. ar_id x = ar_id r) (\<lambda>x. x\<lparr>ar_status := after, ar_expiresAt := None,
        ar_decidedBy := Some actorId, ar_decidedAt := Some (e_now env)\<rparr>) (db_requests db)"
      using run by (auto simp: rbind_eq_Inr t)
    have "db_requestItems db' = update_where (\<lambda>i. ri_requestId i = ar_id r) closeRequestItem (db_requestItems db)"
      using run by (auto simp: rbind_eq_Inr t)
    then show "list_all (\<lambda>i. ri_requestId i = ar_id r \<longrightarrow> \<not> ri_open i) (db_requestItems db')"
      unfolding list_all_iff using requestItems.nothing_open by metis
  qed (simp_all add: assms(5))
  consider (rejected) "outcome = QClosedLoanRejected" "rejectLoan access (requestListeners env) env k reason actorId db = Inr db'"
    | (cancelled) "outcome = QClosedLoanCancelled" "cancelLoan access (requestListeners env) env k reason actorId db = Inr db'"
    | (delivered) "outcome = QDocumentGenerated" "deliverWithin (requestListeners env) env k dto actorId role db = Inr db'"
    using assms(1,2) by blast
  then show ?thesis
  proof cases
    case rejected
    obtain x d' where x: "x \<in> set (db_loans db)" "l_id x = k" "leavesRequests db d'" "notifyAll (lr_rejected (requestListeners env))
        \<lparr>ln_loanId = k, ln_requestId = l_assetRequestId x, ln_reason = reason, ln_actorId = actorId\<rparr> d' = Inr db'"
      using rejected(2) by (rule rejectLoan_notifies) (rule that)
    show ?thesis
      unfolding rejected(1) by (rule closed [OF _ x(3)])
        (use x(4) in \<open>simp add: loan [OF x(1,2)] assms(8) requestListeners_def notifyOne onLoanRejected_def\<close>)
  next
    case cancelled
    obtain x d' where x: "x \<in> set (db_loans db)" "l_id x = k" "leavesRequests db d'" "notifyAll (lr_cancelled (requestListeners env))
        \<lparr>ln_loanId = k, ln_requestId = l_assetRequestId x, ln_reason = trim reason, ln_actorId = actorId\<rparr> d' = Inr db'"
      using cancelled(2) by (rule cancelLoan_notifies) (rule that)
    show ?thesis
      unfolding cancelled(1) by (rule closed [OF _ x(3)])
        (use x(4) in \<open>simp add: loan [OF x(1,2)] assms(8) requestListeners_def notifyOne onLoanCancelled_def\<close>)
  next
    case delivered
    obtain x d' asked where x: "x \<in> set (db_loans db)" "l_id x = k" "leavesRequests db d'" "notifyAll (lr_delivered (requestListeners env))
        \<lparr>lo_loanId = k, lo_requestId = l_assetRequestId x, lo_documentRequestId = asked, lo_deliveredAt = e_now env,
         lo_actorId = actorId\<rparr> d' = Inr db'"
      using delivered(2) by (rule deliverWithin_notifies) (rule that)
    have t: "db_requests d' = db_requests db" "db_requestItems d' = db_requestItems db" using x(3) by (simp_all add: leavesRequests_def)
    show ?thesis
      unfolding delivered(1)
      by (rule exI [of _ "\<lambda>x. x\<lparr>ar_status := QDocumentGenerated\<rparr>"])
        (use x(4) unreserved in \<open>auto simp: loan [OF x(1,2)] assms(5,8) requestListeners_def notifyOne onLoanDelivered_def
            found [OF t(1)] rbind_eq_Inr t\<close>)
  qed
qed

text \<open>Each transaction of the expiry takes one due request out of the due ones, and none fails.\<close>

lemma one_fewer:
  assumes "distinct (map ar_id rs)" "r \<in> set rs" "due r" "\<And>x. \<not> due (f x)"
  shows "Suc (length (filter due (update_where (\<lambda>x. ar_id x = ar_id r) f rs))) = length (filter due rs)"
  using assms(1,2)
proof (induction rs)
  case Nil
  then show ?case by simp
next
  case (Cons x rs)
  show ?case
  proof (cases "x = r")
    case True
    have "update_where (\<lambda>x. ar_id x = ar_id r) f rs = rs"
      by (rule update_where_id) (use Cons.prems(1) True in \<open>auto simp: image_iff\<close>)
    then show ?thesis using assms(3,4) True by simp
  next
    case False
    then have "r \<in> set rs" "ar_id x \<noteq> ar_id r" using Cons.prems by (auto simp: image_iff)
    then show ?thesis using Cons.IH Cons.prems(1) by simp
  qed
qed

lemma expireOne_progress:
  assumes "distinct (map ar_id (db_requests db))" "filter (dueRequest env) (db_requests db) \<noteq> []"
  obtains db' r where "expireOne env db = Some (Inr db')" "r \<in> set (db_requests db)" "dueRequest env r"
    "db_requests db' = update_where (\<lambda>x. ar_id x = ar_id r) (\<lambda>x. x\<lparr>ar_status := QExpired, ar_decidedBy := None,
       ar_decidedAt := Some (e_now env)\<rparr>) (db_requests db)"
    "\<And>x. x \<in> set (db_requests db) \<Longrightarrow> dueRequest env x \<Longrightarrow> the (ar_expiresAt r) \<le> the (ar_expiresAt x)"
proof -
  let ?due = "sort_key (\<lambda>r. the (ar_expiresAt r)) (filter (dueRequest env) (db_requests db))"
  obtain r rest where due: "?due = r # rest"
    using assms(2) by (cases ?due) (metis filter.simps(1) set_empty set_sort, blast)
  then have "r \<in> set ?due" by simp
  then have r: "r \<in> set (db_requests db)" "dueRequest env r" by simp_all
  have "sorted (map (\<lambda>r. the (ar_expiresAt r)) (r # rest))" unfolding due [symmetric] by simp
  then have oldest: "the (ar_expiresAt r) \<le> the (ar_expiresAt x)" if "x \<in> set (db_requests db)" "dueRequest env x" for x
    using that arg_cong [OF due, of set] by (auto simp: set_eq_iff)
  have "canAssetRequestTransition (ar_status r) QExpired"
    using r(2) by (auto simp: dueRequest_def EXPIRING_STATUSES_def canRequest_cases)
  then have passed: "assertAssetRequestTransition (ar_status r) QExpired = Inr ()" by simp
  have "\<exists>kind audiences ty p. expireOne env db = Some (Inr (sendNotices env (ar_id r) kind audiences
      (addRequestEvent (ar_id r) ty (Some (ar_status r)) (Some QExpired) None None p
       (releaseRequestItems (ar_id r) (updateAssetRequest (ar_id r) (\<lambda>x. x\<lparr>ar_status := QExpired, ar_decidedBy := None,
          ar_decidedAt := Some (e_now env)\<rparr>) db)))))"
    unfolding expireOne_def due list.case passed Let_def rbind.simps by (intro exI) (rule refl)
  then show thesis using that [OF _ r _ oldest] by auto
qed

text \<open>
  C15. The expiry ends by itself: it runs one transaction per due request up to its limit, none of them fails,
  and it leaves due exactly those beyond the limit, so with enough limit none; those it ran were due no later
  than any it left. A request that was not due stays as it was, and every one it changed is expired. (Another
  worker that holds a row, which SKIP LOCKED passes over, is not modelled.)
\<close>

theorem expiry_run_clears_the_due:
  assumes "distinct (map ar_id (db_requests db))"
  shows "\<exists>db'. expireDue env limit db = (min limit (length (filter (dueRequest env) (db_requests db))), db', None) \<and>
    length (filter (dueRequest env) (db_requests db')) = length (filter (dueRequest env) (db_requests db)) - limit \<and>
    list_all (\<lambda>r. list_all (\<lambda>d. the (ar_expiresAt r) \<le> the (ar_expiresAt d)) (filter (dueRequest env) (db_requests db')))
      (filter (\<lambda>r. dueRequest env r \<and> r \<notin> set (db_requests db')) (db_requests db)) \<and>
    list_all (\<lambda>r. r \<in> set (db_requests db')) (filter (\<lambda>r. \<not> dueRequest env r) (db_requests db)) \<and>
    list_all (\<lambda>r. ar_status r = QExpired) (filter (\<lambda>r. r \<notin> set (db_requests db)) (db_requests db'))"
  unfolding expireDue_def using assms
proof (induction limit arbitrary: db)
  case 0
  then show ?case by (auto simp: list_all_iff)
next
  case (Suc limit)
  show ?case
  proof (cases "filter (dueRequest env) (db_requests db) = []")
    case True
    then have "expireOne env db = None" by (simp add: expireOne_def)
    then show ?thesis using True by (auto simp: list_all_iff filter_empty_conv)
  next
    case False
    obtain db1 r where one: "expireOne env db = Some (Inr db1)" "r \<in> set (db_requests db)" "dueRequest env r"
      "db_requests db1 = update_where (\<lambda>x. ar_id x = ar_id r) (\<lambda>x. x\<lparr>ar_status := QExpired, ar_decidedBy := None,
         ar_decidedAt := Some (e_now env)\<rparr>) (db_requests db)"
      "\<And>x. x \<in> set (db_requests db) \<Longrightarrow> dueRequest env x \<Longrightarrow> the (ar_expiresAt r) \<le> the (ar_expiresAt x)"
      using Suc.prems False by (rule expireOne_progress) blast
    have ids: "distinct (map ar_id (db_requests db1))" using Suc.prems by (simp add: one(4) map_update_where)
    have fewer: "Suc (length (filter (dueRequest env) (db_requests db1))) = length (filter (dueRequest env) (db_requests db))"
      unfolding one(4) by (rule one_fewer [OF Suc.prems one(2)]) (simp_all add: one(3), simp add: dueRequest_def EXPIRING_STATUSES_def)
    have kept: "x \<in> set (db_requests db1)" if "x \<in> set (db_requests db)" "\<not> dueRequest env x" for x
      unfolding one(4) in_update_where
      by (rule bexI [OF _ that(1)]) (use only_row [OF Suc.prems one(2) that(1)] one(3) that(2) in auto)
    have same: "\<not> dueRequest env x \<and> ar_status x = QExpired" if "x \<in> set (db_requests db1)" "x \<notin> set (db_requests db)" for x
      using that unfolding one(4) in_update_where by (auto simp: dueRequest_def EXPIRING_STATUSES_def split: if_splits)
    obtain db' where rest: "runLimited (expireOne env) limit db1 =
        (min limit (length (filter (dueRequest env) (db_requests db1))), db', None)"
      "length (filter (dueRequest env) (db_requests db')) = length (filter (dueRequest env) (db_requests db1)) - limit"
      "list_all (\<lambda>r. list_all (\<lambda>d. the (ar_expiresAt r) \<le> the (ar_expiresAt d)) (filter (dueRequest env) (db_requests db')))
        (filter (\<lambda>r. dueRequest env r \<and> r \<notin> set (db_requests db')) (db_requests db1))"
      "list_all (\<lambda>r. r \<in> set (db_requests db')) (filter (\<lambda>r. \<not> dueRequest env r) (db_requests db1))"
      "list_all (\<lambda>r. ar_status r = QExpired) (filter (\<lambda>r. r \<notin> set (db_requests db1)) (db_requests db'))"
      using Suc.IH [OF ids] by blast
    show ?thesis
    proof (rule exI [of _ db'], intro conjI)
      show "runLimited (expireOne env) (Suc limit) db =
          (min (Suc limit) (length (filter (dueRequest env) (db_requests db))), db', None)"
        by (simp add: one(1) rest(1) flip: fewer)
      show "length (filter (dueRequest env) (db_requests db')) = length (filter (dueRequest env) (db_requests db)) - Suc limit"
        by (simp add: rest(2) flip: fewer)
      have left: "d \<in> set (db_requests db)" if "d \<in> set (db_requests db')" "dueRequest env d" for d
      proof (rule ccontr)
        assume "d \<notin> set (db_requests db)"
        then have "ar_status d = QExpired"
          using that(1) rest(5) same [of d] by (auto simp: list_all_iff)
        then show False using that(2) by (simp add: dueRequest_def EXPIRING_STATUSES_def)
      qed
      have order: "the (ar_expiresAt x) \<le> the (ar_expiresAt d)"
        if x: "x \<in> set (db_requests db)" "dueRequest env x" "x \<notin> set (db_requests db')"
          and d: "d \<in> set (db_requests db')" "dueRequest env d" for x d
      proof (cases "x = r")
        case True
        then show ?thesis using one(5) [OF left [OF d] d(2)] by simp
      next
        case False
        have "x \<in> set (db_requests db1)"
          unfolding one(4) in_update_where
          by (rule bexI [OF _ x(1)]) (use only_row [OF Suc.prems one(2) x(1)] False in auto)
        then show ?thesis using rest(3) x(2,3) d by (simp add: list_all_iff)
      qed
      show "list_all (\<lambda>r. list_all (\<lambda>d. the (ar_expiresAt r) \<le> the (ar_expiresAt d)) (filter (dueRequest env) (db_requests db')))
          (filter (\<lambda>r. dueRequest env r \<and> r \<notin> set (db_requests db')) (db_requests db))"
        using order by (simp add: list_all_iff)
      show "list_all (\<lambda>r. r \<in> set (db_requests db')) (filter (\<lambda>r. \<not> dueRequest env r) (db_requests db))"
        using rest(4) kept by (simp add: list_all_iff)
      show "list_all (\<lambda>r. ar_status r = QExpired) (filter (\<lambda>r. r \<notin> set (db_requests db)) (db_requests db'))"
        using rest(5) same by (auto simp: list_all_iff)
    qed
  qed
qed

section \<open>Witnesses\<close>

definition sampleRequestId :: string where
  "sampleRequestId = ''00000000-0000-4000-8000-000000000008''"

text \<open>The head of \<open>c2\<close> asks \<open>c1\<close> for an asset; the head of \<open>c1\<close> is the user \<open>u\<close>.\<close>

definition sampleAssetRequest :: "assetRequestStatus \<Rightarrow> assetRequest" where
  "sampleAssetRequest s = \<lparr>ar_id = sampleRequestId, ar_code = ''SOL-1970-0001'', ar_kind = Temporary, ar_status = s,
     ar_requesterUserId = ''v'', ar_requesterPersonId = ''p2'', ar_requestingCostCenterId = ''c2'', ar_ownerCostCenterId = ''c1'',
     ar_description = ''need'', ar_note = None, ar_startDate = Some ''1970-01-01'', ar_expectedReturnDate = Some ''1970-02-01'',
     ar_acceptedBy = (if s = QRequested then None else Some ''u''), ar_acceptedAt = (if s = QRequested then None else Some 0),
     ar_decidedBy = None, ar_decidedAt = None, ar_expiresAt = (if s \<in> {QAccepted, QReturned} then Some 500 else None),
     ar_loanId = (if s = QLoanScheduled then Some sampleLoanId else None), ar_transferId = None\<rparr>"

definition requestDb :: "assetRequest list \<Rightarrow> requestItem list \<Rightarrow> loan list \<Rightarrow> db" where
  "requestDb requests items loans = (lendingDb loans [] InUse)\<lparr>db_requests := requests, db_requestItems := items,
     db_requestSequence := Some \<lparr>cs_prefix = Some ''SOL-'', cs_currentValue = 0, cs_paddingLength = 4\<rparr>,
     db_users := [\<lparr>u_id = ''u'', u_personId = Some ''p1'', u_status = UActive, u_mfaEnabled = True\<rparr>,
       \<lparr>u_id = ''v'', u_personId = Some ''p2'', u_status = UActive, u_mfaEnabled = True\<rparr>],
     db_heads := [\<lparr>ch_costCenterId = ''c2'', ch_personId = ''p2'', ch_validFrom = 0, ch_validUntil = None\<rparr>,
       \<lparr>ch_costCenterId = ''c1'', ch_personId = ''p1'', ch_validFrom = 0, ch_validUntil = None\<rparr>]\<rparr>"

definition sampleReserved :: "requestItem list" where
  "sampleReserved = [requestItemRow sampleRequestId ''a'']"

definition requestDto :: createRequestInput where
  "requestDto = \<lparr>cq_kind = Temporary, cq_requestingCostCenterId = ''c2'', cq_ownerCostCenterId = ''c1'',
     cq_description = ''need'', cq_note = None, cq_startDate = Some ''1970-01-01'', cq_expectedReturnDate = Some ''1970-02-01''\<rparr>"

definition generateDto :: generateRequestInput where
  "generateDto = \<lparr>gq_controlSignerPersonId = None, gq_accountingSignerPersonId = None, gq_signerSubstitutions = None,
     gq_items = None, gq_assetNotes = None, gq_targetLocationId = None, gq_justification = None\<rparr>"

definition requestLoan :: loan where
  "requestLoan = (sampleLoan LApproved)\<lparr>l_assetRequestId := Some sampleRequestId\<rparr>"

lemma requestDb_rows [simp]:
  "db_requests (requestDb rs is ls) = rs" "db_requestItems (requestDb rs is ls) = is" "db_loans (requestDb rs is ls) = ls"
  "db_assets (requestDb rs is ls) = [sampleAsset ''a'' InUse]" "db_seq (requestDb rs is ls) = 10"
  by (simp_all add: requestDb_def)

lemma sampleAssetRequest_fields [simp]:
  "ar_id (sampleAssetRequest s) = sampleRequestId" "ar_status (sampleAssetRequest s) = s" "ar_kind (sampleAssetRequest s) = Temporary"
  "ar_requesterUserId (sampleAssetRequest s) = ''v''"
  by (simp_all add: sampleAssetRequest_def)

lemma createLoanWithin_runs: "\<not> isl (assertLendable env input scope db) \<Longrightarrow> \<not> isl (createLoanWithin env input actorId scope approved db)"
  by (cases "assertLendable env input scope db") (auto simp: createLoanWithin_def Let_def)

lemma sampleRequest_known: "isUuid sampleRequestId" "sampleRequestId \<noteq> []"
  by code_simp+

lemma sampleParty:
  "\<exists>roles. partyRequest openAccess sampleEnv sampleRequestId ''w'' (requestDb [sampleAssetRequest s] is ls) = Inr (sampleAssetRequest s, roles) \<and>
     Reviewer \<in> set roles"
  by (simp add: partyRequest_def requestRow_def sampleRequest_known viewerRoles_def openAccess_def)

lemma sampleRequest_generated:
  "\<not> isl (generateRequest openAccess sampleEnv sampleRequestId generateDto ''w'' (requestDb [sampleAssetRequest QAccepted] sampleReserved []))"
proof -
  let ?db = "requestDb [sampleAssetRequest QAccepted] sampleReserved []"
  obtain roles where party: "partyRequest openAccess sampleEnv sampleRequestId ''w'' ?db = Inr (sampleAssetRequest QAccepted, roles)"
    "Reviewer \<in> set roles" using sampleParty by blast
  have "\<not> isl (currentFormat sampleEnv ?db LOAN_DELIVERY_FORMAT)" by code_simp
  then obtain f where format: "currentFormat sampleEnv ?db LOAN_DELIVERY_FORMAT = Inr f"
    by (cases "currentFormat sampleEnv ?db LOAN_DELIVERY_FORMAT") auto
  have accepted: "acceptedAssets ?db sampleRequestId = [''a'']"
    by (simp add: acceptedAssets_def sampleReserved_def requestItemRow_def)
  have "\<not> isl (assertLendable sampleEnv (sampleLoanInput\<lparr>cl_startDate := Some ''1970-01-01'', cl_justification := ''need''\<rparr>) None (releaseRequestItems sampleRequestId ?db))"
    by code_simp
  then have "\<not> isl (scheduleLoan sampleEnv generateDto (sampleAssetRequest QAccepted) [''a''] ''w'' (releaseRequestItems sampleRequestId ?db))"
    unfolding scheduleLoan_def
    by (intro createLoanWithin_runs) (simp add: sampleAssetRequest_def generateDto_def justificationOf_def sampleLoanInput_def or_keep_def)
  then obtain k db2 where loan: "scheduleLoan sampleEnv generateDto (sampleAssetRequest QAccepted) [''a''] ''w'' (releaseRequestItems sampleRequestId ?db) = Inr (k, db2)"
    by (cases "scheduleLoan sampleEnv generateDto (sampleAssetRequest QAccepted) [''a''] ''w'' (releaseRequestItems sampleRequestId ?db)") auto
  have "\<not> isl (longSpanishDate ''1970-01-01'')" by code_simp
  then obtain d where date: "longSpanishDate ''1970-01-01'' = Inr d" by (cases "longSpanishDate ''1970-01-01''") auto
  have other: "personOf ?db ''u'' = Some ''p1''" by (simp add: personOf_def requestDb_def)
  have fields: "ar_acceptedBy (sampleAssetRequest QAccepted) = Some ''u''" "ar_startDate (sampleAssetRequest QAccepted) = Some ''1970-01-01''"
    "ar_ownerCostCenterId (sampleAssetRequest QAccepted) = ''c1''" "a_costCenterId (sampleAsset ''a'' InUse) = ''c1''"
    by (simp_all add: sampleAssetRequest_def sampleAsset_def)
  have can: "assertAssetRequestTransition QAccepted QLoanScheduled = Inr ()" by (simp add: canRequest_cases)
  show ?thesis
    by (simp add: generateRequest_def party assertReviewer_def can generateDto_def [THEN arg_cong, of gq_controlSignerPersonId]
      generateDto_def [THEN arg_cong, of gq_signerSubstitutions] generateDto_def [THEN arg_cong, of gq_assetNotes]
      format accepted other fields loan date openAccess_def [THEN arg_cong, of la_permits] Let_def)
qed

lemma sampleRequests_run:
  "\<not> isl (createRequest sampleEnv requestDto ''v'' (requestDb [] [] []))"
  "\<not> isl (acceptRequest openAccess sampleEnv sampleRequestId \<lparr>aq_assetIds = [''a''], aq_note = None\<rparr> ''u''
     (requestDb [sampleAssetRequest QRequested] [] []))"
  "\<not> isl (cancelLoan openAccess (requestListeners sampleEnv) sampleEnv sampleLoanId ''reason'' ''w''
     (requestDb [sampleAssetRequest QLoanScheduled] [] [requestLoan]))"
  by code_simp+

lemma sampleRequest_drawn: "sampleRequestId \<in> e_uuid sampleEnv ` {..<10}"
  by (rule image_eqI [of _ _ 8]) (simp_all add: sampleRequestId_def sampleEnv_def, code_simp)

lemma sampleRequest_ok: "s \<in> {QAccepted, QLoanScheduled} \<Longrightarrow> requestRowOk (sampleAssetRequest s)"
proof -
  have "''1970-01-01'' \<le> (''1970-02-01'' :: string)" by code_simp
  then show "s \<in> {QAccepted, QLoanScheduled} \<Longrightarrow> requestRowOk (sampleAssetRequest s)"
    by (auto simp: sampleAssetRequest_def requestRowOk_def requestChecks_defs)
qed

lemma sampleRequest_inv:
  "requestInv (e_uuid sampleEnv) (requestDb [sampleAssetRequest QAccepted] sampleReserved [])"
  "requestInv (e_uuid sampleEnv) (requestDb [sampleAssetRequest QLoanScheduled] [] [requestLoan])"
  using sampleRequest_drawn sampleRequest_ok
  by (simp_all add: requestInv_def sampleReserved_def requestItemRow_def exclusiveOpen_def HOLDING_STATUSES_def)

theorem requests_keep_their_constraints_witness:
  "\<exists>k db. createRequest sampleEnv requestDto ''v'' (requestDb [] [] []) = Inr (k, db) \<and> list_all requestChecks (db_requests db)"
proof -
  obtain k db where run: "createRequest sampleEnv requestDto ''v'' (requestDb [] [] []) = Inr (k, db)"
    using sampleRequests_run(1) by (cases "createRequest sampleEnv requestDto ''v'' (requestDb [] [] [])") auto
  have "requestReachable openAccess (e_uuid sampleEnv) (requestDb [] [] []) db"
    using requestStep.Created [OF refl run] by blast
  moreover have "inj (e_uuid sampleEnv)" using sampleEnv_ok by (simp add: envOk_def)
  ultimately show ?thesis using requests_keep_their_constraints run by fastforce
qed

theorem accepted_assets_were_free_witness:
  "\<exists>db'. acceptRequest openAccess sampleEnv sampleRequestId \<lparr>aq_assetIds = [''a''], aq_note = None\<rparr> ''u''
     (requestDb [sampleAssetRequest QRequested] [] []) = Inr db' \<and> holdRequestReservation db' None ''a''"
proof -
  obtain db' where run: "acceptRequest openAccess sampleEnv sampleRequestId \<lparr>aq_assetIds = [''a''], aq_note = None\<rparr> ''u''
     (requestDb [sampleAssetRequest QRequested] [] []) = Inr db'"
    using sampleRequests_run(2) by (cases "acceptRequest openAccess sampleEnv sampleRequestId \<lparr>aq_assetIds = [''a''], aq_note = None\<rparr> ''u''
     (requestDb [sampleAssetRequest QRequested] [] [])") auto
  have "distinct (map a_id (db_assets (requestDb [sampleAssetRequest QRequested] [] [])))" by simp
  from accepted_assets_were_free [OF run this] show ?thesis using run by auto
qed

theorem scheduled_loan_lends_the_accepted_assets_witness:
  "\<exists>db' l. generateRequest openAccess sampleEnv sampleRequestId generateDto ''w''
      (requestDb [sampleAssetRequest QAccepted] sampleReserved []) = Inr db' \<and>
     db_loans db' = [l] \<and> l_status l = LApproved \<and> l_assetRequestId l = Some sampleRequestId \<and>
     l_startDate l = Some ''1970-01-01'' \<and> l_expectedReturnDate l = ''1970-02-01''"
proof -
  let ?db = "requestDb [sampleAssetRequest QAccepted] sampleReserved []"
  obtain db' where run: "generateRequest openAccess sampleEnv sampleRequestId generateDto ''w'' ?db = Inr db'"
    using sampleRequest_generated by (cases "generateRequest openAccess sampleEnv sampleRequestId generateDto ''w'' ?db") auto
  have dates: "ar_startDate (sampleAssetRequest QAccepted) = Some ''1970-01-01''"
    "ar_expectedReturnDate (sampleAssetRequest QAccepted) = Some ''1970-02-01''" by (simp_all add: sampleAssetRequest_def)
  show ?thesis
    using scheduled_loan_lends_the_accepted_assets [OF run, of "sampleAssetRequest QAccepted" "e_uuid sampleEnv"]
      sampleRequest_inv(1) run dates by auto
qed

theorem loan_outcome_reaches_its_request_witness:
  "\<exists>db' r'. cancelLoan openAccess (requestListeners sampleEnv) sampleEnv sampleLoanId ''reason'' ''w''
      (requestDb [sampleAssetRequest QLoanScheduled] [] [requestLoan]) = Inr db' \<and>
     db_requests db' = [r'] \<and> ar_status r' = QClosedLoanCancelled"
proof -
  let ?db = "requestDb [sampleAssetRequest QLoanScheduled] [] [requestLoan]"
  obtain db' where run: "cancelLoan openAccess (requestListeners sampleEnv) sampleEnv sampleLoanId ''reason'' ''w'' ?db = Inr db'"
    using sampleRequests_run(3) by (cases "cancelLoan openAccess (requestListeners sampleEnv) sampleEnv sampleLoanId ''reason'' ''w'' ?db") auto
  have "ar_loanId (sampleAssetRequest QLoanScheduled) = Some sampleLoanId" by (simp add: sampleAssetRequest_def)
  moreover have "l_id requestLoan = sampleLoanId" "l_assetRequestId requestLoan = Some sampleRequestId" by (simp_all add: requestLoan_def)
  ultimately show ?thesis
    using loan_outcome_reaches_its_request [of QClosedLoanCancelled _ openAccess sampleEnv sampleLoanId "''reason''" "''w''" ?db
        undefined undefined db' "sampleAssetRequest QLoanScheduled" requestLoan "e_uuid sampleEnv"]
      sampleRequest_inv(2) sampleRequest_known run by auto
qed

theorem expiry_run_clears_the_due_witness:
  "\<exists>db'. expireDue sampleEnv 5 (requestDb [sampleAssetRequest QAccepted] sampleReserved []) = (1, db', None) \<and>
     filter (dueRequest sampleEnv) (db_requests db') = []"
proof -
  have "dueRequest sampleEnv (sampleAssetRequest QAccepted)"
    by (simp add: dueRequest_def EXPIRING_STATUSES_def sampleAssetRequest_def sampleEnv_def)
  then show ?thesis
    using expiry_run_clears_the_due [of "requestDb [sampleAssetRequest QAccepted] sampleReserved []" sampleEnv 5] by auto
qed

text \<open>
  The table of transitions lets a returned request be accepted, which a correction needs, so the head of the
  owner center can accept it a second time while the requester has not corrected it.
\<close>

lemma returned_request_is_accepted_again:
  "\<not> isl (acceptRequest openAccess sampleEnv sampleRequestId \<lparr>aq_assetIds = [''a''], aq_note = None\<rparr> ''u''
     (requestDb [sampleAssetRequest QReturned] [] []))"
  by code_simp

end
