(* ===== verification/Lockout.thy ===== *)
theory Lockout
  imports Prelude
begin

text \<open>
  The lockout of failed logins: the policy of
  src/src/modules/auth/services/auth-lockout.policy.ts and the table that
  src/src/modules/auth/services/auth-lockout.service.ts keeps in \<open>auth_attempt_lockout\<close>. The table
  is a map from its primary key, the subject and the factor, to the other columns. The main result
  bounds how many guesses are admitted in any window, whatever else is registered in between.
\<close>

section \<open>Policy\<close>

datatype authFactor = PasswordFactor | MfaFactor | PasswordIpFactor | IpFailuresFactor

record lockoutPolicy =
  threshold :: nat
  windowMs :: int
  baseLockMs :: int
  maxLockMs :: int
  levelResetMs :: int

definition MINUTE_MS :: int where "MINUTE_MS = 60000"
definition HOUR_MS :: int where "HOUR_MS = 60 * MINUTE_MS"

fun LOCKOUT_POLICIES :: "authFactor \<Rightarrow> lockoutPolicy" where
  "LOCKOUT_POLICIES PasswordFactor = \<lparr>threshold = 5, windowMs = 15 * MINUTE_MS,
     baseLockMs = 15 * MINUTE_MS, maxLockMs = HOUR_MS, levelResetMs = 24 * HOUR_MS\<rparr>"
| "LOCKOUT_POLICIES MfaFactor = \<lparr>threshold = 5, windowMs = 15 * MINUTE_MS,
     baseLockMs = 15 * MINUTE_MS, maxLockMs = 4 * HOUR_MS, levelResetMs = 24 * HOUR_MS\<rparr>"
| "LOCKOUT_POLICIES PasswordIpFactor = \<lparr>threshold = 5, windowMs = 15 * MINUTE_MS,
     baseLockMs = 15 * MINUTE_MS, maxLockMs = HOUR_MS, levelResetMs = 24 * HOUR_MS\<rparr>"
| "LOCKOUT_POLICIES IpFailuresFactor = \<lparr>threshold = 50, windowMs = 15 * MINUTE_MS,
     baseLockMs = 15 * MINUTE_MS, maxLockMs = HOUR_MS, levelResetMs = 24 * HOUR_MS\<rparr>"

record lockoutState =
  failedCount :: nat
  windowStartedAt :: int
  lockLevel :: nat
  lockedUntilAt :: "int option"
  lastFailureAt :: int

definition isLocked :: "lockoutState option \<Rightarrow> int \<Rightarrow> bool" where
  "isLocked state now \<longleftrightarrow> (case state of None \<Rightarrow> False
     | Some x \<Rightarrow> (case lockedUntilAt x of None \<Rightarrow> False | Some l \<Rightarrow> l > now))"

definition lockDurationMs :: "lockoutPolicy \<Rightarrow> nat \<Rightarrow> int" where
  "lockDurationMs policy level = min (baseLockMs policy * 2 ^ level) (maxLockMs policy)"

definition countAttempt :: "lockoutState option \<Rightarrow> lockoutPolicy \<Rightarrow> int \<Rightarrow> lockoutState \<times> bool" where
  "countAttempt state policy now =
     (let level = (case state of Some x \<Rightarrow>
                     if now - lastFailureAt x < levelResetMs policy then lockLevel x else 0
                   | None \<Rightarrow> 0);
          windowActive = (case state of Some x \<Rightarrow> now - windowStartedAt x < windowMs policy
                          | None \<Rightarrow> False);
          failed = (if windowActive then failedCount (the state) else 0) + 1;
          started = (if windowActive then windowStartedAt (the state) else now)
      in if threshold policy \<le> failed
         then (\<lparr>failedCount = 0, windowStartedAt = now, lockLevel = level + 1,
                lockedUntilAt = Some (now + lockDurationMs policy level), lastFailureAt = now\<rparr>, True)
         else (\<lparr>failedCount = failed, windowStartedAt = started, lockLevel = level,
                lockedUntilAt = None, lastFailureAt = now\<rparr>, False))"

section \<open>The table of attempts\<close>

type_synonym lockTable = "string \<times> authFactor \<Rightarrow> lockoutState option"

record attemptOutcome =
  allowed :: bool
  lockedNow :: bool
  outcomeLockedUntil :: "int option"

definition STALE_AFTER_MS :: int where "STALE_AFTER_MS = 24 * 60 * 60 * 1000"

definition subjectForUser :: "string \<Rightarrow> string" where
  "subjectForUser userId = ''user:'' @ userId"

definition subjectForIp :: "string \<Rightarrow> string" where
  "subjectForIp ipAddress = ''ip:'' @ ipAddress"

text \<open>\<open>sha\<close> is the hexadecimal SHA-256 digest of the platform, \<open>lower\<close> its \<open>toLowerCase\<close>.\<close>

definition subjectForUnknownIdentifier ::
  "(string \<Rightarrow> string) \<Rightarrow> (string \<Rightarrow> string) \<Rightarrow> string \<Rightarrow> string" where
  "subjectForUnknownIdentifier sha lower identifier =
     ''id:'' @ sha (''auth-lockout:'' @ lower (trim identifier))"

definition subjectForIpAndAccount :: "(string \<Rightarrow> string) \<Rightarrow> string \<Rightarrow> string \<Rightarrow> string" where
  "subjectForIpAndAccount sha ipAddress accountSubject =
     ''ipa:'' @ sha (''auth-lockout-ip-account:'' @ ipAddress @ '':'' @ accountSubject)"

definition lockedUntil :: "lockTable \<Rightarrow> string \<Rightarrow> authFactor \<Rightarrow> int \<Rightarrow> int option" where
  "lockedUntil rows subject factor now =
     (case rows (subject, factor) of None \<Rightarrow> None
      | Some x \<Rightarrow> (case lockedUntilAt x of None \<Rightarrow> None
        | Some l \<Rightarrow> if l > now then Some l else None))"

definition purgeStale :: "int \<Rightarrow> lockTable \<Rightarrow> lockTable" where
  "purgeStale now rows = (\<lambda>k. case rows k of None \<Rightarrow> None
     | Some x \<Rightarrow> if lastFailureAt x < now - STALE_AFTER_MS
                    \<and> (case lockedUntilAt x of None \<Rightarrow> True | Some l \<Rightarrow> l < now)
                 then None else Some x)"

definition registerAttempt ::
  "string \<Rightarrow> authFactor \<Rightarrow> int \<Rightarrow> lockTable \<Rightarrow> attemptOutcome \<times> lockTable" where
  "registerAttempt subject factor now rows =
     (let rows = (case rows (subject, factor) of Some _ \<Rightarrow> rows
                  | None \<Rightarrow> rows((subject, factor) \<mapsto> \<lparr>failedCount = 0, windowStartedAt = now,
                      lockLevel = 0, lockedUntilAt = None, lastFailureAt = now\<rparr>));
          state = rows (subject, factor);
          (outcome, rows) =
            (if isLocked state now
             then (\<lparr>allowed = False, lockedNow = False,
                     outcomeLockedUntil = Option.bind state lockedUntilAt\<rparr>, rows)
             else let (nxt, lockedNow) = countAttempt state (LOCKOUT_POLICIES factor) now
                  in (\<lparr>allowed = True, lockedNow = lockedNow, outcomeLockedUntil = lockedUntilAt nxt\<rparr>,
                      rows((subject, factor) \<mapsto> nxt)))
      in (outcome, purgeStale now rows))"

definition clearAttempts :: "string \<Rightarrow> authFactor \<Rightarrow> lockTable \<Rightarrow> lockTable" where
  "clearAttempts subject factor rows = rows((subject, factor) := None)"

section \<open>A row between two attempts\<close>

text \<open>
  What the constants of every policy give: the lock lasts at least the window, and a row that is
  old enough to be purged has its window and its lock level behind it.
\<close>

lemma policy_facts:
  "0 < threshold (LOCKOUT_POLICIES f)"
  "0 < windowMs (LOCKOUT_POLICIES f)"
  "baseLockMs (LOCKOUT_POLICIES f) = windowMs (LOCKOUT_POLICIES f)"
  "windowMs (LOCKOUT_POLICIES f) \<le> maxLockMs (LOCKOUT_POLICIES f)"
  "windowMs (LOCKOUT_POLICIES f) \<le> STALE_AFTER_MS"
  "levelResetMs (LOCKOUT_POLICIES f) = STALE_AFTER_MS"
  by (cases f; simp add: MINUTE_MS_def HOUR_MS_def STALE_AFTER_MS_def)+

lemma lockDuration_bounds:
  "windowMs (LOCKOUT_POLICIES f) \<le> lockDurationMs (LOCKOUT_POLICIES f) n"
  "lockDurationMs (LOCKOUT_POLICIES f) n \<le> maxLockMs (LOCKOUT_POLICIES f)"
proof -
  have "windowMs (LOCKOUT_POLICIES f) * 1 \<le> windowMs (LOCKOUT_POLICIES f) * 2 ^ n"
    using policy_facts(2)[of f] by (intro mult_left_mono) simp_all
  then show "windowMs (LOCKOUT_POLICIES f) \<le> lockDurationMs (LOCKOUT_POLICIES f) n"
    by (simp add: lockDurationMs_def policy_facts)
qed (simp add: lockDurationMs_def)

text \<open>
  \<open>rowOk\<close>: the counter stays below the threshold, nothing in the row is later than the clock, and
  a locked row was locked when its window started, for at least a window.
\<close>

definition rowOk :: "authFactor \<Rightarrow> int \<Rightarrow> lockoutState \<Rightarrow> bool" where
  "rowOk factor now x \<longleftrightarrow> failedCount x < threshold (LOCKOUT_POLICIES factor)
     \<and> windowStartedAt x \<le> lastFailureAt x \<and> lastFailureAt x \<le> now
     \<and> (\<forall>l. lockedUntilAt x = Some l \<longrightarrow>
          lastFailureAt x = windowStartedAt x \<and> windowStartedAt x + windowMs (LOCKOUT_POLICIES factor) \<le> l
          \<and> l \<le> windowStartedAt x + maxLockMs (LOCKOUT_POLICIES factor))"

definition lockoutsOk :: "int \<Rightarrow> lockTable \<Rightarrow> bool" where
  "lockoutsOk now rows \<longleftrightarrow> (\<forall>subject factor x. rows (subject, factor) = Some x \<longrightarrow> rowOk factor now x)"

lemma rowOk_later: "rowOk f now x \<Longrightarrow> now \<le> later \<Longrightarrow> rowOk f later x"
  by (auto simp: rowOk_def)

lemma lockoutsOk_later: "lockoutsOk now rows \<Longrightarrow> now \<le> later \<Longrightarrow> lockoutsOk later rows"
  unfolding lockoutsOk_def using rowOk_later by blast

lemma countAttempt_rowOk:
  assumes "rowOk f now x"
  shows "rowOk f now (fst (countAttempt (Some x) (LOCKOUT_POLICIES f) now))"
proof -
  have "failedCount x < threshold (LOCKOUT_POLICIES f)" "windowStartedAt x \<le> now"
    using assms by (simp_all add: rowOk_def)
  then show ?thesis
    using lockDuration_bounds[of f] policy_facts(1)[of f]
    by (simp add: countAttempt_def Let_def rowOk_def)
qed

lemma purgeStale_Some: "purgeStale now rows k = Some x \<Longrightarrow> rows k = Some x"
  by (auto simp: purgeStale_def split: option.splits if_splits)

section \<open>Runs of attempts\<close>

text \<open>
  What reaches the table over time: an attempt of some subject at an instant, or the clearing that
  a successful login makes. \<open>admitted\<close> lists the instants at which an attempt of one key got through.
\<close>

datatype lockEvent = Attempt int string authFactor | Clear string authFactor

fun lockEventStep :: "lockEvent \<Rightarrow> lockTable \<Rightarrow> lockTable" where
  "lockEventStep (Attempt now subject factor) rows = snd (registerAttempt subject factor now rows)"
| "lockEventStep (Clear subject factor) rows = clearAttempts subject factor rows"

fun attemptTimes :: "lockEvent list \<Rightarrow> int list" where
  "attemptTimes [] = []"
| "attemptTimes (Attempt now subject factor # es) = now # attemptTimes es"
| "attemptTimes (Clear subject factor # es) = attemptTimes es"

fun admitted :: "string \<Rightarrow> authFactor \<Rightarrow> lockEvent list \<Rightarrow> lockTable \<Rightarrow> int list" where
  "admitted s f [] rows = []"
| "admitted s f (Attempt now subject factor # es) rows =
     (if subject = s \<and> factor = f \<and> allowed (fst (registerAttempt subject factor now rows))
      then [now] else [])
     @ admitted s f es (snd (registerAttempt subject factor now rows))"
| "admitted s f (Clear subject factor # es) rows =
     admitted s f es (clearAttempts subject factor rows)"

lemma purgeStale_at: "purgeStale now rows k = (case rows k of None \<Rightarrow> None
     | Some x \<Rightarrow> if lastFailureAt x < now - STALE_AFTER_MS
                    \<and> (case lockedUntilAt x of None \<Rightarrow> True | Some l \<Rightarrow> l < now)
                 then None else Some x)"
  by (simp add: purgeStale_def)

lemma purgeStale_cong: "rows k = rows' k \<Longrightarrow> purgeStale now rows k = purgeStale now rows' k"
  by (simp add: purgeStale_at)

definition freshLockRow :: "int \<Rightarrow> lockoutState" where
  "freshLockRow now = \<lparr>failedCount = 0, windowStartedAt = now, lockLevel = 0, lockedUntilAt = None,
     lastFailureAt = now\<rparr>"

definition lockRowOf :: "int \<Rightarrow> lockoutState option \<Rightarrow> lockoutState" where
  "lockRowOf now r = (case r of None \<Rightarrow> freshLockRow now | Some x \<Rightarrow> x)"

lemma registerAttempt_eq:
  "snd (registerAttempt s f now rows)
     = (if isLocked (rows (s, f)) now then purgeStale now rows
        else purgeStale now (rows((s, f) \<mapsto>
               fst (countAttempt (Some (lockRowOf now (rows (s, f)))) (LOCKOUT_POLICIES f) now))))"
proof (cases "rows (s, f)")
  case None
  then have "\<not> isLocked (Some (freshLockRow now)) now" by (simp add: isLocked_def freshLockRow_def)
  with None show ?thesis
    by (simp add: registerAttempt_def Let_def lockRowOf_def freshLockRow_def[symmetric] case_prod_beta)
      (simp add: isLocked_def)
next
  case (Some x)
  then show ?thesis by (simp add: registerAttempt_def Let_def lockRowOf_def case_prod_beta)
qed

lemma registerAttempt_other:
  assumes "k \<noteq> (subject, factor)"
  shows "snd (registerAttempt subject factor now rows) k = purgeStale now rows k"
  using assms unfolding registerAttempt_eq by (auto intro: purgeStale_cong)

lemma registerAttempt_refused:
  assumes "isLocked (rows (s, f)) now"
  shows "\<not> allowed (fst (registerAttempt s f now rows))"
    and "snd (registerAttempt s f now rows) (s, f) = rows (s, f)"
proof -
  obtain x l where x: "rows (s, f) = Some x" and l: "lockedUntilAt x = Some l" "l > now"
    using assms by (auto simp: isLocked_def split: option.splits)
  with assms show "\<not> allowed (fst (registerAttempt s f now rows))"
    "snd (registerAttempt s f now rows) (s, f) = rows (s, f)"
    by (simp_all add: registerAttempt_def Let_def purgeStale_def)
qed

lemma registerAttempt_admitted:
  assumes "\<not> isLocked (rows (s, f)) now"
  shows "allowed (fst (registerAttempt s f now rows))"
    and "snd (registerAttempt s f now rows) (s, f)
         = Some (fst (countAttempt (Some (lockRowOf now (rows (s, f)))) (LOCKOUT_POLICIES f) now))"
proof -
  let ?x = "fst (countAttempt (Some (lockRowOf now (rows (s, f)))) (LOCKOUT_POLICIES f) now)"
  have last: "lastFailureAt ?x = now"
    by (simp add: countAttempt_def Let_def)
  have unlocked: "\<not> isLocked (Some (lockRowOf now (rows (s, f)))) now"
    using assms by (auto simp: isLocked_def lockRowOf_def freshLockRow_def split: option.splits)
  show "allowed (fst (registerAttempt s f now rows))"
    using unlocked by (auto simp: registerAttempt_def Let_def lockRowOf_def freshLockRow_def split: option.splits prod.splits)
  show "snd (registerAttempt s f now rows) (s, f) = Some ?x"
    using unlocked last
    by (auto simp: registerAttempt_def Let_def lockRowOf_def freshLockRow_def purgeStale_def STALE_AFTER_MS_def
        split: option.splits prod.splits)
qed

lemma registerAttempt_rowOk:
  assumes "lockoutsOk now rows"
  shows "lockoutsOk now (snd (registerAttempt subject factor now rows))"
proof -
  have fresh: "rowOk factor now (lockRowOf now (rows (subject, factor)))"
    using assms policy_facts(1)[of factor]
    by (auto simp: lockRowOf_def freshLockRow_def rowOk_def lockoutsOk_def split: option.splits)
  have "rowOk factor now x" if "snd (registerAttempt subject factor now rows) (subject, factor) = Some x" for x
  proof (cases "isLocked (rows (subject, factor)) now")
    case True
    with that have "rows (subject, factor) = Some x" by (simp add: registerAttempt_refused)
    with assms show ?thesis by (simp add: lockoutsOk_def)
  next
    case False
    with that fresh show ?thesis
      by (auto simp: registerAttempt_admitted intro: countAttempt_rowOk)
  qed
  moreover have "rowOk f now x"
    if "snd (registerAttempt subject factor now rows) (s, f) = Some x" "(s, f) \<noteq> (subject, factor)" for s f x
    using that(1) assms purgeStale_Some[of now rows "(s, f)" x]
    unfolding registerAttempt_other[OF that(2)] lockoutsOk_def by blast
  ultimately show ?thesis
    unfolding lockoutsOk_def by blast
qed

section \<open>Counting the attempts of a window\<close>

definition after :: "int \<Rightarrow> int list \<Rightarrow> nat" where
  "after a h = length (filter (\<lambda>x. a < x) h)"

definition inWindow :: "int \<Rightarrow> int \<Rightarrow> int list \<Rightarrow> nat" where
  "inWindow start w h = length (filter (\<lambda>x. start \<le> x \<and> x < start + w) h)"

lemma after_append: "after a (h @ k) = after a h + after a k"
  by (simp add: after_def)

lemma after_le: "after a h \<le> length h"
  by (simp add: after_def)

lemma after_zero: "(\<And>x. x \<in> set h \<Longrightarrow> x \<le> a) \<Longrightarrow> after a h = 0"
  by (force simp: after_def filter_empty_conv)

lemma after_mono: "a \<le> b \<Longrightarrow> after b h \<le> after a h"
  by (induction h) (auto simp: after_def)

lemma inWindow_after: "start > now - w \<Longrightarrow> inWindow start w h \<le> after (now - w) h"
  by (induction h) (auto simp: inWindow_def after_def)

lemma inWindow_add:
  assumes "\<And>start. inWindow start w h \<le> n" and "after (now - w) h < n"
  shows "inWindow start w (h @ [now]) \<le> n"
proof (cases "start \<le> now \<and> now < start + w")
  case True
  then have "inWindow start w (h @ [now]) = inWindow start w h + 1"
    by (simp add: inWindow_def)
  with True show ?thesis
    using inWindow_after[of now w start h] assms(2) by linarith
next
  case False
  then have "inWindow start w (h @ [now]) = inWindow start w h"
    by (auto simp: inWindow_def)
  with assms(1) show ?thesis by simp
qed

text \<open>
  \<open>historyOk\<close> ties the row of a key to the instants \<open>h\<close> at which its attempts got through: in an
  open window the counter covers those since the window started, and of the earlier ones fewer than
  the threshold fall in the window before it.
\<close>

definition historyOk :: "authFactor \<Rightarrow> int list \<Rightarrow> int \<Rightarrow> lockoutState option \<Rightarrow> bool" where
  "historyOk f h now r \<longleftrightarrow>
     (\<forall>start. inWindow start (windowMs (LOCKOUT_POLICIES f)) h < 2 * threshold (LOCKOUT_POLICIES f))
     \<and> (case r of
          None \<Rightarrow> \<forall>y\<in>set h. y + windowMs (LOCKOUT_POLICIES f) \<le> now
        | Some x \<Rightarrow> rowOk f now x \<and> (\<forall>y\<in>set h. y \<le> lastFailureAt x)
            \<and> (lockedUntilAt x = None \<longrightarrow>
                (\<exists>h0 e. h = h0 @ e \<and> length e \<le> failedCount x \<and> (\<forall>y\<in>set h0. y \<le> windowStartedAt x)
                   \<and> after (windowStartedAt x - windowMs (LOCKOUT_POLICIES f)) h0
                       < threshold (LOCKOUT_POLICIES f))))"

lemma historyOk_later: "historyOk f h now r \<Longrightarrow> now \<le> later \<Longrightarrow> historyOk f h later r"
  by (force simp: historyOk_def rowOk_def split: option.splits)

lemma historyOk_purge:
  assumes "historyOk f h now (rows k)"
  shows "historyOk f h now (purgeStale now rows k)"
proof (cases "purgeStale now rows k")
  case (Some x)
  then show ?thesis using assms purgeStale_Some[of now rows k x] by simp
next
  case None
  have "y + windowMs (LOCKOUT_POLICIES f) \<le> now" if "y \<in> set h" for y
  proof (cases "rows k")
    case (Some x)
    with None have "lastFailureAt x < now - STALE_AFTER_MS" by (auto simp: purgeStale_at split: if_splits)
    moreover have "y \<le> lastFailureAt x" using assms Some that by (simp add: historyOk_def)
    ultimately show ?thesis using policy_facts(5)[of f] by linarith
  qed (use assms that in \<open>simp add: historyOk_def\<close>)
  with None assms show ?thesis by (simp add: historyOk_def)
qed

lemma historyOk_row:
  assumes "historyOk f h now r"
  shows "historyOk f h now (Some (lockRowOf now r))"
proof (cases r)
  case None
  let ?w = "windowMs (LOCKOUT_POLICIES f)"
  have old: "y \<le> now - ?w" if "y \<in> set h" for y
    using assms None that by (force simp: historyOk_def)
  have zero: "after (now - ?w) h = 0" by (rule after_zero) (rule old)
  have past: "\<forall>y\<in>set h. y \<le> now" using old policy_facts(2)[of f] by force
  have "\<exists>h0 e. h = h0 @ e \<and> length e \<le> 0 \<and> (\<forall>y\<in>set h0. y \<le> now)
      \<and> after (now - windowMs (LOCKOUT_POLICIES f)) h0 < threshold (LOCKOUT_POLICIES f)"
    by (rule exI[of _ h], rule exI[of _ "[]"]) (simp add: zero past policy_facts)
  moreover have "rowOk f now (freshLockRow now)"
    using policy_facts(1)[of f] by (simp add: rowOk_def freshLockRow_def)
  ultimately show ?thesis
    using assms None past by (simp add: historyOk_def lockRowOf_def freshLockRow_def)
qed (use assms in \<open>simp add: lockRowOf_def\<close>)

lemma historyOk_attempt:
  assumes ok: "historyOk f h now (Some x)" and free: "\<not> isLocked (Some x) now"
  shows "historyOk f (h @ [now]) now (Some (fst (countAttempt (Some x) (LOCKOUT_POLICIES f) now)))"
proof -
  let ?w = "windowMs (LOCKOUT_POLICIES f)" and ?n = "threshold (LOCKOUT_POLICIES f)"
  let ?y = "fst (countAttempt (Some x) (LOCKOUT_POLICIES f) now)"
  have row: "rowOk f now x" and h: "\<forall>y\<in>set h. y \<le> lastFailureAt x"
    and less: "\<And>start. inWindow start ?w h < 2 * ?n"
    using ok by (simp_all add: historyOk_def)
  have bound: "inWindow start ?w h \<le> 2 * ?n - 1" for start
    using less[of start] by linarith
  have n: "0 < ?n" and w: "0 < ?w" by (simp_all add: policy_facts)
  have y: "rowOk f now ?y" using row by (rule countAttempt_rowOk)
  have last: "lastFailureAt ?y = now" by (simp add: countAttempt_def Let_def)
  have past: "\<forall>y\<in>set h. y \<le> now" using h row by (auto simp: rowOk_def)
  have split: "\<exists>h0 e. h = h0 @ e \<and> length e \<le> failedCount x \<and> (\<forall>y\<in>set h0. y \<le> windowStartedAt x)
      \<and> after (windowStartedAt x - ?w) h0 < ?n" if "lockedUntilAt x = None"
    using ok that by (simp add: historyOk_def)
  have count: "after (now - ?w) h < (if now - windowStartedAt x < ?w then 2 * ?n - 1 else ?n)"
  proof (cases "lockedUntilAt x")
    case None
    obtain h0 e where e: "h = h0 @ e" "length e \<le> failedCount x" "\<forall>y\<in>set h0. y \<le> windowStartedAt x"
      "after (windowStartedAt x - ?w) h0 < ?n"
      using split[OF None] by blast
    have small: "after (now - ?w) e < ?n"
      using after_le[of "now - ?w" e] e(2) row by (simp add: rowOk_def)
    show ?thesis
    proof (cases "now - windowStartedAt x < ?w")
      case True
      have "windowStartedAt x - ?w \<le> now - ?w" using row by (simp add: rowOk_def)
      then have "after (now - ?w) h0 < ?n" using after_mono e(4) le_less_trans by blast
      with small e(1) True show ?thesis by (simp add: after_append)
    next
      case False
      then have "after (now - ?w) h0 = 0" using e(3) by (intro after_zero) auto
      with small e(1) False show ?thesis by (simp add: after_append)
    qed
  next
    case (Some l)
    have "windowStartedAt x + ?w \<le> l" "lastFailureAt x = windowStartedAt x"
      using row Some by (simp_all add: rowOk_def)
    moreover have "l \<le> now" using free Some by (simp add: isLocked_def)
    ultimately have "after (now - ?w) h = 0" and "\<not> now - windowStartedAt x < ?w"
      using h by (auto intro!: after_zero)
    with n show ?thesis by simp
  qed
  then have few: "after (now - ?w) h < 2 * ?n - 1"
    using n by (auto split: if_splits)
  have grown: "inWindow start ?w (h @ [now]) < 2 * ?n" for start
    using inWindow_add[OF bound few, of start] n by linarith
  have cover: "\<exists>h0 e. h @ [now] = h0 @ e \<and> length e \<le> failedCount ?y \<and> (\<forall>y\<in>set h0. y \<le> windowStartedAt ?y)
      \<and> after (windowStartedAt ?y - ?w) h0 < ?n" if "lockedUntilAt ?y = None"
  proof (cases "now - windowStartedAt x < ?w")
    case True
    have open_row: "lockedUntilAt x = None"
    proof (rule ccontr)
      assume "lockedUntilAt x \<noteq> None"
      then obtain l where l: "lockedUntilAt x = Some l" by blast
      then have "windowStartedAt x + ?w \<le> l" "l \<le> now"
        using row free by (simp_all add: rowOk_def isLocked_def)
      with True show False by simp
    qed
    obtain h0 e where e: "h = h0 @ e" "length e \<le> failedCount x" "\<forall>y\<in>set h0. y \<le> windowStartedAt x"
      "after (windowStartedAt x - ?w) h0 < ?n"
      using split[OF open_row] by blast
    have "windowStartedAt ?y = windowStartedAt x" "failedCount ?y = failedCount x + 1"
      using that True by (simp_all add: countAttempt_def Let_def split: if_splits)
    with e show ?thesis by (intro exI[of _ h0] exI[of _ "e @ [now]"]) simp
  next
    case False
    have "windowStartedAt ?y = now" "failedCount ?y = 1"
      using that False by (simp_all add: countAttempt_def Let_def split: if_splits)
    with past count False show ?thesis by (intro exI[of _ h] exI[of _ "[now]"]) simp
  qed
  show ?thesis
    using grown y last past cover by (simp add: historyOk_def)
qed

lemma admitted_historyOk:
  "historyOk f h t (rows (s, f)) \<Longrightarrow> sorted (t # attemptTimes es) \<Longrightarrow> Clear s f \<notin> set es \<Longrightarrow>
   inWindow start (windowMs (LOCKOUT_POLICIES f)) (h @ admitted s f es rows)
     < 2 * threshold (LOCKOUT_POLICIES f)"
proof (induction es arbitrary: h t rows)
  case Nil
  then show ?case by (simp add: historyOk_def)
next
  case (Cons e es)
  show ?case
  proof (cases e)
    case (Clear subject factor)
    with Cons.prems have "clearAttempts subject factor rows (s, f) = rows (s, f)"
      by (auto simp: clearAttempts_def)
    with Clear Cons.prems Cons.IH[of h t "clearAttempts subject factor rows"] show ?thesis by simp
  next
    case (Attempt now subject factor)
    let ?rows = "snd (registerAttempt subject factor now rows)"
    have now: "historyOk f h now (rows (s, f))" and rest: "sorted (now # attemptTimes es)" "Clear s f \<notin> set es"
      using Cons.prems Attempt by (auto intro: historyOk_later)
    consider (other) "(s, f) \<noteq> (subject, factor)" | (locked) "(subject, factor) = (s, f)" "isLocked (rows (s, f)) now"
      | (free) "(subject, factor) = (s, f)" "\<not> isLocked (rows (s, f)) now" by blast
    then show ?thesis
    proof cases
      case other
      have "historyOk f h now (?rows (s, f))"
        unfolding registerAttempt_other[OF other] using now by (rule historyOk_purge)
      from Cons.IH[of h now ?rows, OF this rest] other Attempt show ?thesis by auto
    next
      case locked
      then have "historyOk f h now (?rows (s, f))" using now by (simp add: registerAttempt_refused)
      from Cons.IH[of h now ?rows, OF this rest] locked Attempt registerAttempt_refused(1) show ?thesis by simp
    next
      case free
      then have "\<not> isLocked (Some (lockRowOf now (rows (s, f)))) now"
        by (auto simp: isLocked_def lockRowOf_def freshLockRow_def split: option.splits)
      with free have "historyOk f (h @ [now]) now (?rows (s, f))"
        using historyOk_attempt[OF historyOk_row[OF now]] by (simp add: registerAttempt_admitted)
      from Cons.IH[of "h @ [now]" now ?rows, OF this rest] free Attempt registerAttempt_admitted(1) show ?thesis by simp
    qed
  qed
qed

lemma historyOk_start: "lockoutsOk t rows \<Longrightarrow> historyOk f [] t (rows (s, f))"
  using policy_facts(1)[of f]
  by (auto simp: historyOk_def lockoutsOk_def inWindow_def after_def split: option.splits)

text \<open>
  C16. However the attempts of every subject interleave, fewer than twice the threshold of the policy
  get through for one subject and factor in any window of fifteen minutes, as long as no successful
  login clears them: at most nine guesses of a password or of a second factor, ninety-nine failures
  of an address. Fixed windows, the lock, the purge of stale rows and the refused attempts are all
  those of the service.
\<close>

theorem attempts_are_rate_limited:
  assumes "lockoutsOk t rows"
    and "sorted (t # attemptTimes events)"
    and "Clear subject factor \<notin> set events"
  shows "inWindow start (windowMs (LOCKOUT_POLICIES factor)) (admitted subject factor events rows)
           < 2 * threshold (LOCKOUT_POLICIES factor)"
  using admitted_historyOk[of factor "[]" t rows subject events start] historyOk_start[OF assms(1)] assms(2,3)
  by simp

theorem attempts_are_rate_limited_witness:
  "inWindow 0 (windowMs (LOCKOUT_POLICIES MfaFactor))
     (admitted ''user:1'' MfaFactor (map (\<lambda>i. Attempt i ''user:1'' MfaFactor) [10, 20, 30, 40, 50, 60, 70]) (\<lambda>_. None))
     < 2 * threshold (LOCKOUT_POLICIES MfaFactor)"
  by (rule attempts_are_rate_limited[where t = 0]) (simp_all add: lockoutsOk_def)

end
