(* ===== verification/ErrorCatalog.thy ===== *)
theory ErrorCatalog
  imports Prelude
begin

text \<open>
  What a failure becomes on the wire: the catalog of src/src/common/constants/error-catalog.ts, the texts
  of src/src/common/constants/error-code.enum.ts and the filter every request ends in when it throws,
  src/src/common/filters/global-exception.filter.ts. The codes are the datatypes of Prelude.
\<close>

section \<open>The catalog\<close>

datatype errorAction = CancelAction | RetryAction | ReauthAction | SupportAction

record catalogEntry =
  ce_httpStatus :: int
  ce_action :: errorAction
  ce_message :: string

definition catalogEntryOf :: "int \<Rightarrow> errorAction \<Rightarrow> string \<Rightarrow> catalogEntry" where
  "catalogEntryOf status action message =
     \<lparr>ce_httpStatus = status, ce_action = action, ce_message = message\<rparr>"

primrec generalCatalog :: "general_code \<Rightarrow> catalogEntry" where
  "generalCatalog ValidationFailed' = catalogEntryOf 400 CancelAction (''Revise los datos del formulario.'')"
| "generalCatalog MalformedRequest' = catalogEntryOf 400 CancelAction (''No pudimos leer los datos enviados. Intente de nuevo.'')"
| "generalCatalog Unauthorized' = catalogEntryOf 401 ReauthAction (''Inicie sesi'' @ [CHR 0xF3] @ ''n para continuar.'')"
| "generalCatalog TokenExpired' = catalogEntryOf 401 ReauthAction (''Su sesi'' @ [CHR 0xF3] @ ''n expir'' @ [CHR 0xF3] @ ''. Inicie sesi'' @ [CHR 0xF3] @ ''n de nuevo.'')"
| "generalCatalog InsufficientPermissions' = catalogEntryOf 403 CancelAction (''No tiene permiso para hacer esto.'')"
| "generalCatalog OutOfScope' = catalogEntryOf 403 CancelAction (''Este registro no est'' @ [CHR 0xE1] @ '' a su cargo.'')"
| "generalCatalog ResourceNotFound' = catalogEntryOf 404 CancelAction (''No encontramos lo que busca.'')"
| "generalCatalog InvalidState' = catalogEntryOf 406 CancelAction (''No se puede hacer esto en el estado actual.'')"
| "generalCatalog ConcurrentModification' = catalogEntryOf 409 RetryAction (''Alguien m'' @ [CHR 0xE1] @ ''s cambi'' @ [CHR 0xF3] @ '' este registro. Recargue e intente de nuevo.'')"
| "generalCatalog TooManyAttempts' = catalogEntryOf 429 RetryAction (''Demasiados intentos. Espere un momento e intente de nuevo.'')"
| "generalCatalog AccountTemporarilyLocked' = catalogEntryOf 429 RetryAction (''Demasiados intentos fallidos. La cuenta qued'' @ [CHR 0xF3] @ '' bloqueada por un rato. Intente m'' @ [CHR 0xE1] @ ''s tarde.'')"
| "generalCatalog SessionRevoked' = catalogEntryOf 401 ReauthAction (''Su sesi'' @ [CHR 0xF3] @ ''n se cerr'' @ [CHR 0xF3] @ ''. Inicie sesi'' @ [CHR 0xF3] @ ''n de nuevo.'')"
| "generalCatalog ExternalServiceFailure' = catalogEntryOf 424 RetryAction (''Un servicio externo no respondi'' @ [CHR 0xF3] @ ''. Intente de nuevo.'')"
| "generalCatalog InternalError' = catalogEntryOf 500 SupportAction (''Ocurri'' @ [CHR 0xF3] @ '' un error inesperado.'')"

primrec accountCatalog :: "account_code \<Rightarrow> catalogEntry" where
  "accountCatalog InvalidCredentials' = catalogEntryOf 401 CancelAction (''Usuario o contrase'' @ [CHR 0xF1] @ ''a incorrectos.'')"
| "accountCatalog UserSuspended' = catalogEntryOf 403 CancelAction (''La cuenta est'' @ [CHR 0xE1] @ '' suspendida.'')"
| "accountCatalog UserInactive' = catalogEntryOf 403 CancelAction (''La cuenta est'' @ [CHR 0xE1] @ '' inactiva.'')"
| "accountCatalog MfaRequired' = catalogEntryOf 401 CancelAction (''Escriba el c'' @ [CHR 0xF3] @ ''digo de verificaci'' @ [CHR 0xF3] @ ''n en dos pasos.'')"
| "accountCatalog MfaCodeInvalid' = catalogEntryOf 401 CancelAction (''El c'' @ [CHR 0xF3] @ ''digo de verificaci'' @ [CHR 0xF3] @ ''n es incorrecto.'')"
| "accountCatalog MfaVerificationFailed' = catalogEntryOf 403 CancelAction (''El c'' @ [CHR 0xF3] @ ''digo no es v'' @ [CHR 0xE1] @ ''lido o ya se us'' @ [CHR 0xF3] @ ''.'')"
| "accountCatalog MfaSessionRequired' = catalogEntryOf 403 ReauthAction (''Cierre sesi'' @ [CHR 0xF3] @ ''n e ingrese de nuevo con su c'' @ [CHR 0xF3] @ ''digo de verificaci'' @ [CHR 0xF3] @ ''n en dos pasos.'')"
| "accountCatalog MfaRequiredByRole' = catalogEntryOf 403 CancelAction (''Su rol exige la verificaci'' @ [CHR 0xF3] @ ''n en dos pasos. No puede desactivarla.'')"
| "accountCatalog MfaNotEnabled' = catalogEntryOf 409 CancelAction (''La verificaci'' @ [CHR 0xF3] @ ''n en dos pasos no est'' @ [CHR 0xE1] @ '' activa en esta cuenta.'')"
| "accountCatalog MfaEnrollmentNotStarted' = catalogEntryOf 409 CancelAction (''La activaci'' @ [CHR 0xF3] @ ''n venci'' @ [CHR 0xF3] @ '' o no ha empezado. Empiece de nuevo.'')"
| "accountCatalog MfaSelfResetForbidden' = catalogEntryOf 403 CancelAction (''No puede restablecer su propia verificaci'' @ [CHR 0xF3] @ ''n en dos pasos. P'' @ [CHR 0xED] @ ''dalo a otro administrador.'')"
| "accountCatalog PasswordPolicyViolation' = catalogEntryOf 400 CancelAction (''La contrase'' @ [CHR 0xF1] @ ''a no cumple los requisitos.'')"
| "accountCatalog UsernameAlreadyExists' = catalogEntryOf 406 CancelAction (''Ese nombre de usuario ya est'' @ [CHR 0xE1] @ '' en uso.'')"
| "accountCatalog PersonDocumentAlreadyExists' = catalogEntryOf 406 CancelAction (''Ya existe una persona con ese documento.'')"
| "accountCatalog PersonEmailAlreadyExists' = catalogEntryOf 406 CancelAction (''Ya existe una persona con ese correo institucional.'')"
| "accountCatalog PasswordResetInvalid' = catalogEntryOf 401 CancelAction (''El enlace para cambiar la contrase'' @ [CHR 0xF1] @ ''a no es v'' @ [CHR 0xE1] @ ''lido o venci'' @ [CHR 0xF3] @ ''.'')"
| "accountCatalog PasswordChangeRequired' = catalogEntryOf 403 CancelAction (''Cambie su contrase'' @ [CHR 0xF1] @ ''a temporal para continuar.'')"
| "accountCatalog InvitationExpired' = catalogEntryOf 403 CancelAction (''La invitaci'' @ [CHR 0xF3] @ ''n venci'' @ [CHR 0xF3] @ ''. Pida a un administrador que se la reenv'' @ [CHR 0xED] @ ''e.'')"

primrec roleCatalog :: "role_code \<Rightarrow> catalogEntry" where
  "roleCatalog RoleNotFound' = catalogEntryOf 404 CancelAction (''Ese rol no existe.'')"
| "roleCatalog RoleNotAssignable' = catalogEntryOf 406 CancelAction (''Este rol no se puede asignar directamente.'')"
| "roleCatalog RoleMaxUsersReached' = catalogEntryOf 406 CancelAction (''El rol ya tiene el m'' @ [CHR 0xE1] @ ''ximo de usuarios.'')"
| "roleCatalog RoleCodeAlreadyExists' = catalogEntryOf 406 CancelAction (''Ya existe un rol con ese c'' @ [CHR 0xF3] @ ''digo.'')"
| "roleCatalog RoleHasAssignedUsers' = catalogEntryOf 406 CancelAction (''El rol tiene usuarios asignados. Qu'' @ [CHR 0xED] @ ''teselos antes de eliminarlo.'')"
| "roleCatalog RoleHasChildRoles' = catalogEntryOf 406 CancelAction (''Otros roles heredan de este. Qu'' @ [CHR 0xED] @ ''teles la herencia o elim'' @ [CHR 0xED] @ ''nelos primero.'')"
| "roleCatalog RoleSelfAssignmentForbidden' = catalogEntryOf 403 CancelAction (''No puede asignarse roles ni permisos a s'' @ [CHR 0xED] @ '' mismo. P'' @ [CHR 0xED] @ ''dalo a otro administrador.'')"
| "roleCatalog RoleSystemImmutable' = catalogEntryOf 406 CancelAction (''El c'' @ [CHR 0xF3] @ ''digo y el nombre de un rol del sistema no se pueden cambiar.'')"
| "roleCatalog RolePrivilegeEscalation' = catalogEntryOf 403 CancelAction (''No puede administrar un rol igual o superior al suyo.'')"
| "roleCatalog PermissionNotHeld' = catalogEntryOf 403 CancelAction (''Solo puede conceder permisos que usted tiene.'')"
| "roleCatalog PermissionCodeAlreadyExists' = catalogEntryOf 406 CancelAction (''Ya existe un permiso igual.'')"
| "roleCatalog PermissionInUse' = catalogEntryOf 406 CancelAction (''El permiso est'' @ [CHR 0xE1] @ '' asignado a un rol. Qu'' @ [CHR 0xED] @ ''teselo antes de eliminarlo.'')"
| "roleCatalog PermissionSystemImmutable' = catalogEntryOf 406 CancelAction (''Los permisos del sistema no se eliminan. Admin'' @ [CHR 0xED] @ ''strelos desde el rol.'')"
| "roleCatalog NavigationPathAlreadyExists' = catalogEntryOf 406 CancelAction (''Ya existe un men'' @ [CHR 0xFA] @ '' con esa ruta.'')"
| "roleCatalog SodViolation' = catalogEntryOf 406 CancelAction (''Esta asignaci'' @ [CHR 0xF3] @ ''n junta funciones que deben estar separadas.'')"
| "roleCatalog DelegationRequiresExpiry' = catalogEntryOf 400 CancelAction (''Indique hasta cu'' @ [CHR 0xE1] @ ''ndo dura la delegaci'' @ [CHR 0xF3] @ ''n.'')"
| "roleCatalog CannotDelegateRoleNotHeld' = catalogEntryOf 406 CancelAction (''No puede delegar un rol que usted no tiene.'')"
| "roleCatalog DelegationExceedsSourceValidity' = catalogEntryOf 400 CancelAction (''La delegaci'' @ [CHR 0xF3] @ ''n no puede vencer despu'' @ [CHR 0xE9] @ ''s que el rol original.'')"
| "roleCatalog HasActiveLoans' = catalogEntryOf 406 CancelAction (''El usuario tiene pr'' @ [CHR 0xE9] @ ''stamos activos a su cargo.'')"
| "roleCatalog PersonAffiliationRequired' = catalogEntryOf 400 CancelAction (''Elija una dependencia o un centro de costo para el usuario.'')"
| "roleCatalog CostCenterOrgUnitMismatch' = catalogEntryOf 400 CancelAction (''Ese centro de costo no es de esa dependencia.'')"
| "roleCatalog MailNotConfigured' = catalogEntryOf 406 CancelAction (''Configure el servidor de correo antes de enviar invitaciones.'')"
| "roleCatalog MailSendFailed' = catalogEntryOf 424 RetryAction (''No se pudo enviar el correo. Revise la configuraci'' @ [CHR 0xF3] @ ''n del servidor de correo.'')"

primrec placeCatalog :: "place_code \<Rightarrow> catalogEntry" where
  "placeCatalog HasDependentEntities' = catalogEntryOf 406 CancelAction (''Este registro tiene otros registros asociados. No se puede eliminar.'')"
| "placeCatalog CampusCodeAlreadyExists' = catalogEntryOf 406 CancelAction (''Ya existe una sede con ese c'' @ [CHR 0xF3] @ ''digo.'')"
| "placeCatalog BuildingCodeAlreadyExists' = catalogEntryOf 406 CancelAction (''Ya existe un edificio con ese c'' @ [CHR 0xF3] @ ''digo en la sede.'')"
| "placeCatalog LocationCodeAlreadyExists' = catalogEntryOf 406 CancelAction (''Ya existe una ubicaci'' @ [CHR 0xF3] @ ''n con ese c'' @ [CHR 0xF3] @ ''digo en el edificio.'')"
| "placeCatalog OrgUnitCodeAlreadyExists' = catalogEntryOf 406 CancelAction (''Ese c'' @ [CHR 0xF3] @ ''digo interno ya est'' @ [CHR 0xE1] @ '' en uso.'')"
| "placeCatalog OrgUnitHasChildren' = catalogEntryOf 406 CancelAction (''Tiene dependencias activas debajo. Mu'' @ [CHR 0xE9] @ ''valas o arch'' @ [CHR 0xED] @ ''velas primero.'')"
| "placeCatalog OrgUnitCycle' = catalogEntryOf 406 CancelAction (''Una dependencia no puede quedar debajo de s'' @ [CHR 0xED] @ '' misma.'')"
| "placeCatalog CostCenterExternalCodeExists' = catalogEntryOf 406 CancelAction (''Ya existe un centro de costo con ese c'' @ [CHR 0xF3] @ ''digo.'')"
| "placeCatalog CostCenterHasActiveAssets' = catalogEntryOf 406 CancelAction (''Tiene activos asignados. No se puede desactivar.'')"
| "placeCatalog CostCenterExternalCodeImmutable' = catalogEntryOf 406 CancelAction (''El c'' @ [CHR 0xF3] @ ''digo del centro de costo no se puede cambiar.'')"
| "placeCatalog InvalidCsv' = catalogEntryOf 400 CancelAction (''El archivo CSV no tiene el formato esperado.'')"
| "placeCatalog CategoryCodeAlreadyExists' = catalogEntryOf 406 CancelAction (''Ya existe una categor'' @ [CHR 0xED] @ ''a con ese c'' @ [CHR 0xF3] @ ''digo.'')"
| "placeCatalog CategoryHasChildren' = catalogEntryOf 406 CancelAction (''La categor'' @ [CHR 0xED] @ ''a tiene subcategor'' @ [CHR 0xED] @ ''as activas.'')"
| "placeCatalog CategoryCycle' = catalogEntryOf 406 CancelAction (''Una categor'' @ [CHR 0xED] @ ''a no puede quedar debajo de s'' @ [CHR 0xED] @ '' misma.'')"
| "placeCatalog AssetCategoryHasAssets' = catalogEntryOf 406 CancelAction (''La categor'' @ [CHR 0xED] @ ''a tiene activos. No se puede eliminar.'')"
| "placeCatalog DynamicFieldCodeExists' = catalogEntryOf 406 CancelAction (''Ya existe un campo con ese c'' @ [CHR 0xF3] @ ''digo en la categor'' @ [CHR 0xED] @ ''a.'')"
| "placeCatalog DynamicFieldInUse' = catalogEntryOf 406 CancelAction (''Algunos activos tienen datos en este campo. M'' @ [CHR 0xE1] @ ''rquelo como obsoleto en lugar de eliminarlo.'')"
| "placeCatalog DynamicFieldTypeImmutable' = catalogEntryOf 406 CancelAction (''El tipo de un campo no se puede cambiar.'')"
| "placeCatalog InvalidFieldDefinition' = catalogEntryOf 400 CancelAction (''La configuraci'' @ [CHR 0xF3] @ ''n del campo no es v'' @ [CHR 0xE1] @ ''lida.'')"

primrec assetCatalog :: "asset_code \<Rightarrow> catalogEntry" where
  "assetCatalog AssetInternalCodeAlreadyExists' = catalogEntryOf 406 CancelAction (''Ese c'' @ [CHR 0xF3] @ ''digo interno ya existe.'')"
| "assetCatalog AssetBarcodeAlreadyExists' = catalogEntryOf 406 CancelAction (''Ese c'' @ [CHR 0xF3] @ ''digo de barras ya est'' @ [CHR 0xE1] @ '' registrado.'')"
| "assetCatalog AssetSerialRequired' = catalogEntryOf 400 CancelAction (''Esta categor'' @ [CHR 0xED] @ ''a exige n'' @ [CHR 0xFA] @ ''mero de serie.'')"
| "assetCatalog AssetPhotoRequired' = catalogEntryOf 400 CancelAction (''Esta categor'' @ [CHR 0xED] @ ''a exige una foto del activo.'')"
| "assetCatalog AssetAlreadyWrittenOff' = catalogEntryOf 406 CancelAction (''El activo ya fue dado de baja.'')"
| "assetCatalog AssetCannotBeModified' = catalogEntryOf 406 CancelAction (''El activo no se puede modificar en su estado actual.'')"
| "assetCatalog AssetMissingCustomField' = catalogEntryOf 400 CancelAction (''Falta un campo obligatorio de la categor'' @ [CHR 0xED] @ ''a.'')"
| "assetCatalog AssetInvalidDynamicValue' = catalogEntryOf 400 CancelAction (''Un campo de la categor'' @ [CHR 0xED] @ ''a tiene un valor no v'' @ [CHR 0xE1] @ ''lido.'')"
| "assetCatalog AssetHasActiveLoan' = catalogEntryOf 406 CancelAction (''El activo tiene un pr'' @ [CHR 0xE9] @ ''stamo activo.'')"
| "assetCatalog AssetUnderInventory' = catalogEntryOf 406 CancelAction (''El activo est'' @ [CHR 0xE1] @ '' en una toma f'' @ [CHR 0xED] @ ''sica en curso.'')"
| "assetCatalog AssetInvalidStatusTransition' = catalogEntryOf 406 CancelAction (''El activo no puede pasar a ese estado.'')"
| "assetCatalog AssetImportExpired' = catalogEntryOf 406 CancelAction (''La vista previa venci'' @ [CHR 0xF3] @ ''. Vuelva a subir el archivo.'')"
| "assetCatalog AssetImportTooLarge' = catalogEntryOf 400 CancelAction (''El archivo tiene m'' @ [CHR 0xE1] @ ''s de 5000 filas. Div'' @ [CHR 0xED] @ ''dalo en varios.'')"
| "assetCatalog QrTokenInvalid' = catalogEntryOf 400 CancelAction (''El c'' @ [CHR 0xF3] @ ''digo QR no es v'' @ [CHR 0xE1] @ ''lido.'')"
| "assetCatalog QrVersionMismatch' = catalogEntryOf 406 CancelAction (''El c'' @ [CHR 0xF3] @ ''digo QR est'' @ [CHR 0xE1] @ '' desactualizado. Pida que lo reimpriman.'')"
| "assetCatalog QrAssetNotFound' = catalogEntryOf 404 CancelAction (''No encontramos el activo de este c'' @ [CHR 0xF3] @ ''digo QR.'')"
| "assetCatalog QrAssetWrittenOff' = catalogEntryOf 406 CancelAction (''El activo fue dado de baja.'')"

primrec fileCatalog :: "file_code \<Rightarrow> catalogEntry" where
  "fileCatalog FileTooLarge' = catalogEntryOf 400 CancelAction (''El archivo es demasiado grande.'')"
| "fileCatalog FileTypeNotAllowed' = catalogEntryOf 400 CancelAction (''Ese tipo de archivo no est'' @ [CHR 0xE1] @ '' permitido.'')"
| "fileCatalog AssetPhotoInvalidImage' = catalogEntryOf 400 CancelAction (''La foto est'' @ [CHR 0xE1] @ '' da'' @ [CHR 0xF1] @ ''ada o es demasiado grande.'')"
| "fileCatalog AssetPhotoAlreadyLinked' = catalogEntryOf 409 CancelAction (''Esta foto ya est'' @ [CHR 0xE1] @ '' en el activo.'')"
| "fileCatalog AssetPhotoStagedNotFound' = catalogEntryOf 404 CancelAction (''La foto que subi'' @ [CHR 0xF3] @ '' venci'' @ [CHR 0xF3] @ ''. S'' @ [CHR 0xFA] @ ''bala de nuevo.'')"
| "fileCatalog AssetPhotoKeyConflict' = catalogEntryOf 409 RetryAction (''No pudimos guardar la foto. Intente de nuevo.'')"
| "fileCatalog AssetPhotoTokenInvalid' = catalogEntryOf 400 CancelAction (''La foto que subi'' @ [CHR 0xF3] @ '' ya no sirve. S'' @ [CHR 0xFA] @ ''bala de nuevo.'')"
| "fileCatalog AssetPhotoFileNotFound' = catalogEntryOf 404 CancelAction (''No encontramos esa foto en la galer'' @ [CHR 0xED] @ ''a.'')"
| "fileCatalog StorageUnavailable' = catalogEntryOf 424 RetryAction (''El almacenamiento no est'' @ [CHR 0xE1] @ '' disponible. Intente de nuevo en un momento.'')"
| "fileCatalog StorageNotConfigured' = catalogEntryOf 406 CancelAction (''El almacenamiento de archivos no est'' @ [CHR 0xE1] @ '' configurado.'')"
| "fileCatalog StorageOauthRequired' = catalogEntryOf 406 RetryAction (''Guarde el Client ID y el Secret y conecte la cuenta antes de activar Drive u OneDrive.'')"
| "fileCatalog StorageOauthFailed' = catalogEntryOf 424 RetryAction (''No se pudo conectar con Drive u OneDrive.'')"
| "fileCatalog TemplateUnknownPlaceholder' = catalogEntryOf 400 CancelAction (''La plantilla usa un campo que no existe.'')"
| "fileCatalog TemplateMissingPlaceholder' = catalogEntryOf 400 CancelAction (''Faltan campos obligatorios en la plantilla Word.'')"
| "fileCatalog TemplateInvalidDocx' = catalogEntryOf 400 CancelAction (''El archivo Word est'' @ [CHR 0xE1] @ '' da'' @ [CHR 0xF1] @ ''ado o no es un .docx.'')"
| "fileCatalog TemplateNotActive' = catalogEntryOf 406 CancelAction (''No hay una plantilla activa para este tipo de documento.'')"
| "fileCatalog EmailTemplateInvalidDesign' = catalogEntryOf 400 CancelAction (''El dise'' @ [CHR 0xF1] @ ''o del correo tiene errores. Revise los bloques marcados.'')"
| "fileCatalog EmailTemplateUnknownVariable' = catalogEntryOf 400 CancelAction (''El correo usa una variable que no existe para este tipo de correo.'')"
| "fileCatalog EmailTemplateMissingVariable' = catalogEntryOf 400 CancelAction (''Faltan variables obligatorias en el correo.'')"
| "fileCatalog EmailAssetInvalidImage' = catalogEntryOf 400 CancelAction (''La imagen est'' @ [CHR 0xE1] @ '' da'' @ [CHR 0xF1] @ ''ada o es demasiado grande.'')"

primrec custodyCatalog :: "custody_code \<Rightarrow> catalogEntry" where
  "custodyCatalog PublicAssetsNotConfigured' = catalogEntryOf 409 CancelAction (''Para usar im'' @ [CHR 0xE1] @ ''genes en los correos, configure en Almacenamiento el bucket p'' @ [CHR 0xFA] @ ''blico y su URL.'')"
| "custodyCatalog AssetAlreadyLoaned' = catalogEntryOf 406 CancelAction (''El activo ya est'' @ [CHR 0xE1] @ '' prestado.'')"
| "custodyCatalog InvalidLoanStateTransition' = catalogEntryOf 406 CancelAction (''El pr'' @ [CHR 0xE9] @ ''stamo no admite esa acci'' @ [CHR 0xF3] @ ''n en su estado actual.'')"
| "custodyCatalog LoanSodViolation' = catalogEntryOf 403 CancelAction (''Quien pide el pr'' @ [CHR 0xE9] @ ''stamo no puede aprobarlo.'')"
| "custodyCatalog LoanSameCostCenter' = catalogEntryOf 400 CancelAction (''El centro de destino debe ser distinto al de origen.'')"
| "custodyCatalog MovementTampered' = catalogEntryOf 406 CancelAction (''La firma del movimiento no coincide. El registro pudo ser alterado.'')"
| "custodyCatalog DocumentTampered' = catalogEntryOf 409 SupportAction (''El PDF guardado no coincide con el que se firm'' @ [CHR 0xF3] @ ''. Pudo ser alterado.'')"
| "custodyCatalog SignatureOutOfOrder' = catalogEntryOf 409 CancelAction (''Todav'' @ [CHR 0xED] @ ''a no es el turno de este firmante.'')"
| "custodyCatalog SignatureNotDesignatedSigner' = catalogEntryOf 403 CancelAction (''Este turno de firma es de otra persona.'')"
| "custodyCatalog SignatureSignerUnassigned' = catalogEntryOf 403 CancelAction (''Este turno de firma no tiene a nadie asignado. Pida a quien administra el proceso que lo asigne.'')"
| "custodyCatalog SignatureMfaRequired' = catalogEntryOf 403 CancelAction (''Active la verificaci'' @ [CHR 0xF3] @ ''n en dos pasos para poder firmar.'')"
| "custodyCatalog SignatureSessionInvalid' = catalogEntryOf 403 ReauthAction (''Su sesi'' @ [CHR 0xF3] @ ''n ya no est'' @ [CHR 0xE1] @ '' vigente. Inicie sesi'' @ [CHR 0xF3] @ ''n de nuevo para firmar.'')"
| "custodyCatalog SignatureReassignAfterSigning' = catalogEntryOf 409 CancelAction (''El acta ya tiene firmas y no se puede cambiar el firmante. Rechace el acta y genere una nueva.'')"
| "custodyCatalog SignatureNoChannel' = catalogEntryOf 409 SupportAction (''La persona de este turno no tiene c'' @ [CHR 0xF3] @ ''mo firmar. Pida a quien administra el proceso que reasigne el turno.'')"
| "custodyCatalog SignatureNoIdentityCheck' = catalogEntryOf 409 SupportAction (''La persona de este turno no tiene documento registrado. Reg'' @ [CHR 0xED] @ ''strelo o reasigne el turno.'')"
| "custodyCatalog SignatureSignerInactive' = catalogEntryOf 409 SupportAction (''La persona de este turno est'' @ [CHR 0xE1] @ '' inactiva. Pida a quien administra el proceso que reasigne el turno.'')"
| "custodyCatalog SignatureSignerCannotSign' = catalogEntryOf 409 CancelAction (''Esta persona no puede firmar este turno.'')"
| "custodyCatalog SignatureLinkNotApplicable' = catalogEntryOf 409 CancelAction (''Este turno no se firma por correo o no es el turno actual del acta.'')"
| "custodyCatalog SignatureLinkUnavailable' = catalogEntryOf 410 CancelAction (''El enlace de firma ya no sirve. Pida a quien administra el proceso que se lo reenv'' @ [CHR 0xED] @ ''e.'')"
| "custodyCatalog SignatureIdentityMismatch' = catalogEntryOf 403 RetryAction (''Los d'' @ [CHR 0xED] @ ''gitos no coinciden con el documento.'')"
| "custodyCatalog SignatureIdentityLocked' = catalogEntryOf 410 CancelAction (''Se agotaron los intentos y el enlace ya no sirve. Pida a quien administra el proceso que se lo reenv'' @ [CHR 0xED] @ ''e.'')"
| "custodyCatalog SignatureIdentityRequired' = catalogEntryOf 403 RetryAction (''Confirme su identidad antes de firmar o rechazar.'')"
| "custodyCatalog DocumentAlreadySigned' = catalogEntryOf 409 SupportAction (''El acta ya est'' @ [CHR 0xE1] @ '' firmada y no se puede anular.'')"

primrec actCatalog :: "act_code \<Rightarrow> catalogEntry" where
  "actCatalog HandoverAssetInOpenHandover' = catalogEntryOf 409 CancelAction (''El activo est'' @ [CHR 0xE1] @ '' en otra entrega abierta. Espere a que su acta se firme o se rechace.'')"
| "actCatalog HandoverCostCenterMismatch' = catalogEntryOf 406 CancelAction (''El activo es de otro centro de costo. Para moverlo use un traslado.'')"
| "actCatalog HandoverAssetNotDeliverable' = catalogEntryOf 406 CancelAction (''El activo est'' @ [CHR 0xE1] @ '' dado de baja o prestado. No se puede entregar.'')"
| "actCatalog HandoverAssetReserved' = catalogEntryOf 409 CancelAction (''El activo est'' @ [CHR 0xE1] @ '' en un pr'' @ [CHR 0xE9] @ ''stamo, una solicitud, un traslado o una baja abierta. Espere a que termine para entregarlo.'')"
| "actCatalog DocumentFormatNotReady' = catalogEntryOf 409 SupportAction (''El formato de esta acta a'' @ [CHR 0xFA] @ ''n no est'' @ [CHR 0xE1] @ '' listo. Falta el c'' @ [CHR 0xF3] @ ''digo SGC o los firmantes.'')"
| "actCatalog DocumentFormatAlreadyExists' = catalogEntryOf 409 CancelAction (''Ya existe un formato con esa clave.'')"
| "actCatalog DocumentFormatBreaksProcess' = catalogEntryOf 409 CancelAction (''Esta versi'' @ [CHR 0xF3] @ ''n quita firmantes que el proceso necesita para generar el acta.'')"
| "actCatalog DocumentFormatSequenceStarted' = catalogEntryOf 409 CancelAction (''Ya se emitieron actas en ese periodo. El consecutivo inicial no se puede cambiar.'')"
| "actCatalog DocumentSignerDuplicated' = catalogEntryOf 409 CancelAction (''Una persona no puede firmar dos veces la misma acta. Cambie el firmante o indique un sustituto para Control Interno.'')"
| "actCatalog DocumentSignerSubstituteInvalid' = catalogEntryOf 400 CancelAction (''Ese sustituto no es v'' @ [CHR 0xE1] @ ''lido. Debe tener usuario activo, permiso para firmar por Control Interno y no firmar otra parte del acta.'')"
| "actCatalog DocumentSignerNotEligible' = catalogEntryOf 400 CancelAction (''Esta persona no puede firmar por Control Interno. Necesita usuario activo y permiso para hacerlo.'')"
| "actCatalog TransferSameCostCenter' = catalogEntryOf 400 CancelAction (''El centro de costo de destino debe ser distinto al de origen.'')"
| "actCatalog TransferMixedSourceCostCenter' = catalogEntryOf 400 CancelAction (''Todos los activos del traslado deben ser del mismo centro de costo.'')"
| "actCatalog TransferAssetInOpenTransfer' = catalogEntryOf 409 CancelAction (''El activo ya est'' @ [CHR 0xE1] @ '' en otro traslado abierto.'')"
| "actCatalog TransferInvalidStateTransition' = catalogEntryOf 406 CancelAction (''El traslado no admite esa acci'' @ [CHR 0xF3] @ ''n en su estado actual.'')"
| "actCatalog TransferReasonUnavailable' = catalogEntryOf 400 CancelAction (''Ese motivo de traslado no existe o est'' @ [CHR 0xE1] @ '' inactivo.'')"
| "actCatalog TransferReasonExists' = catalogEntryOf 409 CancelAction (''Ya existe un motivo de traslado con ese c'' @ [CHR 0xF3] @ ''digo.'')"
| "actCatalog TransferReasonInUse' = catalogEntryOf 409 CancelAction (''Este motivo ya se us'' @ [CHR 0xF3] @ '' en traslados. Desact'' @ [CHR 0xED] @ ''velo en lugar de eliminarlo.'')"
| "actCatalog TransferNoAccountingSigner' = catalogEntryOf 409 SupportAction (''Nadie tiene el rol de Contabilidad. Pida a un administrador que lo asigne.'')"
| "actCatalog TransferNoControlSigner' = catalogEntryOf 409 SupportAction (''Nadie tiene permiso para firmar por Control Interno. Pida a un administrador que lo otorgue.'')"
| "actCatalog TransferSignerNotEligible' = catalogEntryOf 400 CancelAction (''Esta persona no puede firmar ese turno del acta de traslado.'')"
| "actCatalog TransferSignerRequired' = catalogEntryOf 400 CancelAction (''Varias personas pueden firmar ese turno. Elija una.'')"
| "actCatalog WriteOffInvalidStateTransition' = catalogEntryOf 406 CancelAction (''La baja no admite esa acci'' @ [CHR 0xF3] @ ''n en su estado actual.'')"
| "actCatalog WriteOffAssetHeld' = catalogEntryOf 409 CancelAction (''El activo est'' @ [CHR 0xE1] @ '' en otro proceso abierto. Espere a que termine para darlo de baja.'')"
| "actCatalog WriteOffNoControlSigner' = catalogEntryOf 409 SupportAction (''Nadie tiene permiso para firmar por Control Interno. Pida a un administrador que lo otorgue.'')"
| "actCatalog WriteOffSignerRequired' = catalogEntryOf 400 CancelAction (''Varias personas pueden firmar ese turno. Elija una.'')"
| "actCatalog WriteOffNoAccountingSigner' = catalogEntryOf 409 SupportAction (''Nadie tiene el rol de Contabilidad. Pida a un administrador que lo asigne.'')"

primrec requestCatalog :: "request_code \<Rightarrow> catalogEntry" where
  "requestCatalog WriteOffSignerNotEligible' = catalogEntryOf 400 CancelAction (''Esta persona no puede firmar ese turno del acta de baja.'')"
| "requestCatalog AssetInOpenWriteOff' = catalogEntryOf 409 CancelAction (''El activo est'' @ [CHR 0xE1] @ '' en una baja abierta.'')"
| "requestCatalog AssetRequestNotHead' = catalogEntryOf 403 CancelAction (''Solo el jefe del centro de costo puede hacer esto en la solicitud.'')"
| "requestCatalog AssetRequestOwnerWithoutHead' = catalogEntryOf 409 SupportAction (''El centro de costo al que pide los activos no tiene jefe. Pida a un administrador que lo asigne.'')"
| "requestCatalog AssetRequestSodViolation' = catalogEntryOf 403 CancelAction (''Quien hizo la solicitud no puede decidirla.'')"
| "requestCatalog AssetRequestInvalidStateTransition' = catalogEntryOf 406 CancelAction (''La solicitud no admite esa acci'' @ [CHR 0xF3] @ ''n en su estado actual.'')"
| "requestCatalog AssetRequestAssetUnavailable' = catalogEntryOf 406 CancelAction (''Alguno de los activos elegidos ya no est'' @ [CHR 0xE1] @ '' disponible.'')"
| "requestCatalog LoanExtensionNotRequester' = catalogEntryOf 403 CancelAction (''Solo quien pidi'' @ [CHR 0xF3] @ '' el pr'' @ [CHR 0xE9] @ ''stamo puede pedir que se extienda.'')"
| "requestCatalog LoanNoPendingExtension' = catalogEntryOf 409 CancelAction (''El pr'' @ [CHR 0xE9] @ ''stamo no tiene una extensi'' @ [CHR 0xF3] @ ''n pendiente.'')"
| "requestCatalog LoanDeliveryActNotRejected' = catalogEntryOf 409 CancelAction (''Solo se genera una nueva acta de entrega si la anterior fue rechazada.'')"
| "requestCatalog LoanNotStarted' = catalogEntryOf 409 CancelAction (''El pr'' @ [CHR 0xE9] @ ''stamo a'' @ [CHR 0xFA] @ ''n no empieza. Entr'' @ [CHR 0xE9] @ ''guelo en la fecha de inicio.'')"
| "requestCatalog LoanDeliveryActNotSigned' = catalogEntryOf 409 CancelAction (''El acta de entrega a'' @ [CHR 0xFA] @ ''n no tiene todas las firmas. Espere para registrar la devoluci'' @ [CHR 0xF3] @ ''n.'')"

primrec inventoryCatalog :: "inventory_code \<Rightarrow> catalogEntry" where
  "inventoryCatalog InventoryScopeOverlap' = catalogEntryOf 406 CancelAction (''Ya hay una toma f'' @ [CHR 0xED] @ ''sica en curso con algunos de estos activos.'')"
| "inventoryCatalog InventoryUnverifiedExceedsThreshold' = catalogEntryOf 406 CancelAction (''M'' @ [CHR 0xE1] @ ''s del 5% de los activos siguen sin verificar. El cierre necesita autorizaci'' @ [CHR 0xF3] @ ''n.'')"
| "inventoryCatalog InventoryReconcileSod' = catalogEntryOf 403 CancelAction (''Quien pide la conciliaci'' @ [CHR 0xF3] @ ''n no puede aprobarla.'')"
| "inventoryCatalog InventoryActorNotAllowed' = catalogEntryOf 403 CancelAction (''Solo el responsable de la toma o quien programa tomas puede hacer esto.'')"
| "inventoryCatalog InventoryConflictOfInterest' = catalogEntryOf 403 CancelAction (''Usted es jefe o custodio de activos de esta toma. No puede ejecutarla, corregirla ni cerrarla.'')"
| "inventoryCatalog InventoryAssetWrittenOff' = catalogEntryOf 406 CancelAction (''El activo est'' @ [CHR 0xE1] @ '' dado de baja. Si apareci'' @ [CHR 0xF3] @ '', primero reverse la baja.'')"
| "inventoryCatalog InventoryMissingCauseRequired' = catalogEntryOf 400 CancelAction (''Elija una causa del faltante o escriba otra de 3 a 500 caracteres.'')"
| "inventoryCatalog InventoryCatalogEntryUnavailable' = catalogEntryOf 406 CancelAction (''Esa opci'' @ [CHR 0xF3] @ ''n no existe o est'' @ [CHR 0xE1] @ '' inactiva.'')"
| "inventoryCatalog InventoryCatalogEntryInUse' = catalogEntryOf 406 CancelAction (''Esta opci'' @ [CHR 0xF3] @ ''n ya se us'' @ [CHR 0xF3] @ '' en una toma. Desact'' @ [CHR 0xED] @ ''vela en lugar de eliminarla.'')"
| "inventoryCatalog InventoryCatalogEntryExists' = catalogEntryOf 406 CancelAction (''Ya existe una opci'' @ [CHR 0xF3] @ ''n con ese c'' @ [CHR 0xF3] @ ''digo o nombre.'')"
| "inventoryCatalog InventorySurplusWasLost' = catalogEntryOf 406 CancelAction (''Este sobrante es un activo que estaba perdido. No se resuelve desde la toma.'')"
| "inventoryCatalog InventorySurplusNotResolvable' = catalogEntryOf 406 CancelAction (''Este sobrante no se puede registrar como activo.'')"
| "inventoryCatalog InventoryUnassignedSurplus' = catalogEntryOf 409 CancelAction (''Hay sobrantes sin centro de costo. Elija el centro de cada uno o reg'' @ [CHR 0xED] @ ''strelos como activos antes de conciliar.'')"
| "inventoryCatalog AssetPriceZeroReasonUnavailable' = catalogEntryOf 406 CancelAction (''Ese motivo de precio cero no existe o est'' @ [CHR 0xE1] @ '' inactivo.'')"
| "inventoryCatalog AssetPriceZeroReasonInUse' = catalogEntryOf 406 CancelAction (''Este motivo ya se us'' @ [CHR 0xF3] @ '' en activos. Desact'' @ [CHR 0xED] @ ''velo en lugar de eliminarlo.'')"
| "inventoryCatalog AssetPriceZeroReasonExists' = catalogEntryOf 406 CancelAction (''Ya existe un motivo de precio cero con ese nombre.'')"
| "inventoryCatalog AssetPriceNotZero' = catalogEntryOf 406 CancelAction (''El activo tiene precio de compra. No necesita motivo de precio cero.'')"
| "inventoryCatalog DepreciationInvalidPeriod' = catalogEntryOf 400 CancelAction (''El periodo de depreciaci'' @ [CHR 0xF3] @ ''n no es v'' @ [CHR 0xE1] @ ''lido.'')"
| "inventoryCatalog ModuleUnavailable' = catalogEntryOf 503 CancelAction (''Este m'' @ [CHR 0xF3] @ ''dulo no est'' @ [CHR 0xE1] @ '' disponible en este momento.'')"
| "inventoryCatalog FeatureUnknown' = catalogEntryOf 404 CancelAction (''Ese m'' @ [CHR 0xF3] @ ''dulo no existe.'')"
| "inventoryCatalog FeatureNotToggleable' = catalogEntryOf 406 CancelAction (''Este m'' @ [CHR 0xF3] @ ''dulo no se puede activar ni desactivar.'')"
| "inventoryCatalog ScopeNoCostCenter' = catalogEntryOf 403 SupportAction (''Su rol no tiene centros de costo asignados. Pida a Control Interno que se los asigne.'')"
| "inventoryCatalog ScopeOrgUnitUnresolved' = catalogEntryOf 403 SupportAction (''Su rol est'' @ [CHR 0xE1] @ '' asignado a una dependencia y a'' @ [CHR 0xFA] @ ''n no le da acceso a centros de costo. Pida a Control Interno que se lo asigne sobre un centro de costo.'')"

primrec orgCatalog :: "org_code \<Rightarrow> catalogEntry" where
  "orgCatalog CostCenterHeadOverlap' = catalogEntryOf 409 CancelAction (''Esa persona ya es jefe de ese centro de costo en parte de esas fechas.'')"
| "orgCatalog CostCenterHeadEnded' = catalogEntryOf 409 CancelAction (''La jefatura ya termin'' @ [CHR 0xF3] @ ''.'')"
| "orgCatalog CostCenterPlacementCycle' = catalogEntryOf 409 CancelAction (''Ese centro est'' @ [CHR 0xE1] @ '' debajo de este. Elija otro centro padre.'')"
| "orgCatalog CostCenterPlacementUnchanged' = catalogEntryOf 409 CancelAction (''Esa ya es la ubicaci'' @ [CHR 0xF3] @ ''n actual.'')"
| "orgCatalog CostCenterPlacementRequired' = catalogEntryOf 400 CancelAction (''La dependencia y el centro padre se cambian desde la ubicaci'' @ [CHR 0xF3] @ ''n del centro.'')"
| "orgCatalog CostCenterGroupingHasAssets' = catalogEntryOf 409 CancelAction (''Tiene activos asignados. No puede quedar como agrupador.'')"
| "orgCatalog CostCenterCodeOutOfUnitRange' = catalogEntryOf 400 CancelAction (''El c'' @ [CHR 0xF3] @ ''digo no corresponde a la dependencia.'')"
| "orgCatalog CostCenterWithoutHead' = catalogEntryOf 409 CancelAction (''El centro de costo no tiene jefe vigente. As'' @ [CHR 0xED] @ ''gnele un jefe antes de agregarle activos.'')"
| "orgCatalog CostCenterInactive' = catalogEntryOf 409 CancelAction (''El centro de costo est'' @ [CHR 0xE1] @ '' archivado. React'' @ [CHR 0xED] @ ''velo antes de continuar.'')"
| "orgCatalog CostCenterParentInactive' = catalogEntryOf 409 CancelAction (''Su centro padre est'' @ [CHR 0xE1] @ '' archivado. React'' @ [CHR 0xED] @ ''velo primero.'')"
| "orgCatalog CostCenterOrgUnitInactive' = catalogEntryOf 409 CancelAction (''Su dependencia est'' @ [CHR 0xE1] @ '' archivada. React'' @ [CHR 0xED] @ ''vela primero.'')"
| "orgCatalog OrgUnitCodePrefixExists' = catalogEntryOf 409 CancelAction (''Ese prefijo ya es de otra dependencia.'')"
| "orgCatalog OrgUnitPrefixOutOfParent' = catalogEntryOf 400 CancelAction (''El prefijo es el mismo de su jefe. Agregue al menos un d'' @ [CHR 0xED] @ ''gito.'')"
| "orgCatalog OrgUnitParentArchived' = catalogEntryOf 409 CancelAction (''Esa dependencia est'' @ [CHR 0xE1] @ '' archivada. Elija otra o react'' @ [CHR 0xED] @ ''vela primero.'')"
| "orgCatalog OrgUnitNameDuplicate' = catalogEntryOf 409 CancelAction (''Ya existe una dependencia con ese nombre bajo el mismo jefe.'')"
| "orgCatalog OrgChartImportHasErrors' = catalogEntryOf 422 CancelAction (''El archivo tiene errores. Corr'' @ [CHR 0xED] @ ''jalos y vuelva a subirlo.'')"
| "orgCatalog OrgChartImportStale' = catalogEntryOf 409 CancelAction (''El organigrama cambi'' @ [CHR 0xF3] @ '' mientras revisaba el archivo. Vuelva a subirlo.'')"
| "orgCatalog OrgChartImportConflict' = catalogEntryOf 409 CancelAction (''Otra persona cambi'' @ [CHR 0xF3] @ '' estas dependencias despu'' @ [CHR 0xE9] @ ''s de que usted descarg'' @ [CHR 0xF3] @ '' el archivo. Descargue el organigrama de nuevo y repita sus cambios.'')"
| "orgCatalog OrgChartImportClosed' = catalogEntryOf 409 CancelAction (''Esta revisi'' @ [CHR 0xF3] @ ''n ya se aplic'' @ [CHR 0xF3] @ '' o venci'' @ [CHR 0xF3] @ ''. Vuelva a subir el archivo.'')"
| "orgCatalog OrgChartInvalidFile' = catalogEntryOf 400 CancelAction (''Este archivo no es el Excel del organigrama. Debe tener la hoja Organigrama con sus encabezados.'')"
| "orgCatalog StructureReconcileStale' = catalogEntryOf 409 CancelAction (''La estructura cambi'' @ [CHR 0xF3] @ '' desde la vista previa. Rev'' @ [CHR 0xED] @ ''sela de nuevo antes de aplicar.'')"
| "orgCatalog ImportJobNotRetryable' = catalogEntryOf 409 CancelAction (''Solo se puede reintentar una importaci'' @ [CHR 0xF3] @ ''n que fall'' @ [CHR 0xF3] @ ''.'')"
| "orgCatalog StorageKeyInvalid' = catalogEntryOf 400 CancelAction (''La ruta del archivo no es v'' @ [CHR 0xE1] @ ''lida.'')"
| "orgCatalog StorageProjectPathLocked' = catalogEntryOf 400 CancelAction (''La carpeta del almacenamiento local no se cambia desde aqu'' @ [CHR 0xED] @ ''.'')"
| "orgCatalog ArchiveTooLarge' = catalogEntryOf 400 CancelAction (''El archivo es demasiado grande para procesarlo.'')"
| "orgCatalog MailAddressInvalid' = catalogEntryOf 400 CancelAction (''La direcci'' @ [CHR 0xF3] @ ''n de correo no es v'' @ [CHR 0xE1] @ ''lida.'')"
| "orgCatalog OutboundDestinationForbidden' = catalogEntryOf 400 CancelAction (''Ese servidor est'' @ [CHR 0xE1] @ '' en una red interna. Use una direcci'' @ [CHR 0xF3] @ ''n p'' @ [CHR 0xFA] @ ''blica.'')"
| "orgCatalog EventsTicketInvalid' = catalogEntryOf 401 RetryAction (''La conexi'' @ [CHR 0xF3] @ ''n de avisos venci'' @ [CHR 0xF3] @ ''. Recargue la p'' @ [CHR 0xE1] @ ''gina.'')"
| "orgCatalog EventsCapacityReached' = catalogEntryOf 503 RetryAction (''Hay demasiadas conexiones abiertas. Intente m'' @ [CHR 0xE1] @ ''s tarde.'')"

primrec ERROR_CATALOG :: "error_code \<Rightarrow> catalogEntry" where
  "ERROR_CATALOG (GeneralCode c) = generalCatalog c"
| "ERROR_CATALOG (AccountCode c) = accountCatalog c"
| "ERROR_CATALOG (RoleCode c) = roleCatalog c"
| "ERROR_CATALOG (PlaceCode c) = placeCatalog c"
| "ERROR_CATALOG (AssetCode c) = assetCatalog c"
| "ERROR_CATALOG (FileCode c) = fileCatalog c"
| "ERROR_CATALOG (CustodyCode c) = custodyCatalog c"
| "ERROR_CATALOG (ActCode c) = actCatalog c"
| "ERROR_CATALOG (RequestCode c) = requestCatalog c"
| "ERROR_CATALOG (InventoryCode c) = inventoryCatalog c"
| "ERROR_CATALOG (OrgCode c) = orgCatalog c"

section \<open>The texts of the codes\<close>

primrec generalText :: "general_code \<Rightarrow> string" where
  "generalText ValidationFailed' = ''VALIDATION_FAILED''"
| "generalText MalformedRequest' = ''MALFORMED_REQUEST''"
| "generalText Unauthorized' = ''UNAUTHORIZED''"
| "generalText TokenExpired' = ''TOKEN_EXPIRED''"
| "generalText InsufficientPermissions' = ''INSUFFICIENT_PERMISSIONS''"
| "generalText OutOfScope' = ''OUT_OF_SCOPE''"
| "generalText ResourceNotFound' = ''RESOURCE_NOT_FOUND''"
| "generalText InvalidState' = ''INVALID_STATE''"
| "generalText ConcurrentModification' = ''CONCURRENT_MODIFICATION''"
| "generalText TooManyAttempts' = ''TOO_MANY_ATTEMPTS''"
| "generalText AccountTemporarilyLocked' = ''ACCOUNT_TEMPORARILY_LOCKED''"
| "generalText SessionRevoked' = ''SESSION_REVOKED''"
| "generalText ExternalServiceFailure' = ''EXTERNAL_SERVICE_FAILURE''"
| "generalText InternalError' = ''INTERNAL_ERROR''"

primrec accountText :: "account_code \<Rightarrow> string" where
  "accountText InvalidCredentials' = ''INVALID_CREDENTIALS''"
| "accountText UserSuspended' = ''USER_SUSPENDED''"
| "accountText UserInactive' = ''USER_INACTIVE''"
| "accountText MfaRequired' = ''MFA_REQUIRED''"
| "accountText MfaCodeInvalid' = ''MFA_CODE_INVALID''"
| "accountText MfaVerificationFailed' = ''MFA_VERIFICATION_FAILED''"
| "accountText MfaSessionRequired' = ''MFA_SESSION_REQUIRED''"
| "accountText MfaRequiredByRole' = ''MFA_REQUIRED_BY_ROLE''"
| "accountText MfaNotEnabled' = ''MFA_NOT_ENABLED''"
| "accountText MfaEnrollmentNotStarted' = ''MFA_ENROLLMENT_NOT_STARTED''"
| "accountText MfaSelfResetForbidden' = ''MFA_SELF_RESET_FORBIDDEN''"
| "accountText PasswordPolicyViolation' = ''PASSWORD_POLICY_VIOLATION''"
| "accountText UsernameAlreadyExists' = ''USERNAME_ALREADY_EXISTS''"
| "accountText PersonDocumentAlreadyExists' = ''PERSON_DOCUMENT_ALREADY_EXISTS''"
| "accountText PersonEmailAlreadyExists' = ''PERSON_EMAIL_ALREADY_EXISTS''"
| "accountText PasswordResetInvalid' = ''PASSWORD_RESET_INVALID''"
| "accountText PasswordChangeRequired' = ''PASSWORD_CHANGE_REQUIRED''"
| "accountText InvitationExpired' = ''INVITATION_EXPIRED''"

primrec roleText :: "role_code \<Rightarrow> string" where
  "roleText RoleNotFound' = ''ROLE_NOT_FOUND''"
| "roleText RoleNotAssignable' = ''ROLE_NOT_ASSIGNABLE''"
| "roleText RoleMaxUsersReached' = ''ROLE_MAX_USERS_REACHED''"
| "roleText RoleCodeAlreadyExists' = ''ROLE_CODE_ALREADY_EXISTS''"
| "roleText RoleHasAssignedUsers' = ''ROLE_HAS_ASSIGNED_USERS''"
| "roleText RoleHasChildRoles' = ''ROLE_HAS_CHILD_ROLES''"
| "roleText RoleSelfAssignmentForbidden' = ''ROLE_SELF_ASSIGNMENT_FORBIDDEN''"
| "roleText RoleSystemImmutable' = ''ROLE_SYSTEM_IMMUTABLE''"
| "roleText RolePrivilegeEscalation' = ''ROLE_PRIVILEGE_ESCALATION''"
| "roleText PermissionNotHeld' = ''PERMISSION_NOT_HELD''"
| "roleText PermissionCodeAlreadyExists' = ''PERMISSION_CODE_EXISTS''"
| "roleText PermissionInUse' = ''PERMISSION_IN_USE''"
| "roleText PermissionSystemImmutable' = ''PERMISSION_SYSTEM_IMMUTABLE''"
| "roleText NavigationPathAlreadyExists' = ''NAV_PATH_EXISTS''"
| "roleText SodViolation' = ''SOD_VIOLATION''"
| "roleText DelegationRequiresExpiry' = ''DELEGATION_REQUIRES_EXPIRY''"
| "roleText CannotDelegateRoleNotHeld' = ''CANNOT_DELEGATE_ROLE_NOT_HELD''"
| "roleText DelegationExceedsSourceValidity' = ''DELEGATION_EXCEEDS_SOURCE_VALIDITY''"
| "roleText HasActiveLoans' = ''HAS_ACTIVE_LOANS''"
| "roleText PersonAffiliationRequired' = ''PERSON_AFFILIATION_REQUIRED''"
| "roleText CostCenterOrgUnitMismatch' = ''COST_CENTER_ORG_UNIT_MISMATCH''"
| "roleText MailNotConfigured' = ''MAIL_NOT_CONFIGURED''"
| "roleText MailSendFailed' = ''MAIL_SEND_FAILED''"

primrec placeText :: "place_code \<Rightarrow> string" where
  "placeText HasDependentEntities' = ''HAS_DEPENDENT_ENTITIES''"
| "placeText CampusCodeAlreadyExists' = ''CAMPUS_CODE_ALREADY_EXISTS''"
| "placeText BuildingCodeAlreadyExists' = ''BUILDING_CODE_ALREADY_EXISTS''"
| "placeText LocationCodeAlreadyExists' = ''LOCATION_CODE_ALREADY_EXISTS''"
| "placeText OrgUnitCodeAlreadyExists' = ''ORG_UNIT_CODE_ALREADY_EXISTS''"
| "placeText OrgUnitHasChildren' = ''ORG_UNIT_HAS_CHILDREN''"
| "placeText OrgUnitCycle' = ''ORG_UNIT_CYCLE''"
| "placeText CostCenterExternalCodeExists' = ''COST_CENTER_EXTERNAL_CODE_EXISTS''"
| "placeText CostCenterHasActiveAssets' = ''COST_CENTER_HAS_ACTIVE_ASSETS''"
| "placeText CostCenterExternalCodeImmutable' = ''COST_CENTER_EXTERNAL_CODE_IMMUTABLE''"
| "placeText InvalidCsv' = ''INVALID_CSV''"
| "placeText CategoryCodeAlreadyExists' = ''CATEGORY_CODE_ALREADY_EXISTS''"
| "placeText CategoryHasChildren' = ''CATEGORY_HAS_CHILDREN''"
| "placeText CategoryCycle' = ''CATEGORY_CYCLE''"
| "placeText AssetCategoryHasAssets' = ''ASSET_CATEGORY_HAS_ASSETS''"
| "placeText DynamicFieldCodeExists' = ''DYNAMIC_FIELD_CODE_EXISTS''"
| "placeText DynamicFieldInUse' = ''DYNAMIC_FIELD_IN_USE''"
| "placeText DynamicFieldTypeImmutable' = ''DYNAMIC_FIELD_TYPE_IMMUTABLE''"
| "placeText InvalidFieldDefinition' = ''INVALID_FIELD_DEFINITION''"

primrec assetText :: "asset_code \<Rightarrow> string" where
  "assetText AssetInternalCodeAlreadyExists' = ''ASSET_INTERNAL_CODE_ALREADY_EXISTS''"
| "assetText AssetBarcodeAlreadyExists' = ''ASSET_BARCODE_ALREADY_EXISTS''"
| "assetText AssetSerialRequired' = ''ASSET_SERIAL_REQUIRED''"
| "assetText AssetPhotoRequired' = ''ASSET_PHOTO_REQUIRED''"
| "assetText AssetAlreadyWrittenOff' = ''ASSET_ALREADY_WRITTEN_OFF''"
| "assetText AssetCannotBeModified' = ''ASSET_CANNOT_BE_MODIFIED''"
| "assetText AssetMissingCustomField' = ''ASSET_MISSING_CUSTOM_FIELD''"
| "assetText AssetInvalidDynamicValue' = ''ASSET_INVALID_DYNAMIC_VALUE''"
| "assetText AssetHasActiveLoan' = ''ASSET_HAS_ACTIVE_LOAN''"
| "assetText AssetUnderInventory' = ''ASSET_UNDER_INVENTORY''"
| "assetText AssetInvalidStatusTransition' = ''ASSET_INVALID_STATUS_TRANSITION''"
| "assetText AssetImportExpired' = ''ASSET_IMPORT_EXPIRED''"
| "assetText AssetImportTooLarge' = ''ASSET_IMPORT_TOO_LARGE''"
| "assetText QrTokenInvalid' = ''QR_TOKEN_INVALID''"
| "assetText QrVersionMismatch' = ''QR_VERSION_MISMATCH''"
| "assetText QrAssetNotFound' = ''QR_ASSET_NOT_FOUND''"
| "assetText QrAssetWrittenOff' = ''QR_ASSET_WRITTEN_OFF''"

primrec fileText :: "file_code \<Rightarrow> string" where
  "fileText FileTooLarge' = ''FILE_TOO_LARGE''"
| "fileText FileTypeNotAllowed' = ''FILE_TYPE_NOT_ALLOWED''"
| "fileText AssetPhotoInvalidImage' = ''ASSET_PHOTO_INVALID_IMAGE''"
| "fileText AssetPhotoAlreadyLinked' = ''ASSET_PHOTO_ALREADY_LINKED''"
| "fileText AssetPhotoStagedNotFound' = ''ASSET_PHOTO_STAGED_NOT_FOUND''"
| "fileText AssetPhotoKeyConflict' = ''ASSET_PHOTO_KEY_CONFLICT''"
| "fileText AssetPhotoTokenInvalid' = ''ASSET_PHOTO_TOKEN_INVALID''"
| "fileText AssetPhotoFileNotFound' = ''ASSET_PHOTO_FILE_NOT_FOUND''"
| "fileText StorageUnavailable' = ''STORAGE_UNAVAILABLE''"
| "fileText StorageNotConfigured' = ''STORAGE_NOT_CONFIGURED''"
| "fileText StorageOauthRequired' = ''STORAGE_OAUTH_REQUIRED''"
| "fileText StorageOauthFailed' = ''STORAGE_OAUTH_FAILED''"
| "fileText TemplateUnknownPlaceholder' = ''TEMPLATE_UNKNOWN_PLACEHOLDER''"
| "fileText TemplateMissingPlaceholder' = ''TEMPLATE_MISSING_PLACEHOLDER''"
| "fileText TemplateInvalidDocx' = ''TEMPLATE_INVALID_DOCX''"
| "fileText TemplateNotActive' = ''TEMPLATE_NOT_ACTIVE''"
| "fileText EmailTemplateInvalidDesign' = ''EMAIL_TEMPLATE_INVALID_DESIGN''"
| "fileText EmailTemplateUnknownVariable' = ''EMAIL_TEMPLATE_UNKNOWN_VARIABLE''"
| "fileText EmailTemplateMissingVariable' = ''EMAIL_TEMPLATE_MISSING_VARIABLE''"
| "fileText EmailAssetInvalidImage' = ''EMAIL_ASSET_INVALID_IMAGE''"

primrec custodyText :: "custody_code \<Rightarrow> string" where
  "custodyText PublicAssetsNotConfigured' = ''PUBLIC_ASSETS_NOT_CONFIGURED''"
| "custodyText AssetAlreadyLoaned' = ''ASSET_ALREADY_LOANED''"
| "custodyText InvalidLoanStateTransition' = ''INVALID_LOAN_STATE_TRANSITION''"
| "custodyText LoanSodViolation' = ''LOAN_SOD_VIOLATION''"
| "custodyText LoanSameCostCenter' = ''LOAN_SAME_COST_CENTER''"
| "custodyText MovementTampered' = ''MOVEMENT_TAMPERED''"
| "custodyText DocumentTampered' = ''DOCUMENT_TAMPERED''"
| "custodyText SignatureOutOfOrder' = ''SIGNATURE_OUT_OF_ORDER''"
| "custodyText SignatureNotDesignatedSigner' = ''SIGNATURE_NOT_DESIGNATED_SIGNER''"
| "custodyText SignatureSignerUnassigned' = ''SIGNATURE_SIGNER_UNASSIGNED''"
| "custodyText SignatureMfaRequired' = ''SIGNATURE_MFA_REQUIRED''"
| "custodyText SignatureSessionInvalid' = ''SIGNATURE_SESSION_INVALID''"
| "custodyText SignatureReassignAfterSigning' = ''SIGNATURE_REASSIGN_AFTER_SIGNING''"
| "custodyText SignatureNoChannel' = ''SIGNATURE_NO_CHANNEL''"
| "custodyText SignatureNoIdentityCheck' = ''SIGNATURE_NO_IDENTITY_CHECK''"
| "custodyText SignatureSignerInactive' = ''SIGNATURE_SIGNER_INACTIVE''"
| "custodyText SignatureSignerCannotSign' = ''SIGNATURE_SIGNER_CANNOT_SIGN''"
| "custodyText SignatureLinkNotApplicable' = ''SIGNATURE_LINK_NOT_APPLICABLE''"
| "custodyText SignatureLinkUnavailable' = ''SIGNATURE_LINK_UNAVAILABLE''"
| "custodyText SignatureIdentityMismatch' = ''SIGNATURE_IDENTITY_MISMATCH''"
| "custodyText SignatureIdentityLocked' = ''SIGNATURE_IDENTITY_LOCKED''"
| "custodyText SignatureIdentityRequired' = ''SIGNATURE_IDENTITY_REQUIRED''"
| "custodyText DocumentAlreadySigned' = ''DOCUMENT_ALREADY_SIGNED''"

primrec actText :: "act_code \<Rightarrow> string" where
  "actText HandoverAssetInOpenHandover' = ''HANDOVER_ASSET_IN_OPEN_HANDOVER''"
| "actText HandoverCostCenterMismatch' = ''HANDOVER_COST_CENTER_MISMATCH''"
| "actText HandoverAssetNotDeliverable' = ''HANDOVER_ASSET_NOT_DELIVERABLE''"
| "actText HandoverAssetReserved' = ''HANDOVER_ASSET_RESERVED''"
| "actText DocumentFormatNotReady' = ''DOCUMENT_FORMAT_NOT_READY''"
| "actText DocumentFormatAlreadyExists' = ''DOCUMENT_FORMAT_ALREADY_EXISTS''"
| "actText DocumentFormatBreaksProcess' = ''DOCUMENT_FORMAT_BREAKS_PROCESS''"
| "actText DocumentFormatSequenceStarted' = ''DOCUMENT_FORMAT_SEQUENCE_STARTED''"
| "actText DocumentSignerDuplicated' = ''DOCUMENT_SIGNER_DUPLICATED''"
| "actText DocumentSignerSubstituteInvalid' = ''DOCUMENT_SIGNER_SUBSTITUTE_INVALID''"
| "actText DocumentSignerNotEligible' = ''DOCUMENT_SIGNER_NOT_ELIGIBLE''"
| "actText TransferSameCostCenter' = ''TRANSFER_SAME_COST_CENTER''"
| "actText TransferMixedSourceCostCenter' = ''TRANSFER_MIXED_SOURCE_COST_CENTER''"
| "actText TransferAssetInOpenTransfer' = ''TRANSFER_ASSET_IN_OPEN_TRANSFER''"
| "actText TransferInvalidStateTransition' = ''TRANSFER_INVALID_STATE_TRANSITION''"
| "actText TransferReasonUnavailable' = ''TRANSFER_REASON_UNAVAILABLE''"
| "actText TransferReasonExists' = ''TRANSFER_REASON_EXISTS''"
| "actText TransferReasonInUse' = ''TRANSFER_REASON_IN_USE''"
| "actText TransferNoAccountingSigner' = ''TRANSFER_NO_ACCOUNTING_SIGNER''"
| "actText TransferNoControlSigner' = ''TRANSFER_NO_CONTROL_SIGNER''"
| "actText TransferSignerNotEligible' = ''TRANSFER_SIGNER_NOT_ELIGIBLE''"
| "actText TransferSignerRequired' = ''TRANSFER_SIGNER_REQUIRED''"
| "actText WriteOffInvalidStateTransition' = ''WRITE_OFF_INVALID_STATE_TRANSITION''"
| "actText WriteOffAssetHeld' = ''WRITE_OFF_ASSET_HELD''"
| "actText WriteOffNoControlSigner' = ''WRITE_OFF_NO_CONTROL_SIGNER''"
| "actText WriteOffSignerRequired' = ''WRITE_OFF_SIGNER_REQUIRED''"
| "actText WriteOffNoAccountingSigner' = ''WRITE_OFF_NO_ACCOUNTING_SIGNER''"

primrec requestText :: "request_code \<Rightarrow> string" where
  "requestText WriteOffSignerNotEligible' = ''WRITE_OFF_SIGNER_NOT_ELIGIBLE''"
| "requestText AssetInOpenWriteOff' = ''ASSET_IN_OPEN_WRITE_OFF''"
| "requestText AssetRequestNotHead' = ''ASSET_REQUEST_NOT_HEAD''"
| "requestText AssetRequestOwnerWithoutHead' = ''ASSET_REQUEST_OWNER_WITHOUT_HEAD''"
| "requestText AssetRequestSodViolation' = ''ASSET_REQUEST_SOD_VIOLATION''"
| "requestText AssetRequestInvalidStateTransition' = ''ASSET_REQUEST_INVALID_STATE_TRANSITION''"
| "requestText AssetRequestAssetUnavailable' = ''ASSET_REQUEST_ASSET_UNAVAILABLE''"
| "requestText LoanExtensionNotRequester' = ''LOAN_EXTENSION_NOT_REQUESTER''"
| "requestText LoanNoPendingExtension' = ''LOAN_NO_PENDING_EXTENSION''"
| "requestText LoanDeliveryActNotRejected' = ''LOAN_DELIVERY_ACT_NOT_REJECTED''"
| "requestText LoanNotStarted' = ''LOAN_NOT_STARTED''"
| "requestText LoanDeliveryActNotSigned' = ''LOAN_DELIVERY_ACT_NOT_SIGNED''"

primrec inventoryText :: "inventory_code \<Rightarrow> string" where
  "inventoryText InventoryScopeOverlap' = ''INVENTORY_SCOPE_OVERLAP''"
| "inventoryText InventoryUnverifiedExceedsThreshold' = ''INVENTORY_UNVERIFIED_EXCEEDS''"
| "inventoryText InventoryReconcileSod' = ''INVENTORY_RECONCILE_SOD''"
| "inventoryText InventoryActorNotAllowed' = ''INVENTORY_ACTOR_NOT_ALLOWED''"
| "inventoryText InventoryConflictOfInterest' = ''INVENTORY_CONFLICT_OF_INTEREST''"
| "inventoryText InventoryAssetWrittenOff' = ''INVENTORY_ASSET_WRITTEN_OFF''"
| "inventoryText InventoryMissingCauseRequired' = ''INVENTORY_MISSING_CAUSE_REQUIRED''"
| "inventoryText InventoryCatalogEntryUnavailable' = ''INVENTORY_CATALOG_ENTRY_UNAVAILABLE''"
| "inventoryText InventoryCatalogEntryInUse' = ''INVENTORY_CATALOG_ENTRY_IN_USE''"
| "inventoryText InventoryCatalogEntryExists' = ''INVENTORY_CATALOG_ENTRY_EXISTS''"
| "inventoryText InventorySurplusWasLost' = ''INVENTORY_SURPLUS_WAS_LOST''"
| "inventoryText InventorySurplusNotResolvable' = ''INVENTORY_SURPLUS_NOT_RESOLVABLE''"
| "inventoryText InventoryUnassignedSurplus' = ''INVENTORY_UNASSIGNED_SURPLUS''"
| "inventoryText AssetPriceZeroReasonUnavailable' = ''ASSET_PRICE_ZERO_REASON_UNAVAILABLE''"
| "inventoryText AssetPriceZeroReasonInUse' = ''ASSET_PRICE_ZERO_REASON_IN_USE''"
| "inventoryText AssetPriceZeroReasonExists' = ''ASSET_PRICE_ZERO_REASON_EXISTS''"
| "inventoryText AssetPriceNotZero' = ''ASSET_PRICE_NOT_ZERO''"
| "inventoryText DepreciationInvalidPeriod' = ''DEPRECIATION_INVALID_PERIOD''"
| "inventoryText ModuleUnavailable' = ''MODULE_UNAVAILABLE''"
| "inventoryText FeatureUnknown' = ''FEATURE_UNKNOWN''"
| "inventoryText FeatureNotToggleable' = ''FEATURE_NOT_TOGGLEABLE''"
| "inventoryText ScopeNoCostCenter' = ''SCOPE_NO_COST_CENTER''"
| "inventoryText ScopeOrgUnitUnresolved' = ''SCOPE_ORG_UNIT_UNRESOLVED''"

primrec orgText :: "org_code \<Rightarrow> string" where
  "orgText CostCenterHeadOverlap' = ''COST_CENTER_HEAD_OVERLAP''"
| "orgText CostCenterHeadEnded' = ''COST_CENTER_HEAD_ENDED''"
| "orgText CostCenterPlacementCycle' = ''COST_CENTER_PLACEMENT_CYCLE''"
| "orgText CostCenterPlacementUnchanged' = ''COST_CENTER_PLACEMENT_UNCHANGED''"
| "orgText CostCenterPlacementRequired' = ''COST_CENTER_PLACEMENT_REQUIRED''"
| "orgText CostCenterGroupingHasAssets' = ''COST_CENTER_GROUPING_HAS_ASSETS''"
| "orgText CostCenterCodeOutOfUnitRange' = ''COST_CENTER_CODE_OUT_OF_UNIT_RANGE''"
| "orgText CostCenterWithoutHead' = ''COST_CENTER_WITHOUT_HEAD''"
| "orgText CostCenterInactive' = ''COST_CENTER_INACTIVE''"
| "orgText CostCenterParentInactive' = ''COST_CENTER_PARENT_INACTIVE''"
| "orgText CostCenterOrgUnitInactive' = ''COST_CENTER_ORG_UNIT_INACTIVE''"
| "orgText OrgUnitCodePrefixExists' = ''ORG_UNIT_CODE_PREFIX_EXISTS''"
| "orgText OrgUnitPrefixOutOfParent' = ''ORG_UNIT_PREFIX_OUT_OF_PARENT''"
| "orgText OrgUnitParentArchived' = ''ORG_UNIT_PARENT_ARCHIVED''"
| "orgText OrgUnitNameDuplicate' = ''ORG_UNIT_NAME_DUPLICATE''"
| "orgText OrgChartImportHasErrors' = ''ORG_CHART_IMPORT_HAS_ERRORS''"
| "orgText OrgChartImportStale' = ''ORG_CHART_IMPORT_STALE''"
| "orgText OrgChartImportConflict' = ''ORG_CHART_IMPORT_CONFLICT''"
| "orgText OrgChartImportClosed' = ''ORG_CHART_IMPORT_CLOSED''"
| "orgText OrgChartInvalidFile' = ''ORG_CHART_INVALID_FILE''"
| "orgText StructureReconcileStale' = ''STRUCTURE_RECONCILE_STALE''"
| "orgText ImportJobNotRetryable' = ''IMPORT_JOB_NOT_RETRYABLE''"
| "orgText StorageKeyInvalid' = ''STORAGE_KEY_INVALID''"
| "orgText StorageProjectPathLocked' = ''STORAGE_PROJECT_PATH_LOCKED''"
| "orgText ArchiveTooLarge' = ''ARCHIVE_TOO_LARGE''"
| "orgText MailAddressInvalid' = ''MAIL_ADDRESS_INVALID''"
| "orgText OutboundDestinationForbidden' = ''OUTBOUND_DESTINATION_FORBIDDEN''"
| "orgText EventsTicketInvalid' = ''EVENTS_TICKET_INVALID''"
| "orgText EventsCapacityReached' = ''EVENTS_CAPACITY_REACHED''"

primrec errorCodeText :: "error_code \<Rightarrow> string" where
  "errorCodeText (GeneralCode c) = generalText c"
| "errorCodeText (AccountCode c) = accountText c"
| "errorCodeText (RoleCode c) = roleText c"
| "errorCodeText (PlaceCode c) = placeText c"
| "errorCodeText (AssetCode c) = assetText c"
| "errorCodeText (FileCode c) = fileText c"
| "errorCodeText (CustodyCode c) = custodyText c"
| "errorCodeText (ActCode c) = actText c"
| "errorCodeText (RequestCode c) = requestText c"
| "errorCodeText (InventoryCode c) = inventoryText c"
| "errorCodeText (OrgCode c) = orgText c"

end
