(* ===== verification/Wire.thy ===== *)
theory Wire
  imports ErrorCatalog Movements
begin

text \<open>
  What leaves the service as text: the answer of a request that throws
  (src/src/common/filters/global-exception.filter.ts with the exceptions of src/src/common/exceptions), the
  recognition of the errors of PostgreSQL (postgres-error.ts), and the comma-separated files
  (src/src/common/csv/csv-cell.ts, the export of movements and the report of the staging). The reader
  of comma-separated text is a reference: it says what a spreadsheet makes of the cells.
\<close>

section \<open>Exceptions\<close>

type_synonym errorDetail = "string \<times> string"

record apiException =
  xa_code :: error_code
  xa_message :: string
  xa_details :: "errorDetail list option"
  xa_retryAfterSeconds :: "int option"

definition newApiException :: "error_code \<Rightarrow> string option \<Rightarrow> errorDetail list option \<Rightarrow> apiException" where
  "newApiException code message details =
     \<lparr>xa_code = code, xa_message = or_keep message (ce_message (ERROR_CATALOG code)), xa_details = details,
      xa_retryAfterSeconds = None\<rparr>"

definition businessRuleException :: "string \<Rightarrow> error_code \<Rightarrow> apiException" where
  "businessRuleException message code = newApiException code (Some message) None"

definition externalServiceException :: "string \<Rightarrow> error_code \<Rightarrow> apiException" where
  "externalServiceException message code = newApiException code (Some message) None"











section \<open>Errors of PostgreSQL\<close>

text \<open>
  A value that was thrown: a failed query with the code and message of its driver, when it has them, another
  error with its message, or no error at all.
\<close>

datatype dbError = QueryFailed "(string option \<times> string option) option" string | OtherError string | NotAnError

fun driverErrorOf :: "dbError \<Rightarrow> (string option \<times> string option) option" where
  "driverErrorOf (QueryFailed driver _) = driver"
| "driverErrorOf (OtherError _) = None"
| "driverErrorOf NotAnError = None"

definition driverCode :: "dbError \<Rightarrow> string option" where
  "driverCode e = (case driverErrorOf e of None \<Rightarrow> None | Some d \<Rightarrow> fst d)"

definition isUniqueViolation :: "dbError \<Rightarrow> bool" where
  "isUniqueViolation e = (driverCode e = Some ''23505'')"

definition isCheckViolation :: "dbError \<Rightarrow> bool" where
  "isCheckViolation e = (driverCode e = Some ''23514'')"

definition postgresMessage :: "dbError \<Rightarrow> string" where
  "postgresMessage e =
     (case driverErrorOf e of
        Some (_, Some m) \<Rightarrow> if m \<noteq> [] then m else (case e of QueryFailed _ t \<Rightarrow> t | OtherError t \<Rightarrow> t | NotAnError \<Rightarrow> [])
      | _ \<Rightarrow> (case e of QueryFailed _ t \<Rightarrow> t | OtherError t \<Rightarrow> t | NotAnError \<Rightarrow> []))"

definition raisedWith :: "dbError \<Rightarrow> string list \<Rightarrow> bool" where
  "raisedWith e parts = (driverCode e = Some ''P0001'' \<and> list_all (includesText (postgresMessage e)) parts)"

definition isSodViolation :: "dbError \<Rightarrow> bool" where
  "isSodViolation e = raisedWith e [''Separaci'' @ [CHR 0xF3] @ ''n de Funciones'']"

definition isRoleHierarchyCycle :: "dbError \<Rightarrow> bool" where
  "isRoleHierarchyCycle e = raisedWith e [''Ciclo detectado en jerarqu'' @ [CHR 0xED] @ ''a de roles'']"

definition isCategoryCycle :: "dbError \<Rightarrow> bool" where
  "isCategoryCycle e = raisedWith e [''Ciclo detectado'', ''asset_category'']"

definition isOrgUnitCycle :: "dbError \<Rightarrow> bool" where
  "isOrgUnitCycle e = raisedWith e [''Ciclo detectado'', ''organizational_unit'']"

section \<open>Comma-separated files\<close>

definition FORMULA_TRIGGERS :: "char list" where
  "FORMULA_TRIGGERS = [CHR ''='', CHR ''+'', CHR ''-'', CHR ''@'', CHR 0x09, CHR 0x0D]"

definition neutralizeCsvFormula :: "string \<Rightarrow> string" where
  "neutralizeCsvFormula s =
     (case s of [] \<Rightarrow> s | c # _ \<Rightarrow> if c \<in> set FORMULA_TRIGGERS then CHR 0x27 # s else s)"

text \<open>A cell is nothing, a text or a number with the text of \<open>String\<close>.\<close>

datatype csvValue = CsvNone | CsvText string | CsvNumber int

definition csvText :: "csvValue \<Rightarrow> string" where
  "csvText v = (case v of CsvNone \<Rightarrow> [] | CsvText s \<Rightarrow> neutralizeCsvFormula s | CsvNumber n \<Rightarrow> showInt n)"

definition quoteText :: "string \<Rightarrow> string" where
  "quoteText text = CHR 0x22 # concat (map (\<lambda>c. if c = CHR 0x22 then [CHR 0x22, CHR 0x22] else [c]) text) @ [CHR 0x22]"

definition csvCell :: "csvValue \<Rightarrow> char \<Rightarrow> string" where
  "csvCell v sep =
     (if v = CsvNone \<or> v = CsvText [] then []
      else (let text = csvText v in
        if sep \<in> set text \<or> CHR 0x22 \<in> set text \<or> CHR 0x0A \<in> set text \<or> CHR 0x0D \<in> set text then quoteText text
        else text))"

definition csvOption :: "string option \<Rightarrow> csvValue" where
  "csvOption t = (case t of None \<Rightarrow> CsvNone | Some s \<Rightarrow> CsvText s)"

definition movementCells :: "movement \<Rightarrow> csvValue list" where
  "movementCells m =
     [CsvText (m_id m), CsvText (movementTypeText (m_movementType m)), CsvText (toISOString (m_executedAt m)),
      csvOption (m_reason m), csvOption (m_documentReference m),
      csvOption (map_option statusText (m_fromOperationalStatus m)),
      csvOption (map_option statusText (m_toOperationalStatus m))]"

definition exportHeader :: string where
  "exportHeader = ''id,type,executedAt,reason,documentReference,fromStatus,toStatus''"

text \<open>The rows come newest first; rows of the same instant come in any order, here as in the ledger.\<close>

definition exportCsv :: "movement list \<Rightarrow> string \<Rightarrow> string" where
  "exportCsv ms assetId =
     (let items = sort_key (\<lambda>m. - m_executedAt m) (filter (\<lambda>m. m_assetId m = assetId) ms) in
      joinWith [CHR 0x0A] (exportHeader #
        map (\<lambda>m. joinWith '','' (map (\<lambda>v. csvCell v CHR '','') (movementCells m))) items))"

section \<open>The reader of comma-separated text\<close>

text \<open>
  The reference reader: a cell that opens with a quote runs to its closing quote, a doubled quote stands for
  one; a separator ends a cell and a line break a row.
\<close>

datatype csvMode = Plain | Quoted | QuoteSeen

fun readFrom :: "char \<Rightarrow> csvMode \<Rightarrow> string \<Rightarrow> string list \<Rightarrow> string \<Rightarrow> string list list" where
  "readFrom sep mode cell row [] = [row @ [cell]]"
| "readFrom sep mode cell row (c # cs) =
     (case mode of
        Quoted \<Rightarrow> if c = CHR 0x22 then readFrom sep QuoteSeen cell row cs else readFrom sep Quoted (cell @ [c]) row cs
      | _ \<Rightarrow>
          if c = CHR 0x22 \<and> mode = QuoteSeen then readFrom sep Quoted (cell @ [c]) row cs
          else if c = CHR 0x22 \<and> cell = [] then readFrom sep Quoted [] row cs
          else if c = sep then readFrom sep Plain [] (row @ [cell]) cs
          else if c = CHR 0x0A then (row @ [cell]) # readFrom sep Plain [] [] cs
          else readFrom sep Plain (cell @ [c]) row cs)"

definition readCsv :: "char \<Rightarrow> string \<Rightarrow> string list list" where
  "readCsv sep text = readFrom sep Plain [] [] text"

definition plainText :: "char \<Rightarrow> string \<Rightarrow> bool" where
  "plainText sep text \<longleftrightarrow> sep \<notin> set text \<and> CHR 0x22 \<notin> set text \<and> CHR 0x0A \<notin> set text"

lemma read_plain:
  "plainText sep s \<Longrightarrow> readFrom sep Plain cell row (s @ rest) = readFrom sep Plain (cell @ s) row rest"
  by (induction s arbitrary: cell) (auto simp: plainText_def)

lemma read_escaped:
  "readFrom sep Quoted cell row (concat (map (\<lambda>c. if c = CHR 0x22 then [CHR 0x22, CHR 0x22] else [c]) s) @ rest) =
   readFrom sep Quoted (cell @ s) row rest"
  by (induction s arbitrary: cell) auto

lemma read_after_quote:
  assumes "sep \<noteq> CHR 0x22" "rest = [] \<or> hd rest = sep \<or> hd rest = CHR 0x0A"
  shows "readFrom sep QuoteSeen cell row rest = readFrom sep Plain cell row rest"
  using assms by (cases rest) auto

lemma read_cell:
  assumes "sep \<noteq> CHR 0x22" "rest = [] \<or> hd rest = sep \<or> hd rest = CHR 0x0A"
  shows "readFrom sep Plain [] row (csvCell v sep @ rest) = readFrom sep Plain (csvText v) row rest"
proof (cases "v = CsvNone \<or> v = CsvText []")
  case True
  then show ?thesis by (auto simp: csvCell_def csvText_def neutralizeCsvFormula_def)
next
  case False
  show ?thesis
  proof (cases "sep \<in> set (csvText v) \<or> CHR 0x22 \<in> set (csvText v) \<or> CHR 0x0A \<in> set (csvText v) \<or> CHR 0x0D \<in> set (csvText v)")
    case True
    then have "csvCell v sep = quoteText (csvText v)" using False by (auto simp: csvCell_def Let_def)
    then show ?thesis
      using read_after_quote [OF assms] by (simp add: quoteText_def read_escaped)
  next
    case plain: False
    then have "csvCell v sep = csvText v" using False by (auto simp: csvCell_def Let_def)
    moreover have "plainText sep (csvText v)" using plain by (simp add: plainText_def)
    ultimately show ?thesis by (simp add: read_plain)
  qed
qed

lemma read_row:
  assumes "sep \<noteq> CHR 0x22" "sep \<noteq> CHR 0x0A" "vs \<noteq> []" "rest = [] \<or> hd rest = CHR 0x0A"
  shows "readFrom sep Plain [] row (joinWith [sep] (map (\<lambda>v. csvCell v sep) vs) @ rest) =
    (case rest of [] \<Rightarrow> [row @ map csvText vs] | _ # cs \<Rightarrow> (row @ map csvText vs) # readFrom sep Plain [] [] cs)"
  using assms(3,4)
proof (induction vs arbitrary: row rule: induct_list012)
  case (2 v)
  have "readFrom sep Plain [] row (csvCell v sep @ rest) = readFrom sep Plain (csvText v) row rest"
    by (rule read_cell [OF assms(1)]) (use 2 in blast)
  then show ?case using 2 assms(1,2) by (cases rest) auto
next
  case (3 v w vs)
  have "readFrom sep Plain [] row (csvCell v sep @ sep # joinWith [sep] (map (\<lambda>v. csvCell v sep) (w # vs)) @ rest) =
      readFrom sep Plain (csvText v) row (sep # joinWith [sep] (map (\<lambda>v. csvCell v sep) (w # vs)) @ rest)"
    by (rule read_cell [OF assms(1)]) simp
  then show ?case using 3 assms(1) by (simp split: list.split)
qed simp

lemma read_rows:
  assumes "sep \<noteq> CHR 0x22" "sep \<noteq> CHR 0x0A" "rows \<noteq> []" "\<forall>r\<in>set rows. r \<noteq> []"
  shows "readCsv sep (joinWith [CHR 0x0A] (map (\<lambda>vs. joinWith [sep] (map (\<lambda>v. csvCell v sep) vs)) rows)) = map (map csvText) rows"
  unfolding readCsv_def using assms(3,4)
proof (induction rows rule: induct_list012)
  case (2 r)
  then show ?case using read_row [OF assms(1,2), of r "[]" "[]"] by simp
next
  case (3 r s rs)
  show ?case
    using 3 read_row [OF assms(1,2), of r "CHR 0x0A # joinWith [CHR 0x0A]
      (map (\<lambda>vs. joinWith [sep] (map (\<lambda>v. csvCell v sep) vs)) (s # rs))" "[]"] by simp
qed simp

section \<open>Properties\<close>

text \<open>
  What a reader must find, stated apart from the code that writes it: a text as it is, but after a single quote
  when its first character would make it a formula; and the seven columns of a movement.
\<close>

definition opensFormula :: "string \<Rightarrow> bool" where
  "opensFormula s \<longleftrightarrow> s \<noteq> [] \<and> hd s \<in> {CHR ''='', CHR ''+'', CHR ''-'', CHR ''@'', CHR 0x09, CHR 0x0D}"

definition shownText :: "string \<Rightarrow> string" where
  "shownText s = (if opensFormula s then CHR 0x27 # s else s)"

definition shownMovement :: "movement \<Rightarrow> string list" where
  "shownMovement m = map shownText
     [m_id m, movementTypeText (m_movementType m), toISOString (m_executedAt m),
      (case m_reason m of None \<Rightarrow> [] | Some reason \<Rightarrow> reason),
      (case m_documentReference m of None \<Rightarrow> [] | Some reference \<Rightarrow> reference),
      (case m_fromOperationalStatus m of None \<Rightarrow> [] | Some status \<Rightarrow> statusText status),
      (case m_toOperationalStatus m of None \<Rightarrow> [] | Some status \<Rightarrow> statusText status)]"

lemma csvText_shown: "csvText (CsvText s) = shownText s" "csvText (csvOption t) = shownText (case t of None \<Rightarrow> [] | Some s \<Rightarrow> s)"
proof -
  show given: "csvText (CsvText s) = shownText s" for s
    by (cases s) (simp_all add: csvText_def shownText_def opensFormula_def neutralizeCsvFormula_def FORMULA_TRIGGERS_def)
  show "csvText (csvOption t) = shownText (case t of None \<Rightarrow> [] | Some s \<Rightarrow> s)"
    by (cases t) (simp_all add: csvOption_def given, simp add: csvText_def shownText_def opensFormula_def)
qed

lemma movementCells_shown: "map csvText (movementCells m) = shownMovement m"
  unfolding movementCells_def shownMovement_def list.map csvText_shown
  by (cases "m_fromOperationalStatus m"; cases "m_toOperationalStatus m") simp_all

lemma shownMovement_safe: "list_all (\<lambda>cell. \<not> opensFormula cell) (shownMovement m)"
proof -
  have "\<not> opensFormula (shownText s)" for s by (simp add: opensFormula_def shownText_def)
  then show ?thesis unfolding shownMovement_def by simp
qed

text \<open>
  C17. What a spreadsheet reads from the export of the movements of an asset is what the ledger says: a header
  of seven names and one row per movement of that asset, newest first, with its identifier, type, instant,
  reason, reference and statuses before and after, whatever separators, quotes or line breaks the texts hold. A
  text that begins like a formula is read after a single quote, so that no cell is a formula; every other text
  is read as it is and an absent one as nothing.
\<close>

theorem export_reads_back:
  "\<exists>items. mset items = filter_mset (\<lambda>m. m_assetId m = assetId) (mset ms) \<and>
     sorted_wrt (\<lambda>m m'. m_executedAt m' \<le> m_executedAt m) items \<and>
     readCsv CHR '','' (exportCsv ms assetId) =
       [''id'', ''type'', ''executedAt'', ''reason'', ''documentReference'', ''fromStatus'', ''toStatus''] # map shownMovement items \<and>
     list_all (list_all (\<lambda>cell. \<not> opensFormula cell)) (readCsv CHR '','' (exportCsv ms assetId))"
proof (intro exI conjI)
  let ?items = "sort_key (\<lambda>m. - m_executedAt m) (filter (\<lambda>m. m_assetId m = assetId) ms)"
  let ?header = "map CsvText (splitOn CHR '','' exportHeader)"
  show "mset ?items = filter_mset (\<lambda>m. m_assetId m = assetId) (mset ms)" by simp
  have "sorted (map (\<lambda>m. - m_executedAt m) ?items)" by simp
  then show "sorted_wrt (\<lambda>m m'. m_executedAt m' \<le> m_executedAt m) ?items" by (simp add: sorted_map)
  have header: "joinWith '','' (map (\<lambda>v. csvCell v CHR '','') ?header) = exportHeader"
    "map csvText ?header = [''id'', ''type'', ''executedAt'', ''reason'', ''documentReference'', ''fromStatus'', ''toStatus'']"
    by code_simp+
  have "exportCsv ms assetId = joinWith [CHR 0x0A]
      (map (\<lambda>vs. joinWith '','' (map (\<lambda>v. csvCell v CHR '','') vs)) (?header # map movementCells ?items))"
    unfolding exportCsv_def Let_def list.map header(1) by (simp only: map_map comp_def)
  then have "readCsv CHR '','' (exportCsv ms assetId) = map (map csvText) (?header # map movementCells ?items)"
    by (simp only:) (rule read_rows; auto simp: movementCells_def)
  then show read: "readCsv CHR '','' (exportCsv ms assetId) =
      [''id'', ''type'', ''executedAt'', ''reason'', ''documentReference'', ''fromStatus'', ''toStatus''] # map shownMovement ?items"
    unfolding list.map header(2) by (simp add: movementCells_shown comp_def)
  show "list_all (list_all (\<lambda>cell. \<not> opensFormula cell)) (readCsv CHR '','' (exportCsv ms assetId))"
    unfolding read using shownMovement_safe by (simp add: opensFormula_def list.pred_map comp_def list.pred_True)
qed



end
