(* ===== verification/Spec2Isabelle.thy ===== *)
theory Spec2Isabelle
  imports Depreciation FeatureFlags Transfers WriteOffs Handovers RequestOutcomes Lockout Wire
begin

text \<open>
  Verification of the internal control backend: the service that keeps the register of assets of an
  institution, lends, moves, hands over and retires them, and issues the signed act of every one of
  those processes. Paths below are under src/src of the repository.

  \<^bold>\<open>How the program is built.\<close> A request passes the guards (\<open>common/guards\<close>: the switch of its module,
  the session, the permission and its scope), reaches a service, and the service runs a transaction of
  PostgreSQL. The custody services (transfers, write-offs, handovers, loans, requests of assets) hold
  assets by rows that stay open until the process ends, ask the engine of acts
  (\<open>modules/documents\<close>) for a document, and change the assets when the engine tells them, through the
  registry of lifecycles, that the document was issued, signed or rejected. Every change of an asset goes
  through one method (\<open>AssetStateService.apply\<close>), which locks the asset, writes it and appends a
  movement to a ledger whose rows are chained and keyed per asset. An exception becomes an answer in one
  filter.

  \<^bold>\<open>How it is modelled.\<close> Rows are records with the columns of the entity, enumerations are datatypes, and
  the database is a record of tables (Store). A transaction is a function from a database to a result:
  \<open>Inl\<close> is the exception that rolls it back. Where effects outlive the exception (the file
  storage, the count of wrong answers behind a link, the lockout of logins, the circuit breaker) the
  function returns the result and the state it left. A loop over rows that may throw is \<open>foldM\<close>.
  The clock and the next identifier are fields of the environment (\<open>env\<close>); dates are ISO text as in
  the code, instants are milliseconds, money is whole cents. Code outside src/ is an argument: hashes
  and HMAC, pdf-lib, the mail transport, JSON Web Tokens, and the listeners one module registers in
  another.

  \<^bold>\<open>The theories and the code they model.\<close>
  \<^item> Prelude: \<open>common/constants/error-code.enum.ts\<close>, the result type, rows, loops, text.
  \<^item> CalendarDates: \<open>modules/loans/domain/loan-dates.ts\<close>. Json: canonical text of
    \<open>jsonb\<close> values. AssetModel: the asset and its movement as rows, patches, manual transitions.
  \<^item> Depreciation: \<open>modules/depreciation\<close>, the calculation and the run of a period.
  \<^item> Access: \<open>common/authorization\<close>, \<open>common/guards\<close> and the scopes and the cache of
    \<open>modules/roles/services\<close>.
  \<^item> FeatureFlags: \<open>modules/features\<close>, the flags and the circuit breaker of each module.
  \<^item> Lockout: \<open>modules/auth/services/auth-lockout.policy.ts\<close> and \<open>auth-lockout.service.ts\<close>.
  \<^item> Movements: \<open>modules/movements\<close>, the chained ledger. AssetState:
    \<open>modules/assets/services/asset-state.service.ts\<close> and the manual operations of \<open>assets.service.ts\<close>.
  \<^item> Store: the tables the custody processes share and the reasons that hold an asset.
  \<^item> DocSigners, StorageKeys, Envelope, SigningLinks, DocActs: \<open>modules/documents\<close>: who signs, the
    names of the files, the envelope with its turns and its chain of hashes, the links sent to people
    without an account, and the engine with the registry of lifecycles.
  \<^item> OpenItems, AssetMoves, CustodyProcess: what the custody processes have in common (no code of their
    own). Transfers, WriteOffs, Handovers: \<open>modules/transfers\<close>, \<open>modules/write-offs\<close>, \<open>modules/handovers\<close>.
  \<^item> Reconciliation: what the approval of an inventory writes on the assets it counted
    (\<open>modules/inventories/services/inventories.service.ts\<close>), and what that leaves of an asset on loan.
  \<^item> Loans, LoanCustody, LoanSteps: \<open>modules/loans\<close>: the operations, what they keep, and the properties, with
    the operations of the other modules that change assets as steps beside those of loans.
  \<^item> AssetRequests, RequestSteps, RequestOutcomes: \<open>modules/asset-requests\<close>, in the same order, with the
    CHECK constraints of its migrations.
  \<^item> ErrorCatalog, Wire: \<open>common/constants/error-catalog.ts\<close>, \<open>common/filters\<close>,
    \<open>common/exceptions\<close>, and the comma-separated files.

  \<^bold>\<open>Interfaces.\<close> \<open>openItems\<close> (OpenItems) is a table of items with the partial unique index "one
  open item per asset"; transfers, write-offs, handovers and requests interpret it. \<open>itemMoves\<close>, with
  \<open>assetMoves\<close> and \<open>recordedMoves\<close> (AssetMoves), is a loop that changes one asset per item and
  records its movement; transfers, the delivery, annulment and reception of loans and the approval of an
  inventory interpret it.
  \<open>custodyProcess\<close> and \<open>movingProcess\<close> (CustodyProcess) are the simulation of an abstract
  process that opens with its assets and ends with no effect, or with a movement for each of them;
  transfers, write-offs and handovers interpret both.

  \<^bold>\<open>What the lemmas show.\<close>
  \<^item> Invariants of every reachable state: an asset is held by one process of a kind at most, what a loan has
    out is on loan unless an inventory reported it missing, statuses move
    along the tables of transitions, the ledger stays chained, envelopes and files agree, requests
    satisfy the constraints of their tables.
  \<^item> Results on every branch: what a signed act does to each asset, what a delivery and a reception do,
    what the end of a loan does to the request it came from, which failure each guard gives.
  \<^item> Refinement: the transfers implement the abstract custody process; canonical text determines the value;
    the verification of a chain is equivalent to its specification.
  \<^item> Security: separation of duties, one use per link, tampering is detected, permissions and scopes are
    exactly those granted, guesses are limited in every window, and failures reveal no internal text.

  \<^bold>\<open>Bounds.\<close> Recursion is structural or has a measure; no function of the model runs on fuel that the code
  does not have. The jobs of the requests stop at the limit their caller gives, as in the code; a run with
  limit \<open>n\<close> is shown to expire the \<open>n\<close> requests that fell due first and to leave due only the others.
  Integers of the code are JavaScript numbers far from \<open>2^53\<close> and are kept as \<open>int\<close> or
  \<open>nat\<close>.

  \<^bold>\<open>Not modelled.\<close>
  \<^item> Concurrency inside a transaction: the rows a service locks (\<open>FOR UPDATE\<close>, advisory locks) are the
    reason a transaction is one step here; SKIP LOCKED, by which two workers share a queue, is not modelled.
    Work outside a transaction is split into steps where the two halves are known to race: the reload of the
    flags, the trip of the circuit breaker, and the mail of a link between its claim and its result. The
    checks that a service makes before its transaction are in the same step as the transaction (the manual
    operations of assets, among others), and so are the other awaits of the flags.
  \<^item> The rest of \<open>modules/auth\<close> (sessions, tokens, second factor, recovery), \<open>users\<close>,
    the administration of roles, the planning, counting and closing of \<open>inventories\<close>, \<open>staging\<close> and the imports, the chart of
    \<open>organizational-units\<close> and the catalogs (campus, buildings, locations, categories, cost centers,
    persons, dynamic fields): own logic that this development does not reach yet. The custody theories read
    their rows.
  \<^item> \<open>notifications\<close>, \<open>events\<close>, \<open>navigation\<close>, \<open>qr-tokens\<close>, the templates of documents and of
    mail, \<open>shared/mail\<close>, \<open>shared/storage\<close> and \<open>shared/images\<close>: mostly input and output and
    drawing of text, images and PDF.
  \<^item> Controllers, DTO validation, modules, OpenAPI, migrations other than the constraints named above, the
    configuration, and the reads (lists, details, searches), which change no state.
\<close>

end
